(* ===== verification/Prelude.thy ===== *)
theory Prelude
  imports Main "HOL-Library.Word"
begin

text \<open>
  Shared vocabulary of the development: names for the C integer types of the firmware,
  the collections of simplification rules the component theories fill and use, and the
  generic facts on words and lists that more than one component needs.
\<close>

unbundle bit_operations_syntax

subsection \<open>C integer types\<close>

type_synonym u8 = "8 word"
type_synonym u16 = "16 word"
type_synonym u32 = "32 word"
type_synonym u64 = "64 word"

subsection \<open>Rule collections\<close>

named_theorems c_int \<open>conversions between C integer types and the mathematical integers\<close>

subsection \<open>Words\<close>

lemma unat_u32_to_u64 [c_int]: "unat (ucast (x :: u32) :: u64) = unat x"
proof -
  have "unat x < 2 ^ 64" using unsigned_less [of x, where ?'a = nat] by simp
  then show ?thesis by (simp add: unsigned_ucast_eq take_bit_nat_eq_self)
qed

lemma unat_u64_to_u32 [c_int]: "unat (x :: u64) < 2 ^ 32 \<Longrightarrow> unat (ucast x :: u32) = unat x"
  by (simp add: unsigned_ucast_eq take_bit_nat_eq_self)

lemma unat_u32_of_nat [c_int]: "unat (of_nat n :: u32) = n mod 2 ^ 32"
  by (simp add: unat_of_nat)

lemma unat_u32_less [c_int]: "unat (x :: u32) < 4294967296"
  using unsigned_less [of x, where ?'a = nat] by simp

subsection \<open>Quotient and remainder\<close>

lemma div_step:
  fixes t t' d :: nat
  assumes "t \<le> t'" "t' < t + d"
  shows "t' div d = t div d + (if t' mod d < t mod d then 1 else 0)"
proof -
  have d: "0 < d" using assms by simp
  have lo: "t div d \<le> t' div d" using assms(1) by (rule div_le_mono)
  have "t' div d \<le> (t + d) div d" using assms(2) by (intro div_le_mono) simp
  with d have hi: "t' div d \<le> t div d + 1" by (simp add: div_add_self2)
  have t: "t = (t div d) * d + t mod d" and t': "t' = (t' div d) * d + t' mod d" by simp_all
  show ?thesis
  proof (cases "t' div d = t div d")
    case True
    then have "t mod d \<le> t' mod d" using assms(1) t t' by (metis nat_add_left_cancel_le)
    with True show ?thesis by simp
  next
    case False
    with lo hi have q: "t' div d = t div d + 1" by simp
    with t t' assms(2) have "(t div d) * d + d + t' mod d < (t div d) * d + t mod d + d"
      by (metis add_mult_distrib mult_1)
    then have "t' mod d < t mod d" by linarith
    with q show ?thesis by simp
  qed
qed

lemma minus_div_eq: "t - t div d = t mod d + (t div d) * (d - 1)" for t d :: nat
proof (cases "d = 0")
  case False
  have "t = (t div d) * d + t mod d" by simp
  moreover have "(t div d) * d = (t div d) * (d - 1) + t div d"
    using False by (cases d) auto
  ultimately show ?thesis by linarith
qed simp

lemma minus_div_mono:
  fixes t t' d :: nat
  assumes "t \<le> t'"
  shows "t - t div d \<le> t' - t' div d"
proof (cases "t div d = t' div d")
  case False
  show ?thesis
  proof (cases "d = 0")
    case d: False
    have "t mod d + (t div d) * (d - 1) \<le> (d - 1) + (t div d) * (d - 1)"
      using d by (simp add: less_Suc_eq_le [symmetric])
    also have "\<dots> = (t div d + 1) * (d - 1)" by simp
    also have "\<dots> \<le> (t' div d) * (d - 1)"
      using False assms by (intro mult_le_mono1) (simp add: le_neq_implies_less div_le_mono Suc_leI)
    also have "\<dots> \<le> t' mod d + (t' div d) * (d - 1)" by simp
    finally show ?thesis by (simp only: minus_div_eq)
  qed (use assms in simp)
qed (use assms in simp)

lemma mod_zero_twice:
  fixes u k :: int
  assumes "0 \<le> u" "u < 2 * k"
  shows "u mod k = 0 \<longleftrightarrow> u = 0 \<or> u = k"
proof (cases "u < k")
  case True
  then show ?thesis using assms by (simp add: mod_pos_pos_trivial)
next
  case False
  then have "u mod k = (u - k) mod k" using assms by (intro mod_pos_geq) simp_all
  also have "\<dots> = u - k" using False assms by (intro mod_pos_pos_trivial) simp_all
  finally show ?thesis using False assms by simp
qed

lemma two_bytes: "(m div 256 mod 256) * 256 + m mod 256 = (m mod 65536 :: int)"
  using zmod_zmult2_eq [of 256 m 256] by simp

lemma horner_bytes:
  "m = 256 * a + r0 \<Longrightarrow> a = 256 * b + r1 \<Longrightarrow> b = 256 * c + r2 \<Longrightarrow> ((c * 256 + r2) * 256 + r1) * 256 + r0 = m" for m :: int
  by simp

lemma four_bytes:
  fixes m :: int
  assumes "0 \<le> m" "m < 4294967296"
  shows "((m div 16777216 mod 256 * 256 + m div 65536 mod 256) * 256 + m div 256 mod 256) * 256 + m mod 256 = m"
proof -
  have "m div 256 div 256 = m div 65536" "m div 65536 div 256 = m div 16777216"
    by (simp_all add: zdiv_zmult2_eq [symmetric])
  moreover have "k = 256 * (k div 256) + k mod 256" for k :: int by simp
  moreover have "m div 16777216 mod 256 = m div 16777216"
    using assms by (intro mod_pos_pos_trivial) simp_all
  ultimately show ?thesis
    using horner_bytes [of m "m div 256" "m mod 256" "m div 65536" "m div 256 mod 256" "m div 16777216"
        "m div 65536 mod 256"] by metis
qed
subsection \<open>Bytes of a word\<close>

lemma byte_of_u32: "uint (ucast (drop_bit k x AND 0xFF) :: u8) = (uint x div 2 ^ k) mod 256" for x :: u32
proof -
  have "drop_bit k x AND 0xFF = take_bit 8 (drop_bit k x)"
    by (simp add: take_bit_eq_mask mask_eq_decr_exp)
  moreover have "ucast (take_bit 8 y) = (ucast y :: u8)" for y :: u32
    by (rule bit_word_eqI) (simp add: bit_simps)
  moreover have "uint (ucast (drop_bit k x) :: u8) = take_bit 8 (drop_bit k (uint x))"
    by (rule bit_eqI) (simp add: bit_simps)
  ultimately show ?thesis by (simp only: take_bit_eq_mod drop_bit_eq_div) simp
qed

subsection \<open>Decimal digits\<close>

text \<open>The text of a number, as \<open>sprintf\<close> and \<open>std::to_string\<close> print it.\<close>

fun decimal :: "nat \<Rightarrow> string" where
  "decimal n = (if n < 10 then [char_of (48 + n)] else decimal (n div 10) @ [char_of (48 + n mod 10)])"

declare decimal.simps [simp del]

lemma length_decimal: "0 < k \<Longrightarrow> n < 10 ^ k \<Longrightarrow> length (decimal n) \<le> k"
proof (induction n arbitrary: k rule: decimal.induct)
  case (1 n)
  show ?case
  proof (cases "n < 10")
    case True
    then show ?thesis using 1(2) by (simp add: decimal.simps [of n])
  next
    case False
    then obtain j where k: "k = Suc j" "0 < j" using 1(2,3) by (cases k; cases "k - 1") auto
    then have "n div 10 < 10 ^ j" using 1(3) by (simp add: less_mult_imp_div_less mult.commute)
    from 1(1) [OF False k(2) this] k False show ?thesis by (simp add: decimal.simps [of n])
  qed
qed

subsection \<open>Lists\<close>

lemma successively_sorted:
  "successively (\<le>) xs \<longleftrightarrow> sorted (xs :: 'a :: linorder list)"
  by (simp add: successively_conv_sorted_wrt)

end
