(* ===== verification/Rcl_Basics.thy ===== *)
theory Rcl_Basics
  imports Prelude "HOL-Library.Signed_Division"
begin

text \<open>
  What every program of the package uses of the client library's headers: the codes of success
  (\<^verbatim>\<open>rmw/ret_types.h\<close>, \<^verbatim>\<open>rcl/types.h\<close>) and the conversions between units of time of
  \<^verbatim>\<open>rcutils/time.h\<close>, which \<^verbatim>\<open>rcl/time.h\<close> renames. Times are signed 64-bit integers.
\<close>

subsection \<open>Return codes\<close>

definition RMW_RET_OK :: int where
  "RMW_RET_OK = 0"

definition RCL_RET_OK :: int where
  "RCL_RET_OK = RMW_RET_OK"

lemmas ret_codes = RMW_RET_OK_def RCL_RET_OK_def

subsection \<open>Time conversions\<close>

definition RCUTILS_S_TO_NS :: "u64 \<Rightarrow> u64" where
  "RCUTILS_S_TO_NS seconds = seconds * (1000 * 1000 * 1000)"

definition RCUTILS_MS_TO_NS :: "u64 \<Rightarrow> u64" where
  "RCUTILS_MS_TO_NS milliseconds = milliseconds * (1000 * 1000)"

definition RCUTILS_US_TO_NS :: "u64 \<Rightarrow> u64" where
  "RCUTILS_US_TO_NS microseconds = microseconds * 1000"

text \<open>The division of C drops the fraction: it rounds towards 0.\<close>

definition RCUTILS_NS_TO_S :: "u64 \<Rightarrow> u64" where
  "RCUTILS_NS_TO_S nanoseconds = word_of_int (sint nanoseconds sdiv (1000 * 1000 * 1000))"

definition RCUTILS_NS_TO_MS :: "u64 \<Rightarrow> u64" where
  "RCUTILS_NS_TO_MS nanoseconds = word_of_int (sint nanoseconds sdiv (1000 * 1000))"

definition RCUTILS_NS_TO_US :: "u64 \<Rightarrow> u64" where
  "RCUTILS_NS_TO_US nanoseconds = word_of_int (sint nanoseconds sdiv 1000)"

definition RCL_MS_TO_NS :: "u64 \<Rightarrow> u64" where
  "RCL_MS_TO_NS = RCUTILS_MS_TO_NS"

subsection \<open>A unit of time\<close>

lemma sint_u64_of_int [c_int]: "- (2 ^ 63) \<le> k \<Longrightarrow> k < 2 ^ 63 \<Longrightarrow> sint (word_of_int k :: u64) = k"
  by (simp only: sint_sbintrunc') (rule signed_take_bit_int_eq_self, simp_all)

lemma sint_u64_bounds: "- (2 ^ 63) \<le> sint (x :: u64)" "sint (x :: u64) < 2 ^ 63"
  using sint_ge [of x] sint_lt [of x] by simp_all

text \<open>Signed division by a positive constant.\<close>

lemma sdiv_nonneg: "0 < k \<Longrightarrow> 0 \<le> a \<Longrightarrow> a sdiv k = a div k" for a k :: int
  by (auto simp: signed_divide_int_def sgn_if)

lemma sdiv_neg: "0 < k \<Longrightarrow> a < 0 \<Longrightarrow> a sdiv k = - (- a div k)" for a k :: int
  by (auto simp: signed_divide_int_def sgn_if)

lemma div_bounds:
  fixes a k :: int
  assumes "0 < k" "0 \<le> a"
  shows "0 \<le> a div k" "a div k \<le> a" "0 \<le> a div k * k" "a div k * k \<le> a" "a < a div k * k + k"
proof -
  show q: "0 \<le> a div k" using assms by (simp add: pos_imp_zdiv_nonneg_iff)
  then show "0 \<le> a div k * k" using assms by simp
  have "a div k * k + a mod k = a" by simp
  moreover have "0 \<le> a mod k" "a mod k < k" using assms by simp_all
  ultimately show "a div k * k \<le> a" "a < a div k * k + k" by linarith+
  show "a div k \<le> a" using zdiv_mono2 [of a 1 k] assms by simp
qed

lemma sdiv_bounds:
  fixes a k :: int
  assumes "0 < k"
  shows "\<bar>a - a sdiv k * k\<bar> < k" "\<bar>a sdiv k\<bar> \<le> \<bar>a\<bar>" "\<bar>a sdiv k * k\<bar> \<le> \<bar>a\<bar>" "a < 0 \<Longrightarrow> a sdiv k \<le> 0"
    "a < 0 \<Longrightarrow> a sdiv k * k \<le> 0"
  using sdiv_nonneg [OF assms, of a] sdiv_neg [OF assms, of a] div_bounds [OF assms, of a]
    div_bounds [OF assms, of "- a"]
  by (cases "a < 0"; simp; linarith)+

text \<open>A unit of \<open>k\<close> nanoseconds, converted in both directions at 64 bits.\<close>

locale time_unit =
  fixes to_ns from_ns :: "u64 \<Rightarrow> u64" and k :: int
  assumes to_ns: "to_ns x = x * word_of_int k"
    and from_ns: "from_ns x = word_of_int (sint x sdiv k)"
    and unit: "0 < k"
begin

lemma sint_from_ns: "sint (from_ns x) = sint x sdiv k"
proof -
  have "\<bar>sint x sdiv k\<bar> \<le> \<bar>sint x\<bar>" by (rule sdiv_bounds(2) [OF unit])
  moreover have "sint x sdiv k \<le> 0" if "sint x < 0" using that by (rule sdiv_bounds(4) [OF unit])
  ultimately have "- (2 ^ 63) \<le> sint x sdiv k" "sint x sdiv k < 2 ^ 63"
    using sint_u64_bounds [of x] by linarith+
  then show ?thesis by (simp only: from_ns sint_u64_of_int)
qed

lemma sint_to_ns:
  assumes "- (2 ^ 63) \<le> sint x * k" "sint x * k < 2 ^ 63"
  shows "sint (to_ns x) = sint x * k"
proof -
  have "to_ns x = word_of_int (sint x * k)" by (simp add: to_ns)
  then show ?thesis using assms by (simp only: sint_u64_of_int)
qed

lemma there_and_back:
  assumes "- (2 ^ 63) \<le> sint x * k" "sint x * k < 2 ^ 63"
  shows "from_ns (to_ns x) = x"
proof -
  have "(sint x * k) sdiv k = sint x" using unit
    by (simp add: signed_divide_int_def sgn_mult abs_mult sgn_mult_abs)
  then show ?thesis by (simp add: from_ns sint_to_ns [OF assms])
qed

lemma back_and_there: "\<bar>sint x - sint (to_ns (from_ns x))\<bar> < k \<and> \<bar>sint (to_ns (from_ns x))\<bar> \<le> \<bar>sint x\<bar>"
proof -
  let ?q = "sint x sdiv k"
  have "\<bar>?q * k\<bar> \<le> \<bar>sint x\<bar>" by (rule sdiv_bounds(3) [OF unit])
  moreover have "?q * k \<le> 0" if "sint x < 0"
    using that by (rule sdiv_bounds(5) [OF unit])
  ultimately have "- (2 ^ 63) \<le> ?q * k" "?q * k < 2 ^ 63"
    using sint_u64_bounds [of x] by linarith+
  then have "sint (to_ns (from_ns x)) = ?q * k"
    by (simp add: sint_to_ns sint_from_ns)
  with sdiv_bounds(1,3) [OF unit, of "sint x"] show ?thesis by simp
qed

end

interpretation seconds: time_unit RCUTILS_S_TO_NS RCUTILS_NS_TO_S 1000000000
  by unfold_locales (simp_all add: RCUTILS_S_TO_NS_def RCUTILS_NS_TO_S_def)

interpretation millis: time_unit RCUTILS_MS_TO_NS RCUTILS_NS_TO_MS 1000000
  by unfold_locales (simp_all add: RCUTILS_MS_TO_NS_def RCUTILS_NS_TO_MS_def)

interpretation micros: time_unit RCUTILS_US_TO_NS RCUTILS_NS_TO_US 1000
  by unfold_locales (simp_all add: RCUTILS_US_TO_NS_def RCUTILS_NS_TO_US_def)

subsection \<open>Properties\<close>

text \<open>Converting to nanoseconds and back gives the time again when the nanoseconds fit in 64 bits,
  which for seconds is up to 292 years either way.\<close>

theorem time_conversion_round_trip:
  assumes "\<bar>sint t\<bar> \<le> 9223372036"
  shows "RCUTILS_NS_TO_S (RCUTILS_S_TO_NS t) = t \<and> RCUTILS_NS_TO_MS (RCUTILS_MS_TO_NS t) = t \<and>
    RCUTILS_NS_TO_US (RCUTILS_US_TO_NS t) = t \<and> RCL_MS_TO_NS t = RCUTILS_US_TO_NS (t * 1000)"
proof (intro conjI)
  show "RCUTILS_NS_TO_S (RCUTILS_S_TO_NS t) = t"
    using assms by (intro seconds.there_and_back) simp_all
  show "RCUTILS_NS_TO_MS (RCUTILS_MS_TO_NS t) = t"
    using assms by (intro millis.there_and_back) simp_all
  show "RCUTILS_NS_TO_US (RCUTILS_US_TO_NS t) = t"
    using assms by (intro micros.there_and_back) simp_all
qed (simp add: RCL_MS_TO_NS_def RCUTILS_MS_TO_NS_def RCUTILS_US_TO_NS_def)

theorem time_conversion_round_trip_witness:
  "RCUTILS_NS_TO_S (RCUTILS_S_TO_NS 31) = 31 \<and> RCUTILS_NS_TO_MS (RCUTILS_MS_TO_NS 31) = 31"
  using time_conversion_round_trip [of 31] by simp

text \<open>Converting nanoseconds to a coarser unit and back never overflows, loses less than one unit
  and never moves away from 0: the fraction is dropped on both sides of it.\<close>

theorem time_conversion_truncates:
  "\<bar>sint t - sint (RCUTILS_S_TO_NS (RCUTILS_NS_TO_S t))\<bar> < 1000000000 \<and>
   \<bar>sint t - sint (RCUTILS_MS_TO_NS (RCUTILS_NS_TO_MS t))\<bar> < 1000000 \<and>
   \<bar>sint t - sint (RCUTILS_US_TO_NS (RCUTILS_NS_TO_US t))\<bar> < 1000 \<and>
   \<bar>sint (RCUTILS_S_TO_NS (RCUTILS_NS_TO_S t))\<bar> \<le> \<bar>sint t\<bar> \<and>
   \<bar>sint (RCUTILS_MS_TO_NS (RCUTILS_NS_TO_MS t))\<bar> \<le> \<bar>sint t\<bar> \<and>
   \<bar>sint (RCUTILS_US_TO_NS (RCUTILS_NS_TO_US t))\<bar> \<le> \<bar>sint t\<bar>"
  using seconds.back_and_there [of t] millis.back_and_there [of t] micros.back_and_there [of t] by simp

end
