(* ===== verification/Arduino_Clock.thy ===== *)
theory Arduino_Clock
  imports Prelude
begin

text \<open>
  The monotonic clock of \<^verbatim>\<open>src/default_transport.cpp\<close>: \<open>clock_gettime\<close> turns the
  32-bit microsecond counter of the board into a \<open>timespec\<close>, counting the wraps it sees
  in two static variables. The counter itself (\<open>micros ()\<close>, the Arduino core) is the
  argument \<open>m\<close>.
\<close>

subsection \<open>State and operation\<close>

text \<open>The function-local statics \<open>rollover\<close> and \<open>last_measure\<close>, both zero at boot.\<close>

record clock_static =
  rollover :: u32
  last_measure :: u32

record timespec =
  tv_sec :: u64
  tv_nsec :: u32

definition clock_boot :: clock_static where
  "clock_boot = \<lparr>rollover = 0, last_measure = 0\<rparr>"

definition micro_rollover_useconds :: u64 where
  "micro_rollover_useconds = 4294967295"

text \<open>
  The literal \<open>4294967295\<close> does not fit a 32-bit \<open>int\<close> or \<open>long\<close>, so the product and the
  sum are computed in 64 bits before the cast to \<open>uint64_t\<close>.
\<close>

definition real_us :: "u32 \<Rightarrow> u32 \<Rightarrow> u64" where
  "real_us m r = ucast m + ucast r * micro_rollover_useconds"

definition clock_gettime :: "u32 \<Rightarrow> clock_static \<Rightarrow> (int \<times> timespec) \<times> clock_static" where
  "clock_gettime m c =
     (let r = rollover c + (if m < last_measure c then 1 else 0);
          us = real_us m r
      in ((0, \<lparr>tv_sec = us div 1000000, tv_nsec = ucast ((us mod 1000000) * 1000)\<rparr>),
          \<lparr>rollover = r, last_measure = m\<rparr>))"

text \<open>A run: one call per value of the counter, the readings in order.\<close>

fun clock_run :: "u32 list \<Rightarrow> clock_static \<Rightarrow> timespec list \<times> clock_static" where
  "clock_run [] c = ([], c)"
| "clock_run (m # ms) c =
     (let ((_, ts), c') = clock_gettime m c; (tss, c'') = clock_run ms c'
      in (ts # tss, c''))"

text \<open>The microseconds a \<open>timespec\<close> stands for.\<close>

definition timespec_us :: "timespec \<Rightarrow> nat" where
  "timespec_us ts = unat (tv_sec ts) * 1000000 + unat (tv_nsec ts) div 1000"

subsection \<open>One call\<close>

lemma unat_real_us:
  assumes "unat r < 2 ^ 31"
  shows "unat (real_us m r) = unat m + unat r * 4294967295"
proof -
  have m: "unat m < 2 ^ 32" using unsigned_less [of m, where ?'a = nat] by simp
  have bound: "unat m + unat r * 4294967295 < 2 ^ 64"
  proof -
    have "unat r * 4294967295 \<le> 2 ^ 31 * 4294967295" using assms by simp
    with m have "unat m + unat r * 4294967295 < 2 ^ 32 + 2 ^ 31 * 4294967295" by linarith
    also have "\<dots> < (2 :: nat) ^ 64" by simp
    finally show ?thesis .
  qed
  then have prod: "unat r * 4294967295 < 2 ^ 64" by linarith
  have "unat (ucast r * micro_rollover_useconds :: u64) = unat r * 4294967295"
    using prod by (simp add: micro_rollover_useconds_def unat_word_ariths c_int)
  with bound show ?thesis
    by (simp add: real_us_def unat_word_ariths c_int)
qed

lemma us_split:
  fixes us :: u64
  shows "unat (us div 1000000) = unat us div 1000000"
    and "unat ((us mod 1000000) * 1000) = (unat us mod 1000000) * 1000"
proof -
  show "unat (us div 1000000) = unat us div 1000000" by (simp add: unat_div)
  have m: "unat (us mod 1000000) = unat us mod 1000000" by (simp add: unat_mod)
  have "(unat us mod 1000000) * 1000 < 2 ^ 64" by (simp add: less_le_trans [of _ "1000000 * 1000"])
  then show "unat ((us mod 1000000) * 1000) = (unat us mod 1000000) * 1000"
    by (simp add: unat_word_ariths m)
qed

lemma timespec_of_us:
  fixes us :: u64
  defines "ts \<equiv> \<lparr>tv_sec = us div 1000000, tv_nsec = ucast ((us mod 1000000) * 1000)\<rparr>"
  shows "unat (ucast ((us mod 1000000) * 1000) :: u32) = (unat us mod 1000000) * 1000"
    and "timespec_us ts = unat us"
proof -
  have "(unat us mod 1000000) * 1000 < 2 ^ 32" by (simp add: less_le_trans [of _ "1000000 * 1000"])
  then show nsec: "unat (ucast ((us mod 1000000) * 1000) :: u32) = (unat us mod 1000000) * 1000"
    by (simp add: c_int us_split)
  show "timespec_us ts = unat us"
    by (simp add: timespec_us_def ts_def nsec us_split)
qed

subsection \<open>A clock source\<close>

text \<open>
  The contract between a component that reports time and its readers: while the true time
  moves in admissible steps, each reading is a fixed monotone view of the true time.
\<close>

locale clock_source =
  fixes read :: "'m \<Rightarrow> 's \<Rightarrow> 'r \<times> 's"
    and counter :: "nat \<Rightarrow> 'm"
    and reported :: "'r \<Rightarrow> nat"
    and tracks :: "nat \<Rightarrow> 's \<Rightarrow> bool"
    and admissible :: "nat \<Rightarrow> nat \<Rightarrow> bool"
    and view :: "nat \<Rightarrow> nat"
  assumes read_view: "tracks t s \<Longrightarrow> admissible t t' \<Longrightarrow> reported (fst (read (counter t') s)) = view t'"
    and read_tracks: "tracks t s \<Longrightarrow> admissible t t' \<Longrightarrow> tracks t' (snd (read (counter t') s))"
    and admissible_mono: "admissible t t' \<Longrightarrow> t \<le> t'"
    and view_mono: "t \<le> t' \<Longrightarrow> view t \<le> view t'"
begin

fun readings :: "nat list \<Rightarrow> 's \<Rightarrow> nat list" where
  "readings [] s = []"
| "readings (t # ts) s = (let (r, s') = read (counter t) s in reported r # readings ts s')"

lemma readings_view:
  "tracks t s \<Longrightarrow> successively admissible (t # ts) \<Longrightarrow> readings ts s = map view ts"
proof (induction ts arbitrary: t s)
  case (Cons a ts)
  then have a: "admissible t a" and rest: "successively admissible (a # ts)" by simp_all
  from Cons.prems(1) a have "tracks a (snd (read (counter a) s))" by (rule read_tracks)
  from Cons.IH [OF this rest] Cons.prems(1) a show ?case
    by (simp add: split_def read_view)
qed simp

lemma readings_sorted:
  assumes "tracks t s" and "successively admissible (t # ts)"
  shows "sorted (readings ts s)"
proof -
  have "successively (\<lambda>a b. view a \<le> view b) (t # ts)"
    using assms(2) by (rule successively_mono) (auto intro: view_mono admissible_mono)
  then have "sorted (map view (t # ts))"
    by (simp add: successively_sorted [symmetric] successively_map del: successively.simps list.map)
  then have "sorted (map view ts)" by simp
  with readings_view [OF assms] show ?thesis by simp
qed

end

subsection \<open>\<open>clock_gettime\<close> is a clock source\<close>

text \<open>
  The true time is the number of microseconds since boot, of which the board's counter
  shows the low 32 bits. The statics track it when \<open>rollover\<close> is its high part. A step is
  admissible when the next call comes before the counter wraps past the last measure, and
  when the wraps fit the signed 64-bit product.
\<close>

definition clock_tracks :: "nat \<Rightarrow> clock_static \<Rightarrow> bool" where
  "clock_tracks t c \<longleftrightarrow>
     unat (rollover c) = t div 2 ^ 32 \<and> unat (last_measure c) = t mod 2 ^ 32"

definition clock_step_ok :: "nat \<Rightarrow> nat \<Rightarrow> bool" where
  "clock_step_ok t t' \<longleftrightarrow> t \<le> t' \<and> t' < t + 2 ^ 32 \<and> t' < 2 ^ 63"

definition drifted :: "nat \<Rightarrow> nat" where
  "drifted t = t - t div 2 ^ 32"

lemma clock_boot_tracks: "clock_tracks 0 clock_boot"
  by (simp add: clock_tracks_def clock_boot_def)

lemma drifted_decomp: "drifted t = t mod 2 ^ 32 + (t div 2 ^ 32) * 4294967295"
  unfolding drifted_def by (simp only: minus_div_eq) simp

lemma drifted_mono: "t \<le> t' \<Longrightarrow> drifted t \<le> drifted t'"
  unfolding drifted_def by (rule minus_div_mono)

lemma clock_high_part_small:
  assumes "clock_step_ok t t'"
  shows "t' div 2 ^ 32 < 2 ^ 31"
  using assms unfolding clock_step_ok_def by (intro less_mult_imp_div_less) simp

lemma clock_gettime_rollover:
  assumes "clock_tracks t c" "clock_step_ok t t'"
  shows "unat (rollover c + (if (of_nat t' :: u32) < last_measure c then 1 else 0)) = t' div 2 ^ 32"
proof -
  have small: "t' div 2 ^ 32 < 2 ^ 31" using assms(2) by (rule clock_high_part_small)
  have wrap: "t' div 2 ^ 32 = t div 2 ^ 32 + (if t' mod 2 ^ 32 < t mod 2 ^ 32 then 1 else 0)"
    using assms(2) unfolding clock_step_ok_def by (blast intro: div_step)
  have "(of_nat t' :: u32) < last_measure c \<longleftrightarrow> t' mod 2 ^ 32 < t mod 2 ^ 32"
    using assms(1) by (simp add: word_less_nat_alt clock_tracks_def c_int)
  with assms(1) small wrap show ?thesis
    by (auto simp: clock_tracks_def unat_word_ariths)
qed

lemma clock_gettime_sound:
  assumes "clock_tracks t c" "clock_step_ok t t'"
  shows "timespec_us (snd (fst (clock_gettime (of_nat t') c))) = drifted t'"
    and "clock_tracks t' (snd (clock_gettime (of_nat t') c))"
proof -
  let ?r = "rollover c + (if (of_nat t' :: u32) < last_measure c then 1 else 0)"
  have r: "unat ?r = t' div 2 ^ 32" using assms by (rule clock_gettime_rollover)
  have "t' div 2 ^ 32 < 2 ^ 31" using assms(2) by (rule clock_high_part_small)
  then have "unat (real_us (of_nat t') ?r) = drifted t'"
    by (simp only: unat_real_us r c_int drifted_decomp)
  then show "timespec_us (snd (fst (clock_gettime (of_nat t') c))) = drifted t'"
    by (simp add: clock_gettime_def Let_def timespec_of_us(2))
  show "clock_tracks t' (snd (clock_gettime (of_nat t') c))"
    using r by (simp add: clock_gettime_def Let_def clock_tracks_def c_int)
qed

interpretation board_clock: clock_source clock_gettime of_nat "\<lambda>r. timespec_us (snd r)"
  clock_tracks clock_step_ok drifted
  by unfold_locales
    (auto intro: clock_gettime_sound drifted_mono simp: clock_step_ok_def)

lemma readings_clock_run:
  "board_clock.readings ts c = map timespec_us (fst (clock_run (map of_nat ts) c))"
  by (induction ts arbitrary: c) (auto simp: Let_def split_def)

lemma clock_gettime_same_counter:
  assumes "clock_tracks t c" "t < 2 ^ 63"
  shows "timespec_us (snd (fst (clock_gettime (of_nat t) c))) = drifted t"
  using clock_gettime_sound(1) [OF assms(1), of t] assms(2) by (simp add: clock_step_ok_def)

subsection \<open>Properties\<close>

text \<open>C2. From boot, and as long as \<open>clock_gettime\<close> is called at least once in every
  \<open>2 ^ 32\<close> microseconds, the readings are the true times less one microsecond for each wrap
  of the counter: the code multiplies the wraps by \<open>2 ^ 32 - 1\<close>.\<close>
theorem clock_reads_drifted_time:
  assumes "successively clock_step_ok (0 # ts)"
  shows "map timespec_us (fst (clock_run (map of_nat ts) clock_boot)) = map drifted ts"
  using board_clock.readings_view [OF clock_boot_tracks assms] by (simp only: readings_clock_run)

theorem clock_reads_drifted_time_witness:
  "map timespec_us (fst (clock_run (map of_nat [5, 4294967299]) clock_boot)) = [5, 4294967298]"
  by (subst clock_reads_drifted_time) (simp_all add: clock_step_ok_def drifted_def)

text \<open>Under the same calling discipline the reported time never goes back.\<close>
theorem clock_never_goes_back:
  assumes "successively clock_step_ok (0 # ts)"
  shows "sorted (map timespec_us (fst (clock_run (map of_nat ts) clock_boot)))"
  using board_clock.readings_sorted [OF clock_boot_tracks assms] by (simp only: readings_clock_run)

theorem clock_never_goes_back_witness:
  "sorted (map timespec_us (fst (clock_run (map of_nat [4294967295, 4294967296]) clock_boot)))"
  by (rule clock_never_goes_back) (simp add: clock_step_ok_def)

text \<open>Whatever the counter and the statics hold, the nanosecond field is a multiple of
  1000 below one second, the two fields together are the computed microseconds, and the call
  reports success.\<close>
theorem clock_timespec_normalised:
  "let ((ret, ts), c') = clock_gettime m c in
     ret = 0 \<and> unat (tv_nsec ts) < 1000000000 \<and> 1000 dvd unat (tv_nsec ts) \<and>
     timespec_us ts = unat (real_us m (rollover c')) \<and> last_measure c' = m"
proof -
  have "x * 1000 < 1000000000" if "x < 1000000" for x :: nat using that by simp
  then show ?thesis by (simp add: clock_gettime_def Let_def timespec_of_us)
qed

text \<open>A gap of whole wraps between two calls is invisible: the second call reports the
  time of the first, and the statics do not change, however many wraps passed.\<close>
theorem clock_missed_wrap:
  assumes "clock_tracks t c" "t < 2 ^ 63"
  shows "timespec_us (snd (fst (clock_gettime (of_nat (t + k * 2 ^ 32)) c))) = drifted t \<and>
    snd (clock_gettime (of_nat (t + k * 2 ^ 32)) c) = c"
proof -
  have same: "(of_nat (t + k * 2 ^ 32) :: u32) = of_nat t"
    by (simp only: word_of_nat_eq_iff take_bit_eq_mod) simp
  have "(of_nat t :: u32) = last_measure c"
    using assms(1) by (simp add: word_unat_eq_iff clock_tracks_def c_int)
  then have "snd (clock_gettime (of_nat t) c) = c"
    by (simp add: clock_gettime_def Let_def)
  with clock_gettime_same_counter [OF assms] show ?thesis by (simp only: same)
qed

theorem clock_missed_wrap_witness:
  "timespec_us (snd (fst (clock_gettime (of_nat (0 + 7 * 2 ^ 32)) clock_boot))) = 0"
  using clock_missed_wrap [OF clock_boot_tracks, of 7] by (simp add: drifted_def)

end
