(* ===== verification/Arduino_Transport.thy ===== *)
theory Arduino_Transport
  imports Prelude
begin

text \<open>
  The three transports of the library: the serial one of \<^verbatim>\<open>default_transport.cpp\<close>, the UDP ones of
  \<^verbatim>\<open>wifi_transport.cpp\<close> and \<^verbatim>\<open>native_ethernet_transport.cpp\<close>, and the functions of
  \<^verbatim>\<open>micro_ros_arduino.h\<close> that install them. The Arduino core and the network libraries are not
  part of the repository: a device is a record of their operations on the world \<open>'w\<close>, the
  state of everything outside. \<open>int\<close> and \<open>size_t\<close> have 32 bits on these boards.
\<close>

subsection \<open>Devices\<close>

type_synonym size_t = u32

text \<open>A read writes a prefix of the buffer and returns a count.\<close>

definition stored_into :: "u8 list \<Rightarrow> u8 list \<Rightarrow> u8 list" where
  "stored_into bytes buf = bytes @ drop (length bytes) buf"

record 'w serial_device =
  serial_begin :: "u32 \<Rightarrow> 'w \<Rightarrow> 'w"
  serial_end :: "'w \<Rightarrow> 'w"
  serial_write :: "u8 list \<Rightarrow> size_t \<Rightarrow> 'w \<Rightarrow> size_t \<times> 'w"
  serial_setTimeout :: "u32 \<Rightarrow> 'w \<Rightarrow> 'w"
  serial_readBytes :: "size_t \<Rightarrow> 'w \<Rightarrow> (size_t \<times> u8 list) \<times> 'w"

record 'w udp_device =
  millis :: "'w \<Rightarrow> u32 \<times> 'w"
  uxr_millis :: "'w \<Rightarrow> u64 \<times> 'w"
  delay :: "u32 \<Rightarrow> 'w \<Rightarrow> 'w"
  udp_begin :: "u16 \<Rightarrow> 'w \<Rightarrow> u8 \<times> 'w"
  udp_stop :: "'w \<Rightarrow> 'w"
  udp_beginPacket :: "u32 \<Rightarrow> u16 \<Rightarrow> 'w \<Rightarrow> u32 \<times> 'w"
  udp_write :: "u8 list \<Rightarrow> size_t \<Rightarrow> 'w \<Rightarrow> size_t \<times> 'w"
  udp_endPacket :: "'w \<Rightarrow> u32 \<times> 'w"
  udp_flush :: "'w \<Rightarrow> 'w"
  udp_parsePacket :: "'w \<Rightarrow> u32 \<times> 'w"
  udp_available :: "'w \<Rightarrow> u32 \<times> 'w"
  udp_read :: "size_t \<Rightarrow> 'w \<Rightarrow> (u32 \<times> u8 list) \<times> 'w"

text \<open>The struct \<open>transport->args\<close> points to.\<close>

record micro_ros_agent_locator =
  address :: u32
  port :: u32

subsection \<open>Serial transport\<close>

definition arduino_transport_open :: "'w serial_device \<Rightarrow> 'w \<Rightarrow> bool \<times> 'w" where
  "arduino_transport_open dev w = (True, serial_begin dev 115200 w)"

definition arduino_transport_close :: "'w serial_device \<Rightarrow> 'w \<Rightarrow> bool \<times> 'w" where
  "arduino_transport_close dev w = (True, serial_end dev w)"

definition arduino_transport_write :: "'w serial_device \<Rightarrow> u8 list \<Rightarrow> size_t \<Rightarrow> 'w \<Rightarrow> size_t \<times> 'w" where
  "arduino_transport_write dev buf len w = serial_write dev buf len w"

definition arduino_transport_read ::
  "'w serial_device \<Rightarrow> u8 list \<Rightarrow> size_t \<Rightarrow> u32 \<Rightarrow> 'w \<Rightarrow> (size_t \<times> u8 list) \<times> 'w" where
  "arduino_transport_read dev buf len timeout w =
     (let w1 = serial_setTimeout dev timeout w;
          ((n, bytes), w2) = serial_readBytes dev len w1
      in ((n, stored_into bytes buf), w2))"

subsection \<open>WiFi transport\<close>

definition arduino_wifi_transport_open ::
  "'w udp_device \<Rightarrow> micro_ros_agent_locator \<Rightarrow> 'w \<Rightarrow> bool \<times> 'w" where
  "arduino_wifi_transport_open dev locator w =
     (True, snd (udp_begin dev (ucast (port locator)) w))"

definition arduino_wifi_transport_close :: "'w udp_device \<Rightarrow> 'w \<Rightarrow> bool \<times> 'w" where
  "arduino_wifi_transport_close dev w = (True, udp_stop dev w)"

definition arduino_wifi_transport_write ::
  "'w udp_device \<Rightarrow> micro_ros_agent_locator \<Rightarrow> u8 list \<Rightarrow> size_t \<Rightarrow> 'w \<Rightarrow> size_t \<times> 'w" where
  "arduino_wifi_transport_write dev locator buf len w =
     (let (_, w1) = udp_beginPacket dev (address locator) (ucast (port locator)) w;
          (sent, w2) = udp_write dev buf len w1;
          (_, w3) = udp_endPacket dev w2
      in (sent, udp_flush dev w3))"

text \<open>The loop of the read: \<open>timeout\<close> is converted to unsigned, the subtraction wraps. \<open>None\<close> is a
  loop that never ends.\<close>

partial_function (option) wifi_wait :: "'w udp_device \<Rightarrow> u32 \<Rightarrow> u32 \<Rightarrow> 'w \<Rightarrow> 'w option" where
  "wifi_wait dev timeout start_time w =
     (let (m, w1) = millis dev w
      in if m - start_time < timeout
         then (let (size, w2) = udp_parsePacket dev w1
               in if size = 0 then wifi_wait dev timeout start_time (delay dev 1 w2) else Some w2)
         else Some w1)"

definition arduino_wifi_transport_read ::
  "'w udp_device \<Rightarrow> u8 list \<Rightarrow> size_t \<Rightarrow> u32 \<Rightarrow> 'w \<Rightarrow> ((size_t \<times> u8 list) \<times> 'w) option" where
  "arduino_wifi_transport_read dev buf len timeout w =
     (let (start_time, w1) = millis dev w
      in case wifi_wait dev timeout start_time w1 of
           None \<Rightarrow> None
         | Some w2 \<Rightarrow>
             (let ((readed, bytes), w3) = udp_read dev len w2
              in Some ((if sint readed < 0 then 0 else readed, stored_into bytes buf), w3)))"

subsection \<open>Native Ethernet transport\<close>

definition arduino_native_ethernet_udp_transport_open ::
  "'w udp_device \<Rightarrow> micro_ros_agent_locator \<Rightarrow> 'w \<Rightarrow> bool \<times> 'w" where
  "arduino_native_ethernet_udp_transport_open dev locator w =
     (let (r, w1) = udp_begin dev (ucast (port locator)) w in (1 = r, w1))"

definition arduino_native_ethernet_udp_transport_close :: "'w udp_device \<Rightarrow> 'w \<Rightarrow> bool \<times> 'w" where
  "arduino_native_ethernet_udp_transport_close dev w = (True, udp_stop dev w)"

definition arduino_native_ethernet_udp_transport_write ::
  "'w udp_device \<Rightarrow> micro_ros_agent_locator \<Rightarrow> u8 list \<Rightarrow> size_t \<Rightarrow> 'w \<Rightarrow> size_t \<times> 'w" where
  "arduino_native_ethernet_udp_transport_write dev locator buf len w =
     (let (r, w1) = udp_beginPacket dev (address locator) (ucast (port locator)) w;
          (sent, w2) = (if 1 = r
                        then (let (sent, w') = udp_write dev buf len w1;
                                  (_, w'') = udp_endPacket dev w'
                              in (sent, w''))
                        else (0, w1))
      in (sent, udp_flush dev w2))"

text \<open>Here the comparison is on signed 64-bit values.\<close>

partial_function (option) ethernet_wait :: "'w udp_device \<Rightarrow> u32 \<Rightarrow> u64 \<Rightarrow> 'w \<Rightarrow> 'w option" where
  "ethernet_wait dev timeout start_time w =
     (let (m, w1) = uxr_millis dev w
      in if sint (m - start_time) < sint timeout
         then (let (size, w2) = udp_parsePacket dev w1
               in if size = 0 then ethernet_wait dev timeout start_time (delay dev 1 w2) else Some w2)
         else Some w1)"

text \<open>\<open>available\<close> is a \<open>size_t\<close>: the result of the read is converted to it and the final test
  \<open>available < 0\<close> compares unsigned values.\<close>

definition arduino_native_ethernet_udp_transport_read ::
  "'w udp_device \<Rightarrow> u8 list \<Rightarrow> size_t \<Rightarrow> u32 \<Rightarrow> 'w \<Rightarrow> ((size_t \<times> u8 list) \<times> 'w) option" where
  "arduino_native_ethernet_udp_transport_read dev buf len timeout w =
     (let (start_time, w1) = uxr_millis dev w
      in case ethernet_wait dev timeout start_time w1 of
           None \<Rightarrow> None
         | Some w2 \<Rightarrow>
             (let (a, w3) = udp_available dev w2;
                  ((available, buf'), w4) =
                    (if a \<noteq> 0
                     then (let ((n, bytes), w') = udp_read dev len w3 in ((n, stored_into bytes buf), w'))
                     else ((0, buf), w3))
              in Some ((if available < 0 then 0 else available, buf'), w4)))"

lemmas transport_defs =
  arduino_transport_open_def arduino_transport_close_def arduino_transport_write_def
  arduino_transport_read_def arduino_wifi_transport_open_def arduino_wifi_transport_close_def
  arduino_wifi_transport_write_def arduino_wifi_transport_read_def
  arduino_native_ethernet_udp_transport_open_def arduino_native_ethernet_udp_transport_close_def
  arduino_native_ethernet_udp_transport_write_def arduino_native_ethernet_udp_transport_read_def

subsection \<open>Installation\<close>

text \<open>The callbacks and arguments handed to \<open>rmw_uros_set_custom_transport\<close>.\<close>

datatype transport_kind = Serial | Wifi | Native_Ethernet

record custom_transport =
  framing :: bool
  args :: "micro_ros_agent_locator option"
  open_cb :: transport_kind
  close_cb :: transport_kind
  write_cb :: transport_kind
  read_cb :: transport_kind

record 'w network =
  net_begin :: "'w \<Rightarrow> 'w"
  net_up :: "'w \<Rightarrow> bool \<times> 'w"
  net_delay :: "u32 \<Rightarrow> 'w \<Rightarrow> 'w"
  fromString :: "string \<Rightarrow> u32 \<Rightarrow> u32"
  rmw_uros_set_custom_transport :: "custom_transport \<Rightarrow> 'w \<Rightarrow> 'w"

definition set_microros_transports :: "'w network \<Rightarrow> 'w \<Rightarrow> 'w" where
  "set_microros_transports net w = rmw_uros_set_custom_transport net
     \<lparr>framing = True, args = None, open_cb = Serial, close_cb = Serial, write_cb = Serial, read_cb = Serial\<rparr> w"

partial_function (option) wait_for_link :: "'w network \<Rightarrow> u32 \<Rightarrow> 'w \<Rightarrow> 'w option" where
  "wait_for_link net pause w =
     (let (up, w1) = net_up net w
      in if \<not> up then wait_for_link net pause (net_delay net pause w1) else Some w1)"

text \<open>\<open>net_begin\<close> stands for \<open>Ethernet.begin(mac, client_ip)\<close> and \<open>WiFi.begin(ssid, pass)\<close>. The
  static locator starts as zeros.\<close>

definition set_microros_native_ethernet_udp_transports ::
  "'w network \<Rightarrow> u32 \<Rightarrow> u16 \<Rightarrow> 'w \<Rightarrow> 'w option" where
  "set_microros_native_ethernet_udp_transports net agent_ip agent_port w =
     (case wait_for_link net 100 (net_begin net w) of
        None \<Rightarrow> None
      | Some w1 \<Rightarrow> Some (rmw_uros_set_custom_transport net
          \<lparr>framing = False, args = Some \<lparr>address = agent_ip, port = ucast agent_port\<rparr>,
           open_cb = Native_Ethernet, close_cb = Native_Ethernet, write_cb = Native_Ethernet,
           read_cb = Native_Ethernet\<rparr> w1))"

definition set_microros_wifi_transports ::
  "'w network \<Rightarrow> micro_ros_agent_locator \<Rightarrow> string \<Rightarrow> u32 \<Rightarrow> 'w \<Rightarrow> (micro_ros_agent_locator \<times> 'w) option" where
  "set_microros_wifi_transports net locator agent_ip agent_port w =
     (case wait_for_link net 500 (net_begin net w) of
        None \<Rightarrow> None
      | Some w1 \<Rightarrow>
          (let locator' = \<lparr>address = fromString net agent_ip (address locator), port = agent_port\<rparr>
           in Some (locator', rmw_uros_set_custom_transport net
                \<lparr>framing = False, args = Some locator', open_cb = Wifi, close_cb = Wifi,
                 write_cb = Wifi, read_cb = Wifi\<rparr> w1)))"

subsection \<open>Time\<close>

text \<open>
  What the boards guarantee: \<open>clk\<close> is the true time in milliseconds, the two clocks read it at
  their width, a look for a packet takes at most \<open>d\<close> milliseconds and \<open>delay(1)\<close> one to \<open>d + 1\<close>.
\<close>

definition board :: "'w udp_device \<Rightarrow> ('w \<Rightarrow> nat) \<Rightarrow> nat \<Rightarrow> bool" where
  "board dev clk d \<longleftrightarrow>
     (\<forall>w. millis dev w = (of_nat (clk w), w) \<and> uxr_millis dev w = (of_nat (clk w), w) \<and>
          clk w \<le> clk (snd (udp_parsePacket dev w)) \<and> clk (snd (udp_parsePacket dev w)) \<le> clk w + d \<and>
          clk w < clk (delay dev 1 w) \<and> clk (delay dev 1 w) \<le> clk w + 1 + d)"

lemma boardD:
  assumes "board dev clk d"
  shows "millis dev w = (of_nat (clk w), w)" "uxr_millis dev w = (of_nat (clk w), w)"
    "clk w \<le> clk (snd (udp_parsePacket dev w))" "clk (snd (udp_parsePacket dev w)) \<le> clk w + d"
    "clk w < clk (delay dev 1 w)" "clk (delay dev 1 w) \<le> clk w + 1 + d"
  using assms by (simp_all add: board_def)

text \<open>A timeout the loops measure exactly: not negative, and no wrap before it is noticed.\<close>

definition measurable :: "u32 \<Rightarrow> nat \<Rightarrow> bool" where
  "measurable timeout d \<longleftrightarrow> 0 \<le> sint timeout \<and> unat timeout + 2 * d + 1 < 2 ^ 32"

lemma sint_eq_unat_u32: "0 \<le> sint (x :: u32) \<Longrightarrow> sint x = int (unat x)"
proof -
  assume pos: "0 \<le> sint x"
  have "sint x < 2 ^ 32" using sint_lt [of x] by (simp add: word_size)
  with pos have "uint x = sint x" by (simp add: uint_sint take_bit_int_eq_self)
  then show ?thesis by (simp flip: uint_nat)
qed

text \<open>
  The interface the two waiting loops share: as long as less than a wrap has gone by since the
  stamp \<open>stamp t0\<close> was taken, one iteration ends the loop when the timeout has passed, ends it
  when a packet is there, and otherwise pauses.
\<close>

locale deadline_loop =
  fixes wait :: "'w udp_device \<Rightarrow> u32 \<Rightarrow> 's \<Rightarrow> 'w \<Rightarrow> 'w option"
    and stamp :: "nat \<Rightarrow> 's"
  assumes iterate: "board dev clk d \<Longrightarrow> 0 \<le> sint timeout \<Longrightarrow> t0 \<le> clk w \<Longrightarrow> clk w - t0 < 2 ^ 32 \<Longrightarrow>
    wait dev timeout (stamp t0) w =
      (if clk w - t0 < unat timeout
       then (let (size, w2) = udp_parsePacket dev w
             in if size = 0 then wait dev timeout (stamp t0) (delay dev 1 w2) else Some w2)
       else Some w)"
begin

lemma returns_aux:
  assumes "board dev clk d" "measurable timeout d"
  shows "t0 \<le> clk w \<Longrightarrow> clk w - t0 \<le> unat timeout + 2 * d + 1 \<Longrightarrow> n = unat timeout - (clk w - t0) \<Longrightarrow>
    \<exists>w'. wait dev timeout (stamp t0) w = Some w' \<and> clk w \<le> clk w' \<and>
         clk w' - t0 \<le> unat timeout + 2 * d + 1 \<and>
         (unat timeout \<le> clk w' - t0 \<or>
          (\<exists>v. fst (udp_parsePacket dev v) \<noteq> 0 \<and> snd (udp_parsePacket dev v) = w'))"
proof (induction n arbitrary: w rule: less_induct)
  case (less n)
  let ?w2 = "snd (udp_parsePacket dev w)"
  let ?w3 = "delay dev 1 ?w2"
  note b = boardD [OF assms(1)]
  have it: "wait dev timeout (stamp t0) w =
      (if clk w - t0 < unat timeout
       then if fst (udp_parsePacket dev w) = 0 then wait dev timeout (stamp t0) ?w3 else Some ?w2
       else Some w)"
    using iterate [OF assms(1) _ less.prems(1)] assms(2) less.prems(2)
    by (simp add: measurable_def split_def Let_def)
  show ?case
  proof (cases "clk w - t0 < unat timeout")
    case False
    with less.prems it show ?thesis by auto
  next
    case early: True
    show ?thesis
    proof (cases "fst (udp_parsePacket dev w) = 0")
      case False
      then have "wait dev timeout (stamp t0) w = Some ?w2" using early it by simp
      moreover have "clk w \<le> clk ?w2" "clk ?w2 - t0 \<le> unat timeout + 2 * d + 1"
        using b(3,4) [of w] early by linarith+
      ultimately show ?thesis using False by blast
    next
      case True
      have "clk w < clk ?w3" "clk ?w3 - t0 \<le> unat timeout + 2 * d + 1" "t0 \<le> clk ?w3"
        using b(3,4) [of w] b(5,6) [of ?w2] early less.prems(1) by linarith+
      with less.IH [of "unat timeout - (clk ?w3 - t0)" ?w3] early less.prems(1,3)
      obtain w' where "wait dev timeout (stamp t0) ?w3 = Some w'" "clk ?w3 \<le> clk w'"
        "clk w' - t0 \<le> unat timeout + 2 * d + 1"
        "unat timeout \<le> clk w' - t0 \<or>
          (\<exists>v. fst (udp_parsePacket dev v) \<noteq> 0 \<and> snd (udp_parsePacket dev v) = w')"
        by (auto simp: diff_less_mono2)
      with True early it \<open>clk w < clk ?w3\<close> show ?thesis by auto
    qed
  qed
qed

lemma returns:
  assumes "board dev clk d" "measurable timeout d"
  shows "\<exists>w'. wait dev timeout (stamp (clk w)) w = Some w' \<and> clk w \<le> clk w' \<and>
    clk w' - clk w \<le> unat timeout + 2 * d + 1 \<and>
    (unat timeout \<le> clk w' - clk w \<or>
     (\<exists>v. fst (udp_parsePacket dev v) \<noteq> 0 \<and> snd (udp_parsePacket dev v) = w'))"
  using returns_aux [OF assms, of "clk w" w] by simp

end

lemma diff_of_nat: "t0 \<le> t \<Longrightarrow> (of_nat t - of_nat t0 :: 'a :: len word) = of_nat (t - t0)"
  by (simp add: of_nat_diff)

interpretation wifi: deadline_loop wifi_wait "\<lambda>t. of_nat t"
proof
  fix dev :: "'w udp_device" and clk :: "'w \<Rightarrow> nat" and d t0 w and timeout :: u32
  assume b: "board dev clk d" and t: "t0 \<le> clk w" "clk w - t0 < 2 ^ 32"
  have "(of_nat (clk w) - of_nat t0 < timeout) = (clk w - t0 < unat timeout)"
    using t(2) by (simp only: diff_of_nat [OF t(1)] word_less_nat_alt unat_u32_of_nat mod_less)
  then show "wifi_wait dev timeout (of_nat t0) w =
      (if clk w - t0 < unat timeout
       then (let (size, w2) = udp_parsePacket dev w
             in if size = 0 then wifi_wait dev timeout (of_nat t0) (delay dev 1 w2) else Some w2)
       else Some w)"
    by (simp only: wifi_wait.simps [of dev timeout "of_nat t0" w] boardD(1) [OF b] prod.case Let_def)
qed

interpretation ethernet: deadline_loop ethernet_wait "\<lambda>t. of_nat t"
proof
  fix dev :: "'w udp_device" and clk :: "'w \<Rightarrow> nat" and d t0 w and timeout :: u32
  assume b: "board dev clk d" and p: "0 \<le> sint timeout" and t: "t0 \<le> clk w" "clk w - t0 < 2 ^ 32"
  have "sint (of_nat (clk w - t0) :: u64) = int (clk w - t0)"
    using t(2) by (simp add: signed_of_nat signed_take_bit_int_eq_self)
  then have "(sint (of_nat (clk w) - of_nat t0 :: u64) < sint timeout) = (clk w - t0 < unat timeout)"
    by (simp only: diff_of_nat [OF t(1)] sint_eq_unat_u32 [OF p] of_nat_less_iff)
  then show "ethernet_wait dev timeout (of_nat t0) w =
      (if clk w - t0 < unat timeout
       then (let (size, w2) = udp_parsePacket dev w
             in if size = 0 then ethernet_wait dev timeout (of_nat t0) (delay dev 1 w2) else Some w2)
       else Some w)"
    by (simp only: ethernet_wait.simps [of dev timeout "of_nat t0" w] boardD(2) [OF b] prod.case Let_def)
qed

text \<open>The world after the waiting of a read: in time, and either too late or just after the call
  that found a packet.\<close>

definition waited :: "'w udp_device \<Rightarrow> ('w \<Rightarrow> nat) \<Rightarrow> nat \<Rightarrow> u32 \<Rightarrow> 'w \<Rightarrow> 'w \<Rightarrow> bool" where
  "waited dev clk d timeout w w2 \<longleftrightarrow> clk w \<le> clk w2 \<and> clk w2 - clk w \<le> unat timeout + 2 * d + 1 \<and>
     (unat timeout \<le> clk w2 - clk w \<or>
      (\<exists>v. fst (udp_parsePacket dev v) \<noteq> 0 \<and> snd (udp_parsePacket dev v) = w2))"

lemma wifi_read_after_wait:
  assumes "board dev clk d" "measurable timeout d"
  shows "\<exists>w2. waited dev clk d timeout w w2 \<and> arduino_wifi_transport_read dev buf len timeout w =
    Some ((if sint (fst (fst (udp_read dev len w2))) < 0 then 0 else fst (fst (udp_read dev len w2)),
           stored_into (snd (fst (udp_read dev len w2))) buf), snd (udp_read dev len w2))"
proof -
  obtain w2 where "wifi_wait dev timeout (of_nat (clk w)) w = Some w2" "waited dev clk d timeout w w2"
    using wifi.returns [OF assms, of w] unfolding waited_def by blast
  then show ?thesis
    by (intro exI [of _ w2]) (simp add: arduino_wifi_transport_read_def boardD(1) [OF assms(1)] split_def Let_def)
qed

lemma ethernet_read_after_wait:
  assumes "board dev clk d" "measurable timeout d"
  shows "\<exists>w2. waited dev clk d timeout w w2 \<and> arduino_native_ethernet_udp_transport_read dev buf len timeout w =
    Some (let (a, w3) = udp_available dev w2
          in if a = 0 then ((0, buf), w3)
             else (let ((n, bytes), w4) = udp_read dev len w3 in ((n, stored_into bytes buf), w4)))"
proof -
  obtain w2 where "ethernet_wait dev timeout (of_nat (clk w)) w = Some w2" "waited dev clk d timeout w w2"
    using ethernet.returns [OF assms, of w] unfolding waited_def by blast
  then show ?thesis
    by (intro exI [of _ w2])
      (simp add: arduino_native_ethernet_udp_transport_read_def boardD(2) [OF assms(1)] split_def Let_def)
qed

subsection \<open>Waiting for the link\<close>

definition link_round :: "'w network \<Rightarrow> u32 \<Rightarrow> 'w \<Rightarrow> 'w" where
  "link_round net pause w = net_delay net pause (snd (net_up net w))"

lemma wait_for_link_round:
  "wait_for_link net pause w =
     (if fst (net_up net w) then Some (snd (net_up net w)) else wait_for_link net pause (link_round net pause w))"
  by (subst wait_for_link.simps) (simp add: link_round_def split_def Let_def)

lemma wait_for_link_returns:
  "fst (net_up net ((link_round net pause ^^ k) w)) \<Longrightarrow>
   \<exists>j \<le> k. wait_for_link net pause w = Some (snd (net_up net ((link_round net pause ^^ j) w)))"
proof (induction k arbitrary: w)
  case 0
  then show ?case by (subst wait_for_link_round) simp
next
  case (Suc k)
  show ?case
  proof (cases "fst (net_up net w)")
    case True
    then show ?thesis by (intro exI [of _ 0], subst wait_for_link_round) simp
  next
    case False
    from Suc.prems have "fst (net_up net ((link_round net pause ^^ k) (link_round net pause w)))"
      by (simp add: funpow_swap1)
    from Suc.IH [OF this] obtain j where "j \<le> k"
      "wait_for_link net pause (link_round net pause w) =
         Some (snd (net_up net ((link_round net pause ^^ j) (link_round net pause w))))" by blast
    with False show ?thesis
      by (intro exI [of _ "Suc j"], subst wait_for_link_round) (simp add: funpow_swap1)
  qed
qed

lemma wait_for_link_result:
  assumes "wait_for_link net pause w = Some w'"
  shows "\<exists>k. fst (net_up net ((link_round net pause ^^ k) w)) \<and>
     w' = snd (net_up net ((link_round net pause ^^ k) w))"
proof (rule wait_for_link.raw_induct [where P = "\<lambda>net pause w w'.
      \<exists>k. fst (net_up net ((link_round net pause ^^ k) w)) \<and>
          w' = snd (net_up net ((link_round net pause ^^ k) w))", OF _ assms])
  fix wait and net :: "'w network" and pause w w'
  assume IH: "\<And>net pause w w'. wait net pause w = Some w' \<Longrightarrow>
      \<exists>k. fst (net_up net ((link_round net pause ^^ k) w)) \<and>
          w' = snd (net_up net ((link_round net pause ^^ k) w))"
    and step: "(let (up, w1) = net_up net w
      in if \<not> up then wait net pause (net_delay net pause w1) else Some w1) = Some w'"
  show "\<exists>k. fst (net_up net ((link_round net pause ^^ k) w)) \<and>
      w' = snd (net_up net ((link_round net pause ^^ k) w))"
  proof (cases "fst (net_up net w)")
    case True
    with step show ?thesis by (intro exI [of _ 0]) (simp add: split_def Let_def)
  next
    case False
    with step have "wait net pause (link_round net pause w) = Some w'"
      by (simp add: link_round_def split_def Let_def)
    from IH [OF this] obtain k where
      "fst (net_up net ((link_round net pause ^^ k) (link_round net pause w)))"
      "w' = snd (net_up net ((link_round net pause ^^ k) (link_round net pause w)))" by blast
    then show ?thesis by (intro exI [of _ "Suc k"]) (simp add: funpow_swap1)
  qed
qed

subsection \<open>Properties\<close>

lemma minus_one_u32: "- 1 = (4294967295 :: u32)"
  by simp

text \<open>An instance for the witnesses: the world is the time, a packet of three bytes comes at 5.\<close>

definition quiet_device :: "nat udp_device" where
  "quiet_device = \<lparr>millis = (\<lambda>w. (of_nat w, w)), uxr_millis = (\<lambda>w. (of_nat w, w)),
     delay = (\<lambda>k w. w + unat k), udp_begin = (\<lambda>p w. (1, w)), udp_stop = id,
     udp_beginPacket = (\<lambda>a p w. (0, w)), udp_write = (\<lambda>b l w. (l, w)), udp_endPacket = (\<lambda>w. (0, w)),
     udp_flush = id, udp_parsePacket = (\<lambda>w. (if w = 5 then 3 else 0, w)),
     udp_available = (\<lambda>w. (1, w)), udp_read = (\<lambda>l w. (if w = 5 then (3, [1, 2, 3]) else (-1, []), w))\<rparr>"

lemma quiet_board: "board quiet_device id 0"
  by (simp add: board_def quiet_device_def)

text \<open>C5. The WiFi read always returns, although its loop has no bound of its own and the 32-bit
  clock may wrap while it waits: for a non-negative timeout it stops waiting within the
  timeout, plus the time two looks for a packet take, either because the time is over or right
  after the call that found a packet; its result is then what the UDP read gives, 0 for an error.\<close>

theorem wifi_read_returns_in_time:
  assumes "board dev clk d" "measurable timeout d"
  shows "\<exists>w2 r bytes w3. waited dev clk d timeout w w2 \<and> udp_read dev len w2 = ((r, bytes), w3) \<and>
    arduino_wifi_transport_read dev buf len timeout w =
      Some ((if sint r < 0 then 0 else r, stored_into bytes buf), w3)"
proof -
  obtain w2 where "waited dev clk d timeout w w2" "arduino_wifi_transport_read dev buf len timeout w =
    Some ((if sint (fst (fst (udp_read dev len w2))) < 0 then 0 else fst (fst (udp_read dev len w2)),
           stored_into (snd (fst (udp_read dev len w2))) buf), snd (udp_read dev len w2))"
    using wifi_read_after_wait [OF assms, of w buf len] by blast
  moreover obtain r bytes w3 where "udp_read dev len w2 = ((r, bytes), w3)" by (metis prod.collapse)
  ultimately show ?thesis by (intro exI [of _ w2] exI) auto
qed

theorem wifi_read_returns_in_time_witness:
  "\<exists>w2 r bytes w3. waited quiet_device id 0 100 4294967290 w2 \<and>
     udp_read quiet_device 3 w2 = ((r, bytes), w3) \<and>
     arduino_wifi_transport_read quiet_device [0, 0, 0] 3 100 4294967290 =
       Some ((if sint r < 0 then 0 else r, stored_into bytes [0, 0, 0]), w3)"
  using wifi_read_returns_in_time [OF quiet_board, of 100] by (simp add: measurable_def)

text \<open>C37. The Ethernet read returns in the same time, but not with the same result on an error: the
  signed result of the UDP read is stored in a \<open>size_t\<close>, whose test for a negative value never
  holds, so when the read of an available packet fails with -1 the transport reports 4294967295
  received bytes where the WiFi transport reports none.\<close>

theorem ethernet_read_error_is_huge_count:
  assumes "board dev clk d" "measurable timeout d"
    and "\<And>w. udp_available dev w = (1, w)" and "\<And>w. udp_read dev len w = ((-1, []), w)"
  shows "(\<exists>w'. waited dev clk d timeout w w' \<and>
            arduino_native_ethernet_udp_transport_read dev buf len timeout w = Some ((4294967295, buf), w')) \<and>
         (\<exists>w'. arduino_wifi_transport_read dev buf len timeout w = Some ((0, buf), w'))"
proof
  show "\<exists>w'. waited dev clk d timeout w w' \<and>
      arduino_native_ethernet_udp_transport_read dev buf len timeout w = Some ((4294967295, buf), w')"
    using ethernet_read_after_wait [OF assms(1,2), of w buf len] assms(3,4)
    by (simp add: stored_into_def flip: minus_one_u32)
  show "\<exists>w'. arduino_wifi_transport_read dev buf len timeout w = Some ((0, buf), w')"
    using wifi_read_after_wait [OF assms(1,2), of w buf len] assms(4) by (auto simp: stored_into_def)
qed

theorem ethernet_read_error_is_huge_count_witness:
  "\<exists>w'. arduino_native_ethernet_udp_transport_read (quiet_device\<lparr>udp_read := \<lambda>l w. ((-1, []), w)\<rparr>)
     [7] 1 3 100 = Some ((4294967295, [7]), w')"
  using ethernet_read_error_is_huge_count
    [of "quiet_device\<lparr>udp_read := \<lambda>l w. ((-1, []), w)\<rparr>" id 0 3 1 100 "[7]"]
  by (auto simp: measurable_def board_def quiet_device_def)

text \<open>A read whose timeout is 0 never looks for a packet, the test of the clock standing before
  the look, so it returns at once only what an earlier look left; the Ethernet transport does
  the same for a negative timeout such as \<open>UXR_TIMEOUT_INF\<close> (-1), which the WiFi transport reads
  as 4294967295 milliseconds. The result is the same whatever \<open>parsePacket\<close> would do.\<close>

theorem reads_without_time_never_look:
  assumes "board dev clk d" "sint timeout \<le> 0"
  shows "arduino_native_ethernet_udp_transport_read (dev\<lparr>udp_parsePacket := parse\<rparr>) buf len timeout w =
      arduino_native_ethernet_udp_transport_read dev buf len timeout w \<and>
    ethernet_wait dev timeout (of_nat (clk w)) w = Some w \<and>
    arduino_wifi_transport_read (dev\<lparr>udp_parsePacket := parse\<rparr>) buf len 0 w =
      arduino_wifi_transport_read dev buf len 0 w"
  using assms(2) boardD(1,2) [OF assms(1)]
  by (simp add: arduino_native_ethernet_udp_transport_read_def arduino_wifi_transport_read_def
      ethernet_wait.simps [of _ _ "of_nat (clk w)" w] wifi_wait.simps [of _ 0] split_def Let_def)

theorem reads_without_time_never_look_witness:
  "ethernet_wait quiet_device (- 1) 5 (5 :: nat) = Some 5 \<and>
   arduino_wifi_transport_read (quiet_device\<lparr>udp_parsePacket := \<lambda>w. (9, w + 1)\<rparr>) [] 0 0 5 =
     arduino_wifi_transport_read quiet_device [] 0 0 5"
  using reads_without_time_never_look [OF quiet_board, of "- 1" "\<lambda>w. (9, w + 1)" "[]" 0 5] by simp

text \<open>A write reports what it handed to the packet and not what was sent: the result of neither
  transport depends on whether \<open>endPacket\<close> managed to send the packet, and that of the WiFi
  transport not on whether \<open>beginPacket\<close> could start one. The Ethernet transport looks at that:
  if the packet cannot be started it writes nothing and reports 0 bytes.\<close>

theorem writes_ignore_sending_errors:
  "arduino_wifi_transport_write
     (dev\<lparr>udp_beginPacket := \<lambda>a p w. (r, snd (udp_beginPacket dev a p w)),
          udp_endPacket := \<lambda>w. (e, snd (udp_endPacket dev w))\<rparr>) locator buf len w =
     arduino_wifi_transport_write dev locator buf len w \<and>
   arduino_native_ethernet_udp_transport_write
     (dev\<lparr>udp_endPacket := \<lambda>w. (e, snd (udp_endPacket dev w))\<rparr>) locator buf len w =
     arduino_native_ethernet_udp_transport_write dev locator buf len w \<and>
   (r \<noteq> 1 \<longrightarrow> arduino_native_ethernet_udp_transport_write
     (dev\<lparr>udp_beginPacket := \<lambda>a p w. (r, snd (udp_beginPacket dev a p w))\<rparr>) locator buf len w =
     (0, udp_flush dev (snd (udp_beginPacket dev (address locator) (ucast (port locator)) w))))"
  by (auto simp: arduino_wifi_transport_write_def arduino_native_ethernet_udp_transport_write_def
      split_def Let_def)

theorem writes_ignore_sending_errors_witness:
  "arduino_native_ethernet_udp_transport_write
     (quiet_device\<lparr>udp_beginPacket := \<lambda>a p w. (0, snd (udp_beginPacket quiet_device a p w))\<rparr>)
     \<lparr>address = 1, port = 8888\<rparr> [1, 2] 2 9 = (0, 9)"
  using writes_ignore_sending_errors [where dev = quiet_device and r = 0 and e = 0 and
      locator = "\<lparr>address = 1, port = 8888\<rparr>" and buf = "[1, 2]" and len = 2 and w = 9]
  by (simp add: quiet_device_def)

text \<open>C38. Installing the WiFi transport returns exactly when the link comes up at some look, and then
  installs, once, a packet transport with the four WiFi callbacks whose arguments are the
  address and port of the agent; while the link stays down it waits for ever and installs
  nothing.\<close>

theorem wifi_setup_returns_iff_link_comes_up:
  "(set_microros_wifi_transports net loc agent_ip agent_port w \<noteq> None) =
     (\<exists>k. fst (net_up net ((link_round net 500 ^^ k) (net_begin net w)))) \<and>
   (\<forall>loc' w'. set_microros_wifi_transports net loc agent_ip agent_port w = Some (loc', w') \<longrightarrow>
     loc' = \<lparr>address = fromString net agent_ip (address loc), port = agent_port\<rparr> \<and>
     (\<exists>k. w' = rmw_uros_set_custom_transport net
        \<lparr>framing = False, args = Some loc', open_cb = Wifi, close_cb = Wifi, write_cb = Wifi, read_cb = Wifi\<rparr>
        (snd (net_up net ((link_round net 500 ^^ k) (net_begin net w))))))"
proof (intro conjI allI impI)
  show "(set_microros_wifi_transports net loc agent_ip agent_port w \<noteq> None) =
      (\<exists>k. fst (net_up net ((link_round net 500 ^^ k) (net_begin net w))))"
    using wait_for_link_returns [where net = net and pause = 500 and w = "net_begin net w"]
      wait_for_link_result [of net 500 "net_begin net w"]
    by (fastforce simp: set_microros_wifi_transports_def Let_def split: option.splits)
next
  fix loc' w'
  assume r: "set_microros_wifi_transports net loc agent_ip agent_port w = Some (loc', w')"
  then show "loc' = \<lparr>address = fromString net agent_ip (address loc), port = agent_port\<rparr>"
    by (simp add: set_microros_wifi_transports_def Let_def split: option.splits)
  from r show "\<exists>k. w' = rmw_uros_set_custom_transport net
      \<lparr>framing = False, args = Some loc', open_cb = Wifi, close_cb = Wifi, write_cb = Wifi, read_cb = Wifi\<rparr>
      (snd (net_up net ((link_round net 500 ^^ k) (net_begin net w))))"
    by (auto simp: set_microros_wifi_transports_def Let_def split: option.splits dest!: wait_for_link_result)
qed

definition slow_network :: "nat network" where
  "slow_network = \<lparr>net_begin = id, net_up = (\<lambda>w. (w = 2, w)), net_delay = (\<lambda>_. Suc),
     fromString = (\<lambda>s a. if s = ''10.0.0.1'' then 167772161 else a),
     rmw_uros_set_custom_transport = (\<lambda>t w. if args t \<noteq> None then w + 100 else w)\<rparr>"

theorem wifi_setup_returns_iff_link_comes_up_witness:
  "\<exists>w'. set_microros_wifi_transports slow_network \<lparr>address = 0, port = 0\<rparr> ''10.0.0.1'' 8888 0 =
     Some (\<lparr>address = 167772161, port = 8888\<rparr>, w')"
proof -
  have up: "fst (net_up slow_network ((link_round slow_network 500 ^^ 2) (net_begin slow_network 0)))"
    by (simp add: slow_network_def link_round_def numeral_2_eq_2)
  note c = wifi_setup_returns_iff_link_comes_up
    [of slow_network "\<lparr>address = 0, port = 0\<rparr>" "''10.0.0.1''" 8888 0]
  from c up obtain loc' w' where r: "set_microros_wifi_transports slow_network \<lparr>address = 0, port = 0\<rparr>
      ''10.0.0.1'' 8888 0 = Some (loc', w')"
    by (metis not_None_eq prod.exhaust)
  with c have "loc' = \<lparr>address = 167772161, port = 8888\<rparr>" by (auto simp: slow_network_def)
  with r show ?thesis by blast
qed
end
