(* ===== verification/Reconnection.thy ===== *)
theory Reconnection
  imports Rcl_Basics
begin

text \<open>
  The sketch of \<^verbatim>\<open>examples/micro-ros_reconnection_example\<close>: the state machine that finds the
  agent, creates the ROS entities, watches the connection and tears everything down when it is
  lost. The client library is not part of the repository; it is the record \<open>client\<close>, whose
  calls return a code and change the world. The model keeps, beside the variables of the
  sketch, the log of the calls made so far: the state of the machine at the call, the call, its
  code and the world before it.
\<close>

subsection \<open>State and library\<close>

datatype states = WAITING_AGENT | AGENT_AVAILABLE | AGENT_CONNECTED | AGENT_DISCONNECTED

datatype api =
    set_microros_transports
  | pinMode
  | rcl_get_default_allocator
  | rclc_support_init
  | rclc_node_init_default string string
  | rclc_publisher_init_best_effort string
  | rclc_timer_init_default u64
  | rclc_executor_get_zero_initialized_executor
  | rclc_executor_init nat
  | rclc_executor_add_timer
  | rcl_context_get_rmw_context
  | rmw_uros_set_context_entity_destroy_session_timeout int
  | rcl_publisher_fini
  | rcl_timer_fini
  | rclc_executor_fini
  | rcl_node_fini
  | rclc_support_fini
  | rmw_uros_ping_agent int nat
  | rclc_executor_spin_some u64
  | rcl_publish u32

record 'w client =
  call :: "api \<Rightarrow> 'w \<Rightarrow> int \<times> 'w"
  uxr_millis :: "'w \<Rightarrow> u64 \<times> 'w"
  timer_ready :: "'w \<Rightarrow> bool"

type_synonym 'w call_log = "(states \<times> api \<times> int \<times> 'w) list"

text \<open>The two expansions of \<open>EXECUTE_EVERY_N_MS\<close> have a static each.\<close>

record 'w sketch =
  agent_state :: states
  msg_data :: u32
  led :: bool
  waiting_init :: u64
  connected_init :: u64
  world :: 'w
  calls :: "'w call_log"

definition invoke :: "'w client \<Rightarrow> api \<Rightarrow> 'w sketch \<Rightarrow> int \<times> 'w sketch" where
  "invoke lib c s =
     (let (rc, w) = call lib c (world s)
      in (rc, s\<lparr>world := w, calls := calls s @ [(agent_state s, c, rc, world s)]\<rparr>))"

text \<open>A call whose result is not used.\<close>

definition perform :: "'w client \<Rightarrow> api \<Rightarrow> 'w sketch \<Rightarrow> 'w sketch" where
  "perform lib c s = snd (invoke lib c s)"

subsection \<open>The macros\<close>

definition RCCHECK ::
  "'w client \<Rightarrow> api \<Rightarrow> ('w sketch \<Rightarrow> bool \<times> 'w sketch) \<Rightarrow> 'w sketch \<Rightarrow> bool \<times> 'w sketch" where
  "RCCHECK lib fn rest s =
     (let (temp_rc, s') = invoke lib fn s in if temp_rc \<noteq> RCL_RET_OK then (False, s') else rest s')"

definition millis_now :: "'w client \<Rightarrow> 'w sketch \<Rightarrow> u64 \<times> 'w sketch" where
  "millis_now lib s = (let (t, w) = uxr_millis lib (world s) in (t, s\<lparr>world := w\<rparr>))"

text \<open>The static of the expansion is read with \<open>init\<close> and written with \<open>set_init\<close>.\<close>

definition EXECUTE_EVERY_N_MS ::
  "'w client \<Rightarrow> ('w sketch \<Rightarrow> u64) \<Rightarrow> (u64 \<Rightarrow> 'w sketch \<Rightarrow> 'w sketch) \<Rightarrow> int \<Rightarrow>
     ('w sketch \<Rightarrow> 'w sketch) \<Rightarrow> 'w sketch \<Rightarrow> 'w sketch" where
  "EXECUTE_EVERY_N_MS lib init set_init MS X s =
     (let s1 = (if init s = - 1 then (let (t, s') = millis_now lib s in set_init t s') else s);
          (t, s2) = millis_now lib s1
      in if MS < sint (t - init s2)
         then (let (t', s3) = millis_now lib (X s2) in set_init t' s3)
         else s2)"

subsection \<open>The functions\<close>

definition timer_callback :: "'w client \<Rightarrow> bool \<Rightarrow> 'w sketch \<Rightarrow> 'w sketch" where
  "timer_callback lib timer_not_null s =
     (if timer_not_null
      then (let s' = perform lib (rcl_publish (msg_data s)) s in s'\<lparr>msg_data := msg_data s' + 1\<rparr>)
      else s)"

definition create_entities :: "'w client \<Rightarrow> 'w sketch \<Rightarrow> bool \<times> 'w sketch" where
  "create_entities lib s =
     (let s1 = perform lib rcl_get_default_allocator s
      in RCCHECK lib rclc_support_init
          (RCCHECK lib (rclc_node_init_default ''int32_publisher_rclc'' [])
            (RCCHECK lib (rclc_publisher_init_best_effort ''std_msgs_msg_Int32'')
              (RCCHECK lib (rclc_timer_init_default (RCL_MS_TO_NS 1000))
                (\<lambda>s2. RCCHECK lib (rclc_executor_init 1)
                  (RCCHECK lib rclc_executor_add_timer (\<lambda>s3. (True, s3)))
                  (perform lib rclc_executor_get_zero_initialized_executor s2))))) s1)"

definition destroy_entities :: "'w client \<Rightarrow> 'w sketch \<Rightarrow> 'w sketch" where
  "destroy_entities lib s =
     (let s1 = perform lib rcl_context_get_rmw_context s;
          s2 = perform lib (rmw_uros_set_context_entity_destroy_session_timeout 0) s1;
          s3 = perform lib rcl_publisher_fini s2;
          s4 = perform lib rcl_timer_fini s3;
          s5 = perform lib rclc_executor_fini s4;
          s6 = perform lib rcl_node_fini s5
      in perform lib rclc_support_fini s6)"

text \<open>\<open>led0\<close> is the level of the pin before the first write.\<close>

definition sketch_setup :: "'w client \<Rightarrow> bool \<Rightarrow> 'w \<Rightarrow> 'w sketch" where
  "sketch_setup lib led0 w =
     (let s = perform lib pinMode (perform lib set_microros_transports
                \<lparr>agent_state = WAITING_AGENT, msg_data = 0, led = led0, waiting_init = - 1,
                 connected_init = - 1, world = w, calls = []\<rparr>)
      in s\<lparr>agent_state := WAITING_AGENT, msg_data := 0\<rparr>)"

definition ping :: "'w client \<Rightarrow> states \<Rightarrow> states \<Rightarrow> 'w sketch \<Rightarrow> 'w sketch" where
  "ping lib up down s =
     (let (rc, s') = invoke lib (rmw_uros_ping_agent 100 1) s
      in s'\<lparr>agent_state := if RMW_RET_OK = rc then up else down\<rparr>)"

text \<open>Spinning the executor runs the callback of its timer when the timer is ready.\<close>

definition spin_some :: "'w client \<Rightarrow> 'w sketch \<Rightarrow> 'w sketch" where
  "spin_some lib s =
     (let s' = perform lib (rclc_executor_spin_some (RCL_MS_TO_NS 100)) s
      in if timer_ready lib (world s') then timer_callback lib True s' else s')"

definition loop_switch :: "'w client \<Rightarrow> 'w sketch \<Rightarrow> 'w sketch" where
  "loop_switch lib s =
     (case agent_state s of
        WAITING_AGENT \<Rightarrow>
          EXECUTE_EVERY_N_MS lib waiting_init (\<lambda>t. waiting_init_update (\<lambda>_. t)) 500
            (ping lib AGENT_AVAILABLE WAITING_AGENT) s
      | AGENT_AVAILABLE \<Rightarrow>
          (let (ok, s1) = create_entities lib s;
               s2 = s1\<lparr>agent_state := if ok then AGENT_CONNECTED else WAITING_AGENT\<rparr>
           in if agent_state s2 = WAITING_AGENT then destroy_entities lib s2 else s2)
      | AGENT_CONNECTED \<Rightarrow>
          (let s1 = EXECUTE_EVERY_N_MS lib connected_init (\<lambda>t. connected_init_update (\<lambda>_. t)) 200
                      (ping lib AGENT_CONNECTED AGENT_DISCONNECTED) s
           in if agent_state s1 = AGENT_CONNECTED then spin_some lib s1 else s1)
      | AGENT_DISCONNECTED \<Rightarrow> (destroy_entities lib s)\<lparr>agent_state := WAITING_AGENT\<rparr>)"

definition sketch_loop :: "'w client \<Rightarrow> 'w sketch \<Rightarrow> 'w sketch" where
  "sketch_loop lib s =
     (let s' = loop_switch lib s
      in if agent_state s' = AGENT_CONNECTED then s'\<lparr>led := True\<rparr> else s'\<lparr>led := False\<rparr>)"

text \<open>A run of the sketch: between two iterations the rest of the world goes on as \<open>later\<close> allows.\<close>

inductive reachable :: "'w client \<Rightarrow> ('w \<Rightarrow> 'w \<Rightarrow> bool) \<Rightarrow> 'w sketch \<Rightarrow> bool"
  for lib later where
  start: "reachable lib later (sketch_setup lib led0 w)"
| turn: "reachable lib later s \<Longrightarrow> later (world s) w \<Longrightarrow> reachable lib later (sketch_loop lib (s\<lparr>world := w\<rparr>))"

subsection \<open>Entities\<close>

datatype entity = Support | Node | Publisher | Timer | Executor

fun inits :: "api \<Rightarrow> entity option" where
  "inits rclc_support_init = Some Support"
| "inits (rclc_node_init_default _ _) = Some Node"
| "inits (rclc_publisher_init_best_effort _) = Some Publisher"
| "inits (rclc_timer_init_default _) = Some Timer"
| "inits (rclc_executor_init _) = Some Executor"
| "inits _ = None"

fun finis :: "api \<Rightarrow> entity option" where
  "finis rclc_support_fini = Some Support"
| "finis rcl_node_fini = Some Node"
| "finis rcl_publisher_fini = Some Publisher"
| "finis rcl_timer_fini = Some Timer"
| "finis rclc_executor_fini = Some Executor"
| "finis _ = None"

text \<open>The entities an initialisation of which succeeded and that were not finalised since.\<close>

definition track :: "api \<Rightarrow> int \<Rightarrow> entity set \<Rightarrow> entity set" where
  "track c rc es =
     (case finis c of Some e \<Rightarrow> es - {e}
      | None \<Rightarrow> (case inits c of Some e \<Rightarrow> if rc = RCL_RET_OK then insert e es else es | None \<Rightarrow> es))"

fun live :: "'w call_log \<Rightarrow> entity set \<Rightarrow> entity set" where
  "live [] es = es"
| "live ((_, c, rc, _) # cs) es = live cs (track c rc es)"

text \<open>No call initialises an entity that is live, and the executor spins and the publisher
  publishes only while all five are.\<close>

fun disciplined :: "'w call_log \<Rightarrow> entity set \<Rightarrow> bool" where
  "disciplined [] es \<longleftrightarrow> True"
| "disciplined ((_, c, rc, _) # cs) es \<longleftrightarrow>
     (case inits c of Some e \<Rightarrow> e \<notin> es | None \<Rightarrow> True) \<and>
     (case c of rclc_executor_spin_some _ \<Rightarrow> es = UNIV | rcl_publish _ \<Rightarrow> es = UNIV | _ \<Rightarrow> True) \<and>
     disciplined cs (track c rc es)"

lemma live_append: "live (cs @ ds) es = live ds (live cs es)"
  by (induction cs es rule: live.induct) simp_all

lemma disciplined_append: "disciplined (cs @ ds) es \<longleftrightarrow> disciplined cs es \<and> disciplined ds (live cs es)"
  by (induction cs es rule: disciplined.induct) auto

subsection \<open>Effects of the calls\<close>

definition entities :: "'w sketch \<Rightarrow> entity set" where
  "entities s = live (calls s) {}"

lemma perform_fields [simp]:
  "agent_state (perform lib c s) = agent_state s"
  "msg_data (perform lib c s) = msg_data s"
  "led (perform lib c s) = led s"
  "waiting_init (perform lib c s) = waiting_init s"
  "connected_init (perform lib c s) = connected_init s"
  "world (perform lib c s) = snd (call lib c (world s))"
  by (simp_all add: perform_def invoke_def split_def Let_def)

lemma calls_perform:
  "calls (perform lib c s) = calls s @ [(agent_state s, c, fst (call lib c (world s)), world s)]"
  by (simp add: perform_def invoke_def split_def Let_def)

lemma invoke_eq: "invoke lib c s = (fst (call lib c (world s)), perform lib c s)"
  by (simp add: perform_def invoke_def split_def Let_def)

lemma RCCHECK_eq:
  "RCCHECK lib fn rest s =
     (if fst (call lib fn (world s)) \<noteq> RCL_RET_OK then (False, perform lib fn s)
      else rest (perform lib fn s))"
  by (simp add: RCCHECK_def invoke_eq)

lemma entities_perform [simp]:
  "entities (perform lib c s) = track c (fst (call lib c (world s))) (entities s)"
  by (simp add: entities_def live_append calls_perform)

lemma entities_frame [simp]:
  "entities (s\<lparr>agent_state := a\<rparr>) = entities s" "entities (s\<lparr>msg_data := m\<rparr>) = entities s"
  "entities (s\<lparr>led := b\<rparr>) = entities s" "entities (s\<lparr>world := w\<rparr>) = entities s"
  by (simp_all add: entities_def)

lemma track_simps [simp]:
  "finis c = Some e \<Longrightarrow> track c rc es = es - {e}"
  "finis c = None \<Longrightarrow> inits c = Some e \<Longrightarrow> track c rc es = (if rc = RCL_RET_OK then insert e es else es)"
  "finis c = None \<Longrightarrow> inits c = None \<Longrightarrow> track c rc es = es"
  by (simp_all add: track_def)

text \<open>A log stays disciplined when the next call is allowed now.\<close>

definition allowed :: "api \<Rightarrow> entity set \<Rightarrow> bool" where
  "allowed c es \<longleftrightarrow> (case inits c of Some e \<Rightarrow> e \<notin> es | None \<Rightarrow> True) \<and>
     (case c of rclc_executor_spin_some _ \<Rightarrow> es = UNIV | rcl_publish _ \<Rightarrow> es = UNIV | _ \<Rightarrow> True)"

lemma disciplined_perform [simp]:
  "disciplined (calls (perform lib c s)) {} \<longleftrightarrow> disciplined (calls s) {} \<and> allowed c (entities s)"
  by (simp add: disciplined_append allowed_def entities_def calls_perform)

lemma UNIV_entity: "UNIV = {Support, Node, Publisher, Timer, Executor}"
  by (auto intro: entity.exhaust)

lemma entity_cases_minus: "e = Support \<or> e = Node \<or> e = Publisher \<or> e = Timer \<or> e = Executor"
  by (cases e) simp_all

lemma destroy_effect:
  "agent_state (destroy_entities lib s) = agent_state s"
  "entities (destroy_entities lib s) = {}"
  "disciplined (calls s) {} \<Longrightarrow> disciplined (calls (destroy_entities lib s)) {}"
proof -
  show "agent_state (destroy_entities lib s) = agent_state s"
    by (simp add: destroy_entities_def)
  show "entities (destroy_entities lib s) = {}"
    using entity_cases_minus by (auto simp: destroy_entities_def)
  show "disciplined (calls s) {} \<Longrightarrow> disciplined (calls (destroy_entities lib s)) {}"
    by (simp add: destroy_entities_def allowed_def)
qed

lemma create_effect:
  assumes "entities s = {}" "disciplined (calls s) {}"
  shows "agent_state (snd (create_entities lib s)) = agent_state s"
    and "disciplined (calls (snd (create_entities lib s))) {}"
    and "fst (create_entities lib s) \<Longrightarrow> entities (snd (create_entities lib s)) = UNIV"
proof -
  show "agent_state (snd (create_entities lib s)) = agent_state s"
    by (simp add: create_entities_def RCCHECK_eq Let_def)
  show "disciplined (calls (snd (create_entities lib s))) {}"
    using assms by (simp add: create_entities_def RCCHECK_eq Let_def allowed_def)
  show "fst (create_entities lib s) \<Longrightarrow> entities (snd (create_entities lib s)) = UNIV"
    using assms by (auto simp: create_entities_def RCCHECK_eq Let_def UNIV_entity split: if_splits)
qed

lemma spin_effect:
  assumes "entities s = UNIV" "disciplined (calls s) {}"
  shows "agent_state (spin_some lib s) = agent_state s"
    and "entities (spin_some lib s) = UNIV"
    and "disciplined (calls (spin_some lib s)) {}"
  using assms by (simp_all add: spin_some_def timer_callback_def Let_def allowed_def)

subsection \<open>The static of the timed macro\<close>

text \<open>What the proofs need of the static variable of an expansion.\<close>

locale static_var =
  fixes init :: "'w sketch \<Rightarrow> u64"
    and set_init :: "u64 \<Rightarrow> 'w sketch \<Rightarrow> 'w sketch"
  assumes init_set: "init (set_init t s) = t"
    and init_perform: "init (perform lib c s) = init s"
    and init_world: "init (s\<lparr>world := w\<rparr>) = init s"
    and init_state: "init (s\<lparr>agent_state := a\<rparr>) = init s"
    and set_frame: "agent_state (set_init t s) = agent_state s" "calls (set_init t s) = calls s"
      "world (set_init t s) = world s"
begin

text \<open>The macro either changes nothing but the time and its static or runs the statement once.\<close>

lemma every_effect:
  obtains s2 where "agent_state s2 = agent_state s" "calls s2 = calls s"
    "agent_state (EXECUTE_EVERY_N_MS lib init set_init MS X s) = agent_state s2 \<and>
     calls (EXECUTE_EVERY_N_MS lib init set_init MS X s) = calls s2 \<or>
     agent_state (EXECUTE_EVERY_N_MS lib init set_init MS X s) = agent_state (X s2) \<and>
     calls (EXECUTE_EVERY_N_MS lib init set_init MS X s) = calls (X s2)"
proof -
  define s1 where "s1 = (if init s = - 1 then (let (t, s') = millis_now lib s in set_init t s') else s)"
  define s2 where "s2 = snd (millis_now lib s1)"
  have "agent_state s2 = agent_state s" "calls s2 = calls s"
    by (simp_all add: s2_def s1_def millis_now_def set_frame split_def Let_def)
  moreover have "EXECUTE_EVERY_N_MS lib init set_init MS X s =
      (if MS < sint (fst (millis_now lib s1) - init s2)
       then set_init (fst (millis_now lib (X s2))) (snd (millis_now lib (X s2))) else s2)"
    by (simp add: EXECUTE_EVERY_N_MS_def s1_def s2_def split_def Let_def)
  moreover have "agent_state (snd (millis_now lib s)) = agent_state s"
    "calls (snd (millis_now lib s)) = calls s" for s :: "'w sketch"
    by (simp_all add: millis_now_def split_def Let_def)
  ultimately show thesis by (intro that [of s2]) (auto simp: set_frame)
qed

end

interpretation waiting: static_var waiting_init "\<lambda>t. waiting_init_update (\<lambda>_. t)"
  by unfold_locales simp_all

interpretation connected: static_var connected_init "\<lambda>t. connected_init_update (\<lambda>_. t)"
  by unfold_locales simp_all

lemma ping_effect [simp]:
  "agent_state (ping lib up down s) =
     (if fst (call lib (rmw_uros_ping_agent 100 1) (world s)) = RMW_RET_OK then up else down)"
  "calls (ping lib up down s) = calls (perform lib (rmw_uros_ping_agent 100 1) s)"
  by (auto simp: ping_def invoke_eq)

subsection \<open>The abstract machine\<close>

text \<open>States with the entities that are live in them.\<close>

inductive agent_step :: "states \<times> entity set \<Rightarrow> states \<times> entity set \<Rightarrow> bool" where
  no_agent: "agent_step (WAITING_AGENT, {}) (WAITING_AGENT, {})"
| agent_found: "agent_step (WAITING_AGENT, {}) (AGENT_AVAILABLE, {})"
| created: "agent_step (AGENT_AVAILABLE, {}) (AGENT_CONNECTED, UNIV)"
| not_created: "agent_step (AGENT_AVAILABLE, {}) (WAITING_AGENT, {})"
| still_there: "agent_step (AGENT_CONNECTED, UNIV) (AGENT_CONNECTED, UNIV)"
| agent_lost: "agent_step (AGENT_CONNECTED, UNIV) (AGENT_DISCONNECTED, UNIV)"
| torn_down: "agent_step (AGENT_DISCONNECTED, UNIV) (WAITING_AGENT, {})"

inductive_cases agent_step_from_connectedE: "agent_step (AGENT_CONNECTED, es) (b, fs)"

definition abstract :: "'w sketch \<Rightarrow> states \<times> entity set" where
  "abstract s = (agent_state s, entities s)"

definition well_formed :: "'w sketch \<Rightarrow> bool" where
  "well_formed s \<longleftrightarrow> disciplined (calls s) {} \<and>
     entities s = (if agent_state s \<in> {AGENT_CONNECTED, AGENT_DISCONNECTED} then UNIV else {})"

lemma well_formed_frame [simp]:
  "well_formed (s\<lparr>led := b\<rparr>) = well_formed s" "well_formed (s\<lparr>world := w\<rparr>) = well_formed s"
  by (simp_all add: well_formed_def)

lemma abstract_frame [simp]:
  "abstract (s\<lparr>led := b\<rparr>) = abstract s" "abstract (s\<lparr>world := w\<rparr>) = abstract s"
  by (simp_all add: abstract_def)

lemma entities_cong: "calls s = calls t \<Longrightarrow> entities s = entities t"
  by (simp add: entities_def)

lemma ping_entities:
  "calls s' = calls s \<Longrightarrow> entities (ping lib up down s') = entities s"
  "calls s' = calls s \<Longrightarrow> disciplined (calls s) {} \<Longrightarrow> disciplined (calls (ping lib up down s')) {}"
  by (simp_all add: entities_def live_append disciplined_append calls_perform)

lemma switch_step:
  assumes "well_formed s"
  shows "well_formed (loop_switch lib s) \<and> agent_step (abstract s) (abstract (loop_switch lib s))"
proof (cases "agent_state s")
  case WAITING_AGENT
  define s' where "s' = EXECUTE_EVERY_N_MS lib waiting_init (\<lambda>t. waiting_init_update (\<lambda>_. t)) 500
    (ping lib AGENT_AVAILABLE WAITING_AGENT) s"
  obtain s2 where s2: "agent_state s2 = agent_state s" "calls s2 = calls s"
    "agent_state s' = agent_state s2 \<and> calls s' = calls s2 \<or>
     agent_state s' = agent_state (ping lib AGENT_AVAILABLE WAITING_AGENT s2) \<and>
     calls s' = calls (ping lib AGENT_AVAILABLE WAITING_AGENT s2)"
    unfolding s'_def by (rule waiting.every_effect)
  have "entities s' = {}" "disciplined (calls s') {}"
    using s2 assms WAITING_AGENT ping_entities [OF s2(2), of lib AGENT_AVAILABLE WAITING_AGENT]
    by (auto simp: well_formed_def simp del: ping_effect dest: entities_cong)
  moreover have "agent_state s' = WAITING_AGENT \<or> agent_state s' = AGENT_AVAILABLE"
    using s2 WAITING_AGENT by (auto split: if_splits)
  ultimately show ?thesis
    using assms WAITING_AGENT
    by (auto simp: loop_switch_def s'_def [symmetric] well_formed_def abstract_def
        intro: no_agent agent_found)
next
  case AGENT_AVAILABLE
  have e: "entities s = {}" "disciplined (calls s) {}"
    using assms AGENT_AVAILABLE by (simp_all add: well_formed_def)
  note c = create_effect [OF e, of lib]
  have "disciplined (calls (destroy_entities lib (snd (create_entities lib s)\<lparr>agent_state := WAITING_AGENT\<rparr>))) {}"
    by (rule destroy_effect(3)) (simp add: c(2))
  with c e show ?thesis using AGENT_AVAILABLE
    by (auto simp: loop_switch_def split_def Let_def well_formed_def abstract_def destroy_effect
        intro: created not_created)
next
  case AGENT_CONNECTED
  define s' where "s' = EXECUTE_EVERY_N_MS lib connected_init (\<lambda>t. connected_init_update (\<lambda>_. t)) 200
    (ping lib AGENT_CONNECTED AGENT_DISCONNECTED) s"
  obtain s2 where s2: "agent_state s2 = agent_state s" "calls s2 = calls s"
    "agent_state s' = agent_state s2 \<and> calls s' = calls s2 \<or>
     agent_state s' = agent_state (ping lib AGENT_CONNECTED AGENT_DISCONNECTED s2) \<and>
     calls s' = calls (ping lib AGENT_CONNECTED AGENT_DISCONNECTED s2)"
    unfolding s'_def by (rule connected.every_effect)
  have e: "entities s' = UNIV" "disciplined (calls s') {}"
    using s2 assms AGENT_CONNECTED ping_entities [OF s2(2), of lib AGENT_CONNECTED AGENT_DISCONNECTED]
    by (auto simp: well_formed_def simp del: ping_effect dest: entities_cong)
  have a: "agent_state s' = AGENT_CONNECTED \<or> agent_state s' = AGENT_DISCONNECTED"
    using s2 AGENT_CONNECTED by (auto split: if_splits)
  have "loop_switch lib s = (if agent_state s' = AGENT_CONNECTED then spin_some lib s' else s')"
    using AGENT_CONNECTED by (simp add: loop_switch_def s'_def)
  with a e spin_effect [OF e, of lib] assms AGENT_CONNECTED show ?thesis
    by (auto simp: well_formed_def abstract_def intro: still_there agent_lost)
next
  case AGENT_DISCONNECTED
  with assms show ?thesis
    by (auto simp: loop_switch_def well_formed_def abstract_def destroy_effect intro: torn_down)
qed

lemma loop_step:
  assumes "well_formed s"
  shows "well_formed (sketch_loop lib s)" "agent_step (abstract s) (abstract (sketch_loop lib s))"
  using switch_step [OF assms, of lib] by (simp_all add: sketch_loop_def Let_def)

lemma reachable_well_formed: "reachable lib later s \<Longrightarrow> well_formed s"
proof (induction rule: reachable.induct)
  case (start led0 w)
  show ?case by (simp add: sketch_setup_def well_formed_def entities_def perform_def invoke_def split_def Let_def)
next
  case (turn s w)
  then show ?case by (simp add: loop_step)
qed

subsection \<open>Time\<close>

text \<open>\<open>clk\<close> is the true time in milliseconds: the clock reads it, no call takes it back, and it
  stays below the 292 million years a signed 64-bit count holds.\<close>

definition steady_client :: "'w client \<Rightarrow> ('w \<Rightarrow> nat) \<Rightarrow> bool" where
  "steady_client lib clk \<longleftrightarrow> (\<forall>w. uxr_millis lib w = (of_nat (clk w), w) \<and> clk w < 2 ^ 63 \<and>
     (\<forall>c. clk w \<le> clk (snd (call lib c w))))"

fun ping_times :: "('w \<Rightarrow> nat) \<Rightarrow> states \<Rightarrow> 'w call_log \<Rightarrow> nat list" where
  "ping_times clk a [] = []"
| "ping_times clk a ((b, c, _, w) # cs) =
     (case c of rmw_uros_ping_agent _ _ \<Rightarrow> if b = a then [clk w] else [] | _ \<Rightarrow> []) @ ping_times clk a cs"

lemma ping_times_append: "ping_times clk a (cs @ ds) = ping_times clk a cs @ ping_times clk a ds"
  by (induction clk a cs rule: ping_times.induct) simp_all

lemma steady_clientD:
  assumes "steady_client lib clk"
  shows "uxr_millis lib w = (of_nat (clk w), w)" "clk w < 2 ^ 63" "clk w \<le> clk (snd (call lib c w))"
  using assms by (simp_all add: steady_client_def)

lemma stamp_facts:
  assumes "t < 2 ^ 63"
  shows "(of_nat t :: u64) \<noteq> - 1" and "i \<le> t \<Longrightarrow> sint (of_nat t - of_nat i :: u64) = int t - int i"
proof -
  have s: "sint (of_nat k :: u64) = int k" if "k < 2 ^ 63" for k
    using that by (simp add: signed_of_nat signed_take_bit_int_eq_self)
  show "(of_nat t :: u64) \<noteq> - 1"
  proof
    assume "(of_nat t :: u64) = - 1"
    then have "sint (of_nat t :: u64) = sint (- 1 :: u64)" by (rule arg_cong)
    with s [OF assms] show False by simp
  qed
  show "sint (of_nat t - of_nat i :: u64) = int t - int i" if "i \<le> t"
  proof -
    have "(of_nat t - of_nat i :: u64) = of_nat (t - i)" using that by (simp only: of_nat_diff)
    moreover have "t - i < 2 ^ 63" using assms by linarith
    ultimately have "sint (of_nat t - of_nat i :: u64) = int (t - i)" by (simp only: s)
    also have "\<dots> = int t - int i" using that by (rule of_nat_diff)
    finally show ?thesis .
  qed
qed

text \<open>A part of the program that leaves the statics alone and pings nobody.\<close>

definition quiet :: "('w \<Rightarrow> nat) \<Rightarrow> 'w sketch \<Rightarrow> 'w sketch \<Rightarrow> bool" where
  "quiet clk s s' \<longleftrightarrow> (\<forall>a. ping_times clk a (calls s') = ping_times clk a (calls s)) \<and>
     waiting_init s' = waiting_init s \<and> connected_init s' = connected_init s \<and>
     clk (world s) \<le> clk (world s')"

lemma quiet_refl: "quiet clk s s"
  by (simp add: quiet_def)

lemma quiet_trans: "quiet clk s t \<Longrightarrow> quiet clk t u \<Longrightarrow> quiet clk s u"
  by (auto simp: quiet_def)

fun is_ping :: "api \<Rightarrow> bool" where
  "is_ping (rmw_uros_ping_agent _ _) = True"
| "is_ping _ = False"

lemma quiet_perform:
  assumes "steady_client lib clk" "\<not> is_ping c" "quiet clk s t"
  shows "quiet clk s (perform lib c t)"
proof -
  have "(case c of rmw_uros_ping_agent n m \<Rightarrow> x | _ \<Rightarrow> []) = []" for x :: "nat list"
    using assms(2) by (cases c) simp_all
  moreover have "clk (world t) \<le> clk (snd (call lib c (world t)))"
    by (rule steady_clientD(3) [OF assms(1)])
  ultimately show ?thesis
    using assms(3) by (simp add: quiet_def calls_perform ping_times_append)
qed

lemma quiet_frame:
  "quiet clk s t \<Longrightarrow> quiet clk s (t\<lparr>agent_state := a\<rparr>)" "quiet clk s t \<Longrightarrow> quiet clk s (t\<lparr>msg_data := m\<rparr>)"
  "quiet clk s t \<Longrightarrow> quiet clk s (t\<lparr>led := b\<rparr>)"
  by (simp_all add: quiet_def)

lemma quiet_destroy:
  "steady_client lib clk \<Longrightarrow> quiet clk s t \<Longrightarrow> quiet clk s (destroy_entities lib t)"
  by (simp add: destroy_entities_def Let_def quiet_perform)

lemma quiet_create:
  "steady_client lib clk \<Longrightarrow> quiet clk s t \<Longrightarrow> quiet clk s (snd (create_entities lib t))"
  by (simp add: create_entities_def RCCHECK_eq Let_def quiet_perform del: perform_fields)

lemma quiet_spin:
  "steady_client lib clk \<Longrightarrow> quiet clk s t \<Longrightarrow> quiet clk s (spin_some lib t)"
  by (simp add: spin_some_def timer_callback_def Let_def quiet_perform quiet_frame del: perform_fields)

text \<open>The invariant of an expansion: its static is unset and it has not pinged yet, or it holds a
  time not before its last ping and not after now; and its pings are spaced.\<close>

definition stamped :: "nat \<Rightarrow> u64 \<Rightarrow> nat list \<Rightarrow> bool" where
  "stamped now i ts \<longleftrightarrow> i = - 1 \<and> ts = [] \<or> (\<exists>k \<le> now. i = of_nat k \<and> (\<forall>t \<in> set ts. t \<le> k))"

definition spaced :: "nat \<Rightarrow> nat list \<Rightarrow> bool" where
  "spaced ms ts \<longleftrightarrow> successively (\<lambda>a b. a + ms < b) ts"

lemma stamped_later: "stamped now i ts \<Longrightarrow> now \<le> now' \<Longrightarrow> stamped now' i ts"
  unfolding stamped_def by (elim disjE exE) (blast, metis le_trans)

lemma spaced_snoc: "spaced ms ts \<Longrightarrow> (\<forall>t \<in> set ts. t + ms < u) \<Longrightarrow> spaced ms (ts @ [u])"
  by (cases ts rule: rev_cases) (auto simp: spaced_def successively_append_iff)

text \<open>One pass through the macro: the expansion's static holds the time \<open>k\<close> of its last run, or of its
  first pass, and the statement runs when more than the interval has passed since.\<close>

context static_var
begin

lemma every_step:
  assumes c: "steady_client lib clk" and st: "stamped (clk (world s)) (init s) ts"
  obtains s1 k where "EXECUTE_EVERY_N_MS lib init set_init (int ms) body s =
      (if ms + k < clk (world s) then set_init (of_nat (clk (world (body s1)))) (body s1) else s1)"
    "world s1 = world s" "calls s1 = calls s" "agent_state s1 = agent_state s"
    "init s1 = of_nat k" "k \<le> clk (world s)" "\<forall>t \<in> set ts. t \<le> k"
proof -
  note cl = steady_clientD [OF c]
  let ?now = "clk (world s)"
  define s1 where "s1 = (if init s = - 1 then set_init (of_nat ?now) s else s)"
  have millis: "millis_now lib t = (of_nat (clk (world t)), t)" for t
    by (simp add: millis_now_def cl(1))
  obtain k where k: "init s1 = of_nat k" "k \<le> ?now" "\<forall>t \<in> set ts. t \<le> k"
  proof (cases "init s = - 1")
    case True
    have "(of_nat j :: u64) \<noteq> - 1" if "j \<le> ?now" for j
      by (rule stamp_facts(1) [OF le_less_trans [OF that cl(2)]])
    with st True have "ts = []" unfolding stamped_def by metis
    with True that [of ?now] show ?thesis by (simp add: s1_def init_set)
  next
    case False
    with st that show ?thesis by (auto simp: s1_def stamped_def)
  qed
  have s1: "world s1 = world s" "calls s1 = calls s" "agent_state s1 = agent_state s"
    by (simp_all add: s1_def set_frame)
  have "sint (of_nat ?now - init s1) = int ?now - int k"
    unfolding k(1) by (rule stamp_facts(2) [OF cl(2) k(2)])
  moreover have "int ms < int ?now - int k \<longleftrightarrow> ms + k < ?now" by linarith
  moreover have "EXECUTE_EVERY_N_MS lib init set_init (int ms) body s =
      (if int ms < sint (of_nat (clk (world s1)) - init s1)
       then set_init (of_nat (clk (world (body s1)))) (body s1) else s1)"
    by (simp only: EXECUTE_EVERY_N_MS_def millis s1_def Let_def prod.case)
  ultimately show thesis by (intro that [OF _ s1 k]) (simp only: s1(1))
qed

text \<open>The statement is a ping in state \<open>a\<close>: the static of the expansion, the new pings, and the state.\<close>

lemma every_ping:
  assumes c: "steady_client lib clk" and a: "agent_state s = a"
    and st: "stamped (clk (world s)) (init s) (ping_times clk a (calls s))"
    and sp: "spaced ms (ping_times clk a (calls s))"
    and s'_def: "s' = EXECUTE_EVERY_N_MS lib init set_init (int ms) (ping lib up down) s"
  shows "stamped (clk (world s')) (init s') (ping_times clk a (calls s')) \<and>
    spaced ms (ping_times clk a (calls s')) \<and>
    (\<forall>b. b \<noteq> a \<longrightarrow> ping_times clk b (calls s') = ping_times clk b (calls s)) \<and>
    clk (world s) \<le> clk (world s')"
proof -
  let ?ts = "ping_times clk a (calls s)" and ?now = "clk (world s)"
  obtain s1 k where s': "s' = (if ms + k < ?now
      then set_init (of_nat (clk (world (ping lib up down s1)))) (ping lib up down s1) else s1)"
    and s1: "world s1 = world s" "calls s1 = calls s" "agent_state s1 = agent_state s"
    and k: "init s1 = of_nat k" "k \<le> ?now" "\<forall>t \<in> set ?ts. t \<le> k"
    unfolding s'_def by (rule every_step [OF c st])
  show ?thesis
  proof (cases "ms + k < ?now")
    case False
    with s' s1 k show ?thesis using sp by (auto simp: stamped_def)
  next
    case True
    let ?p = "ping lib up down s1" and ?q = "rmw_uros_ping_agent 100 1"
    have p: "world ?p = snd (call lib ?q (world s))"
      "calls ?p = calls s @ [(a, ?q, fst (call lib ?q (world s)), world s)]"
      by (simp_all add: ping_def invoke_eq s1 a calls_perform)
    have "?now \<le> clk (world ?p)" unfolding p by (rule steady_clientD(3) [OF c])
    moreover have "\<forall>t \<in> set ?ts. t \<le> clk (world ?p)" using k(2,3) calculation by force
    moreover have "\<forall>t \<in> set ?ts. t + ms < ?now" using k(3) True by force
    ultimately show ?thesis
      using True s' p spaced_snoc [OF sp, of ?now]
      by (auto simp: stamped_def ping_times_append set_frame init_set)
  qed
qed

end

definition timed :: "('w \<Rightarrow> nat) \<Rightarrow> 'w sketch \<Rightarrow> bool" where
  "timed clk s \<longleftrightarrow>
     stamped (clk (world s)) (waiting_init s) (ping_times clk WAITING_AGENT (calls s)) \<and>
     stamped (clk (world s)) (connected_init s) (ping_times clk AGENT_CONNECTED (calls s)) \<and>
     spaced 500 (ping_times clk WAITING_AGENT (calls s)) \<and>
     spaced 200 (ping_times clk AGENT_CONNECTED (calls s))"

lemma timed_quiet: "timed clk s \<Longrightarrow> quiet clk s s' \<Longrightarrow> timed clk s'"
  by (auto simp: timed_def quiet_def intro: stamped_later)

lemma waiting_keeps_connected_init:
  "connected_init (EXECUTE_EVERY_N_MS lib waiting_init (\<lambda>t. waiting_init_update (\<lambda>_. t)) ms (ping lib up down) s)
     = connected_init s"
  by (simp add: EXECUTE_EVERY_N_MS_def millis_now_def ping_def invoke_eq split_def Let_def)

lemma connected_keeps_waiting_init:
  "waiting_init (EXECUTE_EVERY_N_MS lib connected_init (\<lambda>t. connected_init_update (\<lambda>_. t)) ms (ping lib up down) s)
     = waiting_init s"
  by (simp add: EXECUTE_EVERY_N_MS_def millis_now_def ping_def invoke_eq split_def Let_def)

lemma timed_switch:
  assumes c: "steady_client lib clk" and t: "timed clk s"
  shows "timed clk (loop_switch lib s) \<and> clk (world s) \<le> clk (world (loop_switch lib s))"
proof (cases "agent_state s")
  case WAITING_AGENT
  from waiting.every_ping [OF c WAITING_AGENT _ _ refl, of 500] t WAITING_AGENT show ?thesis
    by (auto simp: loop_switch_def timed_def waiting_keeps_connected_init intro: stamped_later)
next
  case AGENT_CONNECTED
  from connected.every_ping [OF c AGENT_CONNECTED _ _ refl, of 200] t
  have 1: "timed clk (EXECUTE_EVERY_N_MS lib connected_init (\<lambda>t. connected_init_update (\<lambda>_. t)) 200
      (ping lib AGENT_CONNECTED AGENT_DISCONNECTED) s) \<and> clk (world s) \<le>
      clk (world (EXECUTE_EVERY_N_MS lib connected_init (\<lambda>t. connected_init_update (\<lambda>_. t)) 200
      (ping lib AGENT_CONNECTED AGENT_DISCONNECTED) s))"
    by (auto simp: timed_def connected_keeps_waiting_init intro: stamped_later)
  have "timed clk (spin_some lib u) \<and> clk (world u) \<le> clk (world (spin_some lib u))" if "timed clk u" for u
    using quiet_spin [OF c quiet_refl, of u] timed_quiet [OF that] by (auto simp: quiet_def)
  with 1 AGENT_CONNECTED show ?thesis by (auto simp: loop_switch_def Let_def intro: le_trans)
next
  case AGENT_AVAILABLE
  have "quiet clk s (loop_switch lib s)"
    using AGENT_AVAILABLE quiet_create [OF c quiet_refl, of s]
    by (simp add: loop_switch_def split_def Let_def quiet_destroy [OF c] quiet_frame)
  with timed_quiet [OF t] show ?thesis by (simp add: quiet_def)
next
  case AGENT_DISCONNECTED
  have "quiet clk s (loop_switch lib s)"
    using AGENT_DISCONNECTED
    by (simp add: loop_switch_def quiet_destroy [OF c quiet_refl] quiet_frame)
  with timed_quiet [OF t] show ?thesis by (simp add: quiet_def)
qed

lemma timed_loop:
  "steady_client lib clk \<Longrightarrow> timed clk s \<Longrightarrow>
   timed clk (sketch_loop lib s) \<and> clk (world s) \<le> clk (world (sketch_loop lib s))"
  using timed_switch [of lib clk s] by (simp add: sketch_loop_def Let_def timed_def)

lemma timed_world: "timed clk s \<Longrightarrow> clk (world s) \<le> clk w \<Longrightarrow> timed clk (s\<lparr>world := w\<rparr>)"
  by (auto simp: timed_def intro: stamped_later)

lemma reachable_timed:
  assumes "steady_client lib clk" "\<And>w w'. later w w' \<Longrightarrow> clk w \<le> clk w'"
  shows "reachable lib later s \<Longrightarrow> timed clk s"
proof (induction rule: reachable.induct)
  case (start led0 w)
  show ?case by (simp add: sketch_setup_def timed_def stamped_def spaced_def perform_def invoke_def split_def Let_def)
next
  case (turn s w)
  have "timed clk (s\<lparr>world := w\<rparr>)"
    using turn.IH assms(2) [OF turn.hyps(2)] by (rule timed_world)
  then show ?case by (rule conjunct1 [OF timed_loop [OF assms(1)]])
qed

subsection \<open>Progress\<close>

context static_var
begin

lemma every_runs:
  assumes c: "steady_client lib clk" and i: "init s = of_nat k" and t: "k + ms < clk (world s)"
  shows "agent_state (EXECUTE_EVERY_N_MS lib init set_init (int ms) (ping lib up down) s) =
    (if fst (call lib (rmw_uros_ping_agent 100 1) (world s)) = RMW_RET_OK then up else down)"
proof -
  note cl = steady_clientD [OF c]
  have "k < 2 ^ 63" using t cl(2) [of "world s"] by linarith
  then have "init s \<noteq> - 1" unfolding i by (rule stamp_facts(1))
  moreover have "int ms < sint (of_nat (clk (world s)) - init s)"
    using t stamp_facts(2) [OF cl(2), of k "world s"] i by simp
  ultimately show ?thesis
    by (simp add: EXECUTE_EVERY_N_MS_def millis_now_def cl(1) set_frame Let_def)
qed

lemma every_waits:
  assumes c: "steady_client lib clk" and i: "init s = - 1"
  shows "EXECUTE_EVERY_N_MS lib init set_init (int ms) X s = set_init (of_nat (clk (world s))) s"
  using stamp_facts(2) [OF steady_clientD(2) [OF c], of "clk (world s)" "world s"]
  by (simp add: EXECUTE_EVERY_N_MS_def millis_now_def steady_clientD(1) [OF c] i set_frame init_set Let_def)

end

text \<open>A run whose iterations start in the given worlds; each starts more than 500 ms after the
  one before it ended.\<close>

fun sketch_run :: "'w client \<Rightarrow> 'w list \<Rightarrow> 'w sketch \<Rightarrow> 'w sketch" where
  "sketch_run lib [] s = s"
| "sketch_run lib (w # ws) s = sketch_run lib ws (sketch_loop lib (s\<lparr>world := w\<rparr>))"

fun paced :: "'w client \<Rightarrow> ('w \<Rightarrow> nat) \<Rightarrow> 'w list \<Rightarrow> 'w sketch \<Rightarrow> bool" where
  "paced lib clk [] s \<longleftrightarrow> True"
| "paced lib clk (w # ws) s \<longleftrightarrow>
     clk (world s) + 500 < clk w \<and> paced lib clk ws (sketch_loop lib (s\<lparr>world := w\<rparr>))"

definition agent_up :: "'w client \<Rightarrow> bool" where
  "agent_up lib \<longleftrightarrow> (\<forall>c w. fst (call lib c w) = 0)"

definition distance :: "'w sketch \<Rightarrow> nat" where
  "distance s = (case agent_state s of AGENT_CONNECTED \<Rightarrow> 0 | AGENT_AVAILABLE \<Rightarrow> 1
     | WAITING_AGENT \<Rightarrow> if waiting_init s = - 1 then 3 else 2 | AGENT_DISCONNECTED \<Rightarrow> 4)"

lemma loop_agent_state: "agent_state (sketch_loop lib s) = agent_state (loop_switch lib s)"
  "waiting_init (sketch_loop lib s) = waiting_init (loop_switch lib s)"
  by (simp_all add: sketch_loop_def Let_def)

lemma distance_decreases:
  assumes c: "steady_client lib clk" and up: "agent_up lib" and t: "timed clk s"
    and w: "clk (world s) + 500 < clk w"
  shows "distance (sketch_loop lib (s\<lparr>world := w\<rparr>)) \<le> distance s - 1"
proof (cases "agent_state s")
  case WAITING_AGENT
  show ?thesis
  proof (cases "waiting_init s = - 1")
    case True
    then have "loop_switch lib (s\<lparr>world := w\<rparr>) = s\<lparr>world := w, waiting_init := of_nat (clk w)\<rparr>"
      using WAITING_AGENT waiting.every_waits [OF c, of "s\<lparr>world := w\<rparr>" 500]
      by (simp add: loop_switch_def)
    then show ?thesis
      using True WAITING_AGENT stamp_facts(1) [OF steady_clientD(2) [OF c]]
      by (simp add: distance_def loop_agent_state)
  next
    case False
    with t WAITING_AGENT obtain k where "waiting_init s = of_nat k" "k \<le> clk (world s)"
      by (auto simp: timed_def stamped_def)
    then have "agent_state (loop_switch lib (s\<lparr>world := w\<rparr>)) = AGENT_AVAILABLE"
      using waiting.every_runs [OF c, of "s\<lparr>world := w\<rparr>" k 500] w WAITING_AGENT up
      by (simp add: loop_switch_def agent_up_def ret_codes)
    with False WAITING_AGENT show ?thesis by (simp add: distance_def loop_agent_state)
  qed
next
  case AGENT_AVAILABLE
  have "fst (create_entities lib s)" for s
    using up by (simp add: create_entities_def RCCHECK_eq agent_up_def ret_codes Let_def)
  then have "agent_state (loop_switch lib (s\<lparr>world := w\<rparr>)) = AGENT_CONNECTED"
    using AGENT_AVAILABLE by (simp add: loop_switch_def split_def Let_def)
  with AGENT_AVAILABLE show ?thesis by (simp add: distance_def loop_agent_state)
next
  case AGENT_CONNECTED
  let ?s = "s\<lparr>world := w\<rparr>"
  let ?e = "EXECUTE_EVERY_N_MS lib connected_init (\<lambda>t. connected_init_update (\<lambda>_. t)) 200
      (ping lib AGENT_CONNECTED AGENT_DISCONNECTED) ?s"
  obtain s2 where "agent_state s2 = agent_state ?s" "calls s2 = calls ?s"
    "agent_state ?e = agent_state s2 \<and> calls ?e = calls s2 \<or>
     agent_state ?e = agent_state (ping lib AGENT_CONNECTED AGENT_DISCONNECTED s2) \<and>
     calls ?e = calls (ping lib AGENT_CONNECTED AGENT_DISCONNECTED s2)"
    by (rule connected.every_effect)
  then have "agent_state ?e = AGENT_CONNECTED"
    using AGENT_CONNECTED up by (auto simp: agent_up_def ret_codes)
  then have "agent_state (loop_switch lib ?s) = AGENT_CONNECTED"
    using AGENT_CONNECTED by (simp add: loop_switch_def spin_some_def timer_callback_def Let_def)
  then show ?thesis by (simp add: distance_def loop_agent_state)
next
  case AGENT_DISCONNECTED
  then have "agent_state (loop_switch lib (s\<lparr>world := w\<rparr>)) = WAITING_AGENT"
    by (simp add: loop_switch_def)
  with AGENT_DISCONNECTED show ?thesis by (simp add: distance_def loop_agent_state)
qed

lemma run_connects:
  assumes c: "steady_client lib clk" and up: "agent_up lib"
  shows "timed clk s \<Longrightarrow> well_formed s \<Longrightarrow> paced lib clk ws s \<Longrightarrow>
    distance (sketch_run lib ws s) \<le> distance s - length ws \<and> well_formed (sketch_run lib ws s)"
proof (induction ws arbitrary: s)
  case (Cons w ws)
  let ?s = "sketch_loop lib (s\<lparr>world := w\<rparr>)"
  have w: "clk (world s) + 500 < clk w" "paced lib clk ws ?s" using Cons.prems(3) by simp_all
  have "timed clk (s\<lparr>world := w\<rparr>)" using Cons.prems(1) w(1) by (intro timed_world) simp_all
  then have "timed clk ?s" using timed_loop [OF c] by blast
  moreover have "well_formed ?s" using Cons.prems(2) by (simp add: loop_step)
  ultimately have "distance (sketch_run lib ws ?s) \<le> distance ?s - length ws \<and>
      well_formed (sketch_run lib ws ?s)"
    using w(2) by (intro Cons.IH)
  with distance_decreases [OF c up Cons.prems(1) w(1)] show ?case by auto
qed simp

lemma run_led: "ws \<noteq> [] \<Longrightarrow> led (sketch_run lib ws s) = (agent_state (sketch_run lib ws s) = AGENT_CONNECTED)"
proof (induction ws arbitrary: s)
  case (Cons w ws)
  then show ?case by (cases ws) (simp_all add: sketch_loop_def Let_def)
qed simp

subsection \<open>Properties\<close>

text \<open>C1. The sketch implements the connection machine: seen through the state and the entities
  that are live, every iteration of a run is one of its seven steps. So entities exist exactly
  while connected and until a lost connection is torn down, creation is all or nothing, and the
  machine waits again only after everything was finalised.\<close>

theorem sketch_refines_connection_machine:
  assumes "reachable lib later s"
  shows "agent_step (abstract s) (abstract (sketch_loop lib (s\<lparr>world := w\<rparr>)))"
  using loop_step(2) [of "s\<lparr>world := w\<rparr>" lib] reachable_well_formed [OF assms] by simp

text \<open>A client for the witnesses: the world is the time, capped, and every call succeeds at once.\<close>

definition ready_client :: "nat client" where
  "ready_client = \<lparr>call = (\<lambda>c w. (0, w)), uxr_millis = (\<lambda>w. (of_nat (min w 1000000), w)),
     timer_ready = (\<lambda>w. True)\<rparr>"

theorem sketch_refines_connection_machine_witness:
  "agent_step (WAITING_AGENT, {}) (abstract (sketch_loop ready_client (sketch_setup ready_client False 3\<lparr>world := 9\<rparr>)))"
  using sketch_refines_connection_machine [OF reachable.start [of ready_client "(\<le>)" False 3], of 9]
  by (simp add: abstract_def sketch_setup_def entities_def perform_def invoke_def split_def Let_def)

text \<open>C11. In every run no entity is initialised while it is live, the executor spins and the
  publisher publishes only while all five entities are live, and after each iteration the LED is
  on exactly when the agent is connected.\<close>

theorem calls_are_disciplined:
  assumes "reachable lib later s"
  shows "disciplined (calls (sketch_loop lib (s\<lparr>world := w\<rparr>))) {} \<and>
    led (sketch_loop lib (s\<lparr>world := w\<rparr>)) =
      (agent_state (sketch_loop lib (s\<lparr>world := w\<rparr>)) = AGENT_CONNECTED)"
  using loop_step(1) [of "s\<lparr>world := w\<rparr>" lib] reachable_well_formed [OF assms]
  by (simp add: well_formed_def sketch_loop_def Let_def)

theorem calls_are_disciplined_witness:
  "led (sketch_loop ready_client (sketch_setup ready_client True 3\<lparr>world := 9\<rparr>)) =
     (agent_state (sketch_loop ready_client (sketch_setup ready_client True 3\<lparr>world := 9\<rparr>)) = AGENT_CONNECTED)"
  using calls_are_disciplined [OF reachable.start [of ready_client "(\<le>)" True 3], of 9] by simp

text \<open>C17. The agent is never flooded with pings: in a run, two pings of the waiting state are more
  than 500 ms apart and two of the connected state more than 200 ms, whatever happened between
  them, however long the calls took and however often the loop ran.\<close>

theorem pings_are_spaced:
  assumes "steady_client lib clk" "\<And>w w'. later w w' \<Longrightarrow> clk w \<le> clk w'" "reachable lib later s"
  shows "successively (\<lambda>a b. a + 500 < b) (ping_times clk WAITING_AGENT (calls s)) \<and>
    successively (\<lambda>a b. a + 200 < b) (ping_times clk AGENT_CONNECTED (calls s))"
  using reachable_timed [OF assms] by (simp add: timed_def spaced_def)

lemma ready_steady: "steady_client ready_client (\<lambda>w. min w 1000000)"
  by (auto simp: steady_client_def ready_client_def min_def intro: le_less_trans [of _ 1000000])

theorem pings_are_spaced_witness:
  "successively (\<lambda>a b. a + 500 < b) (ping_times (\<lambda>w. min w 1000000) WAITING_AGENT
     (calls (sketch_loop ready_client (sketch_setup ready_client False 3\<lparr>world := 900\<rparr>))))"
  using pings_are_spaced [OF ready_steady _ reachable.turn [OF reachable.start, of "(\<le>)" ready_client False 3 900]]
  by (simp add: sketch_setup_def perform_def invoke_def ready_client_def split_def Let_def min_def)

text \<open>C3. Reconnection: from any state a run can reach, once the agent answers and the calls
  succeed, four iterations more than 500 ms apart are enough to be connected, with the five
  entities live and the LED on, and it stays so as long as the agent does.\<close>

theorem sketch_reconnects:
  assumes "steady_client lib clk" "\<And>w w'. later w w' \<Longrightarrow> clk w \<le> clk w'" "reachable lib later s"
    and "agent_up lib" "paced lib clk ws s" "4 \<le> length ws"
  shows "agent_state (sketch_run lib ws s) = AGENT_CONNECTED \<and> entities (sketch_run lib ws s) = UNIV \<and>
    led (sketch_run lib ws s)"
proof -
  have "distance s \<le> 4" by (simp add: distance_def split: states.split)
  moreover have r: "distance (sketch_run lib ws s) \<le> distance s - length ws"
    "well_formed (sketch_run lib ws s)"
    using run_connects [OF assms(1,4) reachable_timed [OF assms(1-3)]
        reachable_well_formed [OF assms(3)] assms(5)] by simp_all
  ultimately have "distance (sketch_run lib ws s) = 0" using assms(6) by simp
  then have "agent_state (sketch_run lib ws s) = AGENT_CONNECTED"
    by (simp add: distance_def split: states.splits if_splits)
  moreover have "ws \<noteq> []" using assms(6) by auto
  ultimately show ?thesis using r(2) run_led [of ws lib s] by (auto simp: well_formed_def)
qed

lemma ready_world [simp]: "world (sketch_loop ready_client s) = world s"
  by (simp add: sketch_loop_def loop_switch_def create_entities_def destroy_entities_def spin_some_def
      timer_callback_def EXECUTE_EVERY_N_MS_def RCCHECK_def ping_def perform_def invoke_def
      millis_now_def ready_client_def split_def Let_def split: states.split)

lemma ready_setup: "world (sketch_setup ready_client b w) = w"
  by (simp add: sketch_setup_def ready_client_def)

theorem sketch_reconnects_witness:
  "agent_state (sketch_run ready_client [1000, 2000, 3000, 4000] (sketch_setup ready_client False 3)) =
     AGENT_CONNECTED"
proof -
  have mono: "w \<le> w' \<Longrightarrow> min w 1000000 \<le> min w' 1000000" for w w' :: nat by simp
  have up: "agent_up ready_client" by (simp add: agent_up_def ready_client_def)
  have p: "paced ready_client (\<lambda>w. min w 1000000) [1000, 2000, 3000, 4000] (sketch_setup ready_client False 3)"
    by (simp add: ready_setup)
  show ?thesis
    using sketch_reconnects [where later = "(\<le>)", OF ready_steady mono reachable.start up p] by simp
qed

text \<open>The calls of an attempt to create the entities, with a mark at those RCCHECK checks, and of
  the tear-down.\<close>

definition creation_steps :: "(bool \<times> api) list" where
  "creation_steps = [(False, rcl_get_default_allocator), (True, rclc_support_init),
     (True, rclc_node_init_default ''int32_publisher_rclc'' []),
     (True, rclc_publisher_init_best_effort ''std_msgs_msg_Int32''),
     (True, rclc_timer_init_default (RCL_MS_TO_NS 1000)),
     (False, rclc_executor_get_zero_initialized_executor),
     (True, rclc_executor_init 1), (True, rclc_executor_add_timer)]"

definition destroy_calls :: "api list" where
  "destroy_calls = [rcl_context_get_rmw_context, rmw_uros_set_context_entity_destroy_session_timeout 0,
     rcl_publisher_fini, rcl_timer_fini, rclc_executor_fini, rcl_node_fini, rclc_support_fini]"

definition made :: "'w call_log \<Rightarrow> api list" where
  "made cs = map (fst \<circ> snd) cs"

definition code_of :: "states \<times> api \<times> int \<times> 'w \<Rightarrow> int" where
  "code_of e = fst (snd (snd e))"

fun attempt :: "'w client \<Rightarrow> (bool \<times> api) list \<Rightarrow> 'w sketch \<Rightarrow> bool \<times> 'w sketch" where
  "attempt lib [] s = (True, s)"
| "attempt lib ((checked, c) # cs) s =
     (if checked \<and> fst (call lib c (world s)) \<noteq> RCL_RET_OK then (False, perform lib c s)
      else attempt lib cs (perform lib c s))"

lemma create_entities_attempt: "create_entities lib s = attempt lib creation_steps s"
  by (simp add: create_entities_def creation_steps_def RCCHECK_eq Let_def)

text \<open>The log of an attempt: the steps up to and with the first checked one that fails.\<close>

fun logged :: "(bool \<times> api) list \<Rightarrow> bool \<Rightarrow> 'w call_log \<Rightarrow> bool" where
  "logged [] ok es \<longleftrightarrow> ok \<and> es = []"
| "logged ((checked, c) # cs) ok [] \<longleftrightarrow> False"
| "logged ((checked, c) # cs) ok (e # es) \<longleftrightarrow> fst (snd e) = c \<and>
     (if checked \<and> code_of e \<noteq> RCL_RET_OK then \<not> ok \<and> es = [] else logged cs ok es)"

lemma attempt_logged:
  "\<exists>es. calls (snd (attempt lib cs s)) = calls s @ es \<and> logged cs (fst (attempt lib cs s)) es"
proof (induction cs arbitrary: s)
  case (Cons step cs)
  obtain checked c where step: "step = (checked, c)" by (cases step)
  let ?e = "(agent_state s, c, fst (call lib c (world s)), world s)"
  obtain es where es: "calls (snd (attempt lib cs (perform lib c s))) = calls s @ [?e] @ es"
    "logged cs (fst (attempt lib cs (perform lib c s))) es"
    using Cons.IH [of "perform lib c s"] by (auto simp: calls_perform)
  show ?case
  proof (cases "checked \<and> fst (call lib c (world s)) \<noteq> RCL_RET_OK")
    case True
    then show ?thesis by (intro exI [of _ "[?e]"]) (auto simp: step calls_perform code_of_def)
  next
    case False
    with es show ?thesis by (intro exI [of _ "?e # es"]) (auto simp: step code_of_def)
  qed
qed simp

lemma destroy_log: "\<exists>es. calls (destroy_entities lib s) = calls s @ es \<and> made es = destroy_calls"
  by (simp add: destroy_entities_def Let_def calls_perform made_def destroy_calls_def)

text \<open>C27. An attempt to connect makes the creation calls in order and stops at the first checked one
  that fails. If none does the sketch is connected; otherwise it makes all the calls of the
  tear-down in the same iteration, for entities this attempt never reached too, and waits again.\<close>

theorem creation_stops_at_first_failure:
  assumes "agent_state s = AGENT_AVAILABLE"
  shows "\<exists>ok new torn. calls (sketch_loop lib s) = calls s @ new @ torn \<and> logged creation_steps ok new \<and>
    made torn = (if ok then [] else destroy_calls) \<and>
    agent_state (sketch_loop lib s) = (if ok then AGENT_CONNECTED else WAITING_AGENT)"
proof -
  define ok s1 where "ok = fst (create_entities lib s)" and "s1 = snd (create_entities lib s)"
  let ?s2 = "s1\<lparr>agent_state := WAITING_AGENT\<rparr>"
  obtain es where es: "calls s1 = calls s @ es" "logged creation_steps ok es"
    using attempt_logged [of lib creation_steps s]
    unfolding ok_def s1_def create_entities_attempt by blast
  obtain ds where ds: "calls (destroy_entities lib ?s2) = calls s1 @ ds" "made ds = destroy_calls"
    using destroy_log [of lib ?s2] by auto
  have sw: "loop_switch lib s = (if ok then s1\<lparr>agent_state := AGENT_CONNECTED\<rparr> else destroy_entities lib ?s2)"
    using assms by (simp add: loop_switch_def ok_def s1_def split_def Let_def)
  show ?thesis
    using es ds by (intro exI [of _ ok] exI [of _ es] exI [of _ "if ok then [] else ds"])
      (simp add: sketch_loop_def sw Let_def made_def destroy_effect)
qed

theorem creation_stops_at_first_failure_witness:
  "\<exists>ok new torn. calls (sketch_loop ready_client
       (sketch_setup ready_client False 3\<lparr>agent_state := AGENT_AVAILABLE\<rparr>)) =
     [(WAITING_AGENT, set_microros_transports, 0, 3), (WAITING_AGENT, pinMode, 0, 3)] @ new @ torn \<and> logged creation_steps ok new"
  using creation_stops_at_first_failure
    [of "sketch_setup ready_client False 3\<lparr>agent_state := AGENT_AVAILABLE\<rparr>" ready_client]
  by (auto simp: sketch_setup_def calls_perform ready_client_def)

text \<open>C6. A connection is given up only after a ping that was not answered: if an iteration of a run
  leaves the connected state it makes exactly one call, a ping, whose code is not OK, and ends
  in the disconnected state with all entities still live for the tear-down.\<close>

theorem connection_lost_only_by_ping:
  assumes "reachable lib later s" "agent_state s = AGENT_CONNECTED"
    and "agent_state (sketch_loop lib (s\<lparr>world := w\<rparr>)) \<noteq> AGENT_CONNECTED"
  shows "\<exists>rc w'. calls (sketch_loop lib (s\<lparr>world := w\<rparr>)) =
      calls s @ [(AGENT_CONNECTED, rmw_uros_ping_agent 100 1, rc, w')] \<and> rc \<noteq> RMW_RET_OK \<and>
    abstract (sketch_loop lib (s\<lparr>world := w\<rparr>)) = (AGENT_DISCONNECTED, UNIV)"
proof -
  let ?s = "s\<lparr>world := w\<rparr>"
  let ?e = "EXECUTE_EVERY_N_MS lib connected_init (\<lambda>t. connected_init_update (\<lambda>_. t)) 200
      (ping lib AGENT_CONNECTED AGENT_DISCONNECTED) ?s"
  have step: "agent_step (abstract s) (abstract (sketch_loop lib ?s))"
    using loop_step(2) [of ?s lib] reachable_well_formed [OF assms(1)] by simp
  have abs: "abstract (sketch_loop lib ?s) = (AGENT_DISCONNECTED, UNIV)"
    using step assms(2,3) unfolding abstract_def by (auto elim: agent_step_from_connectedE)
  have sw: "loop_switch lib ?s = (if agent_state ?e = AGENT_CONNECTED then spin_some lib ?e else ?e)"
    using assms(2) by (simp add: loop_switch_def Let_def)
  have "agent_state (spin_some lib t) = agent_state t" for t
    by (simp add: spin_some_def timer_callback_def Let_def)
  with sw assms(3) have e: "agent_state ?e \<noteq> AGENT_CONNECTED" "loop_switch lib ?s = ?e"
    by (auto simp: loop_agent_state split: if_splits)
  obtain s2 where s2: "agent_state s2 = agent_state ?s" "calls s2 = calls ?s"
    "agent_state ?e = agent_state s2 \<and> calls ?e = calls s2 \<or>
     agent_state ?e = agent_state (ping lib AGENT_CONNECTED AGENT_DISCONNECTED s2) \<and>
     calls ?e = calls (ping lib AGENT_CONNECTED AGENT_DISCONNECTED s2)"
    by (rule connected.every_effect)
  with e assms(2) have "calls ?e = calls (perform lib (rmw_uros_ping_agent 100 1) s2)"
    "fst (call lib (rmw_uros_ping_agent 100 1) (world s2)) \<noteq> RMW_RET_OK"
    by (auto split: if_splits)
  then show ?thesis
    using s2(1,2) assms(2) abs e(2) by (simp add: calls_perform sketch_loop_def Let_def)
qed

text \<open>A client whose agent is lost for good once the time reaches 5000.\<close>

definition losing_client :: "nat client" where
  "losing_client = ready_client\<lparr>call := \<lambda>c w. (if is_ping c \<and> 5000 \<le> w then 1 else 0, w)\<rparr>"

lemma losing_steady: "steady_client losing_client (\<lambda>w. min w 1000000)"
  using ready_steady by (simp add: steady_client_def losing_client_def ready_client_def)

lemma losing_call:
  "fst (call losing_client c w) = (if is_ping c \<and> 5000 \<le> w then 1 else 0)"
  by (simp add: losing_client_def)

lemma reachable_run:
  "reachable lib (\<lambda>_ _. True) s \<Longrightarrow> reachable lib (\<lambda>_ _. True) (sketch_run lib ws s)"
  by (induction ws arbitrary: s) (simp_all add: reachable.turn)

text \<open>Its run up to the loss, one iteration a second: the state and the static that matter next.\<close>

lemma losing_run:
  defines "L \<equiv> losing_client"
  defines "t1 \<equiv> sketch_loop L (sketch_setup L False 0\<lparr>world := 1000\<rparr>)"
  defines "t2 \<equiv> sketch_loop L (t1\<lparr>world := 2000\<rparr>)"
  defines "t3 \<equiv> sketch_loop L (t2\<lparr>world := 3000\<rparr>)"
  defines "t4 \<equiv> sketch_loop L (t3\<lparr>world := 4000\<rparr>)"
  shows "agent_state t4 = AGENT_CONNECTED" and "connected_init t4 = of_nat 4000"
proof -
  note c = losing_steady [folded L_def]
  have ci: "connected_init (sketch_loop L s) = connected_init (loop_switch L s)" for s
    by (simp add: sketch_loop_def Let_def)
  have "loop_switch L (sketch_setup L False 0\<lparr>world := 1000\<rparr>) =
      sketch_setup L False 0\<lparr>world := 1000, waiting_init := of_nat 1000\<rparr>"
    using waiting.every_waits [OF c, of "sketch_setup L False 0\<lparr>world := 1000\<rparr>" 500]
    by (simp add: loop_switch_def sketch_setup_def)
  then have 1: "agent_state t1 = WAITING_AGENT" "waiting_init t1 = of_nat 1000" "connected_init t1 = - 1"
    by (simp_all add: t1_def loop_agent_state ci) (simp_all add: sketch_setup_def)
  have 2: "agent_state t2 = AGENT_AVAILABLE" "connected_init t2 = - 1"
    using 1 waiting.every_runs [OF c, of "t1\<lparr>world := 2000\<rparr>" 1000 500 AGENT_AVAILABLE WAITING_AGENT]
    by (simp_all add: t2_def loop_agent_state ci loop_switch_def waiting_keeps_connected_init)
      (simp add: L_def losing_call ret_codes)
  have "fst (create_entities L s)" for s
    by (simp add: create_entities_def RCCHECK_eq L_def losing_call ret_codes Let_def)
  moreover have "connected_init (snd (create_entities L s)) = connected_init s" for s
    using quiet_create [OF c quiet_refl, of s] by (simp add: quiet_def)
  ultimately have 3: "agent_state t3 = AGENT_CONNECTED" "connected_init t3 = - 1"
    using 2 by (simp_all add: t3_def loop_agent_state ci loop_switch_def split_def Let_def)
  have 4: "loop_switch L (t3\<lparr>world := 4000\<rparr>) = spin_some L (t3\<lparr>world := 4000, connected_init := of_nat 4000\<rparr>)"
    using 3 connected.every_waits [OF c, of "t3\<lparr>world := 4000\<rparr>" 200] by (simp add: loop_switch_def)
  show "agent_state t4 = AGENT_CONNECTED" "connected_init t4 = of_nat 4000"
    using 3(1) by (simp_all add: t4_def loop_agent_state ci 4 spin_some_def timer_callback_def Let_def)
qed

theorem connection_lost_only_by_ping_witness:
  "abstract (sketch_loop losing_client
     (sketch_run losing_client [1000, 2000, 3000, 4000] (sketch_setup losing_client False 0)\<lparr>world := 6000\<rparr>)) =
     (AGENT_DISCONNECTED, UNIV)"
proof -
  let ?s = "sketch_run losing_client [1000, 2000, 3000, 4000] (sketch_setup losing_client False 0)"
  have r: "reachable losing_client (\<lambda>_ _. True) ?s" by (intro reachable_run reachable.start)
  have s: "agent_state ?s = AGENT_CONNECTED" "connected_init ?s = of_nat 4000"
    using losing_run by simp_all
  have "agent_state (sketch_loop losing_client (?s\<lparr>world := 6000\<rparr>)) \<noteq> AGENT_CONNECTED"
    using s connected.every_runs [OF losing_steady, of "?s\<lparr>world := 6000\<rparr>" 4000 200 AGENT_CONNECTED AGENT_DISCONNECTED]
    by (simp add: loop_agent_state loop_switch_def Let_def losing_call ret_codes)
  then show ?thesis using connection_lost_only_by_ping [OF r s(1)] by blast
qed
end
