(* ===== verification/Sketch_Runtime.thy ===== *)
theory Sketch_Runtime
  imports Rcl_Basics Arduino_Transport
begin

text \<open>
  What the sketches under \<^verbatim>\<open>examples/\<close> have in common: the pins of the board, the calls to the client
  library, the macros \<open>RCCHECK\<close> and \<open>RCSOFTCHECK\<close>, and the loops that never end. The Arduino core
  and the client library are not part of the repository: they are the records \<open>arduino\<close> and
  \<open>library\<close> of operations on an arbitrary world. A sketch keeps, beside its variables, the log of
  the calls it made and their codes.
\<close>

subsection \<open>Board and library\<close>

record 'w arduino =
  net :: "'w network"
  pinMode_output :: "nat \<Rightarrow> 'w \<Rightarrow> 'w"
  digitalWrite :: "nat \<Rightarrow> bool \<Rightarrow> 'w \<Rightarrow> 'w"
  digitalRead :: "nat \<Rightarrow> 'w \<Rightarrow> bool"

text \<open>The calls, with the arguments that are not handles: the type support and the name of a topic or
  service, the period of a timer in nanoseconds, the number of handles of an executor, the
  message.\<close>

datatype 'm call =
    Get_default_allocator
  | Support_init
  | Node_init_default string string
  | Publisher_init_default string string
  | Publisher_init_best_effort string string
  | Subscription_init_default string string
  | Service_init_default string string
  | Timer_init_default u64
  | Executor_init nat
  | Executor_add_timer
  | Executor_add_subscription
  | Executor_add_service
  | Executor_spin_some u64
  | Sync_session int
  | Publish 'm

text \<open>\<open>timer_ready\<close> and \<open>taken\<close> say what the executor finds when it spins: whether the timer has
  elapsed, and the message it took from the subscription or service.\<close>

record ('w, 'm) library =
  call :: "'m call \<Rightarrow> 'w \<Rightarrow> int \<times> 'w"
  timer_ready :: "'w \<Rightarrow> bool"
  taken :: "'w \<Rightarrow> 'm option"

record ('w, 'm) board =
  world :: 'w
  calls :: "('m call \<times> int) list"

definition LED_PIN :: nat where
  "LED_PIN = 13"

definition delay_ms :: "'w arduino \<Rightarrow> u32 \<Rightarrow> 'w \<Rightarrow> 'w" where
  "delay_ms ard = net_delay (net ard)"

definition at_world :: "('w \<Rightarrow> 'w) \<Rightarrow> ('w, 'm, 'a) board_scheme \<Rightarrow> ('w, 'm, 'a) board_scheme" where
  "at_world f s = s\<lparr>world := f (world s)\<rparr>"

definition invoke ::
  "('w, 'm) library \<Rightarrow> 'm call \<Rightarrow> ('w, 'm, 'a) board_scheme \<Rightarrow> int \<times> ('w, 'm, 'a) board_scheme" where
  "invoke lib c s =
     (let (rc, w) = call lib c (world s) in (rc, s\<lparr>world := w, calls := calls s @ [(c, rc)]\<rparr>))"

subsection \<open>Loops that never end\<close>

text \<open>\<open>Running s\<close>: still in a loop \<open>while(1)\<close>, after as many iterations as were asked for.\<close>

datatype 's run = Finished 's | Running 's

primrec forever :: "('s \<Rightarrow> 's) \<Rightarrow> nat \<Rightarrow> 's \<Rightarrow> 's run" where
  "forever body 0 s = Running s"
| "forever body (Suc n) s = forever body n (body s)"

definition blink :: "'w arduino \<Rightarrow> nat \<Rightarrow> ('w, 'm, 'a) board_scheme \<Rightarrow> ('w, 'm, 'a) board_scheme" where
  "blink ard pin = at_world (\<lambda>w. delay_ms ard 100 (digitalWrite ard pin (\<not> digitalRead ard pin w) w))"

definition error_loop ::
  "'w arduino \<Rightarrow> nat \<Rightarrow> nat \<Rightarrow> ('w, 'm, 'a) board_scheme \<Rightarrow> ('w, 'm, 'a) board_scheme run" where
  "error_loop ard pin = forever (blink ard pin)"

subsection \<open>The macros\<close>

text \<open>\<open>RCCHECK\<close> with what follows it: \<open>on_error\<close> is \<open>error_loop()\<close>, or \<open>while(1){}\<close> in the service.\<close>

definition RCCHECK :: "('s \<Rightarrow> 's run) \<Rightarrow> ('s \<Rightarrow> int \<times> 's) \<Rightarrow> ('s \<Rightarrow> 's run) \<Rightarrow> 's \<Rightarrow> 's run" where
  "RCCHECK on_error fn rest s =
     (let (temp_rc, s') = fn s in if temp_rc \<noteq> RCL_RET_OK then on_error s' else rest s')"

definition RCSOFTCHECK :: "('s \<Rightarrow> int \<times> 's) \<Rightarrow> 's \<Rightarrow> 's" where
  "RCSOFTCHECK fn s = (let (temp_rc, s') = fn s in s')"

text \<open>A call whose result is not used, and a spin of the executor: it runs \<open>callbacks\<close> before it
  returns its code.\<close>

definition perform :: "('w, 'm) library \<Rightarrow> 'm call \<Rightarrow> ('w, 'm, 'a) board_scheme \<Rightarrow> ('w, 'm, 'a) board_scheme" where
  "perform lib c s = snd (invoke lib c s)"

definition spin_some ::
  "('w, 'm) library \<Rightarrow> u64 \<Rightarrow> (('w, 'm, 'a) board_scheme \<Rightarrow> ('w, 'm, 'a) board_scheme) \<Rightarrow>
   ('w, 'm, 'a) board_scheme \<Rightarrow> int \<times> ('w, 'm, 'a) board_scheme" where
  "spin_some lib ns callbacks s =
     (let (rc, s') = invoke lib (Executor_spin_some ns) s in (rc, callbacks s'))"

lemma forever_running: "forever body n s = Running ((body ^^ n) s)"
  by (induction n arbitrary: s) (simp_all add: funpow_swap1)

lemma invoke_simps:
  "fst (invoke lib c s) = fst (call lib c (world s))"
  "world (snd (invoke lib c s)) = snd (call lib c (world s))"
  "calls (snd (invoke lib c s)) = calls s @ [(c, fst (call lib c (world s)))]"
  by (simp_all add: invoke_def split_def Let_def)

lemma invoke_perform: "invoke lib c s = (fst (call lib c (world s)), perform lib c s)"
  by (simp add: perform_def invoke_def split_def Let_def)

lemma perform_simps [simp]:
  "world (perform lib c s) = snd (call lib c (world s))"
  "calls (perform lib c s) = calls s @ [(c, fst (call lib c (world s)))]"
  by (simp_all add: perform_def invoke_simps)

lemma RCSOFTCHECK_eq: "RCSOFTCHECK fn s = snd (fn s)"
  by (simp add: RCSOFTCHECK_def split_def Let_def)

lemma at_world_simps [simp]:
  "world (at_world f s) = f (world s)" "calls (at_world f s) = calls s"
  by (simp_all add: at_world_def)

subsection \<open>Calls checked one after the other\<close>

text \<open>The specification of a chain of checked calls: make them in order, stop after the first that
  fails. The result is the log, the world and whether all succeeded.\<close>

fun run_plan :: "('w, 'm) library \<Rightarrow> 'm call list \<Rightarrow> 'w \<Rightarrow> ('m call \<times> int) list \<times> 'w \<times> bool" where
  "run_plan lib [] w = ([], w, True)"
| "run_plan lib (c # cs) w =
     (let (rc, w1) = call lib c w
      in if rc \<noteq> RCL_RET_OK then ([(c, rc)], w1, False)
         else (let (log, w2, ok) = run_plan lib cs w1 in ((c, rc) # log, w2, ok)))"

definition checked ::
  "(('w, 'm, 'a) board_scheme \<Rightarrow> ('w, 'm, 'a) board_scheme run) \<Rightarrow> ('w, 'm) library \<Rightarrow> 'm call list \<Rightarrow>
   (('w, 'm, 'a) board_scheme \<Rightarrow> ('w, 'm, 'a) board_scheme run) \<Rightarrow>
   ('w, 'm, 'a) board_scheme \<Rightarrow> ('w, 'm, 'a) board_scheme run" where
  "checked on_error lib cs rest = foldr (\<lambda>c. RCCHECK on_error (invoke lib c)) cs rest"

lemma checked_run_plan:
  "checked on_error lib cs rest s =
     (case run_plan lib cs (world s) of (log, w, ok) \<Rightarrow>
        (if ok then rest else on_error) (s\<lparr>world := w, calls := calls s @ log\<rparr>))"
  unfolding checked_def
  by (induction cs arbitrary: s)
    (simp_all add: RCCHECK_def invoke_def split_def Let_def)

text \<open>A plan is carried out up to its first failure, which ends the log.\<close>

definition all_ok :: "('m call \<times> int) list \<Rightarrow> bool" where
  "all_ok log \<longleftrightarrow> (\<forall>(c, rc) \<in> set log. rc = RCL_RET_OK)"

definition failed_last :: "('m call \<times> int) list \<Rightarrow> bool" where
  "failed_last log \<longleftrightarrow> log \<noteq> [] \<and> snd (last log) \<noteq> RCL_RET_OK \<and> all_ok (butlast log)"

lemma all_ok_simps [simp]:
  "all_ok []" "all_ok ((c, rc) # log) \<longleftrightarrow> rc = RCL_RET_OK \<and> all_ok log"
  "all_ok (log @ log') \<longleftrightarrow> all_ok log \<and> all_ok log'"
  by (auto simp: all_ok_def)

lemma failed_last_Cons [simp]:
  "failed_last ((c, rc) # log) \<longleftrightarrow> (if log = [] then rc \<noteq> RCL_RET_OK else rc = RCL_RET_OK \<and> failed_last log)"
  by (auto simp: failed_last_def)

lemma all_ok_not_failed: "failed_last log \<Longrightarrow> \<not> all_ok log"
  unfolding failed_last_def all_ok_def by (metis (mono_tags, lifting) case_prod_unfold last_in_set)

lemma run_plan_log:
  "case run_plan lib cs w of (log, w', ok) \<Rightarrow>
     map fst log = take (length log) cs \<and> (if ok then length log = length cs \<and> all_ok log else failed_last log)"
proof (induction cs arbitrary: w)
  case (Cons c cs)
  obtain rc w1 where c: "call lib c w = (rc, w1)" by fastforce
  obtain log w2 ok where r: "run_plan lib cs w1 = (log, w2, ok)" by (cases "run_plan lib cs w1")
  from Cons.IH [of w1] r have "failed_last log \<Longrightarrow> log \<noteq> []" by (simp add: failed_last_def)
  with Cons.IH [of w1] show ?case by (auto simp: c r split: if_splits)
qed simp

lemma run_plan_append:
  "run_plan lib (cs @ ds) w =
     (case run_plan lib cs w of (log, w1, ok) \<Rightarrow>
        if ok then (case run_plan lib ds w1 of (log', w2, ok') \<Rightarrow> (log @ log', w2, ok')) else (log, w1, False))"
  by (induction cs arbitrary: w) (auto simp: split_def Let_def)

subsection \<open>The order of creation\<close>

text \<open>What has to be there before a call: the support before everything, the node before what it owns,
  and an executor with a free handle, and the entity itself, before the entity is added to it.\<close>

definition handles :: "'m call list \<Rightarrow> nat" where
  "handles made = sum_list (map (\<lambda>c. case c of Executor_init k \<Rightarrow> k | _ \<Rightarrow> 0) made)"

definition added :: "'m call list \<Rightarrow> nat" where
  "added made = length (filter (\<lambda>c. case c of Executor_add_timer \<Rightarrow> True | Executor_add_subscription \<Rightarrow> True
     | Executor_add_service \<Rightarrow> True | _ \<Rightarrow> False) made)"

definition ready :: "'m call \<Rightarrow> 'm call list \<Rightarrow> bool" where
  "ready c made \<longleftrightarrow>
     (let support = list_ex (\<lambda>d. case d of Support_init \<Rightarrow> True | _ \<Rightarrow> False) made;
          node = list_ex (\<lambda>d. case d of Node_init_default _ _ \<Rightarrow> True | _ \<Rightarrow> False) made;
          free = (added made < handles made)
      in case c of
           Support_init \<Rightarrow> \<not> support
         | Node_init_default _ _ \<Rightarrow> support \<and> \<not> node
         | Publisher_init_default _ _ \<Rightarrow> node
         | Publisher_init_best_effort _ _ \<Rightarrow> node
         | Subscription_init_default _ _ \<Rightarrow> node
         | Service_init_default _ _ \<Rightarrow> node
         | Timer_init_default _ \<Rightarrow> support
         | Executor_init _ \<Rightarrow> support
         | Executor_add_timer \<Rightarrow> free \<and> list_ex (\<lambda>d. case d of Timer_init_default _ \<Rightarrow> True | _ \<Rightarrow> False) made
         | Executor_add_subscription \<Rightarrow> free \<and> list_ex (\<lambda>d. case d of Subscription_init_default _ _ \<Rightarrow> True | _ \<Rightarrow> False) made
         | Executor_add_service \<Rightarrow> free \<and> list_ex (\<lambda>d. case d of Service_init_default _ _ \<Rightarrow> True | _ \<Rightarrow> False) made
         | _ \<Rightarrow> True)"

fun in_order :: "'m call list \<Rightarrow> 'm call list \<Rightarrow> bool" where
  "in_order made [] \<longleftrightarrow> True"
| "in_order made (c # cs) \<longleftrightarrow> ready c made \<and> in_order (made @ [c]) cs"

text \<open>The contract of a set-up with a given plan.\<close>

definition follows_plan ::
  "('w, 'm) library \<Rightarrow> (nat \<Rightarrow> ('w, 'm, 'a) board_scheme \<Rightarrow> ('w, 'm, 'a) board_scheme run) \<Rightarrow>
   (('w, 'm, 'a) board_scheme \<Rightarrow> ('w, 'm, 'a) board_scheme) \<Rightarrow> 'm call list \<Rightarrow>
   (('w, 'm, 'a) board_scheme \<Rightarrow> ('w, 'm, 'a) board_scheme) \<Rightarrow>
   (('w, 'm, 'a) board_scheme \<Rightarrow> ('w, 'm, 'a) board_scheme) \<Rightarrow> bool" where
  "follows_plan lib start_up prepare plan finish idle \<longleftrightarrow>
     in_order [] plan \<and>
     (\<forall>n s. case run_plan lib plan (world (prepare s)) of (log, w, ok) \<Rightarrow>
        start_up n s = (let s' = (prepare s)\<lparr>world := w, calls := calls (prepare s) @ log\<rparr>
                        in if ok then Finished (finish s') else Running ((idle ^^ n) s')))"

subsection \<open>Set-ups\<close>

text \<open>The interface of the set-up functions: prepare the board, make the calls of a plan, each checked,
  then finish. \<open>idle\<close> is one iteration of the loop a failed check ends in.\<close>

locale checked_setup =
  fixes start_up :: "nat \<Rightarrow> ('w, 'm, 'a) board_scheme \<Rightarrow> ('w, 'm, 'a) board_scheme run"
    and lib :: "('w, 'm) library" and prepare :: "('w, 'm, 'a) board_scheme \<Rightarrow> ('w, 'm, 'a) board_scheme"
    and plan :: "'m call list" and finish idle :: "('w, 'm, 'a) board_scheme \<Rightarrow> ('w, 'm, 'a) board_scheme"
  assumes start_up: "start_up n s = checked (forever idle n) lib plan (\<lambda>s. Finished (finish s)) (prepare s)"
begin

definition after_plan :: "('w, 'm, 'a) board_scheme \<Rightarrow> ('w, 'm, 'a) board_scheme" where
  "after_plan s = (case run_plan lib plan (world (prepare s)) of
     (log, w, ok) \<Rightarrow> (prepare s)\<lparr>world := w, calls := calls (prepare s) @ log\<rparr>)"

lemma outcome:
  "start_up n s = (if snd (snd (run_plan lib plan (world (prepare s)))) then Finished (finish (after_plan s))
     else Running ((idle ^^ n) (after_plan s)))"
  by (simp add: start_up checked_run_plan forever_running after_plan_def split_def)

lemma returns_iff:
  "(\<exists>t. start_up n s = Finished t) \<longleftrightarrow>
     (case run_plan lib plan (world (prepare s)) of (log, w, ok) \<Rightarrow> map fst log = plan \<and> all_ok log)"
proof (cases "run_plan lib plan (world (prepare s))")
  case (fields log w ok)
  then show ?thesis
    using run_plan_log [where lib = lib and cs = plan and w = "world (prepare s)"] all_ok_not_failed [of log]
    by (cases ok) (simp_all add: outcome)
qed

lemma contract: "in_order [] plan \<Longrightarrow> follows_plan lib start_up prepare plan finish idle"
  by (simp add: follows_plan_def outcome after_plan_def Let_def split_def)

lemma finished_calls:
  assumes "start_up n s = Finished t"
  obtains u where "t = finish u" "map fst (calls u) = map fst (calls (prepare s)) @ plan"
  using assms run_plan_log [where lib = lib and cs = plan and w = "world (prepare s)"] that
  by (auto simp: outcome after_plan_def split_def split: if_splits)

lemma running_calls:
  assumes "start_up 0 s = Running t"
  shows "start_up n s = Running ((idle ^^ n) t)"
    and "\<exists>log. calls t = calls (prepare s) @ log \<and> failed_last log \<and> map fst log = take (length log) plan"
  using assms run_plan_log [where lib = lib and cs = plan and w = "world (prepare s)"]
  by (auto simp: outcome after_plan_def split_def split: if_splits)

end

subsection \<open>A small board\<close>

text \<open>For the witnesses: the world is the level of the LED and the number of calls so far; the call
  numbered \<open>bad\<close>, if any, fails, the timer is always ready and the message taken is always \<open>m\<close>.\<close>

type_synonym small_world = "bool \<times> nat"

definition small_network :: "small_world network" where
  "small_network = \<lparr>net_begin = (\<lambda>w. w), net_up = (\<lambda>w. (True, w)), net_delay = (\<lambda>ms w. w),
     fromString = (\<lambda>t a. a), rmw_uros_set_custom_transport = (\<lambda>t w. w)\<rparr>"

definition small_arduino :: "small_world arduino" where
  "small_arduino = \<lparr>net = small_network, pinMode_output = (\<lambda>p w. w),
     digitalWrite = (\<lambda>p b w. (b, snd w)), digitalRead = (\<lambda>p w. fst w)\<rparr>"

definition small_library :: "nat option \<Rightarrow> 'm option \<Rightarrow> (small_world, 'm) library" where
  "small_library bad m = \<lparr>call = (\<lambda>c w. (if Some (snd w) = bad then 1 else 0, (fst w, Suc (snd w)))),
     timer_ready = (\<lambda>w. True), taken = (\<lambda>w. m)\<rparr>"

definition small_board :: "(small_world, 'm) board" where
  "small_board = \<lparr>world = (False, 0), calls = []\<rparr>"

lemmas small_defs = small_network_def small_arduino_def small_library_def small_board_def delay_ms_def

end
