(* ===== verification/Simple_Sketches.thy ===== *)
theory Simple_Sketches
  imports Sketch_Runtime
begin

text \<open>
  The sketches that set up one entity and serve it in their loop: the publishers of a counter over
  the serial, WiFi, ESP-AT and Ethernet transports, the two subscribers that drive the LED, and
  the service that adds two integers.
\<close>

subsection \<open>The publisher over the serial transport\<close>

record 'w counter = "('w, u32) board" +
  msg_data :: u32

text \<open>The callback of the timer: publish, then count, whatever the code of the publication.\<close>

definition publisher_timer_callback :: "('w, u32) library \<Rightarrow> bool \<Rightarrow> 'w counter \<Rightarrow> 'w counter" where
  "publisher_timer_callback lib timer_not_null s =
     (if timer_not_null
      then (let s' = RCSOFTCHECK (invoke lib (Publish (msg_data s))) s in s'\<lparr>msg_data := msg_data s' + 1\<rparr>)
      else s)"

definition publisher_setup :: "'w arduino \<Rightarrow> ('w, u32) library \<Rightarrow> nat \<Rightarrow> 'w counter \<Rightarrow> 'w counter run" where
  "publisher_setup ard lib n s =
     (let s1 = at_world (set_microros_transports (net ard)) s;
          s2 = at_world (pinMode_output ard LED_PIN) s1;
          s3 = at_world (digitalWrite ard LED_PIN True) s2;
          s4 = at_world (delay_ms ard 2000) s3;
          s5 = perform lib Get_default_allocator s4;
          timer_timeout = 1000;
          check = (\<lambda>c. RCCHECK (error_loop ard LED_PIN n) (invoke lib c))
      in (check Support_init
           (check (Node_init_default ''micro_ros_arduino_node'' [])
             (check (Publisher_init_default ''std_msgs_msg_Int32'' ''micro_ros_arduino_node_publisher'')
               (check (Timer_init_default (RCL_MS_TO_NS timer_timeout))
                 (check (Executor_init 1)
                   (check Executor_add_timer
                     (\<lambda>s6. Finished (s6\<lparr>msg_data := 0\<rparr>)))))))) s5)"

definition publisher_loop :: "'w arduino \<Rightarrow> ('w, u32) library \<Rightarrow> 'w counter \<Rightarrow> 'w counter" where
  "publisher_loop ard lib s =
     RCSOFTCHECK (spin_some lib (RCL_MS_TO_NS 100)
       (\<lambda>s. if timer_ready lib (world s) then publisher_timer_callback lib True s else s))
       (at_world (delay_ms ard 100) s)"

subsection \<open>The publisher over WiFi\<close>

text \<open>The pin is that of the board when it names one. The part of the set-up after the transport is
  a function of its own; \<open>None\<close> is a link that never comes up.\<close>

definition wifi_led_pin :: "nat option \<Rightarrow> nat" where
  "wifi_led_pin led_builtin = (case led_builtin of Some p \<Rightarrow> p | None \<Rightarrow> 13)"

definition publisher_wifi_timer_callback :: "('w, u32) library \<Rightarrow> bool \<Rightarrow> 'w counter \<Rightarrow> 'w counter" where
  "publisher_wifi_timer_callback lib timer_not_null s =
     (if timer_not_null
      then (let s' = RCSOFTCHECK (invoke lib (Publish (msg_data s))) s in s'\<lparr>msg_data := msg_data s' + 1\<rparr>)
      else s)"

definition publisher_wifi_init ::
  "'w arduino \<Rightarrow> nat option \<Rightarrow> ('w, u32) library \<Rightarrow> nat \<Rightarrow> 'w counter \<Rightarrow> 'w counter run" where
  "publisher_wifi_init ard led_builtin lib n s =
     (let pin = wifi_led_pin led_builtin;
          s1 = at_world (pinMode_output ard pin) s;
          s2 = at_world (digitalWrite ard pin True) s1;
          s3 = at_world (delay_ms ard 2000) s2;
          s4 = perform lib Get_default_allocator s3;
          check = (\<lambda>c. RCCHECK (error_loop ard pin n) (invoke lib c))
      in (check Support_init
           (check (Node_init_default ''micro_ros_arduino_wifi_node'' [])
             (check (Publisher_init_best_effort ''std_msgs_msg_Int32'' ''topic_name'')
               (\<lambda>s5. Finished (s5\<lparr>msg_data := 0\<rparr>))))) s4)"

definition publisher_wifi_setup ::
  "'w arduino \<Rightarrow> nat option \<Rightarrow> ('w, u32) library \<Rightarrow> micro_ros_agent_locator \<Rightarrow> nat \<Rightarrow> 'w counter \<Rightarrow>
     'w counter run option" where
  "publisher_wifi_setup ard led_builtin lib locator n s =
     (case set_microros_wifi_transports (net ard) locator ''192.168.1.57'' 8888 (world s) of
        None \<Rightarrow> None
      | Some (locator', w) \<Rightarrow> Some (publisher_wifi_init ard led_builtin lib n (s\<lparr>world := w\<rparr>)))"

definition publisher_wifi_loop :: "('w, u32) library \<Rightarrow> 'w counter \<Rightarrow> 'w counter" where
  "publisher_wifi_loop lib s =
     (let s' = RCSOFTCHECK (invoke lib (Publish (msg_data s))) s in s'\<lparr>msg_data := msg_data s' + 1\<rparr>)"

subsection \<open>The publisher over an ESP-AT module\<close>

definition publisher_wifi_at_timer_callback :: "('w, u32) library \<Rightarrow> bool \<Rightarrow> 'w counter \<Rightarrow> 'w counter" where
  "publisher_wifi_at_timer_callback lib timer_not_null s =
     (if timer_not_null
      then (let s' = RCSOFTCHECK (invoke lib (Publish (msg_data s))) s in s'\<lparr>msg_data := msg_data s' + 1\<rparr>)
      else s)"

definition publisher_wifi_at_init :: "'w arduino \<Rightarrow> ('w, u32) library \<Rightarrow> nat \<Rightarrow> 'w counter \<Rightarrow> 'w counter run" where
  "publisher_wifi_at_init ard lib n s =
     (let s1 = at_world (pinMode_output ard LED_PIN) s;
          s2 = at_world (digitalWrite ard LED_PIN True) s1;
          s3 = at_world (delay_ms ard 2000) s2;
          s4 = perform lib Get_default_allocator s3;
          check = (\<lambda>c. RCCHECK (error_loop ard LED_PIN n) (invoke lib c))
      in (check Support_init
           (check (Node_init_default ''micro_ros_arduino_wifi_node'' [])
             (check (Publisher_init_best_effort ''std_msgs_msg_Int32'' ''topic_name'')
               (\<lambda>s5. Finished (s5\<lparr>msg_data := 0\<rparr>))))) s4)"

definition publisher_wifi_at_setup ::
  "'w arduino \<Rightarrow> ('w, u32) library \<Rightarrow> micro_ros_agent_locator \<Rightarrow> nat \<Rightarrow> 'w counter \<Rightarrow> 'w counter run option" where
  "publisher_wifi_at_setup ard lib locator n s =
     (case set_microros_wifi_transports (net ard) locator ''192.168.1.57'' 8888 (world s) of
        None \<Rightarrow> None
      | Some (locator', w) \<Rightarrow> Some (publisher_wifi_at_init ard lib n (s\<lparr>world := w\<rparr>)))"

definition publisher_wifi_at_loop :: "('w, u32) library \<Rightarrow> 'w counter \<Rightarrow> 'w counter" where
  "publisher_wifi_at_loop lib s =
     (let s' = RCSOFTCHECK (invoke lib (Publish (msg_data s))) s in s'\<lparr>msg_data := msg_data s' + 1\<rparr>)"

subsection \<open>The publisher over Ethernet\<close>

text \<open>\<open>mac1\<close> and \<open>mac0\<close> are the registers of the Teensy that hold its address.\<close>

definition get_teensy_mac :: "u32 \<Rightarrow> u32 \<Rightarrow> u8 list \<Rightarrow> u8 list" where
  "get_teensy_mac mac1 mac0 mac =
     (let mac' = fold (\<lambda>by mac. mac[by := ucast (drop_bit ((1 - by) * 8) mac1 AND 0xFF)]) [0..<2] mac
      in fold (\<lambda>by mac. mac[by + 2 := ucast (drop_bit ((3 - by) * 8) mac0 AND 0xFF)]) [0..<4] mac')"

definition publisher_ethernet_init :: "'w arduino \<Rightarrow> ('w, u32) library \<Rightarrow> nat \<Rightarrow> 'w counter \<Rightarrow> 'w counter run" where
  "publisher_ethernet_init ard lib n s =
     (let s1 = at_world (pinMode_output ard LED_PIN) s;
          s2 = at_world (digitalWrite ard LED_PIN True) s1;
          s3 = at_world (delay_ms ard 2000) s2;
          s4 = perform lib Get_default_allocator s3;
          check = (\<lambda>c. RCCHECK (error_loop ard LED_PIN n) (invoke lib c))
      in (check Support_init
           (check (Node_init_default ''micro_ros_arduino_ethernet_node'' ''namespace'')
             (check (Publisher_init_best_effort ''std_msgs_msg_Int32'' ''topic_name'')
               (\<lambda>s5. Finished (s5\<lparr>msg_data := 0\<rparr>))))) s4)"

text \<open>\<open>ethernet mac ip\<close> is the network that \<open>Ethernet.begin(mac, ip)\<close> starts, \<open>IPAddress\<close> the
  constructor of the Arduino core; \<open>teensy\<close> holds the two registers on a Teensy 4.1.\<close>

definition publisher_ethernet_setup ::
  "'w arduino \<Rightarrow> (u8 list \<Rightarrow> u32 \<Rightarrow> 'w network) \<Rightarrow> (u8 \<Rightarrow> u8 \<Rightarrow> u8 \<Rightarrow> u8 \<Rightarrow> u32) \<Rightarrow> (u32 \<times> u32) option \<Rightarrow>
   ('w, u32) library \<Rightarrow> nat \<Rightarrow> 'w counter \<Rightarrow> 'w counter run option" where
  "publisher_ethernet_setup ard ethernet IPAddress teensy lib n s =
     (let arduino_mac = [0xAA, 0xBB, 0xCC, 0xEE, 0xDD, 0xFF];
          mac = (case teensy of None \<Rightarrow> arduino_mac | Some (mac1, mac0) \<Rightarrow> get_teensy_mac mac1 mac0 arduino_mac);
          arduino_ip = IPAddress 192 168 1 177;
          agent_ip = IPAddress 192 168 1 113
      in case set_microros_native_ethernet_udp_transports (ethernet mac arduino_ip) agent_ip 9999 (world s) of
           None \<Rightarrow> None
         | Some w \<Rightarrow> Some (publisher_ethernet_init ard lib n (s\<lparr>world := w\<rparr>)))"

definition publisher_ethernet_loop :: "'w arduino \<Rightarrow> ('w, u32) library \<Rightarrow> 'w counter \<Rightarrow> 'w counter" where
  "publisher_ethernet_loop ard lib s =
     (let s1 = RCSOFTCHECK (invoke lib (Publish (msg_data s))) s;
          s2 = s1\<lparr>msg_data := msg_data s1 + 1\<rparr>
      in at_world (delay_ms ard 100) s2)"

subsection \<open>The subscribers\<close>

text \<open>The executor hands the message it took to the callback.\<close>

definition deliver ::
  "('w, 'm) library \<Rightarrow> ('m \<Rightarrow> ('w, 'm, 'a) board_scheme \<Rightarrow> ('w, 'm, 'a) board_scheme) \<Rightarrow>
   ('w, 'm, 'a) board_scheme \<Rightarrow> ('w, 'm, 'a) board_scheme" where
  "deliver lib callback s = (case taken lib (world s) of None \<Rightarrow> s | Some m \<Rightarrow> callback m s)"

definition subscription_callback :: "'w arduino \<Rightarrow> u32 \<Rightarrow> ('w, u32) board \<Rightarrow> ('w, u32) board" where
  "subscription_callback ard data = at_world (digitalWrite ard LED_PIN (if data = 0 then False else True))"

definition subscriber_setup :: "'w arduino \<Rightarrow> ('w, u32) library \<Rightarrow> nat \<Rightarrow> ('w, u32) board \<Rightarrow> ('w, u32) board run" where
  "subscriber_setup ard lib n s =
     (let s1 = at_world (set_microros_transports (net ard)) s;
          s2 = at_world (pinMode_output ard LED_PIN) s1;
          s3 = at_world (digitalWrite ard LED_PIN True) s2;
          s4 = at_world (delay_ms ard 2000) s3;
          s5 = perform lib Get_default_allocator s4;
          check = (\<lambda>c. RCCHECK (error_loop ard LED_PIN n) (invoke lib c))
      in (check Support_init
           (check (Node_init_default ''micro_ros_arduino_node'' [])
             (check (Subscription_init_default ''std_msgs_msg_Int32'' ''micro_ros_arduino_subscriber'')
               (check (Executor_init 1)
                 (check Executor_add_subscription Finished))))) s5)"

definition subscriber_loop :: "'w arduino \<Rightarrow> ('w, u32) library \<Rightarrow> nat \<Rightarrow> ('w, u32) board \<Rightarrow> ('w, u32) board run" where
  "subscriber_loop ard lib n s =
     RCCHECK (error_loop ard LED_PIN n)
       (spin_some lib (RCL_MS_TO_NS 100) (deliver lib (subscription_callback ard)))
       Finished (at_world (delay_ms ard 100) s)"

text \<open>A \<open>double\<close> is its 64 bits; it equals 0 when all but its sign are 0.\<close>

record twist =
  linear_x :: u64
  linear_y :: u64
  linear_z :: u64
  angular_x :: u64
  angular_y :: u64
  angular_z :: u64

definition double_is_zero :: "u64 \<Rightarrow> bool" where
  "double_is_zero x \<longleftrightarrow> x AND 0x7FFFFFFFFFFFFFFF = 0"

definition twist_subscription_callback :: "'w arduino \<Rightarrow> twist \<Rightarrow> ('w, twist) board \<Rightarrow> ('w, twist) board" where
  "twist_subscription_callback ard msg =
     at_world (digitalWrite ard LED_PIN (if double_is_zero (linear_x msg) then False else True))"

definition subscriber_twist_setup ::
  "'w arduino \<Rightarrow> ('w, twist) library \<Rightarrow> nat \<Rightarrow> ('w, twist) board \<Rightarrow> ('w, twist) board run" where
  "subscriber_twist_setup ard lib n s =
     (let s1 = at_world (set_microros_transports (net ard)) s;
          s2 = at_world (pinMode_output ard LED_PIN) s1;
          s3 = at_world (digitalWrite ard LED_PIN True) s2;
          s4 = at_world (delay_ms ard 2000) s3;
          s5 = perform lib Get_default_allocator s4;
          check = (\<lambda>c. RCCHECK (error_loop ard LED_PIN n) (invoke lib c))
      in (check Support_init
           (check (Node_init_default ''micro_ros_arduino_node'' [])
             (check (Subscription_init_default ''geometry_msgs_msg_Twist'' ''micro_ros_arduino_twist_subscriber'')
               (check (Executor_init 1)
                 (check Executor_add_subscription Finished))))) s5)"

definition subscriber_twist_loop ::
  "'w arduino \<Rightarrow> ('w, twist) library \<Rightarrow> nat \<Rightarrow> ('w, twist) board \<Rightarrow> ('w, twist) board run" where
  "subscriber_twist_loop ard lib n s =
     RCCHECK (error_loop ard LED_PIN n)
       (spin_some lib (RCL_MS_TO_NS 100) (deliver lib (twist_subscription_callback ard)))
       Finished (at_world (delay_ms ard 100) s)"

subsection \<open>The service\<close>

record add_two_ints_request =
  req_a :: u64
  req_b :: u64

record 'w adder = "('w, add_two_ints_request) board" +
  res_sum :: u64

definition service_callback :: "add_two_ints_request \<Rightarrow> 'w adder \<Rightarrow> 'w adder" where
  "service_callback req_in s = s\<lparr>res_sum := req_a req_in + req_b req_in\<rparr>"

text \<open>Its \<open>RCCHECK\<close> ends in \<open>while(1){}\<close>.\<close>

definition service_setup :: "'w arduino \<Rightarrow> ('w, add_two_ints_request) library \<Rightarrow> nat \<Rightarrow> 'w adder \<Rightarrow> 'w adder run" where
  "service_setup ard lib n s =
     (let s1 = at_world (set_microros_transports (net ard)) s;
          s2 = at_world (delay_ms ard 1000) s1;
          s3 = perform lib Get_default_allocator s2;
          check = (\<lambda>c. RCCHECK (forever (\<lambda>s. s) n) (invoke lib c))
      in (check Support_init
           (check (Node_init_default ''add_twoints_client_rclc'' [])
             (check (Service_init_default ''example_interfaces_srv_AddTwoInts'' ''/addtwoints'')
               (check (Executor_init 1)
                 (check Executor_add_service Finished))))) s3)"

definition service_loop :: "'w arduino \<Rightarrow> ('w, add_two_ints_request) library \<Rightarrow> 'w adder \<Rightarrow> 'w adder" where
  "service_loop ard lib s =
     RCSOFTCHECK (spin_some lib (RCL_MS_TO_NS 100) (deliver lib service_callback))
       (at_world (delay_ms ard 100) s)"

subsection \<open>The set-ups follow their plans\<close>

definition led_prepare ::
  "'w arduino \<Rightarrow> nat \<Rightarrow> ('w, 'm) library \<Rightarrow> ('w \<Rightarrow> 'w) \<Rightarrow> ('w, 'm, 'a) board_scheme \<Rightarrow> ('w, 'm, 'a) board_scheme" where
  "led_prepare ard pin lib transports s = perform lib Get_default_allocator
     (at_world (\<lambda>w. delay_ms ard 2000 (digitalWrite ard pin True (pinMode_output ard pin (transports w)))) s)"

definition publisher_plan :: "u32 call list" where
  "publisher_plan = [Support_init, Node_init_default ''micro_ros_arduino_node'' [],
     Publisher_init_default ''std_msgs_msg_Int32'' ''micro_ros_arduino_node_publisher'',
     Timer_init_default (RCL_MS_TO_NS 1000), Executor_init 1, Executor_add_timer]"

definition best_effort_plan :: "string \<Rightarrow> string \<Rightarrow> u32 call list" where
  "best_effort_plan node ns = [Support_init, Node_init_default node ns,
     Publisher_init_best_effort ''std_msgs_msg_Int32'' ''topic_name'']"

definition subscriber_plan :: "string \<Rightarrow> string \<Rightarrow> 'm call list" where
  "subscriber_plan type topic = [Support_init, Node_init_default ''micro_ros_arduino_node'' [],
     Subscription_init_default type topic, Executor_init 1, Executor_add_subscription]"

definition service_plan :: "add_two_ints_request call list" where
  "service_plan = [Support_init, Node_init_default ''add_twoints_client_rclc'' [],
     Service_init_default ''example_interfaces_srv_AddTwoInts'' ''/addtwoints'', Executor_init 1,
     Executor_add_service]"

lemmas plan_defs = publisher_plan_def best_effort_plan_def subscriber_plan_def service_plan_def

lemma at_world_at_world: "at_world f (at_world g s) = at_world (\<lambda>w. f (g w)) s"
  by (simp add: at_world_def)

interpretation publisher: checked_setup "publisher_setup ard lib" lib
  "led_prepare ard LED_PIN lib (set_microros_transports (net ard))" publisher_plan
  "\<lambda>s. s\<lparr>msg_data := 0\<rparr>" "blink ard LED_PIN" for ard lib
  by unfold_locales (simp add: publisher_setup_def checked_def led_prepare_def publisher_plan_def
    error_loop_def at_world_at_world Let_def)

interpretation wifi: checked_setup "publisher_wifi_init ard led_builtin lib" lib
  "led_prepare ard (wifi_led_pin led_builtin) lib (\<lambda>w. w)" "best_effort_plan ''micro_ros_arduino_wifi_node'' []"
  "\<lambda>s. s\<lparr>msg_data := 0\<rparr>" "blink ard (wifi_led_pin led_builtin)" for ard led_builtin lib
  by unfold_locales (simp add: publisher_wifi_init_def checked_def led_prepare_def best_effort_plan_def
    error_loop_def at_world_at_world Let_def)

interpretation wifi_at: checked_setup "publisher_wifi_at_init ard lib" lib
  "led_prepare ard LED_PIN lib (\<lambda>w. w)" "best_effort_plan ''micro_ros_arduino_wifi_node'' []"
  "\<lambda>s. s\<lparr>msg_data := 0\<rparr>" "blink ard LED_PIN" for ard lib
  by unfold_locales (simp add: publisher_wifi_at_init_def checked_def led_prepare_def best_effort_plan_def
    error_loop_def at_world_at_world Let_def)

interpretation ethernet: checked_setup "publisher_ethernet_init ard lib" lib
  "led_prepare ard LED_PIN lib (\<lambda>w. w)" "best_effort_plan ''micro_ros_arduino_ethernet_node'' ''namespace''"
  "\<lambda>s. s\<lparr>msg_data := 0\<rparr>" "blink ard LED_PIN" for ard lib
  by unfold_locales (simp add: publisher_ethernet_init_def checked_def led_prepare_def best_effort_plan_def
    error_loop_def at_world_at_world Let_def)

interpretation subscriber: checked_setup "subscriber_setup ard lib" lib
  "led_prepare ard LED_PIN lib (set_microros_transports (net ard))"
  "subscriber_plan ''std_msgs_msg_Int32'' ''micro_ros_arduino_subscriber''" "\<lambda>s. s" "blink ard LED_PIN" for ard lib
  by unfold_locales (simp add: subscriber_setup_def checked_def led_prepare_def subscriber_plan_def
    error_loop_def at_world_at_world Let_def)

interpretation twist: checked_setup "subscriber_twist_setup ard lib" lib
  "led_prepare ard LED_PIN lib (set_microros_transports (net ard))"
  "subscriber_plan ''geometry_msgs_msg_Twist'' ''micro_ros_arduino_twist_subscriber''" "\<lambda>s. s"
  "blink ard LED_PIN" for ard lib
  by unfold_locales (simp add: subscriber_twist_setup_def checked_def led_prepare_def subscriber_plan_def
    error_loop_def at_world_at_world Let_def)

interpretation service: checked_setup "service_setup ard lib" lib
  "\<lambda>s. perform lib Get_default_allocator (at_world (\<lambda>w. delay_ms ard 1000 (set_microros_transports (net ard) w)) s)"
  service_plan "\<lambda>s. s" "\<lambda>s. s" for ard lib
  by unfold_locales (simp add: service_setup_def checked_def service_plan_def at_world_at_world Let_def)

subsection \<open>Counting\<close>

definition payload :: "'m call \<Rightarrow> 'm list" where
  "payload c = (case c of Publish m \<Rightarrow> [m] | _ \<Rightarrow> [])"

definition published :: "('m call \<times> int) list \<Rightarrow> 'm list" where
  "published log = concat (map payload (map fst log))"

lemma payload_simps [simp]:
  "payload (Publish m) = [m]" "payload (Executor_spin_some ns) = []" "payload Get_default_allocator = []"
  by (simp_all add: payload_def)

lemma published_append [simp]:
  "published [] = []" "published (log @ log') = published log @ published log'"
  "published [(c, rc)] = payload c"
  by (simp_all add: published_def)

text \<open>The values published so far are 0, 1, 2 and so on, and the next one is in \<open>msg.data\<close>.\<close>

definition counting :: "'w counter \<Rightarrow> bool" where
  "counting s \<longleftrightarrow> published (calls s) = map of_nat [0..<length (published (calls s))] \<and>
     msg_data s = of_nat (length (published (calls s)))"

lemma counting_publish:
  "counting s \<Longrightarrow> counting ((perform lib (Publish (msg_data s)) s)\<lparr>msg_data := msg_data s + 1\<rparr>)"
  by (simp add: counting_def add.commute)

lemma msg_data_simps [simp]:
  "msg_data (at_world f s) = msg_data s" "msg_data (perform lib c s) = msg_data s"
  by (simp_all add: at_world_def perform_def invoke_def split_def Let_def)

lemma counting_frame [simp]:
  "counting (at_world f s) = counting s" "counting (perform lib (Executor_spin_some ns) s) = counting s"
  by (simp_all add: counting_def)

lemma counting_loops:
  assumes "counting s"
  shows "counting (publisher_timer_callback lib b s)" "counting (publisher_wifi_timer_callback lib b s)"
    "counting (publisher_wifi_at_timer_callback lib b s)" "counting (publisher_loop ard lib s)"
    "counting (publisher_wifi_loop lib s)" "counting (publisher_wifi_at_loop lib s)"
    "counting (publisher_ethernet_loop ard lib s)"
  using assms counting_publish [of _ lib] counting_publish [of "perform lib (Executor_spin_some (RCL_MS_TO_NS 100))
    (at_world (delay_ms ard 100) s)" lib]
  by (simp_all add: publisher_timer_callback_def publisher_wifi_timer_callback_def
      publisher_wifi_at_timer_callback_def publisher_loop_def publisher_wifi_loop_def
      publisher_wifi_at_loop_def publisher_ethernet_loop_def RCSOFTCHECK_eq invoke_perform spin_some_def Let_def)

lemma counting_start:
  assumes "map fst (calls u) = map fst (calls (led_prepare ard pin lib f s)) @ plan" "published (calls s) = []"
    "concat (map payload plan) = []"
  shows "counting (u\<lparr>msg_data := 0\<rparr>)"
proof -
  have "published (calls u) = published (calls s) @ concat (map payload plan)"
    using assms(1) by (simp add: published_def led_prepare_def)
  then show ?thesis using assms(2,3) by (simp add: counting_def)
qed

lemma counting_funpow: "(\<And>s. counting s \<Longrightarrow> counting (f s)) \<Longrightarrow> counting s \<Longrightarrow> counting ((f ^^ k) s)"
  for f :: "'w counter \<Rightarrow> 'w counter"
  by (induction k) simp_all

subsection \<open>The LED\<close>

text \<open>What the board does with the pin: a write sets its level, a read gives it, and nothing else of
  what the sketch calls moves it.\<close>

definition led_board :: "'w arduino \<Rightarrow> nat \<Rightarrow> ('w, 'm) library \<Rightarrow> ('w \<Rightarrow> bool) \<Rightarrow> bool" where
  "led_board ard pin lib level \<longleftrightarrow>
     (\<forall>w b c ms. level (digitalWrite ard pin b w) = b \<and> digitalRead ard pin w = level w \<and>
        level (delay_ms ard ms w) = level w \<and> level (snd (call lib c w)) = level w)"

lemma led_boardD:
  assumes "led_board ard pin lib level"
  shows "level (digitalWrite ard pin b w) = b" "digitalRead ard pin w = level w"
    "level (delay_ms ard ms w) = level w" "level (snd (call lib c w)) = level w"
  using assms by (simp_all add: led_board_def)

lemma blink_level:
  assumes "led_board ard pin lib level"
  shows "level (world ((blink ard pin ^^ n) s)) = (level (world s) \<noteq> odd n)"
    and "calls ((blink ard pin ^^ n) s) = calls s"
  by (induction n) (simp_all add: blink_def led_boardD [OF assms])

definition blinks :: "(('w, 'm, 'a) board_scheme \<Rightarrow> bool) \<Rightarrow> (nat \<Rightarrow> ('w, 'm, 'a) board_scheme run) \<Rightarrow> bool" where
  "blinks lit r \<longleftrightarrow> (case r 0 of Finished t \<Rightarrow> False | Running t \<Rightarrow>
     (\<forall>n. case r n of Finished u \<Rightarrow> False | Running u \<Rightarrow> calls u = calls t \<and> lit u = (lit t \<noteq> odd n)))"

definition finishes_or_blinks :: "(('w, 'm, 'a) board_scheme \<Rightarrow> bool) \<Rightarrow> (nat \<Rightarrow> ('w, 'm, 'a) board_scheme run) \<Rightarrow> bool" where
  "finishes_or_blinks lit r \<longleftrightarrow> (\<exists>t. \<forall>n. r n = Finished t) \<or> blinks lit r"

lemma finishes_or_blinksI:
  assumes "led_board ard pin lib level"
    "\<And>n. r n = (if ok then Finished a else Running ((blink ard pin ^^ n) t))"
  shows "finishes_or_blinks (\<lambda>s. level (world s)) r"
  by (simp add: finishes_or_blinks_def blinks_def assms(2) blink_level [OF assms(1)])

text \<open>The state after the pause and the spin of a loop, before the callback.\<close>

definition spun :: "'w arduino \<Rightarrow> ('w, 'm) library \<Rightarrow> ('w, 'm, 'a) board_scheme \<Rightarrow> ('w, 'm, 'a) board_scheme" where
  "spun ard lib s = perform lib (Executor_spin_some (RCL_MS_TO_NS 100)) (at_world (delay_ms ard 100) s)"

definition spin_code :: "'w arduino \<Rightarrow> ('w, 'm) library \<Rightarrow> ('w, 'm, 'a) board_scheme \<Rightarrow> int" where
  "spin_code ard lib s = fst (call lib (Executor_spin_some (RCL_MS_TO_NS 100)) (delay_ms ard 100 (world s)))"

lemma subscriber_loop_outcome:
  "subscriber_loop ard lib n s =
     (if spin_code ard lib s = RCL_RET_OK then Finished (deliver lib (subscription_callback ard) (spun ard lib s))
      else Running ((blink ard LED_PIN ^^ n) (deliver lib (subscription_callback ard) (spun ard lib s))))"
  by (simp add: subscriber_loop_def RCCHECK_def spin_some_def invoke_perform error_loop_def forever_running
      spun_def spin_code_def Let_def)

lemma twist_loop_outcome:
  "subscriber_twist_loop ard lib n s =
     (if spin_code ard lib s = RCL_RET_OK then Finished (deliver lib (twist_subscription_callback ard) (spun ard lib s))
      else Running ((blink ard LED_PIN ^^ n) (deliver lib (twist_subscription_callback ard) (spun ard lib s))))"
  by (simp add: subscriber_twist_loop_def RCCHECK_def spin_some_def invoke_perform error_loop_def forever_running
      spun_def spin_code_def Let_def)

lemma spun_level: "led_board ard pin lib level \<Longrightarrow> level (world (spun ard lib s)) = level (world s)"
  by (simp add: spun_def led_boardD)

lemma double_zero_bits: "x AND 0x7FFFFFFFFFFFFFFF = 0 \<longleftrightarrow> x = 0 \<or> x = (0x8000000000000000 :: u64)"
proof -
  have "x AND 0x7FFFFFFFFFFFFFFF = take_bit 63 x"
    by (simp add: take_bit_eq_mask mask_eq_decr_exp flip: take_bit_eq_mod)
  moreover have "uint (take_bit 63 x) = uint x mod 2 ^ 63"
    by (subst unsigned_take_bit_eq) (simp_all add: take_bit_eq_mod)
  ultimately have "x AND 0x7FFFFFFFFFFFFFFF = 0 \<longleftrightarrow> uint x mod 2 ^ 63 = 0"
    by (metis unsigned_0 unsigned_word_eqI)
  moreover have "0 \<le> uint x" "uint x < 2 * 2 ^ 63" using uint_lt2p [of x] by simp_all
  then have "uint x mod 2 ^ 63 = 0 \<longleftrightarrow> uint x = 0 \<or> uint x = 2 ^ 63" by (intro mod_zero_twice) simp_all
  ultimately show ?thesis by (simp add: word_uint_eq_iff)
qed

lemma small_led [simp]: "led_board small_arduino pin (small_library bad m) fst"
  by (simp add: led_board_def small_defs)

lemma small_taken [simp]: "taken (small_library bad m) w = m"
  by (simp add: small_library_def)

definition small_counter :: "small_world counter" where
  "small_counter = board.extend small_board (counter.fields 7)"

definition small_adder :: "small_world adder" where
  "small_adder = board.extend small_board (adder.fields 0)"

lemmas small_states = small_counter_def small_adder_def board.extend_def counter.fields_def adder.fields_def

subsection \<open>Properties\<close>

text \<open>C12. Every set-up makes its calls in the order of its plan, stops at the first that fails and then
  stays in its endless loop, and finishes when all succeed. The plans create in order: support,
  node, what the node owns, the executor with a handle for what is added to it.\<close>

theorem setups_stop_at_first_failure:
  "follows_plan lib (publisher_setup ard lib) (led_prepare ard LED_PIN lib (set_microros_transports (net ard)))
     publisher_plan (\<lambda>s. s\<lparr>msg_data := 0\<rparr>) (blink ard LED_PIN) \<and>
   follows_plan lib (publisher_wifi_init ard led lib) (led_prepare ard (wifi_led_pin led) lib (\<lambda>w. w))
     (best_effort_plan ''micro_ros_arduino_wifi_node'' []) (\<lambda>s. s\<lparr>msg_data := 0\<rparr>) (blink ard (wifi_led_pin led)) \<and>
   follows_plan lib (publisher_wifi_at_init ard lib) (led_prepare ard LED_PIN lib (\<lambda>w. w))
     (best_effort_plan ''micro_ros_arduino_wifi_node'' []) (\<lambda>s. s\<lparr>msg_data := 0\<rparr>) (blink ard LED_PIN) \<and>
   follows_plan lib (publisher_ethernet_init ard lib) (led_prepare ard LED_PIN lib (\<lambda>w. w))
     (best_effort_plan ''micro_ros_arduino_ethernet_node'' ''namespace'') (\<lambda>s. s\<lparr>msg_data := 0\<rparr>) (blink ard LED_PIN) \<and>
   follows_plan lib (subscriber_setup ard lib) (led_prepare ard LED_PIN lib (set_microros_transports (net ard)))
     (subscriber_plan ''std_msgs_msg_Int32'' ''micro_ros_arduino_subscriber'') (\<lambda>s. s) (blink ard LED_PIN) \<and>
   follows_plan tlib (subscriber_twist_setup ard tlib) (led_prepare ard LED_PIN tlib (set_microros_transports (net ard)))
     (subscriber_plan ''geometry_msgs_msg_Twist'' ''micro_ros_arduino_twist_subscriber'') (\<lambda>s. s) (blink ard LED_PIN) \<and>
   follows_plan slib (service_setup ard slib) (\<lambda>s. perform slib Get_default_allocator
       (at_world (\<lambda>w. delay_ms ard 1000 (set_microros_transports (net ard) w)) s))
     service_plan (\<lambda>s. s) (\<lambda>s. s)"
  by (intro conjI publisher.contract wifi.contract wifi_at.contract ethernet.contract subscriber.contract
      twist.contract service.contract)
    (simp_all add: plan_defs ready_def handles_def added_def Let_def)

text \<open>A set-up with the LED either finishes or blinks for ever: it makes no further call, and the
  LED has changed once after every iteration. This is so for the set-ups of the publishers and
  subscribers and for the checked spin of the subscribers' loops.\<close>

theorem failed_checks_blink_for_ever:
  assumes "led_board ard LED_PIN lib level" "led_board ard (wifi_led_pin led) lib level'"
    "led_board ard LED_PIN tlib level"
  shows "finishes_or_blinks (\<lambda>s. level (world s)) (\<lambda>n. publisher_setup ard lib n s) \<and>
    finishes_or_blinks (\<lambda>s. level' (world s)) (\<lambda>n. publisher_wifi_init ard led lib n s) \<and>
    finishes_or_blinks (\<lambda>s. level (world s)) (\<lambda>n. publisher_wifi_at_init ard lib n s) \<and>
    finishes_or_blinks (\<lambda>s. level (world s)) (\<lambda>n. publisher_ethernet_init ard lib n s) \<and>
    finishes_or_blinks (\<lambda>s. level (world s)) (\<lambda>n. subscriber_setup ard lib n b) \<and>
    finishes_or_blinks (\<lambda>s. level (world s)) (\<lambda>n. subscriber_twist_setup ard tlib n tb) \<and>
    finishes_or_blinks (\<lambda>s. level (world s)) (\<lambda>n. subscriber_loop ard lib n b) \<and>
    finishes_or_blinks (\<lambda>s. level (world s)) (\<lambda>n. subscriber_twist_loop ard tlib n tb)"
  by (intro conjI finishes_or_blinksI [OF assms(1)] finishes_or_blinksI [OF assms(2)]
      finishes_or_blinksI [OF assms(3)])
    (rule publisher.outcome wifi.outcome wifi_at.outcome ethernet.outcome subscriber.outcome twist.outcome
      subscriber_loop_outcome twist_loop_outcome)+

theorem failed_checks_blink_for_ever_witness:
  "finishes_or_blinks (\<lambda>s. fst (world s))
     (\<lambda>n. publisher_setup small_arduino (small_library (Some 3) None) n small_counter)"
  using failed_checks_blink_for_ever [of small_arduino "small_library (Some 3) None" fst None fst
      "small_library None None"] by simp


text \<open>The publishers count: once a set-up has finished, after any number of iterations, and whatever
  codes the publications had, the values published are 0, 1, 2 and so on (at 32 bits); a value
  whose publication failed is not sent again.\<close>

theorem publishers_count_up:
  assumes "published (calls s) = []"
  shows "(\<forall>t. publisher_setup ard lib n s = Finished t \<longrightarrow> counting ((publisher_loop ard lib ^^ k) t)) \<and>
    (\<forall>t. publisher_wifi_init ard led lib n s = Finished t \<longrightarrow> counting ((publisher_wifi_loop lib ^^ k) t)) \<and>
    (\<forall>t. publisher_wifi_at_init ard lib n s = Finished t \<longrightarrow> counting ((publisher_wifi_at_loop lib ^^ k) t)) \<and>
    (\<forall>t. publisher_ethernet_init ard lib n s = Finished t \<longrightarrow> counting ((publisher_ethernet_loop ard lib ^^ k) t))"
proof (intro conjI allI impI counting_funpow counting_loops)
  have plans: "concat (map payload publisher_plan) = []" "concat (map payload (best_effort_plan node ns)) = []" for node ns
    by (simp_all add: plan_defs payload_def)
  show "counting t" if "publisher_setup ard lib n s = Finished t" for t
    using publisher.finished_calls [OF that] counting_start [OF _ assms plans(1)] by metis
  show "counting t" if "publisher_wifi_init ard led lib n s = Finished t" for t
    using wifi.finished_calls [OF that] counting_start [OF _ assms plans(2)] by metis
  show "counting t" if "publisher_wifi_at_init ard lib n s = Finished t" for t
    using wifi_at.finished_calls [OF that] counting_start [OF _ assms plans(2)] by metis
  show "counting t" if "publisher_ethernet_init ard lib n s = Finished t" for t
    using ethernet.finished_calls [OF that] counting_start [OF _ assms plans(2)] by metis
qed

theorem publishers_count_up_witness:
  "\<exists>t. publisher_wifi_init small_arduino None (small_library (Some 6) None) 0 small_counter = Finished t \<and>
     counting ((publisher_wifi_loop (small_library (Some 6) None) ^^ 4) t)"
proof -
  have "\<exists>t. publisher_wifi_init small_arduino None (small_library (Some 6) None) 0 small_counter = Finished t"
    by (simp add: publisher_wifi_init_def RCCHECK_def invoke_perform small_states small_defs ret_codes Let_def)
  moreover have "published (calls small_counter) = []" by (simp add: small_states small_defs published_def)
  ultimately show ?thesis
    using publishers_count_up [of small_counter small_arduino "small_library (Some 6) None" 0 4 None] by blast
qed

text \<open>After an iteration of a subscriber that finishes, the LED shows the message it took: lit
  unless the integer, or the \<open>double\<close> \<open>linear.x\<close>, equals 0; without a message it is as it was.\<close>

theorem subscribers_show_message:
  assumes "led_board ard LED_PIN lib level" "led_board ard LED_PIN tlib level"
  shows "(\<forall>t. subscriber_loop ard lib n b = Finished t \<longrightarrow>
      level (world t) = (case taken lib (world (spun ard lib b)) of
        None \<Rightarrow> level (world b) | Some data \<Rightarrow> data \<noteq> 0)) \<and>
    (\<forall>t. subscriber_twist_loop ard tlib n tb = Finished t \<longrightarrow>
      level (world t) = (case taken tlib (world (spun ard tlib tb)) of
        None \<Rightarrow> level (world tb) | Some msg \<Rightarrow> linear_x msg \<noteq> 0 \<and> linear_x msg \<noteq> 0x8000000000000000))"
proof -
  note led = led_boardD(1) [OF assms(1)] spun_level [OF assms(1)] spun_level [OF assms(2)]
  have "level (world (deliver lib (subscription_callback ard) (spun ard lib b))) =
      (case taken lib (world (spun ard lib b)) of None \<Rightarrow> level (world b) | Some data \<Rightarrow> data \<noteq> 0)"
    by (simp add: deliver_def subscription_callback_def led split: option.split)
  moreover have "level (world (deliver tlib (twist_subscription_callback ard) (spun ard tlib tb))) =
      (case taken tlib (world (spun ard tlib tb)) of None \<Rightarrow> level (world tb)
       | Some msg \<Rightarrow> linear_x msg \<noteq> 0 \<and> linear_x msg \<noteq> 0x8000000000000000)"
    by (simp add: deliver_def twist_subscription_callback_def double_is_zero_def double_zero_bits led split: option.split)
  ultimately show ?thesis by (simp add: subscriber_loop_outcome twist_loop_outcome)
qed

theorem subscribers_show_message_witness:
  "\<exists>t. subscriber_loop small_arduino (small_library None (Some 5)) 0 small_board = Finished t \<and> fst (world t)"
proof -
  have "\<exists>t. subscriber_loop small_arduino (small_library None (Some 5)) 0 small_board = Finished t"
    by (simp add: subscriber_loop_def RCCHECK_def spin_some_def invoke_def small_defs ret_codes Let_def)
  then show ?thesis
    using subscribers_show_message [of small_arduino "small_library None (Some 5)" fst "small_library None None"] by auto
qed

text \<open>The service answers with the sum, exactly when it is representable, and its result is the same
  whatever code the spin had.\<close>

theorem service_adds:
  assumes "taken lib (world (spun ard lib s)) = Some req"
  shows "res_sum (service_loop ard lib s) = req_a req + req_b req \<and>
    (sint (res_sum (service_loop ard lib s)) = sint (req_a req) + sint (req_b req) \<longleftrightarrow>
     - (2 ^ 63) \<le> sint (req_a req) + sint (req_b req) \<and> sint (req_a req) + sint (req_b req) < 2 ^ 63)"
proof -
  have r: "res_sum (service_loop ard lib s) = req_a req + req_b req"
    using assms by (simp add: service_loop_def RCSOFTCHECK_eq spin_some_def invoke_perform deliver_def service_callback_def spun_def)
  have "req_a req + req_b req = word_of_int (sint (req_a req) + sint (req_b req))" by simp
  then have "sint (req_a req + req_b req) = sint (req_a req) + sint (req_b req)"
    if "- (2 ^ 63) \<le> sint (req_a req) + sint (req_b req)" "sint (req_a req) + sint (req_b req) < 2 ^ 63"
    using that by (simp only: sint_u64_of_int)
  then show ?thesis unfolding r using sint_u64_bounds [of "req_a req + req_b req"] by metis
qed

theorem service_adds_witness:
  "res_sum (service_loop small_arduino (small_library None (Some \<lparr>req_a = 2, req_b = 40\<rparr>)) small_adder) = 42"
  using service_adds [of "small_library None (Some \<lparr>req_a = 2, req_b = 40\<rparr>)" small_arduino small_adder] by simp


text \<open>On a Teensy the address is the 48 bits of the two registers, most significant byte first,
  whatever the default was.\<close>

theorem teensy_mac_is_big_endian:
  assumes "length mac = 6"
  shows "length (get_teensy_mac hi lo mac) = 6 \<and>
    foldl (\<lambda>a b. a * 256 + uint b) 0 (get_teensy_mac hi lo mac) = (uint hi mod 2 ^ 16) * 2 ^ 32 + uint lo"
proof -
  obtain b0 b1 b2 b3 b4 b5 where mac: "mac = [b0, b1, b2, b3, b4, b5]"
    using assms by (auto simp: length_Suc_conv eval_nat_numeral)
  have m: "get_teensy_mac hi lo mac =
    [ucast (drop_bit 8 hi AND 0xFF), ucast (drop_bit 0 hi AND 0xFF), ucast (drop_bit 24 lo AND 0xFF),
     ucast (drop_bit 16 lo AND 0xFF), ucast (drop_bit 8 lo AND 0xFF), ucast (drop_bit 0 lo AND 0xFF)]"
    by (simp add: get_teensy_mac_def mac upt_rec)
  have "0 \<le> uint lo" "uint lo < 4294967296" using uint_lt2p [of lo] by simp_all
  from four_bytes [OF this] two_bytes [of "uint hi"] show ?thesis
    unfolding m by (simp only: foldl.simps byte_of_u32) simp
qed

theorem teensy_mac_is_big_endian_witness:
  "foldl (\<lambda>a b. a * 256 + uint b) 0 (get_teensy_mac 0xABCD04E9 0xE5000102 [0, 0, 0, 0, 0, 0]) = 0x04E9E5000102"
  using teensy_mac_is_big_endian [where mac = "[0, 0, 0, 0, 0, 0]" and hi = "0xABCD04E9" and lo = "0xE5000102"] by simp


end
