(* ===== verification/Time_Sync.thy ===== *)
theory Time_Sync
  imports Sketch_Runtime
begin

text \<open>
  The sketch \<^verbatim>\<open>micro-ros_time_sync\<close>: it asks the agent for the time and prints the date on a serial
  port. The library TimeLib is not part of the repository and is a parameter, as is the epoch of
  the session. \<open>sprintf\<close> is modelled for the conversions of the sketch, and whether it writes past
  the buffer is kept in a ghost field.
\<close>

subsection \<open>Decimal conversion\<close>

text \<open>The conversions \<open>%0wd\<close> and \<open>%d\<close>.\<close>

definition format_0d :: "nat \<Rightarrow> int \<Rightarrow> string" where
  "format_0d w k =
     (let sign = (if k < 0 then ''-'' else []); digits = decimal (nat \<bar>k\<bar>)
      in sign @ replicate (w - length sign - length digits) (CHR ''0'') @ digits)"

lemma length_format_0d: "0 < w \<Longrightarrow> 0 \<le> k \<Longrightarrow> k < 10 ^ w \<Longrightarrow> length (format_0d w k) = w"
  using length_decimal [of w "nat k"] by (simp add: format_0d_def Let_def nat_less_iff)

lemma length_formats:
  "0 \<le> k \<Longrightarrow> k \<le> 99 \<Longrightarrow> length (format_0d 2 k) = 2" "0 \<le> k \<Longrightarrow> k \<le> 999 \<Longrightarrow> length (format_0d 3 k) = 3"
  "0 \<le> k \<Longrightarrow> k \<le> 9999 \<Longrightarrow> length (format_0d 4 k) = 4"
  by (simp_all add: length_format_0d)

subsection \<open>The sketch\<close>

record 'w time_lib =
  serial_start :: "'w \<Rightarrow> 'w"
  rmw_uros_epoch_millis :: "'w \<Rightarrow> u64"
  setTime :: "int \<Rightarrow> 'w \<Rightarrow> 'w"
  day :: "'w \<Rightarrow> int"
  month :: "'w \<Rightarrow> int"
  year :: "'w \<Rightarrow> int"
  hour :: "'w \<Rightarrow> int"
  minute :: "'w \<Rightarrow> int"
  second :: "'w \<Rightarrow> int"

record 'w clock_board = "('w, unit) board" +
  time_ms :: u64
  time_seconds :: int
  time_str :: string
  overrun :: bool
  serial_out :: string

definition timeout_ms :: int where
  "timeout_ms = 1000"

definition time_sync_setup ::
  "'w arduino \<Rightarrow> 'w time_lib \<Rightarrow> ('w, unit) library \<Rightarrow> nat \<Rightarrow> 'w clock_board \<Rightarrow> 'w clock_board run" where
  "time_sync_setup ard tlib lib n s =
     (let s1 = at_world (set_microros_transports (net ard)) s;
          s2 = at_world (serial_start tlib) s1;
          s3 = at_world (pinMode_output ard LED_PIN) s2;
          s4 = at_world (digitalWrite ard LED_PIN True) s3;
          s5 = at_world (delay_ms ard 2000) s4;
          s6 = perform lib Get_default_allocator s5
      in RCCHECK (error_loop ard LED_PIN n) (invoke lib Support_init) Finished s6)"

definition print :: "string \<Rightarrow> 'w clock_board \<Rightarrow> 'w clock_board" where
  "print t s = s\<lparr>serial_out := serial_out s @ t\<rparr>"

definition println :: "string \<Rightarrow> 'w clock_board \<Rightarrow> 'w clock_board" where
  "println t s = s\<lparr>serial_out := serial_out s @ t @ [CHR 0x0D, CHR 0x0A]\<rparr>"

text \<open>\<open>(uint) time_ms % 1000\<close> converts before it takes the remainder.\<close>

definition shown_millis :: "u64 \<Rightarrow> u32" where
  "shown_millis t = ucast t mod 1000"

definition date_string :: "'w time_lib \<Rightarrow> 'w \<Rightarrow> u64 \<Rightarrow> string" where
  "date_string tlib w t =
     format_0d 2 (day tlib w) @ ''.'' @ format_0d 2 (month tlib w) @ ''.'' @ format_0d 4 (year tlib w) @ '' '' @
     format_0d 2 (hour tlib w) @ '':'' @ format_0d 2 (minute tlib w) @ '':'' @ format_0d 2 (second tlib w) @ ''.'' @
     format_0d 3 (sint (shown_millis t))"

text \<open>The buffer has 25 bytes, one of them for the terminating zero.\<close>

definition sprintf_time_str :: "string \<Rightarrow> 'w clock_board \<Rightarrow> 'w clock_board" where
  "sprintf_time_str t s = s\<lparr>time_str := t, overrun := overrun s \<or> 25 < length t + 1\<rparr>"

definition time_sync_body :: "'w arduino \<Rightarrow> 'w time_lib \<Rightarrow> 'w clock_board \<Rightarrow> 'w clock_board" where
  "time_sync_body ard tlib s =
     (let s1 = s\<lparr>time_ms := rmw_uros_epoch_millis tlib (world s)\<rparr>;
          s2 = (if 0 < sint (time_ms s1)
                then (let a = s1\<lparr>time_seconds := sint (time_ms s1) sdiv 1000\<rparr>;
                          b = at_world (setTime tlib (time_seconds a)) a;
                          c = sprintf_time_str (date_string tlib (world b) (time_ms b)) b
                      in println (time_str c) (print ''Agent date: '' c))
                else println (format_0d 0 (sint (ucast (time_ms s1) :: u32)))
                       (print ''Session sync failed, error code: '' s1))
      in at_world (delay_ms ard 1001) s2)"

definition time_sync_loop ::
  "'w arduino \<Rightarrow> 'w time_lib \<Rightarrow> ('w, unit) library \<Rightarrow> nat \<Rightarrow> 'w clock_board \<Rightarrow> 'w clock_board run" where
  "time_sync_loop ard tlib lib n s =
     RCCHECK (error_loop ard LED_PIN n) (invoke lib (Sync_session timeout_ms))
       (\<lambda>s. Finished (time_sync_body ard tlib s)) s"

interpretation time_sync: checked_setup "time_sync_setup ard tlib lib" lib
  "\<lambda>s. perform lib Get_default_allocator (at_world (\<lambda>w. delay_ms ard 2000 (digitalWrite ard LED_PIN True
     (pinMode_output ard LED_PIN (serial_start tlib (set_microros_transports (net ard) w))))) s)"
  "[Support_init]" "\<lambda>s. s" "blink ard LED_PIN" for ard tlib lib
  by unfold_locales (simp add: time_sync_setup_def checked_def error_loop_def at_world_def Let_def)

subsection \<open>The milliseconds\<close>

lemma uint_shown_millis: "uint (shown_millis t) = uint t mod 2 ^ 32 mod 1000"
proof -
  have "uint (ucast t :: u32) = uint t mod 2 ^ 32"
    by (simp add: unsigned_ucast_eq take_bit_eq_mod)
  then show ?thesis by (simp add: shown_millis_def uint_mod_distrib)
qed

lemma sint_shown_millis: "sint (shown_millis t) = uint t mod 2 ^ 32 mod 1000" "0 \<le> sint (shown_millis t)"
  "sint (shown_millis t) < 1000"
proof -
  have u: "0 \<le> uint (shown_millis t)" "uint (shown_millis t) < 1000"
    by (simp_all add: uint_shown_millis)
  have "sint (shown_millis t) = signed_take_bit 31 (uint (shown_millis t))"
    by (simp add: sint_uint)
  also have "\<dots> = uint (shown_millis t)"
  proof (rule signed_take_bit_int_eq_self)
    show "- (2 ^ 31) \<le> uint (shown_millis t)" by (rule order_trans [OF _ u(1)]) simp
  qed (use u in simp)
  finally have "sint (shown_millis t) = uint (shown_millis t)" .
  then show "sint (shown_millis t) = uint t mod 2 ^ 32 mod 1000" "0 \<le> sint (shown_millis t)"
    "sint (shown_millis t) < 1000"
    using u by (simp_all add: uint_shown_millis)
qed

text \<open>\<open>2 ^ 32\<close> milliseconds leave 296 modulo 1000, so the remainders agree when 125 divides the number
  of such periods.\<close>

lemma dvd_296: "(1000 :: int) dvd 4294967296 * q \<longleftrightarrow> 125 dvd q"
proof -
  have "4294967296 * q = 296 * q + 1000 * (4294967 * q)" by simp
  then have "(1000 :: int) dvd 4294967296 * q \<longleftrightarrow> 8 * 125 dvd 8 * (37 * q)"
    by (simp only: dvd_add_triv_right_iff dvd_add_left_iff dvd_triv_left) simp
  also have "\<dots> \<longleftrightarrow> 125 dvd 37 * q" by (simp only: dvd_mult_cancel_left) simp
  also have "\<dots> \<longleftrightarrow> 125 dvd q"
  proof
    assume "125 dvd 37 * q"
    then have "125 dvd 125 * (8 * q) - 27 * (37 * q)" by (intro dvd_diff [OF dvd_triv_left dvd_mult])
    then show "125 dvd q" by simp
  qed (rule dvd_mult)
  finally show ?thesis .
qed

lemma remainder_after_cast:
  fixes t :: int
  shows "t mod 2 ^ 32 mod 1000 = t mod 1000 \<longleftrightarrow> 125 dvd t div 2 ^ 32"
proof -
  have "4294967296 * (t div 2 ^ 32) = t - t mod 2 ^ 32" by (simp add: minus_mod_eq_mult_div)
  moreover have "t mod 2 ^ 32 mod 1000 = t mod 1000 \<longleftrightarrow> 1000 dvd t - t mod 2 ^ 32"
    by (metis mod_eq_dvd_iff)
  ultimately show ?thesis using dvd_296 by metis
qed

lemma clock_board_fields:
  "overrun (perform lib c s) = overrun s" "serial_out (perform lib c s) = serial_out s"
  by (simp_all add: perform_def invoke_def split_def Let_def)

text \<open>The ranges TimeLib documents for the parts of a date.\<close>

definition proper_dates :: "'w time_lib \<Rightarrow> bool" where
  "proper_dates tlib \<longleftrightarrow> (\<forall>w. 1 \<le> day tlib w \<and> day tlib w \<le> 31 \<and> 1 \<le> month tlib w \<and> month tlib w \<le> 12 \<and>
     1970 \<le> year tlib w \<and> year tlib w \<le> 9999 \<and> 0 \<le> hour tlib w \<and> hour tlib w \<le> 23 \<and>
     0 \<le> minute tlib w \<and> minute tlib w \<le> 59 \<and> 0 \<le> second tlib w \<and> second tlib w \<le> 59)"

lemma proper_dates_lengths:
  assumes "proper_dates tlib"
  shows "length (format_0d 2 (day tlib w)) = 2" "length (format_0d 2 (month tlib w)) = 2"
    "length (format_0d 4 (year tlib w)) = 4" "length (format_0d 2 (hour tlib w)) = 2"
    "length (format_0d 2 (minute tlib w)) = 2" "length (format_0d 2 (second tlib w)) = 2"
  using assms [unfolded proper_dates_def, rule_format, of w] by (intro length_formats; linarith)+

subsection \<open>Properties\<close>

text \<open>C40. The milliseconds of the printed date are wrong except in one of every 125 periods of
  49.7 days (\<open>2 ^ 32\<close> milliseconds): the time is cut to 32 bits before the remainder is taken.\<close>

theorem printed_millis_right_iff:
  assumes "0 < sint t"
  shows "sint (shown_millis t) = sint t mod 1000 \<longleftrightarrow> 125 dvd sint t div 2 ^ 32"
proof -
  have "uint t = sint t" using assms sint_u64_bounds [of t] by (simp add: uint_sint take_bit_int_eq_self)
  then show ?thesis using sint_shown_millis(1) [of t] remainder_after_cast [of "uint t"] by metis
qed

theorem printed_millis_right_iff_witness:
  "sint (shown_millis 1700000000123) \<noteq> 123"
  using printed_millis_right_iff [of 1700000000123] by simp

text \<open>With a date in range the buffer is never overrun: the text has 23 characters, which with the
  terminating zero leaves one of the 25 bytes; and the seconds handed to the clock are the
  milliseconds without their fraction.\<close>

theorem date_fits_buffer:
  assumes "proper_dates tlib" "\<not> overrun s" "time_sync_loop ard tlib lib n s = Finished u"
  shows "\<not> overrun u \<and> (0 < sint (time_ms u) \<longrightarrow>
    length (time_str u) = 23 \<and> time_seconds u = sint (time_ms u) div 1000)"
proof -
  let ?s = "perform lib (Sync_session timeout_ms) s"
  have u: "u = time_sync_body ard tlib ?s"
    using assms(3) by (simp add: time_sync_loop_def RCCHECK_def invoke_perform error_loop_def forever_running
        split: if_splits)
  have "length (date_string tlib w t) = 23" for w t
    using sint_shown_millis(2,3) [of t]
    by (simp add: date_string_def proper_dates_lengths [OF assms(1)] length_formats)
  then show ?thesis
    using assms(2) by (simp add: u time_sync_body_def sprintf_time_str_def print_def println_def at_world_def
        clock_board_fields sdiv_nonneg Let_def)
qed

definition small_time :: "u64 \<Rightarrow> small_world time_lib" where
  "small_time t = \<lparr>serial_start = (\<lambda>w. w), rmw_uros_epoch_millis = (\<lambda>w. t), setTime = (\<lambda>s w. w), day = (\<lambda>w. 14),
     month = (\<lambda>w. 11), year = (\<lambda>w. 2023), hour = (\<lambda>w. 22), minute = (\<lambda>w. 13), second = (\<lambda>w. 20)\<rparr>"

definition small_clock :: "small_world clock_board" where
  "small_clock = board.extend small_board (clock_board.fields 0 0 [] False [])"

theorem date_fits_buffer_witness:
  "\<exists>u. time_sync_loop small_arduino (small_time 1700000000123) (small_library None None) 0 small_clock = Finished u \<and>
     \<not> overrun u"
proof -
  have "\<exists>u. time_sync_loop small_arduino (small_time 1700000000123) (small_library None None) 0 small_clock = Finished u"
    by (simp add: time_sync_loop_def RCCHECK_def invoke_perform small_library_def ret_codes)
  moreover have "proper_dates (small_time 1700000000123)" "\<not> overrun small_clock"
    by (simp_all add: small_time_def proper_dates_def small_clock_def clock_board.fields_def board.extend_def small_board_def)
  ultimately show ?thesis using date_fits_buffer by blast
qed

end
