(* ===== verification/Sound_Meter.thy ===== *)
theory Sound_Meter
  imports Sketch_Runtime Complex_Main
begin

text \<open>
  The sketch \<^verbatim>\<open>micro-ros_decibels\<close>: the interrupt of the microphone adds the squares of the samples to
  \<open>rms\<close> and their number to \<open>samplesRead\<close>, and the loop turns both into decibels, clears them and
  publishes. The loop is cut where it reads or writes a shared variable. \<open>rms\<close> is a \<open>double\<close> that
  only ever holds sums of squares of 16-bit samples, exact integers up to \<open>2 ^ 53\<close> (eight million
  samples of the largest amplitude), and is a natural number here; the decibels are real numbers.
\<close>

subsection \<open>State\<close>

datatype sound_pc = Load_rms | Divide | Clear_count | Clear_rms | Publish_level

record 'w microphone =
  PDM_onReceive :: "'w \<Rightarrow> 'w"
  PDM_begin :: "'w \<Rightarrow> bool \<times> 'w"
  PDM_available :: "'w \<Rightarrow> nat \<times> 'w"
  PDM_read :: "nat \<Rightarrow> 'w \<Rightarrow> u16 list \<times> 'w"

text \<open>The values of a \<open>double\<close> the logarithm of a quotient can have.\<close>

datatype level = Level real | Minus_infinity | Plus_infinity | Not_a_number

record 'w sound = "('w, level) board" +
  sampleBuffer :: "u16 list"
  samplesRead :: nat
  rms :: nat
  sound_pc :: sound_pc
  local_rms :: nat
  decibels :: "level"
  level_msg :: "level"

definition sound_setup ::
  "'w arduino \<Rightarrow> 'w microphone \<Rightarrow> ('w, level) library \<Rightarrow> nat \<Rightarrow> 'w sound \<Rightarrow> 'w sound run" where
  "sound_setup ard mic lib n s =
     (let s1 = at_world (set_microros_transports (net ard)) s;
          s2 = at_world (pinMode_output ard LED_PIN) s1;
          s3 = at_world (digitalWrite ard LED_PIN True) s2;
          s4 = at_world (delay_ms ard 100) s3;
          s5 = perform lib Get_default_allocator s4;
          check = (\<lambda>c. RCCHECK (error_loop ard LED_PIN n) (invoke lib c))
      in (check Support_init
           (check (Node_init_default ''soundmeter_nodo'' [])
             (check (Publisher_init_default ''std_msgs_msg_Float32'' ''decibels'')
               (\<lambda>s6. let s7 = at_world (PDM_onReceive mic) (s6\<lparr>level_msg := Level 0\<rparr>);
                         (started, w) = PDM_begin mic (world s7);
                         s8 = s7\<lparr>world := w\<rparr>
                     in if \<not> started then forever (\<lambda>s. s) n s8 else Finished s8)))) s5)"

subsection \<open>The interrupt\<close>

definition square_sum :: "u16 list \<Rightarrow> nat" where
  "square_sum samples = sum_list (map (\<lambda>x. nat ((sint x)\<^sup>2)) samples)"

text \<open>\<open>None\<close> is an access past the 2000 samples of the buffer.\<close>

definition onPDMdata :: "'w microphone \<Rightarrow> 'w sound \<Rightarrow> 'w sound option" where
  "onPDMdata mic s =
     (let (bytesAvailable, w1) = PDM_available mic (world s);
          (samples, w2) = PDM_read mic bytesAvailable w1;
          buffer = samples @ drop (length samples) (sampleBuffer s);
          localsamplesRead = bytesAvailable div 2
      in if 4000 < bytesAvailable then None
         else Some (s\<lparr>world := w2, sampleBuffer := buffer, samplesRead := samplesRead s + localsamplesRead,
                rms := rms s + square_sum (take localsamplesRead buffer)\<rparr>))"

subsection \<open>The loop\<close>

definition decibels_of :: "nat \<Rightarrow> nat \<Rightarrow> level" where
  "decibels_of r k =
     (if k = 0 then (if r = 0 then Not_a_number else Plus_infinity)
      else if r = 0 then Minus_infinity
      else Level (20 * log 10 (real r / real k)))"

fun sound_step :: "'w arduino \<Rightarrow> ('w, level) library \<Rightarrow> 'w sound \<Rightarrow> 'w sound" where
  "sound_step ard lib s =
     (case sound_pc s of
        Load_rms \<Rightarrow> s\<lparr>local_rms := rms s, sound_pc := Divide\<rparr>
      | Divide \<Rightarrow> s\<lparr>decibels := decibels_of (local_rms s) (samplesRead s), sound_pc := Clear_count\<rparr>
      | Clear_count \<Rightarrow> s\<lparr>samplesRead := 0, sound_pc := Clear_rms\<rparr>
      | Clear_rms \<Rightarrow> s\<lparr>rms := 0, sound_pc := Publish_level\<rparr>
      | Publish_level \<Rightarrow>
          (let s1 = s\<lparr>level_msg := decibels s\<rparr>;
               s2 = RCSOFTCHECK (invoke lib (Publish (level_msg s1))) s1
           in (at_world (delay_ms ard 100) s2)\<lparr>sound_pc := Load_rms\<rparr>))"

declare sound_step.simps [simp del]

text \<open>A schedule interleaves steps of the loop with interrupts.\<close>

datatype sound_turn = Loop_step | Samples_ready

fun sound_run ::
  "'w arduino \<Rightarrow> 'w microphone \<Rightarrow> ('w, level) library \<Rightarrow> sound_turn list \<Rightarrow> 'w sound \<Rightarrow> 'w sound option" where
  "sound_run ard mic lib [] s = Some s"
| "sound_run ard mic lib (Loop_step # ts) s = sound_run ard mic lib ts (sound_step ard lib s)"
| "sound_run ard mic lib (Samples_ready # ts) s =
     (case onPDMdata mic s of None \<Rightarrow> None | Some s' \<Rightarrow> sound_run ard mic lib ts s')"

subsection \<open>What the interrupts hear\<close>

text \<open>A microphone that fills the buffer with the samples it announced, at most 2000.\<close>

definition proper_microphone :: "'w microphone \<Rightarrow> bool" where
  "proper_microphone mic \<longleftrightarrow> (\<forall>w. case PDM_available mic w of (bytes, w1) \<Rightarrow>
     bytes \<le> 4000 \<and> length (fst (PDM_read mic bytes w1)) = bytes div 2)"

definition heard_once :: "'w microphone \<Rightarrow> 'w \<Rightarrow> u16 list \<times> 'w" where
  "heard_once mic w = (case PDM_available mic w of (bytes, w1) \<Rightarrow> PDM_read mic bytes w1)"

fun heard :: "'w microphone \<Rightarrow> nat \<Rightarrow> 'w \<Rightarrow> u16 list \<times> 'w" where
  "heard mic 0 w = ([], w)"
| "heard mic (Suc k) w =
     (let (xs, w1) = heard_once mic w; (ys, w2) = heard mic k w1 in (xs @ ys, w2))"

lemma square_sum_simps [simp]: "square_sum [] = 0" "square_sum (xs @ ys) = square_sum xs + square_sum ys"
  by (simp_all add: square_sum_def)

lemma onPDMdata_effect:
  assumes "proper_microphone mic" "heard_once mic (world s) = (xs, w)"
  obtains buffer where "onPDMdata mic s = Some (s\<lparr>world := w, sampleBuffer := buffer,
    samplesRead := samplesRead s + length xs, rms := rms s + square_sum xs\<rparr>)"
proof -
  obtain bytes w1 where a: "PDM_available mic (world s) = (bytes, w1)" by fastforce
  with assms have "PDM_read mic bytes w1 = (xs, w)" "bytes \<le> 4000" "length xs = bytes div 2"
    by (auto simp: heard_once_def proper_microphone_def split: prod.splits dest: spec [of _ "world s"])
  with a that show thesis by (simp add: onPDMdata_def Let_def)
qed

lemma run_interrupts:
  assumes "proper_microphone mic"
  shows "\<exists>buffer. sound_run ard mic lib (replicate k Samples_ready @ ts) s =
    sound_run ard mic lib ts (s\<lparr>world := snd (heard mic k (world s)), sampleBuffer := buffer,
      samplesRead := samplesRead s + length (fst (heard mic k (world s))),
      rms := rms s + square_sum (fst (heard mic k (world s)))\<rparr>)"
proof (induction k arbitrary: s)
  case 0
  show ?case by (rule exI [of _ "sampleBuffer s"]) simp
next
  case (Suc k)
  obtain xs w where h: "heard_once mic (world s) = (xs, w)" by fastforce
  obtain buffer where i: "onPDMdata mic s = Some (s\<lparr>world := w, sampleBuffer := buffer,
      samplesRead := samplesRead s + length xs, rms := rms s + square_sum xs\<rparr>)"
    using onPDMdata_effect [OF assms h] by metis
  from Suc.IH [of "s\<lparr>world := w, sampleBuffer := buffer, samplesRead := samplesRead s + length xs,
      rms := rms s + square_sum xs\<rparr>"]
  show ?case by (auto simp: i h split_def Let_def add.assoc)
qed

lemma sound_fields [simp]:
  "samplesRead (perform lib c s) = samplesRead s" "rms (perform lib c s) = rms s"
  "sound_pc (perform lib c s) = sound_pc s" "samplesRead (at_world f s) = samplesRead s"
  "rms (at_world f s) = rms s"
  by (simp_all add: perform_def invoke_def at_world_def split_def Let_def)

lemma iteration:
  assumes "sound_pc s = Load_rms"
  shows "\<exists>t. sound_run ard mic lib (replicate 5 Loop_step) s = Some t \<and> rms t = 0 \<and> samplesRead t = 0 \<and>
    sound_pc t = Load_rms \<and> map fst (calls t) = map fst (calls s) @ [Publish (decibels_of (rms s) (samplesRead s))]"
  using assms by (simp add: numeral_eq_Suc sound_step.simps RCSOFTCHECK_eq invoke_perform Let_def)

definition small_microphone :: "small_world microphone" where
  "small_microphone = \<lparr>PDM_onReceive = (\<lambda>w. w), PDM_begin = (\<lambda>w. (True, w)), PDM_available = (\<lambda>w. (4, w)),
     PDM_read = (\<lambda>n w. ([3, 4], w))\<rparr>"

definition small_sound :: "small_world sound" where
  "small_sound = board.extend small_board (sound.fields (replicate 2000 0) 0 0 Load_rms 0 (Level 0) (Level 0))"

lemma small_microphone_proper [simp]: "proper_microphone small_microphone"
  by (simp add: proper_microphone_def small_microphone_def)

lemma small_sound_fields [simp]:
  "world small_sound = (False, 0)" "calls small_sound = []" "samplesRead small_sound = 0" "rms small_sound = 0"
  "sound_pc small_sound = Load_rms"
  by (simp_all add: small_sound_def board.extend_def sound.fields_def small_board_def)

lemma small_heard [simp]: "heard_once small_microphone w = ([3, 4], w)"
  by (simp add: heard_once_def small_microphone_def)

lemma heard_twice: "heard small_microphone 2 w = ([3, 4, 3, 4], w)" "square_sum [3, 4, 3, 4] = 50"
  "Suc (Suc (Suc (Suc 0))) = 4"
  by (simp_all add: numeral_2_eq_2 square_sum_def)

subsection \<open>Properties\<close>





text \<open>The level is twice the one in decibels: the sketch takes 20 times the logarithm of the mean
  square, of which it never takes the root that would make it the rms amplitude.\<close>

theorem level_is_doubled:
  assumes "0 < r" "0 < k"
  shows "decibels_of r k = Level (2 * (20 * log 10 (sqrt (real r / real k))))"
  using assms by (simp add: decibels_of_def log_def ln_sqrt)

theorem level_is_doubled_witness: "decibels_of 400 4 = Level (2 * (20 * log 10 (sqrt (400 / 4))))"
  using level_is_doubled [of 400 4] by simp

end
