(* ===== verification/Imu_Sketch.thy ===== *)
theory Imu_Sketch
  imports Sketch_Runtime
begin

text \<open>
  The sketch \<^verbatim>\<open>micro-ros_IMU_ML\<close>: the motion sensor raises an interrupt, the interrupt routine sets a
  flag, and the loop clears the flag, reads the sensor and publishes the activity and the step
  count. The loop is cut into the statements between which the interrupt matters, each a step of a
  program counter. The sensor driver and the string utilities are parameters.
\<close>

subsection \<open>State\<close>

datatype imu_pc = Test_event | Clear_event | Get_mlc_status | Get_event_status | Handle_mlc | Handle_steps

text \<open>What is published: the text of \<open>string_msg\<close> or the number of \<open>pedometer_msg\<close>.\<close>

datatype imu_message = Activity string | Steps u32

text \<open>A ghost trace records interrupts and status reads.\<close>

datatype imu_event = Interrupt | Mlc_status | Event_status

record ucf_line =
  ucf_address :: u8
  ucf_data :: u8

record 'w sensor =
  sensor_begin :: "'w \<Rightarrow> 'w"
  Write_Reg :: "u8 \<Rightarrow> u8 \<Rightarrow> 'w \<Rightarrow> 'w"
  Enable_Pedometer :: "'w \<Rightarrow> 'w"
  attach_interrupt :: "'w \<Rightarrow> 'w"
  Get_MLC_Status :: "'w \<Rightarrow> bool \<times> 'w"
  Get_X_Event_Status :: "'w \<Rightarrow> bool \<times> 'w"
  Get_MLC_Output :: "'w \<Rightarrow> (nat \<Rightarrow> u8) \<times> 'w"
  Get_Step_Count :: "'w \<Rightarrow> u16 \<times> 'w"

record 'w imu = "('w, imu_message) board" +
  mems_event :: bool
  pc :: imu_pc
  is_mlc1 :: bool
  step_status :: bool
  string_msg :: string
  pedometer_msg :: u32
  trace :: "imu_event list"

subsection \<open>Set-up\<close>

text \<open>The registers of the table are written line by line.\<close>

definition program_sensor :: "'w sensor \<Rightarrow> ucf_line list \<Rightarrow> 'w \<Rightarrow> 'w" where
  "program_sensor dev lines w = fold (\<lambda>l. Write_Reg dev (ucf_address l) (ucf_data l)) lines w"

text \<open>The part after the transport, as in the other WiFi sketches. \<open>create_memory\<close> is the call that
  allocates \<open>string_msg\<close>; its result is not used.\<close>

definition imu_init ::
  "'w arduino \<Rightarrow> 'w sensor \<Rightarrow> ucf_line list \<Rightarrow> ('w \<Rightarrow> 'w) \<Rightarrow> ('w, imu_message) library \<Rightarrow> nat \<Rightarrow> 'w imu \<Rightarrow> 'w imu run" where
  "imu_init ard dev lines create_memory lib n s =
     (let s1 = at_world (pinMode_output ard LED_PIN) s;
          s2 = at_world (digitalWrite ard LED_PIN True) s1;
          s3 = at_world (delay_ms ard 100) s2;
          s4 = perform lib Get_default_allocator s3;
          check = (\<lambda>c. RCCHECK (error_loop ard LED_PIN n) (invoke lib c))
      in (check Support_init
           (check (Node_init_default ''IMU_node'' [])
             (check (Publisher_init_default ''std_msgs_msg_String'' ''detection'')
               (check (Publisher_init_default ''std_msgs_msg_Int32'' ''pedometer'')
                 (\<lambda>s5. let s6 = at_world create_memory s5;
                           s7 = at_world (sensor_begin dev) s6;
                           s8 = at_world (program_sensor dev lines) s7;
                           s9 = at_world (Enable_Pedometer dev) s8
                       in Finished (at_world (attach_interrupt dev) s9)))))) s4)"

definition imu_setup ::
  "'w arduino \<Rightarrow> 'w sensor \<Rightarrow> ucf_line list \<Rightarrow> ('w \<Rightarrow> 'w) \<Rightarrow> ('w, imu_message) library \<Rightarrow>
     micro_ros_agent_locator \<Rightarrow> nat \<Rightarrow> 'w imu \<Rightarrow> 'w imu run option" where
  "imu_setup ard dev lines create_memory lib locator n s =
     (case set_microros_wifi_transports (net ard) locator ''192.168.1.57'' 8888 (world s) of
        None \<Rightarrow> None
      | Some (locator', w) \<Rightarrow> Some (imu_init ard dev lines create_memory lib n (s\<lparr>world := w\<rparr>)))"

interpretation imu: checked_setup "imu_init ard dev lines create_memory lib" lib
  "\<lambda>s. perform lib Get_default_allocator (at_world (\<lambda>w. delay_ms ard 100 (digitalWrite ard LED_PIN True
     (pinMode_output ard LED_PIN w))) s)"
  "[Support_init, Node_init_default ''IMU_node'' [], Publisher_init_default ''std_msgs_msg_String'' ''detection'',
    Publisher_init_default ''std_msgs_msg_Int32'' ''pedometer'']"
  "at_world (\<lambda>w. attach_interrupt dev (Enable_Pedometer dev (program_sensor dev lines (sensor_begin dev (create_memory w)))))"
  "blink ard LED_PIN" for ard dev lines create_memory lib
  by unfold_locales (simp add: imu_init_def checked_def error_loop_def at_world_def Let_def)

subsection \<open>Interrupt routine and loop\<close>

definition INT1Event_cb :: "'w imu \<Rightarrow> 'w imu" where
  "INT1Event_cb s = s\<lparr>mems_event := True, trace := trace s @ [Interrupt]\<rparr>"

definition activity_name :: "u8 \<Rightarrow> string" where
  "activity_name out =
     (if out = 0 then ''Stationary'' else if out = 1 then ''Walking'' else if out = 4 then ''Jogging''
      else if out = 8 then ''Biking'' else if out = 12 then ''Driving'' else ''Unknown'')"

text \<open>\<open>string_set\<close> is \<open>micro_ros_string_utilities_set\<close>.\<close>

definition handle_mlc ::
  "'w sensor \<Rightarrow> ('w, imu_message) library \<Rightarrow> (string \<Rightarrow> string \<Rightarrow> string) \<Rightarrow> 'w imu \<Rightarrow> 'w imu" where
  "handle_mlc dev lib string_set s =
     (if is_mlc1 s
      then (let (mlc_out, w) = Get_MLC_Output dev (world s);
                s1 = s\<lparr>world := w, string_msg := string_set (string_msg s) (activity_name (mlc_out 0))\<rparr>
            in RCSOFTCHECK (invoke lib (Publish (Activity (string_msg s1)))) s1)
      else s)"

definition handle_steps :: "'w sensor \<Rightarrow> ('w, imu_message) library \<Rightarrow> 'w imu \<Rightarrow> 'w imu" where
  "handle_steps dev lib s =
     (if step_status s
      then (let (step_count, w) = Get_Step_Count dev (world s);
                s1 = s\<lparr>world := w, pedometer_msg := ucast step_count\<rparr>
            in RCSOFTCHECK (invoke lib (Publish (Steps (pedometer_msg s1)))) s1)
      else s)"

text \<open>One step of the loop; after the last statement, or when the flag is not set, the loop is called
  again.\<close>

fun imu_step ::
  "'w sensor \<Rightarrow> ('w, imu_message) library \<Rightarrow> (string \<Rightarrow> string \<Rightarrow> string) \<Rightarrow> 'w imu \<Rightarrow> 'w imu" where
  "imu_step dev lib string_set s =
     (case pc s of
        Test_event \<Rightarrow> if mems_event s then s\<lparr>pc := Clear_event\<rparr> else s
      | Clear_event \<Rightarrow> s\<lparr>mems_event := False, pc := Get_mlc_status\<rparr>
      | Get_mlc_status \<Rightarrow>
          (let (b, w) = Get_MLC_Status dev (world s)
           in s\<lparr>world := w, is_mlc1 := b, trace := trace s @ [Mlc_status], pc := Get_event_status\<rparr>)
      | Get_event_status \<Rightarrow>
          (let (b, w) = Get_X_Event_Status dev (world s)
           in s\<lparr>world := w, step_status := b, trace := trace s @ [Event_status], pc := Handle_mlc\<rparr>)
      | Handle_mlc \<Rightarrow> (handle_mlc dev lib string_set s)\<lparr>pc := Handle_steps\<rparr>
      | Handle_steps \<Rightarrow> (handle_steps dev lib s)\<lparr>pc := Test_event\<rparr>)"

declare imu_step.simps [simp del]

text \<open>A schedule says at each point whether the loop moves or the interrupt comes.\<close>

datatype turn = Main | Irq

fun imu_run ::
  "'w sensor \<Rightarrow> ('w, imu_message) library \<Rightarrow> (string \<Rightarrow> string \<Rightarrow> string) \<Rightarrow> turn list \<Rightarrow> 'w imu \<Rightarrow> 'w imu" where
  "imu_run dev lib string_set [] s = s"
| "imu_run dev lib string_set (Main # ts) s = imu_run dev lib string_set ts (imu_step dev lib string_set s)"
| "imu_run dev lib string_set (Irq # ts) s = imu_run dev lib string_set ts (INT1Event_cb s)"

subsection \<open>Effects of a step\<close>

lemma perform_imu_fields [simp]:
  "mems_event (perform lib c s) = mems_event s" "pc (perform lib c s) = pc s"
  "is_mlc1 (perform lib c s) = is_mlc1 s" "step_status (perform lib c s) = step_status s"
  "string_msg (perform lib c s) = string_msg s" "pedometer_msg (perform lib c s) = pedometer_msg s"
  "trace (perform lib c s) = trace s"
  by (simp_all add: perform_def invoke_def split_def Let_def)

lemma handle_fields [simp]:
  "mems_event (handle_mlc dev lib ss s) = mems_event s" "trace (handle_mlc dev lib ss s) = trace s"
  "mems_event (handle_steps dev lib s) = mems_event s" "trace (handle_steps dev lib s) = trace s"
  by (simp_all add: handle_mlc_def handle_steps_def RCSOFTCHECK_eq invoke_perform split_def Let_def)

lemma handle_mlc_effect:
  assumes "Get_MLC_Output dev (world s) = (out, w)" "label = ss (string_msg s) (activity_name (out 0))"
  shows "world (handle_mlc dev lib ss s) = (if is_mlc1 s then snd (call lib (Publish (Activity label)) w) else world s)"
    "map fst (calls (handle_mlc dev lib ss s)) = map fst (calls s) @ (if is_mlc1 s then [Publish (Activity label)] else [])"
    "step_status (handle_mlc dev lib ss s) = step_status s"
  using assms by (simp_all add: handle_mlc_def RCSOFTCHECK_eq invoke_perform Let_def)

lemma handle_steps_effect:
  assumes "Get_Step_Count dev (world s) = (count, w)"
  shows "map fst (calls (handle_steps dev lib s)) = map fst (calls s) @ (if step_status s then [Publish (Steps (ucast count))] else [])"
  using assms by (simp add: handle_steps_def RCSOFTCHECK_eq invoke_perform Let_def)

text \<open>After an interrupt, with \<open>m\<close> saying whether the first status was read since, \<open>due\<close> is the number of
  steps after which the loop has read both.\<close>

fun due :: "imu_pc \<Rightarrow> bool \<Rightarrow> bool \<Rightarrow> nat option" where
  "due Test_event flag m = (if flag then Some 4 else None)"
| "due Clear_event flag m = Some 3"
| "due Get_mlc_status flag m = Some 2"
| "due Get_event_status flag m = (if m then Some 1 else if flag then Some 7 else None)"
| "due Handle_mlc flag m = (if flag then Some 6 else None)"
| "due Handle_steps flag m = (if flag then Some 5 else None)"

fun reads :: "imu_pc \<Rightarrow> imu_event list" where
  "reads Get_mlc_status = [Mlc_status]"
| "reads Get_event_status = [Event_status]"
| "reads _ = []"

lemma step_simps [simp]:
  "trace (imu_step dev lib ss s) = trace s @ reads (pc s)"
  "pc (imu_step dev lib ss s) = (case pc s of Test_event \<Rightarrow> if mems_event s then Clear_event else Test_event
     | Clear_event \<Rightarrow> Get_mlc_status | Get_mlc_status \<Rightarrow> Get_event_status | Get_event_status \<Rightarrow> Handle_mlc
     | Handle_mlc \<Rightarrow> Handle_steps | Handle_steps \<Rightarrow> Test_event)"
  "mems_event (imu_step dev lib ss s) \<longleftrightarrow> mems_event s \<and> pc s \<noteq> Clear_event"
  by (cases "pc s"; simp add: imu_step.simps split_def Let_def)+

lemma due_step:
  assumes "due (pc s) (mems_event s) m = Some (Suc k)" "m \<longrightarrow> Mlc_status \<in> set tr"
  shows "\<exists>m'. (k = 0 \<longrightarrow> {Mlc_status, Event_status} \<subseteq> set (tr @ reads (pc s))) \<and>
    (0 < k \<longrightarrow> due (pc (imu_step dev lib ss s)) (mems_event (imu_step dev lib ss s)) m' = Some k) \<and>
    (m' \<longrightarrow> Mlc_status \<in> set (tr @ reads (pc s)))"
  using assms by (cases "pc s") (auto split: if_splits)

lemma due_interrupt:
  "due (pc s) (mems_event s) m = Some k \<Longrightarrow> due (pc (INT1Event_cb s)) (mems_event (INT1Event_cb s)) m = Some k"
  by (cases "pc s") (auto simp: INT1Event_cb_def split: if_splits)

lemma due_after_interrupt:
  "\<exists>k. k \<le> 7 \<and> due (pc (INT1Event_cb s)) (mems_event (INT1Event_cb s)) False = Some k"
  by (cases "pc s") (simp_all add: INT1Event_cb_def)

lemma due_pos: "due p f m = Some k \<Longrightarrow> 0 < k"
  by (cases p) (auto split: if_splits)

lemma run_extends: "\<exists>new. trace (imu_run dev lib ss ts s) = trace s @ new"
proof (induction ts arbitrary: s)
  case (Cons t ts)
  show ?case
    using Cons.IH [of "imu_step dev lib ss s"] Cons.IH [of "INT1Event_cb s"]
    by (cases t) (auto simp: INT1Event_cb_def)
qed simp

lemma run_due:
  "due (pc s) (mems_event s) m = Some k \<Longrightarrow> (m \<longrightarrow> Mlc_status \<in> set tr) \<Longrightarrow> k \<le> length (filter (\<lambda>t. t = Main) ts) \<Longrightarrow>
   \<exists>new. trace (imu_run dev lib ss ts s) = trace s @ new \<and> {Mlc_status, Event_status} \<subseteq> set (tr @ new)"
proof (induction ts arbitrary: s m k tr)
  case Nil
  then show ?case using due_pos by force
next
  case (Cons t ts)
  show ?case
  proof (cases t)
    case Irq
    with Cons.IH [OF due_interrupt [OF Cons.prems(1)], of "tr @ [Interrupt]"] Cons.prems(2,3)
    show ?thesis by (auto simp: INT1Event_cb_def)
  next
    case Main
    obtain j where k: "k = Suc j" using due_pos [OF Cons.prems(1)] by (cases k) auto
    let ?new = "reads (pc s)"
    let ?s = "imu_step dev lib ss s"
    obtain m' where n: "j = 0 \<longrightarrow> {Mlc_status, Event_status} \<subseteq> set (tr @ ?new)"
      "0 < j \<longrightarrow> due (pc ?s) (mems_event ?s) m' = Some j" "m' \<longrightarrow> Mlc_status \<in> set (tr @ ?new)"
      using due_step [OF Cons.prems(1) [unfolded k] Cons.prems(2)] by metis
    obtain rest where r: "trace (imu_run dev lib ss ts (imu_step dev lib ss s)) = (trace s @ ?new) @ rest"
      using run_extends [of dev lib ss ts "imu_step dev lib ss s"] by (simp only: step_simps) metis
    show ?thesis
    proof (cases "j = 0")
      case True
      with n(1) r Main show ?thesis by auto
    next
      case False
      then have "0 < j" "j \<le> length (filter (\<lambda>t. t = Main) ts)" using Cons.prems(3) k Main by simp_all
      from Cons.IH [OF n(2) [THEN mp, OF this(1)] n(3) this(2)] Main show ?thesis by auto
    qed
  qed
qed

subsection \<open>Properties\<close>

text \<open>C7. No interrupt is lost: whenever it comes between the statements of the loop, and however many
  more come, within seven further steps of the loop both status registers have been read after it.
  This rests on the flag being cleared before the registers are read.\<close>

theorem interrupts_are_served:
  assumes "7 \<le> length (filter (\<lambda>t. t = Main) ts)"
  shows "\<exists>later. trace (imu_run dev lib string_set (Irq # ts) s) = trace s @ Interrupt # later \<and>
    Mlc_status \<in> set later \<and> Event_status \<in> set later"
proof -
  obtain k where k: "k \<le> 7" "due (pc (INT1Event_cb s)) (mems_event (INT1Event_cb s)) False = Some k" using due_after_interrupt by metis
  from run_due [OF k(2), of "[]" ts dev lib string_set] k(1) assms obtain new where
    "trace (imu_run dev lib string_set ts (INT1Event_cb s)) = trace (INT1Event_cb s) @ new"
    "{Mlc_status, Event_status} \<subseteq> set new" by auto
  then show ?thesis by (simp add: INT1Event_cb_def)
qed

definition small_sensor :: "small_world sensor" where
  "small_sensor = \<lparr>sensor_begin = (\<lambda>w. w), Write_Reg = (\<lambda>a d w. w), Enable_Pedometer = (\<lambda>w. w),
     attach_interrupt = (\<lambda>w. w), Get_MLC_Status = (\<lambda>w. (True, w)), Get_X_Event_Status = (\<lambda>w. (True, w)),
     Get_MLC_Output = (\<lambda>w. (\<lambda>i. 4, w)), Get_Step_Count = (\<lambda>w. (65535, w))\<rparr>"

definition small_imu :: "imu_pc \<Rightarrow> small_world imu" where
  "small_imu p = board.extend small_board (imu.fields False p False False [] 0 [])"

lemmas small_imu_defs = small_imu_def board.extend_def imu.fields_def small_board_def

theorem interrupts_are_served_witness:
  "\<exists>later. trace (imu_run small_sensor (small_library None None) (\<lambda>old t. t) (Irq # replicate 7 Main) (small_imu Get_event_status)) =
     Interrupt # later \<and> Mlc_status \<in> set later \<and> Event_status \<in> set later"
  using interrupts_are_served [of "replicate 7 Main" small_sensor "small_library None None" "\<lambda>old t. t"
      "small_imu Get_event_status"]
  by (simp add: small_imu_defs)

text \<open>An iteration that finds the flag publishes what the sensor says and nothing else: the name of
  the activity when the core has a result, then the step count when a step was seen, as a number
  that is never negative; it leaves the flag clear for the next interrupt.\<close>

theorem imu_iteration_publishes:
  assumes "pc s = Test_event" "mems_event s" "Get_MLC_Status dev (world s) = (b1, w1)"
    "Get_X_Event_Status dev w1 = (b2, w2)" "Get_MLC_Output dev w2 = (out, w3)"
    "label = string_set (string_msg s) (activity_name (out 0))"
    "w4 = (if b1 then snd (call lib (Publish (Activity label)) w3) else w2)"
    "Get_Step_Count dev w4 = (count, w5)" "t = imu_run dev lib string_set (replicate 6 Main) s"
  shows "pc t = Test_event \<and> \<not> mems_event t \<and> map fst (calls t) = map fst (calls s) @
      (if b1 then [Publish (Activity label)] else []) @ (if b2 then [Publish (Steps (ucast count))] else []) \<and>
    sint (ucast count :: u32) = int (unat count)"
proof -
  have "sint (ucast count :: u32) = int (unat count)"
  proof -
    have b: "0 \<le> uint count" "uint count < 65536" using uint_lt2p [of count] by simp_all
    then have "uint (ucast count :: u32) = uint count"
      by (simp add: unsigned_ucast_eq take_bit_int_eq_self)
    then have "sint (ucast count :: u32) = signed_take_bit 31 (uint count)" by (simp add: sint_uint)
    also have "\<dots> = uint count"
    proof (rule signed_take_bit_int_eq_self)
      show "- (2 ^ 31) \<le> uint count" by (rule order_trans [OF _ b(1)]) simp
    qed (use b in simp)
    finally show ?thesis by simp
  qed
  moreover
  define s4 where "s4 = s\<lparr>mems_event := False, is_mlc1 := b1, world := w2, step_status := b2,
      trace := trace s @ [Mlc_status, Event_status], pc := Handle_mlc\<rparr>"
  define s5 where "s5 = (handle_mlc dev lib string_set s4)\<lparr>pc := Handle_steps\<rparr>"
  have "replicate 6 Main = [Main, Main, Main, Main, Main, Main]" by (simp add: numeral_eq_Suc)
  with assms(1-4,9) have t: "t = (handle_steps dev lib s5)\<lparr>pc := Test_event\<rparr>"
    by (simp add: imu_step.simps s4_def s5_def)
  note mlc = handle_mlc_effect [where dev = dev and lib = lib and ss = string_set and s = s4 and out = out
      and w = w3 and label = label]
  have s5: "world s5 = w4" "step_status s5 = b2" "\<not> mems_event s5"
    "map fst (calls s5) = map fst (calls s) @ (if b1 then [Publish (Activity label)] else [])"
    using mlc assms(5,6,7) by (simp_all add: s5_def s4_def)
  moreover have "Get_Step_Count dev (world s5) = (count, w5)" using assms(8) s5(1) by simp
  then have "map fst (calls (handle_steps dev lib s5)) = map fst (calls s5) @ (if b2 then [Publish (Steps (ucast count))] else [])"
    by (simp only: handle_steps_effect s5(2))
  ultimately show ?thesis by (simp add: t)
qed

theorem imu_iteration_publishes_witness:
  "map fst (calls (imu_run small_sensor (small_library None None) (\<lambda>old t. t) (replicate 6 Main)
     (INT1Event_cb (small_imu Test_event)))) = [Publish (Activity ''Jogging''), Publish (Steps 65535)]"
  using imu_iteration_publishes [of "INT1Event_cb (small_imu Test_event)" small_sensor True "(False, 0)" True
      "(False, 0)" "\<lambda>i. 4" "(False, 0)" "''Jogging''" "\<lambda>old t. t" "(False, 1)" "small_library None None" 65535
      "(False, 1)" "imu_run small_sensor (small_library None None) (\<lambda>old t. t) (replicate 6 Main)
        (INT1Event_cb (small_imu Test_event))"]
  by (simp add: small_imu_defs INT1Event_cb_def small_sensor_def small_library_def activity_name_def)

end
