(* ===== verification/Sensor_Table.thy ===== *)
theory Sensor_Table
  imports Imu_Sketch
begin

text \<open>
  The table of \<^verbatim>\<open>lsm6dsox_activity_recognition_for_mobile.h\<close>, which the sketch
  \<^verbatim>\<open>micro-ros_IMU_ML\<close> writes to the registers of the motion sensor line by line: the decision tree of
  the activity recognition, poured into the sensor's embedded memory a byte at a time. Its 2224 lines
  are cut where the kind of line changes and after every 150. What is shown is that the table has the
  form such a program must have.
\<close>

subsection \<open>The table\<close>

abbreviation ucf :: "u8 \<Rightarrow> u8 \<Rightarrow> ucf_line" where
  "ucf a d \<equiv> \<lparr>ucf_address = a, ucf_data = d\<rparr>"

definition table_begin :: "ucf_line list" where
  "table_begin = [
    ucf 0x10 0x00, ucf 0x11 0x00, ucf 0x01 0x80, ucf 0x05 0x00, ucf 0x17 0x40]"

definition table_low_1 :: "ucf_line list" where
  "table_low_1 = [
    ucf 0x02 0x11, ucf 0x08 0xEA, ucf 0x09 0x08, ucf 0x02 0x11, ucf 0x08 0xEB, ucf 0x09 0x04,
    ucf 0x02 0x11, ucf 0x08 0xEC, ucf 0x09 0x16, ucf 0x02 0x11, ucf 0x08 0xED, ucf 0x09 0x04,
    ucf 0x02 0x11, ucf 0x08 0xEE, ucf 0x09 0x00, ucf 0x02 0x11, ucf 0x08 0xEF, ucf 0x09 0x00,
    ucf 0x02 0x11, ucf 0x08 0xF0, ucf 0x09 0x0A, ucf 0x02 0x11, ucf 0x08 0xF2, ucf 0x09 0x4B,
    ucf 0x02 0x11, ucf 0x08 0xFA, ucf 0x09 0x3C, ucf 0x02 0x11, ucf 0x08 0xFB, ucf 0x09 0x03,
    ucf 0x02 0x11, ucf 0x08 0xFC, ucf 0x09 0x42, ucf 0x02 0x11, ucf 0x08 0xFD, ucf 0x09 0x04,
    ucf 0x02 0x11, ucf 0x08 0xFE, ucf 0x09 0x4E, ucf 0x02 0x11, ucf 0x08 0xFF, ucf 0x09 0x04,
    ucf 0x02 0x31, ucf 0x08 0x3C, ucf 0x09 0x07, ucf 0x02 0x31, ucf 0x08 0x3D, ucf 0x09 0x00,
    ucf 0x02 0x31, ucf 0x08 0x3E, ucf 0x09 0x00, ucf 0x02 0x31, ucf 0x08 0x3F, ucf 0x09 0x00,
    ucf 0x02 0x31, ucf 0x08 0x40, ucf 0x09 0x00, ucf 0x02 0x31, ucf 0x08 0x41, ucf 0x09 0x00,
    ucf 0x02 0x31, ucf 0x08 0x42, ucf 0x09 0x00, ucf 0x02 0x31, ucf 0x08 0x43, ucf 0x09 0x00,
    ucf 0x02 0x31, ucf 0x08 0x44, ucf 0x09 0x35, ucf 0x02 0x31, ucf 0x08 0x45, ucf 0x09 0x3A,
    ucf 0x02 0x31, ucf 0x08 0x46, ucf 0x09 0x2E, ucf 0x02 0x31, ucf 0x08 0x47, ucf 0x09 0x2F,
    ucf 0x02 0x31, ucf 0x08 0x48, ucf 0x09 0x0F, ucf 0x02 0x31, ucf 0x08 0x49, ucf 0x09 0x00,
    ucf 0x02 0x31, ucf 0x08 0x4A, ucf 0x09 0x00, ucf 0x02 0x31, ucf 0x08 0x4B, ucf 0x09 0x00,
    ucf 0x02 0x31, ucf 0x08 0x4C, ucf 0x09 0x00, ucf 0x02 0x31, ucf 0x08 0x4D, ucf 0x09 0x00,
    ucf 0x02 0x31, ucf 0x08 0x4E, ucf 0x09 0xD7, ucf 0x02 0x31, ucf 0x08 0x4F, ucf 0x09 0x22,
    ucf 0x02 0x31, ucf 0x08 0x50, ucf 0x09 0xD7, ucf 0x02 0x31, ucf 0x08 0x51, ucf 0x09 0x26,
    ucf 0x02 0x31, ucf 0x08 0x52, ucf 0x09 0xD7, ucf 0x02 0x31, ucf 0x08 0x53, ucf 0x09 0x22,
    ucf 0x02 0x31, ucf 0x08 0x54, ucf 0x09 0x97, ucf 0x02 0x31, ucf 0x08 0x55, ucf 0x09 0xBE,
    ucf 0x02 0x31, ucf 0x08 0x56, ucf 0x09 0x9B, ucf 0x02 0x31, ucf 0x08 0x57, ucf 0x09 0x39,
    ucf 0x02 0x31, ucf 0x08 0x58, ucf 0x09 0x3F, ucf 0x02 0x31, ucf 0x08 0x59, ucf 0x09 0x00,
    ucf 0x02 0x31, ucf 0x08 0x5A, ucf 0x09 0x00, ucf 0x02 0x31, ucf 0x08 0x5B, ucf 0x09 0x14,
    ucf 0x02 0x31, ucf 0x08 0x5C, ucf 0x09 0x00, ucf 0x02 0x31, ucf 0x08 0x5D, ucf 0x09 0x00,
    ucf 0x02 0x31, ucf 0x08 0x5E, ucf 0x09 0x01, ucf 0x02 0x31, ucf 0x08 0x5F, ucf 0x09 0x14]"

definition table_low_2 :: "ucf_line list" where
  "table_low_2 = [
    ucf 0x02 0x31, ucf 0x08 0x60, ucf 0x09 0x00, ucf 0x02 0x31, ucf 0x08 0x61, ucf 0x09 0x00,
    ucf 0x02 0x31, ucf 0x08 0x62, ucf 0x09 0x00, ucf 0x02 0x31, ucf 0x08 0x63, ucf 0x09 0x00,
    ucf 0x02 0x31, ucf 0x08 0x64, ucf 0x09 0x01, ucf 0x02 0x31, ucf 0x08 0x65, ucf 0x09 0x18,
    ucf 0x02 0x31, ucf 0x08 0x66, ucf 0x09 0x00, ucf 0x02 0x31, ucf 0x08 0x67, ucf 0x09 0x00,
    ucf 0x02 0x31, ucf 0x08 0x68, ucf 0x09 0x00, ucf 0x02 0x31, ucf 0x08 0x69, ucf 0x09 0x00,
    ucf 0x02 0x31, ucf 0x08 0x6A, ucf 0x09 0x01, ucf 0x02 0x31, ucf 0x08 0x6B, ucf 0x09 0x1C,
    ucf 0x02 0x31, ucf 0x08 0x6C, ucf 0x09 0x00, ucf 0x02 0x31, ucf 0x08 0x6D, ucf 0x09 0x00,
    ucf 0x02 0x31, ucf 0x08 0x6E, ucf 0x09 0x00, ucf 0x02 0x31, ucf 0x08 0x6F, ucf 0x09 0x00,
    ucf 0x02 0x31, ucf 0x08 0x70, ucf 0x09 0x02, ucf 0x02 0x31, ucf 0x08 0x71, ucf 0x09 0x14,
    ucf 0x02 0x31, ucf 0x08 0x72, ucf 0x09 0x00, ucf 0x02 0x31, ucf 0x08 0x73, ucf 0x09 0x00,
    ucf 0x02 0x31, ucf 0x08 0x74, ucf 0x09 0x02, ucf 0x02 0x31, ucf 0x08 0x75, ucf 0x09 0x18,
    ucf 0x02 0x31, ucf 0x08 0x76, ucf 0x09 0x00, ucf 0x02 0x31, ucf 0x08 0x77, ucf 0x09 0x00,
    ucf 0x02 0x31, ucf 0x08 0x78, ucf 0x09 0x02, ucf 0x02 0x31, ucf 0x08 0x79, ucf 0x09 0x1C,
    ucf 0x02 0x31, ucf 0x08 0x7A, ucf 0x09 0x00, ucf 0x02 0x31, ucf 0x08 0x7B, ucf 0x09 0x00,
    ucf 0x02 0x31, ucf 0x08 0x7C, ucf 0x09 0x03, ucf 0x02 0x31, ucf 0x08 0x7D, ucf 0x09 0x14,
    ucf 0x02 0x31, ucf 0x08 0x7E, ucf 0x09 0x00, ucf 0x02 0x31, ucf 0x08 0x7F, ucf 0x09 0xFC,
    ucf 0x02 0x31, ucf 0x08 0x80, ucf 0x09 0x00, ucf 0x02 0x31, ucf 0x08 0x81, ucf 0x09 0x7C,
    ucf 0x02 0x31, ucf 0x08 0x82, ucf 0x09 0x03, ucf 0x02 0x31, ucf 0x08 0x83, ucf 0x09 0x18,
    ucf 0x02 0x31, ucf 0x08 0x84, ucf 0x09 0x00, ucf 0x02 0x31, ucf 0x08 0x85, ucf 0x09 0xFC,
    ucf 0x02 0x31, ucf 0x08 0x86, ucf 0x09 0x00, ucf 0x02 0x31, ucf 0x08 0x87, ucf 0x09 0x7C,
    ucf 0x02 0x31, ucf 0x08 0x88, ucf 0x09 0x03, ucf 0x02 0x31, ucf 0x08 0x89, ucf 0x09 0x1C,
    ucf 0x02 0x31, ucf 0x08 0x8A, ucf 0x09 0x00, ucf 0x02 0x31, ucf 0x08 0x8B, ucf 0x09 0xFC,
    ucf 0x02 0x31, ucf 0x08 0x8C, ucf 0x09 0x00, ucf 0x02 0x31, ucf 0x08 0x8D, ucf 0x09 0x7C,
    ucf 0x02 0x31, ucf 0x08 0x8E, ucf 0x09 0x04, ucf 0x02 0x31, ucf 0x08 0x8F, ucf 0x09 0x18,
    ucf 0x02 0x31, ucf 0x08 0x90, ucf 0x09 0x66, ucf 0x02 0x31, ucf 0x08 0x91, ucf 0x09 0x36]"

definition table_low_3 :: "ucf_line list" where
  "table_low_3 = [
    ucf 0x02 0x31, ucf 0x08 0x92, ucf 0x09 0x00, ucf 0x02 0x31, ucf 0x08 0x93, ucf 0x09 0x00,
    ucf 0x02 0x31, ucf 0x08 0x94, ucf 0x09 0x00, ucf 0x02 0x31, ucf 0x08 0x95, ucf 0x09 0x00,
    ucf 0x02 0x31, ucf 0x08 0x96, ucf 0x09 0x00, ucf 0x02 0x31, ucf 0x08 0x97, ucf 0x09 0x00,
    ucf 0x02 0x31, ucf 0x08 0x98, ucf 0x09 0x00, ucf 0x02 0x31, ucf 0x08 0x99, ucf 0x09 0x00,
    ucf 0x02 0x31, ucf 0x08 0x9A, ucf 0x09 0x04, ucf 0x02 0x31, ucf 0x08 0x9B, ucf 0x09 0x1C,
    ucf 0x02 0x31, ucf 0x08 0x9C, ucf 0x09 0x7B, ucf 0x02 0x31, ucf 0x08 0x9D, ucf 0x09 0x28,
    ucf 0x02 0x31, ucf 0x08 0x9E, ucf 0x09 0x00, ucf 0x02 0x31, ucf 0x08 0x9F, ucf 0x09 0x00,
    ucf 0x02 0x31, ucf 0x08 0xA0, ucf 0x09 0x00, ucf 0x02 0x31, ucf 0x08 0xA1, ucf 0x09 0x00,
    ucf 0x02 0x31, ucf 0x08 0xA2, ucf 0x09 0x00, ucf 0x02 0x31, ucf 0x08 0xA3, ucf 0x09 0x00,
    ucf 0x02 0x31, ucf 0x08 0xA4, ucf 0x09 0x00, ucf 0x02 0x31, ucf 0x08 0xA5, ucf 0x09 0x00,
    ucf 0x02 0x31, ucf 0x08 0xA6, ucf 0x09 0x0A, ucf 0x02 0x31, ucf 0x08 0xA7, ucf 0x09 0x14,
    ucf 0x02 0x31, ucf 0x08 0xA8, ucf 0x09 0x00, ucf 0x02 0x31, ucf 0x08 0xA9, ucf 0x09 0x00,
    ucf 0x02 0x31, ucf 0x08 0xAA, ucf 0x09 0x00, ucf 0x02 0x31, ucf 0x08 0xAB, ucf 0x09 0x00,
    ucf 0x02 0x31, ucf 0x08 0xAC, ucf 0x09 0x00, ucf 0x02 0x31, ucf 0x08 0xAD, ucf 0x09 0x00,
    ucf 0x02 0x31, ucf 0x08 0xAE, ucf 0x09 0x00, ucf 0x02 0x31, ucf 0x08 0xAF, ucf 0x09 0x00,
    ucf 0x02 0x31, ucf 0x08 0xB0, ucf 0x09 0x00, ucf 0x02 0x31, ucf 0x08 0xB1, ucf 0x09 0x00,
    ucf 0x02 0x31, ucf 0x08 0xB2, ucf 0x09 0x0A, ucf 0x02 0x31, ucf 0x08 0xB3, ucf 0x09 0x18,
    ucf 0x02 0x31, ucf 0x08 0xB4, ucf 0x09 0x00, ucf 0x02 0x31, ucf 0x08 0xB5, ucf 0x09 0x00,
    ucf 0x02 0x31, ucf 0x08 0xB6, ucf 0x09 0x00, ucf 0x02 0x31, ucf 0x08 0xB7, ucf 0x09 0x00,
    ucf 0x02 0x31, ucf 0x08 0xB8, ucf 0x09 0x00, ucf 0x02 0x31, ucf 0x08 0xB9, ucf 0x09 0x00,
    ucf 0x02 0x31, ucf 0x08 0xBA, ucf 0x09 0x00, ucf 0x02 0x31, ucf 0x08 0xBB, ucf 0x09 0x00,
    ucf 0x02 0x31, ucf 0x08 0xBC, ucf 0x09 0x00, ucf 0x02 0x31, ucf 0x08 0xBD, ucf 0x09 0x00,
    ucf 0x02 0x31, ucf 0x08 0xBE, ucf 0x09 0x0A, ucf 0x02 0x31, ucf 0x08 0xBF, ucf 0x09 0x1C,
    ucf 0x02 0x31, ucf 0x08 0xC0, ucf 0x09 0x00, ucf 0x02 0x31, ucf 0x08 0xC1, ucf 0x09 0x00,
    ucf 0x02 0x31, ucf 0x08 0xC2, ucf 0x09 0x00, ucf 0x02 0x31, ucf 0x08 0xC3, ucf 0x09 0x00]"

definition table_low_4 :: "ucf_line list" where
  "table_low_4 = [
    ucf 0x02 0x31, ucf 0x08 0xC4, ucf 0x09 0x00, ucf 0x02 0x31, ucf 0x08 0xC5, ucf 0x09 0x00,
    ucf 0x02 0x31, ucf 0x08 0xC6, ucf 0x09 0x00, ucf 0x02 0x31, ucf 0x08 0xC7, ucf 0x09 0x00,
    ucf 0x02 0x31, ucf 0x08 0xC8, ucf 0x09 0x00, ucf 0x02 0x31, ucf 0x08 0xC9, ucf 0x09 0x00,
    ucf 0x02 0x31, ucf 0x08 0xCA, ucf 0x09 0x0C, ucf 0x02 0x31, ucf 0x08 0xCB, ucf 0x09 0x14,
    ucf 0x02 0x31, ucf 0x08 0xCC, ucf 0x09 0x00, ucf 0x02 0x31, ucf 0x08 0xCD, ucf 0x09 0x00,
    ucf 0x02 0x31, ucf 0x08 0xCE, ucf 0x09 0x00, ucf 0x02 0x31, ucf 0x08 0xCF, ucf 0x09 0x00,
    ucf 0x02 0x31, ucf 0x08 0xD0, ucf 0x09 0x00, ucf 0x02 0x31, ucf 0x08 0xD1, ucf 0x09 0x00,
    ucf 0x02 0x31, ucf 0x08 0xD2, ucf 0x09 0x00, ucf 0x02 0x31, ucf 0x08 0xD3, ucf 0x09 0x00,
    ucf 0x02 0x31, ucf 0x08 0xD4, ucf 0x09 0x00, ucf 0x02 0x31, ucf 0x08 0xD5, ucf 0x09 0x00,
    ucf 0x02 0x31, ucf 0x08 0xD6, ucf 0x09 0x0C, ucf 0x02 0x31, ucf 0x08 0xD7, ucf 0x09 0x18,
    ucf 0x02 0x31, ucf 0x08 0xD8, ucf 0x09 0x00, ucf 0x02 0x31, ucf 0x08 0xD9, ucf 0x09 0x00,
    ucf 0x02 0x31, ucf 0x08 0xDA, ucf 0x09 0x00, ucf 0x02 0x31, ucf 0x08 0xDB, ucf 0x09 0x00,
    ucf 0x02 0x31, ucf 0x08 0xDC, ucf 0x09 0x00, ucf 0x02 0x31, ucf 0x08 0xDD, ucf 0x09 0x00,
    ucf 0x02 0x31, ucf 0x08 0xDE, ucf 0x09 0x00, ucf 0x02 0x31, ucf 0x08 0xDF, ucf 0x09 0x00,
    ucf 0x02 0x31, ucf 0x08 0xE0, ucf 0x09 0x00, ucf 0x02 0x31, ucf 0x08 0xE1, ucf 0x09 0x00,
    ucf 0x02 0x31, ucf 0x08 0xE2, ucf 0x09 0x0C, ucf 0x02 0x31, ucf 0x08 0xE3, ucf 0x09 0x1C,
    ucf 0x02 0x31, ucf 0x08 0xE4, ucf 0x09 0x00, ucf 0x02 0x31, ucf 0x08 0xE5, ucf 0x09 0x00,
    ucf 0x02 0x31, ucf 0x08 0xE6, ucf 0x09 0x00, ucf 0x02 0x31, ucf 0x08 0xE7, ucf 0x09 0x00,
    ucf 0x02 0x31, ucf 0x08 0xE8, ucf 0x09 0x00, ucf 0x02 0x31, ucf 0x08 0xE9, ucf 0x09 0x00,
    ucf 0x02 0x31, ucf 0x08 0xEA, ucf 0x09 0x00, ucf 0x02 0x31, ucf 0x08 0xEB, ucf 0x09 0x00,
    ucf 0x02 0x31, ucf 0x08 0xEC, ucf 0x09 0x00, ucf 0x02 0x31, ucf 0x08 0xED, ucf 0x09 0x00,
    ucf 0x02 0x31, ucf 0x08 0xEE, ucf 0x09 0x10, ucf 0x02 0x31, ucf 0x08 0xEF, ucf 0x09 0x10,
    ucf 0x02 0x31, ucf 0x08 0xF0, ucf 0x09 0x00, ucf 0x02 0x31, ucf 0x08 0xF1, ucf 0x09 0xFC,
    ucf 0x02 0x31, ucf 0x08 0xF2, ucf 0x09 0x00, ucf 0x02 0x31, ucf 0x08 0xF3, ucf 0x09 0x7C,
    ucf 0x02 0x31, ucf 0x08 0xF4, ucf 0x09 0x10, ucf 0x02 0x31, ucf 0x08 0xF5, ucf 0x09 0x18]"

definition table_low_5 :: "ucf_line list" where
  "table_low_5 = [
    ucf 0x02 0x31, ucf 0x08 0xF6, ucf 0x09 0x00, ucf 0x02 0x31, ucf 0x08 0xF7, ucf 0x09 0xFC,
    ucf 0x02 0x31, ucf 0x08 0xF8, ucf 0x09 0x00, ucf 0x02 0x31, ucf 0x08 0xF9, ucf 0x09 0x7C,
    ucf 0x02 0x31, ucf 0x08 0xFA, ucf 0x09 0x11, ucf 0x02 0x31, ucf 0x08 0xFB, ucf 0x09 0x10,
    ucf 0x02 0x31, ucf 0x08 0xFC, ucf 0x09 0x00, ucf 0x02 0x31, ucf 0x08 0xFD, ucf 0x09 0xFC,
    ucf 0x02 0x31, ucf 0x08 0xFE, ucf 0x09 0x00, ucf 0x02 0x31, ucf 0x08 0xFF, ucf 0x09 0x7C,
    ucf 0x02 0x41, ucf 0x08 0x00, ucf 0x09 0x11, ucf 0x02 0x41, ucf 0x08 0x01, ucf 0x09 0x18,
    ucf 0x02 0x41, ucf 0x08 0x02, ucf 0x09 0x00, ucf 0x02 0x41, ucf 0x08 0x03, ucf 0x09 0xFC,
    ucf 0x02 0x41, ucf 0x08 0x04, ucf 0x09 0x00, ucf 0x02 0x41, ucf 0x08 0x05, ucf 0x09 0x7C,
    ucf 0x02 0x41, ucf 0x08 0x06, ucf 0x09 0x1F, ucf 0x02 0x41, ucf 0x08 0x07, ucf 0x09 0x00,
    ucf 0x02 0x41, ucf 0x08 0x42, ucf 0x09 0x00, ucf 0x02 0x41, ucf 0x08 0x43, ucf 0x09 0x00,
    ucf 0x02 0x41, ucf 0x08 0x44, ucf 0x09 0x00, ucf 0x02 0x41, ucf 0x08 0x45, ucf 0x09 0x00,
    ucf 0x02 0x41, ucf 0x08 0x46, ucf 0x09 0x00, ucf 0x02 0x41, ucf 0x08 0x47, ucf 0x09 0x00,
    ucf 0x02 0x41, ucf 0x08 0x48, ucf 0x09 0x00, ucf 0x02 0x41, ucf 0x08 0x49, ucf 0x09 0x10,
    ucf 0x02 0x41, ucf 0x08 0x4A, ucf 0x09 0x35, ucf 0x02 0x41, ucf 0x08 0x4B, ucf 0x09 0x00,
    ucf 0x02 0x41, ucf 0x08 0x4C, ucf 0x09 0x00]"

definition table_middle :: "ucf_line list" where
  "table_middle = [
    ucf 0x01 0x00, ucf 0x12 0x00, ucf 0x01 0x80, ucf 0x17 0x40]"

definition table_high_1 :: "ucf_line list" where
  "table_high_1 = [
    ucf 0x02 0x41, ucf 0x08 0x4E, ucf 0x09 0x34, ucf 0x02 0x41, ucf 0x08 0x4F, ucf 0x09 0x2C,
    ucf 0x02 0x41, ucf 0x08 0x50, ucf 0x09 0x57, ucf 0x02 0x41, ucf 0x08 0x51, ucf 0x09 0x82,
    ucf 0x02 0x41, ucf 0x08 0x52, ucf 0x09 0xCB, ucf 0x02 0x41, ucf 0x08 0x53, ucf 0x09 0x22,
    ucf 0x02 0x41, ucf 0x08 0x54, ucf 0x09 0x14, ucf 0x02 0x41, ucf 0x08 0x55, ucf 0x09 0x85,
    ucf 0x02 0x41, ucf 0x08 0x56, ucf 0x09 0x00, ucf 0x02 0x41, ucf 0x08 0x57, ucf 0x09 0x38,
    ucf 0x02 0x41, ucf 0x08 0x58, ucf 0x09 0x0E, ucf 0x02 0x41, ucf 0x08 0x59, ucf 0x09 0x8B,
    ucf 0x02 0x41, ucf 0x08 0x5A, ucf 0x09 0x10, ucf 0x02 0x41, ucf 0x08 0x5B, ucf 0x09 0x27,
    ucf 0x02 0x41, ucf 0x08 0x5C, ucf 0x09 0x40, ucf 0x02 0x41, ucf 0x08 0x5D, ucf 0x09 0xC8,
    ucf 0x02 0x41, ucf 0x08 0x5E, ucf 0x09 0x6E, ucf 0x02 0x41, ucf 0x08 0x5F, ucf 0x09 0x3C,
    ucf 0x02 0x41, ucf 0x08 0x60, ucf 0x09 0xC0, ucf 0x02 0x41, ucf 0x08 0x61, ucf 0x09 0xB4,
    ucf 0x02 0x41, ucf 0x08 0x62, ucf 0x09 0x90, ucf 0x02 0x41, ucf 0x08 0x63, ucf 0x09 0x52,
    ucf 0x02 0x41, ucf 0x08 0x64, ucf 0x09 0x0D, ucf 0x02 0x41, ucf 0x08 0x65, ucf 0x09 0x8C,
    ucf 0x02 0x41, ucf 0x08 0x66, ucf 0x09 0x7C, ucf 0x02 0x41, ucf 0x08 0x67, ucf 0x09 0x2F,
    ucf 0x02 0x41, ucf 0x08 0x68, ucf 0x09 0xC0, ucf 0x02 0x41, ucf 0x08 0x69, ucf 0x09 0xA0,
    ucf 0x02 0x41, ucf 0x08 0x6A, ucf 0x09 0x29, ucf 0x02 0x41, ucf 0x08 0x6B, ucf 0x09 0x3C,
    ucf 0x02 0x41, ucf 0x08 0x6C, ucf 0x09 0x00, ucf 0x02 0x41, ucf 0x08 0x6D, ucf 0x09 0xA0,
    ucf 0x02 0x41, ucf 0x08 0x6E, ucf 0x09 0xD5, ucf 0x02 0x41, ucf 0x08 0x6F, ucf 0x09 0x3B,
    ucf 0x02 0x41, ucf 0x08 0x70, ucf 0x09 0x90, ucf 0x02 0x41, ucf 0x08 0x71, ucf 0x09 0xD2,
    ucf 0x02 0x41, ucf 0x08 0x72, ucf 0x09 0xC9, ucf 0x02 0x41, ucf 0x08 0x73, ucf 0x09 0x1A,
    ucf 0x02 0x41, ucf 0x08 0x74, ucf 0x09 0xA0, ucf 0x02 0x41, ucf 0x08 0x75, ucf 0x09 0xC5,
    ucf 0x02 0x41, ucf 0x08 0x76, ucf 0x09 0x3A, ucf 0x02 0x41, ucf 0x08 0x77, ucf 0x09 0x3C,
    ucf 0x02 0x41, ucf 0x08 0x78, ucf 0x09 0x00, ucf 0x02 0x41, ucf 0x08 0x79, ucf 0x09 0xB4,
    ucf 0x02 0x41, ucf 0x08 0x7A, ucf 0x09 0x0C, ucf 0x02 0x41, ucf 0x08 0x7B, ucf 0x09 0x1F,
    ucf 0x02 0x41, ucf 0x08 0x7C, ucf 0x09 0xC0, ucf 0x02 0x41, ucf 0x08 0x7D, ucf 0x09 0xA5,
    ucf 0x02 0x41, ucf 0x08 0x7E, ucf 0x09 0x0E, ucf 0x02 0x41, ucf 0x08 0x7F, ucf 0x09 0x3C]"

definition table_high_2 :: "ucf_line list" where
  "table_high_2 = [
    ucf 0x02 0x41, ucf 0x08 0x80, ucf 0x09 0x0C, ucf 0x02 0x41, ucf 0x08 0x81, ucf 0x09 0xE0,
    ucf 0x02 0x41, ucf 0x08 0x82, ucf 0x09 0xC0, ucf 0x02 0x41, ucf 0x08 0x83, ucf 0x09 0x4A,
    ucf 0x02 0x41, ucf 0x08 0x84, ucf 0x09 0x0C, ucf 0x02 0x41, ucf 0x08 0x85, ucf 0x09 0xEE,
    ucf 0x02 0x41, ucf 0x08 0x86, ucf 0x09 0xF1, ucf 0x02 0x41, ucf 0x08 0x87, ucf 0x09 0x26,
    ucf 0x02 0x41, ucf 0x08 0x88, ucf 0x09 0xF0, ucf 0x02 0x41, ucf 0x08 0x89, ucf 0x09 0xC8,
    ucf 0x02 0x41, ucf 0x08 0x8A, ucf 0x09 0x00, ucf 0x02 0x41, ucf 0x08 0x8B, ucf 0x09 0x3E,
    ucf 0x02 0x41, ucf 0x08 0x8C, ucf 0x09 0x12, ucf 0x02 0x41, ucf 0x08 0x8D, ucf 0x09 0x8B,
    ucf 0x02 0x41, ucf 0x08 0x8E, ucf 0x09 0x2C, ucf 0x02 0x41, ucf 0x08 0x8F, ucf 0x09 0x2D,
    ucf 0x02 0x41, ucf 0x08 0x90, ucf 0x09 0x00, ucf 0x02 0x41, ucf 0x08 0x91, ucf 0x09 0xA9,
    ucf 0x02 0x41, ucf 0x08 0x92, ucf 0x09 0x37, ucf 0x02 0x41, ucf 0x08 0x93, ucf 0x09 0x19,
    ucf 0x02 0x41, ucf 0x08 0x94, ucf 0x09 0xC0, ucf 0x02 0x41, ucf 0x08 0x95, ucf 0x09 0xE5,
    ucf 0x02 0x41, ucf 0x08 0x96, ucf 0x09 0x0D, ucf 0x02 0x41, ucf 0x08 0x97, ucf 0x09 0xA5,
    ucf 0x02 0x41, ucf 0x08 0x98, ucf 0x09 0x3C, ucf 0x02 0x41, ucf 0x08 0x99, ucf 0x09 0xD3,
    ucf 0x02 0x41, ucf 0x08 0x9A, ucf 0x09 0xA0, ucf 0x02 0x41, ucf 0x08 0x9B, ucf 0x09 0x51,
    ucf 0x02 0x41, ucf 0x08 0x9C, ucf 0x09 0xC0, ucf 0x02 0x41, ucf 0x08 0x9D, ucf 0x09 0xEC,
    ucf 0x02 0x41, ucf 0x08 0x9E, ucf 0x09 0xD0, ucf 0x02 0x41, ucf 0x08 0x9F, ucf 0x09 0x25,
    ucf 0x02 0x41, ucf 0x08 0xA0, ucf 0x09 0x36, ucf 0x02 0x41, ucf 0x08 0xA1, ucf 0x09 0x81,
    ucf 0x02 0x41, ucf 0x08 0xA2, ucf 0x09 0x23, ucf 0x02 0x41, ucf 0x08 0xA3, ucf 0x09 0x3B,
    ucf 0x02 0x41, ucf 0x08 0xA4, ucf 0x09 0x23, ucf 0x02 0x41, ucf 0x08 0xA5, ucf 0x09 0x92,
    ucf 0x02 0x41, ucf 0x08 0xA6, ucf 0x09 0x24, ucf 0x02 0x41, ucf 0x08 0xA7, ucf 0x09 0x3C,
    ucf 0x02 0x41, ucf 0x08 0xA8, ucf 0x09 0x22, ucf 0x02 0x41, ucf 0x08 0xA9, ucf 0x09 0x89,
    ucf 0x02 0x41, ucf 0x08 0xAA, ucf 0x09 0x88, ucf 0x02 0x41, ucf 0x08 0xAB, ucf 0x09 0x3B,
    ucf 0x02 0x41, ucf 0x08 0xAC, ucf 0x09 0x1A, ucf 0x02 0x41, ucf 0x08 0xAD, ucf 0x09 0x80,
    ucf 0x02 0x41, ucf 0x08 0xAE, ucf 0x09 0x53, ucf 0x02 0x41, ucf 0x08 0xAF, ucf 0x09 0x3B,
    ucf 0x02 0x41, ucf 0x08 0xB0, ucf 0x09 0x98, ucf 0x02 0x41, ucf 0x08 0xB1, ucf 0x09 0xC0]"

definition table_high_3 :: "ucf_line list" where
  "table_high_3 = [
    ucf 0x02 0x41, ucf 0x08 0xB2, ucf 0x09 0x30, ucf 0x02 0x41, ucf 0x08 0xB3, ucf 0x09 0x50,
    ucf 0x02 0x41, ucf 0x08 0xB4, ucf 0x09 0x18, ucf 0x02 0x41, ucf 0x08 0xB5, ucf 0x09 0xEC,
    ucf 0x02 0x41, ucf 0x08 0xB6, ucf 0x09 0xC0, ucf 0x02 0x41, ucf 0x08 0xB7, ucf 0x09 0x49,
    ucf 0x02 0x41, ucf 0x08 0xB8, ucf 0x09 0x20, ucf 0x02 0x41, ucf 0x08 0xB9, ucf 0x09 0x8B,
    ucf 0x02 0x41, ucf 0x08 0xBA, ucf 0x09 0xA0, ucf 0x02 0x41, ucf 0x08 0xBB, ucf 0x09 0x4E,
    ucf 0x02 0x41, ucf 0x08 0xBC, ucf 0x09 0x1E, ucf 0x02 0x41, ucf 0x08 0xBD, ucf 0x09 0x8C,
    ucf 0x02 0x41, ucf 0x08 0xBE, ucf 0x09 0x40, ucf 0x02 0x41, ucf 0x08 0xBF, ucf 0x09 0x48,
    ucf 0x02 0x41, ucf 0x08 0xC0, ucf 0x09 0xD8, ucf 0x02 0x41, ucf 0x08 0xC1, ucf 0x09 0xCE,
    ucf 0x02 0x41, ucf 0x08 0xC2, ucf 0x09 0x2F, ucf 0x02 0x41, ucf 0x08 0xC3, ucf 0x09 0x3C,
    ucf 0x02 0x41, ucf 0x08 0xC4, ucf 0x09 0xC8, ucf 0x02 0x41, ucf 0x08 0xC5, ucf 0x09 0xE0,
    ucf 0x02 0x41, ucf 0x08 0xC6, ucf 0x09 0x20, ucf 0x02 0x41, ucf 0x08 0xC7, ucf 0x09 0x4C,
    ucf 0x02 0x41, ucf 0x08 0xC8, ucf 0x09 0xFC, ucf 0x02 0x41, ucf 0x08 0xC9, ucf 0x09 0xCE,
    ucf 0x02 0x41, ucf 0x08 0xCA, ucf 0x09 0xD6, ucf 0x02 0x41, ucf 0x08 0xCB, ucf 0x09 0x3A,
    ucf 0x02 0x41, ucf 0x08 0xCC, ucf 0x09 0xC8, ucf 0x02 0x41, ucf 0x08 0xCD, ucf 0x09 0xF2,
    ucf 0x02 0x41, ucf 0x08 0xCE, ucf 0x09 0xB4, ucf 0x02 0x41, ucf 0x08 0xCF, ucf 0x09 0x54,
    ucf 0x02 0x41, ucf 0x08 0xD0, ucf 0x09 0x11, ucf 0x02 0x41, ucf 0x08 0xD1, ucf 0x09 0xC6,
    ucf 0x02 0x41, ucf 0x08 0xD2, ucf 0x09 0xE0, ucf 0x02 0x41, ucf 0x08 0xD3, ucf 0x09 0x4E,
    ucf 0x02 0x41, ucf 0x08 0xD4, ucf 0x09 0xC8, ucf 0x02 0x41, ucf 0x08 0xD5, ucf 0x09 0xEC,
    ucf 0x02 0x41, ucf 0x08 0xD6, ucf 0x09 0x35, ucf 0x02 0x41, ucf 0x08 0xD7, ucf 0x09 0x3C,
    ucf 0x02 0x41, ucf 0x08 0xD8, ucf 0x09 0xC0, ucf 0x02 0x41, ucf 0x08 0xD9, ucf 0x09 0xE0,
    ucf 0x02 0x41, ucf 0x08 0xDA, ucf 0x09 0x38, ucf 0x02 0x41, ucf 0x08 0xDB, ucf 0x09 0x2A,
    ucf 0x02 0x41, ucf 0x08 0xDC, ucf 0x09 0x30, ucf 0x02 0x41, ucf 0x08 0xDD, ucf 0x09 0x89,
    ucf 0x02 0x41, ucf 0x08 0xDE, ucf 0x09 0x96, ucf 0x02 0x41, ucf 0x08 0xDF, ucf 0x09 0x30,
    ucf 0x02 0x41, ucf 0x08 0xE0, ucf 0x09 0x2E, ucf 0x02 0x41, ucf 0x08 0xE1, ucf 0x09 0x80,
    ucf 0x02 0x41, ucf 0x08 0xE2, ucf 0x09 0x70, ucf 0x02 0x41, ucf 0x08 0xE3, ucf 0x09 0x3C]"

definition table_high_4 :: "ucf_line list" where
  "table_high_4 = [
    ucf 0x02 0x41, ucf 0x08 0xE4, ucf 0x09 0xC0, ucf 0x02 0x41, ucf 0x08 0xE5, ucf 0x09 0xB4,
    ucf 0x02 0x41, ucf 0x08 0xE6, ucf 0x09 0x70, ucf 0x02 0x41, ucf 0x08 0xE7, ucf 0x09 0x51,
    ucf 0x02 0x41, ucf 0x08 0xE8, ucf 0x09 0x2D, ucf 0x02 0x41, ucf 0x08 0xE9, ucf 0x09 0x8C,
    ucf 0x02 0x41, ucf 0x08 0xEA, ucf 0x09 0x00, ucf 0x02 0x41, ucf 0x08 0xEB, ucf 0x09 0x38,
    ucf 0x02 0x41, ucf 0x08 0xEC, ucf 0x09 0x2C, ucf 0x02 0x41, ucf 0x08 0xED, ucf 0x09 0x8B,
    ucf 0x02 0x41, ucf 0x08 0xEE, ucf 0x09 0x5D, ucf 0x02 0x41, ucf 0x08 0xEF, ucf 0x09 0x3C,
    ucf 0x02 0x41, ucf 0x08 0xF0, ucf 0x09 0xC0, ucf 0x02 0x41, ucf 0x08 0xF1, ucf 0x09 0xB4,
    ucf 0x02 0x41, ucf 0x08 0xF2, ucf 0x09 0x45, ucf 0x02 0x41, ucf 0x08 0xF3, ucf 0x09 0x3C,
    ucf 0x02 0x41, ucf 0x08 0xF4, ucf 0x09 0x00, ucf 0x02 0x41, ucf 0x08 0xF5, ucf 0x09 0xB4,
    ucf 0x02 0x41, ucf 0x08 0xF6, ucf 0x09 0x10, ucf 0x02 0x41, ucf 0x08 0xF7, ucf 0x09 0x3C,
    ucf 0x02 0x41, ucf 0x08 0xF8, ucf 0x09 0xB0, ucf 0x02 0x41, ucf 0x08 0xF9, ucf 0x09 0xC0,
    ucf 0x02 0x41, ucf 0x08 0xFA, ucf 0x09 0xC0, ucf 0x02 0x41, ucf 0x08 0xFB, ucf 0x09 0x3B,
    ucf 0x02 0x41, ucf 0x08 0xFC, ucf 0x09 0x0C, ucf 0x02 0x41, ucf 0x08 0xFD, ucf 0x09 0xF2,
    ucf 0x02 0x41, ucf 0x08 0xFE, ucf 0x09 0x40, ucf 0x02 0x41, ucf 0x08 0xFF, ucf 0x09 0x4B,
    ucf 0x02 0x51, ucf 0x08 0x00, ucf 0x09 0x0C, ucf 0x02 0x51, ucf 0x08 0x01, ucf 0x09 0xEE,
    ucf 0x02 0x51, ucf 0x08 0x02, ucf 0x09 0xDB, ucf 0x02 0x51, ucf 0x08 0x03, ucf 0x09 0x3B,
    ucf 0x02 0x51, ucf 0x08 0x04, ucf 0x09 0xC0, ucf 0x02 0x51, ucf 0x08 0x05, ucf 0x09 0xE0,
    ucf 0x02 0x51, ucf 0x08 0x06, ucf 0x09 0xE0, ucf 0x02 0x51, ucf 0x08 0x07, ucf 0x09 0x4C,
    ucf 0x02 0x51, ucf 0x08 0x08, ucf 0x09 0xFC, ucf 0x02 0x51, ucf 0x08 0x09, ucf 0x09 0xCE,
    ucf 0x02 0x51, ucf 0x08 0x0A, ucf 0x09 0xA6, ucf 0x02 0x51, ucf 0x08 0x0B, ucf 0x09 0x31,
    ucf 0x02 0x51, ucf 0x08 0x0C, ucf 0x09 0x8C, ucf 0x02 0x51, ucf 0x08 0x0D, ucf 0x09 0xE0,
    ucf 0x02 0x51, ucf 0x08 0x0E, ucf 0x09 0xE0, ucf 0x02 0x51, ucf 0x08 0x0F, ucf 0x09 0x4E,
    ucf 0x02 0x51, ucf 0x08 0x10, ucf 0x09 0xC0, ucf 0x02 0x51, ucf 0x08 0x11, ucf 0x09 0xAC,
    ucf 0x02 0x51, ucf 0x08 0x12, ucf 0x09 0x12, ucf 0x02 0x51, ucf 0x08 0x13, ucf 0x09 0x3C,
    ucf 0x02 0x51, ucf 0x08 0x14, ucf 0x09 0x33, ucf 0x02 0x51, ucf 0x08 0x15, ucf 0x09 0x80]"

definition table_high_5 :: "ucf_line list" where
  "table_high_5 = [
    ucf 0x02 0x51, ucf 0x08 0x16, ucf 0x09 0xC0, ucf 0x02 0x51, ucf 0x08 0x17, ucf 0x09 0x4B,
    ucf 0x02 0x51, ucf 0x08 0x18, ucf 0x09 0xC8, ucf 0x02 0x51, ucf 0x08 0x19, ucf 0x09 0xED,
    ucf 0x02 0x51, ucf 0x08 0x1A, ucf 0x09 0xE0, ucf 0x02 0x51, ucf 0x08 0x1B, ucf 0x09 0x31,
    ucf 0x02 0x51, ucf 0x08 0x1C, ucf 0x09 0x4C, ucf 0x02 0x51, ucf 0x08 0x1D, ucf 0x09 0xC9,
    ucf 0x02 0x51, ucf 0x08 0x1E, ucf 0x09 0x8A, ucf 0x02 0x51, ucf 0x08 0x1F, ucf 0x09 0x31,
    ucf 0x02 0x51, ucf 0x08 0x20, ucf 0x09 0x5C, ucf 0x02 0x51, ucf 0x08 0x21, ucf 0x09 0xC0,
    ucf 0x02 0x51, ucf 0x08 0x22, ucf 0x09 0x78, ucf 0x02 0x51, ucf 0x08 0x23, ucf 0x09 0x3C,
    ucf 0x02 0x51, ucf 0x08 0x24, ucf 0x09 0xC8, ucf 0x02 0x51, ucf 0x08 0x25, ucf 0x09 0xE0,
    ucf 0x02 0x51, ucf 0x08 0x26, ucf 0x09 0xC0, ucf 0x02 0x51, ucf 0x08 0x27, ucf 0x09 0x4B,
    ucf 0x02 0x51, ucf 0x08 0x28, ucf 0x09 0x4E, ucf 0x02 0x51, ucf 0x08 0x29, ucf 0x09 0x8B,
    ucf 0x02 0x51, ucf 0x08 0x2A, ucf 0x09 0x2E, ucf 0x02 0x51, ucf 0x08 0x2B, ucf 0x09 0x3A,
    ucf 0x02 0x51, ucf 0x08 0x2C, ucf 0x09 0x39, ucf 0x02 0x51, ucf 0x08 0x2D, ucf 0x09 0x92,
    ucf 0x02 0x51, ucf 0x08 0x2E, ucf 0x09 0x86, ucf 0x02 0x51, ucf 0x08 0x2F, ucf 0x09 0x3D,
    ucf 0x02 0x51, ucf 0x08 0x30, ucf 0x09 0x18, ucf 0x02 0x51, ucf 0x08 0x31, ucf 0x09 0xE0,
    ucf 0x02 0x51, ucf 0x08 0x32, ucf 0x09 0x43, ucf 0x02 0x51, ucf 0x08 0x33, ucf 0x09 0x56,
    ucf 0x02 0x51, ucf 0x08 0x34, ucf 0x09 0x4D, ucf 0x02 0x51, ucf 0x08 0x35, ucf 0x09 0x86,
    ucf 0x02 0x51, ucf 0x08 0x36, ucf 0x09 0x72, ucf 0x02 0x51, ucf 0x08 0x37, ucf 0x09 0x34,
    ucf 0x02 0x51, ucf 0x08 0x38, ucf 0x09 0x42, ucf 0x02 0x51, ucf 0x08 0x39, ucf 0x09 0x89,
    ucf 0x02 0x51, ucf 0x08 0x3A, ucf 0x09 0x4A, ucf 0x02 0x51, ucf 0x08 0x3B, ucf 0x09 0x30,
    ucf 0x02 0x51, ucf 0x08 0x3C, ucf 0x09 0xC8, ucf 0x02 0x51, ucf 0x08 0x3D, ucf 0x09 0xC9,
    ucf 0x02 0x51, ucf 0x08 0x3E, ucf 0x09 0x4A, ucf 0x02 0x51, ucf 0x08 0x3F, ucf 0x09 0x30,
    ucf 0x02 0x51, ucf 0x08 0x40, ucf 0x09 0xDC, ucf 0x02 0x51, ucf 0x08 0x41, ucf 0x09 0xD5,
    ucf 0x02 0x51, ucf 0x08 0x42, ucf 0x09 0x2E, ucf 0x02 0x51, ucf 0x08 0x43, ucf 0x09 0x55,
    ucf 0x02 0x51, ucf 0x08 0x44, ucf 0x09 0x3F, ucf 0x02 0x51, ucf 0x08 0x45, ucf 0x09 0x86,
    ucf 0x02 0x51, ucf 0x08 0x46, ucf 0x09 0xE0, ucf 0x02 0x51, ucf 0x08 0x47, ucf 0x09 0x4F]"

definition table_high_6 :: "ucf_line list" where
  "table_high_6 = [
    ucf 0x02 0x51, ucf 0x08 0x48, ucf 0x09 0x81, ucf 0x02 0x51, ucf 0x08 0x49, ucf 0x09 0xEC,
    ucf 0x02 0x51, ucf 0x08 0x4A, ucf 0x09 0x67, ucf 0x02 0x51, ucf 0x08 0x4B, ucf 0x09 0x38,
    ucf 0x02 0x51, ucf 0x08 0x4C, ucf 0x09 0x10, ucf 0x02 0x51, ucf 0x08 0x4D, ucf 0x09 0xA0,
    ucf 0x02 0x51, ucf 0x08 0x4E, ucf 0x09 0xAF, ucf 0x02 0x51, ucf 0x08 0x4F, ucf 0x09 0xB0,
    ucf 0x02 0x51, ucf 0x08 0x50, ucf 0x09 0xC0, ucf 0x02 0x51, ucf 0x08 0x51, ucf 0x09 0xB3,
    ucf 0x02 0x51, ucf 0x08 0x52, ucf 0x09 0x5E, ucf 0x02 0x51, ucf 0x08 0x53, ucf 0x09 0x32,
    ucf 0x02 0x51, ucf 0x08 0x54, ucf 0x09 0x8C, ucf 0x02 0x51, ucf 0x08 0x55, ucf 0x09 0xE9,
    ucf 0x02 0x51, ucf 0x08 0x56, ucf 0x09 0x60, ucf 0x02 0x51, ucf 0x08 0x57, ucf 0x09 0x4D,
    ucf 0x02 0x51, ucf 0x08 0x58, ucf 0x09 0x38, ucf 0x02 0x51, ucf 0x08 0x59, ucf 0x09 0xCC,
    ucf 0x02 0x51, ucf 0x08 0x5A, ucf 0x09 0x5F, ucf 0x02 0x51, ucf 0x08 0x5B, ucf 0x09 0x1C,
    ucf 0x02 0x51, ucf 0x08 0x5C, ucf 0x09 0x48, ucf 0x02 0x51, ucf 0x08 0x5D, ucf 0x09 0xC2,
    ucf 0x02 0x51, ucf 0x08 0x5E, ucf 0x09 0x10, ucf 0x02 0x51, ucf 0x08 0x5F, ucf 0x09 0x2A,
    ucf 0x02 0x51, ucf 0x08 0x60, ucf 0x09 0x80, ucf 0x02 0x51, ucf 0x08 0x61, ucf 0x09 0xA1,
    ucf 0x02 0x51, ucf 0x08 0x62, ucf 0x09 0x60, ucf 0x02 0x51, ucf 0x08 0x63, ucf 0x09 0x26,
    ucf 0x02 0x51, ucf 0x08 0x64, ucf 0x09 0x6C, ucf 0x02 0x51, ucf 0x08 0x65, ucf 0x09 0xC1,
    ucf 0x02 0x51, ucf 0x08 0x66, ucf 0x09 0xA8, ucf 0x02 0x51, ucf 0x08 0x67, ucf 0x09 0x37,
    ucf 0x02 0x51, ucf 0x08 0x68, ucf 0x09 0xC0, ucf 0x02 0x51, ucf 0x08 0x69, ucf 0x09 0xA8,
    ucf 0x02 0x51, ucf 0x08 0x6A, ucf 0x09 0xC0, ucf 0x02 0x51, ucf 0x08 0x6B, ucf 0x09 0x49,
    ucf 0x02 0x51, ucf 0x08 0x6C, ucf 0x09 0xC0, ucf 0x02 0x51, ucf 0x08 0x6D, ucf 0x09 0xAE,
    ucf 0x02 0x51, ucf 0x08 0x6E, ucf 0x09 0xD6, ucf 0x02 0x51, ucf 0x08 0x6F, ucf 0x09 0x30,
    ucf 0x02 0x51, ucf 0x08 0x70, ucf 0x09 0x98, ucf 0x02 0x51, ucf 0x08 0x71, ucf 0x09 0xD5,
    ucf 0x02 0x51, ucf 0x08 0x72, ucf 0x09 0xFF, ucf 0x02 0x51, ucf 0x08 0x73, ucf 0x09 0xB0,
    ucf 0x02 0x51, ucf 0x08 0x74, ucf 0x09 0x80, ucf 0x02 0x51, ucf 0x08 0x75, ucf 0x09 0xB3,
    ucf 0x02 0x51, ucf 0x08 0x76, ucf 0x09 0x57, ucf 0x02 0x51, ucf 0x08 0x77, ucf 0x09 0x35,
    ucf 0x02 0x51, ucf 0x08 0x78, ucf 0x09 0xBC, ucf 0x02 0x51, ucf 0x08 0x79, ucf 0x09 0xC8]"

definition table_high_7 :: "ucf_line list" where
  "table_high_7 = [
    ucf 0x02 0x51, ucf 0x08 0x7A, ucf 0x09 0x60, ucf 0x02 0x51, ucf 0x08 0x7B, ucf 0x09 0x27,
    ucf 0x02 0x51, ucf 0x08 0x7C, ucf 0x09 0xCC, ucf 0x02 0x51, ucf 0x08 0x7D, ucf 0x09 0xC1,
    ucf 0x02 0x51, ucf 0x08 0x7E, ucf 0x09 0x47, ucf 0x02 0x51, ucf 0x08 0x7F, ucf 0x09 0x3A,
    ucf 0x02 0x51, ucf 0x08 0x80, ucf 0x09 0x8C, ucf 0x02 0x51, ucf 0x08 0x81, ucf 0x09 0xF2,
    ucf 0x02 0x51, ucf 0x08 0x82, ucf 0x09 0xA0, ucf 0x02 0x51, ucf 0x08 0x83, ucf 0x09 0x4E,
    ucf 0x02 0x51, ucf 0x08 0x84, ucf 0x09 0xC8, ucf 0x02 0x51, ucf 0x08 0x85, ucf 0x09 0xEC,
    ucf 0x02 0x51, ucf 0x08 0x86, ucf 0x09 0x66, ucf 0x02 0x51, ucf 0x08 0x87, ucf 0x09 0x55,
    ucf 0x02 0x51, ucf 0x08 0x88, ucf 0x09 0x53, ucf 0x02 0x51, ucf 0x08 0x89, ucf 0x09 0x86,
    ucf 0x02 0x51, ucf 0x08 0x8A, ucf 0x09 0x02, ucf 0x02 0x51, ucf 0x08 0x8B, ucf 0x09 0x3A,
    ucf 0x02 0x51, ucf 0x08 0x8C, ucf 0x09 0x01, ucf 0x02 0x51, ucf 0x08 0x8D, ucf 0x09 0xC5,
    ucf 0x02 0x51, ucf 0x08 0x8E, ucf 0x09 0x40, ucf 0x02 0x51, ucf 0x08 0x8F, ucf 0x09 0x49,
    ucf 0x02 0x51, ucf 0x08 0x90, ucf 0x09 0x52, ucf 0x02 0x51, ucf 0x08 0x91, ucf 0x09 0x8E,
    ucf 0x02 0x51, ucf 0x08 0x92, ucf 0x09 0xAC, ucf 0x02 0x51, ucf 0x08 0x93, ucf 0x09 0x24,
    ucf 0x02 0x51, ucf 0x08 0x94, ucf 0x09 0x18, ucf 0x02 0x51, ucf 0x08 0x95, ucf 0x09 0xE2,
    ucf 0x02 0x51, ucf 0x08 0x96, ucf 0x09 0x4D, ucf 0x02 0x51, ucf 0x08 0x97, ucf 0x09 0x3A,
    ucf 0x02 0x51, ucf 0x08 0x98, ucf 0x09 0x18, ucf 0x02 0x51, ucf 0x08 0x99, ucf 0x09 0xF2,
    ucf 0x02 0x51, ucf 0x08 0x9A, ucf 0x09 0xDE, ucf 0x02 0x51, ucf 0x08 0x9B, ucf 0x09 0x23,
    ucf 0x02 0x51, ucf 0x08 0x9C, ucf 0x09 0x48, ucf 0x02 0x51, ucf 0x08 0x9D, ucf 0x09 0xC2,
    ucf 0x02 0x51, ucf 0x08 0x9E, ucf 0x09 0x8E, ucf 0x02 0x51, ucf 0x08 0x9F, ucf 0x09 0x35,
    ucf 0x02 0x51, ucf 0x08 0xA0, ucf 0x09 0x51, ucf 0x02 0x51, ucf 0x08 0xA1, ucf 0x09 0xD5,
    ucf 0x02 0x51, ucf 0x08 0xA2, ucf 0x09 0x40, ucf 0x02 0x51, ucf 0x08 0xA3, ucf 0x09 0x4B,
    ucf 0x02 0x51, ucf 0x08 0xA4, ucf 0x09 0x61, ucf 0x02 0x51, ucf 0x08 0xA5, ucf 0x09 0xCE,
    ucf 0x02 0x51, ucf 0x08 0xA6, ucf 0x09 0xA9, ucf 0x02 0x51, ucf 0x08 0xA7, ucf 0x09 0x3C,
    ucf 0x02 0x51, ucf 0x08 0xA8, ucf 0x09 0x18, ucf 0x02 0x51, ucf 0x08 0xA9, ucf 0x09 0xE0,
    ucf 0x02 0x51, ucf 0x08 0xAA, ucf 0x09 0x7B, ucf 0x02 0x51, ucf 0x08 0xAB, ucf 0x09 0x41]"

definition table_high_8 :: "ucf_line list" where
  "table_high_8 = [
    ucf 0x02 0x51, ucf 0x08 0xAC, ucf 0x09 0x70, ucf 0x02 0x51, ucf 0x08 0xAD, ucf 0x09 0x81,
    ucf 0x02 0x51, ucf 0x08 0xAE, ucf 0x09 0xE0, ucf 0x02 0x51, ucf 0x08 0xAF, ucf 0x09 0x4C,
    ucf 0x02 0x51, ucf 0x08 0xB0, ucf 0x09 0x6B, ucf 0x02 0x51, ucf 0x08 0xB1, ucf 0x09 0x8A,
    ucf 0x02 0x51, ucf 0x08 0xB2, ucf 0x09 0xF0, ucf 0x02 0x51, ucf 0x08 0xB3, ucf 0x09 0x3D,
    ucf 0x02 0x51, ucf 0x08 0xB4, ucf 0x09 0x67, ucf 0x02 0x51, ucf 0x08 0xB5, ucf 0x09 0x95,
    ucf 0x02 0x51, ucf 0x08 0xB6, ucf 0x09 0x73, ucf 0x02 0x51, ucf 0x08 0xB7, ucf 0x09 0x39,
    ucf 0x02 0x51, ucf 0x08 0xB8, ucf 0x09 0x5E, ucf 0x02 0x51, ucf 0x08 0xB9, ucf 0x09 0x89,
    ucf 0x02 0x51, ucf 0x08 0xBA, ucf 0x09 0x8B, ucf 0x02 0x51, ucf 0x08 0xBB, ucf 0x09 0x34,
    ucf 0x02 0x51, ucf 0x08 0xBC, ucf 0x09 0xC8, ucf 0x02 0x51, ucf 0x08 0xBD, ucf 0x09 0xC9,
    ucf 0x02 0x51, ucf 0x08 0xBE, ucf 0x09 0xC0, ucf 0x02 0x51, ucf 0x08 0xBF, ucf 0x09 0x4A,
    ucf 0x02 0x51, ucf 0x08 0xC0, ucf 0x09 0xD1, ucf 0x02 0x51, ucf 0x08 0xC1, ucf 0x09 0xCE,
    ucf 0x02 0x51, ucf 0x08 0xC2, ucf 0x09 0xA1, ucf 0x02 0x51, ucf 0x08 0xC3, ucf 0x09 0x2E,
    ucf 0x02 0x51, ucf 0x08 0xC4, ucf 0x09 0x18, ucf 0x02 0x51, ucf 0x08 0xC5, ucf 0x09 0xE2,
    ucf 0x02 0x51, ucf 0x08 0xC6, ucf 0x09 0xA3, ucf 0x02 0x51, ucf 0x08 0xC7, ucf 0x09 0x58,
    ucf 0x02 0x51, ucf 0x08 0xC8, ucf 0x09 0x63, ucf 0x02 0x51, ucf 0x08 0xC9, ucf 0x09 0x86,
    ucf 0x02 0x51, ucf 0x08 0xCA, ucf 0x09 0xDB, ucf 0x02 0x51, ucf 0x08 0xCB, ucf 0x09 0x30,
    ucf 0x02 0x51, ucf 0x08 0xCC, ucf 0x09 0x62, ucf 0x02 0x51, ucf 0x08 0xCD, ucf 0x09 0x82,
    ucf 0x02 0x51, ucf 0x08 0xCE, ucf 0x09 0x00, ucf 0x02 0x51, ucf 0x08 0xCF, ucf 0x09 0x51,
    ucf 0x02 0x51, ucf 0x08 0xD0, ucf 0x09 0x18, ucf 0x02 0x51, ucf 0x08 0xD1, ucf 0x09 0xCC,
    ucf 0x02 0x51, ucf 0x08 0xD2, ucf 0x09 0x80, ucf 0x02 0x51, ucf 0x08 0xD3, ucf 0x09 0x47,
    ucf 0x02 0x51, ucf 0x08 0xD4, ucf 0x09 0x18, ucf 0x02 0x51, ucf 0x08 0xD5, ucf 0x09 0xEA,
    ucf 0x02 0x51, ucf 0x08 0xD6, ucf 0x09 0x9D, ucf 0x02 0x51, ucf 0x08 0xD7, ucf 0x09 0x3B,
    ucf 0x02 0x51, ucf 0x08 0xD8, ucf 0x09 0x81, ucf 0x02 0x51, ucf 0x08 0xD9, ucf 0x09 0xE9,
    ucf 0x02 0x51, ucf 0x08 0xDA, ucf 0x09 0x30, ucf 0x02 0x51, ucf 0x08 0xDB, ucf 0x09 0x5A,
    ucf 0x02 0x51, ucf 0x08 0xDC, ucf 0x09 0x10, ucf 0x02 0x51, ucf 0x08 0xDD, ucf 0x09 0xA6]"

definition table_high_9 :: "ucf_line list" where
  "table_high_9 = [
    ucf 0x02 0x51, ucf 0x08 0xDE, ucf 0x09 0x68, ucf 0x02 0x51, ucf 0x08 0xDF, ucf 0x09 0x41,
    ucf 0x02 0x51, ucf 0x08 0xE0, ucf 0x09 0x80, ucf 0x02 0x51, ucf 0x08 0xE1, ucf 0x09 0xA8,
    ucf 0x02 0x51, ucf 0x08 0xE2, ucf 0x09 0xC0, ucf 0x02 0x51, ucf 0x08 0xE3, ucf 0x09 0x4B,
    ucf 0x02 0x51, ucf 0x08 0xE4, ucf 0x09 0x61, ucf 0x02 0x51, ucf 0x08 0xE5, ucf 0x09 0xCC,
    ucf 0x02 0x51, ucf 0x08 0xE6, ucf 0x09 0x38, ucf 0x02 0x51, ucf 0x08 0xE7, ucf 0x09 0x30,
    ucf 0x02 0x51, ucf 0x08 0xE8, ucf 0x09 0x81, ucf 0x02 0x51, ucf 0x08 0xE9, ucf 0x09 0xE3,
    ucf 0x02 0x51, ucf 0x08 0xEA, ucf 0x09 0x20, ucf 0x02 0x51, ucf 0x08 0xEB, ucf 0x09 0x4F,
    ucf 0x02 0x51, ucf 0x08 0xEC, ucf 0x09 0x69, ucf 0x02 0x51, ucf 0x08 0xED, ucf 0x09 0x8C,
    ucf 0x02 0x51, ucf 0x08 0xEE, ucf 0x09 0x01, ucf 0x02 0x51, ucf 0x08 0xEF, ucf 0x09 0x3E,
    ucf 0x02 0x51, ucf 0x08 0xF0, ucf 0x09 0x18, ucf 0x02 0x51, ucf 0x08 0xF1, ucf 0x09 0xE0,
    ucf 0x02 0x51, ucf 0x08 0xF2, ucf 0x09 0x79, ucf 0x02 0x51, ucf 0x08 0xF3, ucf 0x09 0x34,
    ucf 0x02 0x51, ucf 0x08 0xF4, ucf 0x09 0xA4, ucf 0x02 0x51, ucf 0x08 0xF5, ucf 0x09 0xD2,
    ucf 0x02 0x51, ucf 0x08 0xF6, ucf 0x09 0x40, ucf 0x02 0x51, ucf 0x08 0xF7, ucf 0x09 0x4B,
    ucf 0x02 0x51, ucf 0x08 0xF8, ucf 0x09 0x18, ucf 0x02 0x51, ucf 0x08 0xF9, ucf 0x09 0xEA,
    ucf 0x02 0x51, ucf 0x08 0xFA, ucf 0x09 0x20, ucf 0x02 0x51, ucf 0x08 0xFB, ucf 0x09 0x4F,
    ucf 0x02 0x51, ucf 0x08 0xFC, ucf 0x09 0xC1, ucf 0x02 0x51, ucf 0x08 0xFD, ucf 0x09 0xCA,
    ucf 0x02 0x51, ucf 0x08 0xFE, ucf 0x09 0x44, ucf 0x02 0x51, ucf 0x08 0xFF, ucf 0x09 0x3D,
    ucf 0x02 0x61, ucf 0x08 0x00, ucf 0x09 0xD1, ucf 0x02 0x61, ucf 0x08 0x01, ucf 0x09 0xD5,
    ucf 0x02 0x61, ucf 0x08 0x02, ucf 0x09 0xD0, ucf 0x02 0x61, ucf 0x08 0x03, ucf 0x09 0x50,
    ucf 0x02 0x61, ucf 0x08 0x04, ucf 0x09 0x10, ucf 0x02 0x61, ucf 0x08 0x05, ucf 0x09 0xAC,
    ucf 0x02 0x61, ucf 0x08 0x06, ucf 0x09 0x40, ucf 0x02 0x61, ucf 0x08 0x07, ucf 0x09 0x4B,
    ucf 0x02 0x61, ucf 0x08 0x08, ucf 0x09 0x40, ucf 0x02 0x61, ucf 0x08 0x09, ucf 0x09 0xAE,
    ucf 0x02 0x61, ucf 0x08 0x0A, ucf 0x09 0x20, ucf 0x02 0x61, ucf 0x08 0x0B, ucf 0x09 0x32,
    ucf 0x02 0x61, ucf 0x08 0x0C, ucf 0x09 0x41, ucf 0x02 0x61, ucf 0x08 0x0D, ucf 0x09 0xF2,
    ucf 0x02 0x61, ucf 0x08 0x0E, ucf 0x09 0xE0, ucf 0x02 0x61, ucf 0x08 0x0F, ucf 0x09 0x4E]"

definition table_high_10 :: "ucf_line list" where
  "table_high_10 = [
    ucf 0x02 0x61, ucf 0x08 0x10, ucf 0x09 0x76, ucf 0x02 0x61, ucf 0x08 0x11, ucf 0x09 0x8A,
    ucf 0x02 0x61, ucf 0x08 0x12, ucf 0x09 0xB3, ucf 0x02 0x61, ucf 0x08 0x13, ucf 0x09 0x5D,
    ucf 0x02 0x61, ucf 0x08 0x14, ucf 0x09 0x40, ucf 0x02 0x61, ucf 0x08 0x15, ucf 0x09 0xA5,
    ucf 0x02 0x61, ucf 0x08 0x16, ucf 0x09 0xC0, ucf 0x02 0x61, ucf 0x08 0x17, ucf 0x09 0x48,
    ucf 0x02 0x61, ucf 0x08 0x18, ucf 0x09 0x75, ucf 0x02 0x61, ucf 0x08 0x19, ucf 0x09 0x8B,
    ucf 0x02 0x61, ucf 0x08 0x1A, ucf 0x09 0x00, ucf 0x02 0x61, ucf 0x08 0x1B, ucf 0x09 0x38,
    ucf 0x02 0x61, ucf 0x08 0x1C, ucf 0x09 0x41, ucf 0x02 0x61, ucf 0x08 0x1D, ucf 0x09 0xC3,
    ucf 0x02 0x61, ucf 0x08 0x1E, ucf 0x09 0xB6, ucf 0x02 0x61, ucf 0x08 0x1F, ucf 0x09 0x34,
    ucf 0x02 0x61, ucf 0x08 0x20, ucf 0x09 0x14, ucf 0x02 0x61, ucf 0x08 0x21, ucf 0x09 0xF2,
    ucf 0x02 0x61, ucf 0x08 0x22, ucf 0x09 0xBC, ucf 0x02 0x61, ucf 0x08 0x23, ucf 0x09 0x3E,
    ucf 0x02 0x61, ucf 0x08 0x24, ucf 0x09 0x14, ucf 0x02 0x61, ucf 0x08 0x25, ucf 0x09 0xE0,
    ucf 0x02 0x61, ucf 0x08 0x26, ucf 0x09 0x30, ucf 0x02 0x61, ucf 0x08 0x27, ucf 0x09 0x51,
    ucf 0x02 0x61, ucf 0x08 0x28, ucf 0x09 0x7B, ucf 0x02 0x61, ucf 0x08 0x29, ucf 0x09 0x8C,
    ucf 0x02 0x61, ucf 0x08 0x2A, ucf 0x09 0xBB, ucf 0x02 0x61, ucf 0x08 0x2B, ucf 0x09 0x43,
    ucf 0x02 0x61, ucf 0x08 0x2C, ucf 0x09 0x40, ucf 0x02 0x61, ucf 0x08 0x2D, ucf 0x09 0xA1,
    ucf 0x02 0x61, ucf 0x08 0x2E, ucf 0x09 0x2D, ucf 0x02 0x61, ucf 0x08 0x2F, ucf 0x09 0xBF,
    ucf 0x02 0x61, ucf 0x08 0x30, ucf 0x09 0x91, ucf 0x02 0x61, ucf 0x08 0x31, ucf 0x09 0xD3,
    ucf 0x02 0x61, ucf 0x08 0x32, ucf 0x09 0x60, ucf 0x02 0x61, ucf 0x08 0x33, ucf 0x09 0x4F,
    ucf 0x02 0x61, ucf 0x08 0x34, ucf 0x09 0x40, ucf 0x02 0x61, ucf 0x08 0x35, ucf 0x09 0xAA,
    ucf 0x02 0x61, ucf 0x08 0x36, ucf 0x09 0x90, ucf 0x02 0x61, ucf 0x08 0x37, ucf 0x09 0x2C,
    ucf 0x02 0x61, ucf 0x08 0x38, ucf 0x09 0x41, ucf 0x02 0x61, ucf 0x08 0x39, ucf 0x09 0xE3,
    ucf 0x02 0x61, ucf 0x08 0x3A, ucf 0x09 0xA0, ucf 0x02 0x61, ucf 0x08 0x3B, ucf 0x09 0x4F,
    ucf 0x02 0x61, ucf 0x08 0x3C, ucf 0x09 0x40, ucf 0x02 0x61, ucf 0x08 0x3D, ucf 0x09 0xAA,
    ucf 0x02 0x61, ucf 0x08 0x3E, ucf 0x09 0x12, ucf 0x02 0x61, ucf 0x08 0x3F, ucf 0x09 0x64,
    ucf 0x02 0x61, ucf 0x08 0x40, ucf 0x09 0x40, ucf 0x02 0x61, ucf 0x08 0x41, ucf 0x09 0xA6]"

definition table_high_11 :: "ucf_line list" where
  "table_high_11 = [
    ucf 0x02 0x61, ucf 0x08 0x42, ucf 0x09 0xA4, ucf 0x02 0x61, ucf 0x08 0x43, ucf 0x09 0x48,
    ucf 0x02 0x61, ucf 0x08 0x44, ucf 0x09 0x14, ucf 0x02 0x61, ucf 0x08 0x45, ucf 0x09 0xE1]"

definition table_end :: "ucf_line list" where
  "table_end = [
    ucf 0x01 0x80, ucf 0x17 0x00, ucf 0x04 0x00, ucf 0x05 0x10, ucf 0x02 0x01, ucf 0x01 0x00,
    ucf 0x12 0x44, ucf 0x01 0x80, ucf 0x60 0x15, ucf 0x01 0x00, ucf 0x10 0x28, ucf 0x11 0x00,
    ucf 0x5E 0x02, ucf 0x01 0x80, ucf 0x0D 0x01, ucf 0x01 0x00]"

definition table_low :: "ucf_line list" where
  "table_low = table_low_1 @ table_low_2 @ table_low_3 @ table_low_4 @ table_low_5"

definition table_high :: "ucf_line list" where
  "table_high = table_high_1 @ table_high_2 @ table_high_3 @ table_high_4 @ table_high_5 @ table_high_6 @
     table_high_7 @ table_high_8 @ table_high_9 @ table_high_10 @ table_high_11"

definition lsm6dsox_activity_recognition_for_mobile :: "ucf_line list" where
  "lsm6dsox_activity_recognition_for_mobile =
     table_begin @ table_low @ table_middle @ table_high @ table_end"

text \<open>The set-up of the sketch programs this table.\<close>

definition imu_ml_setup ::
  "'w arduino \<Rightarrow> 'w sensor \<Rightarrow> ('w \<Rightarrow> 'w) \<Rightarrow> ('w, imu_message) library \<Rightarrow>
     micro_ros_agent_locator \<Rightarrow> nat \<Rightarrow> 'w imu \<Rightarrow> 'w imu run option" where
  "imu_ml_setup ard dev = imu_setup ard dev lsm6dsox_activity_recognition_for_mobile"

subsection \<open>Writes to the embedded memory\<close>

text \<open>A byte is written with three lines: the page, the address in it, the value.\<close>

fun page_write :: "u8 \<times> u8 \<times> u8 \<Rightarrow> ucf_line list" where
  "page_write (sel, addr, v) = [ucf 0x02 sel, ucf 0x08 addr, ucf 0x09 v]"

fun page_writes :: "ucf_line list \<Rightarrow> (u8 \<times> u8 \<times> u8) list" where
  "page_writes (l # m # n # ls) = (ucf_data l, ucf_data m, ucf_data n) # page_writes ls"
| "page_writes _ = []"

fun cell :: "u8 \<times> u8 \<times> u8 \<Rightarrow> nat" where
  "cell (sel, addr, v) = 256 * unat sel + unat addr"

text \<open>\<open>ascend b cs\<close> is the last cell when the cells increase from above \<open>b\<close> and the low half of each
  page selection is 1.\<close>

fun ascend :: "nat \<Rightarrow> (u8 \<times> u8 \<times> u8) list \<Rightarrow> nat option" where
  "ascend b [] = Some b"
| "ascend b (c # cs) = (if b < cell c \<and> fst c AND 0x0F = 1 then ascend (cell c) cs else None)"

lemma ascend_append:
  "ascend b (xs @ ys) = (case ascend b xs of None \<Rightarrow> None | Some c \<Rightarrow> ascend c ys)"
  by (induction xs arbitrary: b) simp_all

lemma ascend_sorted:
  "ascend b cs = Some c \<Longrightarrow> sorted_wrt (<) (map cell cs) \<and> list_all (\<lambda>x. b < cell x \<and> fst x AND 0x0F = 1) cs"
proof (induction cs arbitrary: b)
  case (Cons d ds)
  then show ?case using order.strict_trans by (force simp: list_all_iff split: if_splits)
qed simp

definition written :: "ucf_line list \<Rightarrow> nat \<Rightarrow> nat \<Rightarrow> nat \<Rightarrow> bool" where
  "written ls k b c \<longleftrightarrow> (\<exists>ws. ls = concat (map page_write ws) \<and> length ws = k \<and> ascend b ws = Some c)"

lemma written_append: "written xs k b c \<Longrightarrow> written ys m c d \<Longrightarrow> written (xs @ ys) (k + m) b d"
  by (force simp: written_def ascend_append intro: exI [of _ "_ @ _"])

lemma writtenI:
  "concat (map page_write (page_writes ls)) = ls \<Longrightarrow> length (page_writes ls) = k \<Longrightarrow>
   ascend b (page_writes ls) = Some c \<Longrightarrow> written ls k b c"
  unfolding written_def by metis

lemma written_table_low_1: "written table_low_1 50 0 12639"
  by (rule writtenI) (simp_all add: table_low_1_def)

lemma written_table_low_2: "written table_low_2 50 12639 12689"
  by (rule writtenI) (simp_all add: table_low_2_def)

lemma written_table_low_3: "written table_low_3 50 12689 12739"
  by (rule writtenI) (simp_all add: table_low_3_def)

lemma written_table_low_4: "written table_low_4 50 12739 12789"
  by (rule writtenI) (simp_all add: table_low_4_def)

lemma written_table_low_5: "written table_low_5 29 12789 16716"
  by (rule writtenI) (simp_all add: table_low_5_def)

lemma written_table_high_1: "written table_high_1 50 16716 16767"
  by (rule writtenI) (simp_all add: table_high_1_def)

lemma written_table_high_2: "written table_high_2 50 16767 16817"
  by (rule writtenI) (simp_all add: table_high_2_def)

lemma written_table_high_3: "written table_high_3 50 16817 16867"
  by (rule writtenI) (simp_all add: table_high_3_def)

lemma written_table_high_4: "written table_high_4 50 16867 20757"
  by (rule writtenI) (simp_all add: table_high_4_def)

lemma written_table_high_5: "written table_high_5 50 20757 20807"
  by (rule writtenI) (simp_all add: table_high_5_def)

lemma written_table_high_6: "written table_high_6 50 20807 20857"
  by (rule writtenI) (simp_all add: table_high_6_def)

lemma written_table_high_7: "written table_high_7 50 20857 20907"
  by (rule writtenI) (simp_all add: table_high_7_def)

lemma written_table_high_8: "written table_high_8 50 20907 20957"
  by (rule writtenI) (simp_all add: table_high_8_def)

lemma written_table_high_9: "written table_high_9 50 20957 24847"
  by (rule writtenI) (simp_all add: table_high_9_def)

lemma written_table_high_10: "written table_high_10 50 24847 24897"
  by (rule writtenI) (simp_all add: table_high_10_def)

lemma written_table_high_11: "written table_high_11 4 24897 24901"
  by (rule writtenI) (simp_all add: table_high_11_def)

lemma written_table_low: "written table_low 229 0 16716"
  unfolding table_low_def
  using written_append [OF written_table_low_1
    written_append [OF written_table_low_2
    written_append [OF written_table_low_3
    written_append [OF written_table_low_4 written_table_low_5]]]] by simp

lemma written_table_high: "written table_high 504 16716 24901"
  unfolding table_high_def
  using written_append [OF written_table_high_1
    written_append [OF written_table_high_2
    written_append [OF written_table_high_3
    written_append [OF written_table_high_4
    written_append [OF written_table_high_5
    written_append [OF written_table_high_6
    written_append [OF written_table_high_7
    written_append [OF written_table_high_8
    written_append [OF written_table_high_9
    written_append [OF written_table_high_10 written_table_high_11]]]]]]]]]] by simp

subsection \<open>Banks\<close>

text \<open>Register 1 selects the bank the next lines go to. \<open>bank_after b ls\<close> is the bank after the lines
  \<open>ls\<close>, and \<open>banked\<close> says that every other register of the table is written in the bank it is in:
  the control registers in the user bank 0, those of the embedded functions in bank 0x80.\<close>

definition user_register :: "u8 \<Rightarrow> bool" where
  "user_register a \<longleftrightarrow> a \<in> {0x10, 0x11, 0x12, 0x5E}"

definition embedded_register :: "u8 \<Rightarrow> bool" where
  "embedded_register a \<longleftrightarrow> a \<in> {0x02, 0x04, 0x05, 0x08, 0x09, 0x0D, 0x17, 0x60}"

fun bank_after :: "u8 \<Rightarrow> ucf_line list \<Rightarrow> u8" where
  "bank_after b [] = b"
| "bank_after b (l # ls) = bank_after (if ucf_address l = 0x01 then ucf_data l else b) ls"

fun banked :: "u8 \<Rightarrow> ucf_line list \<Rightarrow> bool" where
  "banked b [] = True"
| "banked b (l # ls) =
     (if ucf_address l = 0x01 then banked (ucf_data l) ls
      else (if b = 0 then user_register (ucf_address l) else b = 0x80 \<and> embedded_register (ucf_address l)) \<and> banked b ls)"

lemma bank_after_append: "bank_after b (xs @ ys) = bank_after (bank_after b xs) ys"
  by (induction xs arbitrary: b) simp_all

lemma banked_append: "banked b (xs @ ys) \<longleftrightarrow> banked b xs \<and> banked (bank_after b xs) ys"
  by (induction xs arbitrary: b) simp_all

lemma written_banked:
  assumes "written ls k lo hi"
  shows "banked 0x80 ls \<and> bank_after 0x80 ls = 0x80"
proof -
  have "banked 0x80 (concat (map page_write ws)) \<and> bank_after 0x80 (concat (map page_write ws)) = 0x80" for ws
    by (induction ws) (auto simp: banked_append bank_after_append embedded_register_def)
  with assms show ?thesis by (auto simp: written_def)
qed

lemma table_banked:
  "banked 0 lsm6dsox_activity_recognition_for_mobile \<and> bank_after 0 lsm6dsox_activity_recognition_for_mobile = 0"
  using written_banked [OF written_table_low] written_banked [OF written_table_high]
  by (simp add: lsm6dsox_activity_recognition_for_mobile_def banked_append bank_after_append table_begin_def
      table_middle_def table_end_def user_register_def embedded_register_def)

lemma program_sensor_bank:
  assumes "\<And>a v w. bank (Write_Reg dev a v w) = (if a = 0x01 then v else bank w)"
  shows "bank (program_sensor dev ls w) = bank_after (bank w) ls"
  by (induction ls arbitrary: w) (simp_all add: program_sensor_def assms)

subsection \<open>Properties\<close>

text \<open>The table is a program of single byte writes: with the two sensors switched off it opens the
  embedded bank for writing, fills 733 cells, with one write to the user bank in between,
  closes the embedded memory and only then sets the data rates. The cells come in increasing order, so
  none is written twice.\<close>

theorem sensor_table_well_formed:
  "\<exists>low high. lsm6dsox_activity_recognition_for_mobile =
      [ucf 0x10 0x00, ucf 0x11 0x00, ucf 0x01 0x80, ucf 0x05 0x00, ucf 0x17 0x40] @
      concat (map page_write low) @ [ucf 0x01 0x00, ucf 0x12 0x00, ucf 0x01 0x80, ucf 0x17 0x40] @
      concat (map page_write high) @
      [ucf 0x01 0x80, ucf 0x17 0x00, ucf 0x04 0x00, ucf 0x05 0x10, ucf 0x02 0x01, ucf 0x01 0x00, ucf 0x12 0x44,
       ucf 0x01 0x80, ucf 0x60 0x15, ucf 0x01 0x00, ucf 0x10 0x28, ucf 0x11 0x00, ucf 0x5E 0x02, ucf 0x01 0x80,
       ucf 0x0D 0x01, ucf 0x01 0x00] \<and>
    length low + length high = 733 \<and> sorted_wrt (<) (map cell (low @ high)) \<and>
    list_all (\<lambda>(sel, addr, v). sel AND 0x0F = 1) (low @ high)"
proof -
  obtain low high where w: "table_low = concat (map page_write low)" "table_high = concat (map page_write high)"
    "length low = 229" "length high = 504" "ascend 0 low = Some 16716" "ascend 16716 high = Some 24901"
    using written_table_low written_table_high by (auto simp: written_def)
  then have "ascend 0 (low @ high) = Some 24901" by (simp add: ascend_append)
  from ascend_sorted [OF this] w(1-4) show ?thesis
    by (intro exI [of _ low] exI [of _ high])
      (simp add: lsm6dsox_activity_recognition_for_mobile_def table_begin_def table_middle_def table_end_def
        list_all_iff split_def)
qed

text \<open>C15. On any sensor whose register 1 selects the bank, every line of the table reaches the bank its
  register is in, and the sensor is left in the user bank, where the loop of the sketch reads the status
  registers.\<close>

theorem sensor_programmed_in_its_banks:
  assumes "\<And>a v w. bank (Write_Reg dev a v w) = (if a = 0x01 then v else bank w)" "bank w = 0"
    "lsm6dsox_activity_recognition_for_mobile = before @ l # after" "ucf_address l \<noteq> 0x01"
  shows "(if user_register (ucf_address l) then bank (program_sensor dev before w) = 0
      else embedded_register (ucf_address l) \<and> bank (program_sensor dev before w) = 0x80) \<and>
    bank (program_sensor dev lsm6dsox_activity_recognition_for_mobile w) = 0"
proof -
  note at = program_sensor_bank [of bank dev, OF assms(1)]
  have "banked (bank_after 0 before) (l # after)"
    using table_banked assms(3) banked_append by metis
  with assms(4) show ?thesis
    using table_banked by (auto simp: at assms(2) user_register_def embedded_register_def split: if_splits)
qed

definition banked_sensor :: "u8 sensor" where
  "banked_sensor = \<lparr>sensor_begin = (\<lambda>w. w), Write_Reg = (\<lambda>a v w. if a = 0x01 then v else w), Enable_Pedometer = (\<lambda>w. w),
     attach_interrupt = (\<lambda>w. w), Get_MLC_Status = (\<lambda>w. (True, w)), Get_X_Event_Status = (\<lambda>w. (True, w)),
     Get_MLC_Output = (\<lambda>w. (\<lambda>i. 4, w)), Get_Step_Count = (\<lambda>w. (65535, w))\<rparr>"

theorem sensor_programmed_in_its_banks_witness:
  "program_sensor banked_sensor (take 3 table_begin) 0 = 0x80 \<and>
   program_sensor banked_sensor lsm6dsox_activity_recognition_for_mobile 0 = 0"
proof -
  have split: "lsm6dsox_activity_recognition_for_mobile =
      take 3 table_begin @ ucf 0x05 0x00 # (ucf 0x17 0x40 # table_low @ table_middle @ table_high @ table_end)"
    by (simp add: lsm6dsox_activity_recognition_for_mobile_def table_begin_def)
  show ?thesis
    using sensor_programmed_in_its_banks [of "\<lambda>w. w" banked_sensor 0, OF _ _ split]
    by (simp add: banked_sensor_def user_register_def)
qed

end
