(* ===== verification/Message_Structs.thy ===== *)
theory Message_Structs
  imports Prelude Complex_Main "HOL-Library.Monad_Syntax"
begin

text \<open>
  The messages the last two sketches fill in: the structs of the generated headers, one record each,
  over the sequences and strings of \<^verbatim>\<open>rosidl_runtime_c\<close>. A sequence is a pointer to its items with
  the numbers of valid and of allocated ones; the pointer is null (\<open>None\<close>) until memory is created.
  Writing through a null pointer or past the allocated items has no result. A \<open>double\<close> is a real
  number.
\<close>

subsection \<open>Sequences\<close>

record 'a sequence =
  seq_data :: "'a list option"
  seq_size :: nat
  seq_capacity :: nat

type_synonym rosidl_runtime_c__String = "char sequence"

definition store :: "'a sequence \<Rightarrow> nat \<Rightarrow> 'a \<Rightarrow> 'a sequence option" where
  "store q i v =
     (case seq_data q of
        None \<Rightarrow> None
      | Some xs \<Rightarrow> if i < length xs then Some (q\<lparr>seq_data := Some (xs[i := v])\<rparr>) else None)"

definition modify_at :: "'a sequence \<Rightarrow> nat \<Rightarrow> ('a \<Rightarrow> 'a) \<Rightarrow> 'a sequence option" where
  "modify_at q i f =
     (case seq_data q of
        None \<Rightarrow> None
      | Some xs \<Rightarrow> if i < length xs then Some (q\<lparr>seq_data := Some (xs[i := f (xs ! i)])\<rparr>) else None)"

text \<open>What the two numbers mean.\<close>

definition sequence_ok :: "'a sequence \<Rightarrow> bool" where
  "sequence_ok q \<longleftrightarrow> seq_size q \<le> seq_capacity q \<and>
     (case seq_data q of None \<Rightarrow> seq_capacity q = 0 | Some xs \<Rightarrow> length xs = seq_capacity q)"

text \<open>A sequence with memory for \<open>n\<close> items, and one without memory.\<close>

definition with_room :: "nat \<Rightarrow> 'a \<Rightarrow> 'a sequence" where
  "with_room n v = \<lparr>seq_data = Some (replicate n v), seq_size = 0, seq_capacity = n\<rparr>"

definition no_memory :: "'a sequence" where
  "no_memory = \<lparr>seq_data = None, seq_size = 0, seq_capacity = 0\<rparr>"

lemma store_simps [simp]:
  "store \<lparr>seq_data = Some xs, seq_size = n, seq_capacity = c\<rparr> i v =
     (if i < length xs then Some \<lparr>seq_data = Some (xs[i := v]), seq_size = n, seq_capacity = c\<rparr> else None)"
  "store \<lparr>seq_data = None, seq_size = n, seq_capacity = c\<rparr> i v = None"
  by (simp_all add: store_def)

lemma store_null: "seq_data q = None \<Longrightarrow> store q i v = None"
  by (simp add: store_def)

lemma store_size: "store q i v = Some q' \<Longrightarrow> seq_size q' = seq_size q"
  by (auto simp: store_def split: option.splits if_splits)

lemma store_ok: "store q i v = Some q' \<Longrightarrow> sequence_ok q \<Longrightarrow> sequence_ok q'"
  by (auto simp: store_def sequence_ok_def split: option.splits if_splits)

lemma store_update: "store (q\<lparr>seq_size := n\<rparr>) i v = map_option (\<lambda>r. r\<lparr>seq_size := n\<rparr>) (store q i v)"
  by (simp add: store_def split: option.splits)

subsection \<open>Structs\<close>

record builtin_interfaces__msg__Time =
  sec :: u32
  nanosec :: u32

record std_msgs__msg__Header =
  stamp :: builtin_interfaces__msg__Time
  frame_id :: rosidl_runtime_c__String

record geometry_msgs__msg__Vector3 =
  vec_x :: real
  vec_y :: real
  vec_z :: real

record geometry_msgs__msg__Quaternion =
  quat_x :: real
  quat_y :: real
  quat_z :: real
  quat_w :: real

record geometry_msgs__msg__Transform =
  translation :: geometry_msgs__msg__Vector3
  rotation :: geometry_msgs__msg__Quaternion

record geometry_msgs__msg__TransformStamped =
  header :: std_msgs__msg__Header
  child_frame_id :: rosidl_runtime_c__String
  transform :: geometry_msgs__msg__Transform

record tf2_msgs__msg__TFMessage =
  transforms :: "geometry_msgs__msg__TransformStamped sequence"

record control_msgs__msg__JointJog =
  jog_header :: std_msgs__msg__Header
  joint_names :: "rosidl_runtime_c__String sequence"
  displacements :: "real sequence"
  velocities :: "real sequence"
  duration :: real

end
