(* ===== verification/Message_Sketches.thy ===== *)
theory Message_Sketches
  imports Sketch_Runtime Arduino_Clock Message_Structs
begin

text \<open>
  The sketches that publish messages with sequences: \<^verbatim>\<open>micro-ros_tf_publisher\<close>, which turns the
  angles of a motion sensor into a rotation, and \<^verbatim>\<open>micro-ros_types_handling\<close>, which creates the memory
  of a message in two ways and fills it. The sensor and the utilities that create memory and set
  strings are parameters; \<open>float\<close> and \<open>double\<close> are real numbers. An operation on a message has no result when it writes through a null pointer
  or past the end of an array.
\<close>

type_synonym string_setter = "rosidl_runtime_c__String \<Rightarrow> string \<Rightarrow> rosidl_runtime_c__String"

subsection \<open>The angles as a quaternion\<close>

text \<open>The four entries of \<open>q\<close>; the sketch writes 3.14 for the half turn.\<close>

definition euler_to_quat :: "real \<Rightarrow> real \<Rightarrow> real \<Rightarrow> real \<times> real \<times> real \<times> real" where
  "euler_to_quat x y z =
     (let c1 = cos ((y * 3.14 / 180) / 2); c2 = cos ((z * 3.14 / 180) / 2); c3 = cos ((x * 3.14 / 180) / 2);
          s1 = sin ((y * 3.14 / 180) / 2); s2 = sin ((z * 3.14 / 180) / 2); s3 = sin ((x * 3.14 / 180) / 2)
      in (c1 * c2 * c3 - s1 * s2 * s3,
          s1 * s2 * c3 + c1 * c2 * s3,
          s1 * c2 * c3 + c1 * s2 * s3,
          c1 * s2 * c3 - s1 * c2 * s3))"

text \<open>The algebra of quaternions \<open>a + b i + c j + d k\<close>, and the rotation by an angle about an axis.\<close>

type_synonym quaternion = "real \<times> real \<times> real \<times> real"

fun quat_mult :: "quaternion \<Rightarrow> quaternion \<Rightarrow> quaternion" where
  "quat_mult (a1, b1, c1, d1) (a2, b2, c2, d2) =
     (a1 * a2 - b1 * b2 - c1 * c2 - d1 * d2, a1 * b2 + b1 * a2 + c1 * d2 - d1 * c2,
      a1 * c2 - b1 * d2 + c1 * a2 + d1 * b2, a1 * d2 + b1 * c2 - c1 * b2 + d1 * a2)"

fun quat_norm2 :: "quaternion \<Rightarrow> real" where
  "quat_norm2 (a, b, c, d) = a\<^sup>2 + b\<^sup>2 + c\<^sup>2 + d\<^sup>2"

definition about_x :: "real \<Rightarrow> quaternion" where "about_x a = (cos (a / 2), sin (a / 2), 0, 0)"
definition about_y :: "real \<Rightarrow> quaternion" where "about_y a = (cos (a / 2), 0, sin (a / 2), 0)"
definition about_z :: "real \<Rightarrow> quaternion" where "about_z a = (cos (a / 2), 0, 0, sin (a / 2))"

lemma quat_norm2_mult: "quat_norm2 (quat_mult p q) = quat_norm2 p * quat_norm2 q"
  by (cases p; cases q) (simp add: power2_eq_square algebra_simps)

lemma quat_norm2_about [simp]:
  "quat_norm2 (about_x a) = 1" "quat_norm2 (about_y a) = 1" "quat_norm2 (about_z a) = 1"
  by (simp_all add: about_x_def about_y_def about_z_def)

lemma euler_to_quat_product:
  "euler_to_quat x y z =
     quat_mult (quat_mult (about_y (y * 3.14 / 180)) (about_z (z * 3.14 / 180))) (about_x (x * 3.14 / 180))"
  by (simp add: euler_to_quat_def about_x_def about_y_def about_z_def Let_def algebra_simps)

subsection \<open>The transform publisher\<close>

record 'w imu_chip =
  imu_begin :: "'w \<Rightarrow> 'w"
  acc_cali_start :: "'w \<Rightarrow> 'w"
  acc_cali_get_done :: "'w \<Rightarrow> bool \<times> 'w"
  imu_update :: "'w \<Rightarrow> 'w"
  rpy :: "'w \<Rightarrow> real \<times> real \<times> real"

text \<open>\<open>tf_message\<close> is the global pointer to the message.\<close>

record 'w tf = "('w, tf2_msgs__msg__TFMessage) board" +
  clock :: clock_static
  tf_message :: "tf2_msgs__msg__TFMessage option"

text \<open>The loop until the accelerometer is calibrated; \<open>None\<close> is one that never ends.\<close>

partial_function (option) wait_calibrated :: "'w imu_chip \<Rightarrow> 'w \<Rightarrow> 'w option" where
  "wait_calibrated chip w =
     (let (done, w1) = acc_cali_get_done chip w
      in if \<not> done then wait_calibrated chip (imu_update chip w1) else Some w1)"

definition calibration_round :: "'w imu_chip \<Rightarrow> 'w \<Rightarrow> 'w" where
  "calibration_round chip w = imu_update chip (snd (acc_cali_get_done chip w))"

lemma wait_calibrated_round:
  "wait_calibrated chip w = (if fst (acc_cali_get_done chip w) then Some (snd (acc_cali_get_done chip w))
     else wait_calibrated chip (calibration_round chip w))"
  by (subst wait_calibrated.simps) (simp add: calibration_round_def split_def Let_def)

lemma wait_calibrated_returns:
  "fst (acc_cali_get_done chip ((calibration_round chip ^^ k) w)) \<Longrightarrow> wait_calibrated chip w \<noteq> None"
proof (induction k arbitrary: w)
  case 0
  then show ?case by (subst wait_calibrated_round) simp
next
  case (Suc k)
  then have "wait_calibrated chip (calibration_round chip w) \<noteq> None" by (simp add: funpow_swap1)
  then show ?case by (subst wait_calibrated_round) simp
qed

definition tf_checks ::
  "'w arduino \<Rightarrow> ('w, tf2_msgs__msg__TFMessage) library \<Rightarrow> nat \<Rightarrow> 'w tf \<Rightarrow> 'w tf run" where
  "tf_checks ard lib n s =
     (let s1 = at_world (pinMode_output ard LED_PIN) s;
          s2 = at_world (digitalWrite ard LED_PIN True) s1;
          s3 = at_world (delay_ms ard 2000) s2;
          s4 = perform lib Get_default_allocator s3;
          timer_timeout = 1000;
          check = (\<lambda>c. RCCHECK (error_loop ard LED_PIN n) (invoke lib c))
      in (check Support_init
           (check (Node_init_default ''micro_ros_arduino_node'' [])
             (check (Publisher_init_default ''tf2_msgs_msg_TFMessage'' ''/tf'')
               (check (Timer_init_default (RCL_MS_TO_NS timer_timeout))
                 (check (Executor_init 1) Finished))))) s4)"

text \<open>\<open>create_memory\<close> is given the address of \<open>tf_message\<close>, so it may change any variable of the sketch.\<close>

definition tf_name_frames :: "string_setter \<Rightarrow> 'w tf \<Rightarrow> 'w tf option" where
  "tf_name_frames string_set s =
     do {
       m \<leftarrow> tf_message s;
       let named = (\<lambda>name t. t\<lparr>header := (header t)\<lparr>frame_id := string_set (frame_id (header t)) name\<rparr>\<rparr>);
       q1 \<leftarrow> modify_at ((transforms m)\<lparr>seq_size := 2\<rparr>) 0 (named ''/panda_link0'');
       q2 \<leftarrow> modify_at q1 1 (named ''/inertial_unit'');
       Some (s\<lparr>tf_message := Some (m\<lparr>transforms := q2\<rparr>)\<rparr>)
     }"

definition tf_init ::
  "'w arduino \<Rightarrow> ('w, tf2_msgs__msg__TFMessage) library \<Rightarrow> ('w tf \<Rightarrow> bool \<times> 'w tf) \<Rightarrow> string_setter \<Rightarrow> nat \<Rightarrow>
     'w tf \<Rightarrow> 'w tf run option" where
  "tf_init ard lib create_memory string_set n s =
     (case tf_checks ard lib n s of
        Running u \<Rightarrow> Some (Running u)
      | Finished u \<Rightarrow>
          (let (created, u1) = create_memory u
           in if \<not> created then Some (error_loop ard LED_PIN n u1)
              else map_option Finished (tf_name_frames string_set u1)))"

definition tf_setup ::
  "'w arduino \<Rightarrow> 'w imu_chip \<Rightarrow> ('w, tf2_msgs__msg__TFMessage) library \<Rightarrow> ('w tf \<Rightarrow> bool \<times> 'w tf) \<Rightarrow>
     string_setter \<Rightarrow> nat \<Rightarrow> 'w tf \<Rightarrow> 'w tf run option option" where
  "tf_setup ard chip lib create_memory string_set n s =
     (let s1 = at_world (set_microros_transports (net ard)) s;
          s2 = at_world (imu_begin chip) s1;
          s3 = at_world (acc_cali_start chip) s2
      in case wait_calibrated chip (world s3) of
           None \<Rightarrow> None
         | Some w \<Rightarrow> Some (tf_init ard lib create_memory string_set n (s3\<lparr>world := w\<rparr>)))"

text \<open>\<open>micros\<close> is the counter of the board that \<open>clock_gettime\<close> reads.\<close>

definition tf_loop ::
  "'w imu_chip \<Rightarrow> ('w \<Rightarrow> u32) \<Rightarrow> ('w, tf2_msgs__msg__TFMessage) library \<Rightarrow> 'w tf \<Rightarrow> 'w tf option" where
  "tf_loop chip micros lib s =
     (let ((_, tv), clock') = clock_gettime (micros (world s)) (clock s);
          s1 = at_world (imu_update chip) (s\<lparr>clock := clock'\<rparr>);
          (r, p, y) = rpy chip (world s1);
          (q0, q1, q2, q3) = euler_to_quat r p y
      in do {
        m \<leftarrow> tf_message s1;
        ts \<leftarrow> modify_at (transforms m) 0 (\<lambda>t. t\<lparr>
            transform := (transform t)\<lparr>rotation := \<lparr>quat_x = q1, quat_y = q2, quat_z = q3, quat_w = q0\<rparr>\<rparr>,
            header := (header t)\<lparr>stamp := \<lparr>sec = ucast (tv_sec tv), nanosec = tv_nsec tv\<rparr>\<rparr>\<rparr>);
        let m' = m\<lparr>transforms := ts\<rparr>;
        Some (RCSOFTCHECK (invoke lib (Publish m')) (s1\<lparr>tf_message := Some m'\<rparr>))
      })"

interpretation tf: checked_setup "tf_checks ard lib" lib
  "\<lambda>s. perform lib Get_default_allocator (at_world (\<lambda>w. delay_ms ard 2000 (digitalWrite ard LED_PIN True
     (pinMode_output ard LED_PIN w))) s)"
  "[Support_init, Node_init_default ''micro_ros_arduino_node'' [], Publisher_init_default ''tf2_msgs_msg_TFMessage'' ''/tf'',
    Timer_init_default (RCL_MS_TO_NS 1000), Executor_init 1]"
  "\<lambda>s. s" "blink ard LED_PIN" for ard lib
  by unfold_locales (simp add: tf_checks_def checked_def error_loop_def at_world_def Let_def)

subsection \<open>Types handling\<close>

text \<open>The number of rules is the length of their list; the sketch leaves the allocator null.\<close>

record memory_rule =
  rule :: string
  rule_size :: nat

record micro_ros_utilities_memory_conf_t =
  max_string_capacity :: nat
  max_ros2_type_sequence_capacity :: nat
  max_basic_type_sequence_capacity :: nat
  conf_rules :: "memory_rule list"

definition types_conf :: micro_ros_utilities_memory_conf_t where
  "types_conf = \<lparr>max_string_capacity = 50, max_ros2_type_sequence_capacity = 5, max_basic_type_sequence_capacity = 5,
     conf_rules = [\<lparr>rule = ''header.frame_id'', rule_size = 30\<rparr>, \<lparr>rule = ''joint_names'', rule_size = 3\<rparr>,
       \<lparr>rule = ''displacements'', rule_size = 8\<rparr>]\<rparr>"

record 'w memory_lib =
  create_message_memory :: "micro_ros_utilities_memory_conf_t \<Rightarrow> control_msgs__msg__JointJog \<Rightarrow> 'w \<Rightarrow>
    bool \<times> control_msgs__msg__JointJog \<times> 'w"
  create_static_message_memory :: "micro_ros_utilities_memory_conf_t \<Rightarrow> nat \<Rightarrow> control_msgs__msg__JointJog \<Rightarrow> 'w \<Rightarrow>
    bool \<times> control_msgs__msg__JointJog \<times> 'w"

record 'w types = "('w, control_msgs__msg__JointJog) board" +
  msg :: control_msgs__msg__JointJog
  msg_static :: control_msgs__msg__JointJog
  success :: bool

definition types_timer_callback ::
  "('w, control_msgs__msg__JointJog) library \<Rightarrow> bool \<Rightarrow> 'w types \<Rightarrow> 'w types" where
  "types_timer_callback lib timer_not_null s =
     (if timer_not_null
      then (let s1 = RCSOFTCHECK (invoke lib (Publish (msg s))) s
            in RCSOFTCHECK (invoke lib (Publish (msg_static s1))) s1)
      else s)"

definition types_checks ::
  "'w arduino \<Rightarrow> ('w, control_msgs__msg__JointJog) library \<Rightarrow> nat \<Rightarrow> 'w types \<Rightarrow> 'w types run" where
  "types_checks ard lib n s =
     (let s1 = at_world (set_microros_transports (net ard)) s;
          s2 = at_world (pinMode_output ard LED_PIN) s1;
          s3 = at_world (digitalWrite ard LED_PIN True) s2;
          s4 = at_world (delay_ms ard 2000) s3;
          s5 = perform lib Get_default_allocator s4;
          timer_timeout = 1000;
          check = (\<lambda>c. RCCHECK (error_loop ard LED_PIN n) (invoke lib c))
      in (check Support_init
           (check (Node_init_default ''micro_ros_arduino_node'' [])
             (check (Publisher_init_default ''control_msgs_msg_JointJog'' ''micro_ros_arduino_node_publisher'')
               (check (Timer_init_default (RCL_MS_TO_NS timer_timeout))
                 (check (Executor_init 1)
                   (check Executor_add_timer Finished)))))) s5)"

text \<open>The two calls that create memory; the buffer has 1000 bytes. Nothing reads \<open>success\<close>.\<close>

definition types_create_memory :: "'w memory_lib \<Rightarrow> 'w types \<Rightarrow> 'w types" where
  "types_create_memory mem s =
     (let (ok1, m, w1) = create_message_memory mem types_conf (msg s) (world s);
          (ok2, m', w2) = create_static_message_memory mem types_conf 1000 (msg_static s) w1
      in s\<lparr>world := w2, msg := m, msg_static := m', success := ok1 \<and> ok2\<rparr>)"

function fill_index :: "nat \<Rightarrow> real sequence \<Rightarrow> real sequence option" where
  "fill_index i q =
     (if i < seq_size q
      then (case store q i (real i) of None \<Rightarrow> None | Some q' \<Rightarrow> fill_index (i + 1) q')
      else Some q)"
  by auto
termination
  by (relation "measure (\<lambda>(i, q). seq_size q - i)") (auto dest: store_size)

declare fill_index.simps [simp del]

definition set_velocity :: "nat \<Rightarrow> real \<Rightarrow> 'w types \<Rightarrow> 'w types option" where
  "set_velocity i v s =
     do {
       q' \<leftarrow> store (velocities (msg_static s)) i v;
       q \<leftarrow> store (velocities (msg s)) i v;
       Some (s\<lparr>msg := (msg s)\<lparr>velocities := q\<rparr>, msg_static := (msg_static s)\<lparr>velocities := q'\<rparr>\<rparr>)
     }"

definition set_frame_id ::
  "string_setter \<Rightarrow> string \<Rightarrow> control_msgs__msg__JointJog \<Rightarrow> control_msgs__msg__JointJog" where
  "set_frame_id string_set name m =
     m\<lparr>jog_header := (jog_header m)\<lparr>frame_id := string_set (frame_id (jog_header m)) name\<rparr>\<rparr>"

definition types_fill :: "string_setter \<Rightarrow> 'w types \<Rightarrow> 'w types option" where
  "types_fill string_set s =
     (let s1 = s\<lparr>msg := set_frame_id string_set ''framename'' (msg s)\<rparr>;
          s2 = s1\<lparr>msg_static := set_frame_id string_set ''framenamestatic'' (msg_static s1)\<rparr>;
          sized = (\<lambda>m. m\<lparr>velocities := (velocities m)\<lparr>seq_size := 3\<rparr>\<rparr>);
          s3 = s2\<lparr>msg := sized (msg s2), msg_static := sized (msg_static s2)\<rparr>
      in do {
        s4 \<leftarrow> set_velocity 0 10 s3;
        s5 \<leftarrow> set_velocity 1 11.1 s4;
        s6 \<leftarrow> set_velocity 2 22.2 s5;
        q \<leftarrow> fill_index 0 ((displacements (msg s6))\<lparr>seq_size := 4\<rparr>);
        Some (s6\<lparr>msg := (msg s6)\<lparr>displacements := q\<rparr>\<rparr>)
      })"

definition types_setup ::
  "'w arduino \<Rightarrow> 'w memory_lib \<Rightarrow> string_setter \<Rightarrow> ('w, control_msgs__msg__JointJog) library \<Rightarrow> nat \<Rightarrow> 'w types \<Rightarrow>
     'w types run option" where
  "types_setup ard mem string_set lib n s =
     (case types_checks ard lib n s of
        Running u \<Rightarrow> Some (Running u)
      | Finished u \<Rightarrow> map_option Finished (types_fill string_set (types_create_memory mem u)))"

definition types_loop ::
  "'w arduino \<Rightarrow> ('w, control_msgs__msg__JointJog) library \<Rightarrow> 'w types \<Rightarrow> 'w types" where
  "types_loop ard lib s =
     RCSOFTCHECK (spin_some lib (RCL_MS_TO_NS 100)
       (\<lambda>s. if timer_ready lib (world s) then types_timer_callback lib True s else s))
       (at_world (delay_ms ard 100) s)"

interpretation types: checked_setup "types_checks ard lib" lib
  "\<lambda>s. perform lib Get_default_allocator (at_world (\<lambda>w. delay_ms ard 2000 (digitalWrite ard LED_PIN True
     (pinMode_output ard LED_PIN (set_microros_transports (net ard) w)))) s)"
  "[Support_init, Node_init_default ''micro_ros_arduino_node'' [],
    Publisher_init_default ''control_msgs_msg_JointJog'' ''micro_ros_arduino_node_publisher'',
    Timer_init_default (RCL_MS_TO_NS 1000), Executor_init 1, Executor_add_timer]"
  "\<lambda>s. s" "blink ard LED_PIN" for ard lib
  by unfold_locales (simp add: types_checks_def checked_def error_loop_def at_world_def Let_def)

subsection \<open>Filling\<close>

definition jog_ok :: "control_msgs__msg__JointJog \<Rightarrow> bool" where
  "jog_ok m \<longleftrightarrow> sequence_ok (joint_names m) \<and> sequence_ok (displacements m) \<and> sequence_ok (velocities m)"

text \<open>The first \<open>k\<close> items, when there is memory.\<close>

definition items :: "nat \<Rightarrow> 'a sequence \<Rightarrow> 'a list" where
  "items k q = (case seq_data q of None \<Rightarrow> [] | Some xs \<Rightarrow> take k xs)"

lemma ok_room:
  assumes "sequence_ok q"
  shows "(\<exists>xs. seq_data q = Some xs \<and> k < length xs) \<longleftrightarrow> k < seq_capacity q"
  using assms by (auto simp: sequence_ok_def split: option.splits)

lemma store_defined: "sequence_ok q \<Longrightarrow> (store q i v = None) = (seq_capacity q \<le> i)"
  by (auto simp: store_def sequence_ok_def split: option.splits)

lemma fill_index_result:
  "seq_data q = Some xs \<Longrightarrow> i \<le> seq_size q \<Longrightarrow> i \<le> length xs \<Longrightarrow> fill_index i q =
     (if seq_size q \<le> length xs
      then Some (q\<lparr>seq_data := Some (take i xs @ map real [i..<seq_size q] @ drop (seq_size q) xs)\<rparr>) else None)"
proof (induction i q arbitrary: xs rule: fill_index.induct)
  case (1 i q)
  show ?case
  proof (cases "i < seq_size q")
    case False
    with 1(3) have "i = seq_size q" by simp
    with 1(2,4) show ?thesis by (subst fill_index.simps) simp
  next
    case True
    show ?thesis
    proof (cases "i < length xs")
      case False
      with True 1(2) show ?thesis by (subst fill_index.simps) (simp add: store_def)
    next
      case inside: True
      with 1(2) have s: "store q i (real i) = Some (q\<lparr>seq_data := Some (xs[i := real i])\<rparr>)" by (simp add: store_def)
      have "[i..<seq_size q] = i # [Suc i..<seq_size q]" using True by (rule upt_conv_Cons)
      with True inside 1(1) [OF True s, of "xs[i := real i]"] show ?thesis
        by (subst fill_index.simps) (simp add: s take_Suc_conv_app_nth take_update_cancel)
    qed
  qed
qed

lemma fill_index_null: "seq_data q = None \<Longrightarrow> i < seq_size q \<Longrightarrow> fill_index i q = None"
  by (subst fill_index.simps) (simp add: store_null)

text \<open>Three stores into one sequence.\<close>

definition three_velocities :: "real sequence \<Rightarrow> real sequence option" where
  "three_velocities q = do { q1 \<leftarrow> store q 0 10; q2 \<leftarrow> store q1 1 11.1; store q2 2 22.2 }"

lemma three_velocities_result:
  assumes "sequence_ok q"
  shows "three_velocities (q\<lparr>seq_size := 3\<rparr>) =
    (if 3 \<le> seq_capacity q
     then Some (q\<lparr>seq_size := 3, seq_data := Some ([10, 11.1, 22.2] @ drop 3 (the (seq_data q)))\<rparr>) else None)"
proof (cases "seq_data q")
  case None
  with assms show ?thesis by (simp add: three_velocities_def store_def sequence_ok_def)
next
  case (Some xs)
  have cap: "seq_capacity q = length xs" using assms Some by (simp add: sequence_ok_def)
  have upd: "xs[0 := u, Suc 0 := v, 2 := w] = [u, v, w] @ drop 3 xs" if "3 \<le> length xs" for u v w
  proof -
    from that obtain a b c zs where "xs = a # b # c # zs"
      by (metis Suc_le_length_iff numeral_3_eq_3)
    then show ?thesis by (simp add: numeral_2_eq_2 eval_nat_numeral)
  qed
  consider "length xs = 0" | "length xs = 1" | "length xs = 2" | "3 \<le> length xs" by linarith
  then show ?thesis
    by cases (auto simp: three_velocities_def store_def cap Some upd)
qed

lemma velocities_set:
  "(set_velocity 0 10 s \<bind> set_velocity 1 11.1 \<bind> set_velocity 2 22.2) =
     (case (three_velocities (velocities (msg s)), three_velocities (velocities (msg_static s))) of
        (Some q, Some q') \<Rightarrow> Some (s\<lparr>msg := (msg s)\<lparr>velocities := q\<rparr>, msg_static := (msg_static s)\<lparr>velocities := q'\<rparr>\<rparr>)
      | _ \<Rightarrow> None)"
  unfolding set_velocity_def three_velocities_def
  by (auto split: option.splits Option.bind_splits)

lemma fill_four:
  assumes "sequence_ok q"
  shows "fill_index 0 (q\<lparr>seq_size := 4\<rparr>) =
    (if 4 \<le> seq_capacity q
     then Some (q\<lparr>seq_size := 4, seq_data := Some ([0, 1, 2, 3] @ drop 4 (the (seq_data q)))\<rparr>) else None)"
proof (cases "seq_data q")
  case None
  with assms show ?thesis by (simp add: fill_index_null sequence_ok_def)
next
  case (Some xs)
  have "seq_capacity q = length xs" using assms Some by (simp add: sequence_ok_def)
  moreover have "map real [0..<4] = [0, 1, 2, 3]" by (simp add: upt_rec)
  ultimately show ?thesis
    using fill_index_result [of "q\<lparr>seq_size := 4\<rparr>" xs 0] Some by simp
qed

definition filled :: "real list \<Rightarrow> real sequence \<Rightarrow> real sequence" where
  "filled vs q = q\<lparr>seq_size := length vs, seq_data := Some (vs @ drop (length vs) (the (seq_data q)))\<rparr>"

lemma filled_three: "filled [a, b, c] q = q\<lparr>seq_size := 3, seq_data := Some ([a, b, c] @ drop 3 (the (seq_data q)))\<rparr>"
  and filled_four: "filled [a, b, c, d] q = q\<lparr>seq_size := 4, seq_data := Some ([a, b, c, d] @ drop 4 (the (seq_data q)))\<rparr>"
  by (simp_all add: filled_def eval_nat_numeral)

lemma filled_ok: "sequence_ok q \<Longrightarrow> vs \<noteq> [] \<Longrightarrow> length vs \<le> seq_capacity q \<Longrightarrow> sequence_ok (filled vs q)"
  by (auto simp: filled_def sequence_ok_def split: option.splits)

lemma velocities_chain:
  "set_velocity 0 10 u \<bind> (\<lambda>u1. set_velocity 1 11.1 u1 \<bind> (\<lambda>u2. set_velocity 2 22.2 u2 \<bind> f)) =
   (set_velocity 0 10 u \<bind> set_velocity 1 11.1 \<bind> set_velocity 2 22.2) \<bind> f"
  by (simp add: Option.bind_assoc)

lemma types_fill_result:
  assumes "jog_ok (msg s)" "jog_ok (msg_static s)"
  shows "types_fill string_set s =
    (if 3 \<le> seq_capacity (velocities (msg s)) \<and> 3 \<le> seq_capacity (velocities (msg_static s)) \<and>
        4 \<le> seq_capacity (displacements (msg s))
     then Some (s\<lparr>
       msg_static := (set_frame_id string_set ''framenamestatic'' (msg_static s))\<lparr>
                velocities := filled [10, 11.1, 22.2] (velocities (msg_static s))\<rparr>,
       msg := (set_frame_id string_set ''framename'' (msg s))\<lparr>velocities := filled [10, 11.1, 22.2] (velocities (msg s)),
                displacements := filled [0, 1, 2, 3] (displacements (msg s))\<rparr>\<rparr>) else None)"
proof -
  have ok: "sequence_ok (velocities (msg s))" "sequence_ok (velocities (msg_static s))" "sequence_ok (displacements (msg s))"
    using assms by (simp_all add: jog_ok_def)
  show ?thesis
    unfolding types_fill_def Let_def velocities_chain velocities_set
    by (simp add: set_frame_id_def three_velocities_result ok fill_four filled_three filled_four)
qed

subsection \<open>An iteration of the transform publisher\<close>

definition with_pose :: "quaternion \<Rightarrow> timespec \<Rightarrow> geometry_msgs__msg__TransformStamped \<Rightarrow> geometry_msgs__msg__TransformStamped" where
  "with_pose q tv t = (case q of (q0, q1, q2, q3) \<Rightarrow> t\<lparr>
     transform := (transform t)\<lparr>rotation := \<lparr>quat_x = q1, quat_y = q2, quat_z = q3, quat_w = q0\<rparr>\<rparr>,
     header := (header t)\<lparr>stamp := \<lparr>sec = ucast (tv_sec tv), nanosec = tv_nsec tv\<rparr>\<rparr>\<rparr>)"

lemma with_pose_fields:
  "(quat_w (rotation (transform (with_pose q tv t))), quat_x (rotation (transform (with_pose q tv t))),
     quat_y (rotation (transform (with_pose q tv t))), quat_z (rotation (transform (with_pose q tv t)))) = q"
  "stamp (header (with_pose q tv t)) = \<lparr>sec = ucast (tv_sec tv), nanosec = tv_nsec tv\<rparr>"
  "frame_id (header (with_pose q tv t)) = frame_id (header t)" "child_frame_id (with_pose q tv t) = child_frame_id t"
  "translation (transform (with_pose q tv t)) = translation (transform t)"
  by (simp_all add: with_pose_def split: prod.splits)

lemma modify_at_Cons: "seq_data q = Some (v # vs) \<Longrightarrow> modify_at q 0 f = Some (q\<lparr>seq_data := Some (f v # vs)\<rparr>)"
  by (simp add: modify_at_def)

lemma tf_loop_result:
  assumes "rpy chip (imu_update chip (world s)) = (r, p, y)"
    "clock_gettime (micros (world s)) (clock s) = ((rc, tv), clock')"
  shows "tf_loop chip micros lib s =
    (case tf_message s of None \<Rightarrow> None
     | Some m \<Rightarrow> (case modify_at (transforms m) 0 (with_pose (euler_to_quat r p y) tv) of None \<Rightarrow> None
        | Some q \<Rightarrow> Some (perform lib (Publish (m\<lparr>transforms := q\<rparr>))
            (s\<lparr>clock := clock', world := imu_update chip (world s), tf_message := Some (m\<lparr>transforms := q\<rparr>)\<rparr>))))"
proof -
  obtain q0 q1 q2 q3 where q: "euler_to_quat r p y = (q0, q1, q2, q3)" by (cases "euler_to_quat r p y")
  have pose: "with_pose (q0, q1, q2, q3) tv = (\<lambda>t. t\<lparr>
     transform := (transform t)\<lparr>rotation := \<lparr>quat_x = q1, quat_y = q2, quat_z = q3, quat_w = q0\<rparr>\<rparr>,
     header := (header t)\<lparr>stamp := \<lparr>sec = ucast (tv_sec tv), nanosec = tv_nsec tv\<rparr>\<rparr>\<rparr>)"
    by (rule ext) (simp add: with_pose_def)
  show ?thesis
  proof (cases "tf_message s")
    case None
    then show ?thesis by (simp add: tf_loop_def assms q at_world_def)
  next
    case (Some m)
    then show ?thesis
      by (cases "modify_at (transforms m) 0 (with_pose (q0, q1, q2, q3) tv)")
        (simp_all add: tf_loop_def assms q at_world_def RCSOFTCHECK_eq invoke_perform pose Let_def)
  qed
qed

lemma perform_tf_fields [simp]:
  "tf_message (perform lib c s) = tf_message s" "clock (perform lib c s) = clock s"
  by (simp_all add: perform_def invoke_def split_def Let_def)

lemma clock_nsec_bound: "clock_gettime m c = ((rc, tv), c') \<Longrightarrow> unat (tv_nsec tv) < 1000000000"
proof -
  have "k * 1000 < 1000000000" if "k < 1000000" for k :: nat using that by simp
  then show "clock_gettime m c = ((rc, tv), c') \<Longrightarrow> unat (tv_nsec tv) < 1000000000"
    by (auto simp: clock_gettime_def Let_def timespec_of_us)
qed

subsection \<open>Properties\<close>


text \<open>C31. An iteration of the transform publisher stamps the first transform with the clock (a normalised time) and
  the rotation of the sensor, leaves the rest of the message alone and publishes it; without a message, or with
  one whose sequence has no memory, it writes through a null pointer.\<close>

theorem tf_loop_publishes_rotation:
  assumes "rpy chip (imu_update chip (world s)) = (r, p, y)"
    "clock_gettime (micros (world s)) (clock s) = ((rc, tv), clock')"
  shows "case Option.bind (tf_message s) (\<lambda>m. seq_data (transforms m)) of
      Some (t # ts) \<Rightarrow> (\<exists>u t' m'. tf_loop chip micros lib s = Some u \<and>
        tf_message s = Some m' \<and> tf_message u = Some (m'\<lparr>transforms := (transforms m')\<lparr>seq_data := Some (t' # ts)\<rparr>\<rparr>) \<and>
        map fst (calls u) = map fst (calls s) @ [Publish (the (tf_message u))] \<and> clock u = clock' \<and>
        (quat_w (rotation (transform t')), quat_x (rotation (transform t')), quat_y (rotation (transform t')),
          quat_z (rotation (transform t'))) = euler_to_quat r p y \<and>
        stamp (header t') = \<lparr>sec = ucast (tv_sec tv), nanosec = tv_nsec tv\<rparr> \<and> unat (tv_nsec tv) < 1000000000 \<and>
        frame_id (header t') = frame_id (header t) \<and> child_frame_id t' = child_frame_id t \<and>
        translation (transform t') = translation (transform t))
    | _ \<Rightarrow> tf_loop chip micros lib s = None"
proof (cases "Option.bind (tf_message s) (\<lambda>m. seq_data (transforms m))")
  case None
  then show ?thesis
    by (auto simp: tf_loop_result [where chip = chip and micros = micros and lib = lib, OF assms] modify_at_def split: option.splits)
next
  case (Some vs)
  then obtain m where m: "tf_message s = Some m" "seq_data (transforms m) = Some vs" by (auto simp: bind_eq_Some_conv)
  note result = tf_loop_result [where chip = chip and micros = micros and lib = lib, OF assms]
  show ?thesis
  proof (cases vs)
    case Nil
    with Some m show ?thesis by (simp add: result modify_at_def)
  next
    case (Cons t ts)
    then show ?thesis
      using m clock_nsec_bound [OF assms(2)]
      by (simp add: result modify_at_Cons) (intro exI [of _ "with_pose (euler_to_quat r p y) tv t"], simp add: with_pose_fields)
  qed
qed

definition level_chip :: "small_world imu_chip" where
  "level_chip = \<lparr>imu_begin = (\<lambda>w. w), acc_cali_start = (\<lambda>w. w), acc_cali_get_done = (\<lambda>w. (True, w)),
     imu_update = (\<lambda>w. w), rpy = (\<lambda>w. (0, 0, 0))\<rparr>"

definition zero_header :: std_msgs__msg__Header where
  "zero_header = \<lparr>stamp = \<lparr>sec = 0, nanosec = 0\<rparr>, frame_id = no_memory\<rparr>"

definition zero_transform :: geometry_msgs__msg__TransformStamped where
  "zero_transform = \<lparr>header = zero_header, child_frame_id = no_memory, transform =
     \<lparr>translation = \<lparr>vec_x = 0, vec_y = 0, vec_z = 0\<rparr>, rotation = \<lparr>quat_x = 0, quat_y = 0, quat_z = 0, quat_w = 0\<rparr>\<rparr>\<rparr>"

definition small_tf :: "small_world tf" where
  "small_tf = board.extend small_board (tf.fields clock_boot
     (Some \<lparr>transforms = \<lparr>seq_data = Some [zero_transform, zero_transform], seq_size = 2, seq_capacity = 2\<rparr>\<rparr>))"

lemmas small_tf_defs = small_tf_def board.extend_def tf.fields_def small_board_def

theorem tf_loop_publishes_rotation_witness:
  "\<exists>u t'. tf_loop level_chip (\<lambda>w. 1500000) (small_library None None) small_tf = Some u \<and>
     tf_message u = Some \<lparr>transforms = \<lparr>seq_data = Some [t', zero_transform], seq_size = 2, seq_capacity = 2\<rparr>\<rparr> \<and>
     quat_w (rotation (transform t')) = 1 \<and> stamp (header t') = \<lparr>sec = 1, nanosec = 500000000\<rparr>"
proof -
  have q: "euler_to_quat 0 0 0 = (1, 0, 0, 0)" by (simp add: euler_to_quat_def)
  have c: "clock_gettime 1500000 clock_boot =
      ((0, \<lparr>tv_sec = 1, tv_nsec = 500000000\<rparr>), \<lparr>rollover = 0, last_measure = 1500000\<rparr>)"
    by (simp add: clock_gettime_def clock_boot_def real_us_def micro_rollover_useconds_def)
  show ?thesis
    using tf_loop_publishes_rotation [of level_chip small_tf 0 0 0 "\<lambda>w. 1500000" 0 "\<lparr>tv_sec = 1, tv_nsec = 500000000\<rparr>"
        "\<lparr>rollover = 0, last_measure = 1500000\<rparr>" "small_library None None"] c q
    by (auto simp: level_chip_def small_tf_defs)
qed


definition zero_jog :: "nat \<Rightarrow> control_msgs__msg__JointJog" where
  "zero_jog n = \<lparr>jog_header = zero_header, joint_names = no_memory, displacements = with_room n 0,
     velocities = with_room n 0, duration = 0\<rparr>"

definition small_types :: "control_msgs__msg__JointJog \<Rightarrow> small_world types" where
  "small_types m = board.extend small_board (types.fields m m False)"

lemmas small_types_defs = small_types_def board.extend_def types.fields_def small_board_def

lemma with_room_ok [simp]: "sequence_ok (with_room n v)" "sequence_ok no_memory"
  by (simp_all add: with_room_def no_memory_def sequence_ok_def)


text \<open>The result of creating the memory is computed and never read: when the creation fails and leaves the
  velocities without memory, the set-up goes on and writes through the null pointer.\<close>

theorem failed_creation_is_not_noticed:
  assumes "types_checks ard lib n s = Finished u"
    "create_message_memory mem types_conf (msg u) (world u) = (False, m, w)" "seq_data (velocities m) = None"
  shows "types_setup ard mem string_set lib n s = None \<and> \<not> success (types_create_memory mem u)"
proof -
  have "\<not> success (types_create_memory mem u)" "msg (types_create_memory mem u) = m"
    using assms(2) by (simp_all add: types_create_memory_def Let_def split_def)
  moreover have "three_velocities (q\<lparr>seq_size := 3\<rparr>) = None" if "seq_data q = None" for q
    using that by (simp add: three_velocities_def store_null)
  then have "types_fill string_set v = None" if "msg v = m" for v :: "'a types"
    unfolding types_fill_def Let_def velocities_chain velocities_set
    using that assms(3) by (simp add: set_frame_id_def split: option.splits)
  ultimately show ?thesis using assms(1) by (simp add: types_setup_def)
qed

definition no_memory_lib :: "small_world memory_lib" where
  "no_memory_lib = \<lparr>create_message_memory = (\<lambda>conf m w. (False, m, w)),
     create_static_message_memory = (\<lambda>conf n m w. (False, m, w))\<rparr>"

theorem failed_creation_is_not_noticed_witness:
  "types_setup small_arduino no_memory_lib (\<lambda>q n. q) (small_library None None) 0
     (small_types ((zero_jog 0)\<lparr>velocities := no_memory\<rparr>)) = None"
proof -
  let ?s = "small_types ((zero_jog 0)\<lparr>velocities := no_memory\<rparr>)"
  obtain u where "types_checks small_arduino (small_library None None) 0 ?s = Finished u" "velocities (msg u) = no_memory"
    by (simp add: types_checks_def RCCHECK_def invoke_def perform_def at_world_def small_defs small_types_defs
        ret_codes Let_def)
  with failed_creation_is_not_noticed [of small_arduino "small_library None None" 0 ?s u no_memory_lib "msg u" "world u"]
  show ?thesis by (simp add: no_memory_lib_def no_memory_def)
qed

end
