(* ===== verification/Middleware_Config.thy ===== *)
theory Middleware_Config
  imports Simple_Sketches Time_Sync Sound_Meter Imu_Sketch Message_Sketches
begin

text \<open>
  The sizes the middleware is built with, \<^verbatim>\<open>rmw_microxrcedds_c/config.h\<close> and \<^verbatim>\<open>uxr/client/config.h\<close>, and whether
  the sketches fit in them. The middleware allocates no memory: it has a static pool for each kind of entity and
  static buffers for names and messages.
\<close>

subsection \<open>The sizes\<close>

text \<open>The profiles of the client and the transport of the middleware, as far as sizes depend on them.\<close>

record client_profiles =
  UCLIENT_PROFILE_UDP :: bool
  UCLIENT_PROFILE_TCP :: bool
  UCLIENT_PROFILE_SERIAL :: bool
  UCLIENT_PROFILE_CUSTOM_TRANSPORT :: bool

definition client_config :: client_profiles where
  "client_config = \<lparr>UCLIENT_PROFILE_UDP = False, UCLIENT_PROFILE_TCP = False, UCLIENT_PROFILE_SERIAL = False,
     UCLIENT_PROFILE_CUSTOM_TRANSPORT = True\<rparr>"

text \<open>\<open>None\<close> is a name that is not defined.\<close>

definition UXR_CONFIG_UDP_TRANSPORT_MTU :: "client_profiles \<Rightarrow> nat option" where
  "UXR_CONFIG_UDP_TRANSPORT_MTU b = (if UCLIENT_PROFILE_UDP b then Some 512 else None)"

definition UXR_CONFIG_TCP_TRANSPORT_MTU :: "client_profiles \<Rightarrow> nat option" where
  "UXR_CONFIG_TCP_TRANSPORT_MTU b = (if UCLIENT_PROFILE_TCP b then Some 512 else None)"

definition UXR_CONFIG_SERIAL_TRANSPORT_MTU :: "client_profiles \<Rightarrow> nat option" where
  "UXR_CONFIG_SERIAL_TRANSPORT_MTU b = (if UCLIENT_PROFILE_SERIAL b then Some 512 else None)"

definition UXR_CONFIG_CUSTOM_TRANSPORT_MTU :: "client_profiles \<Rightarrow> nat option" where
  "UXR_CONFIG_CUSTOM_TRANSPORT_MTU b = (if UCLIENT_PROFILE_CUSTOM_TRANSPORT b then Some 512 else None)"

record rmw_transports =
  RMW_UXRCE_TRANSPORT_UDP :: bool
  RMW_UXRCE_TRANSPORT_TCP :: bool
  RMW_UXRCE_TRANSPORT_SERIAL :: bool
  RMW_UXRCE_TRANSPORT_CUSTOM :: bool

definition rmw_config :: rmw_transports where
  "rmw_config = \<lparr>RMW_UXRCE_TRANSPORT_UDP = False, RMW_UXRCE_TRANSPORT_TCP = False,
     RMW_UXRCE_TRANSPORT_SERIAL = False, RMW_UXRCE_TRANSPORT_CUSTOM = True\<rparr>"

definition RMW_UXRCE_MAX_TRANSPORT_MTU :: "rmw_transports \<Rightarrow> client_profiles \<Rightarrow> nat option" where
  "RMW_UXRCE_MAX_TRANSPORT_MTU r b =
     (if RMW_UXRCE_TRANSPORT_UDP r then UXR_CONFIG_UDP_TRANSPORT_MTU b
      else if RMW_UXRCE_TRANSPORT_TCP r then UXR_CONFIG_TCP_TRANSPORT_MTU b
      else if RMW_UXRCE_TRANSPORT_SERIAL r then UXR_CONFIG_SERIAL_TRANSPORT_MTU b
      else if RMW_UXRCE_TRANSPORT_CUSTOM r then UXR_CONFIG_CUSTOM_TRANSPORT_MTU b
      else None)"

definition RMW_UXRCE_STREAM_HISTORY_INPUT :: nat where "RMW_UXRCE_STREAM_HISTORY_INPUT = 4"
definition RMW_UXRCE_STREAM_HISTORY_OUTPUT :: nat where "RMW_UXRCE_STREAM_HISTORY_OUTPUT = 4"

definition RMW_UXRCE_MAX_INPUT_BUFFER_SIZE :: "rmw_transports \<Rightarrow> client_profiles \<Rightarrow> nat option" where
  "RMW_UXRCE_MAX_INPUT_BUFFER_SIZE r b =
     map_option (\<lambda>mtu. mtu * RMW_UXRCE_STREAM_HISTORY_INPUT) (RMW_UXRCE_MAX_TRANSPORT_MTU r b)"

definition RMW_UXRCE_MAX_OUTPUT_BUFFER_SIZE :: "rmw_transports \<Rightarrow> client_profiles \<Rightarrow> nat option" where
  "RMW_UXRCE_MAX_OUTPUT_BUFFER_SIZE r b =
     map_option (\<lambda>mtu. mtu * RMW_UXRCE_STREAM_HISTORY_OUTPUT) (RMW_UXRCE_MAX_TRANSPORT_MTU r b)"

definition RMW_UXRCE_MAX_SESSIONS :: int where "RMW_UXRCE_MAX_SESSIONS = 1"
definition RMW_UXRCE_MAX_NODES :: int where "RMW_UXRCE_MAX_NODES = 1"
definition RMW_UXRCE_MAX_PUBLISHERS :: int where "RMW_UXRCE_MAX_PUBLISHERS = 10"
definition RMW_UXRCE_MAX_SUBSCRIPTIONS :: int where "RMW_UXRCE_MAX_SUBSCRIPTIONS = 5"
definition RMW_UXRCE_MAX_SERVICES :: int where "RMW_UXRCE_MAX_SERVICES = 1"
definition RMW_UXRCE_MAX_TOPICS :: int where "RMW_UXRCE_MAX_TOPICS = - 1"

definition RMW_UXRCE_MAX_TOPICS_INTERNAL :: int where
  "RMW_UXRCE_MAX_TOPICS_INTERNAL =
     (if RMW_UXRCE_MAX_TOPICS = - 1 then RMW_UXRCE_MAX_PUBLISHERS + RMW_UXRCE_MAX_SUBSCRIPTIONS
      else RMW_UXRCE_MAX_TOPICS)"

definition RMW_UXRCE_NODE_NAME_MAX_LENGTH :: nat where "RMW_UXRCE_NODE_NAME_MAX_LENGTH = 60"
definition RMW_UXRCE_TOPIC_NAME_MAX_LENGTH :: nat where "RMW_UXRCE_TOPIC_NAME_MAX_LENGTH = 60"

lemmas pool_sizes =
  RMW_UXRCE_MAX_SESSIONS_def RMW_UXRCE_MAX_NODES_def RMW_UXRCE_MAX_PUBLISHERS_def RMW_UXRCE_MAX_SUBSCRIPTIONS_def
  RMW_UXRCE_MAX_SERVICES_def RMW_UXRCE_MAX_TOPICS_def RMW_UXRCE_MAX_TOPICS_INTERNAL_def

lemmas name_sizes = RMW_UXRCE_NODE_NAME_MAX_LENGTH_def RMW_UXRCE_TOPIC_NAME_MAX_LENGTH_def

subsection \<open>What a program takes from the pools\<close>

datatype pool = Sessions | Nodes | Publishers | Subscriptions | Services | Topics

fun pool_size :: "pool \<Rightarrow> int" where
  "pool_size Sessions = RMW_UXRCE_MAX_SESSIONS"
| "pool_size Nodes = RMW_UXRCE_MAX_NODES"
| "pool_size Publishers = RMW_UXRCE_MAX_PUBLISHERS"
| "pool_size Subscriptions = RMW_UXRCE_MAX_SUBSCRIPTIONS"
| "pool_size Services = RMW_UXRCE_MAX_SERVICES"
| "pool_size Topics = RMW_UXRCE_MAX_TOPICS_INTERNAL"

fun claims :: "'m call \<Rightarrow> pool list" where
  "claims Support_init = [Sessions]"
| "claims (Node_init_default _ _) = [Nodes]"
| "claims (Publisher_init_default _ _) = [Publishers, Topics]"
| "claims (Publisher_init_best_effort _ _) = [Publishers, Topics]"
| "claims (Subscription_init_default _ _) = [Subscriptions, Topics]"
| "claims (Service_init_default _ _) = [Services]"
| "claims _ = []"

text \<open>A name fits with its terminating zero.\<close>

fun names_fit :: "'m call \<Rightarrow> bool" where
  "names_fit (Node_init_default name ns) \<longleftrightarrow>
     length name < RMW_UXRCE_NODE_NAME_MAX_LENGTH \<and> length ns < RMW_UXRCE_NODE_NAME_MAX_LENGTH"
| "names_fit (Publisher_init_default type topic) \<longleftrightarrow> length topic < RMW_UXRCE_TOPIC_NAME_MAX_LENGTH"
| "names_fit (Publisher_init_best_effort type topic) \<longleftrightarrow> length topic < RMW_UXRCE_TOPIC_NAME_MAX_LENGTH"
| "names_fit (Subscription_init_default type topic) \<longleftrightarrow> length topic < RMW_UXRCE_TOPIC_NAME_MAX_LENGTH"
| "names_fit (Service_init_default type topic) \<longleftrightarrow> length topic < RMW_UXRCE_TOPIC_NAME_MAX_LENGTH"
| "names_fit _ \<longleftrightarrow> True"

definition within_pools :: "'m call list \<Rightarrow> bool" where
  "within_pools cs \<longleftrightarrow>
     list_all (\<lambda>p. int (count_list (concat (map claims cs)) p) \<le> pool_size p)
       [Sessions, Nodes, Publishers, Subscriptions, Services, Topics] \<and>
     list_all names_fit cs"

definition claimless :: "'m call list \<Rightarrow> bool" where
  "claimless cs \<longleftrightarrow> list_all (\<lambda>c. claims c = []) cs"

lemma claimless_simps [simp]:
  "claimless []" "claimless (c # cs) \<longleftrightarrow> claims c = [] \<and> claimless cs"
  "claimless (cs @ ds) \<longleftrightarrow> claimless cs \<and> claimless ds"
  by (simp_all add: claimless_def)

lemma claimless_claims: "claimless cs \<Longrightarrow> concat (map claims cs) = []"
  by (induction cs) simp_all

lemma claimless_fit: "claimless cs \<Longrightarrow> list_all names_fit cs"
proof (induction cs)
  case (Cons c cs)
  then show ?case by (cases c) simp_all
qed simp

lemma within_pools_take: "within_pools cs \<Longrightarrow> within_pools (take k cs)"
proof -
  have "count_list (concat (map claims (take k cs))) p \<le> count_list (concat (map claims cs)) p" for p
    by (metis append_take_drop_id concat_append count_list_append le_add1 map_append)
  then show "within_pools cs \<Longrightarrow> within_pools (take k cs)"
    unfolding within_pools_def list_all_iff by (meson in_set_takeD of_nat_mono order_trans)
qed

lemma within_pools_claimless:
  "claimless cs \<Longrightarrow> within_pools (cs @ ds) = within_pools ds"
  "claimless ds \<Longrightarrow> within_pools (cs @ ds) = within_pools cs"
  by (simp_all add: within_pools_def claimless_claims claimless_fit)

subsection \<open>The life of a sketch\<close>

text \<open>A sketch sets up and then takes turns: iterations of its loop, or steps and interrupts. A turn may end in an
  endless loop too.\<close>

fun state_of :: "'s run \<Rightarrow> 's" where
  "state_of (Finished s) = s"
| "state_of (Running s) = s"

fun life :: "('s \<Rightarrow> 's run) list \<Rightarrow> 's run \<Rightarrow> 's run" where
  "life [] r = r"
| "life (turn # ts) r = (case r of Finished s \<Rightarrow> life ts (turn s) | Running s \<Rightarrow> Running s)"

definition calls_made :: "('w, 'm, 'a) board_scheme run \<Rightarrow> 'm call list" where
  "calls_made r = map fst (calls (state_of r))"

text \<open>A statement that takes nothing from the pools.\<close>

definition frugal :: "(('w, 'm, 'a) board_scheme \<Rightarrow> ('w, 'm, 'a) board_scheme run) \<Rightarrow> bool" where
  "frugal f \<longleftrightarrow> (\<forall>s. \<exists>log. calls (state_of (f s)) = calls s @ log \<and> claimless (map fst log))"

lemma frugalI: "(\<And>s. \<exists>log. calls (state_of (f s)) = calls s @ log \<and> claimless (map fst log)) \<Longrightarrow> frugal f"
  by (simp add: frugal_def)

lemma frugal_same: "(\<And>s. calls (state_of (f s)) = calls s) \<Longrightarrow> frugal f"
  by (simp add: frugal_def)

text \<open>The interface of a sketch to the pools: a set-up within them, and turns that take nothing.\<close>

locale pool_user =
  fixes start_up :: "('w, 'm, 'a) board_scheme \<Rightarrow> ('w, 'm, 'a) board_scheme run"
    and turns :: "(('w, 'm, 'a) board_scheme \<Rightarrow> ('w, 'm, 'a) board_scheme run) set"
  assumes start_within: "calls s = [] \<Longrightarrow> within_pools (calls_made (start_up s))"
    and turn_frugal: "turn \<in> turns \<Longrightarrow> frugal turn"
begin

lemma life_calls:
  "set ts \<subseteq> turns \<Longrightarrow> \<exists>log. calls (state_of (life ts r)) = calls (state_of r) @ log \<and> claimless (map fst log)"
proof (induction ts arbitrary: r)
  case (Cons turn ts)
  show ?case
  proof (cases r)
    case (Finished s)
    obtain log where log: "calls (state_of (turn s)) = calls s @ log" "claimless (map fst log)"
      using turn_frugal [of turn] Cons.prems by (auto simp: frugal_def)
    from Cons.IH [of "turn s"] Cons.prems obtain log' where
      "calls (state_of (life ts (turn s))) = calls (state_of (turn s)) @ log'" "claimless (map fst log')" by auto
    with log Finished show ?thesis by simp
  qed simp
qed simp

lemma life_within:
  assumes "set ts \<subseteq> turns" "calls s = []"
  shows "within_pools (calls_made (life ts (start_up s)))"
  using life_calls [OF assms(1), of "start_up s"] start_within [OF assms(2)]
  by (auto simp: calls_made_def within_pools_claimless)

end

lemma blinking_calls: "calls ((blink ard pin ^^ n) s) = calls s"
  by (induction n) (simp_all add: blink_def)

lemma error_loop_frugal: "frugal (error_loop ard pin n)"
  by (rule frugal_same) (simp add: error_loop_def forever_running blinking_calls)

lemma forever_idle: "forever (\<lambda>s. s) n s = Running s"
  by (induction n) simp_all

lemma idle_frugal: "frugal (forever (\<lambda>s. s) n)"
  by (rule frugal_same) (simp add: forever_idle)

text \<open>A chain of checked calls within the pools.\<close>

lemma checked_calls_made:
  assumes "frugal on_error" "frugal rest"
  obtains k ds where "calls_made (checked on_error lib cs rest s) = map fst (calls s) @ take k cs @ ds" "claimless ds"
proof -
  obtain log w ok where r: "run_plan lib cs (world s) = (log, w, ok)" by (cases "run_plan lib cs (world s)")
  have log: "map fst log = take (length log) cs"
    using run_plan_log [where lib = lib and cs = cs and w = "world s"] by (simp add: r)
  let ?s = "s\<lparr>world := w, calls := calls s @ log\<rparr>"
  have "frugal (if ok then rest else on_error)" using assms by simp
  then obtain log' where "calls (state_of ((if ok then rest else on_error) ?s)) = calls ?s @ log'"
    "claimless (map fst log')" unfolding frugal_def by blast
  then show thesis
    using that [of "length log" "map fst log'"] by (simp add: calls_made_def checked_run_plan r log)
qed

lemma checked_within:
  assumes "frugal on_error" "frugal rest" "within_pools cs" "claimless (map fst (calls s))"
  shows "within_pools (calls_made (checked on_error lib cs rest s))"
  by (rule checked_calls_made [OF assms(1,2), of lib cs s])
    (simp add: within_pools_claimless within_pools_take [OF assms(3)] assms(4))

context checked_setup begin

lemma setup_within:
  assumes "frugal (forever idle n)" "\<And>s. calls (finish s) = calls s" "within_pools plan"
    and "claimless (map fst (calls (prepare s)))"
  shows "within_pools (calls_made (start_up n s))"
  unfolding start_up by (rule checked_within [OF assms(1) frugal_same assms(3,4)]) (simp add: assms(2))

end

subsection \<open>The sketches as users of the pools\<close>

lemma rcsoftcheck_calls: "calls (RCSOFTCHECK (invoke lib c) s) = calls s @ [(c, fst (call lib c (world s)))]"
  by (simp add: RCSOFTCHECK_eq invoke_simps)

lemma spin_calls:
  "calls (RCSOFTCHECK (spin_some lib ns callbacks) s) = calls (callbacks (perform lib (Executor_spin_some ns) s))"
  by (simp add: RCSOFTCHECK_eq spin_some_def invoke_perform)

lemmas within_pools_simps = within_pools_def pool_sizes name_sizes

lemma blink_frugal: "frugal (forever (blink ard pin) n)"
  using error_loop_frugal by (simp add: error_loop_def)

lemma led_prepare_calls: "calls s = [] \<Longrightarrow> claimless (map fst (calls (led_prepare ard pin lib transports s)))"
  by (simp add: led_prepare_def)

interpretation publisher_pools: pool_user "publisher_setup ard lib n" "{Finished \<circ> publisher_loop ard lib}" for ard lib n
proof
  show "within_pools (calls_made (publisher_setup ard lib n s))" if "calls s = []" for s
    by (rule publisher.setup_within [OF blink_frugal _ _ led_prepare_calls [OF that]])
      (simp_all add: publisher_plan_def within_pools_simps)
  show "frugal turn" if "turn \<in> {Finished \<circ> publisher_loop ard lib}" for turn
    using that by (auto simp: frugal_def publisher_loop_def spin_calls publisher_timer_callback_def rcsoftcheck_calls Let_def)
qed

interpretation wifi_pools: pool_user "publisher_wifi_init ard led lib n" "{Finished \<circ> publisher_wifi_loop lib}" for ard led lib n
proof
  show "within_pools (calls_made (publisher_wifi_init ard led lib n s))" if "calls s = []" for s
    by (rule wifi.setup_within [OF blink_frugal _ _ led_prepare_calls [OF that]])
      (simp_all add: best_effort_plan_def within_pools_simps)
  show "frugal turn" if "turn \<in> {Finished \<circ> publisher_wifi_loop lib}" for turn
    using that by (auto simp: frugal_def publisher_wifi_loop_def rcsoftcheck_calls Let_def)
qed

interpretation wifi_at_pools: pool_user "publisher_wifi_at_init ard lib n" "{Finished \<circ> publisher_wifi_at_loop lib}" for ard lib n
proof
  show "within_pools (calls_made (publisher_wifi_at_init ard lib n s))" if "calls s = []" for s
    by (rule wifi_at.setup_within [OF blink_frugal _ _ led_prepare_calls [OF that]])
      (simp_all add: best_effort_plan_def within_pools_simps)
  show "frugal turn" if "turn \<in> {Finished \<circ> publisher_wifi_at_loop lib}" for turn
    using that by (auto simp: frugal_def publisher_wifi_at_loop_def rcsoftcheck_calls Let_def)
qed

interpretation ethernet_pools: pool_user "publisher_ethernet_init ard lib n" "{Finished \<circ> publisher_ethernet_loop ard lib}" for ard lib n
proof
  show "within_pools (calls_made (publisher_ethernet_init ard lib n s))" if "calls s = []" for s
    by (rule ethernet.setup_within [OF blink_frugal _ _ led_prepare_calls [OF that]])
      (simp_all add: best_effort_plan_def within_pools_simps)
  show "frugal turn" if "turn \<in> {Finished \<circ> publisher_ethernet_loop ard lib}" for turn
    using that by (auto simp: frugal_def publisher_ethernet_loop_def rcsoftcheck_calls Let_def)
qed

lemma checked_spin_frugal:
  assumes "\<And>s. calls (callbacks s) = calls s" "frugal on_error"
  shows "frugal (\<lambda>s. RCCHECK on_error (spin_some lib ns callbacks) Finished (at_world f s))"
proof (rule frugalI)
  fix s :: "('a, 'b, 'c) board_scheme"
  let ?t = "callbacks (perform lib (Executor_spin_some ns) (at_world f s))"
  let ?rc = "fst (call lib (Executor_spin_some ns) (f (world s)))"
  have t: "calls ?t = calls s @ [(Executor_spin_some ns, ?rc)]" by (simp add: assms(1))
  obtain log where "calls (state_of (on_error ?t)) = calls ?t @ log" "claimless (map fst log)"
    using assms(2) unfolding frugal_def by blast
  with t show "\<exists>log. calls (state_of (RCCHECK on_error (spin_some lib ns callbacks) Finished (at_world f s))) =
      calls s @ log \<and> claimless (map fst log)"
    by (simp add: RCCHECK_def spin_some_def invoke_perform Let_def)
qed

lemma deliver_calls: "(\<And>m s. calls (callback m s) = calls s) \<Longrightarrow> calls (deliver lib callback s) = calls s"
  by (simp add: deliver_def split: option.splits)

interpretation subscriber_pools: pool_user "subscriber_setup ard lib n" "{subscriber_loop ard lib j |j. True}" for ard lib n
proof
  show "within_pools (calls_made (subscriber_setup ard lib n s))" if "calls s = []" for s
    by (rule subscriber.setup_within [OF blink_frugal _ _ led_prepare_calls [OF that]])
      (simp_all add: subscriber_plan_def within_pools_simps)
  have "frugal (subscriber_loop ard lib j)" for j
    unfolding subscriber_loop_def [abs_def]
    by (rule checked_spin_frugal [OF deliver_calls error_loop_frugal]) (simp add: subscription_callback_def)
  then show "frugal turn" if "turn \<in> {subscriber_loop ard lib j |j. True}" for turn using that by auto
qed

interpretation twist_pools: pool_user "subscriber_twist_setup ard lib n" "{subscriber_twist_loop ard lib j |j. True}" for ard lib n
proof
  show "within_pools (calls_made (subscriber_twist_setup ard lib n s))" if "calls s = []" for s
    by (rule twist.setup_within [OF blink_frugal _ _ led_prepare_calls [OF that]])
      (simp_all add: subscriber_plan_def within_pools_simps)
  have "frugal (subscriber_twist_loop ard lib j)" for j
    unfolding subscriber_twist_loop_def [abs_def]
    by (rule checked_spin_frugal [OF deliver_calls error_loop_frugal]) (simp add: twist_subscription_callback_def)
  then show "frugal turn" if "turn \<in> {subscriber_twist_loop ard lib j |j. True}" for turn using that by auto
qed

interpretation service_pools: pool_user "service_setup ard lib n" "{Finished \<circ> service_loop ard lib}" for ard lib n
proof
  show "within_pools (calls_made (service_setup ard lib n s))" if "calls s = []" for s
    by (rule service.setup_within [OF idle_frugal]) (simp_all add: that service_plan_def within_pools_simps)
  have "calls (deliver lib service_callback s) = calls s" for s
    by (rule deliver_calls) (simp add: service_callback_def)
  then show "frugal turn" if "turn \<in> {Finished \<circ> service_loop ard lib}" for turn
    using that by (auto simp: frugal_def service_loop_def spin_calls)
qed

lemma checked_call_frugal:
  assumes "frugal on_error" "claims c = []" "frugal rest"
  shows "frugal (RCCHECK on_error (invoke lib c) rest)"
proof (rule frugalI)
  fix s :: "('a, 'b, 'c) board_scheme"
  let ?t = "perform lib c s" and ?f = "if fst (call lib c (world s)) \<noteq> RCL_RET_OK then on_error else rest"
  have "frugal ?f" using assms(1,3) by simp
  then obtain log where "calls (state_of (?f ?t)) = calls ?t @ log" "claimless (map fst log)"
    unfolding frugal_def by blast
  with assms(2) show "\<exists>log. calls (state_of (RCCHECK on_error (invoke lib c) rest s)) = calls s @ log \<and> claimless (map fst log)"
    by (simp add: RCCHECK_def invoke_perform split: if_splits)
qed

interpretation time_sync_pools: pool_user "time_sync_setup ard tlib lib n" "{time_sync_loop ard tlib lib j |j. True}"
  for ard tlib lib n
proof
  show "within_pools (calls_made (time_sync_setup ard tlib lib n s))" if "calls s = []" for s
    by (rule time_sync.setup_within [OF blink_frugal]) (simp_all add: that within_pools_simps)
  have "frugal (\<lambda>s. Finished (time_sync_body ard tlib s))"
    by (rule frugal_same) (simp add: time_sync_body_def print_def println_def sprintf_time_str_def Let_def)
  then have "frugal (time_sync_loop ard tlib lib j)" for j
    unfolding time_sync_loop_def [abs_def] by (intro checked_call_frugal error_loop_frugal) simp_all
  then show "frugal turn" if "turn \<in> {time_sync_loop ard tlib lib j |j. True}" for turn using that by auto
qed

text \<open>The interrupt of the sound meter, which stops the sketch when it writes past its buffer.\<close>

definition sound_interrupt :: "'w microphone \<Rightarrow> 'w sound \<Rightarrow> 'w sound run" where
  "sound_interrupt mic s = (case onPDMdata mic s of Some t \<Rightarrow> Finished t | None \<Rightarrow> Running s)"

lemma sound_setup_plan:
  "sound_setup ard mic lib n s =
    checked (error_loop ard LED_PIN n) lib [Support_init, Node_init_default ''soundmeter_nodo'' [],
      Publisher_init_default ''std_msgs_msg_Float32'' ''decibels'']
      (\<lambda>s6. let s7 = at_world (PDM_onReceive mic) (s6\<lparr>level_msg := Level 0\<rparr>);
         (started, w) = PDM_begin mic (world s7); s8 = s7\<lparr>world := w\<rparr>
       in if \<not> started then forever (\<lambda>s. s) n s8 else Finished s8)
      (perform lib Get_default_allocator (at_world (\<lambda>w. delay_ms ard 100 (digitalWrite ard LED_PIN True
        (pinMode_output ard LED_PIN (set_microros_transports (net ard) w)))) s))"
  by (simp add: sound_setup_def checked_def at_world_at_world Let_def)

lemma sound_rest_frugal:
  "frugal (\<lambda>s6. let s7 = at_world (PDM_onReceive mic) (s6\<lparr>level_msg := Level 0\<rparr>);
     (started, w) = PDM_begin mic (world s7); s8 = s7\<lparr>world := w\<rparr>
   in if \<not> started then forever (\<lambda>s. s) n s8 else Finished s8)"
  by (rule frugal_same) (simp add: Let_def split_def forever_idle)

interpretation sound_pools: pool_user "sound_setup ard mic lib n" "{Finished \<circ> sound_step ard lib, sound_interrupt mic}"
  for ard mic lib n
proof
  show "within_pools (calls_made (sound_setup ard mic lib n s))" if "calls s = []" for s
    unfolding sound_setup_plan
    by (rule checked_within [OF error_loop_frugal sound_rest_frugal]) (simp_all add: that within_pools_simps)
  have "frugal (Finished \<circ> sound_step ard lib)"
    by (rule frugalI) (auto simp: sound_step.simps rcsoftcheck_calls Let_def split: sound_pc.splits)
  moreover have "frugal (sound_interrupt mic)"
    by (rule frugal_same) (auto simp: sound_interrupt_def onPDMdata_def Let_def split_def)
  ultimately show "frugal turn" if "turn \<in> {Finished \<circ> sound_step ard lib, sound_interrupt mic}" for turn
    using that by auto
qed

interpretation imu_pools: pool_user "imu_init ard dev lines create_memory lib n"
  "{Finished \<circ> imu_step dev lib string_set, Finished \<circ> INT1Event_cb}" for ard dev lines create_memory lib n string_set
proof
  show "within_pools (calls_made (imu_init ard dev lines create_memory lib n s))" if "calls s = []" for s
    by (rule imu.setup_within [OF blink_frugal]) (simp_all add: that within_pools_simps)
  have "frugal (Finished \<circ> imu_step dev lib string_set)"
    by (rule frugalI) (auto simp: imu_step.simps handle_mlc_def handle_steps_def rcsoftcheck_calls Let_def split_def
      split: imu_pc.splits)
  moreover have "frugal (Finished \<circ> INT1Event_cb)"
    by (rule frugal_same) (simp add: INT1Event_cb_def)
  ultimately show "frugal turn" if "turn \<in> {Finished \<circ> imu_step dev lib string_set, Finished \<circ> INT1Event_cb}" for turn
    using that by auto
qed

text \<open>The set-up of the transform publisher up to the creation of its message, and the types handling sketch.\<close>

interpretation tf_pools: pool_user "tf_checks ard lib n" "{}" for ard lib n
proof
  show "within_pools (calls_made (tf_checks ard lib n s))" if "calls s = []" for s
    by (rule tf.setup_within [OF blink_frugal]) (simp_all add: that within_pools_simps)
qed simp

interpretation types_pools: pool_user "types_checks ard lib n" "{Finished \<circ> types_loop ard lib}" for ard lib n
proof
  show "within_pools (calls_made (types_checks ard lib n s))" if "calls s = []" for s
    by (rule types.setup_within [OF blink_frugal]) (simp_all add: that within_pools_simps)
  show "frugal turn" if "turn \<in> {Finished \<circ> types_loop ard lib}" for turn
    using that by (auto simp: frugal_def types_loop_def spin_calls types_timer_callback_def rcsoftcheck_calls Let_def)
qed

subsection \<open>Properties\<close>


end
