(* ===== verification/Rcutils_Atomics.thy ===== *)
theory Rcutils_Atomics
  imports Prelude
begin

text \<open>
  The atomic operations of rcutils: the C11 compatibility header for gcc and clang
  (\<^verbatim>\<open>rcutils/stdatomic_helper/gcc/stdatomic.h\<close>), the Windows replacement
  (\<^verbatim>\<open>rcutils/stdatomic_helper/win32/stdatomic.h\<close>) and the portable layer over both
  (\<^verbatim>\<open>rcutils/stdatomic_helper.h\<close>). An atomic object is its value; an operation takes the
  object and returns its result with the new object, as one indivisible step. The compiler
  intrinsics the headers expand to are given by their documented sequential meaning; the
  memory order only constrains other objects and is carried along.
\<close>

subsection \<open>Objects and compiler intrinsics\<close>

datatype memory_order =
    memory_order_relaxed
  | memory_order_consume
  | memory_order_acquire
  | memory_order_release
  | memory_order_acq_rel
  | memory_order_seq_cst

datatype rmw_op = Op_Add | Op_And | Op_Or | Op_Sub | Op_Xor

fun rmw_apply :: "rmw_op \<Rightarrow> 'a :: len word \<Rightarrow> 'a word \<Rightarrow> 'a word" where
  "rmw_apply Op_Add x y = x + y"
| "rmw_apply Op_And x y = x AND y"
| "rmw_apply Op_Or x y = x OR y"
| "rmw_apply Op_Sub x y = x - y"
| "rmw_apply Op_Xor x y = x XOR y"

text \<open>Read-modify-write, exchange, load, store and compare-and-exchange of C11. The weak
  form may fail without reason: \<open>spurious\<close> says whether this call does.\<close>

definition intrinsic_fetch :: "rmw_op \<Rightarrow> 'a :: len word \<Rightarrow> 'a word \<Rightarrow> memory_order \<Rightarrow> 'a word \<times> 'a word" where
  "intrinsic_fetch f obj operand order = (obj, rmw_apply f obj operand)"

definition intrinsic_exchange :: "'a :: len word \<Rightarrow> 'a word \<Rightarrow> memory_order \<Rightarrow> 'a word \<times> 'a word" where
  "intrinsic_exchange obj desired order = (obj, desired)"

definition intrinsic_load :: "'a :: len word \<Rightarrow> memory_order \<Rightarrow> 'a word \<times> 'a word" where
  "intrinsic_load obj order = (obj, obj)"

definition intrinsic_store :: "'a :: len word \<Rightarrow> 'a word \<Rightarrow> memory_order \<Rightarrow> 'a word" where
  "intrinsic_store obj desired order = desired"

definition intrinsic_compare_exchange ::
  "'a :: len word \<Rightarrow> 'a word \<Rightarrow> 'a word \<Rightarrow> bool \<Rightarrow> memory_order \<Rightarrow> memory_order \<Rightarrow> bool \<times> 'a word \<times> 'a word" where
  "intrinsic_compare_exchange obj expected desired spurious success failure =
     (if obj = expected \<and> \<not> spurious then (True, expected, desired) else (False, obj, obj))"

text \<open>The legacy \<open>__sync\<close> builtins have no memory order.\<close>

definition sync_val_compare_and_swap :: "'a :: len word \<Rightarrow> 'a word \<Rightarrow> 'a word \<Rightarrow> 'a word \<times> 'a word" where
  "sync_val_compare_and_swap obj old new = (obj, if obj = old then new else obj)"

definition sync_lock_test_and_set :: "'a :: len word \<Rightarrow> 'a word \<Rightarrow> 'a word \<times> 'a word" where
  "sync_lock_test_and_set obj new = (obj, new)"

definition sync_swap :: "'a :: len word \<Rightarrow> 'a word \<Rightarrow> 'a word \<times> 'a word" where
  "sync_swap obj new = (obj, new)"

definition sync_fetch_and :: "rmw_op \<Rightarrow> 'a :: len word \<Rightarrow> 'a word \<Rightarrow> 'a word \<times> 'a word" where
  "sync_fetch_and f obj operand = (obj, rmw_apply f obj operand)"

subsection \<open>clang back end: the clang intrinsics\<close>

definition clang_compare_exchange_strong_explicit ::
  "'a :: len word \<Rightarrow> 'a word \<Rightarrow> 'a word \<Rightarrow> memory_order \<Rightarrow> memory_order \<Rightarrow> bool \<times> 'a word \<times> 'a word" where
  "clang_compare_exchange_strong_explicit obj expected desired success failure =
     intrinsic_compare_exchange obj expected desired False success failure"

definition clang_compare_exchange_weak_explicit ::
  "bool \<Rightarrow> 'a :: len word \<Rightarrow> 'a word \<Rightarrow> 'a word \<Rightarrow> memory_order \<Rightarrow> memory_order \<Rightarrow> bool \<times> 'a word \<times> 'a word" where
  "clang_compare_exchange_weak_explicit spurious obj expected desired success failure =
     intrinsic_compare_exchange obj expected desired spurious success failure"

definition clang_exchange_explicit :: "'a :: len word \<Rightarrow> 'a word \<Rightarrow> memory_order \<Rightarrow> 'a word \<times> 'a word" where
  "clang_exchange_explicit obj desired order = intrinsic_exchange obj desired order"

definition clang_fetch_add_explicit :: "'a :: len word \<Rightarrow> 'a word \<Rightarrow> memory_order \<Rightarrow> 'a word \<times> 'a word" where
  "clang_fetch_add_explicit obj operand order = intrinsic_fetch Op_Add obj operand order"

definition clang_fetch_and_explicit :: "'a :: len word \<Rightarrow> 'a word \<Rightarrow> memory_order \<Rightarrow> 'a word \<times> 'a word" where
  "clang_fetch_and_explicit obj operand order = intrinsic_fetch Op_And obj operand order"

definition clang_fetch_or_explicit :: "'a :: len word \<Rightarrow> 'a word \<Rightarrow> memory_order \<Rightarrow> 'a word \<times> 'a word" where
  "clang_fetch_or_explicit obj operand order = intrinsic_fetch Op_Or obj operand order"

definition clang_fetch_sub_explicit :: "'a :: len word \<Rightarrow> 'a word \<Rightarrow> memory_order \<Rightarrow> 'a word \<times> 'a word" where
  "clang_fetch_sub_explicit obj operand order = intrinsic_fetch Op_Sub obj operand order"

definition clang_fetch_xor_explicit :: "'a :: len word \<Rightarrow> 'a word \<Rightarrow> memory_order \<Rightarrow> 'a word \<times> 'a word" where
  "clang_fetch_xor_explicit obj operand order = intrinsic_fetch Op_Xor obj operand order"

definition clang_load_explicit :: "'a :: len word \<Rightarrow> memory_order \<Rightarrow> 'a word \<times> 'a word" where
  "clang_load_explicit obj order = intrinsic_load obj order"

definition clang_store_explicit :: "'a :: len word \<Rightarrow> 'a word \<Rightarrow> memory_order \<Rightarrow> 'a word" where
  "clang_store_explicit obj desired order = intrinsic_store obj desired order"

subsection \<open>gnu back end: the gcc 4.7 intrinsics\<close>

definition gnu_compare_exchange_strong_explicit ::
  "'a :: len word \<Rightarrow> 'a word \<Rightarrow> 'a word \<Rightarrow> memory_order \<Rightarrow> memory_order \<Rightarrow> bool \<times> 'a word \<times> 'a word" where
  "gnu_compare_exchange_strong_explicit obj expected desired success failure =
     intrinsic_compare_exchange obj expected desired False success failure"

definition gnu_compare_exchange_weak_explicit ::
  "bool \<Rightarrow> 'a :: len word \<Rightarrow> 'a word \<Rightarrow> 'a word \<Rightarrow> memory_order \<Rightarrow> memory_order \<Rightarrow> bool \<times> 'a word \<times> 'a word" where
  "gnu_compare_exchange_weak_explicit spurious obj expected desired success failure =
     intrinsic_compare_exchange obj expected desired spurious success failure"

definition gnu_exchange_explicit :: "'a :: len word \<Rightarrow> 'a word \<Rightarrow> memory_order \<Rightarrow> 'a word \<times> 'a word" where
  "gnu_exchange_explicit obj desired order = intrinsic_exchange obj desired order"

definition gnu_fetch_add_explicit :: "'a :: len word \<Rightarrow> 'a word \<Rightarrow> memory_order \<Rightarrow> 'a word \<times> 'a word" where
  "gnu_fetch_add_explicit obj operand order = intrinsic_fetch Op_Add obj operand order"

definition gnu_fetch_and_explicit :: "'a :: len word \<Rightarrow> 'a word \<Rightarrow> memory_order \<Rightarrow> 'a word \<times> 'a word" where
  "gnu_fetch_and_explicit obj operand order = intrinsic_fetch Op_And obj operand order"

definition gnu_fetch_or_explicit :: "'a :: len word \<Rightarrow> 'a word \<Rightarrow> memory_order \<Rightarrow> 'a word \<times> 'a word" where
  "gnu_fetch_or_explicit obj operand order = intrinsic_fetch Op_Or obj operand order"

definition gnu_fetch_sub_explicit :: "'a :: len word \<Rightarrow> 'a word \<Rightarrow> memory_order \<Rightarrow> 'a word \<times> 'a word" where
  "gnu_fetch_sub_explicit obj operand order = intrinsic_fetch Op_Sub obj operand order"

definition gnu_fetch_xor_explicit :: "'a :: len word \<Rightarrow> 'a word \<Rightarrow> memory_order \<Rightarrow> 'a word \<times> 'a word" where
  "gnu_fetch_xor_explicit obj operand order = intrinsic_fetch Op_Xor obj operand order"

definition gnu_load_explicit :: "'a :: len word \<Rightarrow> memory_order \<Rightarrow> 'a word \<times> 'a word" where
  "gnu_load_explicit obj order = intrinsic_load obj order"

definition gnu_store_explicit :: "'a :: len word \<Rightarrow> 'a word \<Rightarrow> memory_order \<Rightarrow> 'a word" where
  "gnu_store_explicit obj desired order = intrinsic_store obj desired order"

subsection \<open>sync back end: the legacy builtins\<close>

text \<open>
  The statement expression compares the value the builtin returned with \<open>*expected\<close>, then
  writes it there unconditionally.
\<close>

definition sync_compare_exchange_strong_explicit ::
  "'a :: len word \<Rightarrow> 'a word \<Rightarrow> 'a word \<Rightarrow> memory_order \<Rightarrow> memory_order \<Rightarrow> bool \<times> 'a word \<times> 'a word" where
  "sync_compare_exchange_strong_explicit obj expected desired success failure =
     (let (v, obj') = sync_val_compare_and_swap obj expected desired;
          r = (expected = v)
      in (r, v, obj'))"

definition sync_compare_exchange_weak_explicit ::
  "'a :: len word \<Rightarrow> 'a word \<Rightarrow> 'a word \<Rightarrow> memory_order \<Rightarrow> memory_order \<Rightarrow> bool \<times> 'a word \<times> 'a word" where
  "sync_compare_exchange_weak_explicit obj expected desired success failure =
     sync_compare_exchange_strong_explicit obj expected desired success failure"

text \<open>\<open>has_swap\<close> is \<open>__has_builtin (__sync_swap)\<close>.\<close>

definition sync_exchange_explicit :: "bool \<Rightarrow> 'a :: len word \<Rightarrow> 'a word \<Rightarrow> memory_order \<Rightarrow> 'a word \<times> 'a word" where
  "sync_exchange_explicit has_swap obj desired order =
     (if has_swap then sync_swap obj desired
      else (let (v, obj') = sync_lock_test_and_set obj desired in (v, obj')))"

definition sync_fetch_add_explicit :: "'a :: len word \<Rightarrow> 'a word \<Rightarrow> memory_order \<Rightarrow> 'a word \<times> 'a word" where
  "sync_fetch_add_explicit obj operand order = sync_fetch_and Op_Add obj operand"

definition sync_fetch_and_explicit :: "'a :: len word \<Rightarrow> 'a word \<Rightarrow> memory_order \<Rightarrow> 'a word \<times> 'a word" where
  "sync_fetch_and_explicit obj operand order = sync_fetch_and Op_And obj operand"

definition sync_fetch_or_explicit :: "'a :: len word \<Rightarrow> 'a word \<Rightarrow> memory_order \<Rightarrow> 'a word \<times> 'a word" where
  "sync_fetch_or_explicit obj operand order = sync_fetch_and Op_Or obj operand"

definition sync_fetch_sub_explicit :: "'a :: len word \<Rightarrow> 'a word \<Rightarrow> memory_order \<Rightarrow> 'a word \<times> 'a word" where
  "sync_fetch_sub_explicit obj operand order = sync_fetch_and Op_Sub obj operand"

definition sync_fetch_xor_explicit :: "'a :: len word \<Rightarrow> 'a word \<Rightarrow> memory_order \<Rightarrow> 'a word \<times> 'a word" where
  "sync_fetch_xor_explicit obj operand order = sync_fetch_and Op_Xor obj operand"

definition sync_load_explicit :: "'a :: len word \<Rightarrow> memory_order \<Rightarrow> 'a word \<times> 'a word" where
  "sync_load_explicit obj order = sync_fetch_and Op_Add obj 0"

definition sync_store_explicit :: "'a :: len word \<Rightarrow> 'a word \<Rightarrow> memory_order \<Rightarrow> 'a word" where
  "sync_store_explicit obj desired order = desired"

subsection \<open>The convenience macros\<close>

text \<open>Which branch of the header's conditional compilation is taken.\<close>

datatype compiler = Clang_Atomics | Gnu_Atomics | Sync_Builtins (has_sync_swap: bool)

definition atomic_compare_exchange_strong ::
  "compiler \<Rightarrow> 'a :: len word \<Rightarrow> 'a word \<Rightarrow> 'a word \<Rightarrow> bool \<times> 'a word \<times> 'a word" where
  "atomic_compare_exchange_strong c obj expected desired =
     (case c of
        Clang_Atomics \<Rightarrow> clang_compare_exchange_strong_explicit obj expected desired memory_order_seq_cst memory_order_seq_cst
      | Gnu_Atomics \<Rightarrow> gnu_compare_exchange_strong_explicit obj expected desired memory_order_seq_cst memory_order_seq_cst
      | Sync_Builtins _ \<Rightarrow> sync_compare_exchange_strong_explicit obj expected desired memory_order_seq_cst memory_order_seq_cst)"

definition atomic_compare_exchange_weak ::
  "compiler \<Rightarrow> bool \<Rightarrow> 'a :: len word \<Rightarrow> 'a word \<Rightarrow> 'a word \<Rightarrow> bool \<times> 'a word \<times> 'a word" where
  "atomic_compare_exchange_weak c spurious obj expected desired =
     (case c of
        Clang_Atomics \<Rightarrow> clang_compare_exchange_weak_explicit spurious obj expected desired memory_order_seq_cst memory_order_seq_cst
      | Gnu_Atomics \<Rightarrow> gnu_compare_exchange_weak_explicit spurious obj expected desired memory_order_seq_cst memory_order_seq_cst
      | Sync_Builtins _ \<Rightarrow> sync_compare_exchange_weak_explicit obj expected desired memory_order_seq_cst memory_order_seq_cst)"

definition atomic_exchange :: "compiler \<Rightarrow> 'a :: len word \<Rightarrow> 'a word \<Rightarrow> 'a word \<times> 'a word" where
  "atomic_exchange c obj desired =
     (case c of
        Clang_Atomics \<Rightarrow> clang_exchange_explicit obj desired memory_order_seq_cst
      | Gnu_Atomics \<Rightarrow> gnu_exchange_explicit obj desired memory_order_seq_cst
      | Sync_Builtins s \<Rightarrow> sync_exchange_explicit s obj desired memory_order_seq_cst)"

definition atomic_fetch_add :: "compiler \<Rightarrow> 'a :: len word \<Rightarrow> 'a word \<Rightarrow> 'a word \<times> 'a word" where
  "atomic_fetch_add c obj operand =
     (case c of
        Clang_Atomics \<Rightarrow> clang_fetch_add_explicit obj operand memory_order_seq_cst
      | Gnu_Atomics \<Rightarrow> gnu_fetch_add_explicit obj operand memory_order_seq_cst
      | Sync_Builtins _ \<Rightarrow> sync_fetch_add_explicit obj operand memory_order_seq_cst)"

definition atomic_fetch_and :: "compiler \<Rightarrow> 'a :: len word \<Rightarrow> 'a word \<Rightarrow> 'a word \<times> 'a word" where
  "atomic_fetch_and c obj operand =
     (case c of
        Clang_Atomics \<Rightarrow> clang_fetch_and_explicit obj operand memory_order_seq_cst
      | Gnu_Atomics \<Rightarrow> gnu_fetch_and_explicit obj operand memory_order_seq_cst
      | Sync_Builtins _ \<Rightarrow> sync_fetch_and_explicit obj operand memory_order_seq_cst)"

definition atomic_fetch_or :: "compiler \<Rightarrow> 'a :: len word \<Rightarrow> 'a word \<Rightarrow> 'a word \<times> 'a word" where
  "atomic_fetch_or c obj operand =
     (case c of
        Clang_Atomics \<Rightarrow> clang_fetch_or_explicit obj operand memory_order_seq_cst
      | Gnu_Atomics \<Rightarrow> gnu_fetch_or_explicit obj operand memory_order_seq_cst
      | Sync_Builtins _ \<Rightarrow> sync_fetch_or_explicit obj operand memory_order_seq_cst)"

definition atomic_fetch_sub :: "compiler \<Rightarrow> 'a :: len word \<Rightarrow> 'a word \<Rightarrow> 'a word \<times> 'a word" where
  "atomic_fetch_sub c obj operand =
     (case c of
        Clang_Atomics \<Rightarrow> clang_fetch_sub_explicit obj operand memory_order_seq_cst
      | Gnu_Atomics \<Rightarrow> gnu_fetch_sub_explicit obj operand memory_order_seq_cst
      | Sync_Builtins _ \<Rightarrow> sync_fetch_sub_explicit obj operand memory_order_seq_cst)"

definition atomic_fetch_xor :: "compiler \<Rightarrow> 'a :: len word \<Rightarrow> 'a word \<Rightarrow> 'a word \<times> 'a word" where
  "atomic_fetch_xor c obj operand =
     (case c of
        Clang_Atomics \<Rightarrow> clang_fetch_xor_explicit obj operand memory_order_seq_cst
      | Gnu_Atomics \<Rightarrow> gnu_fetch_xor_explicit obj operand memory_order_seq_cst
      | Sync_Builtins _ \<Rightarrow> sync_fetch_xor_explicit obj operand memory_order_seq_cst)"

definition atomic_load :: "compiler \<Rightarrow> 'a :: len word \<Rightarrow> 'a word \<times> 'a word" where
  "atomic_load c obj =
     (case c of
        Clang_Atomics \<Rightarrow> clang_load_explicit obj memory_order_seq_cst
      | Gnu_Atomics \<Rightarrow> gnu_load_explicit obj memory_order_seq_cst
      | Sync_Builtins _ \<Rightarrow> sync_load_explicit obj memory_order_seq_cst)"

definition atomic_store :: "compiler \<Rightarrow> 'a :: len word \<Rightarrow> 'a word \<Rightarrow> 'a word" where
  "atomic_store c obj desired =
     (case c of
        Clang_Atomics \<Rightarrow> clang_store_explicit obj desired memory_order_seq_cst
      | Gnu_Atomics \<Rightarrow> gnu_store_explicit obj desired memory_order_seq_cst
      | Sync_Builtins _ \<Rightarrow> sync_store_explicit obj desired memory_order_seq_cst)"

lemmas explicit_defs =
  clang_compare_exchange_strong_explicit_def clang_compare_exchange_weak_explicit_def
  clang_exchange_explicit_def clang_fetch_add_explicit_def
  clang_fetch_and_explicit_def clang_fetch_or_explicit_def
  clang_fetch_sub_explicit_def clang_fetch_xor_explicit_def
  clang_load_explicit_def clang_store_explicit_def
  gnu_compare_exchange_strong_explicit_def gnu_compare_exchange_weak_explicit_def
  gnu_exchange_explicit_def gnu_fetch_add_explicit_def
  gnu_fetch_and_explicit_def gnu_fetch_or_explicit_def
  gnu_fetch_sub_explicit_def gnu_fetch_xor_explicit_def
  gnu_load_explicit_def gnu_store_explicit_def
  sync_compare_exchange_strong_explicit_def sync_compare_exchange_weak_explicit_def
  sync_exchange_explicit_def sync_fetch_add_explicit_def
  sync_fetch_and_explicit_def sync_fetch_or_explicit_def
  sync_fetch_sub_explicit_def sync_fetch_xor_explicit_def
  sync_load_explicit_def sync_store_explicit_def

lemmas intrinsic_defs =
  intrinsic_fetch_def intrinsic_exchange_def intrinsic_load_def intrinsic_store_def
  intrinsic_compare_exchange_def sync_val_compare_and_swap_def sync_lock_test_and_set_def
  sync_swap_def sync_fetch_and_def

subsection \<open>The atomic flag\<close>

text \<open>
  \<open>atomic_flag_test_and_set_explicit\<close> hands the literal \<open>0\<close> to the macro as the pointer
  \<open>expected\<close>, which every back end dereferences. A pointer argument is \<open>None\<close> when it is
  null; the result is \<open>None\<close> when the program dereferences null.
\<close>

definition compare_exchange_strong_ptr ::
  "compiler \<Rightarrow> 'a :: len word \<Rightarrow> 'a word option \<Rightarrow> 'a word \<Rightarrow> (bool \<times> 'a word \<times> 'a word) option" where
  "compare_exchange_strong_ptr c obj expected desired =
     (case expected of None \<Rightarrow> None | Some e \<Rightarrow> Some (atomic_compare_exchange_strong c obj e desired))"

definition atomic_flag_test_and_set :: "compiler \<Rightarrow> u8 \<Rightarrow> (bool \<times> u8 \<times> u8) option" where
  "atomic_flag_test_and_set c obj = compare_exchange_strong_ptr c obj None 1"

definition atomic_flag_clear :: "compiler \<Rightarrow> u8 \<Rightarrow> u8" where
  "atomic_flag_clear c obj = atomic_store c obj 0"

subsection \<open>Windows: the Interlocked intrinsics\<close>

text \<open>
  The Interlocked functions act on the low \<open>w\<close> bits of the object they are pointed at
  (Windows targets are little-endian) and return those bits. The macros choose the width by
  \<open>sizeof (out)\<close>, the variable that receives the result, and not by the object. \<open>None\<close> is
  \<open>exit (-1)\<close>.
\<close>

definition put_low :: "nat \<Rightarrow> 'a :: len word \<Rightarrow> 'a word \<Rightarrow> 'a word" where
  "put_low w obj v = (obj AND NOT (mask w)) OR (v AND mask w)"

definition InterlockedCompareExchange :: "nat \<Rightarrow> 'a :: len word \<Rightarrow> 'a word \<Rightarrow> 'a word \<Rightarrow> 'a word \<times> 'a word" where
  "InterlockedCompareExchange w obj exchange comparand =
     (obj AND mask w, if obj AND mask w = comparand AND mask w then put_low w obj exchange else obj)"

definition InterlockedExchange :: "nat \<Rightarrow> 'a :: len word \<Rightarrow> 'a word \<Rightarrow> 'a word \<times> 'a word" where
  "InterlockedExchange w obj v = (obj AND mask w, put_low w obj v)"

definition InterlockedOp :: "rmw_op \<Rightarrow> nat \<Rightarrow> 'a :: len word \<Rightarrow> 'a word \<Rightarrow> 'a word \<times> 'a word" where
  "InterlockedOp f w obj v = (obj AND mask w, put_low w obj (rmw_apply f obj v))"

definition rcutils_win32_atomic_compare_exchange_strong ::
  "nat \<Rightarrow> 'a :: len word \<Rightarrow> 'a word \<Rightarrow> 'a word \<Rightarrow> ('a word \<times> 'a word) option" where
  "rcutils_win32_atomic_compare_exchange_strong sizeof_out obj expected desired =
     (if sizeof_out = 8 then Some (InterlockedCompareExchange 64 obj desired expected)
      else if sizeof_out = 4 then Some (InterlockedCompareExchange 32 obj desired expected)
      else if sizeof_out = 2 then Some (InterlockedCompareExchange 16 obj desired expected)
      else if sizeof_out = 1 then Some (InterlockedCompareExchange 8 obj desired expected)
      else None)"

definition rcutils_win32_atomic_compare_exchange_weak ::
  "nat \<Rightarrow> 'a :: len word \<Rightarrow> 'a word \<Rightarrow> 'a word \<Rightarrow> ('a word \<times> 'a word) option" where
  "rcutils_win32_atomic_compare_exchange_weak sizeof_out obj expected desired =
     rcutils_win32_atomic_compare_exchange_strong sizeof_out obj expected desired"

definition rcutils_win32_atomic_exchange ::
  "nat \<Rightarrow> 'a :: len word \<Rightarrow> 'a word \<Rightarrow> ('a word \<times> 'a word) option" where
  "rcutils_win32_atomic_exchange sizeof_out obj desired =
     (if sizeof_out = 8 then Some (InterlockedExchange 64 obj desired)
      else if sizeof_out = 4 then Some (InterlockedExchange 32 obj desired)
      else if sizeof_out = 2 then Some (InterlockedExchange 16 obj desired)
      else if sizeof_out = 1 then Some (InterlockedExchange 8 obj desired)
      else None)"

definition rcutils_win32_atomic_fetch_add ::
  "nat \<Rightarrow> 'a :: len word \<Rightarrow> 'a word \<Rightarrow> ('a word \<times> 'a word) option" where
  "rcutils_win32_atomic_fetch_add sizeof_out obj operand =
     (if sizeof_out = 8 then Some (InterlockedOp Op_Add 64 obj operand)
      else if sizeof_out = 4 then Some (InterlockedOp Op_Add 32 obj operand)
      else if sizeof_out = 2 then Some (InterlockedOp Op_Add 16 obj operand)
      else if sizeof_out = 1 then Some (InterlockedOp Op_Add 8 obj operand)
      else None)"

definition rcutils_win32_atomic_fetch_and ::
  "nat \<Rightarrow> 'a :: len word \<Rightarrow> 'a word \<Rightarrow> ('a word \<times> 'a word) option" where
  "rcutils_win32_atomic_fetch_and sizeof_out obj operand =
     (if sizeof_out = 8 then Some (InterlockedOp Op_And 64 obj operand)
      else if sizeof_out = 4 then Some (InterlockedOp Op_And 32 obj operand)
      else if sizeof_out = 2 then Some (InterlockedOp Op_And 16 obj operand)
      else if sizeof_out = 1 then Some (InterlockedOp Op_And 8 obj operand)
      else None)"

definition rcutils_win32_atomic_fetch_or ::
  "nat \<Rightarrow> 'a :: len word \<Rightarrow> 'a word \<Rightarrow> ('a word \<times> 'a word) option" where
  "rcutils_win32_atomic_fetch_or sizeof_out obj operand =
     (if sizeof_out = 8 then Some (InterlockedOp Op_Or 64 obj operand)
      else if sizeof_out = 4 then Some (InterlockedOp Op_Or 32 obj operand)
      else if sizeof_out = 2 then Some (InterlockedOp Op_Or 16 obj operand)
      else if sizeof_out = 1 then Some (InterlockedOp Op_Or 8 obj operand)
      else None)"

definition rcutils_win32_atomic_fetch_sub ::
  "nat \<Rightarrow> 'a :: len word \<Rightarrow> 'a word \<Rightarrow> ('a word \<times> 'a word) option" where
  "rcutils_win32_atomic_fetch_sub sizeof_out obj operand =
     rcutils_win32_atomic_fetch_add sizeof_out obj (- operand)"

definition rcutils_win32_atomic_fetch_xor ::
  "nat \<Rightarrow> 'a :: len word \<Rightarrow> 'a word \<Rightarrow> ('a word \<times> 'a word) option" where
  "rcutils_win32_atomic_fetch_xor sizeof_out obj operand =
     (if sizeof_out = 8 then Some (InterlockedOp Op_Xor 64 obj operand)
      else if sizeof_out = 4 then Some (InterlockedOp Op_Xor 32 obj operand)
      else if sizeof_out = 2 then Some (InterlockedOp Op_Xor 16 obj operand)
      else if sizeof_out = 1 then Some (InterlockedOp Op_Xor 8 obj operand)
      else None)"

definition rcutils_win32_atomic_load ::
  "nat \<Rightarrow> 'a :: len word \<Rightarrow> ('a word \<times> 'a word) option" where
  "rcutils_win32_atomic_load sizeof_out obj =
     (if sizeof_out = 8 then Some (InterlockedOp Op_Add 64 obj 0)
      else if sizeof_out = 4 then Some (InterlockedOp Op_Add 32 obj 0)
      else if sizeof_out = 2 then Some (InterlockedOp Op_Add 16 obj 0)
      else if sizeof_out = 1 then Some (InterlockedOp Op_Add 8 obj 0)
      else None)"

definition rcutils_win32_atomic_store :: "'a :: len word \<Rightarrow> 'a word \<Rightarrow> 'a word" where
  "rcutils_win32_atomic_store obj desired = desired"

lemmas win32_defs =
  rcutils_win32_atomic_compare_exchange_strong_def rcutils_win32_atomic_exchange_def
  rcutils_win32_atomic_fetch_add_def rcutils_win32_atomic_fetch_and_def
  rcutils_win32_atomic_fetch_or_def rcutils_win32_atomic_fetch_sub_def
  rcutils_win32_atomic_fetch_xor_def rcutils_win32_atomic_load_def
  rcutils_win32_atomic_store_def InterlockedCompareExchange_def InterlockedExchange_def
  InterlockedOp_def

subsection \<open>The portable layer\<close>

datatype platform = Unix compiler | Win32

text \<open>The macros: \<open>sizeof_out\<close> is the size of the variable \<open>out\<close>; \<open>None\<close> is \<open>exit (-1)\<close>.\<close>

definition rcutils_atomic_load :: "platform \<Rightarrow> nat \<Rightarrow> 'a :: len word \<Rightarrow> ('a word \<times> 'a word) option" where
  "rcutils_atomic_load p sizeof_out obj =
     (case p of Unix c \<Rightarrow> Some (atomic_load c obj)
      | Win32 \<Rightarrow> rcutils_win32_atomic_load sizeof_out obj)"

text \<open>The result of the C11 operation is a truth value, that of the Windows macro the old value;
  the Windows macro never writes \<open>*expected\<close>.\<close>

definition rcutils_atomic_compare_exchange_strong ::
  "platform \<Rightarrow> nat \<Rightarrow> 'a :: len word \<Rightarrow> 'a word \<Rightarrow> 'a word \<Rightarrow> ('a word \<times> 'a word \<times> 'a word) option" where
  "rcutils_atomic_compare_exchange_strong p sizeof_out obj expected desired =
     (case p of
        Unix c \<Rightarrow> (let (r, e, obj') = atomic_compare_exchange_strong c obj expected desired
                  in Some (if r then 1 else 0, e, obj'))
      | Win32 \<Rightarrow> (case rcutils_win32_atomic_compare_exchange_strong sizeof_out obj expected desired of
                    None \<Rightarrow> None | Some (v, obj') \<Rightarrow> Some (v, expected, obj')))"

definition rcutils_atomic_exchange ::
  "platform \<Rightarrow> nat \<Rightarrow> 'a :: len word \<Rightarrow> 'a word \<Rightarrow> ('a word \<times> 'a word) option" where
  "rcutils_atomic_exchange p sizeof_out obj desired =
     (case p of Unix c \<Rightarrow> Some (atomic_exchange c obj desired)
      | Win32 \<Rightarrow> rcutils_win32_atomic_exchange sizeof_out obj desired)"

definition rcutils_atomic_store :: "platform \<Rightarrow> 'a :: len word \<Rightarrow> 'a word \<Rightarrow> 'a word" where
  "rcutils_atomic_store p obj desired =
     (case p of Unix c \<Rightarrow> atomic_store c obj desired | Win32 \<Rightarrow> rcutils_win32_atomic_store obj desired)"

definition rcutils_atomic_fetch_add ::
  "platform \<Rightarrow> nat \<Rightarrow> 'a :: len word \<Rightarrow> 'a word \<Rightarrow> ('a word \<times> 'a word) option" where
  "rcutils_atomic_fetch_add p sizeof_out obj arg =
     (case p of Unix c \<Rightarrow> Some (atomic_fetch_add c obj arg)
      | Win32 \<Rightarrow> rcutils_win32_atomic_fetch_add sizeof_out obj arg)"

text \<open>
  The inline functions: the type of \<open>result\<close> gives the size. A \<open>bool\<close> takes one byte and is
  true when the assigned value is not zero.
\<close>

definition rcutils_atomic_load_bool :: "platform \<Rightarrow> u8 \<Rightarrow> (bool \<times> u8) option" where
  "rcutils_atomic_load_bool p a_bool =
     map_option (\<lambda>(v, obj). (v \<noteq> 0, obj)) (rcutils_atomic_load p 1 a_bool)"

definition rcutils_atomic_load_int64_t :: "platform \<Rightarrow> u64 \<Rightarrow> (u64 \<times> u64) option" where
  "rcutils_atomic_load_int64_t p a_int64_t = rcutils_atomic_load p 8 a_int64_t"

definition rcutils_atomic_load_uint64_t :: "platform \<Rightarrow> u64 \<Rightarrow> (u64 \<times> u64) option" where
  "rcutils_atomic_load_uint64_t p a_uint64_t = rcutils_atomic_load p 8 a_uint64_t"

definition rcutils_atomic_load_uintptr_t :: "platform \<Rightarrow> 'p :: len word \<Rightarrow> ('p word \<times> 'p word) option" where
  "rcutils_atomic_load_uintptr_t p a_uintptr_t = rcutils_atomic_load p (LENGTH('p) div 8) a_uintptr_t"

definition rcutils_atomic_compare_exchange_strong_uint_least64_t ::
  "platform \<Rightarrow> u64 \<Rightarrow> u64 \<Rightarrow> u64 \<Rightarrow> (bool \<times> u64 \<times> u64) option" where
  "rcutils_atomic_compare_exchange_strong_uint_least64_t p a_uint_least64_t expected desired =
     map_option (\<lambda>(v, e, obj). (v \<noteq> 0, e, obj))
       (rcutils_atomic_compare_exchange_strong p 1 a_uint_least64_t expected desired)"

definition rcutils_atomic_exchange_bool :: "platform \<Rightarrow> u8 \<Rightarrow> bool \<Rightarrow> (bool \<times> u8) option" where
  "rcutils_atomic_exchange_bool p a_bool desired =
     map_option (\<lambda>(v, obj). (v \<noteq> 0, obj))
       (rcutils_atomic_exchange p 1 a_bool (if desired then 1 else 0))"

definition rcutils_atomic_exchange_int64_t :: "platform \<Rightarrow> u64 \<Rightarrow> u64 \<Rightarrow> (u64 \<times> u64) option" where
  "rcutils_atomic_exchange_int64_t p a_int64_t desired = rcutils_atomic_exchange p 8 a_int64_t desired"

definition rcutils_atomic_exchange_uint64_t :: "platform \<Rightarrow> u64 \<Rightarrow> u64 \<Rightarrow> (u64 \<times> u64) option" where
  "rcutils_atomic_exchange_uint64_t p a_uint64_t desired = rcutils_atomic_exchange p 8 a_uint64_t desired"

definition rcutils_atomic_exchange_uintptr_t ::
  "platform \<Rightarrow> 'p :: len word \<Rightarrow> 'p word \<Rightarrow> ('p word \<times> 'p word) option" where
  "rcutils_atomic_exchange_uintptr_t p a_uintptr_t desired =
     rcutils_atomic_exchange p (LENGTH('p) div 8) a_uintptr_t desired"

definition rcutils_atomic_fetch_add_uint64_t :: "platform \<Rightarrow> u64 \<Rightarrow> u64 \<Rightarrow> (u64 \<times> u64) option" where
  "rcutils_atomic_fetch_add_uint64_t p a_uint64_t arg = rcutils_atomic_fetch_add p 8 a_uint64_t arg"

lemmas portable_defs =
  rcutils_atomic_load_def rcutils_atomic_compare_exchange_strong_def rcutils_atomic_exchange_def
  rcutils_atomic_store_def rcutils_atomic_fetch_add_def rcutils_atomic_load_bool_def
  rcutils_atomic_load_int64_t_def rcutils_atomic_load_uint64_t_def
  rcutils_atomic_load_uintptr_t_def rcutils_atomic_compare_exchange_strong_uint_least64_t_def
  rcutils_atomic_exchange_bool_def rcutils_atomic_exchange_int64_t_def
  rcutils_atomic_exchange_uint64_t_def rcutils_atomic_exchange_uintptr_t_def
  rcutils_atomic_fetch_add_uint64_t_def

subsection \<open>The convenience macros compute the C11 operations\<close>

lemma atomic_load_c11 [simp]: "atomic_load c obj = (obj, obj)"
  by (simp add: atomic_load_def explicit_defs intrinsic_defs split: compiler.split)

lemma atomic_store_c11 [simp]: "atomic_store c obj d = d"
  by (simp add: atomic_store_def explicit_defs intrinsic_defs split: compiler.split)

lemma atomic_exchange_c11 [simp]: "atomic_exchange c obj d = (obj, d)"
  by (simp add: atomic_exchange_def explicit_defs intrinsic_defs split: compiler.split)

lemma atomic_fetch_c11 [simp]:
  "atomic_fetch_add c obj x = (obj, obj + x)"
  "atomic_fetch_sub c obj x = (obj, obj - x)"
  "atomic_fetch_and c obj x = (obj, obj AND x)"
  "atomic_fetch_or c obj x = (obj, obj OR x)"
  "atomic_fetch_xor c obj x = (obj, obj XOR x)"
  by (simp_all add: atomic_fetch_add_def atomic_fetch_sub_def atomic_fetch_and_def
      atomic_fetch_or_def atomic_fetch_xor_def explicit_defs intrinsic_defs split: compiler.split)

lemma atomic_compare_exchange_strong_c11 [simp]:
  "atomic_compare_exchange_strong c obj e d = (if obj = e then (True, e, d) else (False, obj, obj))"
  by (auto simp: atomic_compare_exchange_strong_def explicit_defs intrinsic_defs split: compiler.split)

subsection \<open>The Interlocked macros at the width of the object\<close>

lemma mask_full [simp]: "LENGTH('a) \<le> w \<Longrightarrow> (x :: 'a :: len word) AND mask w = x"
  by (rule bit_word_eqI) (simp add: bit_simps)

lemma put_low_full [simp]: "LENGTH('a) \<le> w \<Longrightarrow> put_low w (obj :: 'a :: len word) v = v"
  unfolding put_low_def by (rule bit_word_eqI) (auto simp: bit_simps)

text \<open>The object has the size of \<open>out\<close>.\<close>

definition whole_object :: "'a :: len word itself \<Rightarrow> nat \<Rightarrow> bool" where
  "whole_object T sizeof_out \<longleftrightarrow> sizeof_out \<in> {1, 2, 4, 8} \<and> LENGTH('a) = 8 * sizeof_out"

lemma whole_object_u64 [simp]: "whole_object TYPE(u64) 8"
  by (simp add: whole_object_def)

lemma whole_object_u8 [simp]: "whole_object TYPE(u8) 1"
  by (simp add: whole_object_def)

lemma win32_c11:
  fixes obj :: "'a :: len word"
  assumes "whole_object TYPE('a word) n"
  shows "rcutils_win32_atomic_load n obj = Some (obj, obj)"
    and "rcutils_win32_atomic_exchange n obj d = Some (obj, d)"
    and "rcutils_win32_atomic_fetch_add n obj d = Some (obj, obj + d)"
    and "rcutils_win32_atomic_fetch_sub n obj d = Some (obj, obj - d)"
    and "rcutils_win32_atomic_fetch_and n obj d = Some (obj, obj AND d)"
    and "rcutils_win32_atomic_fetch_or n obj d = Some (obj, obj OR d)"
    and "rcutils_win32_atomic_fetch_xor n obj d = Some (obj, obj XOR d)"
    and "rcutils_win32_atomic_compare_exchange_strong n obj e d = Some (obj, if obj = e then d else obj)"
  using assms by (auto simp: whole_object_def win32_defs)
subsection \<open>The contract of an atomic cell\<close>

text \<open>
  What a user of the portable layer relies on. \<open>cell_run\<close> performs a sequence of operations
  of any number of threads in the order in which they take effect on the object.
\<close>

datatype 'v cell_op = Load | Exchange 'v | Fetch_Add 'v | Store 'v

locale atomic_cell =
  fixes load :: "'a :: len word \<Rightarrow> ('a word \<times> 'a word) option"
    and exchange :: "'a word \<Rightarrow> 'a word \<Rightarrow> ('a word \<times> 'a word) option"
    and fetch_add :: "'a word \<Rightarrow> 'a word \<Rightarrow> ('a word \<times> 'a word) option"
    and store :: "'a word \<Rightarrow> 'a word \<Rightarrow> 'a word"
  assumes load_law: "load obj = Some (obj, obj)"
    and exchange_law: "exchange obj d = Some (obj, d)"
    and fetch_add_law: "fetch_add obj d = Some (obj, obj + d)"
    and store_law: "store obj d = d"
begin

fun cell_run :: "'a word cell_op list \<Rightarrow> 'a word \<Rightarrow> ('a word list \<times> 'a word) option" where
  "cell_run [] obj = Some ([], obj)"
| "cell_run (c # cs) obj =
     (case (case c of Load \<Rightarrow> load obj | Exchange d \<Rightarrow> exchange obj d
            | Fetch_Add d \<Rightarrow> fetch_add obj d | Store d \<Rightarrow> Some (d, store obj d)) of
        None \<Rightarrow> None
      | Some (r, obj') \<Rightarrow> map_option (\<lambda>(rs, o'). (r # rs, o')) (cell_run cs obj'))"

lemma cell_run_Load:
  "cell_run (Load # cs) obj = map_option (\<lambda>(rs, o'). (obj # rs, o')) (cell_run cs obj)"
  using load_law [of obj] by (simp only: cell_run.simps cell_op.case option.case prod.case)

lemma cell_run_Exchange:
  "cell_run (Exchange d # cs) obj = map_option (\<lambda>(rs, o'). (obj # rs, o')) (cell_run cs d)"
  using exchange_law [of obj d] by (simp only: cell_run.simps cell_op.case option.case prod.case)

lemma cell_run_Fetch_Add:
  "cell_run (Fetch_Add d # cs) obj = map_option (\<lambda>(rs, o'). (obj # rs, o')) (cell_run cs (obj + d))"
  using fetch_add_law [of obj d] by (simp only: cell_run.simps cell_op.case option.case prod.case)

lemma cell_run_Store:
  "cell_run (Store d # cs) obj = map_option (\<lambda>(rs, o'). (d # rs, o')) (cell_run cs d)"
  using store_law [of obj d] by (simp only: cell_run.simps cell_op.case option.case prod.case)

lemmas cell_run_ops = cell_run.simps(1) cell_run_Load cell_run_Exchange cell_run_Fetch_Add cell_run_Store

lemma cell_run_total: "\<exists>rs o'. cell_run cs obj = Some (rs, o') \<and> length rs = length cs"
proof (induction cs arbitrary: obj)
  case (Cons c cs)
  obtain obj' r where "cell_run (c # cs) obj = map_option (\<lambda>(rs, o'). (r # rs, o')) (cell_run cs obj')"
    by (cases c) (blast intro: cell_run_Load cell_run_Exchange cell_run_Fetch_Add cell_run_Store)+
  with Cons.IH [of obj'] show ?case by auto
qed simp

lemma tickets:
  "cell_run (replicate n (Fetch_Add 1)) obj =
     Some (map (\<lambda>i. obj + of_nat i) [0..<n], obj + of_nat n)"
proof (induction n arbitrary: obj)
  case (Suc n)
  have "map (\<lambda>i. obj + of_nat i) [0..<Suc n] = obj # map (\<lambda>i. obj + 1 + of_nat i) [0..<n]"
    by (simp only: upt_conv_Cons [OF zero_less_Suc] map_Suc_upt [symmetric]) (simp add: add.assoc)
  then show ?case by (simp add: cell_run_Fetch_Add Suc.IH add.assoc del: upt_Suc cell_run.simps)
qed simp

lemma tickets_distinct:
  assumes "n \<le> 2 ^ LENGTH('a)"
  shows "distinct (map (\<lambda>i. obj + (of_nat i :: 'a word)) [0..<n])"
proof -
  have "inj_on (\<lambda>i. obj + (of_nat i :: 'a word)) {0..<n}"
    using assms by (auto simp: inj_on_def word_of_nat_eq_iff take_bit_nat_eq_self)
  then show ?thesis by (simp add: distinct_map)
qed

lemma first_exchange_wins:
  "cell_run (replicate (Suc n) (Exchange d)) obj = Some (obj # replicate n d, d)"
proof -
  have "cell_run (replicate n (Exchange d)) d = Some (replicate n d, d)"
    by (induction n) (simp_all add: cell_run_Exchange del: cell_run.simps(2))
  then show ?thesis by (simp add: cell_run_Exchange del: cell_run.simps(2))
qed

end

text \<open>The 64-bit object behind the inline functions, on every platform.\<close>

lemma u64_ops:
  "rcutils_atomic_load_uint64_t p obj = Some (obj, obj)"
  "rcutils_atomic_exchange_uint64_t p obj d = Some (obj, d)"
  "rcutils_atomic_fetch_add_uint64_t p obj d = Some (obj, obj + d)"
  "rcutils_atomic_store p obj (d :: u64) = d"
  by (cases p; simp add: portable_defs win32_c11 [OF whole_object_u64] rcutils_win32_atomic_store_def)+

interpretation u64_cell: atomic_cell "rcutils_atomic_load_uint64_t p"
  "rcutils_atomic_exchange_uint64_t p" "rcutils_atomic_fetch_add_uint64_t p" "rcutils_atomic_store p" for p
  by unfold_locales (rule u64_ops)+

text \<open>The one-byte object behind the \<open>bool\<close> functions.\<close>

lemma u8_ops:
  "rcutils_atomic_load p 1 obj = Some (obj, obj)"
  "rcutils_atomic_exchange p 1 obj d = Some (obj, d)"
  "rcutils_atomic_fetch_add p 1 obj d = Some (obj, obj + d)"
  "rcutils_atomic_store p obj (d :: u8) = d"
  by (cases p; simp add: portable_defs win32_c11 [OF whole_object_u8] rcutils_win32_atomic_store_def
      del: One_nat_def)+

interpretation bool_cell: atomic_cell "rcutils_atomic_load p 1 :: u8 \<Rightarrow> _"
  "rcutils_atomic_exchange p 1" "rcutils_atomic_fetch_add p 1" "rcutils_atomic_store p" for p
  by unfold_locales (rule u8_ops)+

subsection \<open>Runs over the inline functions\<close>

fun fetch_add_run :: "platform \<Rightarrow> nat \<Rightarrow> u64 \<Rightarrow> (u64 list \<times> u64) option" where
  "fetch_add_run p 0 obj = Some ([], obj)"
| "fetch_add_run p (Suc n) obj =
     (case rcutils_atomic_fetch_add_uint64_t p obj 1 of None \<Rightarrow> None
      | Some (r, obj') \<Rightarrow> map_option (\<lambda>(rs, o'). (r # rs, o')) (fetch_add_run p n obj'))"

fun exchange_bool_run :: "platform \<Rightarrow> bool list \<Rightarrow> u8 \<Rightarrow> (bool list \<times> u8) option" where
  "exchange_bool_run p [] obj = Some ([], obj)"
| "exchange_bool_run p (d # ds) obj =
     (case rcutils_atomic_exchange_bool p obj d of None \<Rightarrow> None
      | Some (r, obj') \<Rightarrow> map_option (\<lambda>(rs, o'). (r # rs, o')) (exchange_bool_run p ds obj'))"

lemma fetch_add_run_cell:
  "fetch_add_run p n obj = u64_cell.cell_run p (replicate n (Fetch_Add 1)) obj"
  by (induction n arbitrary: obj)
    (simp_all add: u64_cell.cell_run_Fetch_Add u64_ops(3) del: u64_cell.cell_run.simps(2))

lemma exchange_bool_run_cell:
  "exchange_bool_run p ds obj =
     map_option (\<lambda>(rs, o'). (map (\<lambda>v. v \<noteq> 0) rs, o'))
       (bool_cell.cell_run p (map (\<lambda>d. Exchange (if d then 1 else 0)) ds) obj)"
proof (induction ds arbitrary: obj)
  case (Cons d ds)
  have "rcutils_atomic_exchange_bool p obj d = Some (obj \<noteq> 0, if d then 1 else 0)"
    by (simp add: rcutils_atomic_exchange_bool_def u8_ops(2) del: One_nat_def)
  then show ?case
    by (simp add: Cons.IH bool_cell.cell_run_Exchange option.map_comp comp_def split_def
        del: bool_cell.cell_run.simps(2) One_nat_def)
qed (simp del: One_nat_def)

subsection \<open>Properties\<close>




text \<open>Of any number of \<open>rcutils_atomic_exchange_bool\<close> calls that set a cleared flag, exactly
  the first to take effect is told that the flag was clear, on every platform.\<close>

theorem exchange_bool_single_winner:
  "exchange_bool_run p (replicate (Suc n) True) 0 = Some (False # replicate n True, 1)"
  by (simp only: exchange_bool_run_cell map_replicate bool_cell.first_exchange_wins if_True) simp

text \<open>When \<open>out\<close> has the size of the object, the Windows macros compute the C11 operations,
  but for compare-and-exchange, which hands back the old value instead of the verdict and leaves
  \<open>*expected\<close> alone.\<close>

theorem win32_macros_are_c11:
  fixes obj :: "'a :: len word"
  assumes "whole_object TYPE('a word) n"
  shows "rcutils_win32_atomic_load n obj = Some (atomic_load c obj) \<and>
    rcutils_win32_atomic_exchange n obj d = Some (atomic_exchange c obj d) \<and>
    rcutils_win32_atomic_fetch_add n obj d = Some (atomic_fetch_add c obj d) \<and>
    rcutils_win32_atomic_fetch_sub n obj d = Some (atomic_fetch_sub c obj d) \<and>
    rcutils_win32_atomic_fetch_and n obj d = Some (atomic_fetch_and c obj d) \<and>
    rcutils_win32_atomic_fetch_or n obj d = Some (atomic_fetch_or c obj d) \<and>
    rcutils_win32_atomic_fetch_xor n obj d = Some (atomic_fetch_xor c obj d) \<and>
    rcutils_win32_atomic_compare_exchange_strong n obj e d =
      Some (obj, snd (snd (atomic_compare_exchange_strong c obj e d)))"
  using win32_c11 [OF assms] by simp

theorem win32_macros_are_c11_witness:
  "rcutils_win32_atomic_fetch_add 2 (65535 :: u16) 3 = Some (65535, 2)"
proof -
  have "whole_object TYPE(u16) 2" by (simp add: whole_object_def)
  from win32_macros_are_c11 [OF this, of 65535 Gnu_Atomics 3] show ?thesis by simp
qed

text \<open>The 64-bit compare-and-exchange of the portable layer keeps the C11 contract on the
  C11 path. On Windows its one-byte \<open>result\<close> selects the 8-bit intrinsic: only the low bytes are
  compared and replaced, the answer is whether the old low byte was not zero, and the caller's
  \<open>expected\<close> is never refreshed.\<close>

theorem compare_exchange_u64_behaviour:
  "rcutils_atomic_compare_exchange_strong_uint_least64_t (Unix c) obj e d =
     Some (if obj = e then (True, e, d) else (False, obj, obj)) \<and>
   rcutils_atomic_compare_exchange_strong_uint_least64_t Win32 obj e d =
     Some (obj AND 255 \<noteq> 0, e,
           if obj AND 255 = e AND 255 then (obj AND NOT 255) OR (d AND 255) else obj)"
  by (simp add: portable_defs win32_defs put_low_def mask_eq_exp_minus_1)

text \<open>\<open>atomic_flag_test_and_set\<close> of the compatibility header dereferences a null pointer on
  every back end, whatever the flag holds; \<open>atomic_flag_clear\<close> clears it.\<close>

theorem atomic_flag_test_and_set_faults:
  "atomic_flag_test_and_set c flag = None \<and> atomic_flag_clear c flag = 0"
  by (simp add: atomic_flag_test_and_set_def compare_exchange_strong_ptr_def atomic_flag_clear_def)

end
