(* ===== verification/Rcutils_Logging.thy ===== *)
theory Rcutils_Logging
  imports Rcl_Basics "HOL-Library.Sublist"
begin

text \<open>
  The logging macros of \<^verbatim>\<open>rcutils/logging_macros.h\<close>. A macro expansion is a statement: it
  acts on the static variables its expansion declares, on the world (everything else the
  program can change) and on the list of calls made to the logging library. The library
  itself (is the logger enabled, initialisation, output) is not part of the repository and is
  the record \<open>log_env\<close>. A pair of macros \<open>..._BEFORE\<close> and \<open>..._AFTER\<close> wraps the statement
  between them, so it is modelled as a function from that statement to the wrapped one.
\<close>

subsection \<open>Severities\<close>

datatype log_severity =
    RCUTILS_LOG_SEVERITY_UNSET
  | RCUTILS_LOG_SEVERITY_DEBUG
  | RCUTILS_LOG_SEVERITY_INFO
  | RCUTILS_LOG_SEVERITY_WARN
  | RCUTILS_LOG_SEVERITY_ERROR
  | RCUTILS_LOG_SEVERITY_FATAL

definition RCUTILS_LOG_MIN_SEVERITY_DEBUG :: nat where
  "RCUTILS_LOG_MIN_SEVERITY_DEBUG = 0"

definition RCUTILS_LOG_MIN_SEVERITY_INFO :: nat where
  "RCUTILS_LOG_MIN_SEVERITY_INFO = 1"

definition RCUTILS_LOG_MIN_SEVERITY_WARN :: nat where
  "RCUTILS_LOG_MIN_SEVERITY_WARN = 2"

definition RCUTILS_LOG_MIN_SEVERITY_ERROR :: nat where
  "RCUTILS_LOG_MIN_SEVERITY_ERROR = 3"

definition RCUTILS_LOG_MIN_SEVERITY_FATAL :: nat where
  "RCUTILS_LOG_MIN_SEVERITY_FATAL = 4"

definition RCUTILS_LOG_MIN_SEVERITY_NONE :: nat where
  "RCUTILS_LOG_MIN_SEVERITY_NONE = 5"

text \<open>The value when the build does not define one.\<close>

definition RCUTILS_LOG_MIN_SEVERITY :: nat where
  "RCUTILS_LOG_MIN_SEVERITY = RCUTILS_LOG_MIN_SEVERITY_NONE"

lemmas min_severity_defs =
  RCUTILS_LOG_MIN_SEVERITY_DEBUG_def RCUTILS_LOG_MIN_SEVERITY_INFO_def
  RCUTILS_LOG_MIN_SEVERITY_WARN_def RCUTILS_LOG_MIN_SEVERITY_ERROR_def
  RCUTILS_LOG_MIN_SEVERITY_FATAL_def RCUTILS_LOG_MIN_SEVERITY_NONE_def
  RCUTILS_LOG_MIN_SEVERITY_def

subsection \<open>State and library\<close>

text \<open>A call to the library: the unconditional \<open>rcutils_log_internal\<close> or the public \<open>rcutils_log\<close>.\<close>

datatype log_record =
    Log_Internal log_severity "string option" string
  | Log log_severity "string option" string

record 'w log_state =
  logging_once :: nat
  logging_first :: bool
  logging_duration :: "u64 option"
  logging_last_logged :: u64
  world :: 'w
  log_output :: "log_record list"

type_synonym 'w stmt = "'w log_state \<Rightarrow> 'w log_state"

record 'w log_env =
  g_rcutils_logging_initialized :: "'w \<Rightarrow> bool"
  rcutils_logging_initialize :: "'w \<Rightarrow> int \<times> 'w"
  rcutils_reset_error :: "'w \<Rightarrow> 'w"
  rcutils_logging_logger_is_enabled_for :: "string option \<Rightarrow> log_severity \<Rightarrow> 'w \<Rightarrow> bool"

text \<open>A time source returns its code, the value it stored through the pointer if it stored one,
  and the world.\<close>

type_synonym 'w time_source = "'w \<Rightarrow> (int \<times> u64 option) \<times> 'w"

definition RCUTILS_RET_OK :: int where
  "RCUTILS_RET_OK = 0"

text \<open>The statics of a fresh expansion.\<close>

definition log_site :: "'w \<Rightarrow> log_record list \<Rightarrow> 'w log_state" where
  "log_site w out = \<lparr>logging_once = 0, logging_first = True, logging_duration = None,
     logging_last_logged = 0, world = w, log_output = out\<rparr>"

definition rcutils_log_internal :: "log_severity \<Rightarrow> string option \<Rightarrow> string \<Rightarrow> 'w stmt" where
  "rcutils_log_internal severity name msg s =
     s\<lparr>log_output := log_output s @ [Log_Internal severity name msg]\<rparr>"

definition rcutils_log :: "log_severity \<Rightarrow> string option \<Rightarrow> string \<Rightarrow> 'w stmt" where
  "rcutils_log severity name msg s = s\<lparr>log_output := log_output s @ [Log severity name msg]\<rparr>"

text \<open>With \<open>RCUTILS_NO_FILESYSTEM\<close>, as this library is configured, the three writes to stderr of
  a failed initialisation are empty.\<close>

definition RCUTILS_LOGGING_AUTOINIT :: "'w log_env \<Rightarrow> 'w stmt" where
  "RCUTILS_LOGGING_AUTOINIT env s =
     (if \<not> g_rcutils_logging_initialized env (world s)
      then (let (ret, w) = rcutils_logging_initialize env (world s)
            in s\<lparr>world := if ret \<noteq> RCUTILS_RET_OK then rcutils_reset_error env w else w\<rparr>)
      else s)"

definition RCUTILS_LOG_COND_NAMED ::
  "'w log_env \<Rightarrow> log_severity \<Rightarrow> ('w stmt \<Rightarrow> 'w stmt) \<Rightarrow> string option \<Rightarrow> string \<Rightarrow> 'w stmt" where
  "RCUTILS_LOG_COND_NAMED env severity condition name msg s =
     (let s' = RCUTILS_LOGGING_AUTOINIT env s
      in if rcutils_logging_logger_is_enabled_for env name severity (world s')
         then condition (rcutils_log_internal severity name msg) s'
         else s')"

subsection \<open>Conditions\<close>

definition RCUTILS_LOG_CONDITION_EMPTY :: "'w stmt \<Rightarrow> 'w stmt" where
  "RCUTILS_LOG_CONDITION_EMPTY body = body"

definition RCUTILS_LOG_CONDITION_ONCE :: "'w stmt \<Rightarrow> 'w stmt" where
  "RCUTILS_LOG_CONDITION_ONCE body s =
     (if 0 = logging_once s then body (s\<lparr>logging_once := 1\<rparr>) else s)"

definition RCUTILS_LOG_CONDITION_EXPRESSION :: "('w \<Rightarrow> bool \<times> 'w) \<Rightarrow> 'w stmt \<Rightarrow> 'w stmt" where
  "RCUTILS_LOG_CONDITION_EXPRESSION expression body s =
     (let (b, w) = expression (world s); s' = s\<lparr>world := w\<rparr> in if b then body s' else s')"

definition RCUTILS_LOG_CONDITION_FUNCTION :: "('w \<Rightarrow> bool \<times> 'w) \<Rightarrow> 'w stmt \<Rightarrow> 'w stmt" where
  "RCUTILS_LOG_CONDITION_FUNCTION function body s =
     (let (b, w) = function (world s); s' = s\<lparr>world := w\<rparr> in if b then body s' else s')"

definition RCUTILS_LOG_CONDITION_SKIPFIRST :: "'w stmt \<Rightarrow> 'w stmt" where
  "RCUTILS_LOG_CONDITION_SKIPFIRST body s =
     (if logging_first s then s\<lparr>logging_first := False\<rparr> else body s)"

text \<open>
  The static \<open>__rcutils_logging_duration\<close> is initialised the first time control reaches it.
  \<open>__rcutils_logging_now\<close> is 0 until the time source stores through the pointer; the
  comparison and the sum are on signed 64-bit values.
\<close>

definition RCUTILS_LOG_CONDITION_THROTTLE :: "'w time_source \<Rightarrow> u64 \<Rightarrow> 'w stmt \<Rightarrow> 'w stmt" where
  "RCUTILS_LOG_CONDITION_THROTTLE get dur body s =
     (let duration = (case logging_duration s of None \<Rightarrow> RCUTILS_MS_TO_NS dur | Some d \<Rightarrow> d);
          ((ret, stored), w) = get (world s);
          now = (case stored of None \<Rightarrow> 0 | Some t \<Rightarrow> t);
          s1 = s\<lparr>logging_duration := Some duration, world := w\<rparr>;
          failed = (ret \<noteq> RCUTILS_RET_OK);
          s2 = (if failed
                then rcutils_log RCUTILS_LOG_SEVERITY_ERROR (Some [])
                       ''getting current steady time failed'' s1
                else s1);
          go = (if failed then True
                else sint (logging_last_logged s2 + duration) \<le> sint now)
      in if go then body (s2\<lparr>logging_last_logged := now\<rparr>) else s2)"

lemmas condition_defs =
  RCUTILS_LOG_CONDITION_EMPTY_def RCUTILS_LOG_CONDITION_ONCE_def
  RCUTILS_LOG_CONDITION_EXPRESSION_def RCUTILS_LOG_CONDITION_FUNCTION_def
  RCUTILS_LOG_CONDITION_SKIPFIRST_def RCUTILS_LOG_CONDITION_THROTTLE_def

subsection \<open>The macros\<close>

text \<open>
  One definition per macro, in the order of the header. The first argument is the value of
  \<open>RCUTILS_LOG_MIN_SEVERITY\<close> in the build: above the severity of the macro the preprocessor
  takes the empty variant, \<open>id\<close>.
\<close>

definition RCUTILS_LOG_DEBUG ::
  "nat \<Rightarrow> 'w log_env \<Rightarrow> string \<Rightarrow> 'w stmt" where
  "RCUTILS_LOG_DEBUG min_severity env msg =
     (if min_severity > RCUTILS_LOG_MIN_SEVERITY_DEBUG then id
      else RCUTILS_LOG_COND_NAMED env RCUTILS_LOG_SEVERITY_DEBUG
             RCUTILS_LOG_CONDITION_EMPTY None msg)"

definition RCUTILS_LOG_DEBUG_NAMED ::
  "nat \<Rightarrow> 'w log_env \<Rightarrow> string \<Rightarrow> string \<Rightarrow> 'w stmt" where
  "RCUTILS_LOG_DEBUG_NAMED min_severity env name msg =
     (if min_severity > RCUTILS_LOG_MIN_SEVERITY_DEBUG then id
      else RCUTILS_LOG_COND_NAMED env RCUTILS_LOG_SEVERITY_DEBUG
             RCUTILS_LOG_CONDITION_EMPTY (Some name) msg)"

definition RCUTILS_LOG_DEBUG_ONCE ::
  "nat \<Rightarrow> 'w log_env \<Rightarrow> string \<Rightarrow> 'w stmt" where
  "RCUTILS_LOG_DEBUG_ONCE min_severity env msg =
     (if min_severity > RCUTILS_LOG_MIN_SEVERITY_DEBUG then id
      else RCUTILS_LOG_COND_NAMED env RCUTILS_LOG_SEVERITY_DEBUG
             RCUTILS_LOG_CONDITION_ONCE None msg)"

definition RCUTILS_LOG_DEBUG_ONCE_NAMED ::
  "nat \<Rightarrow> 'w log_env \<Rightarrow> string \<Rightarrow> string \<Rightarrow> 'w stmt" where
  "RCUTILS_LOG_DEBUG_ONCE_NAMED min_severity env name msg =
     (if min_severity > RCUTILS_LOG_MIN_SEVERITY_DEBUG then id
      else RCUTILS_LOG_COND_NAMED env RCUTILS_LOG_SEVERITY_DEBUG
             RCUTILS_LOG_CONDITION_ONCE (Some name) msg)"

definition RCUTILS_LOG_DEBUG_EXPRESSION ::
  "nat \<Rightarrow> 'w log_env \<Rightarrow> ('w \<Rightarrow> bool \<times> 'w) \<Rightarrow> string \<Rightarrow> 'w stmt" where
  "RCUTILS_LOG_DEBUG_EXPRESSION min_severity env expression msg =
     (if min_severity > RCUTILS_LOG_MIN_SEVERITY_DEBUG then id
      else RCUTILS_LOG_COND_NAMED env RCUTILS_LOG_SEVERITY_DEBUG
             (RCUTILS_LOG_CONDITION_EXPRESSION expression) None msg)"

definition RCUTILS_LOG_DEBUG_EXPRESSION_NAMED ::
  "nat \<Rightarrow> 'w log_env \<Rightarrow> ('w \<Rightarrow> bool \<times> 'w) \<Rightarrow> string \<Rightarrow> string \<Rightarrow> 'w stmt" where
  "RCUTILS_LOG_DEBUG_EXPRESSION_NAMED min_severity env expression name msg =
     (if min_severity > RCUTILS_LOG_MIN_SEVERITY_DEBUG then id
      else RCUTILS_LOG_COND_NAMED env RCUTILS_LOG_SEVERITY_DEBUG
             (RCUTILS_LOG_CONDITION_EXPRESSION expression) (Some name) msg)"

definition RCUTILS_LOG_DEBUG_FUNCTION ::
  "nat \<Rightarrow> 'w log_env \<Rightarrow> ('w \<Rightarrow> bool \<times> 'w) \<Rightarrow> string \<Rightarrow> 'w stmt" where
  "RCUTILS_LOG_DEBUG_FUNCTION min_severity env function msg =
     (if min_severity > RCUTILS_LOG_MIN_SEVERITY_DEBUG then id
      else RCUTILS_LOG_COND_NAMED env RCUTILS_LOG_SEVERITY_DEBUG
             (RCUTILS_LOG_CONDITION_FUNCTION function) None msg)"

definition RCUTILS_LOG_DEBUG_FUNCTION_NAMED ::
  "nat \<Rightarrow> 'w log_env \<Rightarrow> ('w \<Rightarrow> bool \<times> 'w) \<Rightarrow> string \<Rightarrow> string \<Rightarrow> 'w stmt" where
  "RCUTILS_LOG_DEBUG_FUNCTION_NAMED min_severity env function name msg =
     (if min_severity > RCUTILS_LOG_MIN_SEVERITY_DEBUG then id
      else RCUTILS_LOG_COND_NAMED env RCUTILS_LOG_SEVERITY_DEBUG
             (RCUTILS_LOG_CONDITION_FUNCTION function) (Some name) msg)"

definition RCUTILS_LOG_DEBUG_SKIPFIRST ::
  "nat \<Rightarrow> 'w log_env \<Rightarrow> string \<Rightarrow> 'w stmt" where
  "RCUTILS_LOG_DEBUG_SKIPFIRST min_severity env msg =
     (if min_severity > RCUTILS_LOG_MIN_SEVERITY_DEBUG then id
      else RCUTILS_LOG_COND_NAMED env RCUTILS_LOG_SEVERITY_DEBUG
             RCUTILS_LOG_CONDITION_SKIPFIRST None msg)"

definition RCUTILS_LOG_DEBUG_SKIPFIRST_NAMED ::
  "nat \<Rightarrow> 'w log_env \<Rightarrow> string \<Rightarrow> string \<Rightarrow> 'w stmt" where
  "RCUTILS_LOG_DEBUG_SKIPFIRST_NAMED min_severity env name msg =
     (if min_severity > RCUTILS_LOG_MIN_SEVERITY_DEBUG then id
      else RCUTILS_LOG_COND_NAMED env RCUTILS_LOG_SEVERITY_DEBUG
             RCUTILS_LOG_CONDITION_SKIPFIRST (Some name) msg)"

definition RCUTILS_LOG_DEBUG_THROTTLE ::
  "nat \<Rightarrow> 'w log_env \<Rightarrow> 'w time_source \<Rightarrow> u64 \<Rightarrow> string \<Rightarrow> 'w stmt" where
  "RCUTILS_LOG_DEBUG_THROTTLE min_severity env get dur msg =
     (if min_severity > RCUTILS_LOG_MIN_SEVERITY_DEBUG then id
      else RCUTILS_LOG_COND_NAMED env RCUTILS_LOG_SEVERITY_DEBUG
             (RCUTILS_LOG_CONDITION_THROTTLE get dur) None msg)"

definition RCUTILS_LOG_DEBUG_SKIPFIRST_THROTTLE ::
  "nat \<Rightarrow> 'w log_env \<Rightarrow> 'w time_source \<Rightarrow> u64 \<Rightarrow> string \<Rightarrow> 'w stmt" where
  "RCUTILS_LOG_DEBUG_SKIPFIRST_THROTTLE min_severity env get dur msg =
     (if min_severity > RCUTILS_LOG_MIN_SEVERITY_DEBUG then id
      else RCUTILS_LOG_COND_NAMED env RCUTILS_LOG_SEVERITY_DEBUG
             (RCUTILS_LOG_CONDITION_THROTTLE get dur \<circ> RCUTILS_LOG_CONDITION_SKIPFIRST) None msg)"

definition RCUTILS_LOG_DEBUG_THROTTLE_NAMED ::
  "nat \<Rightarrow> 'w log_env \<Rightarrow> 'w time_source \<Rightarrow> u64 \<Rightarrow> string \<Rightarrow> string \<Rightarrow> 'w stmt" where
  "RCUTILS_LOG_DEBUG_THROTTLE_NAMED min_severity env get dur name msg =
     (if min_severity > RCUTILS_LOG_MIN_SEVERITY_DEBUG then id
      else RCUTILS_LOG_COND_NAMED env RCUTILS_LOG_SEVERITY_DEBUG
             (RCUTILS_LOG_CONDITION_THROTTLE get dur) (Some name) msg)"

definition RCUTILS_LOG_DEBUG_SKIPFIRST_THROTTLE_NAMED ::
  "nat \<Rightarrow> 'w log_env \<Rightarrow> 'w time_source \<Rightarrow> u64 \<Rightarrow> string \<Rightarrow> string \<Rightarrow> 'w stmt" where
  "RCUTILS_LOG_DEBUG_SKIPFIRST_THROTTLE_NAMED min_severity env get dur name msg =
     (if min_severity > RCUTILS_LOG_MIN_SEVERITY_DEBUG then id
      else RCUTILS_LOG_COND_NAMED env RCUTILS_LOG_SEVERITY_DEBUG
             (RCUTILS_LOG_CONDITION_THROTTLE get dur \<circ> RCUTILS_LOG_CONDITION_SKIPFIRST) (Some name) msg)"

definition RCUTILS_LOG_INFO ::
  "nat \<Rightarrow> 'w log_env \<Rightarrow> string \<Rightarrow> 'w stmt" where
  "RCUTILS_LOG_INFO min_severity env msg =
     (if min_severity > RCUTILS_LOG_MIN_SEVERITY_INFO then id
      else RCUTILS_LOG_COND_NAMED env RCUTILS_LOG_SEVERITY_INFO
             RCUTILS_LOG_CONDITION_EMPTY None msg)"

definition RCUTILS_LOG_INFO_NAMED ::
  "nat \<Rightarrow> 'w log_env \<Rightarrow> string \<Rightarrow> string \<Rightarrow> 'w stmt" where
  "RCUTILS_LOG_INFO_NAMED min_severity env name msg =
     (if min_severity > RCUTILS_LOG_MIN_SEVERITY_INFO then id
      else RCUTILS_LOG_COND_NAMED env RCUTILS_LOG_SEVERITY_INFO
             RCUTILS_LOG_CONDITION_EMPTY (Some name) msg)"

definition RCUTILS_LOG_INFO_ONCE ::
  "nat \<Rightarrow> 'w log_env \<Rightarrow> string \<Rightarrow> 'w stmt" where
  "RCUTILS_LOG_INFO_ONCE min_severity env msg =
     (if min_severity > RCUTILS_LOG_MIN_SEVERITY_INFO then id
      else RCUTILS_LOG_COND_NAMED env RCUTILS_LOG_SEVERITY_INFO
             RCUTILS_LOG_CONDITION_ONCE None msg)"

definition RCUTILS_LOG_INFO_ONCE_NAMED ::
  "nat \<Rightarrow> 'w log_env \<Rightarrow> string \<Rightarrow> string \<Rightarrow> 'w stmt" where
  "RCUTILS_LOG_INFO_ONCE_NAMED min_severity env name msg =
     (if min_severity > RCUTILS_LOG_MIN_SEVERITY_INFO then id
      else RCUTILS_LOG_COND_NAMED env RCUTILS_LOG_SEVERITY_INFO
             RCUTILS_LOG_CONDITION_ONCE (Some name) msg)"

definition RCUTILS_LOG_INFO_EXPRESSION ::
  "nat \<Rightarrow> 'w log_env \<Rightarrow> ('w \<Rightarrow> bool \<times> 'w) \<Rightarrow> string \<Rightarrow> 'w stmt" where
  "RCUTILS_LOG_INFO_EXPRESSION min_severity env expression msg =
     (if min_severity > RCUTILS_LOG_MIN_SEVERITY_INFO then id
      else RCUTILS_LOG_COND_NAMED env RCUTILS_LOG_SEVERITY_INFO
             (RCUTILS_LOG_CONDITION_EXPRESSION expression) None msg)"

definition RCUTILS_LOG_INFO_EXPRESSION_NAMED ::
  "nat \<Rightarrow> 'w log_env \<Rightarrow> ('w \<Rightarrow> bool \<times> 'w) \<Rightarrow> string \<Rightarrow> string \<Rightarrow> 'w stmt" where
  "RCUTILS_LOG_INFO_EXPRESSION_NAMED min_severity env expression name msg =
     (if min_severity > RCUTILS_LOG_MIN_SEVERITY_INFO then id
      else RCUTILS_LOG_COND_NAMED env RCUTILS_LOG_SEVERITY_INFO
             (RCUTILS_LOG_CONDITION_EXPRESSION expression) (Some name) msg)"

definition RCUTILS_LOG_INFO_FUNCTION ::
  "nat \<Rightarrow> 'w log_env \<Rightarrow> ('w \<Rightarrow> bool \<times> 'w) \<Rightarrow> string \<Rightarrow> 'w stmt" where
  "RCUTILS_LOG_INFO_FUNCTION min_severity env function msg =
     (if min_severity > RCUTILS_LOG_MIN_SEVERITY_INFO then id
      else RCUTILS_LOG_COND_NAMED env RCUTILS_LOG_SEVERITY_INFO
             (RCUTILS_LOG_CONDITION_FUNCTION function) None msg)"

definition RCUTILS_LOG_INFO_FUNCTION_NAMED ::
  "nat \<Rightarrow> 'w log_env \<Rightarrow> ('w \<Rightarrow> bool \<times> 'w) \<Rightarrow> string \<Rightarrow> string \<Rightarrow> 'w stmt" where
  "RCUTILS_LOG_INFO_FUNCTION_NAMED min_severity env function name msg =
     (if min_severity > RCUTILS_LOG_MIN_SEVERITY_INFO then id
      else RCUTILS_LOG_COND_NAMED env RCUTILS_LOG_SEVERITY_INFO
             (RCUTILS_LOG_CONDITION_FUNCTION function) (Some name) msg)"

definition RCUTILS_LOG_INFO_SKIPFIRST ::
  "nat \<Rightarrow> 'w log_env \<Rightarrow> string \<Rightarrow> 'w stmt" where
  "RCUTILS_LOG_INFO_SKIPFIRST min_severity env msg =
     (if min_severity > RCUTILS_LOG_MIN_SEVERITY_INFO then id
      else RCUTILS_LOG_COND_NAMED env RCUTILS_LOG_SEVERITY_INFO
             RCUTILS_LOG_CONDITION_SKIPFIRST None msg)"

definition RCUTILS_LOG_INFO_SKIPFIRST_NAMED ::
  "nat \<Rightarrow> 'w log_env \<Rightarrow> string \<Rightarrow> string \<Rightarrow> 'w stmt" where
  "RCUTILS_LOG_INFO_SKIPFIRST_NAMED min_severity env name msg =
     (if min_severity > RCUTILS_LOG_MIN_SEVERITY_INFO then id
      else RCUTILS_LOG_COND_NAMED env RCUTILS_LOG_SEVERITY_INFO
             RCUTILS_LOG_CONDITION_SKIPFIRST (Some name) msg)"

definition RCUTILS_LOG_INFO_THROTTLE ::
  "nat \<Rightarrow> 'w log_env \<Rightarrow> 'w time_source \<Rightarrow> u64 \<Rightarrow> string \<Rightarrow> 'w stmt" where
  "RCUTILS_LOG_INFO_THROTTLE min_severity env get dur msg =
     (if min_severity > RCUTILS_LOG_MIN_SEVERITY_INFO then id
      else RCUTILS_LOG_COND_NAMED env RCUTILS_LOG_SEVERITY_INFO
             (RCUTILS_LOG_CONDITION_THROTTLE get dur) None msg)"

definition RCUTILS_LOG_INFO_SKIPFIRST_THROTTLE ::
  "nat \<Rightarrow> 'w log_env \<Rightarrow> 'w time_source \<Rightarrow> u64 \<Rightarrow> string \<Rightarrow> 'w stmt" where
  "RCUTILS_LOG_INFO_SKIPFIRST_THROTTLE min_severity env get dur msg =
     (if min_severity > RCUTILS_LOG_MIN_SEVERITY_INFO then id
      else RCUTILS_LOG_COND_NAMED env RCUTILS_LOG_SEVERITY_INFO
             (RCUTILS_LOG_CONDITION_THROTTLE get dur \<circ> RCUTILS_LOG_CONDITION_SKIPFIRST) None msg)"

definition RCUTILS_LOG_INFO_THROTTLE_NAMED ::
  "nat \<Rightarrow> 'w log_env \<Rightarrow> 'w time_source \<Rightarrow> u64 \<Rightarrow> string \<Rightarrow> string \<Rightarrow> 'w stmt" where
  "RCUTILS_LOG_INFO_THROTTLE_NAMED min_severity env get dur name msg =
     (if min_severity > RCUTILS_LOG_MIN_SEVERITY_INFO then id
      else RCUTILS_LOG_COND_NAMED env RCUTILS_LOG_SEVERITY_INFO
             (RCUTILS_LOG_CONDITION_THROTTLE get dur) (Some name) msg)"

definition RCUTILS_LOG_INFO_SKIPFIRST_THROTTLE_NAMED ::
  "nat \<Rightarrow> 'w log_env \<Rightarrow> 'w time_source \<Rightarrow> u64 \<Rightarrow> string \<Rightarrow> string \<Rightarrow> 'w stmt" where
  "RCUTILS_LOG_INFO_SKIPFIRST_THROTTLE_NAMED min_severity env get dur name msg =
     (if min_severity > RCUTILS_LOG_MIN_SEVERITY_INFO then id
      else RCUTILS_LOG_COND_NAMED env RCUTILS_LOG_SEVERITY_INFO
             (RCUTILS_LOG_CONDITION_THROTTLE get dur \<circ> RCUTILS_LOG_CONDITION_SKIPFIRST) (Some name) msg)"

definition RCUTILS_LOG_WARN ::
  "nat \<Rightarrow> 'w log_env \<Rightarrow> string \<Rightarrow> 'w stmt" where
  "RCUTILS_LOG_WARN min_severity env msg =
     (if min_severity > RCUTILS_LOG_MIN_SEVERITY_WARN then id
      else RCUTILS_LOG_COND_NAMED env RCUTILS_LOG_SEVERITY_WARN
             RCUTILS_LOG_CONDITION_EMPTY None msg)"

definition RCUTILS_LOG_WARN_NAMED ::
  "nat \<Rightarrow> 'w log_env \<Rightarrow> string \<Rightarrow> string \<Rightarrow> 'w stmt" where
  "RCUTILS_LOG_WARN_NAMED min_severity env name msg =
     (if min_severity > RCUTILS_LOG_MIN_SEVERITY_WARN then id
      else RCUTILS_LOG_COND_NAMED env RCUTILS_LOG_SEVERITY_WARN
             RCUTILS_LOG_CONDITION_EMPTY (Some name) msg)"

definition RCUTILS_LOG_WARN_ONCE ::
  "nat \<Rightarrow> 'w log_env \<Rightarrow> string \<Rightarrow> 'w stmt" where
  "RCUTILS_LOG_WARN_ONCE min_severity env msg =
     (if min_severity > RCUTILS_LOG_MIN_SEVERITY_WARN then id
      else RCUTILS_LOG_COND_NAMED env RCUTILS_LOG_SEVERITY_WARN
             RCUTILS_LOG_CONDITION_ONCE None msg)"

definition RCUTILS_LOG_WARN_ONCE_NAMED ::
  "nat \<Rightarrow> 'w log_env \<Rightarrow> string \<Rightarrow> string \<Rightarrow> 'w stmt" where
  "RCUTILS_LOG_WARN_ONCE_NAMED min_severity env name msg =
     (if min_severity > RCUTILS_LOG_MIN_SEVERITY_WARN then id
      else RCUTILS_LOG_COND_NAMED env RCUTILS_LOG_SEVERITY_WARN
             RCUTILS_LOG_CONDITION_ONCE (Some name) msg)"

definition RCUTILS_LOG_WARN_EXPRESSION ::
  "nat \<Rightarrow> 'w log_env \<Rightarrow> ('w \<Rightarrow> bool \<times> 'w) \<Rightarrow> string \<Rightarrow> 'w stmt" where
  "RCUTILS_LOG_WARN_EXPRESSION min_severity env expression msg =
     (if min_severity > RCUTILS_LOG_MIN_SEVERITY_WARN then id
      else RCUTILS_LOG_COND_NAMED env RCUTILS_LOG_SEVERITY_WARN
             (RCUTILS_LOG_CONDITION_EXPRESSION expression) None msg)"

definition RCUTILS_LOG_WARN_EXPRESSION_NAMED ::
  "nat \<Rightarrow> 'w log_env \<Rightarrow> ('w \<Rightarrow> bool \<times> 'w) \<Rightarrow> string \<Rightarrow> string \<Rightarrow> 'w stmt" where
  "RCUTILS_LOG_WARN_EXPRESSION_NAMED min_severity env expression name msg =
     (if min_severity > RCUTILS_LOG_MIN_SEVERITY_WARN then id
      else RCUTILS_LOG_COND_NAMED env RCUTILS_LOG_SEVERITY_WARN
             (RCUTILS_LOG_CONDITION_EXPRESSION expression) (Some name) msg)"

definition RCUTILS_LOG_WARN_FUNCTION ::
  "nat \<Rightarrow> 'w log_env \<Rightarrow> ('w \<Rightarrow> bool \<times> 'w) \<Rightarrow> string \<Rightarrow> 'w stmt" where
  "RCUTILS_LOG_WARN_FUNCTION min_severity env function msg =
     (if min_severity > RCUTILS_LOG_MIN_SEVERITY_WARN then id
      else RCUTILS_LOG_COND_NAMED env RCUTILS_LOG_SEVERITY_WARN
             (RCUTILS_LOG_CONDITION_FUNCTION function) None msg)"

definition RCUTILS_LOG_WARN_FUNCTION_NAMED ::
  "nat \<Rightarrow> 'w log_env \<Rightarrow> ('w \<Rightarrow> bool \<times> 'w) \<Rightarrow> string \<Rightarrow> string \<Rightarrow> 'w stmt" where
  "RCUTILS_LOG_WARN_FUNCTION_NAMED min_severity env function name msg =
     (if min_severity > RCUTILS_LOG_MIN_SEVERITY_WARN then id
      else RCUTILS_LOG_COND_NAMED env RCUTILS_LOG_SEVERITY_WARN
             (RCUTILS_LOG_CONDITION_FUNCTION function) (Some name) msg)"

definition RCUTILS_LOG_WARN_SKIPFIRST ::
  "nat \<Rightarrow> 'w log_env \<Rightarrow> string \<Rightarrow> 'w stmt" where
  "RCUTILS_LOG_WARN_SKIPFIRST min_severity env msg =
     (if min_severity > RCUTILS_LOG_MIN_SEVERITY_WARN then id
      else RCUTILS_LOG_COND_NAMED env RCUTILS_LOG_SEVERITY_WARN
             RCUTILS_LOG_CONDITION_SKIPFIRST None msg)"

definition RCUTILS_LOG_WARN_SKIPFIRST_NAMED ::
  "nat \<Rightarrow> 'w log_env \<Rightarrow> string \<Rightarrow> string \<Rightarrow> 'w stmt" where
  "RCUTILS_LOG_WARN_SKIPFIRST_NAMED min_severity env name msg =
     (if min_severity > RCUTILS_LOG_MIN_SEVERITY_WARN then id
      else RCUTILS_LOG_COND_NAMED env RCUTILS_LOG_SEVERITY_WARN
             RCUTILS_LOG_CONDITION_SKIPFIRST (Some name) msg)"

definition RCUTILS_LOG_WARN_THROTTLE ::
  "nat \<Rightarrow> 'w log_env \<Rightarrow> 'w time_source \<Rightarrow> u64 \<Rightarrow> string \<Rightarrow> 'w stmt" where
  "RCUTILS_LOG_WARN_THROTTLE min_severity env get dur msg =
     (if min_severity > RCUTILS_LOG_MIN_SEVERITY_WARN then id
      else RCUTILS_LOG_COND_NAMED env RCUTILS_LOG_SEVERITY_WARN
             (RCUTILS_LOG_CONDITION_THROTTLE get dur) None msg)"

definition RCUTILS_LOG_WARN_SKIPFIRST_THROTTLE ::
  "nat \<Rightarrow> 'w log_env \<Rightarrow> 'w time_source \<Rightarrow> u64 \<Rightarrow> string \<Rightarrow> 'w stmt" where
  "RCUTILS_LOG_WARN_SKIPFIRST_THROTTLE min_severity env get dur msg =
     (if min_severity > RCUTILS_LOG_MIN_SEVERITY_WARN then id
      else RCUTILS_LOG_COND_NAMED env RCUTILS_LOG_SEVERITY_WARN
             (RCUTILS_LOG_CONDITION_THROTTLE get dur \<circ> RCUTILS_LOG_CONDITION_SKIPFIRST) None msg)"

definition RCUTILS_LOG_WARN_THROTTLE_NAMED ::
  "nat \<Rightarrow> 'w log_env \<Rightarrow> 'w time_source \<Rightarrow> u64 \<Rightarrow> string \<Rightarrow> string \<Rightarrow> 'w stmt" where
  "RCUTILS_LOG_WARN_THROTTLE_NAMED min_severity env get dur name msg =
     (if min_severity > RCUTILS_LOG_MIN_SEVERITY_WARN then id
      else RCUTILS_LOG_COND_NAMED env RCUTILS_LOG_SEVERITY_WARN
             (RCUTILS_LOG_CONDITION_THROTTLE get dur) (Some name) msg)"

definition RCUTILS_LOG_WARN_SKIPFIRST_THROTTLE_NAMED ::
  "nat \<Rightarrow> 'w log_env \<Rightarrow> 'w time_source \<Rightarrow> u64 \<Rightarrow> string \<Rightarrow> string \<Rightarrow> 'w stmt" where
  "RCUTILS_LOG_WARN_SKIPFIRST_THROTTLE_NAMED min_severity env get dur name msg =
     (if min_severity > RCUTILS_LOG_MIN_SEVERITY_WARN then id
      else RCUTILS_LOG_COND_NAMED env RCUTILS_LOG_SEVERITY_WARN
             (RCUTILS_LOG_CONDITION_THROTTLE get dur \<circ> RCUTILS_LOG_CONDITION_SKIPFIRST) (Some name) msg)"

definition RCUTILS_LOG_ERROR ::
  "nat \<Rightarrow> 'w log_env \<Rightarrow> string \<Rightarrow> 'w stmt" where
  "RCUTILS_LOG_ERROR min_severity env msg =
     (if min_severity > RCUTILS_LOG_MIN_SEVERITY_ERROR then id
      else RCUTILS_LOG_COND_NAMED env RCUTILS_LOG_SEVERITY_ERROR
             RCUTILS_LOG_CONDITION_EMPTY None msg)"

definition RCUTILS_LOG_ERROR_NAMED ::
  "nat \<Rightarrow> 'w log_env \<Rightarrow> string \<Rightarrow> string \<Rightarrow> 'w stmt" where
  "RCUTILS_LOG_ERROR_NAMED min_severity env name msg =
     (if min_severity > RCUTILS_LOG_MIN_SEVERITY_ERROR then id
      else RCUTILS_LOG_COND_NAMED env RCUTILS_LOG_SEVERITY_ERROR
             RCUTILS_LOG_CONDITION_EMPTY (Some name) msg)"

definition RCUTILS_LOG_ERROR_ONCE ::
  "nat \<Rightarrow> 'w log_env \<Rightarrow> string \<Rightarrow> 'w stmt" where
  "RCUTILS_LOG_ERROR_ONCE min_severity env msg =
     (if min_severity > RCUTILS_LOG_MIN_SEVERITY_ERROR then id
      else RCUTILS_LOG_COND_NAMED env RCUTILS_LOG_SEVERITY_ERROR
             RCUTILS_LOG_CONDITION_ONCE None msg)"

definition RCUTILS_LOG_ERROR_ONCE_NAMED ::
  "nat \<Rightarrow> 'w log_env \<Rightarrow> string \<Rightarrow> string \<Rightarrow> 'w stmt" where
  "RCUTILS_LOG_ERROR_ONCE_NAMED min_severity env name msg =
     (if min_severity > RCUTILS_LOG_MIN_SEVERITY_ERROR then id
      else RCUTILS_LOG_COND_NAMED env RCUTILS_LOG_SEVERITY_ERROR
             RCUTILS_LOG_CONDITION_ONCE (Some name) msg)"

definition RCUTILS_LOG_ERROR_EXPRESSION ::
  "nat \<Rightarrow> 'w log_env \<Rightarrow> ('w \<Rightarrow> bool \<times> 'w) \<Rightarrow> string \<Rightarrow> 'w stmt" where
  "RCUTILS_LOG_ERROR_EXPRESSION min_severity env expression msg =
     (if min_severity > RCUTILS_LOG_MIN_SEVERITY_ERROR then id
      else RCUTILS_LOG_COND_NAMED env RCUTILS_LOG_SEVERITY_ERROR
             (RCUTILS_LOG_CONDITION_EXPRESSION expression) None msg)"

definition RCUTILS_LOG_ERROR_EXPRESSION_NAMED ::
  "nat \<Rightarrow> 'w log_env \<Rightarrow> ('w \<Rightarrow> bool \<times> 'w) \<Rightarrow> string \<Rightarrow> string \<Rightarrow> 'w stmt" where
  "RCUTILS_LOG_ERROR_EXPRESSION_NAMED min_severity env expression name msg =
     (if min_severity > RCUTILS_LOG_MIN_SEVERITY_ERROR then id
      else RCUTILS_LOG_COND_NAMED env RCUTILS_LOG_SEVERITY_ERROR
             (RCUTILS_LOG_CONDITION_EXPRESSION expression) (Some name) msg)"

definition RCUTILS_LOG_ERROR_FUNCTION ::
  "nat \<Rightarrow> 'w log_env \<Rightarrow> ('w \<Rightarrow> bool \<times> 'w) \<Rightarrow> string \<Rightarrow> 'w stmt" where
  "RCUTILS_LOG_ERROR_FUNCTION min_severity env function msg =
     (if min_severity > RCUTILS_LOG_MIN_SEVERITY_ERROR then id
      else RCUTILS_LOG_COND_NAMED env RCUTILS_LOG_SEVERITY_ERROR
             (RCUTILS_LOG_CONDITION_FUNCTION function) None msg)"

definition RCUTILS_LOG_ERROR_FUNCTION_NAMED ::
  "nat \<Rightarrow> 'w log_env \<Rightarrow> ('w \<Rightarrow> bool \<times> 'w) \<Rightarrow> string \<Rightarrow> string \<Rightarrow> 'w stmt" where
  "RCUTILS_LOG_ERROR_FUNCTION_NAMED min_severity env function name msg =
     (if min_severity > RCUTILS_LOG_MIN_SEVERITY_ERROR then id
      else RCUTILS_LOG_COND_NAMED env RCUTILS_LOG_SEVERITY_ERROR
             (RCUTILS_LOG_CONDITION_FUNCTION function) (Some name) msg)"

definition RCUTILS_LOG_ERROR_SKIPFIRST ::
  "nat \<Rightarrow> 'w log_env \<Rightarrow> string \<Rightarrow> 'w stmt" where
  "RCUTILS_LOG_ERROR_SKIPFIRST min_severity env msg =
     (if min_severity > RCUTILS_LOG_MIN_SEVERITY_ERROR then id
      else RCUTILS_LOG_COND_NAMED env RCUTILS_LOG_SEVERITY_ERROR
             RCUTILS_LOG_CONDITION_SKIPFIRST None msg)"

definition RCUTILS_LOG_ERROR_SKIPFIRST_NAMED ::
  "nat \<Rightarrow> 'w log_env \<Rightarrow> string \<Rightarrow> string \<Rightarrow> 'w stmt" where
  "RCUTILS_LOG_ERROR_SKIPFIRST_NAMED min_severity env name msg =
     (if min_severity > RCUTILS_LOG_MIN_SEVERITY_ERROR then id
      else RCUTILS_LOG_COND_NAMED env RCUTILS_LOG_SEVERITY_ERROR
             RCUTILS_LOG_CONDITION_SKIPFIRST (Some name) msg)"

definition RCUTILS_LOG_ERROR_THROTTLE ::
  "nat \<Rightarrow> 'w log_env \<Rightarrow> 'w time_source \<Rightarrow> u64 \<Rightarrow> string \<Rightarrow> 'w stmt" where
  "RCUTILS_LOG_ERROR_THROTTLE min_severity env get dur msg =
     (if min_severity > RCUTILS_LOG_MIN_SEVERITY_ERROR then id
      else RCUTILS_LOG_COND_NAMED env RCUTILS_LOG_SEVERITY_ERROR
             (RCUTILS_LOG_CONDITION_THROTTLE get dur) None msg)"

definition RCUTILS_LOG_ERROR_SKIPFIRST_THROTTLE ::
  "nat \<Rightarrow> 'w log_env \<Rightarrow> 'w time_source \<Rightarrow> u64 \<Rightarrow> string \<Rightarrow> 'w stmt" where
  "RCUTILS_LOG_ERROR_SKIPFIRST_THROTTLE min_severity env get dur msg =
     (if min_severity > RCUTILS_LOG_MIN_SEVERITY_ERROR then id
      else RCUTILS_LOG_COND_NAMED env RCUTILS_LOG_SEVERITY_ERROR
             (RCUTILS_LOG_CONDITION_THROTTLE get dur \<circ> RCUTILS_LOG_CONDITION_SKIPFIRST) None msg)"

definition RCUTILS_LOG_ERROR_THROTTLE_NAMED ::
  "nat \<Rightarrow> 'w log_env \<Rightarrow> 'w time_source \<Rightarrow> u64 \<Rightarrow> string \<Rightarrow> string \<Rightarrow> 'w stmt" where
  "RCUTILS_LOG_ERROR_THROTTLE_NAMED min_severity env get dur name msg =
     (if min_severity > RCUTILS_LOG_MIN_SEVERITY_ERROR then id
      else RCUTILS_LOG_COND_NAMED env RCUTILS_LOG_SEVERITY_ERROR
             (RCUTILS_LOG_CONDITION_THROTTLE get dur) (Some name) msg)"

definition RCUTILS_LOG_ERROR_SKIPFIRST_THROTTLE_NAMED ::
  "nat \<Rightarrow> 'w log_env \<Rightarrow> 'w time_source \<Rightarrow> u64 \<Rightarrow> string \<Rightarrow> string \<Rightarrow> 'w stmt" where
  "RCUTILS_LOG_ERROR_SKIPFIRST_THROTTLE_NAMED min_severity env get dur name msg =
     (if min_severity > RCUTILS_LOG_MIN_SEVERITY_ERROR then id
      else RCUTILS_LOG_COND_NAMED env RCUTILS_LOG_SEVERITY_ERROR
             (RCUTILS_LOG_CONDITION_THROTTLE get dur \<circ> RCUTILS_LOG_CONDITION_SKIPFIRST) (Some name) msg)"

definition RCUTILS_LOG_FATAL ::
  "nat \<Rightarrow> 'w log_env \<Rightarrow> string \<Rightarrow> 'w stmt" where
  "RCUTILS_LOG_FATAL min_severity env msg =
     (if min_severity > RCUTILS_LOG_MIN_SEVERITY_FATAL then id
      else RCUTILS_LOG_COND_NAMED env RCUTILS_LOG_SEVERITY_FATAL
             RCUTILS_LOG_CONDITION_EMPTY None msg)"

definition RCUTILS_LOG_FATAL_NAMED ::
  "nat \<Rightarrow> 'w log_env \<Rightarrow> string \<Rightarrow> string \<Rightarrow> 'w stmt" where
  "RCUTILS_LOG_FATAL_NAMED min_severity env name msg =
     (if min_severity > RCUTILS_LOG_MIN_SEVERITY_FATAL then id
      else RCUTILS_LOG_COND_NAMED env RCUTILS_LOG_SEVERITY_FATAL
             RCUTILS_LOG_CONDITION_EMPTY (Some name) msg)"

definition RCUTILS_LOG_FATAL_ONCE ::
  "nat \<Rightarrow> 'w log_env \<Rightarrow> string \<Rightarrow> 'w stmt" where
  "RCUTILS_LOG_FATAL_ONCE min_severity env msg =
     (if min_severity > RCUTILS_LOG_MIN_SEVERITY_FATAL then id
      else RCUTILS_LOG_COND_NAMED env RCUTILS_LOG_SEVERITY_FATAL
             RCUTILS_LOG_CONDITION_ONCE None msg)"

definition RCUTILS_LOG_FATAL_ONCE_NAMED ::
  "nat \<Rightarrow> 'w log_env \<Rightarrow> string \<Rightarrow> string \<Rightarrow> 'w stmt" where
  "RCUTILS_LOG_FATAL_ONCE_NAMED min_severity env name msg =
     (if min_severity > RCUTILS_LOG_MIN_SEVERITY_FATAL then id
      else RCUTILS_LOG_COND_NAMED env RCUTILS_LOG_SEVERITY_FATAL
             RCUTILS_LOG_CONDITION_ONCE (Some name) msg)"

definition RCUTILS_LOG_FATAL_EXPRESSION ::
  "nat \<Rightarrow> 'w log_env \<Rightarrow> ('w \<Rightarrow> bool \<times> 'w) \<Rightarrow> string \<Rightarrow> 'w stmt" where
  "RCUTILS_LOG_FATAL_EXPRESSION min_severity env expression msg =
     (if min_severity > RCUTILS_LOG_MIN_SEVERITY_FATAL then id
      else RCUTILS_LOG_COND_NAMED env RCUTILS_LOG_SEVERITY_FATAL
             (RCUTILS_LOG_CONDITION_EXPRESSION expression) None msg)"

definition RCUTILS_LOG_FATAL_EXPRESSION_NAMED ::
  "nat \<Rightarrow> 'w log_env \<Rightarrow> ('w \<Rightarrow> bool \<times> 'w) \<Rightarrow> string \<Rightarrow> string \<Rightarrow> 'w stmt" where
  "RCUTILS_LOG_FATAL_EXPRESSION_NAMED min_severity env expression name msg =
     (if min_severity > RCUTILS_LOG_MIN_SEVERITY_FATAL then id
      else RCUTILS_LOG_COND_NAMED env RCUTILS_LOG_SEVERITY_FATAL
             (RCUTILS_LOG_CONDITION_EXPRESSION expression) (Some name) msg)"

definition RCUTILS_LOG_FATAL_FUNCTION ::
  "nat \<Rightarrow> 'w log_env \<Rightarrow> ('w \<Rightarrow> bool \<times> 'w) \<Rightarrow> string \<Rightarrow> 'w stmt" where
  "RCUTILS_LOG_FATAL_FUNCTION min_severity env function msg =
     (if min_severity > RCUTILS_LOG_MIN_SEVERITY_FATAL then id
      else RCUTILS_LOG_COND_NAMED env RCUTILS_LOG_SEVERITY_FATAL
             (RCUTILS_LOG_CONDITION_FUNCTION function) None msg)"

definition RCUTILS_LOG_FATAL_FUNCTION_NAMED ::
  "nat \<Rightarrow> 'w log_env \<Rightarrow> ('w \<Rightarrow> bool \<times> 'w) \<Rightarrow> string \<Rightarrow> string \<Rightarrow> 'w stmt" where
  "RCUTILS_LOG_FATAL_FUNCTION_NAMED min_severity env function name msg =
     (if min_severity > RCUTILS_LOG_MIN_SEVERITY_FATAL then id
      else RCUTILS_LOG_COND_NAMED env RCUTILS_LOG_SEVERITY_FATAL
             (RCUTILS_LOG_CONDITION_FUNCTION function) (Some name) msg)"

definition RCUTILS_LOG_FATAL_SKIPFIRST ::
  "nat \<Rightarrow> 'w log_env \<Rightarrow> string \<Rightarrow> 'w stmt" where
  "RCUTILS_LOG_FATAL_SKIPFIRST min_severity env msg =
     (if min_severity > RCUTILS_LOG_MIN_SEVERITY_FATAL then id
      else RCUTILS_LOG_COND_NAMED env RCUTILS_LOG_SEVERITY_FATAL
             RCUTILS_LOG_CONDITION_SKIPFIRST None msg)"

definition RCUTILS_LOG_FATAL_SKIPFIRST_NAMED ::
  "nat \<Rightarrow> 'w log_env \<Rightarrow> string \<Rightarrow> string \<Rightarrow> 'w stmt" where
  "RCUTILS_LOG_FATAL_SKIPFIRST_NAMED min_severity env name msg =
     (if min_severity > RCUTILS_LOG_MIN_SEVERITY_FATAL then id
      else RCUTILS_LOG_COND_NAMED env RCUTILS_LOG_SEVERITY_FATAL
             RCUTILS_LOG_CONDITION_SKIPFIRST (Some name) msg)"

definition RCUTILS_LOG_FATAL_THROTTLE ::
  "nat \<Rightarrow> 'w log_env \<Rightarrow> 'w time_source \<Rightarrow> u64 \<Rightarrow> string \<Rightarrow> 'w stmt" where
  "RCUTILS_LOG_FATAL_THROTTLE min_severity env get dur msg =
     (if min_severity > RCUTILS_LOG_MIN_SEVERITY_FATAL then id
      else RCUTILS_LOG_COND_NAMED env RCUTILS_LOG_SEVERITY_FATAL
             (RCUTILS_LOG_CONDITION_THROTTLE get dur) None msg)"

definition RCUTILS_LOG_FATAL_SKIPFIRST_THROTTLE ::
  "nat \<Rightarrow> 'w log_env \<Rightarrow> 'w time_source \<Rightarrow> u64 \<Rightarrow> string \<Rightarrow> 'w stmt" where
  "RCUTILS_LOG_FATAL_SKIPFIRST_THROTTLE min_severity env get dur msg =
     (if min_severity > RCUTILS_LOG_MIN_SEVERITY_FATAL then id
      else RCUTILS_LOG_COND_NAMED env RCUTILS_LOG_SEVERITY_FATAL
             (RCUTILS_LOG_CONDITION_THROTTLE get dur \<circ> RCUTILS_LOG_CONDITION_SKIPFIRST) None msg)"

definition RCUTILS_LOG_FATAL_THROTTLE_NAMED ::
  "nat \<Rightarrow> 'w log_env \<Rightarrow> 'w time_source \<Rightarrow> u64 \<Rightarrow> string \<Rightarrow> string \<Rightarrow> 'w stmt" where
  "RCUTILS_LOG_FATAL_THROTTLE_NAMED min_severity env get dur name msg =
     (if min_severity > RCUTILS_LOG_MIN_SEVERITY_FATAL then id
      else RCUTILS_LOG_COND_NAMED env RCUTILS_LOG_SEVERITY_FATAL
             (RCUTILS_LOG_CONDITION_THROTTLE get dur) (Some name) msg)"

definition RCUTILS_LOG_FATAL_SKIPFIRST_THROTTLE_NAMED ::
  "nat \<Rightarrow> 'w log_env \<Rightarrow> 'w time_source \<Rightarrow> u64 \<Rightarrow> string \<Rightarrow> string \<Rightarrow> 'w stmt" where
  "RCUTILS_LOG_FATAL_SKIPFIRST_THROTTLE_NAMED min_severity env get dur name msg =
     (if min_severity > RCUTILS_LOG_MIN_SEVERITY_FATAL then id
      else RCUTILS_LOG_COND_NAMED env RCUTILS_LOG_SEVERITY_FATAL
             (RCUTILS_LOG_CONDITION_THROTTLE get dur \<circ> RCUTILS_LOG_CONDITION_SKIPFIRST) (Some name) msg)"

lemmas log_debug_defs =
  RCUTILS_LOG_DEBUG_def RCUTILS_LOG_DEBUG_NAMED_def
  RCUTILS_LOG_DEBUG_ONCE_def RCUTILS_LOG_DEBUG_ONCE_NAMED_def
  RCUTILS_LOG_DEBUG_EXPRESSION_def RCUTILS_LOG_DEBUG_EXPRESSION_NAMED_def
  RCUTILS_LOG_DEBUG_FUNCTION_def RCUTILS_LOG_DEBUG_FUNCTION_NAMED_def
  RCUTILS_LOG_DEBUG_SKIPFIRST_def RCUTILS_LOG_DEBUG_SKIPFIRST_NAMED_def
  RCUTILS_LOG_DEBUG_THROTTLE_def RCUTILS_LOG_DEBUG_SKIPFIRST_THROTTLE_def
  RCUTILS_LOG_DEBUG_THROTTLE_NAMED_def RCUTILS_LOG_DEBUG_SKIPFIRST_THROTTLE_NAMED_def

lemmas log_info_defs =
  RCUTILS_LOG_INFO_def RCUTILS_LOG_INFO_NAMED_def
  RCUTILS_LOG_INFO_ONCE_def RCUTILS_LOG_INFO_ONCE_NAMED_def
  RCUTILS_LOG_INFO_EXPRESSION_def RCUTILS_LOG_INFO_EXPRESSION_NAMED_def
  RCUTILS_LOG_INFO_FUNCTION_def RCUTILS_LOG_INFO_FUNCTION_NAMED_def
  RCUTILS_LOG_INFO_SKIPFIRST_def RCUTILS_LOG_INFO_SKIPFIRST_NAMED_def
  RCUTILS_LOG_INFO_THROTTLE_def RCUTILS_LOG_INFO_SKIPFIRST_THROTTLE_def
  RCUTILS_LOG_INFO_THROTTLE_NAMED_def RCUTILS_LOG_INFO_SKIPFIRST_THROTTLE_NAMED_def

lemmas log_warn_defs =
  RCUTILS_LOG_WARN_def RCUTILS_LOG_WARN_NAMED_def
  RCUTILS_LOG_WARN_ONCE_def RCUTILS_LOG_WARN_ONCE_NAMED_def
  RCUTILS_LOG_WARN_EXPRESSION_def RCUTILS_LOG_WARN_EXPRESSION_NAMED_def
  RCUTILS_LOG_WARN_FUNCTION_def RCUTILS_LOG_WARN_FUNCTION_NAMED_def
  RCUTILS_LOG_WARN_SKIPFIRST_def RCUTILS_LOG_WARN_SKIPFIRST_NAMED_def
  RCUTILS_LOG_WARN_THROTTLE_def RCUTILS_LOG_WARN_SKIPFIRST_THROTTLE_def
  RCUTILS_LOG_WARN_THROTTLE_NAMED_def RCUTILS_LOG_WARN_SKIPFIRST_THROTTLE_NAMED_def

lemmas log_error_defs =
  RCUTILS_LOG_ERROR_def RCUTILS_LOG_ERROR_NAMED_def
  RCUTILS_LOG_ERROR_ONCE_def RCUTILS_LOG_ERROR_ONCE_NAMED_def
  RCUTILS_LOG_ERROR_EXPRESSION_def RCUTILS_LOG_ERROR_EXPRESSION_NAMED_def
  RCUTILS_LOG_ERROR_FUNCTION_def RCUTILS_LOG_ERROR_FUNCTION_NAMED_def
  RCUTILS_LOG_ERROR_SKIPFIRST_def RCUTILS_LOG_ERROR_SKIPFIRST_NAMED_def
  RCUTILS_LOG_ERROR_THROTTLE_def RCUTILS_LOG_ERROR_SKIPFIRST_THROTTLE_def
  RCUTILS_LOG_ERROR_THROTTLE_NAMED_def RCUTILS_LOG_ERROR_SKIPFIRST_THROTTLE_NAMED_def

lemmas log_fatal_defs =
  RCUTILS_LOG_FATAL_def RCUTILS_LOG_FATAL_NAMED_def
  RCUTILS_LOG_FATAL_ONCE_def RCUTILS_LOG_FATAL_ONCE_NAMED_def
  RCUTILS_LOG_FATAL_EXPRESSION_def RCUTILS_LOG_FATAL_EXPRESSION_NAMED_def
  RCUTILS_LOG_FATAL_FUNCTION_def RCUTILS_LOG_FATAL_FUNCTION_NAMED_def
  RCUTILS_LOG_FATAL_SKIPFIRST_def RCUTILS_LOG_FATAL_SKIPFIRST_NAMED_def
  RCUTILS_LOG_FATAL_THROTTLE_def RCUTILS_LOG_FATAL_SKIPFIRST_THROTTLE_def
  RCUTILS_LOG_FATAL_THROTTLE_NAMED_def RCUTILS_LOG_FATAL_SKIPFIRST_THROTTLE_NAMED_def

subsection \<open>The generator's table\<close>

text \<open>
  The header is generated: every severity gets the same macros with its own name. \<open>log_call\<close>
  names the macros of one severity and \<open>expand\<close> selects the definition.
\<close>

datatype log_level = DEBUG | INFO | WARN | ERROR | FATAL

datatype 'w log_cond =
    PLAIN
  | ONCE
  | EXPRESSION "'w \<Rightarrow> bool \<times> 'w"
  | FUNCTION "'w \<Rightarrow> bool \<times> 'w"
  | SKIPFIRST
  | THROTTLE "'w time_source" u64
  | SKIPFIRST_THROTTLE "'w time_source" u64

fun expand :: "log_level \<Rightarrow> 'w log_cond \<Rightarrow> string option \<Rightarrow> nat \<Rightarrow> 'w log_env \<Rightarrow> string \<Rightarrow> 'w stmt" where
  "expand DEBUG PLAIN None m env msg = RCUTILS_LOG_DEBUG m env msg"
| "expand DEBUG PLAIN (Some name) m env msg = RCUTILS_LOG_DEBUG_NAMED m env name msg"
| "expand DEBUG ONCE None m env msg = RCUTILS_LOG_DEBUG_ONCE m env msg"
| "expand DEBUG ONCE (Some name) m env msg = RCUTILS_LOG_DEBUG_ONCE_NAMED m env name msg"
| "expand DEBUG (EXPRESSION expression) None m env msg = RCUTILS_LOG_DEBUG_EXPRESSION m env expression msg"
| "expand DEBUG (EXPRESSION expression) (Some name) m env msg = RCUTILS_LOG_DEBUG_EXPRESSION_NAMED m env expression name msg"
| "expand DEBUG (FUNCTION function) None m env msg = RCUTILS_LOG_DEBUG_FUNCTION m env function msg"
| "expand DEBUG (FUNCTION function) (Some name) m env msg = RCUTILS_LOG_DEBUG_FUNCTION_NAMED m env function name msg"
| "expand DEBUG SKIPFIRST None m env msg = RCUTILS_LOG_DEBUG_SKIPFIRST m env msg"
| "expand DEBUG SKIPFIRST (Some name) m env msg = RCUTILS_LOG_DEBUG_SKIPFIRST_NAMED m env name msg"
| "expand DEBUG (THROTTLE get dur) None m env msg = RCUTILS_LOG_DEBUG_THROTTLE m env get dur msg"
| "expand DEBUG (SKIPFIRST_THROTTLE get dur) None m env msg = RCUTILS_LOG_DEBUG_SKIPFIRST_THROTTLE m env get dur msg"
| "expand DEBUG (THROTTLE get dur) (Some name) m env msg = RCUTILS_LOG_DEBUG_THROTTLE_NAMED m env get dur name msg"
| "expand DEBUG (SKIPFIRST_THROTTLE get dur) (Some name) m env msg = RCUTILS_LOG_DEBUG_SKIPFIRST_THROTTLE_NAMED m env get dur name msg"
| "expand INFO PLAIN None m env msg = RCUTILS_LOG_INFO m env msg"
| "expand INFO PLAIN (Some name) m env msg = RCUTILS_LOG_INFO_NAMED m env name msg"
| "expand INFO ONCE None m env msg = RCUTILS_LOG_INFO_ONCE m env msg"
| "expand INFO ONCE (Some name) m env msg = RCUTILS_LOG_INFO_ONCE_NAMED m env name msg"
| "expand INFO (EXPRESSION expression) None m env msg = RCUTILS_LOG_INFO_EXPRESSION m env expression msg"
| "expand INFO (EXPRESSION expression) (Some name) m env msg = RCUTILS_LOG_INFO_EXPRESSION_NAMED m env expression name msg"
| "expand INFO (FUNCTION function) None m env msg = RCUTILS_LOG_INFO_FUNCTION m env function msg"
| "expand INFO (FUNCTION function) (Some name) m env msg = RCUTILS_LOG_INFO_FUNCTION_NAMED m env function name msg"
| "expand INFO SKIPFIRST None m env msg = RCUTILS_LOG_INFO_SKIPFIRST m env msg"
| "expand INFO SKIPFIRST (Some name) m env msg = RCUTILS_LOG_INFO_SKIPFIRST_NAMED m env name msg"
| "expand INFO (THROTTLE get dur) None m env msg = RCUTILS_LOG_INFO_THROTTLE m env get dur msg"
| "expand INFO (SKIPFIRST_THROTTLE get dur) None m env msg = RCUTILS_LOG_INFO_SKIPFIRST_THROTTLE m env get dur msg"
| "expand INFO (THROTTLE get dur) (Some name) m env msg = RCUTILS_LOG_INFO_THROTTLE_NAMED m env get dur name msg"
| "expand INFO (SKIPFIRST_THROTTLE get dur) (Some name) m env msg = RCUTILS_LOG_INFO_SKIPFIRST_THROTTLE_NAMED m env get dur name msg"
| "expand WARN PLAIN None m env msg = RCUTILS_LOG_WARN m env msg"
| "expand WARN PLAIN (Some name) m env msg = RCUTILS_LOG_WARN_NAMED m env name msg"
| "expand WARN ONCE None m env msg = RCUTILS_LOG_WARN_ONCE m env msg"
| "expand WARN ONCE (Some name) m env msg = RCUTILS_LOG_WARN_ONCE_NAMED m env name msg"
| "expand WARN (EXPRESSION expression) None m env msg = RCUTILS_LOG_WARN_EXPRESSION m env expression msg"
| "expand WARN (EXPRESSION expression) (Some name) m env msg = RCUTILS_LOG_WARN_EXPRESSION_NAMED m env expression name msg"
| "expand WARN (FUNCTION function) None m env msg = RCUTILS_LOG_WARN_FUNCTION m env function msg"
| "expand WARN (FUNCTION function) (Some name) m env msg = RCUTILS_LOG_WARN_FUNCTION_NAMED m env function name msg"
| "expand WARN SKIPFIRST None m env msg = RCUTILS_LOG_WARN_SKIPFIRST m env msg"
| "expand WARN SKIPFIRST (Some name) m env msg = RCUTILS_LOG_WARN_SKIPFIRST_NAMED m env name msg"
| "expand WARN (THROTTLE get dur) None m env msg = RCUTILS_LOG_WARN_THROTTLE m env get dur msg"
| "expand WARN (SKIPFIRST_THROTTLE get dur) None m env msg = RCUTILS_LOG_WARN_SKIPFIRST_THROTTLE m env get dur msg"
| "expand WARN (THROTTLE get dur) (Some name) m env msg = RCUTILS_LOG_WARN_THROTTLE_NAMED m env get dur name msg"
| "expand WARN (SKIPFIRST_THROTTLE get dur) (Some name) m env msg = RCUTILS_LOG_WARN_SKIPFIRST_THROTTLE_NAMED m env get dur name msg"
| "expand ERROR PLAIN None m env msg = RCUTILS_LOG_ERROR m env msg"
| "expand ERROR PLAIN (Some name) m env msg = RCUTILS_LOG_ERROR_NAMED m env name msg"
| "expand ERROR ONCE None m env msg = RCUTILS_LOG_ERROR_ONCE m env msg"
| "expand ERROR ONCE (Some name) m env msg = RCUTILS_LOG_ERROR_ONCE_NAMED m env name msg"
| "expand ERROR (EXPRESSION expression) None m env msg = RCUTILS_LOG_ERROR_EXPRESSION m env expression msg"
| "expand ERROR (EXPRESSION expression) (Some name) m env msg = RCUTILS_LOG_ERROR_EXPRESSION_NAMED m env expression name msg"
| "expand ERROR (FUNCTION function) None m env msg = RCUTILS_LOG_ERROR_FUNCTION m env function msg"
| "expand ERROR (FUNCTION function) (Some name) m env msg = RCUTILS_LOG_ERROR_FUNCTION_NAMED m env function name msg"
| "expand ERROR SKIPFIRST None m env msg = RCUTILS_LOG_ERROR_SKIPFIRST m env msg"
| "expand ERROR SKIPFIRST (Some name) m env msg = RCUTILS_LOG_ERROR_SKIPFIRST_NAMED m env name msg"
| "expand ERROR (THROTTLE get dur) None m env msg = RCUTILS_LOG_ERROR_THROTTLE m env get dur msg"
| "expand ERROR (SKIPFIRST_THROTTLE get dur) None m env msg = RCUTILS_LOG_ERROR_SKIPFIRST_THROTTLE m env get dur msg"
| "expand ERROR (THROTTLE get dur) (Some name) m env msg = RCUTILS_LOG_ERROR_THROTTLE_NAMED m env get dur name msg"
| "expand ERROR (SKIPFIRST_THROTTLE get dur) (Some name) m env msg = RCUTILS_LOG_ERROR_SKIPFIRST_THROTTLE_NAMED m env get dur name msg"
| "expand FATAL PLAIN None m env msg = RCUTILS_LOG_FATAL m env msg"
| "expand FATAL PLAIN (Some name) m env msg = RCUTILS_LOG_FATAL_NAMED m env name msg"
| "expand FATAL ONCE None m env msg = RCUTILS_LOG_FATAL_ONCE m env msg"
| "expand FATAL ONCE (Some name) m env msg = RCUTILS_LOG_FATAL_ONCE_NAMED m env name msg"
| "expand FATAL (EXPRESSION expression) None m env msg = RCUTILS_LOG_FATAL_EXPRESSION m env expression msg"
| "expand FATAL (EXPRESSION expression) (Some name) m env msg = RCUTILS_LOG_FATAL_EXPRESSION_NAMED m env expression name msg"
| "expand FATAL (FUNCTION function) None m env msg = RCUTILS_LOG_FATAL_FUNCTION m env function msg"
| "expand FATAL (FUNCTION function) (Some name) m env msg = RCUTILS_LOG_FATAL_FUNCTION_NAMED m env function name msg"
| "expand FATAL SKIPFIRST None m env msg = RCUTILS_LOG_FATAL_SKIPFIRST m env msg"
| "expand FATAL SKIPFIRST (Some name) m env msg = RCUTILS_LOG_FATAL_SKIPFIRST_NAMED m env name msg"
| "expand FATAL (THROTTLE get dur) None m env msg = RCUTILS_LOG_FATAL_THROTTLE m env get dur msg"
| "expand FATAL (SKIPFIRST_THROTTLE get dur) None m env msg = RCUTILS_LOG_FATAL_SKIPFIRST_THROTTLE m env get dur msg"
| "expand FATAL (THROTTLE get dur) (Some name) m env msg = RCUTILS_LOG_FATAL_THROTTLE_NAMED m env get dur name msg"
| "expand FATAL (SKIPFIRST_THROTTLE get dur) (Some name) m env msg = RCUTILS_LOG_FATAL_SKIPFIRST_THROTTLE_NAMED m env get dur name msg"

fun level_min :: "log_level \<Rightarrow> nat" where
  "level_min DEBUG = 0" | "level_min INFO = 1" | "level_min WARN = 2"
| "level_min ERROR = 3" | "level_min FATAL = 4"

fun level_severity :: "log_level \<Rightarrow> log_severity" where
  "level_severity DEBUG = RCUTILS_LOG_SEVERITY_DEBUG"
| "level_severity INFO = RCUTILS_LOG_SEVERITY_INFO"
| "level_severity WARN = RCUTILS_LOG_SEVERITY_WARN"
| "level_severity ERROR = RCUTILS_LOG_SEVERITY_ERROR"
| "level_severity FATAL = RCUTILS_LOG_SEVERITY_FATAL"

fun condition_of :: "'w log_cond \<Rightarrow> 'w stmt \<Rightarrow> 'w stmt" where
  "condition_of PLAIN = RCUTILS_LOG_CONDITION_EMPTY"
| "condition_of ONCE = RCUTILS_LOG_CONDITION_ONCE"
| "condition_of (EXPRESSION e) = RCUTILS_LOG_CONDITION_EXPRESSION e"
| "condition_of (FUNCTION f) = RCUTILS_LOG_CONDITION_FUNCTION f"
| "condition_of SKIPFIRST = RCUTILS_LOG_CONDITION_SKIPFIRST"
| "condition_of (THROTTLE get dur) = RCUTILS_LOG_CONDITION_THROTTLE get dur"
| "condition_of (SKIPFIRST_THROTTLE get dur) =
     RCUTILS_LOG_CONDITION_THROTTLE get dur \<circ> RCUTILS_LOG_CONDITION_SKIPFIRST"

lemma expand_eq:
  "expand l c name m env msg =
     (if m > level_min l then id
      else RCUTILS_LOG_COND_NAMED env (level_severity l) (condition_of c) name msg)"
  by (cases l; cases c; cases name)
    (simp_all only: expand.simps level_min.simps level_severity.simps condition_of.simps
      log_debug_defs log_info_defs log_warn_defs log_error_defs log_fatal_defs min_severity_defs)

lemma expand_on: "m \<le> level_min l \<Longrightarrow>
  expand l c name m env msg = RCUTILS_LOG_COND_NAMED env (level_severity l) (condition_of c) name msg"
  by (simp add: expand_eq)
subsection \<open>Frame facts\<close>

definition autoinit_world :: "'w log_env \<Rightarrow> 'w \<Rightarrow> 'w" where
  "autoinit_world env w =
     (if \<not> g_rcutils_logging_initialized env w
      then (let (ret, w') = rcutils_logging_initialize env w
            in if ret \<noteq> RCUTILS_RET_OK then rcutils_reset_error env w' else w')
      else w)"

lemma autoinit_eq: "RCUTILS_LOGGING_AUTOINIT env s = s\<lparr>world := autoinit_world env (world s)\<rparr>"
  by (simp add: RCUTILS_LOGGING_AUTOINIT_def autoinit_world_def split_def Let_def)

lemma cond_named_eq:
  "RCUTILS_LOG_COND_NAMED env sev cond name msg s =
     (let s' = s\<lparr>world := autoinit_world env (world s)\<rparr>
      in if rcutils_logging_logger_is_enabled_for env name sev (world s')
         then cond (rcutils_log_internal sev name msg) s' else s')"
  by (simp add: RCUTILS_LOG_COND_NAMED_def autoinit_eq)

lemma log_internal_frame [simp]:
  "world (rcutils_log_internal sev name msg s) = world s"
  "logging_once (rcutils_log_internal sev name msg s) = logging_once s"
  "logging_first (rcutils_log_internal sev name msg s) = logging_first s"
  "logging_duration (rcutils_log_internal sev name msg s) = logging_duration s"
  "logging_last_logged (rcutils_log_internal sev name msg s) = logging_last_logged s"
  "log_output (rcutils_log_internal sev name msg s) = log_output s @ [Log_Internal sev name msg]"
  by (simp_all add: rcutils_log_internal_def)

lemma log_frame [simp]:
  "world (rcutils_log sev name msg s) = world s"
  "logging_last_logged (rcutils_log sev name msg s) = logging_last_logged s"
  "logging_duration (rcutils_log sev name msg s) = logging_duration s"
  "log_output (rcutils_log sev name msg s) = log_output s @ [Log sev name msg]"
  by (simp_all add: rcutils_log_def)

subsection \<open>Runs of one expansion\<close>

text \<open>
  A run reaches the same expansion again and again; between two calls the rest of the program
  changes the world.
\<close>

fun log_run :: "(string \<Rightarrow> 'w stmt) \<Rightarrow> (('w \<Rightarrow> 'w) \<times> string) list \<Rightarrow> 'w stmt" where
  "log_run site [] s = s"
| "log_run site ((other, msg) # cs) s = log_run site cs (site msg (s\<lparr>world := other (world s)\<rparr>))"

text \<open>The messages of the calls at which the logger is enabled.\<close>

fun enabled_calls ::
  "'w log_env \<Rightarrow> log_severity \<Rightarrow> string option \<Rightarrow> (('w \<Rightarrow> 'w) \<times> string) list \<Rightarrow> 'w \<Rightarrow> string list" where
  "enabled_calls env sev name [] w = []"
| "enabled_calls env sev name ((other, msg) # cs) w =
     (let w' = autoinit_world env (other w)
      in (if rcutils_logging_logger_is_enabled_for env name sev w' then [msg] else []) @
         enabled_calls env sev name cs w')"

fun kept :: "(nat \<Rightarrow> bool) \<Rightarrow> nat \<Rightarrow> 'a list \<Rightarrow> 'a list" where
  "kept keep k [] = []"
| "kept keep k (x # xs) = (if keep k then [x] else []) @ kept keep (Suc k) xs"

lemma kept_all: "kept (\<lambda>_. True) k xs = xs"
  by (induction xs arbitrary: k) auto

lemma kept_first: "kept (\<lambda>k. k = 0) k xs = (if k = 0 then take 1 xs else [])"
  by (induction xs arbitrary: k) auto

lemma kept_rest: "kept (\<lambda>k. 0 < k) k xs = (if k = 0 then drop 1 xs else xs)"
  by (induction xs arbitrary: k) auto

text \<open>
  The contract of a condition that depends on the number of earlier evaluations only: after
  \<open>k\<close> of them it lets the body through exactly when \<open>keep k\<close>, and touches nothing but its own
  statics.
\<close>

locale counted_condition =
  fixes cond :: "'w stmt \<Rightarrow> 'w stmt"
    and seen :: "'w log_state \<Rightarrow> nat \<Rightarrow> bool"
    and keep :: "nat \<Rightarrow> bool"
  assumes seen_fresh: "seen (log_site w out) 0"
    and seen_world: "seen (s\<lparr>world := w\<rparr>) k = seen s k"
    and seen_log: "seen (rcutils_log_internal sev name msg s) k = seen s k"
    and cond_step: "seen s k \<Longrightarrow>
      \<exists>s'. cond body s = (if keep k then body s' else s') \<and> world s' = world s \<and>
           log_output s' = log_output s \<and> seen s' (Suc k)"
begin

lemma run_output:
  "seen s k \<Longrightarrow>
   log_output (log_run (RCUTILS_LOG_COND_NAMED env sev cond name) cs s) =
     log_output s @ map (Log_Internal sev name) (kept keep k (enabled_calls env sev name cs (world s)))"
proof (induction cs arbitrary: s k)
  case (Cons c cs)
  obtain other msg where c: "c = (other, msg)" by (cases c)
  let ?w = "autoinit_world env (other (world s))"
  let ?s = "s\<lparr>world := ?w\<rparr>"
  let ?on = "rcutils_logging_logger_is_enabled_for env name sev ?w"
  have step: "RCUTILS_LOG_COND_NAMED env sev cond name msg (s\<lparr>world := other (world s)\<rparr>) =
      (if ?on then cond (rcutils_log_internal sev name msg) ?s else ?s)"
    by (simp add: cond_named_eq Let_def)
  have seen: "seen ?s k" using Cons.prems by (simp only: seen_world)
  show ?case
  proof (cases ?on)
    case False
    with Cons.IH [OF seen] show ?thesis by (simp add: c step Let_def)
  next
    case True
    from cond_step [OF seen, of "rcutils_log_internal sev name msg"] obtain s' where
      s': "cond (rcutils_log_internal sev name msg) ?s =
             (if keep k then rcutils_log_internal sev name msg s' else s')"
        "world s' = ?w" "log_output s' = log_output s" "seen s' (Suc k)"
      by auto
    have "seen (cond (rcutils_log_internal sev name msg) ?s) (Suc k)"
      using s'(1,4) by (simp add: seen_log)
    from Cons.IH [OF this] True s' show ?thesis by (simp add: c step Let_def)
  qed
qed simp

lemma fresh_run_output:
  "log_output (log_run (RCUTILS_LOG_COND_NAMED env sev cond name) cs (log_site w out)) =
     out @ map (Log_Internal sev name) (kept keep 0 (enabled_calls env sev name cs w))"
  using run_output [OF seen_fresh] by (simp add: log_site_def)

end

interpretation plain: counted_condition RCUTILS_LOG_CONDITION_EMPTY "\<lambda>_ _. True" "\<lambda>_. True"
  by unfold_locales (auto simp: RCUTILS_LOG_CONDITION_EMPTY_def)

interpretation once: counted_condition RCUTILS_LOG_CONDITION_ONCE
  "\<lambda>s k. (logging_once s = 0) = (k = 0)" "\<lambda>k. k = 0"
proof (unfold_locales, goal_cases)
  case (4 s k body)
  then show ?case
    by (intro exI [of _ "if k = 0 then s\<lparr>logging_once := 1\<rparr> else s"])
      (auto simp: RCUTILS_LOG_CONDITION_ONCE_def)
qed (simp_all add: log_site_def)

interpretation skipfirst: counted_condition RCUTILS_LOG_CONDITION_SKIPFIRST
  "\<lambda>s k. logging_first s = (k = 0)" "\<lambda>k. 0 < k"
proof (unfold_locales, goal_cases)
  case (4 s k body)
  then show ?case
    by (intro exI [of _ "if k = 0 then s\<lparr>logging_first := False\<rparr> else s"])
      (auto simp: RCUTILS_LOG_CONDITION_SKIPFIRST_def)
qed (simp_all add: log_site_def)


subsection \<open>Throttling\<close>

text \<open>The calls at which the logger is enabled, with the time the throttle read there.\<close>

fun timed_calls ::
  "'w log_env \<Rightarrow> log_severity \<Rightarrow> string option \<Rightarrow> 'w time_source \<Rightarrow>
     (('w \<Rightarrow> 'w) \<times> string) list \<Rightarrow> 'w \<Rightarrow> (int \<times> string) list" where
  "timed_calls env sev name get [] w = []"
| "timed_calls env sev name get ((other, msg) # cs) w =
     (let w' = autoinit_world env (other w)
      in if rcutils_logging_logger_is_enabled_for env name sev w'
         then (case get w' of ((ret, stored), w'') \<Rightarrow>
                 (sint (case stored of None \<Rightarrow> 0 | Some t \<Rightarrow> t), msg) #
                 timed_calls env sev name get cs w'')
         else timed_calls env sev name get cs w')"

text \<open>The specification: a message passes when \<open>d\<close> nanoseconds went by since the last that did.\<close>

fun throttled :: "int \<Rightarrow> int \<Rightarrow> (int \<times> 'a) list \<Rightarrow> (int \<times> 'a) list" where
  "throttled d prev [] = []"
| "throttled d prev ((t, x) # xs) =
     (if prev + d \<le> t then (t, x) # throttled d t xs else throttled d prev xs)"

lemma throttled_spaced: "successively (\<lambda>a b. a + d \<le> b) (prev # map fst (throttled d prev xs))"
  by (induction d prev xs rule: throttled.induct) (auto simp: successively_Cons)

lemma throttled_subseq: "subseq (throttled d prev xs) xs"
  by (induction d prev xs rule: throttled.induct) auto

lemma throttled_maximal:
  "(t, x) \<in> set xs \<Longrightarrow> (t, x) \<notin> set (throttled d prev xs) \<Longrightarrow>
   \<exists>t' \<in> insert prev (fst ` set (throttled d prev xs)). t < t' + d"
  by (induction d prev xs rule: throttled.induct) (auto split: if_splits)

text \<open>
  A time source that never fails and whose readings, like the duration, stay below \<open>2 ^ 62\<close>
  (146 years of nanoseconds), so that the signed sum in the condition cannot overflow.
\<close>

definition steady :: "'w time_source \<Rightarrow> bool" where
  "steady get \<longleftrightarrow> (\<forall>w. case get w of ((ret, stored), _) \<Rightarrow> ret = RCUTILS_RET_OK \<and>
     (case stored of None \<Rightarrow> False | Some t \<Rightarrow> 0 \<le> sint t \<and> sint t < 2 ^ 62))"

definition short_duration :: "u64 \<Rightarrow> bool" where
  "short_duration dur \<longleftrightarrow> 0 \<le> sint (RCUTILS_MS_TO_NS dur) \<and> sint (RCUTILS_MS_TO_NS dur) < 2 ^ 62"

lemma sint_plus_small:
  fixes a b :: u64
  assumes "0 \<le> sint a" "sint a < 2 ^ 62" "0 \<le> sint b" "sint b < 2 ^ 62"
  shows "sint (a + b) = sint a + sint b"
  using assms by (simp add: sint_word_ariths(1) signed_take_bit_int_eq_self)

lemma steadyE:
  assumes "steady get"
  obtains t w' where "get w = ((RCUTILS_RET_OK, Some t), w')" "0 \<le> sint t" "sint t < 2 ^ 62"
proof -
  obtain ret stored w' where g: "get w = ((ret, stored), w')" by (metis prod.collapse)
  from assms have "case get w of ((ret, stored), _) \<Rightarrow> ret = RCUTILS_RET_OK \<and>
     (case stored of None \<Rightarrow> False | Some t \<Rightarrow> 0 \<le> sint t \<and> sint t < 2 ^ 62)"
    by (simp only: steady_def)
  with g that show thesis by (cases stored) auto
qed

text \<open>
  A counted condition that leaves the statics of the throttle alone can stand inside it; then
  it counts the calls the throttle lets through.
\<close>

definition throttle_ready :: "u64 \<Rightarrow> 'w log_state \<Rightarrow> bool" where
  "throttle_ready dur s \<longleftrightarrow>
     logging_duration s \<in> {None, Some (RCUTILS_MS_TO_NS dur)} \<and>
     0 \<le> sint (logging_last_logged s) \<and> sint (logging_last_logged s) < 2 ^ 62"

lemma throttle_step:
  assumes "throttle_ready dur s" "short_duration dur"
    and "get (world s) = ((RCUTILS_RET_OK, Some t), w')"
  defines "s1 \<equiv> s\<lparr>logging_duration := Some (RCUTILS_MS_TO_NS dur), world := w'\<rparr>"
  shows "RCUTILS_LOG_CONDITION_THROTTLE get dur body s =
    (if sint (logging_last_logged s) + sint (RCUTILS_MS_TO_NS dur) \<le> sint t
     then body (s1\<lparr>logging_last_logged := t\<rparr>) else s1)"
proof -
  have d: "(case logging_duration s of None \<Rightarrow> RCUTILS_MS_TO_NS dur | Some d \<Rightarrow> d) = RCUTILS_MS_TO_NS dur"
    using assms(1) by (auto simp: throttle_ready_def)
  have "sint (logging_last_logged s + RCUTILS_MS_TO_NS dur) =
      sint (logging_last_logged s) + sint (RCUTILS_MS_TO_NS dur)"
    using assms(1,2) by (intro sint_plus_small) (auto simp: throttle_ready_def short_duration_def)
  then show ?thesis
    by (simp add: RCUTILS_LOG_CONDITION_THROTTLE_def d assms(3) s1_def)
qed

locale throttled_condition = counted_condition cond seen keep
  for cond :: "'w stmt \<Rightarrow> 'w stmt"
    and seen :: "'w log_state \<Rightarrow> nat \<Rightarrow> bool"
    and keep :: "nat \<Rightarrow> bool" +
  assumes seen_throttle: "seen (s\<lparr>logging_duration := d, logging_last_logged := t\<rparr>) k = seen s k"
    and cond_throttle: "seen s k \<Longrightarrow>
      logging_duration (cond (rcutils_log_internal sev name msg) s) = logging_duration s \<and>
      logging_last_logged (cond (rcutils_log_internal sev name msg) s) = logging_last_logged s"
begin

lemma seen_statics:
  "seen (s\<lparr>logging_duration := d, world := w\<rparr>) k = seen s k"
  "seen (s\<lparr>logging_duration := d, world := w, logging_last_logged := t\<rparr>) k = seen s k"
proof -
  have 1: "s\<lparr>logging_duration := d, world := w\<rparr> =
      (s\<lparr>world := w\<rparr>)\<lparr>logging_duration := d, logging_last_logged := logging_last_logged s\<rparr>"
    and 2: "s\<lparr>logging_duration := d, world := w, logging_last_logged := t\<rparr> =
      (s\<lparr>world := w\<rparr>)\<lparr>logging_duration := d, logging_last_logged := t\<rparr>" by simp_all
  show "seen (s\<lparr>logging_duration := d, world := w\<rparr>) k = seen s k"
    by (simp only: 1 seen_throttle seen_world)
  show "seen (s\<lparr>logging_duration := d, world := w, logging_last_logged := t\<rparr>) k = seen s k"
    by (simp only: 2 seen_throttle seen_world)
qed

lemma cond_effect:
  assumes "seen s k"
  shows "world (cond (rcutils_log_internal sev name msg) s) = world s"
    and "log_output (cond (rcutils_log_internal sev name msg) s) =
           log_output s @ (if keep k then [Log_Internal sev name msg] else [])"
    and "seen (cond (rcutils_log_internal sev name msg) s) (Suc k)"
proof -
  from cond_step [OF assms, of "rcutils_log_internal sev name msg"] obtain s' where
    "cond (rcutils_log_internal sev name msg) s =
       (if keep k then rcutils_log_internal sev name msg s' else s')"
    "world s' = world s" "log_output s' = log_output s" "seen s' (Suc k)"
    by auto
  then show "world (cond (rcutils_log_internal sev name msg) s) = world s"
    and "log_output (cond (rcutils_log_internal sev name msg) s) =
           log_output s @ (if keep k then [Log_Internal sev name msg] else [])"
    and "seen (cond (rcutils_log_internal sev name msg) s) (Suc k)"
    by (simp_all add: seen_log)
qed

text \<open>One call at an enabled logger.\<close>

lemma throttled_call:
  assumes "steady get" "short_duration dur" "seen s k" "throttle_ready dur s"
    and s'_def: "s' = RCUTILS_LOG_CONDITION_THROTTLE get dur (cond (rcutils_log_internal sev name msg)) s"
  obtains t w' where "get (world s) = ((RCUTILS_RET_OK, Some t), w')" "world s' = w'" "throttle_ready dur s'"
    "if sint (logging_last_logged s) + sint (RCUTILS_MS_TO_NS dur) \<le> sint t
     then seen s' (Suc k) \<and> logging_last_logged s' = t \<and>
          log_output s' = log_output s @ (if keep k then [Log_Internal sev name msg] else [])
     else seen s' k \<and> logging_last_logged s' = logging_last_logged s \<and> log_output s' = log_output s"
proof -
  obtain t w' where g: "get (world s) = ((RCUTILS_RET_OK, Some t), w')"
    and t: "0 \<le> sint t" "sint t < 2 ^ 62"
    using steadyE [OF assms(1)] by metis
  let ?late = "s\<lparr>logging_duration := Some (RCUTILS_MS_TO_NS dur), world := w'\<rparr>"
  let ?go = "?late\<lparr>logging_last_logged := t\<rparr>"
  have seen: "seen ?late k" "seen ?go k" using assms(3) by (simp_all only: seen_statics)
  have s': "s' = (if sint (logging_last_logged s) + sint (RCUTILS_MS_TO_NS dur) \<le> sint t
      then cond (rcutils_log_internal sev name msg) ?go else ?late)"
    unfolding s'_def by (rule throttle_step [OF assms(4,2), where get = get, OF g])
  have "throttle_ready dur ?late" "throttle_ready dur (cond (rcutils_log_internal sev name msg) ?go)"
    using assms(4) t cond_throttle [OF seen(2), of sev name msg] by (simp_all add: throttle_ready_def)
  with that [OF g] s' seen(1) cond_throttle [OF seen(2), of sev name msg]
    cond_effect [OF seen(2), of sev name msg]
  show thesis by (auto split: if_splits)
qed

lemma throttled_run_output:
  assumes "steady get" "short_duration dur" "seen s k" "throttle_ready dur s"
  defines "C \<equiv> RCUTILS_LOG_CONDITION_THROTTLE get dur \<circ> cond"
  shows "log_output (log_run (RCUTILS_LOG_COND_NAMED env sev C name) cs s) =
     log_output s @ map (Log_Internal sev name) (kept keep k (map snd
       (throttled (sint (RCUTILS_MS_TO_NS dur)) (sint (logging_last_logged s))
          (timed_calls env sev name get cs (world s)))))"
  using assms(3,4)
proof (induction cs arbitrary: s k)
  case (Cons c cs)
  obtain other msg where c: "c = (other, msg)" by (cases c)
  let ?s = "s\<lparr>world := autoinit_world env (other (world s))\<rparr>"
  let ?on = "rcutils_logging_logger_is_enabled_for env name sev (world ?s)"
  let ?s' = "RCUTILS_LOG_CONDITION_THROTTLE get dur (cond (rcutils_log_internal sev name msg)) ?s"
  have step: "RCUTILS_LOG_COND_NAMED env sev C name msg (s\<lparr>world := other (world s)\<rparr>) =
      (if ?on then ?s' else ?s)"
    by (simp add: cond_named_eq Let_def C_def)
  have seen: "seen ?s k" and ready: "throttle_ready dur ?s"
    using Cons.prems by (simp_all only: seen_world) (simp add: throttle_ready_def)
  show ?case
  proof (cases ?on)
    case False
    with Cons.IH [OF seen ready] show ?thesis by (simp add: c step Let_def)
  next
    case True
    obtain t w' where g: "get (world ?s) = ((RCUTILS_RET_OK, Some t), w')" "world ?s' = w'"
      "throttle_ready dur ?s'"
      and r: "if sint (logging_last_logged ?s) + sint (RCUTILS_MS_TO_NS dur) \<le> sint t
        then seen ?s' (Suc k) \<and> logging_last_logged ?s' = t \<and>
             log_output ?s' = log_output ?s @ (if keep k then [Log_Internal sev name msg] else [])
        else seen ?s' k \<and> logging_last_logged ?s' = logging_last_logged ?s \<and> log_output ?s' = log_output ?s"
      by (rule throttled_call [OF assms(1,2) seen ready refl, of sev name msg])
    have run: "log_run (RCUTILS_LOG_COND_NAMED env sev C name) (c # cs) s =
        log_run (RCUTILS_LOG_COND_NAMED env sev C name) cs ?s'"
      using True by (simp add: c step)
    show ?thesis
    proof (cases "sint (logging_last_logged ?s) + sint (RCUTILS_MS_TO_NS dur) \<le> sint t")
      case True
      with r Cons.IH [OF _ g(3), of "Suc k"] g \<open>?on\<close> show ?thesis
        unfolding run by (simp add: c Let_def)
    next
      case False
      with r Cons.IH [OF _ g(3), of k] g \<open>?on\<close> show ?thesis
        unfolding run by (simp add: c Let_def)
    qed
  qed
qed simp

end

lemma log_site_fields [simp]:
  "logging_once (log_site w out) = 0" "logging_first (log_site w out) = True"
  "logging_duration (log_site w out) = None" "logging_last_logged (log_site w out) = 0"
  "world (log_site w out) = w" "log_output (log_site w out) = out"
  by (simp_all add: log_site_def)

lemma throttle_ready_fresh: "throttle_ready dur (log_site w out)"
  by (simp add: throttle_ready_def)

interpretation plain_throttled: throttled_condition RCUTILS_LOG_CONDITION_EMPTY "\<lambda>_ _. True" "\<lambda>_. True"
  by unfold_locales (simp_all add: RCUTILS_LOG_CONDITION_EMPTY_def)

interpretation skipfirst_throttled: throttled_condition RCUTILS_LOG_CONDITION_SKIPFIRST
  "\<lambda>s k. logging_first s = (k = 0)" "\<lambda>k. 0 < k"
  by unfold_locales (simp_all add: RCUTILS_LOG_CONDITION_SKIPFIRST_def)

lemma throttle_fresh_run:
  assumes "steady get" "short_duration dur"
  shows "log_output (log_run (RCUTILS_LOG_COND_NAMED env sev
             (RCUTILS_LOG_CONDITION_THROTTLE get dur) name) cs (log_site w out)) =
     out @ map (Log_Internal sev name) (map snd
       (throttled (sint (RCUTILS_MS_TO_NS dur)) 0 (timed_calls env sev name get cs w)))"
proof -
  have "RCUTILS_LOG_CONDITION_THROTTLE get dur \<circ> RCUTILS_LOG_CONDITION_EMPTY =
      RCUTILS_LOG_CONDITION_THROTTLE get dur"
    by (simp add: fun_eq_iff RCUTILS_LOG_CONDITION_EMPTY_def)
  with plain_throttled.throttled_run_output [OF assms TrueI throttle_ready_fresh [of dur w out]]
  show ?thesis by (simp add: kept_all)
qed

subsection \<open>Properties\<close>


text \<open>"The condition will only be evaluated if this logging statement is enabled": at a
  disabled logger a macro of any kind initialises the library if needed and does nothing else;
  no expression, function or time source runs and no static changes.\<close>

theorem disabled_logger_evaluates_nothing:
  assumes "\<not> rcutils_logging_logger_is_enabled_for env name (level_severity l)
             (autoinit_world env (world s))"
  shows "expand l c name m env msg s =
    (if m \<le> level_min l then s\<lparr>world := autoinit_world env (world s)\<rparr> else s)"
  using assms by (simp add: expand_eq cond_named_eq Let_def)

text \<open>An instance of the library for the witnesses: the world counts, the first call initialises
  (which fails), and only warnings and errors are enabled.\<close>

definition counting_env :: "nat log_env" where
  "counting_env = \<lparr>g_rcutils_logging_initialized = (\<lambda>w. 0 < w),
     rcutils_logging_initialize = (\<lambda>w. (1, Suc w)), rcutils_reset_error = Suc,
     rcutils_logging_logger_is_enabled_for =
       (\<lambda>name sev w. sev \<in> {RCUTILS_LOG_SEVERITY_WARN, RCUTILS_LOG_SEVERITY_ERROR})\<rparr>"

theorem disabled_logger_evaluates_nothing_witness:
  "expand INFO (EXPRESSION (\<lambda>w. (True, 100))) None 0 counting_env ''hi'' (log_site 0 []) = log_site 2 []"
  using disabled_logger_evaluates_nothing [of counting_env None INFO "log_site 0 []"
      "EXPRESSION (\<lambda>w. (True, 100))" 0 "''hi''"]
  by (simp add: counting_env_def autoinit_world_def RCUTILS_RET_OK_def log_site_def)

text \<open>Over a run of any length, whatever the program does between the calls, a plain macro logs
  every call that finds its logger enabled, a \<open>_ONCE\<close> macro the first of them and no other, a
  \<open>_SKIPFIRST\<close> macro all but the first; in order, with its severity and logger name, and calls
  at a disabled logger do not count.\<close>

theorem counted_macros_log:
  assumes "m \<le> level_min l"
  shows "let enabled = enabled_calls env (level_severity l) name cs w in
    log_output (log_run (expand l PLAIN name m env) cs (log_site w out)) =
      out @ map (Log_Internal (level_severity l) name) enabled \<and>
    log_output (log_run (expand l ONCE name m env) cs (log_site w out)) =
      out @ map (Log_Internal (level_severity l) name) (take 1 enabled) \<and>
    log_output (log_run (expand l SKIPFIRST name m env) cs (log_site w out)) =
      out @ map (Log_Internal (level_severity l) name) (drop 1 enabled)"
proof -
  have "expand l c name m env = RCUTILS_LOG_COND_NAMED env (level_severity l) (condition_of c) name" for c
    using assms by (simp add: fun_eq_iff expand_on)
  then show ?thesis
    by (simp add: Let_def plain.fresh_run_output once.fresh_run_output skipfirst.fresh_run_output
        kept_all kept_first kept_rest)
qed

theorem counted_macros_log_witness:
  "log_output (log_run (expand WARN SKIPFIRST None 2 counting_env)
       [(id, ''a''), (id, ''b''), (id, ''c'')] (log_site 0 [])) =
     map (Log_Internal RCUTILS_LOG_SEVERITY_WARN None) [''b'', ''c'']"
  using counted_macros_log
    [of 2 WARN counting_env None "[(id, ''a''), (id, ''b''), (id, ''c'')]" 0 "[]"]
  by (simp add: counting_env_def Let_def)

text \<open>An \<open>_EXPRESSION\<close> or \<open>_FUNCTION\<close> macro at an enabled logger evaluates its condition
  exactly once, after initialisation, keeps its effect on the program, and logs exactly when
  the value is true.\<close>

theorem expression_macro_evaluates_once:
  assumes "m \<le> level_min l" and "c = EXPRESSION f \<or> c = FUNCTION f"
    and "rcutils_logging_logger_is_enabled_for env name (level_severity l)
           (autoinit_world env (world s))"
  shows "expand l c name m env msg s =
    (let (b, w) = f (autoinit_world env (world s))
     in s\<lparr>world := w, log_output := log_output s @
            (if b then [Log_Internal (level_severity l) name msg] else [])\<rparr>)"
  using assms by (auto simp: expand_on cond_named_eq condition_defs rcutils_log_internal_def split: prod.splits)

theorem expression_macro_evaluates_once_witness:
  "expand WARN (FUNCTION (\<lambda>w. (True, w + 5))) None 0 counting_env ''hi'' (log_site 0 []) =
     log_site 7 [Log_Internal RCUTILS_LOG_SEVERITY_WARN None ''hi'']"
  using expression_macro_evaluates_once [of 0 WARN "FUNCTION (\<lambda>w. (True, w + 5))" "\<lambda>w. (True, w + 5)"
      counting_env None "log_site 0 []" "''hi''"]
  by (simp add: counting_env_def autoinit_world_def RCUTILS_RET_OK_def log_site_def)


text \<open>A clock for the witnesses: the world is a number of milliseconds, read modulo 1000.\<close>

definition slot_clock :: "nat time_source" where
  "slot_clock w = ((RCUTILS_RET_OK, Some (RCUTILS_MS_TO_NS (of_nat (w mod 1000)))), w)"

lemma ms_to_ns_small: "k < 1000 \<Longrightarrow> sint (RCUTILS_MS_TO_NS (of_nat k)) = int k * 1000000"
proof -
  assume "k < 1000"
  then have "sint (of_int (int k * 1000000) :: u64) = int k * 1000000"
    by (simp only: sint_sbintrunc') (rule signed_take_bit_int_eq_self, simp_all)
  then show ?thesis by (simp add: RCUTILS_MS_TO_NS_def)
qed

lemma slot_clock_steady: "steady slot_clock"
proof -
  have "sint (RCUTILS_MS_TO_NS (of_nat (w mod 1000))) = int (w mod 1000) * 1000000" for w
    by (rule ms_to_ns_small) simp
  moreover have "int (w mod 1000) \<le> 999" for w :: nat by linarith
  ultimately show ?thesis unfolding steady_def slot_clock_def
    by (auto intro: le_less_trans [of _ "999 * 1000000"])
qed


text \<open>The times at which an expansion logged, as its static \<open>last_logged\<close> records them.\<close>

fun emission_times ::
  "(string \<Rightarrow> 'w stmt) \<Rightarrow> (('w \<Rightarrow> 'w) \<times> string) list \<Rightarrow> 'w log_state \<Rightarrow> int list" where
  "emission_times site [] s = []"
| "emission_times site ((other, msg) # cs) s =
     (let s' = site msg (s\<lparr>world := other (world s)\<rparr>)
      in (if length (log_output s) < length (log_output s') then [sint (logging_last_logged s')] else []) @
         emission_times site cs s')"

lemma emission_times_spaced:
  assumes "steady get" "short_duration dur" "throttle_ready dur s"
  shows "successively (\<lambda>a b. a + sint (RCUTILS_MS_TO_NS dur) \<le> b) (sint (logging_last_logged s) #
    emission_times (RCUTILS_LOG_COND_NAMED env sev (RCUTILS_LOG_CONDITION_THROTTLE get dur) name) cs s)"
  using assms(3)
proof (induction cs arbitrary: s)
  case (Cons c cs)
  obtain other msg where c: "c = (other, msg)" by (cases c)
  let ?w = "autoinit_world env (other (world s))"
  let ?s = "s\<lparr>world := ?w\<rparr>"
  let ?d = "RCUTILS_MS_TO_NS dur"
  let ?body = "rcutils_log_internal sev name msg"
  have ready: "throttle_ready dur ?s" using Cons.prems by (simp add: throttle_ready_def)
  obtain t w' where g: "get (world ?s) = ((RCUTILS_RET_OK, Some t), w')"
    and t: "0 \<le> sint t" "sint t < 2 ^ 62"
    using steadyE [OF assms(1)] by metis
  note thr = throttle_step [of dur ?s get t w' ?body, OF ready assms(2) g]
  have step: "RCUTILS_LOG_COND_NAMED env sev (RCUTILS_LOG_CONDITION_THROTTLE get dur) name msg
        (s\<lparr>world := other (world s)\<rparr>) =
      (if rcutils_logging_logger_is_enabled_for env name sev ?w
       then RCUTILS_LOG_CONDITION_THROTTLE get dur ?body ?s else ?s)"
    by (simp add: cond_named_eq Let_def)
  have "throttle_ready dur (?body (?s\<lparr>logging_duration := Some ?d, world := w', logging_last_logged := t\<rparr>))"
    "throttle_ready dur (?s\<lparr>logging_duration := Some ?d, world := w'\<rparr>)"
    using ready t by (simp_all add: throttle_ready_def)
  from this [THEN Cons.IH] Cons.IH [OF ready] show ?case
    by (simp add: c step thr Let_def successively_Cons)
qed simp

text \<open>Two messages a \<open>_THROTTLE\<close> macro logs in a row are at least the duration apart, however
  often and in whatever order of times the macro is reached: the times at which it moved its
  \<open>last_logged\<close>, with the initial 0 in front, are spaced by the duration.\<close>

theorem throttle_macro_spaces_messages:
  assumes "m \<le> level_min l" "steady get" "short_duration dur"
  shows "successively (\<lambda>a b. a + sint (RCUTILS_MS_TO_NS dur) \<le> b)
    (0 # emission_times (expand l (THROTTLE get dur) name m env) cs (log_site w out))"
proof -
  have "expand l (THROTTLE get dur) name m env =
      RCUTILS_LOG_COND_NAMED env (level_severity l) (RCUTILS_LOG_CONDITION_THROTTLE get dur) name"
    using assms(1) by (simp add: fun_eq_iff expand_on)
  then show ?thesis
    using emission_times_spaced [OF assms(2,3) throttle_ready_fresh, of w out env "level_severity l" name cs]
    by simp
qed

theorem throttle_macro_spaces_messages_witness:
  "successively (\<lambda>a b. a + sint (RCUTILS_MS_TO_NS 10) \<le> b)
     (0 # emission_times (expand WARN (THROTTLE slot_clock 10) None 0 counting_env)
            [(\<lambda>_. 5, ''a''), (\<lambda>_. 12, ''b'')] (log_site 0 []))"
  using throttle_macro_spaces_messages [OF _ slot_clock_steady, of 0 WARN 10 None counting_env
      "[(\<lambda>_. 5, ''a''), (\<lambda>_. 12, ''b'')]" 0 "[]"] ms_to_ns_small [of 10]
  by (simp add: short_duration_def)

text \<open>What a \<open>_THROTTLE\<close> macro logs, without the recursion of \<open>throttled\<close>: a subsequence of the calls
  that find the logger enabled, spaced by the duration with 0 in front, to which nothing could be
  added: each call left out comes less than the duration after the start or a call it logged.\<close>

theorem throttle_macro_logs_maximal_selection:
  assumes "m \<le> level_min l" "steady get" "short_duration dur"
  shows "\<exists>logged. log_output (log_run (expand l (THROTTLE get dur) name m env) cs (log_site w out)) =
      out @ map (Log_Internal (level_severity l) name) (map snd logged) \<and>
    subseq logged (timed_calls env (level_severity l) name get cs w) \<and>
    successively (\<lambda>a b. a + sint (RCUTILS_MS_TO_NS dur) \<le> b) (0 # map fst logged) \<and>
    (\<forall>(t, msg) \<in> set (timed_calls env (level_severity l) name get cs w) - set logged.
       \<exists>t' \<in> insert 0 (fst ` set logged). t < t' + sint (RCUTILS_MS_TO_NS dur))"
proof (intro exI conjI)
  let ?calls = "timed_calls env (level_severity l) name get cs w" and ?d = "sint (RCUTILS_MS_TO_NS dur)"
  let ?logged = "throttled ?d 0 ?calls"
  have "expand l (THROTTLE get dur) name m env =
      RCUTILS_LOG_COND_NAMED env (level_severity l) (RCUTILS_LOG_CONDITION_THROTTLE get dur) name"
    using assms(1) by (simp add: fun_eq_iff expand_on)
  then show "log_output (log_run (expand l (THROTTLE get dur) name m env) cs (log_site w out)) =
      out @ map (Log_Internal (level_severity l) name) (map snd ?logged)"
    by (simp add: throttle_fresh_run [OF assms(2,3)])
  show "\<forall>(t, msg) \<in> set ?calls - set ?logged. \<exists>t' \<in> insert 0 (fst ` set ?logged). t < t' + ?d"
    using throttled_maximal [of _ _ ?calls ?d 0] by blast
qed (rule throttled_subseq throttled_spaced)+

theorem throttle_macro_logs_maximal_selection_witness:
  "\<exists>logged. log_output (log_run (expand WARN (THROTTLE slot_clock 10) None 0 counting_env)
       [(\<lambda>_. 5, ''a''), (\<lambda>_. 12, ''b'')] (log_site 0 [])) =
      map (Log_Internal RCUTILS_LOG_SEVERITY_WARN None) (map snd logged) \<and>
    successively (\<lambda>a b. a + 10000000 \<le> b) ((0::int) # map fst logged)"
  using throttle_macro_logs_maximal_selection [OF _ slot_clock_steady, of 0 WARN 10 None counting_env
      "[(\<lambda>_. 5, ''a''), (\<lambda>_. 12, ''b'')]" 0 "[]"] ms_to_ns_small [of 10]
  by (simp add: short_duration_def del: expand.simps timed_calls.simps log_run.simps) blast

text \<open>In a \<open>_SKIPFIRST_THROTTLE\<close> macro the throttle comes first: the one message dropped is the
  first that the throttle let through, so the skipped call still starts the interval.\<close>

theorem skipfirst_throttle_drops_first_passed:
  assumes "m \<le> level_min l" "steady get" "short_duration dur"
  shows "log_output (log_run (expand l (SKIPFIRST_THROTTLE get dur) name m env) cs (log_site w out)) =
    out @ map (Log_Internal (level_severity l) name) (drop 1 (map snd
      (throttled (sint (RCUTILS_MS_TO_NS dur)) 0 (timed_calls env (level_severity l) name get cs w))))"
proof -
  have eq: "expand l (SKIPFIRST_THROTTLE get dur) name m env =
      RCUTILS_LOG_COND_NAMED env (level_severity l)
        (RCUTILS_LOG_CONDITION_THROTTLE get dur \<circ> RCUTILS_LOG_CONDITION_SKIPFIRST) name"
    using assms(1) by (simp add: fun_eq_iff expand_on)
  have "(logging_first (log_site w out) = ((0::nat) = 0))" by simp
  from skipfirst_throttled.throttled_run_output [OF assms(2,3) this throttle_ready_fresh]
  show ?thesis by (simp add: eq kept_rest)
qed

theorem skipfirst_throttle_drops_first_passed_witness:
  "log_output (log_run (expand WARN (SKIPFIRST_THROTTLE slot_clock 10) None 0 counting_env)
       [(\<lambda>_. 12, ''a''), (\<lambda>_. 21, ''b''), (\<lambda>_. 22, ''c'')] (log_site 0 [])) =
     [Log_Internal RCUTILS_LOG_SEVERITY_WARN None ''c'']"
  using skipfirst_throttle_drops_first_passed [OF _ slot_clock_steady, of 0 WARN 10 None counting_env
      "[(\<lambda>_. 12, ''a''), (\<lambda>_. 21, ''b''), (\<lambda>_. 22, ''c'')]" 0 "[]"]
    ms_to_ns_small [of 10] ms_to_ns_small [of 12] ms_to_ns_small [of 21] ms_to_ns_small [of 22]
  by (simp add: short_duration_def counting_env_def autoinit_world_def Let_def slot_clock_def)

text \<open>When the time source fails, a \<open>_THROTTLE\<close> macro reports the failure and logs the message
  anyway, and its \<open>last_logged\<close> becomes whatever the failing call stored, 0 if nothing: the
  interval that was running is forgotten, so the throttle limits nothing while the clock is
  down and lets the first message after it through as if none had been logged.\<close>

theorem throttle_macro_with_failing_clock:
  assumes "m \<le> level_min l"
    and "rcutils_logging_logger_is_enabled_for env name (level_severity l)
           (autoinit_world env (world s))"
    and "get (autoinit_world env (world s)) = ((ret, stored), w')" and "ret \<noteq> RCUTILS_RET_OK"
  shows "log_output (expand l (THROTTLE get dur) name m env msg s) = log_output s @
      [Log RCUTILS_LOG_SEVERITY_ERROR (Some []) ''getting current steady time failed'',
       Log_Internal (level_severity l) name msg] \<and>
    logging_last_logged (expand l (THROTTLE get dur) name m env msg s) =
      (case stored of None \<Rightarrow> 0 | Some t \<Rightarrow> t)"
  using assms by (simp add: expand_on cond_named_eq RCUTILS_LOG_CONDITION_THROTTLE_def Let_def split: option.split)

theorem throttle_macro_with_failing_clock_witness:
  "log_output (expand ERROR (THROTTLE (\<lambda>w. ((1, None), w)) 10) None 0 counting_env ''hi''
       (log_site 1 []\<lparr>logging_last_logged := 77\<rparr>)) =
     [Log RCUTILS_LOG_SEVERITY_ERROR (Some []) ''getting current steady time failed'',
      Log_Internal RCUTILS_LOG_SEVERITY_ERROR None ''hi''] \<and>
   logging_last_logged (expand ERROR (THROTTLE (\<lambda>w. ((1, None), w)) 10) None 0 counting_env ''hi''
       (log_site 1 []\<lparr>logging_last_logged := 77\<rparr>)) = 0"
  using throttle_macro_with_failing_clock [of 0 ERROR counting_env None
      "log_site 1 []\<lparr>logging_last_logged := 77\<rparr>" "\<lambda>w. ((1, None), w)" 1 None 1 10 "''hi''"]
  by (simp add: counting_env_def autoinit_world_def RCUTILS_RET_OK_def)
end
