(* ===== verification/Board_Logging.thy ===== *)
theory Board_Logging
  imports Arduino_Clock Rcutils_Logging
begin

text \<open>
  Throttled log messages on the board. The time source of a program is \<open>rcutils_steady_time_now\<close>, which is in the
  precompiled archive; it reads \<open>clock_gettime\<close> of \<^verbatim>\<open>default_transport.cpp\<close> and converts to nanoseconds. This
  theory puts the two models together: what the drift of the clock does to the spacing of the messages.
\<close>

subsection \<open>The world of a board\<close>

text \<open>The true time in microseconds since boot, the statics of the clock, and everything else.\<close>

record 'e board_world =
  now_us :: nat
  statics :: clock_static
  elsewhere :: 'e

text \<open>What the program relies on in a time source, for worlds with any further fields.\<close>

definition reads_board_clock :: "'e board_world time_source \<Rightarrow> bool" where
  "reads_board_clock get \<longleftrightarrow> (\<forall>w.
     get w = (case clock_gettime (of_nat (now_us w)) (statics w) of ((ret, ts), c) \<Rightarrow>
       ((RCUTILS_RET_OK, Some (RCUTILS_S_TO_NS (tv_sec ts) + ucast (tv_nsec ts))), w\<lparr>statics := c\<rparr>)))"

text \<open>The clock has been read in the last \<open>2 ^ 32\<close> microseconds, and since boot less than \<open>2 ^ 51\<close> have gone by (71
  years).\<close>

definition on_time :: "'e board_world \<Rightarrow> bool" where
  "on_time w \<longleftrightarrow> (\<exists>t. clock_tracks t (statics w) \<and> clock_step_ok t (now_us w)) \<and> now_us w < 2 ^ 51"

definition keeps_time :: "('e board_world \<Rightarrow> 'e board_world) \<Rightarrow> bool" where
  "keeps_time f \<longleftrightarrow> (\<forall>w. on_time w \<longrightarrow> now_us w \<le> now_us (f w) \<and> on_time (f w))"

text \<open>The calls at which the logger is enabled, with the true time of each.\<close>

fun board_calls ::
  "'e board_world log_env \<Rightarrow> log_severity \<Rightarrow> string option \<Rightarrow> 'e board_world time_source \<Rightarrow>
     (('e board_world \<Rightarrow> 'e board_world) \<times> string) list \<Rightarrow> 'e board_world \<Rightarrow> (nat \<times> string) list" where
  "board_calls env sev name get [] w = []"
| "board_calls env sev name get ((other, msg) # cs) w =
     (let w' = autoinit_world env (other w)
      in if rcutils_logging_logger_is_enabled_for env name sev w'
         then (now_us w', msg) # board_calls env sev name get cs (snd (get w'))
         else board_calls env sev name get cs w')"

subsection \<open>Reading the clock in nanoseconds\<close>

lemma drifted_le: "drifted t \<le> t"
  by (simp add: drifted_def)

lemma scaled_small:
  fixes x :: int
  shows "x < 2 ^ 51 \<Longrightarrow> 1000 * x < 2 ^ 63" "x < 2 ^ 51 \<Longrightarrow> 1000 * x < 2 ^ 62" "x < 2 ^ 40 \<Longrightarrow> 1000000 * x < 2 ^ 62"
    "x < 2 ^ 62 \<Longrightarrow> x < 2 ^ 63"
  by simp_all

lemma timespec_ns:
  fixes us :: u64
  assumes "unat us < 2 ^ 51"
  shows "sint (RCUTILS_S_TO_NS (us div 1000000) + ucast (ucast ((us mod 1000000) * 1000) :: u32)) = 1000 * int (unat us)"
proof -
  have small: "(unat us mod 1000000) * 1000 < 2 ^ 32" by (simp add: less_le_trans [of _ "1000000 * 1000"])
  then have "ucast (ucast ((us mod 1000000) * 1000) :: u32) = (us mod 1000000) * 1000"
    by (simp add: word_unat_eq_iff unat_u32_to_u64 timespec_of_us(1) us_split(2))
  moreover have "RCUTILS_S_TO_NS (us div 1000000) + (us mod 1000000) * 1000 = (us div 1000000 * 1000000 + us mod 1000000) * 1000"
    by (simp add: RCUTILS_S_TO_NS_def algebra_simps)
  ultimately have "RCUTILS_S_TO_NS (us div 1000000) + ucast (ucast ((us mod 1000000) * 1000) :: u32) = us * 1000"
    by (simp only: word_mod_div_equality)
  moreover have "us * 1000 = word_of_int (1000 * int (unat us))" by simp
  moreover have "1000 * int (unat us) < 2 ^ 63"
  proof -
    have "int (unat us) < 2 ^ 51" using assms by (simp only: of_nat_less_numeral_power_cancel_iff)
    then show ?thesis by (rule scaled_small)
  qed
  ultimately show ?thesis by (simp only: sint_u64_of_int)
qed

lemma read_board_clock:
  assumes "reads_board_clock get" "on_time w"
  obtains t w' where "get w = ((RCUTILS_RET_OK, Some t), w')" "sint t = 1000 * int (drifted (now_us w))"
    "now_us w' = now_us w" "on_time w'"
proof -
  obtain t0 where t0: "clock_tracks t0 (statics w)" "clock_step_ok t0 (now_us w)" and small: "now_us w < 2 ^ 51"
    using assms(2) by (auto simp: on_time_def)
  obtain ret ts c where g: "clock_gettime (of_nat (now_us w)) (statics w) = ((ret, ts), c)"
    by (metis prod.collapse)
  obtain us :: u64 where us: "ts = \<lparr>tv_sec = us div 1000000, tv_nsec = ucast ((us mod 1000000) * 1000)\<rparr>"
    using g by (auto simp: clock_gettime_def Let_def)
  have view: "unat us = drifted (now_us w)"
    using clock_gettime_sound(1) [OF t0] timespec_of_us(2) [of us] by (simp add: g us)
  then have "unat us < 2 ^ 51" using small drifted_le [of "now_us w"] by simp
  from timespec_ns [OF this] have "sint (RCUTILS_S_TO_NS (tv_sec ts) + ucast (tv_nsec ts)) = 1000 * int (drifted (now_us w))"
    by (simp add: us view)
  moreover have "on_time (w\<lparr>statics := c\<rparr>)"
    using clock_gettime_sound(2) [OF t0] small g by (auto simp: on_time_def clock_step_ok_def intro!: exI [of _ "now_us w"])
  moreover have "get w = ((RCUTILS_RET_OK, Some (RCUTILS_S_TO_NS (tv_sec ts) + ucast (tv_nsec ts))), w\<lparr>statics := c\<rparr>)"
    using assms(1) by (simp add: reads_board_clock_def g)
  ultimately show thesis using that by simp
qed

subsection \<open>Spacing\<close>

text \<open>A call the throttle leaves out comes less than the duration after the start or after an earlier call it logs.\<close>

lemma throttled_maximal_before:
  assumes "sorted_wrt R xs" "\<And>a b. R a b \<Longrightarrow> fst a \<le> fst b" "\<forall>y \<in> set xs. prev \<le> fst y"
    and "x \<in> set xs" "x \<notin> set (throttled d prev xs)"
  shows "fst x < prev + d \<or> (\<exists>y \<in> set (throttled d prev xs). R y x \<and> fst x < fst y + d)"
  using assms(1,3-)
proof (induction d prev xs rule: throttled.induct)
  case (2 d prev t y ys)
  show ?case
  proof (cases "prev + d \<le> t")
    case True
    with 2 have x: "x \<in> set ys" "x \<notin> set (throttled d t ys)" "R (t, y) x" by auto
    have "\<forall>z \<in> set ys. t \<le> fst z" using "2.prems"(1) assms(2) by fastforce
    with "2.IH"(1) [OF True] "2.prems"(1) x True show ?thesis by auto
  next
    case False
    with "2.IH"(2) [OF False] "2.prems" show ?thesis by auto
  qed
qed simp

lemma drifted_gap: "drifted a + k \<le> drifted b \<Longrightarrow> a \<le> b \<Longrightarrow> a + k \<le> b"
  using div_le_mono [of a b "2 ^ 32"] div_le_dividend [of a "2 ^ 32"] div_le_dividend [of b "2 ^ 32"]
  unfolding drifted_def by linarith

lemma drifted_within:
  "drifted t < drifted t' + k \<Longrightarrow> t' \<le> t \<Longrightarrow> t < t' + k + (t div 2 ^ 32 - t' div 2 ^ 32)"
  using div_le_mono [of t' t "2 ^ 32"] div_le_dividend [of t "2 ^ 32"] div_le_dividend [of t' "2 ^ 32"]
  unfolding drifted_def by linarith

text \<open>A call with the reading the throttle takes at its time.\<close>

definition clocked :: "nat \<times> string \<Rightarrow> int \<times> nat \<times> string" where
  "clocked c = (1000 * int (drifted (fst c)), c)"

lemma short_ms:
  assumes "ms < 2 ^ 40"
  shows "sint (RCUTILS_MS_TO_NS (of_nat ms)) = 1000000 * int ms" and "short_duration (of_nat ms)"
proof -
  have "int ms < 2 ^ 40" using assms by (simp only: of_nat_less_numeral_power_cancel_iff)
  then have b: "1000000 * int ms < 2 ^ 62" by (rule scaled_small)
  have "RCUTILS_MS_TO_NS (of_nat ms) = word_of_int (1000000 * int ms)" by (simp add: RCUTILS_MS_TO_NS_def)
  with scaled_small(4) [OF b] show d: "sint (RCUTILS_MS_TO_NS (of_nat ms)) = 1000000 * int ms"
    by (simp only: sint_u64_of_int)
  show "short_duration (of_nat ms)" unfolding short_duration_def d using b by simp
qed

lemma throttled_on_board:
  assumes "reads_board_clock get" "ms < 2 ^ 40" "keeps_time (autoinit_world env)"
    and "\<forall>(other, msg) \<in> set cs. keeps_time other" "on_time (world s)" "throttle_ready (of_nat ms) s"
  shows "log_output (log_run (RCUTILS_LOG_COND_NAMED env sev (RCUTILS_LOG_CONDITION_THROTTLE get (of_nat ms)) name) cs s) =
    log_output s @ map (Log_Internal sev name) (map (snd \<circ> snd)
      (throttled (1000000 * int ms) (sint (logging_last_logged s)) (map clocked (board_calls env sev name get cs (world s)))))"
  using assms(4-)
proof (induction cs arbitrary: s)
  case (Cons c cs)
  obtain other msg where c: "c = (other, msg)" by (cases c)
  let ?w = "autoinit_world env (other (world s))"
  let ?s = "s\<lparr>world := ?w\<rparr>"
  let ?d = "RCUTILS_MS_TO_NS (of_nat ms)"
  let ?body = "rcutils_log_internal sev name msg"
  have w: "on_time ?w" using Cons.prems(1,2) assms(3) by (auto simp: c keeps_time_def)
  have ready: "throttle_ready (of_nat ms) ?s" using Cons.prems(3) by (simp add: throttle_ready_def)
  obtain t w' where g: "get ?w = ((RCUTILS_RET_OK, Some t), w')" and t: "sint t = 1000 * int (drifted (now_us ?w))"
    and w': "now_us w' = now_us ?w" "on_time w'"
    using read_board_clock [OF assms(1) w] by metis
  have "now_us ?w < 2 ^ 51" using w by (simp add: on_time_def)
  then have "int (drifted (now_us ?w)) < 2 ^ 51" using drifted_le [of "now_us ?w"]
    by (simp only: of_nat_less_numeral_power_cancel_iff)
  then have t2: "0 \<le> sint t" "sint t < 2 ^ 62" unfolding t using scaled_small(2) by simp_all
  have "get (world ?s) = ((RCUTILS_RET_OK, Some t), w')" using g by simp
  note thr = throttle_step [of _ ?s get t w' ?body, OF ready short_ms(2) [OF assms(2)] this, unfolded short_ms(1) [OF assms(2)]]
  have step: "RCUTILS_LOG_COND_NAMED env sev (RCUTILS_LOG_CONDITION_THROTTLE get (of_nat ms)) name msg
        (s\<lparr>world := other (world s)\<rparr>) =
      (if rcutils_logging_logger_is_enabled_for env name sev ?w
       then RCUTILS_LOG_CONDITION_THROTTLE get (of_nat ms) ?body ?s else ?s)"
    by (simp add: cond_named_eq Let_def)
  have keep: "\<forall>(other, msg) \<in> set cs. keeps_time other" using Cons.prems(1) by simp
  let ?go = "?body (?s\<lparr>logging_duration := Some ?d, world := w', logging_last_logged := t\<rparr>)"
  let ?late = "?s\<lparr>logging_duration := Some ?d, world := w'\<rparr>"
  have "throttle_ready (of_nat ms) ?go" "throttle_ready (of_nat ms) ?late"
    using ready t2 by (simp_all add: throttle_ready_def)
  then have IH: "on_time (world ?go)" "throttle_ready (of_nat ms) ?go" "on_time (world ?late)"
    "throttle_ready (of_nat ms) ?late" using w' by simp_all
  have "on_time (world ?s)" using w by simp
  with Cons.IH [OF keep IH(1,2)] Cons.IH [OF keep IH(3,4)] Cons.IH [OF keep _ ready] show ?case
    by (simp add: c step thr Let_def g clocked_def t)
qed simp

lemma board_calls_sorted:
  assumes "reads_board_clock get" "keeps_time (autoinit_world env)"
    and "\<forall>(other, msg) \<in> set cs. keeps_time other" "on_time w"
  shows "sorted (now_us w # map fst (board_calls env sev name get cs w))"
  using assms(3,4)
proof (induction cs arbitrary: w)
  case (Cons c cs)
  obtain other msg where c: "c = (other, msg)" by (cases c)
  let ?w = "autoinit_world env (other w)"
  have w: "on_time ?w" "now_us w \<le> now_us ?w"
    using Cons.prems assms(2) by (auto simp: c keeps_time_def intro: order_trans)
  obtain w' where w': "snd (get ?w) = w'" "now_us w' = now_us ?w" "on_time w'"
    using read_board_clock [OF assms(1) w(1)] by (metis snd_conv)
  have keep: "\<forall>(other, msg) \<in> set cs. keeps_time other" using Cons.prems(1) by simp
  from Cons.IH [OF keep w(1)] Cons.IH [OF keep w'(3)] show ?case
    using w(2) by (auto simp: c w' Let_def intro: order_trans)
qed simp

text \<open>The calls the throttle lets through.\<close>

definition board_logged :: "nat \<Rightarrow> (nat \<times> string) list \<Rightarrow> (nat \<times> string) list" where
  "board_logged ms calls = map snd (throttled (1000000 * int ms) 0 (map clocked calls))"

lemma board_logged_subseq: "subseq (board_logged ms calls) calls"
  using subseq_map [OF throttled_subseq [of "1000000 * int ms" 0 "map clocked calls"], of snd]
  by (simp add: board_logged_def clocked_def comp_def)

lemma throttled_clocked:
  "throttled d prev (map clocked calls) = map clocked (map snd (throttled d prev (map clocked calls)))"
  by (induction calls arbitrary: prev) (auto simp: clocked_def)

lemma sorted_subseq: "subseq xs ys \<Longrightarrow> sorted ys \<Longrightarrow> sorted xs"
  by (induction xs ys rule: list_emb.induct) (auto dest: list_emb_set)

lemma board_logged_spaced:
  assumes "sorted (map fst calls)"
  shows "successively (\<lambda>a b. a + 1000 * ms \<le> b) (0 # map fst (board_logged ms calls))"
proof -
  let ?ts = "0 # map fst (board_logged ms calls)"
  have "map fst (throttled (1000000 * int ms) 0 (map clocked calls)) =
      map (\<lambda>t. 1000 * int (drifted t)) (map fst (board_logged ms calls))"
    by (subst throttled_clocked) (simp add: board_logged_def clocked_def)
  then have "successively (\<lambda>a b. a + 1000000 * int ms \<le> b) (map (\<lambda>t. 1000 * int (drifted t)) ?ts)"
    using throttled_spaced [of "1000000 * int ms" 0 "map clocked calls"] by (simp add: drifted_def)
  then have "successively (\<lambda>a b. drifted a + 1000 * ms \<le> drifted b) ?ts"
    unfolding successively_map by (rule successively_mono) linarith
  moreover have "successively (\<le>) ?ts"
    using sorted_subseq [OF subseq_map [OF board_logged_subseq, of fst ms calls] assms]
    by (simp add: successively_sorted)
  ultimately show ?thesis unfolding successively_conv_nth by (blast intro: drifted_gap)
qed

lemma board_logged_maximal:
  assumes "sorted (map fst calls)" "(t, msg) \<in> set calls - set (board_logged ms calls)"
  shows "\<exists>t' \<in> insert 0 (fst ` set (board_logged ms calls)).
    t' \<le> t \<and> t < t' + 1000 * ms + (t div 2 ^ 32 - t' div 2 ^ 32)"
proof -
  let ?thr = "throttled (1000000 * int ms) 0 (map clocked calls)"
  let ?R = "\<lambda>a b :: int \<times> nat \<times> string. fst a \<le> fst b \<and> fst (snd a) \<le> fst (snd b)"
  have "sorted_wrt ?R (map clocked calls)"
    using assms(1) by (auto simp: sorted_wrt_map clocked_def drifted_mono elim!: sorted_wrt_mono_rel [rotated])
  moreover have "\<forall>y \<in> set (map clocked calls). 0 \<le> fst y" by (auto simp: clocked_def)
  moreover have "clocked (t, msg) \<in> set (map clocked calls)" using assms(2) by auto
  moreover have "clocked (t, msg) \<notin> set ?thr"
    using assms(2) by (force simp: board_logged_def clocked_def)
  ultimately consider "fst (clocked (t, msg)) < 0 + 1000000 * int ms"
    | y where "y \<in> set ?thr" "?R y (clocked (t, msg))" "fst (clocked (t, msg)) < fst y + 1000000 * int ms"
    using throttled_maximal_before [of ?R "map clocked calls" 0 "clocked (t, msg)"] by blast
  then show ?thesis
  proof cases
    case 1
    then have "drifted t < drifted 0 + 1000 * ms" by (simp add: clocked_def drifted_def)
    then show ?thesis using drifted_within [of t 0] by auto
  next
    case 2
    from 2(1) have "y \<in> set (map clocked (board_logged ms calls))"
      unfolding board_logged_def by (subst (asm) throttled_clocked)
    then obtain t' msg' where y: "(t', msg') \<in> set (board_logged ms calls)" "y = clocked (t', msg')" by auto
    with 2 have "drifted t < drifted t' + 1000 * ms" "t' \<le> t" by (auto simp: clocked_def)
    then have "t < t' + 1000 * ms + (t div 2 ^ 32 - t' div 2 ^ 32)" by (rule drifted_within)
    with y(1) \<open>t' \<le> t\<close> show ?thesis by force
  qed
qed

subsection \<open>Properties\<close>


text \<open>A board for the witness: a logger that is always enabled, a time source that reads the clock, and a program
  that waits until a given time.\<close>

definition board_time :: "unit board_world time_source" where
  "board_time w = (case clock_gettime (of_nat (now_us w)) (statics w) of ((ret, ts), c) \<Rightarrow>
     ((RCUTILS_RET_OK, Some (RCUTILS_S_TO_NS (tv_sec ts) + ucast (tv_nsec ts))), w\<lparr>statics := c\<rparr>))"

definition enabled_env :: "unit board_world log_env" where
  "enabled_env = \<lparr>g_rcutils_logging_initialized = (\<lambda>w. True), rcutils_logging_initialize = (\<lambda>w. (0, w)),
     rcutils_reset_error = (\<lambda>w. w), rcutils_logging_logger_is_enabled_for = (\<lambda>name sev w. True)\<rparr>"

definition wait_until :: "nat \<Rightarrow> unit board_world \<Rightarrow> unit board_world" where
  "wait_until t w = w\<lparr>now_us := max (now_us w) t\<rparr>"

lemma wait_until_keeps_time: "t < 2 ^ 32 \<Longrightarrow> keeps_time (wait_until t)"
  by (force simp: keeps_time_def wait_until_def on_time_def clock_step_ok_def max_def)

lemma board_time_reads: "reads_board_clock board_time" "now_us (snd (board_time w)) = now_us w"
  by (simp_all add: reads_board_clock_def board_time_def split: prod.splits)

definition small_calls :: "((unit board_world \<Rightarrow> unit board_world) \<times> string) list" where
  "small_calls = [(wait_until 5000, ''a''), (wait_until 12000, ''b''), (wait_until 21000, ''c''), (wait_until 22000, ''d'')]"

lemma small_board_calls:
  "now_us w = 0 \<Longrightarrow> board_calls enabled_env sev name board_time small_calls w =
    [(5000, ''a''), (12000, ''b''), (21000, ''c''), (22000, ''d'')]"
  by (simp add: small_calls_def autoinit_world_def enabled_env_def wait_until_def board_time_reads Let_def)


end
