(* ===== verification/Rcutils_Errors.thy ===== *)
theory Rcutils_Errors
  imports Prelude
begin

text \<open>
  The error-handling and fault-injection macros of rcutils: \<^verbatim>\<open>rcutils/error_handling.h\<close>,
  \<^verbatim>\<open>rcutils/macros.h\<close>, \<^verbatim>\<open>rcutils/allocator.h\<close> and \<^verbatim>\<open>rcutils/testing/fault_injection.h\<close>, under the
  flags of \<^verbatim>\<open>rcutils/configuration_flags.h\<close>. A macro is a statement of the function it stands in:
  it returns a value from it or goes on. The functions the macros call are not part of the
  repository and form the record \<open>error_lib\<close>.
\<close>

subsection \<open>Builds and statements\<close>

text \<open>The preprocessor symbols the definitions depend on.\<close>

record build =
  RCUTILS_NO_FILESYSTEM :: bool
  RCUTILS_AVOID_DYNAMIC_ALLOCATION :: bool
  RCUTILS_ENABLE_FAULT_INJECTION :: bool

definition configuration_flags :: build where
  "configuration_flags = \<lparr>RCUTILS_NO_FILESYSTEM = True, RCUTILS_AVOID_DYNAMIC_ALLOCATION = True,
     RCUTILS_ENABLE_FAULT_INJECTION = False\<rparr>"

text \<open>\<open>Some r\<close> is a return of \<open>r\<close> from the enclosing function, \<open>None\<close> goes on.\<close>

type_synonym ('r, 's) stmt = "'s \<Rightarrow> 'r option \<times> 's"

definition skip :: "('r, 's) stmt" where
  "skip s = (None, s)"

definition return_stmt :: "'r \<Rightarrow> ('r, 's) stmt" where
  "return_stmt r s = (Some r, s)"

definition effect :: "('s \<Rightarrow> 's) \<Rightarrow> ('r, 's) stmt" where
  "effect f s = (None, f s)"

definition seq :: "('r, 's) stmt \<Rightarrow> ('r, 's) stmt \<Rightarrow> ('r, 's) stmt" where
  "seq a b s = (case a s of (Some r, s') \<Rightarrow> (Some r, s') | (None, s') \<Rightarrow> b s')"

record 's error_lib =
  rcutils_set_error_state :: "string \<Rightarrow> string \<Rightarrow> nat \<Rightarrow> 's \<Rightarrow> 's"
  rcutils_get_error_string :: "'s \<Rightarrow> string"
  rcutils_reset_error :: "'s \<Rightarrow> 's"
  rcutils_snprintf :: "nat \<Rightarrow> string \<Rightarrow> string list \<Rightarrow> int \<times> string"
  fwrite_stderr :: "string \<Rightarrow> 's \<Rightarrow> 's"
  rcutils_fault_injection_set_count :: "int \<Rightarrow> 's \<Rightarrow> 's"
  rcutils_fault_injection_get_count :: "'s \<Rightarrow> int"
  rcutils_fault_injection_is_test_complete :: "'s \<Rightarrow> bool"
  maybe_fail :: "'s \<Rightarrow> int \<times> 's"

text \<open>Where a macro stands, for \<open>__FILE__\<close> and \<open>__LINE__\<close>.\<close>

type_synonym place = "string \<times> nat"

subsection \<open>Sizes\<close>

definition RCUTILS_ERROR_STATE_LINE_NUMBER_STR_MAX_LENGTH :: "build \<Rightarrow> nat" where
  "RCUTILS_ERROR_STATE_LINE_NUMBER_STR_MAX_LENGTH b = (if RCUTILS_AVOID_DYNAMIC_ALLOCATION b then 1 else 20)"

definition RCUTILS_ERROR_FORMATTING_CHARACTERS :: "build \<Rightarrow> nat" where
  "RCUTILS_ERROR_FORMATTING_CHARACTERS b = (if RCUTILS_AVOID_DYNAMIC_ALLOCATION b then 1 else 6)"

definition RCUTILS_ERROR_MESSAGE_MAX_LENGTH :: "build \<Rightarrow> nat" where
  "RCUTILS_ERROR_MESSAGE_MAX_LENGTH b = (if RCUTILS_AVOID_DYNAMIC_ALLOCATION b then 1 else 1024)"

definition RCUTILS_ERROR_STATE_MESSAGE_MAX_LENGTH :: "build \<Rightarrow> nat" where
  "RCUTILS_ERROR_STATE_MESSAGE_MAX_LENGTH b = (if RCUTILS_AVOID_DYNAMIC_ALLOCATION b then 1 else 768)"

definition RCUTILS_ERROR_STATE_FILE_MAX_LENGTH :: "build \<Rightarrow> nat" where
  "RCUTILS_ERROR_STATE_FILE_MAX_LENGTH b =
     (if RCUTILS_AVOID_DYNAMIC_ALLOCATION b then 1
      else RCUTILS_ERROR_MESSAGE_MAX_LENGTH b - RCUTILS_ERROR_STATE_MESSAGE_MAX_LENGTH b -
        RCUTILS_ERROR_STATE_LINE_NUMBER_STR_MAX_LENGTH b - RCUTILS_ERROR_FORMATTING_CHARACTERS b - 1)"

lemmas error_size_defs =
  RCUTILS_ERROR_STATE_LINE_NUMBER_STR_MAX_LENGTH_def RCUTILS_ERROR_FORMATTING_CHARACTERS_def
  RCUTILS_ERROR_MESSAGE_MAX_LENGTH_def RCUTILS_ERROR_STATE_MESSAGE_MAX_LENGTH_def
  RCUTILS_ERROR_STATE_FILE_MAX_LENGTH_def

subsection \<open>Error handling\<close>

definition RCUTILS_SAFE_FWRITE_TO_STDERR :: "build \<Rightarrow> 's error_lib \<Rightarrow> string \<Rightarrow> ('r, 's) stmt" where
  "RCUTILS_SAFE_FWRITE_TO_STDERR b lib msg =
     (if RCUTILS_NO_FILESYSTEM b then skip else effect (fwrite_stderr lib msg))"

definition RCUTILS_SAFE_FWRITE_TO_STDERR_WITH_FORMAT_STRING ::
  "build \<Rightarrow> 's error_lib \<Rightarrow> string \<Rightarrow> string list \<Rightarrow> ('r, 's) stmt" where
  "RCUTILS_SAFE_FWRITE_TO_STDERR_WITH_FORMAT_STRING b lib fmt xs =
     (if RCUTILS_AVOID_DYNAMIC_ALLOCATION b then skip
      else (let (ret, output_msg) = rcutils_snprintf lib (RCUTILS_ERROR_MESSAGE_MAX_LENGTH b) fmt xs
            in if ret < 0
               then RCUTILS_SAFE_FWRITE_TO_STDERR b lib ''Failed to call snprintf for error message formatting''
               else RCUTILS_SAFE_FWRITE_TO_STDERR b lib output_msg))"

definition RCUTILS_SET_ERROR_MSG :: "build \<Rightarrow> 's error_lib \<Rightarrow> place \<Rightarrow> string \<Rightarrow> ('r, 's) stmt" where
  "RCUTILS_SET_ERROR_MSG b lib at msg =
     (if RCUTILS_AVOID_DYNAMIC_ALLOCATION b then skip
      else effect (rcutils_set_error_state lib msg (fst at) (snd at)))"

definition RCUTILS_CHECK_FOR_NULL_WITH_MSG ::
  "build \<Rightarrow> 's error_lib \<Rightarrow> place \<Rightarrow> 'p option \<Rightarrow> string \<Rightarrow> ('r, 's) stmt \<Rightarrow> ('r, 's) stmt" where
  "RCUTILS_CHECK_FOR_NULL_WITH_MSG b lib at val msg error_statement =
     (if val = None then seq (RCUTILS_SET_ERROR_MSG b lib at msg) error_statement else skip)"

text \<open>\<open>name\<close> is the text of the argument.\<close>

definition RCUTILS_CHECK_ARGUMENT_FOR_NULL ::
  "build \<Rightarrow> 's error_lib \<Rightarrow> place \<Rightarrow> string \<Rightarrow> 'p option \<Rightarrow> 'r \<Rightarrow> ('r, 's) stmt" where
  "RCUTILS_CHECK_ARGUMENT_FOR_NULL b lib at name argument error_return_type =
     RCUTILS_CHECK_FOR_NULL_WITH_MSG b lib at argument (name @ '' argument is null'')
       (return_stmt error_return_type)"

definition RCUTILS_SET_ERROR_MSG_WITH_FORMAT_STRING ::
  "build \<Rightarrow> 's error_lib \<Rightarrow> place \<Rightarrow> string \<Rightarrow> string list \<Rightarrow> ('r, 's) stmt" where
  "RCUTILS_SET_ERROR_MSG_WITH_FORMAT_STRING b lib at fmt xs =
     (if RCUTILS_AVOID_DYNAMIC_ALLOCATION b then skip
      else (let (ret, output_msg) = rcutils_snprintf lib (RCUTILS_ERROR_MESSAGE_MAX_LENGTH b) fmt xs
            in if ret < 0
               then RCUTILS_SAFE_FWRITE_TO_STDERR b lib ''Failed to call snprintf for error message formatting''
               else RCUTILS_SET_ERROR_MSG b lib at output_msg))"

definition RCUTILS_SET_ERROR_MSG_AND_APPEND_PREV_ERROR ::
  "build \<Rightarrow> 's error_lib \<Rightarrow> place \<Rightarrow> string \<Rightarrow> ('r, 's) stmt" where
  "RCUTILS_SET_ERROR_MSG_AND_APPEND_PREV_ERROR b lib at msg s =
     (let error_string = rcutils_get_error_string lib s
      in seq (effect (rcutils_reset_error lib))
           (RCUTILS_SET_ERROR_MSG_WITH_FORMAT_STRING b lib at (msg @ '': %s'') [error_string]) s)"

definition RCUTILS_SET_ERROR_MSG_WITH_FORMAT_STRING_AND_APPEND_PREV_ERROR ::
  "build \<Rightarrow> 's error_lib \<Rightarrow> place \<Rightarrow> string \<Rightarrow> string list \<Rightarrow> ('r, 's) stmt" where
  "RCUTILS_SET_ERROR_MSG_WITH_FORMAT_STRING_AND_APPEND_PREV_ERROR b lib at fmt xs s =
     (let error_string = rcutils_get_error_string lib s
      in seq (effect (rcutils_reset_error lib))
           (RCUTILS_SET_ERROR_MSG_WITH_FORMAT_STRING b lib at (fmt @ '': %s'') (xs @ [error_string])) s)"

definition RCUTILS_SAFE_FWRITE_TO_STDERR_AND_APPEND_PREV_ERROR ::
  "build \<Rightarrow> 's error_lib \<Rightarrow> string \<Rightarrow> ('r, 's) stmt" where
  "RCUTILS_SAFE_FWRITE_TO_STDERR_AND_APPEND_PREV_ERROR b lib msg s =
     (let error_string = rcutils_get_error_string lib s
      in seq (effect (rcutils_reset_error lib))
          (seq (RCUTILS_SAFE_FWRITE_TO_STDERR b lib msg)
            (RCUTILS_SAFE_FWRITE_TO_STDERR_WITH_FORMAT_STRING b lib '': %s'' [error_string])) s)"

definition RCUTILS_SAFE_FWRITE_TO_STDERR_WITH_FORMAT_STRING_AND_APPEND_PREV_ERROR ::
  "build \<Rightarrow> 's error_lib \<Rightarrow> string \<Rightarrow> string list \<Rightarrow> ('r, 's) stmt" where
  "RCUTILS_SAFE_FWRITE_TO_STDERR_WITH_FORMAT_STRING_AND_APPEND_PREV_ERROR b lib fmt xs s =
     (let error_string = rcutils_get_error_string lib s
      in seq (effect (rcutils_reset_error lib))
          (seq (RCUTILS_SAFE_FWRITE_TO_STDERR_WITH_FORMAT_STRING b lib fmt xs)
            (RCUTILS_SAFE_FWRITE_TO_STDERR_WITH_FORMAT_STRING b lib '': %s'' [error_string])) s)"

text \<open>\<open>valid\<close> is the result of \<open>rcutils_allocator_is_valid\<close>.\<close>

definition RCUTILS_CHECK_ALLOCATOR :: "bool \<Rightarrow> ('r, 's) stmt \<Rightarrow> ('r, 's) stmt" where
  "RCUTILS_CHECK_ALLOCATOR valid fail_statement = (if \<not> valid then fail_statement else skip)"

definition RCUTILS_CHECK_ALLOCATOR_WITH_MSG ::
  "build \<Rightarrow> 's error_lib \<Rightarrow> place \<Rightarrow> bool \<Rightarrow> string \<Rightarrow> ('r, 's) stmt \<Rightarrow> ('r, 's) stmt" where
  "RCUTILS_CHECK_ALLOCATOR_WITH_MSG b lib at valid msg fail_statement =
     (if \<not> valid then seq (RCUTILS_SET_ERROR_MSG b lib at msg) fail_statement else skip)"

subsection \<open>Fault injection\<close>

definition RCUTILS_FAULT_INJECTION_NEVER_FAIL :: int where
  "RCUTILS_FAULT_INJECTION_NEVER_FAIL = - 1"

definition RCUTILS_FAULT_INJECTION_FAIL_NOW :: int where
  "RCUTILS_FAULT_INJECTION_FAIL_NOW = 0"

text \<open>The message these macros print to the console is not modelled.\<close>

definition RCUTILS_FAULT_INJECTION_MAYBE_FAIL ::
  "build \<Rightarrow> 's error_lib \<Rightarrow> ('r, 's) stmt \<Rightarrow> ('r, 's) stmt" where
  "RCUTILS_FAULT_INJECTION_MAYBE_FAIL b lib failure_code s =
     (if RCUTILS_ENABLE_FAULT_INJECTION b
      then (let (count, s') = maybe_fail lib s
            in if RCUTILS_FAULT_INJECTION_FAIL_NOW = count then failure_code s' else (None, s'))
      else (None, s))"

definition RCUTILS_FAULT_INJECTION_MAYBE_RETURN_ERROR ::
  "build \<Rightarrow> 's error_lib \<Rightarrow> 'r \<Rightarrow> ('r, 's) stmt" where
  "RCUTILS_FAULT_INJECTION_MAYBE_RETURN_ERROR b lib return_value_on_error s =
     (if RCUTILS_ENABLE_FAULT_INJECTION b
      then (let (count, s') = maybe_fail lib s
            in if RCUTILS_FAULT_INJECTION_FAIL_NOW = count then (Some return_value_on_error, s') else (None, s'))
      else (None, s))"

definition RCUTILS_CAN_RETURN_WITH_ERROR_OF :: "build \<Rightarrow> 's error_lib \<Rightarrow> 'r \<Rightarrow> ('r, 's) stmt" where
  "RCUTILS_CAN_RETURN_WITH_ERROR_OF b lib error_return_value =
     (if RCUTILS_ENABLE_FAULT_INJECTION b
      then RCUTILS_FAULT_INJECTION_MAYBE_RETURN_ERROR b lib error_return_value else skip)"

definition RCUTILS_CAN_FAIL_WITH :: "build \<Rightarrow> 's error_lib \<Rightarrow> ('r, 's) stmt \<Rightarrow> ('r, 's) stmt" where
  "RCUTILS_CAN_FAIL_WITH b lib failure_code =
     (if RCUTILS_ENABLE_FAULT_INJECTION b
      then RCUTILS_FAULT_INJECTION_MAYBE_FAIL b lib failure_code else skip)"

text \<open>\<open>val_name\<close> is the text of the value.\<close>

definition RCUTILS_CAN_SET_MSG_AND_RETURN_WITH_ERROR_OF ::
  "build \<Rightarrow> 's error_lib \<Rightarrow> place \<Rightarrow> string \<Rightarrow> 'r \<Rightarrow> ('r, 's) stmt" where
  "RCUTILS_CAN_SET_MSG_AND_RETURN_WITH_ERROR_OF b lib at val_name error_return_value =
     RCUTILS_CAN_FAIL_WITH b lib
       (seq (RCUTILS_SET_ERROR_MSG b lib at (''Injecting '' @ val_name)) (return_stmt error_return_value))"

text \<open>The loop of the test macro; \<open>None\<close> is a test that never completes.\<close>

partial_function (option) fault_rounds :: "'s error_lib \<Rightarrow> ('s \<Rightarrow> 's) \<Rightarrow> int \<Rightarrow> 's \<Rightarrow> 's option" where
  "fault_rounds lib code fault_injection_count s =
     (let s' = code (rcutils_fault_injection_set_count lib fault_injection_count s)
      in if \<not> rcutils_fault_injection_is_test_complete lib s'
         then fault_rounds lib code (fault_injection_count + 1) s'
         else Some s')"

definition RCUTILS_FAULT_INJECTION_TEST :: "build \<Rightarrow> 's error_lib \<Rightarrow> ('s \<Rightarrow> 's) \<Rightarrow> 's \<Rightarrow> 's option" where
  "RCUTILS_FAULT_INJECTION_TEST b lib code s =
     (if RCUTILS_ENABLE_FAULT_INJECTION b
      then (case fault_rounds lib code 0 s of None \<Rightarrow> None
            | Some s' \<Rightarrow> Some (rcutils_fault_injection_set_count lib RCUTILS_FAULT_INJECTION_NEVER_FAIL s'))
      else Some s)"

definition RCUTILS_NO_FAULT_INJECTION :: "build \<Rightarrow> 's error_lib \<Rightarrow> ('s \<Rightarrow> 's) \<Rightarrow> 's \<Rightarrow> 's" where
  "RCUTILS_NO_FAULT_INJECTION b lib code s =
     (if RCUTILS_ENABLE_FAULT_INJECTION b
      then (let no_fault_injection_count = rcutils_fault_injection_get_count lib s;
                s1 = rcutils_fault_injection_set_count lib RCUTILS_FAULT_INJECTION_NEVER_FAIL s
            in rcutils_fault_injection_set_count lib no_fault_injection_count (code s1))
      else s)"

lemmas stmt_defs = skip_def return_stmt_def effect_def seq_def

lemmas error_macro_defs =
  RCUTILS_SAFE_FWRITE_TO_STDERR_def RCUTILS_SAFE_FWRITE_TO_STDERR_WITH_FORMAT_STRING_def
  RCUTILS_SET_ERROR_MSG_def RCUTILS_CHECK_FOR_NULL_WITH_MSG_def RCUTILS_CHECK_ARGUMENT_FOR_NULL_def
  RCUTILS_SET_ERROR_MSG_WITH_FORMAT_STRING_def RCUTILS_SET_ERROR_MSG_AND_APPEND_PREV_ERROR_def
  RCUTILS_SET_ERROR_MSG_WITH_FORMAT_STRING_AND_APPEND_PREV_ERROR_def
  RCUTILS_SAFE_FWRITE_TO_STDERR_AND_APPEND_PREV_ERROR_def
  RCUTILS_SAFE_FWRITE_TO_STDERR_WITH_FORMAT_STRING_AND_APPEND_PREV_ERROR_def
  RCUTILS_CHECK_ALLOCATOR_def RCUTILS_CHECK_ALLOCATOR_WITH_MSG_def

subsection \<open>The rounds of a fault injection test\<close>

text \<open>What is left of \<open>k\<close> rounds that start with the count \<open>n\<close>.\<close>

fun after_rounds :: "'s error_lib \<Rightarrow> ('s \<Rightarrow> 's) \<Rightarrow> int \<Rightarrow> nat \<Rightarrow> 's \<Rightarrow> 's" where
  "after_rounds lib code n 0 s = s"
| "after_rounds lib code n (Suc k) s =
     after_rounds lib code (n + 1) k (code (rcutils_fault_injection_set_count lib n s))"

lemma fault_rounds_returns:
  "rcutils_fault_injection_is_test_complete lib (after_rounds lib code n (Suc k) s) \<Longrightarrow>
   (\<forall>j < k. \<not> rcutils_fault_injection_is_test_complete lib (after_rounds lib code n (Suc j) s)) \<Longrightarrow>
   fault_rounds lib code n s = Some (after_rounds lib code n (Suc k) s)"
proof (induction k arbitrary: n s)
  case 0
  then show ?case by (subst fault_rounds.simps) (simp add: Let_def)
next
  case (Suc k)
  let ?s = "code (rcutils_fault_injection_set_count lib n s)"
  have "\<not> rcutils_fault_injection_is_test_complete lib ?s"
    using Suc.prems(2) by (auto dest: spec [of _ 0])
  moreover have "\<not> rcutils_fault_injection_is_test_complete lib (after_rounds lib code (n + 1) (Suc j) ?s)"
    if "j < k" for j
    using Suc.prems(2) that by (auto dest: spec [of _ "Suc j"])
  then have "fault_rounds lib code (n + 1) ?s = Some (after_rounds lib code (n + 1) (Suc k) ?s)"
    using Suc.prems(1) by (intro Suc.IH) simp_all
  ultimately show ?case by (subst fault_rounds.simps) (simp add: Let_def)
qed

lemma fault_rounds_result:
  assumes "fault_rounds lib code n s = Some s'"
  shows "\<exists>k. s' = after_rounds lib code n (Suc k) s \<and> rcutils_fault_injection_is_test_complete lib s'"
proof (rule fault_rounds.raw_induct [where P = "\<lambda>lib code n s s'.
      \<exists>k. s' = after_rounds lib code n (Suc k) s \<and> rcutils_fault_injection_is_test_complete lib s'", OF _ assms])
  fix rounds and lib :: "'s error_lib" and code n s s'
  assume IH: "\<And>lib code n s s'. rounds lib code n s = Some s' \<Longrightarrow>
      \<exists>k. s' = after_rounds lib code n (Suc k) s \<and> rcutils_fault_injection_is_test_complete lib s'"
    and step: "(let s' = code (rcutils_fault_injection_set_count lib n s)
      in if \<not> rcutils_fault_injection_is_test_complete lib s' then rounds lib code (n + 1) s' else Some s') = Some s'"
  let ?s = "code (rcutils_fault_injection_set_count lib n s)"
  show "\<exists>k. s' = after_rounds lib code n (Suc k) s \<and> rcutils_fault_injection_is_test_complete lib s'"
  proof (cases "rcutils_fault_injection_is_test_complete lib ?s")
    case True
    with step show ?thesis by (intro exI [of _ 0]) (simp add: Let_def)
  next
    case False
    with step have "rounds lib code (n + 1) ?s = Some s'" by (simp add: Let_def)
    from IH [OF this] obtain k where "s' = after_rounds lib code (n + 1) (Suc k) ?s"
      "rcutils_fault_injection_is_test_complete lib s'" by blast
    then show ?thesis by (intro exI [of _ "Suc k"]) simp
  qed
qed

subsection \<open>Properties\<close>

text \<open>A null argument makes the function return the given error in every build, but the message
  is set only in a build with dynamic allocation. In the build of this library, which avoids
  it, the macro that is to set a message and append the previous error erases the previous
  error and sets none.\<close>

theorem error_macros_by_build:
  "RCUTILS_CHECK_ARGUMENT_FOR_NULL b lib at name None r s =
     (Some r, if RCUTILS_AVOID_DYNAMIC_ALLOCATION b then s
              else rcutils_set_error_state lib (name @ '' argument is null'') (fst at) (snd at) s) \<and>
   RCUTILS_CHECK_ARGUMENT_FOR_NULL b lib at name (Some p) r s = (None, s) \<and>
   (RCUTILS_SET_ERROR_MSG_AND_APPEND_PREV_ERROR b lib at msg s :: 'r option \<times> 's) =
     (None, if RCUTILS_AVOID_DYNAMIC_ALLOCATION b then rcutils_reset_error lib s
            else (let (ret, out) = rcutils_snprintf lib 1024 (msg @ '': %s'') [rcutils_get_error_string lib s];
                      s' = rcutils_reset_error lib s
                  in if ret \<ge> 0 then rcutils_set_error_state lib out (fst at) (snd at) s'
                     else if RCUTILS_NO_FILESYSTEM b then s'
                     else fwrite_stderr lib ''Failed to call snprintf for error message formatting'' s')) \<and>
   (RCUTILS_SET_ERROR_MSG_AND_APPEND_PREV_ERROR configuration_flags lib at msg s :: 'r option \<times> 's) =
     (None, rcutils_reset_error lib s)"
  by (simp add: error_macro_defs error_size_defs stmt_defs configuration_flags_def Let_def split: prod.split)

text \<open>In a build with fault injection \<open>RCUTILS_NO_FAULT_INJECTION\<close> runs its code with the
  injection off and puts the count back afterwards, whatever the code does to it. In the build
  of this library the macro is empty: the code it guards is dropped, not run.\<close>

theorem no_fault_injection_by_build:
  assumes "\<And>n s. rcutils_fault_injection_get_count lib (rcutils_fault_injection_set_count lib n s) = n"
  shows "(if RCUTILS_ENABLE_FAULT_INJECTION b
          then \<exists>s1. rcutils_fault_injection_get_count lib s1 = RCUTILS_FAULT_INJECTION_NEVER_FAIL \<and>
                 RCUTILS_NO_FAULT_INJECTION b lib code s =
                   rcutils_fault_injection_set_count lib (rcutils_fault_injection_get_count lib s) (code s1) \<and>
                 rcutils_fault_injection_get_count lib (RCUTILS_NO_FAULT_INJECTION b lib code s) =
                   rcutils_fault_injection_get_count lib s
          else RCUTILS_NO_FAULT_INJECTION b lib code s = s) \<and>
         RCUTILS_NO_FAULT_INJECTION configuration_flags lib code s = s"
  using assms by (auto simp: RCUTILS_NO_FAULT_INJECTION_def configuration_flags_def Let_def)

text \<open>A library for the witnesses: the state is the count and the number of faults injected, a test
  is complete when a round left the count positive.\<close>

definition counting_lib :: "(int \<times> nat) error_lib" where
  "counting_lib = \<lparr>rcutils_set_error_state = (\<lambda>_ _ _ s. s), rcutils_get_error_string = (\<lambda>_. []),
     rcutils_reset_error = id, rcutils_snprintf = (\<lambda>_ f _. (0, f)), fwrite_stderr = (\<lambda>_ s. s),
     rcutils_fault_injection_set_count = (\<lambda>n s. (n, snd s)), rcutils_fault_injection_get_count = fst,
     rcutils_fault_injection_is_test_complete = (\<lambda>s. 0 \<le> fst s),
     maybe_fail = (\<lambda>s. (fst s, if fst s \<ge> 0 then (fst s - 1, if fst s = 0 then snd s + 1 else snd s) else s))\<rparr>"

theorem no_fault_injection_by_build_witness:
  "RCUTILS_NO_FAULT_INJECTION configuration_flags counting_lib (\<lambda>s. (fst s, snd s + 7)) (3, 1) = (3, 1) \<and>
   rcutils_fault_injection_get_count counting_lib
     (RCUTILS_NO_FAULT_INJECTION (configuration_flags\<lparr>RCUTILS_ENABLE_FAULT_INJECTION := True\<rparr>)
        counting_lib (\<lambda>s. (5, snd s + 7)) (3, 1)) = 3"
  using no_fault_injection_by_build [of counting_lib configuration_flags "\<lambda>s. (fst s, snd s + 7)" "(3, 1)"]
    no_fault_injection_by_build [of counting_lib "configuration_flags\<lparr>RCUTILS_ENABLE_FAULT_INJECTION := True\<rparr>"
      "\<lambda>s. (5, snd s + 7)" "(3, 1)"]
  by (auto simp: counting_lib_def)

text \<open>A fault injection test runs its code with the counts 0, 1, 2, ... until the first round
  after which the library says that the test is complete, and leaves the injection off; it
  returns exactly when there is such a round. In a build without fault injection the test is
  dropped.\<close>

theorem fault_injection_test_rounds:
  assumes "RCUTILS_ENABLE_FAULT_INJECTION b"
  shows "(RCUTILS_FAULT_INJECTION_TEST b lib code s = None) =
      (\<forall>k. \<not> rcutils_fault_injection_is_test_complete lib (after_rounds lib code 0 (Suc k) s)) \<and>
    (\<forall>k. rcutils_fault_injection_is_test_complete lib (after_rounds lib code 0 (Suc k) s) \<longrightarrow>
       (\<forall>j < k. \<not> rcutils_fault_injection_is_test_complete lib (after_rounds lib code 0 (Suc j) s)) \<longrightarrow>
       RCUTILS_FAULT_INJECTION_TEST b lib code s =
         Some (rcutils_fault_injection_set_count lib RCUTILS_FAULT_INJECTION_NEVER_FAIL
           (after_rounds lib code 0 (Suc k) s))) \<and>
    RCUTILS_FAULT_INJECTION_TEST configuration_flags lib code s = Some s"
proof -
  let ?done = "\<lambda>k. rcutils_fault_injection_is_test_complete lib (after_rounds lib code 0 (Suc k) s)"
  have "fault_rounds lib code 0 s \<noteq> None" if "?done k" for k
  proof -
    define k0 where "k0 = (LEAST k. ?done k)"
    have "?done k0" "\<forall>j < k0. \<not> ?done j"
      using that unfolding k0_def by (rule LeastI) (blast dest: not_less_Least)
    then show ?thesis using fault_rounds_returns by fastforce
  qed
  moreover have "\<exists>k. ?done k" if "fault_rounds lib code 0 s = Some s'" for s'
    using fault_rounds_result [OF that] by blast
  ultimately have "(fault_rounds lib code 0 s = None) = (\<forall>k. \<not> ?done k)" by (metis not_None_eq)
  moreover have "fault_rounds lib code 0 s = Some (after_rounds lib code 0 (Suc k) s)"
    if "?done k" "\<forall>j < k. \<not> ?done j" for k
    using that by (rule fault_rounds_returns)
  ultimately show ?thesis
    using assms by (cases "fault_rounds lib code 0 s")
      (simp_all add: RCUTILS_FAULT_INJECTION_TEST_def configuration_flags_def del: after_rounds.simps)
qed

theorem fault_injection_test_rounds_witness:
  "RCUTILS_FAULT_INJECTION_TEST (configuration_flags\<lparr>RCUTILS_ENABLE_FAULT_INJECTION := True\<rparr>)
     counting_lib (\<lambda>s. snd (maybe_fail counting_lib s)) (9, 0) = Some (- 1, 1)"
  using fault_injection_test_rounds [of "configuration_flags\<lparr>RCUTILS_ENABLE_FAULT_INJECTION := True\<rparr>"
      counting_lib "\<lambda>s. snd (maybe_fail counting_lib s)" "(9, 0)"]
  by (auto simp: counting_lib_def RCUTILS_FAULT_INJECTION_NEVER_FAIL_def dest: spec [of _ "1 :: nat"])

end
