(* ===== verification/Key_Value.thy ===== *)
theory Key_Value
  imports Prelude "HOL-Library.AList"
begin

text \<open>
  The parser of \<^verbatim>\<open>rmw/impl/cpp/key_value.hpp\<close> for the user data of a participant, a byte string
  of the form \<open>key=value;key=value;\<close>. A \<open>std::map\<close> is an association list updated with
  \<open>AList.update\<close>; leaving the loop with \<open>goto not_valid\<close> or \<open>break\<close> is an outcome of the step.
\<close>

type_synonym bytes = "u8 list"

definition semicolon :: u8 where "semicolon = 59"

definition equals :: u8 where "equals = 61"

text \<open>\<open>isalnum\<close> in the C locale.\<close>

definition isalnum :: "u8 \<Rightarrow> bool" where
  "isalnum c \<longleftrightarrow> 48 \<le> c \<and> c \<le> 57 \<or> 65 \<le> c \<and> c \<le> 90 \<or> 97 \<le> c \<and> c \<le> 122"

record kv_state =
  m :: "(bytes \<times> bytes) list"
  keyfound :: bool
  key :: bytes
  "value" :: bytes
  prev :: u8

datatype outcome = Next kv_state | Break kv_state | Not_Valid

definition store :: "kv_state \<Rightarrow> (bytes \<times> bytes) list" where
  "store s = AList.update (key s) (value s) (m s)"

text \<open>The part of the body under \<open>if (!keyfound)\<close>, up to the end of the iteration.\<close>

definition key_byte :: "u8 \<Rightarrow> kv_state \<Rightarrow> outcome" where
  "key_byte c s =
     (if c = equals then (if key s = [] then Not_Valid else Next (s\<lparr>keyfound := True, prev := c\<rparr>))
      else if isalnum c then Next (s\<lparr>key := key s @ [c], prev := c\<rparr>)
      else if c = 0 \<and> key s = [] \<and> m s \<noteq> [] then Break s
      else if prev s \<noteq> semicolon \<or> key s \<noteq> [] then Not_Valid
      else Next (s\<lparr>prev := c\<rparr>))"

definition kv_byte :: "u8 \<Rightarrow> kv_state \<Rightarrow> outcome" where
  "kv_byte c s =
     (if keyfound s
      then (if c = semicolon \<and> prev s \<noteq> semicolon then Next (s\<lparr>prev := c\<rparr>)
            else if c \<noteq> semicolon \<and> prev s = semicolon
            then (if value s = [] then Not_Valid
                  else key_byte c (s\<lparr>m := store s, key := [], value := [], keyfound := False\<rparr>))
            else Next (s\<lparr>value := value s @ [c], prev := c\<rparr>))
      else key_byte c s)"

fun kv_loop :: "bytes \<Rightarrow> kv_state \<Rightarrow> kv_state option" where
  "kv_loop [] s = Some s"
| "kv_loop (c # cs) s =
     (case kv_byte c s of Next s' \<Rightarrow> kv_loop cs s' | Break s' \<Rightarrow> Some s' | Not_Valid \<Rightarrow> None)"

definition kv_start :: kv_state where
  "kv_start = \<lparr>m = [], keyfound = False, key = [], value = [], prev = 0\<rparr>"

definition kv_finish :: "kv_state \<Rightarrow> (bytes \<times> bytes) list option" where
  "kv_finish s =
     (if keyfound s then (if value s = [] then None else Some (store s))
      else if key s \<noteq> [] then None
      else Some (m s))"

text \<open>\<open>None\<close> inside is \<open>not_valid\<close>, where the function returns an empty map.\<close>

definition parse_key_value :: "bytes \<Rightarrow> (bytes \<times> bytes) list" where
  "parse_key_value kv =
     (if length kv = 0 then []
      else (case kv_loop kv kv_start of None \<Rightarrow> []
            | Some s \<Rightarrow> (case kv_finish s of None \<Rightarrow> [] | Some r \<Rightarrow> r)))"

subsection \<open>What the parser accepts\<close>

definition good_entry :: "bytes \<times> bytes \<Rightarrow> bool" where
  "good_entry e \<longleftrightarrow> fst e \<noteq> [] \<and> list_all isalnum (fst e) \<and> snd e \<noteq> []"

definition kv_inv :: "kv_state \<Rightarrow> bool" where
  "kv_inv s \<longleftrightarrow> list_all good_entry (m s) \<and> distinct (map fst (m s)) \<and> list_all isalnum (key s) \<and>
     (keyfound s \<longrightarrow> key s \<noteq> [])"

lemma update_good: "list_all good_entry xs \<Longrightarrow> good_entry (k, v) \<Longrightarrow> list_all good_entry (AList.update k v xs)"
  by (induction xs) (auto split: prod.splits)

lemma store_good:
  "kv_inv s \<Longrightarrow> keyfound s \<Longrightarrow> value s \<noteq> [] \<Longrightarrow> list_all good_entry (store s) \<and> distinct (map fst (store s))"
  by (simp add: kv_inv_def store_def update_good good_entry_def distinct_update)

lemma key_byte_inv:
  "kv_inv s \<Longrightarrow> \<not> keyfound s \<Longrightarrow> key_byte c s = Next s' \<or> key_byte c s = Break s' \<Longrightarrow> kv_inv s'"
  by (auto simp: key_byte_def kv_inv_def split: if_splits)

lemma kv_byte_inv:
  assumes "kv_inv s" "kv_byte c s = Next s' \<or> kv_byte c s = Break s'"
  shows "kv_inv s'"
proof (cases "keyfound s \<and> \<not> (c \<noteq> semicolon \<and> prev s = semicolon)")
  case True
  with assms(2) have "s' = s\<lparr>prev := c\<rparr> \<or> s' = s\<lparr>value := value s @ [c], prev := c\<rparr>"
    unfolding kv_byte_def by (elim conjE) (simp split: if_splits)
  with assms(1) show ?thesis by (elim disjE) (simp_all add: kv_inv_def)
next
  case other: False
  show ?thesis
  proof (cases "keyfound s")
    case False
    with assms(2) have "key_byte c s = Next s' \<or> key_byte c s = Break s'" by (simp add: kv_byte_def)
    then show ?thesis by (rule key_byte_inv [OF assms(1) False])
  next
    case True
    let ?t = "s\<lparr>m := store s, key := [], value := [], keyfound := False\<rparr>"
    from True other assms(2) have v: "value s \<noteq> []" "key_byte c ?t = Next s' \<or> key_byte c ?t = Break s'"
      by (auto simp: kv_byte_def split: if_splits)
    have "kv_inv ?t" using store_good [OF assms(1) True v(1)] by (simp add: kv_inv_def)
    then show ?thesis by (rule key_byte_inv [of ?t, OF _ _ v(2)]) simp
  qed
qed

lemma kv_loop_inv: "kv_inv s \<Longrightarrow> kv_loop cs s = Some s' \<Longrightarrow> kv_inv s'"
  by (induction cs s rule: kv_loop.induct) (auto split: outcome.splits intro: kv_byte_inv)

subsection \<open>Round trip\<close>

fun print_key_value :: "(bytes \<times> bytes) list \<Rightarrow> bytes" where
  "print_key_value [] = []"
| "print_key_value ((k, v) # es) = k @ [equals] @ v @ [semicolon] @ print_key_value es"

definition printable :: "bytes \<times> bytes \<Rightarrow> bool" where
  "printable e \<longleftrightarrow> good_entry e \<and> semicolon \<notin> set (snd e)"

lemma isalnum_other: "isalnum c \<Longrightarrow> c \<noteq> semicolon" "isalnum c \<Longrightarrow> c \<noteq> equals" "\<not> isalnum 0"
  by (auto simp: isalnum_def semicolon_def equals_def)

text \<open>The parser between entries: the map so far is \<open>m s\<close>, with the entry just read still to store.\<close>

definition between :: "(bytes \<times> bytes) list \<Rightarrow> kv_state \<Rightarrow> bool" where
  "between es s \<longleftrightarrow> \<not> keyfound s \<and> key s = [] \<and> value s = [] \<and> m s = es \<or>
     keyfound s \<and> value s \<noteq> [] \<and> prev s = semicolon \<and> store s = es"

lemma loop_key:
  "\<not> keyfound s \<Longrightarrow> list_all isalnum ks \<Longrightarrow>
   kv_loop (ks @ cs) s = kv_loop cs (s\<lparr>key := key s @ ks, prev := last (prev s # ks)\<rparr>)"
  by (induction ks arbitrary: s) (simp_all add: kv_byte_def key_byte_def isalnum_other)

lemma loop_value:
  "keyfound s \<Longrightarrow> prev s \<noteq> semicolon \<Longrightarrow> semicolon \<notin> set vs \<Longrightarrow>
   kv_loop (vs @ cs) s = kv_loop cs (s\<lparr>value := value s @ vs, prev := last (prev s # vs)\<rparr>)"
  by (induction vs arbitrary: s) (auto simp: kv_byte_def)

text \<open>The first byte of a key after an entry stores the entry.\<close>

lemma loop_first:
  assumes "between es s" "isalnum c"
  shows "kv_loop (c # cs) s =
    kv_loop cs \<lparr>m = es, keyfound = False, key = [c], value = [], prev = c\<rparr>"
  using assms by (cases s) (auto simp: between_def kv_byte_def key_byte_def isalnum_other store_def)

lemma loop_entry:
  assumes "between es s" "printable (k, v)"
  obtains s' where "between (AList.update k v es) s'"
    "kv_loop (k @ [equals] @ v @ [semicolon] @ cs) s = kv_loop cs s'"
proof -
  obtain c ks where k: "k = c # ks" "isalnum c" "list_all isalnum ks"
    using assms(2) by (cases k) (auto simp: printable_def good_entry_def)
  have v: "v \<noteq> []" "semicolon \<notin> set v" using assms(2) by (auto simp: printable_def good_entry_def)
  define s' where "s' = \<lparr>m = es, keyfound = True, key = k, value = v, prev = semicolon\<rparr>"
  have "kv_loop (k @ [equals] @ v @ [semicolon] @ cs) s =
      kv_loop (ks @ [equals] @ v @ [semicolon] @ cs)
        \<lparr>m = es, keyfound = False, key = [c], value = [], prev = c\<rparr>"
    using loop_first [OF assms(1) k(2)] by (simp add: k(1))
  also have "\<dots> = kv_loop (v @ [semicolon] @ cs)
      \<lparr>m = es, keyfound = True, key = k, value = [], prev = equals\<rparr>"
    by (simp add: loop_key k kv_byte_def key_byte_def)
  also have "\<dots> = kv_loop ([semicolon] @ cs)
      \<lparr>m = es, keyfound = True, key = k, value = v, prev = last v\<rparr>"
    using v by (subst loop_value) (auto simp: equals_def semicolon_def)
  also have "\<dots> = kv_loop cs s'"
  proof -
    have "last v \<noteq> semicolon" using v last_in_set by metis
    then show ?thesis by (simp add: kv_byte_def s'_def)
  qed
  finally have "kv_loop (k @ [equals] @ v @ [semicolon] @ cs) s = kv_loop cs s'" .
  moreover have "between (AList.update k v es) s'"
    using v by (simp add: between_def s'_def store_def)
  ultimately show thesis using that by blast
qed

lemma loop_entries:
  "between es s \<Longrightarrow> list_all printable new \<Longrightarrow>
   \<exists>s'. between (fold (\<lambda>(k, v). AList.update k v) new es) s' \<and> kv_loop (print_key_value new @ cs) s = kv_loop cs s'"
proof (induction new arbitrary: es s)
  case (Cons e new)
  obtain k v where e: "e = (k, v)" by (cases e)
  from Cons.prems e have p: "printable (k, v)" "list_all printable new" by simp_all
  obtain s1 where s1: "between (AList.update k v es) s1"
    "kv_loop (k @ [equals] @ v @ [semicolon] @ print_key_value new @ cs) s = kv_loop (print_key_value new @ cs) s1"
    using loop_entry [OF Cons.prems(1) p(1), of "print_key_value new @ cs"] by blast
  from Cons.IH [OF s1(1) p(2)] s1(2) show ?case by (auto simp: e)
qed auto

lemma between_finish: "between es s \<Longrightarrow> kv_finish s = Some es"
  by (auto simp: between_def kv_finish_def)

lemma between_nul:
  "between es s \<Longrightarrow> es \<noteq> [] \<Longrightarrow> \<exists>s'. kv_loop (0 # cs) s = Some s' \<and> kv_finish s' = Some es"
  by (auto simp: between_def kv_byte_def key_byte_def isalnum_other equals_def semicolon_def kv_finish_def)

lemma map_of_fold_update:
  "map_of (fold (\<lambda>(k, v). AList.update k v) new es) = map_of es ++ map_of (rev new)"
  by (induction new arbitrary: es) (auto simp: update_conv' map_add_def fun_eq_iff split: option.splits)

subsection \<open>Properties\<close>

text \<open>C10. Round trip: printing entries with non-empty alphanumeric keys and non-empty values free of
  semicolons, and parsing the bytes, gives the entries back, a later entry replacing an earlier
  one with its key; trailing NUL bytes change nothing.\<close>

theorem parse_inverts_print:
  assumes "list_all printable es"
  shows "map_of (parse_key_value (print_key_value es)) = map_of (rev es) \<and>
    (es \<noteq> [] \<longrightarrow> parse_key_value (print_key_value es @ replicate n 0) = parse_key_value (print_key_value es))"
proof -
  let ?r = "fold (\<lambda>(k, v). AList.update k v) es []"
  have start: "between [] kv_start" by (simp add: between_def kv_start_def)
  have parse: "parse_key_value (print_key_value es @ replicate j 0) = ?r" if ne0: "es \<noteq> []" for j
  proof -
    obtain s' where s': "between ?r s'"
      "kv_loop (print_key_value es @ replicate j 0) kv_start = kv_loop (replicate j 0) s'"
      using loop_entries [OF start assms] by blast
    obtain e es' where e: "es = e # es'" using ne0 by (cases es) auto
    have ne: "?r \<noteq> []"
    proof
      assume "?r = []"
      then have "map_of (rev es) = Map.empty" using map_of_fold_update [of es "[]"] by simp
      then have "map_of (rev es) (fst e) = None" by simp
      then show False using e by (simp add: map_of_eq_None_iff)
    qed
    have "\<exists>t. kv_loop (replicate j 0) s' = Some t \<and> kv_finish t = Some ?r"
      using between_nul [OF s'(1) ne] between_finish [OF s'(1)] by (cases j) simp_all
    moreover have "print_key_value es \<noteq> []" using e by (cases e) simp
    ultimately show ?thesis using s'(2) by (auto simp: parse_key_value_def)
  qed
  show ?thesis
  proof (cases "es = []")
    case True
    then show ?thesis by (simp add: parse_key_value_def)
  next
    case False
    with parse [of 0] parse [of n] map_of_fold_update [of es "[]"] show ?thesis by simp
  qed
qed

theorem parse_inverts_print_witness:
  "map_of (parse_key_value (print_key_value [([97], [49, 61]), ([98, 49], [32])])) [98, 49] = Some [32]"
  using parse_inverts_print [of "[([97], [49, 61]), ([98, 49], [32])]" 0]
  by (simp add: printable_def good_entry_def isalnum_def semicolon_def)

text \<open>Whatever bytes it is given (the user data of a participant can be anything), the parser
  returns only entries with a non-empty alphanumeric key and a non-empty value, and no key
  twice.\<close>

theorem parse_yields_good_entries:
  "list_all good_entry (parse_key_value kv) \<and> distinct (map fst (parse_key_value kv))"
proof (cases "kv_loop kv kv_start")
  case None
  then show ?thesis by (simp add: parse_key_value_def)
next
  case (Some s)
  have "kv_inv kv_start" by (simp add: kv_inv_def kv_start_def)
  from kv_loop_inv [OF this Some] have inv: "kv_inv s" .
  have "list_all good_entry r \<and> distinct (map fst r)" if "kv_finish s = Some r" for r
    using that inv store_good [OF inv] by (auto simp: kv_finish_def kv_inv_def split: if_splits)
  then show ?thesis using Some by (auto simp: parse_key_value_def split: option.split)
qed

text \<open>The branch that takes a second semicolon as a byte of the value works only at the end of
  the input: a value followed by two semicolons gets one of them, but if more follows the byte
  just pushed still counts as a separator, so the value ends there and what follows is read as
  the next key.\<close>

theorem double_semicolon_does_not_escape:
  assumes "printable (k, v)" "printable (k', v')" "k \<noteq> k'"
  shows "parse_key_value (k @ [equals] @ v @ [semicolon, semicolon]) = [(k, v @ [semicolon])] \<and>
    parse_key_value (k @ [equals] @ v @ [semicolon, semicolon] @ k' @ [equals] @ v' @ [semicolon]) =
      [(k, v @ [semicolon]), (k', v')]"
proof -
  let ?s = "\<lparr>m = [], keyfound = True, key = k, value = v @ [semicolon], prev = semicolon\<rparr>"
  have k: "k \<noteq> []" "list_all isalnum k" and v: "v \<noteq> []" "semicolon \<notin> set v"
    using assms(1) by (auto simp: printable_def good_entry_def)
  have "last v \<noteq> semicolon" using v last_in_set by metis
  have two: "kv_loop (k @ [equals] @ v @ [semicolon, semicolon] @ cs) kv_start = kv_loop cs ?s" for cs
  proof -
    have "kv_loop (k @ [equals] @ v @ [semicolon, semicolon] @ cs) kv_start =
        kv_loop (v @ [semicolon, semicolon] @ cs)
          \<lparr>m = [], keyfound = True, key = k, value = [], prev = equals\<rparr>"
      using k by (simp add: kv_start_def loop_key kv_byte_def key_byte_def)
    also have "\<dots> = kv_loop ([semicolon, semicolon] @ cs)
        \<lparr>m = [], keyfound = True, key = k, value = v, prev = last v\<rparr>"
      using v by (subst loop_value) (auto simp: equals_def semicolon_def)
    also have "\<dots> = kv_loop cs ?s"
      using \<open>last v \<noteq> semicolon\<close> by (simp add: kv_byte_def)
    finally show ?thesis .
  qed
  have b: "between [(k, v @ [semicolon])] ?s" by (simp add: between_def store_def)
  obtain s' where s': "between (AList.update k' v' [(k, v @ [semicolon])]) s'"
    "kv_loop (k' @ [equals] @ v' @ [semicolon] @ []) ?s = kv_loop [] s'"
    using loop_entry [OF b assms(2), of "[]"] by blast
  show ?thesis
    using two [of "[]"] two [of "k' @ [equals] @ v' @ [semicolon]"] s' assms(3)
      between_finish [OF b] between_finish [OF s'(1)]
    by (simp add: parse_key_value_def)
qed

theorem double_semicolon_does_not_escape_witness:
  "parse_key_value [97, 61, 49, 59, 59, 98, 61, 50, 59] = [([97], [49, 59]), ([98], [50])]"
  using double_semicolon_does_not_escape [of "[97]" "[49]" "[98]" "[50]"]
  by (simp add: printable_def good_entry_def isalnum_def semicolon_def equals_def)

end
