(* ===== verification/Check_Macros.thy ===== *)
theory Check_Macros
  imports Rcutils_Logging Rcutils_Errors Key_Value "HOL-Library.Product_Lexorder"
begin

text \<open>
  The macros and inline functions the headers of the middleware and of the client library add to those of
  rcutils: the check of type identifiers in its two versions (\<^verbatim>\<open>rmw/check_type_identifiers_match.h\<close> and
  \<^verbatim>\<open>rmw_microxrcedds_c/rmw_c_macros.h\<close>), the checks of return codes of
  \<^verbatim>\<open>rosidl_dynamic_typesupport/macros.h\<close>, the guards around C++ constructors and destructors of
  \<^verbatim>\<open>rmw/impl/cpp/macros.hpp\<close>, the error reports of \<^verbatim>\<open>rclc/types.h\<close>, the version tests and
  \<^verbatim>\<open>rcutils/isalnum_no_locale.h\<close>. Statements are those of \<open>Rcutils_Errors\<close>.
\<close>

type_synonym ('r, 's) stmt = "('r, 's) Rcutils_Errors.stmt"

subsection \<open>Type identifiers\<close>

text \<open>An identifier is a constant string: where it is and what it says.\<close>

record type_id =
  address :: nat
  chars :: string

record 's rmw_lib =
  rmw_allocate :: "nat \<Rightarrow> 's \<Rightarrow> nat option \<times> 's"
  rmw_free :: "nat option \<Rightarrow> 's \<Rightarrow> 's"
  pointer_text :: "nat \<Rightarrow> string"

definition RMW_AVOID_MEMORY_ALLOCATION :: bool where
  "RMW_AVOID_MEMORY_ALLOCATION = False"

definition RMW_SET_ERROR_MSG :: "build \<Rightarrow> 's error_lib \<Rightarrow> place \<Rightarrow> string \<Rightarrow> ('r, 's) stmt" where
  "RMW_SET_ERROR_MSG = RCUTILS_SET_ERROR_MSG"

definition mismatch_format :: "string \<Rightarrow> string" where
  "mismatch_format name = name @ '' implementation '%s'(%p) does not match rmw implementation '%s'(%p)''"

definition mismatch_arguments :: "'s rmw_lib \<Rightarrow> type_id \<Rightarrow> type_id \<Rightarrow> string list" where
  "mismatch_arguments rmw e x = [chars e, pointer_text rmw (address e), chars x, pointer_text rmw (address x)]"

text \<open>The version for a build that avoids allocation writes into a buffer of its own.\<close>

definition check_type_identifiers_buffer ::
  "build \<Rightarrow> 's error_lib \<Rightarrow> 's rmw_lib \<Rightarrow> place \<Rightarrow> string \<Rightarrow> type_id \<Rightarrow> type_id \<Rightarrow> ('r, 's) stmt \<Rightarrow> ('r, 's) stmt" where
  "check_type_identifiers_buffer b lib rmw at name ElementTypeID ExpectedTypeID OnFailure =
     (if address ElementTypeID \<noteq> address ExpectedTypeID
      then (let (ret, out) = rcutils_snprintf lib 1024 (mismatch_format name)
                  (mismatch_arguments rmw ElementTypeID ExpectedTypeID);
                msg = (if ret < 0 then ''RMW_CHECK_TYPE_IDENTIFIERS_MATCH(): rcutils_snprintf() failed'' else out)
            in seq (RMW_SET_ERROR_MSG b lib at msg) OnFailure)
      else skip)"

text \<open>The other one measures the message, allocates it, prints it and frees it.\<close>

definition check_type_identifiers_heap ::
  "build \<Rightarrow> 's error_lib \<Rightarrow> 's rmw_lib \<Rightarrow> place \<Rightarrow> string \<Rightarrow> type_id \<Rightarrow> type_id \<Rightarrow> ('r, 's) stmt \<Rightarrow> ('r, 's) stmt" where
  "check_type_identifiers_heap b lib rmw at name ElementTypeID ExpectedTypeID OnFailure s =
     (if address ElementTypeID \<noteq> address ExpectedTypeID
      then (let fmt = mismatch_format name;
                args = mismatch_arguments rmw ElementTypeID ExpectedTypeID;
                bytes = fst (rcutils_snprintf lib 0 fmt args)
            in if bytes < 0
               then seq (RMW_SET_ERROR_MSG b lib at
                      ''RMW_CHECK_TYPE_IDENTIFIERS_MATCH(): rcutils_snprintf(NULL, 0, ...) failed'') OnFailure s
               else (let (msg, s1) = rmw_allocate rmw (nat (bytes + 1)) s;
                         report =
                           (if msg = None
                            then RMW_SET_ERROR_MSG b lib at ''RMW_CHECK_TYPE_IDENTIFIERS_MATCH(): rmw_allocate() failed''
                            else (let (ret, out) = rcutils_snprintf lib (nat (bytes + 1)) fmt args
                                  in if ret < 0
                                     then RMW_SET_ERROR_MSG b lib at
                                       ''RMW_CHECK_TYPE_IDENTIFIERS_MATCH(): rcutils_snprintf() failed''
                                     else RMW_SET_ERROR_MSG b lib at out))
                     in seq report (seq (effect (rmw_free rmw msg)) OnFailure) s1))
      else skip s)"

definition RMW_CHECK_TYPE_IDENTIFIERS_MATCH ::
  "bool \<Rightarrow> build \<Rightarrow> 's error_lib \<Rightarrow> 's rmw_lib \<Rightarrow> place \<Rightarrow> string \<Rightarrow> type_id \<Rightarrow> type_id \<Rightarrow> ('r, 's) stmt \<Rightarrow> ('r, 's) stmt" where
  "RMW_CHECK_TYPE_IDENTIFIERS_MATCH avoid_allocation =
     (if avoid_allocation then check_type_identifiers_buffer else check_type_identifiers_heap)"

text \<open>The macro of the same name in \<^verbatim>\<open>rmw_c_macros.h\<close>; \<open>own\<close> is \<open>eprosima_microxrcedds_identifier\<close>.\<close>

definition RMW_CHECK_TYPE_IDENTIFIERS_MATCH_xrce ::
  "build \<Rightarrow> 's error_lib \<Rightarrow> place \<Rightarrow> type_id \<Rightarrow> type_id option \<Rightarrow> 'r \<Rightarrow> ('r, 's) stmt" where
  "RMW_CHECK_TYPE_IDENTIFIERS_MATCH_xrce b lib at own given ret_on_failure =
     (case given of
        None \<Rightarrow> skip
      | Some i \<Rightarrow> (if chars i \<noteq> chars own
          then seq (RMW_SET_ERROR_MSG b lib at ''Implementation identifiers does not match'') (return_stmt ret_on_failure)
          else skip))"

subsection \<open>Return codes\<close>

definition ROSIDL_DYNAMIC_TYPESUPPORT_CHECK_RET_FOR_NOT_OK :: "('s \<Rightarrow> int \<times> 's) \<Rightarrow> (int, 's) stmt" where
  "ROSIDL_DYNAMIC_TYPESUPPORT_CHECK_RET_FOR_NOT_OK statement s =
     (let (ret, s') = statement s in if ret \<noteq> RCUTILS_RET_OK then (Some ret, s') else (None, s'))"

definition ROSIDL_DYNAMIC_TYPESUPPORT_CHECK_RET_FOR_NOT_OK_WITH_CLEANUP ::
  "('s \<Rightarrow> int \<times> 's) \<Rightarrow> ('s \<Rightarrow> 's) \<Rightarrow> (int, 's) stmt" where
  "ROSIDL_DYNAMIC_TYPESUPPORT_CHECK_RET_FOR_NOT_OK_WITH_CLEANUP statement cleanup s =
     (let (ret, s') = statement s in if ret \<noteq> RCUTILS_RET_OK then (Some ret, cleanup s') else (None, s'))"

subsection \<open>Constructors and destructors\<close>

text \<open>What a C++ expression does: it has a value or throws a \<open>std::exception\<close>, with the name of its class
  and its \<open>what()\<close>, or anything else.\<close>

datatype 'a attempt = Value 'a | Throws string string | Throws_unknown

definition RMW_TRY_PLACEMENT_NEW ::
  "build \<Rightarrow> 's error_lib \<Rightarrow> place \<Rightarrow> string \<Rightarrow> ('s \<Rightarrow> 'p attempt \<times> 's) \<Rightarrow> ('p \<Rightarrow> 's \<Rightarrow> 's) \<Rightarrow> ('r, 's) stmt \<Rightarrow> ('r, 's) stmt" where
  "RMW_TRY_PLACEMENT_NEW b lib at type construct assign FailureAction s =
     (case construct s of
        (Value p, s') \<Rightarrow> effect (assign p) s'
      | (Throws class what, s') \<Rightarrow>
          seq (RMW_SET_ERROR_MSG b lib at
            (''caught C++ exception '' @ class @ '' constructing '' @ type @ '': '' @ what)) FailureAction s'
      | (Throws_unknown, s') \<Rightarrow>
          seq (RMW_SET_ERROR_MSG b lib at (''caught unknown C++ exception constructing '' @ type)) FailureAction s')"

definition RMW_TRY_DESTRUCTOR ::
  "build \<Rightarrow> 's error_lib \<Rightarrow> place \<Rightarrow> string \<Rightarrow> ('s \<Rightarrow> unit attempt \<times> 's) \<Rightarrow> ('r, 's) stmt \<Rightarrow> ('r, 's) stmt" where
  "RMW_TRY_DESTRUCTOR b lib at type statement FailureAction s =
     (case statement s of
        (Value _, s') \<Rightarrow> skip s'
      | (Throws class what, s') \<Rightarrow>
          seq (RMW_SET_ERROR_MSG b lib at
            (''caught C++ exception in destructor of '' @ type @ '': '' @ class @ '': '' @ what)) FailureAction s'
      | (Throws_unknown, s') \<Rightarrow>
          seq (RMW_SET_ERROR_MSG b lib at (''caught unknown C++ exception in destructor of '' @ type)) FailureAction s')"

text \<open>\<open>cerr\<close> writes to the console, \<open>decimal_text\<close> is the text of the line number.\<close>

definition RMW_TRY_DESTRUCTOR_FROM_WITHIN_FAILURE ::
  "(string \<Rightarrow> 's \<Rightarrow> 's) \<Rightarrow> (nat \<Rightarrow> string) \<Rightarrow> place \<Rightarrow> string \<Rightarrow> ('s \<Rightarrow> unit attempt \<times> 's) \<Rightarrow> ('r, 's) stmt" where
  "RMW_TRY_DESTRUCTOR_FROM_WITHIN_FAILURE cerr decimal_text at type statement s =
     (case statement s of
        (Value _, s') \<Rightarrow> skip s'
      | (Throws class what, s') \<Rightarrow>
          effect (cerr (''caught C++ exception in destructor of '' @ type @ '' while handling a failure: '' @ class @
            '': '' @ what @ '', at: '' @ fst at @ '':'' @ decimal_text (snd at) @ [CHR 0x0A])) s'
      | (Throws_unknown, s') \<Rightarrow>
          effect (cerr (''caught unknown C++ exception in destructor of '' @ type @ '' while handling a failure at: '' @
            fst at @ '':'' @ decimal_text (snd at) @ [CHR 0x0A])) s')"

subsection \<open>Error reports\<close>

text \<open>The arguments of a log call are evaluated when the logger is enabled, after the initialisation.\<close>

definition PRINT_RCLC_ERROR ::
  "nat \<Rightarrow> 'w log_env \<Rightarrow> ('w \<Rightarrow> string) \<Rightarrow> string \<Rightarrow> string \<Rightarrow> string \<Rightarrow> 'w Rcutils_Logging.stmt" where
  "PRINT_RCLC_ERROR min_severity env get_error_string ROS_PACKAGE_NAME rclc rcl s =
     (let error = get_error_string (world (RCUTILS_LOGGING_AUTOINIT env s));
          s1 = RCUTILS_LOG_ERROR_NAMED min_severity env ROS_PACKAGE_NAME
                 (''['' @ rclc @ ''] Error in '' @ rcl @ '': '' @ error @ [CHR 0x0A]) s
      in s1\<lparr>world := log_env.rcutils_reset_error env (world s1)\<rparr>)"

definition PRINT_RCLC_WARN ::
  "nat \<Rightarrow> 'w log_env \<Rightarrow> ('w \<Rightarrow> string) \<Rightarrow> string \<Rightarrow> string \<Rightarrow> string \<Rightarrow> 'w Rcutils_Logging.stmt" where
  "PRINT_RCLC_WARN min_severity env get_error_string ROS_PACKAGE_NAME rclc rcl s =
     (let error = get_error_string (world (RCUTILS_LOGGING_AUTOINIT env s));
          s1 = RCUTILS_LOG_WARN_NAMED min_severity env ROS_PACKAGE_NAME
                 (''['' @ rclc @ ''] Warning in '' @ rcl @ '': '' @ error @ [CHR 0x0A]) s
      in s1\<lparr>world := log_env.rcutils_reset_error env (world s1)\<rparr>)"

subsection \<open>Versions and characters\<close>

definition RCL_ACTION_VERSION_MAJOR :: int where "RCL_ACTION_VERSION_MAJOR = 10"
definition RCL_ACTION_VERSION_MINOR :: int where "RCL_ACTION_VERSION_MINOR = 1"
definition RCL_ACTION_VERSION_PATCH :: int where "RCL_ACTION_VERSION_PATCH = 1"

definition RCL_ACTION_VERSION_GTE :: "int \<Rightarrow> int \<Rightarrow> int \<Rightarrow> bool" where
  "RCL_ACTION_VERSION_GTE major minor patch =
     (if major < RCL_ACTION_VERSION_MAJOR then True
      else if major > RCL_ACTION_VERSION_MAJOR then False
      else if minor < RCL_ACTION_VERSION_MINOR then True
      else if minor > RCL_ACTION_VERSION_MINOR then False
      else if patch < RCL_ACTION_VERSION_PATCH then True
      else if patch > RCL_ACTION_VERSION_PATCH then False
      else True)"

definition RCL_LIFECYCLE_VERSION_MAJOR :: int where "RCL_LIFECYCLE_VERSION_MAJOR = 10"
definition RCL_LIFECYCLE_VERSION_MINOR :: int where "RCL_LIFECYCLE_VERSION_MINOR = 1"
definition RCL_LIFECYCLE_VERSION_PATCH :: int where "RCL_LIFECYCLE_VERSION_PATCH = 1"

definition RCL_LIFECYCLE_VERSION_GTE :: "int \<Rightarrow> int \<Rightarrow> int \<Rightarrow> bool" where
  "RCL_LIFECYCLE_VERSION_GTE major minor patch =
     (if major < RCL_LIFECYCLE_VERSION_MAJOR then True
      else if major > RCL_LIFECYCLE_VERSION_MAJOR then False
      else if minor < RCL_LIFECYCLE_VERSION_MINOR then True
      else if minor > RCL_LIFECYCLE_VERSION_MINOR then False
      else if patch < RCL_LIFECYCLE_VERSION_PATCH then True
      else if patch > RCL_LIFECYCLE_VERSION_PATCH then False
      else True)"

definition rcutils_isalnum_no_locale :: "u8 \<Rightarrow> bool" where
  "rcutils_isalnum_no_locale c =
     (if c \<ge> 0x30 \<and> c \<le> 0x39 then True
      else if c \<ge> 0x41 \<and> c \<le> 0x5a then True
      else if c \<ge> 0x61 \<and> c \<le> 0x7a then True
      else False)"

subsection \<open>Facts about the checks\<close>

lemma isalnum_no_locale_is_isalnum: "rcutils_isalnum_no_locale c \<longleftrightarrow> isalnum c"
  by (simp add: rcutils_isalnum_no_locale_def isalnum_def)

definition set_msg :: "build \<Rightarrow> 's error_lib \<Rightarrow> place \<Rightarrow> string \<Rightarrow> 's \<Rightarrow> 's" where
  "set_msg b lib at msg = (if RCUTILS_AVOID_DYNAMIC_ALLOCATION b then id else rcutils_set_error_state lib msg (fst at) (snd at))"

lemma set_error_msg_simp: "RMW_SET_ERROR_MSG b lib at msg = effect (set_msg b lib at msg)"
  by (rule ext) (simp add: RMW_SET_ERROR_MSG_def RCUTILS_SET_ERROR_MSG_def set_msg_def stmt_defs)

lemma seq_effect [simp]: "seq (effect f) b s = b (f s)"
  by (simp add: stmt_defs)

lemma check_buffer_runs:
  assumes "address e \<noteq> address x"
  shows "\<exists>m. check_type_identifiers_buffer b lib rmw at name e x OnFailure s = OnFailure (set_msg b lib at m s)"
  using assms by (auto simp: check_type_identifiers_buffer_def set_error_msg_simp split_def Let_def)

lemma check_heap_runs:
  assumes "address e \<noteq> address x"
    "rmw_allocate rmw (nat (fst (rcutils_snprintf lib 0 (mismatch_format name) (mismatch_arguments rmw e x)) + 1)) s = (msg, s1)"
  shows "\<exists>m. check_type_identifiers_heap b lib rmw at name e x OnFailure s = OnFailure (set_msg b lib at m s) \<or>
    check_type_identifiers_heap b lib rmw at name e x OnFailure s = OnFailure (rmw_free rmw msg (set_msg b lib at m s1))"
proof (cases "fst (rcutils_snprintf lib 0 (mismatch_format name) (mismatch_arguments rmw e x)) < 0")
  case True
  with assms(1) show ?thesis by (auto simp: check_type_identifiers_heap_def set_error_msg_simp Let_def)
next
  case False
  with assms show ?thesis by (auto simp: check_type_identifiers_heap_def set_error_msg_simp split_def Let_def)
qed

text \<open>The statements of a function that checks one call after another, each with its clean-up.\<close>

fun checked_calls :: "(('s \<Rightarrow> int \<times> 's) \<times> ('s \<Rightarrow> 's)) list \<Rightarrow> (int, 's) stmt" where
  "checked_calls [] = skip"
| "checked_calls ((f, cleanup) # calls) =
     seq (ROSIDL_DYNAMIC_TYPESUPPORT_CHECK_RET_FOR_NOT_OK_WITH_CLEANUP f cleanup) (checked_calls calls)"

text \<open>The state after calls that all succeed.\<close>

fun all_succeed :: "('s \<Rightarrow> int \<times> 's) list \<Rightarrow> 's \<Rightarrow> 's option" where
  "all_succeed [] s = Some s"
| "all_succeed (f # fs) s = (case f s of (ret, s') \<Rightarrow> if ret = RCUTILS_RET_OK then all_succeed fs s' else None)"

lemma checked_calls_append: "checked_calls (xs @ ys) s = seq (checked_calls xs) (checked_calls ys) s"
proof (induction xs arbitrary: s)
  case Nil
  show ?case by (simp add: stmt_defs)
next
  case (Cons x xs)
  then show ?case by (cases x) (simp add: stmt_defs split: option.splits prod.splits)
qed

lemma checked_calls_succeed: "all_succeed (map fst xs) s = Some s' \<Longrightarrow> checked_calls xs s = (None, s')"
proof (induction xs arbitrary: s)
  case Nil
  then show ?case by (simp add: stmt_defs)
next
  case (Cons x xs)
  then show ?case
    by (cases x) (auto simp: seq_def ROSIDL_DYNAMIC_TYPESUPPORT_CHECK_RET_FOR_NOT_OK_WITH_CLEANUP_def
        split: prod.splits if_splits)
qed

lemma without_cleanup:
  "ROSIDL_DYNAMIC_TYPESUPPORT_CHECK_RET_FOR_NOT_OK_WITH_CLEANUP f (\<lambda>s. s) =
   ROSIDL_DYNAMIC_TYPESUPPORT_CHECK_RET_FOR_NOT_OK f"
  by (rule ext) (simp add: ROSIDL_DYNAMIC_TYPESUPPORT_CHECK_RET_FOR_NOT_OK_WITH_CLEANUP_def
      ROSIDL_DYNAMIC_TYPESUPPORT_CHECK_RET_FOR_NOT_OK_def)

subsection \<open>Properties\<close>

text \<open>The check of type identifiers goes on when both are the same object and otherwise runs the failure
  statement; whatever becomes of the message (it cannot be measured, allocated or printed), every block
  it allocated has been freed by then, so the failure statement may leave the function.\<close>

theorem identifier_check_frees_its_message:
  assumes "\<And>n s p s'. rmw_allocate rmw n s = (Some p, s') \<Longrightarrow> p \<notin> blocks s \<and> blocks s' = insert p (blocks s)"
    "\<And>n s s'. rmw_allocate rmw n s = (None, s') \<Longrightarrow> blocks s' = blocks s"
    "\<And>p s. blocks (rmw_free rmw (Some p) s) = blocks s - {p}" "\<And>s. blocks (rmw_free rmw None s) = blocks s"
    "\<And>msg place line s. blocks (rcutils_set_error_state lib msg place line s) = blocks s"
  shows "\<exists>s'. blocks s' = blocks s \<and>
    RMW_CHECK_TYPE_IDENTIFIERS_MATCH avoid b lib rmw at name e x OnFailure s =
      (if address e = address x then (None, s) else OnFailure s')"
proof (cases "address e = address x")
  case True
  then show ?thesis
    by (intro exI [of _ s]) (simp add: RMW_CHECK_TYPE_IDENTIFIERS_MATCH_def check_type_identifiers_buffer_def
        check_type_identifiers_heap_def skip_def)
next
  case False
  obtain msg s1 where a: "rmw_allocate rmw (nat (fst (rcutils_snprintf lib 0 (mismatch_format name)
      (mismatch_arguments rmw e x)) + 1)) s = (msg, s1)" by fastforce
  have free: "blocks (rmw_free rmw msg u) = blocks s" if "blocks u = blocks s1" for u
    using assms(1) [of _ s] assms(2) [of _ s] assms(3,4) a that by (cases msg) force+
  from check_heap_runs [OF False a] consider m where "check_type_identifiers_heap b lib rmw at name e x OnFailure s =
      OnFailure (set_msg b lib at m s)"
    | m where "check_type_identifiers_heap b lib rmw at name e x OnFailure s =
      OnFailure (rmw_free rmw msg (set_msg b lib at m s1))" by metis
  moreover have "blocks (set_msg b lib at m u) = blocks u" for m u using assms(5) by (simp add: set_msg_def)
  ultimately have "\<exists>s'. blocks s' = blocks s \<and> check_type_identifiers_heap b lib rmw at name e x OnFailure s = OnFailure s'"
    using free by cases metis+
  moreover have "\<exists>s'. blocks s' = blocks s \<and> check_type_identifiers_buffer b lib rmw at name e x OnFailure s = OnFailure s'"
    using check_buffer_runs [OF False] \<open>\<And>u m. blocks (set_msg b lib at m u) = blocks u\<close> by metis
  ultimately show ?thesis
    using False by (cases avoid) (simp_all add: RMW_CHECK_TYPE_IDENTIFIERS_MATCH_def)
qed

text \<open>A heap for the witness: the addresses of the blocks in use.\<close>

definition listed_heap :: "nat list rmw_lib" where
  "listed_heap = \<lparr>rmw_allocate = (\<lambda>n s. let p = fold max s 0 + 1 in (Some p, p # s)),
     rmw_free = (\<lambda>p s. case p of None \<Rightarrow> s | Some q \<Rightarrow> filter (\<lambda>r. r \<noteq> q) s), pointer_text = (\<lambda>p. [])\<rparr>"

definition silent_errors :: "nat list error_lib" where
  "silent_errors = \<lparr>rcutils_set_error_state = (\<lambda>_ _ _ s. s), rcutils_get_error_string = (\<lambda>_. []),
     rcutils_reset_error = (\<lambda>s. s), rcutils_snprintf = (\<lambda>_ f _. (int (length f), f)), fwrite_stderr = (\<lambda>_ s. s),
     rcutils_fault_injection_set_count = (\<lambda>n s. s), rcutils_fault_injection_get_count = (\<lambda>s. 0),
     rcutils_fault_injection_is_test_complete = (\<lambda>s. True), maybe_fail = (\<lambda>s. (0, s))\<rparr>"

lemma max_not_listed: "fold max s 0 + 1 \<notin> set s" for s :: "nat list"
proof -
  have "x \<le> fold max s n" if "x \<in> set s \<or> x \<le> n" for x n :: nat
    using that by (induction s arbitrary: n) (auto intro: max.coboundedI2)
  then show ?thesis by force
qed

theorem identifier_check_frees_its_message_witness:
  "\<exists>s'. set s' = {3, 5} \<and>
     RMW_CHECK_TYPE_IDENTIFIERS_MATCH False configuration_flags silent_errors listed_heap (''f.c'', 7) ''publisher''
       \<lparr>address = 1, chars = ''a''\<rparr> \<lparr>address = 2, chars = ''a''\<rparr> (return_stmt (11 :: int)) [3, 5] = (Some 11, s')"
  using identifier_check_frees_its_message [of listed_heap set silent_errors "[3, 5]" False configuration_flags
      "(''f.c'', 7)" "''publisher''" "\<lparr>address = 1, chars = ''a''\<rparr>" "\<lparr>address = 2, chars = ''a''\<rparr>" "return_stmt (11 :: int)"]
    max_not_listed
  by (auto simp: listed_heap_def silent_errors_def Let_def return_stmt_def)

text \<open>The two macros of one name do not ask the same: the one of rmw whether the identifiers are the same
  object, the one of the XRCE middleware whether they have the same text, and it takes a null identifier
  for a match. A copy of the identifier passes the second and fails the first.\<close>

theorem identifier_checks_differ:
  "fst (RMW_CHECK_TYPE_IDENTIFIERS_MATCH avoid b lib rmw at name e x (return_stmt r) s) =
     (if address e = address x then None else Some r) \<and>
   fst (RMW_CHECK_TYPE_IDENTIFIERS_MATCH_xrce b lib at x (Some e) r s) =
     (if chars e = chars x then None else Some r) \<and>
   RMW_CHECK_TYPE_IDENTIFIERS_MATCH_xrce b lib at x None r s = (None, s)"
  by (simp add: RMW_CHECK_TYPE_IDENTIFIERS_MATCH_def check_type_identifiers_buffer_def check_type_identifiers_heap_def
      RMW_CHECK_TYPE_IDENTIFIERS_MATCH_xrce_def set_error_msg_simp skip_def return_stmt_def split_def Let_def)

text \<open>Of calls checked one after another with their clean-ups the first that fails decides: its code is
  returned, no later call is made, and its own clean-up is the only one that runs.\<close>

theorem first_failing_call_is_returned:
  assumes "all_succeed (map fst xs) s = Some s1" "f s1 = (ret, s2)" "ret \<noteq> RCUTILS_RET_OK"
  shows "checked_calls (xs @ (f, cleanup) # ys) s = (Some ret, cleanup s2)"
  using checked_calls_succeed [OF assms(1)] assms(2,3)
  by (simp add: checked_calls_append seq_def ROSIDL_DYNAMIC_TYPESUPPORT_CHECK_RET_FOR_NOT_OK_WITH_CLEANUP_def)

theorem first_failing_call_is_returned_witness:
  "checked_calls [(\<lambda>s. (0, s + 1), \<lambda>s. 0), (\<lambda>s. (11, s + 2), \<lambda>s. s * 10), (\<lambda>s. (0, 99), \<lambda>s. 0)] (0 :: nat) = (Some 11, 30)"
  using first_failing_call_is_returned [of "[(\<lambda>s. (0, s + 1), \<lambda>s. 0)]" "0 :: nat" 1 "\<lambda>s. (11, s + 2)" 11 3 "\<lambda>s. s * 10"
      "[(\<lambda>s. (0, 99), \<lambda>s. 0)]"]
  by (simp add: RCUTILS_RET_OK_def)

text \<open>The version tests compare version triples lexicographically.\<close>

theorem version_tests_are_lexicographic:
  "RCL_ACTION_VERSION_GTE major minor patch =
     ((major, minor, patch) \<le> (RCL_ACTION_VERSION_MAJOR, RCL_ACTION_VERSION_MINOR, RCL_ACTION_VERSION_PATCH)) \<and>
   RCL_LIFECYCLE_VERSION_GTE major minor patch =
     ((major, minor, patch) \<le> (RCL_LIFECYCLE_VERSION_MAJOR, RCL_LIFECYCLE_VERSION_MINOR, RCL_LIFECYCLE_VERSION_PATCH))"
  by (auto simp: RCL_ACTION_VERSION_GTE_def RCL_LIFECYCLE_VERSION_GTE_def less_eq_prod_def)

text \<open>\<open>PRINT_RCLC_ERROR\<close> always resets the error; it prints it first only when the build keeps errors
  and the logger is enabled. In the default build, which keeps none, the error vanishes unseen.\<close>

theorem print_rclc_error_by_build:
  "PRINT_RCLC_ERROR RCUTILS_LOG_MIN_SEVERITY env get_error pkg rclc rcl s =
     s\<lparr>world := log_env.rcutils_reset_error env (world s)\<rparr> \<and>
   (let s1 = RCUTILS_LOGGING_AUTOINIT env s in
     PRINT_RCLC_ERROR RCUTILS_LOG_MIN_SEVERITY_ERROR env get_error pkg rclc rcl s =
       s1\<lparr>world := log_env.rcutils_reset_error env (world s1),
          log_output := log_output s1 @
            (if rcutils_logging_logger_is_enabled_for env (Some pkg) RCUTILS_LOG_SEVERITY_ERROR (world s1)
             then [Log_Internal RCUTILS_LOG_SEVERITY_ERROR (Some pkg)
                (''['' @ rclc @ ''] Error in '' @ rcl @ '': '' @ get_error (world s1) @ [CHR 0x0A])] else [])\<rparr>)"
  by (simp add: PRINT_RCLC_ERROR_def RCUTILS_LOG_ERROR_NAMED_def min_severity_defs RCUTILS_LOG_COND_NAMED_def
      RCUTILS_LOG_CONDITION_EMPTY_def rcutils_log_internal_def Let_def)

end
