(* ===== verification/Rcutils_Containers.thy ===== *)
theory Rcutils_Containers
  imports Check_Macros "HOL-Library.Multiset" "HOL-Library.List_Lexorder" "HOL-Library.Char_ord"
begin

text \<open>
  The code the headers of the containers hold themselves: the sort of a string array
  (\<^verbatim>\<open>rcutils/types/string_array.h\<close>), the checks every function of the hash map and of the array list starts with
  (\<^verbatim>\<open>rcutils/types/hash_map.h\<close>, \<^verbatim>\<open>rcutils/types/array_list.h\<close>), the comparison of goal identifiers
  (\<^verbatim>\<open>rcl_action/types.h\<close>) and the name of a C++ type in an error message (\<^verbatim>\<open>rmw/impl/cpp/demangle.hpp\<close>). The sort
  routine, its comparison and the demangler are functions of libraries that are not in the repository.
\<close>

subsection \<open>String arrays\<close>

text \<open>An entry is null or a string; \<open>data\<close> points to the entries.\<close>

record rcutils_string_array =
  entries :: nat
  data :: "string option list option"

type_synonym 's qsort =
  "string option list option \<Rightarrow> nat \<Rightarrow> (string option \<Rightarrow> string option \<Rightarrow> int) \<Rightarrow> 's \<Rightarrow>
    (int \<times> string option list option) \<times> 's"

definition RCUTILS_RET_INVALID_ARGUMENT :: int where
  "RCUTILS_RET_INVALID_ARGUMENT = 11"

definition RCUTILS_RET_NOT_INITIALIZED :: int where
  "RCUTILS_RET_NOT_INITIALIZED = 13"

definition rcutils_string_array_sort ::
  "build \<Rightarrow> 's error_lib \<Rightarrow> place \<Rightarrow> 's qsort \<Rightarrow> (string option \<Rightarrow> string option \<Rightarrow> int) \<Rightarrow>
    rcutils_string_array option \<Rightarrow> 's \<Rightarrow> (int \<times> rcutils_string_array option) \<times> 's" where
  "rcutils_string_array_sort b lib at rcutils_qsort compare string_array s =
     (case RCUTILS_CHECK_FOR_NULL_WITH_MSG b lib at string_array ''string_array is null''
         (return_stmt RCUTILS_RET_INVALID_ARGUMENT) s of
        (Some ret, s1) \<Rightarrow> ((ret, string_array), s1)
      | (None, s1) \<Rightarrow>
          (let a = the string_array;
               ((ret, sorted_data), s2) = rcutils_qsort (data a) (entries a) compare s1
           in ((ret, Some (a\<lparr>data := sorted_data\<rparr>)), s2)))"

text \<open>What \<^verbatim>\<open>rcutils/qsort.h\<close> says of the sort routine: in an array of at least \<open>n\<close> entries it puts the first \<open>n\<close> in
  ascending order of the comparison. And what the header says of the comparison: strings lexicographically, empty
  entries last.\<close>

definition sorts :: "'s qsort \<Rightarrow> (string option \<Rightarrow> string option \<Rightarrow> int) \<Rightarrow> bool" where
  "sorts rcutils_qsort compare \<longleftrightarrow>
     (\<forall>xs n s. n \<le> length xs \<longrightarrow>
        (\<exists>ys. rcutils_qsort (Some xs) n compare s = ((RCUTILS_RET_OK, Some (ys @ drop n xs)), s) \<and>
           mset ys = mset (take n xs) \<and> sorted_wrt (\<lambda>x y. compare x y \<le> 0) ys))"

definition compares_entries :: "(string option \<Rightarrow> string option \<Rightarrow> int) \<Rightarrow> bool" where
  "compares_entries compare \<longleftrightarrow>
     (\<forall>x y. compare (Some x) (Some y) \<le> 0 \<longleftrightarrow> x \<le> y) \<and>
     (\<forall>x. compare (Some x) None < 0 \<and> 0 < compare None (Some x)) \<and> compare None None = 0"

text \<open>The entries that are not null, and how many are.\<close>

definition present :: "'a option list \<Rightarrow> 'a list" where
  "present xs = List.map_filter (\<lambda>x. x) xs"

definition absent :: "'a option list \<Rightarrow> nat" where
  "absent xs = length (filter (\<lambda>x. x = None) xs)"

lemma present_simps [simp]:
  "present [] = []" "present (None # xs) = present xs" "present (Some x # xs) = x # present xs"
  by (simp_all add: present_def List.map_filter_simps)

lemma absent_simps [simp]:
  "absent [] = 0" "absent (None # xs) = Suc (absent xs)" "absent (Some x # xs) = absent xs"
  by (simp_all add: absent_def)

lemma present_of_mset: "mset (present xs) = image_mset the (filter_mset (\<lambda>x. x \<noteq> None) (mset xs))"
proof (induction xs)
  case (Cons x xs)
  then show ?case by (cases x) simp_all
qed simp

lemma absent_of_mset: "absent xs = size (filter_mset (\<lambda>x. x = None) (mset xs))"
  by (metis absent_def mset_filter size_mset)

lemma in_present: "x \<in> set (present xs) \<longleftrightarrow> Some x \<in> set xs"
proof (induction xs)
  case (Cons y xs)
  then show ?case by (cases y) auto
qed simp

lemma only_absent: "\<forall>y\<in>set ys. y = None \<Longrightarrow> present ys = [] \<and> ys = replicate (absent ys) None"
  by (induction ys) auto

text \<open>A list in the order of the comparison is its strings in order, then the null entries.\<close>

lemma ordered_entries:
  assumes "compares_entries compare" "sorted_wrt (\<lambda>x y. compare x y \<le> 0) ys"
  shows "ys = map Some (present ys) @ replicate (absent ys) None \<and> sorted (present ys)"
  using assms(2)
proof (induction ys)
  case (Cons y ys)
  show ?case
  proof (cases y)
    case None
    have "z = None" if "z \<in> set ys" for z
      using Cons.prems that assms(1) None by (cases z) (auto simp: compares_entries_def not_le [symmetric])
    then show ?thesis using only_absent [of ys] None by simp
  next
    case (Some x)
    have "compare (Some x) (Some z) \<le> 0" if "z \<in> set (present ys)" for z
      using Cons.prems that Some by (simp add: in_present)
    then have "\<forall>z\<in>set (present ys). x \<le> z"
      using assms(1) by (simp add: compares_entries_def)
    then show ?thesis using Cons Some by simp
  qed
qed simp

subsection \<open>Containers and identifiers\<close>

text \<open>Both containers are a pointer to their implementation; \<open>name\<close> is the text of the argument.\<close>

record rcutils_container =
  impl :: "nat option"

definition HASH_MAP_VALIDATE_HASH_MAP ::
  "build \<Rightarrow> 's error_lib \<Rightarrow> place \<Rightarrow> string \<Rightarrow> rcutils_container option \<Rightarrow> (int, 's) stmt" where
  "HASH_MAP_VALIDATE_HASH_MAP b lib at name hash_map =
     seq (RCUTILS_CHECK_ARGUMENT_FOR_NULL b lib at name hash_map RCUTILS_RET_INVALID_ARGUMENT)
       (\<lambda>s. if impl (the hash_map) = None
            then seq (RCUTILS_SET_ERROR_MSG b lib at ''map is not initialized'') (return_stmt RCUTILS_RET_NOT_INITIALIZED) s
            else skip s)"

definition ARRAY_LIST_VALIDATE_ARRAY_LIST ::
  "build \<Rightarrow> 's error_lib \<Rightarrow> place \<Rightarrow> string \<Rightarrow> rcutils_container option \<Rightarrow> (int, 's) stmt" where
  "ARRAY_LIST_VALIDATE_ARRAY_LIST b lib at name array_list =
     seq (RCUTILS_CHECK_ARGUMENT_FOR_NULL b lib at name array_list RCUTILS_RET_INVALID_ARGUMENT)
       (\<lambda>s. if impl (the array_list) = None
            then seq (RCUTILS_SET_ERROR_MSG b lib at ''array_list is not initialized'') (return_stmt RCUTILS_RET_NOT_INITIALIZED) s
            else skip s)"

text \<open>What a function of a container may rely on when it starts with the check of its argument: its body runs on a
  container that exists and is initialised, and on the state it was called with.\<close>

definition guarded ::
  "(rcutils_container option \<Rightarrow> (int, 's) stmt) \<Rightarrow> (nat \<Rightarrow> (int, 's) stmt) \<Rightarrow> rcutils_container option \<Rightarrow> (int, 's) stmt" where
  "guarded validate body c = seq (validate c) (body (the (impl (the c))))"

locale container_check =
  fixes validate :: "rcutils_container option \<Rightarrow> (int, 's) stmt"
  assumes null_returns: "fst (validate None s) = Some RCUTILS_RET_INVALID_ARGUMENT"
    and uninitialised_returns: "impl c = None \<Longrightarrow> fst (validate (Some c) s) = Some RCUTILS_RET_NOT_INITIALIZED"
    and valid_passes: "impl c = Some p \<Longrightarrow> validate (Some c) s = (None, s)"
begin

lemma guarded_null: "fst (guarded validate body None s) = Some RCUTILS_RET_INVALID_ARGUMENT"
  using null_returns [of s] by (auto simp: guarded_def seq_def split: prod.splits option.splits)

lemma guarded_uninitialised:
  "impl c = None \<Longrightarrow> fst (guarded validate body (Some c) s) = Some RCUTILS_RET_NOT_INITIALIZED"
  using uninitialised_returns [of c s] by (auto simp: guarded_def seq_def split: prod.splits option.splits)

lemma guarded_valid: "impl c = Some p \<Longrightarrow> guarded validate body (Some c) s = body p s"
  by (simp add: guarded_def seq_def valid_passes)

text \<open>Two functions one after the other on the same container check it once for all.\<close>

lemma guarded_twice: "seq (guarded validate f c) (guarded validate g c) = guarded validate (\<lambda>p. seq (f p) (g p)) c"
proof
  fix s
  show "seq (guarded validate f c) (guarded validate g c) s = guarded validate (\<lambda>p. seq (f p) (g p)) c s"
  proof (cases "c = None \<or> impl (the c) = None")
    case True
    then have "fst (validate c s) \<noteq> None"
      using null_returns [of s] uninitialised_returns [of "the c" s] by (cases c) auto
    then show ?thesis by (auto simp: guarded_def seq_def split: prod.splits option.splits)
  next
    case False
    then obtain d p where "c = Some d" "impl d = Some p" by auto
    then show ?thesis by (auto simp: guarded_valid seq_def split: prod.splits option.splits)
  qed
qed

end

interpretation hash_map: container_check "HASH_MAP_VALIDATE_HASH_MAP b lib at name"
  by unfold_locales (simp_all add: HASH_MAP_VALIDATE_HASH_MAP_def stmt_defs error_macro_defs)

interpretation array_list: container_check "ARRAY_LIST_VALIDATE_ARRAY_LIST b lib at name"
  by unfold_locales (simp_all add: ARRAY_LIST_VALIDATE_ARRAY_LIST_def stmt_defs error_macro_defs)

definition UUID_SIZE :: nat where
  "UUID_SIZE = 16"

definition uuidcmp :: "u8 list \<Rightarrow> u8 list \<Rightarrow> bool" where
  "uuidcmp uuid0 uuid1 \<longleftrightarrow> take UUID_SIZE uuid0 = take UUID_SIZE uuid1"

definition zerouuid :: "u8 list" where
  "zerouuid = replicate UUID_SIZE 0"

definition uuidcmpzero :: "u8 list \<Rightarrow> bool" where
  "uuidcmpzero uuid \<longleftrightarrow> uuidcmp uuid zerouuid"

subsection \<open>Names of types\<close>

text \<open>The C++ ABI: the demangler reports a status and a block of memory with the text, and \<open>free\<close>.\<close>

record 's cxx_abi =
  cxa_demangle :: "string \<Rightarrow> 's \<Rightarrow> (int \<times> (nat \<times> string) option) \<times> 's"
  std_free :: "nat \<Rightarrow> 's \<Rightarrow> 's"

text \<open>The pointer \<open>res\<close> frees its block, if it has one, when the function returns.\<close>

definition demangle :: "bool \<Rightarrow> bool \<Rightarrow> 's cxx_abi \<Rightarrow> string \<Rightarrow> 's \<Rightarrow> string \<times> 's" where
  "demangle on_windows avoid_allocation abi typeid_name s =
     (if \<not> on_windows \<or> avoid_allocation
      then (let ((status, res), s1) = cxa_demangle abi typeid_name s;
                result = (if status = 0 then snd (the res) else typeid_name)
            in (result, case res of None \<Rightarrow> s1 | Some block \<Rightarrow> std_free abi (fst block) s1))
      else (typeid_name, s))"

subsection \<open>Properties\<close>

text \<open>A sort routine that does what its header says.\<close>

definition insertion_qsort :: "'s qsort" where
  "insertion_qsort xs n compare s =
     ((RCUTILS_RET_OK,
       map_option (\<lambda>xs. map Some (sort (present (take n xs))) @ replicate (absent (take n xs)) None @ drop n xs) xs), s)"

definition compare_entries :: "string option \<Rightarrow> string option \<Rightarrow> int" where
  "compare_entries x y =
     (case (x, y) of
        (Some u, Some v) \<Rightarrow> if u < v then - 1 else if u = v then 0 else 1
      | (Some _, None) \<Rightarrow> - 1
      | (None, Some _) \<Rightarrow> 1
      | (None, None) \<Rightarrow> 0)"

lemma compare_entries_ok: "compares_entries compare_entries"
  by (auto simp: compares_entries_def compare_entries_def)

lemma mset_entries: "mset (map Some (present xs) @ replicate (absent xs) None) = mset xs"
proof (induction xs)
  case (Cons x xs)
  then show ?case by (cases x) simp_all
qed simp

lemma sorted_wrt_same: "P x x \<Longrightarrow> sorted_wrt P (replicate n x)"
  by (induction n) auto

lemma insertion_qsort_ok: "sorts insertion_qsort compare_entries"
  unfolding sorts_def
proof (intro allI impI exI conjI)
  fix xs :: "string option list" and n s
  let ?ys = "map Some (sort (present (take n xs))) @ replicate (absent (take n xs)) None"
  show "insertion_qsort (Some xs) n compare_entries s = ((RCUTILS_RET_OK, Some (?ys @ drop n xs)), s)"
    by (simp add: insertion_qsort_def)
  show "mset ?ys = mset (take n xs)"
    using mset_entries [of "take n xs"] by simp
  show "sorted_wrt (\<lambda>x y. compare_entries x y \<le> 0) ?ys"
    using sorted_sort [of "present (take n xs)"]
    by (simp add: sorted_wrt_append sorted_wrt_map compare_entries_def sorted_wrt_same)
      (rule sorted_wrt_mono_rel [of _ "(\<le>)"]; auto)
qed



text \<open>The functions of the hash map and of the array list that start with the check of their container run their
  body only on one that is initialised, with the state unchanged; on a null pointer they return that the argument is
  invalid, on one that is not initialised that it is not, whatever the body does. Two of them in a row on the same
  container need the check once.\<close>

theorem container_checks_guard:
  "fst (guarded (HASH_MAP_VALIDATE_HASH_MAP b lib at name) body None s) = Some RCUTILS_RET_INVALID_ARGUMENT \<and>
   fst (guarded (ARRAY_LIST_VALIDATE_ARRAY_LIST b lib at name) body None s) = Some RCUTILS_RET_INVALID_ARGUMENT \<and>
   fst (guarded (HASH_MAP_VALIDATE_HASH_MAP b lib at name) body (Some \<lparr>impl = None\<rparr>) s) = Some RCUTILS_RET_NOT_INITIALIZED \<and>
   fst (guarded (ARRAY_LIST_VALIDATE_ARRAY_LIST b lib at name) body (Some \<lparr>impl = None\<rparr>) s) = Some RCUTILS_RET_NOT_INITIALIZED \<and>
   guarded (HASH_MAP_VALIDATE_HASH_MAP b lib at name) body (Some \<lparr>impl = Some p\<rparr>) s = body p s \<and>
   guarded (ARRAY_LIST_VALIDATE_ARRAY_LIST b lib at name) body (Some \<lparr>impl = Some p\<rparr>) s = body p s \<and>
   seq (guarded (HASH_MAP_VALIDATE_HASH_MAP b lib at name) f c) (guarded (HASH_MAP_VALIDATE_HASH_MAP b lib at name) g c) =
     guarded (HASH_MAP_VALIDATE_HASH_MAP b lib at name) (\<lambda>p. seq (f p) (g p)) c \<and>
   seq (guarded (ARRAY_LIST_VALIDATE_ARRAY_LIST b lib at name) f c) (guarded (ARRAY_LIST_VALIDATE_ARRAY_LIST b lib at name) g c) =
     guarded (ARRAY_LIST_VALIDATE_ARRAY_LIST b lib at name) (\<lambda>p. seq (f p) (g p)) c"
  by (simp add: hash_map.guarded_null array_list.guarded_null hash_map.guarded_uninitialised array_list.guarded_uninitialised
      hash_map.guarded_valid array_list.guarded_valid hash_map.guarded_twice array_list.guarded_twice)

text \<open>Goal identifiers are the same exactly if their sixteen bytes are.\<close>

lemma uuidcmp_bytes:
  assumes "UUID_SIZE \<le> length u" "UUID_SIZE \<le> length v"
  shows "uuidcmp u v \<longleftrightarrow> (\<forall>i<UUID_SIZE. u ! i = v ! i)"
  using assms by (simp add: uuidcmp_def list_eq_iff_nth_eq)

lemma uuidcmpzero_bytes:
  assumes "UUID_SIZE \<le> length u"
  shows "uuidcmpzero u \<longleftrightarrow> (\<forall>i<UUID_SIZE. u ! i = 0)"
  using assms by (simp add: uuidcmpzero_def zerouuid_def uuidcmp_bytes)

text \<open>A heap as a list of live blocks and the number of allocations so far.\<close>

definition allocates_result :: "(nat list \<times> nat) cxx_abi \<Rightarrow> bool" where
  "allocates_result abi \<longleftrightarrow>
     (\<forall>name live n. case cxa_demangle abi name (live, n) of
        ((status, res), (live', n')) \<Rightarrow>
          (status = 0 \<longleftrightarrow> res \<noteq> None) \<and>
          (case res of None \<Rightarrow> live' = live \<and> n' = n
           | Some (p, text) \<Rightarrow> live' = p # live \<and> n' = Suc n)) \<and>
     (\<forall>p live n. std_free abi p (live, n) = (remove1 p live, n))"

lemma allocates_resultD:
  assumes "allocates_result abi" "cxa_demangle abi name (live, n) = ((status, res), (live', n'))"
  shows "(status = 0 \<longleftrightarrow> res \<noteq> None) \<and>
    (case res of None \<Rightarrow> live' = live \<and> n' = n | Some (p, text) \<Rightarrow> live' = p # live \<and> n' = Suc n)"
  using assms unfolding allocates_result_def by (auto dest!: spec [of _ name] spec [of _ live] spec [of _ n])

text \<open>The name of a type for an error message never leaks: the block the demangler allocates is freed on every
  path, and the name is the demangled one, or the mangled one if there is none. The test meant to leave the
  demangler out where memory must not be allocated has the wrong sign: the build that avoids allocation allocates
  just the same, even on Windows, and only the Windows build that may allocate does not.\<close>

theorem demangle_frees_and_allocates:
  assumes "allocates_result abi"
  shows "fst (snd (demangle windows avoid abi name (live, n))) = live \<and>
    demangle windows True abi name (live, n) = demangle False False abi name (live, n) \<and>
    (\<forall>p text heap. cxa_demangle abi name (live, n) = ((0, Some (p, text)), heap) \<longrightarrow>
       demangle windows True abi name (live, n) = (text, (live, Suc n))) \<and>
    (\<forall>status heap. cxa_demangle abi name (live, n) = ((status, None), heap) \<longrightarrow>
       demangle windows avoid abi name (live, n) = (name, (live, n))) \<and>
    demangle True False abi name (live, n) = (name, (live, n))"
proof -
  obtain status res live' n' where c: "cxa_demangle abi name (live, n) = ((status, res), (live', n'))"
    by (metis prod.exhaust)
  have f: "std_free abi p (ps, m) = (remove1 p ps, m)" for p ps m
    using assms by (simp add: allocates_result_def)
  show ?thesis
    using allocates_resultD [OF assms c] by (cases res) (auto simp: demangle_def c f)
qed

definition small_abi :: "(nat list \<times> nat) cxx_abi" where
  "small_abi =
     \<lparr>cxa_demangle = (\<lambda>name (live, n).
        if name = ''3Foo'' then ((0, Some (fold max live 0 + 1, ''Foo'')), ((fold max live 0 + 1) # live, Suc n))
        else ((- 2, None), (live, n))),
      std_free = (\<lambda>p (live, n). (remove1 p live, n))\<rparr>"

lemma small_abi_ok: "allocates_result small_abi"
  by (simp add: allocates_result_def small_abi_def)

lemma small_abi_call: "cxa_demangle small_abi ''3Foo'' ([4, 9], 2) = ((0, Some (10, ''Foo'')), ([10, 4, 9], 3))"
  by (simp add: small_abi_def)

theorem demangle_frees_and_allocates_witness:
  "demangle True True small_abi ''3Foo'' ([4, 9], 2) = (''Foo'', ([4, 9], 3)) \<and>
   demangle True False small_abi ''3Foo'' ([4, 9], 2) = (''3Foo'', ([4, 9], 2))"
proof
  note result = demangle_frees_and_allocates [OF small_abi_ok, of True True "''3Foo''" "[4, 9]" 2]
  show "demangle True True small_abi ''3Foo'' ([4, 9], 2) = (''Foo'', ([4, 9], 3))"
    using result [THEN conjunct2, THEN conjunct2, THEN conjunct1, rule_format, OF small_abi_call] by simp
  show "demangle True False small_abi ''3Foo'' ([4, 9], 2) = (''3Foo'', ([4, 9], 2))"
    using result by (elim conjE)
qed

end
