(* ===== verification/Return_Codes.thy ===== *)
theory Return_Codes
  imports Rcutils_Containers
begin

text \<open>
  The return codes of the layers: \<^verbatim>\<open>rcutils/types/rcutils_ret.h\<close>, \<^verbatim>\<open>rmw/ret_types.h\<close>, \<^verbatim>\<open>rcl/types.h\<close> and those
  \<^verbatim>\<open>rclc\<close> adds. All are plain integers, so what a code means depends on which layer reads it. A table lists names with
  their codes in the order of the header; the codes of rcl are grouped as its comments group them, each group with
  the range the comment gives.
\<close>

subsection \<open>The tables\<close>

definition rcutils_ret :: "(string \<times> int) list" where
  "rcutils_ret =
    [(''RCUTILS_RET_OK'', 0), (''RCUTILS_RET_WARN'', 1), (''RCUTILS_RET_ERROR'', 2),
     (''RCUTILS_RET_BAD_ALLOC'', 10), (''RCUTILS_RET_INVALID_ARGUMENT'', 11),
     (''RCUTILS_RET_NOT_ENOUGH_SPACE'', 12), (''RCUTILS_RET_NOT_INITIALIZED'', 13),
     (''RCUTILS_RET_NOT_FOUND'', 14), (''RCUTILS_RET_STRING_MAP_ALREADY_INIT'', 30),
     (''RCUTILS_RET_STRING_MAP_INVALID'', 31), (''RCUTILS_RET_STRING_KEY_NOT_FOUND'', 32),
     (''RCUTILS_RET_LOGGING_SEVERITY_MAP_INVALID'', 40),
     (''RCUTILS_RET_LOGGING_SEVERITY_STRING_INVALID'', 41), (''RCUTILS_RET_HASH_MAP_NO_MORE_ENTRIES'', 50)]"

definition rmw_ret :: "(string \<times> int) list" where
  "rmw_ret =
    [(''RMW_RET_OK'', 0), (''RMW_RET_ERROR'', 1), (''RMW_RET_TIMEOUT'', 2), (''RMW_RET_UNSUPPORTED'', 3),
     (''RMW_RET_BAD_ALLOC'', 10), (''RMW_RET_INVALID_ARGUMENT'', 11),
     (''RMW_RET_INCORRECT_RMW_IMPLEMENTATION'', 12), (''RMW_RET_NODE_NAME_NON_EXISTENT'', 203)]"

definition rmw_code :: "string \<Rightarrow> int" where
  "rmw_code name = the (map_of rmw_ret name)"

definition rcl_shared_ret :: "(string \<times> int) list" where
  "rcl_shared_ret =
    [(''RCL_RET_OK'', rmw_code ''RMW_RET_OK''), (''RCL_RET_ERROR'', rmw_code ''RMW_RET_ERROR''),
     (''RCL_RET_TIMEOUT'', rmw_code ''RMW_RET_TIMEOUT''),
     (''RCL_RET_BAD_ALLOC'', rmw_code ''RMW_RET_BAD_ALLOC''),
     (''RCL_RET_INVALID_ARGUMENT'', rmw_code ''RMW_RET_INVALID_ARGUMENT''),
     (''RCL_RET_UNSUPPORTED'', rmw_code ''RMW_RET_UNSUPPORTED'')]"

definition rcl_groups :: "(int \<times> int \<times> (string \<times> int) list) list" where
  "rcl_groups =
    [(100, 199,
       [(''RCL_RET_ALREADY_INIT'', 100), (''RCL_RET_NOT_INIT'', 101), (''RCL_RET_MISMATCHED_RMW_ID'', 102),
        (''RCL_RET_TOPIC_NAME_INVALID'', 103), (''RCL_RET_SERVICE_NAME_INVALID'', 104),
        (''RCL_RET_UNKNOWN_SUBSTITUTION'', 105), (''RCL_RET_ALREADY_SHUTDOWN'', 106),
        (''RCL_RET_NOT_FOUND'', 107)]),
     (200, 299,
       [(''RCL_RET_NODE_INVALID'', 200), (''RCL_RET_NODE_INVALID_NAME'', 201),
        (''RCL_RET_NODE_INVALID_NAMESPACE'', 202), (''RCL_RET_NODE_NAME_NON_EXISTENT'', 203)]),
     (300, 399,
       [(''RCL_RET_PUBLISHER_INVALID'', 300)]),
     (400, 499,
       [(''RCL_RET_SUBSCRIPTION_INVALID'', 400), (''RCL_RET_SUBSCRIPTION_TAKE_FAILED'', 401)]),
     (500, 599,
       [(''RCL_RET_CLIENT_INVALID'', 500), (''RCL_RET_CLIENT_TAKE_FAILED'', 501)]),
     (600, 699,
       [(''RCL_RET_SERVICE_INVALID'', 600), (''RCL_RET_SERVICE_TAKE_FAILED'', 601)]),
     (700, 799,
       []),
     (800, 899,
       [(''RCL_RET_TIMER_INVALID'', 800), (''RCL_RET_TIMER_CANCELED'', 801)]),
     (900, 999,
       [(''RCL_RET_WAIT_SET_INVALID'', 900), (''RCL_RET_WAIT_SET_EMPTY'', 901),
        (''RCL_RET_WAIT_SET_FULL'', 902)]),
     (1000, 1999,
       [(''RCL_RET_INVALID_REMAP_RULE'', 1001), (''RCL_RET_WRONG_LEXEME'', 1002),
        (''RCL_RET_INVALID_ROS_ARGS'', 1003), (''RCL_RET_INVALID_PARAM_RULE'', 1010),
        (''RCL_RET_INVALID_LOG_LEVEL_RULE'', 1020)]),
     (2000, 2099,
       [(''RCL_RET_EVENT_INVALID'', 2000), (''RCL_RET_EVENT_TAKE_FAILED'', 2001)]),
     (3000, 3099,
       [(''RCL_RET_LIFECYCLE_STATE_REGISTERED'', 3000), (''RCL_RET_LIFECYCLE_STATE_NOT_REGISTERED'', 3001)]),
     (4000, 4099,
       [(''RCL_RET_ACTION_NAME_INVALID'', 4000), (''RCL_RET_ACTION_NOT_TERMINATED_YET'', 4001),
        (''RCL_RET_ACTION_GOAL_ACCEPTED'', 4100), (''RCL_RET_ACTION_GOAL_REJECTED'', 4101),
        (''RCL_RET_ACTION_CLIENT_INVALID'', 4102), (''RCL_RET_ACTION_CLIENT_TAKE_FAILED'', 4103),
        (''RCL_RET_ACTION_SERVER_INVALID'', 4200), (''RCL_RET_ACTION_SERVER_TAKE_FAILED'', 4201),
        (''RCL_RET_ACTION_GOAL_HANDLE_INVALID'', 4300), (''RCL_RET_ACTION_GOAL_EVENT_INVALID'', 4301)])]"

definition rcl_ret :: "(string \<times> int) list" where
  "rcl_ret = rcl_shared_ret @ concat (map (snd \<circ> snd) rcl_groups)"

definition rclc_ret :: "(string \<times> int) list" where
  "rclc_ret =
    [(''RCLC_RET_ACTION_WAIT_RESULT_REQUEST'', 2104), (''RCLC_PARAMETER_MODIFICATION_REJECTED'', 4001),
     (''RCLC_PARAMETER_TYPE_MISMATCH'', 4002), (''RCLC_PARAMETER_UNSUPORTED_ON_LOW_MEM'', 4003),
     (''RCLC_PARAMETER_DISABLED_ON_CALLBACK'', 40004)]"

subsection \<open>Reading a code\<close>

text \<open>What a code means to the reader of a table, the name without the prefix of the layer.\<close>

definition reading :: "(string \<times> int) list \<Rightarrow> int \<Rightarrow> string option" where
  "reading table code = map_of (map (\<lambda>(n, c). (c, n)) table) code"

definition meaning :: "string \<Rightarrow> string \<Rightarrow> string" where
  "meaning pre name = drop (length pre) name"

lemma reading_distinct:
  "distinct (map snd table) \<Longrightarrow> (n, c) \<in> set table \<Longrightarrow> reading table c = Some n"
  by (force simp: reading_def comp_def case_prod_beta intro: map_of_is_SomeI)

lemma rcl_ret_list:
  "rcl_ret =
    [(''RCL_RET_OK'', 0), (''RCL_RET_ERROR'', 1), (''RCL_RET_TIMEOUT'', 2), (''RCL_RET_BAD_ALLOC'', 10),
     (''RCL_RET_INVALID_ARGUMENT'', 11), (''RCL_RET_UNSUPPORTED'', 3), (''RCL_RET_ALREADY_INIT'', 100),
     (''RCL_RET_NOT_INIT'', 101), (''RCL_RET_MISMATCHED_RMW_ID'', 102),
     (''RCL_RET_TOPIC_NAME_INVALID'', 103), (''RCL_RET_SERVICE_NAME_INVALID'', 104),
     (''RCL_RET_UNKNOWN_SUBSTITUTION'', 105), (''RCL_RET_ALREADY_SHUTDOWN'', 106),
     (''RCL_RET_NOT_FOUND'', 107), (''RCL_RET_NODE_INVALID'', 200), (''RCL_RET_NODE_INVALID_NAME'', 201),
     (''RCL_RET_NODE_INVALID_NAMESPACE'', 202), (''RCL_RET_NODE_NAME_NON_EXISTENT'', 203),
     (''RCL_RET_PUBLISHER_INVALID'', 300), (''RCL_RET_SUBSCRIPTION_INVALID'', 400),
     (''RCL_RET_SUBSCRIPTION_TAKE_FAILED'', 401), (''RCL_RET_CLIENT_INVALID'', 500),
     (''RCL_RET_CLIENT_TAKE_FAILED'', 501), (''RCL_RET_SERVICE_INVALID'', 600),
     (''RCL_RET_SERVICE_TAKE_FAILED'', 601), (''RCL_RET_TIMER_INVALID'', 800),
     (''RCL_RET_TIMER_CANCELED'', 801), (''RCL_RET_WAIT_SET_INVALID'', 900),
     (''RCL_RET_WAIT_SET_EMPTY'', 901), (''RCL_RET_WAIT_SET_FULL'', 902),
     (''RCL_RET_INVALID_REMAP_RULE'', 1001), (''RCL_RET_WRONG_LEXEME'', 1002),
     (''RCL_RET_INVALID_ROS_ARGS'', 1003), (''RCL_RET_INVALID_PARAM_RULE'', 1010),
     (''RCL_RET_INVALID_LOG_LEVEL_RULE'', 1020), (''RCL_RET_EVENT_INVALID'', 2000),
     (''RCL_RET_EVENT_TAKE_FAILED'', 2001), (''RCL_RET_LIFECYCLE_STATE_REGISTERED'', 3000),
     (''RCL_RET_LIFECYCLE_STATE_NOT_REGISTERED'', 3001), (''RCL_RET_ACTION_NAME_INVALID'', 4000),
     (''RCL_RET_ACTION_NOT_TERMINATED_YET'', 4001), (''RCL_RET_ACTION_GOAL_ACCEPTED'', 4100),
     (''RCL_RET_ACTION_GOAL_REJECTED'', 4101), (''RCL_RET_ACTION_CLIENT_INVALID'', 4102),
     (''RCL_RET_ACTION_CLIENT_TAKE_FAILED'', 4103), (''RCL_RET_ACTION_SERVER_INVALID'', 4200),
     (''RCL_RET_ACTION_SERVER_TAKE_FAILED'', 4201), (''RCL_RET_ACTION_GOAL_HANDLE_INVALID'', 4300),
     (''RCL_RET_ACTION_GOAL_EVENT_INVALID'', 4301)]"
  by (simp add: rcl_ret_def rcl_shared_ret_def rcl_groups_def rmw_code_def rmw_ret_def)

lemma codes_distinct:
  "distinct (map snd rcutils_ret)" "distinct (map snd rmw_ret)" "distinct (map snd rcl_ret)" "distinct (map snd rclc_ret)"
  by (simp_all add: rcutils_ret_def rmw_ret_def rcl_ret_list rclc_ret_def)

text \<open>The constants the other theories use.\<close>

lemma constants_in_tables:
  "(''RMW_RET_OK'', RMW_RET_OK) \<in> set rmw_ret" "(''RCL_RET_OK'', RCL_RET_OK) \<in> set rcl_ret"
  "(''RCUTILS_RET_OK'', RCUTILS_RET_OK) \<in> set rcutils_ret"
  "(''RCUTILS_RET_INVALID_ARGUMENT'', RCUTILS_RET_INVALID_ARGUMENT) \<in> set rcutils_ret"
  "(''RCUTILS_RET_NOT_INITIALIZED'', RCUTILS_RET_NOT_INITIALIZED) \<in> set rcutils_ret"
  by (simp_all add: rmw_ret_def rcl_ret_list rcutils_ret_def ret_codes RCUTILS_RET_OK_def
      RCUTILS_RET_INVALID_ARGUMENT_def RCUTILS_RET_NOT_INITIALIZED_def)

subsection \<open>Properties\<close>

text \<open>The codes of a table that a reader of another table takes for what they mean.\<close>

definition understood :: "string \<Rightarrow> (string \<times> int) list \<Rightarrow> string \<Rightarrow> (string \<times> int) list \<Rightarrow> string list" where
  "understood from_prefix from to_prefix to =
     map (meaning from_prefix \<circ> fst)
       (filter (\<lambda>(n, c). map_option (meaning to_prefix) (reading to c) = Some (meaning from_prefix n)) from)"

text \<open>A return code can be read back within its layer, and between layers only as follows. A caller of rcl understands
  every code of rmw that reaches it unconverted but the one for a foreign implementation, which means nothing to it.
  Of the codes of rcutils it understands three; it takes a warning for an error and an error for a timeout. The
  codes rclc adds can be told from those of rcl except one: a rejected parameter reads as a goal that has not
  ended. Every code of rcl lies in the range its comment gives, except eight of the codes of actions.\<close>

theorem return_codes_between_layers:
  "list_all (\<lambda>table. map (reading table \<circ> snd) table = map (Some \<circ> fst) table) [rcutils_ret, rmw_ret, rcl_ret, rclc_ret] \<and>
   understood ''RMW_RET_'' rmw_ret ''RCL_RET_'' rcl_ret =
     [''OK'', ''ERROR'', ''TIMEOUT'', ''UNSUPPORTED'', ''BAD_ALLOC'', ''INVALID_ARGUMENT'', ''NODE_NAME_NON_EXISTENT''] \<and>
   reading rcl_ret (rmw_code ''RMW_RET_INCORRECT_RMW_IMPLEMENTATION'') = None \<and>
   understood ''RCUTILS_RET_'' rcutils_ret ''RCL_RET_'' rcl_ret = [''OK'', ''BAD_ALLOC'', ''INVALID_ARGUMENT''] \<and>
   map_option (reading rcl_ret) (map_of rcutils_ret ''RCUTILS_RET_WARN'') = Some (Some ''RCL_RET_ERROR'') \<and>
   map_option (reading rcl_ret) (map_of rcutils_ret ''RCUTILS_RET_ERROR'') = Some (Some ''RCL_RET_TIMEOUT'') \<and>
   map (reading rcl_ret \<circ> snd) rclc_ret = [None, Some ''RCL_RET_ACTION_NOT_TERMINATED_YET'', None, None, None] \<and>
   map (\<lambda>(lo, hi, codes). (lo, length (filter (\<lambda>(n, c). \<not> (lo \<le> c \<and> c \<le> hi)) codes))) rcl_groups =
     map (\<lambda>(lo, hi, codes). (lo, if lo = 4000 then 8 else 0)) rcl_groups"
proof (intro conjI)
  have read_back: "map (reading table \<circ> snd) table = map (Some \<circ> fst) table" if "distinct (map snd table)" for table
    using that by (auto intro: reading_distinct)
  show "list_all (\<lambda>table. map (reading table \<circ> snd) table = map (Some \<circ> fst) table) [rcutils_ret, rmw_ret, rcl_ret, rclc_ret]"
    using codes_distinct [THEN read_back] by simp
qed (simp_all add: understood_def meaning_def reading_def rmw_ret_def rcutils_ret_def rclc_ret_def rcl_ret_list rcl_groups_def
    rmw_code_def)

end
