(* ===== verification/Xrce_Types.thy ===== *)
theory Xrce_Types
  imports Prelude
begin

unbundle bit_operations_syntax

text \<open>
  The constants of the wire protocol that the headers of the client declare twice or combine: the kinds of objects
  (\<^verbatim>\<open>uxr/client/core/session/object_id.h\<close> and \<^verbatim>\<open>uxr/client/core/type/xrce_types.h\<close>), the status of an operation and
  the creation flags (\<^verbatim>\<open>session_info.h\<close>), the flags of quality of service, of agent information and of samples, and
  the formats of data. The structs that carry them are encoded by the precompiled library.
\<close>

subsection \<open>Object kinds and status\<close>

definition uxr_object_ids :: "(string \<times> u8) list" where
  "uxr_object_ids =
    [(''INVALID'', 0x00), (''PARTICIPANT'', 0x01), (''TOPIC'', 0x02), (''PUBLISHER'', 0x03), (''SUBSCRIBER'', 0x04),
     (''DATAWRITER'', 0x05), (''DATAREADER'', 0x06), (''REQUESTER'', 0x07), (''REPLIER'', 0x08), (''OTHER'', 0x0F)]"

definition dds_xrce_object_kinds :: "(string \<times> u8) list" where
  "dds_xrce_object_kinds =
    [(''INVALID'', 0x00), (''PARTICIPANT'', 0x01), (''TOPIC'', 0x02), (''PUBLISHER'', 0x03), (''SUBSCRIBER'', 0x04),
     (''DATAWRITER'', 0x05), (''DATAREADER'', 0x06), (''REQUESTER'', 0x07), (''REPLIER'', 0x08), (''TYPE'', 0x0A),
     (''QOSPROFILE'', 0x0B), (''APPLICATION'', 0x0C), (''AGENT'', 0x0D), (''CLIENT'', 0x0E), (''OTHER'', 0x0F)]"

definition uxr_status :: "(string \<times> u8) list" where
  "uxr_status =
    [(''OK'', 0x00), (''OK_MATCHED'', 0x01), (''ERR_DDS_ERROR'', 0x80), (''ERR_MISMATCH'', 0x81),
     (''ERR_ALREADY_EXISTS'', 0x82), (''ERR_DENIED'', 0x83), (''ERR_UNKNOWN_REFERENCE'', 0x84),
     (''ERR_INVALID_DATA'', 0x85), (''ERR_INCOMPATIBLE'', 0x86), (''ERR_RESOURCES'', 0x87), (''NONE'', 0xFF)]"

subsection \<open>Flags\<close>

datatype creation_flag = UXR_REUSE | UXR_REPLACE | UXR_ECHO

fun creation_mask :: "creation_flag \<Rightarrow> u8" where
  "creation_mask UXR_REUSE = push_bit 1 0x01"
| "creation_mask UXR_REPLACE = push_bit 2 0x01"
| "creation_mask UXR_ECHO = push_bit 7 0x01"

datatype EndpointQosFlags =
  is_reliable | is_history_keep_last | is_ownership_exclusive | is_durability_transient_local |
  is_durability_transient | is_durability_persistent

fun endpoint_qos_mask :: "EndpointQosFlags \<Rightarrow> u16" where
  "endpoint_qos_mask is_reliable = push_bit 0 0x01"
| "endpoint_qos_mask is_history_keep_last = push_bit 1 0x01"
| "endpoint_qos_mask is_ownership_exclusive = push_bit 2 0x01"
| "endpoint_qos_mask is_durability_transient_local = push_bit 3 0x01"
| "endpoint_qos_mask is_durability_transient = push_bit 4 0x01"
| "endpoint_qos_mask is_durability_persistent = push_bit 5 0x01"

datatype InfoMask = INFO_CONFIGURATION | INFO_ACTIVITY

fun info_mask :: "InfoMask \<Rightarrow> u32" where
  "info_mask INFO_CONFIGURATION = push_bit 0 0x01"
| "info_mask INFO_ACTIVITY = push_bit 1 0x01"

datatype SampleInfoFlags =
  INSTANCE_STATE_UNREGISTERD | INSTANCE_STATE_DISPOSED | VIEW_STATE_NEW | SAMPLE_STATE_READ

fun sample_info_mask :: "SampleInfoFlags \<Rightarrow> u8" where
  "sample_info_mask INSTANCE_STATE_UNREGISTERD = push_bit 0 0x01"
| "sample_info_mask INSTANCE_STATE_DISPOSED = push_bit 1 0x01"
| "sample_info_mask VIEW_STATE_NEW = push_bit 2 0x01"
| "sample_info_mask SAMPLE_STATE_READ = push_bit 3 0x01"

text \<open>A word of flags, and the test of one.\<close>

definition combine :: "('f \<Rightarrow> 'w :: len word) \<Rightarrow> 'f list \<Rightarrow> 'w word" where
  "combine flag fs = foldr (\<lambda>f w. flag f OR w) fs 0"

definition has_flag :: "('f \<Rightarrow> 'w :: len word) \<Rightarrow> 'w word \<Rightarrow> 'f \<Rightarrow> bool" where
  "has_flag flag w f \<longleftrightarrow> w AND flag f \<noteq> 0"

locale flag_masks =
  fixes flag :: "'f \<Rightarrow> 'w :: len word" and pos :: "'f \<Rightarrow> nat"
  assumes one_bit: "flag f = push_bit (pos f) 1"
    and in_word: "pos f < LENGTH('w)"
    and own_bit: "pos f = pos g \<Longrightarrow> f = g"
begin

lemma bit_mask: "bit (flag f) n \<longleftrightarrow> n = pos f"
  using in_word [of f] by (auto simp: one_bit bit_exp_iff)

lemma bit_combine: "bit (combine flag fs) n \<longleftrightarrow> (\<exists>f \<in> set fs. n = pos f)"
  by (induction fs) (auto simp: combine_def bit_or_iff bit_mask)

lemma and_mask: "w AND flag f \<noteq> 0 \<longleftrightarrow> bit w (pos f)"
proof
  assume "bit w (pos f)"
  then have "bit (w AND flag f) (pos f)" by (simp add: bit_and_iff bit_mask)
  then show "w AND flag f \<noteq> 0" by auto
next
  assume "w AND flag f \<noteq> 0"
  then obtain n where "bit (w AND flag f) n" by (auto simp: bit_eq_iff)
  then show "bit w (pos f)" by (auto simp: bit_and_iff bit_mask)
qed

lemma has_flag_combine: "has_flag flag (combine flag fs) f \<longleftrightarrow> f \<in> set fs"
  by (auto simp: has_flag_def and_mask bit_combine dest: own_bit)

lemma combine_inject: "combine flag fs = combine flag gs \<Longrightarrow> set fs = set gs"
  by (metis has_flag_combine subsetI subset_antisym)

end

fun creation_pos :: "creation_flag \<Rightarrow> nat" where
  "creation_pos UXR_REUSE = 1" | "creation_pos UXR_REPLACE = 2" | "creation_pos UXR_ECHO = 7"

fun endpoint_qos_pos :: "EndpointQosFlags \<Rightarrow> nat" where
  "endpoint_qos_pos is_reliable = 0"
| "endpoint_qos_pos is_history_keep_last = 1"
| "endpoint_qos_pos is_ownership_exclusive = 2"
| "endpoint_qos_pos is_durability_transient_local = 3"
| "endpoint_qos_pos is_durability_transient = 4"
| "endpoint_qos_pos is_durability_persistent = 5"

fun info_pos :: "InfoMask \<Rightarrow> nat" where
  "info_pos INFO_CONFIGURATION = 0" | "info_pos INFO_ACTIVITY = 1"

fun sample_info_pos :: "SampleInfoFlags \<Rightarrow> nat" where
  "sample_info_pos INSTANCE_STATE_UNREGISTERD = 0"
| "sample_info_pos INSTANCE_STATE_DISPOSED = 1"
| "sample_info_pos VIEW_STATE_NEW = 2"
| "sample_info_pos SAMPLE_STATE_READ = 3"

interpretation creation: flag_masks creation_mask creation_pos
proof
  fix f g
  show "creation_mask f = push_bit (creation_pos f) 1" "creation_pos f < LENGTH(8)" by (cases f; simp)+
  show "creation_pos f = creation_pos g \<Longrightarrow> f = g" by (cases f; cases g) simp_all
qed

interpretation endpoint_qos: flag_masks endpoint_qos_mask endpoint_qos_pos
proof
  fix f g
  show "endpoint_qos_mask f = push_bit (endpoint_qos_pos f) 1" "endpoint_qos_pos f < LENGTH(16)" by (cases f; simp)+
  show "endpoint_qos_pos f = endpoint_qos_pos g \<Longrightarrow> f = g" by (cases f; cases g) simp_all
qed

interpretation info: flag_masks info_mask info_pos
proof
  fix f g
  show "info_mask f = push_bit (info_pos f) 1" "info_pos f < LENGTH(32)" by (cases f; simp)+
  show "info_pos f = info_pos g \<Longrightarrow> f = g" by (cases f; cases g) simp_all
qed

interpretation sample_info: flag_masks sample_info_mask sample_info_pos
proof
  fix f g
  show "sample_info_mask f = push_bit (sample_info_pos f) 1" "sample_info_pos f < LENGTH(8)" by (cases f; simp)+
  show "sample_info_pos f = sample_info_pos g \<Longrightarrow> f = g" by (cases f; cases g) simp_all
qed

subsection \<open>Formats\<close>

datatype DataFormat = FORMAT_DATA | FORMAT_SAMPLE | FORMAT_DATA_SEQ | FORMAT_SAMPLE_SEQ | FORMAT_PACKED_SAMPLES

fun data_format :: "DataFormat \<Rightarrow> u8" where
  "data_format FORMAT_DATA = 0x00"
| "data_format FORMAT_SAMPLE = 0x02"
| "data_format FORMAT_DATA_SEQ = 0x08"
| "data_format FORMAT_SAMPLE_SEQ = 0x0A"
| "data_format FORMAT_PACKED_SAMPLES = 0x0E"

definition FORMAT_MASK :: u8 where "FORMAT_MASK = 0x0E"

datatype SampleInfoFormat = FORMAT_EMPTY | FORMAT_SEQNUM | FORMAT_TIMESTAMP | FORMAT_SEQN_TIMS

fun sample_info_format :: "SampleInfoFormat \<Rightarrow> u32" where
  "sample_info_format FORMAT_EMPTY = 0x00"
| "sample_info_format FORMAT_SEQNUM = 0x01"
| "sample_info_format FORMAT_TIMESTAMP = 0x02"
| "sample_info_format FORMAT_SEQN_TIMS = 0x03"

text \<open>The union of a sample's details with its discriminator; with the empty format none of the members is set.\<close>

record SeqNumberAndTimestamp =
  sequence_number :: u32
  session_time_offset :: u32

datatype SampleInfoDetail =
  Empty_detail | Sequence_number u32 | Session_time_offset u32 | Seqnum_n_timestamp SeqNumberAndTimestamp

fun detail_format :: "SampleInfoDetail \<Rightarrow> SampleInfoFormat" where
  "detail_format Empty_detail = FORMAT_EMPTY"
| "detail_format (Sequence_number _) = FORMAT_SEQNUM"
| "detail_format (Session_time_offset _) = FORMAT_TIMESTAMP"
| "detail_format (Seqnum_n_timestamp _) = FORMAT_SEQN_TIMS"

lemma data_format_inject: "data_format f = data_format g \<longleftrightarrow> f = g"
  by (cases f; cases g) simp_all

lemma sample_info_format_inject: "sample_info_format f = sample_info_format g \<longleftrightarrow> f = g"
  by (cases f; cases g) simp_all

subsection \<open>Properties\<close>

text \<open>Words of flags can be read back: whichever flags are combined with or, each test finds exactly those, for the
  creation of entities, the quality of service, agent information and samples. A format read through the mask, with
  any flag in the lowest bit, which the mask leaves out, is the format that was sent.\<close>

theorem wire_flags_round_trip:
  "(has_flag creation_mask (combine creation_mask cs) c \<longleftrightarrow> c \<in> set cs) \<and>
   (has_flag endpoint_qos_mask (combine endpoint_qos_mask qs) q \<longleftrightarrow> q \<in> set qs) \<and>
   (has_flag info_mask (combine info_mask is) i \<longleftrightarrow> i \<in> set is) \<and>
   (has_flag sample_info_mask (combine sample_info_mask ss) s \<longleftrightarrow> s \<in> set ss) \<and>
   (data_format f OR of_bool low) AND FORMAT_MASK = data_format f \<and>
   (sample_info_format (detail_format d) = sample_info_format (detail_format e) \<longleftrightarrow> detail_format d = detail_format e)"
  using creation.has_flag_combine endpoint_qos.has_flag_combine info.has_flag_combine sample_info.has_flag_combine
  by (cases f; cases low) (simp_all add: FORMAT_MASK_def sample_info_format_inject)

text \<open>The two headers agree on the object kinds, the kinds fit in the four bits an identifier leaves for them and can
  be told apart, and an operation has failed exactly if the highest bit of its status is set.\<close>

theorem wire_constants_agree:
  "filter (\<lambda>(n, c). n \<in> set (map fst uxr_object_ids)) dds_xrce_object_kinds = uxr_object_ids \<and>
   distinct (map snd dds_xrce_object_kinds) \<and> list_all (\<lambda>(n, c). c < 16) dds_xrce_object_kinds \<and>
   distinct (map snd uxr_status) \<and>
   list_all (\<lambda>(n, c). (c AND 0x80 \<noteq> 0) = (n \<notin> {''OK'', ''OK_MATCHED''})) uxr_status"
  by (simp add: uxr_object_ids_def dds_xrce_object_kinds_def uxr_status_def)

end
