(* ===== verification/Uxr_Locks.thy ===== *)
theory Uxr_Locks
  imports Prelude
begin

text \<open>
  The lock macros of \<^verbatim>\<open>uxr/client/profile/multithread/multithread.h\<close>. A macro expands to a sequence of
  lock and unlock operations on mutexes; in a build without the multithread profile, as this library is
  configured, it expands to nothing. \<open>uxr_lock\<close> and \<open>uxr_unlock\<close> wrap the mutex of the platform (a pthread
  mutex, a FreeRTOS semaphore): at most one thread holds it, and a lock waits for it to be free. The
  function that finds the mutex of a stream is not part of the repository and is the parameter \<open>mutex_of\<close>.
\<close>

subsection \<open>The macros\<close>

text \<open>The mutexes of a session and of the transport, by the field that holds them.\<close>

datatype mutex =
    Session_mutex
  | Transport_mutex
  | Output_best_effort u8
  | Output_reliable u8
  | Input_best_effort u8
  | Input_reliable u8

datatype lock_op = Lock mutex | Unlock mutex

text \<open>What the macros use of \<open>session->streams\<close>.\<close>

record stream_storage =
  input_best_effort_size :: u8
  input_reliable_size :: u8

definition UXR_LOCK :: "bool \<Rightarrow> mutex \<Rightarrow> lock_op list" where
  "UXR_LOCK multithread x = (if multithread then [Lock x] else [])"

definition UXR_UNLOCK :: "bool \<Rightarrow> mutex \<Rightarrow> lock_op list" where
  "UXR_UNLOCK multithread x = (if multithread then [Unlock x] else [])"

definition UXR_LOCK_SESSION :: "bool \<Rightarrow> lock_op list" where
  "UXR_LOCK_SESSION multithread = (if multithread then [Lock Session_mutex] else [])"

definition UXR_UNLOCK_SESSION :: "bool \<Rightarrow> lock_op list" where
  "UXR_UNLOCK_SESSION multithread = (if multithread then [Unlock Session_mutex] else [])"

definition UXR_LOCK_TRANSPORT :: "bool \<Rightarrow> lock_op list" where
  "UXR_LOCK_TRANSPORT multithread = (if multithread then [Lock Transport_mutex] else [])"

definition UXR_UNLOCK_TRANSPORT :: "bool \<Rightarrow> lock_op list" where
  "UXR_UNLOCK_TRANSPORT multithread = (if multithread then [Unlock Transport_mutex] else [])"

definition UXR_LOCK_STREAM_ID :: "bool \<Rightarrow> ('id \<Rightarrow> mutex option) \<Rightarrow> 'id \<Rightarrow> lock_op list" where
  "UXR_LOCK_STREAM_ID multithread mutex_of stream_id =
     (if multithread then (case mutex_of stream_id of None \<Rightarrow> [] | Some m \<Rightarrow> [Lock m]) else [])"

definition UXR_UNLOCK_STREAM_ID :: "bool \<Rightarrow> ('id \<Rightarrow> mutex option) \<Rightarrow> 'id \<Rightarrow> lock_op list" where
  "UXR_UNLOCK_STREAM_ID multithread mutex_of stream_id =
     (if multithread then (case mutex_of stream_id of None \<Rightarrow> [] | Some m \<Rightarrow> [Unlock m]) else [])"

lemma unat_next: "i < n \<Longrightarrow> unat (i + 1) = Suc (unat i)" for i n :: u8
proof -
  assume "i < n"
  moreover have "unat n < 256" using unsigned_less [of n, where ?'a = nat] by simp
  ultimately show ?thesis by (simp add: unat_word_ariths word_less_nat_alt)
qed

text \<open>The loops \<open>for (uint8_t i = 0; i < size; ++i)\<close>, from \<open>i\<close> on.\<close>

function index_loop :: "u8 \<Rightarrow> u8 \<Rightarrow> (u8 \<Rightarrow> lock_op) \<Rightarrow> lock_op list" where
  "index_loop i n body = (if i < n then body i # index_loop (i + 1) n body else [])"
  by auto
termination
proof (relation "measure (\<lambda>(i, n, body). unat n - unat i)")
  fix i n :: u8 and body :: "u8 \<Rightarrow> lock_op"
  assume "i < n"
  then have "unat (i + 1) = Suc (unat i)" "unat i < unat n" by (simp_all add: unat_next word_less_nat_alt)
  then show "((i + 1, n, body), i, n, body) \<in> measure (\<lambda>(i, n, body). unat n - unat i)" by simp
qed simp

declare index_loop.simps [simp del]

definition UXR_LOCK_ALL_INPUT_STREAMS :: "bool \<Rightarrow> stream_storage \<Rightarrow> lock_op list" where
  "UXR_LOCK_ALL_INPUT_STREAMS multithread streams =
     (if multithread
      then index_loop 0 (input_best_effort_size streams) (\<lambda>i. Lock (Input_best_effort i)) @
           index_loop 0 (input_reliable_size streams) (\<lambda>i. Lock (Input_reliable i))
      else [])"

definition UXR_UNLOCK_ALL_INPUT_STREAMS :: "bool \<Rightarrow> stream_storage \<Rightarrow> lock_op list" where
  "UXR_UNLOCK_ALL_INPUT_STREAMS multithread streams =
     (if multithread
      then index_loop 0 (input_best_effort_size streams) (\<lambda>i. Unlock (Input_best_effort i)) @
           index_loop 0 (input_reliable_size streams) (\<lambda>i. Unlock (Input_reliable i))
      else [])"

lemma index_loop_map:
  "index_loop i n body = map (\<lambda>k. body (of_nat k)) [unat i..<unat n]"
proof (induction i n body rule: index_loop.induct)
  case (1 i n body)
  show ?case
  proof (cases "i < n")
    case True
    then have "unat (i + 1) = Suc (unat i)" "unat i < unat n" by (simp_all add: unat_next word_less_nat_alt)
    with 1 True show ?thesis
      by (subst index_loop.simps) (simp add: upt_conv_Cons)
  next
    case False
    then show ?thesis by (subst index_loop.simps) (simp add: word_less_nat_alt)
  qed
qed

subsection \<open>Threads\<close>

text \<open>A state says who owns each mutex and what each thread still has to do.\<close>

type_synonym lock_state = "(mutex \<Rightarrow> nat option) \<times> lock_op list list"

inductive lock_step :: "lock_state \<Rightarrow> lock_state \<Rightarrow> bool" where
  acquire: "t < length ps \<Longrightarrow> ps ! t = Lock m # rest \<Longrightarrow> owner m = None \<Longrightarrow>
    lock_step (owner, ps) (owner(m \<mapsto> t), ps[t := rest])"
| release: "t < length ps \<Longrightarrow> ps ! t = Unlock m # rest \<Longrightarrow> owner m = Some t \<Longrightarrow>
    lock_step (owner, ps) (owner(m := None), ps[t := rest])"

inductive_cases lock_stepE: "lock_step s s'"

text \<open>The order in which the macros lock.\<close>

fun rank :: "mutex \<Rightarrow> nat" where
  "rank Session_mutex = 0"
| "rank Transport_mutex = 1"
| "rank (Output_best_effort i) = 256 + unat i"
| "rank (Output_reliable i) = 512 + unat i"
| "rank (Input_best_effort i) = 768 + unat i"
| "rank (Input_reliable i) = 1024 + unat i"

text \<open>A thread that holds \<open>H\<close> locks upwards, unlocks what it holds and ends with nothing.\<close>

fun orderly :: "mutex set \<Rightarrow> lock_op list \<Rightarrow> bool" where
  "orderly H [] \<longleftrightarrow> H = {}"
| "orderly H (Lock m # ops) \<longleftrightarrow> (\<forall>h \<in> H. rank h < rank m) \<and> orderly (insert m H) ops"
| "orderly H (Unlock m # ops) \<longleftrightarrow> m \<in> H \<and> orderly (H - {m}) ops"

definition owned :: "(mutex \<Rightarrow> nat option) \<Rightarrow> nat \<Rightarrow> mutex set" where
  "owned owner t = {m. owner m = Some t}"

fun lock_inv :: "lock_state \<Rightarrow> bool" where
  "lock_inv (owner, ps) \<longleftrightarrow>
     (\<forall>t < length ps. orderly (owned owner t) (ps ! t)) \<and> (\<forall>m t. owner m = Some t \<longrightarrow> t < length ps)"

lemma owned_acquire:
  "owner m = None \<Longrightarrow> owned (owner(m \<mapsto> t)) u = (if u = t then insert m (owned owner t) else owned owner u)"
  by (auto simp: owned_def)

lemma owned_release:
  "owner m = Some t \<Longrightarrow> owned (owner(m := None)) u = (if u = t then owned owner t - {m} else owned owner u)"
  by (auto simp: owned_def)

lemma lock_step_inv:
  assumes "lock_step s s'" "lock_inv s"
  shows "lock_inv s'"
  using assms(1)
proof cases
  case (acquire t ps m rest owner)
  with assms(2) have "orderly (owned owner t) (Lock m # rest)" by fastforce
  with acquire assms(2) show ?thesis by (auto simp: owned_acquire nth_list_update)
next
  case (release t ps m rest owner)
  with assms(2) have "orderly (owned owner t) (Unlock m # rest)" by fastforce
  with release assms(2) show ?thesis by (auto simp: owned_release nth_list_update split: if_splits)
qed

lemma lock_steps_inv: "lock_step\<^sup>*\<^sup>* s s' \<Longrightarrow> lock_inv s \<Longrightarrow> lock_inv s'"
  by (induction rule: rtranclp_induct) (auto dest: lock_step_inv)

text \<open>A step takes one operation off.\<close>

definition remaining :: "lock_op list list \<Rightarrow> nat" where
  "remaining ps = sum_list (map length ps)"

lemma remaining_update:
  "t < length ps \<Longrightarrow> ps ! t = op # rest \<Longrightarrow> remaining ps = Suc (remaining (ps[t := rest]))"
  by (induction ps arbitrary: t) (auto simp: remaining_def nth_Cons split: nat.splits)

lemma lock_step_remaining:
  "lock_step s s' \<Longrightarrow> remaining (snd s) = Suc (remaining (snd s')) \<and> length (snd s') = length (snd s)"
  by (cases rule: lock_step.cases) (auto dest: remaining_update)

lemma lock_steps_length: "lock_step\<^sup>*\<^sup>* s s' \<Longrightarrow> length (snd s') = length (snd s)"
  by (induction rule: rtranclp_induct) (auto dest: lock_step_remaining)

lemma lock_steps_bounded: "(lock_step ^^ k) s s' \<Longrightarrow> k \<le> remaining (snd s)"
proof (induction k arbitrary: s)
  case (Suc k)
  from Suc.prems obtain u where "lock_step s u" "(lock_step ^^ k) u s'" by (metis relpowp_Suc_D2)
  with Suc.IH [of u] lock_step_remaining [of s u] show ?case by simp
qed simp

text \<open>A thread waits when its next operation is a lock that another holds.\<close>

lemma no_step_waits:
  assumes "lock_inv (owner, ps)" "\<nexists>s'. lock_step (owner, ps) s'" "t < length ps" "ps ! t \<noteq> []"
  obtains m u where "hd (ps ! t) = Lock m" "m \<in> owned owner u" "u < length ps"
proof (cases "ps ! t")
  case (Cons op rest)
  show thesis
  proof (cases op)
    case (Unlock m)
    with Cons assms(1,3) have "owner m = Some t" by (auto simp: owned_def dest!: spec [of _ t])
    with assms(2,3) Cons Unlock show thesis using release by blast
  next
    case (Lock m)
    with assms(2,3) Cons obtain u where "owner m = Some u" using acquire by blast
    with assms(1) Cons Lock that [of m u] show thesis by (auto simp: owned_def)
  qed
qed (use assms(4) in simp)

lemma orderly_progress:
  assumes inv: "lock_inv (owner, ps)" and stuck: "\<nexists>s'. lock_step (owner, ps) s'"
  shows "\<forall>t < length ps. ps ! t = []"
proof (rule ccontr)
  define W where "W = {t. t < length ps \<and> ps ! t \<noteq> []}"
  define r where "r = (\<lambda>t. case hd (ps ! t) of Lock m \<Rightarrow> rank m | Unlock m \<Rightarrow> 0)"
  assume "\<not> (\<forall>t < length ps. ps ! t = [])"
  then have "finite W" "W \<noteq> {}" by (auto simp: W_def)
  then obtain t where t: "t \<in> W" and top: "\<forall>u \<in> W. r u \<le> r t"
    using Max_in [of "r ` W"] Max_ge [of "r ` W"] by (metis (no_types, lifting) empty_is_image finite_imageI imageE imageI)
  from t obtain m u where m: "hd (ps ! t) = Lock m" "m \<in> owned owner u" "u < length ps"
    using no_step_waits [OF inv stuck] by (auto simp: W_def)
  have "orderly (owned owner u) (ps ! u)" using inv m(3) by simp
  with m(2) have "ps ! u \<noteq> []" by (cases "ps ! u") auto
  then have u: "u \<in> W" using m(3) by (simp add: W_def)
  then obtain m' where m': "hd (ps ! u) = Lock m'" using no_step_waits [OF inv stuck] by (auto simp: W_def)
  with \<open>orderly (owned owner u) (ps ! u)\<close> \<open>ps ! u \<noteq> []\<close> m(2) have "rank m < rank m'"
    by (cases "ps ! u") auto
  with top u m(1) m' show False by (auto simp: r_def)
qed

subsection \<open>Sections\<close>

text \<open>What a thread does between locking and unlocking; a program is a sequence of such sections.\<close>

datatype 'id guarded = Guard_session | Guard_transport | Guard_mutex mutex | Guard_stream 'id | Guard_all_inputs

fun section_ops :: "bool \<Rightarrow> ('id \<Rightarrow> mutex option) \<Rightarrow> stream_storage \<Rightarrow> 'id guarded \<Rightarrow> lock_op list" where
  "section_ops mt mutex_of streams Guard_session = UXR_LOCK_SESSION mt @ UXR_UNLOCK_SESSION mt"
| "section_ops mt mutex_of streams Guard_transport = UXR_LOCK_TRANSPORT mt @ UXR_UNLOCK_TRANSPORT mt"
| "section_ops mt mutex_of streams (Guard_mutex m) = UXR_LOCK mt m @ UXR_UNLOCK mt m"
| "section_ops mt mutex_of streams (Guard_stream i) =
     UXR_LOCK_STREAM_ID mt mutex_of i @ UXR_UNLOCK_STREAM_ID mt mutex_of i"
| "section_ops mt mutex_of streams Guard_all_inputs =
     UXR_LOCK_ALL_INPUT_STREAMS mt streams @ UXR_UNLOCK_ALL_INPUT_STREAMS mt streams"

definition thread_ops ::
  "bool \<Rightarrow> ('id \<Rightarrow> mutex option) \<Rightarrow> stream_storage \<Rightarrow> 'id guarded list \<Rightarrow> lock_op list" where
  "thread_ops mt mutex_of streams secs = concat (map (section_ops mt mutex_of streams) secs)"

definition input_mutexes :: "stream_storage \<Rightarrow> mutex list" where
  "input_mutexes streams = map (\<lambda>k. Input_best_effort (of_nat k)) [0..<unat (input_best_effort_size streams)] @
     map (\<lambda>k. Input_reliable (of_nat k)) [0..<unat (input_reliable_size streams)]"

lemma all_inputs_eq:
  "UXR_LOCK_ALL_INPUT_STREAMS True streams = map Lock (input_mutexes streams)"
  "UXR_UNLOCK_ALL_INPUT_STREAMS True streams = map Unlock (input_mutexes streams)"
  by (simp_all add: UXR_LOCK_ALL_INPUT_STREAMS_def UXR_UNLOCK_ALL_INPUT_STREAMS_def index_loop_map input_mutexes_def o_def)

lemma rank_inputs:
  "map rank (input_mutexes streams) =
     map (\<lambda>k. 768 + k) [0..<unat (input_best_effort_size streams)] @
     map (\<lambda>k. 1024 + k) [0..<unat (input_reliable_size streams)]"
proof -
  have "unat (of_nat k :: u8) = k" if "k < unat n" for k and n :: u8
  proof -
    have "unat n < 256" using unsigned_less [of n, where ?'a = nat] by simp
    with that show ?thesis by (simp add: unat_of_nat)
  qed
  then show ?thesis by (simp add: input_mutexes_def o_def)
qed

lemma input_mutexes_increase: "sorted_wrt (\<lambda>a b. rank a < rank b) (input_mutexes streams)"
proof -
  have "unat (input_best_effort_size streams) < 256"
    using unsigned_less [of "input_best_effort_size streams", where ?'a = nat] by simp
  then have "sorted_wrt (<) (map rank (input_mutexes streams))"
    by (auto simp: rank_inputs sorted_wrt_append sorted_wrt_map)
  then show ?thesis by (simp add: sorted_wrt_map)
qed

lemma increasing_distinct: "sorted_wrt (\<lambda>a b. rank a < rank b) ms \<Longrightarrow> distinct ms"
  by (induction ms) auto

lemma orderly_unlocked: "orderly H (map Unlock ms @ ops) \<Longrightarrow> set ms \<subseteq> H"
  by (induction ms arbitrary: H) auto

lemma orderly_unlocks: "distinct ms \<Longrightarrow> orderly (set ms) (map Unlock ms @ ops) = orderly {} ops"
  by (induction ms) (simp_all add: insert_absorb Diff_insert_absorb)

lemma orderly_locks:
  "sorted_wrt (\<lambda>a b. rank a < rank b) ms \<Longrightarrow> \<forall>h \<in> H. \<forall>m \<in> set ms. rank h < rank m \<Longrightarrow>
   orderly H (map Lock ms @ ops) = orderly (H \<union> set ms) ops"
  by (induction ms arbitrary: H) (auto simp: Un_insert_left)

lemma orderly_section: "orderly {} (section_ops mt mutex_of streams g @ ops) = orderly {} ops"
proof (cases mt)
  case True
  have d: "distinct (input_mutexes streams)"
    by (rule increasing_distinct [OF input_mutexes_increase])
  with True show ?thesis
    by (cases g)
      (simp_all add: UXR_LOCK_SESSION_def UXR_UNLOCK_SESSION_def UXR_LOCK_TRANSPORT_def UXR_UNLOCK_TRANSPORT_def
        UXR_LOCK_def UXR_UNLOCK_def UXR_LOCK_STREAM_ID_def UXR_UNLOCK_STREAM_ID_def all_inputs_eq orderly_locks
        input_mutexes_increase orderly_unlocks split: option.splits)
next
  case False
  then show ?thesis
    by (cases g)
      (simp_all add: UXR_LOCK_SESSION_def UXR_UNLOCK_SESSION_def UXR_LOCK_TRANSPORT_def UXR_UNLOCK_TRANSPORT_def
        UXR_LOCK_def UXR_UNLOCK_def UXR_LOCK_STREAM_ID_def UXR_UNLOCK_STREAM_ID_def
        UXR_LOCK_ALL_INPUT_STREAMS_def UXR_UNLOCK_ALL_INPUT_STREAMS_def)
qed

lemma orderly_thread: "orderly {} (thread_ops mt mutex_of streams secs)"
  by (induction secs) (simp_all add: thread_ops_def orderly_section)

definition lock_start ::
  "bool \<Rightarrow> ('id \<Rightarrow> mutex option) \<Rightarrow> stream_storage \<Rightarrow> 'id guarded list list \<Rightarrow> lock_state" where
  "lock_start mt mutex_of streams threads = ((\<lambda>m. None), map (thread_ops mt mutex_of streams) threads)"

lemma lock_start_inv: "lock_inv (lock_start mt mutex_of streams threads)"
  by (simp add: lock_start_def owned_def orderly_thread)

subsection \<open>Properties\<close>

lemma stuck_is_finished:
  assumes "lock_inv (owner, ps)" "\<nexists>s'. lock_step (owner, ps) s'"
  shows "(owner, ps) = ((\<lambda>m. None), replicate (length ps) [])"
proof -
  from orderly_progress [OF assms] have fin: "\<forall>t < length ps. ps ! t = []" .
  have "owner m = None" for m
  proof (cases "owner m")
    case (Some u)
    with assms(1) fin have "owned owner u = {}" by fastforce
    with Some show ?thesis by (auto simp: owned_def)
  qed
  then have "owner = (\<lambda>m. None)" by (rule ext)
  moreover from fin have "ps = replicate (length ps) []" by (intro nth_equalityI) simp_all
  ultimately show ?thesis by (simp only: prod.inject simp_thms)
qed

lemma run_to_end: "lock_inv (owner, ps) \<Longrightarrow> lock_step\<^sup>*\<^sup>* (owner, ps) ((\<lambda>m. None), replicate (length ps) [])"
proof (induction "remaining ps" arbitrary: owner ps rule: less_induct)
  case less
  show ?case
  proof (cases "\<exists>s'. lock_step (owner, ps) s'")
    case False
    with stuck_is_finished [OF less.prems] show ?thesis by auto
  next
    case True
    then obtain owner' ps' where s: "lock_step (owner, ps) (owner', ps')" by fastforce
    from lock_step_remaining [OF s] less.hyps [OF _ lock_step_inv [OF s less.prems]]
    have "lock_step\<^sup>*\<^sup>* (owner', ps') ((\<lambda>m. None), replicate (length ps) [])" by simp
    with s show ?thesis by (rule converse_rtranclp_into_rtranclp)
  qed
qed

subsection \<open>Properties\<close>


definition two_streams :: stream_storage where
  "two_streams = \<lparr>input_best_effort_size = 1, input_reliable_size = 1\<rparr>"


text \<open>C39. While one thread has all input streams locked, no other has: only one thread at a time is between
  \<open>UXR_LOCK_ALL_INPUT_STREAMS\<close> and \<open>UXR_UNLOCK_ALL_INPUT_STREAMS\<close>, and it owns the mutex of every input stream.\<close>

theorem all_input_streams_exclusive:
  assumes "lock_step\<^sup>*\<^sup>* (lock_start True mutex_of streams threads) (owner, ps)" "t < length ps" "u < length ps" "t \<noteq> u"
    "ps ! t = UXR_UNLOCK_ALL_INPUT_STREAMS True streams @ rest" "m \<in> set (input_mutexes streams)"
  shows "owner m = Some t \<and> ps ! u \<noteq> UXR_UNLOCK_ALL_INPUT_STREAMS True streams @ rest'"
proof -
  have "lock_inv (owner, ps)" using lock_steps_inv [OF assms(1) lock_start_inv] .
  then have "m \<in> owned owner v" if "v < length ps" "ps ! v = UXR_UNLOCK_ALL_INPUT_STREAMS True streams @ ops" for v ops
  proof -
    have "orderly (owned owner v) (map Unlock (input_mutexes streams) @ ops)"
      using \<open>lock_inv (owner, ps)\<close> that by (metis all_inputs_eq(2) lock_inv.simps)
    from orderly_unlocked [OF this] assms(6) show ?thesis by blast
  qed
  from this [OF assms(2,5)] this [of u rest'] assms(3,4) show ?thesis by (auto simp: owned_def)
qed

theorem all_input_streams_exclusive_witness:
  "\<exists>owner ps. lock_step\<^sup>*\<^sup>* (lock_start True (\<lambda>i :: nat. None) two_streams [[Guard_all_inputs], [Guard_all_inputs]]) (owner, ps) \<and>
     owner (Input_reliable 0) = Some 0 \<and> ps ! 1 \<noteq> UXR_UNLOCK_ALL_INPUT_STREAMS True two_streams @ []"
proof -
  let ?U = "[Unlock (Input_best_effort 0), Unlock (Input_reliable 0)]"
  let ?L = "[Lock (Input_best_effort 0), Lock (Input_reliable 0)]"
  let ?o1 = "(\<lambda>m. None)(Input_best_effort 0 \<mapsto> 0)"
  have inputs: "input_mutexes two_streams = [Input_best_effort 0, Input_reliable 0]"
    by (simp add: input_mutexes_def two_streams_def)
  have start: "lock_start True (\<lambda>i :: nat. None) two_streams [[Guard_all_inputs], [Guard_all_inputs]] =
      ((\<lambda>m. None), [?L @ ?U, ?L @ ?U])"
    by (simp add: lock_start_def thread_ops_def all_inputs_eq inputs)
  have "lock_step ((\<lambda>m. None), [?L @ ?U, ?L @ ?U]) (?o1, [tl ?L @ ?U, ?L @ ?U])"
    using acquire [of 0 "[?L @ ?U, ?L @ ?U]"] by simp
  moreover have "lock_step (?o1, [tl ?L @ ?U, ?L @ ?U]) (?o1(Input_reliable 0 \<mapsto> 0), [?U, ?L @ ?U])"
    using acquire [of 0 "[tl ?L @ ?U, ?L @ ?U]" "Input_reliable 0" ?U ?o1] by simp
  ultimately have r: "lock_step\<^sup>*\<^sup>* (lock_start True (\<lambda>i :: nat. None) two_streams [[Guard_all_inputs], [Guard_all_inputs]])
      (?o1(Input_reliable 0 \<mapsto> 0), [?U, ?L @ ?U])"
    unfolding start by (rule converse_rtranclp_into_rtranclp [OF _ r_into_rtranclp])
  have "(?o1(Input_reliable 0 \<mapsto> 0)) (Input_reliable 0) = Some (0 :: nat) \<and>
      [?U, ?L @ ?U] ! 1 \<noteq> UXR_UNLOCK_ALL_INPUT_STREAMS True two_streams @ []"
    by (rule all_input_streams_exclusive [OF r, where t = 0 and u = 1 and rest = "[]" and rest' = "[]"])
      (simp_all add: all_inputs_eq inputs)
  with r show ?thesis by blast
qed

end
