(* ===== verification/Typesupport_Symbols.thy ===== *)
theory Typesupport_Symbols
  imports Prelude
begin

text \<open>
  How a program finds the type support of an interface. The macros of
  \<^verbatim>\<open>rosidl_typesupport_interface/macros.h\<close> paste the names of the type support, the function, the package,
  the kind of interface and the interface together, with two underscores in between; the
  \<^verbatim>\<open>ROSIDL_GET_..._TYPE_SUPPORT\<close> macros of \<^verbatim>\<open>rosidl_runtime_c\<close> call the function of that name. The functions
  are in the precompiled archive: a program is a map from symbols to what its functions return. Names are
  taken as they are written, that is, none of them is itself a macro.
\<close>

subsection \<open>The macros\<close>

definition ROSIDL_TYPESUPPORT_INTERFACE__LIBRARY_NAME :: "string \<Rightarrow> string \<Rightarrow> string" where
  "ROSIDL_TYPESUPPORT_INTERFACE__LIBRARY_NAME typesupport_name package_name =
     package_name @ ''__'' @ typesupport_name"

definition ROSIDL_TYPESUPPORT_INTERFACE__SYMBOL_NAME ::
  "string \<Rightarrow> string \<Rightarrow> string \<Rightarrow> string \<Rightarrow> string \<Rightarrow> string" where
  "ROSIDL_TYPESUPPORT_INTERFACE__SYMBOL_NAME typesupport_name function_name package_name interface_type interface_name =
     typesupport_name @ ''__'' @ function_name @ ''__'' @ package_name @ ''__'' @ interface_type @ ''__'' @ interface_name"

definition ROSIDL_TYPESUPPORT_INTERFACE__MESSAGE_SYMBOL_NAME ::
  "string \<Rightarrow> string \<Rightarrow> string \<Rightarrow> string \<Rightarrow> string" where
  "ROSIDL_TYPESUPPORT_INTERFACE__MESSAGE_SYMBOL_NAME typesupport_name package_name interface_type message_name =
     ROSIDL_TYPESUPPORT_INTERFACE__SYMBOL_NAME typesupport_name ''get_message_type_support_handle''
       package_name interface_type message_name"

definition ROSIDL_TYPESUPPORT_INTERFACE__SERVICE_SYMBOL_NAME ::
  "string \<Rightarrow> string \<Rightarrow> string \<Rightarrow> string \<Rightarrow> string" where
  "ROSIDL_TYPESUPPORT_INTERFACE__SERVICE_SYMBOL_NAME typesupport_name package_name interface_type service_name =
     ROSIDL_TYPESUPPORT_INTERFACE__SYMBOL_NAME typesupport_name ''get_service_type_support_handle''
       package_name interface_type service_name"

definition ROSIDL_TYPESUPPORT_INTERFACE__ACTION_SYMBOL_NAME ::
  "string \<Rightarrow> string \<Rightarrow> string \<Rightarrow> string \<Rightarrow> string" where
  "ROSIDL_TYPESUPPORT_INTERFACE__ACTION_SYMBOL_NAME typesupport_name package_name interface_type action_name =
     ROSIDL_TYPESUPPORT_INTERFACE__SYMBOL_NAME typesupport_name ''get_action_type_support_handle''
       package_name interface_type action_name"

definition ROSIDL_TYPESUPPORT_INTERFACE__SERVICE_CREATE_EVENT_MESSAGE_SYMBOL_NAME ::
  "string \<Rightarrow> string \<Rightarrow> string \<Rightarrow> string \<Rightarrow> string" where
  "ROSIDL_TYPESUPPORT_INTERFACE__SERVICE_CREATE_EVENT_MESSAGE_SYMBOL_NAME typesupport_name package_name interface_type
     service_name =
     ROSIDL_TYPESUPPORT_INTERFACE__SYMBOL_NAME typesupport_name ''create_service_event_message''
       package_name interface_type service_name"

definition ROSIDL_TYPESUPPORT_INTERFACE__SERVICE_DESTROY_EVENT_MESSAGE_SYMBOL_NAME ::
  "string \<Rightarrow> string \<Rightarrow> string \<Rightarrow> string \<Rightarrow> string" where
  "ROSIDL_TYPESUPPORT_INTERFACE__SERVICE_DESTROY_EVENT_MESSAGE_SYMBOL_NAME typesupport_name package_name interface_type
     service_name =
     ROSIDL_TYPESUPPORT_INTERFACE__SYMBOL_NAME typesupport_name ''destroy_service_event_message''
       package_name interface_type service_name"

text \<open>The calls; \<open>None\<close> is a program that does not link.\<close>

definition ROSIDL_GET_MSG_TYPE_SUPPORT :: "(string \<rightharpoonup> 'h) \<Rightarrow> string \<Rightarrow> string \<Rightarrow> string \<Rightarrow> 'h option" where
  "ROSIDL_GET_MSG_TYPE_SUPPORT program PkgName MsgSubfolder MsgName =
     program (ROSIDL_TYPESUPPORT_INTERFACE__MESSAGE_SYMBOL_NAME ''rosidl_typesupport_c'' PkgName MsgSubfolder MsgName)"

definition ROSIDL_GET_SRV_TYPE_SUPPORT :: "(string \<rightharpoonup> 'h) \<Rightarrow> string \<Rightarrow> string \<Rightarrow> string \<Rightarrow> 'h option" where
  "ROSIDL_GET_SRV_TYPE_SUPPORT program PkgName SrvSubfolder SrvName =
     program (ROSIDL_TYPESUPPORT_INTERFACE__SERVICE_SYMBOL_NAME ''rosidl_typesupport_c'' PkgName SrvSubfolder SrvName)"

definition ROSIDL_GET_ACTION_TYPE_SUPPORT :: "(string \<rightharpoonup> 'h) \<Rightarrow> string \<Rightarrow> string \<Rightarrow> 'h option" where
  "ROSIDL_GET_ACTION_TYPE_SUPPORT program PkgName Name =
     program (ROSIDL_TYPESUPPORT_INTERFACE__ACTION_SYMBOL_NAME ''rosidl_typesupport_c'' PkgName ''action'' Name)"

subsection \<open>Interfaces and their symbols\<close>

text \<open>What a type support generator exports: a handle for a message, a service or an action, and the two functions
  that make and delete the event message of a service. The fields are package, subfolder and name.\<close>

datatype exported =
    Message string string string
  | Service string string string
  | Action string string
  | Create_event string string string
  | Destroy_event string string string

fun exported_symbol :: "string \<Rightarrow> exported \<Rightarrow> string" where
  "exported_symbol ts (Message p t n) = ROSIDL_TYPESUPPORT_INTERFACE__MESSAGE_SYMBOL_NAME ts p t n"
| "exported_symbol ts (Service p t n) = ROSIDL_TYPESUPPORT_INTERFACE__SERVICE_SYMBOL_NAME ts p t n"
| "exported_symbol ts (Action p n) = ROSIDL_TYPESUPPORT_INTERFACE__ACTION_SYMBOL_NAME ts p ''action'' n"
| "exported_symbol ts (Create_event p t n) =
     ROSIDL_TYPESUPPORT_INTERFACE__SERVICE_CREATE_EVENT_MESSAGE_SYMBOL_NAME ts p t n"
| "exported_symbol ts (Destroy_event p t n) =
     ROSIDL_TYPESUPPORT_INTERFACE__SERVICE_DESTROY_EVENT_MESSAGE_SYMBOL_NAME ts p t n"

text \<open>The rule for package names and subfolders that pasting relies on: no two underscores in a row and none at the
  end. The name of the interface comes last and is not restricted.\<close>

fun well_named :: "string \<Rightarrow> bool" where
  "well_named [] \<longleftrightarrow> True"
| "well_named [c] \<longleftrightarrow> c \<noteq> CHR ''_''"
| "well_named (a # b # s) \<longleftrightarrow> \<not> (a = CHR ''_'' \<and> b = CHR ''_'') \<and> well_named (b # s)"

fun well_named_exported :: "exported \<Rightarrow> bool" where
  "well_named_exported (Message p t n) \<longleftrightarrow> well_named p \<and> well_named t"
| "well_named_exported (Service p t n) \<longleftrightarrow> well_named p \<and> well_named t"
| "well_named_exported (Action p n) \<longleftrightarrow> well_named p"
| "well_named_exported (Create_event p t n) \<longleftrightarrow> well_named p \<and> well_named t"
| "well_named_exported (Destroy_event p t n) \<longleftrightarrow> well_named p \<and> well_named t"

text \<open>A program that is linked with type support generated for \<open>objs\<close>.\<close>

definition linked :: "string \<Rightarrow> (exported \<times> 'h) list \<Rightarrow> string \<rightharpoonup> 'h" where
  "linked ts objs = map_of (map (\<lambda>(e, h). (exported_symbol ts e, h)) objs)"

subsection \<open>Reading a symbol\<close>

text \<open>The text before and after the first two underscores.\<close>

fun cut :: "string \<Rightarrow> (string \<times> string) option" where
  "cut (a # b # s) =
     (if a = CHR ''_'' \<and> b = CHR ''_'' then Some ([], s) else map_option (apfst (Cons a)) (cut (b # s)))"
| "cut _ = None"

lemma cut_joined: "well_named p \<Longrightarrow> cut (p @ ''__'' @ s) = Some (p, s)"
  by (induction p rule: well_named.induct) auto

definition read_symbol :: "string \<Rightarrow> (string \<times> exported) option" where
  "read_symbol s =
     Option.bind (cut s) (\<lambda>(ts, s1). Option.bind (cut s1) (\<lambda>(f, s2).
     Option.bind (cut s2) (\<lambda>(p, s3). Option.bind (cut s3) (\<lambda>(t, n).
       if f = ''get_message_type_support_handle'' then Some (ts, Message p t n)
       else if f = ''get_service_type_support_handle'' then Some (ts, Service p t n)
       else if f = ''get_action_type_support_handle'' \<and> t = ''action'' then Some (ts, Action p n)
       else if f = ''create_service_event_message'' then Some (ts, Create_event p t n)
       else if f = ''destroy_service_event_message'' then Some (ts, Destroy_event p t n)
       else None))))"

lemma read_symbol_name:
  assumes "well_named ts" "well_named f" "well_named p" "well_named t"
  shows "read_symbol (ROSIDL_TYPESUPPORT_INTERFACE__SYMBOL_NAME ts f p t n) =
    (if f = ''get_message_type_support_handle'' then Some (ts, Message p t n)
     else if f = ''get_service_type_support_handle'' then Some (ts, Service p t n)
     else if f = ''get_action_type_support_handle'' \<and> t = ''action'' then Some (ts, Action p n)
     else if f = ''create_service_event_message'' then Some (ts, Create_event p t n)
     else if f = ''destroy_service_event_message'' then Some (ts, Destroy_event p t n)
     else None)"
  unfolding read_symbol_def ROSIDL_TYPESUPPORT_INTERFACE__SYMBOL_NAME_def
  by (simp only: assms cut_joined Option.bind.simps prod.case)

lemma functions_well_named:
  "well_named ''get_message_type_support_handle''" "well_named ''get_service_type_support_handle''"
  "well_named ''get_action_type_support_handle''" "well_named ''create_service_event_message''"
  "well_named ''destroy_service_event_message''" "well_named ''action''" "well_named ''rosidl_typesupport_c''"
  by simp_all

lemmas symbol_name_defs =
  ROSIDL_TYPESUPPORT_INTERFACE__MESSAGE_SYMBOL_NAME_def ROSIDL_TYPESUPPORT_INTERFACE__SERVICE_SYMBOL_NAME_def
  ROSIDL_TYPESUPPORT_INTERFACE__ACTION_SYMBOL_NAME_def
  ROSIDL_TYPESUPPORT_INTERFACE__SERVICE_CREATE_EVENT_MESSAGE_SYMBOL_NAME_def
  ROSIDL_TYPESUPPORT_INTERFACE__SERVICE_DESTROY_EVENT_MESSAGE_SYMBOL_NAME_def

lemma read_exported_symbol:
  "well_named ts \<Longrightarrow> well_named_exported e \<Longrightarrow> read_symbol (exported_symbol ts e) = Some (ts, e)"
  by (cases e) (simp_all add: symbol_name_defs read_symbol_name functions_well_named del: well_named.simps)

lemma exported_symbol_inject:
  assumes "well_named ts" "well_named ts'" "well_named_exported e" "well_named_exported e'"
  shows "exported_symbol ts e = exported_symbol ts' e' \<longleftrightarrow> ts = ts' \<and> e = e'"
  by (metis assms read_exported_symbol option.inject prod.inject)

lemma library_name_inject:
  assumes "well_named p" "well_named p'"
  shows "ROSIDL_TYPESUPPORT_INTERFACE__LIBRARY_NAME ts p = ROSIDL_TYPESUPPORT_INTERFACE__LIBRARY_NAME ts' p' \<longleftrightarrow>
    ts = ts' \<and> p = p'"
  unfolding ROSIDL_TYPESUPPORT_INTERFACE__LIBRARY_NAME_def
  by (metis assms cut_joined option.inject prod.inject)

text \<open>Without the rule two interfaces can have one symbol.\<close>

lemma badly_named_collision:
  "exported_symbol ts (Message ''a'' ''b__c'' ''D'') = exported_symbol ts (Message ''a__b'' ''c'' ''D'')"
  by (simp add: symbol_name_defs ROSIDL_TYPESUPPORT_INTERFACE__SYMBOL_NAME_def)

lemma linked_symbol:
  assumes "well_named ts" "well_named_exported e" "list_all (well_named_exported \<circ> fst) objs"
  shows "linked ts objs (exported_symbol ts e) = map_of objs e"
  using assms(3)
proof (induction objs)
  case (Cons o1 objs)
  then show ?case using exported_symbol_inject [OF assms(1,1) _ assms(2), of "fst o1"]
    by (auto simp: linked_def split: prod.splits)
qed (simp add: linked_def)

lemma linked_other_vendor:
  assumes "well_named ts" "well_named ts'" "ts \<noteq> ts'" "well_named_exported e"
    "list_all (well_named_exported \<circ> fst) objs"
  shows "linked ts objs (exported_symbol ts' e) = None"
  using assms(5)
proof (induction objs)
  case (Cons o1 objs)
  then show ?case using exported_symbol_inject [OF assms(1,2) _ assms(4), of "fst o1"] assms(3)
    by (auto simp: linked_def split: prod.splits)
qed (simp add: linked_def)

lemma linked_vendors:
  assumes "list_all (well_named_exported \<circ> fst) objs" "list_all (well_named_exported \<circ> fst) others"
    and "well_named ts" "well_named ts'" "ts \<noteq> ts'" "well_named_exported e"
  shows "(linked ts others ++ linked ts' objs) (exported_symbol ts' e) = map_of objs e"
  using linked_symbol [OF assms(4,6,1)] linked_other_vendor [OF assms(3,4,5,6,2)]
  by (simp add: map_add_def split: option.splits)

text \<open>The type support of two messages, a service with its event functions and an action.\<close>

definition example_objects :: "(exported \<times> nat) list" where
  "example_objects =
     [(Message ''std_msgs'' ''msg'' ''Int32'', 1), (Message ''std_msgs'' ''msg'' ''Float32'', 2),
      (Service ''example_interfaces'' ''srv'' ''AddTwoInts'', 3), (Create_event ''example_interfaces'' ''srv'' ''AddTwoInts'', 4),
      (Destroy_event ''example_interfaces'' ''srv'' ''AddTwoInts'', 5), (Action ''example_interfaces'' ''Fibonacci'', 6)]"

subsection \<open>Properties\<close>

text \<open>C25. A program gets the type support of the very interface it asks for. Let it be linked with type support
  for any interfaces whose package and subfolder names have no two underscores in a row and none at the end: the
  three macros return what was generated for the message, the service or the action of that package, subfolder
  and name, and find no symbol when nothing was; type support of another vendor linked into the same program is
  never taken for it.\<close>

theorem type_support_of_the_interface:
  assumes "list_all (well_named_exported \<circ> fst) objs" "list_all (well_named_exported \<circ> fst) others"
    and "well_named ts" "ts \<noteq> ''rosidl_typesupport_c''" "well_named pkg" "well_named sub"
  shows "ROSIDL_GET_MSG_TYPE_SUPPORT (linked ts others ++ linked ''rosidl_typesupport_c'' objs) pkg sub name =
      map_of objs (Message pkg sub name) \<and>
    ROSIDL_GET_SRV_TYPE_SUPPORT (linked ts others ++ linked ''rosidl_typesupport_c'' objs) pkg sub name =
      map_of objs (Service pkg sub name) \<and>
    ROSIDL_GET_ACTION_TYPE_SUPPORT (linked ts others ++ linked ''rosidl_typesupport_c'' objs) pkg name =
      map_of objs (Action pkg name)"
  using linked_vendors [OF assms(1-3) functions_well_named(7) assms(4), of "Message pkg sub name"]
    linked_vendors [OF assms(1-3) functions_well_named(7) assms(4), of "Service pkg sub name"]
    linked_vendors [OF assms(1-3) functions_well_named(7) assms(4), of "Action pkg name"] assms(5,6)
  by (simp add: ROSIDL_GET_MSG_TYPE_SUPPORT_def ROSIDL_GET_SRV_TYPE_SUPPORT_def ROSIDL_GET_ACTION_TYPE_SUPPORT_def)

theorem type_support_of_the_interface_witness:
  "ROSIDL_GET_MSG_TYPE_SUPPORT (linked ''rosidl_typesupport_cpp'' [(Message ''std_msgs'' ''msg'' ''Int64'', 7)] ++
       linked ''rosidl_typesupport_c'' example_objects) ''std_msgs'' ''msg'' ''Int32'' = Some 1 \<and>
   ROSIDL_GET_MSG_TYPE_SUPPORT (linked ''rosidl_typesupport_cpp'' [(Message ''std_msgs'' ''msg'' ''Int64'', 7)] ++
       linked ''rosidl_typesupport_c'' example_objects) ''std_msgs'' ''msg'' ''Int64'' = None \<and>
   ROSIDL_GET_SRV_TYPE_SUPPORT (linked ''rosidl_typesupport_cpp'' [(Message ''std_msgs'' ''msg'' ''Int64'', 7)] ++
       linked ''rosidl_typesupport_c'' example_objects) ''example_interfaces'' ''srv'' ''AddTwoInts'' = Some 3"
  using type_support_of_the_interface [of example_objects "[(Message ''std_msgs'' ''msg'' ''Int64'', 7)]"
      "''rosidl_typesupport_cpp''" "''std_msgs''" "''msg''" "''Int32''"]
    type_support_of_the_interface [of example_objects "[(Message ''std_msgs'' ''msg'' ''Int64'', 7)]"
      "''rosidl_typesupport_cpp''" "''std_msgs''" "''msg''" "''Int64''"]
    type_support_of_the_interface [of example_objects "[(Message ''std_msgs'' ''msg'' ''Int64'', 7)]"
      "''rosidl_typesupport_cpp''" "''example_interfaces''" "''srv''" "''AddTwoInts''"]
  by (simp add: example_objects_def)

end
