(* ===== verification/Field_Types.thy ===== *)
theory Field_Types
  imports Prelude
begin

text \<open>
  The identifiers of message field types: two headers that both spell out the 89 constants of
  \<^verbatim>\<open>FieldType.msg\<close> (\<^verbatim>\<open>rosidl_runtime_c/type_description/field_type__struct.h\<close> and
  \<^verbatim>\<open>type_description_interfaces/msg/detail/field_type__struct.h\<close>), and the macros with which
  \<^verbatim>\<open>rosidl_dynamic_typesupport/types.h\<close> renames them. The tables are compared with a structured
  type of field types and the layout of the 0-255 range their comments document.
\<close>

subsection \<open>The constants of the runtime header\<close>

text \<open>\<^verbatim>\<open>rosidl_runtime_c/type_description/field_type__struct.h\<close>, one table per block of the header: the name after the prefix of the message and the value.\<close>

definition runtime_numbers :: "(string \<times> nat) list" where
  "runtime_numbers = [(''FIELD_TYPE_NOT_SET'', 0),
     (''FIELD_TYPE_NESTED_TYPE'', 1),
     (''FIELD_TYPE_INT8'', 2),
     (''FIELD_TYPE_UINT8'', 3),
     (''FIELD_TYPE_INT16'', 4),
     (''FIELD_TYPE_UINT16'', 5),
     (''FIELD_TYPE_INT32'', 6),
     (''FIELD_TYPE_UINT32'', 7),
     (''FIELD_TYPE_INT64'', 8),
     (''FIELD_TYPE_UINT64'', 9),
     (''FIELD_TYPE_FLOAT'', 10),
     (''FIELD_TYPE_DOUBLE'', 11),
     (''FIELD_TYPE_LONG_DOUBLE'', 12)]"

definition runtime_texts :: "(string \<times> nat) list" where
  "runtime_texts = [(''FIELD_TYPE_CHAR'', 13),
     (''FIELD_TYPE_WCHAR'', 14),
     (''FIELD_TYPE_BOOLEAN'', 15),
     (''FIELD_TYPE_BYTE'', 16),
     (''FIELD_TYPE_STRING'', 17),
     (''FIELD_TYPE_WSTRING'', 18),
     (''FIELD_TYPE_FIXED_STRING'', 19),
     (''FIELD_TYPE_FIXED_WSTRING'', 20),
     (''FIELD_TYPE_BOUNDED_STRING'', 21),
     (''FIELD_TYPE_BOUNDED_WSTRING'', 22)]"

definition runtime_arrays :: "(string \<times> nat) list" where
  "runtime_arrays = [(''FIELD_TYPE_NESTED_TYPE_ARRAY'', 49),
     (''FIELD_TYPE_INT8_ARRAY'', 50),
     (''FIELD_TYPE_UINT8_ARRAY'', 51),
     (''FIELD_TYPE_INT16_ARRAY'', 52),
     (''FIELD_TYPE_UINT16_ARRAY'', 53),
     (''FIELD_TYPE_INT32_ARRAY'', 54),
     (''FIELD_TYPE_UINT32_ARRAY'', 55),
     (''FIELD_TYPE_INT64_ARRAY'', 56),
     (''FIELD_TYPE_UINT64_ARRAY'', 57),
     (''FIELD_TYPE_FLOAT_ARRAY'', 58),
     (''FIELD_TYPE_DOUBLE_ARRAY'', 59),
     (''FIELD_TYPE_LONG_DOUBLE_ARRAY'', 60),
     (''FIELD_TYPE_CHAR_ARRAY'', 61),
     (''FIELD_TYPE_WCHAR_ARRAY'', 62),
     (''FIELD_TYPE_BOOLEAN_ARRAY'', 63),
     (''FIELD_TYPE_BYTE_ARRAY'', 64),
     (''FIELD_TYPE_STRING_ARRAY'', 65),
     (''FIELD_TYPE_WSTRING_ARRAY'', 66),
     (''FIELD_TYPE_FIXED_STRING_ARRAY'', 67),
     (''FIELD_TYPE_FIXED_WSTRING_ARRAY'', 68),
     (''FIELD_TYPE_BOUNDED_STRING_ARRAY'', 69),
     (''FIELD_TYPE_BOUNDED_WSTRING_ARRAY'', 70)]"

definition runtime_bounded_sequences :: "(string \<times> nat) list" where
  "runtime_bounded_sequences = [(''FIELD_TYPE_NESTED_TYPE_BOUNDED_SEQUENCE'', 97),
     (''FIELD_TYPE_INT8_BOUNDED_SEQUENCE'', 98),
     (''FIELD_TYPE_UINT8_BOUNDED_SEQUENCE'', 99),
     (''FIELD_TYPE_INT16_BOUNDED_SEQUENCE'', 100),
     (''FIELD_TYPE_UINT16_BOUNDED_SEQUENCE'', 101),
     (''FIELD_TYPE_INT32_BOUNDED_SEQUENCE'', 102),
     (''FIELD_TYPE_UINT32_BOUNDED_SEQUENCE'', 103),
     (''FIELD_TYPE_INT64_BOUNDED_SEQUENCE'', 104),
     (''FIELD_TYPE_UINT64_BOUNDED_SEQUENCE'', 105),
     (''FIELD_TYPE_FLOAT_BOUNDED_SEQUENCE'', 106),
     (''FIELD_TYPE_DOUBLE_BOUNDED_SEQUENCE'', 107),
     (''FIELD_TYPE_LONG_DOUBLE_BOUNDED_SEQUENCE'', 108),
     (''FIELD_TYPE_CHAR_BOUNDED_SEQUENCE'', 109),
     (''FIELD_TYPE_WCHAR_BOUNDED_SEQUENCE'', 110),
     (''FIELD_TYPE_BOOLEAN_BOUNDED_SEQUENCE'', 111),
     (''FIELD_TYPE_BYTE_BOUNDED_SEQUENCE'', 112),
     (''FIELD_TYPE_STRING_BOUNDED_SEQUENCE'', 113),
     (''FIELD_TYPE_WSTRING_BOUNDED_SEQUENCE'', 114),
     (''FIELD_TYPE_FIXED_STRING_BOUNDED_SEQUENCE'', 115),
     (''FIELD_TYPE_FIXED_WSTRING_BOUNDED_SEQUENCE'', 116),
     (''FIELD_TYPE_BOUNDED_STRING_BOUNDED_SEQUENCE'', 117),
     (''FIELD_TYPE_BOUNDED_WSTRING_BOUNDED_SEQUENCE'', 118)]"

definition runtime_unbounded_sequences :: "(string \<times> nat) list" where
  "runtime_unbounded_sequences = [(''FIELD_TYPE_NESTED_TYPE_UNBOUNDED_SEQUENCE'', 145),
     (''FIELD_TYPE_INT8_UNBOUNDED_SEQUENCE'', 146),
     (''FIELD_TYPE_UINT8_UNBOUNDED_SEQUENCE'', 147),
     (''FIELD_TYPE_INT16_UNBOUNDED_SEQUENCE'', 148),
     (''FIELD_TYPE_UINT16_UNBOUNDED_SEQUENCE'', 149),
     (''FIELD_TYPE_INT32_UNBOUNDED_SEQUENCE'', 150),
     (''FIELD_TYPE_UINT32_UNBOUNDED_SEQUENCE'', 151),
     (''FIELD_TYPE_INT64_UNBOUNDED_SEQUENCE'', 152),
     (''FIELD_TYPE_UINT64_UNBOUNDED_SEQUENCE'', 153),
     (''FIELD_TYPE_FLOAT_UNBOUNDED_SEQUENCE'', 154),
     (''FIELD_TYPE_DOUBLE_UNBOUNDED_SEQUENCE'', 155),
     (''FIELD_TYPE_LONG_DOUBLE_UNBOUNDED_SEQUENCE'', 156),
     (''FIELD_TYPE_CHAR_UNBOUNDED_SEQUENCE'', 157),
     (''FIELD_TYPE_WCHAR_UNBOUNDED_SEQUENCE'', 158),
     (''FIELD_TYPE_BOOLEAN_UNBOUNDED_SEQUENCE'', 159),
     (''FIELD_TYPE_BYTE_UNBOUNDED_SEQUENCE'', 160),
     (''FIELD_TYPE_STRING_UNBOUNDED_SEQUENCE'', 161),
     (''FIELD_TYPE_WSTRING_UNBOUNDED_SEQUENCE'', 162),
     (''FIELD_TYPE_FIXED_STRING_UNBOUNDED_SEQUENCE'', 163),
     (''FIELD_TYPE_FIXED_WSTRING_UNBOUNDED_SEQUENCE'', 164),
     (''FIELD_TYPE_BOUNDED_STRING_UNBOUNDED_SEQUENCE'', 165),
     (''FIELD_TYPE_BOUNDED_WSTRING_UNBOUNDED_SEQUENCE'', 166)]"

definition runtime_constants :: "(string \<times> nat) list" where
  "runtime_constants = runtime_numbers @ runtime_texts @ runtime_arrays @
     runtime_bounded_sequences @ runtime_unbounded_sequences"

lemmas runtime_defs =
  runtime_constants_def runtime_numbers_def runtime_texts_def runtime_arrays_def runtime_bounded_sequences_def runtime_unbounded_sequences_def

subsection \<open>The constants of the interface header\<close>

text \<open>\<^verbatim>\<open>type_description_interfaces/msg/detail/field_type__struct.h\<close>, one table per block of the header: the name after the prefix of the message and the value.\<close>

definition interfaces_numbers :: "(string \<times> nat) list" where
  "interfaces_numbers = [(''FIELD_TYPE_NOT_SET'', 0),
     (''FIELD_TYPE_NESTED_TYPE'', 1),
     (''FIELD_TYPE_INT8'', 2),
     (''FIELD_TYPE_UINT8'', 3),
     (''FIELD_TYPE_INT16'', 4),
     (''FIELD_TYPE_UINT16'', 5),
     (''FIELD_TYPE_INT32'', 6),
     (''FIELD_TYPE_UINT32'', 7),
     (''FIELD_TYPE_INT64'', 8),
     (''FIELD_TYPE_UINT64'', 9),
     (''FIELD_TYPE_FLOAT'', 10),
     (''FIELD_TYPE_DOUBLE'', 11),
     (''FIELD_TYPE_LONG_DOUBLE'', 12)]"

definition interfaces_texts :: "(string \<times> nat) list" where
  "interfaces_texts = [(''FIELD_TYPE_CHAR'', 13),
     (''FIELD_TYPE_WCHAR'', 14),
     (''FIELD_TYPE_BOOLEAN'', 15),
     (''FIELD_TYPE_BYTE'', 16),
     (''FIELD_TYPE_STRING'', 17),
     (''FIELD_TYPE_WSTRING'', 18),
     (''FIELD_TYPE_FIXED_STRING'', 19),
     (''FIELD_TYPE_FIXED_WSTRING'', 20),
     (''FIELD_TYPE_BOUNDED_STRING'', 21),
     (''FIELD_TYPE_BOUNDED_WSTRING'', 22)]"

definition interfaces_arrays :: "(string \<times> nat) list" where
  "interfaces_arrays = [(''FIELD_TYPE_NESTED_TYPE_ARRAY'', 49),
     (''FIELD_TYPE_INT8_ARRAY'', 50),
     (''FIELD_TYPE_UINT8_ARRAY'', 51),
     (''FIELD_TYPE_INT16_ARRAY'', 52),
     (''FIELD_TYPE_UINT16_ARRAY'', 53),
     (''FIELD_TYPE_INT32_ARRAY'', 54),
     (''FIELD_TYPE_UINT32_ARRAY'', 55),
     (''FIELD_TYPE_INT64_ARRAY'', 56),
     (''FIELD_TYPE_UINT64_ARRAY'', 57),
     (''FIELD_TYPE_FLOAT_ARRAY'', 58),
     (''FIELD_TYPE_DOUBLE_ARRAY'', 59),
     (''FIELD_TYPE_LONG_DOUBLE_ARRAY'', 60),
     (''FIELD_TYPE_CHAR_ARRAY'', 61),
     (''FIELD_TYPE_WCHAR_ARRAY'', 62),
     (''FIELD_TYPE_BOOLEAN_ARRAY'', 63),
     (''FIELD_TYPE_BYTE_ARRAY'', 64),
     (''FIELD_TYPE_STRING_ARRAY'', 65),
     (''FIELD_TYPE_WSTRING_ARRAY'', 66),
     (''FIELD_TYPE_FIXED_STRING_ARRAY'', 67),
     (''FIELD_TYPE_FIXED_WSTRING_ARRAY'', 68),
     (''FIELD_TYPE_BOUNDED_STRING_ARRAY'', 69),
     (''FIELD_TYPE_BOUNDED_WSTRING_ARRAY'', 70)]"

definition interfaces_bounded_sequences :: "(string \<times> nat) list" where
  "interfaces_bounded_sequences = [(''FIELD_TYPE_NESTED_TYPE_BOUNDED_SEQUENCE'', 97),
     (''FIELD_TYPE_INT8_BOUNDED_SEQUENCE'', 98),
     (''FIELD_TYPE_UINT8_BOUNDED_SEQUENCE'', 99),
     (''FIELD_TYPE_INT16_BOUNDED_SEQUENCE'', 100),
     (''FIELD_TYPE_UINT16_BOUNDED_SEQUENCE'', 101),
     (''FIELD_TYPE_INT32_BOUNDED_SEQUENCE'', 102),
     (''FIELD_TYPE_UINT32_BOUNDED_SEQUENCE'', 103),
     (''FIELD_TYPE_INT64_BOUNDED_SEQUENCE'', 104),
     (''FIELD_TYPE_UINT64_BOUNDED_SEQUENCE'', 105),
     (''FIELD_TYPE_FLOAT_BOUNDED_SEQUENCE'', 106),
     (''FIELD_TYPE_DOUBLE_BOUNDED_SEQUENCE'', 107),
     (''FIELD_TYPE_LONG_DOUBLE_BOUNDED_SEQUENCE'', 108),
     (''FIELD_TYPE_CHAR_BOUNDED_SEQUENCE'', 109),
     (''FIELD_TYPE_WCHAR_BOUNDED_SEQUENCE'', 110),
     (''FIELD_TYPE_BOOLEAN_BOUNDED_SEQUENCE'', 111),
     (''FIELD_TYPE_BYTE_BOUNDED_SEQUENCE'', 112),
     (''FIELD_TYPE_STRING_BOUNDED_SEQUENCE'', 113),
     (''FIELD_TYPE_WSTRING_BOUNDED_SEQUENCE'', 114),
     (''FIELD_TYPE_FIXED_STRING_BOUNDED_SEQUENCE'', 115),
     (''FIELD_TYPE_FIXED_WSTRING_BOUNDED_SEQUENCE'', 116),
     (''FIELD_TYPE_BOUNDED_STRING_BOUNDED_SEQUENCE'', 117),
     (''FIELD_TYPE_BOUNDED_WSTRING_BOUNDED_SEQUENCE'', 118)]"

definition interfaces_unbounded_sequences :: "(string \<times> nat) list" where
  "interfaces_unbounded_sequences = [(''FIELD_TYPE_NESTED_TYPE_UNBOUNDED_SEQUENCE'', 145),
     (''FIELD_TYPE_INT8_UNBOUNDED_SEQUENCE'', 146),
     (''FIELD_TYPE_UINT8_UNBOUNDED_SEQUENCE'', 147),
     (''FIELD_TYPE_INT16_UNBOUNDED_SEQUENCE'', 148),
     (''FIELD_TYPE_UINT16_UNBOUNDED_SEQUENCE'', 149),
     (''FIELD_TYPE_INT32_UNBOUNDED_SEQUENCE'', 150),
     (''FIELD_TYPE_UINT32_UNBOUNDED_SEQUENCE'', 151),
     (''FIELD_TYPE_INT64_UNBOUNDED_SEQUENCE'', 152),
     (''FIELD_TYPE_UINT64_UNBOUNDED_SEQUENCE'', 153),
     (''FIELD_TYPE_FLOAT_UNBOUNDED_SEQUENCE'', 154),
     (''FIELD_TYPE_DOUBLE_UNBOUNDED_SEQUENCE'', 155),
     (''FIELD_TYPE_LONG_DOUBLE_UNBOUNDED_SEQUENCE'', 156),
     (''FIELD_TYPE_CHAR_UNBOUNDED_SEQUENCE'', 157),
     (''FIELD_TYPE_WCHAR_UNBOUNDED_SEQUENCE'', 158),
     (''FIELD_TYPE_BOOLEAN_UNBOUNDED_SEQUENCE'', 159),
     (''FIELD_TYPE_BYTE_UNBOUNDED_SEQUENCE'', 160),
     (''FIELD_TYPE_STRING_UNBOUNDED_SEQUENCE'', 161),
     (''FIELD_TYPE_WSTRING_UNBOUNDED_SEQUENCE'', 162),
     (''FIELD_TYPE_FIXED_STRING_UNBOUNDED_SEQUENCE'', 163),
     (''FIELD_TYPE_FIXED_WSTRING_UNBOUNDED_SEQUENCE'', 164),
     (''FIELD_TYPE_BOUNDED_STRING_UNBOUNDED_SEQUENCE'', 165),
     (''FIELD_TYPE_BOUNDED_WSTRING_UNBOUNDED_SEQUENCE'', 166)]"

definition interfaces_constants :: "(string \<times> nat) list" where
  "interfaces_constants = interfaces_numbers @ interfaces_texts @ interfaces_arrays @
     interfaces_bounded_sequences @ interfaces_unbounded_sequences"

lemmas interfaces_defs =
  interfaces_constants_def interfaces_numbers_def interfaces_texts_def interfaces_arrays_def interfaces_bounded_sequences_def interfaces_unbounded_sequences_def

subsection \<open>The aliases of the dynamic type support\<close>

text \<open>\<^verbatim>\<open>rosidl_dynamic_typesupport/types.h\<close>: each macro and the constant it stands for.\<close>

definition alias_primitives :: "(string \<times> string) list" where
  "alias_primitives = [(''FIELD_TYPE_NOT_SET'', ''FIELD_TYPE_NOT_SET''),
     (''FIELD_TYPE_NESTED_TYPE'', ''FIELD_TYPE_NESTED_TYPE''),
     (''FIELD_TYPE_INT8'', ''FIELD_TYPE_INT8''),
     (''FIELD_TYPE_UINT8'', ''FIELD_TYPE_UINT8''),
     (''FIELD_TYPE_INT16'', ''FIELD_TYPE_INT16''),
     (''FIELD_TYPE_UINT16'', ''FIELD_TYPE_UINT16''),
     (''FIELD_TYPE_INT32'', ''FIELD_TYPE_INT32''),
     (''FIELD_TYPE_UINT32'', ''FIELD_TYPE_UINT32''),
     (''FIELD_TYPE_INT64'', ''FIELD_TYPE_INT64''),
     (''FIELD_TYPE_UINT64'', ''FIELD_TYPE_UINT64''),
     (''FIELD_TYPE_FLOAT'', ''FIELD_TYPE_FLOAT''),
     (''FIELD_TYPE_FLOAT32'', ''FIELD_TYPE_FLOAT''),
     (''FIELD_TYPE_DOUBLE'', ''FIELD_TYPE_DOUBLE''),
     (''FIELD_TYPE_FLOAT64'', ''FIELD_TYPE_DOUBLE''),
     (''FIELD_TYPE_CHAR'', ''FIELD_TYPE_CHAR''),
     (''FIELD_TYPE_WCHAR'', ''FIELD_TYPE_WCHAR''),
     (''FIELD_TYPE_BOOLEAN'', ''FIELD_TYPE_BOOLEAN''),
     (''FIELD_TYPE_BYTE'', ''FIELD_TYPE_BYTE''),
     (''FIELD_TYPE_STRING'', ''FIELD_TYPE_STRING''),
     (''FIELD_TYPE_WSTRING'', ''FIELD_TYPE_WSTRING''),
     (''FIELD_TYPE_FIXED_STRING'', ''FIELD_TYPE_FIXED_STRING''),
     (''FIELD_TYPE_FIXED_WSTRING'', ''FIELD_TYPE_FIXED_WSTRING''),
     (''FIELD_TYPE_BOUNDED_STRING'', ''FIELD_TYPE_BOUNDED_STRING''),
     (''FIELD_TYPE_BOUNDED_WSTRING'', ''FIELD_TYPE_BOUNDED_WSTRING'')]"

definition alias_arrays :: "(string \<times> string) list" where
  "alias_arrays = [(''FIELD_TYPE_NESTED_TYPE_ARRAY'', ''FIELD_TYPE_NESTED_TYPE_ARRAY''),
     (''FIELD_TYPE_INT8_ARRAY'', ''FIELD_TYPE_INT8_ARRAY''),
     (''FIELD_TYPE_UINT8_ARRAY'', ''FIELD_TYPE_UINT8_ARRAY''),
     (''FIELD_TYPE_INT16_ARRAY'', ''FIELD_TYPE_INT16_ARRAY''),
     (''FIELD_TYPE_UINT16_ARRAY'', ''FIELD_TYPE_UINT16_ARRAY''),
     (''FIELD_TYPE_INT32_ARRAY'', ''FIELD_TYPE_INT32_ARRAY''),
     (''FIELD_TYPE_UINT32_ARRAY'', ''FIELD_TYPE_UINT32_ARRAY''),
     (''FIELD_TYPE_INT64_ARRAY'', ''FIELD_TYPE_INT64_ARRAY''),
     (''FIELD_TYPE_UINT64_ARRAY'', ''FIELD_TYPE_UINT64_ARRAY''),
     (''FIELD_TYPE_FLOAT_ARRAY'', ''FIELD_TYPE_FLOAT_ARRAY''),
     (''FIELD_TYPE_FLOAT32_ARRAY'', ''FIELD_TYPE_FLOAT_ARRAY''),
     (''FIELD_TYPE_DOUBLE_ARRAY'', ''FIELD_TYPE_DOUBLE_ARRAY''),
     (''FIELD_TYPE_FLOAT64_ARRAY'', ''FIELD_TYPE_DOUBLE_ARRAY''),
     (''FIELD_TYPE_CHAR_ARRAY'', ''FIELD_TYPE_CHAR_ARRAY''),
     (''FIELD_TYPE_WCHAR_ARRAY'', ''FIELD_TYPE_WCHAR_ARRAY''),
     (''FIELD_TYPE_BOOLEAN_ARRAY'', ''FIELD_TYPE_BOOLEAN_ARRAY''),
     (''FIELD_TYPE_BYTE_ARRAY'', ''FIELD_TYPE_BYTE_ARRAY''),
     (''FIELD_TYPE_STRING_ARRAY'', ''FIELD_TYPE_STRING_ARRAY''),
     (''FIELD_TYPE_WSTRING_ARRAY'', ''FIELD_TYPE_WSTRING_ARRAY''),
     (''FIELD_TYPE_FIXED_STRING_ARRAY'', ''FIELD_TYPE_FIXED_STRING_ARRAY''),
     (''FIELD_TYPE_FIXED_WSTRING_ARRAY'', ''FIELD_TYPE_FIXED_WSTRING_ARRAY''),
     (''FIELD_TYPE_BOUNDED_STRING_ARRAY'', ''FIELD_TYPE_BOUNDED_STRING_ARRAY''),
     (''FIELD_TYPE_BOUNDED_WSTRING_ARRAY'', ''FIELD_TYPE_BOUNDED_WSTRING_ARRAY'')]"

definition alias_bounded_sequences :: "(string \<times> string) list" where
  "alias_bounded_sequences = [(''FIELD_TYPE_NESTED_TYPE_BOUNDED_SEQUENCE'', ''FIELD_TYPE_NESTED_TYPE_BOUNDED_SEQUENCE''),
     (''FIELD_TYPE_INT8_BOUNDED_SEQUENCE'', ''FIELD_TYPE_INT8_BOUNDED_SEQUENCE''),
     (''FIELD_TYPE_UINT8_BOUNDED_SEQUENCE'', ''FIELD_TYPE_UINT8_BOUNDED_SEQUENCE''),
     (''FIELD_TYPE_INT16_BOUNDED_SEQUENCE'', ''FIELD_TYPE_INT16_BOUNDED_SEQUENCE''),
     (''FIELD_TYPE_UINT16_BOUNDED_SEQUENCE'', ''FIELD_TYPE_UINT16_BOUNDED_SEQUENCE''),
     (''FIELD_TYPE_INT32_BOUNDED_SEQUENCE'', ''FIELD_TYPE_INT32_BOUNDED_SEQUENCE''),
     (''FIELD_TYPE_UINT32_BOUNDED_SEQUENCE'', ''FIELD_TYPE_UINT32_BOUNDED_SEQUENCE''),
     (''FIELD_TYPE_INT64_BOUNDED_SEQUENCE'', ''FIELD_TYPE_INT64_BOUNDED_SEQUENCE''),
     (''FIELD_TYPE_UINT64_BOUNDED_SEQUENCE'', ''FIELD_TYPE_UINT64_BOUNDED_SEQUENCE''),
     (''FIELD_TYPE_FLOAT_BOUNDED_SEQUENCE'', ''FIELD_TYPE_FLOAT_BOUNDED_SEQUENCE''),
     (''FIELD_TYPE_FLOAT32_BOUNDED_SEQUENCE'', ''FIELD_TYPE_FLOAT_BOUNDED_SEQUENCE''),
     (''FIELD_TYPE_DOUBLE_BOUNDED_SEQUENCE'', ''FIELD_TYPE_DOUBLE_BOUNDED_SEQUENCE''),
     (''FIELD_TYPE_FLOAT64_BOUNDED_SEQUENCE'', ''FIELD_TYPE_DOUBLE_BOUNDED_SEQUENCE''),
     (''FIELD_TYPE_CHAR_BOUNDED_SEQUENCE'', ''FIELD_TYPE_CHAR_BOUNDED_SEQUENCE''),
     (''FIELD_TYPE_WCHAR_BOUNDED_SEQUENCE'', ''FIELD_TYPE_WCHAR_BOUNDED_SEQUENCE''),
     (''FIELD_TYPE_BOOLEAN_BOUNDED_SEQUENCE'', ''FIELD_TYPE_BOOLEAN_BOUNDED_SEQUENCE''),
     (''FIELD_TYPE_BYTE_BOUNDED_SEQUENCE'', ''FIELD_TYPE_BYTE_BOUNDED_SEQUENCE''),
     (''FIELD_TYPE_STRING_BOUNDED_SEQUENCE'', ''FIELD_TYPE_STRING_BOUNDED_SEQUENCE''),
     (''FIELD_TYPE_WSTRING_BOUNDED_SEQUENCE'', ''FIELD_TYPE_WSTRING_BOUNDED_SEQUENCE''),
     (''FIELD_TYPE_FIXED_STRING_BOUNDED_SEQUENCE'', ''FIELD_TYPE_FIXED_STRING_BOUNDED_SEQUENCE''),
     (''FIELD_TYPE_FIXED_WSTRING_BOUNDED_SEQUENCE'', ''FIELD_TYPE_FIXED_WSTRING_BOUNDED_SEQUENCE''),
     (''FIELD_TYPE_BOUNDED_STRING_BOUNDED_SEQUENCE'', ''FIELD_TYPE_BOUNDED_STRING_BOUNDED_SEQUENCE''),
     (''FIELD_TYPE_BOUNDED_WSTRING_BOUNDED_SEQUENCE'', ''FIELD_TYPE_BOUNDED_WSTRING_BOUNDED_SEQUENCE'')]"

definition alias_unbounded_sequences :: "(string \<times> string) list" where
  "alias_unbounded_sequences = [(''FIELD_TYPE_NESTED_TYPE_UNBOUNDED_SEQUENCE'', ''FIELD_TYPE_NESTED_TYPE_UNBOUNDED_SEQUENCE''),
     (''FIELD_TYPE_INT8_UNBOUNDED_SEQUENCE'', ''FIELD_TYPE_INT8_UNBOUNDED_SEQUENCE''),
     (''FIELD_TYPE_UINT8_UNBOUNDED_SEQUENCE'', ''FIELD_TYPE_UINT8_UNBOUNDED_SEQUENCE''),
     (''FIELD_TYPE_INT16_UNBOUNDED_SEQUENCE'', ''FIELD_TYPE_INT16_UNBOUNDED_SEQUENCE''),
     (''FIELD_TYPE_UINT16_UNBOUNDED_SEQUENCE'', ''FIELD_TYPE_UINT16_UNBOUNDED_SEQUENCE''),
     (''FIELD_TYPE_INT32_UNBOUNDED_SEQUENCE'', ''FIELD_TYPE_INT32_UNBOUNDED_SEQUENCE''),
     (''FIELD_TYPE_UINT32_UNBOUNDED_SEQUENCE'', ''FIELD_TYPE_UINT32_UNBOUNDED_SEQUENCE''),
     (''FIELD_TYPE_INT64_UNBOUNDED_SEQUENCE'', ''FIELD_TYPE_INT64_UNBOUNDED_SEQUENCE''),
     (''FIELD_TYPE_UINT64_UNBOUNDED_SEQUENCE'', ''FIELD_TYPE_UINT64_UNBOUNDED_SEQUENCE''),
     (''FIELD_TYPE_FLOAT_UNBOUNDED_SEQUENCE'', ''FIELD_TYPE_FLOAT_UNBOUNDED_SEQUENCE''),
     (''FIELD_TYPE_FLOAT32_UNBOUNDED_SEQUENCE'', ''FIELD_TYPE_FLOAT_UNBOUNDED_SEQUENCE''),
     (''FIELD_TYPE_DOUBLE_UNBOUNDED_SEQUENCE'', ''FIELD_TYPE_DOUBLE_UNBOUNDED_SEQUENCE''),
     (''FIELD_TYPE_FLOAT64_UNBOUNDED_SEQUENCE'', ''FIELD_TYPE_DOUBLE_UNBOUNDED_SEQUENCE''),
     (''FIELD_TYPE_CHAR_UNBOUNDED_SEQUENCE'', ''FIELD_TYPE_CHAR_UNBOUNDED_SEQUENCE''),
     (''FIELD_TYPE_WCHAR_UNBOUNDED_SEQUENCE'', ''FIELD_TYPE_WCHAR_UNBOUNDED_SEQUENCE''),
     (''FIELD_TYPE_BOOLEAN_UNBOUNDED_SEQUENCE'', ''FIELD_TYPE_BOOLEAN_UNBOUNDED_SEQUENCE''),
     (''FIELD_TYPE_BYTE_UNBOUNDED_SEQUENCE'', ''FIELD_TYPE_BYTE_UNBOUNDED_SEQUENCE''),
     (''FIELD_TYPE_STRING_UNBOUNDED_SEQUENCE'', ''FIELD_TYPE_STRING_UNBOUNDED_SEQUENCE''),
     (''FIELD_TYPE_WSTRING_UNBOUNDED_SEQUENCE'', ''FIELD_TYPE_WSTRING_UNBOUNDED_SEQUENCE''),
     (''FIELD_TYPE_FIXED_STRING_UNBOUNDED_SEQUENCE'', ''FIELD_TYPE_FIXED_STRING_UNBOUNDED_SEQUENCE''),
     (''FIELD_TYPE_FIXED_WSTRING_UNBOUNDED_SEQUENCE'', ''FIELD_TYPE_FIXED_WSTRING_UNBOUNDED_SEQUENCE''),
     (''FIELD_TYPE_BOUNDED_STRING_UNBOUNDED_SEQUENCE'', ''FIELD_TYPE_BOUNDED_STRING_UNBOUNDED_SEQUENCE''),
     (''FIELD_TYPE_BOUNDED_WSTRING_UNBOUNDED_SEQUENCE'', ''FIELD_TYPE_BOUNDED_WSTRING_UNBOUNDED_SEQUENCE'')]"

definition aliases :: "(string \<times> string) list" where
  "aliases = alias_primitives @ alias_arrays @ alias_bounded_sequences @ alias_unbounded_sequences"

lemmas alias_defs =
  aliases_def alias_primitives_def alias_arrays_def alias_bounded_sequences_def alias_unbounded_sequences_def

definition ROSIDL_DYNAMIC_TYPESUPPORT_SEQUENCE_TYPE_DELIMITER :: nat where
  "ROSIDL_DYNAMIC_TYPESUPPORT_SEQUENCE_TYPE_DELIMITER = 48"

definition ROSIDL_DYNAMIC_TYPESUPPORT_ARRAY_OFFSET :: nat where
  "ROSIDL_DYNAMIC_TYPESUPPORT_ARRAY_OFFSET = 48"

definition ROSIDL_DYNAMIC_TYPESUPPORT_UNBOUNDED_SEQUENCE_OFFSET :: nat where
  "ROSIDL_DYNAMIC_TYPESUPPORT_UNBOUNDED_SEQUENCE_OFFSET = 96"

definition ROSIDL_DYNAMIC_TYPESUPPORT_BOUNDED_SEQUENCE_OFFSET :: nat where
  "ROSIDL_DYNAMIC_TYPESUPPORT_BOUNDED_SEQUENCE_OFFSET = 144"

lemmas offset_defs =
  ROSIDL_DYNAMIC_TYPESUPPORT_SEQUENCE_TYPE_DELIMITER_def ROSIDL_DYNAMIC_TYPESUPPORT_ARRAY_OFFSET_def
  ROSIDL_DYNAMIC_TYPESUPPORT_UNBOUNDED_SEQUENCE_OFFSET_def
  ROSIDL_DYNAMIC_TYPESUPPORT_BOUNDED_SEQUENCE_OFFSET_def

text \<open>The value of a macro: the value of the constant it stands for.\<close>

definition alias_value :: "string \<Rightarrow> nat option" where
  "alias_value alias = Option.bind (map_of aliases alias) (map_of runtime_constants)"

text \<open>A field type as the message carries it.\<close>

record rosidl_runtime_c__FieldType =
  type_id :: u8
  capacity :: u64
  string_capacity :: u64
  nested_type_name :: string

subsection \<open>The documented structure\<close>

datatype base_type =
    NESTED_TYPE | INT8 | UINT8 | INT16 | UINT16 | INT32 | UINT32 | INT64 | UINT64
  | FLOAT | DOUBLE | LONG_DOUBLE | CHAR8 | WCHAR | BOOLEAN | BYTE
  | STRING | WSTRING | FIXED_STRING | FIXED_WSTRING | BOUNDED_STRING | BOUNDED_WSTRING

datatype shape = Scalar | Array | Bounded_Sequence | Unbounded_Sequence

datatype field_type = NOT_SET | Field shape base_type

instantiation base_type :: enum
begin

definition enum_base_type :: "base_type list" where
  "enum_base_type = [NESTED_TYPE, INT8, UINT8, INT16, UINT16, INT32, UINT32, INT64, UINT64,
     FLOAT, DOUBLE, LONG_DOUBLE, CHAR8, WCHAR, BOOLEAN, BYTE,
     STRING, WSTRING, FIXED_STRING, FIXED_WSTRING, BOUNDED_STRING, BOUNDED_WSTRING]"

definition enum_all_base_type :: "(base_type \<Rightarrow> bool) \<Rightarrow> bool" where
  "enum_all_base_type P = list_all P enum_class.enum"

definition enum_ex_base_type :: "(base_type \<Rightarrow> bool) \<Rightarrow> bool" where
  "enum_ex_base_type P = list_ex P enum_class.enum"

instance
proof
  show univ: "(UNIV :: base_type set) = set enum_class.enum"
    unfolding enum_base_type_def by (auto intro: base_type.exhaust)
  show "distinct (enum_class.enum :: base_type list)"
    by (simp add: enum_base_type_def)
  show "enum_class.enum_all P = Ball UNIV P" for P :: "base_type \<Rightarrow> bool"
    unfolding enum_all_base_type_def univ by (simp add: list_all_iff)
  show "enum_class.enum_ex P = Bex UNIV P" for P :: "base_type \<Rightarrow> bool"
    unfolding enum_ex_base_type_def univ by (simp add: list_ex_iff)
qed

end

instantiation shape :: enum
begin

definition enum_shape :: "shape list" where
  "enum_shape = [Scalar, Array, Bounded_Sequence, Unbounded_Sequence]"

definition enum_all_shape :: "(shape \<Rightarrow> bool) \<Rightarrow> bool" where
  "enum_all_shape P = list_all P enum_class.enum"

definition enum_ex_shape :: "(shape \<Rightarrow> bool) \<Rightarrow> bool" where
  "enum_ex_shape P = list_ex P enum_class.enum"

instance
proof
  show univ: "(UNIV :: shape set) = set enum_class.enum"
    unfolding enum_shape_def by (auto intro: shape.exhaust)
  show "distinct (enum_class.enum :: shape list)"
    by (simp add: enum_shape_def)
  show "enum_class.enum_all P = Ball UNIV P" for P :: "shape \<Rightarrow> bool"
    unfolding enum_all_shape_def univ by (simp add: list_all_iff)
  show "enum_class.enum_ex P = Bex UNIV P" for P :: "shape \<Rightarrow> bool"
    unfolding enum_ex_shape_def univ by (simp add: list_ex_iff)
qed

end

fun base_name :: "base_type \<Rightarrow> string" where
  "base_name NESTED_TYPE = ''NESTED_TYPE''" | "base_name INT8 = ''INT8''"
| "base_name UINT8 = ''UINT8''" | "base_name INT16 = ''INT16''" | "base_name UINT16 = ''UINT16''"
| "base_name INT32 = ''INT32''" | "base_name UINT32 = ''UINT32''" | "base_name INT64 = ''INT64''"
| "base_name UINT64 = ''UINT64''" | "base_name FLOAT = ''FLOAT''" | "base_name DOUBLE = ''DOUBLE''"
| "base_name LONG_DOUBLE = ''LONG_DOUBLE''" | "base_name CHAR8 = ''CHAR''"
| "base_name WCHAR = ''WCHAR''" | "base_name BOOLEAN = ''BOOLEAN''" | "base_name BYTE = ''BYTE''"
| "base_name STRING = ''STRING''" | "base_name WSTRING = ''WSTRING''"
| "base_name FIXED_STRING = ''FIXED_STRING''" | "base_name FIXED_WSTRING = ''FIXED_WSTRING''"
| "base_name BOUNDED_STRING = ''BOUNDED_STRING''" | "base_name BOUNDED_WSTRING = ''BOUNDED_WSTRING''"

fun base_code :: "base_type \<Rightarrow> nat" where
  "base_code NESTED_TYPE = 1" | "base_code INT8 = 2" | "base_code UINT8 = 3" | "base_code INT16 = 4"
| "base_code UINT16 = 5" | "base_code INT32 = 6" | "base_code UINT32 = 7" | "base_code INT64 = 8"
| "base_code UINT64 = 9" | "base_code FLOAT = 10" | "base_code DOUBLE = 11"
| "base_code LONG_DOUBLE = 12" | "base_code CHAR8 = 13" | "base_code WCHAR = 14"
| "base_code BOOLEAN = 15" | "base_code BYTE = 16" | "base_code STRING = 17"
| "base_code WSTRING = 18" | "base_code FIXED_STRING = 19" | "base_code FIXED_WSTRING = 20"
| "base_code BOUNDED_STRING = 21" | "base_code BOUNDED_WSTRING = 22"

fun shape_suffix :: "shape \<Rightarrow> string" where
  "shape_suffix Scalar = []" | "shape_suffix Array = ''_ARRAY''"
| "shape_suffix Bounded_Sequence = ''_BOUNDED_SEQUENCE''"
| "shape_suffix Unbounded_Sequence = ''_UNBOUNDED_SEQUENCE''"

text \<open>The first value of the range the layout comment reserves, and the offset from the scalars.\<close>

fun shape_index :: "shape \<Rightarrow> nat" where
  "shape_index Scalar = 0" | "shape_index Array = 1"
| "shape_index Bounded_Sequence = 2" | "shape_index Unbounded_Sequence = 3"

fun constant_name :: "field_type \<Rightarrow> string" where
  "constant_name NOT_SET = ''FIELD_TYPE_NOT_SET''"
| "constant_name (Field s b) = ''FIELD_TYPE_'' @ base_name b @ shape_suffix s"

fun type_code :: "field_type \<Rightarrow> nat" where
  "type_code NOT_SET = 0"
| "type_code (Field s b) = 48 * shape_index s + base_code b"

definition field_types :: "field_type list" where
  "field_types = NOT_SET # concat (map (\<lambda>s. map (Field s) enum_class.enum) enum_class.enum)"

lemma field_types_complete: "t \<in> set field_types"
  by (cases t) (auto simp: field_types_def enum_UNIV)

definition type_of_code :: "nat \<Rightarrow> field_type option" where
  "type_of_code n = find (\<lambda>t. type_code t = n) field_types"

lemma base_code_range: "1 \<le> base_code b \<and> base_code b \<le> 22"
  by (cases b) simp_all

lemma base_code_pos [simp]: "base_code b \<noteq> 0"
  using base_code_range [of b] by simp

lemma base_code_inj: "base_code b = base_code c \<Longrightarrow> b = c"
  by (cases b; cases c) simp_all

lemma shape_index_inj: "shape_index s = shape_index r \<Longrightarrow> s = r"
  by (cases s; cases r) simp_all

lemma type_code_digits:
  "type_code (Field s b) div 48 = shape_index s \<and> type_code (Field s b) mod 48 = base_code b"
proof -
  have "base_code b < 48" using base_code_range [of b] by simp
  then show ?thesis by simp
qed

lemma type_code_inj: "type_code t = type_code u \<Longrightarrow> t = u"
proof (cases t; cases u)
  fix s b r c
  assume eq: "type_code t = type_code u" and t: "t = Field s b" and u: "u = Field r c"
  have "shape_index s = shape_index r \<and> base_code b = base_code c"
    using eq type_code_digits [of s b] type_code_digits [of r c] by (simp only: t u)
  then show "t = u" by (simp add: t u base_code_inj shape_index_inj)
qed simp_all

lemma type_of_code_code: "type_of_code (type_code t) = Some t"
proof -
  obtain u where "type_of_code (type_code t) = Some u"
    using field_types_complete [of t] unfolding type_of_code_def
    by (cases "find (\<lambda>u. type_code u = type_code t) field_types") (auto simp: find_None_iff)
  moreover from this have "type_code u = type_code t"
    unfolding type_of_code_def by (auto simp: find_Some_iff)
  ultimately show ?thesis using type_code_inj by metis
qed

lemma type_of_code_SomeD: "type_of_code n = Some t \<Longrightarrow> type_code t = n"
  unfolding type_of_code_def by (auto simp: find_Some_iff)

lemma type_code_less: "type_code t < 193"
proof (cases t)
  case (Field s b)
  then show ?thesis using base_code_range [of b] by (cases s) simp_all
qed simp

lemma runtime_table: "runtime_constants = map (\<lambda>t. (constant_name t, type_code t)) field_types"
  by (simp add: runtime_defs field_types_def enum_base_type_def enum_shape_def)

lemma interfaces_table: "interfaces_constants = map (\<lambda>t. (constant_name t, type_code t)) field_types"
  by (simp add: interfaces_defs field_types_def enum_base_type_def enum_shape_def)

lemma runtime_names_distinct: "distinct (map fst runtime_constants)"
  by (simp add: runtime_defs)

lemma alias_names_distinct: "distinct (map fst aliases)"
  by (simp add: alias_defs)

lemma runtime_lookup: "map_of runtime_constants (constant_name t) = Some (type_code t)"
proof (rule map_of_is_SomeI [OF runtime_names_distinct])
  show "(constant_name t, type_code t) \<in> set runtime_constants"
    unfolding runtime_table using field_types_complete [of t] by auto
qed

text \<open>The aliases as their header lays them out: per shape, every base type but LONG_DOUBLE, with
  FLOAT32 and FLOAT64 as second names of FLOAT and DOUBLE.\<close>

definition alias_bases :: "(string \<times> base_type) list" where
  "alias_bases = map (\<lambda>b. (base_name b, b))
       [NESTED_TYPE, INT8, UINT8, INT16, UINT16, INT32, UINT32, INT64, UINT64, FLOAT] @
     [(''FLOAT32'', FLOAT), (''DOUBLE'', DOUBLE), (''FLOAT64'', DOUBLE)] @
     map (\<lambda>b. (base_name b, b)) [CHAR8, WCHAR, BOOLEAN, BYTE, STRING, WSTRING, FIXED_STRING,
       FIXED_WSTRING, BOUNDED_STRING, BOUNDED_WSTRING]"

definition alias_rows :: "(string \<times> field_type) list" where
  "alias_rows = (constant_name NOT_SET, NOT_SET) # concat (map (\<lambda>s.
     map (\<lambda>(n, b). (''FIELD_TYPE_'' @ n @ shape_suffix s, Field s b)) alias_bases) enum_class.enum)"

lemma aliases_table: "aliases = map (\<lambda>(n, t). (n, constant_name t)) alias_rows"
  by (simp add: alias_defs alias_rows_def alias_bases_def enum_shape_def)

lemma alias_row_value: "(n, t) \<in> set alias_rows \<Longrightarrow> alias_value n = Some (type_code t)"
proof -
  assume "(n, t) \<in> set alias_rows"
  then have "(n, constant_name t) \<in> set aliases" unfolding aliases_table by force
  then have "map_of aliases n = Some (constant_name t)"
    by (rule map_of_is_SomeI [OF alias_names_distinct])
  then show ?thesis by (simp add: alias_value_def runtime_lookup)
qed

lemma alias_bases_cover: "b \<noteq> LONG_DOUBLE \<Longrightarrow> (base_name b, b) \<in> set alias_bases"
  by (cases b) (simp_all add: alias_bases_def)

lemma no_long_double_alias: "(n, b) \<in> set alias_bases \<Longrightarrow> b \<noteq> LONG_DOUBLE"
  by (auto simp: alias_bases_def)

lemma alias_rows_iff: "(n, t) \<in> set alias_rows \<longleftrightarrow> (n, t) = (constant_name NOT_SET, NOT_SET) \<or>
   (\<exists>s m b. (m, b) \<in> set alias_bases \<and> n = ''FIELD_TYPE_'' @ m @ shape_suffix s \<and> t = Field s b)"
proof -
  have "s \<in> set enum_class.enum" for s :: shape by (simp add: enum_UNIV)
  then show ?thesis by (auto simp: alias_rows_def split: prod.splits)
qed

subsection \<open>Properties\<close>


text \<open>A field type survives its encoding: looking its constant up by name, storing it in the
  8-bit \<open>type_id\<close> of the message and decoding that gives the field type back, and a stored
  value decodes to a field type only if it is that type's constant.\<close>

theorem field_type_round_trip:
  "\<exists>n. map_of runtime_constants (constant_name t) = Some n \<and>
       type_of_code (unat (type_id (msg\<lparr>type_id := of_nat n\<rparr>))) = Some t \<and>
       (\<forall>u. type_of_code (unat (type_id msg)) = Some u \<longrightarrow>
            map_of runtime_constants (constant_name u) = Some (unat (type_id msg)))"
proof -
  have "unat (of_nat (type_code t) :: u8) = type_code t"
    using type_code_less [of t] by (simp add: unat_of_nat)
  then show ?thesis
    by (auto simp: runtime_lookup type_of_code_code dest: type_of_code_SomeD)
qed

theorem field_type_round_trip_witness:
  "map_of runtime_constants ''FIELD_TYPE_UINT8_ARRAY'' = Some 51"
  using field_type_round_trip [of NOT_SET "\<lparr>type_id = 51, capacity = 3, string_capacity = 0, nested_type_name = []\<rparr>"]
    type_of_code_code [of "Field Array UINT8"]
  by (auto simp del: One_nat_def)

text \<open>The aliases of the dynamic type support match the constants: the alias with the name of a
  constant has its value and there is one for every field type whose base is not LONG_DOUBLE;
  no alias has the value of a LONG_DOUBLE type, which the header leaves out in all four shapes.\<close>

theorem aliases_match_constants:
  "(alias_value (constant_name (Field s b)) = Some (type_code (Field s b)) \<longleftrightarrow> b \<noteq> LONG_DOUBLE) \<and>
   alias_value (constant_name NOT_SET) = Some (type_code NOT_SET) \<and>
   alias_value alias \<noteq> Some (type_code (Field s LONG_DOUBLE))"
proof -
  have none: "alias_value a \<noteq> Some (type_code (Field s LONG_DOUBLE))" for a s
  proof
    assume v: "alias_value a = Some (type_code (Field s LONG_DOUBLE))"
    then obtain k where "map_of aliases a = Some k"
      by (auto simp: alias_value_def split: Option.bind_splits)
    then have "(a, k) \<in> set aliases" by (rule map_of_SomeD)
    then obtain t where t: "(a, t) \<in> set alias_rows" unfolding aliases_table by auto
    with v have "t = Field s LONG_DOUBLE" by (auto simp: alias_row_value intro: type_code_inj)
    with t show False by (auto simp: alias_rows_iff dest: no_long_double_alias)
  qed
  have "(constant_name NOT_SET, NOT_SET) \<in> set alias_rows" by (simp only: alias_rows_iff simp_thms)
  moreover have "(constant_name (Field s b), Field s b) \<in> set alias_rows" if "b \<noteq> LONG_DOUBLE"
    using alias_bases_cover [OF that] by (auto simp: alias_rows_iff)
  ultimately show ?thesis
    using none by (auto simp del: constant_name.simps type_code.simps simp: alias_row_value)
qed

text \<open>The two sequence offsets are exchanged: adding the one called UNBOUNDED to the constant of
  a base type gives the constant of its bounded sequence, and adding the one called BOUNDED
  that of its unbounded sequence. The array offset is right.\<close>

theorem sequence_offsets_exchanged:
  "map_of runtime_constants (constant_name (Field Array b)) =
     Some (base_code b + ROSIDL_DYNAMIC_TYPESUPPORT_ARRAY_OFFSET) \<and>
   map_of runtime_constants (constant_name (Field Bounded_Sequence b)) =
     Some (base_code b + ROSIDL_DYNAMIC_TYPESUPPORT_UNBOUNDED_SEQUENCE_OFFSET) \<and>
   map_of runtime_constants (constant_name (Field Unbounded_Sequence b)) =
     Some (base_code b + ROSIDL_DYNAMIC_TYPESUPPORT_BOUNDED_SEQUENCE_OFFSET)"
  unfolding runtime_lookup by (simp add: offset_defs)

end
