(* ===== verification/Interface_Types.thy ===== *)
theory Interface_Types
  imports Prelude
begin

text \<open>
  The interfaces of the packages as the C headers declare them. An interface is a struct with its members; the
  generator declares with each the struct of a sequence of it, so an interface stands for both type definitions
  (\<open>typedefs\<close>). A member is a number, a string or wide string, another interface, an array or a sequence; strings and
  sequences may have a bound, from the enumerations \<^verbatim>\<open>__MAX_SIZE\<close> and \<^verbatim>\<open>__MAX_STRING_SIZE\<close> of the header.
\<close>

named_theorems struct_defs "the definitions of the interfaces"

subsection \<open>Interfaces\<close>

datatype c_type =
  C_bool | C_uint8 | C_int8 | C_uint16 | C_int16 | C_uint32 | C_int32 | C_uint64 | C_int64 | C_float | C_double |
  C_long_double | C_signed_char | C_unsigned_char | C_char16 | C_size

datatype mtype = Interface (interface_name: string) (members: "(string \<times> ftype) list")
and ftype =
  Primitive c_type
| Text "nat option"
| Wide_text "nat option"
| Message mtype
| Array nat ftype
| Sequence "nat option" ftype
| Pointer ftype

definition typedefs :: "mtype \<Rightarrow> (string \<times> (string \<times> ftype) list) list" where
  "typedefs m =
     [(interface_name m, members m),
      (interface_name m @ ''__Sequence'',
       [(''data'', Pointer (Message m)), (''size'', Primitive C_size), (''capacity'', Primitive C_size)])]"

text \<open>How deep interfaces are nested, also through sequences: the depth of the recursion of a function that visits a
  whole message.\<close>

fun nesting :: "mtype \<Rightarrow> nat" and field_nesting :: "ftype \<Rightarrow> nat" where
  "nesting (Interface n ms) = Suc (fold max (map (\<lambda>m. field_nesting (snd m)) ms) 0)"
| "field_nesting (Message m) = nesting m"
| "field_nesting (Array n t) = field_nesting t"
| "field_nesting (Sequence b t) = field_nesting t"
| "field_nesting (Pointer t) = field_nesting t"
| "field_nesting (Primitive c) = 0"
| "field_nesting (Text b) = 0"
| "field_nesting (Wide_text b) = 0"

text \<open>Whether a message needs memory beside its struct: strings and sequences do.\<close>

fun owns_memory :: "mtype \<Rightarrow> bool" and field_owns_memory :: "ftype \<Rightarrow> bool" where
  "owns_memory (Interface n ms) \<longleftrightarrow> list_ex (\<lambda>m. field_owns_memory (snd m)) ms"
| "field_owns_memory (Message m) \<longleftrightarrow> owns_memory m"
| "field_owns_memory (Array n t) \<longleftrightarrow> field_owns_memory t"
| "field_owns_memory (Sequence b t) \<longleftrightarrow> True"
| "field_owns_memory (Pointer t) \<longleftrightarrow> True"
| "field_owns_memory (Primitive c) \<longleftrightarrow> False"
| "field_owns_memory (Text b) \<longleftrightarrow> True"
| "field_owns_memory (Wide_text b) \<longleftrightarrow> True"

text \<open>An interface with other names for itself and the interfaces in it.\<close>

fun renamed :: "(string \<Rightarrow> string) \<Rightarrow> mtype \<Rightarrow> mtype" and field_renamed :: "(string \<Rightarrow> string) \<Rightarrow> ftype \<Rightarrow> ftype" where
  "renamed f (Interface n ms) = Interface (f n) (map (\<lambda>m. (fst m, field_renamed f (snd m))) ms)"
| "field_renamed f (Message m) = Message (renamed f m)"
| "field_renamed f (Array n t) = Array n (field_renamed f t)"
| "field_renamed f (Sequence b t) = Sequence b (field_renamed f t)"
| "field_renamed f (Pointer t) = Pointer (field_renamed f t)"
| "field_renamed f (Primitive c) = Primitive c"
| "field_renamed f (Text b) = Text b"
| "field_renamed f (Wide_text b) = Wide_text b"

end
