(* ===== verification/Interfaces_Basic.thy ===== *)
theory Interfaces_Basic
  imports Interface_Types
begin

text \<open>
  The interfaces of the packages every client builds on: times, identifiers, the standard messages and services,
  parameters, the life cycle, type descriptions and the examples, from the headers \<^verbatim>\<open>*__struct.h\<close> of each package.
\<close>

subsection \<open>Package builtin interfaces\<close>

definition builtin_interfaces__msg__Duration__struct :: mtype where [struct_defs]:
  "builtin_interfaces__msg__Duration__struct = Interface ''builtin_interfaces__msg__Duration''
     [(''sec'', Primitive C_int32), (''nanosec'', Primitive C_uint32)]"

definition builtin_interfaces__msg__Time__struct :: mtype where [struct_defs]:
  "builtin_interfaces__msg__Time__struct = Interface ''builtin_interfaces__msg__Time''
     [(''sec'', Primitive C_int32), (''nanosec'', Primitive C_uint32)]"

subsection \<open>Package unique identifier msgs\<close>

definition unique_identifier_msgs__msg__UUID__struct :: mtype where [struct_defs]:
  "unique_identifier_msgs__msg__UUID__struct = Interface ''unique_identifier_msgs__msg__UUID''
     [(''uuid'', Array 16 (Primitive C_uint8))]"

subsection \<open>Package service msgs\<close>

definition service_msgs__msg__ServiceEventInfo__struct :: mtype where [struct_defs]:
  "service_msgs__msg__ServiceEventInfo__struct = Interface ''service_msgs__msg__ServiceEventInfo''
     [(''event_type'', Primitive C_uint8), (''stamp'', Message builtin_interfaces__msg__Time__struct),
      (''client_gid'', Array 16 (Primitive C_uint8)), (''sequence_number'', Primitive C_int64)]"

subsection \<open>Package std msgs\<close>

definition std_msgs__msg__Bool__struct :: mtype where [struct_defs]:
  "std_msgs__msg__Bool__struct = Interface ''std_msgs__msg__Bool''
     [(''data'', Primitive C_bool)]"

definition std_msgs__msg__Byte__struct :: mtype where [struct_defs]:
  "std_msgs__msg__Byte__struct = Interface ''std_msgs__msg__Byte''
     [(''data'', Primitive C_uint8)]"

definition std_msgs__msg__MultiArrayDimension__struct :: mtype where [struct_defs]:
  "std_msgs__msg__MultiArrayDimension__struct = Interface ''std_msgs__msg__MultiArrayDimension''
     [(''label'', Text None), (''size'', Primitive C_uint32), (''stride'', Primitive C_uint32)]"

definition std_msgs__msg__MultiArrayLayout__struct :: mtype where [struct_defs]:
  "std_msgs__msg__MultiArrayLayout__struct = Interface ''std_msgs__msg__MultiArrayLayout''
     [(''dim'', Sequence None (Message std_msgs__msg__MultiArrayDimension__struct)),
      (''data_offset'', Primitive C_uint32)]"

definition std_msgs__msg__ByteMultiArray__struct :: mtype where [struct_defs]:
  "std_msgs__msg__ByteMultiArray__struct = Interface ''std_msgs__msg__ByteMultiArray''
     [(''layout'', Message std_msgs__msg__MultiArrayLayout__struct),
      (''data'', Sequence None (Primitive C_uint8))]"

definition std_msgs__msg__Char__struct :: mtype where [struct_defs]:
  "std_msgs__msg__Char__struct = Interface ''std_msgs__msg__Char''
     [(''data'', Primitive C_uint8)]"

definition std_msgs__msg__ColorRGBA__struct :: mtype where [struct_defs]:
  "std_msgs__msg__ColorRGBA__struct = Interface ''std_msgs__msg__ColorRGBA''
     [(''r'', Primitive C_float), (''g'', Primitive C_float), (''b'', Primitive C_float),
      (''a'', Primitive C_float)]"

definition std_msgs__msg__Empty__struct :: mtype where [struct_defs]:
  "std_msgs__msg__Empty__struct = Interface ''std_msgs__msg__Empty''
     [(''structure_needs_at_least_one_member'', Primitive C_uint8)]"

definition std_msgs__msg__Float32__struct :: mtype where [struct_defs]:
  "std_msgs__msg__Float32__struct = Interface ''std_msgs__msg__Float32''
     [(''data'', Primitive C_float)]"

definition std_msgs__msg__Float32MultiArray__struct :: mtype where [struct_defs]:
  "std_msgs__msg__Float32MultiArray__struct = Interface ''std_msgs__msg__Float32MultiArray''
     [(''layout'', Message std_msgs__msg__MultiArrayLayout__struct),
      (''data'', Sequence None (Primitive C_float))]"

definition std_msgs__msg__Float64__struct :: mtype where [struct_defs]:
  "std_msgs__msg__Float64__struct = Interface ''std_msgs__msg__Float64''
     [(''data'', Primitive C_double)]"

definition std_msgs__msg__Float64MultiArray__struct :: mtype where [struct_defs]:
  "std_msgs__msg__Float64MultiArray__struct = Interface ''std_msgs__msg__Float64MultiArray''
     [(''layout'', Message std_msgs__msg__MultiArrayLayout__struct),
      (''data'', Sequence None (Primitive C_double))]"

definition std_msgs__msg__Header__struct :: mtype where [struct_defs]:
  "std_msgs__msg__Header__struct = Interface ''std_msgs__msg__Header''
     [(''stamp'', Message builtin_interfaces__msg__Time__struct), (''frame_id'', Text None)]"

definition std_msgs__msg__Int16__struct :: mtype where [struct_defs]:
  "std_msgs__msg__Int16__struct = Interface ''std_msgs__msg__Int16''
     [(''data'', Primitive C_int16)]"

definition std_msgs__msg__Int16MultiArray__struct :: mtype where [struct_defs]:
  "std_msgs__msg__Int16MultiArray__struct = Interface ''std_msgs__msg__Int16MultiArray''
     [(''layout'', Message std_msgs__msg__MultiArrayLayout__struct),
      (''data'', Sequence None (Primitive C_int16))]"

definition std_msgs__msg__Int32__struct :: mtype where [struct_defs]:
  "std_msgs__msg__Int32__struct = Interface ''std_msgs__msg__Int32''
     [(''data'', Primitive C_int32)]"

definition std_msgs__msg__Int32MultiArray__struct :: mtype where [struct_defs]:
  "std_msgs__msg__Int32MultiArray__struct = Interface ''std_msgs__msg__Int32MultiArray''
     [(''layout'', Message std_msgs__msg__MultiArrayLayout__struct),
      (''data'', Sequence None (Primitive C_int32))]"

definition std_msgs__msg__Int64__struct :: mtype where [struct_defs]:
  "std_msgs__msg__Int64__struct = Interface ''std_msgs__msg__Int64''
     [(''data'', Primitive C_int64)]"

definition std_msgs__msg__Int64MultiArray__struct :: mtype where [struct_defs]:
  "std_msgs__msg__Int64MultiArray__struct = Interface ''std_msgs__msg__Int64MultiArray''
     [(''layout'', Message std_msgs__msg__MultiArrayLayout__struct),
      (''data'', Sequence None (Primitive C_int64))]"

definition std_msgs__msg__Int8__struct :: mtype where [struct_defs]:
  "std_msgs__msg__Int8__struct = Interface ''std_msgs__msg__Int8''
     [(''data'', Primitive C_int8)]"

definition std_msgs__msg__Int8MultiArray__struct :: mtype where [struct_defs]:
  "std_msgs__msg__Int8MultiArray__struct = Interface ''std_msgs__msg__Int8MultiArray''
     [(''layout'', Message std_msgs__msg__MultiArrayLayout__struct),
      (''data'', Sequence None (Primitive C_int8))]"

definition std_msgs__msg__String__struct :: mtype where [struct_defs]:
  "std_msgs__msg__String__struct = Interface ''std_msgs__msg__String''
     [(''data'', Text None)]"

definition std_msgs__msg__UInt16__struct :: mtype where [struct_defs]:
  "std_msgs__msg__UInt16__struct = Interface ''std_msgs__msg__UInt16''
     [(''data'', Primitive C_uint16)]"

definition std_msgs__msg__UInt16MultiArray__struct :: mtype where [struct_defs]:
  "std_msgs__msg__UInt16MultiArray__struct = Interface ''std_msgs__msg__UInt16MultiArray''
     [(''layout'', Message std_msgs__msg__MultiArrayLayout__struct),
      (''data'', Sequence None (Primitive C_uint16))]"

definition std_msgs__msg__UInt32__struct :: mtype where [struct_defs]:
  "std_msgs__msg__UInt32__struct = Interface ''std_msgs__msg__UInt32''
     [(''data'', Primitive C_uint32)]"

definition std_msgs__msg__UInt32MultiArray__struct :: mtype where [struct_defs]:
  "std_msgs__msg__UInt32MultiArray__struct = Interface ''std_msgs__msg__UInt32MultiArray''
     [(''layout'', Message std_msgs__msg__MultiArrayLayout__struct),
      (''data'', Sequence None (Primitive C_uint32))]"

definition std_msgs__msg__UInt64__struct :: mtype where [struct_defs]:
  "std_msgs__msg__UInt64__struct = Interface ''std_msgs__msg__UInt64''
     [(''data'', Primitive C_uint64)]"

definition std_msgs__msg__UInt64MultiArray__struct :: mtype where [struct_defs]:
  "std_msgs__msg__UInt64MultiArray__struct = Interface ''std_msgs__msg__UInt64MultiArray''
     [(''layout'', Message std_msgs__msg__MultiArrayLayout__struct),
      (''data'', Sequence None (Primitive C_uint64))]"

definition std_msgs__msg__UInt8__struct :: mtype where [struct_defs]:
  "std_msgs__msg__UInt8__struct = Interface ''std_msgs__msg__UInt8''
     [(''data'', Primitive C_uint8)]"

definition std_msgs__msg__UInt8MultiArray__struct :: mtype where [struct_defs]:
  "std_msgs__msg__UInt8MultiArray__struct = Interface ''std_msgs__msg__UInt8MultiArray''
     [(''layout'', Message std_msgs__msg__MultiArrayLayout__struct),
      (''data'', Sequence None (Primitive C_uint8))]"

subsection \<open>Package std srvs\<close>

definition std_srvs__srv__Empty_Request__struct :: mtype where [struct_defs]:
  "std_srvs__srv__Empty_Request__struct = Interface ''std_srvs__srv__Empty_Request''
     [(''structure_needs_at_least_one_member'', Primitive C_uint8)]"

definition std_srvs__srv__Empty_Response__struct :: mtype where [struct_defs]:
  "std_srvs__srv__Empty_Response__struct = Interface ''std_srvs__srv__Empty_Response''
     [(''structure_needs_at_least_one_member'', Primitive C_uint8)]"

definition std_srvs__srv__Empty_Event__struct :: mtype where [struct_defs]:
  "std_srvs__srv__Empty_Event__struct = Interface ''std_srvs__srv__Empty_Event''
     [(''info'', Message service_msgs__msg__ServiceEventInfo__struct),
      (''request'', Sequence (Some 1) (Message std_srvs__srv__Empty_Request__struct)),
      (''response'', Sequence (Some 1) (Message std_srvs__srv__Empty_Response__struct))]"

definition std_srvs__srv__SetBool_Request__struct :: mtype where [struct_defs]:
  "std_srvs__srv__SetBool_Request__struct = Interface ''std_srvs__srv__SetBool_Request''
     [(''data'', Primitive C_bool)]"

definition std_srvs__srv__SetBool_Response__struct :: mtype where [struct_defs]:
  "std_srvs__srv__SetBool_Response__struct = Interface ''std_srvs__srv__SetBool_Response''
     [(''success'', Primitive C_bool), (''message'', Text None)]"

definition std_srvs__srv__SetBool_Event__struct :: mtype where [struct_defs]:
  "std_srvs__srv__SetBool_Event__struct = Interface ''std_srvs__srv__SetBool_Event''
     [(''info'', Message service_msgs__msg__ServiceEventInfo__struct),
      (''request'', Sequence (Some 1) (Message std_srvs__srv__SetBool_Request__struct)),
      (''response'', Sequence (Some 1) (Message std_srvs__srv__SetBool_Response__struct))]"

definition std_srvs__srv__Trigger_Request__struct :: mtype where [struct_defs]:
  "std_srvs__srv__Trigger_Request__struct = Interface ''std_srvs__srv__Trigger_Request''
     [(''structure_needs_at_least_one_member'', Primitive C_uint8)]"

definition std_srvs__srv__Trigger_Response__struct :: mtype where [struct_defs]:
  "std_srvs__srv__Trigger_Response__struct = Interface ''std_srvs__srv__Trigger_Response''
     [(''success'', Primitive C_bool), (''message'', Text None)]"

definition std_srvs__srv__Trigger_Event__struct :: mtype where [struct_defs]:
  "std_srvs__srv__Trigger_Event__struct = Interface ''std_srvs__srv__Trigger_Event''
     [(''info'', Message service_msgs__msg__ServiceEventInfo__struct),
      (''request'', Sequence (Some 1) (Message std_srvs__srv__Trigger_Request__struct)),
      (''response'', Sequence (Some 1) (Message std_srvs__srv__Trigger_Response__struct))]"

subsection \<open>Package rosgraph msgs\<close>

definition rosgraph_msgs__msg__Clock__struct :: mtype where [struct_defs]:
  "rosgraph_msgs__msg__Clock__struct = Interface ''rosgraph_msgs__msg__Clock''
     [(''clock'', Message builtin_interfaces__msg__Time__struct)]"

subsection \<open>Package statistics msgs\<close>

definition statistics_msgs__msg__StatisticDataPoint__struct :: mtype where [struct_defs]:
  "statistics_msgs__msg__StatisticDataPoint__struct = Interface ''statistics_msgs__msg__StatisticDataPoint''
     [(''data_type'', Primitive C_uint8), (''data'', Primitive C_double)]"

definition statistics_msgs__msg__MetricsMessage__struct :: mtype where [struct_defs]:
  "statistics_msgs__msg__MetricsMessage__struct = Interface ''statistics_msgs__msg__MetricsMessage''
     [(''measurement_source_name'', Text None), (''metrics_source'', Text None), (''unit'', Text None),
      (''window_start'', Message builtin_interfaces__msg__Time__struct),
      (''window_stop'', Message builtin_interfaces__msg__Time__struct),
      (''statistics'', Sequence None (Message statistics_msgs__msg__StatisticDataPoint__struct))]"

definition statistics_msgs__msg__StatisticDataType__struct :: mtype where [struct_defs]:
  "statistics_msgs__msg__StatisticDataType__struct = Interface ''statistics_msgs__msg__StatisticDataType''
     [(''structure_needs_at_least_one_member'', Primitive C_uint8)]"

subsection \<open>Package micro ros msgs\<close>

definition micro_ros_msgs__msg__Entity__struct :: mtype where [struct_defs]:
  "micro_ros_msgs__msg__Entity__struct = Interface ''micro_ros_msgs__msg__Entity''
     [(''entity_type'', Primitive C_uint8), (''name'', Text (Some 256)),
      (''types'', Sequence None (Text (Some 256)))]"

definition micro_ros_msgs__msg__Node__struct :: mtype where [struct_defs]:
  "micro_ros_msgs__msg__Node__struct = Interface ''micro_ros_msgs__msg__Node''
     [(''node_namespace'', Text (Some 256)), (''node_name'', Text (Some 256)),
      (''entities'', Sequence None (Message micro_ros_msgs__msg__Entity__struct))]"

definition micro_ros_msgs__msg__Graph__struct :: mtype where [struct_defs]:
  "micro_ros_msgs__msg__Graph__struct = Interface ''micro_ros_msgs__msg__Graph''
     [(''nodes'', Sequence None (Message micro_ros_msgs__msg__Node__struct))]"

subsection \<open>Package action msgs\<close>

definition action_msgs__msg__GoalInfo__struct :: mtype where [struct_defs]:
  "action_msgs__msg__GoalInfo__struct = Interface ''action_msgs__msg__GoalInfo''
     [(''goal_id'', Message unique_identifier_msgs__msg__UUID__struct),
      (''stamp'', Message builtin_interfaces__msg__Time__struct)]"

definition action_msgs__msg__GoalStatus__struct :: mtype where [struct_defs]:
  "action_msgs__msg__GoalStatus__struct = Interface ''action_msgs__msg__GoalStatus''
     [(''goal_info'', Message action_msgs__msg__GoalInfo__struct), (''status'', Primitive C_int8)]"

definition action_msgs__msg__GoalStatusArray__struct :: mtype where [struct_defs]:
  "action_msgs__msg__GoalStatusArray__struct = Interface ''action_msgs__msg__GoalStatusArray''
     [(''status_list'', Sequence None (Message action_msgs__msg__GoalStatus__struct))]"

definition action_msgs__srv__CancelGoal_Request__struct :: mtype where [struct_defs]:
  "action_msgs__srv__CancelGoal_Request__struct = Interface ''action_msgs__srv__CancelGoal_Request''
     [(''goal_info'', Message action_msgs__msg__GoalInfo__struct)]"

definition action_msgs__srv__CancelGoal_Response__struct :: mtype where [struct_defs]:
  "action_msgs__srv__CancelGoal_Response__struct = Interface ''action_msgs__srv__CancelGoal_Response''
     [(''return_code'', Primitive C_int8),
      (''goals_canceling'', Sequence None (Message action_msgs__msg__GoalInfo__struct))]"

definition action_msgs__srv__CancelGoal_Event__struct :: mtype where [struct_defs]:
  "action_msgs__srv__CancelGoal_Event__struct = Interface ''action_msgs__srv__CancelGoal_Event''
     [(''info'', Message service_msgs__msg__ServiceEventInfo__struct),
      (''request'', Sequence (Some 1) (Message action_msgs__srv__CancelGoal_Request__struct)),
      (''response'', Sequence (Some 1) (Message action_msgs__srv__CancelGoal_Response__struct))]"

subsection \<open>Package lifecycle msgs\<close>

definition lifecycle_msgs__msg__State__struct :: mtype where [struct_defs]:
  "lifecycle_msgs__msg__State__struct = Interface ''lifecycle_msgs__msg__State''
     [(''id'', Primitive C_uint8), (''label'', Text None)]"

definition lifecycle_msgs__msg__Transition__struct :: mtype where [struct_defs]:
  "lifecycle_msgs__msg__Transition__struct = Interface ''lifecycle_msgs__msg__Transition''
     [(''id'', Primitive C_uint8), (''label'', Text None)]"

definition lifecycle_msgs__msg__TransitionDescription__struct :: mtype where [struct_defs]:
  "lifecycle_msgs__msg__TransitionDescription__struct = Interface ''lifecycle_msgs__msg__TransitionDescription''
     [(''transition'', Message lifecycle_msgs__msg__Transition__struct),
      (''start_state'', Message lifecycle_msgs__msg__State__struct),
      (''goal_state'', Message lifecycle_msgs__msg__State__struct)]"

definition lifecycle_msgs__msg__TransitionEvent__struct :: mtype where [struct_defs]:
  "lifecycle_msgs__msg__TransitionEvent__struct = Interface ''lifecycle_msgs__msg__TransitionEvent''
     [(''timestamp'', Primitive C_uint64), (''transition'', Message lifecycle_msgs__msg__Transition__struct),
      (''start_state'', Message lifecycle_msgs__msg__State__struct),
      (''goal_state'', Message lifecycle_msgs__msg__State__struct)]"

definition lifecycle_msgs__srv__ChangeState_Request__struct :: mtype where [struct_defs]:
  "lifecycle_msgs__srv__ChangeState_Request__struct = Interface ''lifecycle_msgs__srv__ChangeState_Request''
     [(''transition'', Message lifecycle_msgs__msg__Transition__struct)]"

definition lifecycle_msgs__srv__ChangeState_Response__struct :: mtype where [struct_defs]:
  "lifecycle_msgs__srv__ChangeState_Response__struct = Interface ''lifecycle_msgs__srv__ChangeState_Response''
     [(''success'', Primitive C_bool)]"

definition lifecycle_msgs__srv__ChangeState_Event__struct :: mtype where [struct_defs]:
  "lifecycle_msgs__srv__ChangeState_Event__struct = Interface ''lifecycle_msgs__srv__ChangeState_Event''
     [(''info'', Message service_msgs__msg__ServiceEventInfo__struct),
      (''request'', Sequence (Some 1) (Message lifecycle_msgs__srv__ChangeState_Request__struct)),
      (''response'', Sequence (Some 1) (Message lifecycle_msgs__srv__ChangeState_Response__struct))]"

definition lifecycle_msgs__srv__GetAvailableStates_Request__struct :: mtype where [struct_defs]:
  "lifecycle_msgs__srv__GetAvailableStates_Request__struct = Interface ''lifecycle_msgs__srv__GetAvailableStates_Request''
     [(''structure_needs_at_least_one_member'', Primitive C_uint8)]"

definition lifecycle_msgs__srv__GetAvailableStates_Response__struct :: mtype where [struct_defs]:
  "lifecycle_msgs__srv__GetAvailableStates_Response__struct = Interface ''lifecycle_msgs__srv__GetAvailableStates_Response''
     [(''available_states'', Sequence None (Message lifecycle_msgs__msg__State__struct))]"

definition lifecycle_msgs__srv__GetAvailableStates_Event__struct :: mtype where [struct_defs]:
  "lifecycle_msgs__srv__GetAvailableStates_Event__struct = Interface ''lifecycle_msgs__srv__GetAvailableStates_Event''
     [(''info'', Message service_msgs__msg__ServiceEventInfo__struct),
      (''request'', Sequence (Some 1) (Message lifecycle_msgs__srv__GetAvailableStates_Request__struct)),
      (''response'', Sequence (Some 1) (Message lifecycle_msgs__srv__GetAvailableStates_Response__struct))]"

definition lifecycle_msgs__srv__GetAvailableTransitions_Request__struct :: mtype where [struct_defs]:
  "lifecycle_msgs__srv__GetAvailableTransitions_Request__struct = Interface ''lifecycle_msgs__srv__GetAvailableTransitions_Request''
     [(''structure_needs_at_least_one_member'', Primitive C_uint8)]"

definition lifecycle_msgs__srv__GetAvailableTransitions_Response__struct :: mtype where [struct_defs]:
  "lifecycle_msgs__srv__GetAvailableTransitions_Response__struct = Interface ''lifecycle_msgs__srv__GetAvailableTransitions_Response''
     [(''available_transitions'', Sequence None (Message lifecycle_msgs__msg__TransitionDescription__struct))]"

definition lifecycle_msgs__srv__GetAvailableTransitions_Event__struct :: mtype where [struct_defs]:
  "lifecycle_msgs__srv__GetAvailableTransitions_Event__struct = Interface ''lifecycle_msgs__srv__GetAvailableTransitions_Event''
     [(''info'', Message service_msgs__msg__ServiceEventInfo__struct),
      (''request'', Sequence (Some 1) (Message lifecycle_msgs__srv__GetAvailableTransitions_Request__struct)),
      (''response'', Sequence (Some 1) (Message lifecycle_msgs__srv__GetAvailableTransitions_Response__struct))]"

definition lifecycle_msgs__srv__GetState_Request__struct :: mtype where [struct_defs]:
  "lifecycle_msgs__srv__GetState_Request__struct = Interface ''lifecycle_msgs__srv__GetState_Request''
     [(''structure_needs_at_least_one_member'', Primitive C_uint8)]"

definition lifecycle_msgs__srv__GetState_Response__struct :: mtype where [struct_defs]:
  "lifecycle_msgs__srv__GetState_Response__struct = Interface ''lifecycle_msgs__srv__GetState_Response''
     [(''current_state'', Message lifecycle_msgs__msg__State__struct)]"

definition lifecycle_msgs__srv__GetState_Event__struct :: mtype where [struct_defs]:
  "lifecycle_msgs__srv__GetState_Event__struct = Interface ''lifecycle_msgs__srv__GetState_Event''
     [(''info'', Message service_msgs__msg__ServiceEventInfo__struct),
      (''request'', Sequence (Some 1) (Message lifecycle_msgs__srv__GetState_Request__struct)),
      (''response'', Sequence (Some 1) (Message lifecycle_msgs__srv__GetState_Response__struct))]"

subsection \<open>Package rcl interfaces\<close>

definition rcl_interfaces__msg__FloatingPointRange__struct :: mtype where [struct_defs]:
  "rcl_interfaces__msg__FloatingPointRange__struct = Interface ''rcl_interfaces__msg__FloatingPointRange''
     [(''from_value'', Primitive C_double), (''to_value'', Primitive C_double), (''step'', Primitive C_double)]"

definition rcl_interfaces__msg__IntegerRange__struct :: mtype where [struct_defs]:
  "rcl_interfaces__msg__IntegerRange__struct = Interface ''rcl_interfaces__msg__IntegerRange''
     [(''from_value'', Primitive C_int64), (''to_value'', Primitive C_int64), (''step'', Primitive C_uint64)]"

definition rcl_interfaces__msg__ListParametersResult__struct :: mtype where [struct_defs]:
  "rcl_interfaces__msg__ListParametersResult__struct = Interface ''rcl_interfaces__msg__ListParametersResult''
     [(''names'', Sequence None (Text None)), (''prefixes'', Sequence None (Text None))]"

definition rcl_interfaces__msg__Log__struct :: mtype where [struct_defs]:
  "rcl_interfaces__msg__Log__struct = Interface ''rcl_interfaces__msg__Log''
     [(''stamp'', Message builtin_interfaces__msg__Time__struct), (''level'', Primitive C_uint8),
      (''name'', Text None), (''msg'', Text None), (''file'', Text None), (''function'', Text None),
      (''line'', Primitive C_uint32)]"

definition rcl_interfaces__msg__LoggerLevel__struct :: mtype where [struct_defs]:
  "rcl_interfaces__msg__LoggerLevel__struct = Interface ''rcl_interfaces__msg__LoggerLevel''
     [(''name'', Text None), (''level'', Primitive C_uint32)]"

definition rcl_interfaces__msg__ParameterValue__struct :: mtype where [struct_defs]:
  "rcl_interfaces__msg__ParameterValue__struct = Interface ''rcl_interfaces__msg__ParameterValue''
     [(''type'', Primitive C_uint8), (''bool_value'', Primitive C_bool), (''integer_value'', Primitive C_int64),
      (''double_value'', Primitive C_double), (''string_value'', Text None),
      (''byte_array_value'', Sequence None (Primitive C_uint8)),
      (''bool_array_value'', Sequence None (Primitive C_bool)),
      (''integer_array_value'', Sequence None (Primitive C_int64)),
      (''double_array_value'', Sequence None (Primitive C_double)),
      (''string_array_value'', Sequence None (Text None))]"

definition rcl_interfaces__msg__Parameter__struct :: mtype where [struct_defs]:
  "rcl_interfaces__msg__Parameter__struct = Interface ''rcl_interfaces__msg__Parameter''
     [(''name'', Text None), (''value'', Message rcl_interfaces__msg__ParameterValue__struct)]"

definition rcl_interfaces__msg__ParameterDescriptor__struct :: mtype where [struct_defs]:
  "rcl_interfaces__msg__ParameterDescriptor__struct = Interface ''rcl_interfaces__msg__ParameterDescriptor''
     [(''name'', Text None), (''type'', Primitive C_uint8), (''description'', Text None),
      (''additional_constraints'', Text None), (''read_only'', Primitive C_bool),
      (''dynamic_typing'', Primitive C_bool),
      (''floating_point_range'', Sequence (Some 1) (Message rcl_interfaces__msg__FloatingPointRange__struct)),
      (''integer_range'', Sequence (Some 1) (Message rcl_interfaces__msg__IntegerRange__struct))]"

definition rcl_interfaces__msg__ParameterEvent__struct :: mtype where [struct_defs]:
  "rcl_interfaces__msg__ParameterEvent__struct = Interface ''rcl_interfaces__msg__ParameterEvent''
     [(''stamp'', Message builtin_interfaces__msg__Time__struct), (''node'', Text None),
      (''new_parameters'', Sequence None (Message rcl_interfaces__msg__Parameter__struct)),
      (''changed_parameters'', Sequence None (Message rcl_interfaces__msg__Parameter__struct)),
      (''deleted_parameters'', Sequence None (Message rcl_interfaces__msg__Parameter__struct))]"

definition rcl_interfaces__msg__ParameterEventDescriptors__struct :: mtype where [struct_defs]:
  "rcl_interfaces__msg__ParameterEventDescriptors__struct = Interface ''rcl_interfaces__msg__ParameterEventDescriptors''
     [(''new_parameters'', Sequence None (Message rcl_interfaces__msg__ParameterDescriptor__struct)),
      (''changed_parameters'', Sequence None (Message rcl_interfaces__msg__ParameterDescriptor__struct)),
      (''deleted_parameters'', Sequence None (Message rcl_interfaces__msg__ParameterDescriptor__struct))]"

definition rcl_interfaces__msg__ParameterType__struct :: mtype where [struct_defs]:
  "rcl_interfaces__msg__ParameterType__struct = Interface ''rcl_interfaces__msg__ParameterType''
     [(''structure_needs_at_least_one_member'', Primitive C_uint8)]"

definition rcl_interfaces__msg__SetLoggerLevelsResult__struct :: mtype where [struct_defs]:
  "rcl_interfaces__msg__SetLoggerLevelsResult__struct = Interface ''rcl_interfaces__msg__SetLoggerLevelsResult''
     [(''successful'', Primitive C_bool), (''reason'', Text None)]"

definition rcl_interfaces__msg__SetParametersResult__struct :: mtype where [struct_defs]:
  "rcl_interfaces__msg__SetParametersResult__struct = Interface ''rcl_interfaces__msg__SetParametersResult''
     [(''successful'', Primitive C_bool), (''reason'', Text None)]"

definition rcl_interfaces__srv__DescribeParameters_Request__struct :: mtype where [struct_defs]:
  "rcl_interfaces__srv__DescribeParameters_Request__struct = Interface ''rcl_interfaces__srv__DescribeParameters_Request''
     [(''names'', Sequence None (Text None))]"

definition rcl_interfaces__srv__DescribeParameters_Response__struct :: mtype where [struct_defs]:
  "rcl_interfaces__srv__DescribeParameters_Response__struct = Interface ''rcl_interfaces__srv__DescribeParameters_Response''
     [(''descriptors'', Sequence None (Message rcl_interfaces__msg__ParameterDescriptor__struct))]"

definition rcl_interfaces__srv__DescribeParameters_Event__struct :: mtype where [struct_defs]:
  "rcl_interfaces__srv__DescribeParameters_Event__struct = Interface ''rcl_interfaces__srv__DescribeParameters_Event''
     [(''info'', Message service_msgs__msg__ServiceEventInfo__struct),
      (''request'', Sequence (Some 1) (Message rcl_interfaces__srv__DescribeParameters_Request__struct)),
      (''response'', Sequence (Some 1) (Message rcl_interfaces__srv__DescribeParameters_Response__struct))]"

definition rcl_interfaces__srv__GetLoggerLevels_Request__struct :: mtype where [struct_defs]:
  "rcl_interfaces__srv__GetLoggerLevels_Request__struct = Interface ''rcl_interfaces__srv__GetLoggerLevels_Request''
     [(''names'', Sequence None (Text None))]"

definition rcl_interfaces__srv__GetLoggerLevels_Response__struct :: mtype where [struct_defs]:
  "rcl_interfaces__srv__GetLoggerLevels_Response__struct = Interface ''rcl_interfaces__srv__GetLoggerLevels_Response''
     [(''levels'', Sequence None (Message rcl_interfaces__msg__LoggerLevel__struct))]"

definition rcl_interfaces__srv__GetLoggerLevels_Event__struct :: mtype where [struct_defs]:
  "rcl_interfaces__srv__GetLoggerLevels_Event__struct = Interface ''rcl_interfaces__srv__GetLoggerLevels_Event''
     [(''info'', Message service_msgs__msg__ServiceEventInfo__struct),
      (''request'', Sequence (Some 1) (Message rcl_interfaces__srv__GetLoggerLevels_Request__struct)),
      (''response'', Sequence (Some 1) (Message rcl_interfaces__srv__GetLoggerLevels_Response__struct))]"

definition rcl_interfaces__srv__GetParameterTypes_Request__struct :: mtype where [struct_defs]:
  "rcl_interfaces__srv__GetParameterTypes_Request__struct = Interface ''rcl_interfaces__srv__GetParameterTypes_Request''
     [(''names'', Sequence None (Text None))]"

definition rcl_interfaces__srv__GetParameterTypes_Response__struct :: mtype where [struct_defs]:
  "rcl_interfaces__srv__GetParameterTypes_Response__struct = Interface ''rcl_interfaces__srv__GetParameterTypes_Response''
     [(''types'', Sequence None (Primitive C_uint8))]"

definition rcl_interfaces__srv__GetParameterTypes_Event__struct :: mtype where [struct_defs]:
  "rcl_interfaces__srv__GetParameterTypes_Event__struct = Interface ''rcl_interfaces__srv__GetParameterTypes_Event''
     [(''info'', Message service_msgs__msg__ServiceEventInfo__struct),
      (''request'', Sequence (Some 1) (Message rcl_interfaces__srv__GetParameterTypes_Request__struct)),
      (''response'', Sequence (Some 1) (Message rcl_interfaces__srv__GetParameterTypes_Response__struct))]"

definition rcl_interfaces__srv__GetParameters_Request__struct :: mtype where [struct_defs]:
  "rcl_interfaces__srv__GetParameters_Request__struct = Interface ''rcl_interfaces__srv__GetParameters_Request''
     [(''names'', Sequence None (Text None))]"

definition rcl_interfaces__srv__GetParameters_Response__struct :: mtype where [struct_defs]:
  "rcl_interfaces__srv__GetParameters_Response__struct = Interface ''rcl_interfaces__srv__GetParameters_Response''
     [(''values'', Sequence None (Message rcl_interfaces__msg__ParameterValue__struct))]"

definition rcl_interfaces__srv__GetParameters_Event__struct :: mtype where [struct_defs]:
  "rcl_interfaces__srv__GetParameters_Event__struct = Interface ''rcl_interfaces__srv__GetParameters_Event''
     [(''info'', Message service_msgs__msg__ServiceEventInfo__struct),
      (''request'', Sequence (Some 1) (Message rcl_interfaces__srv__GetParameters_Request__struct)),
      (''response'', Sequence (Some 1) (Message rcl_interfaces__srv__GetParameters_Response__struct))]"

definition rcl_interfaces__srv__ListParameters_Request__struct :: mtype where [struct_defs]:
  "rcl_interfaces__srv__ListParameters_Request__struct = Interface ''rcl_interfaces__srv__ListParameters_Request''
     [(''prefixes'', Sequence None (Text None)), (''depth'', Primitive C_uint64)]"

definition rcl_interfaces__srv__ListParameters_Response__struct :: mtype where [struct_defs]:
  "rcl_interfaces__srv__ListParameters_Response__struct = Interface ''rcl_interfaces__srv__ListParameters_Response''
     [(''result'', Message rcl_interfaces__msg__ListParametersResult__struct)]"

definition rcl_interfaces__srv__ListParameters_Event__struct :: mtype where [struct_defs]:
  "rcl_interfaces__srv__ListParameters_Event__struct = Interface ''rcl_interfaces__srv__ListParameters_Event''
     [(''info'', Message service_msgs__msg__ServiceEventInfo__struct),
      (''request'', Sequence (Some 1) (Message rcl_interfaces__srv__ListParameters_Request__struct)),
      (''response'', Sequence (Some 1) (Message rcl_interfaces__srv__ListParameters_Response__struct))]"

definition rcl_interfaces__srv__SetLoggerLevels_Request__struct :: mtype where [struct_defs]:
  "rcl_interfaces__srv__SetLoggerLevels_Request__struct = Interface ''rcl_interfaces__srv__SetLoggerLevels_Request''
     [(''levels'', Sequence None (Message rcl_interfaces__msg__LoggerLevel__struct))]"

definition rcl_interfaces__srv__SetLoggerLevels_Response__struct :: mtype where [struct_defs]:
  "rcl_interfaces__srv__SetLoggerLevels_Response__struct = Interface ''rcl_interfaces__srv__SetLoggerLevels_Response''
     [(''results'', Sequence None (Message rcl_interfaces__msg__SetLoggerLevelsResult__struct))]"

definition rcl_interfaces__srv__SetLoggerLevels_Event__struct :: mtype where [struct_defs]:
  "rcl_interfaces__srv__SetLoggerLevels_Event__struct = Interface ''rcl_interfaces__srv__SetLoggerLevels_Event''
     [(''info'', Message service_msgs__msg__ServiceEventInfo__struct),
      (''request'', Sequence (Some 1) (Message rcl_interfaces__srv__SetLoggerLevels_Request__struct)),
      (''response'', Sequence (Some 1) (Message rcl_interfaces__srv__SetLoggerLevels_Response__struct))]"

definition rcl_interfaces__srv__SetParameters_Request__struct :: mtype where [struct_defs]:
  "rcl_interfaces__srv__SetParameters_Request__struct = Interface ''rcl_interfaces__srv__SetParameters_Request''
     [(''parameters'', Sequence None (Message rcl_interfaces__msg__Parameter__struct))]"

definition rcl_interfaces__srv__SetParameters_Response__struct :: mtype where [struct_defs]:
  "rcl_interfaces__srv__SetParameters_Response__struct = Interface ''rcl_interfaces__srv__SetParameters_Response''
     [(''results'', Sequence None (Message rcl_interfaces__msg__SetParametersResult__struct))]"

definition rcl_interfaces__srv__SetParameters_Event__struct :: mtype where [struct_defs]:
  "rcl_interfaces__srv__SetParameters_Event__struct = Interface ''rcl_interfaces__srv__SetParameters_Event''
     [(''info'', Message service_msgs__msg__ServiceEventInfo__struct),
      (''request'', Sequence (Some 1) (Message rcl_interfaces__srv__SetParameters_Request__struct)),
      (''response'', Sequence (Some 1) (Message rcl_interfaces__srv__SetParameters_Response__struct))]"

definition rcl_interfaces__srv__SetParametersAtomically_Request__struct :: mtype where [struct_defs]:
  "rcl_interfaces__srv__SetParametersAtomically_Request__struct = Interface ''rcl_interfaces__srv__SetParametersAtomically_Request''
     [(''parameters'', Sequence None (Message rcl_interfaces__msg__Parameter__struct))]"

definition rcl_interfaces__srv__SetParametersAtomically_Response__struct :: mtype where [struct_defs]:
  "rcl_interfaces__srv__SetParametersAtomically_Response__struct = Interface ''rcl_interfaces__srv__SetParametersAtomically_Response''
     [(''result'', Message rcl_interfaces__msg__SetParametersResult__struct)]"

definition rcl_interfaces__srv__SetParametersAtomically_Event__struct :: mtype where [struct_defs]:
  "rcl_interfaces__srv__SetParametersAtomically_Event__struct = Interface ''rcl_interfaces__srv__SetParametersAtomically_Event''
     [(''info'', Message service_msgs__msg__ServiceEventInfo__struct),
      (''request'', Sequence (Some 1) (Message rcl_interfaces__srv__SetParametersAtomically_Request__struct)),
      (''response'', Sequence (Some 1) (Message rcl_interfaces__srv__SetParametersAtomically_Response__struct))]"

subsection \<open>Package composition interfaces\<close>

definition composition_interfaces__srv__ListNodes_Request__struct :: mtype where [struct_defs]:
  "composition_interfaces__srv__ListNodes_Request__struct = Interface ''composition_interfaces__srv__ListNodes_Request''
     [(''structure_needs_at_least_one_member'', Primitive C_uint8)]"

definition composition_interfaces__srv__ListNodes_Response__struct :: mtype where [struct_defs]:
  "composition_interfaces__srv__ListNodes_Response__struct = Interface ''composition_interfaces__srv__ListNodes_Response''
     [(''full_node_names'', Sequence None (Text None)), (''unique_ids'', Sequence None (Primitive C_uint64))]"

definition composition_interfaces__srv__ListNodes_Event__struct :: mtype where [struct_defs]:
  "composition_interfaces__srv__ListNodes_Event__struct = Interface ''composition_interfaces__srv__ListNodes_Event''
     [(''info'', Message service_msgs__msg__ServiceEventInfo__struct),
      (''request'', Sequence (Some 1) (Message composition_interfaces__srv__ListNodes_Request__struct)),
      (''response'', Sequence (Some 1) (Message composition_interfaces__srv__ListNodes_Response__struct))]"

definition composition_interfaces__srv__LoadNode_Request__struct :: mtype where [struct_defs]:
  "composition_interfaces__srv__LoadNode_Request__struct = Interface ''composition_interfaces__srv__LoadNode_Request''
     [(''package_name'', Text None), (''plugin_name'', Text None), (''node_name'', Text None),
      (''node_namespace'', Text None), (''log_level'', Primitive C_uint8),
      (''remap_rules'', Sequence None (Text None)),
      (''parameters'', Sequence None (Message rcl_interfaces__msg__Parameter__struct)),
      (''extra_arguments'', Sequence None (Message rcl_interfaces__msg__Parameter__struct))]"

definition composition_interfaces__srv__LoadNode_Response__struct :: mtype where [struct_defs]:
  "composition_interfaces__srv__LoadNode_Response__struct = Interface ''composition_interfaces__srv__LoadNode_Response''
     [(''success'', Primitive C_bool), (''error_message'', Text None), (''full_node_name'', Text None),
      (''unique_id'', Primitive C_uint64)]"

definition composition_interfaces__srv__LoadNode_Event__struct :: mtype where [struct_defs]:
  "composition_interfaces__srv__LoadNode_Event__struct = Interface ''composition_interfaces__srv__LoadNode_Event''
     [(''info'', Message service_msgs__msg__ServiceEventInfo__struct),
      (''request'', Sequence (Some 1) (Message composition_interfaces__srv__LoadNode_Request__struct)),
      (''response'', Sequence (Some 1) (Message composition_interfaces__srv__LoadNode_Response__struct))]"

definition composition_interfaces__srv__UnloadNode_Request__struct :: mtype where [struct_defs]:
  "composition_interfaces__srv__UnloadNode_Request__struct = Interface ''composition_interfaces__srv__UnloadNode_Request''
     [(''unique_id'', Primitive C_uint64)]"

definition composition_interfaces__srv__UnloadNode_Response__struct :: mtype where [struct_defs]:
  "composition_interfaces__srv__UnloadNode_Response__struct = Interface ''composition_interfaces__srv__UnloadNode_Response''
     [(''success'', Primitive C_bool), (''error_message'', Text None)]"

definition composition_interfaces__srv__UnloadNode_Event__struct :: mtype where [struct_defs]:
  "composition_interfaces__srv__UnloadNode_Event__struct = Interface ''composition_interfaces__srv__UnloadNode_Event''
     [(''info'', Message service_msgs__msg__ServiceEventInfo__struct),
      (''request'', Sequence (Some 1) (Message composition_interfaces__srv__UnloadNode_Request__struct)),
      (''response'', Sequence (Some 1) (Message composition_interfaces__srv__UnloadNode_Response__struct))]"

subsection \<open>Package rosidl runtime c\<close>

definition rosidl_runtime_c__type_description__FieldType__struct :: mtype where [struct_defs]:
  "rosidl_runtime_c__type_description__FieldType__struct = Interface ''rosidl_runtime_c__type_description__FieldType''
     [(''type_id'', Primitive C_uint8), (''capacity'', Primitive C_uint64),
      (''string_capacity'', Primitive C_uint64), (''nested_type_name'', Text (Some 255))]"

definition rosidl_runtime_c__type_description__Field__struct :: mtype where [struct_defs]:
  "rosidl_runtime_c__type_description__Field__struct = Interface ''rosidl_runtime_c__type_description__Field''
     [(''name'', Text None), (''type'', Message rosidl_runtime_c__type_description__FieldType__struct),
      (''default_value'', Text None)]"

definition rosidl_runtime_c__type_description__IndividualTypeDescription__struct :: mtype where [struct_defs]:
  "rosidl_runtime_c__type_description__IndividualTypeDescription__struct = Interface ''rosidl_runtime_c__type_description__IndividualTypeDescription''
     [(''type_name'', Text (Some 255)),
      (''fields'', Sequence None (Message rosidl_runtime_c__type_description__Field__struct))]"

definition rosidl_runtime_c__type_description__KeyValue__struct :: mtype where [struct_defs]:
  "rosidl_runtime_c__type_description__KeyValue__struct = Interface ''rosidl_runtime_c__type_description__KeyValue''
     [(''key'', Text None), (''value'', Text None)]"

definition rosidl_runtime_c__type_description__TypeDescription__struct :: mtype where [struct_defs]:
  "rosidl_runtime_c__type_description__TypeDescription__struct = Interface ''rosidl_runtime_c__type_description__TypeDescription''
     [(''type_description'', Message rosidl_runtime_c__type_description__IndividualTypeDescription__struct),
      (''referenced_type_descriptions'', Sequence None (Message rosidl_runtime_c__type_description__IndividualTypeDescription__struct))]"

definition rosidl_runtime_c__type_description__TypeSource__struct :: mtype where [struct_defs]:
  "rosidl_runtime_c__type_description__TypeSource__struct = Interface ''rosidl_runtime_c__type_description__TypeSource''
     [(''type_name'', Text None), (''encoding'', Text None), (''raw_file_contents'', Text None)]"

subsection \<open>Package type description interfaces\<close>

definition type_description_interfaces__msg__FieldType__struct :: mtype where [struct_defs]:
  "type_description_interfaces__msg__FieldType__struct = Interface ''type_description_interfaces__msg__FieldType''
     [(''type_id'', Primitive C_uint8), (''capacity'', Primitive C_uint64),
      (''string_capacity'', Primitive C_uint64), (''nested_type_name'', Text (Some 255))]"

definition type_description_interfaces__msg__Field__struct :: mtype where [struct_defs]:
  "type_description_interfaces__msg__Field__struct = Interface ''type_description_interfaces__msg__Field''
     [(''name'', Text None), (''type'', Message type_description_interfaces__msg__FieldType__struct),
      (''default_value'', Text None)]"

definition type_description_interfaces__msg__IndividualTypeDescription__struct :: mtype where [struct_defs]:
  "type_description_interfaces__msg__IndividualTypeDescription__struct = Interface ''type_description_interfaces__msg__IndividualTypeDescription''
     [(''type_name'', Text (Some 255)),
      (''fields'', Sequence None (Message type_description_interfaces__msg__Field__struct))]"

definition type_description_interfaces__msg__KeyValue__struct :: mtype where [struct_defs]:
  "type_description_interfaces__msg__KeyValue__struct = Interface ''type_description_interfaces__msg__KeyValue''
     [(''key'', Text None), (''value'', Text None)]"

definition type_description_interfaces__msg__TypeDescription__struct :: mtype where [struct_defs]:
  "type_description_interfaces__msg__TypeDescription__struct = Interface ''type_description_interfaces__msg__TypeDescription''
     [(''type_description'', Message type_description_interfaces__msg__IndividualTypeDescription__struct),
      (''referenced_type_descriptions'', Sequence None (Message type_description_interfaces__msg__IndividualTypeDescription__struct))]"

definition type_description_interfaces__msg__TypeSource__struct :: mtype where [struct_defs]:
  "type_description_interfaces__msg__TypeSource__struct = Interface ''type_description_interfaces__msg__TypeSource''
     [(''type_name'', Text None), (''encoding'', Text None), (''raw_file_contents'', Text None)]"

definition type_description_interfaces__srv__GetTypeDescription_Request__struct :: mtype where [struct_defs]:
  "type_description_interfaces__srv__GetTypeDescription_Request__struct = Interface ''type_description_interfaces__srv__GetTypeDescription_Request''
     [(''type_name'', Text None), (''type_hash'', Text None), (''include_type_sources'', Primitive C_bool)]"

definition type_description_interfaces__srv__GetTypeDescription_Response__struct :: mtype where [struct_defs]:
  "type_description_interfaces__srv__GetTypeDescription_Response__struct = Interface ''type_description_interfaces__srv__GetTypeDescription_Response''
     [(''successful'', Primitive C_bool), (''failure_reason'', Text None),
      (''type_description'', Message type_description_interfaces__msg__TypeDescription__struct),
      (''type_sources'', Sequence None (Message type_description_interfaces__msg__TypeSource__struct)),
      (''extra_information'', Sequence None (Message type_description_interfaces__msg__KeyValue__struct))]"

definition type_description_interfaces__srv__GetTypeDescription_Event__struct :: mtype where [struct_defs]:
  "type_description_interfaces__srv__GetTypeDescription_Event__struct = Interface ''type_description_interfaces__srv__GetTypeDescription_Event''
     [(''info'', Message service_msgs__msg__ServiceEventInfo__struct),
      (''request'', Sequence (Some 1) (Message type_description_interfaces__srv__GetTypeDescription_Request__struct)),
      (''response'', Sequence (Some 1) (Message type_description_interfaces__srv__GetTypeDescription_Response__struct))]"

subsection \<open>Package diagnostic msgs\<close>

definition diagnostic_msgs__msg__KeyValue__struct :: mtype where [struct_defs]:
  "diagnostic_msgs__msg__KeyValue__struct = Interface ''diagnostic_msgs__msg__KeyValue''
     [(''key'', Text None), (''value'', Text None)]"

definition diagnostic_msgs__msg__DiagnosticStatus__struct :: mtype where [struct_defs]:
  "diagnostic_msgs__msg__DiagnosticStatus__struct = Interface ''diagnostic_msgs__msg__DiagnosticStatus''
     [(''level'', Primitive C_uint8), (''name'', Text None), (''message'', Text None),
      (''hardware_id'', Text None), (''values'', Sequence None (Message diagnostic_msgs__msg__KeyValue__struct))]"

definition diagnostic_msgs__msg__DiagnosticArray__struct :: mtype where [struct_defs]:
  "diagnostic_msgs__msg__DiagnosticArray__struct = Interface ''diagnostic_msgs__msg__DiagnosticArray''
     [(''header'', Message std_msgs__msg__Header__struct),
      (''status'', Sequence None (Message diagnostic_msgs__msg__DiagnosticStatus__struct))]"

definition diagnostic_msgs__srv__AddDiagnostics_Request__struct :: mtype where [struct_defs]:
  "diagnostic_msgs__srv__AddDiagnostics_Request__struct = Interface ''diagnostic_msgs__srv__AddDiagnostics_Request''
     [(''load_namespace'', Text None)]"

definition diagnostic_msgs__srv__AddDiagnostics_Response__struct :: mtype where [struct_defs]:
  "diagnostic_msgs__srv__AddDiagnostics_Response__struct = Interface ''diagnostic_msgs__srv__AddDiagnostics_Response''
     [(''success'', Primitive C_bool), (''message'', Text None)]"

definition diagnostic_msgs__srv__AddDiagnostics_Event__struct :: mtype where [struct_defs]:
  "diagnostic_msgs__srv__AddDiagnostics_Event__struct = Interface ''diagnostic_msgs__srv__AddDiagnostics_Event''
     [(''info'', Message service_msgs__msg__ServiceEventInfo__struct),
      (''request'', Sequence (Some 1) (Message diagnostic_msgs__srv__AddDiagnostics_Request__struct)),
      (''response'', Sequence (Some 1) (Message diagnostic_msgs__srv__AddDiagnostics_Response__struct))]"

definition diagnostic_msgs__srv__SelfTest_Request__struct :: mtype where [struct_defs]:
  "diagnostic_msgs__srv__SelfTest_Request__struct = Interface ''diagnostic_msgs__srv__SelfTest_Request''
     [(''structure_needs_at_least_one_member'', Primitive C_uint8)]"

definition diagnostic_msgs__srv__SelfTest_Response__struct :: mtype where [struct_defs]:
  "diagnostic_msgs__srv__SelfTest_Response__struct = Interface ''diagnostic_msgs__srv__SelfTest_Response''
     [(''id'', Text None), (''passed'', Primitive C_uint8),
      (''status'', Sequence None (Message diagnostic_msgs__msg__DiagnosticStatus__struct))]"

definition diagnostic_msgs__srv__SelfTest_Event__struct :: mtype where [struct_defs]:
  "diagnostic_msgs__srv__SelfTest_Event__struct = Interface ''diagnostic_msgs__srv__SelfTest_Event''
     [(''info'', Message service_msgs__msg__ServiceEventInfo__struct),
      (''request'', Sequence (Some 1) (Message diagnostic_msgs__srv__SelfTest_Request__struct)),
      (''response'', Sequence (Some 1) (Message diagnostic_msgs__srv__SelfTest_Response__struct))]"

subsection \<open>Package example interfaces\<close>

definition example_interfaces__action__Fibonacci_Goal__struct :: mtype where [struct_defs]:
  "example_interfaces__action__Fibonacci_Goal__struct = Interface ''example_interfaces__action__Fibonacci_Goal''
     [(''order'', Primitive C_int32)]"

definition example_interfaces__action__Fibonacci_Result__struct :: mtype where [struct_defs]:
  "example_interfaces__action__Fibonacci_Result__struct = Interface ''example_interfaces__action__Fibonacci_Result''
     [(''sequence'', Sequence None (Primitive C_int32))]"

definition example_interfaces__action__Fibonacci_Feedback__struct :: mtype where [struct_defs]:
  "example_interfaces__action__Fibonacci_Feedback__struct = Interface ''example_interfaces__action__Fibonacci_Feedback''
     [(''sequence'', Sequence None (Primitive C_int32))]"

definition example_interfaces__action__Fibonacci_SendGoal_Request__struct :: mtype where [struct_defs]:
  "example_interfaces__action__Fibonacci_SendGoal_Request__struct = Interface ''example_interfaces__action__Fibonacci_SendGoal_Request''
     [(''goal_id'', Message unique_identifier_msgs__msg__UUID__struct),
      (''goal'', Message example_interfaces__action__Fibonacci_Goal__struct)]"

definition example_interfaces__action__Fibonacci_SendGoal_Response__struct :: mtype where [struct_defs]:
  "example_interfaces__action__Fibonacci_SendGoal_Response__struct = Interface ''example_interfaces__action__Fibonacci_SendGoal_Response''
     [(''accepted'', Primitive C_bool), (''stamp'', Message builtin_interfaces__msg__Time__struct)]"

definition example_interfaces__action__Fibonacci_SendGoal_Event__struct :: mtype where [struct_defs]:
  "example_interfaces__action__Fibonacci_SendGoal_Event__struct = Interface ''example_interfaces__action__Fibonacci_SendGoal_Event''
     [(''info'', Message service_msgs__msg__ServiceEventInfo__struct),
      (''request'', Sequence (Some 1) (Message example_interfaces__action__Fibonacci_SendGoal_Request__struct)),
      (''response'', Sequence (Some 1) (Message example_interfaces__action__Fibonacci_SendGoal_Response__struct))]"

definition example_interfaces__action__Fibonacci_GetResult_Request__struct :: mtype where [struct_defs]:
  "example_interfaces__action__Fibonacci_GetResult_Request__struct = Interface ''example_interfaces__action__Fibonacci_GetResult_Request''
     [(''goal_id'', Message unique_identifier_msgs__msg__UUID__struct)]"

definition example_interfaces__action__Fibonacci_GetResult_Response__struct :: mtype where [struct_defs]:
  "example_interfaces__action__Fibonacci_GetResult_Response__struct = Interface ''example_interfaces__action__Fibonacci_GetResult_Response''
     [(''status'', Primitive C_int8), (''result'', Message example_interfaces__action__Fibonacci_Result__struct)]"

definition example_interfaces__action__Fibonacci_GetResult_Event__struct :: mtype where [struct_defs]:
  "example_interfaces__action__Fibonacci_GetResult_Event__struct = Interface ''example_interfaces__action__Fibonacci_GetResult_Event''
     [(''info'', Message service_msgs__msg__ServiceEventInfo__struct),
      (''request'', Sequence (Some 1) (Message example_interfaces__action__Fibonacci_GetResult_Request__struct)),
      (''response'', Sequence (Some 1) (Message example_interfaces__action__Fibonacci_GetResult_Response__struct))]"

definition example_interfaces__action__Fibonacci_FeedbackMessage__struct :: mtype where [struct_defs]:
  "example_interfaces__action__Fibonacci_FeedbackMessage__struct = Interface ''example_interfaces__action__Fibonacci_FeedbackMessage''
     [(''goal_id'', Message unique_identifier_msgs__msg__UUID__struct),
      (''feedback'', Message example_interfaces__action__Fibonacci_Feedback__struct)]"

definition example_interfaces__msg__Bool__struct :: mtype where [struct_defs]:
  "example_interfaces__msg__Bool__struct = Interface ''example_interfaces__msg__Bool''
     [(''data'', Primitive C_bool)]"

definition example_interfaces__msg__Byte__struct :: mtype where [struct_defs]:
  "example_interfaces__msg__Byte__struct = Interface ''example_interfaces__msg__Byte''
     [(''data'', Primitive C_uint8)]"

definition example_interfaces__msg__MultiArrayDimension__struct :: mtype where [struct_defs]:
  "example_interfaces__msg__MultiArrayDimension__struct = Interface ''example_interfaces__msg__MultiArrayDimension''
     [(''label'', Text None), (''size'', Primitive C_uint32), (''stride'', Primitive C_uint32)]"

definition example_interfaces__msg__MultiArrayLayout__struct :: mtype where [struct_defs]:
  "example_interfaces__msg__MultiArrayLayout__struct = Interface ''example_interfaces__msg__MultiArrayLayout''
     [(''dim'', Sequence None (Message example_interfaces__msg__MultiArrayDimension__struct)),
      (''data_offset'', Primitive C_uint32)]"

definition example_interfaces__msg__ByteMultiArray__struct :: mtype where [struct_defs]:
  "example_interfaces__msg__ByteMultiArray__struct = Interface ''example_interfaces__msg__ByteMultiArray''
     [(''layout'', Message example_interfaces__msg__MultiArrayLayout__struct),
      (''data'', Sequence None (Primitive C_uint8))]"

definition example_interfaces__msg__Char__struct :: mtype where [struct_defs]:
  "example_interfaces__msg__Char__struct = Interface ''example_interfaces__msg__Char''
     [(''data'', Primitive C_uint8)]"

definition example_interfaces__msg__Empty__struct :: mtype where [struct_defs]:
  "example_interfaces__msg__Empty__struct = Interface ''example_interfaces__msg__Empty''
     [(''structure_needs_at_least_one_member'', Primitive C_uint8)]"

definition example_interfaces__msg__Float32__struct :: mtype where [struct_defs]:
  "example_interfaces__msg__Float32__struct = Interface ''example_interfaces__msg__Float32''
     [(''data'', Primitive C_float)]"

definition example_interfaces__msg__Float32MultiArray__struct :: mtype where [struct_defs]:
  "example_interfaces__msg__Float32MultiArray__struct = Interface ''example_interfaces__msg__Float32MultiArray''
     [(''layout'', Message example_interfaces__msg__MultiArrayLayout__struct),
      (''data'', Sequence None (Primitive C_float))]"

definition example_interfaces__msg__Float64__struct :: mtype where [struct_defs]:
  "example_interfaces__msg__Float64__struct = Interface ''example_interfaces__msg__Float64''
     [(''data'', Primitive C_double)]"

definition example_interfaces__msg__Float64MultiArray__struct :: mtype where [struct_defs]:
  "example_interfaces__msg__Float64MultiArray__struct = Interface ''example_interfaces__msg__Float64MultiArray''
     [(''layout'', Message example_interfaces__msg__MultiArrayLayout__struct),
      (''data'', Sequence None (Primitive C_double))]"

definition example_interfaces__msg__Int16__struct :: mtype where [struct_defs]:
  "example_interfaces__msg__Int16__struct = Interface ''example_interfaces__msg__Int16''
     [(''data'', Primitive C_int16)]"

definition example_interfaces__msg__Int16MultiArray__struct :: mtype where [struct_defs]:
  "example_interfaces__msg__Int16MultiArray__struct = Interface ''example_interfaces__msg__Int16MultiArray''
     [(''layout'', Message example_interfaces__msg__MultiArrayLayout__struct),
      (''data'', Sequence None (Primitive C_int16))]"

definition example_interfaces__msg__Int32__struct :: mtype where [struct_defs]:
  "example_interfaces__msg__Int32__struct = Interface ''example_interfaces__msg__Int32''
     [(''data'', Primitive C_int32)]"

definition example_interfaces__msg__Int32MultiArray__struct :: mtype where [struct_defs]:
  "example_interfaces__msg__Int32MultiArray__struct = Interface ''example_interfaces__msg__Int32MultiArray''
     [(''layout'', Message example_interfaces__msg__MultiArrayLayout__struct),
      (''data'', Sequence None (Primitive C_int32))]"

definition example_interfaces__msg__Int64__struct :: mtype where [struct_defs]:
  "example_interfaces__msg__Int64__struct = Interface ''example_interfaces__msg__Int64''
     [(''data'', Primitive C_int64)]"

definition example_interfaces__msg__Int64MultiArray__struct :: mtype where [struct_defs]:
  "example_interfaces__msg__Int64MultiArray__struct = Interface ''example_interfaces__msg__Int64MultiArray''
     [(''layout'', Message example_interfaces__msg__MultiArrayLayout__struct),
      (''data'', Sequence None (Primitive C_int64))]"

definition example_interfaces__msg__Int8__struct :: mtype where [struct_defs]:
  "example_interfaces__msg__Int8__struct = Interface ''example_interfaces__msg__Int8''
     [(''data'', Primitive C_int8)]"

definition example_interfaces__msg__Int8MultiArray__struct :: mtype where [struct_defs]:
  "example_interfaces__msg__Int8MultiArray__struct = Interface ''example_interfaces__msg__Int8MultiArray''
     [(''layout'', Message example_interfaces__msg__MultiArrayLayout__struct),
      (''data'', Sequence None (Primitive C_int8))]"

definition example_interfaces__msg__String__struct :: mtype where [struct_defs]:
  "example_interfaces__msg__String__struct = Interface ''example_interfaces__msg__String''
     [(''data'', Text None)]"

definition example_interfaces__msg__UInt16__struct :: mtype where [struct_defs]:
  "example_interfaces__msg__UInt16__struct = Interface ''example_interfaces__msg__UInt16''
     [(''data'', Primitive C_uint16)]"

definition example_interfaces__msg__UInt16MultiArray__struct :: mtype where [struct_defs]:
  "example_interfaces__msg__UInt16MultiArray__struct = Interface ''example_interfaces__msg__UInt16MultiArray''
     [(''layout'', Message example_interfaces__msg__MultiArrayLayout__struct),
      (''data'', Sequence None (Primitive C_uint16))]"

definition example_interfaces__msg__UInt32__struct :: mtype where [struct_defs]:
  "example_interfaces__msg__UInt32__struct = Interface ''example_interfaces__msg__UInt32''
     [(''data'', Primitive C_uint32)]"

definition example_interfaces__msg__UInt32MultiArray__struct :: mtype where [struct_defs]:
  "example_interfaces__msg__UInt32MultiArray__struct = Interface ''example_interfaces__msg__UInt32MultiArray''
     [(''layout'', Message example_interfaces__msg__MultiArrayLayout__struct),
      (''data'', Sequence None (Primitive C_uint32))]"

definition example_interfaces__msg__UInt64__struct :: mtype where [struct_defs]:
  "example_interfaces__msg__UInt64__struct = Interface ''example_interfaces__msg__UInt64''
     [(''data'', Primitive C_uint64)]"

definition example_interfaces__msg__UInt64MultiArray__struct :: mtype where [struct_defs]:
  "example_interfaces__msg__UInt64MultiArray__struct = Interface ''example_interfaces__msg__UInt64MultiArray''
     [(''layout'', Message example_interfaces__msg__MultiArrayLayout__struct),
      (''data'', Sequence None (Primitive C_uint64))]"

definition example_interfaces__msg__UInt8__struct :: mtype where [struct_defs]:
  "example_interfaces__msg__UInt8__struct = Interface ''example_interfaces__msg__UInt8''
     [(''data'', Primitive C_uint8)]"

definition example_interfaces__msg__UInt8MultiArray__struct :: mtype where [struct_defs]:
  "example_interfaces__msg__UInt8MultiArray__struct = Interface ''example_interfaces__msg__UInt8MultiArray''
     [(''layout'', Message example_interfaces__msg__MultiArrayLayout__struct),
      (''data'', Sequence None (Primitive C_uint8))]"

definition example_interfaces__msg__WString__struct :: mtype where [struct_defs]:
  "example_interfaces__msg__WString__struct = Interface ''example_interfaces__msg__WString''
     [(''data'', Wide_text None)]"

definition example_interfaces__srv__AddTwoInts_Request__struct :: mtype where [struct_defs]:
  "example_interfaces__srv__AddTwoInts_Request__struct = Interface ''example_interfaces__srv__AddTwoInts_Request''
     [(''a'', Primitive C_int64), (''b'', Primitive C_int64)]"

definition example_interfaces__srv__AddTwoInts_Response__struct :: mtype where [struct_defs]:
  "example_interfaces__srv__AddTwoInts_Response__struct = Interface ''example_interfaces__srv__AddTwoInts_Response''
     [(''sum'', Primitive C_int64)]"

definition example_interfaces__srv__AddTwoInts_Event__struct :: mtype where [struct_defs]:
  "example_interfaces__srv__AddTwoInts_Event__struct = Interface ''example_interfaces__srv__AddTwoInts_Event''
     [(''info'', Message service_msgs__msg__ServiceEventInfo__struct),
      (''request'', Sequence (Some 1) (Message example_interfaces__srv__AddTwoInts_Request__struct)),
      (''response'', Sequence (Some 1) (Message example_interfaces__srv__AddTwoInts_Response__struct))]"

definition example_interfaces__srv__SetBool_Request__struct :: mtype where [struct_defs]:
  "example_interfaces__srv__SetBool_Request__struct = Interface ''example_interfaces__srv__SetBool_Request''
     [(''data'', Primitive C_bool)]"

definition example_interfaces__srv__SetBool_Response__struct :: mtype where [struct_defs]:
  "example_interfaces__srv__SetBool_Response__struct = Interface ''example_interfaces__srv__SetBool_Response''
     [(''success'', Primitive C_bool), (''message'', Text None)]"

definition example_interfaces__srv__SetBool_Event__struct :: mtype where [struct_defs]:
  "example_interfaces__srv__SetBool_Event__struct = Interface ''example_interfaces__srv__SetBool_Event''
     [(''info'', Message service_msgs__msg__ServiceEventInfo__struct),
      (''request'', Sequence (Some 1) (Message example_interfaces__srv__SetBool_Request__struct)),
      (''response'', Sequence (Some 1) (Message example_interfaces__srv__SetBool_Response__struct))]"

definition example_interfaces__srv__Trigger_Request__struct :: mtype where [struct_defs]:
  "example_interfaces__srv__Trigger_Request__struct = Interface ''example_interfaces__srv__Trigger_Request''
     [(''structure_needs_at_least_one_member'', Primitive C_uint8)]"

definition example_interfaces__srv__Trigger_Response__struct :: mtype where [struct_defs]:
  "example_interfaces__srv__Trigger_Response__struct = Interface ''example_interfaces__srv__Trigger_Response''
     [(''success'', Primitive C_bool), (''message'', Text None)]"

definition example_interfaces__srv__Trigger_Event__struct :: mtype where [struct_defs]:
  "example_interfaces__srv__Trigger_Event__struct = Interface ''example_interfaces__srv__Trigger_Event''
     [(''info'', Message service_msgs__msg__ServiceEventInfo__struct),
      (''request'', Sequence (Some 1) (Message example_interfaces__srv__Trigger_Request__struct)),
      (''response'', Sequence (Some 1) (Message example_interfaces__srv__Trigger_Response__struct))]"

end
