(* ===== verification/Interfaces_Robot.thy ===== *)
theory Interfaces_Robot
  imports Interfaces_Basic
begin

text \<open>
  The interfaces of the packages for robots: geometry, shapes, sensors, maps, trajectories, transforms, markers and
  controllers, from the headers \<^verbatim>\<open>*__struct.h\<close> of each package.
\<close>

subsection \<open>Package geometry msgs\<close>

definition geometry_msgs__msg__Vector3__struct :: mtype where [struct_defs]:
  "geometry_msgs__msg__Vector3__struct = Interface ''geometry_msgs__msg__Vector3''
     [(''x'', Primitive C_double), (''y'', Primitive C_double), (''z'', Primitive C_double)]"

definition geometry_msgs__msg__Accel__struct :: mtype where [struct_defs]:
  "geometry_msgs__msg__Accel__struct = Interface ''geometry_msgs__msg__Accel''
     [(''linear'', Message geometry_msgs__msg__Vector3__struct),
      (''angular'', Message geometry_msgs__msg__Vector3__struct)]"

definition geometry_msgs__msg__AccelStamped__struct :: mtype where [struct_defs]:
  "geometry_msgs__msg__AccelStamped__struct = Interface ''geometry_msgs__msg__AccelStamped''
     [(''header'', Message std_msgs__msg__Header__struct),
      (''accel'', Message geometry_msgs__msg__Accel__struct)]"

definition geometry_msgs__msg__AccelWithCovariance__struct :: mtype where [struct_defs]:
  "geometry_msgs__msg__AccelWithCovariance__struct = Interface ''geometry_msgs__msg__AccelWithCovariance''
     [(''accel'', Message geometry_msgs__msg__Accel__struct), (''covariance'', Array 36 (Primitive C_double))]"

definition geometry_msgs__msg__AccelWithCovarianceStamped__struct :: mtype where [struct_defs]:
  "geometry_msgs__msg__AccelWithCovarianceStamped__struct = Interface ''geometry_msgs__msg__AccelWithCovarianceStamped''
     [(''header'', Message std_msgs__msg__Header__struct),
      (''accel'', Message geometry_msgs__msg__AccelWithCovariance__struct)]"

definition geometry_msgs__msg__Inertia__struct :: mtype where [struct_defs]:
  "geometry_msgs__msg__Inertia__struct = Interface ''geometry_msgs__msg__Inertia''
     [(''m'', Primitive C_double), (''com'', Message geometry_msgs__msg__Vector3__struct),
      (''ixx'', Primitive C_double), (''ixy'', Primitive C_double), (''ixz'', Primitive C_double),
      (''iyy'', Primitive C_double), (''iyz'', Primitive C_double), (''izz'', Primitive C_double)]"

definition geometry_msgs__msg__InertiaStamped__struct :: mtype where [struct_defs]:
  "geometry_msgs__msg__InertiaStamped__struct = Interface ''geometry_msgs__msg__InertiaStamped''
     [(''header'', Message std_msgs__msg__Header__struct),
      (''inertia'', Message geometry_msgs__msg__Inertia__struct)]"

definition geometry_msgs__msg__Point32__struct :: mtype where [struct_defs]:
  "geometry_msgs__msg__Point32__struct = Interface ''geometry_msgs__msg__Point32''
     [(''x'', Primitive C_float), (''y'', Primitive C_float), (''z'', Primitive C_float)]"

definition geometry_msgs__msg__Point__struct :: mtype where [struct_defs]:
  "geometry_msgs__msg__Point__struct = Interface ''geometry_msgs__msg__Point''
     [(''x'', Primitive C_double), (''y'', Primitive C_double), (''z'', Primitive C_double)]"

definition geometry_msgs__msg__PointStamped__struct :: mtype where [struct_defs]:
  "geometry_msgs__msg__PointStamped__struct = Interface ''geometry_msgs__msg__PointStamped''
     [(''header'', Message std_msgs__msg__Header__struct),
      (''point'', Message geometry_msgs__msg__Point__struct)]"

definition geometry_msgs__msg__Polygon__struct :: mtype where [struct_defs]:
  "geometry_msgs__msg__Polygon__struct = Interface ''geometry_msgs__msg__Polygon''
     [(''points'', Sequence None (Message geometry_msgs__msg__Point32__struct))]"

definition geometry_msgs__msg__PolygonInstance__struct :: mtype where [struct_defs]:
  "geometry_msgs__msg__PolygonInstance__struct = Interface ''geometry_msgs__msg__PolygonInstance''
     [(''polygon'', Message geometry_msgs__msg__Polygon__struct), (''id'', Primitive C_int64)]"

definition geometry_msgs__msg__PolygonInstanceStamped__struct :: mtype where [struct_defs]:
  "geometry_msgs__msg__PolygonInstanceStamped__struct = Interface ''geometry_msgs__msg__PolygonInstanceStamped''
     [(''header'', Message std_msgs__msg__Header__struct),
      (''polygon'', Message geometry_msgs__msg__PolygonInstance__struct)]"

definition geometry_msgs__msg__PolygonStamped__struct :: mtype where [struct_defs]:
  "geometry_msgs__msg__PolygonStamped__struct = Interface ''geometry_msgs__msg__PolygonStamped''
     [(''header'', Message std_msgs__msg__Header__struct),
      (''polygon'', Message geometry_msgs__msg__Polygon__struct)]"

definition geometry_msgs__msg__Pose2D__struct :: mtype where [struct_defs]:
  "geometry_msgs__msg__Pose2D__struct = Interface ''geometry_msgs__msg__Pose2D''
     [(''x'', Primitive C_double), (''y'', Primitive C_double), (''theta'', Primitive C_double)]"

definition geometry_msgs__msg__Quaternion__struct :: mtype where [struct_defs]:
  "geometry_msgs__msg__Quaternion__struct = Interface ''geometry_msgs__msg__Quaternion''
     [(''x'', Primitive C_double), (''y'', Primitive C_double), (''z'', Primitive C_double),
      (''w'', Primitive C_double)]"

definition geometry_msgs__msg__Pose__struct :: mtype where [struct_defs]:
  "geometry_msgs__msg__Pose__struct = Interface ''geometry_msgs__msg__Pose''
     [(''position'', Message geometry_msgs__msg__Point__struct),
      (''orientation'', Message geometry_msgs__msg__Quaternion__struct)]"

definition geometry_msgs__msg__PoseArray__struct :: mtype where [struct_defs]:
  "geometry_msgs__msg__PoseArray__struct = Interface ''geometry_msgs__msg__PoseArray''
     [(''header'', Message std_msgs__msg__Header__struct),
      (''poses'', Sequence None (Message geometry_msgs__msg__Pose__struct))]"

definition geometry_msgs__msg__PoseStamped__struct :: mtype where [struct_defs]:
  "geometry_msgs__msg__PoseStamped__struct = Interface ''geometry_msgs__msg__PoseStamped''
     [(''header'', Message std_msgs__msg__Header__struct), (''pose'', Message geometry_msgs__msg__Pose__struct)]"

definition geometry_msgs__msg__PoseWithCovariance__struct :: mtype where [struct_defs]:
  "geometry_msgs__msg__PoseWithCovariance__struct = Interface ''geometry_msgs__msg__PoseWithCovariance''
     [(''pose'', Message geometry_msgs__msg__Pose__struct), (''covariance'', Array 36 (Primitive C_double))]"

definition geometry_msgs__msg__PoseWithCovarianceStamped__struct :: mtype where [struct_defs]:
  "geometry_msgs__msg__PoseWithCovarianceStamped__struct = Interface ''geometry_msgs__msg__PoseWithCovarianceStamped''
     [(''header'', Message std_msgs__msg__Header__struct),
      (''pose'', Message geometry_msgs__msg__PoseWithCovariance__struct)]"

definition geometry_msgs__msg__QuaternionStamped__struct :: mtype where [struct_defs]:
  "geometry_msgs__msg__QuaternionStamped__struct = Interface ''geometry_msgs__msg__QuaternionStamped''
     [(''header'', Message std_msgs__msg__Header__struct),
      (''quaternion'', Message geometry_msgs__msg__Quaternion__struct)]"

definition geometry_msgs__msg__Transform__struct :: mtype where [struct_defs]:
  "geometry_msgs__msg__Transform__struct = Interface ''geometry_msgs__msg__Transform''
     [(''translation'', Message geometry_msgs__msg__Vector3__struct),
      (''rotation'', Message geometry_msgs__msg__Quaternion__struct)]"

definition geometry_msgs__msg__TransformStamped__struct :: mtype where [struct_defs]:
  "geometry_msgs__msg__TransformStamped__struct = Interface ''geometry_msgs__msg__TransformStamped''
     [(''header'', Message std_msgs__msg__Header__struct), (''child_frame_id'', Text None),
      (''transform'', Message geometry_msgs__msg__Transform__struct)]"

definition geometry_msgs__msg__Twist__struct :: mtype where [struct_defs]:
  "geometry_msgs__msg__Twist__struct = Interface ''geometry_msgs__msg__Twist''
     [(''linear'', Message geometry_msgs__msg__Vector3__struct),
      (''angular'', Message geometry_msgs__msg__Vector3__struct)]"

definition geometry_msgs__msg__TwistStamped__struct :: mtype where [struct_defs]:
  "geometry_msgs__msg__TwistStamped__struct = Interface ''geometry_msgs__msg__TwistStamped''
     [(''header'', Message std_msgs__msg__Header__struct),
      (''twist'', Message geometry_msgs__msg__Twist__struct)]"

definition geometry_msgs__msg__TwistWithCovariance__struct :: mtype where [struct_defs]:
  "geometry_msgs__msg__TwistWithCovariance__struct = Interface ''geometry_msgs__msg__TwistWithCovariance''
     [(''twist'', Message geometry_msgs__msg__Twist__struct), (''covariance'', Array 36 (Primitive C_double))]"

definition geometry_msgs__msg__TwistWithCovarianceStamped__struct :: mtype where [struct_defs]:
  "geometry_msgs__msg__TwistWithCovarianceStamped__struct = Interface ''geometry_msgs__msg__TwistWithCovarianceStamped''
     [(''header'', Message std_msgs__msg__Header__struct),
      (''twist'', Message geometry_msgs__msg__TwistWithCovariance__struct)]"

definition geometry_msgs__msg__Vector3Stamped__struct :: mtype where [struct_defs]:
  "geometry_msgs__msg__Vector3Stamped__struct = Interface ''geometry_msgs__msg__Vector3Stamped''
     [(''header'', Message std_msgs__msg__Header__struct),
      (''vector'', Message geometry_msgs__msg__Vector3__struct)]"

definition geometry_msgs__msg__VelocityStamped__struct :: mtype where [struct_defs]:
  "geometry_msgs__msg__VelocityStamped__struct = Interface ''geometry_msgs__msg__VelocityStamped''
     [(''header'', Message std_msgs__msg__Header__struct), (''body_frame_id'', Text None),
      (''reference_frame_id'', Text None), (''velocity'', Message geometry_msgs__msg__Twist__struct)]"

definition geometry_msgs__msg__Wrench__struct :: mtype where [struct_defs]:
  "geometry_msgs__msg__Wrench__struct = Interface ''geometry_msgs__msg__Wrench''
     [(''force'', Message geometry_msgs__msg__Vector3__struct),
      (''torque'', Message geometry_msgs__msg__Vector3__struct)]"

definition geometry_msgs__msg__WrenchStamped__struct :: mtype where [struct_defs]:
  "geometry_msgs__msg__WrenchStamped__struct = Interface ''geometry_msgs__msg__WrenchStamped''
     [(''header'', Message std_msgs__msg__Header__struct),
      (''wrench'', Message geometry_msgs__msg__Wrench__struct)]"

subsection \<open>Package shape msgs\<close>

definition shape_msgs__msg__MeshTriangle__struct :: mtype where [struct_defs]:
  "shape_msgs__msg__MeshTriangle__struct = Interface ''shape_msgs__msg__MeshTriangle''
     [(''vertex_indices'', Array 3 (Primitive C_uint32))]"

definition shape_msgs__msg__Mesh__struct :: mtype where [struct_defs]:
  "shape_msgs__msg__Mesh__struct = Interface ''shape_msgs__msg__Mesh''
     [(''triangles'', Sequence None (Message shape_msgs__msg__MeshTriangle__struct)),
      (''vertices'', Sequence None (Message geometry_msgs__msg__Point__struct))]"

definition shape_msgs__msg__Plane__struct :: mtype where [struct_defs]:
  "shape_msgs__msg__Plane__struct = Interface ''shape_msgs__msg__Plane''
     [(''coef'', Array 4 (Primitive C_double))]"

definition shape_msgs__msg__SolidPrimitive__struct :: mtype where [struct_defs]:
  "shape_msgs__msg__SolidPrimitive__struct = Interface ''shape_msgs__msg__SolidPrimitive''
     [(''type'', Primitive C_uint8), (''dimensions'', Sequence (Some 3) (Primitive C_double)),
      (''polygon'', Message geometry_msgs__msg__Polygon__struct)]"

subsection \<open>Package sensor msgs\<close>

definition sensor_msgs__msg__BatteryState__struct :: mtype where [struct_defs]:
  "sensor_msgs__msg__BatteryState__struct = Interface ''sensor_msgs__msg__BatteryState''
     [(''header'', Message std_msgs__msg__Header__struct), (''voltage'', Primitive C_float),
      (''temperature'', Primitive C_float), (''current'', Primitive C_float), (''charge'', Primitive C_float),
      (''capacity'', Primitive C_float), (''design_capacity'', Primitive C_float),
      (''percentage'', Primitive C_float), (''power_supply_status'', Primitive C_uint8),
      (''power_supply_health'', Primitive C_uint8), (''power_supply_technology'', Primitive C_uint8),
      (''present'', Primitive C_bool), (''cell_voltage'', Sequence None (Primitive C_float)),
      (''cell_temperature'', Sequence None (Primitive C_float)), (''location'', Text None),
      (''serial_number'', Text None)]"

definition sensor_msgs__msg__RegionOfInterest__struct :: mtype where [struct_defs]:
  "sensor_msgs__msg__RegionOfInterest__struct = Interface ''sensor_msgs__msg__RegionOfInterest''
     [(''x_offset'', Primitive C_uint32), (''y_offset'', Primitive C_uint32), (''height'', Primitive C_uint32),
      (''width'', Primitive C_uint32), (''do_rectify'', Primitive C_bool)]"

definition sensor_msgs__msg__CameraInfo__struct :: mtype where [struct_defs]:
  "sensor_msgs__msg__CameraInfo__struct = Interface ''sensor_msgs__msg__CameraInfo''
     [(''header'', Message std_msgs__msg__Header__struct), (''height'', Primitive C_uint32),
      (''width'', Primitive C_uint32), (''distortion_model'', Text None),
      (''d'', Sequence None (Primitive C_double)), (''k'', Array 9 (Primitive C_double)),
      (''r'', Array 9 (Primitive C_double)), (''p'', Array 12 (Primitive C_double)),
      (''binning_x'', Primitive C_uint32), (''binning_y'', Primitive C_uint32),
      (''roi'', Message sensor_msgs__msg__RegionOfInterest__struct)]"

definition sensor_msgs__msg__ChannelFloat32__struct :: mtype where [struct_defs]:
  "sensor_msgs__msg__ChannelFloat32__struct = Interface ''sensor_msgs__msg__ChannelFloat32''
     [(''name'', Text None), (''values'', Sequence None (Primitive C_float))]"

definition sensor_msgs__msg__CompressedImage__struct :: mtype where [struct_defs]:
  "sensor_msgs__msg__CompressedImage__struct = Interface ''sensor_msgs__msg__CompressedImage''
     [(''header'', Message std_msgs__msg__Header__struct), (''format'', Text None),
      (''data'', Sequence None (Primitive C_uint8))]"

definition sensor_msgs__msg__FluidPressure__struct :: mtype where [struct_defs]:
  "sensor_msgs__msg__FluidPressure__struct = Interface ''sensor_msgs__msg__FluidPressure''
     [(''header'', Message std_msgs__msg__Header__struct), (''fluid_pressure'', Primitive C_double),
      (''variance'', Primitive C_double)]"

definition sensor_msgs__msg__Illuminance__struct :: mtype where [struct_defs]:
  "sensor_msgs__msg__Illuminance__struct = Interface ''sensor_msgs__msg__Illuminance''
     [(''header'', Message std_msgs__msg__Header__struct), (''illuminance'', Primitive C_double),
      (''variance'', Primitive C_double)]"

definition sensor_msgs__msg__Image__struct :: mtype where [struct_defs]:
  "sensor_msgs__msg__Image__struct = Interface ''sensor_msgs__msg__Image''
     [(''header'', Message std_msgs__msg__Header__struct), (''height'', Primitive C_uint32),
      (''width'', Primitive C_uint32), (''encoding'', Text None), (''is_bigendian'', Primitive C_uint8),
      (''step'', Primitive C_uint32), (''data'', Sequence None (Primitive C_uint8))]"

definition sensor_msgs__msg__Imu__struct :: mtype where [struct_defs]:
  "sensor_msgs__msg__Imu__struct = Interface ''sensor_msgs__msg__Imu''
     [(''header'', Message std_msgs__msg__Header__struct),
      (''orientation'', Message geometry_msgs__msg__Quaternion__struct),
      (''orientation_covariance'', Array 9 (Primitive C_double)),
      (''angular_velocity'', Message geometry_msgs__msg__Vector3__struct),
      (''angular_velocity_covariance'', Array 9 (Primitive C_double)),
      (''linear_acceleration'', Message geometry_msgs__msg__Vector3__struct),
      (''linear_acceleration_covariance'', Array 9 (Primitive C_double))]"

definition sensor_msgs__msg__JointState__struct :: mtype where [struct_defs]:
  "sensor_msgs__msg__JointState__struct = Interface ''sensor_msgs__msg__JointState''
     [(''header'', Message std_msgs__msg__Header__struct), (''name'', Sequence None (Text None)),
      (''position'', Sequence None (Primitive C_double)), (''velocity'', Sequence None (Primitive C_double)),
      (''effort'', Sequence None (Primitive C_double))]"

definition sensor_msgs__msg__Joy__struct :: mtype where [struct_defs]:
  "sensor_msgs__msg__Joy__struct = Interface ''sensor_msgs__msg__Joy''
     [(''header'', Message std_msgs__msg__Header__struct), (''axes'', Sequence None (Primitive C_float)),
      (''buttons'', Sequence None (Primitive C_int32))]"

definition sensor_msgs__msg__JoyFeedback__struct :: mtype where [struct_defs]:
  "sensor_msgs__msg__JoyFeedback__struct = Interface ''sensor_msgs__msg__JoyFeedback''
     [(''type'', Primitive C_uint8), (''id'', Primitive C_uint8), (''intensity'', Primitive C_float)]"

definition sensor_msgs__msg__JoyFeedbackArray__struct :: mtype where [struct_defs]:
  "sensor_msgs__msg__JoyFeedbackArray__struct = Interface ''sensor_msgs__msg__JoyFeedbackArray''
     [(''array'', Sequence None (Message sensor_msgs__msg__JoyFeedback__struct))]"

definition sensor_msgs__msg__LaserEcho__struct :: mtype where [struct_defs]:
  "sensor_msgs__msg__LaserEcho__struct = Interface ''sensor_msgs__msg__LaserEcho''
     [(''echoes'', Sequence None (Primitive C_float))]"

definition sensor_msgs__msg__LaserScan__struct :: mtype where [struct_defs]:
  "sensor_msgs__msg__LaserScan__struct = Interface ''sensor_msgs__msg__LaserScan''
     [(''header'', Message std_msgs__msg__Header__struct), (''angle_min'', Primitive C_float),
      (''angle_max'', Primitive C_float), (''angle_increment'', Primitive C_float),
      (''time_increment'', Primitive C_float), (''scan_time'', Primitive C_float),
      (''range_min'', Primitive C_float), (''range_max'', Primitive C_float),
      (''ranges'', Sequence None (Primitive C_float)), (''intensities'', Sequence None (Primitive C_float))]"

definition sensor_msgs__msg__MagneticField__struct :: mtype where [struct_defs]:
  "sensor_msgs__msg__MagneticField__struct = Interface ''sensor_msgs__msg__MagneticField''
     [(''header'', Message std_msgs__msg__Header__struct),
      (''magnetic_field'', Message geometry_msgs__msg__Vector3__struct),
      (''magnetic_field_covariance'', Array 9 (Primitive C_double))]"

definition sensor_msgs__msg__MultiDOFJointState__struct :: mtype where [struct_defs]:
  "sensor_msgs__msg__MultiDOFJointState__struct = Interface ''sensor_msgs__msg__MultiDOFJointState''
     [(''header'', Message std_msgs__msg__Header__struct), (''joint_names'', Sequence None (Text None)),
      (''transforms'', Sequence None (Message geometry_msgs__msg__Transform__struct)),
      (''twist'', Sequence None (Message geometry_msgs__msg__Twist__struct)),
      (''wrench'', Sequence None (Message geometry_msgs__msg__Wrench__struct))]"

definition sensor_msgs__msg__MultiEchoLaserScan__struct :: mtype where [struct_defs]:
  "sensor_msgs__msg__MultiEchoLaserScan__struct = Interface ''sensor_msgs__msg__MultiEchoLaserScan''
     [(''header'', Message std_msgs__msg__Header__struct), (''angle_min'', Primitive C_float),
      (''angle_max'', Primitive C_float), (''angle_increment'', Primitive C_float),
      (''time_increment'', Primitive C_float), (''scan_time'', Primitive C_float),
      (''range_min'', Primitive C_float), (''range_max'', Primitive C_float),
      (''ranges'', Sequence None (Message sensor_msgs__msg__LaserEcho__struct)),
      (''intensities'', Sequence None (Message sensor_msgs__msg__LaserEcho__struct))]"

definition sensor_msgs__msg__NavSatStatus__struct :: mtype where [struct_defs]:
  "sensor_msgs__msg__NavSatStatus__struct = Interface ''sensor_msgs__msg__NavSatStatus''
     [(''status'', Primitive C_int8), (''service'', Primitive C_uint16)]"

definition sensor_msgs__msg__NavSatFix__struct :: mtype where [struct_defs]:
  "sensor_msgs__msg__NavSatFix__struct = Interface ''sensor_msgs__msg__NavSatFix''
     [(''header'', Message std_msgs__msg__Header__struct),
      (''status'', Message sensor_msgs__msg__NavSatStatus__struct), (''latitude'', Primitive C_double),
      (''longitude'', Primitive C_double), (''altitude'', Primitive C_double),
      (''position_covariance'', Array 9 (Primitive C_double)), (''position_covariance_type'', Primitive C_uint8)]"

definition sensor_msgs__msg__PointField__struct :: mtype where [struct_defs]:
  "sensor_msgs__msg__PointField__struct = Interface ''sensor_msgs__msg__PointField''
     [(''name'', Text None), (''offset'', Primitive C_uint32), (''datatype'', Primitive C_uint8),
      (''count'', Primitive C_uint32)]"

definition sensor_msgs__msg__PointCloud2__struct :: mtype where [struct_defs]:
  "sensor_msgs__msg__PointCloud2__struct = Interface ''sensor_msgs__msg__PointCloud2''
     [(''header'', Message std_msgs__msg__Header__struct), (''height'', Primitive C_uint32),
      (''width'', Primitive C_uint32),
      (''fields'', Sequence None (Message sensor_msgs__msg__PointField__struct)),
      (''is_bigendian'', Primitive C_bool), (''point_step'', Primitive C_uint32),
      (''row_step'', Primitive C_uint32), (''data'', Sequence None (Primitive C_uint8)),
      (''is_dense'', Primitive C_bool)]"

definition sensor_msgs__msg__PointCloud__struct :: mtype where [struct_defs]:
  "sensor_msgs__msg__PointCloud__struct = Interface ''sensor_msgs__msg__PointCloud''
     [(''header'', Message std_msgs__msg__Header__struct),
      (''points'', Sequence None (Message geometry_msgs__msg__Point32__struct)),
      (''channels'', Sequence None (Message sensor_msgs__msg__ChannelFloat32__struct))]"

definition sensor_msgs__msg__Range__struct :: mtype where [struct_defs]:
  "sensor_msgs__msg__Range__struct = Interface ''sensor_msgs__msg__Range''
     [(''header'', Message std_msgs__msg__Header__struct), (''radiation_type'', Primitive C_uint8),
      (''field_of_view'', Primitive C_float), (''min_range'', Primitive C_float),
      (''max_range'', Primitive C_float), (''range'', Primitive C_float), (''variance'', Primitive C_float)]"

definition sensor_msgs__msg__RelativeHumidity__struct :: mtype where [struct_defs]:
  "sensor_msgs__msg__RelativeHumidity__struct = Interface ''sensor_msgs__msg__RelativeHumidity''
     [(''header'', Message std_msgs__msg__Header__struct), (''relative_humidity'', Primitive C_double),
      (''variance'', Primitive C_double)]"

definition sensor_msgs__msg__Temperature__struct :: mtype where [struct_defs]:
  "sensor_msgs__msg__Temperature__struct = Interface ''sensor_msgs__msg__Temperature''
     [(''header'', Message std_msgs__msg__Header__struct), (''temperature'', Primitive C_double),
      (''variance'', Primitive C_double)]"

definition sensor_msgs__msg__TimeReference__struct :: mtype where [struct_defs]:
  "sensor_msgs__msg__TimeReference__struct = Interface ''sensor_msgs__msg__TimeReference''
     [(''header'', Message std_msgs__msg__Header__struct),
      (''time_ref'', Message builtin_interfaces__msg__Time__struct), (''source'', Text None)]"

definition sensor_msgs__srv__SetCameraInfo_Request__struct :: mtype where [struct_defs]:
  "sensor_msgs__srv__SetCameraInfo_Request__struct = Interface ''sensor_msgs__srv__SetCameraInfo_Request''
     [(''camera_info'', Message sensor_msgs__msg__CameraInfo__struct)]"

definition sensor_msgs__srv__SetCameraInfo_Response__struct :: mtype where [struct_defs]:
  "sensor_msgs__srv__SetCameraInfo_Response__struct = Interface ''sensor_msgs__srv__SetCameraInfo_Response''
     [(''success'', Primitive C_bool), (''status_message'', Text None)]"

definition sensor_msgs__srv__SetCameraInfo_Event__struct :: mtype where [struct_defs]:
  "sensor_msgs__srv__SetCameraInfo_Event__struct = Interface ''sensor_msgs__srv__SetCameraInfo_Event''
     [(''info'', Message service_msgs__msg__ServiceEventInfo__struct),
      (''request'', Sequence (Some 1) (Message sensor_msgs__srv__SetCameraInfo_Request__struct)),
      (''response'', Sequence (Some 1) (Message sensor_msgs__srv__SetCameraInfo_Response__struct))]"

subsection \<open>Package nav msgs\<close>

definition nav_msgs__msg__Goals__struct :: mtype where [struct_defs]:
  "nav_msgs__msg__Goals__struct = Interface ''nav_msgs__msg__Goals''
     [(''header'', Message std_msgs__msg__Header__struct),
      (''goals'', Sequence None (Message geometry_msgs__msg__PoseStamped__struct))]"

definition nav_msgs__msg__GridCells__struct :: mtype where [struct_defs]:
  "nav_msgs__msg__GridCells__struct = Interface ''nav_msgs__msg__GridCells''
     [(''header'', Message std_msgs__msg__Header__struct), (''cell_width'', Primitive C_float),
      (''cell_height'', Primitive C_float),
      (''cells'', Sequence None (Message geometry_msgs__msg__Point__struct))]"

definition nav_msgs__msg__MapMetaData__struct :: mtype where [struct_defs]:
  "nav_msgs__msg__MapMetaData__struct = Interface ''nav_msgs__msg__MapMetaData''
     [(''map_load_time'', Message builtin_interfaces__msg__Time__struct), (''resolution'', Primitive C_float),
      (''width'', Primitive C_uint32), (''height'', Primitive C_uint32),
      (''origin'', Message geometry_msgs__msg__Pose__struct)]"

definition nav_msgs__msg__OccupancyGrid__struct :: mtype where [struct_defs]:
  "nav_msgs__msg__OccupancyGrid__struct = Interface ''nav_msgs__msg__OccupancyGrid''
     [(''header'', Message std_msgs__msg__Header__struct),
      (''info'', Message nav_msgs__msg__MapMetaData__struct), (''data'', Sequence None (Primitive C_int8))]"

definition nav_msgs__msg__Odometry__struct :: mtype where [struct_defs]:
  "nav_msgs__msg__Odometry__struct = Interface ''nav_msgs__msg__Odometry''
     [(''header'', Message std_msgs__msg__Header__struct), (''child_frame_id'', Text None),
      (''pose'', Message geometry_msgs__msg__PoseWithCovariance__struct),
      (''twist'', Message geometry_msgs__msg__TwistWithCovariance__struct)]"

definition nav_msgs__msg__Path__struct :: mtype where [struct_defs]:
  "nav_msgs__msg__Path__struct = Interface ''nav_msgs__msg__Path''
     [(''header'', Message std_msgs__msg__Header__struct),
      (''poses'', Sequence None (Message geometry_msgs__msg__PoseStamped__struct))]"

definition nav_msgs__srv__GetMap_Request__struct :: mtype where [struct_defs]:
  "nav_msgs__srv__GetMap_Request__struct = Interface ''nav_msgs__srv__GetMap_Request''
     [(''structure_needs_at_least_one_member'', Primitive C_uint8)]"

definition nav_msgs__srv__GetMap_Response__struct :: mtype where [struct_defs]:
  "nav_msgs__srv__GetMap_Response__struct = Interface ''nav_msgs__srv__GetMap_Response''
     [(''map'', Message nav_msgs__msg__OccupancyGrid__struct)]"

definition nav_msgs__srv__GetMap_Event__struct :: mtype where [struct_defs]:
  "nav_msgs__srv__GetMap_Event__struct = Interface ''nav_msgs__srv__GetMap_Event''
     [(''info'', Message service_msgs__msg__ServiceEventInfo__struct),
      (''request'', Sequence (Some 1) (Message nav_msgs__srv__GetMap_Request__struct)),
      (''response'', Sequence (Some 1) (Message nav_msgs__srv__GetMap_Response__struct))]"

definition nav_msgs__srv__GetPlan_Request__struct :: mtype where [struct_defs]:
  "nav_msgs__srv__GetPlan_Request__struct = Interface ''nav_msgs__srv__GetPlan_Request''
     [(''start'', Message geometry_msgs__msg__PoseStamped__struct),
      (''goal'', Message geometry_msgs__msg__PoseStamped__struct), (''tolerance'', Primitive C_float)]"

definition nav_msgs__srv__GetPlan_Response__struct :: mtype where [struct_defs]:
  "nav_msgs__srv__GetPlan_Response__struct = Interface ''nav_msgs__srv__GetPlan_Response''
     [(''plan'', Message nav_msgs__msg__Path__struct)]"

definition nav_msgs__srv__GetPlan_Event__struct :: mtype where [struct_defs]:
  "nav_msgs__srv__GetPlan_Event__struct = Interface ''nav_msgs__srv__GetPlan_Event''
     [(''info'', Message service_msgs__msg__ServiceEventInfo__struct),
      (''request'', Sequence (Some 1) (Message nav_msgs__srv__GetPlan_Request__struct)),
      (''response'', Sequence (Some 1) (Message nav_msgs__srv__GetPlan_Response__struct))]"

definition nav_msgs__srv__LoadMap_Request__struct :: mtype where [struct_defs]:
  "nav_msgs__srv__LoadMap_Request__struct = Interface ''nav_msgs__srv__LoadMap_Request''
     [(''map_url'', Text None)]"

definition nav_msgs__srv__LoadMap_Response__struct :: mtype where [struct_defs]:
  "nav_msgs__srv__LoadMap_Response__struct = Interface ''nav_msgs__srv__LoadMap_Response''
     [(''map'', Message nav_msgs__msg__OccupancyGrid__struct), (''result'', Primitive C_uint8)]"

definition nav_msgs__srv__LoadMap_Event__struct :: mtype where [struct_defs]:
  "nav_msgs__srv__LoadMap_Event__struct = Interface ''nav_msgs__srv__LoadMap_Event''
     [(''info'', Message service_msgs__msg__ServiceEventInfo__struct),
      (''request'', Sequence (Some 1) (Message nav_msgs__srv__LoadMap_Request__struct)),
      (''response'', Sequence (Some 1) (Message nav_msgs__srv__LoadMap_Response__struct))]"

definition nav_msgs__srv__SetMap_Request__struct :: mtype where [struct_defs]:
  "nav_msgs__srv__SetMap_Request__struct = Interface ''nav_msgs__srv__SetMap_Request''
     [(''map'', Message nav_msgs__msg__OccupancyGrid__struct),
      (''initial_pose'', Message geometry_msgs__msg__PoseWithCovarianceStamped__struct)]"

definition nav_msgs__srv__SetMap_Response__struct :: mtype where [struct_defs]:
  "nav_msgs__srv__SetMap_Response__struct = Interface ''nav_msgs__srv__SetMap_Response''
     [(''success'', Primitive C_bool)]"

definition nav_msgs__srv__SetMap_Event__struct :: mtype where [struct_defs]:
  "nav_msgs__srv__SetMap_Event__struct = Interface ''nav_msgs__srv__SetMap_Event''
     [(''info'', Message service_msgs__msg__ServiceEventInfo__struct),
      (''request'', Sequence (Some 1) (Message nav_msgs__srv__SetMap_Request__struct)),
      (''response'', Sequence (Some 1) (Message nav_msgs__srv__SetMap_Response__struct))]"

subsection \<open>Package stereo msgs\<close>

definition stereo_msgs__msg__DisparityImage__struct :: mtype where [struct_defs]:
  "stereo_msgs__msg__DisparityImage__struct = Interface ''stereo_msgs__msg__DisparityImage''
     [(''header'', Message std_msgs__msg__Header__struct), (''image'', Message sensor_msgs__msg__Image__struct),
      (''f'', Primitive C_float), (''t'', Primitive C_float),
      (''valid_window'', Message sensor_msgs__msg__RegionOfInterest__struct),
      (''min_disparity'', Primitive C_float), (''max_disparity'', Primitive C_float),
      (''delta_d'', Primitive C_float)]"

subsection \<open>Package trajectory msgs\<close>

definition trajectory_msgs__msg__JointTrajectoryPoint__struct :: mtype where [struct_defs]:
  "trajectory_msgs__msg__JointTrajectoryPoint__struct = Interface ''trajectory_msgs__msg__JointTrajectoryPoint''
     [(''positions'', Sequence None (Primitive C_double)), (''velocities'', Sequence None (Primitive C_double)),
      (''accelerations'', Sequence None (Primitive C_double)), (''effort'', Sequence None (Primitive C_double)),
      (''time_from_start'', Message builtin_interfaces__msg__Duration__struct)]"

definition trajectory_msgs__msg__JointTrajectory__struct :: mtype where [struct_defs]:
  "trajectory_msgs__msg__JointTrajectory__struct = Interface ''trajectory_msgs__msg__JointTrajectory''
     [(''header'', Message std_msgs__msg__Header__struct), (''joint_names'', Sequence None (Text None)),
      (''points'', Sequence None (Message trajectory_msgs__msg__JointTrajectoryPoint__struct))]"

definition trajectory_msgs__msg__MultiDOFJointTrajectoryPoint__struct :: mtype where [struct_defs]:
  "trajectory_msgs__msg__MultiDOFJointTrajectoryPoint__struct = Interface ''trajectory_msgs__msg__MultiDOFJointTrajectoryPoint''
     [(''transforms'', Sequence None (Message geometry_msgs__msg__Transform__struct)),
      (''velocities'', Sequence None (Message geometry_msgs__msg__Twist__struct)),
      (''accelerations'', Sequence None (Message geometry_msgs__msg__Twist__struct)),
      (''time_from_start'', Message builtin_interfaces__msg__Duration__struct)]"

definition trajectory_msgs__msg__MultiDOFJointTrajectory__struct :: mtype where [struct_defs]:
  "trajectory_msgs__msg__MultiDOFJointTrajectory__struct = Interface ''trajectory_msgs__msg__MultiDOFJointTrajectory''
     [(''header'', Message std_msgs__msg__Header__struct), (''joint_names'', Sequence None (Text None)),
      (''points'', Sequence None (Message trajectory_msgs__msg__MultiDOFJointTrajectoryPoint__struct))]"

subsection \<open>Package actionlib msgs\<close>

definition actionlib_msgs__msg__GoalID__struct :: mtype where [struct_defs]:
  "actionlib_msgs__msg__GoalID__struct = Interface ''actionlib_msgs__msg__GoalID''
     [(''stamp'', Message builtin_interfaces__msg__Time__struct), (''id'', Text None)]"

definition actionlib_msgs__msg__GoalStatus__struct :: mtype where [struct_defs]:
  "actionlib_msgs__msg__GoalStatus__struct = Interface ''actionlib_msgs__msg__GoalStatus''
     [(''goal_id'', Message actionlib_msgs__msg__GoalID__struct), (''status'', Primitive C_uint8),
      (''text'', Text None)]"

definition actionlib_msgs__msg__GoalStatusArray__struct :: mtype where [struct_defs]:
  "actionlib_msgs__msg__GoalStatusArray__struct = Interface ''actionlib_msgs__msg__GoalStatusArray''
     [(''header'', Message std_msgs__msg__Header__struct),
      (''status_list'', Sequence None (Message actionlib_msgs__msg__GoalStatus__struct))]"

subsection \<open>Package tf2 msgs\<close>

definition tf2_msgs__action__LookupTransform_Goal__struct :: mtype where [struct_defs]:
  "tf2_msgs__action__LookupTransform_Goal__struct = Interface ''tf2_msgs__action__LookupTransform_Goal''
     [(''target_frame'', Text None), (''source_frame'', Text None),
      (''source_time'', Message builtin_interfaces__msg__Time__struct),
      (''timeout'', Message builtin_interfaces__msg__Duration__struct),
      (''target_time'', Message builtin_interfaces__msg__Time__struct), (''fixed_frame'', Text None),
      (''advanced'', Primitive C_bool)]"

definition tf2_msgs__msg__TF2Error__struct :: mtype where [struct_defs]:
  "tf2_msgs__msg__TF2Error__struct = Interface ''tf2_msgs__msg__TF2Error''
     [(''error'', Primitive C_uint8), (''error_string'', Text None)]"

definition tf2_msgs__action__LookupTransform_Result__struct :: mtype where [struct_defs]:
  "tf2_msgs__action__LookupTransform_Result__struct = Interface ''tf2_msgs__action__LookupTransform_Result''
     [(''transform'', Message geometry_msgs__msg__TransformStamped__struct),
      (''error'', Message tf2_msgs__msg__TF2Error__struct)]"

definition tf2_msgs__action__LookupTransform_Feedback__struct :: mtype where [struct_defs]:
  "tf2_msgs__action__LookupTransform_Feedback__struct = Interface ''tf2_msgs__action__LookupTransform_Feedback''
     [(''structure_needs_at_least_one_member'', Primitive C_uint8)]"

definition tf2_msgs__action__LookupTransform_SendGoal_Request__struct :: mtype where [struct_defs]:
  "tf2_msgs__action__LookupTransform_SendGoal_Request__struct = Interface ''tf2_msgs__action__LookupTransform_SendGoal_Request''
     [(''goal_id'', Message unique_identifier_msgs__msg__UUID__struct),
      (''goal'', Message tf2_msgs__action__LookupTransform_Goal__struct)]"

definition tf2_msgs__action__LookupTransform_SendGoal_Response__struct :: mtype where [struct_defs]:
  "tf2_msgs__action__LookupTransform_SendGoal_Response__struct = Interface ''tf2_msgs__action__LookupTransform_SendGoal_Response''
     [(''accepted'', Primitive C_bool), (''stamp'', Message builtin_interfaces__msg__Time__struct)]"

definition tf2_msgs__action__LookupTransform_SendGoal_Event__struct :: mtype where [struct_defs]:
  "tf2_msgs__action__LookupTransform_SendGoal_Event__struct = Interface ''tf2_msgs__action__LookupTransform_SendGoal_Event''
     [(''info'', Message service_msgs__msg__ServiceEventInfo__struct),
      (''request'', Sequence (Some 1) (Message tf2_msgs__action__LookupTransform_SendGoal_Request__struct)),
      (''response'', Sequence (Some 1) (Message tf2_msgs__action__LookupTransform_SendGoal_Response__struct))]"

definition tf2_msgs__action__LookupTransform_GetResult_Request__struct :: mtype where [struct_defs]:
  "tf2_msgs__action__LookupTransform_GetResult_Request__struct = Interface ''tf2_msgs__action__LookupTransform_GetResult_Request''
     [(''goal_id'', Message unique_identifier_msgs__msg__UUID__struct)]"

definition tf2_msgs__action__LookupTransform_GetResult_Response__struct :: mtype where [struct_defs]:
  "tf2_msgs__action__LookupTransform_GetResult_Response__struct = Interface ''tf2_msgs__action__LookupTransform_GetResult_Response''
     [(''status'', Primitive C_int8), (''result'', Message tf2_msgs__action__LookupTransform_Result__struct)]"

definition tf2_msgs__action__LookupTransform_GetResult_Event__struct :: mtype where [struct_defs]:
  "tf2_msgs__action__LookupTransform_GetResult_Event__struct = Interface ''tf2_msgs__action__LookupTransform_GetResult_Event''
     [(''info'', Message service_msgs__msg__ServiceEventInfo__struct),
      (''request'', Sequence (Some 1) (Message tf2_msgs__action__LookupTransform_GetResult_Request__struct)),
      (''response'', Sequence (Some 1) (Message tf2_msgs__action__LookupTransform_GetResult_Response__struct))]"

definition tf2_msgs__action__LookupTransform_FeedbackMessage__struct :: mtype where [struct_defs]:
  "tf2_msgs__action__LookupTransform_FeedbackMessage__struct = Interface ''tf2_msgs__action__LookupTransform_FeedbackMessage''
     [(''goal_id'', Message unique_identifier_msgs__msg__UUID__struct),
      (''feedback'', Message tf2_msgs__action__LookupTransform_Feedback__struct)]"

definition tf2_msgs__msg__TFMessage__struct :: mtype where [struct_defs]:
  "tf2_msgs__msg__TFMessage__struct = Interface ''tf2_msgs__msg__TFMessage''
     [(''transforms'', Sequence None (Message geometry_msgs__msg__TransformStamped__struct))]"

definition tf2_msgs__srv__FrameGraph_Request__struct :: mtype where [struct_defs]:
  "tf2_msgs__srv__FrameGraph_Request__struct = Interface ''tf2_msgs__srv__FrameGraph_Request''
     [(''structure_needs_at_least_one_member'', Primitive C_uint8)]"

definition tf2_msgs__srv__FrameGraph_Response__struct :: mtype where [struct_defs]:
  "tf2_msgs__srv__FrameGraph_Response__struct = Interface ''tf2_msgs__srv__FrameGraph_Response''
     [(''frame_yaml'', Text None)]"

definition tf2_msgs__srv__FrameGraph_Event__struct :: mtype where [struct_defs]:
  "tf2_msgs__srv__FrameGraph_Event__struct = Interface ''tf2_msgs__srv__FrameGraph_Event''
     [(''info'', Message service_msgs__msg__ServiceEventInfo__struct),
      (''request'', Sequence (Some 1) (Message tf2_msgs__srv__FrameGraph_Request__struct)),
      (''response'', Sequence (Some 1) (Message tf2_msgs__srv__FrameGraph_Response__struct))]"

subsection \<open>Package visualization msgs\<close>

definition visualization_msgs__msg__ImageMarker__struct :: mtype where [struct_defs]:
  "visualization_msgs__msg__ImageMarker__struct = Interface ''visualization_msgs__msg__ImageMarker''
     [(''header'', Message std_msgs__msg__Header__struct), (''ns'', Text None), (''id'', Primitive C_int32),
      (''type'', Primitive C_int32), (''action'', Primitive C_int32),
      (''position'', Message geometry_msgs__msg__Point__struct), (''scale'', Primitive C_float),
      (''outline_color'', Message std_msgs__msg__ColorRGBA__struct), (''filled'', Primitive C_uint8),
      (''fill_color'', Message std_msgs__msg__ColorRGBA__struct),
      (''lifetime'', Message builtin_interfaces__msg__Duration__struct),
      (''points'', Sequence None (Message geometry_msgs__msg__Point__struct)),
      (''outline_colors'', Sequence None (Message std_msgs__msg__ColorRGBA__struct))]"

definition visualization_msgs__msg__MenuEntry__struct :: mtype where [struct_defs]:
  "visualization_msgs__msg__MenuEntry__struct = Interface ''visualization_msgs__msg__MenuEntry''
     [(''id'', Primitive C_uint32), (''parent_id'', Primitive C_uint32), (''title'', Text None),
      (''command'', Text None), (''command_type'', Primitive C_uint8)]"

definition visualization_msgs__msg__UVCoordinate__struct :: mtype where [struct_defs]:
  "visualization_msgs__msg__UVCoordinate__struct = Interface ''visualization_msgs__msg__UVCoordinate''
     [(''u'', Primitive C_float), (''v'', Primitive C_float)]"

definition visualization_msgs__msg__MeshFile__struct :: mtype where [struct_defs]:
  "visualization_msgs__msg__MeshFile__struct = Interface ''visualization_msgs__msg__MeshFile''
     [(''filename'', Text None), (''data'', Sequence None (Primitive C_uint8))]"

definition visualization_msgs__msg__Marker__struct :: mtype where [struct_defs]:
  "visualization_msgs__msg__Marker__struct = Interface ''visualization_msgs__msg__Marker''
     [(''header'', Message std_msgs__msg__Header__struct), (''ns'', Text None), (''id'', Primitive C_int32),
      (''type'', Primitive C_int32), (''action'', Primitive C_int32),
      (''pose'', Message geometry_msgs__msg__Pose__struct),
      (''scale'', Message geometry_msgs__msg__Vector3__struct),
      (''color'', Message std_msgs__msg__ColorRGBA__struct),
      (''lifetime'', Message builtin_interfaces__msg__Duration__struct), (''frame_locked'', Primitive C_bool),
      (''points'', Sequence None (Message geometry_msgs__msg__Point__struct)),
      (''colors'', Sequence None (Message std_msgs__msg__ColorRGBA__struct)), (''texture_resource'', Text None),
      (''texture'', Message sensor_msgs__msg__CompressedImage__struct),
      (''uv_coordinates'', Sequence None (Message visualization_msgs__msg__UVCoordinate__struct)),
      (''text'', Text None), (''mesh_resource'', Text None),
      (''mesh_file'', Message visualization_msgs__msg__MeshFile__struct),
      (''mesh_use_embedded_materials'', Primitive C_bool)]"

definition visualization_msgs__msg__InteractiveMarkerControl__struct :: mtype where [struct_defs]:
  "visualization_msgs__msg__InteractiveMarkerControl__struct = Interface ''visualization_msgs__msg__InteractiveMarkerControl''
     [(''name'', Text None), (''orientation'', Message geometry_msgs__msg__Quaternion__struct),
      (''orientation_mode'', Primitive C_uint8), (''interaction_mode'', Primitive C_uint8),
      (''always_visible'', Primitive C_bool),
      (''markers'', Sequence None (Message visualization_msgs__msg__Marker__struct)),
      (''independent_marker_orientation'', Primitive C_bool), (''description'', Text None)]"

definition visualization_msgs__msg__InteractiveMarker__struct :: mtype where [struct_defs]:
  "visualization_msgs__msg__InteractiveMarker__struct = Interface ''visualization_msgs__msg__InteractiveMarker''
     [(''header'', Message std_msgs__msg__Header__struct), (''pose'', Message geometry_msgs__msg__Pose__struct),
      (''name'', Text None), (''description'', Text None), (''scale'', Primitive C_float),
      (''menu_entries'', Sequence None (Message visualization_msgs__msg__MenuEntry__struct)),
      (''controls'', Sequence None (Message visualization_msgs__msg__InteractiveMarkerControl__struct))]"

definition visualization_msgs__msg__InteractiveMarkerFeedback__struct :: mtype where [struct_defs]:
  "visualization_msgs__msg__InteractiveMarkerFeedback__struct = Interface ''visualization_msgs__msg__InteractiveMarkerFeedback''
     [(''header'', Message std_msgs__msg__Header__struct), (''client_id'', Text None),
      (''marker_name'', Text None), (''control_name'', Text None), (''event_type'', Primitive C_uint8),
      (''pose'', Message geometry_msgs__msg__Pose__struct), (''menu_entry_id'', Primitive C_uint32),
      (''mouse_point'', Message geometry_msgs__msg__Point__struct), (''mouse_point_valid'', Primitive C_bool)]"

definition visualization_msgs__msg__InteractiveMarkerInit__struct :: mtype where [struct_defs]:
  "visualization_msgs__msg__InteractiveMarkerInit__struct = Interface ''visualization_msgs__msg__InteractiveMarkerInit''
     [(''server_id'', Text None), (''seq_num'', Primitive C_uint64),
      (''markers'', Sequence None (Message visualization_msgs__msg__InteractiveMarker__struct))]"

definition visualization_msgs__msg__InteractiveMarkerPose__struct :: mtype where [struct_defs]:
  "visualization_msgs__msg__InteractiveMarkerPose__struct = Interface ''visualization_msgs__msg__InteractiveMarkerPose''
     [(''header'', Message std_msgs__msg__Header__struct), (''pose'', Message geometry_msgs__msg__Pose__struct),
      (''name'', Text None)]"

definition visualization_msgs__msg__InteractiveMarkerUpdate__struct :: mtype where [struct_defs]:
  "visualization_msgs__msg__InteractiveMarkerUpdate__struct = Interface ''visualization_msgs__msg__InteractiveMarkerUpdate''
     [(''server_id'', Text None), (''seq_num'', Primitive C_uint64), (''type'', Primitive C_uint8),
      (''markers'', Sequence None (Message visualization_msgs__msg__InteractiveMarker__struct)),
      (''poses'', Sequence None (Message visualization_msgs__msg__InteractiveMarkerPose__struct)),
      (''erases'', Sequence None (Text None))]"

definition visualization_msgs__msg__MarkerArray__struct :: mtype where [struct_defs]:
  "visualization_msgs__msg__MarkerArray__struct = Interface ''visualization_msgs__msg__MarkerArray''
     [(''markers'', Sequence None (Message visualization_msgs__msg__Marker__struct))]"

definition visualization_msgs__srv__GetInteractiveMarkers_Request__struct :: mtype where [struct_defs]:
  "visualization_msgs__srv__GetInteractiveMarkers_Request__struct = Interface ''visualization_msgs__srv__GetInteractiveMarkers_Request''
     [(''structure_needs_at_least_one_member'', Primitive C_uint8)]"

definition visualization_msgs__srv__GetInteractiveMarkers_Response__struct :: mtype where [struct_defs]:
  "visualization_msgs__srv__GetInteractiveMarkers_Response__struct = Interface ''visualization_msgs__srv__GetInteractiveMarkers_Response''
     [(''sequence_number'', Primitive C_uint64),
      (''markers'', Sequence None (Message visualization_msgs__msg__InteractiveMarker__struct))]"

definition visualization_msgs__srv__GetInteractiveMarkers_Event__struct :: mtype where [struct_defs]:
  "visualization_msgs__srv__GetInteractiveMarkers_Event__struct = Interface ''visualization_msgs__srv__GetInteractiveMarkers_Event''
     [(''info'', Message service_msgs__msg__ServiceEventInfo__struct),
      (''request'', Sequence (Some 1) (Message visualization_msgs__srv__GetInteractiveMarkers_Request__struct)),
      (''response'', Sequence (Some 1) (Message visualization_msgs__srv__GetInteractiveMarkers_Response__struct))]"

subsection \<open>Package control msgs\<close>

definition control_msgs__msg__JointTolerance__struct :: mtype where [struct_defs]:
  "control_msgs__msg__JointTolerance__struct = Interface ''control_msgs__msg__JointTolerance''
     [(''name'', Text None), (''position'', Primitive C_double), (''velocity'', Primitive C_double),
      (''acceleration'', Primitive C_double)]"

definition control_msgs__msg__JointComponentTolerance__struct :: mtype where [struct_defs]:
  "control_msgs__msg__JointComponentTolerance__struct = Interface ''control_msgs__msg__JointComponentTolerance''
     [(''joint_name'', Text None), (''component'', Primitive C_uint16), (''position'', Primitive C_double),
      (''velocity'', Primitive C_double), (''acceleration'', Primitive C_double)]"

definition control_msgs__action__FollowJointTrajectory_Goal__struct :: mtype where [struct_defs]:
  "control_msgs__action__FollowJointTrajectory_Goal__struct = Interface ''control_msgs__action__FollowJointTrajectory_Goal''
     [(''trajectory'', Message trajectory_msgs__msg__JointTrajectory__struct),
      (''multi_dof_trajectory'', Message trajectory_msgs__msg__MultiDOFJointTrajectory__struct),
      (''path_tolerance'', Sequence None (Message control_msgs__msg__JointTolerance__struct)),
      (''component_path_tolerance'', Sequence None (Message control_msgs__msg__JointComponentTolerance__struct)),
      (''goal_tolerance'', Sequence None (Message control_msgs__msg__JointTolerance__struct)),
      (''component_goal_tolerance'', Sequence None (Message control_msgs__msg__JointComponentTolerance__struct)),
      (''goal_time_tolerance'', Message builtin_interfaces__msg__Duration__struct)]"

definition control_msgs__action__FollowJointTrajectory_Result__struct :: mtype where [struct_defs]:
  "control_msgs__action__FollowJointTrajectory_Result__struct = Interface ''control_msgs__action__FollowJointTrajectory_Result''
     [(''error_code'', Primitive C_int32), (''error_string'', Text None)]"

definition control_msgs__action__FollowJointTrajectory_Feedback__struct :: mtype where [struct_defs]:
  "control_msgs__action__FollowJointTrajectory_Feedback__struct = Interface ''control_msgs__action__FollowJointTrajectory_Feedback''
     [(''header'', Message std_msgs__msg__Header__struct), (''joint_names'', Sequence None (Text None)),
      (''desired'', Message trajectory_msgs__msg__JointTrajectoryPoint__struct),
      (''actual'', Message trajectory_msgs__msg__JointTrajectoryPoint__struct),
      (''error'', Message trajectory_msgs__msg__JointTrajectoryPoint__struct),
      (''multi_dof_joint_names'', Sequence None (Text None)),
      (''multi_dof_desired'', Message trajectory_msgs__msg__MultiDOFJointTrajectoryPoint__struct),
      (''multi_dof_actual'', Message trajectory_msgs__msg__MultiDOFJointTrajectoryPoint__struct),
      (''multi_dof_error'', Message trajectory_msgs__msg__MultiDOFJointTrajectoryPoint__struct)]"

definition control_msgs__action__FollowJointTrajectory_SendGoal_Request__struct :: mtype where [struct_defs]:
  "control_msgs__action__FollowJointTrajectory_SendGoal_Request__struct = Interface ''control_msgs__action__FollowJointTrajectory_SendGoal_Request''
     [(''goal_id'', Message unique_identifier_msgs__msg__UUID__struct),
      (''goal'', Message control_msgs__action__FollowJointTrajectory_Goal__struct)]"

definition control_msgs__action__FollowJointTrajectory_SendGoal_Response__struct :: mtype where [struct_defs]:
  "control_msgs__action__FollowJointTrajectory_SendGoal_Response__struct = Interface ''control_msgs__action__FollowJointTrajectory_SendGoal_Response''
     [(''accepted'', Primitive C_bool), (''stamp'', Message builtin_interfaces__msg__Time__struct)]"

definition control_msgs__action__FollowJointTrajectory_SendGoal_Event__struct :: mtype where [struct_defs]:
  "control_msgs__action__FollowJointTrajectory_SendGoal_Event__struct = Interface ''control_msgs__action__FollowJointTrajectory_SendGoal_Event''
     [(''info'', Message service_msgs__msg__ServiceEventInfo__struct),
      (''request'', Sequence (Some 1) (Message control_msgs__action__FollowJointTrajectory_SendGoal_Request__struct)),
      (''response'', Sequence (Some 1) (Message control_msgs__action__FollowJointTrajectory_SendGoal_Response__struct))]"

definition control_msgs__action__FollowJointTrajectory_GetResult_Request__struct :: mtype where [struct_defs]:
  "control_msgs__action__FollowJointTrajectory_GetResult_Request__struct = Interface ''control_msgs__action__FollowJointTrajectory_GetResult_Request''
     [(''goal_id'', Message unique_identifier_msgs__msg__UUID__struct)]"

definition control_msgs__action__FollowJointTrajectory_GetResult_Response__struct :: mtype where [struct_defs]:
  "control_msgs__action__FollowJointTrajectory_GetResult_Response__struct = Interface ''control_msgs__action__FollowJointTrajectory_GetResult_Response''
     [(''status'', Primitive C_int8),
      (''result'', Message control_msgs__action__FollowJointTrajectory_Result__struct)]"

definition control_msgs__action__FollowJointTrajectory_GetResult_Event__struct :: mtype where [struct_defs]:
  "control_msgs__action__FollowJointTrajectory_GetResult_Event__struct = Interface ''control_msgs__action__FollowJointTrajectory_GetResult_Event''
     [(''info'', Message service_msgs__msg__ServiceEventInfo__struct),
      (''request'', Sequence (Some 1) (Message control_msgs__action__FollowJointTrajectory_GetResult_Request__struct)),
      (''response'', Sequence (Some 1) (Message control_msgs__action__FollowJointTrajectory_GetResult_Response__struct))]"

definition control_msgs__action__FollowJointTrajectory_FeedbackMessage__struct :: mtype where [struct_defs]:
  "control_msgs__action__FollowJointTrajectory_FeedbackMessage__struct = Interface ''control_msgs__action__FollowJointTrajectory_FeedbackMessage''
     [(''goal_id'', Message unique_identifier_msgs__msg__UUID__struct),
      (''feedback'', Message control_msgs__action__FollowJointTrajectory_Feedback__struct)]"

definition control_msgs__msg__GripperCommand__struct :: mtype where [struct_defs]:
  "control_msgs__msg__GripperCommand__struct = Interface ''control_msgs__msg__GripperCommand''
     [(''position'', Primitive C_double), (''max_effort'', Primitive C_double)]"

definition control_msgs__action__GripperCommand_Goal__struct :: mtype where [struct_defs]:
  "control_msgs__action__GripperCommand_Goal__struct = Interface ''control_msgs__action__GripperCommand_Goal''
     [(''command'', Message control_msgs__msg__GripperCommand__struct)]"

definition control_msgs__action__GripperCommand_Result__struct :: mtype where [struct_defs]:
  "control_msgs__action__GripperCommand_Result__struct = Interface ''control_msgs__action__GripperCommand_Result''
     [(''position'', Primitive C_double), (''effort'', Primitive C_double), (''stalled'', Primitive C_bool),
      (''reached_goal'', Primitive C_bool)]"

definition control_msgs__action__GripperCommand_Feedback__struct :: mtype where [struct_defs]:
  "control_msgs__action__GripperCommand_Feedback__struct = Interface ''control_msgs__action__GripperCommand_Feedback''
     [(''position'', Primitive C_double), (''effort'', Primitive C_double), (''stalled'', Primitive C_bool),
      (''reached_goal'', Primitive C_bool)]"

definition control_msgs__action__GripperCommand_SendGoal_Request__struct :: mtype where [struct_defs]:
  "control_msgs__action__GripperCommand_SendGoal_Request__struct = Interface ''control_msgs__action__GripperCommand_SendGoal_Request''
     [(''goal_id'', Message unique_identifier_msgs__msg__UUID__struct),
      (''goal'', Message control_msgs__action__GripperCommand_Goal__struct)]"

definition control_msgs__action__GripperCommand_SendGoal_Response__struct :: mtype where [struct_defs]:
  "control_msgs__action__GripperCommand_SendGoal_Response__struct = Interface ''control_msgs__action__GripperCommand_SendGoal_Response''
     [(''accepted'', Primitive C_bool), (''stamp'', Message builtin_interfaces__msg__Time__struct)]"

definition control_msgs__action__GripperCommand_SendGoal_Event__struct :: mtype where [struct_defs]:
  "control_msgs__action__GripperCommand_SendGoal_Event__struct = Interface ''control_msgs__action__GripperCommand_SendGoal_Event''
     [(''info'', Message service_msgs__msg__ServiceEventInfo__struct),
      (''request'', Sequence (Some 1) (Message control_msgs__action__GripperCommand_SendGoal_Request__struct)),
      (''response'', Sequence (Some 1) (Message control_msgs__action__GripperCommand_SendGoal_Response__struct))]"

definition control_msgs__action__GripperCommand_GetResult_Request__struct :: mtype where [struct_defs]:
  "control_msgs__action__GripperCommand_GetResult_Request__struct = Interface ''control_msgs__action__GripperCommand_GetResult_Request''
     [(''goal_id'', Message unique_identifier_msgs__msg__UUID__struct)]"

definition control_msgs__action__GripperCommand_GetResult_Response__struct :: mtype where [struct_defs]:
  "control_msgs__action__GripperCommand_GetResult_Response__struct = Interface ''control_msgs__action__GripperCommand_GetResult_Response''
     [(''status'', Primitive C_int8), (''result'', Message control_msgs__action__GripperCommand_Result__struct)]"

definition control_msgs__action__GripperCommand_GetResult_Event__struct :: mtype where [struct_defs]:
  "control_msgs__action__GripperCommand_GetResult_Event__struct = Interface ''control_msgs__action__GripperCommand_GetResult_Event''
     [(''info'', Message service_msgs__msg__ServiceEventInfo__struct),
      (''request'', Sequence (Some 1) (Message control_msgs__action__GripperCommand_GetResult_Request__struct)),
      (''response'', Sequence (Some 1) (Message control_msgs__action__GripperCommand_GetResult_Response__struct))]"

definition control_msgs__action__GripperCommand_FeedbackMessage__struct :: mtype where [struct_defs]:
  "control_msgs__action__GripperCommand_FeedbackMessage__struct = Interface ''control_msgs__action__GripperCommand_FeedbackMessage''
     [(''goal_id'', Message unique_identifier_msgs__msg__UUID__struct),
      (''feedback'', Message control_msgs__action__GripperCommand_Feedback__struct)]"

definition control_msgs__action__JointTrajectory_Goal__struct :: mtype where [struct_defs]:
  "control_msgs__action__JointTrajectory_Goal__struct = Interface ''control_msgs__action__JointTrajectory_Goal''
     [(''trajectory'', Message trajectory_msgs__msg__JointTrajectory__struct)]"

definition control_msgs__action__JointTrajectory_Result__struct :: mtype where [struct_defs]:
  "control_msgs__action__JointTrajectory_Result__struct = Interface ''control_msgs__action__JointTrajectory_Result''
     [(''structure_needs_at_least_one_member'', Primitive C_uint8)]"

definition control_msgs__action__JointTrajectory_Feedback__struct :: mtype where [struct_defs]:
  "control_msgs__action__JointTrajectory_Feedback__struct = Interface ''control_msgs__action__JointTrajectory_Feedback''
     [(''structure_needs_at_least_one_member'', Primitive C_uint8)]"

definition control_msgs__action__JointTrajectory_SendGoal_Request__struct :: mtype where [struct_defs]:
  "control_msgs__action__JointTrajectory_SendGoal_Request__struct = Interface ''control_msgs__action__JointTrajectory_SendGoal_Request''
     [(''goal_id'', Message unique_identifier_msgs__msg__UUID__struct),
      (''goal'', Message control_msgs__action__JointTrajectory_Goal__struct)]"

definition control_msgs__action__JointTrajectory_SendGoal_Response__struct :: mtype where [struct_defs]:
  "control_msgs__action__JointTrajectory_SendGoal_Response__struct = Interface ''control_msgs__action__JointTrajectory_SendGoal_Response''
     [(''accepted'', Primitive C_bool), (''stamp'', Message builtin_interfaces__msg__Time__struct)]"

definition control_msgs__action__JointTrajectory_SendGoal_Event__struct :: mtype where [struct_defs]:
  "control_msgs__action__JointTrajectory_SendGoal_Event__struct = Interface ''control_msgs__action__JointTrajectory_SendGoal_Event''
     [(''info'', Message service_msgs__msg__ServiceEventInfo__struct),
      (''request'', Sequence (Some 1) (Message control_msgs__action__JointTrajectory_SendGoal_Request__struct)),
      (''response'', Sequence (Some 1) (Message control_msgs__action__JointTrajectory_SendGoal_Response__struct))]"

definition control_msgs__action__JointTrajectory_GetResult_Request__struct :: mtype where [struct_defs]:
  "control_msgs__action__JointTrajectory_GetResult_Request__struct = Interface ''control_msgs__action__JointTrajectory_GetResult_Request''
     [(''goal_id'', Message unique_identifier_msgs__msg__UUID__struct)]"

definition control_msgs__action__JointTrajectory_GetResult_Response__struct :: mtype where [struct_defs]:
  "control_msgs__action__JointTrajectory_GetResult_Response__struct = Interface ''control_msgs__action__JointTrajectory_GetResult_Response''
     [(''status'', Primitive C_int8), (''result'', Message control_msgs__action__JointTrajectory_Result__struct)]"

definition control_msgs__action__JointTrajectory_GetResult_Event__struct :: mtype where [struct_defs]:
  "control_msgs__action__JointTrajectory_GetResult_Event__struct = Interface ''control_msgs__action__JointTrajectory_GetResult_Event''
     [(''info'', Message service_msgs__msg__ServiceEventInfo__struct),
      (''request'', Sequence (Some 1) (Message control_msgs__action__JointTrajectory_GetResult_Request__struct)),
      (''response'', Sequence (Some 1) (Message control_msgs__action__JointTrajectory_GetResult_Response__struct))]"

definition control_msgs__action__JointTrajectory_FeedbackMessage__struct :: mtype where [struct_defs]:
  "control_msgs__action__JointTrajectory_FeedbackMessage__struct = Interface ''control_msgs__action__JointTrajectory_FeedbackMessage''
     [(''goal_id'', Message unique_identifier_msgs__msg__UUID__struct),
      (''feedback'', Message control_msgs__action__JointTrajectory_Feedback__struct)]"

definition control_msgs__action__PointHead_Goal__struct :: mtype where [struct_defs]:
  "control_msgs__action__PointHead_Goal__struct = Interface ''control_msgs__action__PointHead_Goal''
     [(''target'', Message geometry_msgs__msg__PointStamped__struct),
      (''pointing_axis'', Message geometry_msgs__msg__Vector3__struct), (''pointing_frame'', Text None),
      (''min_duration'', Message builtin_interfaces__msg__Duration__struct),
      (''max_velocity'', Primitive C_double)]"

definition control_msgs__action__PointHead_Result__struct :: mtype where [struct_defs]:
  "control_msgs__action__PointHead_Result__struct = Interface ''control_msgs__action__PointHead_Result''
     [(''structure_needs_at_least_one_member'', Primitive C_uint8)]"

definition control_msgs__action__PointHead_Feedback__struct :: mtype where [struct_defs]:
  "control_msgs__action__PointHead_Feedback__struct = Interface ''control_msgs__action__PointHead_Feedback''
     [(''pointing_angle_error'', Primitive C_double)]"

definition control_msgs__action__PointHead_SendGoal_Request__struct :: mtype where [struct_defs]:
  "control_msgs__action__PointHead_SendGoal_Request__struct = Interface ''control_msgs__action__PointHead_SendGoal_Request''
     [(''goal_id'', Message unique_identifier_msgs__msg__UUID__struct),
      (''goal'', Message control_msgs__action__PointHead_Goal__struct)]"

definition control_msgs__action__PointHead_SendGoal_Response__struct :: mtype where [struct_defs]:
  "control_msgs__action__PointHead_SendGoal_Response__struct = Interface ''control_msgs__action__PointHead_SendGoal_Response''
     [(''accepted'', Primitive C_bool), (''stamp'', Message builtin_interfaces__msg__Time__struct)]"

definition control_msgs__action__PointHead_SendGoal_Event__struct :: mtype where [struct_defs]:
  "control_msgs__action__PointHead_SendGoal_Event__struct = Interface ''control_msgs__action__PointHead_SendGoal_Event''
     [(''info'', Message service_msgs__msg__ServiceEventInfo__struct),
      (''request'', Sequence (Some 1) (Message control_msgs__action__PointHead_SendGoal_Request__struct)),
      (''response'', Sequence (Some 1) (Message control_msgs__action__PointHead_SendGoal_Response__struct))]"

definition control_msgs__action__PointHead_GetResult_Request__struct :: mtype where [struct_defs]:
  "control_msgs__action__PointHead_GetResult_Request__struct = Interface ''control_msgs__action__PointHead_GetResult_Request''
     [(''goal_id'', Message unique_identifier_msgs__msg__UUID__struct)]"

definition control_msgs__action__PointHead_GetResult_Response__struct :: mtype where [struct_defs]:
  "control_msgs__action__PointHead_GetResult_Response__struct = Interface ''control_msgs__action__PointHead_GetResult_Response''
     [(''status'', Primitive C_int8), (''result'', Message control_msgs__action__PointHead_Result__struct)]"

definition control_msgs__action__PointHead_GetResult_Event__struct :: mtype where [struct_defs]:
  "control_msgs__action__PointHead_GetResult_Event__struct = Interface ''control_msgs__action__PointHead_GetResult_Event''
     [(''info'', Message service_msgs__msg__ServiceEventInfo__struct),
      (''request'', Sequence (Some 1) (Message control_msgs__action__PointHead_GetResult_Request__struct)),
      (''response'', Sequence (Some 1) (Message control_msgs__action__PointHead_GetResult_Response__struct))]"

definition control_msgs__action__PointHead_FeedbackMessage__struct :: mtype where [struct_defs]:
  "control_msgs__action__PointHead_FeedbackMessage__struct = Interface ''control_msgs__action__PointHead_FeedbackMessage''
     [(''goal_id'', Message unique_identifier_msgs__msg__UUID__struct),
      (''feedback'', Message control_msgs__action__PointHead_Feedback__struct)]"

definition control_msgs__action__SingleJointPosition_Goal__struct :: mtype where [struct_defs]:
  "control_msgs__action__SingleJointPosition_Goal__struct = Interface ''control_msgs__action__SingleJointPosition_Goal''
     [(''position'', Primitive C_double), (''min_duration'', Message builtin_interfaces__msg__Duration__struct),
      (''max_velocity'', Primitive C_double)]"

definition control_msgs__action__SingleJointPosition_Result__struct :: mtype where [struct_defs]:
  "control_msgs__action__SingleJointPosition_Result__struct = Interface ''control_msgs__action__SingleJointPosition_Result''
     [(''structure_needs_at_least_one_member'', Primitive C_uint8)]"

definition control_msgs__action__SingleJointPosition_Feedback__struct :: mtype where [struct_defs]:
  "control_msgs__action__SingleJointPosition_Feedback__struct = Interface ''control_msgs__action__SingleJointPosition_Feedback''
     [(''header'', Message std_msgs__msg__Header__struct), (''position'', Primitive C_double),
      (''velocity'', Primitive C_double), (''error'', Primitive C_double)]"

definition control_msgs__action__SingleJointPosition_SendGoal_Request__struct :: mtype where [struct_defs]:
  "control_msgs__action__SingleJointPosition_SendGoal_Request__struct = Interface ''control_msgs__action__SingleJointPosition_SendGoal_Request''
     [(''goal_id'', Message unique_identifier_msgs__msg__UUID__struct),
      (''goal'', Message control_msgs__action__SingleJointPosition_Goal__struct)]"

definition control_msgs__action__SingleJointPosition_SendGoal_Response__struct :: mtype where [struct_defs]:
  "control_msgs__action__SingleJointPosition_SendGoal_Response__struct = Interface ''control_msgs__action__SingleJointPosition_SendGoal_Response''
     [(''accepted'', Primitive C_bool), (''stamp'', Message builtin_interfaces__msg__Time__struct)]"

definition control_msgs__action__SingleJointPosition_SendGoal_Event__struct :: mtype where [struct_defs]:
  "control_msgs__action__SingleJointPosition_SendGoal_Event__struct = Interface ''control_msgs__action__SingleJointPosition_SendGoal_Event''
     [(''info'', Message service_msgs__msg__ServiceEventInfo__struct),
      (''request'', Sequence (Some 1) (Message control_msgs__action__SingleJointPosition_SendGoal_Request__struct)),
      (''response'', Sequence (Some 1) (Message control_msgs__action__SingleJointPosition_SendGoal_Response__struct))]"

definition control_msgs__action__SingleJointPosition_GetResult_Request__struct :: mtype where [struct_defs]:
  "control_msgs__action__SingleJointPosition_GetResult_Request__struct = Interface ''control_msgs__action__SingleJointPosition_GetResult_Request''
     [(''goal_id'', Message unique_identifier_msgs__msg__UUID__struct)]"

definition control_msgs__action__SingleJointPosition_GetResult_Response__struct :: mtype where [struct_defs]:
  "control_msgs__action__SingleJointPosition_GetResult_Response__struct = Interface ''control_msgs__action__SingleJointPosition_GetResult_Response''
     [(''status'', Primitive C_int8),
      (''result'', Message control_msgs__action__SingleJointPosition_Result__struct)]"

definition control_msgs__action__SingleJointPosition_GetResult_Event__struct :: mtype where [struct_defs]:
  "control_msgs__action__SingleJointPosition_GetResult_Event__struct = Interface ''control_msgs__action__SingleJointPosition_GetResult_Event''
     [(''info'', Message service_msgs__msg__ServiceEventInfo__struct),
      (''request'', Sequence (Some 1) (Message control_msgs__action__SingleJointPosition_GetResult_Request__struct)),
      (''response'', Sequence (Some 1) (Message control_msgs__action__SingleJointPosition_GetResult_Response__struct))]"

definition control_msgs__action__SingleJointPosition_FeedbackMessage__struct :: mtype where [struct_defs]:
  "control_msgs__action__SingleJointPosition_FeedbackMessage__struct = Interface ''control_msgs__action__SingleJointPosition_FeedbackMessage''
     [(''goal_id'', Message unique_identifier_msgs__msg__UUID__struct),
      (''feedback'', Message control_msgs__action__SingleJointPosition_Feedback__struct)]"

definition control_msgs__msg__InterfaceValue__struct :: mtype where [struct_defs]:
  "control_msgs__msg__InterfaceValue__struct = Interface ''control_msgs__msg__InterfaceValue''
     [(''interface_names'', Sequence None (Text None)), (''values'', Sequence None (Primitive C_double))]"

definition control_msgs__msg__DynamicJointState__struct :: mtype where [struct_defs]:
  "control_msgs__msg__DynamicJointState__struct = Interface ''control_msgs__msg__DynamicJointState''
     [(''header'', Message std_msgs__msg__Header__struct), (''joint_names'', Sequence None (Text None)),
      (''interface_values'', Sequence None (Message control_msgs__msg__InterfaceValue__struct))]"

definition control_msgs__msg__JointControllerState__struct :: mtype where [struct_defs]:
  "control_msgs__msg__JointControllerState__struct = Interface ''control_msgs__msg__JointControllerState''
     [(''header'', Message std_msgs__msg__Header__struct), (''set_point'', Primitive C_double),
      (''process_value'', Primitive C_double), (''process_value_dot'', Primitive C_double),
      (''error'', Primitive C_double), (''time_step'', Primitive C_double), (''command'', Primitive C_double),
      (''p'', Primitive C_double), (''i'', Primitive C_double), (''d'', Primitive C_double),
      (''i_clamp'', Primitive C_double), (''antiwindup'', Primitive C_bool)]"

definition control_msgs__msg__JointJog__struct :: mtype where [struct_defs]:
  "control_msgs__msg__JointJog__struct = Interface ''control_msgs__msg__JointJog''
     [(''header'', Message std_msgs__msg__Header__struct), (''joint_names'', Sequence None (Text None)),
      (''displacements'', Sequence None (Primitive C_double)),
      (''velocities'', Sequence None (Primitive C_double)), (''duration'', Primitive C_double)]"

definition control_msgs__msg__JointTrajectoryControllerState__struct :: mtype where [struct_defs]:
  "control_msgs__msg__JointTrajectoryControllerState__struct = Interface ''control_msgs__msg__JointTrajectoryControllerState''
     [(''header'', Message std_msgs__msg__Header__struct), (''joint_names'', Sequence None (Text None)),
      (''desired'', Message trajectory_msgs__msg__JointTrajectoryPoint__struct),
      (''actual'', Message trajectory_msgs__msg__JointTrajectoryPoint__struct),
      (''error'', Message trajectory_msgs__msg__JointTrajectoryPoint__struct)]"

definition control_msgs__msg__PidState__struct :: mtype where [struct_defs]:
  "control_msgs__msg__PidState__struct = Interface ''control_msgs__msg__PidState''
     [(''header'', Message std_msgs__msg__Header__struct),
      (''timestep'', Message builtin_interfaces__msg__Duration__struct), (''error'', Primitive C_double),
      (''error_dot'', Primitive C_double), (''p_error'', Primitive C_double), (''i_error'', Primitive C_double),
      (''d_error'', Primitive C_double), (''p_term'', Primitive C_double), (''i_term'', Primitive C_double),
      (''d_term'', Primitive C_double), (''i_max'', Primitive C_double), (''i_min'', Primitive C_double),
      (''output'', Primitive C_double)]"

definition control_msgs__srv__QueryCalibrationState_Request__struct :: mtype where [struct_defs]:
  "control_msgs__srv__QueryCalibrationState_Request__struct = Interface ''control_msgs__srv__QueryCalibrationState_Request''
     [(''structure_needs_at_least_one_member'', Primitive C_uint8)]"

definition control_msgs__srv__QueryCalibrationState_Response__struct :: mtype where [struct_defs]:
  "control_msgs__srv__QueryCalibrationState_Response__struct = Interface ''control_msgs__srv__QueryCalibrationState_Response''
     [(''is_calibrated'', Primitive C_bool)]"

definition control_msgs__srv__QueryCalibrationState_Event__struct :: mtype where [struct_defs]:
  "control_msgs__srv__QueryCalibrationState_Event__struct = Interface ''control_msgs__srv__QueryCalibrationState_Event''
     [(''info'', Message service_msgs__msg__ServiceEventInfo__struct),
      (''request'', Sequence (Some 1) (Message control_msgs__srv__QueryCalibrationState_Request__struct)),
      (''response'', Sequence (Some 1) (Message control_msgs__srv__QueryCalibrationState_Response__struct))]"

definition control_msgs__srv__QueryTrajectoryState_Request__struct :: mtype where [struct_defs]:
  "control_msgs__srv__QueryTrajectoryState_Request__struct = Interface ''control_msgs__srv__QueryTrajectoryState_Request''
     [(''time'', Message builtin_interfaces__msg__Time__struct)]"

definition control_msgs__srv__QueryTrajectoryState_Response__struct :: mtype where [struct_defs]:
  "control_msgs__srv__QueryTrajectoryState_Response__struct = Interface ''control_msgs__srv__QueryTrajectoryState_Response''
     [(''success'', Primitive C_bool), (''message'', Text None), (''name'', Sequence None (Text None)),
      (''position'', Sequence None (Primitive C_double)), (''velocity'', Sequence None (Primitive C_double)),
      (''acceleration'', Sequence None (Primitive C_double))]"

definition control_msgs__srv__QueryTrajectoryState_Event__struct :: mtype where [struct_defs]:
  "control_msgs__srv__QueryTrajectoryState_Event__struct = Interface ''control_msgs__srv__QueryTrajectoryState_Event''
     [(''info'', Message service_msgs__msg__ServiceEventInfo__struct),
      (''request'', Sequence (Some 1) (Message control_msgs__srv__QueryTrajectoryState_Request__struct)),
      (''response'', Sequence (Some 1) (Message control_msgs__srv__QueryTrajectoryState_Response__struct))]"

end
