(* ===== verification/Interfaces_Test.thy ===== *)
theory Interfaces_Test
  imports Interfaces_Robot
begin

text \<open>
  The interfaces of \<^verbatim>\<open>test_msgs\<close>, from its headers \<^verbatim>\<open>*__struct.h\<close>. The fixtures in \<open>Message_Fixtures\<close> fill the same messages as C++
  objects.
\<close>

subsection \<open>Package test msgs\<close>

definition test_msgs__action__Fibonacci_Goal__struct :: mtype where [struct_defs]:
  "test_msgs__action__Fibonacci_Goal__struct = Interface ''test_msgs__action__Fibonacci_Goal''
     [(''order'', Primitive C_int32)]"

definition test_msgs__action__Fibonacci_Result__struct :: mtype where [struct_defs]:
  "test_msgs__action__Fibonacci_Result__struct = Interface ''test_msgs__action__Fibonacci_Result''
     [(''sequence'', Sequence None (Primitive C_int32))]"

definition test_msgs__action__Fibonacci_Feedback__struct :: mtype where [struct_defs]:
  "test_msgs__action__Fibonacci_Feedback__struct = Interface ''test_msgs__action__Fibonacci_Feedback''
     [(''sequence'', Sequence None (Primitive C_int32))]"

definition test_msgs__action__Fibonacci_SendGoal_Request__struct :: mtype where [struct_defs]:
  "test_msgs__action__Fibonacci_SendGoal_Request__struct = Interface ''test_msgs__action__Fibonacci_SendGoal_Request''
     [(''goal_id'', Message unique_identifier_msgs__msg__UUID__struct),
      (''goal'', Message test_msgs__action__Fibonacci_Goal__struct)]"

definition test_msgs__action__Fibonacci_SendGoal_Response__struct :: mtype where [struct_defs]:
  "test_msgs__action__Fibonacci_SendGoal_Response__struct = Interface ''test_msgs__action__Fibonacci_SendGoal_Response''
     [(''accepted'', Primitive C_bool), (''stamp'', Message builtin_interfaces__msg__Time__struct)]"

definition test_msgs__action__Fibonacci_SendGoal_Event__struct :: mtype where [struct_defs]:
  "test_msgs__action__Fibonacci_SendGoal_Event__struct = Interface ''test_msgs__action__Fibonacci_SendGoal_Event''
     [(''info'', Message service_msgs__msg__ServiceEventInfo__struct),
      (''request'', Sequence (Some 1) (Message test_msgs__action__Fibonacci_SendGoal_Request__struct)),
      (''response'', Sequence (Some 1) (Message test_msgs__action__Fibonacci_SendGoal_Response__struct))]"

definition test_msgs__action__Fibonacci_GetResult_Request__struct :: mtype where [struct_defs]:
  "test_msgs__action__Fibonacci_GetResult_Request__struct = Interface ''test_msgs__action__Fibonacci_GetResult_Request''
     [(''goal_id'', Message unique_identifier_msgs__msg__UUID__struct)]"

definition test_msgs__action__Fibonacci_GetResult_Response__struct :: mtype where [struct_defs]:
  "test_msgs__action__Fibonacci_GetResult_Response__struct = Interface ''test_msgs__action__Fibonacci_GetResult_Response''
     [(''status'', Primitive C_int8), (''result'', Message test_msgs__action__Fibonacci_Result__struct)]"

definition test_msgs__action__Fibonacci_GetResult_Event__struct :: mtype where [struct_defs]:
  "test_msgs__action__Fibonacci_GetResult_Event__struct = Interface ''test_msgs__action__Fibonacci_GetResult_Event''
     [(''info'', Message service_msgs__msg__ServiceEventInfo__struct),
      (''request'', Sequence (Some 1) (Message test_msgs__action__Fibonacci_GetResult_Request__struct)),
      (''response'', Sequence (Some 1) (Message test_msgs__action__Fibonacci_GetResult_Response__struct))]"

definition test_msgs__action__Fibonacci_FeedbackMessage__struct :: mtype where [struct_defs]:
  "test_msgs__action__Fibonacci_FeedbackMessage__struct = Interface ''test_msgs__action__Fibonacci_FeedbackMessage''
     [(''goal_id'', Message unique_identifier_msgs__msg__UUID__struct),
      (''feedback'', Message test_msgs__action__Fibonacci_Feedback__struct)]"

definition test_msgs__msg__Builtins__struct :: mtype where [struct_defs]:
  "test_msgs__msg__Builtins__struct = Interface ''test_msgs__msg__Builtins''
     [(''duration_value'', Message builtin_interfaces__msg__Duration__struct),
      (''time_value'', Message builtin_interfaces__msg__Time__struct)]"

definition test_msgs__msg__BasicTypes__struct :: mtype where [struct_defs]:
  "test_msgs__msg__BasicTypes__struct = Interface ''test_msgs__msg__BasicTypes''
     [(''bool_value'', Primitive C_bool), (''byte_value'', Primitive C_uint8),
      (''char_value'', Primitive C_uint8), (''float32_value'', Primitive C_float),
      (''float64_value'', Primitive C_double), (''int8_value'', Primitive C_int8),
      (''uint8_value'', Primitive C_uint8), (''int16_value'', Primitive C_int16),
      (''uint16_value'', Primitive C_uint16), (''int32_value'', Primitive C_int32),
      (''uint32_value'', Primitive C_uint32), (''int64_value'', Primitive C_int64),
      (''uint64_value'', Primitive C_uint64)]"

definition test_msgs__action__NestedMessage_Goal__struct :: mtype where [struct_defs]:
  "test_msgs__action__NestedMessage_Goal__struct = Interface ''test_msgs__action__NestedMessage_Goal''
     [(''nested_field_no_pkg'', Message test_msgs__msg__Builtins__struct),
      (''nested_field'', Message test_msgs__msg__BasicTypes__struct),
      (''nested_different_pkg'', Message builtin_interfaces__msg__Time__struct)]"

definition test_msgs__action__NestedMessage_Result__struct :: mtype where [struct_defs]:
  "test_msgs__action__NestedMessage_Result__struct = Interface ''test_msgs__action__NestedMessage_Result''
     [(''nested_field_no_pkg'', Message test_msgs__msg__Builtins__struct),
      (''nested_field'', Message test_msgs__msg__BasicTypes__struct),
      (''nested_different_pkg'', Message builtin_interfaces__msg__Time__struct)]"

definition test_msgs__action__NestedMessage_Feedback__struct :: mtype where [struct_defs]:
  "test_msgs__action__NestedMessage_Feedback__struct = Interface ''test_msgs__action__NestedMessage_Feedback''
     [(''nested_field_no_pkg'', Message test_msgs__msg__Builtins__struct),
      (''nested_field'', Message test_msgs__msg__BasicTypes__struct),
      (''nested_different_pkg'', Message builtin_interfaces__msg__Time__struct)]"

definition test_msgs__action__NestedMessage_SendGoal_Request__struct :: mtype where [struct_defs]:
  "test_msgs__action__NestedMessage_SendGoal_Request__struct = Interface ''test_msgs__action__NestedMessage_SendGoal_Request''
     [(''goal_id'', Message unique_identifier_msgs__msg__UUID__struct),
      (''goal'', Message test_msgs__action__NestedMessage_Goal__struct)]"

definition test_msgs__action__NestedMessage_SendGoal_Response__struct :: mtype where [struct_defs]:
  "test_msgs__action__NestedMessage_SendGoal_Response__struct = Interface ''test_msgs__action__NestedMessage_SendGoal_Response''
     [(''accepted'', Primitive C_bool), (''stamp'', Message builtin_interfaces__msg__Time__struct)]"

definition test_msgs__action__NestedMessage_SendGoal_Event__struct :: mtype where [struct_defs]:
  "test_msgs__action__NestedMessage_SendGoal_Event__struct = Interface ''test_msgs__action__NestedMessage_SendGoal_Event''
     [(''info'', Message service_msgs__msg__ServiceEventInfo__struct),
      (''request'', Sequence (Some 1) (Message test_msgs__action__NestedMessage_SendGoal_Request__struct)),
      (''response'', Sequence (Some 1) (Message test_msgs__action__NestedMessage_SendGoal_Response__struct))]"

definition test_msgs__action__NestedMessage_GetResult_Request__struct :: mtype where [struct_defs]:
  "test_msgs__action__NestedMessage_GetResult_Request__struct = Interface ''test_msgs__action__NestedMessage_GetResult_Request''
     [(''goal_id'', Message unique_identifier_msgs__msg__UUID__struct)]"

definition test_msgs__action__NestedMessage_GetResult_Response__struct :: mtype where [struct_defs]:
  "test_msgs__action__NestedMessage_GetResult_Response__struct = Interface ''test_msgs__action__NestedMessage_GetResult_Response''
     [(''status'', Primitive C_int8), (''result'', Message test_msgs__action__NestedMessage_Result__struct)]"

definition test_msgs__action__NestedMessage_GetResult_Event__struct :: mtype where [struct_defs]:
  "test_msgs__action__NestedMessage_GetResult_Event__struct = Interface ''test_msgs__action__NestedMessage_GetResult_Event''
     [(''info'', Message service_msgs__msg__ServiceEventInfo__struct),
      (''request'', Sequence (Some 1) (Message test_msgs__action__NestedMessage_GetResult_Request__struct)),
      (''response'', Sequence (Some 1) (Message test_msgs__action__NestedMessage_GetResult_Response__struct))]"

definition test_msgs__action__NestedMessage_FeedbackMessage__struct :: mtype where [struct_defs]:
  "test_msgs__action__NestedMessage_FeedbackMessage__struct = Interface ''test_msgs__action__NestedMessage_FeedbackMessage''
     [(''goal_id'', Message unique_identifier_msgs__msg__UUID__struct),
      (''feedback'', Message test_msgs__action__NestedMessage_Feedback__struct)]"

definition test_msgs__msg__Constants__struct :: mtype where [struct_defs]:
  "test_msgs__msg__Constants__struct = Interface ''test_msgs__msg__Constants''
     [(''structure_needs_at_least_one_member'', Primitive C_uint8)]"

definition test_msgs__msg__Defaults__struct :: mtype where [struct_defs]:
  "test_msgs__msg__Defaults__struct = Interface ''test_msgs__msg__Defaults''
     [(''bool_value'', Primitive C_bool), (''byte_value'', Primitive C_uint8),
      (''char_value'', Primitive C_uint8), (''float32_value'', Primitive C_float),
      (''float64_value'', Primitive C_double), (''int8_value'', Primitive C_int8),
      (''uint8_value'', Primitive C_uint8), (''int16_value'', Primitive C_int16),
      (''uint16_value'', Primitive C_uint16), (''int32_value'', Primitive C_int32),
      (''uint32_value'', Primitive C_uint32), (''int64_value'', Primitive C_int64),
      (''uint64_value'', Primitive C_uint64)]"

definition test_msgs__msg__Arrays__struct :: mtype where [struct_defs]:
  "test_msgs__msg__Arrays__struct = Interface ''test_msgs__msg__Arrays''
     [(''bool_values'', Array 3 (Primitive C_bool)), (''byte_values'', Array 3 (Primitive C_uint8)),
      (''char_values'', Array 3 (Primitive C_uint8)), (''float32_values'', Array 3 (Primitive C_float)),
      (''float64_values'', Array 3 (Primitive C_double)), (''int8_values'', Array 3 (Primitive C_int8)),
      (''uint8_values'', Array 3 (Primitive C_uint8)), (''int16_values'', Array 3 (Primitive C_int16)),
      (''uint16_values'', Array 3 (Primitive C_uint16)), (''int32_values'', Array 3 (Primitive C_int32)),
      (''uint32_values'', Array 3 (Primitive C_uint32)), (''int64_values'', Array 3 (Primitive C_int64)),
      (''uint64_values'', Array 3 (Primitive C_uint64)), (''string_values'', Array 3 (Text None)),
      (''basic_types_values'', Array 3 (Message test_msgs__msg__BasicTypes__struct)),
      (''constants_values'', Array 3 (Message test_msgs__msg__Constants__struct)),
      (''defaults_values'', Array 3 (Message test_msgs__msg__Defaults__struct)),
      (''bool_values_default'', Array 3 (Primitive C_bool)),
      (''byte_values_default'', Array 3 (Primitive C_uint8)),
      (''char_values_default'', Array 3 (Primitive C_uint8)),
      (''float32_values_default'', Array 3 (Primitive C_float)),
      (''float64_values_default'', Array 3 (Primitive C_double)),
      (''int8_values_default'', Array 3 (Primitive C_int8)),
      (''uint8_values_default'', Array 3 (Primitive C_uint8)),
      (''int16_values_default'', Array 3 (Primitive C_int16)),
      (''uint16_values_default'', Array 3 (Primitive C_uint16)),
      (''int32_values_default'', Array 3 (Primitive C_int32)),
      (''uint32_values_default'', Array 3 (Primitive C_uint32)),
      (''int64_values_default'', Array 3 (Primitive C_int64)),
      (''uint64_values_default'', Array 3 (Primitive C_uint64)),
      (''string_values_default'', Array 3 (Text None)), (''alignment_check'', Primitive C_int32)]"

definition test_msgs__msg__BoundedPlainSequences__struct :: mtype where [struct_defs]:
  "test_msgs__msg__BoundedPlainSequences__struct = Interface ''test_msgs__msg__BoundedPlainSequences''
     [(''bool_values'', Sequence (Some 3) (Primitive C_bool)),
      (''byte_values'', Sequence (Some 3) (Primitive C_uint8)),
      (''char_values'', Sequence (Some 3) (Primitive C_uint8)),
      (''float32_values'', Sequence (Some 3) (Primitive C_float)),
      (''float64_values'', Sequence (Some 3) (Primitive C_double)),
      (''int8_values'', Sequence (Some 3) (Primitive C_int8)),
      (''uint8_values'', Sequence (Some 3) (Primitive C_uint8)),
      (''int16_values'', Sequence (Some 3) (Primitive C_int16)),
      (''uint16_values'', Sequence (Some 3) (Primitive C_uint16)),
      (''int32_values'', Sequence (Some 3) (Primitive C_int32)),
      (''uint32_values'', Sequence (Some 3) (Primitive C_uint32)),
      (''int64_values'', Sequence (Some 3) (Primitive C_int64)),
      (''uint64_values'', Sequence (Some 3) (Primitive C_uint64)),
      (''basic_types_values'', Sequence (Some 3) (Message test_msgs__msg__BasicTypes__struct)),
      (''constants_values'', Sequence (Some 3) (Message test_msgs__msg__Constants__struct)),
      (''defaults_values'', Sequence (Some 3) (Message test_msgs__msg__Defaults__struct)),
      (''bool_values_default'', Sequence (Some 3) (Primitive C_bool)),
      (''byte_values_default'', Sequence (Some 3) (Primitive C_uint8)),
      (''char_values_default'', Sequence (Some 3) (Primitive C_uint8)),
      (''float32_values_default'', Sequence (Some 3) (Primitive C_float)),
      (''float64_values_default'', Sequence (Some 3) (Primitive C_double)),
      (''int8_values_default'', Sequence (Some 3) (Primitive C_int8)),
      (''uint8_values_default'', Sequence (Some 3) (Primitive C_uint8)),
      (''int16_values_default'', Sequence (Some 3) (Primitive C_int16)),
      (''uint16_values_default'', Sequence (Some 3) (Primitive C_uint16)),
      (''int32_values_default'', Sequence (Some 3) (Primitive C_int32)),
      (''uint32_values_default'', Sequence (Some 3) (Primitive C_uint32)),
      (''int64_values_default'', Sequence (Some 3) (Primitive C_int64)),
      (''uint64_values_default'', Sequence (Some 3) (Primitive C_uint64)),
      (''alignment_check'', Primitive C_int32)]"

definition test_msgs__msg__BoundedSequences__struct :: mtype where [struct_defs]:
  "test_msgs__msg__BoundedSequences__struct = Interface ''test_msgs__msg__BoundedSequences''
     [(''bool_values'', Sequence (Some 3) (Primitive C_bool)),
      (''byte_values'', Sequence (Some 3) (Primitive C_uint8)),
      (''char_values'', Sequence (Some 3) (Primitive C_uint8)),
      (''float32_values'', Sequence (Some 3) (Primitive C_float)),
      (''float64_values'', Sequence (Some 3) (Primitive C_double)),
      (''int8_values'', Sequence (Some 3) (Primitive C_int8)),
      (''uint8_values'', Sequence (Some 3) (Primitive C_uint8)),
      (''int16_values'', Sequence (Some 3) (Primitive C_int16)),
      (''uint16_values'', Sequence (Some 3) (Primitive C_uint16)),
      (''int32_values'', Sequence (Some 3) (Primitive C_int32)),
      (''uint32_values'', Sequence (Some 3) (Primitive C_uint32)),
      (''int64_values'', Sequence (Some 3) (Primitive C_int64)),
      (''uint64_values'', Sequence (Some 3) (Primitive C_uint64)),
      (''string_values'', Sequence (Some 3) (Text None)),
      (''basic_types_values'', Sequence (Some 3) (Message test_msgs__msg__BasicTypes__struct)),
      (''constants_values'', Sequence (Some 3) (Message test_msgs__msg__Constants__struct)),
      (''defaults_values'', Sequence (Some 3) (Message test_msgs__msg__Defaults__struct)),
      (''bool_values_default'', Sequence (Some 3) (Primitive C_bool)),
      (''byte_values_default'', Sequence (Some 3) (Primitive C_uint8)),
      (''char_values_default'', Sequence (Some 3) (Primitive C_uint8)),
      (''float32_values_default'', Sequence (Some 3) (Primitive C_float)),
      (''float64_values_default'', Sequence (Some 3) (Primitive C_double)),
      (''int8_values_default'', Sequence (Some 3) (Primitive C_int8)),
      (''uint8_values_default'', Sequence (Some 3) (Primitive C_uint8)),
      (''int16_values_default'', Sequence (Some 3) (Primitive C_int16)),
      (''uint16_values_default'', Sequence (Some 3) (Primitive C_uint16)),
      (''int32_values_default'', Sequence (Some 3) (Primitive C_int32)),
      (''uint32_values_default'', Sequence (Some 3) (Primitive C_uint32)),
      (''int64_values_default'', Sequence (Some 3) (Primitive C_int64)),
      (''uint64_values_default'', Sequence (Some 3) (Primitive C_uint64)),
      (''string_values_default'', Sequence (Some 3) (Text None)), (''alignment_check'', Primitive C_int32)]"

definition test_msgs__msg__KeyedString__struct :: mtype where [struct_defs]:
  "test_msgs__msg__KeyedString__struct = Interface ''test_msgs__msg__KeyedString''
     [(''key'', Text None), (''value'', Text None)]"

definition test_msgs__msg__NonKeyedWithNestedKey__struct :: mtype where [struct_defs]:
  "test_msgs__msg__NonKeyedWithNestedKey__struct = Interface ''test_msgs__msg__NonKeyedWithNestedKey''
     [(''nested_data'', Message test_msgs__msg__KeyedString__struct), (''some_int'', Primitive C_int32)]"

definition test_msgs__msg__ComplexNestedKey__struct :: mtype where [struct_defs]:
  "test_msgs__msg__ComplexNestedKey__struct = Interface ''test_msgs__msg__ComplexNestedKey''
     [(''uint32_key'', Primitive C_uint32),
      (''nested_keys'', Message test_msgs__msg__NonKeyedWithNestedKey__struct),
      (''float64_value'', Primitive C_double)]"

definition test_msgs__msg__Empty__struct :: mtype where [struct_defs]:
  "test_msgs__msg__Empty__struct = Interface ''test_msgs__msg__Empty''
     [(''structure_needs_at_least_one_member'', Primitive C_uint8)]"

definition test_msgs__msg__KeyedLong__struct :: mtype where [struct_defs]:
  "test_msgs__msg__KeyedLong__struct = Interface ''test_msgs__msg__KeyedLong''
     [(''key'', Primitive C_int32), (''value'', Primitive C_int32)]"

definition test_msgs__msg__UnboundedSequences__struct :: mtype where [struct_defs]:
  "test_msgs__msg__UnboundedSequences__struct = Interface ''test_msgs__msg__UnboundedSequences''
     [(''bool_values'', Sequence None (Primitive C_bool)), (''byte_values'', Sequence None (Primitive C_uint8)),
      (''char_values'', Sequence None (Primitive C_uint8)),
      (''float32_values'', Sequence None (Primitive C_float)),
      (''float64_values'', Sequence None (Primitive C_double)),
      (''int8_values'', Sequence None (Primitive C_int8)), (''uint8_values'', Sequence None (Primitive C_uint8)),
      (''int16_values'', Sequence None (Primitive C_int16)),
      (''uint16_values'', Sequence None (Primitive C_uint16)),
      (''int32_values'', Sequence None (Primitive C_int32)),
      (''uint32_values'', Sequence None (Primitive C_uint32)),
      (''int64_values'', Sequence None (Primitive C_int64)),
      (''uint64_values'', Sequence None (Primitive C_uint64)), (''string_values'', Sequence None (Text None)),
      (''basic_types_values'', Sequence None (Message test_msgs__msg__BasicTypes__struct)),
      (''constants_values'', Sequence None (Message test_msgs__msg__Constants__struct)),
      (''defaults_values'', Sequence None (Message test_msgs__msg__Defaults__struct)),
      (''bool_values_default'', Sequence None (Primitive C_bool)),
      (''byte_values_default'', Sequence None (Primitive C_uint8)),
      (''char_values_default'', Sequence None (Primitive C_uint8)),
      (''float32_values_default'', Sequence None (Primitive C_float)),
      (''float64_values_default'', Sequence None (Primitive C_double)),
      (''int8_values_default'', Sequence None (Primitive C_int8)),
      (''uint8_values_default'', Sequence None (Primitive C_uint8)),
      (''int16_values_default'', Sequence None (Primitive C_int16)),
      (''uint16_values_default'', Sequence None (Primitive C_uint16)),
      (''int32_values_default'', Sequence None (Primitive C_int32)),
      (''uint32_values_default'', Sequence None (Primitive C_uint32)),
      (''int64_values_default'', Sequence None (Primitive C_int64)),
      (''uint64_values_default'', Sequence None (Primitive C_uint64)),
      (''string_values_default'', Sequence None (Text None)), (''alignment_check'', Primitive C_int32)]"

definition test_msgs__msg__MultiNested__struct :: mtype where [struct_defs]:
  "test_msgs__msg__MultiNested__struct = Interface ''test_msgs__msg__MultiNested''
     [(''array_of_arrays'', Array 3 (Message test_msgs__msg__Arrays__struct)),
      (''array_of_bounded_sequences'', Array 3 (Message test_msgs__msg__BoundedSequences__struct)),
      (''array_of_unbounded_sequences'', Array 3 (Message test_msgs__msg__UnboundedSequences__struct)),
      (''bounded_sequence_of_arrays'', Sequence (Some 3) (Message test_msgs__msg__Arrays__struct)),
      (''bounded_sequence_of_bounded_sequences'', Sequence (Some 3) (Message test_msgs__msg__BoundedSequences__struct)),
      (''bounded_sequence_of_unbounded_sequences'', Sequence (Some 3) (Message test_msgs__msg__UnboundedSequences__struct)),
      (''unbounded_sequence_of_arrays'', Sequence None (Message test_msgs__msg__Arrays__struct)),
      (''unbounded_sequence_of_bounded_sequences'', Sequence None (Message test_msgs__msg__BoundedSequences__struct)),
      (''unbounded_sequence_of_unbounded_sequences'', Sequence None (Message test_msgs__msg__UnboundedSequences__struct))]"

definition test_msgs__msg__Nested__struct :: mtype where [struct_defs]:
  "test_msgs__msg__Nested__struct = Interface ''test_msgs__msg__Nested''
     [(''basic_types_value'', Message test_msgs__msg__BasicTypes__struct)]"

definition test_msgs__msg__Strings__struct :: mtype where [struct_defs]:
  "test_msgs__msg__Strings__struct = Interface ''test_msgs__msg__Strings''
     [(''string_value'', Text None), (''string_value_default1'', Text None),
      (''string_value_default2'', Text None), (''string_value_default3'', Text None),
      (''string_value_default4'', Text None), (''string_value_default5'', Text None),
      (''bounded_string_value'', Text (Some 22)), (''bounded_string_value_default1'', Text (Some 22)),
      (''bounded_string_value_default2'', Text (Some 22)), (''bounded_string_value_default3'', Text (Some 22)),
      (''bounded_string_value_default4'', Text (Some 22)), (''bounded_string_value_default5'', Text (Some 22))]"

definition test_msgs__msg__WStrings__struct :: mtype where [struct_defs]:
  "test_msgs__msg__WStrings__struct = Interface ''test_msgs__msg__WStrings''
     [(''wstring_value'', Wide_text None), (''wstring_value_default1'', Wide_text None),
      (''wstring_value_default2'', Wide_text None), (''wstring_value_default3'', Wide_text None),
      (''array_of_wstrings'', Array 3 (Wide_text None)),
      (''bounded_sequence_of_wstrings'', Sequence (Some 3) (Wide_text None)),
      (''unbounded_sequence_of_wstrings'', Sequence None (Wide_text None))]"

definition test_msgs__srv__Arrays_Request__struct :: mtype where [struct_defs]:
  "test_msgs__srv__Arrays_Request__struct = Interface ''test_msgs__srv__Arrays_Request''
     [(''bool_values'', Array 3 (Primitive C_bool)), (''byte_values'', Array 3 (Primitive C_uint8)),
      (''char_values'', Array 3 (Primitive C_uint8)), (''float32_values'', Array 3 (Primitive C_float)),
      (''float64_values'', Array 3 (Primitive C_double)), (''int8_values'', Array 3 (Primitive C_int8)),
      (''uint8_values'', Array 3 (Primitive C_uint8)), (''int16_values'', Array 3 (Primitive C_int16)),
      (''uint16_values'', Array 3 (Primitive C_uint16)), (''int32_values'', Array 3 (Primitive C_int32)),
      (''uint32_values'', Array 3 (Primitive C_uint32)), (''int64_values'', Array 3 (Primitive C_int64)),
      (''uint64_values'', Array 3 (Primitive C_uint64)), (''string_values'', Array 3 (Text None)),
      (''basic_types_values'', Array 3 (Message test_msgs__msg__BasicTypes__struct)),
      (''constants_values'', Array 3 (Message test_msgs__msg__Constants__struct)),
      (''defaults_values'', Array 3 (Message test_msgs__msg__Defaults__struct)),
      (''bool_values_default'', Array 3 (Primitive C_bool)),
      (''byte_values_default'', Array 3 (Primitive C_uint8)),
      (''char_values_default'', Array 3 (Primitive C_uint8)),
      (''float32_values_default'', Array 3 (Primitive C_float)),
      (''float64_values_default'', Array 3 (Primitive C_double)),
      (''int8_values_default'', Array 3 (Primitive C_int8)),
      (''uint8_values_default'', Array 3 (Primitive C_uint8)),
      (''int16_values_default'', Array 3 (Primitive C_int16)),
      (''uint16_values_default'', Array 3 (Primitive C_uint16)),
      (''int32_values_default'', Array 3 (Primitive C_int32)),
      (''uint32_values_default'', Array 3 (Primitive C_uint32)),
      (''int64_values_default'', Array 3 (Primitive C_int64)),
      (''uint64_values_default'', Array 3 (Primitive C_uint64)),
      (''string_values_default'', Array 3 (Text None))]"

definition test_msgs__srv__Arrays_Response__struct :: mtype where [struct_defs]:
  "test_msgs__srv__Arrays_Response__struct = Interface ''test_msgs__srv__Arrays_Response''
     [(''bool_values'', Array 3 (Primitive C_bool)), (''byte_values'', Array 3 (Primitive C_uint8)),
      (''char_values'', Array 3 (Primitive C_uint8)), (''float32_values'', Array 3 (Primitive C_float)),
      (''float64_values'', Array 3 (Primitive C_double)), (''int8_values'', Array 3 (Primitive C_int8)),
      (''uint8_values'', Array 3 (Primitive C_uint8)), (''int16_values'', Array 3 (Primitive C_int16)),
      (''uint16_values'', Array 3 (Primitive C_uint16)), (''int32_values'', Array 3 (Primitive C_int32)),
      (''uint32_values'', Array 3 (Primitive C_uint32)), (''int64_values'', Array 3 (Primitive C_int64)),
      (''uint64_values'', Array 3 (Primitive C_uint64)), (''string_values'', Array 3 (Text None)),
      (''basic_types_values'', Array 3 (Message test_msgs__msg__BasicTypes__struct)),
      (''constants_values'', Array 3 (Message test_msgs__msg__Constants__struct)),
      (''defaults_values'', Array 3 (Message test_msgs__msg__Defaults__struct)),
      (''bool_values_default'', Array 3 (Primitive C_bool)),
      (''byte_values_default'', Array 3 (Primitive C_uint8)),
      (''char_values_default'', Array 3 (Primitive C_uint8)),
      (''float32_values_default'', Array 3 (Primitive C_float)),
      (''float64_values_default'', Array 3 (Primitive C_double)),
      (''int8_values_default'', Array 3 (Primitive C_int8)),
      (''uint8_values_default'', Array 3 (Primitive C_uint8)),
      (''int16_values_default'', Array 3 (Primitive C_int16)),
      (''uint16_values_default'', Array 3 (Primitive C_uint16)),
      (''int32_values_default'', Array 3 (Primitive C_int32)),
      (''uint32_values_default'', Array 3 (Primitive C_uint32)),
      (''int64_values_default'', Array 3 (Primitive C_int64)),
      (''uint64_values_default'', Array 3 (Primitive C_uint64)),
      (''string_values_default'', Array 3 (Text None))]"

definition test_msgs__srv__Arrays_Event__struct :: mtype where [struct_defs]:
  "test_msgs__srv__Arrays_Event__struct = Interface ''test_msgs__srv__Arrays_Event''
     [(''info'', Message service_msgs__msg__ServiceEventInfo__struct),
      (''request'', Sequence (Some 1) (Message test_msgs__srv__Arrays_Request__struct)),
      (''response'', Sequence (Some 1) (Message test_msgs__srv__Arrays_Response__struct))]"

definition test_msgs__srv__BasicTypes_Request__struct :: mtype where [struct_defs]:
  "test_msgs__srv__BasicTypes_Request__struct = Interface ''test_msgs__srv__BasicTypes_Request''
     [(''bool_value'', Primitive C_bool), (''byte_value'', Primitive C_uint8),
      (''char_value'', Primitive C_uint8), (''float32_value'', Primitive C_float),
      (''float64_value'', Primitive C_double), (''int8_value'', Primitive C_int8),
      (''uint8_value'', Primitive C_uint8), (''int16_value'', Primitive C_int16),
      (''uint16_value'', Primitive C_uint16), (''int32_value'', Primitive C_int32),
      (''uint32_value'', Primitive C_uint32), (''int64_value'', Primitive C_int64),
      (''uint64_value'', Primitive C_uint64), (''string_value'', Text None)]"

definition test_msgs__srv__BasicTypes_Response__struct :: mtype where [struct_defs]:
  "test_msgs__srv__BasicTypes_Response__struct = Interface ''test_msgs__srv__BasicTypes_Response''
     [(''bool_value'', Primitive C_bool), (''byte_value'', Primitive C_uint8),
      (''char_value'', Primitive C_uint8), (''float32_value'', Primitive C_float),
      (''float64_value'', Primitive C_double), (''int8_value'', Primitive C_int8),
      (''uint8_value'', Primitive C_uint8), (''int16_value'', Primitive C_int16),
      (''uint16_value'', Primitive C_uint16), (''int32_value'', Primitive C_int32),
      (''uint32_value'', Primitive C_uint32), (''int64_value'', Primitive C_int64),
      (''uint64_value'', Primitive C_uint64), (''string_value'', Text None)]"

definition test_msgs__srv__BasicTypes_Event__struct :: mtype where [struct_defs]:
  "test_msgs__srv__BasicTypes_Event__struct = Interface ''test_msgs__srv__BasicTypes_Event''
     [(''info'', Message service_msgs__msg__ServiceEventInfo__struct),
      (''request'', Sequence (Some 1) (Message test_msgs__srv__BasicTypes_Request__struct)),
      (''response'', Sequence (Some 1) (Message test_msgs__srv__BasicTypes_Response__struct))]"

definition test_msgs__srv__Empty_Request__struct :: mtype where [struct_defs]:
  "test_msgs__srv__Empty_Request__struct = Interface ''test_msgs__srv__Empty_Request''
     [(''structure_needs_at_least_one_member'', Primitive C_uint8)]"

definition test_msgs__srv__Empty_Response__struct :: mtype where [struct_defs]:
  "test_msgs__srv__Empty_Response__struct = Interface ''test_msgs__srv__Empty_Response''
     [(''structure_needs_at_least_one_member'', Primitive C_uint8)]"

definition test_msgs__srv__Empty_Event__struct :: mtype where [struct_defs]:
  "test_msgs__srv__Empty_Event__struct = Interface ''test_msgs__srv__Empty_Event''
     [(''info'', Message service_msgs__msg__ServiceEventInfo__struct),
      (''request'', Sequence (Some 1) (Message test_msgs__srv__Empty_Request__struct)),
      (''response'', Sequence (Some 1) (Message test_msgs__srv__Empty_Response__struct))]"

end
