(* ===== verification/Interface_Constants.thy ===== *)
theory Interface_Constants
  imports Rcutils_Logging
begin

text \<open>
  Constants that interfaces and the library share: goal states, log levels, parameter types, and the states and
  transitions of the life cycle. The interfaces declare them for programs on other machines, the library for the
  program on the board, so they must be the same numbers.
\<close>

subsection \<open>The constants of the interfaces\<close>

definition action_msgs__msg__GoalStatus__constants :: "(string \<times> int) list" where
  "action_msgs__msg__GoalStatus__constants =
    [(''STATUS_UNKNOWN'', 0), (''STATUS_ACCEPTED'', 1), (''STATUS_EXECUTING'', 2),
     (''STATUS_CANCELING'', 3), (''STATUS_SUCCEEDED'', 4), (''STATUS_CANCELED'', 5),
     (''STATUS_ABORTED'', 6)]"

definition rcl_interfaces__msg__Log__constants :: "(string \<times> int) list" where
  "rcl_interfaces__msg__Log__constants =
    [(''DEBUG'', 10), (''INFO'', 20), (''WARN'', 30), (''ERROR'', 40), (''FATAL'', 50)]"

definition rcl_interfaces__msg__LoggerLevel__constants :: "(string \<times> int) list" where
  "rcl_interfaces__msg__LoggerLevel__constants =
    [(''LOG_LEVEL_UNKNOWN'', 0), (''LOG_LEVEL_DEBUG'', 10), (''LOG_LEVEL_INFO'', 20),
     (''LOG_LEVEL_WARN'', 30), (''LOG_LEVEL_ERROR'', 40), (''LOG_LEVEL_FATAL'', 50)]"

definition rcl_interfaces__msg__ParameterType__constants :: "(string \<times> int) list" where
  "rcl_interfaces__msg__ParameterType__constants =
    [(''PARAMETER_NOT_SET'', 0), (''PARAMETER_BOOL'', 1), (''PARAMETER_INTEGER'', 2),
     (''PARAMETER_DOUBLE'', 3), (''PARAMETER_STRING'', 4), (''PARAMETER_BYTE_ARRAY'', 5),
     (''PARAMETER_BOOL_ARRAY'', 6), (''PARAMETER_INTEGER_ARRAY'', 7), (''PARAMETER_DOUBLE_ARRAY'', 8),
     (''PARAMETER_STRING_ARRAY'', 9)]"

definition lifecycle_msgs__msg__State__constants :: "(string \<times> int) list" where
  "lifecycle_msgs__msg__State__constants =
    [(''PRIMARY_STATE_UNKNOWN'', 0), (''PRIMARY_STATE_UNCONFIGURED'', 1), (''PRIMARY_STATE_INACTIVE'', 2),
     (''PRIMARY_STATE_ACTIVE'', 3), (''PRIMARY_STATE_FINALIZED'', 4),
     (''TRANSITION_STATE_CONFIGURING'', 10), (''TRANSITION_STATE_CLEANINGUP'', 11),
     (''TRANSITION_STATE_SHUTTINGDOWN'', 12), (''TRANSITION_STATE_ACTIVATING'', 13),
     (''TRANSITION_STATE_DEACTIVATING'', 14), (''TRANSITION_STATE_ERRORPROCESSING'', 15)]"

definition lifecycle_msgs__msg__Transition__constants :: "(string \<times> int) list" where
  "lifecycle_msgs__msg__Transition__constants =
    [(''TRANSITION_CREATE'', 0), (''TRANSITION_CONFIGURE'', 1), (''TRANSITION_CLEANUP'', 2),
     (''TRANSITION_ACTIVATE'', 3), (''TRANSITION_DEACTIVATE'', 4),
     (''TRANSITION_UNCONFIGURED_SHUTDOWN'', 5), (''TRANSITION_INACTIVE_SHUTDOWN'', 6),
     (''TRANSITION_ACTIVE_SHUTDOWN'', 7), (''TRANSITION_DESTROY'', 8),
     (''TRANSITION_ON_CONFIGURE_SUCCESS'', 10), (''TRANSITION_ON_CONFIGURE_FAILURE'', 11),
     (''TRANSITION_ON_CONFIGURE_ERROR'', 12), (''TRANSITION_ON_CLEANUP_SUCCESS'', 20),
     (''TRANSITION_ON_CLEANUP_FAILURE'', 21), (''TRANSITION_ON_CLEANUP_ERROR'', 22),
     (''TRANSITION_ON_ACTIVATE_SUCCESS'', 30), (''TRANSITION_ON_ACTIVATE_FAILURE'', 31),
     (''TRANSITION_ON_ACTIVATE_ERROR'', 32), (''TRANSITION_ON_DEACTIVATE_SUCCESS'', 40),
     (''TRANSITION_ON_DEACTIVATE_FAILURE'', 41), (''TRANSITION_ON_DEACTIVATE_ERROR'', 42),
     (''TRANSITION_ON_SHUTDOWN_SUCCESS'', 50), (''TRANSITION_ON_SHUTDOWN_FAILURE'', 51),
     (''TRANSITION_ON_SHUTDOWN_ERROR'', 52), (''TRANSITION_ON_ERROR_SUCCESS'', 60),
     (''TRANSITION_ON_ERROR_FAILURE'', 61), (''TRANSITION_ON_ERROR_ERROR'', 62),
     (''TRANSITION_CALLBACK_SUCCESS'', 97), (''TRANSITION_CALLBACK_FAILURE'', 98),
     (''TRANSITION_CALLBACK_ERROR'', 99)]"

subsection \<open>The constants of the library\<close>

definition goal_status :: "string \<Rightarrow> int" where
  "goal_status name = the (map_of action_msgs__msg__GoalStatus__constants name)"

definition rcl_action_goal_states :: "(string \<times> int) list" where
  "rcl_action_goal_states =
    [(''UNKNOWN'', goal_status ''STATUS_UNKNOWN''), (''ACCEPTED'', goal_status ''STATUS_ACCEPTED''),
     (''EXECUTING'', goal_status ''STATUS_EXECUTING''), (''CANCELING'', goal_status ''STATUS_CANCELING''),
     (''SUCCEEDED'', goal_status ''STATUS_SUCCEEDED''), (''CANCELED'', goal_status ''STATUS_CANCELED''),
     (''ABORTED'', goal_status ''STATUS_ABORTED'')]"

definition GOAL_STATE_NUM_STATES :: nat where
  "GOAL_STATE_NUM_STATES = 7"

fun severity_value :: "log_severity \<Rightarrow> int" where
  "severity_value RCUTILS_LOG_SEVERITY_UNSET = 0"
| "severity_value RCUTILS_LOG_SEVERITY_DEBUG = 10"
| "severity_value RCUTILS_LOG_SEVERITY_INFO = 20"
| "severity_value RCUTILS_LOG_SEVERITY_WARN = 30"
| "severity_value RCUTILS_LOG_SEVERITY_ERROR = 40"
| "severity_value RCUTILS_LOG_SEVERITY_FATAL = 50"

definition rclc_parameter_types :: "string list" where
  "rclc_parameter_types = [''NOT_SET'', ''BOOL'', ''INT'', ''DOUBLE'']"

definition RCLC_LIFECYCLE_MAX_NUMBER_OF_STATES :: int where
  "RCLC_LIFECYCLE_MAX_NUMBER_OF_STATES = 100"

subsection \<open>Properties\<close>

definition without :: "string \<Rightarrow> string \<Rightarrow> string" where
  "without pre name = drop (length pre) name"

text \<open>The outcomes of the callback of a transitional state are numbered from the number of the state's block.\<close>

definition outcomes :: "string \<Rightarrow> int \<Rightarrow> (string \<times> int) list" where
  "outcomes state block =
     [(''TRANSITION_ON_'' @ state @ ''_SUCCESS'', block), (''TRANSITION_ON_'' @ state @ ''_FAILURE'', block + 1),
      (''TRANSITION_ON_'' @ state @ ''_ERROR'', block + 2)]"

lemmas constant_defs =
  action_msgs__msg__GoalStatus__constants_def rcl_interfaces__msg__Log__constants_def
  rcl_interfaces__msg__LoggerLevel__constants_def rcl_interfaces__msg__ParameterType__constants_def
  lifecycle_msgs__msg__State__constants_def lifecycle_msgs__msg__Transition__constants_def goal_status_def
  rcl_action_goal_states_def GOAL_STATE_NUM_STATES_def rclc_parameter_types_def
  RCLC_LIFECYCLE_MAX_NUMBER_OF_STATES_def without_def outcomes_def

text \<open>The board and the programs it talks to mean the same by the numbers they exchange. The goal states of the
  action library are the statuses of the message, in its order, numbered from 0 without a gap, so they index its
  tables of seven; the levels of the two logging interfaces are the severities of the logging macros; the parameter
  types of the client are the first four of the interface. Life cycle states and transitions are numbered apart
  among themselves, every transition fits the table the client sizes for it, and the outcomes of the six
  callbacks are numbered by tens.\<close>

theorem interface_constants_agree:
  "map (\<lambda>(n, v). (''STATUS_'' @ n, v)) rcl_action_goal_states = action_msgs__msg__GoalStatus__constants \<and>
   map snd rcl_action_goal_states = [0..int GOAL_STATE_NUM_STATES - 1] \<and>
   map snd rcl_interfaces__msg__LoggerLevel__constants =
     map severity_value [RCUTILS_LOG_SEVERITY_UNSET, RCUTILS_LOG_SEVERITY_DEBUG, RCUTILS_LOG_SEVERITY_INFO,
       RCUTILS_LOG_SEVERITY_WARN, RCUTILS_LOG_SEVERITY_ERROR, RCUTILS_LOG_SEVERITY_FATAL] \<and>
   map (\<lambda>(n, v). (without ''LOG_LEVEL_'' n, v)) (tl rcl_interfaces__msg__LoggerLevel__constants) =
     rcl_interfaces__msg__Log__constants \<and>
   map snd (take 4 rcl_interfaces__msg__ParameterType__constants) = [0..int (length rclc_parameter_types) - 1] \<and>
   list_all2 (\<lambda>(n, v) t. take (length t) (without ''PARAMETER_'' n) = t)
     (take 4 rcl_interfaces__msg__ParameterType__constants) rclc_parameter_types \<and>
   distinct (map snd lifecycle_msgs__msg__State__constants) \<and>
   distinct (map snd lifecycle_msgs__msg__Transition__constants) \<and>
   list_all (\<lambda>(n, v). 0 \<le> v \<and> v < RCLC_LIFECYCLE_MAX_NUMBER_OF_STATES) lifecycle_msgs__msg__Transition__constants \<and>
   filter (\<lambda>(n, v). take 14 n = ''TRANSITION_ON_'') lifecycle_msgs__msg__Transition__constants =
     outcomes ''CONFIGURE'' 10 @ outcomes ''CLEANUP'' 20 @ outcomes ''ACTIVATE'' 30 @ outcomes ''DEACTIVATE'' 40 @
     outcomes ''SHUTDOWN'' 50 @ outcomes ''ERROR'' 60"
  by (intro conjI) (simp_all add: constant_defs upto.simps)

end
