(* ===== verification/Interface_Contracts.thy ===== *)
theory Interface_Contracts
  imports Interfaces_Test Middleware_Config
begin

text \<open>
  What the library and the sketches rely on in the interfaces: the protocols of actions and services are the same for
  all of them, messages are shallow, the two declarations of type descriptions agree, and the messages of the
  sketches that provide no memory need none.
\<close>

subsection \<open>Protocols\<close>

text \<open>A service has an event with at most one request and one response.\<close>

definition service_event :: "string \<Rightarrow> mtype \<Rightarrow> mtype \<Rightarrow> mtype" where
  "service_event name request response =
     Interface (name @ ''_Event'')
       [(''info'', Message service_msgs__msg__ServiceEventInfo__struct),
        (''request'', Sequence (Some 1) (Message request)), (''response'', Sequence (Some 1) (Message response))]"

text \<open>An action is a service that sends a goal, one that gets the result of a goal, and a message of feedback on a goal;
  all three name the goal by its identifier.\<close>

definition action_protocol :: "string \<Rightarrow> mtype \<Rightarrow> mtype \<Rightarrow> mtype \<Rightarrow> mtype list" where
  "action_protocol name goal result feedback =
     (let goal_id = (''goal_id'', Message unique_identifier_msgs__msg__UUID__struct);
          send_request = Interface (name @ ''_SendGoal_Request'') [goal_id, (''goal'', Message goal)];
          send_response = Interface (name @ ''_SendGoal_Response'')
            [(''accepted'', Primitive C_bool), (''stamp'', Message builtin_interfaces__msg__Time__struct)];
          result_request = Interface (name @ ''_GetResult_Request'') [goal_id];
          result_response = Interface (name @ ''_GetResult_Response'')
            [(''status'', Primitive C_int8), (''result'', Message result)]
      in [send_request, send_response, service_event (name @ ''_SendGoal'') send_request send_response,
          result_request, result_response, service_event (name @ ''_GetResult'') result_request result_response,
          Interface (name @ ''_FeedbackMessage'') [goal_id, (''feedback'', Message feedback)]])"

text \<open>The actions and services of all packages: name, what its author declares, and what the generator adds.\<close>

definition declared_actions :: "(string \<times> mtype \<times> mtype \<times> mtype \<times> mtype list) list" where
  "declared_actions =
    [(''example_interfaces__action__Fibonacci'', example_interfaces__action__Fibonacci_Goal__struct, example_interfaces__action__Fibonacci_Result__struct, example_interfaces__action__Fibonacci_Feedback__struct,
      [example_interfaces__action__Fibonacci_SendGoal_Request__struct,
       example_interfaces__action__Fibonacci_SendGoal_Response__struct,
       example_interfaces__action__Fibonacci_SendGoal_Event__struct,
       example_interfaces__action__Fibonacci_GetResult_Request__struct,
       example_interfaces__action__Fibonacci_GetResult_Response__struct,
       example_interfaces__action__Fibonacci_GetResult_Event__struct,
       example_interfaces__action__Fibonacci_FeedbackMessage__struct]),
     (''tf2_msgs__action__LookupTransform'', tf2_msgs__action__LookupTransform_Goal__struct, tf2_msgs__action__LookupTransform_Result__struct, tf2_msgs__action__LookupTransform_Feedback__struct,
      [tf2_msgs__action__LookupTransform_SendGoal_Request__struct,
       tf2_msgs__action__LookupTransform_SendGoal_Response__struct,
       tf2_msgs__action__LookupTransform_SendGoal_Event__struct,
       tf2_msgs__action__LookupTransform_GetResult_Request__struct,
       tf2_msgs__action__LookupTransform_GetResult_Response__struct,
       tf2_msgs__action__LookupTransform_GetResult_Event__struct,
       tf2_msgs__action__LookupTransform_FeedbackMessage__struct]),
     (''control_msgs__action__FollowJointTrajectory'', control_msgs__action__FollowJointTrajectory_Goal__struct, control_msgs__action__FollowJointTrajectory_Result__struct, control_msgs__action__FollowJointTrajectory_Feedback__struct,
      [control_msgs__action__FollowJointTrajectory_SendGoal_Request__struct,
       control_msgs__action__FollowJointTrajectory_SendGoal_Response__struct,
       control_msgs__action__FollowJointTrajectory_SendGoal_Event__struct,
       control_msgs__action__FollowJointTrajectory_GetResult_Request__struct,
       control_msgs__action__FollowJointTrajectory_GetResult_Response__struct,
       control_msgs__action__FollowJointTrajectory_GetResult_Event__struct,
       control_msgs__action__FollowJointTrajectory_FeedbackMessage__struct]),
     (''control_msgs__action__GripperCommand'', control_msgs__action__GripperCommand_Goal__struct, control_msgs__action__GripperCommand_Result__struct, control_msgs__action__GripperCommand_Feedback__struct,
      [control_msgs__action__GripperCommand_SendGoal_Request__struct,
       control_msgs__action__GripperCommand_SendGoal_Response__struct,
       control_msgs__action__GripperCommand_SendGoal_Event__struct,
       control_msgs__action__GripperCommand_GetResult_Request__struct,
       control_msgs__action__GripperCommand_GetResult_Response__struct,
       control_msgs__action__GripperCommand_GetResult_Event__struct,
       control_msgs__action__GripperCommand_FeedbackMessage__struct]),
     (''control_msgs__action__JointTrajectory'', control_msgs__action__JointTrajectory_Goal__struct, control_msgs__action__JointTrajectory_Result__struct, control_msgs__action__JointTrajectory_Feedback__struct,
      [control_msgs__action__JointTrajectory_SendGoal_Request__struct,
       control_msgs__action__JointTrajectory_SendGoal_Response__struct,
       control_msgs__action__JointTrajectory_SendGoal_Event__struct,
       control_msgs__action__JointTrajectory_GetResult_Request__struct,
       control_msgs__action__JointTrajectory_GetResult_Response__struct,
       control_msgs__action__JointTrajectory_GetResult_Event__struct,
       control_msgs__action__JointTrajectory_FeedbackMessage__struct]),
     (''control_msgs__action__PointHead'', control_msgs__action__PointHead_Goal__struct, control_msgs__action__PointHead_Result__struct, control_msgs__action__PointHead_Feedback__struct,
      [control_msgs__action__PointHead_SendGoal_Request__struct,
       control_msgs__action__PointHead_SendGoal_Response__struct,
       control_msgs__action__PointHead_SendGoal_Event__struct,
       control_msgs__action__PointHead_GetResult_Request__struct,
       control_msgs__action__PointHead_GetResult_Response__struct,
       control_msgs__action__PointHead_GetResult_Event__struct,
       control_msgs__action__PointHead_FeedbackMessage__struct]),
     (''control_msgs__action__SingleJointPosition'', control_msgs__action__SingleJointPosition_Goal__struct, control_msgs__action__SingleJointPosition_Result__struct, control_msgs__action__SingleJointPosition_Feedback__struct,
      [control_msgs__action__SingleJointPosition_SendGoal_Request__struct,
       control_msgs__action__SingleJointPosition_SendGoal_Response__struct,
       control_msgs__action__SingleJointPosition_SendGoal_Event__struct,
       control_msgs__action__SingleJointPosition_GetResult_Request__struct,
       control_msgs__action__SingleJointPosition_GetResult_Response__struct,
       control_msgs__action__SingleJointPosition_GetResult_Event__struct,
       control_msgs__action__SingleJointPosition_FeedbackMessage__struct]),
     (''test_msgs__action__Fibonacci'', test_msgs__action__Fibonacci_Goal__struct, test_msgs__action__Fibonacci_Result__struct, test_msgs__action__Fibonacci_Feedback__struct,
      [test_msgs__action__Fibonacci_SendGoal_Request__struct,
       test_msgs__action__Fibonacci_SendGoal_Response__struct,
       test_msgs__action__Fibonacci_SendGoal_Event__struct,
       test_msgs__action__Fibonacci_GetResult_Request__struct,
       test_msgs__action__Fibonacci_GetResult_Response__struct,
       test_msgs__action__Fibonacci_GetResult_Event__struct,
       test_msgs__action__Fibonacci_FeedbackMessage__struct]),
     (''test_msgs__action__NestedMessage'', test_msgs__action__NestedMessage_Goal__struct, test_msgs__action__NestedMessage_Result__struct, test_msgs__action__NestedMessage_Feedback__struct,
      [test_msgs__action__NestedMessage_SendGoal_Request__struct,
       test_msgs__action__NestedMessage_SendGoal_Response__struct,
       test_msgs__action__NestedMessage_SendGoal_Event__struct,
       test_msgs__action__NestedMessage_GetResult_Request__struct,
       test_msgs__action__NestedMessage_GetResult_Response__struct,
       test_msgs__action__NestedMessage_GetResult_Event__struct,
       test_msgs__action__NestedMessage_FeedbackMessage__struct])]"

definition declared_services :: "(string \<times> mtype \<times> mtype \<times> mtype) list" where
  "declared_services =
    [(''std_srvs__srv__Empty'', std_srvs__srv__Empty_Request__struct, std_srvs__srv__Empty_Response__struct,
      std_srvs__srv__Empty_Event__struct),
     (''std_srvs__srv__SetBool'', std_srvs__srv__SetBool_Request__struct, std_srvs__srv__SetBool_Response__struct,
      std_srvs__srv__SetBool_Event__struct),
     (''std_srvs__srv__Trigger'', std_srvs__srv__Trigger_Request__struct, std_srvs__srv__Trigger_Response__struct,
      std_srvs__srv__Trigger_Event__struct),
     (''action_msgs__srv__CancelGoal'', action_msgs__srv__CancelGoal_Request__struct, action_msgs__srv__CancelGoal_Response__struct,
      action_msgs__srv__CancelGoal_Event__struct),
     (''lifecycle_msgs__srv__ChangeState'', lifecycle_msgs__srv__ChangeState_Request__struct, lifecycle_msgs__srv__ChangeState_Response__struct,
      lifecycle_msgs__srv__ChangeState_Event__struct),
     (''lifecycle_msgs__srv__GetAvailableStates'', lifecycle_msgs__srv__GetAvailableStates_Request__struct, lifecycle_msgs__srv__GetAvailableStates_Response__struct,
      lifecycle_msgs__srv__GetAvailableStates_Event__struct),
     (''lifecycle_msgs__srv__GetAvailableTransitions'', lifecycle_msgs__srv__GetAvailableTransitions_Request__struct, lifecycle_msgs__srv__GetAvailableTransitions_Response__struct,
      lifecycle_msgs__srv__GetAvailableTransitions_Event__struct),
     (''lifecycle_msgs__srv__GetState'', lifecycle_msgs__srv__GetState_Request__struct, lifecycle_msgs__srv__GetState_Response__struct,
      lifecycle_msgs__srv__GetState_Event__struct),
     (''rcl_interfaces__srv__DescribeParameters'', rcl_interfaces__srv__DescribeParameters_Request__struct, rcl_interfaces__srv__DescribeParameters_Response__struct,
      rcl_interfaces__srv__DescribeParameters_Event__struct),
     (''rcl_interfaces__srv__GetLoggerLevels'', rcl_interfaces__srv__GetLoggerLevels_Request__struct, rcl_interfaces__srv__GetLoggerLevels_Response__struct,
      rcl_interfaces__srv__GetLoggerLevels_Event__struct),
     (''rcl_interfaces__srv__GetParameterTypes'', rcl_interfaces__srv__GetParameterTypes_Request__struct, rcl_interfaces__srv__GetParameterTypes_Response__struct,
      rcl_interfaces__srv__GetParameterTypes_Event__struct),
     (''rcl_interfaces__srv__GetParameters'', rcl_interfaces__srv__GetParameters_Request__struct, rcl_interfaces__srv__GetParameters_Response__struct,
      rcl_interfaces__srv__GetParameters_Event__struct),
     (''rcl_interfaces__srv__ListParameters'', rcl_interfaces__srv__ListParameters_Request__struct, rcl_interfaces__srv__ListParameters_Response__struct,
      rcl_interfaces__srv__ListParameters_Event__struct),
     (''rcl_interfaces__srv__SetLoggerLevels'', rcl_interfaces__srv__SetLoggerLevels_Request__struct, rcl_interfaces__srv__SetLoggerLevels_Response__struct,
      rcl_interfaces__srv__SetLoggerLevels_Event__struct),
     (''rcl_interfaces__srv__SetParameters'', rcl_interfaces__srv__SetParameters_Request__struct, rcl_interfaces__srv__SetParameters_Response__struct,
      rcl_interfaces__srv__SetParameters_Event__struct),
     (''rcl_interfaces__srv__SetParametersAtomically'', rcl_interfaces__srv__SetParametersAtomically_Request__struct, rcl_interfaces__srv__SetParametersAtomically_Response__struct,
      rcl_interfaces__srv__SetParametersAtomically_Event__struct),
     (''composition_interfaces__srv__ListNodes'', composition_interfaces__srv__ListNodes_Request__struct, composition_interfaces__srv__ListNodes_Response__struct,
      composition_interfaces__srv__ListNodes_Event__struct),
     (''composition_interfaces__srv__LoadNode'', composition_interfaces__srv__LoadNode_Request__struct, composition_interfaces__srv__LoadNode_Response__struct,
      composition_interfaces__srv__LoadNode_Event__struct),
     (''composition_interfaces__srv__UnloadNode'', composition_interfaces__srv__UnloadNode_Request__struct, composition_interfaces__srv__UnloadNode_Response__struct,
      composition_interfaces__srv__UnloadNode_Event__struct),
     (''type_description_interfaces__srv__GetTypeDescription'', type_description_interfaces__srv__GetTypeDescription_Request__struct, type_description_interfaces__srv__GetTypeDescription_Response__struct,
      type_description_interfaces__srv__GetTypeDescription_Event__struct),
     (''diagnostic_msgs__srv__AddDiagnostics'', diagnostic_msgs__srv__AddDiagnostics_Request__struct, diagnostic_msgs__srv__AddDiagnostics_Response__struct,
      diagnostic_msgs__srv__AddDiagnostics_Event__struct),
     (''diagnostic_msgs__srv__SelfTest'', diagnostic_msgs__srv__SelfTest_Request__struct, diagnostic_msgs__srv__SelfTest_Response__struct,
      diagnostic_msgs__srv__SelfTest_Event__struct),
     (''example_interfaces__srv__AddTwoInts'', example_interfaces__srv__AddTwoInts_Request__struct, example_interfaces__srv__AddTwoInts_Response__struct,
      example_interfaces__srv__AddTwoInts_Event__struct),
     (''example_interfaces__srv__SetBool'', example_interfaces__srv__SetBool_Request__struct, example_interfaces__srv__SetBool_Response__struct,
      example_interfaces__srv__SetBool_Event__struct),
     (''example_interfaces__srv__Trigger'', example_interfaces__srv__Trigger_Request__struct, example_interfaces__srv__Trigger_Response__struct,
      example_interfaces__srv__Trigger_Event__struct),
     (''sensor_msgs__srv__SetCameraInfo'', sensor_msgs__srv__SetCameraInfo_Request__struct, sensor_msgs__srv__SetCameraInfo_Response__struct,
      sensor_msgs__srv__SetCameraInfo_Event__struct),
     (''nav_msgs__srv__GetMap'', nav_msgs__srv__GetMap_Request__struct, nav_msgs__srv__GetMap_Response__struct,
      nav_msgs__srv__GetMap_Event__struct),
     (''nav_msgs__srv__GetPlan'', nav_msgs__srv__GetPlan_Request__struct, nav_msgs__srv__GetPlan_Response__struct,
      nav_msgs__srv__GetPlan_Event__struct),
     (''nav_msgs__srv__LoadMap'', nav_msgs__srv__LoadMap_Request__struct, nav_msgs__srv__LoadMap_Response__struct,
      nav_msgs__srv__LoadMap_Event__struct),
     (''nav_msgs__srv__SetMap'', nav_msgs__srv__SetMap_Request__struct, nav_msgs__srv__SetMap_Response__struct,
      nav_msgs__srv__SetMap_Event__struct),
     (''tf2_msgs__srv__FrameGraph'', tf2_msgs__srv__FrameGraph_Request__struct, tf2_msgs__srv__FrameGraph_Response__struct,
      tf2_msgs__srv__FrameGraph_Event__struct),
     (''visualization_msgs__srv__GetInteractiveMarkers'', visualization_msgs__srv__GetInteractiveMarkers_Request__struct, visualization_msgs__srv__GetInteractiveMarkers_Response__struct,
      visualization_msgs__srv__GetInteractiveMarkers_Event__struct),
     (''control_msgs__srv__QueryCalibrationState'', control_msgs__srv__QueryCalibrationState_Request__struct, control_msgs__srv__QueryCalibrationState_Response__struct,
      control_msgs__srv__QueryCalibrationState_Event__struct),
     (''control_msgs__srv__QueryTrajectoryState'', control_msgs__srv__QueryTrajectoryState_Request__struct, control_msgs__srv__QueryTrajectoryState_Response__struct,
      control_msgs__srv__QueryTrajectoryState_Event__struct),
     (''test_msgs__srv__Arrays'', test_msgs__srv__Arrays_Request__struct, test_msgs__srv__Arrays_Response__struct,
      test_msgs__srv__Arrays_Event__struct),
     (''test_msgs__srv__BasicTypes'', test_msgs__srv__BasicTypes_Request__struct, test_msgs__srv__BasicTypes_Response__struct,
      test_msgs__srv__BasicTypes_Event__struct),
     (''test_msgs__srv__Empty'', test_msgs__srv__Empty_Request__struct, test_msgs__srv__Empty_Response__struct,
      test_msgs__srv__Empty_Event__struct)]"

definition declared_interfaces :: "mtype list" where
  "declared_interfaces =
    [builtin_interfaces__msg__Duration__struct, builtin_interfaces__msg__Time__struct,
     unique_identifier_msgs__msg__UUID__struct, service_msgs__msg__ServiceEventInfo__struct,
     std_msgs__msg__Bool__struct, std_msgs__msg__Byte__struct, std_msgs__msg__MultiArrayDimension__struct,
     std_msgs__msg__MultiArrayLayout__struct, std_msgs__msg__ByteMultiArray__struct,
     std_msgs__msg__Char__struct, std_msgs__msg__ColorRGBA__struct, std_msgs__msg__Empty__struct,
     std_msgs__msg__Float32__struct, std_msgs__msg__Float32MultiArray__struct,
     std_msgs__msg__Float64__struct, std_msgs__msg__Float64MultiArray__struct,
     std_msgs__msg__Header__struct, std_msgs__msg__Int16__struct, std_msgs__msg__Int16MultiArray__struct,
     std_msgs__msg__Int32__struct, std_msgs__msg__Int32MultiArray__struct, std_msgs__msg__Int64__struct,
     std_msgs__msg__Int64MultiArray__struct, std_msgs__msg__Int8__struct,
     std_msgs__msg__Int8MultiArray__struct, std_msgs__msg__String__struct, std_msgs__msg__UInt16__struct,
     std_msgs__msg__UInt16MultiArray__struct, std_msgs__msg__UInt32__struct,
     std_msgs__msg__UInt32MultiArray__struct, std_msgs__msg__UInt64__struct,
     std_msgs__msg__UInt64MultiArray__struct, std_msgs__msg__UInt8__struct,
     std_msgs__msg__UInt8MultiArray__struct, std_srvs__srv__Empty_Request__struct,
     std_srvs__srv__Empty_Response__struct, std_srvs__srv__Empty_Event__struct,
     std_srvs__srv__SetBool_Request__struct, std_srvs__srv__SetBool_Response__struct,
     std_srvs__srv__SetBool_Event__struct, std_srvs__srv__Trigger_Request__struct,
     std_srvs__srv__Trigger_Response__struct, std_srvs__srv__Trigger_Event__struct,
     rosgraph_msgs__msg__Clock__struct, statistics_msgs__msg__StatisticDataPoint__struct,
     statistics_msgs__msg__MetricsMessage__struct, statistics_msgs__msg__StatisticDataType__struct,
     micro_ros_msgs__msg__Entity__struct, micro_ros_msgs__msg__Node__struct,
     micro_ros_msgs__msg__Graph__struct, action_msgs__msg__GoalInfo__struct,
     action_msgs__msg__GoalStatus__struct, action_msgs__msg__GoalStatusArray__struct,
     action_msgs__srv__CancelGoal_Request__struct, action_msgs__srv__CancelGoal_Response__struct,
     action_msgs__srv__CancelGoal_Event__struct, lifecycle_msgs__msg__State__struct,
     lifecycle_msgs__msg__Transition__struct, lifecycle_msgs__msg__TransitionDescription__struct,
     lifecycle_msgs__msg__TransitionEvent__struct, lifecycle_msgs__srv__ChangeState_Request__struct,
     lifecycle_msgs__srv__ChangeState_Response__struct, lifecycle_msgs__srv__ChangeState_Event__struct,
     lifecycle_msgs__srv__GetAvailableStates_Request__struct,
     lifecycle_msgs__srv__GetAvailableStates_Response__struct,
     lifecycle_msgs__srv__GetAvailableStates_Event__struct,
     lifecycle_msgs__srv__GetAvailableTransitions_Request__struct,
     lifecycle_msgs__srv__GetAvailableTransitions_Response__struct,
     lifecycle_msgs__srv__GetAvailableTransitions_Event__struct,
     lifecycle_msgs__srv__GetState_Request__struct, lifecycle_msgs__srv__GetState_Response__struct,
     lifecycle_msgs__srv__GetState_Event__struct, rcl_interfaces__msg__FloatingPointRange__struct,
     rcl_interfaces__msg__IntegerRange__struct, rcl_interfaces__msg__ListParametersResult__struct,
     rcl_interfaces__msg__Log__struct, rcl_interfaces__msg__LoggerLevel__struct,
     rcl_interfaces__msg__ParameterValue__struct, rcl_interfaces__msg__Parameter__struct,
     rcl_interfaces__msg__ParameterDescriptor__struct, rcl_interfaces__msg__ParameterEvent__struct,
     rcl_interfaces__msg__ParameterEventDescriptors__struct, rcl_interfaces__msg__ParameterType__struct,
     rcl_interfaces__msg__SetLoggerLevelsResult__struct, rcl_interfaces__msg__SetParametersResult__struct,
     rcl_interfaces__srv__DescribeParameters_Request__struct,
     rcl_interfaces__srv__DescribeParameters_Response__struct,
     rcl_interfaces__srv__DescribeParameters_Event__struct,
     rcl_interfaces__srv__GetLoggerLevels_Request__struct,
     rcl_interfaces__srv__GetLoggerLevels_Response__struct,
     rcl_interfaces__srv__GetLoggerLevels_Event__struct,
     rcl_interfaces__srv__GetParameterTypes_Request__struct,
     rcl_interfaces__srv__GetParameterTypes_Response__struct,
     rcl_interfaces__srv__GetParameterTypes_Event__struct,
     rcl_interfaces__srv__GetParameters_Request__struct,
     rcl_interfaces__srv__GetParameters_Response__struct, rcl_interfaces__srv__GetParameters_Event__struct,
     rcl_interfaces__srv__ListParameters_Request__struct,
     rcl_interfaces__srv__ListParameters_Response__struct,
     rcl_interfaces__srv__ListParameters_Event__struct,
     rcl_interfaces__srv__SetLoggerLevels_Request__struct,
     rcl_interfaces__srv__SetLoggerLevels_Response__struct,
     rcl_interfaces__srv__SetLoggerLevels_Event__struct, rcl_interfaces__srv__SetParameters_Request__struct,
     rcl_interfaces__srv__SetParameters_Response__struct, rcl_interfaces__srv__SetParameters_Event__struct,
     rcl_interfaces__srv__SetParametersAtomically_Request__struct,
     rcl_interfaces__srv__SetParametersAtomically_Response__struct,
     rcl_interfaces__srv__SetParametersAtomically_Event__struct,
     composition_interfaces__srv__ListNodes_Request__struct,
     composition_interfaces__srv__ListNodes_Response__struct,
     composition_interfaces__srv__ListNodes_Event__struct,
     composition_interfaces__srv__LoadNode_Request__struct,
     composition_interfaces__srv__LoadNode_Response__struct,
     composition_interfaces__srv__LoadNode_Event__struct,
     composition_interfaces__srv__UnloadNode_Request__struct,
     composition_interfaces__srv__UnloadNode_Response__struct,
     composition_interfaces__srv__UnloadNode_Event__struct,
     rosidl_runtime_c__type_description__FieldType__struct,
     rosidl_runtime_c__type_description__Field__struct,
     rosidl_runtime_c__type_description__IndividualTypeDescription__struct,
     rosidl_runtime_c__type_description__KeyValue__struct,
     rosidl_runtime_c__type_description__TypeDescription__struct,
     rosidl_runtime_c__type_description__TypeSource__struct,
     type_description_interfaces__msg__FieldType__struct, type_description_interfaces__msg__Field__struct,
     type_description_interfaces__msg__IndividualTypeDescription__struct,
     type_description_interfaces__msg__KeyValue__struct,
     type_description_interfaces__msg__TypeDescription__struct,
     type_description_interfaces__msg__TypeSource__struct,
     type_description_interfaces__srv__GetTypeDescription_Request__struct,
     type_description_interfaces__srv__GetTypeDescription_Response__struct,
     type_description_interfaces__srv__GetTypeDescription_Event__struct,
     diagnostic_msgs__msg__KeyValue__struct, diagnostic_msgs__msg__DiagnosticStatus__struct,
     diagnostic_msgs__msg__DiagnosticArray__struct, diagnostic_msgs__srv__AddDiagnostics_Request__struct,
     diagnostic_msgs__srv__AddDiagnostics_Response__struct,
     diagnostic_msgs__srv__AddDiagnostics_Event__struct, diagnostic_msgs__srv__SelfTest_Request__struct,
     diagnostic_msgs__srv__SelfTest_Response__struct, diagnostic_msgs__srv__SelfTest_Event__struct,
     example_interfaces__action__Fibonacci_Goal__struct,
     example_interfaces__action__Fibonacci_Result__struct,
     example_interfaces__action__Fibonacci_Feedback__struct,
     example_interfaces__action__Fibonacci_SendGoal_Request__struct,
     example_interfaces__action__Fibonacci_SendGoal_Response__struct,
     example_interfaces__action__Fibonacci_SendGoal_Event__struct,
     example_interfaces__action__Fibonacci_GetResult_Request__struct,
     example_interfaces__action__Fibonacci_GetResult_Response__struct,
     example_interfaces__action__Fibonacci_GetResult_Event__struct,
     example_interfaces__action__Fibonacci_FeedbackMessage__struct, example_interfaces__msg__Bool__struct,
     example_interfaces__msg__Byte__struct, example_interfaces__msg__MultiArrayDimension__struct,
     example_interfaces__msg__MultiArrayLayout__struct, example_interfaces__msg__ByteMultiArray__struct,
     example_interfaces__msg__Char__struct, example_interfaces__msg__Empty__struct,
     example_interfaces__msg__Float32__struct, example_interfaces__msg__Float32MultiArray__struct,
     example_interfaces__msg__Float64__struct, example_interfaces__msg__Float64MultiArray__struct,
     example_interfaces__msg__Int16__struct, example_interfaces__msg__Int16MultiArray__struct,
     example_interfaces__msg__Int32__struct, example_interfaces__msg__Int32MultiArray__struct,
     example_interfaces__msg__Int64__struct, example_interfaces__msg__Int64MultiArray__struct,
     example_interfaces__msg__Int8__struct, example_interfaces__msg__Int8MultiArray__struct,
     example_interfaces__msg__String__struct, example_interfaces__msg__UInt16__struct,
     example_interfaces__msg__UInt16MultiArray__struct, example_interfaces__msg__UInt32__struct,
     example_interfaces__msg__UInt32MultiArray__struct, example_interfaces__msg__UInt64__struct,
     example_interfaces__msg__UInt64MultiArray__struct, example_interfaces__msg__UInt8__struct,
     example_interfaces__msg__UInt8MultiArray__struct, example_interfaces__msg__WString__struct,
     example_interfaces__srv__AddTwoInts_Request__struct,
     example_interfaces__srv__AddTwoInts_Response__struct,
     example_interfaces__srv__AddTwoInts_Event__struct, example_interfaces__srv__SetBool_Request__struct,
     example_interfaces__srv__SetBool_Response__struct, example_interfaces__srv__SetBool_Event__struct,
     example_interfaces__srv__Trigger_Request__struct, example_interfaces__srv__Trigger_Response__struct,
     example_interfaces__srv__Trigger_Event__struct, geometry_msgs__msg__Vector3__struct,
     geometry_msgs__msg__Accel__struct, geometry_msgs__msg__AccelStamped__struct,
     geometry_msgs__msg__AccelWithCovariance__struct,
     geometry_msgs__msg__AccelWithCovarianceStamped__struct, geometry_msgs__msg__Inertia__struct,
     geometry_msgs__msg__InertiaStamped__struct, geometry_msgs__msg__Point32__struct,
     geometry_msgs__msg__Point__struct, geometry_msgs__msg__PointStamped__struct,
     geometry_msgs__msg__Polygon__struct, geometry_msgs__msg__PolygonInstance__struct,
     geometry_msgs__msg__PolygonInstanceStamped__struct, geometry_msgs__msg__PolygonStamped__struct,
     geometry_msgs__msg__Pose2D__struct, geometry_msgs__msg__Quaternion__struct,
     geometry_msgs__msg__Pose__struct, geometry_msgs__msg__PoseArray__struct,
     geometry_msgs__msg__PoseStamped__struct, geometry_msgs__msg__PoseWithCovariance__struct,
     geometry_msgs__msg__PoseWithCovarianceStamped__struct, geometry_msgs__msg__QuaternionStamped__struct,
     geometry_msgs__msg__Transform__struct, geometry_msgs__msg__TransformStamped__struct,
     geometry_msgs__msg__Twist__struct, geometry_msgs__msg__TwistStamped__struct,
     geometry_msgs__msg__TwistWithCovariance__struct,
     geometry_msgs__msg__TwistWithCovarianceStamped__struct, geometry_msgs__msg__Vector3Stamped__struct,
     geometry_msgs__msg__VelocityStamped__struct, geometry_msgs__msg__Wrench__struct,
     geometry_msgs__msg__WrenchStamped__struct, shape_msgs__msg__MeshTriangle__struct,
     shape_msgs__msg__Mesh__struct, shape_msgs__msg__Plane__struct, shape_msgs__msg__SolidPrimitive__struct,
     sensor_msgs__msg__BatteryState__struct, sensor_msgs__msg__RegionOfInterest__struct,
     sensor_msgs__msg__CameraInfo__struct, sensor_msgs__msg__ChannelFloat32__struct,
     sensor_msgs__msg__CompressedImage__struct, sensor_msgs__msg__FluidPressure__struct,
     sensor_msgs__msg__Illuminance__struct, sensor_msgs__msg__Image__struct, sensor_msgs__msg__Imu__struct,
     sensor_msgs__msg__JointState__struct, sensor_msgs__msg__Joy__struct,
     sensor_msgs__msg__JoyFeedback__struct, sensor_msgs__msg__JoyFeedbackArray__struct,
     sensor_msgs__msg__LaserEcho__struct, sensor_msgs__msg__LaserScan__struct,
     sensor_msgs__msg__MagneticField__struct, sensor_msgs__msg__MultiDOFJointState__struct,
     sensor_msgs__msg__MultiEchoLaserScan__struct, sensor_msgs__msg__NavSatStatus__struct,
     sensor_msgs__msg__NavSatFix__struct, sensor_msgs__msg__PointField__struct,
     sensor_msgs__msg__PointCloud2__struct, sensor_msgs__msg__PointCloud__struct,
     sensor_msgs__msg__Range__struct, sensor_msgs__msg__RelativeHumidity__struct,
     sensor_msgs__msg__Temperature__struct, sensor_msgs__msg__TimeReference__struct,
     sensor_msgs__srv__SetCameraInfo_Request__struct, sensor_msgs__srv__SetCameraInfo_Response__struct,
     sensor_msgs__srv__SetCameraInfo_Event__struct, nav_msgs__msg__Goals__struct,
     nav_msgs__msg__GridCells__struct, nav_msgs__msg__MapMetaData__struct,
     nav_msgs__msg__OccupancyGrid__struct, nav_msgs__msg__Odometry__struct, nav_msgs__msg__Path__struct,
     nav_msgs__srv__GetMap_Request__struct, nav_msgs__srv__GetMap_Response__struct,
     nav_msgs__srv__GetMap_Event__struct, nav_msgs__srv__GetPlan_Request__struct,
     nav_msgs__srv__GetPlan_Response__struct, nav_msgs__srv__GetPlan_Event__struct,
     nav_msgs__srv__LoadMap_Request__struct, nav_msgs__srv__LoadMap_Response__struct,
     nav_msgs__srv__LoadMap_Event__struct, nav_msgs__srv__SetMap_Request__struct,
     nav_msgs__srv__SetMap_Response__struct, nav_msgs__srv__SetMap_Event__struct,
     stereo_msgs__msg__DisparityImage__struct, trajectory_msgs__msg__JointTrajectoryPoint__struct,
     trajectory_msgs__msg__JointTrajectory__struct,
     trajectory_msgs__msg__MultiDOFJointTrajectoryPoint__struct,
     trajectory_msgs__msg__MultiDOFJointTrajectory__struct, actionlib_msgs__msg__GoalID__struct,
     actionlib_msgs__msg__GoalStatus__struct, actionlib_msgs__msg__GoalStatusArray__struct,
     tf2_msgs__action__LookupTransform_Goal__struct, tf2_msgs__msg__TF2Error__struct,
     tf2_msgs__action__LookupTransform_Result__struct, tf2_msgs__action__LookupTransform_Feedback__struct,
     tf2_msgs__action__LookupTransform_SendGoal_Request__struct,
     tf2_msgs__action__LookupTransform_SendGoal_Response__struct,
     tf2_msgs__action__LookupTransform_SendGoal_Event__struct,
     tf2_msgs__action__LookupTransform_GetResult_Request__struct,
     tf2_msgs__action__LookupTransform_GetResult_Response__struct,
     tf2_msgs__action__LookupTransform_GetResult_Event__struct,
     tf2_msgs__action__LookupTransform_FeedbackMessage__struct, tf2_msgs__msg__TFMessage__struct,
     tf2_msgs__srv__FrameGraph_Request__struct, tf2_msgs__srv__FrameGraph_Response__struct,
     tf2_msgs__srv__FrameGraph_Event__struct, visualization_msgs__msg__ImageMarker__struct,
     visualization_msgs__msg__MenuEntry__struct, visualization_msgs__msg__UVCoordinate__struct,
     visualization_msgs__msg__MeshFile__struct, visualization_msgs__msg__Marker__struct,
     visualization_msgs__msg__InteractiveMarkerControl__struct,
     visualization_msgs__msg__InteractiveMarker__struct,
     visualization_msgs__msg__InteractiveMarkerFeedback__struct,
     visualization_msgs__msg__InteractiveMarkerInit__struct,
     visualization_msgs__msg__InteractiveMarkerPose__struct,
     visualization_msgs__msg__InteractiveMarkerUpdate__struct, visualization_msgs__msg__MarkerArray__struct,
     visualization_msgs__srv__GetInteractiveMarkers_Request__struct,
     visualization_msgs__srv__GetInteractiveMarkers_Response__struct,
     visualization_msgs__srv__GetInteractiveMarkers_Event__struct,
     control_msgs__msg__JointTolerance__struct, control_msgs__msg__JointComponentTolerance__struct,
     control_msgs__action__FollowJointTrajectory_Goal__struct,
     control_msgs__action__FollowJointTrajectory_Result__struct,
     control_msgs__action__FollowJointTrajectory_Feedback__struct,
     control_msgs__action__FollowJointTrajectory_SendGoal_Request__struct,
     control_msgs__action__FollowJointTrajectory_SendGoal_Response__struct,
     control_msgs__action__FollowJointTrajectory_SendGoal_Event__struct,
     control_msgs__action__FollowJointTrajectory_GetResult_Request__struct,
     control_msgs__action__FollowJointTrajectory_GetResult_Response__struct,
     control_msgs__action__FollowJointTrajectory_GetResult_Event__struct,
     control_msgs__action__FollowJointTrajectory_FeedbackMessage__struct,
     control_msgs__msg__GripperCommand__struct, control_msgs__action__GripperCommand_Goal__struct,
     control_msgs__action__GripperCommand_Result__struct,
     control_msgs__action__GripperCommand_Feedback__struct,
     control_msgs__action__GripperCommand_SendGoal_Request__struct,
     control_msgs__action__GripperCommand_SendGoal_Response__struct,
     control_msgs__action__GripperCommand_SendGoal_Event__struct,
     control_msgs__action__GripperCommand_GetResult_Request__struct,
     control_msgs__action__GripperCommand_GetResult_Response__struct,
     control_msgs__action__GripperCommand_GetResult_Event__struct,
     control_msgs__action__GripperCommand_FeedbackMessage__struct,
     control_msgs__action__JointTrajectory_Goal__struct,
     control_msgs__action__JointTrajectory_Result__struct,
     control_msgs__action__JointTrajectory_Feedback__struct,
     control_msgs__action__JointTrajectory_SendGoal_Request__struct,
     control_msgs__action__JointTrajectory_SendGoal_Response__struct,
     control_msgs__action__JointTrajectory_SendGoal_Event__struct,
     control_msgs__action__JointTrajectory_GetResult_Request__struct,
     control_msgs__action__JointTrajectory_GetResult_Response__struct,
     control_msgs__action__JointTrajectory_GetResult_Event__struct,
     control_msgs__action__JointTrajectory_FeedbackMessage__struct,
     control_msgs__action__PointHead_Goal__struct, control_msgs__action__PointHead_Result__struct,
     control_msgs__action__PointHead_Feedback__struct,
     control_msgs__action__PointHead_SendGoal_Request__struct,
     control_msgs__action__PointHead_SendGoal_Response__struct,
     control_msgs__action__PointHead_SendGoal_Event__struct,
     control_msgs__action__PointHead_GetResult_Request__struct,
     control_msgs__action__PointHead_GetResult_Response__struct,
     control_msgs__action__PointHead_GetResult_Event__struct,
     control_msgs__action__PointHead_FeedbackMessage__struct,
     control_msgs__action__SingleJointPosition_Goal__struct,
     control_msgs__action__SingleJointPosition_Result__struct,
     control_msgs__action__SingleJointPosition_Feedback__struct,
     control_msgs__action__SingleJointPosition_SendGoal_Request__struct,
     control_msgs__action__SingleJointPosition_SendGoal_Response__struct,
     control_msgs__action__SingleJointPosition_SendGoal_Event__struct,
     control_msgs__action__SingleJointPosition_GetResult_Request__struct,
     control_msgs__action__SingleJointPosition_GetResult_Response__struct,
     control_msgs__action__SingleJointPosition_GetResult_Event__struct,
     control_msgs__action__SingleJointPosition_FeedbackMessage__struct,
     control_msgs__msg__InterfaceValue__struct, control_msgs__msg__DynamicJointState__struct,
     control_msgs__msg__JointControllerState__struct, control_msgs__msg__JointJog__struct,
     control_msgs__msg__JointTrajectoryControllerState__struct, control_msgs__msg__PidState__struct,
     control_msgs__srv__QueryCalibrationState_Request__struct,
     control_msgs__srv__QueryCalibrationState_Response__struct,
     control_msgs__srv__QueryCalibrationState_Event__struct,
     control_msgs__srv__QueryTrajectoryState_Request__struct,
     control_msgs__srv__QueryTrajectoryState_Response__struct,
     control_msgs__srv__QueryTrajectoryState_Event__struct, test_msgs__action__Fibonacci_Goal__struct,
     test_msgs__action__Fibonacci_Result__struct, test_msgs__action__Fibonacci_Feedback__struct,
     test_msgs__action__Fibonacci_SendGoal_Request__struct,
     test_msgs__action__Fibonacci_SendGoal_Response__struct,
     test_msgs__action__Fibonacci_SendGoal_Event__struct,
     test_msgs__action__Fibonacci_GetResult_Request__struct,
     test_msgs__action__Fibonacci_GetResult_Response__struct,
     test_msgs__action__Fibonacci_GetResult_Event__struct,
     test_msgs__action__Fibonacci_FeedbackMessage__struct, test_msgs__msg__Builtins__struct,
     test_msgs__msg__BasicTypes__struct, test_msgs__action__NestedMessage_Goal__struct,
     test_msgs__action__NestedMessage_Result__struct, test_msgs__action__NestedMessage_Feedback__struct,
     test_msgs__action__NestedMessage_SendGoal_Request__struct,
     test_msgs__action__NestedMessage_SendGoal_Response__struct,
     test_msgs__action__NestedMessage_SendGoal_Event__struct,
     test_msgs__action__NestedMessage_GetResult_Request__struct,
     test_msgs__action__NestedMessage_GetResult_Response__struct,
     test_msgs__action__NestedMessage_GetResult_Event__struct,
     test_msgs__action__NestedMessage_FeedbackMessage__struct, test_msgs__msg__Constants__struct,
     test_msgs__msg__Defaults__struct, test_msgs__msg__Arrays__struct,
     test_msgs__msg__BoundedPlainSequences__struct, test_msgs__msg__BoundedSequences__struct,
     test_msgs__msg__KeyedString__struct, test_msgs__msg__NonKeyedWithNestedKey__struct,
     test_msgs__msg__ComplexNestedKey__struct, test_msgs__msg__Empty__struct,
     test_msgs__msg__KeyedLong__struct, test_msgs__msg__UnboundedSequences__struct,
     test_msgs__msg__MultiNested__struct, test_msgs__msg__Nested__struct, test_msgs__msg__Strings__struct,
     test_msgs__msg__WStrings__struct, test_msgs__srv__Arrays_Request__struct,
     test_msgs__srv__Arrays_Response__struct, test_msgs__srv__Arrays_Event__struct,
     test_msgs__srv__BasicTypes_Request__struct, test_msgs__srv__BasicTypes_Response__struct,
     test_msgs__srv__BasicTypes_Event__struct, test_msgs__srv__Empty_Request__struct,
     test_msgs__srv__Empty_Response__struct, test_msgs__srv__Empty_Event__struct]"

text \<open>The descriptions of types, once for the generated code and once as messages.\<close>

definition type_descriptions :: "(mtype \<times> mtype) list" where
  "type_descriptions =
    [(rosidl_runtime_c__type_description__FieldType__struct, type_description_interfaces__msg__FieldType__struct),
     (rosidl_runtime_c__type_description__Field__struct, type_description_interfaces__msg__Field__struct),
     (rosidl_runtime_c__type_description__IndividualTypeDescription__struct, type_description_interfaces__msg__IndividualTypeDescription__struct),
     (rosidl_runtime_c__type_description__KeyValue__struct, type_description_interfaces__msg__KeyValue__struct),
     (rosidl_runtime_c__type_description__TypeDescription__struct, type_description_interfaces__msg__TypeDescription__struct),
     (rosidl_runtime_c__type_description__TypeSource__struct, type_description_interfaces__msg__TypeSource__struct)]"

definition as_message :: "string \<Rightarrow> string" where
  "as_message name =
     ''type_description_interfaces__msg__'' @ drop (length ''rosidl_runtime_c__type_description__'') name"

subsection \<open>How deep interfaces are nested\<close>

lemma nesting_1 [simp]:
  "nesting builtin_interfaces__msg__Duration__struct = 1"
  "nesting builtin_interfaces__msg__Time__struct = 1"
  "nesting unique_identifier_msgs__msg__UUID__struct = 1" "nesting std_msgs__msg__Bool__struct = 1"
  "nesting std_msgs__msg__Byte__struct = 1" "nesting std_msgs__msg__MultiArrayDimension__struct = 1"
  "nesting std_msgs__msg__Char__struct = 1" "nesting std_msgs__msg__ColorRGBA__struct = 1"
  "nesting std_msgs__msg__Empty__struct = 1" "nesting std_msgs__msg__Float32__struct = 1"
  "nesting std_msgs__msg__Float64__struct = 1" "nesting std_msgs__msg__Int16__struct = 1"
  "nesting std_msgs__msg__Int32__struct = 1" "nesting std_msgs__msg__Int64__struct = 1"
  "nesting std_msgs__msg__Int8__struct = 1" "nesting std_msgs__msg__String__struct = 1"
  "nesting std_msgs__msg__UInt16__struct = 1" "nesting std_msgs__msg__UInt32__struct = 1"
  "nesting std_msgs__msg__UInt64__struct = 1" "nesting std_msgs__msg__UInt8__struct = 1"
  "nesting std_srvs__srv__Empty_Request__struct = 1"
  "nesting std_srvs__srv__Empty_Response__struct = 1"
  "nesting std_srvs__srv__SetBool_Request__struct = 1"
  "nesting std_srvs__srv__SetBool_Response__struct = 1"
  "nesting std_srvs__srv__Trigger_Request__struct = 1"
  "nesting std_srvs__srv__Trigger_Response__struct = 1"
  "nesting statistics_msgs__msg__StatisticDataPoint__struct = 1"
  "nesting statistics_msgs__msg__StatisticDataType__struct = 1"
  "nesting micro_ros_msgs__msg__Entity__struct = 1" "nesting lifecycle_msgs__msg__State__struct = 1"
  "nesting lifecycle_msgs__msg__Transition__struct = 1"
  "nesting lifecycle_msgs__srv__ChangeState_Response__struct = 1"
  "nesting lifecycle_msgs__srv__GetAvailableStates_Request__struct = 1"
  "nesting lifecycle_msgs__srv__GetAvailableTransitions_Request__struct = 1"
  "nesting lifecycle_msgs__srv__GetState_Request__struct = 1"
  "nesting rcl_interfaces__msg__FloatingPointRange__struct = 1"
  "nesting rcl_interfaces__msg__IntegerRange__struct = 1"
  "nesting rcl_interfaces__msg__ListParametersResult__struct = 1"
  "nesting rcl_interfaces__msg__LoggerLevel__struct = 1"
  "nesting rcl_interfaces__msg__ParameterValue__struct = 1"
  "nesting rcl_interfaces__msg__ParameterType__struct = 1"
  "nesting rcl_interfaces__msg__SetLoggerLevelsResult__struct = 1"
  "nesting rcl_interfaces__msg__SetParametersResult__struct = 1"
  "nesting rcl_interfaces__srv__DescribeParameters_Request__struct = 1"
  "nesting rcl_interfaces__srv__GetLoggerLevels_Request__struct = 1"
  "nesting rcl_interfaces__srv__GetParameterTypes_Request__struct = 1"
  "nesting rcl_interfaces__srv__GetParameterTypes_Response__struct = 1"
  "nesting rcl_interfaces__srv__GetParameters_Request__struct = 1"
  "nesting rcl_interfaces__srv__ListParameters_Request__struct = 1"
  "nesting composition_interfaces__srv__ListNodes_Request__struct = 1"
  "nesting composition_interfaces__srv__ListNodes_Response__struct = 1"
  "nesting composition_interfaces__srv__LoadNode_Response__struct = 1"
  "nesting composition_interfaces__srv__UnloadNode_Request__struct = 1"
  "nesting composition_interfaces__srv__UnloadNode_Response__struct = 1"
  "nesting rosidl_runtime_c__type_description__FieldType__struct = 1"
  "nesting rosidl_runtime_c__type_description__KeyValue__struct = 1"
  "nesting rosidl_runtime_c__type_description__TypeSource__struct = 1"
  "nesting type_description_interfaces__msg__FieldType__struct = 1"
  "nesting type_description_interfaces__msg__KeyValue__struct = 1"
  "nesting type_description_interfaces__msg__TypeSource__struct = 1"
  "nesting type_description_interfaces__srv__GetTypeDescription_Request__struct = 1"
  "nesting diagnostic_msgs__msg__KeyValue__struct = 1"
  "nesting diagnostic_msgs__srv__AddDiagnostics_Request__struct = 1"
  "nesting diagnostic_msgs__srv__AddDiagnostics_Response__struct = 1"
  "nesting diagnostic_msgs__srv__SelfTest_Request__struct = 1"
  "nesting example_interfaces__action__Fibonacci_Goal__struct = 1"
  "nesting example_interfaces__action__Fibonacci_Result__struct = 1"
  "nesting example_interfaces__action__Fibonacci_Feedback__struct = 1"
  "nesting example_interfaces__msg__Bool__struct = 1"
  "nesting example_interfaces__msg__Byte__struct = 1"
  "nesting example_interfaces__msg__MultiArrayDimension__struct = 1"
  "nesting example_interfaces__msg__Char__struct = 1"
  "nesting example_interfaces__msg__Empty__struct = 1"
  "nesting example_interfaces__msg__Float32__struct = 1"
  "nesting example_interfaces__msg__Float64__struct = 1"
  "nesting example_interfaces__msg__Int16__struct = 1"
  "nesting example_interfaces__msg__Int32__struct = 1"
  "nesting example_interfaces__msg__Int64__struct = 1"
  "nesting example_interfaces__msg__Int8__struct = 1"
  "nesting example_interfaces__msg__String__struct = 1"
  "nesting example_interfaces__msg__UInt16__struct = 1"
  "nesting example_interfaces__msg__UInt32__struct = 1"
  "nesting example_interfaces__msg__UInt64__struct = 1"
  "nesting example_interfaces__msg__UInt8__struct = 1"
  "nesting example_interfaces__msg__WString__struct = 1"
  "nesting example_interfaces__srv__AddTwoInts_Request__struct = 1"
  "nesting example_interfaces__srv__AddTwoInts_Response__struct = 1"
  "nesting example_interfaces__srv__SetBool_Request__struct = 1"
  "nesting example_interfaces__srv__SetBool_Response__struct = 1"
  "nesting example_interfaces__srv__Trigger_Request__struct = 1"
  "nesting example_interfaces__srv__Trigger_Response__struct = 1"
  "nesting geometry_msgs__msg__Vector3__struct = 1" "nesting geometry_msgs__msg__Point32__struct = 1"
  "nesting geometry_msgs__msg__Point__struct = 1" "nesting geometry_msgs__msg__Pose2D__struct = 1"
  "nesting geometry_msgs__msg__Quaternion__struct = 1"
  "nesting shape_msgs__msg__MeshTriangle__struct = 1" "nesting shape_msgs__msg__Plane__struct = 1"
  "nesting sensor_msgs__msg__RegionOfInterest__struct = 1"
  "nesting sensor_msgs__msg__ChannelFloat32__struct = 1"
  "nesting sensor_msgs__msg__JoyFeedback__struct = 1" "nesting sensor_msgs__msg__LaserEcho__struct = 1"
  "nesting sensor_msgs__msg__NavSatStatus__struct = 1"
  "nesting sensor_msgs__msg__PointField__struct = 1"
  "nesting sensor_msgs__srv__SetCameraInfo_Response__struct = 1"
  "nesting nav_msgs__srv__GetMap_Request__struct = 1"
  "nesting nav_msgs__srv__LoadMap_Request__struct = 1"
  "nesting nav_msgs__srv__SetMap_Response__struct = 1" "nesting tf2_msgs__msg__TF2Error__struct = 1"
  "nesting tf2_msgs__action__LookupTransform_Feedback__struct = 1"
  "nesting tf2_msgs__srv__FrameGraph_Request__struct = 1"
  "nesting tf2_msgs__srv__FrameGraph_Response__struct = 1"
  "nesting visualization_msgs__msg__MenuEntry__struct = 1"
  "nesting visualization_msgs__msg__UVCoordinate__struct = 1"
  "nesting visualization_msgs__msg__MeshFile__struct = 1"
  "nesting visualization_msgs__srv__GetInteractiveMarkers_Request__struct = 1"
  "nesting control_msgs__msg__JointTolerance__struct = 1"
  "nesting control_msgs__msg__JointComponentTolerance__struct = 1"
  "nesting control_msgs__action__FollowJointTrajectory_Result__struct = 1"
  "nesting control_msgs__msg__GripperCommand__struct = 1"
  "nesting control_msgs__action__GripperCommand_Result__struct = 1"
  "nesting control_msgs__action__GripperCommand_Feedback__struct = 1"
  "nesting control_msgs__action__JointTrajectory_Result__struct = 1"
  "nesting control_msgs__action__JointTrajectory_Feedback__struct = 1"
  "nesting control_msgs__action__PointHead_Result__struct = 1"
  "nesting control_msgs__action__PointHead_Feedback__struct = 1"
  "nesting control_msgs__action__SingleJointPosition_Result__struct = 1"
  "nesting control_msgs__msg__InterfaceValue__struct = 1"
  "nesting control_msgs__srv__QueryCalibrationState_Request__struct = 1"
  "nesting control_msgs__srv__QueryCalibrationState_Response__struct = 1"
  "nesting control_msgs__srv__QueryTrajectoryState_Response__struct = 1"
  "nesting test_msgs__action__Fibonacci_Goal__struct = 1"
  "nesting test_msgs__action__Fibonacci_Result__struct = 1"
  "nesting test_msgs__action__Fibonacci_Feedback__struct = 1"
  "nesting test_msgs__msg__BasicTypes__struct = 1" "nesting test_msgs__msg__Constants__struct = 1"
  "nesting test_msgs__msg__Defaults__struct = 1" "nesting test_msgs__msg__KeyedString__struct = 1"
  "nesting test_msgs__msg__Empty__struct = 1" "nesting test_msgs__msg__KeyedLong__struct = 1"
  "nesting test_msgs__msg__Strings__struct = 1" "nesting test_msgs__msg__WStrings__struct = 1"
  "nesting test_msgs__srv__BasicTypes_Request__struct = 1"
  "nesting test_msgs__srv__BasicTypes_Response__struct = 1"
  "nesting test_msgs__srv__Empty_Request__struct = 1"
  "nesting test_msgs__srv__Empty_Response__struct = 1"
  by (subst struct_defs, simp)+

lemma nesting_2 [simp]:
  "nesting service_msgs__msg__ServiceEventInfo__struct = 2"
  "nesting std_msgs__msg__MultiArrayLayout__struct = 2" "nesting std_msgs__msg__Header__struct = 2"
  "nesting rosgraph_msgs__msg__Clock__struct = 2"
  "nesting statistics_msgs__msg__MetricsMessage__struct = 2"
  "nesting micro_ros_msgs__msg__Node__struct = 2" "nesting action_msgs__msg__GoalInfo__struct = 2"
  "nesting lifecycle_msgs__msg__TransitionDescription__struct = 2"
  "nesting lifecycle_msgs__msg__TransitionEvent__struct = 2"
  "nesting lifecycle_msgs__srv__ChangeState_Request__struct = 2"
  "nesting lifecycle_msgs__srv__GetAvailableStates_Response__struct = 2"
  "nesting lifecycle_msgs__srv__GetState_Response__struct = 2"
  "nesting rcl_interfaces__msg__Log__struct = 2" "nesting rcl_interfaces__msg__Parameter__struct = 2"
  "nesting rcl_interfaces__msg__ParameterDescriptor__struct = 2"
  "nesting rcl_interfaces__srv__GetLoggerLevels_Response__struct = 2"
  "nesting rcl_interfaces__srv__GetParameters_Response__struct = 2"
  "nesting rcl_interfaces__srv__ListParameters_Response__struct = 2"
  "nesting rcl_interfaces__srv__SetLoggerLevels_Request__struct = 2"
  "nesting rcl_interfaces__srv__SetLoggerLevels_Response__struct = 2"
  "nesting rcl_interfaces__srv__SetParameters_Response__struct = 2"
  "nesting rcl_interfaces__srv__SetParametersAtomically_Response__struct = 2"
  "nesting rosidl_runtime_c__type_description__Field__struct = 2"
  "nesting type_description_interfaces__msg__Field__struct = 2"
  "nesting diagnostic_msgs__msg__DiagnosticStatus__struct = 2"
  "nesting example_interfaces__action__Fibonacci_SendGoal_Request__struct = 2"
  "nesting example_interfaces__action__Fibonacci_SendGoal_Response__struct = 2"
  "nesting example_interfaces__action__Fibonacci_GetResult_Request__struct = 2"
  "nesting example_interfaces__action__Fibonacci_GetResult_Response__struct = 2"
  "nesting example_interfaces__action__Fibonacci_FeedbackMessage__struct = 2"
  "nesting example_interfaces__msg__MultiArrayLayout__struct = 2"
  "nesting geometry_msgs__msg__Accel__struct = 2" "nesting geometry_msgs__msg__Inertia__struct = 2"
  "nesting geometry_msgs__msg__Polygon__struct = 2" "nesting geometry_msgs__msg__Pose__struct = 2"
  "nesting geometry_msgs__msg__Transform__struct = 2" "nesting geometry_msgs__msg__Twist__struct = 2"
  "nesting geometry_msgs__msg__Wrench__struct = 2" "nesting shape_msgs__msg__Mesh__struct = 2"
  "nesting sensor_msgs__msg__JoyFeedbackArray__struct = 2"
  "nesting trajectory_msgs__msg__JointTrajectoryPoint__struct = 2"
  "nesting actionlib_msgs__msg__GoalID__struct = 2"
  "nesting tf2_msgs__action__LookupTransform_Goal__struct = 2"
  "nesting tf2_msgs__action__LookupTransform_SendGoal_Response__struct = 2"
  "nesting tf2_msgs__action__LookupTransform_GetResult_Request__struct = 2"
  "nesting tf2_msgs__action__LookupTransform_FeedbackMessage__struct = 2"
  "nesting control_msgs__action__FollowJointTrajectory_SendGoal_Response__struct = 2"
  "nesting control_msgs__action__FollowJointTrajectory_GetResult_Request__struct = 2"
  "nesting control_msgs__action__FollowJointTrajectory_GetResult_Response__struct = 2"
  "nesting control_msgs__action__GripperCommand_Goal__struct = 2"
  "nesting control_msgs__action__GripperCommand_SendGoal_Response__struct = 2"
  "nesting control_msgs__action__GripperCommand_GetResult_Request__struct = 2"
  "nesting control_msgs__action__GripperCommand_GetResult_Response__struct = 2"
  "nesting control_msgs__action__GripperCommand_FeedbackMessage__struct = 2"
  "nesting control_msgs__action__JointTrajectory_SendGoal_Response__struct = 2"
  "nesting control_msgs__action__JointTrajectory_GetResult_Request__struct = 2"
  "nesting control_msgs__action__JointTrajectory_GetResult_Response__struct = 2"
  "nesting control_msgs__action__JointTrajectory_FeedbackMessage__struct = 2"
  "nesting control_msgs__action__PointHead_SendGoal_Response__struct = 2"
  "nesting control_msgs__action__PointHead_GetResult_Request__struct = 2"
  "nesting control_msgs__action__PointHead_GetResult_Response__struct = 2"
  "nesting control_msgs__action__PointHead_FeedbackMessage__struct = 2"
  "nesting control_msgs__action__SingleJointPosition_Goal__struct = 2"
  "nesting control_msgs__action__SingleJointPosition_SendGoal_Response__struct = 2"
  "nesting control_msgs__action__SingleJointPosition_GetResult_Request__struct = 2"
  "nesting control_msgs__action__SingleJointPosition_GetResult_Response__struct = 2"
  "nesting control_msgs__srv__QueryTrajectoryState_Request__struct = 2"
  "nesting test_msgs__action__Fibonacci_SendGoal_Request__struct = 2"
  "nesting test_msgs__action__Fibonacci_SendGoal_Response__struct = 2"
  "nesting test_msgs__action__Fibonacci_GetResult_Request__struct = 2"
  "nesting test_msgs__action__Fibonacci_GetResult_Response__struct = 2"
  "nesting test_msgs__action__Fibonacci_FeedbackMessage__struct = 2"
  "nesting test_msgs__msg__Builtins__struct = 2"
  "nesting test_msgs__action__NestedMessage_SendGoal_Response__struct = 2"
  "nesting test_msgs__action__NestedMessage_GetResult_Request__struct = 2"
  "nesting test_msgs__msg__Arrays__struct = 2"
  "nesting test_msgs__msg__BoundedPlainSequences__struct = 2"
  "nesting test_msgs__msg__BoundedSequences__struct = 2"
  "nesting test_msgs__msg__NonKeyedWithNestedKey__struct = 2"
  "nesting test_msgs__msg__UnboundedSequences__struct = 2" "nesting test_msgs__msg__Nested__struct = 2"
  "nesting test_msgs__srv__Arrays_Request__struct = 2"
  "nesting test_msgs__srv__Arrays_Response__struct = 2"
  by (subst struct_defs, simp)+

lemma nesting_3 [simp]:
  "nesting std_msgs__msg__ByteMultiArray__struct = 3"
  "nesting std_msgs__msg__Float32MultiArray__struct = 3"
  "nesting std_msgs__msg__Float64MultiArray__struct = 3"
  "nesting std_msgs__msg__Int16MultiArray__struct = 3"
  "nesting std_msgs__msg__Int32MultiArray__struct = 3"
  "nesting std_msgs__msg__Int64MultiArray__struct = 3"
  "nesting std_msgs__msg__Int8MultiArray__struct = 3"
  "nesting std_msgs__msg__UInt16MultiArray__struct = 3"
  "nesting std_msgs__msg__UInt32MultiArray__struct = 3"
  "nesting std_msgs__msg__UInt64MultiArray__struct = 3"
  "nesting std_msgs__msg__UInt8MultiArray__struct = 3" "nesting std_srvs__srv__Empty_Event__struct = 3"
  "nesting std_srvs__srv__SetBool_Event__struct = 3" "nesting std_srvs__srv__Trigger_Event__struct = 3"
  "nesting micro_ros_msgs__msg__Graph__struct = 3" "nesting action_msgs__msg__GoalStatus__struct = 3"
  "nesting action_msgs__srv__CancelGoal_Request__struct = 3"
  "nesting action_msgs__srv__CancelGoal_Response__struct = 3"
  "nesting lifecycle_msgs__srv__ChangeState_Event__struct = 3"
  "nesting lifecycle_msgs__srv__GetAvailableStates_Event__struct = 3"
  "nesting lifecycle_msgs__srv__GetAvailableTransitions_Response__struct = 3"
  "nesting lifecycle_msgs__srv__GetState_Event__struct = 3"
  "nesting rcl_interfaces__msg__ParameterEvent__struct = 3"
  "nesting rcl_interfaces__msg__ParameterEventDescriptors__struct = 3"
  "nesting rcl_interfaces__srv__DescribeParameters_Response__struct = 3"
  "nesting rcl_interfaces__srv__GetLoggerLevels_Event__struct = 3"
  "nesting rcl_interfaces__srv__GetParameterTypes_Event__struct = 3"
  "nesting rcl_interfaces__srv__GetParameters_Event__struct = 3"
  "nesting rcl_interfaces__srv__ListParameters_Event__struct = 3"
  "nesting rcl_interfaces__srv__SetLoggerLevels_Event__struct = 3"
  "nesting rcl_interfaces__srv__SetParameters_Request__struct = 3"
  "nesting rcl_interfaces__srv__SetParametersAtomically_Request__struct = 3"
  "nesting composition_interfaces__srv__ListNodes_Event__struct = 3"
  "nesting composition_interfaces__srv__LoadNode_Request__struct = 3"
  "nesting composition_interfaces__srv__UnloadNode_Event__struct = 3"
  "nesting rosidl_runtime_c__type_description__IndividualTypeDescription__struct = 3"
  "nesting type_description_interfaces__msg__IndividualTypeDescription__struct = 3"
  "nesting diagnostic_msgs__msg__DiagnosticArray__struct = 3"
  "nesting diagnostic_msgs__srv__AddDiagnostics_Event__struct = 3"
  "nesting diagnostic_msgs__srv__SelfTest_Response__struct = 3"
  "nesting example_interfaces__action__Fibonacci_SendGoal_Event__struct = 3"
  "nesting example_interfaces__action__Fibonacci_GetResult_Event__struct = 3"
  "nesting example_interfaces__msg__ByteMultiArray__struct = 3"
  "nesting example_interfaces__msg__Float32MultiArray__struct = 3"
  "nesting example_interfaces__msg__Float64MultiArray__struct = 3"
  "nesting example_interfaces__msg__Int16MultiArray__struct = 3"
  "nesting example_interfaces__msg__Int32MultiArray__struct = 3"
  "nesting example_interfaces__msg__Int64MultiArray__struct = 3"
  "nesting example_interfaces__msg__Int8MultiArray__struct = 3"
  "nesting example_interfaces__msg__UInt16MultiArray__struct = 3"
  "nesting example_interfaces__msg__UInt32MultiArray__struct = 3"
  "nesting example_interfaces__msg__UInt64MultiArray__struct = 3"
  "nesting example_interfaces__msg__UInt8MultiArray__struct = 3"
  "nesting example_interfaces__srv__AddTwoInts_Event__struct = 3"
  "nesting example_interfaces__srv__SetBool_Event__struct = 3"
  "nesting example_interfaces__srv__Trigger_Event__struct = 3"
  "nesting geometry_msgs__msg__AccelStamped__struct = 3"
  "nesting geometry_msgs__msg__AccelWithCovariance__struct = 3"
  "nesting geometry_msgs__msg__InertiaStamped__struct = 3"
  "nesting geometry_msgs__msg__PointStamped__struct = 3"
  "nesting geometry_msgs__msg__PolygonInstance__struct = 3"
  "nesting geometry_msgs__msg__PolygonStamped__struct = 3"
  "nesting geometry_msgs__msg__PoseArray__struct = 3"
  "nesting geometry_msgs__msg__PoseStamped__struct = 3"
  "nesting geometry_msgs__msg__PoseWithCovariance__struct = 3"
  "nesting geometry_msgs__msg__QuaternionStamped__struct = 3"
  "nesting geometry_msgs__msg__TransformStamped__struct = 3"
  "nesting geometry_msgs__msg__TwistStamped__struct = 3"
  "nesting geometry_msgs__msg__TwistWithCovariance__struct = 3"
  "nesting geometry_msgs__msg__Vector3Stamped__struct = 3"
  "nesting geometry_msgs__msg__VelocityStamped__struct = 3"
  "nesting geometry_msgs__msg__WrenchStamped__struct = 3"
  "nesting shape_msgs__msg__SolidPrimitive__struct = 3"
  "nesting sensor_msgs__msg__BatteryState__struct = 3"
  "nesting sensor_msgs__msg__CameraInfo__struct = 3"
  "nesting sensor_msgs__msg__CompressedImage__struct = 3"
  "nesting sensor_msgs__msg__FluidPressure__struct = 3"
  "nesting sensor_msgs__msg__Illuminance__struct = 3" "nesting sensor_msgs__msg__Image__struct = 3"
  "nesting sensor_msgs__msg__Imu__struct = 3" "nesting sensor_msgs__msg__JointState__struct = 3"
  "nesting sensor_msgs__msg__Joy__struct = 3" "nesting sensor_msgs__msg__LaserScan__struct = 3"
  "nesting sensor_msgs__msg__MagneticField__struct = 3"
  "nesting sensor_msgs__msg__MultiDOFJointState__struct = 3"
  "nesting sensor_msgs__msg__MultiEchoLaserScan__struct = 3"
  "nesting sensor_msgs__msg__NavSatFix__struct = 3" "nesting sensor_msgs__msg__PointCloud2__struct = 3"
  "nesting sensor_msgs__msg__PointCloud__struct = 3" "nesting sensor_msgs__msg__Range__struct = 3"
  "nesting sensor_msgs__msg__RelativeHumidity__struct = 3"
  "nesting sensor_msgs__msg__Temperature__struct = 3"
  "nesting sensor_msgs__msg__TimeReference__struct = 3" "nesting nav_msgs__msg__GridCells__struct = 3"
  "nesting nav_msgs__msg__MapMetaData__struct = 3"
  "nesting trajectory_msgs__msg__JointTrajectory__struct = 3"
  "nesting trajectory_msgs__msg__MultiDOFJointTrajectoryPoint__struct = 3"
  "nesting actionlib_msgs__msg__GoalStatus__struct = 3"
  "nesting tf2_msgs__action__LookupTransform_SendGoal_Request__struct = 3"
  "nesting tf2_msgs__srv__FrameGraph_Event__struct = 3"
  "nesting visualization_msgs__msg__ImageMarker__struct = 3"
  "nesting visualization_msgs__msg__InteractiveMarkerFeedback__struct = 3"
  "nesting visualization_msgs__msg__InteractiveMarkerPose__struct = 3"
  "nesting control_msgs__action__FollowJointTrajectory_GetResult_Event__struct = 3"
  "nesting control_msgs__action__GripperCommand_SendGoal_Request__struct = 3"
  "nesting control_msgs__action__GripperCommand_GetResult_Event__struct = 3"
  "nesting control_msgs__action__JointTrajectory_GetResult_Event__struct = 3"
  "nesting control_msgs__action__PointHead_GetResult_Event__struct = 3"
  "nesting control_msgs__action__SingleJointPosition_Feedback__struct = 3"
  "nesting control_msgs__action__SingleJointPosition_SendGoal_Request__struct = 3"
  "nesting control_msgs__action__SingleJointPosition_GetResult_Event__struct = 3"
  "nesting control_msgs__msg__DynamicJointState__struct = 3"
  "nesting control_msgs__msg__JointControllerState__struct = 3"
  "nesting control_msgs__msg__JointJog__struct = 3"
  "nesting control_msgs__msg__JointTrajectoryControllerState__struct = 3"
  "nesting control_msgs__msg__PidState__struct = 3"
  "nesting control_msgs__srv__QueryCalibrationState_Event__struct = 3"
  "nesting control_msgs__srv__QueryTrajectoryState_Event__struct = 3"
  "nesting test_msgs__action__Fibonacci_SendGoal_Event__struct = 3"
  "nesting test_msgs__action__Fibonacci_GetResult_Event__struct = 3"
  "nesting test_msgs__action__NestedMessage_Goal__struct = 3"
  "nesting test_msgs__action__NestedMessage_Result__struct = 3"
  "nesting test_msgs__action__NestedMessage_Feedback__struct = 3"
  "nesting test_msgs__msg__ComplexNestedKey__struct = 3"
  "nesting test_msgs__msg__MultiNested__struct = 3" "nesting test_msgs__srv__Arrays_Event__struct = 3"
  "nesting test_msgs__srv__BasicTypes_Event__struct = 3"
  "nesting test_msgs__srv__Empty_Event__struct = 3"
  by (subst struct_defs, simp)+

lemma nesting_4 [simp]:
  "nesting action_msgs__msg__GoalStatusArray__struct = 4"
  "nesting action_msgs__srv__CancelGoal_Event__struct = 4"
  "nesting lifecycle_msgs__srv__GetAvailableTransitions_Event__struct = 4"
  "nesting rcl_interfaces__srv__DescribeParameters_Event__struct = 4"
  "nesting rcl_interfaces__srv__SetParameters_Event__struct = 4"
  "nesting rcl_interfaces__srv__SetParametersAtomically_Event__struct = 4"
  "nesting composition_interfaces__srv__LoadNode_Event__struct = 4"
  "nesting rosidl_runtime_c__type_description__TypeDescription__struct = 4"
  "nesting type_description_interfaces__msg__TypeDescription__struct = 4"
  "nesting diagnostic_msgs__srv__SelfTest_Event__struct = 4"
  "nesting geometry_msgs__msg__AccelWithCovarianceStamped__struct = 4"
  "nesting geometry_msgs__msg__PolygonInstanceStamped__struct = 4"
  "nesting geometry_msgs__msg__PoseWithCovarianceStamped__struct = 4"
  "nesting geometry_msgs__msg__TwistWithCovarianceStamped__struct = 4"
  "nesting sensor_msgs__srv__SetCameraInfo_Request__struct = 4"
  "nesting nav_msgs__msg__Goals__struct = 4" "nesting nav_msgs__msg__OccupancyGrid__struct = 4"
  "nesting nav_msgs__msg__Odometry__struct = 4" "nesting nav_msgs__msg__Path__struct = 4"
  "nesting nav_msgs__srv__GetPlan_Request__struct = 4"
  "nesting stereo_msgs__msg__DisparityImage__struct = 4"
  "nesting trajectory_msgs__msg__MultiDOFJointTrajectory__struct = 4"
  "nesting actionlib_msgs__msg__GoalStatusArray__struct = 4"
  "nesting tf2_msgs__action__LookupTransform_Result__struct = 4"
  "nesting tf2_msgs__action__LookupTransform_SendGoal_Event__struct = 4"
  "nesting tf2_msgs__msg__TFMessage__struct = 4" "nesting visualization_msgs__msg__Marker__struct = 4"
  "nesting control_msgs__action__FollowJointTrajectory_Feedback__struct = 4"
  "nesting control_msgs__action__GripperCommand_SendGoal_Event__struct = 4"
  "nesting control_msgs__action__JointTrajectory_Goal__struct = 4"
  "nesting control_msgs__action__PointHead_Goal__struct = 4"
  "nesting control_msgs__action__SingleJointPosition_SendGoal_Event__struct = 4"
  "nesting control_msgs__action__SingleJointPosition_FeedbackMessage__struct = 4"
  "nesting test_msgs__action__NestedMessage_SendGoal_Request__struct = 4"
  "nesting test_msgs__action__NestedMessage_GetResult_Response__struct = 4"
  "nesting test_msgs__action__NestedMessage_FeedbackMessage__struct = 4"
  by (subst struct_defs, simp)+

lemma nesting_5 [simp]:
  "nesting type_description_interfaces__srv__GetTypeDescription_Response__struct = 5"
  "nesting sensor_msgs__srv__SetCameraInfo_Event__struct = 5"
  "nesting nav_msgs__srv__GetMap_Response__struct = 5"
  "nesting nav_msgs__srv__GetPlan_Response__struct = 5"
  "nesting nav_msgs__srv__LoadMap_Response__struct = 5"
  "nesting nav_msgs__srv__SetMap_Request__struct = 5"
  "nesting tf2_msgs__action__LookupTransform_GetResult_Response__struct = 5"
  "nesting visualization_msgs__msg__InteractiveMarkerControl__struct = 5"
  "nesting visualization_msgs__msg__MarkerArray__struct = 5"
  "nesting control_msgs__action__FollowJointTrajectory_Goal__struct = 5"
  "nesting control_msgs__action__FollowJointTrajectory_FeedbackMessage__struct = 5"
  "nesting control_msgs__action__JointTrajectory_SendGoal_Request__struct = 5"
  "nesting control_msgs__action__PointHead_SendGoal_Request__struct = 5"
  "nesting test_msgs__action__NestedMessage_SendGoal_Event__struct = 5"
  "nesting test_msgs__action__NestedMessage_GetResult_Event__struct = 5"
  by (subst struct_defs, simp)+

lemma nesting_6 [simp]:
  "nesting type_description_interfaces__srv__GetTypeDescription_Event__struct = 6"
  "nesting nav_msgs__srv__GetMap_Event__struct = 6" "nesting nav_msgs__srv__GetPlan_Event__struct = 6"
  "nesting nav_msgs__srv__LoadMap_Event__struct = 6" "nesting nav_msgs__srv__SetMap_Event__struct = 6"
  "nesting tf2_msgs__action__LookupTransform_GetResult_Event__struct = 6"
  "nesting visualization_msgs__msg__InteractiveMarker__struct = 6"
  "nesting control_msgs__action__FollowJointTrajectory_SendGoal_Request__struct = 6"
  "nesting control_msgs__action__JointTrajectory_SendGoal_Event__struct = 6"
  "nesting control_msgs__action__PointHead_SendGoal_Event__struct = 6"
  by (subst struct_defs, simp)+

lemma nesting_7 [simp]:
  "nesting visualization_msgs__msg__InteractiveMarkerInit__struct = 7"
  "nesting visualization_msgs__msg__InteractiveMarkerUpdate__struct = 7"
  "nesting visualization_msgs__srv__GetInteractiveMarkers_Response__struct = 7"
  "nesting control_msgs__action__FollowJointTrajectory_SendGoal_Event__struct = 7"
  by (subst struct_defs, simp)+

lemma nesting_8 [simp]:
  "nesting visualization_msgs__srv__GetInteractiveMarkers_Event__struct = 8"
  by (subst struct_defs, simp)+

subsection \<open>The messages of the sketches\<close>

text \<open>The interfaces behind the name a sketch gives to the type support macro.\<close>

definition interfaces_of :: "string \<Rightarrow> mtype list" where
  "interfaces_of type =
     (if type = ''std_msgs_msg_Int32'' then [std_msgs__msg__Int32__struct]
      else if type = ''std_msgs_msg_Float32'' then [std_msgs__msg__Float32__struct]
      else if type = ''std_msgs_msg_String'' then [std_msgs__msg__String__struct]
      else if type = ''geometry_msgs_msg_Twist'' then [geometry_msgs__msg__Twist__struct]
      else if type = ''example_interfaces_srv_AddTwoInts''
      then [example_interfaces__srv__AddTwoInts_Request__struct, example_interfaces__srv__AddTwoInts_Response__struct]
      else if type = ''tf2_msgs_msg_TFMessage'' then [tf2_msgs__msg__TFMessage__struct]
      else if type = ''control_msgs_msg_JointJog'' then [control_msgs__msg__JointJog__struct]
      else [])"

fun sends_or_takes :: "'m call \<Rightarrow> mtype list" where
  "sends_or_takes (Publisher_init_default type topic) = interfaces_of type"
| "sends_or_takes (Publisher_init_best_effort type topic) = interfaces_of type"
| "sends_or_takes (Subscription_init_default type topic) = interfaces_of type"
| "sends_or_takes (Service_init_default type topic) = interfaces_of type"
| "sends_or_takes _ = []"

text \<open>The interfaces of a list of calls that own memory.\<close>

definition memory_of :: "'m call list \<Rightarrow> string list" where
  "memory_of cs = map interface_name (filter owns_memory (concat (map sends_or_takes cs)))"

lemma memory_of_simps [simp]:
  "memory_of [] = []"
  "memory_of (c # cs) = map interface_name (filter owns_memory (sends_or_takes c)) @ memory_of cs"
  "memory_of (cs @ ds) = memory_of cs @ memory_of ds"
  by (simp_all add: memory_of_def)

lemma claimless_sends_nothing: "claims c = [] \<Longrightarrow> sends_or_takes c = []"
  by (cases c) simp_all

lemma claimless_memory: "claimless cs \<Longrightarrow> memory_of cs = []"
  by (induction cs) (simp_all add: claimless_sends_nothing)

lemma memory_of_take: "memory_of cs = [] \<Longrightarrow> memory_of (take k cs) = []"
  by (induction cs arbitrary: k) (auto simp: take_Cons split: nat.splits)

lemma checked_memory:
  assumes "frugal on_error" "frugal rest" "claimless (map fst (calls s))" "memory_of cs = []"
  shows "memory_of (calls_made (checked on_error lib cs rest s)) = []"
  by (rule checked_calls_made [OF assms(1,2), of lib cs s]) (simp add: claimless_memory assms(3,4) memory_of_take)

context checked_setup begin

lemma setup_memory:
  assumes "frugal (forever idle n)" "\<And>s. calls (finish s) = calls s"
    and "claimless (map fst (calls (prepare s)))" "memory_of plan = []"
  shows "memory_of (calls_made (start_up n s)) = []"
  unfolding start_up by (rule checked_memory [OF assms(1) frugal_same assms(3,4)]) (simp add: assms(2))

end

context pool_user begin

lemma life_memory:
  assumes "set ts \<subseteq> turns" "memory_of (calls_made (start_up s)) = []"
  shows "memory_of (calls_made (life ts (start_up s))) = []"
  using life_calls [OF assms(1), of "start_up s"] assms(2) by (auto simp: calls_made_def claimless_memory)

end

lemma numbers_need_no_memory:
  "owns_memory std_msgs__msg__Int32__struct \<longleftrightarrow> False" "owns_memory std_msgs__msg__Float32__struct \<longleftrightarrow> False"
  "owns_memory geometry_msgs__msg__Twist__struct \<longleftrightarrow> False"
  "owns_memory example_interfaces__srv__AddTwoInts_Request__struct \<longleftrightarrow> False"
  "owns_memory example_interfaces__srv__AddTwoInts_Response__struct \<longleftrightarrow> False"
  by (simp_all add: struct_defs)

lemmas plan_memory_simps = interfaces_of_def numbers_need_no_memory

subsection \<open>Properties\<close>


text \<open>The library can describe types to other programs: its descriptions and the messages that carry them have the
  same members in the same order, at every level of nesting.\<close>

theorem type_descriptions_agree:
  "map (renamed as_message \<circ> fst) type_descriptions = map snd type_descriptions"
  by (simp add: type_descriptions_def as_message_def struct_defs)

text \<open>Messages are shallow: no function that visits a message recursively, through its sequences too, goes deeper
  than eight interfaces, and one interface goes that deep.\<close>

theorem interfaces_shallow:
  "list_all (\<lambda>m. nesting m \<le> 8) declared_interfaces \<and>
   map interface_name (filter (\<lambda>m. nesting m = 8) declared_interfaces) = [''visualization_msgs__srv__GetInteractiveMarkers_Event'']"
proof
  show "list_all (\<lambda>m. nesting m \<le> 8) declared_interfaces"
    by (simp add: declared_interfaces_def)
  have "filter (\<lambda>m. nesting m = 8) declared_interfaces = [visualization_msgs__srv__GetInteractiveMarkers_Event__struct]"
    by (simp add: declared_interfaces_def)
  then show "map interface_name (filter (\<lambda>m. nesting m = 8) declared_interfaces) = [''visualization_msgs__srv__GetInteractiveMarkers_Event'']"
    by (simp add: struct_defs)
qed

text \<open>C22. The sketches that provide no memory for their messages send and take none that needs any: whatever the library
  answers, in their set-ups and after any number of turns the publishers, the subscribers, the service and the
  sound meter have only created entities for messages that are complete in their structs. The messages of the three
  sketches that have memory to arrange, a string, transforms and a jog command, do need it.\<close>

theorem plain_sketches_need_no_memory:
  "memory_of (calls_made (life (replicate k (Finished \<circ> publisher_loop ard lib)) (publisher_setup ard lib n (s\<lparr>calls := []\<rparr>)))) = [] \<and>
   memory_of (calls_made (life (replicate k (Finished \<circ> publisher_wifi_loop lib)) (publisher_wifi_init ard led lib n (s\<lparr>calls := []\<rparr>)))) = [] \<and>
   memory_of (calls_made (life (replicate k (Finished \<circ> publisher_wifi_at_loop lib)) (publisher_wifi_at_init ard lib n (s\<lparr>calls := []\<rparr>)))) = [] \<and>
   memory_of (calls_made (life (replicate k (Finished \<circ> publisher_ethernet_loop ard lib)) (publisher_ethernet_init ard lib n (s\<lparr>calls := []\<rparr>)))) = [] \<and>
   memory_of (calls_made (life (replicate k (subscriber_loop ard lib j)) (subscriber_setup ard lib n (b\<lparr>calls := []\<rparr>)))) = [] \<and>
   memory_of (calls_made (life (replicate k (subscriber_twist_loop ard twlib j)) (subscriber_twist_setup ard twlib n (tw\<lparr>calls := []\<rparr>)))) = [] \<and>
   memory_of (calls_made (life (replicate k (Finished \<circ> service_loop ard slib)) (service_setup ard slib n (a\<lparr>calls := []\<rparr>)))) = [] \<and>
   memory_of (calls_made (life (map (\<lambda>irq. if irq then sound_interrupt mic else Finished \<circ> sound_step ard mlib) irqs)
     (sound_setup ard mic mlib n (m\<lparr>calls := []\<rparr>)))) = [] \<and>
   list_all (\<lambda>type. list_all owns_memory (interfaces_of type) \<and> interfaces_of type \<noteq> [])
     [''std_msgs_msg_String'', ''tf2_msgs_msg_TFMessage'', ''control_msgs_msg_JointJog'']"
proof (intro conjI)
  show "memory_of (calls_made (life (replicate k (Finished \<circ> publisher_loop ard lib)) (publisher_setup ard lib n (s\<lparr>calls := []\<rparr>)))) = []"
    by (intro publisher_pools.life_memory publisher.setup_memory blink_frugal led_prepare_calls)
      (auto simp: set_replicate_conv_if publisher_plan_def plan_memory_simps)
  show "memory_of (calls_made (life (replicate k (Finished \<circ> publisher_wifi_loop lib)) (publisher_wifi_init ard led lib n (s\<lparr>calls := []\<rparr>)))) = []"
    by (intro wifi_pools.life_memory wifi.setup_memory blink_frugal led_prepare_calls)
      (auto simp: set_replicate_conv_if best_effort_plan_def plan_memory_simps)
  show "memory_of (calls_made (life (replicate k (Finished \<circ> publisher_wifi_at_loop lib)) (publisher_wifi_at_init ard lib n (s\<lparr>calls := []\<rparr>)))) = []"
    by (intro wifi_at_pools.life_memory wifi_at.setup_memory blink_frugal led_prepare_calls)
      (auto simp: set_replicate_conv_if best_effort_plan_def plan_memory_simps)
  show "memory_of (calls_made (life (replicate k (Finished \<circ> publisher_ethernet_loop ard lib)) (publisher_ethernet_init ard lib n (s\<lparr>calls := []\<rparr>)))) = []"
    by (intro ethernet_pools.life_memory ethernet.setup_memory blink_frugal led_prepare_calls)
      (auto simp: set_replicate_conv_if best_effort_plan_def plan_memory_simps)
  show "memory_of (calls_made (life (replicate k (subscriber_loop ard lib j)) (subscriber_setup ard lib n (b\<lparr>calls := []\<rparr>)))) = []"
    by (intro subscriber_pools.life_memory subscriber.setup_memory blink_frugal led_prepare_calls)
      (auto simp: set_replicate_conv_if subscriber_plan_def plan_memory_simps)
  show "memory_of (calls_made (life (replicate k (subscriber_twist_loop ard twlib j)) (subscriber_twist_setup ard twlib n (tw\<lparr>calls := []\<rparr>)))) = []"
    by (intro twist_pools.life_memory twist.setup_memory blink_frugal led_prepare_calls)
      (auto simp: set_replicate_conv_if subscriber_plan_def plan_memory_simps)
  show "memory_of (calls_made (life (replicate k (Finished \<circ> service_loop ard slib)) (service_setup ard slib n (a\<lparr>calls := []\<rparr>)))) = []"
    by (intro service_pools.life_memory service.setup_memory idle_frugal)
      (auto simp: set_replicate_conv_if service_plan_def plan_memory_simps)
  show "memory_of (calls_made (life (map (\<lambda>irq. if irq then sound_interrupt mic else Finished \<circ> sound_step ard mlib) irqs)
     (sound_setup ard mic mlib n (m\<lparr>calls := []\<rparr>)))) = []"
  proof (rule sound_pools.life_memory)
    show "memory_of (calls_made (sound_setup ard mic mlib n (m\<lparr>calls := []\<rparr>))) = []"
      unfolding sound_setup_plan
      by (rule checked_memory [OF error_loop_frugal sound_rest_frugal]) (simp_all add: plan_memory_simps)
  qed auto
qed (simp add: interfaces_of_def struct_defs)

end
