(* ===== verification/Test_Messages.thy ===== *)
theory Test_Messages
  imports Message_Structs
begin

text \<open>
  The messages of the package \<^verbatim>\<open>test_msgs\<close> as C++ programs see them: the members are those of the generated
  structs, a sequence is a \<open>std::vector\<close> and an array a \<open>std::array\<close>, both lists. The struct headers give the bounds
  of the sequences and strings that have one. A bounded sequence throws an exception when it would get longer;
  strings are not checked. An \<open>intN_t\<close> is a word like its unsigned counterpart and \<open>float\<close> and \<open>double\<close> are real numbers.
\<close>

subsection \<open>Basic types\<close>

text \<open>The messages \<open>BasicTypes\<close> and \<open>Defaults\<close> have the same members.\<close>

record test_msgs__msg__BasicTypes =
  bool_value :: bool
  byte_value :: u8
  char_value :: u8
  float32_value :: real
  float64_value :: real
  int8_value :: u8
  uint8_value :: u8
  int16_value :: u16
  uint16_value :: u16
  int32_value :: u32
  uint32_value :: u32
  int64_value :: u64
  uint64_value :: u64

type_synonym test_msgs__msg__Defaults = test_msgs__msg__BasicTypes

record test_msgs__msg__Constants =
  constants_structure_needs_at_least_one_member :: u8

record test_msgs__msg__Empty =
  empty_structure_needs_at_least_one_member :: u8

definition signed_max :: "'w :: len word" where
  "signed_max = word_of_int (2 ^ (LENGTH('w) - 1) - 1)"

definition signed_min :: "'w :: len word" where
  "signed_min = word_of_int (- (2 ^ (LENGTH('w) - 1)))"

definition unsigned_max :: "'w :: len word" where
  "unsigned_max = word_of_int (2 ^ LENGTH('w) - 1)"

subsection \<open>Arrays and sequences\<close>

text \<open>The members all messages of arrays or sequences share, and what each kind adds to them. The messages with
  strings differ in the lengths their lists may have: three in an array, at most the bound in a bounded sequence.\<close>

record test_values =
  bool_values :: "bool list"
  byte_values :: "u8 list"
  char_values :: "u8 list"
  float32_values :: "real list"
  float64_values :: "real list"
  int8_values :: "u8 list"
  uint8_values :: "u8 list"
  int16_values :: "u16 list"
  uint16_values :: "u16 list"
  int32_values :: "u32 list"
  uint32_values :: "u32 list"
  int64_values :: "u64 list"
  uint64_values :: "u64 list"
  basic_types_values :: "test_msgs__msg__BasicTypes list"
  constants_values :: "test_msgs__msg__Constants list"
  defaults_values :: "test_msgs__msg__Defaults list"
  bool_values_default :: "bool list"
  byte_values_default :: "u8 list"
  char_values_default :: "u8 list"
  float32_values_default :: "real list"
  float64_values_default :: "real list"
  int8_values_default :: "u8 list"
  uint8_values_default :: "u8 list"
  int16_values_default :: "u16 list"
  uint16_values_default :: "u16 list"
  int32_values_default :: "u32 list"
  uint32_values_default :: "u32 list"
  int64_values_default :: "u64 list"
  uint64_values_default :: "u64 list"

record test_msgs__msg__BoundedPlainSequences = test_values +
  plain_alignment_check :: u32

record test_string_values = test_values +
  string_values :: "string list"
  string_values_default :: "string list"

record test_sequences = test_string_values +
  alignment_check :: u32

type_synonym test_msgs__msg__Arrays = test_sequences
type_synonym test_msgs__msg__UnboundedSequences = test_sequences
type_synonym test_msgs__msg__BoundedSequences = test_sequences

record test_msgs__msg__MultiNested =
  array_of_arrays :: "test_msgs__msg__Arrays list"
  array_of_bounded_sequences :: "test_msgs__msg__BoundedSequences list"
  array_of_unbounded_sequences :: "test_msgs__msg__UnboundedSequences list"
  bounded_sequence_of_arrays :: "test_msgs__msg__Arrays list"
  bounded_sequence_of_bounded_sequences :: "test_msgs__msg__BoundedSequences list"
  bounded_sequence_of_unbounded_sequences :: "test_msgs__msg__UnboundedSequences list"
  unbounded_sequence_of_arrays :: "test_msgs__msg__Arrays list"
  unbounded_sequence_of_bounded_sequences :: "test_msgs__msg__BoundedSequences list"
  unbounded_sequence_of_unbounded_sequences :: "test_msgs__msg__UnboundedSequences list"

text \<open>The bounds, by member.\<close>

definition test_msgs__msg__BoundedSequences__MAX_SIZE :: "(string \<times> nat) list" where
  "test_msgs__msg__BoundedSequences__MAX_SIZE =
    [(''bool_values'', 3), (''byte_values'', 3), (''char_values'', 3), (''float32_values'', 3),
     (''float64_values'', 3), (''int8_values'', 3), (''uint8_values'', 3), (''int16_values'', 3),
     (''uint16_values'', 3), (''int32_values'', 3), (''uint32_values'', 3), (''int64_values'', 3),
     (''uint64_values'', 3), (''string_values'', 3), (''basic_types_values'', 3), (''constants_values'', 3),
     (''defaults_values'', 3), (''bool_values_default'', 3), (''byte_values_default'', 3),
     (''char_values_default'', 3), (''float32_values_default'', 3), (''float64_values_default'', 3),
     (''int8_values_default'', 3), (''uint8_values_default'', 3), (''int16_values_default'', 3),
     (''uint16_values_default'', 3), (''int32_values_default'', 3), (''uint32_values_default'', 3),
     (''int64_values_default'', 3), (''uint64_values_default'', 3), (''string_values_default'', 3)]"

definition test_msgs__msg__BoundedPlainSequences__MAX_SIZE :: "(string \<times> nat) list" where
  "test_msgs__msg__BoundedPlainSequences__MAX_SIZE =
    [(''bool_values'', 3), (''byte_values'', 3), (''char_values'', 3), (''float32_values'', 3),
     (''float64_values'', 3), (''int8_values'', 3), (''uint8_values'', 3), (''int16_values'', 3),
     (''uint16_values'', 3), (''int32_values'', 3), (''uint32_values'', 3), (''int64_values'', 3),
     (''uint64_values'', 3), (''basic_types_values'', 3), (''constants_values'', 3),
     (''defaults_values'', 3), (''bool_values_default'', 3), (''byte_values_default'', 3),
     (''char_values_default'', 3), (''float32_values_default'', 3), (''float64_values_default'', 3),
     (''int8_values_default'', 3), (''uint8_values_default'', 3), (''int16_values_default'', 3),
     (''uint16_values_default'', 3), (''int32_values_default'', 3), (''uint32_values_default'', 3),
     (''int64_values_default'', 3), (''uint64_values_default'', 3)]"

definition test_msgs__msg__MultiNested__MAX_SIZE :: "(string \<times> nat) list" where
  "test_msgs__msg__MultiNested__MAX_SIZE =
    [(''bounded_sequence_of_arrays'', 3), (''bounded_sequence_of_bounded_sequences'', 3),
     (''bounded_sequence_of_unbounded_sequences'', 3)]"

subsection \<open>Strings and other messages\<close>

record test_msgs__msg__Strings =
  string_value :: string
  string_value_default1 :: string
  string_value_default2 :: string
  string_value_default3 :: string
  string_value_default4 :: string
  string_value_default5 :: string
  bounded_string_value :: string
  bounded_string_value_default1 :: string
  bounded_string_value_default2 :: string
  bounded_string_value_default3 :: string
  bounded_string_value_default4 :: string
  bounded_string_value_default5 :: string

definition test_msgs__msg__Strings__MAX_STRING_SIZE :: "(string \<times> nat) list" where
  "test_msgs__msg__Strings__MAX_STRING_SIZE =
    [(''bounded_string_value'', 22), (''bounded_string_value_default1'', 22), (''bounded_string_value_default2'', 22),
     (''bounded_string_value_default3'', 22), (''bounded_string_value_default4'', 22),
     (''bounded_string_value_default5'', 22)]"

text \<open>A wide string is its 16-bit code units.\<close>

type_synonym u16string = "u16 list"

record test_msgs__msg__WStrings =
  wstring_value :: u16string
  wstring_value_default1 :: u16string
  wstring_value_default2 :: u16string
  wstring_value_default3 :: u16string
  array_of_wstrings :: "u16string list"
  bounded_sequence_of_wstrings :: "u16string list"
  unbounded_sequence_of_wstrings :: "u16string list"

definition test_msgs__msg__WStrings__bounded_sequence_of_wstrings__MAX_SIZE :: nat where
  "test_msgs__msg__WStrings__bounded_sequence_of_wstrings__MAX_SIZE = 3"

record test_msgs__msg__Nested =
  basic_types_value :: test_msgs__msg__BasicTypes

record builtin_interfaces__msg__Duration =
  duration_sec :: u32
  duration_nanosec :: u32

record test_msgs__msg__Builtins =
  duration_value :: builtin_interfaces__msg__Duration
  time_value :: builtin_interfaces__msg__Time

record test_msgs__msg__KeyedLong =
  long_key :: u32
  long_value :: u32

record test_msgs__msg__KeyedString =
  string_key :: string
  keyed_value :: string

record test_msgs__msg__NonKeyedWithNestedKey =
  nested_data :: test_msgs__msg__KeyedString
  some_int :: u32

record test_msgs__msg__ComplexNestedKey =
  uint32_key :: u32
  nested_keys :: test_msgs__msg__NonKeyedWithNestedKey
  nested_float64_value :: real

record test_msgs__srv__Empty_Request =
  request_structure_needs_at_least_one_member :: u8

record test_msgs__srv__Empty_Response =
  response_structure_needs_at_least_one_member :: u8

record test_msgs__srv__BasicTypes_Request = test_msgs__msg__BasicTypes +
  request_string_value :: string

record test_msgs__srv__BasicTypes_Response = test_msgs__msg__BasicTypes +
  response_string_value :: string

type_synonym test_msgs__srv__Arrays_Request = test_string_values
type_synonym test_msgs__srv__Arrays_Response = test_string_values

subsection \<open>Vectors\<close>

text \<open>Writing by index, for indices within the length; a resized vector keeps its items and gets default ones. A
  bounded sequence is assigned or resized within its bound, or throws (\<open>None\<close>).\<close>

definition resize :: "nat \<Rightarrow> 'a \<Rightarrow> 'a list \<Rightarrow> 'a list" where
  "resize n d xs = take n xs @ replicate (n - length xs) d"

definition bounded :: "(string \<times> nat) list \<Rightarrow> string \<Rightarrow> 'a list \<Rightarrow> 'a list option" where
  "bounded sizes member xs =
     (case map_of sizes member of
        None \<Rightarrow> None
      | Some n \<Rightarrow> if length xs \<le> n then Some xs else None)"

text \<open>The loop \<open>for (i = 0; i < n; ++i) xs[i] = f(i)\<close>.\<close>

definition fill :: "nat \<Rightarrow> (nat \<Rightarrow> 'a) \<Rightarrow> 'a list \<Rightarrow> 'a list" where
  "fill n f xs = fold (\<lambda>i ys. ys[i := f i]) [0..<n] xs"

lemma length_resize [simp]: "length (resize n d xs) = n"
  by (simp add: resize_def)

lemma resize_empty [simp]: "resize n d [] = replicate n d"
  by (simp add: resize_def)

lemma fill_eq: "n \<le> length xs \<Longrightarrow> fill n f xs = map f [0..<n] @ drop n xs"
proof (induction n)
  case (Suc n)
  then have "fill (Suc n) f xs = (map f [0..<n] @ drop n xs)[n := f n]" by (simp add: fill_def)
  also have "\<dots> = map f [0..<n] @ (drop n xs)[0 := f n]" by (simp add: list_update_append)
  also have "(drop n xs)[0 := f n] = f n # drop (Suc n) xs"
    using Suc.prems by (simp add: Cons_nth_drop_Suc [symmetric])
  finally show ?case by simp
qed (simp add: fill_def)

lemma fill_all: "length xs = n \<Longrightarrow> fill n f xs = map f [0..<n]"
  by (simp add: fill_eq)

lemma fill_resized [simp]: "fill n f (resize n d xs) = map f [0..<n]"
  by (simp add: fill_all)

text \<open>A field of a record that a loop writes field by field.\<close>

lemma fold_field:
  "(\<And>i m. g (step i m) = h i (g m)) \<Longrightarrow> g (fold step is m) = fold h is (g m)"
  by (induction "is" arbitrary: m) simp_all

subsection \<open>Well-typed messages\<close>

text \<open>A property of the length of every list of a message, by the name of the member.\<close>

definition value_lengths :: "(string \<Rightarrow> nat \<Rightarrow> bool) \<Rightarrow> 'a test_values_scheme \<Rightarrow> bool" where
  "value_lengths P m \<longleftrightarrow>
     P ''bool_values'' (length (bool_values m)) \<and> P ''byte_values'' (length (byte_values m)) \<and>
     P ''char_values'' (length (char_values m)) \<and> P ''float32_values'' (length (float32_values m)) \<and>
     P ''float64_values'' (length (float64_values m)) \<and> P ''int8_values'' (length (int8_values m)) \<and>
     P ''uint8_values'' (length (uint8_values m)) \<and> P ''int16_values'' (length (int16_values m)) \<and>
     P ''uint16_values'' (length (uint16_values m)) \<and> P ''int32_values'' (length (int32_values m)) \<and>
     P ''uint32_values'' (length (uint32_values m)) \<and> P ''int64_values'' (length (int64_values m)) \<and>
     P ''uint64_values'' (length (uint64_values m)) \<and> P ''basic_types_values'' (length (basic_types_values m)) \<and>
     P ''constants_values'' (length (constants_values m)) \<and> P ''defaults_values'' (length (defaults_values m)) \<and>
     P ''bool_values_default'' (length (bool_values_default m)) \<and> P ''byte_values_default'' (length (byte_values_default m)) \<and>
     P ''char_values_default'' (length (char_values_default m)) \<and> P ''float32_values_default'' (length (float32_values_default m)) \<and>
     P ''float64_values_default'' (length (float64_values_default m)) \<and> P ''int8_values_default'' (length (int8_values_default m)) \<and>
     P ''uint8_values_default'' (length (uint8_values_default m)) \<and> P ''int16_values_default'' (length (int16_values_default m)) \<and>
     P ''uint16_values_default'' (length (uint16_values_default m)) \<and> P ''int32_values_default'' (length (int32_values_default m)) \<and>
     P ''uint32_values_default'' (length (uint32_values_default m)) \<and> P ''int64_values_default'' (length (int64_values_default m)) \<and>
     P ''uint64_values_default'' (length (uint64_values_default m))"

definition string_lengths :: "(string \<Rightarrow> nat \<Rightarrow> bool) \<Rightarrow> 'a test_string_values_scheme \<Rightarrow> bool" where
  "string_lengths P m \<longleftrightarrow> value_lengths P m \<and>
     P ''string_values'' (length (string_values m)) \<and> P ''string_values_default'' (length (string_values_default m))"

definition arrays_ok :: "'a test_string_values_scheme \<Rightarrow> bool" where
  "arrays_ok = string_lengths (\<lambda>member n. n = 3)"

definition fits :: "(string \<times> nat) list \<Rightarrow> string \<Rightarrow> nat \<Rightarrow> bool" where
  "fits sizes member n \<longleftrightarrow> (case map_of sizes member of None \<Rightarrow> False | Some b \<Rightarrow> n \<le> b)"

definition bounded_ok :: "test_msgs__msg__BoundedSequences \<Rightarrow> bool" where
  "bounded_ok = string_lengths (fits test_msgs__msg__BoundedSequences__MAX_SIZE)"

definition plain_ok :: "test_msgs__msg__BoundedPlainSequences \<Rightarrow> bool" where
  "plain_ok = value_lengths (fits test_msgs__msg__BoundedPlainSequences__MAX_SIZE)"

definition strings_ok :: "test_msgs__msg__Strings \<Rightarrow> bool" where
  "strings_ok m \<longleftrightarrow> list_all (\<lambda>(member, s). fits test_msgs__msg__Strings__MAX_STRING_SIZE member (length s))
     [(''bounded_string_value'', bounded_string_value m), (''bounded_string_value_default1'', bounded_string_value_default1 m),
      (''bounded_string_value_default2'', bounded_string_value_default2 m),
      (''bounded_string_value_default3'', bounded_string_value_default3 m),
      (''bounded_string_value_default4'', bounded_string_value_default4 m),
      (''bounded_string_value_default5'', bounded_string_value_default5 m)]"

definition wstrings_ok :: "test_msgs__msg__WStrings \<Rightarrow> bool" where
  "wstrings_ok m \<longleftrightarrow> length (array_of_wstrings m) = 3 \<and>
     length (bounded_sequence_of_wstrings m) \<le> test_msgs__msg__WStrings__bounded_sequence_of_wstrings__MAX_SIZE"

definition multi_nested_ok :: "test_msgs__msg__MultiNested \<Rightarrow> bool" where
  "multi_nested_ok m \<longleftrightarrow>
     length (array_of_arrays m) = 3 \<and> length (array_of_bounded_sequences m) = 3 \<and>
     length (array_of_unbounded_sequences m) = 3 \<and>
     fits test_msgs__msg__MultiNested__MAX_SIZE ''bounded_sequence_of_arrays'' (length (bounded_sequence_of_arrays m)) \<and>
     fits test_msgs__msg__MultiNested__MAX_SIZE ''bounded_sequence_of_bounded_sequences''
       (length (bounded_sequence_of_bounded_sequences m)) \<and>
     fits test_msgs__msg__MultiNested__MAX_SIZE ''bounded_sequence_of_unbounded_sequences''
       (length (bounded_sequence_of_unbounded_sequences m)) \<and>
     list_all arrays_ok (array_of_arrays m @ bounded_sequence_of_arrays m @ unbounded_sequence_of_arrays m) \<and>
     list_all bounded_ok (array_of_bounded_sequences m @ bounded_sequence_of_bounded_sequences m @
       unbounded_sequence_of_bounded_sequences m)"

lemma bounded_sizes [simp]:
  "map_of test_msgs__msg__BoundedSequences__MAX_SIZE ''bool_values'' = Some 3"
  "map_of test_msgs__msg__BoundedSequences__MAX_SIZE ''byte_values'' = Some 3"
  "map_of test_msgs__msg__BoundedSequences__MAX_SIZE ''char_values'' = Some 3"
  "map_of test_msgs__msg__BoundedSequences__MAX_SIZE ''float32_values'' = Some 3"
  "map_of test_msgs__msg__BoundedSequences__MAX_SIZE ''float64_values'' = Some 3"
  "map_of test_msgs__msg__BoundedSequences__MAX_SIZE ''int8_values'' = Some 3"
  "map_of test_msgs__msg__BoundedSequences__MAX_SIZE ''uint8_values'' = Some 3"
  "map_of test_msgs__msg__BoundedSequences__MAX_SIZE ''int16_values'' = Some 3"
  "map_of test_msgs__msg__BoundedSequences__MAX_SIZE ''uint16_values'' = Some 3"
  "map_of test_msgs__msg__BoundedSequences__MAX_SIZE ''int32_values'' = Some 3"
  "map_of test_msgs__msg__BoundedSequences__MAX_SIZE ''uint32_values'' = Some 3"
  "map_of test_msgs__msg__BoundedSequences__MAX_SIZE ''int64_values'' = Some 3"
  "map_of test_msgs__msg__BoundedSequences__MAX_SIZE ''uint64_values'' = Some 3"
  "map_of test_msgs__msg__BoundedSequences__MAX_SIZE ''string_values'' = Some 3"
  "map_of test_msgs__msg__BoundedSequences__MAX_SIZE ''basic_types_values'' = Some 3"
  "map_of test_msgs__msg__BoundedSequences__MAX_SIZE ''constants_values'' = Some 3"
  "map_of test_msgs__msg__BoundedSequences__MAX_SIZE ''defaults_values'' = Some 3"
  "map_of test_msgs__msg__BoundedSequences__MAX_SIZE ''bool_values_default'' = Some 3"
  "map_of test_msgs__msg__BoundedSequences__MAX_SIZE ''byte_values_default'' = Some 3"
  "map_of test_msgs__msg__BoundedSequences__MAX_SIZE ''char_values_default'' = Some 3"
  "map_of test_msgs__msg__BoundedSequences__MAX_SIZE ''float32_values_default'' = Some 3"
  "map_of test_msgs__msg__BoundedSequences__MAX_SIZE ''float64_values_default'' = Some 3"
  "map_of test_msgs__msg__BoundedSequences__MAX_SIZE ''int8_values_default'' = Some 3"
  "map_of test_msgs__msg__BoundedSequences__MAX_SIZE ''uint8_values_default'' = Some 3"
  "map_of test_msgs__msg__BoundedSequences__MAX_SIZE ''int16_values_default'' = Some 3"
  "map_of test_msgs__msg__BoundedSequences__MAX_SIZE ''uint16_values_default'' = Some 3"
  "map_of test_msgs__msg__BoundedSequences__MAX_SIZE ''int32_values_default'' = Some 3"
  "map_of test_msgs__msg__BoundedSequences__MAX_SIZE ''uint32_values_default'' = Some 3"
  "map_of test_msgs__msg__BoundedSequences__MAX_SIZE ''int64_values_default'' = Some 3"
  "map_of test_msgs__msg__BoundedSequences__MAX_SIZE ''uint64_values_default'' = Some 3"
  "map_of test_msgs__msg__BoundedSequences__MAX_SIZE ''string_values_default'' = Some 3"
  by (simp_all add: test_msgs__msg__BoundedSequences__MAX_SIZE_def)

lemma plain_sizes [simp]:
  "map_of test_msgs__msg__BoundedPlainSequences__MAX_SIZE ''bool_values'' = Some 3"
  "map_of test_msgs__msg__BoundedPlainSequences__MAX_SIZE ''byte_values'' = Some 3"
  "map_of test_msgs__msg__BoundedPlainSequences__MAX_SIZE ''char_values'' = Some 3"
  "map_of test_msgs__msg__BoundedPlainSequences__MAX_SIZE ''float32_values'' = Some 3"
  "map_of test_msgs__msg__BoundedPlainSequences__MAX_SIZE ''float64_values'' = Some 3"
  "map_of test_msgs__msg__BoundedPlainSequences__MAX_SIZE ''int8_values'' = Some 3"
  "map_of test_msgs__msg__BoundedPlainSequences__MAX_SIZE ''uint8_values'' = Some 3"
  "map_of test_msgs__msg__BoundedPlainSequences__MAX_SIZE ''int16_values'' = Some 3"
  "map_of test_msgs__msg__BoundedPlainSequences__MAX_SIZE ''uint16_values'' = Some 3"
  "map_of test_msgs__msg__BoundedPlainSequences__MAX_SIZE ''int32_values'' = Some 3"
  "map_of test_msgs__msg__BoundedPlainSequences__MAX_SIZE ''uint32_values'' = Some 3"
  "map_of test_msgs__msg__BoundedPlainSequences__MAX_SIZE ''int64_values'' = Some 3"
  "map_of test_msgs__msg__BoundedPlainSequences__MAX_SIZE ''uint64_values'' = Some 3"
  "map_of test_msgs__msg__BoundedPlainSequences__MAX_SIZE ''basic_types_values'' = Some 3"
  "map_of test_msgs__msg__BoundedPlainSequences__MAX_SIZE ''constants_values'' = Some 3"
  "map_of test_msgs__msg__BoundedPlainSequences__MAX_SIZE ''defaults_values'' = Some 3"
  "map_of test_msgs__msg__BoundedPlainSequences__MAX_SIZE ''bool_values_default'' = Some 3"
  "map_of test_msgs__msg__BoundedPlainSequences__MAX_SIZE ''byte_values_default'' = Some 3"
  "map_of test_msgs__msg__BoundedPlainSequences__MAX_SIZE ''char_values_default'' = Some 3"
  "map_of test_msgs__msg__BoundedPlainSequences__MAX_SIZE ''float32_values_default'' = Some 3"
  "map_of test_msgs__msg__BoundedPlainSequences__MAX_SIZE ''float64_values_default'' = Some 3"
  "map_of test_msgs__msg__BoundedPlainSequences__MAX_SIZE ''int8_values_default'' = Some 3"
  "map_of test_msgs__msg__BoundedPlainSequences__MAX_SIZE ''uint8_values_default'' = Some 3"
  "map_of test_msgs__msg__BoundedPlainSequences__MAX_SIZE ''int16_values_default'' = Some 3"
  "map_of test_msgs__msg__BoundedPlainSequences__MAX_SIZE ''uint16_values_default'' = Some 3"
  "map_of test_msgs__msg__BoundedPlainSequences__MAX_SIZE ''int32_values_default'' = Some 3"
  "map_of test_msgs__msg__BoundedPlainSequences__MAX_SIZE ''uint32_values_default'' = Some 3"
  "map_of test_msgs__msg__BoundedPlainSequences__MAX_SIZE ''int64_values_default'' = Some 3"
  "map_of test_msgs__msg__BoundedPlainSequences__MAX_SIZE ''uint64_values_default'' = Some 3"
  by (simp_all add: test_msgs__msg__BoundedPlainSequences__MAX_SIZE_def)

lemma nested_sizes [simp]:
  "map_of test_msgs__msg__MultiNested__MAX_SIZE ''bounded_sequence_of_arrays'' = Some 3"
  "map_of test_msgs__msg__MultiNested__MAX_SIZE ''bounded_sequence_of_bounded_sequences'' = Some 3"
  "map_of test_msgs__msg__MultiNested__MAX_SIZE ''bounded_sequence_of_unbounded_sequences'' = Some 3"
  by (simp_all add: test_msgs__msg__MultiNested__MAX_SIZE_def)

lemma string_sizes [simp]:
  "map_of test_msgs__msg__Strings__MAX_STRING_SIZE ''bounded_string_value'' = Some 22"
  "map_of test_msgs__msg__Strings__MAX_STRING_SIZE ''bounded_string_value_default1'' = Some 22"
  "map_of test_msgs__msg__Strings__MAX_STRING_SIZE ''bounded_string_value_default2'' = Some 22"
  "map_of test_msgs__msg__Strings__MAX_STRING_SIZE ''bounded_string_value_default3'' = Some 22"
  "map_of test_msgs__msg__Strings__MAX_STRING_SIZE ''bounded_string_value_default4'' = Some 22"
  "map_of test_msgs__msg__Strings__MAX_STRING_SIZE ''bounded_string_value_default5'' = Some 22"
  by (simp_all add: test_msgs__msg__Strings__MAX_STRING_SIZE_def)

end
