(* ===== verification/Message_Fixtures.thy ===== *)
theory Message_Fixtures
  imports Test_Messages
begin

text \<open>
  The message fixtures of \<^verbatim>\<open>test_msgs/message_fixtures.hpp\<close>: one function per message type that returns the messages
  a test sends and expects back. Every message starts as \<open>make_shared\<close> constructs it, from the generated C++
  classes, which are not in the repository: that message is the argument \<open>fresh\<close>. The messages are values, as no two
  of the pointers a function returns are the same.
\<close>

subsection \<open>Basic types, strings\<close>

definition get_messages_empty :: "test_msgs__msg__Empty \<Rightarrow> test_msgs__msg__Empty list" where
  "get_messages_empty fresh = [fresh]"

definition get_messages_basic_types :: "test_msgs__msg__BasicTypes \<Rightarrow> test_msgs__msg__BasicTypes list" where
  "get_messages_basic_types fresh =
     [fresh\<lparr>bool_value := False, byte_value := 0, char_value := 0, float32_value := 0, float64_value := 0,
         int8_value := 0, uint8_value := 0, int16_value := 0, uint16_value := 0, int32_value := 0,
         uint32_value := 0, int64_value := 0, uint64_value := 0\<rparr>,
      fresh\<lparr>bool_value := True, byte_value := 255, char_value := 255, float32_value := 1.125,
         float64_value := 1.125, int8_value := signed_max, uint8_value := unsigned_max,
         int16_value := signed_max, uint16_value := unsigned_max, int32_value := signed_max,
         uint32_value := unsigned_max, int64_value := signed_max, uint64_value := unsigned_max\<rparr>,
      fresh\<lparr>bool_value := False, byte_value := 0, char_value := 0, float32_value := - 2.125,
         float64_value := - 2.125, int8_value := signed_min, uint8_value := 0, int16_value := signed_min,
         uint16_value := 0, int32_value := signed_min, uint32_value := 0, int64_value := signed_min,
         uint64_value := 0\<rparr>,
      fresh\<lparr>bool_value := True, byte_value := 1, char_value := 1, float32_value := 1, float64_value := 1,
         int8_value := 1, uint8_value := 1, int16_value := 1, uint16_value := 1, int32_value := 1,
         uint32_value := 1, int64_value := 1, uint64_value := 1\<rparr>]"

definition get_messages_constants :: "test_msgs__msg__Constants \<Rightarrow> test_msgs__msg__Constants list" where
  "get_messages_constants fresh = [fresh]"

definition get_messages_defaults :: "test_msgs__msg__Defaults \<Rightarrow> test_msgs__msg__Defaults list" where
  "get_messages_defaults fresh = [fresh]"

text \<open>A string is its bytes; the UTF-8 text of \<open>u8"Hell\u00F6 W\u00F6rld!"\<close>.\<close>

definition from_u8string :: "string \<Rightarrow> string" where
  "from_u8string s = s"

definition hello_umlaut :: string where
  "hello_umlaut = ''Hell'' @ [CHR 0xC3, CHR 0xB6] @ '' W'' @ [CHR 0xC3, CHR 0xB6] @ ''rld!''"

text \<open>The loop \<open>for (i = 0; i < n; ++i) s += std::to_string(i % 10)\<close>.\<close>

definition append_digits :: "nat \<Rightarrow> string \<Rightarrow> string" where
  "append_digits n s = fold (\<lambda>i s. s @ decimal (i mod 10)) [0..<n] s"

definition get_messages_strings :: "test_msgs__msg__Strings \<Rightarrow> test_msgs__msg__Strings list" where
  "get_messages_strings fresh =
     [fresh\<lparr>string_value := [], bounded_string_value := []\<rparr>,
      fresh\<lparr>string_value := ''Hello world!'', bounded_string_value := ''Hello world!''\<rparr>,
      fresh\<lparr>string_value := from_u8string hello_umlaut, bounded_string_value := from_u8string hello_umlaut\<rparr>,
      fresh\<lparr>string_value := append_digits 20000 [], bounded_string_value := append_digits 22 []\<rparr>]"

subsection \<open>Arrays\<close>

definition get_messages_arrays :: "test_msgs__msg__BasicTypes \<Rightarrow> test_msgs__msg__Arrays \<Rightarrow> test_msgs__msg__Arrays list" where
  "get_messages_arrays fresh_basic fresh =
     (let basic_types_msgs = get_messages_basic_types fresh_basic
      in [fresh\<lparr>bool_values := [False, True, False], byte_values := [0, 0xff, 0], char_values := [0, 255, 0],
         float32_values := [0, 1.125, - 2.125], float64_values := [0, 1.125, - 2.125],
         int8_values := [0, signed_max, signed_min], uint8_values := [0, unsigned_max, 0],
         int16_values := [0, signed_max, signed_min], uint16_values := [0, unsigned_max, 0],
         int32_values := [0, signed_max, signed_min], uint32_values := [0, unsigned_max, 0],
         int64_values := (int64_values fresh)[0 := 0, 1 := signed_max, 2 := signed_min],
         uint64_values := [0, unsigned_max, 0], string_values := [[], ''max value'', ''min value''],
         basic_types_values := (basic_types_values fresh)[0 := basic_types_msgs ! 0, 1 := basic_types_msgs ! 1, 2 := basic_types_msgs ! 2]\<rparr>])"

subsection \<open>Unbounded sequences\<close>

text \<open>The body of the loop over 1000 items.\<close>

definition unbounded_item :: "test_msgs__msg__BasicTypes list \<Rightarrow> nat \<Rightarrow> test_msgs__msg__UnboundedSequences \<Rightarrow>
    test_msgs__msg__UnboundedSequences" where
  "unbounded_item basic_types_msgs i m =
     m\<lparr>bool_values := (bool_values m)[i := i mod 2 \<noteq> 0],
       byte_values := (byte_values m)[i := of_nat i],
       char_values := (char_values m)[i := of_nat (i mod 2 ^ 8)],
       float32_values := (float32_values m)[i := 1.125 * real i],
       float64_values := (float64_values m)[i := 1.125 * real i],
       int8_values := (int8_values m)[i := of_nat i], uint8_values := (uint8_values m)[i := of_nat i],
       int16_values := (int16_values m)[i := of_nat i], uint16_values := (uint16_values m)[i := of_nat i],
       int32_values := (int32_values m)[i := of_nat i], uint32_values := (uint32_values m)[i := of_nat i],
       int64_values := (int64_values m)[i := of_nat i], uint64_values := (uint64_values m)[i := of_nat i],
       string_values := (string_values m)[i := decimal i],
       basic_types_values := (basic_types_values m)[i := basic_types_msgs ! (i mod length basic_types_msgs)]\<rparr>"

text \<open>The vectors are made 1000 items long, then filled.\<close>

definition long_sequences :: "test_msgs__msg__BasicTypes \<Rightarrow> test_msgs__msg__UnboundedSequences \<Rightarrow>
    test_msgs__msg__UnboundedSequences" where
  "long_sequences fresh_basic fresh =
     fold (unbounded_item (get_messages_basic_types fresh_basic)) [0..<1000]
       (fresh\<lparr>bool_values := resize 1000 False (bool_values fresh),
         byte_values := resize 1000 0 (byte_values fresh), char_values := resize 1000 0 (char_values fresh),
         float32_values := resize 1000 0 (float32_values fresh),
         float64_values := resize 1000 0 (float64_values fresh),
         int8_values := resize 1000 0 (int8_values fresh),
         uint8_values := resize 1000 0 (uint8_values fresh),
         int16_values := resize 1000 0 (int16_values fresh),
         uint16_values := resize 1000 0 (uint16_values fresh),
         int32_values := resize 1000 0 (int32_values fresh),
         uint32_values := resize 1000 0 (uint32_values fresh),
         int64_values := resize 1000 0 (int64_values fresh),
         uint64_values := resize 1000 0 (uint64_values fresh),
         string_values := resize 1000 [] (string_values fresh),
         basic_types_values := resize 1000 fresh_basic (basic_types_values fresh)\<rparr>)"

definition get_messages_unbounded_sequences :: "test_msgs__msg__BasicTypes \<Rightarrow> test_msgs__msg__UnboundedSequences \<Rightarrow>
    test_msgs__msg__UnboundedSequences list" where
  "get_messages_unbounded_sequences fresh_basic fresh =
     (let basic_types_msgs = get_messages_basic_types fresh_basic
      in [fresh\<lparr>bool_values := [], byte_values := [], char_values := [], float32_values := [],
         float64_values := [], int8_values := [], uint8_values := [], int16_values := [],
         uint16_values := [], int32_values := [], uint32_values := [], int64_values := [],
         uint64_values := [], string_values := [], basic_types_values := [], alignment_check := 0\<rparr>,
          fresh\<lparr>bool_values := [True], byte_values := [0xff], char_values := [255], float32_values := [1.125],
         float64_values := [1.125], int8_values := [signed_max], uint8_values := [unsigned_max],
         int16_values := [signed_max], uint16_values := [unsigned_max], int32_values := [signed_max],
         uint32_values := [unsigned_max], int64_values := [signed_max], uint64_values := [unsigned_max],
         string_values := [''max value''], basic_types_values := [basic_types_msgs ! 0], alignment_check := 1\<rparr>,
          fresh\<lparr>bool_values := [False, True], byte_values := [0, 0xff], char_values := [0, 255],
         float32_values := [0, 1.125, - 2.125], float64_values := [0, 1.125, - 2.125],
         int8_values := [0, signed_max, signed_min], uint8_values := [0, unsigned_max],
         int16_values := [0, signed_max, signed_min], uint16_values := [0, unsigned_max],
         int32_values := [0, signed_max, signed_min], uint32_values := [0, unsigned_max],
         int64_values := (resize 3 0 (int64_values fresh))[0 := 0, 1 := signed_max, 2 := signed_min],
         uint64_values := [0, unsigned_max], string_values := [[], ''max value'', ''optional min value''],
         basic_types_values := (resize 3 fresh_basic (basic_types_values fresh))[0 := basic_types_msgs ! 0, 1 := basic_types_msgs ! 1, 2 := basic_types_msgs ! 2],
         alignment_check := 2\<rparr>,
          (long_sequences fresh_basic fresh)\<lparr>alignment_check := 3\<rparr>,
          fresh\<lparr>alignment_check := 4\<rparr>])"

subsection \<open>Bounded sequences\<close>

definition get_messages_bounded_plain_sequences :: "test_msgs__msg__BasicTypes \<Rightarrow> test_msgs__msg__BoundedPlainSequences \<Rightarrow>
    test_msgs__msg__BoundedPlainSequences list option" where
  "get_messages_bounded_plain_sequences fresh_basic fresh =
     (let basic_types_msgs = get_messages_basic_types fresh_basic
      in do {
        bool_values' \<leftarrow> bounded test_msgs__msg__BoundedPlainSequences__MAX_SIZE ''bool_values'' [False, True, False];
        byte_values' \<leftarrow> bounded test_msgs__msg__BoundedPlainSequences__MAX_SIZE ''byte_values'' [0, 1, 0xff];
        char_values' \<leftarrow> bounded test_msgs__msg__BoundedPlainSequences__MAX_SIZE ''char_values'' [0, 1, 255];
        float32_values' \<leftarrow> bounded test_msgs__msg__BoundedPlainSequences__MAX_SIZE ''float32_values'' [0, 1.125, - 2.125];
        float64_values' \<leftarrow> bounded test_msgs__msg__BoundedPlainSequences__MAX_SIZE ''float64_values'' [0, 1.125, - 2.125];
        int8_values' \<leftarrow> bounded test_msgs__msg__BoundedPlainSequences__MAX_SIZE ''int8_values'' [0, signed_max, signed_min];
        uint8_values' \<leftarrow> bounded test_msgs__msg__BoundedPlainSequences__MAX_SIZE ''uint8_values'' [0, 1, unsigned_max];
        int16_values' \<leftarrow> bounded test_msgs__msg__BoundedPlainSequences__MAX_SIZE ''int16_values'' [0, signed_max, signed_min];
        uint16_values' \<leftarrow> bounded test_msgs__msg__BoundedPlainSequences__MAX_SIZE ''uint16_values'' [0, 1, unsigned_max];
        int32_values' \<leftarrow> bounded test_msgs__msg__BoundedPlainSequences__MAX_SIZE ''int32_values'' [0, signed_max, signed_min];
        uint32_values' \<leftarrow> bounded test_msgs__msg__BoundedPlainSequences__MAX_SIZE ''uint32_values'' [0, 1, unsigned_max];
        int64_values' \<leftarrow> bounded test_msgs__msg__BoundedPlainSequences__MAX_SIZE ''int64_values'' (resize 3 0 (int64_values fresh));
        uint64_values' \<leftarrow> bounded test_msgs__msg__BoundedPlainSequences__MAX_SIZE ''uint64_values'' [0, 1, unsigned_max];
        basic_types_values' \<leftarrow> bounded test_msgs__msg__BoundedPlainSequences__MAX_SIZE ''basic_types_values'' (resize 3 fresh_basic (basic_types_values fresh));
        Some [fresh\<lparr>bool_values := bool_values', byte_values := byte_values', char_values := char_values',
            float32_values := float32_values', float64_values := float64_values', int8_values := int8_values',
            uint8_values := uint8_values', int16_values := int16_values', uint16_values := uint16_values',
            int32_values := int32_values', uint32_values := uint32_values',
            int64_values := int64_values'[0 := 0, 1 := signed_max, 2 := signed_min],
            uint64_values := uint64_values',
            basic_types_values := basic_types_values'[0 := basic_types_msgs ! 0, 1 := basic_types_msgs ! 1, 2 := basic_types_msgs ! 2],
            plain_alignment_check := 2\<rparr>,
              fresh\<lparr>plain_alignment_check := 4\<rparr>]
      })"

definition get_messages_bounded_sequences :: "test_msgs__msg__BasicTypes \<Rightarrow> test_msgs__msg__BoundedSequences \<Rightarrow>
    test_msgs__msg__BoundedSequences list option" where
  "get_messages_bounded_sequences fresh_basic fresh =
     (let basic_types_msgs = get_messages_basic_types fresh_basic
      in do {
        bool_values' \<leftarrow> bounded test_msgs__msg__BoundedSequences__MAX_SIZE ''bool_values'' [False, True, False];
        byte_values' \<leftarrow> bounded test_msgs__msg__BoundedSequences__MAX_SIZE ''byte_values'' [0, 1, 0xff];
        char_values' \<leftarrow> bounded test_msgs__msg__BoundedSequences__MAX_SIZE ''char_values'' [0, 1, 255];
        float32_values' \<leftarrow> bounded test_msgs__msg__BoundedSequences__MAX_SIZE ''float32_values'' [0, 1.125, - 2.125];
        float64_values' \<leftarrow> bounded test_msgs__msg__BoundedSequences__MAX_SIZE ''float64_values'' [0, 1.125, - 2.125];
        int8_values' \<leftarrow> bounded test_msgs__msg__BoundedSequences__MAX_SIZE ''int8_values'' [0, signed_max, signed_min];
        uint8_values' \<leftarrow> bounded test_msgs__msg__BoundedSequences__MAX_SIZE ''uint8_values'' [0, 1, unsigned_max];
        int16_values' \<leftarrow> bounded test_msgs__msg__BoundedSequences__MAX_SIZE ''int16_values'' [0, signed_max, signed_min];
        uint16_values' \<leftarrow> bounded test_msgs__msg__BoundedSequences__MAX_SIZE ''uint16_values'' [0, 1, unsigned_max];
        int32_values' \<leftarrow> bounded test_msgs__msg__BoundedSequences__MAX_SIZE ''int32_values'' [0, signed_max, signed_min];
        uint32_values' \<leftarrow> bounded test_msgs__msg__BoundedSequences__MAX_SIZE ''uint32_values'' [0, 1, unsigned_max];
        int64_values' \<leftarrow> bounded test_msgs__msg__BoundedSequences__MAX_SIZE ''int64_values'' (resize 3 0 (int64_values fresh));
        uint64_values' \<leftarrow> bounded test_msgs__msg__BoundedSequences__MAX_SIZE ''uint64_values'' [0, 1, unsigned_max];
        string_values' \<leftarrow> bounded test_msgs__msg__BoundedSequences__MAX_SIZE ''string_values'' [[], ''max value'', ''optional min value''];
        basic_types_values' \<leftarrow> bounded test_msgs__msg__BoundedSequences__MAX_SIZE ''basic_types_values'' (resize 3 fresh_basic (basic_types_values fresh));
        Some [fresh\<lparr>bool_values := bool_values', byte_values := byte_values', char_values := char_values',
            float32_values := float32_values', float64_values := float64_values', int8_values := int8_values',
            uint8_values := uint8_values', int16_values := int16_values', uint16_values := uint16_values',
            int32_values := int32_values', uint32_values := uint32_values',
            int64_values := int64_values'[0 := 0, 1 := signed_max, 2 := signed_min],
            uint64_values := uint64_values', string_values := string_values',
            basic_types_values := basic_types_values'[0 := basic_types_msgs ! 0, 1 := basic_types_msgs ! 1, 2 := basic_types_msgs ! 2],
            alignment_check := 2\<rparr>,
              fresh\<lparr>alignment_check := 4\<rparr>]
      })"

text \<open>\<open>fresh_arrays\<close>, \<open>fresh_bounded\<close> and \<open>fresh_unbounded\<close> are fresh messages of the three kinds.\<close>

definition get_messages_multi_nested :: "test_msgs__msg__BasicTypes \<Rightarrow> test_msgs__msg__Arrays \<Rightarrow>
    test_msgs__msg__BoundedSequences \<Rightarrow> test_msgs__msg__UnboundedSequences \<Rightarrow> test_msgs__msg__MultiNested \<Rightarrow>
    test_msgs__msg__MultiNested list option" where
  "get_messages_multi_nested fresh_basic fresh_arrays fresh_bounded fresh_unbounded fresh =
     (let arrays_msgs = get_messages_arrays fresh_basic fresh_arrays;
          unbounded_sequences_msgs = get_messages_unbounded_sequences fresh_basic fresh_unbounded
      in do {
        bounded_sequences_msgs \<leftarrow> get_messages_bounded_sequences fresh_basic fresh_bounded;
        let num_arrays = length arrays_msgs;
        let num_bounded_sequences = length bounded_sequences_msgs;
        let num_unbounded_sequences = length unbounded_sequences_msgs;
        let sequence_size = 3;
        bounded_sequence_of_arrays' \<leftarrow> bounded test_msgs__msg__MultiNested__MAX_SIZE ''bounded_sequence_of_arrays''
          (resize sequence_size fresh_arrays (bounded_sequence_of_arrays fresh));
        bounded_sequence_of_bounded_sequences' \<leftarrow> bounded test_msgs__msg__MultiNested__MAX_SIZE ''bounded_sequence_of_bounded_sequences''
          (resize sequence_size fresh_bounded (bounded_sequence_of_bounded_sequences fresh));
        bounded_sequence_of_unbounded_sequences' \<leftarrow> bounded test_msgs__msg__MultiNested__MAX_SIZE ''bounded_sequence_of_unbounded_sequences''
          (resize sequence_size fresh_unbounded (bounded_sequence_of_unbounded_sequences fresh));
        Some [fresh\<lparr>array_of_arrays := fill (length (array_of_arrays fresh)) (\<lambda>i. arrays_msgs ! (i mod num_arrays)) (array_of_arrays fresh),
          array_of_bounded_sequences := fill (length (array_of_bounded_sequences fresh)) (\<lambda>i. bounded_sequences_msgs ! (i mod num_bounded_sequences)) (array_of_bounded_sequences fresh),
          array_of_unbounded_sequences := fill (length (array_of_unbounded_sequences fresh)) (\<lambda>i. unbounded_sequences_msgs ! (i mod num_unbounded_sequences)) (array_of_unbounded_sequences fresh),
          bounded_sequence_of_arrays := fill sequence_size (\<lambda>i. arrays_msgs ! (i mod num_arrays)) bounded_sequence_of_arrays',
          bounded_sequence_of_bounded_sequences := fill sequence_size (\<lambda>i. bounded_sequences_msgs ! (i mod num_bounded_sequences)) bounded_sequence_of_bounded_sequences',
          bounded_sequence_of_unbounded_sequences := fill sequence_size (\<lambda>i. unbounded_sequences_msgs ! (i mod num_unbounded_sequences)) bounded_sequence_of_unbounded_sequences',
          unbounded_sequence_of_arrays := fill sequence_size (\<lambda>i. arrays_msgs ! (i mod num_arrays))
            (resize sequence_size fresh_arrays (unbounded_sequence_of_arrays fresh)),
          unbounded_sequence_of_bounded_sequences := fill sequence_size (\<lambda>i. bounded_sequences_msgs ! (i mod num_bounded_sequences))
            (resize sequence_size fresh_bounded (unbounded_sequence_of_bounded_sequences fresh)),
          unbounded_sequence_of_unbounded_sequences := fill sequence_size (\<lambda>i. unbounded_sequences_msgs ! (i mod num_unbounded_sequences))
            (resize sequence_size fresh_unbounded (unbounded_sequence_of_unbounded_sequences fresh))\<rparr>]
      })"

subsection \<open>Nested, wide and keyed messages\<close>

definition get_messages_nested :: "test_msgs__msg__BasicTypes \<Rightarrow> test_msgs__msg__Nested \<Rightarrow> test_msgs__msg__Nested list" where
  "get_messages_nested fresh_basic fresh =
     map (\<lambda>basic_types_msg. fresh\<lparr>basic_types_value := basic_types_msg\<rparr>) (get_messages_basic_types fresh_basic)"

definition get_messages_builtins :: "test_msgs__msg__Builtins \<Rightarrow> test_msgs__msg__Builtins list" where
  "get_messages_builtins fresh =
     [fresh\<lparr>duration_value := \<lparr>duration_sec = - 1234567890, duration_nanosec = 123456789\<rparr>,
        time_value := \<lparr>sec = - 1234567890, nanosec = 987654321\<rparr>\<rparr>]"

text \<open>The code units of the Japanese texts.\<close>

definition get_messages_wstrings :: "test_msgs__msg__WStrings \<Rightarrow> test_msgs__msg__WStrings list option" where
  "get_messages_wstrings fresh =
     do {
       let units = map (\<lambda>c. of_char c :: u16);
       two_items \<leftarrow> (let xs = resize 2 [] (bounded_sequence_of_wstrings fresh)
         in if length xs \<le> test_msgs__msg__WStrings__bounded_sequence_of_wstrings__MAX_SIZE then Some xs else None);
       Some
         [fresh\<lparr>wstring_value := [],
            array_of_wstrings := (array_of_wstrings fresh)[0 := units ''1'', 1 := units ''two'', 2 := [0x4E09]],
            bounded_sequence_of_wstrings := two_items[0 := units ''one'', 1 := [0x4E8C]],
            unbounded_sequence_of_wstrings := (resize 4 [] (unbounded_sequence_of_wstrings fresh))
              [0 := units ''.'', 1 := units ''..'', 2 := units ''...'', 3 := [0x56DB]]\<rparr>,
          fresh\<lparr>wstring_value := units ''ascii''\<rparr>,
          fresh\<lparr>wstring_value := units ''Hell'' @ [0xF6] @ units '' W'' @ [0xF6] @ units ''rld!''\<rparr>,
          fresh\<lparr>wstring_value := [0x30CF, 0x30ED, 0x30FC, 0x30EF, 0x30FC, 0x30EB, 0x30C9]\<rparr>]
     }"

definition get_messages_keyed_long :: "test_msgs__msg__KeyedLong \<Rightarrow> test_msgs__msg__KeyedLong list" where
  "get_messages_keyed_long fresh = [fresh\<lparr>long_key := 1, long_value := 1\<rparr>, fresh\<lparr>long_key := 2, long_value := 2\<rparr>]"

definition get_messages_keyed_string :: "test_msgs__msg__KeyedString \<Rightarrow> test_msgs__msg__KeyedString list" where
  "get_messages_keyed_string fresh =
     [fresh\<lparr>string_key := ''key_1'', keyed_value := ''value_1''\<rparr>, fresh\<lparr>string_key := ''key_2'', keyed_value := ''value_2''\<rparr>]"

definition get_messages_non_keyed_with_nested_key ::
  "test_msgs__msg__KeyedString \<Rightarrow> test_msgs__msg__NonKeyedWithNestedKey \<Rightarrow> test_msgs__msg__NonKeyedWithNestedKey list" where
  "get_messages_non_keyed_with_nested_key fresh_keyed fresh =
     map (\<lambda>keyed_string_msg. fresh\<lparr>nested_data := keyed_string_msg, some_int := - 1\<rparr>)
       (get_messages_keyed_string fresh_keyed)"

definition get_messages_complex_nested_key ::
  "test_msgs__msg__KeyedString \<Rightarrow> test_msgs__msg__NonKeyedWithNestedKey \<Rightarrow> test_msgs__msg__ComplexNestedKey \<Rightarrow>
    test_msgs__msg__ComplexNestedKey list" where
  "get_messages_complex_nested_key fresh_keyed fresh_non_keyed fresh =
     map (\<lambda>nested_msg. fresh\<lparr>nested_keys := nested_msg, uint32_key := 3, nested_float64_value := 1.125\<rparr>)
       (get_messages_non_keyed_with_nested_key fresh_keyed fresh_non_keyed)"

end
