(* ===== verification/Service_Fixtures.thy ===== *)
theory Service_Fixtures
  imports Message_Fixtures
begin

text \<open>
  The service fixtures of \<^verbatim>\<open>test_msgs/service_fixtures.hpp\<close>: for every service the requests a test sends, each with the
  reply it expects. As in the message fixtures a request and a reply start as their generated constructors make
  them, here the arguments \<open>fresh_request\<close> and \<open>fresh_reply\<close>.
\<close>

definition get_services_empty ::
  "test_msgs__srv__Empty_Request \<Rightarrow> test_msgs__srv__Empty_Response \<Rightarrow>
    (test_msgs__srv__Empty_Request \<times> test_msgs__srv__Empty_Response) list" where
  "get_services_empty fresh_request fresh_reply = [(fresh_request, fresh_reply)]"

definition get_services_basic_types ::
  "test_msgs__srv__BasicTypes_Request \<Rightarrow> test_msgs__srv__BasicTypes_Response \<Rightarrow>
    (test_msgs__srv__BasicTypes_Request \<times> test_msgs__srv__BasicTypes_Response) list" where
  "get_services_basic_types fresh_request fresh_reply =
     [(fresh_request\<lparr>bool_value := False, byte_value := 0, char_value := 0, float32_value := 0, float64_value := 0,
          int8_value := 0, uint8_value := 0, int16_value := 0, uint16_value := 0, int32_value := 0,
          uint32_value := 0, int64_value := 0, uint64_value := 0, request_string_value := ''request''\<rparr>,
       fresh_reply\<lparr>bool_value := False, byte_value := 0, char_value := 0, float32_value := 0, float64_value := 0,
          int8_value := 0, uint8_value := 0, int16_value := 0, uint16_value := 0, int32_value := 0,
          uint32_value := 0, int64_value := 0, uint64_value := 0, response_string_value := ''reply''\<rparr>),
      (fresh_request\<lparr>bool_value := True, byte_value := 1, char_value := 1, float32_value := 1.125,
          float64_value := 1.11, int8_value := 1, uint8_value := 2, int16_value := 3, uint16_value := 4,
          int32_value := 5, uint32_value := 6, int64_value := 7, uint64_value := 8,
          request_string_value := append_digits 20000 []\<rparr>,
       fresh_reply\<lparr>bool_value := True, byte_value := 11, char_value := 11, float32_value := 11.125,
          float64_value := 11.11, int8_value := 11, uint8_value := 22, int16_value := 33,
          uint16_value := 44, int32_value := 55, uint32_value := 66, int64_value := 77, uint64_value := 88,
          response_string_value := append_digits 20000 []\<rparr>)]"

definition get_services_arrays ::
  "test_msgs__msg__BasicTypes \<Rightarrow> test_msgs__srv__Arrays_Request \<Rightarrow> test_msgs__srv__Arrays_Response \<Rightarrow>
    (test_msgs__srv__Arrays_Request \<times> test_msgs__srv__Arrays_Response) list" where
  "get_services_arrays fresh_basic fresh_request fresh_reply =
     (let basic_types_msgs = get_messages_basic_types fresh_basic
      in [(fresh_request\<lparr>bool_values := [False, True, False], byte_values := [0, 0xff, 0], char_values := [0, 255, 0],
          float32_values := [0, 1.125, - 2.125], float64_values := [0, 1.125, - 2.125],
          int8_values := [0, signed_max, signed_min], uint8_values := [0, unsigned_max, 0],
          int16_values := [0, signed_max, signed_min], uint16_values := [0, unsigned_max, 0],
          int32_values := [0, signed_max, signed_min], uint32_values := [0, unsigned_max, 0],
          int64_values := (int64_values fresh_request)[0 := 0, 1 := signed_max, 2 := signed_min],
          uint64_values := [0, unsigned_max, 0], string_values := [[], ''max value'', ''min value''],
          basic_types_values := (basic_types_values fresh_request)
            [0 := basic_types_msgs ! 0, 1 := basic_types_msgs ! 1, 2 := basic_types_msgs ! 2]\<rparr>,
          fresh_reply\<lparr>bool_values := [True, False, False], byte_values := [0xff, 0, 0], char_values := [255, 0, 0],
          float32_values := [1.125, 0, - 2.125], float64_values := [1.125, 0, - 2.125],
          int8_values := [signed_max, 0, signed_min], uint8_values := [unsigned_max, 0, 0],
          int16_values := [signed_max, 0, signed_min], uint16_values := [unsigned_max, 0, 0],
          int32_values := [signed_max, 0, signed_min], uint32_values := [unsigned_max, 0, 0],
          int64_values := (int64_values fresh_reply)[0 := signed_max, 1 := 0, 2 := signed_min],
          uint64_values := [unsigned_max, 0, 0], string_values := [''max value'', [], ''min value''],
          basic_types_values := (basic_types_values fresh_reply)
            [0 := basic_types_msgs ! 1, 1 := basic_types_msgs ! 0, 2 := basic_types_msgs ! 2]\<rparr>)])"

end
