(* ===== verification/Fixture_Contracts.thy ===== *)
theory Fixture_Contracts
  imports Service_Fixtures
begin

text \<open>
  What a test relies on when it sends the fixtures: they are messages of their types, whatever the generated
  constructors leave in a fresh message, they can be told apart, the long ones reach the limits of the types, and the
  reply to a request of arrays can be checked against the request.
\<close>

subsection \<open>The long sequences\<close>

lemma fold_filled: "(\<And>i m. g (step i m) = (g m)[i := f i]) \<Longrightarrow> g (fold step [0..<n] m) = fill n f (g m)"
  unfolding fill_def by (rule fold_field)

lemma four_basic_types: "length (get_messages_basic_types fb) = 4"
  by (simp add: get_messages_basic_types_def)

lemma filled_field:
  assumes "\<And>i m. g (step i m) = (g m)[i := f i]" "g m = resize 1000 d xs"
  shows "g (fold step [0..<1000] m) = map f [0..<1000]"
  using fold_filled [of g step f 1000 m, OF assms(1)] by (simp only: assms(2) fill_resized)

lemma long_sequences_values:
  "bool_values (long_sequences fb fresh) = map (\<lambda>i. i mod 2 \<noteq> 0) [0..<1000]"
  "byte_values (long_sequences fb fresh) = map (of_nat) [0..<1000]"
  "char_values (long_sequences fb fresh) = map (\<lambda>i. of_nat (i mod 2 ^ 8)) [0..<1000]"
  "float32_values (long_sequences fb fresh) = map (\<lambda>i. 1.125 * real i) [0..<1000]"
  "float64_values (long_sequences fb fresh) = map (\<lambda>i. 1.125 * real i) [0..<1000]"
  "int8_values (long_sequences fb fresh) = map (of_nat) [0..<1000]"
  "uint8_values (long_sequences fb fresh) = map (of_nat) [0..<1000]"
  "int16_values (long_sequences fb fresh) = map (of_nat) [0..<1000]"
  "uint16_values (long_sequences fb fresh) = map (of_nat) [0..<1000]"
  "int32_values (long_sequences fb fresh) = map (of_nat) [0..<1000]"
  "uint32_values (long_sequences fb fresh) = map (of_nat) [0..<1000]"
  "int64_values (long_sequences fb fresh) = map (of_nat) [0..<1000]"
  "uint64_values (long_sequences fb fresh) = map (of_nat) [0..<1000]"
  "string_values (long_sequences fb fresh) = map (decimal) [0..<1000]"
  "basic_types_values (long_sequences fb fresh) = map (\<lambda>i. get_messages_basic_types fb ! (i mod 4)) [0..<1000]"
  unfolding long_sequences_def
  by (rule filled_field; simp add: unbounded_item_def four_basic_types)+

subsection \<open>Lengths\<close>

lemma length_append_digits: "length (append_digits n s) = length s + n"
proof -
  have "length (decimal (i mod 10)) = 1" for i by (simp add: decimal.simps)
  then show ?thesis unfolding append_digits_def by (induction n) simp_all
qed

lemmas lengths_defs = value_lengths_def string_lengths_def fits_def

lemma arrays_fixture_ok: "arrays_ok fresh \<Longrightarrow> list_all arrays_ok (get_messages_arrays fb fresh)"
  by (simp add: arrays_ok_def lengths_defs get_messages_arrays_def Let_def)

lemma strings_fixture_ok: "strings_ok fresh \<Longrightarrow> list_all strings_ok (get_messages_strings fresh)"
  by (simp add: strings_ok_def fits_def get_messages_strings_def from_u8string_def hello_umlaut_def length_append_digits)

lemma plain_fixture:
  "\<exists>m. get_messages_bounded_plain_sequences fb fresh = Some [m, fresh\<lparr>plain_alignment_check := 4\<rparr>] \<and>
     plain_alignment_check m = 2 \<and> (plain_ok fresh \<longrightarrow> plain_ok m)"
  by (simp add: get_messages_bounded_plain_sequences_def bounded_def plain_ok_def lengths_defs Let_def)

lemma bounded_fixture:
  "\<exists>m. get_messages_bounded_sequences fb fresh = Some [m, fresh\<lparr>alignment_check := 4\<rparr>] \<and>
     alignment_check m = 2 \<and> (bounded_ok fresh \<longrightarrow> bounded_ok m)"
  by (simp add: get_messages_bounded_sequences_def bounded_def bounded_ok_def lengths_defs Let_def)

lemma wstrings_fixture:
  "\<exists>ws. get_messages_wstrings fresh = Some ws \<and> length ws = 4 \<and> distinct (map wstring_value ws) \<and>
     (wstrings_ok fresh \<longrightarrow> list_all wstrings_ok ws)"
  by (simp add: get_messages_wstrings_def wstrings_ok_def Let_def
      test_msgs__msg__WStrings__bounded_sequence_of_wstrings__MAX_SIZE_def)

lemma nested_map_three: "map f [0..<3] = [f 0, f 1, f 2]"
  by (simp add: numeral_3_eq_3 numeral_2_eq_2)

lemma multi_nested_fixture:
  assumes "arrays_ok fa" "bounded_ok fs" "length (array_of_arrays fresh) = 3"
    "length (array_of_bounded_sequences fresh) = 3" "length (array_of_unbounded_sequences fresh) = 3"
  shows "\<exists>m. get_messages_multi_nested fb fa fs fu fresh = Some [m] \<and> multi_nested_ok m"
proof -
  obtain a where a: "get_messages_arrays fb fa = [a]" "arrays_ok a"
    using arrays_fixture_ok [OF assms(1), of fb] by (simp add: get_messages_arrays_def Let_def)
  obtain b where b: "get_messages_bounded_sequences fb fs = Some [b, fs\<lparr>alignment_check := 4\<rparr>]" "bounded_ok b"
    using bounded_fixture [of fb fs] assms(2) by auto
  have "bounded_ok (fs\<lparr>alignment_check := 4\<rparr>)" using assms(2) by (simp add: bounded_ok_def lengths_defs)
  moreover have "length (get_messages_unbounded_sequences fb fu) = 5"
    by (simp add: get_messages_unbounded_sequences_def Let_def)
  ultimately show ?thesis
    using a(2) b(2)
    by (simp add: get_messages_multi_nested_def a(1) b(1) bounded_def numeral_2_eq_2 [symmetric] Let_def fill_all assms(3-) nested_map_three
        multi_nested_ok_def fits_def)
qed

subsection \<open>Counting in a word\<close>

lemma sint_of_count:
  "sint (of_nat i :: 'w :: len word) = (int i + 2 ^ (LENGTH('w) - 1)) mod 2 ^ LENGTH('w) - 2 ^ (LENGTH('w) - 1)"
proof -
  have "sint (of_nat i :: 'w word) = signed_take_bit (LENGTH('w) - 1) (int i)"
    by (metis of_int_of_nat_eq sint_sbintrunc')
  then show ?thesis by (simp add: signed_take_bit_eq_take_bit_shift take_bit_eq_mod)
qed

lemma word_counts:
  "unat (of_nat i :: u8) = i mod 256"
  "sint (of_nat i :: u8) = (int i + 128) mod 256 - 128"
  "i < 1000 \<Longrightarrow> sint (of_nat i :: u16) = int i" "i < 1000 \<Longrightarrow> unat (of_nat i :: u16) = i"
  "i < 1000 \<Longrightarrow> sint (of_nat i :: u32) = int i" "i < 1000 \<Longrightarrow> unat (of_nat i :: u32) = i"
  "i < 1000 \<Longrightarrow> sint (of_nat i :: u64) = int i" "i < 1000 \<Longrightarrow> unat (of_nat i :: u64) = i"
  by (simp_all add: unat_of_nat sint_of_count)

lemma byte_of_mod: "(of_nat (i mod 256) :: u8) = of_nat i"
  by (rule word_unat_eq_iff [THEN iffD2]) (simp only: word_counts mod_mod_trivial)

lemma counted: "(\<And>i. i < n \<Longrightarrow> f i = i) \<Longrightarrow> map f [0..<n] = [0..<n]"
  by (rule map_idI) simp

subsection \<open>Properties\<close>


text \<open>Messages to start from: lists of \<open>n\<close> zero items.\<close>

definition zero_basic_types :: test_msgs__msg__BasicTypes where
  "zero_basic_types =
     \<lparr>bool_value = False, byte_value = 0, char_value = 0, float32_value = 0, float64_value = 0, int8_value = 0,
      uint8_value = 0, int16_value = 0, uint16_value = 0, int32_value = 0, uint32_value = 0, int64_value = 0,
      uint64_value = 0\<rparr>"

definition zero_values :: "nat \<Rightarrow> test_values" where
  "zero_values n =
     \<lparr>bool_values = replicate n False, byte_values = replicate n 0, char_values = replicate n 0,
      float32_values = replicate n 0, float64_values = replicate n 0, int8_values = replicate n 0,
      uint8_values = replicate n 0, int16_values = replicate n 0, uint16_values = replicate n 0,
      int32_values = replicate n 0, uint32_values = replicate n 0, int64_values = replicate n 0,
      uint64_values = replicate n 0, basic_types_values = replicate n zero_basic_types,
      constants_values = replicate n \<lparr>constants_structure_needs_at_least_one_member = 0\<rparr>,
      defaults_values = replicate n zero_basic_types,
      bool_values_default = replicate n False, byte_values_default = replicate n 0,
      char_values_default = replicate n 0, float32_values_default = replicate n 0,
      float64_values_default = replicate n 0, int8_values_default = replicate n 0,
      uint8_values_default = replicate n 0, int16_values_default = replicate n 0,
      uint16_values_default = replicate n 0, int32_values_default = replicate n 0,
      uint32_values_default = replicate n 0, int64_values_default = replicate n 0,
      uint64_values_default = replicate n 0\<rparr>"

definition zero_sequences :: "nat \<Rightarrow> test_sequences" where
  "zero_sequences n =
     test_values.extend (zero_values n)
       \<lparr>string_values = replicate n [], string_values_default = replicate n [], alignment_check = 0\<rparr>"

definition zero_plain :: "nat \<Rightarrow> test_msgs__msg__BoundedPlainSequences" where
  "zero_plain n = test_values.extend (zero_values n) \<lparr>plain_alignment_check = 0\<rparr>"

definition zero_nested :: "test_msgs__msg__MultiNested" where
  "zero_nested =
     \<lparr>array_of_arrays = replicate 3 (zero_sequences 3), array_of_bounded_sequences = replicate 3 (zero_sequences 0),
      array_of_unbounded_sequences = replicate 3 (zero_sequences 0), bounded_sequence_of_arrays = [],
      bounded_sequence_of_bounded_sequences = [], bounded_sequence_of_unbounded_sequences = [],
      unbounded_sequence_of_arrays = [], unbounded_sequence_of_bounded_sequences = [],
      unbounded_sequence_of_unbounded_sequences = []\<rparr>"

definition zero_strings :: test_msgs__msg__Strings where
  "zero_strings =
     \<lparr>string_value = [], string_value_default1 = [], string_value_default2 = [], string_value_default3 = [],
      string_value_default4 = [], string_value_default5 = [], bounded_string_value = [],
      bounded_string_value_default1 = [], bounded_string_value_default2 = [], bounded_string_value_default3 = [],
      bounded_string_value_default4 = [], bounded_string_value_default5 = []\<rparr>"

definition zero_wstrings :: test_msgs__msg__WStrings where
  "zero_wstrings =
     \<lparr>wstring_value = [], wstring_value_default1 = [], wstring_value_default2 = [], wstring_value_default3 = [],
      array_of_wstrings = [[], [], []], bounded_sequence_of_wstrings = [], unbounded_sequence_of_wstrings = []\<rparr>"

lemma zero_lists_ok:
  "arrays_ok (zero_sequences 3)" "bounded_ok (zero_sequences 0)" "plain_ok (zero_plain 0)"
  by (simp_all add: arrays_ok_def bounded_ok_def plain_ok_def lengths_defs zero_sequences_def zero_plain_def
      zero_values_def test_values.defs)

lemma zero_messages_ok:
  "strings_ok zero_strings" "wstrings_ok zero_wstrings" "length (array_of_arrays zero_nested) = 3"
  "length (array_of_bounded_sequences zero_nested) = 3" "length (array_of_unbounded_sequences zero_nested) = 3"
  by (simp_all add: strings_ok_def fits_def wstrings_ok_def zero_strings_def zero_wstrings_def zero_nested_def)


text \<open>The fixture of long sequences covers the range of every type: each of its fifteen sequences has 1000 items,
  the 8-bit ones run through all their values and wrap (the bytes, characters and unsigned integers alike), the wider
  integers count, the strings are the decimal numbers, the messages repeat the four basic ones, and the floating
  point items are multiples of an eighth small enough to be exact in a \<open>float\<close>.\<close>

theorem long_fixture_covers_types:
  "let m = get_messages_unbounded_sequences fb fresh ! 3 in
     bool_values m = map odd [0..<1000] \<and>
     map unat (byte_values m) = map (\<lambda>i. i mod 256) [0..<1000] \<and>
     char_values m = byte_values m \<and> uint8_values m = byte_values m \<and>
     map sint (int8_values m) = map (\<lambda>i. (int i + 128) mod 256 - 128) [0..<1000] \<and>
     map sint (int16_values m) = map int [0..<1000] \<and> map unat (uint16_values m) = [0..<1000] \<and>
     map sint (int32_values m) = map int [0..<1000] \<and> map unat (uint32_values m) = [0..<1000] \<and>
     map sint (int64_values m) = map int [0..<1000] \<and> map unat (uint64_values m) = [0..<1000] \<and>
     map (\<lambda>x. 8 * x) (float32_values m) = map (\<lambda>i. real (9 * i)) [0..<1000] \<and>
     list_all (\<lambda>x. 8 * x < 2 ^ 24) (float32_values m) \<and> float64_values m = float32_values m \<and>
     string_values m = map decimal [0..<1000] \<and>
     basic_types_values m = map (\<lambda>i. get_messages_basic_types fb ! (i mod 4)) [0..<1000]"
proof -
  have m: "get_messages_unbounded_sequences fb fresh ! 3 = (long_sequences fb fresh)\<lparr>alignment_check := 3\<rparr>"
    by (simp add: get_messages_unbounded_sequences_def Let_def)
  show ?thesis
    unfolding Let_def m
    by (simp add: long_sequences_values word_counts byte_of_mod counted comp_def list_all_iff odd_iff_mod_2_eq_one del: upt_rec_numeral)
qed

text \<open>Messages that give different values to some function differ.\<close>

lemma distinct_by: "distinct (map f xs) \<Longrightarrow> distinct xs"
  by (simp add: distinct_map)

lemma basic_fixture_distinct: "distinct (get_messages_basic_types fresh)"
  by (rule distinct_by [of float32_value]) (simp add: get_messages_basic_types_def)

lemma strings_fixture_distinct: "distinct (get_messages_strings fresh)"
  by (rule distinct_by [of "\<lambda>m. length (string_value m)"])
    (simp add: get_messages_strings_def length_append_digits from_u8string_def hello_umlaut_def)

lemma unbounded_fixture_distinct: "distinct (get_messages_unbounded_sequences fb fresh)"
  by (rule distinct_by [of alignment_check]) (simp add: get_messages_unbounded_sequences_def Let_def)

lemma nested_fixture_distinct: "distinct (get_messages_nested fb fresh)"
  by (rule distinct_by [of basic_types_value])
    (simp add: get_messages_nested_def comp_def basic_fixture_distinct)

text \<open>A test can tell the messages of a fixture apart. Whatever the freshly constructed messages hold, the messages of
  one fixture differ pairwise, so a subscriber that compares what it received with the fixture knows which message
  it was; the keyed messages have different keys, and those that nest a keyed message carry its key.\<close>

theorem fixtures_distinguishable:
  "distinct (get_messages_basic_types fb) \<and> distinct (get_messages_strings ft) \<and>
   distinct (get_messages_unbounded_sequences fb fu) \<and> distinct (get_messages_nested fb fn) \<and>
   (\<exists>ms. get_messages_bounded_plain_sequences fb fp = Some ms \<and> distinct ms) \<and>
   (\<exists>ms. get_messages_bounded_sequences fb fs = Some ms \<and> distinct ms) \<and>
   (\<exists>ms. get_messages_wstrings fw = Some ms \<and> distinct ms) \<and>
   map long_key (get_messages_keyed_long fl) = [1, 2] \<and>
   map string_key (get_messages_keyed_string fk) = [''key_1'', ''key_2''] \<and>
   map (string_key \<circ> nested_data) (get_messages_non_keyed_with_nested_key fk fq) = [''key_1'', ''key_2''] \<and>
   map (string_key \<circ> nested_data \<circ> nested_keys) (get_messages_complex_nested_key fk fq fc) = [''key_1'', ''key_2'']"
proof (intro conjI)
  obtain m where "get_messages_bounded_plain_sequences fb fp = Some [m, fp\<lparr>plain_alignment_check := 4\<rparr>]"
    "plain_alignment_check m = 2" using plain_fixture [of fb fp] by auto
  then show "\<exists>ms. get_messages_bounded_plain_sequences fb fp = Some ms \<and> distinct ms"
    by auto
next
  obtain m where "get_messages_bounded_sequences fb fs = Some [m, fs\<lparr>alignment_check := 4\<rparr>]"
    "alignment_check m = 2" using bounded_fixture [of fb fs] by auto
  then show "\<exists>ms. get_messages_bounded_sequences fb fs = Some ms \<and> distinct ms"
    by auto
next
  show "\<exists>ms. get_messages_wstrings fw = Some ms \<and> distinct ms"
    using wstrings_fixture [of fw] by (auto dest: distinct_by)
qed (simp_all add: basic_fixture_distinct strings_fixture_distinct unbounded_fixture_distinct nested_fixture_distinct
    get_messages_keyed_long_def get_messages_keyed_string_def get_messages_non_keyed_with_nested_key_def
    get_messages_complex_nested_key_def)

text \<open>The first two items of a list exchanged.\<close>

definition swap_first :: "'a list \<Rightarrow> 'a list" where
  "swap_first xs = xs[0 := xs ! 1, 1 := xs ! 0]"

lemma swap_first_three [simp]: "swap_first [x, y, z] = [y, x, z]"
  by (simp add: swap_first_def)

lemma update_three: "length xs = 3 \<Longrightarrow> xs[0 := a, Suc 0 := b, 2 := c] = [a, b, c]"
  by (auto simp: numeral_3_eq_3 numeral_2_eq_2 length_Suc_conv)

lemma arrays_lengths: "arrays_ok m \<Longrightarrow> length (int64_values m) = 3 \<and> length (basic_types_values m) = 3"
  by (simp add: arrays_ok_def lengths_defs)

text \<open>The reply to the service of arrays is the request with the first two items of every array exchanged, the third
  one kept, so the test sees each array travel both ways; the arrays of the request are those of the message fixture.
  Request and reply are well typed, and no array comes back as it was sent.\<close>

theorem arrays_service_swaps:
  assumes "arrays_ok fq" "arrays_ok fp" "arrays_ok fa"
  shows "\<exists>q p. get_services_arrays fb fq fp = [(q, p)] \<and> arrays_ok q \<and> arrays_ok p \<and>
    bool_values p = swap_first (bool_values q) \<and> byte_values p = swap_first (byte_values q) \<and>
    char_values p = swap_first (char_values q) \<and> float32_values p = swap_first (float32_values q) \<and>
    float64_values p = swap_first (float64_values q) \<and> int8_values p = swap_first (int8_values q) \<and>
    uint8_values p = swap_first (uint8_values q) \<and> int16_values p = swap_first (int16_values q) \<and>
    uint16_values p = swap_first (uint16_values q) \<and> int32_values p = swap_first (int32_values q) \<and>
    uint32_values p = swap_first (uint32_values q) \<and> int64_values p = swap_first (int64_values q) \<and>
    uint64_values p = swap_first (uint64_values q) \<and> string_values p = swap_first (string_values q) \<and>
    basic_types_values p = swap_first (basic_types_values q) \<and>
    (\<exists>a. get_messages_arrays fb fa = [a] \<and>
      q = fq\<lparr>bool_values := bool_values a, byte_values := byte_values a, char_values := char_values a,
        float32_values := float32_values a, float64_values := float64_values a, int8_values := int8_values a,
        uint8_values := uint8_values a, int16_values := int16_values a, uint16_values := uint16_values a,
        int32_values := int32_values a, uint32_values := uint32_values a, int64_values := int64_values a,
        uint64_values := uint64_values a, basic_types_values := basic_types_values a,
        string_values := string_values a\<rparr>) \<and>
    bool_values q \<noteq> bool_values p \<and> int8_values q \<noteq> int8_values p \<and> string_values q \<noteq> string_values p \<and>
    basic_types_values q \<noteq> basic_types_values p"
proof -
  have "get_messages_basic_types fb ! Suc 0 \<noteq> get_messages_basic_types fb ! 0"
    using basic_fixture_distinct [of fb] by (simp add: nth_eq_iff_index_eq four_basic_types)
  moreover have "signed_max \<noteq> (0 :: u8)" by (simp add: signed_max_def)
  ultimately show ?thesis
    using assms [THEN arrays_lengths] assms
    by (simp add: get_services_arrays_def get_messages_arrays_def Let_def update_three arrays_ok_def lengths_defs)
qed

definition zero_string_values :: "nat \<Rightarrow> test_string_values" where
  "zero_string_values n =
     test_values.extend (zero_values n) \<lparr>string_values = replicate n [], string_values_default = replicate n []\<rparr>"

lemma zero_arrays_ok: "arrays_ok (zero_string_values 3)"
  by (simp add: arrays_ok_def lengths_defs zero_string_values_def zero_values_def test_values.defs)

theorem arrays_service_swaps_witness:
  "\<exists>q p. get_services_arrays zero_basic_types (zero_string_values 3) (zero_string_values 3) = [(q, p)] \<and>
     int8_values q = [0, signed_max, signed_min] \<and> int8_values p = [signed_max, 0, signed_min]"
  using arrays_service_swaps [OF zero_arrays_ok zero_arrays_ok zero_lists_ok(1), of zero_basic_types]
  by (auto simp: get_services_arrays_def Let_def)

end
