(* ===== verification/Header_Symbols.thy ===== *)
theory Header_Symbols
  imports Typesupport_Symbols
begin

text \<open>
  What the generated headers declare. The functions of an interface (\<^verbatim>\<open>*__functions.h\<close>) are listed by what they do,
  in the order of the header; \<open>prototype_of\<close> has the declaration of each, with the symbol pasted from the name of the
  interface and the name of the function. The three headers of type support declare the functions \<open>exported\<close> names
  and, those of the XRCE middleware, two functions for the size of a message; \<open>exported_prototype\<close> and
  \<open>xrce_prototype\<close> have their declarations. Names of parameters and attributes of visibility are left out.
\<close>

named_theorems function_defs "the functions the headers declare"
named_theorems support_defs "the type support the headers declare"

subsection \<open>Declarations\<close>

datatype decl_type = Void | Bool | Size | Named string | Const decl_type | Ptr decl_type

text \<open>Without a list of parameters, in \<^verbatim>\<open>f()\<close>, C leaves them open; \<^verbatim>\<open>f(void)\<close> has none.\<close>

datatype prototype = Prototype (returns: decl_type) (symbol: string) (parameters: "decl_type list option")

text \<open>An interface is named by its package, the kind of interface and its own name.\<close>

type_synonym interface_id = "string \<times> string \<times> string"

fun c_name :: "interface_id \<Rightarrow> string" where
  "c_name (p, k, n) = p @ ''__'' @ k @ ''__'' @ n"

subsection \<open>Functions of an interface\<close>

datatype handle = Message_handle | Service_handle | Action_handle

fun handle_type :: "handle \<Rightarrow> decl_type" where
  "handle_type Message_handle = Named ''rosidl_message_type_support_t''"
| "handle_type Service_handle = Named ''rosidl_service_type_support_t''"
| "handle_type Action_handle = Named ''rosidl_action_type_support_t''"

datatype operation =
  Init | Fini | Create "decl_type list option" | Destroy | Are_equal | Copy
| Get_type_hash handle | Get_type_description handle | Get_individual_type_description_source handle
| Get_type_description_sources handle
| Sequence_init | Sequence_fini | Sequence_create | Sequence_destroy | Sequence_are_equal | Sequence_copy

fun suffix_of :: "operation \<Rightarrow> string" where
  "suffix_of Init = ''init''" | "suffix_of Fini = ''fini''" | "suffix_of (Create ps) = ''create''"
| "suffix_of Destroy = ''destroy''" | "suffix_of Are_equal = ''are_equal''" | "suffix_of Copy = ''copy''"
| "suffix_of (Get_type_hash h) = ''get_type_hash''"
| "suffix_of (Get_type_description h) = ''get_type_description''"
| "suffix_of (Get_individual_type_description_source h) = ''get_individual_type_description_source''"
| "suffix_of (Get_type_description_sources h) = ''get_type_description_sources''"
| "suffix_of Sequence_init = ''Sequence__init''" | "suffix_of Sequence_fini = ''Sequence__fini''"
| "suffix_of Sequence_create = ''Sequence__create''" | "suffix_of Sequence_destroy = ''Sequence__destroy''"
| "suffix_of Sequence_are_equal = ''Sequence__are_equal''" | "suffix_of Sequence_copy = ''Sequence__copy''"

definition symbol_of :: "interface_id \<Rightarrow> operation \<Rightarrow> string" where
  "symbol_of i f = c_name i @ ''__'' @ suffix_of f"

definition message_type :: "interface_id \<Rightarrow> decl_type" where
  "message_type i = Named (c_name i)"

definition sequence_type :: "interface_id \<Rightarrow> decl_type" where
  "sequence_type i = Named (c_name i @ ''__Sequence'')"

definition description_type :: "string \<Rightarrow> decl_type" where
  "description_type n = Ptr (Const (Named (''rosidl_runtime_c__type_description__'' @ n)))"

fun result_of :: "interface_id \<Rightarrow> operation \<Rightarrow> decl_type" where
  "result_of i Init = Bool" | "result_of i Fini = Void" | "result_of i (Create ps) = Ptr (message_type i)"
| "result_of i Destroy = Void" | "result_of i Are_equal = Bool" | "result_of i Copy = Bool"
| "result_of i (Get_type_hash h) = Ptr (Const (Named ''rosidl_type_hash_t''))"
| "result_of i (Get_type_description h) = description_type ''TypeDescription''"
| "result_of i (Get_individual_type_description_source h) = description_type ''TypeSource''"
| "result_of i (Get_type_description_sources h) = description_type ''TypeSource__Sequence''"
| "result_of i Sequence_init = Bool" | "result_of i Sequence_fini = Void"
| "result_of i Sequence_create = Ptr (sequence_type i)" | "result_of i Sequence_destroy = Void"
| "result_of i Sequence_are_equal = Bool" | "result_of i Sequence_copy = Bool"

fun parameters_of :: "interface_id \<Rightarrow> operation \<Rightarrow> decl_type list option" where
  "parameters_of i Init = Some [Ptr (message_type i)]" | "parameters_of i Fini = Some [Ptr (message_type i)]"
| "parameters_of i (Create ps) = ps" | "parameters_of i Destroy = Some [Ptr (message_type i)]"
| "parameters_of i Are_equal = Some [Ptr (Const (message_type i)), Ptr (Const (message_type i))]"
| "parameters_of i Copy = Some [Ptr (Const (message_type i)), Ptr (message_type i)]"
| "parameters_of i (Get_type_hash h) = Some [Ptr (Const (handle_type h))]"
| "parameters_of i (Get_type_description h) = Some [Ptr (Const (handle_type h))]"
| "parameters_of i (Get_individual_type_description_source h) = Some [Ptr (Const (handle_type h))]"
| "parameters_of i (Get_type_description_sources h) = Some [Ptr (Const (handle_type h))]"
| "parameters_of i Sequence_init = Some [Ptr (sequence_type i), Size]"
| "parameters_of i Sequence_fini = Some [Ptr (sequence_type i)]"
| "parameters_of i Sequence_create = Some [Size]"
| "parameters_of i Sequence_destroy = Some [Ptr (sequence_type i)]"
| "parameters_of i Sequence_are_equal = Some [Ptr (Const (sequence_type i)), Ptr (Const (sequence_type i))]"
| "parameters_of i Sequence_copy = Some [Ptr (Const (sequence_type i)), Ptr (sequence_type i)]"

definition prototype_of :: "interface_id \<Rightarrow> operation \<Rightarrow> prototype" where
  "prototype_of i f = Prototype (result_of i f) (symbol_of i f) (parameters_of i f)"

text \<open>The section of a header with the functions of one interface, and its declarations.\<close>

datatype function_table = Functions (owner: interface_id) (operations: "operation list")

definition function_prototypes :: "function_table \<Rightarrow> prototype list" where
  "function_prototypes t = map (prototype_of (owner t)) (operations t)"

subsection \<open>Functions of type support\<close>

definition handle_pointer :: "handle \<Rightarrow> decl_type" where
  "handle_pointer h = Ptr (Const (handle_type h))"

text \<open>The declaration of an exported function of a type support; the parameters of the functions that get a handle are
  given, because one header writes \<^verbatim>\<open>(void)\<close> and the other two \<^verbatim>\<open>()\<close>.\<close>

fun exported_prototype :: "string \<Rightarrow> decl_type list option \<Rightarrow> exported \<Rightarrow> prototype" where
  "exported_prototype ts ps (Message p t n) =
     Prototype (handle_pointer Message_handle) (exported_symbol ts (Message p t n)) ps"
| "exported_prototype ts ps (Service p t n) =
     Prototype (handle_pointer Service_handle) (exported_symbol ts (Service p t n)) ps"
| "exported_prototype ts ps (Action p n) =
     Prototype (handle_pointer Action_handle) (exported_symbol ts (Action p n)) ps"
| "exported_prototype ts ps (Create_event p t n) =
     Prototype (Ptr Void) (exported_symbol ts (Create_event p t n))
       (Some [Ptr (Const (Named ''rosidl_service_introspection_info_t'')), Ptr (Named ''rcutils_allocator_t''),
              Ptr (Const Void), Ptr (Const Void)])"
| "exported_prototype ts ps (Destroy_event p t n) =
     Prototype Bool (exported_symbol ts (Destroy_event p t n)) (Some [Ptr Void, Ptr (Named ''rcutils_allocator_t'')])"

datatype xrce_export =
  Serialized_size interface_id | Max_serialized_size interface_id | Handle exported

fun xrce_symbol :: "xrce_export \<Rightarrow> string" where
  "xrce_symbol (Serialized_size i) = ''get_serialized_size_'' @ c_name i"
| "xrce_symbol (Max_serialized_size i) = ''max_serialized_size_'' @ c_name i"
| "xrce_symbol (Handle e) = exported_symbol ''rosidl_typesupport_microxrcedds_c'' e"

fun xrce_prototype :: "xrce_export \<Rightarrow> prototype" where
  "xrce_prototype (Serialized_size i) =
     Prototype Size (xrce_symbol (Serialized_size i)) (Some [Ptr (Const Void), Size])"
| "xrce_prototype (Max_serialized_size i) =
     Prototype Size (xrce_symbol (Max_serialized_size i)) (Some [Ptr Bool, Size])"
| "xrce_prototype (Handle e) = exported_prototype ''rosidl_typesupport_microxrcedds_c'' None e"

lemma symbol_exported_prototype [simp]: "symbol (exported_prototype ts ps e) = exported_symbol ts e"
  by (cases e) simp_all

lemma symbol_xrce_prototype [simp]: "symbol (xrce_prototype x) = xrce_symbol x"
  by (cases x) simp_all

subsection \<open>What the generator declares\<close>

text \<open>For a message, a service and an action: what the three headers of type support export and which functions there
  are. A service consists of three messages, an action of two services and four messages.\<close>

definition message_operations :: "decl_type list option \<Rightarrow> operation list" where
  "message_operations ps =
     [Init, Fini, Create ps, Destroy, Are_equal, Copy, Get_type_hash Message_handle,
      Get_type_description Message_handle, Get_individual_type_description_source Message_handle,
      Get_type_description_sources Message_handle,
      Sequence_init, Sequence_fini, Sequence_create, Sequence_destroy, Sequence_are_equal, Sequence_copy]"

definition description_operations :: "handle \<Rightarrow> operation list" where
  "description_operations h =
     [Get_type_hash h, Get_type_description h, Get_individual_type_description_source h, Get_type_description_sources h]"

definition service_exports :: "string \<Rightarrow> string \<Rightarrow> string \<Rightarrow> exported list" where
  "service_exports p k n =
     [Message p k (n @ ''_Request''), Message p k (n @ ''_Response''), Message p k (n @ ''_Event''),
      Service p k n, Create_event p k n, Destroy_event p k n]"

definition action_exports :: "string \<Rightarrow> string \<Rightarrow> exported list" where
  "action_exports p n =
     [Action p n, Message p ''action'' (n @ ''_Goal''), Message p ''action'' (n @ ''_Result''),
      Message p ''action'' (n @ ''_Feedback'')] @
     service_exports p ''action'' (n @ ''_SendGoal'') @ service_exports p ''action'' (n @ ''_GetResult'') @
     [Message p ''action'' (n @ ''_FeedbackMessage'')]"

fun exports_of :: "interface_id \<Rightarrow> exported list" where
  "exports_of (p, k, n) =
     (if k = ''action'' then action_exports p n else if k = ''srv'' then service_exports p k n else [Message p k n])"

text \<open>The XRCE middleware and the introspection have messages and services, but no handle for an action and no
  functions for the events of a service.\<close>

fun introspection_of :: "exported \<Rightarrow> exported list" where
  "introspection_of (Message p k n) = [Message p k n]"
| "introspection_of (Service p k n) = [Service p k n]"
| "introspection_of _ = []"

fun xrce_of :: "exported \<Rightarrow> xrce_export list" where
  "xrce_of (Message p k n) = [Serialized_size (p, k, n), Max_serialized_size (p, k, n), Handle (Message p k n)]"
| "xrce_of (Service p k n) = [Handle (Service p k n)]"
| "xrce_of _ = []"

text \<open>The functions come in the same order, except that those of a service precede those of its messages.\<close>

definition service_functions :: "string \<Rightarrow> string \<Rightarrow> string \<Rightarrow> function_table list" where
  "service_functions p k n =
     Functions (p, k, n) (description_operations Service_handle) #
     map (\<lambda>part. Functions (p, k, n @ part) (message_operations (Some []))) [''_Request'', ''_Response'', ''_Event'']"

definition action_functions :: "string \<Rightarrow> string \<Rightarrow> function_table list" where
  "action_functions p n =
     Functions (p, ''action'', n) (description_operations Action_handle) #
     map (\<lambda>part. Functions (p, ''action'', n @ part) (message_operations (Some []))) [''_Goal'', ''_Result'', ''_Feedback''] @
     service_functions p ''action'' (n @ ''_SendGoal'') @ service_functions p ''action'' (n @ ''_GetResult'') @
     [Functions (p, ''action'', n @ ''_FeedbackMessage'') (message_operations (Some []))]"

fun functions_of :: "interface_id \<Rightarrow> function_table list" where
  "functions_of (p, k, n) =
     (if k = ''action'' then action_functions p n else if k = ''srv'' then service_functions p k n
      else [Functions (p, k, n) (message_operations (Some []))])"

lemmas generator_defs =
  message_operations_def description_operations_def service_exports_def action_exports_def
  service_functions_def action_functions_def

end
