(* ===== verification/Header_Names.thy ===== *)
theory Header_Names
  imports Header_Symbols
begin

text \<open>
  Why the symbols of generated code are different. The name of a package, a kind and an interface have no two
  underscores in a row and none at the end, so a symbol can be cut into them; and the interface itself is named
  without underscores, so the name of a part of a service or action tells the whole it is a part of.
\<close>

subsection \<open>Names\<close>

text \<open>The name of the interface of which one is a part, and names of interfaces that are no part.\<close>

definition whole :: "string \<Rightarrow> string" where
  "whole n = takeWhile (\<lambda>c. c \<noteq> CHR ''_'') n"

definition simple_name :: "string \<Rightarrow> bool" where
  "simple_name n \<longleftrightarrow> list_all (\<lambda>c. c \<noteq> CHR ''_'') n"

fun root :: "interface_id \<Rightarrow> interface_id" where
  "root (p, k, n) = (p, k, whole n)"

fun well_named_id :: "interface_id \<Rightarrow> bool" where
  "well_named_id (p, k, n) \<longleftrightarrow> well_named p \<and> well_named k \<and> well_named n"

fun simple_id :: "interface_id \<Rightarrow> bool" where
  "simple_id (p, k, n) \<longleftrightarrow> well_named p \<and> well_named k \<and> simple_name n"

lemma whole_simple [simp]: "simple_name n \<Longrightarrow> whole n = n"
  by (simp add: whole_def simple_name_def list_all_iff)

lemma whole_part [simp]: "simple_name n \<Longrightarrow> whole (n @ CHR ''_'' # s) = n"
  by (simp add: whole_def simple_name_def list_all_iff takeWhile_append2)

lemma well_named_simple [simp]: "simple_name n \<Longrightarrow> well_named n"
  by (induction n rule: well_named.induct) (simp_all add: simple_name_def)

lemma well_named_part [simp]:
  "simple_name n \<Longrightarrow> well_named (n @ CHR ''_'' # c # s) \<longleftrightarrow> c \<noteq> CHR ''_'' \<and> well_named (c # s)"
  by (induction n rule: well_named.induct) (simp_all add: simple_name_def)

text \<open>A list put together from pieces, each of which tells where it comes from, has no element twice.\<close>

lemma distinct_pieces:
  assumes "distinct xs" "\<And>x. x \<in> set xs \<Longrightarrow> distinct (f x)"
    and "\<And>x x' y. x \<in> set xs \<Longrightarrow> x' \<in> set xs \<Longrightarrow> y \<in> set (f x) \<Longrightarrow> y \<in> set (f x') \<Longrightarrow> x = x'"
  shows "distinct (concat (map f xs))"
  using assms
proof (induction xs)
  case (Cons a xs)
  have "set (f a) \<inter> set (concat (map f xs)) = {}"
    using Cons.prems(1,3) by fastforce
  moreover have "distinct (concat (map f xs))"
    using Cons.prems by (intro Cons.IH) auto
  ultimately show ?case using Cons.prems(2) by simp
qed simp

subsection \<open>Interfaces and their parts\<close>

fun export_id :: "exported \<Rightarrow> interface_id" where
  "export_id (Message p k n) = (p, k, n)"
| "export_id (Service p k n) = (p, k, n)"
| "export_id (Action p n) = (p, ''action'', n)"
| "export_id (Create_event p k n) = (p, k, n)"
| "export_id (Destroy_event p k n) = (p, k, n)"

lemma exports_of_root:
  "simple_id i \<Longrightarrow> e \<in> set (exports_of i) \<Longrightarrow> root (export_id e) = i \<and> well_named_id (export_id e)"
  by (cases i) (auto simp: service_exports_def action_exports_def split: if_splits)

lemma exports_of_distinct: "distinct (exports_of i)"
  by (cases i) (simp add: service_exports_def action_exports_def)

lemma functions_of_root:
  "simple_id i \<Longrightarrow> t \<in> set (functions_of i) \<Longrightarrow>
     root (owner t) = i \<and> well_named_id (owner t) \<and> distinct (map suffix_of (operations t))"
  by (cases i) (auto simp: generator_defs split: if_splits)

lemma functions_of_distinct: "distinct (map owner (functions_of i))"
  by (cases i) (simp add: service_functions_def action_functions_def)

subsection \<open>Symbols\<close>

lemma c_name_inject:
  "well_named p \<Longrightarrow> well_named k \<Longrightarrow> well_named q \<Longrightarrow> well_named l \<Longrightarrow> c_name (p, k, n) = c_name (q, l, m) \<longleftrightarrow> p = q \<and> k = l \<and> n = m"
  by (metis c_name.simps cut_joined option.inject prod.inject)

lemma symbol_of_inject:
  assumes "well_named_id i" "well_named_id j"
  shows "symbol_of i f = symbol_of j g \<longleftrightarrow> i = j \<and> suffix_of f = suffix_of g"
proof -
  obtain p k n q l m where ij: "i = (p, k, n)" "j = (q, l, m)" by (cases i, cases j)
  have eq: "symbol_of i f = p @ ''__'' @ k @ ''__'' @ n @ ''__'' @ suffix_of f"
    "symbol_of j g = q @ ''__'' @ l @ ''__'' @ m @ ''__'' @ suffix_of g"
    by (simp_all add: ij symbol_of_def)
  show ?thesis unfolding eq using assms unfolding ij well_named_id.simps
    by (metis cut_joined option.inject prod.inject)
qed

text \<open>What is before the first two underscores tells the kinds of symbols apart.\<close>

definition lead :: "string \<Rightarrow> string option" where
  "lead s = map_option fst (cut s)"

lemma lead_joined: "well_named a \<Longrightarrow> lead (a @ ''__'' @ s) = Some a"
  by (simp only: lead_def cut_joined option.map fst_conv)

text \<open>Packages whose names are no part of the other prefixes of symbols.\<close>

definition good_package :: "string \<Rightarrow> bool" where
  "good_package p \<longleftrightarrow> well_named (''get_serialized_size_'' @ p) \<and> well_named (''max_serialized_size_'' @ p) \<and> well_named p \<and>
     take 4 p \<noteq> ''get_'' \<and> take 4 p \<noteq> ''max_'' \<and> take 18 p \<noteq> ''rosidl_typesupport''"

lemma lead_symbol_of: "well_named_id i \<Longrightarrow> lead (symbol_of i f) = Some (fst i)"
  by (cases i) (simp add: symbol_of_def lead_joined [simplified])

lemma lead_exported_symbol: "well_named ts \<Longrightarrow> lead (exported_symbol ts e) = Some ts"
  by (cases e) (simp_all add: symbol_name_defs ROSIDL_TYPESUPPORT_INTERFACE__SYMBOL_NAME_def lead_joined [simplified])

fun xrce_source :: "xrce_export \<Rightarrow> exported" where
  "xrce_source (Serialized_size (p, k, n)) = Message p k n"
| "xrce_source (Max_serialized_size (p, k, n)) = Message p k n"
| "xrce_source (Handle e) = e"

lemma xrce_of_source: "x \<in> set (xrce_of e) \<Longrightarrow> xrce_source x = e"
  by (cases e) auto

lemma introspection_of_source: "d \<in> set (introspection_of e) \<Longrightarrow> d = e"
  by (cases e) auto

lemma derived_distinct:
  assumes "distinct es"
  shows "distinct (concat (map xrce_of es))" "distinct (concat (map introspection_of es))"
proof -
  show "distinct (concat (map xrce_of es))"
  proof (rule distinct_pieces [OF assms])
    show "distinct (xrce_of e)" for e by (cases e) auto
  qed (blast dest: xrce_of_source)
  show "distinct (concat (map introspection_of es))"
  proof (rule distinct_pieces [OF assms])
    show "distinct (introspection_of e)" for e by (cases e) auto
  qed (blast dest: introspection_of_source)
qed

text \<open>What a name must satisfy for the symbols made from it to be told apart.\<close>

definition good_export :: "exported \<Rightarrow> bool" where
  "good_export e \<longleftrightarrow> good_package (fst (export_id e)) \<and> well_named_id (export_id e)"

lemma good_export_well_named: "good_export e \<Longrightarrow> well_named_exported e"
  by (cases e) (simp_all add: good_export_def)

lemma good_leads:
  assumes "good_package p"
  shows "well_named p" "well_named (''get_serialized_size_'' @ p)" "well_named (''max_serialized_size_'' @ p)"
    "p \<noteq> ''get_serialized_size_'' @ q" "p \<noteq> ''max_serialized_size_'' @ q"
    "p \<notin> {''rosidl_typesupport_c'', ''rosidl_typesupport_microxrcedds_c'', ''rosidl_typesupport_introspection_c''}"
  using assms by (auto simp: good_package_def)

lemma middleware_well_named:
  "well_named ''rosidl_typesupport_microxrcedds_c''" "well_named ''rosidl_typesupport_introspection_c''"
  by simp_all

fun xrce_lead :: "xrce_export \<Rightarrow> string" where
  "xrce_lead (Serialized_size (p, k, n)) = ''get_serialized_size_'' @ p"
| "xrce_lead (Max_serialized_size (p, k, n)) = ''max_serialized_size_'' @ p"
| "xrce_lead (Handle e) = ''rosidl_typesupport_microxrcedds_c''"

lemma lead_xrce_symbol:
  assumes "good_export (xrce_source x)"
  shows "lead (xrce_symbol x) = Some (xrce_lead x)"
proof (cases x rule: xrce_lead.cases)
  case (1 p k n)
  with assms have "good_package p" by (simp add: good_export_def)
  from lead_joined [OF good_leads(2) [OF this], of "k @ ''__'' @ n"] show ?thesis by (simp add: 1)
next
  case (2 p k n)
  with assms have "good_package p" by (simp add: good_export_def)
  from lead_joined [OF good_leads(3) [OF this], of "k @ ''__'' @ n"] show ?thesis by (simp add: 2)
qed (simp add: lead_exported_symbol middleware_well_named del: well_named.simps)

lemma xrce_symbol_inject:
  assumes "good_export (xrce_source x)" "good_export (xrce_source y)" "xrce_symbol x = xrce_symbol y"
  shows "x = y"
proof -
  have leads: "xrce_lead x = xrce_lead y"
    using lead_xrce_symbol [OF assms(1)] lead_xrce_symbol [OF assms(2)] assms(3) by simp
  show ?thesis
  proof (cases x rule: xrce_lead.cases)
    case (3 e)
    with leads obtain d where "y = Handle d" by (cases y rule: xrce_lead.cases) simp_all
    with 3 assms show ?thesis
      using exported_symbol_inject [OF middleware_well_named(1,1), of e d] by (simp add: good_export_well_named)
  next
    case (1 p k n)
    with leads obtain l m where "y = Serialized_size (p, l, m)" by (cases y rule: xrce_lead.cases) simp_all
    with 1 assms c_name_inject [of p k p l n m] show ?thesis by (simp add: good_export_def del: c_name.simps)
  next
    case (2 p k n)
    with leads obtain l m where "y = Max_serialized_size (p, l, m)" by (cases y rule: xrce_lead.cases) simp_all
    with 2 assms c_name_inject [of p k p l n m] show ?thesis by (simp add: good_export_def del: c_name.simps)
  qed
qed

end
