(* ===== verification/Functions_Basic.thy ===== *)
theory Functions_Basic
  imports Header_Symbols
begin

text \<open>
  The functions declared for each interface of the packages every client builds on, from the headers
  \<^verbatim>\<open>*__functions.h\<close>, in the order of the headers.
\<close>

subsection \<open>Package builtin interfaces\<close>

definition builtin_interfaces__msg__Duration__functions :: function_table where [function_defs]:
  "builtin_interfaces__msg__Duration__functions = Functions (''builtin_interfaces'', ''msg'', ''Duration'')
     [Init, Fini, Create (Some []), Destroy, Are_equal, Copy, Get_type_hash Message_handle,
      Get_type_description Message_handle, Get_individual_type_description_source Message_handle,
      Get_type_description_sources Message_handle, Sequence_init, Sequence_fini, Sequence_create, Sequence_destroy,
      Sequence_are_equal, Sequence_copy]"

definition builtin_interfaces__msg__Time__functions :: function_table where [function_defs]:
  "builtin_interfaces__msg__Time__functions = Functions (''builtin_interfaces'', ''msg'', ''Time'')
     [Init, Fini, Create (Some []), Destroy, Are_equal, Copy, Get_type_hash Message_handle,
      Get_type_description Message_handle, Get_individual_type_description_source Message_handle,
      Get_type_description_sources Message_handle, Sequence_init, Sequence_fini, Sequence_create, Sequence_destroy,
      Sequence_are_equal, Sequence_copy]"

subsection \<open>Package unique identifier msgs\<close>

definition unique_identifier_msgs__msg__UUID__functions :: function_table where [function_defs]:
  "unique_identifier_msgs__msg__UUID__functions = Functions (''unique_identifier_msgs'', ''msg'', ''UUID'')
     [Init, Fini, Create (Some []), Destroy, Are_equal, Copy, Get_type_hash Message_handle,
      Get_type_description Message_handle, Get_individual_type_description_source Message_handle,
      Get_type_description_sources Message_handle, Sequence_init, Sequence_fini, Sequence_create, Sequence_destroy,
      Sequence_are_equal, Sequence_copy]"

subsection \<open>Package service msgs\<close>

definition service_msgs__msg__ServiceEventInfo__functions :: function_table where [function_defs]:
  "service_msgs__msg__ServiceEventInfo__functions = Functions (''service_msgs'', ''msg'', ''ServiceEventInfo'')
     [Init, Fini, Create (Some []), Destroy, Are_equal, Copy, Get_type_hash Message_handle,
      Get_type_description Message_handle, Get_individual_type_description_source Message_handle,
      Get_type_description_sources Message_handle, Sequence_init, Sequence_fini, Sequence_create, Sequence_destroy,
      Sequence_are_equal, Sequence_copy]"

subsection \<open>Package std msgs\<close>

definition std_msgs__msg__Bool__functions :: function_table where [function_defs]:
  "std_msgs__msg__Bool__functions = Functions (''std_msgs'', ''msg'', ''Bool'')
     [Init, Fini, Create (Some []), Destroy, Are_equal, Copy, Get_type_hash Message_handle,
      Get_type_description Message_handle, Get_individual_type_description_source Message_handle,
      Get_type_description_sources Message_handle, Sequence_init, Sequence_fini, Sequence_create, Sequence_destroy,
      Sequence_are_equal, Sequence_copy]"

definition std_msgs__msg__Byte__functions :: function_table where [function_defs]:
  "std_msgs__msg__Byte__functions = Functions (''std_msgs'', ''msg'', ''Byte'')
     [Init, Fini, Create (Some []), Destroy, Are_equal, Copy, Get_type_hash Message_handle,
      Get_type_description Message_handle, Get_individual_type_description_source Message_handle,
      Get_type_description_sources Message_handle, Sequence_init, Sequence_fini, Sequence_create, Sequence_destroy,
      Sequence_are_equal, Sequence_copy]"

definition std_msgs__msg__ByteMultiArray__functions :: function_table where [function_defs]:
  "std_msgs__msg__ByteMultiArray__functions = Functions (''std_msgs'', ''msg'', ''ByteMultiArray'')
     [Init, Fini, Create (Some []), Destroy, Are_equal, Copy, Get_type_hash Message_handle,
      Get_type_description Message_handle, Get_individual_type_description_source Message_handle,
      Get_type_description_sources Message_handle, Sequence_init, Sequence_fini, Sequence_create, Sequence_destroy,
      Sequence_are_equal, Sequence_copy]"

definition std_msgs__msg__Char__functions :: function_table where [function_defs]:
  "std_msgs__msg__Char__functions = Functions (''std_msgs'', ''msg'', ''Char'')
     [Init, Fini, Create (Some []), Destroy, Are_equal, Copy, Get_type_hash Message_handle,
      Get_type_description Message_handle, Get_individual_type_description_source Message_handle,
      Get_type_description_sources Message_handle, Sequence_init, Sequence_fini, Sequence_create, Sequence_destroy,
      Sequence_are_equal, Sequence_copy]"

definition std_msgs__msg__ColorRGBA__functions :: function_table where [function_defs]:
  "std_msgs__msg__ColorRGBA__functions = Functions (''std_msgs'', ''msg'', ''ColorRGBA'')
     [Init, Fini, Create (Some []), Destroy, Are_equal, Copy, Get_type_hash Message_handle,
      Get_type_description Message_handle, Get_individual_type_description_source Message_handle,
      Get_type_description_sources Message_handle, Sequence_init, Sequence_fini, Sequence_create, Sequence_destroy,
      Sequence_are_equal, Sequence_copy]"

definition std_msgs__msg__Empty__functions :: function_table where [function_defs]:
  "std_msgs__msg__Empty__functions = Functions (''std_msgs'', ''msg'', ''Empty'')
     [Init, Fini, Create (Some []), Destroy, Are_equal, Copy, Get_type_hash Message_handle,
      Get_type_description Message_handle, Get_individual_type_description_source Message_handle,
      Get_type_description_sources Message_handle, Sequence_init, Sequence_fini, Sequence_create, Sequence_destroy,
      Sequence_are_equal, Sequence_copy]"

definition std_msgs__msg__Float32__functions :: function_table where [function_defs]:
  "std_msgs__msg__Float32__functions = Functions (''std_msgs'', ''msg'', ''Float32'')
     [Init, Fini, Create (Some []), Destroy, Are_equal, Copy, Get_type_hash Message_handle,
      Get_type_description Message_handle, Get_individual_type_description_source Message_handle,
      Get_type_description_sources Message_handle, Sequence_init, Sequence_fini, Sequence_create, Sequence_destroy,
      Sequence_are_equal, Sequence_copy]"

definition std_msgs__msg__Float32MultiArray__functions :: function_table where [function_defs]:
  "std_msgs__msg__Float32MultiArray__functions = Functions (''std_msgs'', ''msg'', ''Float32MultiArray'')
     [Init, Fini, Create (Some []), Destroy, Are_equal, Copy, Get_type_hash Message_handle,
      Get_type_description Message_handle, Get_individual_type_description_source Message_handle,
      Get_type_description_sources Message_handle, Sequence_init, Sequence_fini, Sequence_create, Sequence_destroy,
      Sequence_are_equal, Sequence_copy]"

definition std_msgs__msg__Float64__functions :: function_table where [function_defs]:
  "std_msgs__msg__Float64__functions = Functions (''std_msgs'', ''msg'', ''Float64'')
     [Init, Fini, Create (Some []), Destroy, Are_equal, Copy, Get_type_hash Message_handle,
      Get_type_description Message_handle, Get_individual_type_description_source Message_handle,
      Get_type_description_sources Message_handle, Sequence_init, Sequence_fini, Sequence_create, Sequence_destroy,
      Sequence_are_equal, Sequence_copy]"

definition std_msgs__msg__Float64MultiArray__functions :: function_table where [function_defs]:
  "std_msgs__msg__Float64MultiArray__functions = Functions (''std_msgs'', ''msg'', ''Float64MultiArray'')
     [Init, Fini, Create (Some []), Destroy, Are_equal, Copy, Get_type_hash Message_handle,
      Get_type_description Message_handle, Get_individual_type_description_source Message_handle,
      Get_type_description_sources Message_handle, Sequence_init, Sequence_fini, Sequence_create, Sequence_destroy,
      Sequence_are_equal, Sequence_copy]"

definition std_msgs__msg__Header__functions :: function_table where [function_defs]:
  "std_msgs__msg__Header__functions = Functions (''std_msgs'', ''msg'', ''Header'')
     [Init, Fini, Create (Some []), Destroy, Are_equal, Copy, Get_type_hash Message_handle,
      Get_type_description Message_handle, Get_individual_type_description_source Message_handle,
      Get_type_description_sources Message_handle, Sequence_init, Sequence_fini, Sequence_create, Sequence_destroy,
      Sequence_are_equal, Sequence_copy]"

definition std_msgs__msg__Int16__functions :: function_table where [function_defs]:
  "std_msgs__msg__Int16__functions = Functions (''std_msgs'', ''msg'', ''Int16'')
     [Init, Fini, Create (Some []), Destroy, Are_equal, Copy, Get_type_hash Message_handle,
      Get_type_description Message_handle, Get_individual_type_description_source Message_handle,
      Get_type_description_sources Message_handle, Sequence_init, Sequence_fini, Sequence_create, Sequence_destroy,
      Sequence_are_equal, Sequence_copy]"

definition std_msgs__msg__Int16MultiArray__functions :: function_table where [function_defs]:
  "std_msgs__msg__Int16MultiArray__functions = Functions (''std_msgs'', ''msg'', ''Int16MultiArray'')
     [Init, Fini, Create (Some []), Destroy, Are_equal, Copy, Get_type_hash Message_handle,
      Get_type_description Message_handle, Get_individual_type_description_source Message_handle,
      Get_type_description_sources Message_handle, Sequence_init, Sequence_fini, Sequence_create, Sequence_destroy,
      Sequence_are_equal, Sequence_copy]"

definition std_msgs__msg__Int32__functions :: function_table where [function_defs]:
  "std_msgs__msg__Int32__functions = Functions (''std_msgs'', ''msg'', ''Int32'')
     [Init, Fini, Create (Some []), Destroy, Are_equal, Copy, Get_type_hash Message_handle,
      Get_type_description Message_handle, Get_individual_type_description_source Message_handle,
      Get_type_description_sources Message_handle, Sequence_init, Sequence_fini, Sequence_create, Sequence_destroy,
      Sequence_are_equal, Sequence_copy]"

definition std_msgs__msg__Int32MultiArray__functions :: function_table where [function_defs]:
  "std_msgs__msg__Int32MultiArray__functions = Functions (''std_msgs'', ''msg'', ''Int32MultiArray'')
     [Init, Fini, Create (Some []), Destroy, Are_equal, Copy, Get_type_hash Message_handle,
      Get_type_description Message_handle, Get_individual_type_description_source Message_handle,
      Get_type_description_sources Message_handle, Sequence_init, Sequence_fini, Sequence_create, Sequence_destroy,
      Sequence_are_equal, Sequence_copy]"

definition std_msgs__msg__Int64__functions :: function_table where [function_defs]:
  "std_msgs__msg__Int64__functions = Functions (''std_msgs'', ''msg'', ''Int64'')
     [Init, Fini, Create (Some []), Destroy, Are_equal, Copy, Get_type_hash Message_handle,
      Get_type_description Message_handle, Get_individual_type_description_source Message_handle,
      Get_type_description_sources Message_handle, Sequence_init, Sequence_fini, Sequence_create, Sequence_destroy,
      Sequence_are_equal, Sequence_copy]"

definition std_msgs__msg__Int64MultiArray__functions :: function_table where [function_defs]:
  "std_msgs__msg__Int64MultiArray__functions = Functions (''std_msgs'', ''msg'', ''Int64MultiArray'')
     [Init, Fini, Create (Some []), Destroy, Are_equal, Copy, Get_type_hash Message_handle,
      Get_type_description Message_handle, Get_individual_type_description_source Message_handle,
      Get_type_description_sources Message_handle, Sequence_init, Sequence_fini, Sequence_create, Sequence_destroy,
      Sequence_are_equal, Sequence_copy]"

definition std_msgs__msg__Int8__functions :: function_table where [function_defs]:
  "std_msgs__msg__Int8__functions = Functions (''std_msgs'', ''msg'', ''Int8'')
     [Init, Fini, Create (Some []), Destroy, Are_equal, Copy, Get_type_hash Message_handle,
      Get_type_description Message_handle, Get_individual_type_description_source Message_handle,
      Get_type_description_sources Message_handle, Sequence_init, Sequence_fini, Sequence_create, Sequence_destroy,
      Sequence_are_equal, Sequence_copy]"

definition std_msgs__msg__Int8MultiArray__functions :: function_table where [function_defs]:
  "std_msgs__msg__Int8MultiArray__functions = Functions (''std_msgs'', ''msg'', ''Int8MultiArray'')
     [Init, Fini, Create (Some []), Destroy, Are_equal, Copy, Get_type_hash Message_handle,
      Get_type_description Message_handle, Get_individual_type_description_source Message_handle,
      Get_type_description_sources Message_handle, Sequence_init, Sequence_fini, Sequence_create, Sequence_destroy,
      Sequence_are_equal, Sequence_copy]"

definition std_msgs__msg__MultiArrayDimension__functions :: function_table where [function_defs]:
  "std_msgs__msg__MultiArrayDimension__functions = Functions (''std_msgs'', ''msg'', ''MultiArrayDimension'')
     [Init, Fini, Create (Some []), Destroy, Are_equal, Copy, Get_type_hash Message_handle,
      Get_type_description Message_handle, Get_individual_type_description_source Message_handle,
      Get_type_description_sources Message_handle, Sequence_init, Sequence_fini, Sequence_create, Sequence_destroy,
      Sequence_are_equal, Sequence_copy]"

definition std_msgs__msg__MultiArrayLayout__functions :: function_table where [function_defs]:
  "std_msgs__msg__MultiArrayLayout__functions = Functions (''std_msgs'', ''msg'', ''MultiArrayLayout'')
     [Init, Fini, Create (Some []), Destroy, Are_equal, Copy, Get_type_hash Message_handle,
      Get_type_description Message_handle, Get_individual_type_description_source Message_handle,
      Get_type_description_sources Message_handle, Sequence_init, Sequence_fini, Sequence_create, Sequence_destroy,
      Sequence_are_equal, Sequence_copy]"

definition std_msgs__msg__String__functions :: function_table where [function_defs]:
  "std_msgs__msg__String__functions = Functions (''std_msgs'', ''msg'', ''String'')
     [Init, Fini, Create (Some []), Destroy, Are_equal, Copy, Get_type_hash Message_handle,
      Get_type_description Message_handle, Get_individual_type_description_source Message_handle,
      Get_type_description_sources Message_handle, Sequence_init, Sequence_fini, Sequence_create, Sequence_destroy,
      Sequence_are_equal, Sequence_copy]"

definition std_msgs__msg__UInt16__functions :: function_table where [function_defs]:
  "std_msgs__msg__UInt16__functions = Functions (''std_msgs'', ''msg'', ''UInt16'')
     [Init, Fini, Create (Some []), Destroy, Are_equal, Copy, Get_type_hash Message_handle,
      Get_type_description Message_handle, Get_individual_type_description_source Message_handle,
      Get_type_description_sources Message_handle, Sequence_init, Sequence_fini, Sequence_create, Sequence_destroy,
      Sequence_are_equal, Sequence_copy]"

definition std_msgs__msg__UInt16MultiArray__functions :: function_table where [function_defs]:
  "std_msgs__msg__UInt16MultiArray__functions = Functions (''std_msgs'', ''msg'', ''UInt16MultiArray'')
     [Init, Fini, Create (Some []), Destroy, Are_equal, Copy, Get_type_hash Message_handle,
      Get_type_description Message_handle, Get_individual_type_description_source Message_handle,
      Get_type_description_sources Message_handle, Sequence_init, Sequence_fini, Sequence_create, Sequence_destroy,
      Sequence_are_equal, Sequence_copy]"

definition std_msgs__msg__UInt32__functions :: function_table where [function_defs]:
  "std_msgs__msg__UInt32__functions = Functions (''std_msgs'', ''msg'', ''UInt32'')
     [Init, Fini, Create (Some []), Destroy, Are_equal, Copy, Get_type_hash Message_handle,
      Get_type_description Message_handle, Get_individual_type_description_source Message_handle,
      Get_type_description_sources Message_handle, Sequence_init, Sequence_fini, Sequence_create, Sequence_destroy,
      Sequence_are_equal, Sequence_copy]"

definition std_msgs__msg__UInt32MultiArray__functions :: function_table where [function_defs]:
  "std_msgs__msg__UInt32MultiArray__functions = Functions (''std_msgs'', ''msg'', ''UInt32MultiArray'')
     [Init, Fini, Create (Some []), Destroy, Are_equal, Copy, Get_type_hash Message_handle,
      Get_type_description Message_handle, Get_individual_type_description_source Message_handle,
      Get_type_description_sources Message_handle, Sequence_init, Sequence_fini, Sequence_create, Sequence_destroy,
      Sequence_are_equal, Sequence_copy]"

definition std_msgs__msg__UInt64__functions :: function_table where [function_defs]:
  "std_msgs__msg__UInt64__functions = Functions (''std_msgs'', ''msg'', ''UInt64'')
     [Init, Fini, Create (Some []), Destroy, Are_equal, Copy, Get_type_hash Message_handle,
      Get_type_description Message_handle, Get_individual_type_description_source Message_handle,
      Get_type_description_sources Message_handle, Sequence_init, Sequence_fini, Sequence_create, Sequence_destroy,
      Sequence_are_equal, Sequence_copy]"

definition std_msgs__msg__UInt64MultiArray__functions :: function_table where [function_defs]:
  "std_msgs__msg__UInt64MultiArray__functions = Functions (''std_msgs'', ''msg'', ''UInt64MultiArray'')
     [Init, Fini, Create (Some []), Destroy, Are_equal, Copy, Get_type_hash Message_handle,
      Get_type_description Message_handle, Get_individual_type_description_source Message_handle,
      Get_type_description_sources Message_handle, Sequence_init, Sequence_fini, Sequence_create, Sequence_destroy,
      Sequence_are_equal, Sequence_copy]"

definition std_msgs__msg__UInt8__functions :: function_table where [function_defs]:
  "std_msgs__msg__UInt8__functions = Functions (''std_msgs'', ''msg'', ''UInt8'')
     [Init, Fini, Create (Some []), Destroy, Are_equal, Copy, Get_type_hash Message_handle,
      Get_type_description Message_handle, Get_individual_type_description_source Message_handle,
      Get_type_description_sources Message_handle, Sequence_init, Sequence_fini, Sequence_create, Sequence_destroy,
      Sequence_are_equal, Sequence_copy]"

definition std_msgs__msg__UInt8MultiArray__functions :: function_table where [function_defs]:
  "std_msgs__msg__UInt8MultiArray__functions = Functions (''std_msgs'', ''msg'', ''UInt8MultiArray'')
     [Init, Fini, Create (Some []), Destroy, Are_equal, Copy, Get_type_hash Message_handle,
      Get_type_description Message_handle, Get_individual_type_description_source Message_handle,
      Get_type_description_sources Message_handle, Sequence_init, Sequence_fini, Sequence_create, Sequence_destroy,
      Sequence_are_equal, Sequence_copy]"

subsection \<open>Package std srvs\<close>

definition std_srvs__srv__Empty__functions :: function_table where [function_defs]:
  "std_srvs__srv__Empty__functions = Functions (''std_srvs'', ''srv'', ''Empty'')
     [Get_type_hash Service_handle, Get_type_description Service_handle,
      Get_individual_type_description_source Service_handle, Get_type_description_sources Service_handle]"

definition std_srvs__srv__Empty_Request__functions :: function_table where [function_defs]:
  "std_srvs__srv__Empty_Request__functions = Functions (''std_srvs'', ''srv'', ''Empty_Request'')
     [Init, Fini, Create (Some []), Destroy, Are_equal, Copy, Get_type_hash Message_handle,
      Get_type_description Message_handle, Get_individual_type_description_source Message_handle,
      Get_type_description_sources Message_handle, Sequence_init, Sequence_fini, Sequence_create, Sequence_destroy,
      Sequence_are_equal, Sequence_copy]"

definition std_srvs__srv__Empty_Response__functions :: function_table where [function_defs]:
  "std_srvs__srv__Empty_Response__functions = Functions (''std_srvs'', ''srv'', ''Empty_Response'')
     [Init, Fini, Create (Some []), Destroy, Are_equal, Copy, Get_type_hash Message_handle,
      Get_type_description Message_handle, Get_individual_type_description_source Message_handle,
      Get_type_description_sources Message_handle, Sequence_init, Sequence_fini, Sequence_create, Sequence_destroy,
      Sequence_are_equal, Sequence_copy]"

definition std_srvs__srv__Empty_Event__functions :: function_table where [function_defs]:
  "std_srvs__srv__Empty_Event__functions = Functions (''std_srvs'', ''srv'', ''Empty_Event'')
     [Init, Fini, Create (Some []), Destroy, Are_equal, Copy, Get_type_hash Message_handle,
      Get_type_description Message_handle, Get_individual_type_description_source Message_handle,
      Get_type_description_sources Message_handle, Sequence_init, Sequence_fini, Sequence_create, Sequence_destroy,
      Sequence_are_equal, Sequence_copy]"

definition std_srvs__srv__SetBool__functions :: function_table where [function_defs]:
  "std_srvs__srv__SetBool__functions = Functions (''std_srvs'', ''srv'', ''SetBool'')
     [Get_type_hash Service_handle, Get_type_description Service_handle,
      Get_individual_type_description_source Service_handle, Get_type_description_sources Service_handle]"

definition std_srvs__srv__SetBool_Request__functions :: function_table where [function_defs]:
  "std_srvs__srv__SetBool_Request__functions = Functions (''std_srvs'', ''srv'', ''SetBool_Request'')
     [Init, Fini, Create (Some []), Destroy, Are_equal, Copy, Get_type_hash Message_handle,
      Get_type_description Message_handle, Get_individual_type_description_source Message_handle,
      Get_type_description_sources Message_handle, Sequence_init, Sequence_fini, Sequence_create, Sequence_destroy,
      Sequence_are_equal, Sequence_copy]"

definition std_srvs__srv__SetBool_Response__functions :: function_table where [function_defs]:
  "std_srvs__srv__SetBool_Response__functions = Functions (''std_srvs'', ''srv'', ''SetBool_Response'')
     [Init, Fini, Create (Some []), Destroy, Are_equal, Copy, Get_type_hash Message_handle,
      Get_type_description Message_handle, Get_individual_type_description_source Message_handle,
      Get_type_description_sources Message_handle, Sequence_init, Sequence_fini, Sequence_create, Sequence_destroy,
      Sequence_are_equal, Sequence_copy]"

definition std_srvs__srv__SetBool_Event__functions :: function_table where [function_defs]:
  "std_srvs__srv__SetBool_Event__functions = Functions (''std_srvs'', ''srv'', ''SetBool_Event'')
     [Init, Fini, Create (Some []), Destroy, Are_equal, Copy, Get_type_hash Message_handle,
      Get_type_description Message_handle, Get_individual_type_description_source Message_handle,
      Get_type_description_sources Message_handle, Sequence_init, Sequence_fini, Sequence_create, Sequence_destroy,
      Sequence_are_equal, Sequence_copy]"

definition std_srvs__srv__Trigger__functions :: function_table where [function_defs]:
  "std_srvs__srv__Trigger__functions = Functions (''std_srvs'', ''srv'', ''Trigger'')
     [Get_type_hash Service_handle, Get_type_description Service_handle,
      Get_individual_type_description_source Service_handle, Get_type_description_sources Service_handle]"

definition std_srvs__srv__Trigger_Request__functions :: function_table where [function_defs]:
  "std_srvs__srv__Trigger_Request__functions = Functions (''std_srvs'', ''srv'', ''Trigger_Request'')
     [Init, Fini, Create (Some []), Destroy, Are_equal, Copy, Get_type_hash Message_handle,
      Get_type_description Message_handle, Get_individual_type_description_source Message_handle,
      Get_type_description_sources Message_handle, Sequence_init, Sequence_fini, Sequence_create, Sequence_destroy,
      Sequence_are_equal, Sequence_copy]"

definition std_srvs__srv__Trigger_Response__functions :: function_table where [function_defs]:
  "std_srvs__srv__Trigger_Response__functions = Functions (''std_srvs'', ''srv'', ''Trigger_Response'')
     [Init, Fini, Create (Some []), Destroy, Are_equal, Copy, Get_type_hash Message_handle,
      Get_type_description Message_handle, Get_individual_type_description_source Message_handle,
      Get_type_description_sources Message_handle, Sequence_init, Sequence_fini, Sequence_create, Sequence_destroy,
      Sequence_are_equal, Sequence_copy]"

definition std_srvs__srv__Trigger_Event__functions :: function_table where [function_defs]:
  "std_srvs__srv__Trigger_Event__functions = Functions (''std_srvs'', ''srv'', ''Trigger_Event'')
     [Init, Fini, Create (Some []), Destroy, Are_equal, Copy, Get_type_hash Message_handle,
      Get_type_description Message_handle, Get_individual_type_description_source Message_handle,
      Get_type_description_sources Message_handle, Sequence_init, Sequence_fini, Sequence_create, Sequence_destroy,
      Sequence_are_equal, Sequence_copy]"

subsection \<open>Package rosgraph msgs\<close>

definition rosgraph_msgs__msg__Clock__functions :: function_table where [function_defs]:
  "rosgraph_msgs__msg__Clock__functions = Functions (''rosgraph_msgs'', ''msg'', ''Clock'')
     [Init, Fini, Create (Some []), Destroy, Are_equal, Copy, Get_type_hash Message_handle,
      Get_type_description Message_handle, Get_individual_type_description_source Message_handle,
      Get_type_description_sources Message_handle, Sequence_init, Sequence_fini, Sequence_create, Sequence_destroy,
      Sequence_are_equal, Sequence_copy]"

subsection \<open>Package statistics msgs\<close>

definition statistics_msgs__msg__MetricsMessage__functions :: function_table where [function_defs]:
  "statistics_msgs__msg__MetricsMessage__functions = Functions (''statistics_msgs'', ''msg'', ''MetricsMessage'')
     [Init, Fini, Create (Some []), Destroy, Are_equal, Copy, Get_type_hash Message_handle,
      Get_type_description Message_handle, Get_individual_type_description_source Message_handle,
      Get_type_description_sources Message_handle, Sequence_init, Sequence_fini, Sequence_create, Sequence_destroy,
      Sequence_are_equal, Sequence_copy]"

definition statistics_msgs__msg__StatisticDataPoint__functions :: function_table where [function_defs]:
  "statistics_msgs__msg__StatisticDataPoint__functions = Functions (''statistics_msgs'', ''msg'', ''StatisticDataPoint'')
     [Init, Fini, Create (Some []), Destroy, Are_equal, Copy, Get_type_hash Message_handle,
      Get_type_description Message_handle, Get_individual_type_description_source Message_handle,
      Get_type_description_sources Message_handle, Sequence_init, Sequence_fini, Sequence_create, Sequence_destroy,
      Sequence_are_equal, Sequence_copy]"

definition statistics_msgs__msg__StatisticDataType__functions :: function_table where [function_defs]:
  "statistics_msgs__msg__StatisticDataType__functions = Functions (''statistics_msgs'', ''msg'', ''StatisticDataType'')
     [Init, Fini, Create (Some []), Destroy, Are_equal, Copy, Get_type_hash Message_handle,
      Get_type_description Message_handle, Get_individual_type_description_source Message_handle,
      Get_type_description_sources Message_handle, Sequence_init, Sequence_fini, Sequence_create, Sequence_destroy,
      Sequence_are_equal, Sequence_copy]"

subsection \<open>Package micro ros msgs\<close>

definition micro_ros_msgs__msg__Entity__functions :: function_table where [function_defs]:
  "micro_ros_msgs__msg__Entity__functions = Functions (''micro_ros_msgs'', ''msg'', ''Entity'')
     [Init, Fini, Create (Some []), Destroy, Are_equal, Copy, Get_type_hash Message_handle,
      Get_type_description Message_handle, Get_individual_type_description_source Message_handle,
      Get_type_description_sources Message_handle, Sequence_init, Sequence_fini, Sequence_create, Sequence_destroy,
      Sequence_are_equal, Sequence_copy]"

definition micro_ros_msgs__msg__Graph__functions :: function_table where [function_defs]:
  "micro_ros_msgs__msg__Graph__functions = Functions (''micro_ros_msgs'', ''msg'', ''Graph'')
     [Init, Fini, Create (Some []), Destroy, Are_equal, Copy, Get_type_hash Message_handle,
      Get_type_description Message_handle, Get_individual_type_description_source Message_handle,
      Get_type_description_sources Message_handle, Sequence_init, Sequence_fini, Sequence_create, Sequence_destroy,
      Sequence_are_equal, Sequence_copy]"

definition micro_ros_msgs__msg__Node__functions :: function_table where [function_defs]:
  "micro_ros_msgs__msg__Node__functions = Functions (''micro_ros_msgs'', ''msg'', ''Node'')
     [Init, Fini, Create (Some []), Destroy, Are_equal, Copy, Get_type_hash Message_handle,
      Get_type_description Message_handle, Get_individual_type_description_source Message_handle,
      Get_type_description_sources Message_handle, Sequence_init, Sequence_fini, Sequence_create, Sequence_destroy,
      Sequence_are_equal, Sequence_copy]"

subsection \<open>Package action msgs\<close>

definition action_msgs__msg__GoalInfo__functions :: function_table where [function_defs]:
  "action_msgs__msg__GoalInfo__functions = Functions (''action_msgs'', ''msg'', ''GoalInfo'')
     [Init, Fini, Create (Some []), Destroy, Are_equal, Copy, Get_type_hash Message_handle,
      Get_type_description Message_handle, Get_individual_type_description_source Message_handle,
      Get_type_description_sources Message_handle, Sequence_init, Sequence_fini, Sequence_create, Sequence_destroy,
      Sequence_are_equal, Sequence_copy]"

definition action_msgs__msg__GoalStatus__functions :: function_table where [function_defs]:
  "action_msgs__msg__GoalStatus__functions = Functions (''action_msgs'', ''msg'', ''GoalStatus'')
     [Init, Fini, Create (Some []), Destroy, Are_equal, Copy, Get_type_hash Message_handle,
      Get_type_description Message_handle, Get_individual_type_description_source Message_handle,
      Get_type_description_sources Message_handle, Sequence_init, Sequence_fini, Sequence_create, Sequence_destroy,
      Sequence_are_equal, Sequence_copy]"

definition action_msgs__msg__GoalStatusArray__functions :: function_table where [function_defs]:
  "action_msgs__msg__GoalStatusArray__functions = Functions (''action_msgs'', ''msg'', ''GoalStatusArray'')
     [Init, Fini, Create (Some []), Destroy, Are_equal, Copy, Get_type_hash Message_handle,
      Get_type_description Message_handle, Get_individual_type_description_source Message_handle,
      Get_type_description_sources Message_handle, Sequence_init, Sequence_fini, Sequence_create, Sequence_destroy,
      Sequence_are_equal, Sequence_copy]"

definition action_msgs__srv__CancelGoal__functions :: function_table where [function_defs]:
  "action_msgs__srv__CancelGoal__functions = Functions (''action_msgs'', ''srv'', ''CancelGoal'')
     [Get_type_hash Service_handle, Get_type_description Service_handle,
      Get_individual_type_description_source Service_handle, Get_type_description_sources Service_handle]"

definition action_msgs__srv__CancelGoal_Request__functions :: function_table where [function_defs]:
  "action_msgs__srv__CancelGoal_Request__functions = Functions (''action_msgs'', ''srv'', ''CancelGoal_Request'')
     [Init, Fini, Create (Some []), Destroy, Are_equal, Copy, Get_type_hash Message_handle,
      Get_type_description Message_handle, Get_individual_type_description_source Message_handle,
      Get_type_description_sources Message_handle, Sequence_init, Sequence_fini, Sequence_create, Sequence_destroy,
      Sequence_are_equal, Sequence_copy]"

definition action_msgs__srv__CancelGoal_Response__functions :: function_table where [function_defs]:
  "action_msgs__srv__CancelGoal_Response__functions = Functions (''action_msgs'', ''srv'', ''CancelGoal_Response'')
     [Init, Fini, Create (Some []), Destroy, Are_equal, Copy, Get_type_hash Message_handle,
      Get_type_description Message_handle, Get_individual_type_description_source Message_handle,
      Get_type_description_sources Message_handle, Sequence_init, Sequence_fini, Sequence_create, Sequence_destroy,
      Sequence_are_equal, Sequence_copy]"

definition action_msgs__srv__CancelGoal_Event__functions :: function_table where [function_defs]:
  "action_msgs__srv__CancelGoal_Event__functions = Functions (''action_msgs'', ''srv'', ''CancelGoal_Event'')
     [Init, Fini, Create (Some []), Destroy, Are_equal, Copy, Get_type_hash Message_handle,
      Get_type_description Message_handle, Get_individual_type_description_source Message_handle,
      Get_type_description_sources Message_handle, Sequence_init, Sequence_fini, Sequence_create, Sequence_destroy,
      Sequence_are_equal, Sequence_copy]"

subsection \<open>Package lifecycle msgs\<close>

definition lifecycle_msgs__msg__State__functions :: function_table where [function_defs]:
  "lifecycle_msgs__msg__State__functions = Functions (''lifecycle_msgs'', ''msg'', ''State'')
     [Init, Fini, Create (Some []), Destroy, Are_equal, Copy, Get_type_hash Message_handle,
      Get_type_description Message_handle, Get_individual_type_description_source Message_handle,
      Get_type_description_sources Message_handle, Sequence_init, Sequence_fini, Sequence_create, Sequence_destroy,
      Sequence_are_equal, Sequence_copy]"

definition lifecycle_msgs__msg__Transition__functions :: function_table where [function_defs]:
  "lifecycle_msgs__msg__Transition__functions = Functions (''lifecycle_msgs'', ''msg'', ''Transition'')
     [Init, Fini, Create (Some []), Destroy, Are_equal, Copy, Get_type_hash Message_handle,
      Get_type_description Message_handle, Get_individual_type_description_source Message_handle,
      Get_type_description_sources Message_handle, Sequence_init, Sequence_fini, Sequence_create, Sequence_destroy,
      Sequence_are_equal, Sequence_copy]"

definition lifecycle_msgs__msg__TransitionDescription__functions :: function_table where [function_defs]:
  "lifecycle_msgs__msg__TransitionDescription__functions = Functions (''lifecycle_msgs'', ''msg'', ''TransitionDescription'')
     [Init, Fini, Create (Some []), Destroy, Are_equal, Copy, Get_type_hash Message_handle,
      Get_type_description Message_handle, Get_individual_type_description_source Message_handle,
      Get_type_description_sources Message_handle, Sequence_init, Sequence_fini, Sequence_create, Sequence_destroy,
      Sequence_are_equal, Sequence_copy]"

definition lifecycle_msgs__msg__TransitionEvent__functions :: function_table where [function_defs]:
  "lifecycle_msgs__msg__TransitionEvent__functions = Functions (''lifecycle_msgs'', ''msg'', ''TransitionEvent'')
     [Init, Fini, Create (Some []), Destroy, Are_equal, Copy, Get_type_hash Message_handle,
      Get_type_description Message_handle, Get_individual_type_description_source Message_handle,
      Get_type_description_sources Message_handle, Sequence_init, Sequence_fini, Sequence_create, Sequence_destroy,
      Sequence_are_equal, Sequence_copy]"

definition lifecycle_msgs__srv__ChangeState__functions :: function_table where [function_defs]:
  "lifecycle_msgs__srv__ChangeState__functions = Functions (''lifecycle_msgs'', ''srv'', ''ChangeState'')
     [Get_type_hash Service_handle, Get_type_description Service_handle,
      Get_individual_type_description_source Service_handle, Get_type_description_sources Service_handle]"

definition lifecycle_msgs__srv__ChangeState_Request__functions :: function_table where [function_defs]:
  "lifecycle_msgs__srv__ChangeState_Request__functions = Functions (''lifecycle_msgs'', ''srv'', ''ChangeState_Request'')
     [Init, Fini, Create (Some []), Destroy, Are_equal, Copy, Get_type_hash Message_handle,
      Get_type_description Message_handle, Get_individual_type_description_source Message_handle,
      Get_type_description_sources Message_handle, Sequence_init, Sequence_fini, Sequence_create, Sequence_destroy,
      Sequence_are_equal, Sequence_copy]"

definition lifecycle_msgs__srv__ChangeState_Response__functions :: function_table where [function_defs]:
  "lifecycle_msgs__srv__ChangeState_Response__functions = Functions (''lifecycle_msgs'', ''srv'', ''ChangeState_Response'')
     [Init, Fini, Create (Some []), Destroy, Are_equal, Copy, Get_type_hash Message_handle,
      Get_type_description Message_handle, Get_individual_type_description_source Message_handle,
      Get_type_description_sources Message_handle, Sequence_init, Sequence_fini, Sequence_create, Sequence_destroy,
      Sequence_are_equal, Sequence_copy]"

definition lifecycle_msgs__srv__ChangeState_Event__functions :: function_table where [function_defs]:
  "lifecycle_msgs__srv__ChangeState_Event__functions = Functions (''lifecycle_msgs'', ''srv'', ''ChangeState_Event'')
     [Init, Fini, Create (Some []), Destroy, Are_equal, Copy, Get_type_hash Message_handle,
      Get_type_description Message_handle, Get_individual_type_description_source Message_handle,
      Get_type_description_sources Message_handle, Sequence_init, Sequence_fini, Sequence_create, Sequence_destroy,
      Sequence_are_equal, Sequence_copy]"

definition lifecycle_msgs__srv__GetAvailableStates__functions :: function_table where [function_defs]:
  "lifecycle_msgs__srv__GetAvailableStates__functions = Functions (''lifecycle_msgs'', ''srv'', ''GetAvailableStates'')
     [Get_type_hash Service_handle, Get_type_description Service_handle,
      Get_individual_type_description_source Service_handle, Get_type_description_sources Service_handle]"

definition lifecycle_msgs__srv__GetAvailableStates_Request__functions :: function_table where [function_defs]:
  "lifecycle_msgs__srv__GetAvailableStates_Request__functions = Functions (''lifecycle_msgs'', ''srv'', ''GetAvailableStates_Request'')
     [Init, Fini, Create (Some []), Destroy, Are_equal, Copy, Get_type_hash Message_handle,
      Get_type_description Message_handle, Get_individual_type_description_source Message_handle,
      Get_type_description_sources Message_handle, Sequence_init, Sequence_fini, Sequence_create, Sequence_destroy,
      Sequence_are_equal, Sequence_copy]"

definition lifecycle_msgs__srv__GetAvailableStates_Response__functions :: function_table where [function_defs]:
  "lifecycle_msgs__srv__GetAvailableStates_Response__functions = Functions (''lifecycle_msgs'', ''srv'', ''GetAvailableStates_Response'')
     [Init, Fini, Create (Some []), Destroy, Are_equal, Copy, Get_type_hash Message_handle,
      Get_type_description Message_handle, Get_individual_type_description_source Message_handle,
      Get_type_description_sources Message_handle, Sequence_init, Sequence_fini, Sequence_create, Sequence_destroy,
      Sequence_are_equal, Sequence_copy]"

definition lifecycle_msgs__srv__GetAvailableStates_Event__functions :: function_table where [function_defs]:
  "lifecycle_msgs__srv__GetAvailableStates_Event__functions = Functions (''lifecycle_msgs'', ''srv'', ''GetAvailableStates_Event'')
     [Init, Fini, Create (Some []), Destroy, Are_equal, Copy, Get_type_hash Message_handle,
      Get_type_description Message_handle, Get_individual_type_description_source Message_handle,
      Get_type_description_sources Message_handle, Sequence_init, Sequence_fini, Sequence_create, Sequence_destroy,
      Sequence_are_equal, Sequence_copy]"

definition lifecycle_msgs__srv__GetAvailableTransitions__functions :: function_table where [function_defs]:
  "lifecycle_msgs__srv__GetAvailableTransitions__functions = Functions (''lifecycle_msgs'', ''srv'', ''GetAvailableTransitions'')
     [Get_type_hash Service_handle, Get_type_description Service_handle,
      Get_individual_type_description_source Service_handle, Get_type_description_sources Service_handle]"

definition lifecycle_msgs__srv__GetAvailableTransitions_Request__functions :: function_table where [function_defs]:
  "lifecycle_msgs__srv__GetAvailableTransitions_Request__functions = Functions (''lifecycle_msgs'', ''srv'', ''GetAvailableTransitions_Request'')
     [Init, Fini, Create (Some []), Destroy, Are_equal, Copy, Get_type_hash Message_handle,
      Get_type_description Message_handle, Get_individual_type_description_source Message_handle,
      Get_type_description_sources Message_handle, Sequence_init, Sequence_fini, Sequence_create, Sequence_destroy,
      Sequence_are_equal, Sequence_copy]"

definition lifecycle_msgs__srv__GetAvailableTransitions_Response__functions :: function_table where [function_defs]:
  "lifecycle_msgs__srv__GetAvailableTransitions_Response__functions = Functions (''lifecycle_msgs'', ''srv'', ''GetAvailableTransitions_Response'')
     [Init, Fini, Create (Some []), Destroy, Are_equal, Copy, Get_type_hash Message_handle,
      Get_type_description Message_handle, Get_individual_type_description_source Message_handle,
      Get_type_description_sources Message_handle, Sequence_init, Sequence_fini, Sequence_create, Sequence_destroy,
      Sequence_are_equal, Sequence_copy]"

definition lifecycle_msgs__srv__GetAvailableTransitions_Event__functions :: function_table where [function_defs]:
  "lifecycle_msgs__srv__GetAvailableTransitions_Event__functions = Functions (''lifecycle_msgs'', ''srv'', ''GetAvailableTransitions_Event'')
     [Init, Fini, Create (Some []), Destroy, Are_equal, Copy, Get_type_hash Message_handle,
      Get_type_description Message_handle, Get_individual_type_description_source Message_handle,
      Get_type_description_sources Message_handle, Sequence_init, Sequence_fini, Sequence_create, Sequence_destroy,
      Sequence_are_equal, Sequence_copy]"

definition lifecycle_msgs__srv__GetState__functions :: function_table where [function_defs]:
  "lifecycle_msgs__srv__GetState__functions = Functions (''lifecycle_msgs'', ''srv'', ''GetState'')
     [Get_type_hash Service_handle, Get_type_description Service_handle,
      Get_individual_type_description_source Service_handle, Get_type_description_sources Service_handle]"

definition lifecycle_msgs__srv__GetState_Request__functions :: function_table where [function_defs]:
  "lifecycle_msgs__srv__GetState_Request__functions = Functions (''lifecycle_msgs'', ''srv'', ''GetState_Request'')
     [Init, Fini, Create (Some []), Destroy, Are_equal, Copy, Get_type_hash Message_handle,
      Get_type_description Message_handle, Get_individual_type_description_source Message_handle,
      Get_type_description_sources Message_handle, Sequence_init, Sequence_fini, Sequence_create, Sequence_destroy,
      Sequence_are_equal, Sequence_copy]"

definition lifecycle_msgs__srv__GetState_Response__functions :: function_table where [function_defs]:
  "lifecycle_msgs__srv__GetState_Response__functions = Functions (''lifecycle_msgs'', ''srv'', ''GetState_Response'')
     [Init, Fini, Create (Some []), Destroy, Are_equal, Copy, Get_type_hash Message_handle,
      Get_type_description Message_handle, Get_individual_type_description_source Message_handle,
      Get_type_description_sources Message_handle, Sequence_init, Sequence_fini, Sequence_create, Sequence_destroy,
      Sequence_are_equal, Sequence_copy]"

definition lifecycle_msgs__srv__GetState_Event__functions :: function_table where [function_defs]:
  "lifecycle_msgs__srv__GetState_Event__functions = Functions (''lifecycle_msgs'', ''srv'', ''GetState_Event'')
     [Init, Fini, Create (Some []), Destroy, Are_equal, Copy, Get_type_hash Message_handle,
      Get_type_description Message_handle, Get_individual_type_description_source Message_handle,
      Get_type_description_sources Message_handle, Sequence_init, Sequence_fini, Sequence_create, Sequence_destroy,
      Sequence_are_equal, Sequence_copy]"

subsection \<open>Package rcl interfaces\<close>

definition rcl_interfaces__msg__FloatingPointRange__functions :: function_table where [function_defs]:
  "rcl_interfaces__msg__FloatingPointRange__functions = Functions (''rcl_interfaces'', ''msg'', ''FloatingPointRange'')
     [Init, Fini, Create (Some []), Destroy, Are_equal, Copy, Get_type_hash Message_handle,
      Get_type_description Message_handle, Get_individual_type_description_source Message_handle,
      Get_type_description_sources Message_handle, Sequence_init, Sequence_fini, Sequence_create, Sequence_destroy,
      Sequence_are_equal, Sequence_copy]"

definition rcl_interfaces__msg__IntegerRange__functions :: function_table where [function_defs]:
  "rcl_interfaces__msg__IntegerRange__functions = Functions (''rcl_interfaces'', ''msg'', ''IntegerRange'')
     [Init, Fini, Create (Some []), Destroy, Are_equal, Copy, Get_type_hash Message_handle,
      Get_type_description Message_handle, Get_individual_type_description_source Message_handle,
      Get_type_description_sources Message_handle, Sequence_init, Sequence_fini, Sequence_create, Sequence_destroy,
      Sequence_are_equal, Sequence_copy]"

definition rcl_interfaces__msg__ListParametersResult__functions :: function_table where [function_defs]:
  "rcl_interfaces__msg__ListParametersResult__functions = Functions (''rcl_interfaces'', ''msg'', ''ListParametersResult'')
     [Init, Fini, Create (Some []), Destroy, Are_equal, Copy, Get_type_hash Message_handle,
      Get_type_description Message_handle, Get_individual_type_description_source Message_handle,
      Get_type_description_sources Message_handle, Sequence_init, Sequence_fini, Sequence_create, Sequence_destroy,
      Sequence_are_equal, Sequence_copy]"

definition rcl_interfaces__msg__Log__functions :: function_table where [function_defs]:
  "rcl_interfaces__msg__Log__functions = Functions (''rcl_interfaces'', ''msg'', ''Log'')
     [Init, Fini, Create (Some []), Destroy, Are_equal, Copy, Get_type_hash Message_handle,
      Get_type_description Message_handle, Get_individual_type_description_source Message_handle,
      Get_type_description_sources Message_handle, Sequence_init, Sequence_fini, Sequence_create, Sequence_destroy,
      Sequence_are_equal, Sequence_copy]"

definition rcl_interfaces__msg__LoggerLevel__functions :: function_table where [function_defs]:
  "rcl_interfaces__msg__LoggerLevel__functions = Functions (''rcl_interfaces'', ''msg'', ''LoggerLevel'')
     [Init, Fini, Create (Some []), Destroy, Are_equal, Copy, Get_type_hash Message_handle,
      Get_type_description Message_handle, Get_individual_type_description_source Message_handle,
      Get_type_description_sources Message_handle, Sequence_init, Sequence_fini, Sequence_create, Sequence_destroy,
      Sequence_are_equal, Sequence_copy]"

definition rcl_interfaces__msg__Parameter__functions :: function_table where [function_defs]:
  "rcl_interfaces__msg__Parameter__functions = Functions (''rcl_interfaces'', ''msg'', ''Parameter'')
     [Init, Fini, Create (Some []), Destroy, Are_equal, Copy, Get_type_hash Message_handle,
      Get_type_description Message_handle, Get_individual_type_description_source Message_handle,
      Get_type_description_sources Message_handle, Sequence_init, Sequence_fini, Sequence_create, Sequence_destroy,
      Sequence_are_equal, Sequence_copy]"

definition rcl_interfaces__msg__ParameterDescriptor__functions :: function_table where [function_defs]:
  "rcl_interfaces__msg__ParameterDescriptor__functions = Functions (''rcl_interfaces'', ''msg'', ''ParameterDescriptor'')
     [Init, Fini, Create (Some []), Destroy, Are_equal, Copy, Get_type_hash Message_handle,
      Get_type_description Message_handle, Get_individual_type_description_source Message_handle,
      Get_type_description_sources Message_handle, Sequence_init, Sequence_fini, Sequence_create, Sequence_destroy,
      Sequence_are_equal, Sequence_copy]"

definition rcl_interfaces__msg__ParameterEvent__functions :: function_table where [function_defs]:
  "rcl_interfaces__msg__ParameterEvent__functions = Functions (''rcl_interfaces'', ''msg'', ''ParameterEvent'')
     [Init, Fini, Create (Some []), Destroy, Are_equal, Copy, Get_type_hash Message_handle,
      Get_type_description Message_handle, Get_individual_type_description_source Message_handle,
      Get_type_description_sources Message_handle, Sequence_init, Sequence_fini, Sequence_create, Sequence_destroy,
      Sequence_are_equal, Sequence_copy]"

definition rcl_interfaces__msg__ParameterEventDescriptors__functions :: function_table where [function_defs]:
  "rcl_interfaces__msg__ParameterEventDescriptors__functions = Functions (''rcl_interfaces'', ''msg'', ''ParameterEventDescriptors'')
     [Init, Fini, Create (Some []), Destroy, Are_equal, Copy, Get_type_hash Message_handle,
      Get_type_description Message_handle, Get_individual_type_description_source Message_handle,
      Get_type_description_sources Message_handle, Sequence_init, Sequence_fini, Sequence_create, Sequence_destroy,
      Sequence_are_equal, Sequence_copy]"

definition rcl_interfaces__msg__ParameterType__functions :: function_table where [function_defs]:
  "rcl_interfaces__msg__ParameterType__functions = Functions (''rcl_interfaces'', ''msg'', ''ParameterType'')
     [Init, Fini, Create (Some []), Destroy, Are_equal, Copy, Get_type_hash Message_handle,
      Get_type_description Message_handle, Get_individual_type_description_source Message_handle,
      Get_type_description_sources Message_handle, Sequence_init, Sequence_fini, Sequence_create, Sequence_destroy,
      Sequence_are_equal, Sequence_copy]"

definition rcl_interfaces__msg__ParameterValue__functions :: function_table where [function_defs]:
  "rcl_interfaces__msg__ParameterValue__functions = Functions (''rcl_interfaces'', ''msg'', ''ParameterValue'')
     [Init, Fini, Create (Some []), Destroy, Are_equal, Copy, Get_type_hash Message_handle,
      Get_type_description Message_handle, Get_individual_type_description_source Message_handle,
      Get_type_description_sources Message_handle, Sequence_init, Sequence_fini, Sequence_create, Sequence_destroy,
      Sequence_are_equal, Sequence_copy]"

definition rcl_interfaces__msg__SetLoggerLevelsResult__functions :: function_table where [function_defs]:
  "rcl_interfaces__msg__SetLoggerLevelsResult__functions = Functions (''rcl_interfaces'', ''msg'', ''SetLoggerLevelsResult'')
     [Init, Fini, Create (Some []), Destroy, Are_equal, Copy, Get_type_hash Message_handle,
      Get_type_description Message_handle, Get_individual_type_description_source Message_handle,
      Get_type_description_sources Message_handle, Sequence_init, Sequence_fini, Sequence_create, Sequence_destroy,
      Sequence_are_equal, Sequence_copy]"

definition rcl_interfaces__msg__SetParametersResult__functions :: function_table where [function_defs]:
  "rcl_interfaces__msg__SetParametersResult__functions = Functions (''rcl_interfaces'', ''msg'', ''SetParametersResult'')
     [Init, Fini, Create (Some []), Destroy, Are_equal, Copy, Get_type_hash Message_handle,
      Get_type_description Message_handle, Get_individual_type_description_source Message_handle,
      Get_type_description_sources Message_handle, Sequence_init, Sequence_fini, Sequence_create, Sequence_destroy,
      Sequence_are_equal, Sequence_copy]"

definition rcl_interfaces__srv__DescribeParameters__functions :: function_table where [function_defs]:
  "rcl_interfaces__srv__DescribeParameters__functions = Functions (''rcl_interfaces'', ''srv'', ''DescribeParameters'')
     [Get_type_hash Service_handle, Get_type_description Service_handle,
      Get_individual_type_description_source Service_handle, Get_type_description_sources Service_handle]"

definition rcl_interfaces__srv__DescribeParameters_Request__functions :: function_table where [function_defs]:
  "rcl_interfaces__srv__DescribeParameters_Request__functions = Functions (''rcl_interfaces'', ''srv'', ''DescribeParameters_Request'')
     [Init, Fini, Create (Some []), Destroy, Are_equal, Copy, Get_type_hash Message_handle,
      Get_type_description Message_handle, Get_individual_type_description_source Message_handle,
      Get_type_description_sources Message_handle, Sequence_init, Sequence_fini, Sequence_create, Sequence_destroy,
      Sequence_are_equal, Sequence_copy]"

definition rcl_interfaces__srv__DescribeParameters_Response__functions :: function_table where [function_defs]:
  "rcl_interfaces__srv__DescribeParameters_Response__functions = Functions (''rcl_interfaces'', ''srv'', ''DescribeParameters_Response'')
     [Init, Fini, Create (Some []), Destroy, Are_equal, Copy, Get_type_hash Message_handle,
      Get_type_description Message_handle, Get_individual_type_description_source Message_handle,
      Get_type_description_sources Message_handle, Sequence_init, Sequence_fini, Sequence_create, Sequence_destroy,
      Sequence_are_equal, Sequence_copy]"

definition rcl_interfaces__srv__DescribeParameters_Event__functions :: function_table where [function_defs]:
  "rcl_interfaces__srv__DescribeParameters_Event__functions = Functions (''rcl_interfaces'', ''srv'', ''DescribeParameters_Event'')
     [Init, Fini, Create (Some []), Destroy, Are_equal, Copy, Get_type_hash Message_handle,
      Get_type_description Message_handle, Get_individual_type_description_source Message_handle,
      Get_type_description_sources Message_handle, Sequence_init, Sequence_fini, Sequence_create, Sequence_destroy,
      Sequence_are_equal, Sequence_copy]"

definition rcl_interfaces__srv__GetLoggerLevels__functions :: function_table where [function_defs]:
  "rcl_interfaces__srv__GetLoggerLevels__functions = Functions (''rcl_interfaces'', ''srv'', ''GetLoggerLevels'')
     [Get_type_hash Service_handle, Get_type_description Service_handle,
      Get_individual_type_description_source Service_handle, Get_type_description_sources Service_handle]"

definition rcl_interfaces__srv__GetLoggerLevels_Request__functions :: function_table where [function_defs]:
  "rcl_interfaces__srv__GetLoggerLevels_Request__functions = Functions (''rcl_interfaces'', ''srv'', ''GetLoggerLevels_Request'')
     [Init, Fini, Create (Some []), Destroy, Are_equal, Copy, Get_type_hash Message_handle,
      Get_type_description Message_handle, Get_individual_type_description_source Message_handle,
      Get_type_description_sources Message_handle, Sequence_init, Sequence_fini, Sequence_create, Sequence_destroy,
      Sequence_are_equal, Sequence_copy]"

definition rcl_interfaces__srv__GetLoggerLevels_Response__functions :: function_table where [function_defs]:
  "rcl_interfaces__srv__GetLoggerLevels_Response__functions = Functions (''rcl_interfaces'', ''srv'', ''GetLoggerLevels_Response'')
     [Init, Fini, Create (Some []), Destroy, Are_equal, Copy, Get_type_hash Message_handle,
      Get_type_description Message_handle, Get_individual_type_description_source Message_handle,
      Get_type_description_sources Message_handle, Sequence_init, Sequence_fini, Sequence_create, Sequence_destroy,
      Sequence_are_equal, Sequence_copy]"

definition rcl_interfaces__srv__GetLoggerLevels_Event__functions :: function_table where [function_defs]:
  "rcl_interfaces__srv__GetLoggerLevels_Event__functions = Functions (''rcl_interfaces'', ''srv'', ''GetLoggerLevels_Event'')
     [Init, Fini, Create (Some []), Destroy, Are_equal, Copy, Get_type_hash Message_handle,
      Get_type_description Message_handle, Get_individual_type_description_source Message_handle,
      Get_type_description_sources Message_handle, Sequence_init, Sequence_fini, Sequence_create, Sequence_destroy,
      Sequence_are_equal, Sequence_copy]"

definition rcl_interfaces__srv__GetParameterTypes__functions :: function_table where [function_defs]:
  "rcl_interfaces__srv__GetParameterTypes__functions = Functions (''rcl_interfaces'', ''srv'', ''GetParameterTypes'')
     [Get_type_hash Service_handle, Get_type_description Service_handle,
      Get_individual_type_description_source Service_handle, Get_type_description_sources Service_handle]"

definition rcl_interfaces__srv__GetParameterTypes_Request__functions :: function_table where [function_defs]:
  "rcl_interfaces__srv__GetParameterTypes_Request__functions = Functions (''rcl_interfaces'', ''srv'', ''GetParameterTypes_Request'')
     [Init, Fini, Create (Some []), Destroy, Are_equal, Copy, Get_type_hash Message_handle,
      Get_type_description Message_handle, Get_individual_type_description_source Message_handle,
      Get_type_description_sources Message_handle, Sequence_init, Sequence_fini, Sequence_create, Sequence_destroy,
      Sequence_are_equal, Sequence_copy]"

definition rcl_interfaces__srv__GetParameterTypes_Response__functions :: function_table where [function_defs]:
  "rcl_interfaces__srv__GetParameterTypes_Response__functions = Functions (''rcl_interfaces'', ''srv'', ''GetParameterTypes_Response'')
     [Init, Fini, Create (Some []), Destroy, Are_equal, Copy, Get_type_hash Message_handle,
      Get_type_description Message_handle, Get_individual_type_description_source Message_handle,
      Get_type_description_sources Message_handle, Sequence_init, Sequence_fini, Sequence_create, Sequence_destroy,
      Sequence_are_equal, Sequence_copy]"

definition rcl_interfaces__srv__GetParameterTypes_Event__functions :: function_table where [function_defs]:
  "rcl_interfaces__srv__GetParameterTypes_Event__functions = Functions (''rcl_interfaces'', ''srv'', ''GetParameterTypes_Event'')
     [Init, Fini, Create (Some []), Destroy, Are_equal, Copy, Get_type_hash Message_handle,
      Get_type_description Message_handle, Get_individual_type_description_source Message_handle,
      Get_type_description_sources Message_handle, Sequence_init, Sequence_fini, Sequence_create, Sequence_destroy,
      Sequence_are_equal, Sequence_copy]"

definition rcl_interfaces__srv__GetParameters__functions :: function_table where [function_defs]:
  "rcl_interfaces__srv__GetParameters__functions = Functions (''rcl_interfaces'', ''srv'', ''GetParameters'')
     [Get_type_hash Service_handle, Get_type_description Service_handle,
      Get_individual_type_description_source Service_handle, Get_type_description_sources Service_handle]"

definition rcl_interfaces__srv__GetParameters_Request__functions :: function_table where [function_defs]:
  "rcl_interfaces__srv__GetParameters_Request__functions = Functions (''rcl_interfaces'', ''srv'', ''GetParameters_Request'')
     [Init, Fini, Create (Some []), Destroy, Are_equal, Copy, Get_type_hash Message_handle,
      Get_type_description Message_handle, Get_individual_type_description_source Message_handle,
      Get_type_description_sources Message_handle, Sequence_init, Sequence_fini, Sequence_create, Sequence_destroy,
      Sequence_are_equal, Sequence_copy]"

definition rcl_interfaces__srv__GetParameters_Response__functions :: function_table where [function_defs]:
  "rcl_interfaces__srv__GetParameters_Response__functions = Functions (''rcl_interfaces'', ''srv'', ''GetParameters_Response'')
     [Init, Fini, Create (Some []), Destroy, Are_equal, Copy, Get_type_hash Message_handle,
      Get_type_description Message_handle, Get_individual_type_description_source Message_handle,
      Get_type_description_sources Message_handle, Sequence_init, Sequence_fini, Sequence_create, Sequence_destroy,
      Sequence_are_equal, Sequence_copy]"

definition rcl_interfaces__srv__GetParameters_Event__functions :: function_table where [function_defs]:
  "rcl_interfaces__srv__GetParameters_Event__functions = Functions (''rcl_interfaces'', ''srv'', ''GetParameters_Event'')
     [Init, Fini, Create (Some []), Destroy, Are_equal, Copy, Get_type_hash Message_handle,
      Get_type_description Message_handle, Get_individual_type_description_source Message_handle,
      Get_type_description_sources Message_handle, Sequence_init, Sequence_fini, Sequence_create, Sequence_destroy,
      Sequence_are_equal, Sequence_copy]"

definition rcl_interfaces__srv__ListParameters__functions :: function_table where [function_defs]:
  "rcl_interfaces__srv__ListParameters__functions = Functions (''rcl_interfaces'', ''srv'', ''ListParameters'')
     [Get_type_hash Service_handle, Get_type_description Service_handle,
      Get_individual_type_description_source Service_handle, Get_type_description_sources Service_handle]"

definition rcl_interfaces__srv__ListParameters_Request__functions :: function_table where [function_defs]:
  "rcl_interfaces__srv__ListParameters_Request__functions = Functions (''rcl_interfaces'', ''srv'', ''ListParameters_Request'')
     [Init, Fini, Create (Some []), Destroy, Are_equal, Copy, Get_type_hash Message_handle,
      Get_type_description Message_handle, Get_individual_type_description_source Message_handle,
      Get_type_description_sources Message_handle, Sequence_init, Sequence_fini, Sequence_create, Sequence_destroy,
      Sequence_are_equal, Sequence_copy]"

definition rcl_interfaces__srv__ListParameters_Response__functions :: function_table where [function_defs]:
  "rcl_interfaces__srv__ListParameters_Response__functions = Functions (''rcl_interfaces'', ''srv'', ''ListParameters_Response'')
     [Init, Fini, Create (Some []), Destroy, Are_equal, Copy, Get_type_hash Message_handle,
      Get_type_description Message_handle, Get_individual_type_description_source Message_handle,
      Get_type_description_sources Message_handle, Sequence_init, Sequence_fini, Sequence_create, Sequence_destroy,
      Sequence_are_equal, Sequence_copy]"

definition rcl_interfaces__srv__ListParameters_Event__functions :: function_table where [function_defs]:
  "rcl_interfaces__srv__ListParameters_Event__functions = Functions (''rcl_interfaces'', ''srv'', ''ListParameters_Event'')
     [Init, Fini, Create (Some []), Destroy, Are_equal, Copy, Get_type_hash Message_handle,
      Get_type_description Message_handle, Get_individual_type_description_source Message_handle,
      Get_type_description_sources Message_handle, Sequence_init, Sequence_fini, Sequence_create, Sequence_destroy,
      Sequence_are_equal, Sequence_copy]"

definition rcl_interfaces__srv__SetLoggerLevels__functions :: function_table where [function_defs]:
  "rcl_interfaces__srv__SetLoggerLevels__functions = Functions (''rcl_interfaces'', ''srv'', ''SetLoggerLevels'')
     [Get_type_hash Service_handle, Get_type_description Service_handle,
      Get_individual_type_description_source Service_handle, Get_type_description_sources Service_handle]"

definition rcl_interfaces__srv__SetLoggerLevels_Request__functions :: function_table where [function_defs]:
  "rcl_interfaces__srv__SetLoggerLevels_Request__functions = Functions (''rcl_interfaces'', ''srv'', ''SetLoggerLevels_Request'')
     [Init, Fini, Create (Some []), Destroy, Are_equal, Copy, Get_type_hash Message_handle,
      Get_type_description Message_handle, Get_individual_type_description_source Message_handle,
      Get_type_description_sources Message_handle, Sequence_init, Sequence_fini, Sequence_create, Sequence_destroy,
      Sequence_are_equal, Sequence_copy]"

definition rcl_interfaces__srv__SetLoggerLevels_Response__functions :: function_table where [function_defs]:
  "rcl_interfaces__srv__SetLoggerLevels_Response__functions = Functions (''rcl_interfaces'', ''srv'', ''SetLoggerLevels_Response'')
     [Init, Fini, Create (Some []), Destroy, Are_equal, Copy, Get_type_hash Message_handle,
      Get_type_description Message_handle, Get_individual_type_description_source Message_handle,
      Get_type_description_sources Message_handle, Sequence_init, Sequence_fini, Sequence_create, Sequence_destroy,
      Sequence_are_equal, Sequence_copy]"

definition rcl_interfaces__srv__SetLoggerLevels_Event__functions :: function_table where [function_defs]:
  "rcl_interfaces__srv__SetLoggerLevels_Event__functions = Functions (''rcl_interfaces'', ''srv'', ''SetLoggerLevels_Event'')
     [Init, Fini, Create (Some []), Destroy, Are_equal, Copy, Get_type_hash Message_handle,
      Get_type_description Message_handle, Get_individual_type_description_source Message_handle,
      Get_type_description_sources Message_handle, Sequence_init, Sequence_fini, Sequence_create, Sequence_destroy,
      Sequence_are_equal, Sequence_copy]"

definition rcl_interfaces__srv__SetParameters__functions :: function_table where [function_defs]:
  "rcl_interfaces__srv__SetParameters__functions = Functions (''rcl_interfaces'', ''srv'', ''SetParameters'')
     [Get_type_hash Service_handle, Get_type_description Service_handle,
      Get_individual_type_description_source Service_handle, Get_type_description_sources Service_handle]"

definition rcl_interfaces__srv__SetParameters_Request__functions :: function_table where [function_defs]:
  "rcl_interfaces__srv__SetParameters_Request__functions = Functions (''rcl_interfaces'', ''srv'', ''SetParameters_Request'')
     [Init, Fini, Create (Some []), Destroy, Are_equal, Copy, Get_type_hash Message_handle,
      Get_type_description Message_handle, Get_individual_type_description_source Message_handle,
      Get_type_description_sources Message_handle, Sequence_init, Sequence_fini, Sequence_create, Sequence_destroy,
      Sequence_are_equal, Sequence_copy]"

definition rcl_interfaces__srv__SetParameters_Response__functions :: function_table where [function_defs]:
  "rcl_interfaces__srv__SetParameters_Response__functions = Functions (''rcl_interfaces'', ''srv'', ''SetParameters_Response'')
     [Init, Fini, Create (Some []), Destroy, Are_equal, Copy, Get_type_hash Message_handle,
      Get_type_description Message_handle, Get_individual_type_description_source Message_handle,
      Get_type_description_sources Message_handle, Sequence_init, Sequence_fini, Sequence_create, Sequence_destroy,
      Sequence_are_equal, Sequence_copy]"

definition rcl_interfaces__srv__SetParameters_Event__functions :: function_table where [function_defs]:
  "rcl_interfaces__srv__SetParameters_Event__functions = Functions (''rcl_interfaces'', ''srv'', ''SetParameters_Event'')
     [Init, Fini, Create (Some []), Destroy, Are_equal, Copy, Get_type_hash Message_handle,
      Get_type_description Message_handle, Get_individual_type_description_source Message_handle,
      Get_type_description_sources Message_handle, Sequence_init, Sequence_fini, Sequence_create, Sequence_destroy,
      Sequence_are_equal, Sequence_copy]"

definition rcl_interfaces__srv__SetParametersAtomically__functions :: function_table where [function_defs]:
  "rcl_interfaces__srv__SetParametersAtomically__functions = Functions (''rcl_interfaces'', ''srv'', ''SetParametersAtomically'')
     [Get_type_hash Service_handle, Get_type_description Service_handle,
      Get_individual_type_description_source Service_handle, Get_type_description_sources Service_handle]"

definition rcl_interfaces__srv__SetParametersAtomically_Request__functions :: function_table where [function_defs]:
  "rcl_interfaces__srv__SetParametersAtomically_Request__functions = Functions (''rcl_interfaces'', ''srv'', ''SetParametersAtomically_Request'')
     [Init, Fini, Create (Some []), Destroy, Are_equal, Copy, Get_type_hash Message_handle,
      Get_type_description Message_handle, Get_individual_type_description_source Message_handle,
      Get_type_description_sources Message_handle, Sequence_init, Sequence_fini, Sequence_create, Sequence_destroy,
      Sequence_are_equal, Sequence_copy]"

definition rcl_interfaces__srv__SetParametersAtomically_Response__functions :: function_table where [function_defs]:
  "rcl_interfaces__srv__SetParametersAtomically_Response__functions = Functions (''rcl_interfaces'', ''srv'', ''SetParametersAtomically_Response'')
     [Init, Fini, Create (Some []), Destroy, Are_equal, Copy, Get_type_hash Message_handle,
      Get_type_description Message_handle, Get_individual_type_description_source Message_handle,
      Get_type_description_sources Message_handle, Sequence_init, Sequence_fini, Sequence_create, Sequence_destroy,
      Sequence_are_equal, Sequence_copy]"

definition rcl_interfaces__srv__SetParametersAtomically_Event__functions :: function_table where [function_defs]:
  "rcl_interfaces__srv__SetParametersAtomically_Event__functions = Functions (''rcl_interfaces'', ''srv'', ''SetParametersAtomically_Event'')
     [Init, Fini, Create (Some []), Destroy, Are_equal, Copy, Get_type_hash Message_handle,
      Get_type_description Message_handle, Get_individual_type_description_source Message_handle,
      Get_type_description_sources Message_handle, Sequence_init, Sequence_fini, Sequence_create, Sequence_destroy,
      Sequence_are_equal, Sequence_copy]"

subsection \<open>Package composition interfaces\<close>

definition composition_interfaces__srv__ListNodes__functions :: function_table where [function_defs]:
  "composition_interfaces__srv__ListNodes__functions = Functions (''composition_interfaces'', ''srv'', ''ListNodes'')
     [Get_type_hash Service_handle, Get_type_description Service_handle,
      Get_individual_type_description_source Service_handle, Get_type_description_sources Service_handle]"

definition composition_interfaces__srv__ListNodes_Request__functions :: function_table where [function_defs]:
  "composition_interfaces__srv__ListNodes_Request__functions = Functions (''composition_interfaces'', ''srv'', ''ListNodes_Request'')
     [Init, Fini, Create (Some []), Destroy, Are_equal, Copy, Get_type_hash Message_handle,
      Get_type_description Message_handle, Get_individual_type_description_source Message_handle,
      Get_type_description_sources Message_handle, Sequence_init, Sequence_fini, Sequence_create, Sequence_destroy,
      Sequence_are_equal, Sequence_copy]"

definition composition_interfaces__srv__ListNodes_Response__functions :: function_table where [function_defs]:
  "composition_interfaces__srv__ListNodes_Response__functions = Functions (''composition_interfaces'', ''srv'', ''ListNodes_Response'')
     [Init, Fini, Create (Some []), Destroy, Are_equal, Copy, Get_type_hash Message_handle,
      Get_type_description Message_handle, Get_individual_type_description_source Message_handle,
      Get_type_description_sources Message_handle, Sequence_init, Sequence_fini, Sequence_create, Sequence_destroy,
      Sequence_are_equal, Sequence_copy]"

definition composition_interfaces__srv__ListNodes_Event__functions :: function_table where [function_defs]:
  "composition_interfaces__srv__ListNodes_Event__functions = Functions (''composition_interfaces'', ''srv'', ''ListNodes_Event'')
     [Init, Fini, Create (Some []), Destroy, Are_equal, Copy, Get_type_hash Message_handle,
      Get_type_description Message_handle, Get_individual_type_description_source Message_handle,
      Get_type_description_sources Message_handle, Sequence_init, Sequence_fini, Sequence_create, Sequence_destroy,
      Sequence_are_equal, Sequence_copy]"

definition composition_interfaces__srv__LoadNode__functions :: function_table where [function_defs]:
  "composition_interfaces__srv__LoadNode__functions = Functions (''composition_interfaces'', ''srv'', ''LoadNode'')
     [Get_type_hash Service_handle, Get_type_description Service_handle,
      Get_individual_type_description_source Service_handle, Get_type_description_sources Service_handle]"

definition composition_interfaces__srv__LoadNode_Request__functions :: function_table where [function_defs]:
  "composition_interfaces__srv__LoadNode_Request__functions = Functions (''composition_interfaces'', ''srv'', ''LoadNode_Request'')
     [Init, Fini, Create (Some []), Destroy, Are_equal, Copy, Get_type_hash Message_handle,
      Get_type_description Message_handle, Get_individual_type_description_source Message_handle,
      Get_type_description_sources Message_handle, Sequence_init, Sequence_fini, Sequence_create, Sequence_destroy,
      Sequence_are_equal, Sequence_copy]"

definition composition_interfaces__srv__LoadNode_Response__functions :: function_table where [function_defs]:
  "composition_interfaces__srv__LoadNode_Response__functions = Functions (''composition_interfaces'', ''srv'', ''LoadNode_Response'')
     [Init, Fini, Create (Some []), Destroy, Are_equal, Copy, Get_type_hash Message_handle,
      Get_type_description Message_handle, Get_individual_type_description_source Message_handle,
      Get_type_description_sources Message_handle, Sequence_init, Sequence_fini, Sequence_create, Sequence_destroy,
      Sequence_are_equal, Sequence_copy]"

definition composition_interfaces__srv__LoadNode_Event__functions :: function_table where [function_defs]:
  "composition_interfaces__srv__LoadNode_Event__functions = Functions (''composition_interfaces'', ''srv'', ''LoadNode_Event'')
     [Init, Fini, Create (Some []), Destroy, Are_equal, Copy, Get_type_hash Message_handle,
      Get_type_description Message_handle, Get_individual_type_description_source Message_handle,
      Get_type_description_sources Message_handle, Sequence_init, Sequence_fini, Sequence_create, Sequence_destroy,
      Sequence_are_equal, Sequence_copy]"

definition composition_interfaces__srv__UnloadNode__functions :: function_table where [function_defs]:
  "composition_interfaces__srv__UnloadNode__functions = Functions (''composition_interfaces'', ''srv'', ''UnloadNode'')
     [Get_type_hash Service_handle, Get_type_description Service_handle,
      Get_individual_type_description_source Service_handle, Get_type_description_sources Service_handle]"

definition composition_interfaces__srv__UnloadNode_Request__functions :: function_table where [function_defs]:
  "composition_interfaces__srv__UnloadNode_Request__functions = Functions (''composition_interfaces'', ''srv'', ''UnloadNode_Request'')
     [Init, Fini, Create (Some []), Destroy, Are_equal, Copy, Get_type_hash Message_handle,
      Get_type_description Message_handle, Get_individual_type_description_source Message_handle,
      Get_type_description_sources Message_handle, Sequence_init, Sequence_fini, Sequence_create, Sequence_destroy,
      Sequence_are_equal, Sequence_copy]"

definition composition_interfaces__srv__UnloadNode_Response__functions :: function_table where [function_defs]:
  "composition_interfaces__srv__UnloadNode_Response__functions = Functions (''composition_interfaces'', ''srv'', ''UnloadNode_Response'')
     [Init, Fini, Create (Some []), Destroy, Are_equal, Copy, Get_type_hash Message_handle,
      Get_type_description Message_handle, Get_individual_type_description_source Message_handle,
      Get_type_description_sources Message_handle, Sequence_init, Sequence_fini, Sequence_create, Sequence_destroy,
      Sequence_are_equal, Sequence_copy]"

definition composition_interfaces__srv__UnloadNode_Event__functions :: function_table where [function_defs]:
  "composition_interfaces__srv__UnloadNode_Event__functions = Functions (''composition_interfaces'', ''srv'', ''UnloadNode_Event'')
     [Init, Fini, Create (Some []), Destroy, Are_equal, Copy, Get_type_hash Message_handle,
      Get_type_description Message_handle, Get_individual_type_description_source Message_handle,
      Get_type_description_sources Message_handle, Sequence_init, Sequence_fini, Sequence_create, Sequence_destroy,
      Sequence_are_equal, Sequence_copy]"

subsection \<open>Package rosidl runtime c\<close>

definition rosidl_runtime_c__type_description__Field__functions :: function_table where [function_defs]:
  "rosidl_runtime_c__type_description__Field__functions = Functions (''rosidl_runtime_c'', ''type_description'', ''Field'')
     [Init, Fini, Create None, Destroy, Are_equal, Copy, Get_type_hash Message_handle,
      Get_type_description Message_handle, Get_individual_type_description_source Message_handle,
      Get_type_description_sources Message_handle, Sequence_init, Sequence_fini, Sequence_create, Sequence_destroy,
      Sequence_are_equal, Sequence_copy]"

definition rosidl_runtime_c__type_description__FieldType__functions :: function_table where [function_defs]:
  "rosidl_runtime_c__type_description__FieldType__functions = Functions (''rosidl_runtime_c'', ''type_description'', ''FieldType'')
     [Init, Fini, Create None, Destroy, Are_equal, Copy, Get_type_hash Message_handle,
      Get_type_description Message_handle, Get_individual_type_description_source Message_handle,
      Get_type_description_sources Message_handle, Sequence_init, Sequence_fini, Sequence_create, Sequence_destroy,
      Sequence_are_equal, Sequence_copy]"

definition rosidl_runtime_c__type_description__IndividualTypeDescription__functions :: function_table where [function_defs]:
  "rosidl_runtime_c__type_description__IndividualTypeDescription__functions = Functions (''rosidl_runtime_c'', ''type_description'', ''IndividualTypeDescription'')
     [Init, Fini, Create None, Destroy, Are_equal, Copy, Get_type_hash Message_handle,
      Get_type_description Message_handle, Get_individual_type_description_source Message_handle,
      Get_type_description_sources Message_handle, Sequence_init, Sequence_fini, Sequence_create, Sequence_destroy,
      Sequence_are_equal, Sequence_copy]"

definition rosidl_runtime_c__type_description__KeyValue__functions :: function_table where [function_defs]:
  "rosidl_runtime_c__type_description__KeyValue__functions = Functions (''rosidl_runtime_c'', ''type_description'', ''KeyValue'')
     [Init, Fini, Create None, Destroy, Are_equal, Copy, Get_type_hash Message_handle,
      Get_type_description Message_handle, Get_individual_type_description_source Message_handle,
      Get_type_description_sources Message_handle, Sequence_init, Sequence_fini, Sequence_create, Sequence_destroy,
      Sequence_are_equal, Sequence_copy]"

definition rosidl_runtime_c__type_description__TypeDescription__functions :: function_table where [function_defs]:
  "rosidl_runtime_c__type_description__TypeDescription__functions = Functions (''rosidl_runtime_c'', ''type_description'', ''TypeDescription'')
     [Init, Fini, Create None, Destroy, Are_equal, Copy, Get_type_hash Message_handle,
      Get_type_description Message_handle, Get_individual_type_description_source Message_handle,
      Get_type_description_sources Message_handle, Sequence_init, Sequence_fini, Sequence_create, Sequence_destroy,
      Sequence_are_equal, Sequence_copy]"

definition rosidl_runtime_c__type_description__TypeSource__functions :: function_table where [function_defs]:
  "rosidl_runtime_c__type_description__TypeSource__functions = Functions (''rosidl_runtime_c'', ''type_description'', ''TypeSource'')
     [Init, Fini, Create None, Destroy, Are_equal, Copy, Get_type_hash Message_handle,
      Get_type_description Message_handle, Get_individual_type_description_source Message_handle,
      Get_type_description_sources Message_handle, Sequence_init, Sequence_fini, Sequence_create, Sequence_destroy,
      Sequence_are_equal, Sequence_copy]"

subsection \<open>Package type description interfaces\<close>

definition type_description_interfaces__msg__Field__functions :: function_table where [function_defs]:
  "type_description_interfaces__msg__Field__functions = Functions (''type_description_interfaces'', ''msg'', ''Field'')
     [Init, Fini, Create (Some []), Destroy, Are_equal, Copy, Get_type_hash Message_handle,
      Get_type_description Message_handle, Get_individual_type_description_source Message_handle,
      Get_type_description_sources Message_handle, Sequence_init, Sequence_fini, Sequence_create, Sequence_destroy,
      Sequence_are_equal, Sequence_copy]"

definition type_description_interfaces__msg__FieldType__functions :: function_table where [function_defs]:
  "type_description_interfaces__msg__FieldType__functions = Functions (''type_description_interfaces'', ''msg'', ''FieldType'')
     [Init, Fini, Create (Some []), Destroy, Are_equal, Copy, Get_type_hash Message_handle,
      Get_type_description Message_handle, Get_individual_type_description_source Message_handle,
      Get_type_description_sources Message_handle, Sequence_init, Sequence_fini, Sequence_create, Sequence_destroy,
      Sequence_are_equal, Sequence_copy]"

definition type_description_interfaces__msg__IndividualTypeDescription__functions :: function_table where [function_defs]:
  "type_description_interfaces__msg__IndividualTypeDescription__functions = Functions (''type_description_interfaces'', ''msg'', ''IndividualTypeDescription'')
     [Init, Fini, Create (Some []), Destroy, Are_equal, Copy, Get_type_hash Message_handle,
      Get_type_description Message_handle, Get_individual_type_description_source Message_handle,
      Get_type_description_sources Message_handle, Sequence_init, Sequence_fini, Sequence_create, Sequence_destroy,
      Sequence_are_equal, Sequence_copy]"

definition type_description_interfaces__msg__KeyValue__functions :: function_table where [function_defs]:
  "type_description_interfaces__msg__KeyValue__functions = Functions (''type_description_interfaces'', ''msg'', ''KeyValue'')
     [Init, Fini, Create (Some []), Destroy, Are_equal, Copy, Get_type_hash Message_handle,
      Get_type_description Message_handle, Get_individual_type_description_source Message_handle,
      Get_type_description_sources Message_handle, Sequence_init, Sequence_fini, Sequence_create, Sequence_destroy,
      Sequence_are_equal, Sequence_copy]"

definition type_description_interfaces__msg__TypeDescription__functions :: function_table where [function_defs]:
  "type_description_interfaces__msg__TypeDescription__functions = Functions (''type_description_interfaces'', ''msg'', ''TypeDescription'')
     [Init, Fini, Create (Some []), Destroy, Are_equal, Copy, Get_type_hash Message_handle,
      Get_type_description Message_handle, Get_individual_type_description_source Message_handle,
      Get_type_description_sources Message_handle, Sequence_init, Sequence_fini, Sequence_create, Sequence_destroy,
      Sequence_are_equal, Sequence_copy]"

definition type_description_interfaces__msg__TypeSource__functions :: function_table where [function_defs]:
  "type_description_interfaces__msg__TypeSource__functions = Functions (''type_description_interfaces'', ''msg'', ''TypeSource'')
     [Init, Fini, Create (Some []), Destroy, Are_equal, Copy, Get_type_hash Message_handle,
      Get_type_description Message_handle, Get_individual_type_description_source Message_handle,
      Get_type_description_sources Message_handle, Sequence_init, Sequence_fini, Sequence_create, Sequence_destroy,
      Sequence_are_equal, Sequence_copy]"

definition type_description_interfaces__srv__GetTypeDescription__functions :: function_table where [function_defs]:
  "type_description_interfaces__srv__GetTypeDescription__functions = Functions (''type_description_interfaces'', ''srv'', ''GetTypeDescription'')
     [Get_type_hash Service_handle, Get_type_description Service_handle,
      Get_individual_type_description_source Service_handle, Get_type_description_sources Service_handle]"

definition type_description_interfaces__srv__GetTypeDescription_Request__functions :: function_table where [function_defs]:
  "type_description_interfaces__srv__GetTypeDescription_Request__functions = Functions (''type_description_interfaces'', ''srv'', ''GetTypeDescription_Request'')
     [Init, Fini, Create (Some []), Destroy, Are_equal, Copy, Get_type_hash Message_handle,
      Get_type_description Message_handle, Get_individual_type_description_source Message_handle,
      Get_type_description_sources Message_handle, Sequence_init, Sequence_fini, Sequence_create, Sequence_destroy,
      Sequence_are_equal, Sequence_copy]"

definition type_description_interfaces__srv__GetTypeDescription_Response__functions :: function_table where [function_defs]:
  "type_description_interfaces__srv__GetTypeDescription_Response__functions = Functions (''type_description_interfaces'', ''srv'', ''GetTypeDescription_Response'')
     [Init, Fini, Create (Some []), Destroy, Are_equal, Copy, Get_type_hash Message_handle,
      Get_type_description Message_handle, Get_individual_type_description_source Message_handle,
      Get_type_description_sources Message_handle, Sequence_init, Sequence_fini, Sequence_create, Sequence_destroy,
      Sequence_are_equal, Sequence_copy]"

definition type_description_interfaces__srv__GetTypeDescription_Event__functions :: function_table where [function_defs]:
  "type_description_interfaces__srv__GetTypeDescription_Event__functions = Functions (''type_description_interfaces'', ''srv'', ''GetTypeDescription_Event'')
     [Init, Fini, Create (Some []), Destroy, Are_equal, Copy, Get_type_hash Message_handle,
      Get_type_description Message_handle, Get_individual_type_description_source Message_handle,
      Get_type_description_sources Message_handle, Sequence_init, Sequence_fini, Sequence_create, Sequence_destroy,
      Sequence_are_equal, Sequence_copy]"

subsection \<open>Package diagnostic msgs\<close>

definition diagnostic_msgs__msg__DiagnosticArray__functions :: function_table where [function_defs]:
  "diagnostic_msgs__msg__DiagnosticArray__functions = Functions (''diagnostic_msgs'', ''msg'', ''DiagnosticArray'')
     [Init, Fini, Create (Some []), Destroy, Are_equal, Copy, Get_type_hash Message_handle,
      Get_type_description Message_handle, Get_individual_type_description_source Message_handle,
      Get_type_description_sources Message_handle, Sequence_init, Sequence_fini, Sequence_create, Sequence_destroy,
      Sequence_are_equal, Sequence_copy]"

definition diagnostic_msgs__msg__DiagnosticStatus__functions :: function_table where [function_defs]:
  "diagnostic_msgs__msg__DiagnosticStatus__functions = Functions (''diagnostic_msgs'', ''msg'', ''DiagnosticStatus'')
     [Init, Fini, Create (Some []), Destroy, Are_equal, Copy, Get_type_hash Message_handle,
      Get_type_description Message_handle, Get_individual_type_description_source Message_handle,
      Get_type_description_sources Message_handle, Sequence_init, Sequence_fini, Sequence_create, Sequence_destroy,
      Sequence_are_equal, Sequence_copy]"

definition diagnostic_msgs__msg__KeyValue__functions :: function_table where [function_defs]:
  "diagnostic_msgs__msg__KeyValue__functions = Functions (''diagnostic_msgs'', ''msg'', ''KeyValue'')
     [Init, Fini, Create (Some []), Destroy, Are_equal, Copy, Get_type_hash Message_handle,
      Get_type_description Message_handle, Get_individual_type_description_source Message_handle,
      Get_type_description_sources Message_handle, Sequence_init, Sequence_fini, Sequence_create, Sequence_destroy,
      Sequence_are_equal, Sequence_copy]"

definition diagnostic_msgs__srv__AddDiagnostics__functions :: function_table where [function_defs]:
  "diagnostic_msgs__srv__AddDiagnostics__functions = Functions (''diagnostic_msgs'', ''srv'', ''AddDiagnostics'')
     [Get_type_hash Service_handle, Get_type_description Service_handle,
      Get_individual_type_description_source Service_handle, Get_type_description_sources Service_handle]"

definition diagnostic_msgs__srv__AddDiagnostics_Request__functions :: function_table where [function_defs]:
  "diagnostic_msgs__srv__AddDiagnostics_Request__functions = Functions (''diagnostic_msgs'', ''srv'', ''AddDiagnostics_Request'')
     [Init, Fini, Create (Some []), Destroy, Are_equal, Copy, Get_type_hash Message_handle,
      Get_type_description Message_handle, Get_individual_type_description_source Message_handle,
      Get_type_description_sources Message_handle, Sequence_init, Sequence_fini, Sequence_create, Sequence_destroy,
      Sequence_are_equal, Sequence_copy]"

definition diagnostic_msgs__srv__AddDiagnostics_Response__functions :: function_table where [function_defs]:
  "diagnostic_msgs__srv__AddDiagnostics_Response__functions = Functions (''diagnostic_msgs'', ''srv'', ''AddDiagnostics_Response'')
     [Init, Fini, Create (Some []), Destroy, Are_equal, Copy, Get_type_hash Message_handle,
      Get_type_description Message_handle, Get_individual_type_description_source Message_handle,
      Get_type_description_sources Message_handle, Sequence_init, Sequence_fini, Sequence_create, Sequence_destroy,
      Sequence_are_equal, Sequence_copy]"

definition diagnostic_msgs__srv__AddDiagnostics_Event__functions :: function_table where [function_defs]:
  "diagnostic_msgs__srv__AddDiagnostics_Event__functions = Functions (''diagnostic_msgs'', ''srv'', ''AddDiagnostics_Event'')
     [Init, Fini, Create (Some []), Destroy, Are_equal, Copy, Get_type_hash Message_handle,
      Get_type_description Message_handle, Get_individual_type_description_source Message_handle,
      Get_type_description_sources Message_handle, Sequence_init, Sequence_fini, Sequence_create, Sequence_destroy,
      Sequence_are_equal, Sequence_copy]"

definition diagnostic_msgs__srv__SelfTest__functions :: function_table where [function_defs]:
  "diagnostic_msgs__srv__SelfTest__functions = Functions (''diagnostic_msgs'', ''srv'', ''SelfTest'')
     [Get_type_hash Service_handle, Get_type_description Service_handle,
      Get_individual_type_description_source Service_handle, Get_type_description_sources Service_handle]"

definition diagnostic_msgs__srv__SelfTest_Request__functions :: function_table where [function_defs]:
  "diagnostic_msgs__srv__SelfTest_Request__functions = Functions (''diagnostic_msgs'', ''srv'', ''SelfTest_Request'')
     [Init, Fini, Create (Some []), Destroy, Are_equal, Copy, Get_type_hash Message_handle,
      Get_type_description Message_handle, Get_individual_type_description_source Message_handle,
      Get_type_description_sources Message_handle, Sequence_init, Sequence_fini, Sequence_create, Sequence_destroy,
      Sequence_are_equal, Sequence_copy]"

definition diagnostic_msgs__srv__SelfTest_Response__functions :: function_table where [function_defs]:
  "diagnostic_msgs__srv__SelfTest_Response__functions = Functions (''diagnostic_msgs'', ''srv'', ''SelfTest_Response'')
     [Init, Fini, Create (Some []), Destroy, Are_equal, Copy, Get_type_hash Message_handle,
      Get_type_description Message_handle, Get_individual_type_description_source Message_handle,
      Get_type_description_sources Message_handle, Sequence_init, Sequence_fini, Sequence_create, Sequence_destroy,
      Sequence_are_equal, Sequence_copy]"

definition diagnostic_msgs__srv__SelfTest_Event__functions :: function_table where [function_defs]:
  "diagnostic_msgs__srv__SelfTest_Event__functions = Functions (''diagnostic_msgs'', ''srv'', ''SelfTest_Event'')
     [Init, Fini, Create (Some []), Destroy, Are_equal, Copy, Get_type_hash Message_handle,
      Get_type_description Message_handle, Get_individual_type_description_source Message_handle,
      Get_type_description_sources Message_handle, Sequence_init, Sequence_fini, Sequence_create, Sequence_destroy,
      Sequence_are_equal, Sequence_copy]"

subsection \<open>Package example interfaces\<close>

definition example_interfaces__action__Fibonacci__functions :: function_table where [function_defs]:
  "example_interfaces__action__Fibonacci__functions = Functions (''example_interfaces'', ''action'', ''Fibonacci'')
     [Get_type_hash Action_handle, Get_type_description Action_handle,
      Get_individual_type_description_source Action_handle, Get_type_description_sources Action_handle]"

definition example_interfaces__action__Fibonacci_Goal__functions :: function_table where [function_defs]:
  "example_interfaces__action__Fibonacci_Goal__functions = Functions (''example_interfaces'', ''action'', ''Fibonacci_Goal'')
     [Init, Fini, Create (Some []), Destroy, Are_equal, Copy, Get_type_hash Message_handle,
      Get_type_description Message_handle, Get_individual_type_description_source Message_handle,
      Get_type_description_sources Message_handle, Sequence_init, Sequence_fini, Sequence_create, Sequence_destroy,
      Sequence_are_equal, Sequence_copy]"

definition example_interfaces__action__Fibonacci_Result__functions :: function_table where [function_defs]:
  "example_interfaces__action__Fibonacci_Result__functions = Functions (''example_interfaces'', ''action'', ''Fibonacci_Result'')
     [Init, Fini, Create (Some []), Destroy, Are_equal, Copy, Get_type_hash Message_handle,
      Get_type_description Message_handle, Get_individual_type_description_source Message_handle,
      Get_type_description_sources Message_handle, Sequence_init, Sequence_fini, Sequence_create, Sequence_destroy,
      Sequence_are_equal, Sequence_copy]"

definition example_interfaces__action__Fibonacci_Feedback__functions :: function_table where [function_defs]:
  "example_interfaces__action__Fibonacci_Feedback__functions = Functions (''example_interfaces'', ''action'', ''Fibonacci_Feedback'')
     [Init, Fini, Create (Some []), Destroy, Are_equal, Copy, Get_type_hash Message_handle,
      Get_type_description Message_handle, Get_individual_type_description_source Message_handle,
      Get_type_description_sources Message_handle, Sequence_init, Sequence_fini, Sequence_create, Sequence_destroy,
      Sequence_are_equal, Sequence_copy]"

definition example_interfaces__action__Fibonacci_SendGoal__functions :: function_table where [function_defs]:
  "example_interfaces__action__Fibonacci_SendGoal__functions = Functions (''example_interfaces'', ''action'', ''Fibonacci_SendGoal'')
     [Get_type_hash Service_handle, Get_type_description Service_handle,
      Get_individual_type_description_source Service_handle, Get_type_description_sources Service_handle]"

definition example_interfaces__action__Fibonacci_SendGoal_Request__functions :: function_table where [function_defs]:
  "example_interfaces__action__Fibonacci_SendGoal_Request__functions = Functions (''example_interfaces'', ''action'', ''Fibonacci_SendGoal_Request'')
     [Init, Fini, Create (Some []), Destroy, Are_equal, Copy, Get_type_hash Message_handle,
      Get_type_description Message_handle, Get_individual_type_description_source Message_handle,
      Get_type_description_sources Message_handle, Sequence_init, Sequence_fini, Sequence_create, Sequence_destroy,
      Sequence_are_equal, Sequence_copy]"

definition example_interfaces__action__Fibonacci_SendGoal_Response__functions :: function_table where [function_defs]:
  "example_interfaces__action__Fibonacci_SendGoal_Response__functions = Functions (''example_interfaces'', ''action'', ''Fibonacci_SendGoal_Response'')
     [Init, Fini, Create (Some []), Destroy, Are_equal, Copy, Get_type_hash Message_handle,
      Get_type_description Message_handle, Get_individual_type_description_source Message_handle,
      Get_type_description_sources Message_handle, Sequence_init, Sequence_fini, Sequence_create, Sequence_destroy,
      Sequence_are_equal, Sequence_copy]"

definition example_interfaces__action__Fibonacci_SendGoal_Event__functions :: function_table where [function_defs]:
  "example_interfaces__action__Fibonacci_SendGoal_Event__functions = Functions (''example_interfaces'', ''action'', ''Fibonacci_SendGoal_Event'')
     [Init, Fini, Create (Some []), Destroy, Are_equal, Copy, Get_type_hash Message_handle,
      Get_type_description Message_handle, Get_individual_type_description_source Message_handle,
      Get_type_description_sources Message_handle, Sequence_init, Sequence_fini, Sequence_create, Sequence_destroy,
      Sequence_are_equal, Sequence_copy]"

definition example_interfaces__action__Fibonacci_GetResult__functions :: function_table where [function_defs]:
  "example_interfaces__action__Fibonacci_GetResult__functions = Functions (''example_interfaces'', ''action'', ''Fibonacci_GetResult'')
     [Get_type_hash Service_handle, Get_type_description Service_handle,
      Get_individual_type_description_source Service_handle, Get_type_description_sources Service_handle]"

definition example_interfaces__action__Fibonacci_GetResult_Request__functions :: function_table where [function_defs]:
  "example_interfaces__action__Fibonacci_GetResult_Request__functions = Functions (''example_interfaces'', ''action'', ''Fibonacci_GetResult_Request'')
     [Init, Fini, Create (Some []), Destroy, Are_equal, Copy, Get_type_hash Message_handle,
      Get_type_description Message_handle, Get_individual_type_description_source Message_handle,
      Get_type_description_sources Message_handle, Sequence_init, Sequence_fini, Sequence_create, Sequence_destroy,
      Sequence_are_equal, Sequence_copy]"

definition example_interfaces__action__Fibonacci_GetResult_Response__functions :: function_table where [function_defs]:
  "example_interfaces__action__Fibonacci_GetResult_Response__functions = Functions (''example_interfaces'', ''action'', ''Fibonacci_GetResult_Response'')
     [Init, Fini, Create (Some []), Destroy, Are_equal, Copy, Get_type_hash Message_handle,
      Get_type_description Message_handle, Get_individual_type_description_source Message_handle,
      Get_type_description_sources Message_handle, Sequence_init, Sequence_fini, Sequence_create, Sequence_destroy,
      Sequence_are_equal, Sequence_copy]"

definition example_interfaces__action__Fibonacci_GetResult_Event__functions :: function_table where [function_defs]:
  "example_interfaces__action__Fibonacci_GetResult_Event__functions = Functions (''example_interfaces'', ''action'', ''Fibonacci_GetResult_Event'')
     [Init, Fini, Create (Some []), Destroy, Are_equal, Copy, Get_type_hash Message_handle,
      Get_type_description Message_handle, Get_individual_type_description_source Message_handle,
      Get_type_description_sources Message_handle, Sequence_init, Sequence_fini, Sequence_create, Sequence_destroy,
      Sequence_are_equal, Sequence_copy]"

definition example_interfaces__action__Fibonacci_FeedbackMessage__functions :: function_table where [function_defs]:
  "example_interfaces__action__Fibonacci_FeedbackMessage__functions = Functions (''example_interfaces'', ''action'', ''Fibonacci_FeedbackMessage'')
     [Init, Fini, Create (Some []), Destroy, Are_equal, Copy, Get_type_hash Message_handle,
      Get_type_description Message_handle, Get_individual_type_description_source Message_handle,
      Get_type_description_sources Message_handle, Sequence_init, Sequence_fini, Sequence_create, Sequence_destroy,
      Sequence_are_equal, Sequence_copy]"

definition example_interfaces__msg__Bool__functions :: function_table where [function_defs]:
  "example_interfaces__msg__Bool__functions = Functions (''example_interfaces'', ''msg'', ''Bool'')
     [Init, Fini, Create (Some []), Destroy, Are_equal, Copy, Get_type_hash Message_handle,
      Get_type_description Message_handle, Get_individual_type_description_source Message_handle,
      Get_type_description_sources Message_handle, Sequence_init, Sequence_fini, Sequence_create, Sequence_destroy,
      Sequence_are_equal, Sequence_copy]"

definition example_interfaces__msg__Byte__functions :: function_table where [function_defs]:
  "example_interfaces__msg__Byte__functions = Functions (''example_interfaces'', ''msg'', ''Byte'')
     [Init, Fini, Create (Some []), Destroy, Are_equal, Copy, Get_type_hash Message_handle,
      Get_type_description Message_handle, Get_individual_type_description_source Message_handle,
      Get_type_description_sources Message_handle, Sequence_init, Sequence_fini, Sequence_create, Sequence_destroy,
      Sequence_are_equal, Sequence_copy]"

definition example_interfaces__msg__ByteMultiArray__functions :: function_table where [function_defs]:
  "example_interfaces__msg__ByteMultiArray__functions = Functions (''example_interfaces'', ''msg'', ''ByteMultiArray'')
     [Init, Fini, Create (Some []), Destroy, Are_equal, Copy, Get_type_hash Message_handle,
      Get_type_description Message_handle, Get_individual_type_description_source Message_handle,
      Get_type_description_sources Message_handle, Sequence_init, Sequence_fini, Sequence_create, Sequence_destroy,
      Sequence_are_equal, Sequence_copy]"

definition example_interfaces__msg__Char__functions :: function_table where [function_defs]:
  "example_interfaces__msg__Char__functions = Functions (''example_interfaces'', ''msg'', ''Char'')
     [Init, Fini, Create (Some []), Destroy, Are_equal, Copy, Get_type_hash Message_handle,
      Get_type_description Message_handle, Get_individual_type_description_source Message_handle,
      Get_type_description_sources Message_handle, Sequence_init, Sequence_fini, Sequence_create, Sequence_destroy,
      Sequence_are_equal, Sequence_copy]"

definition example_interfaces__msg__Empty__functions :: function_table where [function_defs]:
  "example_interfaces__msg__Empty__functions = Functions (''example_interfaces'', ''msg'', ''Empty'')
     [Init, Fini, Create (Some []), Destroy, Are_equal, Copy, Get_type_hash Message_handle,
      Get_type_description Message_handle, Get_individual_type_description_source Message_handle,
      Get_type_description_sources Message_handle, Sequence_init, Sequence_fini, Sequence_create, Sequence_destroy,
      Sequence_are_equal, Sequence_copy]"

definition example_interfaces__msg__Float32__functions :: function_table where [function_defs]:
  "example_interfaces__msg__Float32__functions = Functions (''example_interfaces'', ''msg'', ''Float32'')
     [Init, Fini, Create (Some []), Destroy, Are_equal, Copy, Get_type_hash Message_handle,
      Get_type_description Message_handle, Get_individual_type_description_source Message_handle,
      Get_type_description_sources Message_handle, Sequence_init, Sequence_fini, Sequence_create, Sequence_destroy,
      Sequence_are_equal, Sequence_copy]"

definition example_interfaces__msg__Float32MultiArray__functions :: function_table where [function_defs]:
  "example_interfaces__msg__Float32MultiArray__functions = Functions (''example_interfaces'', ''msg'', ''Float32MultiArray'')
     [Init, Fini, Create (Some []), Destroy, Are_equal, Copy, Get_type_hash Message_handle,
      Get_type_description Message_handle, Get_individual_type_description_source Message_handle,
      Get_type_description_sources Message_handle, Sequence_init, Sequence_fini, Sequence_create, Sequence_destroy,
      Sequence_are_equal, Sequence_copy]"

definition example_interfaces__msg__Float64__functions :: function_table where [function_defs]:
  "example_interfaces__msg__Float64__functions = Functions (''example_interfaces'', ''msg'', ''Float64'')
     [Init, Fini, Create (Some []), Destroy, Are_equal, Copy, Get_type_hash Message_handle,
      Get_type_description Message_handle, Get_individual_type_description_source Message_handle,
      Get_type_description_sources Message_handle, Sequence_init, Sequence_fini, Sequence_create, Sequence_destroy,
      Sequence_are_equal, Sequence_copy]"

definition example_interfaces__msg__Float64MultiArray__functions :: function_table where [function_defs]:
  "example_interfaces__msg__Float64MultiArray__functions = Functions (''example_interfaces'', ''msg'', ''Float64MultiArray'')
     [Init, Fini, Create (Some []), Destroy, Are_equal, Copy, Get_type_hash Message_handle,
      Get_type_description Message_handle, Get_individual_type_description_source Message_handle,
      Get_type_description_sources Message_handle, Sequence_init, Sequence_fini, Sequence_create, Sequence_destroy,
      Sequence_are_equal, Sequence_copy]"

definition example_interfaces__msg__Int16__functions :: function_table where [function_defs]:
  "example_interfaces__msg__Int16__functions = Functions (''example_interfaces'', ''msg'', ''Int16'')
     [Init, Fini, Create (Some []), Destroy, Are_equal, Copy, Get_type_hash Message_handle,
      Get_type_description Message_handle, Get_individual_type_description_source Message_handle,
      Get_type_description_sources Message_handle, Sequence_init, Sequence_fini, Sequence_create, Sequence_destroy,
      Sequence_are_equal, Sequence_copy]"

definition example_interfaces__msg__Int16MultiArray__functions :: function_table where [function_defs]:
  "example_interfaces__msg__Int16MultiArray__functions = Functions (''example_interfaces'', ''msg'', ''Int16MultiArray'')
     [Init, Fini, Create (Some []), Destroy, Are_equal, Copy, Get_type_hash Message_handle,
      Get_type_description Message_handle, Get_individual_type_description_source Message_handle,
      Get_type_description_sources Message_handle, Sequence_init, Sequence_fini, Sequence_create, Sequence_destroy,
      Sequence_are_equal, Sequence_copy]"

definition example_interfaces__msg__Int32__functions :: function_table where [function_defs]:
  "example_interfaces__msg__Int32__functions = Functions (''example_interfaces'', ''msg'', ''Int32'')
     [Init, Fini, Create (Some []), Destroy, Are_equal, Copy, Get_type_hash Message_handle,
      Get_type_description Message_handle, Get_individual_type_description_source Message_handle,
      Get_type_description_sources Message_handle, Sequence_init, Sequence_fini, Sequence_create, Sequence_destroy,
      Sequence_are_equal, Sequence_copy]"

definition example_interfaces__msg__Int32MultiArray__functions :: function_table where [function_defs]:
  "example_interfaces__msg__Int32MultiArray__functions = Functions (''example_interfaces'', ''msg'', ''Int32MultiArray'')
     [Init, Fini, Create (Some []), Destroy, Are_equal, Copy, Get_type_hash Message_handle,
      Get_type_description Message_handle, Get_individual_type_description_source Message_handle,
      Get_type_description_sources Message_handle, Sequence_init, Sequence_fini, Sequence_create, Sequence_destroy,
      Sequence_are_equal, Sequence_copy]"

definition example_interfaces__msg__Int64__functions :: function_table where [function_defs]:
  "example_interfaces__msg__Int64__functions = Functions (''example_interfaces'', ''msg'', ''Int64'')
     [Init, Fini, Create (Some []), Destroy, Are_equal, Copy, Get_type_hash Message_handle,
      Get_type_description Message_handle, Get_individual_type_description_source Message_handle,
      Get_type_description_sources Message_handle, Sequence_init, Sequence_fini, Sequence_create, Sequence_destroy,
      Sequence_are_equal, Sequence_copy]"

definition example_interfaces__msg__Int64MultiArray__functions :: function_table where [function_defs]:
  "example_interfaces__msg__Int64MultiArray__functions = Functions (''example_interfaces'', ''msg'', ''Int64MultiArray'')
     [Init, Fini, Create (Some []), Destroy, Are_equal, Copy, Get_type_hash Message_handle,
      Get_type_description Message_handle, Get_individual_type_description_source Message_handle,
      Get_type_description_sources Message_handle, Sequence_init, Sequence_fini, Sequence_create, Sequence_destroy,
      Sequence_are_equal, Sequence_copy]"

definition example_interfaces__msg__Int8__functions :: function_table where [function_defs]:
  "example_interfaces__msg__Int8__functions = Functions (''example_interfaces'', ''msg'', ''Int8'')
     [Init, Fini, Create (Some []), Destroy, Are_equal, Copy, Get_type_hash Message_handle,
      Get_type_description Message_handle, Get_individual_type_description_source Message_handle,
      Get_type_description_sources Message_handle, Sequence_init, Sequence_fini, Sequence_create, Sequence_destroy,
      Sequence_are_equal, Sequence_copy]"

definition example_interfaces__msg__Int8MultiArray__functions :: function_table where [function_defs]:
  "example_interfaces__msg__Int8MultiArray__functions = Functions (''example_interfaces'', ''msg'', ''Int8MultiArray'')
     [Init, Fini, Create (Some []), Destroy, Are_equal, Copy, Get_type_hash Message_handle,
      Get_type_description Message_handle, Get_individual_type_description_source Message_handle,
      Get_type_description_sources Message_handle, Sequence_init, Sequence_fini, Sequence_create, Sequence_destroy,
      Sequence_are_equal, Sequence_copy]"

definition example_interfaces__msg__MultiArrayDimension__functions :: function_table where [function_defs]:
  "example_interfaces__msg__MultiArrayDimension__functions = Functions (''example_interfaces'', ''msg'', ''MultiArrayDimension'')
     [Init, Fini, Create (Some []), Destroy, Are_equal, Copy, Get_type_hash Message_handle,
      Get_type_description Message_handle, Get_individual_type_description_source Message_handle,
      Get_type_description_sources Message_handle, Sequence_init, Sequence_fini, Sequence_create, Sequence_destroy,
      Sequence_are_equal, Sequence_copy]"

definition example_interfaces__msg__MultiArrayLayout__functions :: function_table where [function_defs]:
  "example_interfaces__msg__MultiArrayLayout__functions = Functions (''example_interfaces'', ''msg'', ''MultiArrayLayout'')
     [Init, Fini, Create (Some []), Destroy, Are_equal, Copy, Get_type_hash Message_handle,
      Get_type_description Message_handle, Get_individual_type_description_source Message_handle,
      Get_type_description_sources Message_handle, Sequence_init, Sequence_fini, Sequence_create, Sequence_destroy,
      Sequence_are_equal, Sequence_copy]"

definition example_interfaces__msg__String__functions :: function_table where [function_defs]:
  "example_interfaces__msg__String__functions = Functions (''example_interfaces'', ''msg'', ''String'')
     [Init, Fini, Create (Some []), Destroy, Are_equal, Copy, Get_type_hash Message_handle,
      Get_type_description Message_handle, Get_individual_type_description_source Message_handle,
      Get_type_description_sources Message_handle, Sequence_init, Sequence_fini, Sequence_create, Sequence_destroy,
      Sequence_are_equal, Sequence_copy]"

definition example_interfaces__msg__UInt16__functions :: function_table where [function_defs]:
  "example_interfaces__msg__UInt16__functions = Functions (''example_interfaces'', ''msg'', ''UInt16'')
     [Init, Fini, Create (Some []), Destroy, Are_equal, Copy, Get_type_hash Message_handle,
      Get_type_description Message_handle, Get_individual_type_description_source Message_handle,
      Get_type_description_sources Message_handle, Sequence_init, Sequence_fini, Sequence_create, Sequence_destroy,
      Sequence_are_equal, Sequence_copy]"

definition example_interfaces__msg__UInt16MultiArray__functions :: function_table where [function_defs]:
  "example_interfaces__msg__UInt16MultiArray__functions = Functions (''example_interfaces'', ''msg'', ''UInt16MultiArray'')
     [Init, Fini, Create (Some []), Destroy, Are_equal, Copy, Get_type_hash Message_handle,
      Get_type_description Message_handle, Get_individual_type_description_source Message_handle,
      Get_type_description_sources Message_handle, Sequence_init, Sequence_fini, Sequence_create, Sequence_destroy,
      Sequence_are_equal, Sequence_copy]"

definition example_interfaces__msg__UInt32__functions :: function_table where [function_defs]:
  "example_interfaces__msg__UInt32__functions = Functions (''example_interfaces'', ''msg'', ''UInt32'')
     [Init, Fini, Create (Some []), Destroy, Are_equal, Copy, Get_type_hash Message_handle,
      Get_type_description Message_handle, Get_individual_type_description_source Message_handle,
      Get_type_description_sources Message_handle, Sequence_init, Sequence_fini, Sequence_create, Sequence_destroy,
      Sequence_are_equal, Sequence_copy]"

definition example_interfaces__msg__UInt32MultiArray__functions :: function_table where [function_defs]:
  "example_interfaces__msg__UInt32MultiArray__functions = Functions (''example_interfaces'', ''msg'', ''UInt32MultiArray'')
     [Init, Fini, Create (Some []), Destroy, Are_equal, Copy, Get_type_hash Message_handle,
      Get_type_description Message_handle, Get_individual_type_description_source Message_handle,
      Get_type_description_sources Message_handle, Sequence_init, Sequence_fini, Sequence_create, Sequence_destroy,
      Sequence_are_equal, Sequence_copy]"

definition example_interfaces__msg__UInt64__functions :: function_table where [function_defs]:
  "example_interfaces__msg__UInt64__functions = Functions (''example_interfaces'', ''msg'', ''UInt64'')
     [Init, Fini, Create (Some []), Destroy, Are_equal, Copy, Get_type_hash Message_handle,
      Get_type_description Message_handle, Get_individual_type_description_source Message_handle,
      Get_type_description_sources Message_handle, Sequence_init, Sequence_fini, Sequence_create, Sequence_destroy,
      Sequence_are_equal, Sequence_copy]"

definition example_interfaces__msg__UInt64MultiArray__functions :: function_table where [function_defs]:
  "example_interfaces__msg__UInt64MultiArray__functions = Functions (''example_interfaces'', ''msg'', ''UInt64MultiArray'')
     [Init, Fini, Create (Some []), Destroy, Are_equal, Copy, Get_type_hash Message_handle,
      Get_type_description Message_handle, Get_individual_type_description_source Message_handle,
      Get_type_description_sources Message_handle, Sequence_init, Sequence_fini, Sequence_create, Sequence_destroy,
      Sequence_are_equal, Sequence_copy]"

definition example_interfaces__msg__UInt8__functions :: function_table where [function_defs]:
  "example_interfaces__msg__UInt8__functions = Functions (''example_interfaces'', ''msg'', ''UInt8'')
     [Init, Fini, Create (Some []), Destroy, Are_equal, Copy, Get_type_hash Message_handle,
      Get_type_description Message_handle, Get_individual_type_description_source Message_handle,
      Get_type_description_sources Message_handle, Sequence_init, Sequence_fini, Sequence_create, Sequence_destroy,
      Sequence_are_equal, Sequence_copy]"

definition example_interfaces__msg__UInt8MultiArray__functions :: function_table where [function_defs]:
  "example_interfaces__msg__UInt8MultiArray__functions = Functions (''example_interfaces'', ''msg'', ''UInt8MultiArray'')
     [Init, Fini, Create (Some []), Destroy, Are_equal, Copy, Get_type_hash Message_handle,
      Get_type_description Message_handle, Get_individual_type_description_source Message_handle,
      Get_type_description_sources Message_handle, Sequence_init, Sequence_fini, Sequence_create, Sequence_destroy,
      Sequence_are_equal, Sequence_copy]"

definition example_interfaces__msg__WString__functions :: function_table where [function_defs]:
  "example_interfaces__msg__WString__functions = Functions (''example_interfaces'', ''msg'', ''WString'')
     [Init, Fini, Create (Some []), Destroy, Are_equal, Copy, Get_type_hash Message_handle,
      Get_type_description Message_handle, Get_individual_type_description_source Message_handle,
      Get_type_description_sources Message_handle, Sequence_init, Sequence_fini, Sequence_create, Sequence_destroy,
      Sequence_are_equal, Sequence_copy]"

definition example_interfaces__srv__AddTwoInts__functions :: function_table where [function_defs]:
  "example_interfaces__srv__AddTwoInts__functions = Functions (''example_interfaces'', ''srv'', ''AddTwoInts'')
     [Get_type_hash Service_handle, Get_type_description Service_handle,
      Get_individual_type_description_source Service_handle, Get_type_description_sources Service_handle]"

definition example_interfaces__srv__AddTwoInts_Request__functions :: function_table where [function_defs]:
  "example_interfaces__srv__AddTwoInts_Request__functions = Functions (''example_interfaces'', ''srv'', ''AddTwoInts_Request'')
     [Init, Fini, Create (Some []), Destroy, Are_equal, Copy, Get_type_hash Message_handle,
      Get_type_description Message_handle, Get_individual_type_description_source Message_handle,
      Get_type_description_sources Message_handle, Sequence_init, Sequence_fini, Sequence_create, Sequence_destroy,
      Sequence_are_equal, Sequence_copy]"

definition example_interfaces__srv__AddTwoInts_Response__functions :: function_table where [function_defs]:
  "example_interfaces__srv__AddTwoInts_Response__functions = Functions (''example_interfaces'', ''srv'', ''AddTwoInts_Response'')
     [Init, Fini, Create (Some []), Destroy, Are_equal, Copy, Get_type_hash Message_handle,
      Get_type_description Message_handle, Get_individual_type_description_source Message_handle,
      Get_type_description_sources Message_handle, Sequence_init, Sequence_fini, Sequence_create, Sequence_destroy,
      Sequence_are_equal, Sequence_copy]"

definition example_interfaces__srv__AddTwoInts_Event__functions :: function_table where [function_defs]:
  "example_interfaces__srv__AddTwoInts_Event__functions = Functions (''example_interfaces'', ''srv'', ''AddTwoInts_Event'')
     [Init, Fini, Create (Some []), Destroy, Are_equal, Copy, Get_type_hash Message_handle,
      Get_type_description Message_handle, Get_individual_type_description_source Message_handle,
      Get_type_description_sources Message_handle, Sequence_init, Sequence_fini, Sequence_create, Sequence_destroy,
      Sequence_are_equal, Sequence_copy]"

definition example_interfaces__srv__SetBool__functions :: function_table where [function_defs]:
  "example_interfaces__srv__SetBool__functions = Functions (''example_interfaces'', ''srv'', ''SetBool'')
     [Get_type_hash Service_handle, Get_type_description Service_handle,
      Get_individual_type_description_source Service_handle, Get_type_description_sources Service_handle]"

definition example_interfaces__srv__SetBool_Request__functions :: function_table where [function_defs]:
  "example_interfaces__srv__SetBool_Request__functions = Functions (''example_interfaces'', ''srv'', ''SetBool_Request'')
     [Init, Fini, Create (Some []), Destroy, Are_equal, Copy, Get_type_hash Message_handle,
      Get_type_description Message_handle, Get_individual_type_description_source Message_handle,
      Get_type_description_sources Message_handle, Sequence_init, Sequence_fini, Sequence_create, Sequence_destroy,
      Sequence_are_equal, Sequence_copy]"

definition example_interfaces__srv__SetBool_Response__functions :: function_table where [function_defs]:
  "example_interfaces__srv__SetBool_Response__functions = Functions (''example_interfaces'', ''srv'', ''SetBool_Response'')
     [Init, Fini, Create (Some []), Destroy, Are_equal, Copy, Get_type_hash Message_handle,
      Get_type_description Message_handle, Get_individual_type_description_source Message_handle,
      Get_type_description_sources Message_handle, Sequence_init, Sequence_fini, Sequence_create, Sequence_destroy,
      Sequence_are_equal, Sequence_copy]"

definition example_interfaces__srv__SetBool_Event__functions :: function_table where [function_defs]:
  "example_interfaces__srv__SetBool_Event__functions = Functions (''example_interfaces'', ''srv'', ''SetBool_Event'')
     [Init, Fini, Create (Some []), Destroy, Are_equal, Copy, Get_type_hash Message_handle,
      Get_type_description Message_handle, Get_individual_type_description_source Message_handle,
      Get_type_description_sources Message_handle, Sequence_init, Sequence_fini, Sequence_create, Sequence_destroy,
      Sequence_are_equal, Sequence_copy]"

definition example_interfaces__srv__Trigger__functions :: function_table where [function_defs]:
  "example_interfaces__srv__Trigger__functions = Functions (''example_interfaces'', ''srv'', ''Trigger'')
     [Get_type_hash Service_handle, Get_type_description Service_handle,
      Get_individual_type_description_source Service_handle, Get_type_description_sources Service_handle]"

definition example_interfaces__srv__Trigger_Request__functions :: function_table where [function_defs]:
  "example_interfaces__srv__Trigger_Request__functions = Functions (''example_interfaces'', ''srv'', ''Trigger_Request'')
     [Init, Fini, Create (Some []), Destroy, Are_equal, Copy, Get_type_hash Message_handle,
      Get_type_description Message_handle, Get_individual_type_description_source Message_handle,
      Get_type_description_sources Message_handle, Sequence_init, Sequence_fini, Sequence_create, Sequence_destroy,
      Sequence_are_equal, Sequence_copy]"

definition example_interfaces__srv__Trigger_Response__functions :: function_table where [function_defs]:
  "example_interfaces__srv__Trigger_Response__functions = Functions (''example_interfaces'', ''srv'', ''Trigger_Response'')
     [Init, Fini, Create (Some []), Destroy, Are_equal, Copy, Get_type_hash Message_handle,
      Get_type_description Message_handle, Get_individual_type_description_source Message_handle,
      Get_type_description_sources Message_handle, Sequence_init, Sequence_fini, Sequence_create, Sequence_destroy,
      Sequence_are_equal, Sequence_copy]"

definition example_interfaces__srv__Trigger_Event__functions :: function_table where [function_defs]:
  "example_interfaces__srv__Trigger_Event__functions = Functions (''example_interfaces'', ''srv'', ''Trigger_Event'')
     [Init, Fini, Create (Some []), Destroy, Are_equal, Copy, Get_type_hash Message_handle,
      Get_type_description Message_handle, Get_individual_type_description_source Message_handle,
      Get_type_description_sources Message_handle, Sequence_init, Sequence_fini, Sequence_create, Sequence_destroy,
      Sequence_are_equal, Sequence_copy]"

end
