(* ===== verification/Functions_Robot.thy ===== *)
theory Functions_Robot
  imports Header_Symbols
begin

text \<open>
  The functions declared for each interface of the packages for robots, from the headers
  \<^verbatim>\<open>*__functions.h\<close>, in the order of the headers.
\<close>

subsection \<open>Package geometry msgs\<close>

definition geometry_msgs__msg__Accel__functions :: function_table where [function_defs]:
  "geometry_msgs__msg__Accel__functions = Functions (''geometry_msgs'', ''msg'', ''Accel'')
     [Init, Fini, Create (Some []), Destroy, Are_equal, Copy, Get_type_hash Message_handle,
      Get_type_description Message_handle, Get_individual_type_description_source Message_handle,
      Get_type_description_sources Message_handle, Sequence_init, Sequence_fini, Sequence_create, Sequence_destroy,
      Sequence_are_equal, Sequence_copy]"

definition geometry_msgs__msg__AccelStamped__functions :: function_table where [function_defs]:
  "geometry_msgs__msg__AccelStamped__functions = Functions (''geometry_msgs'', ''msg'', ''AccelStamped'')
     [Init, Fini, Create (Some []), Destroy, Are_equal, Copy, Get_type_hash Message_handle,
      Get_type_description Message_handle, Get_individual_type_description_source Message_handle,
      Get_type_description_sources Message_handle, Sequence_init, Sequence_fini, Sequence_create, Sequence_destroy,
      Sequence_are_equal, Sequence_copy]"

definition geometry_msgs__msg__AccelWithCovariance__functions :: function_table where [function_defs]:
  "geometry_msgs__msg__AccelWithCovariance__functions = Functions (''geometry_msgs'', ''msg'', ''AccelWithCovariance'')
     [Init, Fini, Create (Some []), Destroy, Are_equal, Copy, Get_type_hash Message_handle,
      Get_type_description Message_handle, Get_individual_type_description_source Message_handle,
      Get_type_description_sources Message_handle, Sequence_init, Sequence_fini, Sequence_create, Sequence_destroy,
      Sequence_are_equal, Sequence_copy]"

definition geometry_msgs__msg__AccelWithCovarianceStamped__functions :: function_table where [function_defs]:
  "geometry_msgs__msg__AccelWithCovarianceStamped__functions = Functions (''geometry_msgs'', ''msg'', ''AccelWithCovarianceStamped'')
     [Init, Fini, Create (Some []), Destroy, Are_equal, Copy, Get_type_hash Message_handle,
      Get_type_description Message_handle, Get_individual_type_description_source Message_handle,
      Get_type_description_sources Message_handle, Sequence_init, Sequence_fini, Sequence_create, Sequence_destroy,
      Sequence_are_equal, Sequence_copy]"

definition geometry_msgs__msg__Inertia__functions :: function_table where [function_defs]:
  "geometry_msgs__msg__Inertia__functions = Functions (''geometry_msgs'', ''msg'', ''Inertia'')
     [Init, Fini, Create (Some []), Destroy, Are_equal, Copy, Get_type_hash Message_handle,
      Get_type_description Message_handle, Get_individual_type_description_source Message_handle,
      Get_type_description_sources Message_handle, Sequence_init, Sequence_fini, Sequence_create, Sequence_destroy,
      Sequence_are_equal, Sequence_copy]"

definition geometry_msgs__msg__InertiaStamped__functions :: function_table where [function_defs]:
  "geometry_msgs__msg__InertiaStamped__functions = Functions (''geometry_msgs'', ''msg'', ''InertiaStamped'')
     [Init, Fini, Create (Some []), Destroy, Are_equal, Copy, Get_type_hash Message_handle,
      Get_type_description Message_handle, Get_individual_type_description_source Message_handle,
      Get_type_description_sources Message_handle, Sequence_init, Sequence_fini, Sequence_create, Sequence_destroy,
      Sequence_are_equal, Sequence_copy]"

definition geometry_msgs__msg__Point32__functions :: function_table where [function_defs]:
  "geometry_msgs__msg__Point32__functions = Functions (''geometry_msgs'', ''msg'', ''Point32'')
     [Init, Fini, Create (Some []), Destroy, Are_equal, Copy, Get_type_hash Message_handle,
      Get_type_description Message_handle, Get_individual_type_description_source Message_handle,
      Get_type_description_sources Message_handle, Sequence_init, Sequence_fini, Sequence_create, Sequence_destroy,
      Sequence_are_equal, Sequence_copy]"

definition geometry_msgs__msg__Point__functions :: function_table where [function_defs]:
  "geometry_msgs__msg__Point__functions = Functions (''geometry_msgs'', ''msg'', ''Point'')
     [Init, Fini, Create (Some []), Destroy, Are_equal, Copy, Get_type_hash Message_handle,
      Get_type_description Message_handle, Get_individual_type_description_source Message_handle,
      Get_type_description_sources Message_handle, Sequence_init, Sequence_fini, Sequence_create, Sequence_destroy,
      Sequence_are_equal, Sequence_copy]"

definition geometry_msgs__msg__PointStamped__functions :: function_table where [function_defs]:
  "geometry_msgs__msg__PointStamped__functions = Functions (''geometry_msgs'', ''msg'', ''PointStamped'')
     [Init, Fini, Create (Some []), Destroy, Are_equal, Copy, Get_type_hash Message_handle,
      Get_type_description Message_handle, Get_individual_type_description_source Message_handle,
      Get_type_description_sources Message_handle, Sequence_init, Sequence_fini, Sequence_create, Sequence_destroy,
      Sequence_are_equal, Sequence_copy]"

definition geometry_msgs__msg__Polygon__functions :: function_table where [function_defs]:
  "geometry_msgs__msg__Polygon__functions = Functions (''geometry_msgs'', ''msg'', ''Polygon'')
     [Init, Fini, Create (Some []), Destroy, Are_equal, Copy, Get_type_hash Message_handle,
      Get_type_description Message_handle, Get_individual_type_description_source Message_handle,
      Get_type_description_sources Message_handle, Sequence_init, Sequence_fini, Sequence_create, Sequence_destroy,
      Sequence_are_equal, Sequence_copy]"

definition geometry_msgs__msg__PolygonInstance__functions :: function_table where [function_defs]:
  "geometry_msgs__msg__PolygonInstance__functions = Functions (''geometry_msgs'', ''msg'', ''PolygonInstance'')
     [Init, Fini, Create (Some []), Destroy, Are_equal, Copy, Get_type_hash Message_handle,
      Get_type_description Message_handle, Get_individual_type_description_source Message_handle,
      Get_type_description_sources Message_handle, Sequence_init, Sequence_fini, Sequence_create, Sequence_destroy,
      Sequence_are_equal, Sequence_copy]"

definition geometry_msgs__msg__PolygonInstanceStamped__functions :: function_table where [function_defs]:
  "geometry_msgs__msg__PolygonInstanceStamped__functions = Functions (''geometry_msgs'', ''msg'', ''PolygonInstanceStamped'')
     [Init, Fini, Create (Some []), Destroy, Are_equal, Copy, Get_type_hash Message_handle,
      Get_type_description Message_handle, Get_individual_type_description_source Message_handle,
      Get_type_description_sources Message_handle, Sequence_init, Sequence_fini, Sequence_create, Sequence_destroy,
      Sequence_are_equal, Sequence_copy]"

definition geometry_msgs__msg__PolygonStamped__functions :: function_table where [function_defs]:
  "geometry_msgs__msg__PolygonStamped__functions = Functions (''geometry_msgs'', ''msg'', ''PolygonStamped'')
     [Init, Fini, Create (Some []), Destroy, Are_equal, Copy, Get_type_hash Message_handle,
      Get_type_description Message_handle, Get_individual_type_description_source Message_handle,
      Get_type_description_sources Message_handle, Sequence_init, Sequence_fini, Sequence_create, Sequence_destroy,
      Sequence_are_equal, Sequence_copy]"

definition geometry_msgs__msg__Pose2D__functions :: function_table where [function_defs]:
  "geometry_msgs__msg__Pose2D__functions = Functions (''geometry_msgs'', ''msg'', ''Pose2D'')
     [Init, Fini, Create (Some []), Destroy, Are_equal, Copy, Get_type_hash Message_handle,
      Get_type_description Message_handle, Get_individual_type_description_source Message_handle,
      Get_type_description_sources Message_handle, Sequence_init, Sequence_fini, Sequence_create, Sequence_destroy,
      Sequence_are_equal, Sequence_copy]"

definition geometry_msgs__msg__Pose__functions :: function_table where [function_defs]:
  "geometry_msgs__msg__Pose__functions = Functions (''geometry_msgs'', ''msg'', ''Pose'')
     [Init, Fini, Create (Some []), Destroy, Are_equal, Copy, Get_type_hash Message_handle,
      Get_type_description Message_handle, Get_individual_type_description_source Message_handle,
      Get_type_description_sources Message_handle, Sequence_init, Sequence_fini, Sequence_create, Sequence_destroy,
      Sequence_are_equal, Sequence_copy]"

definition geometry_msgs__msg__PoseArray__functions :: function_table where [function_defs]:
  "geometry_msgs__msg__PoseArray__functions = Functions (''geometry_msgs'', ''msg'', ''PoseArray'')
     [Init, Fini, Create (Some []), Destroy, Are_equal, Copy, Get_type_hash Message_handle,
      Get_type_description Message_handle, Get_individual_type_description_source Message_handle,
      Get_type_description_sources Message_handle, Sequence_init, Sequence_fini, Sequence_create, Sequence_destroy,
      Sequence_are_equal, Sequence_copy]"

definition geometry_msgs__msg__PoseStamped__functions :: function_table where [function_defs]:
  "geometry_msgs__msg__PoseStamped__functions = Functions (''geometry_msgs'', ''msg'', ''PoseStamped'')
     [Init, Fini, Create (Some []), Destroy, Are_equal, Copy, Get_type_hash Message_handle,
      Get_type_description Message_handle, Get_individual_type_description_source Message_handle,
      Get_type_description_sources Message_handle, Sequence_init, Sequence_fini, Sequence_create, Sequence_destroy,
      Sequence_are_equal, Sequence_copy]"

definition geometry_msgs__msg__PoseWithCovariance__functions :: function_table where [function_defs]:
  "geometry_msgs__msg__PoseWithCovariance__functions = Functions (''geometry_msgs'', ''msg'', ''PoseWithCovariance'')
     [Init, Fini, Create (Some []), Destroy, Are_equal, Copy, Get_type_hash Message_handle,
      Get_type_description Message_handle, Get_individual_type_description_source Message_handle,
      Get_type_description_sources Message_handle, Sequence_init, Sequence_fini, Sequence_create, Sequence_destroy,
      Sequence_are_equal, Sequence_copy]"

definition geometry_msgs__msg__PoseWithCovarianceStamped__functions :: function_table where [function_defs]:
  "geometry_msgs__msg__PoseWithCovarianceStamped__functions = Functions (''geometry_msgs'', ''msg'', ''PoseWithCovarianceStamped'')
     [Init, Fini, Create (Some []), Destroy, Are_equal, Copy, Get_type_hash Message_handle,
      Get_type_description Message_handle, Get_individual_type_description_source Message_handle,
      Get_type_description_sources Message_handle, Sequence_init, Sequence_fini, Sequence_create, Sequence_destroy,
      Sequence_are_equal, Sequence_copy]"

definition geometry_msgs__msg__Quaternion__functions :: function_table where [function_defs]:
  "geometry_msgs__msg__Quaternion__functions = Functions (''geometry_msgs'', ''msg'', ''Quaternion'')
     [Init, Fini, Create (Some []), Destroy, Are_equal, Copy, Get_type_hash Message_handle,
      Get_type_description Message_handle, Get_individual_type_description_source Message_handle,
      Get_type_description_sources Message_handle, Sequence_init, Sequence_fini, Sequence_create, Sequence_destroy,
      Sequence_are_equal, Sequence_copy]"

definition geometry_msgs__msg__QuaternionStamped__functions :: function_table where [function_defs]:
  "geometry_msgs__msg__QuaternionStamped__functions = Functions (''geometry_msgs'', ''msg'', ''QuaternionStamped'')
     [Init, Fini, Create (Some []), Destroy, Are_equal, Copy, Get_type_hash Message_handle,
      Get_type_description Message_handle, Get_individual_type_description_source Message_handle,
      Get_type_description_sources Message_handle, Sequence_init, Sequence_fini, Sequence_create, Sequence_destroy,
      Sequence_are_equal, Sequence_copy]"

definition geometry_msgs__msg__Transform__functions :: function_table where [function_defs]:
  "geometry_msgs__msg__Transform__functions = Functions (''geometry_msgs'', ''msg'', ''Transform'')
     [Init, Fini, Create (Some []), Destroy, Are_equal, Copy, Get_type_hash Message_handle,
      Get_type_description Message_handle, Get_individual_type_description_source Message_handle,
      Get_type_description_sources Message_handle, Sequence_init, Sequence_fini, Sequence_create, Sequence_destroy,
      Sequence_are_equal, Sequence_copy]"

definition geometry_msgs__msg__TransformStamped__functions :: function_table where [function_defs]:
  "geometry_msgs__msg__TransformStamped__functions = Functions (''geometry_msgs'', ''msg'', ''TransformStamped'')
     [Init, Fini, Create (Some []), Destroy, Are_equal, Copy, Get_type_hash Message_handle,
      Get_type_description Message_handle, Get_individual_type_description_source Message_handle,
      Get_type_description_sources Message_handle, Sequence_init, Sequence_fini, Sequence_create, Sequence_destroy,
      Sequence_are_equal, Sequence_copy]"

definition geometry_msgs__msg__Twist__functions :: function_table where [function_defs]:
  "geometry_msgs__msg__Twist__functions = Functions (''geometry_msgs'', ''msg'', ''Twist'')
     [Init, Fini, Create (Some []), Destroy, Are_equal, Copy, Get_type_hash Message_handle,
      Get_type_description Message_handle, Get_individual_type_description_source Message_handle,
      Get_type_description_sources Message_handle, Sequence_init, Sequence_fini, Sequence_create, Sequence_destroy,
      Sequence_are_equal, Sequence_copy]"

definition geometry_msgs__msg__TwistStamped__functions :: function_table where [function_defs]:
  "geometry_msgs__msg__TwistStamped__functions = Functions (''geometry_msgs'', ''msg'', ''TwistStamped'')
     [Init, Fini, Create (Some []), Destroy, Are_equal, Copy, Get_type_hash Message_handle,
      Get_type_description Message_handle, Get_individual_type_description_source Message_handle,
      Get_type_description_sources Message_handle, Sequence_init, Sequence_fini, Sequence_create, Sequence_destroy,
      Sequence_are_equal, Sequence_copy]"

definition geometry_msgs__msg__TwistWithCovariance__functions :: function_table where [function_defs]:
  "geometry_msgs__msg__TwistWithCovariance__functions = Functions (''geometry_msgs'', ''msg'', ''TwistWithCovariance'')
     [Init, Fini, Create (Some []), Destroy, Are_equal, Copy, Get_type_hash Message_handle,
      Get_type_description Message_handle, Get_individual_type_description_source Message_handle,
      Get_type_description_sources Message_handle, Sequence_init, Sequence_fini, Sequence_create, Sequence_destroy,
      Sequence_are_equal, Sequence_copy]"

definition geometry_msgs__msg__TwistWithCovarianceStamped__functions :: function_table where [function_defs]:
  "geometry_msgs__msg__TwistWithCovarianceStamped__functions = Functions (''geometry_msgs'', ''msg'', ''TwistWithCovarianceStamped'')
     [Init, Fini, Create (Some []), Destroy, Are_equal, Copy, Get_type_hash Message_handle,
      Get_type_description Message_handle, Get_individual_type_description_source Message_handle,
      Get_type_description_sources Message_handle, Sequence_init, Sequence_fini, Sequence_create, Sequence_destroy,
      Sequence_are_equal, Sequence_copy]"

definition geometry_msgs__msg__Vector3__functions :: function_table where [function_defs]:
  "geometry_msgs__msg__Vector3__functions = Functions (''geometry_msgs'', ''msg'', ''Vector3'')
     [Init, Fini, Create (Some []), Destroy, Are_equal, Copy, Get_type_hash Message_handle,
      Get_type_description Message_handle, Get_individual_type_description_source Message_handle,
      Get_type_description_sources Message_handle, Sequence_init, Sequence_fini, Sequence_create, Sequence_destroy,
      Sequence_are_equal, Sequence_copy]"

definition geometry_msgs__msg__Vector3Stamped__functions :: function_table where [function_defs]:
  "geometry_msgs__msg__Vector3Stamped__functions = Functions (''geometry_msgs'', ''msg'', ''Vector3Stamped'')
     [Init, Fini, Create (Some []), Destroy, Are_equal, Copy, Get_type_hash Message_handle,
      Get_type_description Message_handle, Get_individual_type_description_source Message_handle,
      Get_type_description_sources Message_handle, Sequence_init, Sequence_fini, Sequence_create, Sequence_destroy,
      Sequence_are_equal, Sequence_copy]"

definition geometry_msgs__msg__VelocityStamped__functions :: function_table where [function_defs]:
  "geometry_msgs__msg__VelocityStamped__functions = Functions (''geometry_msgs'', ''msg'', ''VelocityStamped'')
     [Init, Fini, Create (Some []), Destroy, Are_equal, Copy, Get_type_hash Message_handle,
      Get_type_description Message_handle, Get_individual_type_description_source Message_handle,
      Get_type_description_sources Message_handle, Sequence_init, Sequence_fini, Sequence_create, Sequence_destroy,
      Sequence_are_equal, Sequence_copy]"

definition geometry_msgs__msg__Wrench__functions :: function_table where [function_defs]:
  "geometry_msgs__msg__Wrench__functions = Functions (''geometry_msgs'', ''msg'', ''Wrench'')
     [Init, Fini, Create (Some []), Destroy, Are_equal, Copy, Get_type_hash Message_handle,
      Get_type_description Message_handle, Get_individual_type_description_source Message_handle,
      Get_type_description_sources Message_handle, Sequence_init, Sequence_fini, Sequence_create, Sequence_destroy,
      Sequence_are_equal, Sequence_copy]"

definition geometry_msgs__msg__WrenchStamped__functions :: function_table where [function_defs]:
  "geometry_msgs__msg__WrenchStamped__functions = Functions (''geometry_msgs'', ''msg'', ''WrenchStamped'')
     [Init, Fini, Create (Some []), Destroy, Are_equal, Copy, Get_type_hash Message_handle,
      Get_type_description Message_handle, Get_individual_type_description_source Message_handle,
      Get_type_description_sources Message_handle, Sequence_init, Sequence_fini, Sequence_create, Sequence_destroy,
      Sequence_are_equal, Sequence_copy]"

subsection \<open>Package shape msgs\<close>

definition shape_msgs__msg__Mesh__functions :: function_table where [function_defs]:
  "shape_msgs__msg__Mesh__functions = Functions (''shape_msgs'', ''msg'', ''Mesh'')
     [Init, Fini, Create (Some []), Destroy, Are_equal, Copy, Get_type_hash Message_handle,
      Get_type_description Message_handle, Get_individual_type_description_source Message_handle,
      Get_type_description_sources Message_handle, Sequence_init, Sequence_fini, Sequence_create, Sequence_destroy,
      Sequence_are_equal, Sequence_copy]"

definition shape_msgs__msg__MeshTriangle__functions :: function_table where [function_defs]:
  "shape_msgs__msg__MeshTriangle__functions = Functions (''shape_msgs'', ''msg'', ''MeshTriangle'')
     [Init, Fini, Create (Some []), Destroy, Are_equal, Copy, Get_type_hash Message_handle,
      Get_type_description Message_handle, Get_individual_type_description_source Message_handle,
      Get_type_description_sources Message_handle, Sequence_init, Sequence_fini, Sequence_create, Sequence_destroy,
      Sequence_are_equal, Sequence_copy]"

definition shape_msgs__msg__Plane__functions :: function_table where [function_defs]:
  "shape_msgs__msg__Plane__functions = Functions (''shape_msgs'', ''msg'', ''Plane'')
     [Init, Fini, Create (Some []), Destroy, Are_equal, Copy, Get_type_hash Message_handle,
      Get_type_description Message_handle, Get_individual_type_description_source Message_handle,
      Get_type_description_sources Message_handle, Sequence_init, Sequence_fini, Sequence_create, Sequence_destroy,
      Sequence_are_equal, Sequence_copy]"

definition shape_msgs__msg__SolidPrimitive__functions :: function_table where [function_defs]:
  "shape_msgs__msg__SolidPrimitive__functions = Functions (''shape_msgs'', ''msg'', ''SolidPrimitive'')
     [Init, Fini, Create (Some []), Destroy, Are_equal, Copy, Get_type_hash Message_handle,
      Get_type_description Message_handle, Get_individual_type_description_source Message_handle,
      Get_type_description_sources Message_handle, Sequence_init, Sequence_fini, Sequence_create, Sequence_destroy,
      Sequence_are_equal, Sequence_copy]"

subsection \<open>Package sensor msgs\<close>

definition sensor_msgs__msg__BatteryState__functions :: function_table where [function_defs]:
  "sensor_msgs__msg__BatteryState__functions = Functions (''sensor_msgs'', ''msg'', ''BatteryState'')
     [Init, Fini, Create (Some []), Destroy, Are_equal, Copy, Get_type_hash Message_handle,
      Get_type_description Message_handle, Get_individual_type_description_source Message_handle,
      Get_type_description_sources Message_handle, Sequence_init, Sequence_fini, Sequence_create, Sequence_destroy,
      Sequence_are_equal, Sequence_copy]"

definition sensor_msgs__msg__CameraInfo__functions :: function_table where [function_defs]:
  "sensor_msgs__msg__CameraInfo__functions = Functions (''sensor_msgs'', ''msg'', ''CameraInfo'')
     [Init, Fini, Create (Some []), Destroy, Are_equal, Copy, Get_type_hash Message_handle,
      Get_type_description Message_handle, Get_individual_type_description_source Message_handle,
      Get_type_description_sources Message_handle, Sequence_init, Sequence_fini, Sequence_create, Sequence_destroy,
      Sequence_are_equal, Sequence_copy]"

definition sensor_msgs__msg__ChannelFloat32__functions :: function_table where [function_defs]:
  "sensor_msgs__msg__ChannelFloat32__functions = Functions (''sensor_msgs'', ''msg'', ''ChannelFloat32'')
     [Init, Fini, Create (Some []), Destroy, Are_equal, Copy, Get_type_hash Message_handle,
      Get_type_description Message_handle, Get_individual_type_description_source Message_handle,
      Get_type_description_sources Message_handle, Sequence_init, Sequence_fini, Sequence_create, Sequence_destroy,
      Sequence_are_equal, Sequence_copy]"

definition sensor_msgs__msg__CompressedImage__functions :: function_table where [function_defs]:
  "sensor_msgs__msg__CompressedImage__functions = Functions (''sensor_msgs'', ''msg'', ''CompressedImage'')
     [Init, Fini, Create (Some []), Destroy, Are_equal, Copy, Get_type_hash Message_handle,
      Get_type_description Message_handle, Get_individual_type_description_source Message_handle,
      Get_type_description_sources Message_handle, Sequence_init, Sequence_fini, Sequence_create, Sequence_destroy,
      Sequence_are_equal, Sequence_copy]"

definition sensor_msgs__msg__FluidPressure__functions :: function_table where [function_defs]:
  "sensor_msgs__msg__FluidPressure__functions = Functions (''sensor_msgs'', ''msg'', ''FluidPressure'')
     [Init, Fini, Create (Some []), Destroy, Are_equal, Copy, Get_type_hash Message_handle,
      Get_type_description Message_handle, Get_individual_type_description_source Message_handle,
      Get_type_description_sources Message_handle, Sequence_init, Sequence_fini, Sequence_create, Sequence_destroy,
      Sequence_are_equal, Sequence_copy]"

definition sensor_msgs__msg__Illuminance__functions :: function_table where [function_defs]:
  "sensor_msgs__msg__Illuminance__functions = Functions (''sensor_msgs'', ''msg'', ''Illuminance'')
     [Init, Fini, Create (Some []), Destroy, Are_equal, Copy, Get_type_hash Message_handle,
      Get_type_description Message_handle, Get_individual_type_description_source Message_handle,
      Get_type_description_sources Message_handle, Sequence_init, Sequence_fini, Sequence_create, Sequence_destroy,
      Sequence_are_equal, Sequence_copy]"

definition sensor_msgs__msg__Image__functions :: function_table where [function_defs]:
  "sensor_msgs__msg__Image__functions = Functions (''sensor_msgs'', ''msg'', ''Image'')
     [Init, Fini, Create (Some []), Destroy, Are_equal, Copy, Get_type_hash Message_handle,
      Get_type_description Message_handle, Get_individual_type_description_source Message_handle,
      Get_type_description_sources Message_handle, Sequence_init, Sequence_fini, Sequence_create, Sequence_destroy,
      Sequence_are_equal, Sequence_copy]"

definition sensor_msgs__msg__Imu__functions :: function_table where [function_defs]:
  "sensor_msgs__msg__Imu__functions = Functions (''sensor_msgs'', ''msg'', ''Imu'')
     [Init, Fini, Create (Some []), Destroy, Are_equal, Copy, Get_type_hash Message_handle,
      Get_type_description Message_handle, Get_individual_type_description_source Message_handle,
      Get_type_description_sources Message_handle, Sequence_init, Sequence_fini, Sequence_create, Sequence_destroy,
      Sequence_are_equal, Sequence_copy]"

definition sensor_msgs__msg__JointState__functions :: function_table where [function_defs]:
  "sensor_msgs__msg__JointState__functions = Functions (''sensor_msgs'', ''msg'', ''JointState'')
     [Init, Fini, Create (Some []), Destroy, Are_equal, Copy, Get_type_hash Message_handle,
      Get_type_description Message_handle, Get_individual_type_description_source Message_handle,
      Get_type_description_sources Message_handle, Sequence_init, Sequence_fini, Sequence_create, Sequence_destroy,
      Sequence_are_equal, Sequence_copy]"

definition sensor_msgs__msg__Joy__functions :: function_table where [function_defs]:
  "sensor_msgs__msg__Joy__functions = Functions (''sensor_msgs'', ''msg'', ''Joy'')
     [Init, Fini, Create (Some []), Destroy, Are_equal, Copy, Get_type_hash Message_handle,
      Get_type_description Message_handle, Get_individual_type_description_source Message_handle,
      Get_type_description_sources Message_handle, Sequence_init, Sequence_fini, Sequence_create, Sequence_destroy,
      Sequence_are_equal, Sequence_copy]"

definition sensor_msgs__msg__JoyFeedback__functions :: function_table where [function_defs]:
  "sensor_msgs__msg__JoyFeedback__functions = Functions (''sensor_msgs'', ''msg'', ''JoyFeedback'')
     [Init, Fini, Create (Some []), Destroy, Are_equal, Copy, Get_type_hash Message_handle,
      Get_type_description Message_handle, Get_individual_type_description_source Message_handle,
      Get_type_description_sources Message_handle, Sequence_init, Sequence_fini, Sequence_create, Sequence_destroy,
      Sequence_are_equal, Sequence_copy]"

definition sensor_msgs__msg__JoyFeedbackArray__functions :: function_table where [function_defs]:
  "sensor_msgs__msg__JoyFeedbackArray__functions = Functions (''sensor_msgs'', ''msg'', ''JoyFeedbackArray'')
     [Init, Fini, Create (Some []), Destroy, Are_equal, Copy, Get_type_hash Message_handle,
      Get_type_description Message_handle, Get_individual_type_description_source Message_handle,
      Get_type_description_sources Message_handle, Sequence_init, Sequence_fini, Sequence_create, Sequence_destroy,
      Sequence_are_equal, Sequence_copy]"

definition sensor_msgs__msg__LaserEcho__functions :: function_table where [function_defs]:
  "sensor_msgs__msg__LaserEcho__functions = Functions (''sensor_msgs'', ''msg'', ''LaserEcho'')
     [Init, Fini, Create (Some []), Destroy, Are_equal, Copy, Get_type_hash Message_handle,
      Get_type_description Message_handle, Get_individual_type_description_source Message_handle,
      Get_type_description_sources Message_handle, Sequence_init, Sequence_fini, Sequence_create, Sequence_destroy,
      Sequence_are_equal, Sequence_copy]"

definition sensor_msgs__msg__LaserScan__functions :: function_table where [function_defs]:
  "sensor_msgs__msg__LaserScan__functions = Functions (''sensor_msgs'', ''msg'', ''LaserScan'')
     [Init, Fini, Create (Some []), Destroy, Are_equal, Copy, Get_type_hash Message_handle,
      Get_type_description Message_handle, Get_individual_type_description_source Message_handle,
      Get_type_description_sources Message_handle, Sequence_init, Sequence_fini, Sequence_create, Sequence_destroy,
      Sequence_are_equal, Sequence_copy]"

definition sensor_msgs__msg__MagneticField__functions :: function_table where [function_defs]:
  "sensor_msgs__msg__MagneticField__functions = Functions (''sensor_msgs'', ''msg'', ''MagneticField'')
     [Init, Fini, Create (Some []), Destroy, Are_equal, Copy, Get_type_hash Message_handle,
      Get_type_description Message_handle, Get_individual_type_description_source Message_handle,
      Get_type_description_sources Message_handle, Sequence_init, Sequence_fini, Sequence_create, Sequence_destroy,
      Sequence_are_equal, Sequence_copy]"

definition sensor_msgs__msg__MultiDOFJointState__functions :: function_table where [function_defs]:
  "sensor_msgs__msg__MultiDOFJointState__functions = Functions (''sensor_msgs'', ''msg'', ''MultiDOFJointState'')
     [Init, Fini, Create (Some []), Destroy, Are_equal, Copy, Get_type_hash Message_handle,
      Get_type_description Message_handle, Get_individual_type_description_source Message_handle,
      Get_type_description_sources Message_handle, Sequence_init, Sequence_fini, Sequence_create, Sequence_destroy,
      Sequence_are_equal, Sequence_copy]"

definition sensor_msgs__msg__MultiEchoLaserScan__functions :: function_table where [function_defs]:
  "sensor_msgs__msg__MultiEchoLaserScan__functions = Functions (''sensor_msgs'', ''msg'', ''MultiEchoLaserScan'')
     [Init, Fini, Create (Some []), Destroy, Are_equal, Copy, Get_type_hash Message_handle,
      Get_type_description Message_handle, Get_individual_type_description_source Message_handle,
      Get_type_description_sources Message_handle, Sequence_init, Sequence_fini, Sequence_create, Sequence_destroy,
      Sequence_are_equal, Sequence_copy]"

definition sensor_msgs__msg__NavSatFix__functions :: function_table where [function_defs]:
  "sensor_msgs__msg__NavSatFix__functions = Functions (''sensor_msgs'', ''msg'', ''NavSatFix'')
     [Init, Fini, Create (Some []), Destroy, Are_equal, Copy, Get_type_hash Message_handle,
      Get_type_description Message_handle, Get_individual_type_description_source Message_handle,
      Get_type_description_sources Message_handle, Sequence_init, Sequence_fini, Sequence_create, Sequence_destroy,
      Sequence_are_equal, Sequence_copy]"

definition sensor_msgs__msg__NavSatStatus__functions :: function_table where [function_defs]:
  "sensor_msgs__msg__NavSatStatus__functions = Functions (''sensor_msgs'', ''msg'', ''NavSatStatus'')
     [Init, Fini, Create (Some []), Destroy, Are_equal, Copy, Get_type_hash Message_handle,
      Get_type_description Message_handle, Get_individual_type_description_source Message_handle,
      Get_type_description_sources Message_handle, Sequence_init, Sequence_fini, Sequence_create, Sequence_destroy,
      Sequence_are_equal, Sequence_copy]"

definition sensor_msgs__msg__PointCloud2__functions :: function_table where [function_defs]:
  "sensor_msgs__msg__PointCloud2__functions = Functions (''sensor_msgs'', ''msg'', ''PointCloud2'')
     [Init, Fini, Create (Some []), Destroy, Are_equal, Copy, Get_type_hash Message_handle,
      Get_type_description Message_handle, Get_individual_type_description_source Message_handle,
      Get_type_description_sources Message_handle, Sequence_init, Sequence_fini, Sequence_create, Sequence_destroy,
      Sequence_are_equal, Sequence_copy]"

definition sensor_msgs__msg__PointCloud__functions :: function_table where [function_defs]:
  "sensor_msgs__msg__PointCloud__functions = Functions (''sensor_msgs'', ''msg'', ''PointCloud'')
     [Init, Fini, Create (Some []), Destroy, Are_equal, Copy, Get_type_hash Message_handle,
      Get_type_description Message_handle, Get_individual_type_description_source Message_handle,
      Get_type_description_sources Message_handle, Sequence_init, Sequence_fini, Sequence_create, Sequence_destroy,
      Sequence_are_equal, Sequence_copy]"

definition sensor_msgs__msg__PointField__functions :: function_table where [function_defs]:
  "sensor_msgs__msg__PointField__functions = Functions (''sensor_msgs'', ''msg'', ''PointField'')
     [Init, Fini, Create (Some []), Destroy, Are_equal, Copy, Get_type_hash Message_handle,
      Get_type_description Message_handle, Get_individual_type_description_source Message_handle,
      Get_type_description_sources Message_handle, Sequence_init, Sequence_fini, Sequence_create, Sequence_destroy,
      Sequence_are_equal, Sequence_copy]"

definition sensor_msgs__msg__Range__functions :: function_table where [function_defs]:
  "sensor_msgs__msg__Range__functions = Functions (''sensor_msgs'', ''msg'', ''Range'')
     [Init, Fini, Create (Some []), Destroy, Are_equal, Copy, Get_type_hash Message_handle,
      Get_type_description Message_handle, Get_individual_type_description_source Message_handle,
      Get_type_description_sources Message_handle, Sequence_init, Sequence_fini, Sequence_create, Sequence_destroy,
      Sequence_are_equal, Sequence_copy]"

definition sensor_msgs__msg__RegionOfInterest__functions :: function_table where [function_defs]:
  "sensor_msgs__msg__RegionOfInterest__functions = Functions (''sensor_msgs'', ''msg'', ''RegionOfInterest'')
     [Init, Fini, Create (Some []), Destroy, Are_equal, Copy, Get_type_hash Message_handle,
      Get_type_description Message_handle, Get_individual_type_description_source Message_handle,
      Get_type_description_sources Message_handle, Sequence_init, Sequence_fini, Sequence_create, Sequence_destroy,
      Sequence_are_equal, Sequence_copy]"

definition sensor_msgs__msg__RelativeHumidity__functions :: function_table where [function_defs]:
  "sensor_msgs__msg__RelativeHumidity__functions = Functions (''sensor_msgs'', ''msg'', ''RelativeHumidity'')
     [Init, Fini, Create (Some []), Destroy, Are_equal, Copy, Get_type_hash Message_handle,
      Get_type_description Message_handle, Get_individual_type_description_source Message_handle,
      Get_type_description_sources Message_handle, Sequence_init, Sequence_fini, Sequence_create, Sequence_destroy,
      Sequence_are_equal, Sequence_copy]"

definition sensor_msgs__msg__Temperature__functions :: function_table where [function_defs]:
  "sensor_msgs__msg__Temperature__functions = Functions (''sensor_msgs'', ''msg'', ''Temperature'')
     [Init, Fini, Create (Some []), Destroy, Are_equal, Copy, Get_type_hash Message_handle,
      Get_type_description Message_handle, Get_individual_type_description_source Message_handle,
      Get_type_description_sources Message_handle, Sequence_init, Sequence_fini, Sequence_create, Sequence_destroy,
      Sequence_are_equal, Sequence_copy]"

definition sensor_msgs__msg__TimeReference__functions :: function_table where [function_defs]:
  "sensor_msgs__msg__TimeReference__functions = Functions (''sensor_msgs'', ''msg'', ''TimeReference'')
     [Init, Fini, Create (Some []), Destroy, Are_equal, Copy, Get_type_hash Message_handle,
      Get_type_description Message_handle, Get_individual_type_description_source Message_handle,
      Get_type_description_sources Message_handle, Sequence_init, Sequence_fini, Sequence_create, Sequence_destroy,
      Sequence_are_equal, Sequence_copy]"

definition sensor_msgs__srv__SetCameraInfo__functions :: function_table where [function_defs]:
  "sensor_msgs__srv__SetCameraInfo__functions = Functions (''sensor_msgs'', ''srv'', ''SetCameraInfo'')
     [Get_type_hash Service_handle, Get_type_description Service_handle,
      Get_individual_type_description_source Service_handle, Get_type_description_sources Service_handle]"

definition sensor_msgs__srv__SetCameraInfo_Request__functions :: function_table where [function_defs]:
  "sensor_msgs__srv__SetCameraInfo_Request__functions = Functions (''sensor_msgs'', ''srv'', ''SetCameraInfo_Request'')
     [Init, Fini, Create (Some []), Destroy, Are_equal, Copy, Get_type_hash Message_handle,
      Get_type_description Message_handle, Get_individual_type_description_source Message_handle,
      Get_type_description_sources Message_handle, Sequence_init, Sequence_fini, Sequence_create, Sequence_destroy,
      Sequence_are_equal, Sequence_copy]"

definition sensor_msgs__srv__SetCameraInfo_Response__functions :: function_table where [function_defs]:
  "sensor_msgs__srv__SetCameraInfo_Response__functions = Functions (''sensor_msgs'', ''srv'', ''SetCameraInfo_Response'')
     [Init, Fini, Create (Some []), Destroy, Are_equal, Copy, Get_type_hash Message_handle,
      Get_type_description Message_handle, Get_individual_type_description_source Message_handle,
      Get_type_description_sources Message_handle, Sequence_init, Sequence_fini, Sequence_create, Sequence_destroy,
      Sequence_are_equal, Sequence_copy]"

definition sensor_msgs__srv__SetCameraInfo_Event__functions :: function_table where [function_defs]:
  "sensor_msgs__srv__SetCameraInfo_Event__functions = Functions (''sensor_msgs'', ''srv'', ''SetCameraInfo_Event'')
     [Init, Fini, Create (Some []), Destroy, Are_equal, Copy, Get_type_hash Message_handle,
      Get_type_description Message_handle, Get_individual_type_description_source Message_handle,
      Get_type_description_sources Message_handle, Sequence_init, Sequence_fini, Sequence_create, Sequence_destroy,
      Sequence_are_equal, Sequence_copy]"

subsection \<open>Package nav msgs\<close>

definition nav_msgs__msg__Goals__functions :: function_table where [function_defs]:
  "nav_msgs__msg__Goals__functions = Functions (''nav_msgs'', ''msg'', ''Goals'')
     [Init, Fini, Create (Some []), Destroy, Are_equal, Copy, Get_type_hash Message_handle,
      Get_type_description Message_handle, Get_individual_type_description_source Message_handle,
      Get_type_description_sources Message_handle, Sequence_init, Sequence_fini, Sequence_create, Sequence_destroy,
      Sequence_are_equal, Sequence_copy]"

definition nav_msgs__msg__GridCells__functions :: function_table where [function_defs]:
  "nav_msgs__msg__GridCells__functions = Functions (''nav_msgs'', ''msg'', ''GridCells'')
     [Init, Fini, Create (Some []), Destroy, Are_equal, Copy, Get_type_hash Message_handle,
      Get_type_description Message_handle, Get_individual_type_description_source Message_handle,
      Get_type_description_sources Message_handle, Sequence_init, Sequence_fini, Sequence_create, Sequence_destroy,
      Sequence_are_equal, Sequence_copy]"

definition nav_msgs__msg__MapMetaData__functions :: function_table where [function_defs]:
  "nav_msgs__msg__MapMetaData__functions = Functions (''nav_msgs'', ''msg'', ''MapMetaData'')
     [Init, Fini, Create (Some []), Destroy, Are_equal, Copy, Get_type_hash Message_handle,
      Get_type_description Message_handle, Get_individual_type_description_source Message_handle,
      Get_type_description_sources Message_handle, Sequence_init, Sequence_fini, Sequence_create, Sequence_destroy,
      Sequence_are_equal, Sequence_copy]"

definition nav_msgs__msg__OccupancyGrid__functions :: function_table where [function_defs]:
  "nav_msgs__msg__OccupancyGrid__functions = Functions (''nav_msgs'', ''msg'', ''OccupancyGrid'')
     [Init, Fini, Create (Some []), Destroy, Are_equal, Copy, Get_type_hash Message_handle,
      Get_type_description Message_handle, Get_individual_type_description_source Message_handle,
      Get_type_description_sources Message_handle, Sequence_init, Sequence_fini, Sequence_create, Sequence_destroy,
      Sequence_are_equal, Sequence_copy]"

definition nav_msgs__msg__Odometry__functions :: function_table where [function_defs]:
  "nav_msgs__msg__Odometry__functions = Functions (''nav_msgs'', ''msg'', ''Odometry'')
     [Init, Fini, Create (Some []), Destroy, Are_equal, Copy, Get_type_hash Message_handle,
      Get_type_description Message_handle, Get_individual_type_description_source Message_handle,
      Get_type_description_sources Message_handle, Sequence_init, Sequence_fini, Sequence_create, Sequence_destroy,
      Sequence_are_equal, Sequence_copy]"

definition nav_msgs__msg__Path__functions :: function_table where [function_defs]:
  "nav_msgs__msg__Path__functions = Functions (''nav_msgs'', ''msg'', ''Path'')
     [Init, Fini, Create (Some []), Destroy, Are_equal, Copy, Get_type_hash Message_handle,
      Get_type_description Message_handle, Get_individual_type_description_source Message_handle,
      Get_type_description_sources Message_handle, Sequence_init, Sequence_fini, Sequence_create, Sequence_destroy,
      Sequence_are_equal, Sequence_copy]"

definition nav_msgs__srv__GetMap__functions :: function_table where [function_defs]:
  "nav_msgs__srv__GetMap__functions = Functions (''nav_msgs'', ''srv'', ''GetMap'')
     [Get_type_hash Service_handle, Get_type_description Service_handle,
      Get_individual_type_description_source Service_handle, Get_type_description_sources Service_handle]"

definition nav_msgs__srv__GetMap_Request__functions :: function_table where [function_defs]:
  "nav_msgs__srv__GetMap_Request__functions = Functions (''nav_msgs'', ''srv'', ''GetMap_Request'')
     [Init, Fini, Create (Some []), Destroy, Are_equal, Copy, Get_type_hash Message_handle,
      Get_type_description Message_handle, Get_individual_type_description_source Message_handle,
      Get_type_description_sources Message_handle, Sequence_init, Sequence_fini, Sequence_create, Sequence_destroy,
      Sequence_are_equal, Sequence_copy]"

definition nav_msgs__srv__GetMap_Response__functions :: function_table where [function_defs]:
  "nav_msgs__srv__GetMap_Response__functions = Functions (''nav_msgs'', ''srv'', ''GetMap_Response'')
     [Init, Fini, Create (Some []), Destroy, Are_equal, Copy, Get_type_hash Message_handle,
      Get_type_description Message_handle, Get_individual_type_description_source Message_handle,
      Get_type_description_sources Message_handle, Sequence_init, Sequence_fini, Sequence_create, Sequence_destroy,
      Sequence_are_equal, Sequence_copy]"

definition nav_msgs__srv__GetMap_Event__functions :: function_table where [function_defs]:
  "nav_msgs__srv__GetMap_Event__functions = Functions (''nav_msgs'', ''srv'', ''GetMap_Event'')
     [Init, Fini, Create (Some []), Destroy, Are_equal, Copy, Get_type_hash Message_handle,
      Get_type_description Message_handle, Get_individual_type_description_source Message_handle,
      Get_type_description_sources Message_handle, Sequence_init, Sequence_fini, Sequence_create, Sequence_destroy,
      Sequence_are_equal, Sequence_copy]"

definition nav_msgs__srv__GetPlan__functions :: function_table where [function_defs]:
  "nav_msgs__srv__GetPlan__functions = Functions (''nav_msgs'', ''srv'', ''GetPlan'')
     [Get_type_hash Service_handle, Get_type_description Service_handle,
      Get_individual_type_description_source Service_handle, Get_type_description_sources Service_handle]"

definition nav_msgs__srv__GetPlan_Request__functions :: function_table where [function_defs]:
  "nav_msgs__srv__GetPlan_Request__functions = Functions (''nav_msgs'', ''srv'', ''GetPlan_Request'')
     [Init, Fini, Create (Some []), Destroy, Are_equal, Copy, Get_type_hash Message_handle,
      Get_type_description Message_handle, Get_individual_type_description_source Message_handle,
      Get_type_description_sources Message_handle, Sequence_init, Sequence_fini, Sequence_create, Sequence_destroy,
      Sequence_are_equal, Sequence_copy]"

definition nav_msgs__srv__GetPlan_Response__functions :: function_table where [function_defs]:
  "nav_msgs__srv__GetPlan_Response__functions = Functions (''nav_msgs'', ''srv'', ''GetPlan_Response'')
     [Init, Fini, Create (Some []), Destroy, Are_equal, Copy, Get_type_hash Message_handle,
      Get_type_description Message_handle, Get_individual_type_description_source Message_handle,
      Get_type_description_sources Message_handle, Sequence_init, Sequence_fini, Sequence_create, Sequence_destroy,
      Sequence_are_equal, Sequence_copy]"

definition nav_msgs__srv__GetPlan_Event__functions :: function_table where [function_defs]:
  "nav_msgs__srv__GetPlan_Event__functions = Functions (''nav_msgs'', ''srv'', ''GetPlan_Event'')
     [Init, Fini, Create (Some []), Destroy, Are_equal, Copy, Get_type_hash Message_handle,
      Get_type_description Message_handle, Get_individual_type_description_source Message_handle,
      Get_type_description_sources Message_handle, Sequence_init, Sequence_fini, Sequence_create, Sequence_destroy,
      Sequence_are_equal, Sequence_copy]"

definition nav_msgs__srv__LoadMap__functions :: function_table where [function_defs]:
  "nav_msgs__srv__LoadMap__functions = Functions (''nav_msgs'', ''srv'', ''LoadMap'')
     [Get_type_hash Service_handle, Get_type_description Service_handle,
      Get_individual_type_description_source Service_handle, Get_type_description_sources Service_handle]"

definition nav_msgs__srv__LoadMap_Request__functions :: function_table where [function_defs]:
  "nav_msgs__srv__LoadMap_Request__functions = Functions (''nav_msgs'', ''srv'', ''LoadMap_Request'')
     [Init, Fini, Create (Some []), Destroy, Are_equal, Copy, Get_type_hash Message_handle,
      Get_type_description Message_handle, Get_individual_type_description_source Message_handle,
      Get_type_description_sources Message_handle, Sequence_init, Sequence_fini, Sequence_create, Sequence_destroy,
      Sequence_are_equal, Sequence_copy]"

definition nav_msgs__srv__LoadMap_Response__functions :: function_table where [function_defs]:
  "nav_msgs__srv__LoadMap_Response__functions = Functions (''nav_msgs'', ''srv'', ''LoadMap_Response'')
     [Init, Fini, Create (Some []), Destroy, Are_equal, Copy, Get_type_hash Message_handle,
      Get_type_description Message_handle, Get_individual_type_description_source Message_handle,
      Get_type_description_sources Message_handle, Sequence_init, Sequence_fini, Sequence_create, Sequence_destroy,
      Sequence_are_equal, Sequence_copy]"

definition nav_msgs__srv__LoadMap_Event__functions :: function_table where [function_defs]:
  "nav_msgs__srv__LoadMap_Event__functions = Functions (''nav_msgs'', ''srv'', ''LoadMap_Event'')
     [Init, Fini, Create (Some []), Destroy, Are_equal, Copy, Get_type_hash Message_handle,
      Get_type_description Message_handle, Get_individual_type_description_source Message_handle,
      Get_type_description_sources Message_handle, Sequence_init, Sequence_fini, Sequence_create, Sequence_destroy,
      Sequence_are_equal, Sequence_copy]"

definition nav_msgs__srv__SetMap__functions :: function_table where [function_defs]:
  "nav_msgs__srv__SetMap__functions = Functions (''nav_msgs'', ''srv'', ''SetMap'')
     [Get_type_hash Service_handle, Get_type_description Service_handle,
      Get_individual_type_description_source Service_handle, Get_type_description_sources Service_handle]"

definition nav_msgs__srv__SetMap_Request__functions :: function_table where [function_defs]:
  "nav_msgs__srv__SetMap_Request__functions = Functions (''nav_msgs'', ''srv'', ''SetMap_Request'')
     [Init, Fini, Create (Some []), Destroy, Are_equal, Copy, Get_type_hash Message_handle,
      Get_type_description Message_handle, Get_individual_type_description_source Message_handle,
      Get_type_description_sources Message_handle, Sequence_init, Sequence_fini, Sequence_create, Sequence_destroy,
      Sequence_are_equal, Sequence_copy]"

definition nav_msgs__srv__SetMap_Response__functions :: function_table where [function_defs]:
  "nav_msgs__srv__SetMap_Response__functions = Functions (''nav_msgs'', ''srv'', ''SetMap_Response'')
     [Init, Fini, Create (Some []), Destroy, Are_equal, Copy, Get_type_hash Message_handle,
      Get_type_description Message_handle, Get_individual_type_description_source Message_handle,
      Get_type_description_sources Message_handle, Sequence_init, Sequence_fini, Sequence_create, Sequence_destroy,
      Sequence_are_equal, Sequence_copy]"

definition nav_msgs__srv__SetMap_Event__functions :: function_table where [function_defs]:
  "nav_msgs__srv__SetMap_Event__functions = Functions (''nav_msgs'', ''srv'', ''SetMap_Event'')
     [Init, Fini, Create (Some []), Destroy, Are_equal, Copy, Get_type_hash Message_handle,
      Get_type_description Message_handle, Get_individual_type_description_source Message_handle,
      Get_type_description_sources Message_handle, Sequence_init, Sequence_fini, Sequence_create, Sequence_destroy,
      Sequence_are_equal, Sequence_copy]"

subsection \<open>Package stereo msgs\<close>

definition stereo_msgs__msg__DisparityImage__functions :: function_table where [function_defs]:
  "stereo_msgs__msg__DisparityImage__functions = Functions (''stereo_msgs'', ''msg'', ''DisparityImage'')
     [Init, Fini, Create (Some []), Destroy, Are_equal, Copy, Get_type_hash Message_handle,
      Get_type_description Message_handle, Get_individual_type_description_source Message_handle,
      Get_type_description_sources Message_handle, Sequence_init, Sequence_fini, Sequence_create, Sequence_destroy,
      Sequence_are_equal, Sequence_copy]"

subsection \<open>Package trajectory msgs\<close>

definition trajectory_msgs__msg__JointTrajectory__functions :: function_table where [function_defs]:
  "trajectory_msgs__msg__JointTrajectory__functions = Functions (''trajectory_msgs'', ''msg'', ''JointTrajectory'')
     [Init, Fini, Create (Some []), Destroy, Are_equal, Copy, Get_type_hash Message_handle,
      Get_type_description Message_handle, Get_individual_type_description_source Message_handle,
      Get_type_description_sources Message_handle, Sequence_init, Sequence_fini, Sequence_create, Sequence_destroy,
      Sequence_are_equal, Sequence_copy]"

definition trajectory_msgs__msg__JointTrajectoryPoint__functions :: function_table where [function_defs]:
  "trajectory_msgs__msg__JointTrajectoryPoint__functions = Functions (''trajectory_msgs'', ''msg'', ''JointTrajectoryPoint'')
     [Init, Fini, Create (Some []), Destroy, Are_equal, Copy, Get_type_hash Message_handle,
      Get_type_description Message_handle, Get_individual_type_description_source Message_handle,
      Get_type_description_sources Message_handle, Sequence_init, Sequence_fini, Sequence_create, Sequence_destroy,
      Sequence_are_equal, Sequence_copy]"

definition trajectory_msgs__msg__MultiDOFJointTrajectory__functions :: function_table where [function_defs]:
  "trajectory_msgs__msg__MultiDOFJointTrajectory__functions = Functions (''trajectory_msgs'', ''msg'', ''MultiDOFJointTrajectory'')
     [Init, Fini, Create (Some []), Destroy, Are_equal, Copy, Get_type_hash Message_handle,
      Get_type_description Message_handle, Get_individual_type_description_source Message_handle,
      Get_type_description_sources Message_handle, Sequence_init, Sequence_fini, Sequence_create, Sequence_destroy,
      Sequence_are_equal, Sequence_copy]"

definition trajectory_msgs__msg__MultiDOFJointTrajectoryPoint__functions :: function_table where [function_defs]:
  "trajectory_msgs__msg__MultiDOFJointTrajectoryPoint__functions = Functions (''trajectory_msgs'', ''msg'', ''MultiDOFJointTrajectoryPoint'')
     [Init, Fini, Create (Some []), Destroy, Are_equal, Copy, Get_type_hash Message_handle,
      Get_type_description Message_handle, Get_individual_type_description_source Message_handle,
      Get_type_description_sources Message_handle, Sequence_init, Sequence_fini, Sequence_create, Sequence_destroy,
      Sequence_are_equal, Sequence_copy]"

subsection \<open>Package actionlib msgs\<close>

definition actionlib_msgs__msg__GoalID__functions :: function_table where [function_defs]:
  "actionlib_msgs__msg__GoalID__functions = Functions (''actionlib_msgs'', ''msg'', ''GoalID'')
     [Init, Fini, Create (Some []), Destroy, Are_equal, Copy, Get_type_hash Message_handle,
      Get_type_description Message_handle, Get_individual_type_description_source Message_handle,
      Get_type_description_sources Message_handle, Sequence_init, Sequence_fini, Sequence_create, Sequence_destroy,
      Sequence_are_equal, Sequence_copy]"

definition actionlib_msgs__msg__GoalStatus__functions :: function_table where [function_defs]:
  "actionlib_msgs__msg__GoalStatus__functions = Functions (''actionlib_msgs'', ''msg'', ''GoalStatus'')
     [Init, Fini, Create (Some []), Destroy, Are_equal, Copy, Get_type_hash Message_handle,
      Get_type_description Message_handle, Get_individual_type_description_source Message_handle,
      Get_type_description_sources Message_handle, Sequence_init, Sequence_fini, Sequence_create, Sequence_destroy,
      Sequence_are_equal, Sequence_copy]"

definition actionlib_msgs__msg__GoalStatusArray__functions :: function_table where [function_defs]:
  "actionlib_msgs__msg__GoalStatusArray__functions = Functions (''actionlib_msgs'', ''msg'', ''GoalStatusArray'')
     [Init, Fini, Create (Some []), Destroy, Are_equal, Copy, Get_type_hash Message_handle,
      Get_type_description Message_handle, Get_individual_type_description_source Message_handle,
      Get_type_description_sources Message_handle, Sequence_init, Sequence_fini, Sequence_create, Sequence_destroy,
      Sequence_are_equal, Sequence_copy]"

subsection \<open>Package tf2 msgs\<close>

definition tf2_msgs__action__LookupTransform__functions :: function_table where [function_defs]:
  "tf2_msgs__action__LookupTransform__functions = Functions (''tf2_msgs'', ''action'', ''LookupTransform'')
     [Get_type_hash Action_handle, Get_type_description Action_handle,
      Get_individual_type_description_source Action_handle, Get_type_description_sources Action_handle]"

definition tf2_msgs__action__LookupTransform_Goal__functions :: function_table where [function_defs]:
  "tf2_msgs__action__LookupTransform_Goal__functions = Functions (''tf2_msgs'', ''action'', ''LookupTransform_Goal'')
     [Init, Fini, Create (Some []), Destroy, Are_equal, Copy, Get_type_hash Message_handle,
      Get_type_description Message_handle, Get_individual_type_description_source Message_handle,
      Get_type_description_sources Message_handle, Sequence_init, Sequence_fini, Sequence_create, Sequence_destroy,
      Sequence_are_equal, Sequence_copy]"

definition tf2_msgs__action__LookupTransform_Result__functions :: function_table where [function_defs]:
  "tf2_msgs__action__LookupTransform_Result__functions = Functions (''tf2_msgs'', ''action'', ''LookupTransform_Result'')
     [Init, Fini, Create (Some []), Destroy, Are_equal, Copy, Get_type_hash Message_handle,
      Get_type_description Message_handle, Get_individual_type_description_source Message_handle,
      Get_type_description_sources Message_handle, Sequence_init, Sequence_fini, Sequence_create, Sequence_destroy,
      Sequence_are_equal, Sequence_copy]"

definition tf2_msgs__action__LookupTransform_Feedback__functions :: function_table where [function_defs]:
  "tf2_msgs__action__LookupTransform_Feedback__functions = Functions (''tf2_msgs'', ''action'', ''LookupTransform_Feedback'')
     [Init, Fini, Create (Some []), Destroy, Are_equal, Copy, Get_type_hash Message_handle,
      Get_type_description Message_handle, Get_individual_type_description_source Message_handle,
      Get_type_description_sources Message_handle, Sequence_init, Sequence_fini, Sequence_create, Sequence_destroy,
      Sequence_are_equal, Sequence_copy]"

definition tf2_msgs__action__LookupTransform_SendGoal__functions :: function_table where [function_defs]:
  "tf2_msgs__action__LookupTransform_SendGoal__functions = Functions (''tf2_msgs'', ''action'', ''LookupTransform_SendGoal'')
     [Get_type_hash Service_handle, Get_type_description Service_handle,
      Get_individual_type_description_source Service_handle, Get_type_description_sources Service_handle]"

definition tf2_msgs__action__LookupTransform_SendGoal_Request__functions :: function_table where [function_defs]:
  "tf2_msgs__action__LookupTransform_SendGoal_Request__functions = Functions (''tf2_msgs'', ''action'', ''LookupTransform_SendGoal_Request'')
     [Init, Fini, Create (Some []), Destroy, Are_equal, Copy, Get_type_hash Message_handle,
      Get_type_description Message_handle, Get_individual_type_description_source Message_handle,
      Get_type_description_sources Message_handle, Sequence_init, Sequence_fini, Sequence_create, Sequence_destroy,
      Sequence_are_equal, Sequence_copy]"

definition tf2_msgs__action__LookupTransform_SendGoal_Response__functions :: function_table where [function_defs]:
  "tf2_msgs__action__LookupTransform_SendGoal_Response__functions = Functions (''tf2_msgs'', ''action'', ''LookupTransform_SendGoal_Response'')
     [Init, Fini, Create (Some []), Destroy, Are_equal, Copy, Get_type_hash Message_handle,
      Get_type_description Message_handle, Get_individual_type_description_source Message_handle,
      Get_type_description_sources Message_handle, Sequence_init, Sequence_fini, Sequence_create, Sequence_destroy,
      Sequence_are_equal, Sequence_copy]"

definition tf2_msgs__action__LookupTransform_SendGoal_Event__functions :: function_table where [function_defs]:
  "tf2_msgs__action__LookupTransform_SendGoal_Event__functions = Functions (''tf2_msgs'', ''action'', ''LookupTransform_SendGoal_Event'')
     [Init, Fini, Create (Some []), Destroy, Are_equal, Copy, Get_type_hash Message_handle,
      Get_type_description Message_handle, Get_individual_type_description_source Message_handle,
      Get_type_description_sources Message_handle, Sequence_init, Sequence_fini, Sequence_create, Sequence_destroy,
      Sequence_are_equal, Sequence_copy]"

definition tf2_msgs__action__LookupTransform_GetResult__functions :: function_table where [function_defs]:
  "tf2_msgs__action__LookupTransform_GetResult__functions = Functions (''tf2_msgs'', ''action'', ''LookupTransform_GetResult'')
     [Get_type_hash Service_handle, Get_type_description Service_handle,
      Get_individual_type_description_source Service_handle, Get_type_description_sources Service_handle]"

definition tf2_msgs__action__LookupTransform_GetResult_Request__functions :: function_table where [function_defs]:
  "tf2_msgs__action__LookupTransform_GetResult_Request__functions = Functions (''tf2_msgs'', ''action'', ''LookupTransform_GetResult_Request'')
     [Init, Fini, Create (Some []), Destroy, Are_equal, Copy, Get_type_hash Message_handle,
      Get_type_description Message_handle, Get_individual_type_description_source Message_handle,
      Get_type_description_sources Message_handle, Sequence_init, Sequence_fini, Sequence_create, Sequence_destroy,
      Sequence_are_equal, Sequence_copy]"

definition tf2_msgs__action__LookupTransform_GetResult_Response__functions :: function_table where [function_defs]:
  "tf2_msgs__action__LookupTransform_GetResult_Response__functions = Functions (''tf2_msgs'', ''action'', ''LookupTransform_GetResult_Response'')
     [Init, Fini, Create (Some []), Destroy, Are_equal, Copy, Get_type_hash Message_handle,
      Get_type_description Message_handle, Get_individual_type_description_source Message_handle,
      Get_type_description_sources Message_handle, Sequence_init, Sequence_fini, Sequence_create, Sequence_destroy,
      Sequence_are_equal, Sequence_copy]"

definition tf2_msgs__action__LookupTransform_GetResult_Event__functions :: function_table where [function_defs]:
  "tf2_msgs__action__LookupTransform_GetResult_Event__functions = Functions (''tf2_msgs'', ''action'', ''LookupTransform_GetResult_Event'')
     [Init, Fini, Create (Some []), Destroy, Are_equal, Copy, Get_type_hash Message_handle,
      Get_type_description Message_handle, Get_individual_type_description_source Message_handle,
      Get_type_description_sources Message_handle, Sequence_init, Sequence_fini, Sequence_create, Sequence_destroy,
      Sequence_are_equal, Sequence_copy]"

definition tf2_msgs__action__LookupTransform_FeedbackMessage__functions :: function_table where [function_defs]:
  "tf2_msgs__action__LookupTransform_FeedbackMessage__functions = Functions (''tf2_msgs'', ''action'', ''LookupTransform_FeedbackMessage'')
     [Init, Fini, Create (Some []), Destroy, Are_equal, Copy, Get_type_hash Message_handle,
      Get_type_description Message_handle, Get_individual_type_description_source Message_handle,
      Get_type_description_sources Message_handle, Sequence_init, Sequence_fini, Sequence_create, Sequence_destroy,
      Sequence_are_equal, Sequence_copy]"

definition tf2_msgs__msg__TF2Error__functions :: function_table where [function_defs]:
  "tf2_msgs__msg__TF2Error__functions = Functions (''tf2_msgs'', ''msg'', ''TF2Error'')
     [Init, Fini, Create (Some []), Destroy, Are_equal, Copy, Get_type_hash Message_handle,
      Get_type_description Message_handle, Get_individual_type_description_source Message_handle,
      Get_type_description_sources Message_handle, Sequence_init, Sequence_fini, Sequence_create, Sequence_destroy,
      Sequence_are_equal, Sequence_copy]"

definition tf2_msgs__msg__TFMessage__functions :: function_table where [function_defs]:
  "tf2_msgs__msg__TFMessage__functions = Functions (''tf2_msgs'', ''msg'', ''TFMessage'')
     [Init, Fini, Create (Some []), Destroy, Are_equal, Copy, Get_type_hash Message_handle,
      Get_type_description Message_handle, Get_individual_type_description_source Message_handle,
      Get_type_description_sources Message_handle, Sequence_init, Sequence_fini, Sequence_create, Sequence_destroy,
      Sequence_are_equal, Sequence_copy]"

definition tf2_msgs__srv__FrameGraph__functions :: function_table where [function_defs]:
  "tf2_msgs__srv__FrameGraph__functions = Functions (''tf2_msgs'', ''srv'', ''FrameGraph'')
     [Get_type_hash Service_handle, Get_type_description Service_handle,
      Get_individual_type_description_source Service_handle, Get_type_description_sources Service_handle]"

definition tf2_msgs__srv__FrameGraph_Request__functions :: function_table where [function_defs]:
  "tf2_msgs__srv__FrameGraph_Request__functions = Functions (''tf2_msgs'', ''srv'', ''FrameGraph_Request'')
     [Init, Fini, Create (Some []), Destroy, Are_equal, Copy, Get_type_hash Message_handle,
      Get_type_description Message_handle, Get_individual_type_description_source Message_handle,
      Get_type_description_sources Message_handle, Sequence_init, Sequence_fini, Sequence_create, Sequence_destroy,
      Sequence_are_equal, Sequence_copy]"

definition tf2_msgs__srv__FrameGraph_Response__functions :: function_table where [function_defs]:
  "tf2_msgs__srv__FrameGraph_Response__functions = Functions (''tf2_msgs'', ''srv'', ''FrameGraph_Response'')
     [Init, Fini, Create (Some []), Destroy, Are_equal, Copy, Get_type_hash Message_handle,
      Get_type_description Message_handle, Get_individual_type_description_source Message_handle,
      Get_type_description_sources Message_handle, Sequence_init, Sequence_fini, Sequence_create, Sequence_destroy,
      Sequence_are_equal, Sequence_copy]"

definition tf2_msgs__srv__FrameGraph_Event__functions :: function_table where [function_defs]:
  "tf2_msgs__srv__FrameGraph_Event__functions = Functions (''tf2_msgs'', ''srv'', ''FrameGraph_Event'')
     [Init, Fini, Create (Some []), Destroy, Are_equal, Copy, Get_type_hash Message_handle,
      Get_type_description Message_handle, Get_individual_type_description_source Message_handle,
      Get_type_description_sources Message_handle, Sequence_init, Sequence_fini, Sequence_create, Sequence_destroy,
      Sequence_are_equal, Sequence_copy]"

subsection \<open>Package visualization msgs\<close>

definition visualization_msgs__msg__ImageMarker__functions :: function_table where [function_defs]:
  "visualization_msgs__msg__ImageMarker__functions = Functions (''visualization_msgs'', ''msg'', ''ImageMarker'')
     [Init, Fini, Create (Some []), Destroy, Are_equal, Copy, Get_type_hash Message_handle,
      Get_type_description Message_handle, Get_individual_type_description_source Message_handle,
      Get_type_description_sources Message_handle, Sequence_init, Sequence_fini, Sequence_create, Sequence_destroy,
      Sequence_are_equal, Sequence_copy]"

definition visualization_msgs__msg__InteractiveMarker__functions :: function_table where [function_defs]:
  "visualization_msgs__msg__InteractiveMarker__functions = Functions (''visualization_msgs'', ''msg'', ''InteractiveMarker'')
     [Init, Fini, Create (Some []), Destroy, Are_equal, Copy, Get_type_hash Message_handle,
      Get_type_description Message_handle, Get_individual_type_description_source Message_handle,
      Get_type_description_sources Message_handle, Sequence_init, Sequence_fini, Sequence_create, Sequence_destroy,
      Sequence_are_equal, Sequence_copy]"

definition visualization_msgs__msg__InteractiveMarkerControl__functions :: function_table where [function_defs]:
  "visualization_msgs__msg__InteractiveMarkerControl__functions = Functions (''visualization_msgs'', ''msg'', ''InteractiveMarkerControl'')
     [Init, Fini, Create (Some []), Destroy, Are_equal, Copy, Get_type_hash Message_handle,
      Get_type_description Message_handle, Get_individual_type_description_source Message_handle,
      Get_type_description_sources Message_handle, Sequence_init, Sequence_fini, Sequence_create, Sequence_destroy,
      Sequence_are_equal, Sequence_copy]"

definition visualization_msgs__msg__InteractiveMarkerFeedback__functions :: function_table where [function_defs]:
  "visualization_msgs__msg__InteractiveMarkerFeedback__functions = Functions (''visualization_msgs'', ''msg'', ''InteractiveMarkerFeedback'')
     [Init, Fini, Create (Some []), Destroy, Are_equal, Copy, Get_type_hash Message_handle,
      Get_type_description Message_handle, Get_individual_type_description_source Message_handle,
      Get_type_description_sources Message_handle, Sequence_init, Sequence_fini, Sequence_create, Sequence_destroy,
      Sequence_are_equal, Sequence_copy]"

definition visualization_msgs__msg__InteractiveMarkerInit__functions :: function_table where [function_defs]:
  "visualization_msgs__msg__InteractiveMarkerInit__functions = Functions (''visualization_msgs'', ''msg'', ''InteractiveMarkerInit'')
     [Init, Fini, Create (Some []), Destroy, Are_equal, Copy, Get_type_hash Message_handle,
      Get_type_description Message_handle, Get_individual_type_description_source Message_handle,
      Get_type_description_sources Message_handle, Sequence_init, Sequence_fini, Sequence_create, Sequence_destroy,
      Sequence_are_equal, Sequence_copy]"

definition visualization_msgs__msg__InteractiveMarkerPose__functions :: function_table where [function_defs]:
  "visualization_msgs__msg__InteractiveMarkerPose__functions = Functions (''visualization_msgs'', ''msg'', ''InteractiveMarkerPose'')
     [Init, Fini, Create (Some []), Destroy, Are_equal, Copy, Get_type_hash Message_handle,
      Get_type_description Message_handle, Get_individual_type_description_source Message_handle,
      Get_type_description_sources Message_handle, Sequence_init, Sequence_fini, Sequence_create, Sequence_destroy,
      Sequence_are_equal, Sequence_copy]"

definition visualization_msgs__msg__InteractiveMarkerUpdate__functions :: function_table where [function_defs]:
  "visualization_msgs__msg__InteractiveMarkerUpdate__functions = Functions (''visualization_msgs'', ''msg'', ''InteractiveMarkerUpdate'')
     [Init, Fini, Create (Some []), Destroy, Are_equal, Copy, Get_type_hash Message_handle,
      Get_type_description Message_handle, Get_individual_type_description_source Message_handle,
      Get_type_description_sources Message_handle, Sequence_init, Sequence_fini, Sequence_create, Sequence_destroy,
      Sequence_are_equal, Sequence_copy]"

definition visualization_msgs__msg__Marker__functions :: function_table where [function_defs]:
  "visualization_msgs__msg__Marker__functions = Functions (''visualization_msgs'', ''msg'', ''Marker'')
     [Init, Fini, Create (Some []), Destroy, Are_equal, Copy, Get_type_hash Message_handle,
      Get_type_description Message_handle, Get_individual_type_description_source Message_handle,
      Get_type_description_sources Message_handle, Sequence_init, Sequence_fini, Sequence_create, Sequence_destroy,
      Sequence_are_equal, Sequence_copy]"

definition visualization_msgs__msg__MarkerArray__functions :: function_table where [function_defs]:
  "visualization_msgs__msg__MarkerArray__functions = Functions (''visualization_msgs'', ''msg'', ''MarkerArray'')
     [Init, Fini, Create (Some []), Destroy, Are_equal, Copy, Get_type_hash Message_handle,
      Get_type_description Message_handle, Get_individual_type_description_source Message_handle,
      Get_type_description_sources Message_handle, Sequence_init, Sequence_fini, Sequence_create, Sequence_destroy,
      Sequence_are_equal, Sequence_copy]"

definition visualization_msgs__msg__MenuEntry__functions :: function_table where [function_defs]:
  "visualization_msgs__msg__MenuEntry__functions = Functions (''visualization_msgs'', ''msg'', ''MenuEntry'')
     [Init, Fini, Create (Some []), Destroy, Are_equal, Copy, Get_type_hash Message_handle,
      Get_type_description Message_handle, Get_individual_type_description_source Message_handle,
      Get_type_description_sources Message_handle, Sequence_init, Sequence_fini, Sequence_create, Sequence_destroy,
      Sequence_are_equal, Sequence_copy]"

definition visualization_msgs__msg__MeshFile__functions :: function_table where [function_defs]:
  "visualization_msgs__msg__MeshFile__functions = Functions (''visualization_msgs'', ''msg'', ''MeshFile'')
     [Init, Fini, Create (Some []), Destroy, Are_equal, Copy, Get_type_hash Message_handle,
      Get_type_description Message_handle, Get_individual_type_description_source Message_handle,
      Get_type_description_sources Message_handle, Sequence_init, Sequence_fini, Sequence_create, Sequence_destroy,
      Sequence_are_equal, Sequence_copy]"

definition visualization_msgs__msg__UVCoordinate__functions :: function_table where [function_defs]:
  "visualization_msgs__msg__UVCoordinate__functions = Functions (''visualization_msgs'', ''msg'', ''UVCoordinate'')
     [Init, Fini, Create (Some []), Destroy, Are_equal, Copy, Get_type_hash Message_handle,
      Get_type_description Message_handle, Get_individual_type_description_source Message_handle,
      Get_type_description_sources Message_handle, Sequence_init, Sequence_fini, Sequence_create, Sequence_destroy,
      Sequence_are_equal, Sequence_copy]"

definition visualization_msgs__srv__GetInteractiveMarkers__functions :: function_table where [function_defs]:
  "visualization_msgs__srv__GetInteractiveMarkers__functions = Functions (''visualization_msgs'', ''srv'', ''GetInteractiveMarkers'')
     [Get_type_hash Service_handle, Get_type_description Service_handle,
      Get_individual_type_description_source Service_handle, Get_type_description_sources Service_handle]"

definition visualization_msgs__srv__GetInteractiveMarkers_Request__functions :: function_table where [function_defs]:
  "visualization_msgs__srv__GetInteractiveMarkers_Request__functions = Functions (''visualization_msgs'', ''srv'', ''GetInteractiveMarkers_Request'')
     [Init, Fini, Create (Some []), Destroy, Are_equal, Copy, Get_type_hash Message_handle,
      Get_type_description Message_handle, Get_individual_type_description_source Message_handle,
      Get_type_description_sources Message_handle, Sequence_init, Sequence_fini, Sequence_create, Sequence_destroy,
      Sequence_are_equal, Sequence_copy]"

definition visualization_msgs__srv__GetInteractiveMarkers_Response__functions :: function_table where [function_defs]:
  "visualization_msgs__srv__GetInteractiveMarkers_Response__functions = Functions (''visualization_msgs'', ''srv'', ''GetInteractiveMarkers_Response'')
     [Init, Fini, Create (Some []), Destroy, Are_equal, Copy, Get_type_hash Message_handle,
      Get_type_description Message_handle, Get_individual_type_description_source Message_handle,
      Get_type_description_sources Message_handle, Sequence_init, Sequence_fini, Sequence_create, Sequence_destroy,
      Sequence_are_equal, Sequence_copy]"

definition visualization_msgs__srv__GetInteractiveMarkers_Event__functions :: function_table where [function_defs]:
  "visualization_msgs__srv__GetInteractiveMarkers_Event__functions = Functions (''visualization_msgs'', ''srv'', ''GetInteractiveMarkers_Event'')
     [Init, Fini, Create (Some []), Destroy, Are_equal, Copy, Get_type_hash Message_handle,
      Get_type_description Message_handle, Get_individual_type_description_source Message_handle,
      Get_type_description_sources Message_handle, Sequence_init, Sequence_fini, Sequence_create, Sequence_destroy,
      Sequence_are_equal, Sequence_copy]"

subsection \<open>Package control msgs\<close>

definition control_msgs__action__FollowJointTrajectory__functions :: function_table where [function_defs]:
  "control_msgs__action__FollowJointTrajectory__functions = Functions (''control_msgs'', ''action'', ''FollowJointTrajectory'')
     [Get_type_hash Action_handle, Get_type_description Action_handle,
      Get_individual_type_description_source Action_handle, Get_type_description_sources Action_handle]"

definition control_msgs__action__FollowJointTrajectory_Goal__functions :: function_table where [function_defs]:
  "control_msgs__action__FollowJointTrajectory_Goal__functions = Functions (''control_msgs'', ''action'', ''FollowJointTrajectory_Goal'')
     [Init, Fini, Create (Some []), Destroy, Are_equal, Copy, Get_type_hash Message_handle,
      Get_type_description Message_handle, Get_individual_type_description_source Message_handle,
      Get_type_description_sources Message_handle, Sequence_init, Sequence_fini, Sequence_create, Sequence_destroy,
      Sequence_are_equal, Sequence_copy]"

definition control_msgs__action__FollowJointTrajectory_Result__functions :: function_table where [function_defs]:
  "control_msgs__action__FollowJointTrajectory_Result__functions = Functions (''control_msgs'', ''action'', ''FollowJointTrajectory_Result'')
     [Init, Fini, Create (Some []), Destroy, Are_equal, Copy, Get_type_hash Message_handle,
      Get_type_description Message_handle, Get_individual_type_description_source Message_handle,
      Get_type_description_sources Message_handle, Sequence_init, Sequence_fini, Sequence_create, Sequence_destroy,
      Sequence_are_equal, Sequence_copy]"

definition control_msgs__action__FollowJointTrajectory_Feedback__functions :: function_table where [function_defs]:
  "control_msgs__action__FollowJointTrajectory_Feedback__functions = Functions (''control_msgs'', ''action'', ''FollowJointTrajectory_Feedback'')
     [Init, Fini, Create (Some []), Destroy, Are_equal, Copy, Get_type_hash Message_handle,
      Get_type_description Message_handle, Get_individual_type_description_source Message_handle,
      Get_type_description_sources Message_handle, Sequence_init, Sequence_fini, Sequence_create, Sequence_destroy,
      Sequence_are_equal, Sequence_copy]"

definition control_msgs__action__FollowJointTrajectory_SendGoal__functions :: function_table where [function_defs]:
  "control_msgs__action__FollowJointTrajectory_SendGoal__functions = Functions (''control_msgs'', ''action'', ''FollowJointTrajectory_SendGoal'')
     [Get_type_hash Service_handle, Get_type_description Service_handle,
      Get_individual_type_description_source Service_handle, Get_type_description_sources Service_handle]"

definition control_msgs__action__FollowJointTrajectory_SendGoal_Request__functions :: function_table where [function_defs]:
  "control_msgs__action__FollowJointTrajectory_SendGoal_Request__functions = Functions (''control_msgs'', ''action'', ''FollowJointTrajectory_SendGoal_Request'')
     [Init, Fini, Create (Some []), Destroy, Are_equal, Copy, Get_type_hash Message_handle,
      Get_type_description Message_handle, Get_individual_type_description_source Message_handle,
      Get_type_description_sources Message_handle, Sequence_init, Sequence_fini, Sequence_create, Sequence_destroy,
      Sequence_are_equal, Sequence_copy]"

definition control_msgs__action__FollowJointTrajectory_SendGoal_Response__functions :: function_table where [function_defs]:
  "control_msgs__action__FollowJointTrajectory_SendGoal_Response__functions = Functions (''control_msgs'', ''action'', ''FollowJointTrajectory_SendGoal_Response'')
     [Init, Fini, Create (Some []), Destroy, Are_equal, Copy, Get_type_hash Message_handle,
      Get_type_description Message_handle, Get_individual_type_description_source Message_handle,
      Get_type_description_sources Message_handle, Sequence_init, Sequence_fini, Sequence_create, Sequence_destroy,
      Sequence_are_equal, Sequence_copy]"

definition control_msgs__action__FollowJointTrajectory_SendGoal_Event__functions :: function_table where [function_defs]:
  "control_msgs__action__FollowJointTrajectory_SendGoal_Event__functions = Functions (''control_msgs'', ''action'', ''FollowJointTrajectory_SendGoal_Event'')
     [Init, Fini, Create (Some []), Destroy, Are_equal, Copy, Get_type_hash Message_handle,
      Get_type_description Message_handle, Get_individual_type_description_source Message_handle,
      Get_type_description_sources Message_handle, Sequence_init, Sequence_fini, Sequence_create, Sequence_destroy,
      Sequence_are_equal, Sequence_copy]"

definition control_msgs__action__FollowJointTrajectory_GetResult__functions :: function_table where [function_defs]:
  "control_msgs__action__FollowJointTrajectory_GetResult__functions = Functions (''control_msgs'', ''action'', ''FollowJointTrajectory_GetResult'')
     [Get_type_hash Service_handle, Get_type_description Service_handle,
      Get_individual_type_description_source Service_handle, Get_type_description_sources Service_handle]"

definition control_msgs__action__FollowJointTrajectory_GetResult_Request__functions :: function_table where [function_defs]:
  "control_msgs__action__FollowJointTrajectory_GetResult_Request__functions = Functions (''control_msgs'', ''action'', ''FollowJointTrajectory_GetResult_Request'')
     [Init, Fini, Create (Some []), Destroy, Are_equal, Copy, Get_type_hash Message_handle,
      Get_type_description Message_handle, Get_individual_type_description_source Message_handle,
      Get_type_description_sources Message_handle, Sequence_init, Sequence_fini, Sequence_create, Sequence_destroy,
      Sequence_are_equal, Sequence_copy]"

definition control_msgs__action__FollowJointTrajectory_GetResult_Response__functions :: function_table where [function_defs]:
  "control_msgs__action__FollowJointTrajectory_GetResult_Response__functions = Functions (''control_msgs'', ''action'', ''FollowJointTrajectory_GetResult_Response'')
     [Init, Fini, Create (Some []), Destroy, Are_equal, Copy, Get_type_hash Message_handle,
      Get_type_description Message_handle, Get_individual_type_description_source Message_handle,
      Get_type_description_sources Message_handle, Sequence_init, Sequence_fini, Sequence_create, Sequence_destroy,
      Sequence_are_equal, Sequence_copy]"

definition control_msgs__action__FollowJointTrajectory_GetResult_Event__functions :: function_table where [function_defs]:
  "control_msgs__action__FollowJointTrajectory_GetResult_Event__functions = Functions (''control_msgs'', ''action'', ''FollowJointTrajectory_GetResult_Event'')
     [Init, Fini, Create (Some []), Destroy, Are_equal, Copy, Get_type_hash Message_handle,
      Get_type_description Message_handle, Get_individual_type_description_source Message_handle,
      Get_type_description_sources Message_handle, Sequence_init, Sequence_fini, Sequence_create, Sequence_destroy,
      Sequence_are_equal, Sequence_copy]"

definition control_msgs__action__FollowJointTrajectory_FeedbackMessage__functions :: function_table where [function_defs]:
  "control_msgs__action__FollowJointTrajectory_FeedbackMessage__functions = Functions (''control_msgs'', ''action'', ''FollowJointTrajectory_FeedbackMessage'')
     [Init, Fini, Create (Some []), Destroy, Are_equal, Copy, Get_type_hash Message_handle,
      Get_type_description Message_handle, Get_individual_type_description_source Message_handle,
      Get_type_description_sources Message_handle, Sequence_init, Sequence_fini, Sequence_create, Sequence_destroy,
      Sequence_are_equal, Sequence_copy]"

definition control_msgs__action__GripperCommand__functions :: function_table where [function_defs]:
  "control_msgs__action__GripperCommand__functions = Functions (''control_msgs'', ''action'', ''GripperCommand'')
     [Get_type_hash Action_handle, Get_type_description Action_handle,
      Get_individual_type_description_source Action_handle, Get_type_description_sources Action_handle]"

definition control_msgs__action__GripperCommand_Goal__functions :: function_table where [function_defs]:
  "control_msgs__action__GripperCommand_Goal__functions = Functions (''control_msgs'', ''action'', ''GripperCommand_Goal'')
     [Init, Fini, Create (Some []), Destroy, Are_equal, Copy, Get_type_hash Message_handle,
      Get_type_description Message_handle, Get_individual_type_description_source Message_handle,
      Get_type_description_sources Message_handle, Sequence_init, Sequence_fini, Sequence_create, Sequence_destroy,
      Sequence_are_equal, Sequence_copy]"

definition control_msgs__action__GripperCommand_Result__functions :: function_table where [function_defs]:
  "control_msgs__action__GripperCommand_Result__functions = Functions (''control_msgs'', ''action'', ''GripperCommand_Result'')
     [Init, Fini, Create (Some []), Destroy, Are_equal, Copy, Get_type_hash Message_handle,
      Get_type_description Message_handle, Get_individual_type_description_source Message_handle,
      Get_type_description_sources Message_handle, Sequence_init, Sequence_fini, Sequence_create, Sequence_destroy,
      Sequence_are_equal, Sequence_copy]"

definition control_msgs__action__GripperCommand_Feedback__functions :: function_table where [function_defs]:
  "control_msgs__action__GripperCommand_Feedback__functions = Functions (''control_msgs'', ''action'', ''GripperCommand_Feedback'')
     [Init, Fini, Create (Some []), Destroy, Are_equal, Copy, Get_type_hash Message_handle,
      Get_type_description Message_handle, Get_individual_type_description_source Message_handle,
      Get_type_description_sources Message_handle, Sequence_init, Sequence_fini, Sequence_create, Sequence_destroy,
      Sequence_are_equal, Sequence_copy]"

definition control_msgs__action__GripperCommand_SendGoal__functions :: function_table where [function_defs]:
  "control_msgs__action__GripperCommand_SendGoal__functions = Functions (''control_msgs'', ''action'', ''GripperCommand_SendGoal'')
     [Get_type_hash Service_handle, Get_type_description Service_handle,
      Get_individual_type_description_source Service_handle, Get_type_description_sources Service_handle]"

definition control_msgs__action__GripperCommand_SendGoal_Request__functions :: function_table where [function_defs]:
  "control_msgs__action__GripperCommand_SendGoal_Request__functions = Functions (''control_msgs'', ''action'', ''GripperCommand_SendGoal_Request'')
     [Init, Fini, Create (Some []), Destroy, Are_equal, Copy, Get_type_hash Message_handle,
      Get_type_description Message_handle, Get_individual_type_description_source Message_handle,
      Get_type_description_sources Message_handle, Sequence_init, Sequence_fini, Sequence_create, Sequence_destroy,
      Sequence_are_equal, Sequence_copy]"

definition control_msgs__action__GripperCommand_SendGoal_Response__functions :: function_table where [function_defs]:
  "control_msgs__action__GripperCommand_SendGoal_Response__functions = Functions (''control_msgs'', ''action'', ''GripperCommand_SendGoal_Response'')
     [Init, Fini, Create (Some []), Destroy, Are_equal, Copy, Get_type_hash Message_handle,
      Get_type_description Message_handle, Get_individual_type_description_source Message_handle,
      Get_type_description_sources Message_handle, Sequence_init, Sequence_fini, Sequence_create, Sequence_destroy,
      Sequence_are_equal, Sequence_copy]"

definition control_msgs__action__GripperCommand_SendGoal_Event__functions :: function_table where [function_defs]:
  "control_msgs__action__GripperCommand_SendGoal_Event__functions = Functions (''control_msgs'', ''action'', ''GripperCommand_SendGoal_Event'')
     [Init, Fini, Create (Some []), Destroy, Are_equal, Copy, Get_type_hash Message_handle,
      Get_type_description Message_handle, Get_individual_type_description_source Message_handle,
      Get_type_description_sources Message_handle, Sequence_init, Sequence_fini, Sequence_create, Sequence_destroy,
      Sequence_are_equal, Sequence_copy]"

definition control_msgs__action__GripperCommand_GetResult__functions :: function_table where [function_defs]:
  "control_msgs__action__GripperCommand_GetResult__functions = Functions (''control_msgs'', ''action'', ''GripperCommand_GetResult'')
     [Get_type_hash Service_handle, Get_type_description Service_handle,
      Get_individual_type_description_source Service_handle, Get_type_description_sources Service_handle]"

definition control_msgs__action__GripperCommand_GetResult_Request__functions :: function_table where [function_defs]:
  "control_msgs__action__GripperCommand_GetResult_Request__functions = Functions (''control_msgs'', ''action'', ''GripperCommand_GetResult_Request'')
     [Init, Fini, Create (Some []), Destroy, Are_equal, Copy, Get_type_hash Message_handle,
      Get_type_description Message_handle, Get_individual_type_description_source Message_handle,
      Get_type_description_sources Message_handle, Sequence_init, Sequence_fini, Sequence_create, Sequence_destroy,
      Sequence_are_equal, Sequence_copy]"

definition control_msgs__action__GripperCommand_GetResult_Response__functions :: function_table where [function_defs]:
  "control_msgs__action__GripperCommand_GetResult_Response__functions = Functions (''control_msgs'', ''action'', ''GripperCommand_GetResult_Response'')
     [Init, Fini, Create (Some []), Destroy, Are_equal, Copy, Get_type_hash Message_handle,
      Get_type_description Message_handle, Get_individual_type_description_source Message_handle,
      Get_type_description_sources Message_handle, Sequence_init, Sequence_fini, Sequence_create, Sequence_destroy,
      Sequence_are_equal, Sequence_copy]"

definition control_msgs__action__GripperCommand_GetResult_Event__functions :: function_table where [function_defs]:
  "control_msgs__action__GripperCommand_GetResult_Event__functions = Functions (''control_msgs'', ''action'', ''GripperCommand_GetResult_Event'')
     [Init, Fini, Create (Some []), Destroy, Are_equal, Copy, Get_type_hash Message_handle,
      Get_type_description Message_handle, Get_individual_type_description_source Message_handle,
      Get_type_description_sources Message_handle, Sequence_init, Sequence_fini, Sequence_create, Sequence_destroy,
      Sequence_are_equal, Sequence_copy]"

definition control_msgs__action__GripperCommand_FeedbackMessage__functions :: function_table where [function_defs]:
  "control_msgs__action__GripperCommand_FeedbackMessage__functions = Functions (''control_msgs'', ''action'', ''GripperCommand_FeedbackMessage'')
     [Init, Fini, Create (Some []), Destroy, Are_equal, Copy, Get_type_hash Message_handle,
      Get_type_description Message_handle, Get_individual_type_description_source Message_handle,
      Get_type_description_sources Message_handle, Sequence_init, Sequence_fini, Sequence_create, Sequence_destroy,
      Sequence_are_equal, Sequence_copy]"

definition control_msgs__action__JointTrajectory__functions :: function_table where [function_defs]:
  "control_msgs__action__JointTrajectory__functions = Functions (''control_msgs'', ''action'', ''JointTrajectory'')
     [Get_type_hash Action_handle, Get_type_description Action_handle,
      Get_individual_type_description_source Action_handle, Get_type_description_sources Action_handle]"

definition control_msgs__action__JointTrajectory_Goal__functions :: function_table where [function_defs]:
  "control_msgs__action__JointTrajectory_Goal__functions = Functions (''control_msgs'', ''action'', ''JointTrajectory_Goal'')
     [Init, Fini, Create (Some []), Destroy, Are_equal, Copy, Get_type_hash Message_handle,
      Get_type_description Message_handle, Get_individual_type_description_source Message_handle,
      Get_type_description_sources Message_handle, Sequence_init, Sequence_fini, Sequence_create, Sequence_destroy,
      Sequence_are_equal, Sequence_copy]"

definition control_msgs__action__JointTrajectory_Result__functions :: function_table where [function_defs]:
  "control_msgs__action__JointTrajectory_Result__functions = Functions (''control_msgs'', ''action'', ''JointTrajectory_Result'')
     [Init, Fini, Create (Some []), Destroy, Are_equal, Copy, Get_type_hash Message_handle,
      Get_type_description Message_handle, Get_individual_type_description_source Message_handle,
      Get_type_description_sources Message_handle, Sequence_init, Sequence_fini, Sequence_create, Sequence_destroy,
      Sequence_are_equal, Sequence_copy]"

definition control_msgs__action__JointTrajectory_Feedback__functions :: function_table where [function_defs]:
  "control_msgs__action__JointTrajectory_Feedback__functions = Functions (''control_msgs'', ''action'', ''JointTrajectory_Feedback'')
     [Init, Fini, Create (Some []), Destroy, Are_equal, Copy, Get_type_hash Message_handle,
      Get_type_description Message_handle, Get_individual_type_description_source Message_handle,
      Get_type_description_sources Message_handle, Sequence_init, Sequence_fini, Sequence_create, Sequence_destroy,
      Sequence_are_equal, Sequence_copy]"

definition control_msgs__action__JointTrajectory_SendGoal__functions :: function_table where [function_defs]:
  "control_msgs__action__JointTrajectory_SendGoal__functions = Functions (''control_msgs'', ''action'', ''JointTrajectory_SendGoal'')
     [Get_type_hash Service_handle, Get_type_description Service_handle,
      Get_individual_type_description_source Service_handle, Get_type_description_sources Service_handle]"

definition control_msgs__action__JointTrajectory_SendGoal_Request__functions :: function_table where [function_defs]:
  "control_msgs__action__JointTrajectory_SendGoal_Request__functions = Functions (''control_msgs'', ''action'', ''JointTrajectory_SendGoal_Request'')
     [Init, Fini, Create (Some []), Destroy, Are_equal, Copy, Get_type_hash Message_handle,
      Get_type_description Message_handle, Get_individual_type_description_source Message_handle,
      Get_type_description_sources Message_handle, Sequence_init, Sequence_fini, Sequence_create, Sequence_destroy,
      Sequence_are_equal, Sequence_copy]"

definition control_msgs__action__JointTrajectory_SendGoal_Response__functions :: function_table where [function_defs]:
  "control_msgs__action__JointTrajectory_SendGoal_Response__functions = Functions (''control_msgs'', ''action'', ''JointTrajectory_SendGoal_Response'')
     [Init, Fini, Create (Some []), Destroy, Are_equal, Copy, Get_type_hash Message_handle,
      Get_type_description Message_handle, Get_individual_type_description_source Message_handle,
      Get_type_description_sources Message_handle, Sequence_init, Sequence_fini, Sequence_create, Sequence_destroy,
      Sequence_are_equal, Sequence_copy]"

definition control_msgs__action__JointTrajectory_SendGoal_Event__functions :: function_table where [function_defs]:
  "control_msgs__action__JointTrajectory_SendGoal_Event__functions = Functions (''control_msgs'', ''action'', ''JointTrajectory_SendGoal_Event'')
     [Init, Fini, Create (Some []), Destroy, Are_equal, Copy, Get_type_hash Message_handle,
      Get_type_description Message_handle, Get_individual_type_description_source Message_handle,
      Get_type_description_sources Message_handle, Sequence_init, Sequence_fini, Sequence_create, Sequence_destroy,
      Sequence_are_equal, Sequence_copy]"

definition control_msgs__action__JointTrajectory_GetResult__functions :: function_table where [function_defs]:
  "control_msgs__action__JointTrajectory_GetResult__functions = Functions (''control_msgs'', ''action'', ''JointTrajectory_GetResult'')
     [Get_type_hash Service_handle, Get_type_description Service_handle,
      Get_individual_type_description_source Service_handle, Get_type_description_sources Service_handle]"

definition control_msgs__action__JointTrajectory_GetResult_Request__functions :: function_table where [function_defs]:
  "control_msgs__action__JointTrajectory_GetResult_Request__functions = Functions (''control_msgs'', ''action'', ''JointTrajectory_GetResult_Request'')
     [Init, Fini, Create (Some []), Destroy, Are_equal, Copy, Get_type_hash Message_handle,
      Get_type_description Message_handle, Get_individual_type_description_source Message_handle,
      Get_type_description_sources Message_handle, Sequence_init, Sequence_fini, Sequence_create, Sequence_destroy,
      Sequence_are_equal, Sequence_copy]"

definition control_msgs__action__JointTrajectory_GetResult_Response__functions :: function_table where [function_defs]:
  "control_msgs__action__JointTrajectory_GetResult_Response__functions = Functions (''control_msgs'', ''action'', ''JointTrajectory_GetResult_Response'')
     [Init, Fini, Create (Some []), Destroy, Are_equal, Copy, Get_type_hash Message_handle,
      Get_type_description Message_handle, Get_individual_type_description_source Message_handle,
      Get_type_description_sources Message_handle, Sequence_init, Sequence_fini, Sequence_create, Sequence_destroy,
      Sequence_are_equal, Sequence_copy]"

definition control_msgs__action__JointTrajectory_GetResult_Event__functions :: function_table where [function_defs]:
  "control_msgs__action__JointTrajectory_GetResult_Event__functions = Functions (''control_msgs'', ''action'', ''JointTrajectory_GetResult_Event'')
     [Init, Fini, Create (Some []), Destroy, Are_equal, Copy, Get_type_hash Message_handle,
      Get_type_description Message_handle, Get_individual_type_description_source Message_handle,
      Get_type_description_sources Message_handle, Sequence_init, Sequence_fini, Sequence_create, Sequence_destroy,
      Sequence_are_equal, Sequence_copy]"

definition control_msgs__action__JointTrajectory_FeedbackMessage__functions :: function_table where [function_defs]:
  "control_msgs__action__JointTrajectory_FeedbackMessage__functions = Functions (''control_msgs'', ''action'', ''JointTrajectory_FeedbackMessage'')
     [Init, Fini, Create (Some []), Destroy, Are_equal, Copy, Get_type_hash Message_handle,
      Get_type_description Message_handle, Get_individual_type_description_source Message_handle,
      Get_type_description_sources Message_handle, Sequence_init, Sequence_fini, Sequence_create, Sequence_destroy,
      Sequence_are_equal, Sequence_copy]"

definition control_msgs__action__PointHead__functions :: function_table where [function_defs]:
  "control_msgs__action__PointHead__functions = Functions (''control_msgs'', ''action'', ''PointHead'')
     [Get_type_hash Action_handle, Get_type_description Action_handle,
      Get_individual_type_description_source Action_handle, Get_type_description_sources Action_handle]"

definition control_msgs__action__PointHead_Goal__functions :: function_table where [function_defs]:
  "control_msgs__action__PointHead_Goal__functions = Functions (''control_msgs'', ''action'', ''PointHead_Goal'')
     [Init, Fini, Create (Some []), Destroy, Are_equal, Copy, Get_type_hash Message_handle,
      Get_type_description Message_handle, Get_individual_type_description_source Message_handle,
      Get_type_description_sources Message_handle, Sequence_init, Sequence_fini, Sequence_create, Sequence_destroy,
      Sequence_are_equal, Sequence_copy]"

definition control_msgs__action__PointHead_Result__functions :: function_table where [function_defs]:
  "control_msgs__action__PointHead_Result__functions = Functions (''control_msgs'', ''action'', ''PointHead_Result'')
     [Init, Fini, Create (Some []), Destroy, Are_equal, Copy, Get_type_hash Message_handle,
      Get_type_description Message_handle, Get_individual_type_description_source Message_handle,
      Get_type_description_sources Message_handle, Sequence_init, Sequence_fini, Sequence_create, Sequence_destroy,
      Sequence_are_equal, Sequence_copy]"

definition control_msgs__action__PointHead_Feedback__functions :: function_table where [function_defs]:
  "control_msgs__action__PointHead_Feedback__functions = Functions (''control_msgs'', ''action'', ''PointHead_Feedback'')
     [Init, Fini, Create (Some []), Destroy, Are_equal, Copy, Get_type_hash Message_handle,
      Get_type_description Message_handle, Get_individual_type_description_source Message_handle,
      Get_type_description_sources Message_handle, Sequence_init, Sequence_fini, Sequence_create, Sequence_destroy,
      Sequence_are_equal, Sequence_copy]"

definition control_msgs__action__PointHead_SendGoal__functions :: function_table where [function_defs]:
  "control_msgs__action__PointHead_SendGoal__functions = Functions (''control_msgs'', ''action'', ''PointHead_SendGoal'')
     [Get_type_hash Service_handle, Get_type_description Service_handle,
      Get_individual_type_description_source Service_handle, Get_type_description_sources Service_handle]"

definition control_msgs__action__PointHead_SendGoal_Request__functions :: function_table where [function_defs]:
  "control_msgs__action__PointHead_SendGoal_Request__functions = Functions (''control_msgs'', ''action'', ''PointHead_SendGoal_Request'')
     [Init, Fini, Create (Some []), Destroy, Are_equal, Copy, Get_type_hash Message_handle,
      Get_type_description Message_handle, Get_individual_type_description_source Message_handle,
      Get_type_description_sources Message_handle, Sequence_init, Sequence_fini, Sequence_create, Sequence_destroy,
      Sequence_are_equal, Sequence_copy]"

definition control_msgs__action__PointHead_SendGoal_Response__functions :: function_table where [function_defs]:
  "control_msgs__action__PointHead_SendGoal_Response__functions = Functions (''control_msgs'', ''action'', ''PointHead_SendGoal_Response'')
     [Init, Fini, Create (Some []), Destroy, Are_equal, Copy, Get_type_hash Message_handle,
      Get_type_description Message_handle, Get_individual_type_description_source Message_handle,
      Get_type_description_sources Message_handle, Sequence_init, Sequence_fini, Sequence_create, Sequence_destroy,
      Sequence_are_equal, Sequence_copy]"

definition control_msgs__action__PointHead_SendGoal_Event__functions :: function_table where [function_defs]:
  "control_msgs__action__PointHead_SendGoal_Event__functions = Functions (''control_msgs'', ''action'', ''PointHead_SendGoal_Event'')
     [Init, Fini, Create (Some []), Destroy, Are_equal, Copy, Get_type_hash Message_handle,
      Get_type_description Message_handle, Get_individual_type_description_source Message_handle,
      Get_type_description_sources Message_handle, Sequence_init, Sequence_fini, Sequence_create, Sequence_destroy,
      Sequence_are_equal, Sequence_copy]"

definition control_msgs__action__PointHead_GetResult__functions :: function_table where [function_defs]:
  "control_msgs__action__PointHead_GetResult__functions = Functions (''control_msgs'', ''action'', ''PointHead_GetResult'')
     [Get_type_hash Service_handle, Get_type_description Service_handle,
      Get_individual_type_description_source Service_handle, Get_type_description_sources Service_handle]"

definition control_msgs__action__PointHead_GetResult_Request__functions :: function_table where [function_defs]:
  "control_msgs__action__PointHead_GetResult_Request__functions = Functions (''control_msgs'', ''action'', ''PointHead_GetResult_Request'')
     [Init, Fini, Create (Some []), Destroy, Are_equal, Copy, Get_type_hash Message_handle,
      Get_type_description Message_handle, Get_individual_type_description_source Message_handle,
      Get_type_description_sources Message_handle, Sequence_init, Sequence_fini, Sequence_create, Sequence_destroy,
      Sequence_are_equal, Sequence_copy]"

definition control_msgs__action__PointHead_GetResult_Response__functions :: function_table where [function_defs]:
  "control_msgs__action__PointHead_GetResult_Response__functions = Functions (''control_msgs'', ''action'', ''PointHead_GetResult_Response'')
     [Init, Fini, Create (Some []), Destroy, Are_equal, Copy, Get_type_hash Message_handle,
      Get_type_description Message_handle, Get_individual_type_description_source Message_handle,
      Get_type_description_sources Message_handle, Sequence_init, Sequence_fini, Sequence_create, Sequence_destroy,
      Sequence_are_equal, Sequence_copy]"

definition control_msgs__action__PointHead_GetResult_Event__functions :: function_table where [function_defs]:
  "control_msgs__action__PointHead_GetResult_Event__functions = Functions (''control_msgs'', ''action'', ''PointHead_GetResult_Event'')
     [Init, Fini, Create (Some []), Destroy, Are_equal, Copy, Get_type_hash Message_handle,
      Get_type_description Message_handle, Get_individual_type_description_source Message_handle,
      Get_type_description_sources Message_handle, Sequence_init, Sequence_fini, Sequence_create, Sequence_destroy,
      Sequence_are_equal, Sequence_copy]"

definition control_msgs__action__PointHead_FeedbackMessage__functions :: function_table where [function_defs]:
  "control_msgs__action__PointHead_FeedbackMessage__functions = Functions (''control_msgs'', ''action'', ''PointHead_FeedbackMessage'')
     [Init, Fini, Create (Some []), Destroy, Are_equal, Copy, Get_type_hash Message_handle,
      Get_type_description Message_handle, Get_individual_type_description_source Message_handle,
      Get_type_description_sources Message_handle, Sequence_init, Sequence_fini, Sequence_create, Sequence_destroy,
      Sequence_are_equal, Sequence_copy]"

definition control_msgs__action__SingleJointPosition__functions :: function_table where [function_defs]:
  "control_msgs__action__SingleJointPosition__functions = Functions (''control_msgs'', ''action'', ''SingleJointPosition'')
     [Get_type_hash Action_handle, Get_type_description Action_handle,
      Get_individual_type_description_source Action_handle, Get_type_description_sources Action_handle]"

definition control_msgs__action__SingleJointPosition_Goal__functions :: function_table where [function_defs]:
  "control_msgs__action__SingleJointPosition_Goal__functions = Functions (''control_msgs'', ''action'', ''SingleJointPosition_Goal'')
     [Init, Fini, Create (Some []), Destroy, Are_equal, Copy, Get_type_hash Message_handle,
      Get_type_description Message_handle, Get_individual_type_description_source Message_handle,
      Get_type_description_sources Message_handle, Sequence_init, Sequence_fini, Sequence_create, Sequence_destroy,
      Sequence_are_equal, Sequence_copy]"

definition control_msgs__action__SingleJointPosition_Result__functions :: function_table where [function_defs]:
  "control_msgs__action__SingleJointPosition_Result__functions = Functions (''control_msgs'', ''action'', ''SingleJointPosition_Result'')
     [Init, Fini, Create (Some []), Destroy, Are_equal, Copy, Get_type_hash Message_handle,
      Get_type_description Message_handle, Get_individual_type_description_source Message_handle,
      Get_type_description_sources Message_handle, Sequence_init, Sequence_fini, Sequence_create, Sequence_destroy,
      Sequence_are_equal, Sequence_copy]"

definition control_msgs__action__SingleJointPosition_Feedback__functions :: function_table where [function_defs]:
  "control_msgs__action__SingleJointPosition_Feedback__functions = Functions (''control_msgs'', ''action'', ''SingleJointPosition_Feedback'')
     [Init, Fini, Create (Some []), Destroy, Are_equal, Copy, Get_type_hash Message_handle,
      Get_type_description Message_handle, Get_individual_type_description_source Message_handle,
      Get_type_description_sources Message_handle, Sequence_init, Sequence_fini, Sequence_create, Sequence_destroy,
      Sequence_are_equal, Sequence_copy]"

definition control_msgs__action__SingleJointPosition_SendGoal__functions :: function_table where [function_defs]:
  "control_msgs__action__SingleJointPosition_SendGoal__functions = Functions (''control_msgs'', ''action'', ''SingleJointPosition_SendGoal'')
     [Get_type_hash Service_handle, Get_type_description Service_handle,
      Get_individual_type_description_source Service_handle, Get_type_description_sources Service_handle]"

definition control_msgs__action__SingleJointPosition_SendGoal_Request__functions :: function_table where [function_defs]:
  "control_msgs__action__SingleJointPosition_SendGoal_Request__functions = Functions (''control_msgs'', ''action'', ''SingleJointPosition_SendGoal_Request'')
     [Init, Fini, Create (Some []), Destroy, Are_equal, Copy, Get_type_hash Message_handle,
      Get_type_description Message_handle, Get_individual_type_description_source Message_handle,
      Get_type_description_sources Message_handle, Sequence_init, Sequence_fini, Sequence_create, Sequence_destroy,
      Sequence_are_equal, Sequence_copy]"

definition control_msgs__action__SingleJointPosition_SendGoal_Response__functions :: function_table where [function_defs]:
  "control_msgs__action__SingleJointPosition_SendGoal_Response__functions = Functions (''control_msgs'', ''action'', ''SingleJointPosition_SendGoal_Response'')
     [Init, Fini, Create (Some []), Destroy, Are_equal, Copy, Get_type_hash Message_handle,
      Get_type_description Message_handle, Get_individual_type_description_source Message_handle,
      Get_type_description_sources Message_handle, Sequence_init, Sequence_fini, Sequence_create, Sequence_destroy,
      Sequence_are_equal, Sequence_copy]"

definition control_msgs__action__SingleJointPosition_SendGoal_Event__functions :: function_table where [function_defs]:
  "control_msgs__action__SingleJointPosition_SendGoal_Event__functions = Functions (''control_msgs'', ''action'', ''SingleJointPosition_SendGoal_Event'')
     [Init, Fini, Create (Some []), Destroy, Are_equal, Copy, Get_type_hash Message_handle,
      Get_type_description Message_handle, Get_individual_type_description_source Message_handle,
      Get_type_description_sources Message_handle, Sequence_init, Sequence_fini, Sequence_create, Sequence_destroy,
      Sequence_are_equal, Sequence_copy]"

definition control_msgs__action__SingleJointPosition_GetResult__functions :: function_table where [function_defs]:
  "control_msgs__action__SingleJointPosition_GetResult__functions = Functions (''control_msgs'', ''action'', ''SingleJointPosition_GetResult'')
     [Get_type_hash Service_handle, Get_type_description Service_handle,
      Get_individual_type_description_source Service_handle, Get_type_description_sources Service_handle]"

definition control_msgs__action__SingleJointPosition_GetResult_Request__functions :: function_table where [function_defs]:
  "control_msgs__action__SingleJointPosition_GetResult_Request__functions = Functions (''control_msgs'', ''action'', ''SingleJointPosition_GetResult_Request'')
     [Init, Fini, Create (Some []), Destroy, Are_equal, Copy, Get_type_hash Message_handle,
      Get_type_description Message_handle, Get_individual_type_description_source Message_handle,
      Get_type_description_sources Message_handle, Sequence_init, Sequence_fini, Sequence_create, Sequence_destroy,
      Sequence_are_equal, Sequence_copy]"

definition control_msgs__action__SingleJointPosition_GetResult_Response__functions :: function_table where [function_defs]:
  "control_msgs__action__SingleJointPosition_GetResult_Response__functions = Functions (''control_msgs'', ''action'', ''SingleJointPosition_GetResult_Response'')
     [Init, Fini, Create (Some []), Destroy, Are_equal, Copy, Get_type_hash Message_handle,
      Get_type_description Message_handle, Get_individual_type_description_source Message_handle,
      Get_type_description_sources Message_handle, Sequence_init, Sequence_fini, Sequence_create, Sequence_destroy,
      Sequence_are_equal, Sequence_copy]"

definition control_msgs__action__SingleJointPosition_GetResult_Event__functions :: function_table where [function_defs]:
  "control_msgs__action__SingleJointPosition_GetResult_Event__functions = Functions (''control_msgs'', ''action'', ''SingleJointPosition_GetResult_Event'')
     [Init, Fini, Create (Some []), Destroy, Are_equal, Copy, Get_type_hash Message_handle,
      Get_type_description Message_handle, Get_individual_type_description_source Message_handle,
      Get_type_description_sources Message_handle, Sequence_init, Sequence_fini, Sequence_create, Sequence_destroy,
      Sequence_are_equal, Sequence_copy]"

definition control_msgs__action__SingleJointPosition_FeedbackMessage__functions :: function_table where [function_defs]:
  "control_msgs__action__SingleJointPosition_FeedbackMessage__functions = Functions (''control_msgs'', ''action'', ''SingleJointPosition_FeedbackMessage'')
     [Init, Fini, Create (Some []), Destroy, Are_equal, Copy, Get_type_hash Message_handle,
      Get_type_description Message_handle, Get_individual_type_description_source Message_handle,
      Get_type_description_sources Message_handle, Sequence_init, Sequence_fini, Sequence_create, Sequence_destroy,
      Sequence_are_equal, Sequence_copy]"

definition control_msgs__msg__DynamicJointState__functions :: function_table where [function_defs]:
  "control_msgs__msg__DynamicJointState__functions = Functions (''control_msgs'', ''msg'', ''DynamicJointState'')
     [Init, Fini, Create (Some []), Destroy, Are_equal, Copy, Get_type_hash Message_handle,
      Get_type_description Message_handle, Get_individual_type_description_source Message_handle,
      Get_type_description_sources Message_handle, Sequence_init, Sequence_fini, Sequence_create, Sequence_destroy,
      Sequence_are_equal, Sequence_copy]"

definition control_msgs__msg__GripperCommand__functions :: function_table where [function_defs]:
  "control_msgs__msg__GripperCommand__functions = Functions (''control_msgs'', ''msg'', ''GripperCommand'')
     [Init, Fini, Create (Some []), Destroy, Are_equal, Copy, Get_type_hash Message_handle,
      Get_type_description Message_handle, Get_individual_type_description_source Message_handle,
      Get_type_description_sources Message_handle, Sequence_init, Sequence_fini, Sequence_create, Sequence_destroy,
      Sequence_are_equal, Sequence_copy]"

definition control_msgs__msg__InterfaceValue__functions :: function_table where [function_defs]:
  "control_msgs__msg__InterfaceValue__functions = Functions (''control_msgs'', ''msg'', ''InterfaceValue'')
     [Init, Fini, Create (Some []), Destroy, Are_equal, Copy, Get_type_hash Message_handle,
      Get_type_description Message_handle, Get_individual_type_description_source Message_handle,
      Get_type_description_sources Message_handle, Sequence_init, Sequence_fini, Sequence_create, Sequence_destroy,
      Sequence_are_equal, Sequence_copy]"

definition control_msgs__msg__JointComponentTolerance__functions :: function_table where [function_defs]:
  "control_msgs__msg__JointComponentTolerance__functions = Functions (''control_msgs'', ''msg'', ''JointComponentTolerance'')
     [Init, Fini, Create (Some []), Destroy, Are_equal, Copy, Get_type_hash Message_handle,
      Get_type_description Message_handle, Get_individual_type_description_source Message_handle,
      Get_type_description_sources Message_handle, Sequence_init, Sequence_fini, Sequence_create, Sequence_destroy,
      Sequence_are_equal, Sequence_copy]"

definition control_msgs__msg__JointControllerState__functions :: function_table where [function_defs]:
  "control_msgs__msg__JointControllerState__functions = Functions (''control_msgs'', ''msg'', ''JointControllerState'')
     [Init, Fini, Create (Some []), Destroy, Are_equal, Copy, Get_type_hash Message_handle,
      Get_type_description Message_handle, Get_individual_type_description_source Message_handle,
      Get_type_description_sources Message_handle, Sequence_init, Sequence_fini, Sequence_create, Sequence_destroy,
      Sequence_are_equal, Sequence_copy]"

definition control_msgs__msg__JointJog__functions :: function_table where [function_defs]:
  "control_msgs__msg__JointJog__functions = Functions (''control_msgs'', ''msg'', ''JointJog'')
     [Init, Fini, Create (Some []), Destroy, Are_equal, Copy, Get_type_hash Message_handle,
      Get_type_description Message_handle, Get_individual_type_description_source Message_handle,
      Get_type_description_sources Message_handle, Sequence_init, Sequence_fini, Sequence_create, Sequence_destroy,
      Sequence_are_equal, Sequence_copy]"

definition control_msgs__msg__JointTolerance__functions :: function_table where [function_defs]:
  "control_msgs__msg__JointTolerance__functions = Functions (''control_msgs'', ''msg'', ''JointTolerance'')
     [Init, Fini, Create (Some []), Destroy, Are_equal, Copy, Get_type_hash Message_handle,
      Get_type_description Message_handle, Get_individual_type_description_source Message_handle,
      Get_type_description_sources Message_handle, Sequence_init, Sequence_fini, Sequence_create, Sequence_destroy,
      Sequence_are_equal, Sequence_copy]"

definition control_msgs__msg__JointTrajectoryControllerState__functions :: function_table where [function_defs]:
  "control_msgs__msg__JointTrajectoryControllerState__functions = Functions (''control_msgs'', ''msg'', ''JointTrajectoryControllerState'')
     [Init, Fini, Create (Some []), Destroy, Are_equal, Copy, Get_type_hash Message_handle,
      Get_type_description Message_handle, Get_individual_type_description_source Message_handle,
      Get_type_description_sources Message_handle, Sequence_init, Sequence_fini, Sequence_create, Sequence_destroy,
      Sequence_are_equal, Sequence_copy]"

definition control_msgs__msg__PidState__functions :: function_table where [function_defs]:
  "control_msgs__msg__PidState__functions = Functions (''control_msgs'', ''msg'', ''PidState'')
     [Init, Fini, Create (Some []), Destroy, Are_equal, Copy, Get_type_hash Message_handle,
      Get_type_description Message_handle, Get_individual_type_description_source Message_handle,
      Get_type_description_sources Message_handle, Sequence_init, Sequence_fini, Sequence_create, Sequence_destroy,
      Sequence_are_equal, Sequence_copy]"

definition control_msgs__srv__QueryCalibrationState__functions :: function_table where [function_defs]:
  "control_msgs__srv__QueryCalibrationState__functions = Functions (''control_msgs'', ''srv'', ''QueryCalibrationState'')
     [Get_type_hash Service_handle, Get_type_description Service_handle,
      Get_individual_type_description_source Service_handle, Get_type_description_sources Service_handle]"

definition control_msgs__srv__QueryCalibrationState_Request__functions :: function_table where [function_defs]:
  "control_msgs__srv__QueryCalibrationState_Request__functions = Functions (''control_msgs'', ''srv'', ''QueryCalibrationState_Request'')
     [Init, Fini, Create (Some []), Destroy, Are_equal, Copy, Get_type_hash Message_handle,
      Get_type_description Message_handle, Get_individual_type_description_source Message_handle,
      Get_type_description_sources Message_handle, Sequence_init, Sequence_fini, Sequence_create, Sequence_destroy,
      Sequence_are_equal, Sequence_copy]"

definition control_msgs__srv__QueryCalibrationState_Response__functions :: function_table where [function_defs]:
  "control_msgs__srv__QueryCalibrationState_Response__functions = Functions (''control_msgs'', ''srv'', ''QueryCalibrationState_Response'')
     [Init, Fini, Create (Some []), Destroy, Are_equal, Copy, Get_type_hash Message_handle,
      Get_type_description Message_handle, Get_individual_type_description_source Message_handle,
      Get_type_description_sources Message_handle, Sequence_init, Sequence_fini, Sequence_create, Sequence_destroy,
      Sequence_are_equal, Sequence_copy]"

definition control_msgs__srv__QueryCalibrationState_Event__functions :: function_table where [function_defs]:
  "control_msgs__srv__QueryCalibrationState_Event__functions = Functions (''control_msgs'', ''srv'', ''QueryCalibrationState_Event'')
     [Init, Fini, Create (Some []), Destroy, Are_equal, Copy, Get_type_hash Message_handle,
      Get_type_description Message_handle, Get_individual_type_description_source Message_handle,
      Get_type_description_sources Message_handle, Sequence_init, Sequence_fini, Sequence_create, Sequence_destroy,
      Sequence_are_equal, Sequence_copy]"

definition control_msgs__srv__QueryTrajectoryState__functions :: function_table where [function_defs]:
  "control_msgs__srv__QueryTrajectoryState__functions = Functions (''control_msgs'', ''srv'', ''QueryTrajectoryState'')
     [Get_type_hash Service_handle, Get_type_description Service_handle,
      Get_individual_type_description_source Service_handle, Get_type_description_sources Service_handle]"

definition control_msgs__srv__QueryTrajectoryState_Request__functions :: function_table where [function_defs]:
  "control_msgs__srv__QueryTrajectoryState_Request__functions = Functions (''control_msgs'', ''srv'', ''QueryTrajectoryState_Request'')
     [Init, Fini, Create (Some []), Destroy, Are_equal, Copy, Get_type_hash Message_handle,
      Get_type_description Message_handle, Get_individual_type_description_source Message_handle,
      Get_type_description_sources Message_handle, Sequence_init, Sequence_fini, Sequence_create, Sequence_destroy,
      Sequence_are_equal, Sequence_copy]"

definition control_msgs__srv__QueryTrajectoryState_Response__functions :: function_table where [function_defs]:
  "control_msgs__srv__QueryTrajectoryState_Response__functions = Functions (''control_msgs'', ''srv'', ''QueryTrajectoryState_Response'')
     [Init, Fini, Create (Some []), Destroy, Are_equal, Copy, Get_type_hash Message_handle,
      Get_type_description Message_handle, Get_individual_type_description_source Message_handle,
      Get_type_description_sources Message_handle, Sequence_init, Sequence_fini, Sequence_create, Sequence_destroy,
      Sequence_are_equal, Sequence_copy]"

definition control_msgs__srv__QueryTrajectoryState_Event__functions :: function_table where [function_defs]:
  "control_msgs__srv__QueryTrajectoryState_Event__functions = Functions (''control_msgs'', ''srv'', ''QueryTrajectoryState_Event'')
     [Init, Fini, Create (Some []), Destroy, Are_equal, Copy, Get_type_hash Message_handle,
      Get_type_description Message_handle, Get_individual_type_description_source Message_handle,
      Get_type_description_sources Message_handle, Sequence_init, Sequence_fini, Sequence_create, Sequence_destroy,
      Sequence_are_equal, Sequence_copy]"

end
