(* ===== verification/Functions_Test.thy ===== *)
theory Functions_Test
  imports Header_Symbols
begin

text \<open>
  The functions declared for each interface of the packages for tests, from the headers
  \<^verbatim>\<open>*__functions.h\<close>, in the order of the headers.
\<close>

subsection \<open>Package test msgs\<close>

definition test_msgs__action__Fibonacci__functions :: function_table where [function_defs]:
  "test_msgs__action__Fibonacci__functions = Functions (''test_msgs'', ''action'', ''Fibonacci'')
     [Get_type_hash Action_handle, Get_type_description Action_handle,
      Get_individual_type_description_source Action_handle, Get_type_description_sources Action_handle]"

definition test_msgs__action__Fibonacci_Goal__functions :: function_table where [function_defs]:
  "test_msgs__action__Fibonacci_Goal__functions = Functions (''test_msgs'', ''action'', ''Fibonacci_Goal'')
     [Init, Fini, Create (Some []), Destroy, Are_equal, Copy, Get_type_hash Message_handle,
      Get_type_description Message_handle, Get_individual_type_description_source Message_handle,
      Get_type_description_sources Message_handle, Sequence_init, Sequence_fini, Sequence_create, Sequence_destroy,
      Sequence_are_equal, Sequence_copy]"

definition test_msgs__action__Fibonacci_Result__functions :: function_table where [function_defs]:
  "test_msgs__action__Fibonacci_Result__functions = Functions (''test_msgs'', ''action'', ''Fibonacci_Result'')
     [Init, Fini, Create (Some []), Destroy, Are_equal, Copy, Get_type_hash Message_handle,
      Get_type_description Message_handle, Get_individual_type_description_source Message_handle,
      Get_type_description_sources Message_handle, Sequence_init, Sequence_fini, Sequence_create, Sequence_destroy,
      Sequence_are_equal, Sequence_copy]"

definition test_msgs__action__Fibonacci_Feedback__functions :: function_table where [function_defs]:
  "test_msgs__action__Fibonacci_Feedback__functions = Functions (''test_msgs'', ''action'', ''Fibonacci_Feedback'')
     [Init, Fini, Create (Some []), Destroy, Are_equal, Copy, Get_type_hash Message_handle,
      Get_type_description Message_handle, Get_individual_type_description_source Message_handle,
      Get_type_description_sources Message_handle, Sequence_init, Sequence_fini, Sequence_create, Sequence_destroy,
      Sequence_are_equal, Sequence_copy]"

definition test_msgs__action__Fibonacci_SendGoal__functions :: function_table where [function_defs]:
  "test_msgs__action__Fibonacci_SendGoal__functions = Functions (''test_msgs'', ''action'', ''Fibonacci_SendGoal'')
     [Get_type_hash Service_handle, Get_type_description Service_handle,
      Get_individual_type_description_source Service_handle, Get_type_description_sources Service_handle]"

definition test_msgs__action__Fibonacci_SendGoal_Request__functions :: function_table where [function_defs]:
  "test_msgs__action__Fibonacci_SendGoal_Request__functions = Functions (''test_msgs'', ''action'', ''Fibonacci_SendGoal_Request'')
     [Init, Fini, Create (Some []), Destroy, Are_equal, Copy, Get_type_hash Message_handle,
      Get_type_description Message_handle, Get_individual_type_description_source Message_handle,
      Get_type_description_sources Message_handle, Sequence_init, Sequence_fini, Sequence_create, Sequence_destroy,
      Sequence_are_equal, Sequence_copy]"

definition test_msgs__action__Fibonacci_SendGoal_Response__functions :: function_table where [function_defs]:
  "test_msgs__action__Fibonacci_SendGoal_Response__functions = Functions (''test_msgs'', ''action'', ''Fibonacci_SendGoal_Response'')
     [Init, Fini, Create (Some []), Destroy, Are_equal, Copy, Get_type_hash Message_handle,
      Get_type_description Message_handle, Get_individual_type_description_source Message_handle,
      Get_type_description_sources Message_handle, Sequence_init, Sequence_fini, Sequence_create, Sequence_destroy,
      Sequence_are_equal, Sequence_copy]"

definition test_msgs__action__Fibonacci_SendGoal_Event__functions :: function_table where [function_defs]:
  "test_msgs__action__Fibonacci_SendGoal_Event__functions = Functions (''test_msgs'', ''action'', ''Fibonacci_SendGoal_Event'')
     [Init, Fini, Create (Some []), Destroy, Are_equal, Copy, Get_type_hash Message_handle,
      Get_type_description Message_handle, Get_individual_type_description_source Message_handle,
      Get_type_description_sources Message_handle, Sequence_init, Sequence_fini, Sequence_create, Sequence_destroy,
      Sequence_are_equal, Sequence_copy]"

definition test_msgs__action__Fibonacci_GetResult__functions :: function_table where [function_defs]:
  "test_msgs__action__Fibonacci_GetResult__functions = Functions (''test_msgs'', ''action'', ''Fibonacci_GetResult'')
     [Get_type_hash Service_handle, Get_type_description Service_handle,
      Get_individual_type_description_source Service_handle, Get_type_description_sources Service_handle]"

definition test_msgs__action__Fibonacci_GetResult_Request__functions :: function_table where [function_defs]:
  "test_msgs__action__Fibonacci_GetResult_Request__functions = Functions (''test_msgs'', ''action'', ''Fibonacci_GetResult_Request'')
     [Init, Fini, Create (Some []), Destroy, Are_equal, Copy, Get_type_hash Message_handle,
      Get_type_description Message_handle, Get_individual_type_description_source Message_handle,
      Get_type_description_sources Message_handle, Sequence_init, Sequence_fini, Sequence_create, Sequence_destroy,
      Sequence_are_equal, Sequence_copy]"

definition test_msgs__action__Fibonacci_GetResult_Response__functions :: function_table where [function_defs]:
  "test_msgs__action__Fibonacci_GetResult_Response__functions = Functions (''test_msgs'', ''action'', ''Fibonacci_GetResult_Response'')
     [Init, Fini, Create (Some []), Destroy, Are_equal, Copy, Get_type_hash Message_handle,
      Get_type_description Message_handle, Get_individual_type_description_source Message_handle,
      Get_type_description_sources Message_handle, Sequence_init, Sequence_fini, Sequence_create, Sequence_destroy,
      Sequence_are_equal, Sequence_copy]"

definition test_msgs__action__Fibonacci_GetResult_Event__functions :: function_table where [function_defs]:
  "test_msgs__action__Fibonacci_GetResult_Event__functions = Functions (''test_msgs'', ''action'', ''Fibonacci_GetResult_Event'')
     [Init, Fini, Create (Some []), Destroy, Are_equal, Copy, Get_type_hash Message_handle,
      Get_type_description Message_handle, Get_individual_type_description_source Message_handle,
      Get_type_description_sources Message_handle, Sequence_init, Sequence_fini, Sequence_create, Sequence_destroy,
      Sequence_are_equal, Sequence_copy]"

definition test_msgs__action__Fibonacci_FeedbackMessage__functions :: function_table where [function_defs]:
  "test_msgs__action__Fibonacci_FeedbackMessage__functions = Functions (''test_msgs'', ''action'', ''Fibonacci_FeedbackMessage'')
     [Init, Fini, Create (Some []), Destroy, Are_equal, Copy, Get_type_hash Message_handle,
      Get_type_description Message_handle, Get_individual_type_description_source Message_handle,
      Get_type_description_sources Message_handle, Sequence_init, Sequence_fini, Sequence_create, Sequence_destroy,
      Sequence_are_equal, Sequence_copy]"

definition test_msgs__action__NestedMessage__functions :: function_table where [function_defs]:
  "test_msgs__action__NestedMessage__functions = Functions (''test_msgs'', ''action'', ''NestedMessage'')
     [Get_type_hash Action_handle, Get_type_description Action_handle,
      Get_individual_type_description_source Action_handle, Get_type_description_sources Action_handle]"

definition test_msgs__action__NestedMessage_Goal__functions :: function_table where [function_defs]:
  "test_msgs__action__NestedMessage_Goal__functions = Functions (''test_msgs'', ''action'', ''NestedMessage_Goal'')
     [Init, Fini, Create (Some []), Destroy, Are_equal, Copy, Get_type_hash Message_handle,
      Get_type_description Message_handle, Get_individual_type_description_source Message_handle,
      Get_type_description_sources Message_handle, Sequence_init, Sequence_fini, Sequence_create, Sequence_destroy,
      Sequence_are_equal, Sequence_copy]"

definition test_msgs__action__NestedMessage_Result__functions :: function_table where [function_defs]:
  "test_msgs__action__NestedMessage_Result__functions = Functions (''test_msgs'', ''action'', ''NestedMessage_Result'')
     [Init, Fini, Create (Some []), Destroy, Are_equal, Copy, Get_type_hash Message_handle,
      Get_type_description Message_handle, Get_individual_type_description_source Message_handle,
      Get_type_description_sources Message_handle, Sequence_init, Sequence_fini, Sequence_create, Sequence_destroy,
      Sequence_are_equal, Sequence_copy]"

definition test_msgs__action__NestedMessage_Feedback__functions :: function_table where [function_defs]:
  "test_msgs__action__NestedMessage_Feedback__functions = Functions (''test_msgs'', ''action'', ''NestedMessage_Feedback'')
     [Init, Fini, Create (Some []), Destroy, Are_equal, Copy, Get_type_hash Message_handle,
      Get_type_description Message_handle, Get_individual_type_description_source Message_handle,
      Get_type_description_sources Message_handle, Sequence_init, Sequence_fini, Sequence_create, Sequence_destroy,
      Sequence_are_equal, Sequence_copy]"

definition test_msgs__action__NestedMessage_SendGoal__functions :: function_table where [function_defs]:
  "test_msgs__action__NestedMessage_SendGoal__functions = Functions (''test_msgs'', ''action'', ''NestedMessage_SendGoal'')
     [Get_type_hash Service_handle, Get_type_description Service_handle,
      Get_individual_type_description_source Service_handle, Get_type_description_sources Service_handle]"

definition test_msgs__action__NestedMessage_SendGoal_Request__functions :: function_table where [function_defs]:
  "test_msgs__action__NestedMessage_SendGoal_Request__functions = Functions (''test_msgs'', ''action'', ''NestedMessage_SendGoal_Request'')
     [Init, Fini, Create (Some []), Destroy, Are_equal, Copy, Get_type_hash Message_handle,
      Get_type_description Message_handle, Get_individual_type_description_source Message_handle,
      Get_type_description_sources Message_handle, Sequence_init, Sequence_fini, Sequence_create, Sequence_destroy,
      Sequence_are_equal, Sequence_copy]"

definition test_msgs__action__NestedMessage_SendGoal_Response__functions :: function_table where [function_defs]:
  "test_msgs__action__NestedMessage_SendGoal_Response__functions = Functions (''test_msgs'', ''action'', ''NestedMessage_SendGoal_Response'')
     [Init, Fini, Create (Some []), Destroy, Are_equal, Copy, Get_type_hash Message_handle,
      Get_type_description Message_handle, Get_individual_type_description_source Message_handle,
      Get_type_description_sources Message_handle, Sequence_init, Sequence_fini, Sequence_create, Sequence_destroy,
      Sequence_are_equal, Sequence_copy]"

definition test_msgs__action__NestedMessage_SendGoal_Event__functions :: function_table where [function_defs]:
  "test_msgs__action__NestedMessage_SendGoal_Event__functions = Functions (''test_msgs'', ''action'', ''NestedMessage_SendGoal_Event'')
     [Init, Fini, Create (Some []), Destroy, Are_equal, Copy, Get_type_hash Message_handle,
      Get_type_description Message_handle, Get_individual_type_description_source Message_handle,
      Get_type_description_sources Message_handle, Sequence_init, Sequence_fini, Sequence_create, Sequence_destroy,
      Sequence_are_equal, Sequence_copy]"

definition test_msgs__action__NestedMessage_GetResult__functions :: function_table where [function_defs]:
  "test_msgs__action__NestedMessage_GetResult__functions = Functions (''test_msgs'', ''action'', ''NestedMessage_GetResult'')
     [Get_type_hash Service_handle, Get_type_description Service_handle,
      Get_individual_type_description_source Service_handle, Get_type_description_sources Service_handle]"

definition test_msgs__action__NestedMessage_GetResult_Request__functions :: function_table where [function_defs]:
  "test_msgs__action__NestedMessage_GetResult_Request__functions = Functions (''test_msgs'', ''action'', ''NestedMessage_GetResult_Request'')
     [Init, Fini, Create (Some []), Destroy, Are_equal, Copy, Get_type_hash Message_handle,
      Get_type_description Message_handle, Get_individual_type_description_source Message_handle,
      Get_type_description_sources Message_handle, Sequence_init, Sequence_fini, Sequence_create, Sequence_destroy,
      Sequence_are_equal, Sequence_copy]"

definition test_msgs__action__NestedMessage_GetResult_Response__functions :: function_table where [function_defs]:
  "test_msgs__action__NestedMessage_GetResult_Response__functions = Functions (''test_msgs'', ''action'', ''NestedMessage_GetResult_Response'')
     [Init, Fini, Create (Some []), Destroy, Are_equal, Copy, Get_type_hash Message_handle,
      Get_type_description Message_handle, Get_individual_type_description_source Message_handle,
      Get_type_description_sources Message_handle, Sequence_init, Sequence_fini, Sequence_create, Sequence_destroy,
      Sequence_are_equal, Sequence_copy]"

definition test_msgs__action__NestedMessage_GetResult_Event__functions :: function_table where [function_defs]:
  "test_msgs__action__NestedMessage_GetResult_Event__functions = Functions (''test_msgs'', ''action'', ''NestedMessage_GetResult_Event'')
     [Init, Fini, Create (Some []), Destroy, Are_equal, Copy, Get_type_hash Message_handle,
      Get_type_description Message_handle, Get_individual_type_description_source Message_handle,
      Get_type_description_sources Message_handle, Sequence_init, Sequence_fini, Sequence_create, Sequence_destroy,
      Sequence_are_equal, Sequence_copy]"

definition test_msgs__action__NestedMessage_FeedbackMessage__functions :: function_table where [function_defs]:
  "test_msgs__action__NestedMessage_FeedbackMessage__functions = Functions (''test_msgs'', ''action'', ''NestedMessage_FeedbackMessage'')
     [Init, Fini, Create (Some []), Destroy, Are_equal, Copy, Get_type_hash Message_handle,
      Get_type_description Message_handle, Get_individual_type_description_source Message_handle,
      Get_type_description_sources Message_handle, Sequence_init, Sequence_fini, Sequence_create, Sequence_destroy,
      Sequence_are_equal, Sequence_copy]"

definition test_msgs__msg__Arrays__functions :: function_table where [function_defs]:
  "test_msgs__msg__Arrays__functions = Functions (''test_msgs'', ''msg'', ''Arrays'')
     [Init, Fini, Create (Some []), Destroy, Are_equal, Copy, Get_type_hash Message_handle,
      Get_type_description Message_handle, Get_individual_type_description_source Message_handle,
      Get_type_description_sources Message_handle, Sequence_init, Sequence_fini, Sequence_create, Sequence_destroy,
      Sequence_are_equal, Sequence_copy]"

definition test_msgs__msg__BasicTypes__functions :: function_table where [function_defs]:
  "test_msgs__msg__BasicTypes__functions = Functions (''test_msgs'', ''msg'', ''BasicTypes'')
     [Init, Fini, Create (Some []), Destroy, Are_equal, Copy, Get_type_hash Message_handle,
      Get_type_description Message_handle, Get_individual_type_description_source Message_handle,
      Get_type_description_sources Message_handle, Sequence_init, Sequence_fini, Sequence_create, Sequence_destroy,
      Sequence_are_equal, Sequence_copy]"

definition test_msgs__msg__BoundedPlainSequences__functions :: function_table where [function_defs]:
  "test_msgs__msg__BoundedPlainSequences__functions = Functions (''test_msgs'', ''msg'', ''BoundedPlainSequences'')
     [Init, Fini, Create (Some []), Destroy, Are_equal, Copy, Get_type_hash Message_handle,
      Get_type_description Message_handle, Get_individual_type_description_source Message_handle,
      Get_type_description_sources Message_handle, Sequence_init, Sequence_fini, Sequence_create, Sequence_destroy,
      Sequence_are_equal, Sequence_copy]"

definition test_msgs__msg__BoundedSequences__functions :: function_table where [function_defs]:
  "test_msgs__msg__BoundedSequences__functions = Functions (''test_msgs'', ''msg'', ''BoundedSequences'')
     [Init, Fini, Create (Some []), Destroy, Are_equal, Copy, Get_type_hash Message_handle,
      Get_type_description Message_handle, Get_individual_type_description_source Message_handle,
      Get_type_description_sources Message_handle, Sequence_init, Sequence_fini, Sequence_create, Sequence_destroy,
      Sequence_are_equal, Sequence_copy]"

definition test_msgs__msg__Builtins__functions :: function_table where [function_defs]:
  "test_msgs__msg__Builtins__functions = Functions (''test_msgs'', ''msg'', ''Builtins'')
     [Init, Fini, Create (Some []), Destroy, Are_equal, Copy, Get_type_hash Message_handle,
      Get_type_description Message_handle, Get_individual_type_description_source Message_handle,
      Get_type_description_sources Message_handle, Sequence_init, Sequence_fini, Sequence_create, Sequence_destroy,
      Sequence_are_equal, Sequence_copy]"

definition test_msgs__msg__ComplexNestedKey__functions :: function_table where [function_defs]:
  "test_msgs__msg__ComplexNestedKey__functions = Functions (''test_msgs'', ''msg'', ''ComplexNestedKey'')
     [Init, Fini, Create (Some []), Destroy, Are_equal, Copy, Get_type_hash Message_handle,
      Get_type_description Message_handle, Get_individual_type_description_source Message_handle,
      Get_type_description_sources Message_handle, Sequence_init, Sequence_fini, Sequence_create, Sequence_destroy,
      Sequence_are_equal, Sequence_copy]"

definition test_msgs__msg__Constants__functions :: function_table where [function_defs]:
  "test_msgs__msg__Constants__functions = Functions (''test_msgs'', ''msg'', ''Constants'')
     [Init, Fini, Create (Some []), Destroy, Are_equal, Copy, Get_type_hash Message_handle,
      Get_type_description Message_handle, Get_individual_type_description_source Message_handle,
      Get_type_description_sources Message_handle, Sequence_init, Sequence_fini, Sequence_create, Sequence_destroy,
      Sequence_are_equal, Sequence_copy]"

definition test_msgs__msg__Defaults__functions :: function_table where [function_defs]:
  "test_msgs__msg__Defaults__functions = Functions (''test_msgs'', ''msg'', ''Defaults'')
     [Init, Fini, Create (Some []), Destroy, Are_equal, Copy, Get_type_hash Message_handle,
      Get_type_description Message_handle, Get_individual_type_description_source Message_handle,
      Get_type_description_sources Message_handle, Sequence_init, Sequence_fini, Sequence_create, Sequence_destroy,
      Sequence_are_equal, Sequence_copy]"

definition test_msgs__msg__Empty__functions :: function_table where [function_defs]:
  "test_msgs__msg__Empty__functions = Functions (''test_msgs'', ''msg'', ''Empty'')
     [Init, Fini, Create (Some []), Destroy, Are_equal, Copy, Get_type_hash Message_handle,
      Get_type_description Message_handle, Get_individual_type_description_source Message_handle,
      Get_type_description_sources Message_handle, Sequence_init, Sequence_fini, Sequence_create, Sequence_destroy,
      Sequence_are_equal, Sequence_copy]"

definition test_msgs__msg__KeyedLong__functions :: function_table where [function_defs]:
  "test_msgs__msg__KeyedLong__functions = Functions (''test_msgs'', ''msg'', ''KeyedLong'')
     [Init, Fini, Create (Some []), Destroy, Are_equal, Copy, Get_type_hash Message_handle,
      Get_type_description Message_handle, Get_individual_type_description_source Message_handle,
      Get_type_description_sources Message_handle, Sequence_init, Sequence_fini, Sequence_create, Sequence_destroy,
      Sequence_are_equal, Sequence_copy]"

definition test_msgs__msg__KeyedString__functions :: function_table where [function_defs]:
  "test_msgs__msg__KeyedString__functions = Functions (''test_msgs'', ''msg'', ''KeyedString'')
     [Init, Fini, Create (Some []), Destroy, Are_equal, Copy, Get_type_hash Message_handle,
      Get_type_description Message_handle, Get_individual_type_description_source Message_handle,
      Get_type_description_sources Message_handle, Sequence_init, Sequence_fini, Sequence_create, Sequence_destroy,
      Sequence_are_equal, Sequence_copy]"

definition test_msgs__msg__MultiNested__functions :: function_table where [function_defs]:
  "test_msgs__msg__MultiNested__functions = Functions (''test_msgs'', ''msg'', ''MultiNested'')
     [Init, Fini, Create (Some []), Destroy, Are_equal, Copy, Get_type_hash Message_handle,
      Get_type_description Message_handle, Get_individual_type_description_source Message_handle,
      Get_type_description_sources Message_handle, Sequence_init, Sequence_fini, Sequence_create, Sequence_destroy,
      Sequence_are_equal, Sequence_copy]"

definition test_msgs__msg__Nested__functions :: function_table where [function_defs]:
  "test_msgs__msg__Nested__functions = Functions (''test_msgs'', ''msg'', ''Nested'')
     [Init, Fini, Create (Some []), Destroy, Are_equal, Copy, Get_type_hash Message_handle,
      Get_type_description Message_handle, Get_individual_type_description_source Message_handle,
      Get_type_description_sources Message_handle, Sequence_init, Sequence_fini, Sequence_create, Sequence_destroy,
      Sequence_are_equal, Sequence_copy]"

definition test_msgs__msg__NonKeyedWithNestedKey__functions :: function_table where [function_defs]:
  "test_msgs__msg__NonKeyedWithNestedKey__functions = Functions (''test_msgs'', ''msg'', ''NonKeyedWithNestedKey'')
     [Init, Fini, Create (Some []), Destroy, Are_equal, Copy, Get_type_hash Message_handle,
      Get_type_description Message_handle, Get_individual_type_description_source Message_handle,
      Get_type_description_sources Message_handle, Sequence_init, Sequence_fini, Sequence_create, Sequence_destroy,
      Sequence_are_equal, Sequence_copy]"

definition test_msgs__msg__Strings__functions :: function_table where [function_defs]:
  "test_msgs__msg__Strings__functions = Functions (''test_msgs'', ''msg'', ''Strings'')
     [Init, Fini, Create (Some []), Destroy, Are_equal, Copy, Get_type_hash Message_handle,
      Get_type_description Message_handle, Get_individual_type_description_source Message_handle,
      Get_type_description_sources Message_handle, Sequence_init, Sequence_fini, Sequence_create, Sequence_destroy,
      Sequence_are_equal, Sequence_copy]"

definition test_msgs__msg__UnboundedSequences__functions :: function_table where [function_defs]:
  "test_msgs__msg__UnboundedSequences__functions = Functions (''test_msgs'', ''msg'', ''UnboundedSequences'')
     [Init, Fini, Create (Some []), Destroy, Are_equal, Copy, Get_type_hash Message_handle,
      Get_type_description Message_handle, Get_individual_type_description_source Message_handle,
      Get_type_description_sources Message_handle, Sequence_init, Sequence_fini, Sequence_create, Sequence_destroy,
      Sequence_are_equal, Sequence_copy]"

definition test_msgs__msg__WStrings__functions :: function_table where [function_defs]:
  "test_msgs__msg__WStrings__functions = Functions (''test_msgs'', ''msg'', ''WStrings'')
     [Init, Fini, Create (Some []), Destroy, Are_equal, Copy, Get_type_hash Message_handle,
      Get_type_description Message_handle, Get_individual_type_description_source Message_handle,
      Get_type_description_sources Message_handle, Sequence_init, Sequence_fini, Sequence_create, Sequence_destroy,
      Sequence_are_equal, Sequence_copy]"

definition test_msgs__srv__Arrays__functions :: function_table where [function_defs]:
  "test_msgs__srv__Arrays__functions = Functions (''test_msgs'', ''srv'', ''Arrays'')
     [Get_type_hash Service_handle, Get_type_description Service_handle,
      Get_individual_type_description_source Service_handle, Get_type_description_sources Service_handle]"

definition test_msgs__srv__Arrays_Request__functions :: function_table where [function_defs]:
  "test_msgs__srv__Arrays_Request__functions = Functions (''test_msgs'', ''srv'', ''Arrays_Request'')
     [Init, Fini, Create (Some []), Destroy, Are_equal, Copy, Get_type_hash Message_handle,
      Get_type_description Message_handle, Get_individual_type_description_source Message_handle,
      Get_type_description_sources Message_handle, Sequence_init, Sequence_fini, Sequence_create, Sequence_destroy,
      Sequence_are_equal, Sequence_copy]"

definition test_msgs__srv__Arrays_Response__functions :: function_table where [function_defs]:
  "test_msgs__srv__Arrays_Response__functions = Functions (''test_msgs'', ''srv'', ''Arrays_Response'')
     [Init, Fini, Create (Some []), Destroy, Are_equal, Copy, Get_type_hash Message_handle,
      Get_type_description Message_handle, Get_individual_type_description_source Message_handle,
      Get_type_description_sources Message_handle, Sequence_init, Sequence_fini, Sequence_create, Sequence_destroy,
      Sequence_are_equal, Sequence_copy]"

definition test_msgs__srv__Arrays_Event__functions :: function_table where [function_defs]:
  "test_msgs__srv__Arrays_Event__functions = Functions (''test_msgs'', ''srv'', ''Arrays_Event'')
     [Init, Fini, Create (Some []), Destroy, Are_equal, Copy, Get_type_hash Message_handle,
      Get_type_description Message_handle, Get_individual_type_description_source Message_handle,
      Get_type_description_sources Message_handle, Sequence_init, Sequence_fini, Sequence_create, Sequence_destroy,
      Sequence_are_equal, Sequence_copy]"

definition test_msgs__srv__BasicTypes__functions :: function_table where [function_defs]:
  "test_msgs__srv__BasicTypes__functions = Functions (''test_msgs'', ''srv'', ''BasicTypes'')
     [Get_type_hash Service_handle, Get_type_description Service_handle,
      Get_individual_type_description_source Service_handle, Get_type_description_sources Service_handle]"

definition test_msgs__srv__BasicTypes_Request__functions :: function_table where [function_defs]:
  "test_msgs__srv__BasicTypes_Request__functions = Functions (''test_msgs'', ''srv'', ''BasicTypes_Request'')
     [Init, Fini, Create (Some []), Destroy, Are_equal, Copy, Get_type_hash Message_handle,
      Get_type_description Message_handle, Get_individual_type_description_source Message_handle,
      Get_type_description_sources Message_handle, Sequence_init, Sequence_fini, Sequence_create, Sequence_destroy,
      Sequence_are_equal, Sequence_copy]"

definition test_msgs__srv__BasicTypes_Response__functions :: function_table where [function_defs]:
  "test_msgs__srv__BasicTypes_Response__functions = Functions (''test_msgs'', ''srv'', ''BasicTypes_Response'')
     [Init, Fini, Create (Some []), Destroy, Are_equal, Copy, Get_type_hash Message_handle,
      Get_type_description Message_handle, Get_individual_type_description_source Message_handle,
      Get_type_description_sources Message_handle, Sequence_init, Sequence_fini, Sequence_create, Sequence_destroy,
      Sequence_are_equal, Sequence_copy]"

definition test_msgs__srv__BasicTypes_Event__functions :: function_table where [function_defs]:
  "test_msgs__srv__BasicTypes_Event__functions = Functions (''test_msgs'', ''srv'', ''BasicTypes_Event'')
     [Init, Fini, Create (Some []), Destroy, Are_equal, Copy, Get_type_hash Message_handle,
      Get_type_description Message_handle, Get_individual_type_description_source Message_handle,
      Get_type_description_sources Message_handle, Sequence_init, Sequence_fini, Sequence_create, Sequence_destroy,
      Sequence_are_equal, Sequence_copy]"

definition test_msgs__srv__Empty__functions :: function_table where [function_defs]:
  "test_msgs__srv__Empty__functions = Functions (''test_msgs'', ''srv'', ''Empty'')
     [Get_type_hash Service_handle, Get_type_description Service_handle,
      Get_individual_type_description_source Service_handle, Get_type_description_sources Service_handle]"

definition test_msgs__srv__Empty_Request__functions :: function_table where [function_defs]:
  "test_msgs__srv__Empty_Request__functions = Functions (''test_msgs'', ''srv'', ''Empty_Request'')
     [Init, Fini, Create (Some []), Destroy, Are_equal, Copy, Get_type_hash Message_handle,
      Get_type_description Message_handle, Get_individual_type_description_source Message_handle,
      Get_type_description_sources Message_handle, Sequence_init, Sequence_fini, Sequence_create, Sequence_destroy,
      Sequence_are_equal, Sequence_copy]"

definition test_msgs__srv__Empty_Response__functions :: function_table where [function_defs]:
  "test_msgs__srv__Empty_Response__functions = Functions (''test_msgs'', ''srv'', ''Empty_Response'')
     [Init, Fini, Create (Some []), Destroy, Are_equal, Copy, Get_type_hash Message_handle,
      Get_type_description Message_handle, Get_individual_type_description_source Message_handle,
      Get_type_description_sources Message_handle, Sequence_init, Sequence_fini, Sequence_create, Sequence_destroy,
      Sequence_are_equal, Sequence_copy]"

definition test_msgs__srv__Empty_Event__functions :: function_table where [function_defs]:
  "test_msgs__srv__Empty_Event__functions = Functions (''test_msgs'', ''srv'', ''Empty_Event'')
     [Init, Fini, Create (Some []), Destroy, Are_equal, Copy, Get_type_hash Message_handle,
      Get_type_description Message_handle, Get_individual_type_description_source Message_handle,
      Get_type_description_sources Message_handle, Sequence_init, Sequence_fini, Sequence_create, Sequence_destroy,
      Sequence_are_equal, Sequence_copy]"

end
