(* ===== verification/Support_Basic.thy ===== *)
theory Support_Basic
  imports Header_Symbols
begin

text \<open>
  The type support declared for each interface of the packages every client builds on: the common one, that of the XRCE
  middleware and the introspection, from the headers \<^verbatim>\<open>*__type_support.h\<close>,
  \<^verbatim>\<open>*__rosidl_typesupport_microxrcedds_c.h\<close> and \<^verbatim>\<open>*__rosidl_typesupport_introspection_c.h\<close>.
\<close>

subsection \<open>Package builtin interfaces\<close>

definition builtin_interfaces__msg__Duration__type_support :: "exported list" where [support_defs]:
  "builtin_interfaces__msg__Duration__type_support =
     [Message ''builtin_interfaces'' ''msg'' ''Duration'']"

definition builtin_interfaces__msg__Duration__microxrcedds :: "xrce_export list" where [support_defs]:
  "builtin_interfaces__msg__Duration__microxrcedds =
     [Serialized_size (''builtin_interfaces'', ''msg'', ''Duration''),
      Max_serialized_size (''builtin_interfaces'', ''msg'', ''Duration''),
      Handle (Message ''builtin_interfaces'' ''msg'' ''Duration'')]"

definition builtin_interfaces__msg__Duration__introspection :: "exported list" where [support_defs]:
  "builtin_interfaces__msg__Duration__introspection =
     [Message ''builtin_interfaces'' ''msg'' ''Duration'']"

definition builtin_interfaces__msg__Time__type_support :: "exported list" where [support_defs]:
  "builtin_interfaces__msg__Time__type_support =
     [Message ''builtin_interfaces'' ''msg'' ''Time'']"

definition builtin_interfaces__msg__Time__microxrcedds :: "xrce_export list" where [support_defs]:
  "builtin_interfaces__msg__Time__microxrcedds =
     [Serialized_size (''builtin_interfaces'', ''msg'', ''Time''),
      Max_serialized_size (''builtin_interfaces'', ''msg'', ''Time''),
      Handle (Message ''builtin_interfaces'' ''msg'' ''Time'')]"

definition builtin_interfaces__msg__Time__introspection :: "exported list" where [support_defs]:
  "builtin_interfaces__msg__Time__introspection =
     [Message ''builtin_interfaces'' ''msg'' ''Time'']"

subsection \<open>Package unique identifier msgs\<close>

definition unique_identifier_msgs__msg__UUID__type_support :: "exported list" where [support_defs]:
  "unique_identifier_msgs__msg__UUID__type_support =
     [Message ''unique_identifier_msgs'' ''msg'' ''UUID'']"

definition unique_identifier_msgs__msg__UUID__microxrcedds :: "xrce_export list" where [support_defs]:
  "unique_identifier_msgs__msg__UUID__microxrcedds =
     [Serialized_size (''unique_identifier_msgs'', ''msg'', ''UUID''),
      Max_serialized_size (''unique_identifier_msgs'', ''msg'', ''UUID''),
      Handle (Message ''unique_identifier_msgs'' ''msg'' ''UUID'')]"

definition unique_identifier_msgs__msg__UUID__introspection :: "exported list" where [support_defs]:
  "unique_identifier_msgs__msg__UUID__introspection =
     [Message ''unique_identifier_msgs'' ''msg'' ''UUID'']"

subsection \<open>Package service msgs\<close>

definition service_msgs__msg__ServiceEventInfo__type_support :: "exported list" where [support_defs]:
  "service_msgs__msg__ServiceEventInfo__type_support =
     [Message ''service_msgs'' ''msg'' ''ServiceEventInfo'']"

definition service_msgs__msg__ServiceEventInfo__microxrcedds :: "xrce_export list" where [support_defs]:
  "service_msgs__msg__ServiceEventInfo__microxrcedds =
     [Serialized_size (''service_msgs'', ''msg'', ''ServiceEventInfo''),
      Max_serialized_size (''service_msgs'', ''msg'', ''ServiceEventInfo''),
      Handle (Message ''service_msgs'' ''msg'' ''ServiceEventInfo'')]"

definition service_msgs__msg__ServiceEventInfo__introspection :: "exported list" where [support_defs]:
  "service_msgs__msg__ServiceEventInfo__introspection =
     [Message ''service_msgs'' ''msg'' ''ServiceEventInfo'']"

subsection \<open>Package std msgs\<close>

definition std_msgs__msg__Bool__type_support :: "exported list" where [support_defs]:
  "std_msgs__msg__Bool__type_support =
     [Message ''std_msgs'' ''msg'' ''Bool'']"

definition std_msgs__msg__Bool__microxrcedds :: "xrce_export list" where [support_defs]:
  "std_msgs__msg__Bool__microxrcedds =
     [Serialized_size (''std_msgs'', ''msg'', ''Bool''), Max_serialized_size (''std_msgs'', ''msg'', ''Bool''),
      Handle (Message ''std_msgs'' ''msg'' ''Bool'')]"

definition std_msgs__msg__Bool__introspection :: "exported list" where [support_defs]:
  "std_msgs__msg__Bool__introspection =
     [Message ''std_msgs'' ''msg'' ''Bool'']"

definition std_msgs__msg__Byte__type_support :: "exported list" where [support_defs]:
  "std_msgs__msg__Byte__type_support =
     [Message ''std_msgs'' ''msg'' ''Byte'']"

definition std_msgs__msg__Byte__microxrcedds :: "xrce_export list" where [support_defs]:
  "std_msgs__msg__Byte__microxrcedds =
     [Serialized_size (''std_msgs'', ''msg'', ''Byte''), Max_serialized_size (''std_msgs'', ''msg'', ''Byte''),
      Handle (Message ''std_msgs'' ''msg'' ''Byte'')]"

definition std_msgs__msg__Byte__introspection :: "exported list" where [support_defs]:
  "std_msgs__msg__Byte__introspection =
     [Message ''std_msgs'' ''msg'' ''Byte'']"

definition std_msgs__msg__ByteMultiArray__type_support :: "exported list" where [support_defs]:
  "std_msgs__msg__ByteMultiArray__type_support =
     [Message ''std_msgs'' ''msg'' ''ByteMultiArray'']"

definition std_msgs__msg__ByteMultiArray__microxrcedds :: "xrce_export list" where [support_defs]:
  "std_msgs__msg__ByteMultiArray__microxrcedds =
     [Serialized_size (''std_msgs'', ''msg'', ''ByteMultiArray''),
      Max_serialized_size (''std_msgs'', ''msg'', ''ByteMultiArray''),
      Handle (Message ''std_msgs'' ''msg'' ''ByteMultiArray'')]"

definition std_msgs__msg__ByteMultiArray__introspection :: "exported list" where [support_defs]:
  "std_msgs__msg__ByteMultiArray__introspection =
     [Message ''std_msgs'' ''msg'' ''ByteMultiArray'']"

definition std_msgs__msg__Char__type_support :: "exported list" where [support_defs]:
  "std_msgs__msg__Char__type_support =
     [Message ''std_msgs'' ''msg'' ''Char'']"

definition std_msgs__msg__Char__microxrcedds :: "xrce_export list" where [support_defs]:
  "std_msgs__msg__Char__microxrcedds =
     [Serialized_size (''std_msgs'', ''msg'', ''Char''), Max_serialized_size (''std_msgs'', ''msg'', ''Char''),
      Handle (Message ''std_msgs'' ''msg'' ''Char'')]"

definition std_msgs__msg__Char__introspection :: "exported list" where [support_defs]:
  "std_msgs__msg__Char__introspection =
     [Message ''std_msgs'' ''msg'' ''Char'']"

definition std_msgs__msg__ColorRGBA__type_support :: "exported list" where [support_defs]:
  "std_msgs__msg__ColorRGBA__type_support =
     [Message ''std_msgs'' ''msg'' ''ColorRGBA'']"

definition std_msgs__msg__ColorRGBA__microxrcedds :: "xrce_export list" where [support_defs]:
  "std_msgs__msg__ColorRGBA__microxrcedds =
     [Serialized_size (''std_msgs'', ''msg'', ''ColorRGBA''),
      Max_serialized_size (''std_msgs'', ''msg'', ''ColorRGBA''),
      Handle (Message ''std_msgs'' ''msg'' ''ColorRGBA'')]"

definition std_msgs__msg__ColorRGBA__introspection :: "exported list" where [support_defs]:
  "std_msgs__msg__ColorRGBA__introspection =
     [Message ''std_msgs'' ''msg'' ''ColorRGBA'']"

definition std_msgs__msg__Empty__type_support :: "exported list" where [support_defs]:
  "std_msgs__msg__Empty__type_support =
     [Message ''std_msgs'' ''msg'' ''Empty'']"

definition std_msgs__msg__Empty__microxrcedds :: "xrce_export list" where [support_defs]:
  "std_msgs__msg__Empty__microxrcedds =
     [Serialized_size (''std_msgs'', ''msg'', ''Empty''), Max_serialized_size (''std_msgs'', ''msg'', ''Empty''),
      Handle (Message ''std_msgs'' ''msg'' ''Empty'')]"

definition std_msgs__msg__Empty__introspection :: "exported list" where [support_defs]:
  "std_msgs__msg__Empty__introspection =
     [Message ''std_msgs'' ''msg'' ''Empty'']"

definition std_msgs__msg__Float32__type_support :: "exported list" where [support_defs]:
  "std_msgs__msg__Float32__type_support =
     [Message ''std_msgs'' ''msg'' ''Float32'']"

definition std_msgs__msg__Float32__microxrcedds :: "xrce_export list" where [support_defs]:
  "std_msgs__msg__Float32__microxrcedds =
     [Serialized_size (''std_msgs'', ''msg'', ''Float32''),
      Max_serialized_size (''std_msgs'', ''msg'', ''Float32''), Handle (Message ''std_msgs'' ''msg'' ''Float32'')]"

definition std_msgs__msg__Float32__introspection :: "exported list" where [support_defs]:
  "std_msgs__msg__Float32__introspection =
     [Message ''std_msgs'' ''msg'' ''Float32'']"

definition std_msgs__msg__Float32MultiArray__type_support :: "exported list" where [support_defs]:
  "std_msgs__msg__Float32MultiArray__type_support =
     [Message ''std_msgs'' ''msg'' ''Float32MultiArray'']"

definition std_msgs__msg__Float32MultiArray__microxrcedds :: "xrce_export list" where [support_defs]:
  "std_msgs__msg__Float32MultiArray__microxrcedds =
     [Serialized_size (''std_msgs'', ''msg'', ''Float32MultiArray''),
      Max_serialized_size (''std_msgs'', ''msg'', ''Float32MultiArray''),
      Handle (Message ''std_msgs'' ''msg'' ''Float32MultiArray'')]"

definition std_msgs__msg__Float32MultiArray__introspection :: "exported list" where [support_defs]:
  "std_msgs__msg__Float32MultiArray__introspection =
     [Message ''std_msgs'' ''msg'' ''Float32MultiArray'']"

definition std_msgs__msg__Float64__type_support :: "exported list" where [support_defs]:
  "std_msgs__msg__Float64__type_support =
     [Message ''std_msgs'' ''msg'' ''Float64'']"

definition std_msgs__msg__Float64__microxrcedds :: "xrce_export list" where [support_defs]:
  "std_msgs__msg__Float64__microxrcedds =
     [Serialized_size (''std_msgs'', ''msg'', ''Float64''),
      Max_serialized_size (''std_msgs'', ''msg'', ''Float64''), Handle (Message ''std_msgs'' ''msg'' ''Float64'')]"

definition std_msgs__msg__Float64__introspection :: "exported list" where [support_defs]:
  "std_msgs__msg__Float64__introspection =
     [Message ''std_msgs'' ''msg'' ''Float64'']"

definition std_msgs__msg__Float64MultiArray__type_support :: "exported list" where [support_defs]:
  "std_msgs__msg__Float64MultiArray__type_support =
     [Message ''std_msgs'' ''msg'' ''Float64MultiArray'']"

definition std_msgs__msg__Float64MultiArray__microxrcedds :: "xrce_export list" where [support_defs]:
  "std_msgs__msg__Float64MultiArray__microxrcedds =
     [Serialized_size (''std_msgs'', ''msg'', ''Float64MultiArray''),
      Max_serialized_size (''std_msgs'', ''msg'', ''Float64MultiArray''),
      Handle (Message ''std_msgs'' ''msg'' ''Float64MultiArray'')]"

definition std_msgs__msg__Float64MultiArray__introspection :: "exported list" where [support_defs]:
  "std_msgs__msg__Float64MultiArray__introspection =
     [Message ''std_msgs'' ''msg'' ''Float64MultiArray'']"

definition std_msgs__msg__Header__type_support :: "exported list" where [support_defs]:
  "std_msgs__msg__Header__type_support =
     [Message ''std_msgs'' ''msg'' ''Header'']"

definition std_msgs__msg__Header__microxrcedds :: "xrce_export list" where [support_defs]:
  "std_msgs__msg__Header__microxrcedds =
     [Serialized_size (''std_msgs'', ''msg'', ''Header''), Max_serialized_size (''std_msgs'', ''msg'', ''Header''),
      Handle (Message ''std_msgs'' ''msg'' ''Header'')]"

definition std_msgs__msg__Header__introspection :: "exported list" where [support_defs]:
  "std_msgs__msg__Header__introspection =
     [Message ''std_msgs'' ''msg'' ''Header'']"

definition std_msgs__msg__Int16__type_support :: "exported list" where [support_defs]:
  "std_msgs__msg__Int16__type_support =
     [Message ''std_msgs'' ''msg'' ''Int16'']"

definition std_msgs__msg__Int16__microxrcedds :: "xrce_export list" where [support_defs]:
  "std_msgs__msg__Int16__microxrcedds =
     [Serialized_size (''std_msgs'', ''msg'', ''Int16''), Max_serialized_size (''std_msgs'', ''msg'', ''Int16''),
      Handle (Message ''std_msgs'' ''msg'' ''Int16'')]"

definition std_msgs__msg__Int16__introspection :: "exported list" where [support_defs]:
  "std_msgs__msg__Int16__introspection =
     [Message ''std_msgs'' ''msg'' ''Int16'']"

definition std_msgs__msg__Int16MultiArray__type_support :: "exported list" where [support_defs]:
  "std_msgs__msg__Int16MultiArray__type_support =
     [Message ''std_msgs'' ''msg'' ''Int16MultiArray'']"

definition std_msgs__msg__Int16MultiArray__microxrcedds :: "xrce_export list" where [support_defs]:
  "std_msgs__msg__Int16MultiArray__microxrcedds =
     [Serialized_size (''std_msgs'', ''msg'', ''Int16MultiArray''),
      Max_serialized_size (''std_msgs'', ''msg'', ''Int16MultiArray''),
      Handle (Message ''std_msgs'' ''msg'' ''Int16MultiArray'')]"

definition std_msgs__msg__Int16MultiArray__introspection :: "exported list" where [support_defs]:
  "std_msgs__msg__Int16MultiArray__introspection =
     [Message ''std_msgs'' ''msg'' ''Int16MultiArray'']"

definition std_msgs__msg__Int32__type_support :: "exported list" where [support_defs]:
  "std_msgs__msg__Int32__type_support =
     [Message ''std_msgs'' ''msg'' ''Int32'']"

definition std_msgs__msg__Int32__microxrcedds :: "xrce_export list" where [support_defs]:
  "std_msgs__msg__Int32__microxrcedds =
     [Serialized_size (''std_msgs'', ''msg'', ''Int32''), Max_serialized_size (''std_msgs'', ''msg'', ''Int32''),
      Handle (Message ''std_msgs'' ''msg'' ''Int32'')]"

definition std_msgs__msg__Int32__introspection :: "exported list" where [support_defs]:
  "std_msgs__msg__Int32__introspection =
     [Message ''std_msgs'' ''msg'' ''Int32'']"

definition std_msgs__msg__Int32MultiArray__type_support :: "exported list" where [support_defs]:
  "std_msgs__msg__Int32MultiArray__type_support =
     [Message ''std_msgs'' ''msg'' ''Int32MultiArray'']"

definition std_msgs__msg__Int32MultiArray__microxrcedds :: "xrce_export list" where [support_defs]:
  "std_msgs__msg__Int32MultiArray__microxrcedds =
     [Serialized_size (''std_msgs'', ''msg'', ''Int32MultiArray''),
      Max_serialized_size (''std_msgs'', ''msg'', ''Int32MultiArray''),
      Handle (Message ''std_msgs'' ''msg'' ''Int32MultiArray'')]"

definition std_msgs__msg__Int32MultiArray__introspection :: "exported list" where [support_defs]:
  "std_msgs__msg__Int32MultiArray__introspection =
     [Message ''std_msgs'' ''msg'' ''Int32MultiArray'']"

definition std_msgs__msg__Int64__type_support :: "exported list" where [support_defs]:
  "std_msgs__msg__Int64__type_support =
     [Message ''std_msgs'' ''msg'' ''Int64'']"

definition std_msgs__msg__Int64__microxrcedds :: "xrce_export list" where [support_defs]:
  "std_msgs__msg__Int64__microxrcedds =
     [Serialized_size (''std_msgs'', ''msg'', ''Int64''), Max_serialized_size (''std_msgs'', ''msg'', ''Int64''),
      Handle (Message ''std_msgs'' ''msg'' ''Int64'')]"

definition std_msgs__msg__Int64__introspection :: "exported list" where [support_defs]:
  "std_msgs__msg__Int64__introspection =
     [Message ''std_msgs'' ''msg'' ''Int64'']"

definition std_msgs__msg__Int64MultiArray__type_support :: "exported list" where [support_defs]:
  "std_msgs__msg__Int64MultiArray__type_support =
     [Message ''std_msgs'' ''msg'' ''Int64MultiArray'']"

definition std_msgs__msg__Int64MultiArray__microxrcedds :: "xrce_export list" where [support_defs]:
  "std_msgs__msg__Int64MultiArray__microxrcedds =
     [Serialized_size (''std_msgs'', ''msg'', ''Int64MultiArray''),
      Max_serialized_size (''std_msgs'', ''msg'', ''Int64MultiArray''),
      Handle (Message ''std_msgs'' ''msg'' ''Int64MultiArray'')]"

definition std_msgs__msg__Int64MultiArray__introspection :: "exported list" where [support_defs]:
  "std_msgs__msg__Int64MultiArray__introspection =
     [Message ''std_msgs'' ''msg'' ''Int64MultiArray'']"

definition std_msgs__msg__Int8__type_support :: "exported list" where [support_defs]:
  "std_msgs__msg__Int8__type_support =
     [Message ''std_msgs'' ''msg'' ''Int8'']"

definition std_msgs__msg__Int8__microxrcedds :: "xrce_export list" where [support_defs]:
  "std_msgs__msg__Int8__microxrcedds =
     [Serialized_size (''std_msgs'', ''msg'', ''Int8''), Max_serialized_size (''std_msgs'', ''msg'', ''Int8''),
      Handle (Message ''std_msgs'' ''msg'' ''Int8'')]"

definition std_msgs__msg__Int8__introspection :: "exported list" where [support_defs]:
  "std_msgs__msg__Int8__introspection =
     [Message ''std_msgs'' ''msg'' ''Int8'']"

definition std_msgs__msg__Int8MultiArray__type_support :: "exported list" where [support_defs]:
  "std_msgs__msg__Int8MultiArray__type_support =
     [Message ''std_msgs'' ''msg'' ''Int8MultiArray'']"

definition std_msgs__msg__Int8MultiArray__microxrcedds :: "xrce_export list" where [support_defs]:
  "std_msgs__msg__Int8MultiArray__microxrcedds =
     [Serialized_size (''std_msgs'', ''msg'', ''Int8MultiArray''),
      Max_serialized_size (''std_msgs'', ''msg'', ''Int8MultiArray''),
      Handle (Message ''std_msgs'' ''msg'' ''Int8MultiArray'')]"

definition std_msgs__msg__Int8MultiArray__introspection :: "exported list" where [support_defs]:
  "std_msgs__msg__Int8MultiArray__introspection =
     [Message ''std_msgs'' ''msg'' ''Int8MultiArray'']"

definition std_msgs__msg__MultiArrayDimension__type_support :: "exported list" where [support_defs]:
  "std_msgs__msg__MultiArrayDimension__type_support =
     [Message ''std_msgs'' ''msg'' ''MultiArrayDimension'']"

definition std_msgs__msg__MultiArrayDimension__microxrcedds :: "xrce_export list" where [support_defs]:
  "std_msgs__msg__MultiArrayDimension__microxrcedds =
     [Serialized_size (''std_msgs'', ''msg'', ''MultiArrayDimension''),
      Max_serialized_size (''std_msgs'', ''msg'', ''MultiArrayDimension''),
      Handle (Message ''std_msgs'' ''msg'' ''MultiArrayDimension'')]"

definition std_msgs__msg__MultiArrayDimension__introspection :: "exported list" where [support_defs]:
  "std_msgs__msg__MultiArrayDimension__introspection =
     [Message ''std_msgs'' ''msg'' ''MultiArrayDimension'']"

definition std_msgs__msg__MultiArrayLayout__type_support :: "exported list" where [support_defs]:
  "std_msgs__msg__MultiArrayLayout__type_support =
     [Message ''std_msgs'' ''msg'' ''MultiArrayLayout'']"

definition std_msgs__msg__MultiArrayLayout__microxrcedds :: "xrce_export list" where [support_defs]:
  "std_msgs__msg__MultiArrayLayout__microxrcedds =
     [Serialized_size (''std_msgs'', ''msg'', ''MultiArrayLayout''),
      Max_serialized_size (''std_msgs'', ''msg'', ''MultiArrayLayout''),
      Handle (Message ''std_msgs'' ''msg'' ''MultiArrayLayout'')]"

definition std_msgs__msg__MultiArrayLayout__introspection :: "exported list" where [support_defs]:
  "std_msgs__msg__MultiArrayLayout__introspection =
     [Message ''std_msgs'' ''msg'' ''MultiArrayLayout'']"

definition std_msgs__msg__String__type_support :: "exported list" where [support_defs]:
  "std_msgs__msg__String__type_support =
     [Message ''std_msgs'' ''msg'' ''String'']"

definition std_msgs__msg__String__microxrcedds :: "xrce_export list" where [support_defs]:
  "std_msgs__msg__String__microxrcedds =
     [Serialized_size (''std_msgs'', ''msg'', ''String''), Max_serialized_size (''std_msgs'', ''msg'', ''String''),
      Handle (Message ''std_msgs'' ''msg'' ''String'')]"

definition std_msgs__msg__String__introspection :: "exported list" where [support_defs]:
  "std_msgs__msg__String__introspection =
     [Message ''std_msgs'' ''msg'' ''String'']"

definition std_msgs__msg__UInt16__type_support :: "exported list" where [support_defs]:
  "std_msgs__msg__UInt16__type_support =
     [Message ''std_msgs'' ''msg'' ''UInt16'']"

definition std_msgs__msg__UInt16__microxrcedds :: "xrce_export list" where [support_defs]:
  "std_msgs__msg__UInt16__microxrcedds =
     [Serialized_size (''std_msgs'', ''msg'', ''UInt16''), Max_serialized_size (''std_msgs'', ''msg'', ''UInt16''),
      Handle (Message ''std_msgs'' ''msg'' ''UInt16'')]"

definition std_msgs__msg__UInt16__introspection :: "exported list" where [support_defs]:
  "std_msgs__msg__UInt16__introspection =
     [Message ''std_msgs'' ''msg'' ''UInt16'']"

definition std_msgs__msg__UInt16MultiArray__type_support :: "exported list" where [support_defs]:
  "std_msgs__msg__UInt16MultiArray__type_support =
     [Message ''std_msgs'' ''msg'' ''UInt16MultiArray'']"

definition std_msgs__msg__UInt16MultiArray__microxrcedds :: "xrce_export list" where [support_defs]:
  "std_msgs__msg__UInt16MultiArray__microxrcedds =
     [Serialized_size (''std_msgs'', ''msg'', ''UInt16MultiArray''),
      Max_serialized_size (''std_msgs'', ''msg'', ''UInt16MultiArray''),
      Handle (Message ''std_msgs'' ''msg'' ''UInt16MultiArray'')]"

definition std_msgs__msg__UInt16MultiArray__introspection :: "exported list" where [support_defs]:
  "std_msgs__msg__UInt16MultiArray__introspection =
     [Message ''std_msgs'' ''msg'' ''UInt16MultiArray'']"

definition std_msgs__msg__UInt32__type_support :: "exported list" where [support_defs]:
  "std_msgs__msg__UInt32__type_support =
     [Message ''std_msgs'' ''msg'' ''UInt32'']"

definition std_msgs__msg__UInt32__microxrcedds :: "xrce_export list" where [support_defs]:
  "std_msgs__msg__UInt32__microxrcedds =
     [Serialized_size (''std_msgs'', ''msg'', ''UInt32''), Max_serialized_size (''std_msgs'', ''msg'', ''UInt32''),
      Handle (Message ''std_msgs'' ''msg'' ''UInt32'')]"

definition std_msgs__msg__UInt32__introspection :: "exported list" where [support_defs]:
  "std_msgs__msg__UInt32__introspection =
     [Message ''std_msgs'' ''msg'' ''UInt32'']"

definition std_msgs__msg__UInt32MultiArray__type_support :: "exported list" where [support_defs]:
  "std_msgs__msg__UInt32MultiArray__type_support =
     [Message ''std_msgs'' ''msg'' ''UInt32MultiArray'']"

definition std_msgs__msg__UInt32MultiArray__microxrcedds :: "xrce_export list" where [support_defs]:
  "std_msgs__msg__UInt32MultiArray__microxrcedds =
     [Serialized_size (''std_msgs'', ''msg'', ''UInt32MultiArray''),
      Max_serialized_size (''std_msgs'', ''msg'', ''UInt32MultiArray''),
      Handle (Message ''std_msgs'' ''msg'' ''UInt32MultiArray'')]"

definition std_msgs__msg__UInt32MultiArray__introspection :: "exported list" where [support_defs]:
  "std_msgs__msg__UInt32MultiArray__introspection =
     [Message ''std_msgs'' ''msg'' ''UInt32MultiArray'']"

definition std_msgs__msg__UInt64__type_support :: "exported list" where [support_defs]:
  "std_msgs__msg__UInt64__type_support =
     [Message ''std_msgs'' ''msg'' ''UInt64'']"

definition std_msgs__msg__UInt64__microxrcedds :: "xrce_export list" where [support_defs]:
  "std_msgs__msg__UInt64__microxrcedds =
     [Serialized_size (''std_msgs'', ''msg'', ''UInt64''), Max_serialized_size (''std_msgs'', ''msg'', ''UInt64''),
      Handle (Message ''std_msgs'' ''msg'' ''UInt64'')]"

definition std_msgs__msg__UInt64__introspection :: "exported list" where [support_defs]:
  "std_msgs__msg__UInt64__introspection =
     [Message ''std_msgs'' ''msg'' ''UInt64'']"

definition std_msgs__msg__UInt64MultiArray__type_support :: "exported list" where [support_defs]:
  "std_msgs__msg__UInt64MultiArray__type_support =
     [Message ''std_msgs'' ''msg'' ''UInt64MultiArray'']"

definition std_msgs__msg__UInt64MultiArray__microxrcedds :: "xrce_export list" where [support_defs]:
  "std_msgs__msg__UInt64MultiArray__microxrcedds =
     [Serialized_size (''std_msgs'', ''msg'', ''UInt64MultiArray''),
      Max_serialized_size (''std_msgs'', ''msg'', ''UInt64MultiArray''),
      Handle (Message ''std_msgs'' ''msg'' ''UInt64MultiArray'')]"

definition std_msgs__msg__UInt64MultiArray__introspection :: "exported list" where [support_defs]:
  "std_msgs__msg__UInt64MultiArray__introspection =
     [Message ''std_msgs'' ''msg'' ''UInt64MultiArray'']"

definition std_msgs__msg__UInt8__type_support :: "exported list" where [support_defs]:
  "std_msgs__msg__UInt8__type_support =
     [Message ''std_msgs'' ''msg'' ''UInt8'']"

definition std_msgs__msg__UInt8__microxrcedds :: "xrce_export list" where [support_defs]:
  "std_msgs__msg__UInt8__microxrcedds =
     [Serialized_size (''std_msgs'', ''msg'', ''UInt8''), Max_serialized_size (''std_msgs'', ''msg'', ''UInt8''),
      Handle (Message ''std_msgs'' ''msg'' ''UInt8'')]"

definition std_msgs__msg__UInt8__introspection :: "exported list" where [support_defs]:
  "std_msgs__msg__UInt8__introspection =
     [Message ''std_msgs'' ''msg'' ''UInt8'']"

definition std_msgs__msg__UInt8MultiArray__type_support :: "exported list" where [support_defs]:
  "std_msgs__msg__UInt8MultiArray__type_support =
     [Message ''std_msgs'' ''msg'' ''UInt8MultiArray'']"

definition std_msgs__msg__UInt8MultiArray__microxrcedds :: "xrce_export list" where [support_defs]:
  "std_msgs__msg__UInt8MultiArray__microxrcedds =
     [Serialized_size (''std_msgs'', ''msg'', ''UInt8MultiArray''),
      Max_serialized_size (''std_msgs'', ''msg'', ''UInt8MultiArray''),
      Handle (Message ''std_msgs'' ''msg'' ''UInt8MultiArray'')]"

definition std_msgs__msg__UInt8MultiArray__introspection :: "exported list" where [support_defs]:
  "std_msgs__msg__UInt8MultiArray__introspection =
     [Message ''std_msgs'' ''msg'' ''UInt8MultiArray'']"

subsection \<open>Package std srvs\<close>

definition std_srvs__srv__Empty__type_support :: "exported list" where [support_defs]:
  "std_srvs__srv__Empty__type_support =
     [Message ''std_srvs'' ''srv'' ''Empty_Request'', Message ''std_srvs'' ''srv'' ''Empty_Response'',
      Message ''std_srvs'' ''srv'' ''Empty_Event'', Service ''std_srvs'' ''srv'' ''Empty'',
      Create_event ''std_srvs'' ''srv'' ''Empty'', Destroy_event ''std_srvs'' ''srv'' ''Empty'']"

definition std_srvs__srv__Empty__microxrcedds :: "xrce_export list" where [support_defs]:
  "std_srvs__srv__Empty__microxrcedds =
     [Serialized_size (''std_srvs'', ''srv'', ''Empty_Request''),
      Max_serialized_size (''std_srvs'', ''srv'', ''Empty_Request''),
      Handle (Message ''std_srvs'' ''srv'' ''Empty_Request''),
      Serialized_size (''std_srvs'', ''srv'', ''Empty_Response''),
      Max_serialized_size (''std_srvs'', ''srv'', ''Empty_Response''),
      Handle (Message ''std_srvs'' ''srv'' ''Empty_Response''),
      Serialized_size (''std_srvs'', ''srv'', ''Empty_Event''),
      Max_serialized_size (''std_srvs'', ''srv'', ''Empty_Event''),
      Handle (Message ''std_srvs'' ''srv'' ''Empty_Event''), Handle (Service ''std_srvs'' ''srv'' ''Empty'')]"

definition std_srvs__srv__Empty__introspection :: "exported list" where [support_defs]:
  "std_srvs__srv__Empty__introspection =
     [Message ''std_srvs'' ''srv'' ''Empty_Request'', Message ''std_srvs'' ''srv'' ''Empty_Response'',
      Message ''std_srvs'' ''srv'' ''Empty_Event'', Service ''std_srvs'' ''srv'' ''Empty'']"

definition std_srvs__srv__SetBool__type_support :: "exported list" where [support_defs]:
  "std_srvs__srv__SetBool__type_support =
     [Message ''std_srvs'' ''srv'' ''SetBool_Request'', Message ''std_srvs'' ''srv'' ''SetBool_Response'',
      Message ''std_srvs'' ''srv'' ''SetBool_Event'', Service ''std_srvs'' ''srv'' ''SetBool'',
      Create_event ''std_srvs'' ''srv'' ''SetBool'', Destroy_event ''std_srvs'' ''srv'' ''SetBool'']"

definition std_srvs__srv__SetBool__microxrcedds :: "xrce_export list" where [support_defs]:
  "std_srvs__srv__SetBool__microxrcedds =
     [Serialized_size (''std_srvs'', ''srv'', ''SetBool_Request''),
      Max_serialized_size (''std_srvs'', ''srv'', ''SetBool_Request''),
      Handle (Message ''std_srvs'' ''srv'' ''SetBool_Request''),
      Serialized_size (''std_srvs'', ''srv'', ''SetBool_Response''),
      Max_serialized_size (''std_srvs'', ''srv'', ''SetBool_Response''),
      Handle (Message ''std_srvs'' ''srv'' ''SetBool_Response''),
      Serialized_size (''std_srvs'', ''srv'', ''SetBool_Event''),
      Max_serialized_size (''std_srvs'', ''srv'', ''SetBool_Event''),
      Handle (Message ''std_srvs'' ''srv'' ''SetBool_Event''), Handle (Service ''std_srvs'' ''srv'' ''SetBool'')]"

definition std_srvs__srv__SetBool__introspection :: "exported list" where [support_defs]:
  "std_srvs__srv__SetBool__introspection =
     [Message ''std_srvs'' ''srv'' ''SetBool_Request'', Message ''std_srvs'' ''srv'' ''SetBool_Response'',
      Message ''std_srvs'' ''srv'' ''SetBool_Event'', Service ''std_srvs'' ''srv'' ''SetBool'']"

definition std_srvs__srv__Trigger__type_support :: "exported list" where [support_defs]:
  "std_srvs__srv__Trigger__type_support =
     [Message ''std_srvs'' ''srv'' ''Trigger_Request'', Message ''std_srvs'' ''srv'' ''Trigger_Response'',
      Message ''std_srvs'' ''srv'' ''Trigger_Event'', Service ''std_srvs'' ''srv'' ''Trigger'',
      Create_event ''std_srvs'' ''srv'' ''Trigger'', Destroy_event ''std_srvs'' ''srv'' ''Trigger'']"

definition std_srvs__srv__Trigger__microxrcedds :: "xrce_export list" where [support_defs]:
  "std_srvs__srv__Trigger__microxrcedds =
     [Serialized_size (''std_srvs'', ''srv'', ''Trigger_Request''),
      Max_serialized_size (''std_srvs'', ''srv'', ''Trigger_Request''),
      Handle (Message ''std_srvs'' ''srv'' ''Trigger_Request''),
      Serialized_size (''std_srvs'', ''srv'', ''Trigger_Response''),
      Max_serialized_size (''std_srvs'', ''srv'', ''Trigger_Response''),
      Handle (Message ''std_srvs'' ''srv'' ''Trigger_Response''),
      Serialized_size (''std_srvs'', ''srv'', ''Trigger_Event''),
      Max_serialized_size (''std_srvs'', ''srv'', ''Trigger_Event''),
      Handle (Message ''std_srvs'' ''srv'' ''Trigger_Event''), Handle (Service ''std_srvs'' ''srv'' ''Trigger'')]"

definition std_srvs__srv__Trigger__introspection :: "exported list" where [support_defs]:
  "std_srvs__srv__Trigger__introspection =
     [Message ''std_srvs'' ''srv'' ''Trigger_Request'', Message ''std_srvs'' ''srv'' ''Trigger_Response'',
      Message ''std_srvs'' ''srv'' ''Trigger_Event'', Service ''std_srvs'' ''srv'' ''Trigger'']"

subsection \<open>Package rosgraph msgs\<close>

definition rosgraph_msgs__msg__Clock__type_support :: "exported list" where [support_defs]:
  "rosgraph_msgs__msg__Clock__type_support =
     [Message ''rosgraph_msgs'' ''msg'' ''Clock'']"

definition rosgraph_msgs__msg__Clock__microxrcedds :: "xrce_export list" where [support_defs]:
  "rosgraph_msgs__msg__Clock__microxrcedds =
     [Serialized_size (''rosgraph_msgs'', ''msg'', ''Clock''),
      Max_serialized_size (''rosgraph_msgs'', ''msg'', ''Clock''),
      Handle (Message ''rosgraph_msgs'' ''msg'' ''Clock'')]"

definition rosgraph_msgs__msg__Clock__introspection :: "exported list" where [support_defs]:
  "rosgraph_msgs__msg__Clock__introspection =
     [Message ''rosgraph_msgs'' ''msg'' ''Clock'']"

subsection \<open>Package statistics msgs\<close>

definition statistics_msgs__msg__MetricsMessage__type_support :: "exported list" where [support_defs]:
  "statistics_msgs__msg__MetricsMessage__type_support =
     [Message ''statistics_msgs'' ''msg'' ''MetricsMessage'']"

definition statistics_msgs__msg__MetricsMessage__microxrcedds :: "xrce_export list" where [support_defs]:
  "statistics_msgs__msg__MetricsMessage__microxrcedds =
     [Serialized_size (''statistics_msgs'', ''msg'', ''MetricsMessage''),
      Max_serialized_size (''statistics_msgs'', ''msg'', ''MetricsMessage''),
      Handle (Message ''statistics_msgs'' ''msg'' ''MetricsMessage'')]"

definition statistics_msgs__msg__MetricsMessage__introspection :: "exported list" where [support_defs]:
  "statistics_msgs__msg__MetricsMessage__introspection =
     [Message ''statistics_msgs'' ''msg'' ''MetricsMessage'']"

definition statistics_msgs__msg__StatisticDataPoint__type_support :: "exported list" where [support_defs]:
  "statistics_msgs__msg__StatisticDataPoint__type_support =
     [Message ''statistics_msgs'' ''msg'' ''StatisticDataPoint'']"

definition statistics_msgs__msg__StatisticDataPoint__microxrcedds :: "xrce_export list" where [support_defs]:
  "statistics_msgs__msg__StatisticDataPoint__microxrcedds =
     [Serialized_size (''statistics_msgs'', ''msg'', ''StatisticDataPoint''),
      Max_serialized_size (''statistics_msgs'', ''msg'', ''StatisticDataPoint''),
      Handle (Message ''statistics_msgs'' ''msg'' ''StatisticDataPoint'')]"

definition statistics_msgs__msg__StatisticDataPoint__introspection :: "exported list" where [support_defs]:
  "statistics_msgs__msg__StatisticDataPoint__introspection =
     [Message ''statistics_msgs'' ''msg'' ''StatisticDataPoint'']"

definition statistics_msgs__msg__StatisticDataType__type_support :: "exported list" where [support_defs]:
  "statistics_msgs__msg__StatisticDataType__type_support =
     [Message ''statistics_msgs'' ''msg'' ''StatisticDataType'']"

definition statistics_msgs__msg__StatisticDataType__microxrcedds :: "xrce_export list" where [support_defs]:
  "statistics_msgs__msg__StatisticDataType__microxrcedds =
     [Serialized_size (''statistics_msgs'', ''msg'', ''StatisticDataType''),
      Max_serialized_size (''statistics_msgs'', ''msg'', ''StatisticDataType''),
      Handle (Message ''statistics_msgs'' ''msg'' ''StatisticDataType'')]"

definition statistics_msgs__msg__StatisticDataType__introspection :: "exported list" where [support_defs]:
  "statistics_msgs__msg__StatisticDataType__introspection =
     [Message ''statistics_msgs'' ''msg'' ''StatisticDataType'']"

subsection \<open>Package micro ros msgs\<close>

definition micro_ros_msgs__msg__Entity__type_support :: "exported list" where [support_defs]:
  "micro_ros_msgs__msg__Entity__type_support =
     [Message ''micro_ros_msgs'' ''msg'' ''Entity'']"

definition micro_ros_msgs__msg__Entity__microxrcedds :: "xrce_export list" where [support_defs]:
  "micro_ros_msgs__msg__Entity__microxrcedds =
     [Serialized_size (''micro_ros_msgs'', ''msg'', ''Entity''),
      Max_serialized_size (''micro_ros_msgs'', ''msg'', ''Entity''),
      Handle (Message ''micro_ros_msgs'' ''msg'' ''Entity'')]"

definition micro_ros_msgs__msg__Entity__introspection :: "exported list" where [support_defs]:
  "micro_ros_msgs__msg__Entity__introspection =
     [Message ''micro_ros_msgs'' ''msg'' ''Entity'']"

definition micro_ros_msgs__msg__Graph__type_support :: "exported list" where [support_defs]:
  "micro_ros_msgs__msg__Graph__type_support =
     [Message ''micro_ros_msgs'' ''msg'' ''Graph'']"

definition micro_ros_msgs__msg__Graph__microxrcedds :: "xrce_export list" where [support_defs]:
  "micro_ros_msgs__msg__Graph__microxrcedds =
     [Serialized_size (''micro_ros_msgs'', ''msg'', ''Graph''),
      Max_serialized_size (''micro_ros_msgs'', ''msg'', ''Graph''),
      Handle (Message ''micro_ros_msgs'' ''msg'' ''Graph'')]"

definition micro_ros_msgs__msg__Graph__introspection :: "exported list" where [support_defs]:
  "micro_ros_msgs__msg__Graph__introspection =
     [Message ''micro_ros_msgs'' ''msg'' ''Graph'']"

definition micro_ros_msgs__msg__Node__type_support :: "exported list" where [support_defs]:
  "micro_ros_msgs__msg__Node__type_support =
     [Message ''micro_ros_msgs'' ''msg'' ''Node'']"

definition micro_ros_msgs__msg__Node__microxrcedds :: "xrce_export list" where [support_defs]:
  "micro_ros_msgs__msg__Node__microxrcedds =
     [Serialized_size (''micro_ros_msgs'', ''msg'', ''Node''),
      Max_serialized_size (''micro_ros_msgs'', ''msg'', ''Node''),
      Handle (Message ''micro_ros_msgs'' ''msg'' ''Node'')]"

definition micro_ros_msgs__msg__Node__introspection :: "exported list" where [support_defs]:
  "micro_ros_msgs__msg__Node__introspection =
     [Message ''micro_ros_msgs'' ''msg'' ''Node'']"

subsection \<open>Package action msgs\<close>

definition action_msgs__msg__GoalInfo__type_support :: "exported list" where [support_defs]:
  "action_msgs__msg__GoalInfo__type_support =
     [Message ''action_msgs'' ''msg'' ''GoalInfo'']"

definition action_msgs__msg__GoalInfo__microxrcedds :: "xrce_export list" where [support_defs]:
  "action_msgs__msg__GoalInfo__microxrcedds =
     [Serialized_size (''action_msgs'', ''msg'', ''GoalInfo''),
      Max_serialized_size (''action_msgs'', ''msg'', ''GoalInfo''),
      Handle (Message ''action_msgs'' ''msg'' ''GoalInfo'')]"

definition action_msgs__msg__GoalInfo__introspection :: "exported list" where [support_defs]:
  "action_msgs__msg__GoalInfo__introspection =
     [Message ''action_msgs'' ''msg'' ''GoalInfo'']"

definition action_msgs__msg__GoalStatus__type_support :: "exported list" where [support_defs]:
  "action_msgs__msg__GoalStatus__type_support =
     [Message ''action_msgs'' ''msg'' ''GoalStatus'']"

definition action_msgs__msg__GoalStatus__microxrcedds :: "xrce_export list" where [support_defs]:
  "action_msgs__msg__GoalStatus__microxrcedds =
     [Serialized_size (''action_msgs'', ''msg'', ''GoalStatus''),
      Max_serialized_size (''action_msgs'', ''msg'', ''GoalStatus''),
      Handle (Message ''action_msgs'' ''msg'' ''GoalStatus'')]"

definition action_msgs__msg__GoalStatus__introspection :: "exported list" where [support_defs]:
  "action_msgs__msg__GoalStatus__introspection =
     [Message ''action_msgs'' ''msg'' ''GoalStatus'']"

definition action_msgs__msg__GoalStatusArray__type_support :: "exported list" where [support_defs]:
  "action_msgs__msg__GoalStatusArray__type_support =
     [Message ''action_msgs'' ''msg'' ''GoalStatusArray'']"

definition action_msgs__msg__GoalStatusArray__microxrcedds :: "xrce_export list" where [support_defs]:
  "action_msgs__msg__GoalStatusArray__microxrcedds =
     [Serialized_size (''action_msgs'', ''msg'', ''GoalStatusArray''),
      Max_serialized_size (''action_msgs'', ''msg'', ''GoalStatusArray''),
      Handle (Message ''action_msgs'' ''msg'' ''GoalStatusArray'')]"

definition action_msgs__msg__GoalStatusArray__introspection :: "exported list" where [support_defs]:
  "action_msgs__msg__GoalStatusArray__introspection =
     [Message ''action_msgs'' ''msg'' ''GoalStatusArray'']"

definition action_msgs__srv__CancelGoal__type_support :: "exported list" where [support_defs]:
  "action_msgs__srv__CancelGoal__type_support =
     [Message ''action_msgs'' ''srv'' ''CancelGoal_Request'',
      Message ''action_msgs'' ''srv'' ''CancelGoal_Response'',
      Message ''action_msgs'' ''srv'' ''CancelGoal_Event'', Service ''action_msgs'' ''srv'' ''CancelGoal'',
      Create_event ''action_msgs'' ''srv'' ''CancelGoal'', Destroy_event ''action_msgs'' ''srv'' ''CancelGoal'']"

definition action_msgs__srv__CancelGoal__microxrcedds :: "xrce_export list" where [support_defs]:
  "action_msgs__srv__CancelGoal__microxrcedds =
     [Serialized_size (''action_msgs'', ''srv'', ''CancelGoal_Request''),
      Max_serialized_size (''action_msgs'', ''srv'', ''CancelGoal_Request''),
      Handle (Message ''action_msgs'' ''srv'' ''CancelGoal_Request''),
      Serialized_size (''action_msgs'', ''srv'', ''CancelGoal_Response''),
      Max_serialized_size (''action_msgs'', ''srv'', ''CancelGoal_Response''),
      Handle (Message ''action_msgs'' ''srv'' ''CancelGoal_Response''),
      Serialized_size (''action_msgs'', ''srv'', ''CancelGoal_Event''),
      Max_serialized_size (''action_msgs'', ''srv'', ''CancelGoal_Event''),
      Handle (Message ''action_msgs'' ''srv'' ''CancelGoal_Event''),
      Handle (Service ''action_msgs'' ''srv'' ''CancelGoal'')]"

definition action_msgs__srv__CancelGoal__introspection :: "exported list" where [support_defs]:
  "action_msgs__srv__CancelGoal__introspection =
     [Message ''action_msgs'' ''srv'' ''CancelGoal_Request'',
      Message ''action_msgs'' ''srv'' ''CancelGoal_Response'',
      Message ''action_msgs'' ''srv'' ''CancelGoal_Event'', Service ''action_msgs'' ''srv'' ''CancelGoal'']"

subsection \<open>Package lifecycle msgs\<close>

definition lifecycle_msgs__msg__State__type_support :: "exported list" where [support_defs]:
  "lifecycle_msgs__msg__State__type_support =
     [Message ''lifecycle_msgs'' ''msg'' ''State'']"

definition lifecycle_msgs__msg__State__microxrcedds :: "xrce_export list" where [support_defs]:
  "lifecycle_msgs__msg__State__microxrcedds =
     [Serialized_size (''lifecycle_msgs'', ''msg'', ''State''),
      Max_serialized_size (''lifecycle_msgs'', ''msg'', ''State''),
      Handle (Message ''lifecycle_msgs'' ''msg'' ''State'')]"

definition lifecycle_msgs__msg__State__introspection :: "exported list" where [support_defs]:
  "lifecycle_msgs__msg__State__introspection =
     [Message ''lifecycle_msgs'' ''msg'' ''State'']"

definition lifecycle_msgs__msg__Transition__type_support :: "exported list" where [support_defs]:
  "lifecycle_msgs__msg__Transition__type_support =
     [Message ''lifecycle_msgs'' ''msg'' ''Transition'']"

definition lifecycle_msgs__msg__Transition__microxrcedds :: "xrce_export list" where [support_defs]:
  "lifecycle_msgs__msg__Transition__microxrcedds =
     [Serialized_size (''lifecycle_msgs'', ''msg'', ''Transition''),
      Max_serialized_size (''lifecycle_msgs'', ''msg'', ''Transition''),
      Handle (Message ''lifecycle_msgs'' ''msg'' ''Transition'')]"

definition lifecycle_msgs__msg__Transition__introspection :: "exported list" where [support_defs]:
  "lifecycle_msgs__msg__Transition__introspection =
     [Message ''lifecycle_msgs'' ''msg'' ''Transition'']"

definition lifecycle_msgs__msg__TransitionDescription__type_support :: "exported list" where [support_defs]:
  "lifecycle_msgs__msg__TransitionDescription__type_support =
     [Message ''lifecycle_msgs'' ''msg'' ''TransitionDescription'']"

definition lifecycle_msgs__msg__TransitionDescription__microxrcedds :: "xrce_export list" where [support_defs]:
  "lifecycle_msgs__msg__TransitionDescription__microxrcedds =
     [Serialized_size (''lifecycle_msgs'', ''msg'', ''TransitionDescription''),
      Max_serialized_size (''lifecycle_msgs'', ''msg'', ''TransitionDescription''),
      Handle (Message ''lifecycle_msgs'' ''msg'' ''TransitionDescription'')]"

definition lifecycle_msgs__msg__TransitionDescription__introspection :: "exported list" where [support_defs]:
  "lifecycle_msgs__msg__TransitionDescription__introspection =
     [Message ''lifecycle_msgs'' ''msg'' ''TransitionDescription'']"

definition lifecycle_msgs__msg__TransitionEvent__type_support :: "exported list" where [support_defs]:
  "lifecycle_msgs__msg__TransitionEvent__type_support =
     [Message ''lifecycle_msgs'' ''msg'' ''TransitionEvent'']"

definition lifecycle_msgs__msg__TransitionEvent__microxrcedds :: "xrce_export list" where [support_defs]:
  "lifecycle_msgs__msg__TransitionEvent__microxrcedds =
     [Serialized_size (''lifecycle_msgs'', ''msg'', ''TransitionEvent''),
      Max_serialized_size (''lifecycle_msgs'', ''msg'', ''TransitionEvent''),
      Handle (Message ''lifecycle_msgs'' ''msg'' ''TransitionEvent'')]"

definition lifecycle_msgs__msg__TransitionEvent__introspection :: "exported list" where [support_defs]:
  "lifecycle_msgs__msg__TransitionEvent__introspection =
     [Message ''lifecycle_msgs'' ''msg'' ''TransitionEvent'']"

definition lifecycle_msgs__srv__ChangeState__type_support :: "exported list" where [support_defs]:
  "lifecycle_msgs__srv__ChangeState__type_support =
     [Message ''lifecycle_msgs'' ''srv'' ''ChangeState_Request'',
      Message ''lifecycle_msgs'' ''srv'' ''ChangeState_Response'',
      Message ''lifecycle_msgs'' ''srv'' ''ChangeState_Event'', Service ''lifecycle_msgs'' ''srv'' ''ChangeState'',
      Create_event ''lifecycle_msgs'' ''srv'' ''ChangeState'',
      Destroy_event ''lifecycle_msgs'' ''srv'' ''ChangeState'']"

definition lifecycle_msgs__srv__ChangeState__microxrcedds :: "xrce_export list" where [support_defs]:
  "lifecycle_msgs__srv__ChangeState__microxrcedds =
     [Serialized_size (''lifecycle_msgs'', ''srv'', ''ChangeState_Request''),
      Max_serialized_size (''lifecycle_msgs'', ''srv'', ''ChangeState_Request''),
      Handle (Message ''lifecycle_msgs'' ''srv'' ''ChangeState_Request''),
      Serialized_size (''lifecycle_msgs'', ''srv'', ''ChangeState_Response''),
      Max_serialized_size (''lifecycle_msgs'', ''srv'', ''ChangeState_Response''),
      Handle (Message ''lifecycle_msgs'' ''srv'' ''ChangeState_Response''),
      Serialized_size (''lifecycle_msgs'', ''srv'', ''ChangeState_Event''),
      Max_serialized_size (''lifecycle_msgs'', ''srv'', ''ChangeState_Event''),
      Handle (Message ''lifecycle_msgs'' ''srv'' ''ChangeState_Event''),
      Handle (Service ''lifecycle_msgs'' ''srv'' ''ChangeState'')]"

definition lifecycle_msgs__srv__ChangeState__introspection :: "exported list" where [support_defs]:
  "lifecycle_msgs__srv__ChangeState__introspection =
     [Message ''lifecycle_msgs'' ''srv'' ''ChangeState_Request'',
      Message ''lifecycle_msgs'' ''srv'' ''ChangeState_Response'',
      Message ''lifecycle_msgs'' ''srv'' ''ChangeState_Event'', Service ''lifecycle_msgs'' ''srv'' ''ChangeState'']"

definition lifecycle_msgs__srv__GetAvailableStates__type_support :: "exported list" where [support_defs]:
  "lifecycle_msgs__srv__GetAvailableStates__type_support =
     [Message ''lifecycle_msgs'' ''srv'' ''GetAvailableStates_Request'',
      Message ''lifecycle_msgs'' ''srv'' ''GetAvailableStates_Response'',
      Message ''lifecycle_msgs'' ''srv'' ''GetAvailableStates_Event'',
      Service ''lifecycle_msgs'' ''srv'' ''GetAvailableStates'',
      Create_event ''lifecycle_msgs'' ''srv'' ''GetAvailableStates'',
      Destroy_event ''lifecycle_msgs'' ''srv'' ''GetAvailableStates'']"

definition lifecycle_msgs__srv__GetAvailableStates__microxrcedds :: "xrce_export list" where [support_defs]:
  "lifecycle_msgs__srv__GetAvailableStates__microxrcedds =
     [Serialized_size (''lifecycle_msgs'', ''srv'', ''GetAvailableStates_Request''),
      Max_serialized_size (''lifecycle_msgs'', ''srv'', ''GetAvailableStates_Request''),
      Handle (Message ''lifecycle_msgs'' ''srv'' ''GetAvailableStates_Request''),
      Serialized_size (''lifecycle_msgs'', ''srv'', ''GetAvailableStates_Response''),
      Max_serialized_size (''lifecycle_msgs'', ''srv'', ''GetAvailableStates_Response''),
      Handle (Message ''lifecycle_msgs'' ''srv'' ''GetAvailableStates_Response''),
      Serialized_size (''lifecycle_msgs'', ''srv'', ''GetAvailableStates_Event''),
      Max_serialized_size (''lifecycle_msgs'', ''srv'', ''GetAvailableStates_Event''),
      Handle (Message ''lifecycle_msgs'' ''srv'' ''GetAvailableStates_Event''),
      Handle (Service ''lifecycle_msgs'' ''srv'' ''GetAvailableStates'')]"

definition lifecycle_msgs__srv__GetAvailableStates__introspection :: "exported list" where [support_defs]:
  "lifecycle_msgs__srv__GetAvailableStates__introspection =
     [Message ''lifecycle_msgs'' ''srv'' ''GetAvailableStates_Request'',
      Message ''lifecycle_msgs'' ''srv'' ''GetAvailableStates_Response'',
      Message ''lifecycle_msgs'' ''srv'' ''GetAvailableStates_Event'',
      Service ''lifecycle_msgs'' ''srv'' ''GetAvailableStates'']"

definition lifecycle_msgs__srv__GetAvailableTransitions__type_support :: "exported list" where [support_defs]:
  "lifecycle_msgs__srv__GetAvailableTransitions__type_support =
     [Message ''lifecycle_msgs'' ''srv'' ''GetAvailableTransitions_Request'',
      Message ''lifecycle_msgs'' ''srv'' ''GetAvailableTransitions_Response'',
      Message ''lifecycle_msgs'' ''srv'' ''GetAvailableTransitions_Event'',
      Service ''lifecycle_msgs'' ''srv'' ''GetAvailableTransitions'',
      Create_event ''lifecycle_msgs'' ''srv'' ''GetAvailableTransitions'',
      Destroy_event ''lifecycle_msgs'' ''srv'' ''GetAvailableTransitions'']"

definition lifecycle_msgs__srv__GetAvailableTransitions__microxrcedds :: "xrce_export list" where [support_defs]:
  "lifecycle_msgs__srv__GetAvailableTransitions__microxrcedds =
     [Serialized_size (''lifecycle_msgs'', ''srv'', ''GetAvailableTransitions_Request''),
      Max_serialized_size (''lifecycle_msgs'', ''srv'', ''GetAvailableTransitions_Request''),
      Handle (Message ''lifecycle_msgs'' ''srv'' ''GetAvailableTransitions_Request''),
      Serialized_size (''lifecycle_msgs'', ''srv'', ''GetAvailableTransitions_Response''),
      Max_serialized_size (''lifecycle_msgs'', ''srv'', ''GetAvailableTransitions_Response''),
      Handle (Message ''lifecycle_msgs'' ''srv'' ''GetAvailableTransitions_Response''),
      Serialized_size (''lifecycle_msgs'', ''srv'', ''GetAvailableTransitions_Event''),
      Max_serialized_size (''lifecycle_msgs'', ''srv'', ''GetAvailableTransitions_Event''),
      Handle (Message ''lifecycle_msgs'' ''srv'' ''GetAvailableTransitions_Event''),
      Handle (Service ''lifecycle_msgs'' ''srv'' ''GetAvailableTransitions'')]"

definition lifecycle_msgs__srv__GetAvailableTransitions__introspection :: "exported list" where [support_defs]:
  "lifecycle_msgs__srv__GetAvailableTransitions__introspection =
     [Message ''lifecycle_msgs'' ''srv'' ''GetAvailableTransitions_Request'',
      Message ''lifecycle_msgs'' ''srv'' ''GetAvailableTransitions_Response'',
      Message ''lifecycle_msgs'' ''srv'' ''GetAvailableTransitions_Event'',
      Service ''lifecycle_msgs'' ''srv'' ''GetAvailableTransitions'']"

definition lifecycle_msgs__srv__GetState__type_support :: "exported list" where [support_defs]:
  "lifecycle_msgs__srv__GetState__type_support =
     [Message ''lifecycle_msgs'' ''srv'' ''GetState_Request'',
      Message ''lifecycle_msgs'' ''srv'' ''GetState_Response'',
      Message ''lifecycle_msgs'' ''srv'' ''GetState_Event'', Service ''lifecycle_msgs'' ''srv'' ''GetState'',
      Create_event ''lifecycle_msgs'' ''srv'' ''GetState'', Destroy_event ''lifecycle_msgs'' ''srv'' ''GetState'']"

definition lifecycle_msgs__srv__GetState__microxrcedds :: "xrce_export list" where [support_defs]:
  "lifecycle_msgs__srv__GetState__microxrcedds =
     [Serialized_size (''lifecycle_msgs'', ''srv'', ''GetState_Request''),
      Max_serialized_size (''lifecycle_msgs'', ''srv'', ''GetState_Request''),
      Handle (Message ''lifecycle_msgs'' ''srv'' ''GetState_Request''),
      Serialized_size (''lifecycle_msgs'', ''srv'', ''GetState_Response''),
      Max_serialized_size (''lifecycle_msgs'', ''srv'', ''GetState_Response''),
      Handle (Message ''lifecycle_msgs'' ''srv'' ''GetState_Response''),
      Serialized_size (''lifecycle_msgs'', ''srv'', ''GetState_Event''),
      Max_serialized_size (''lifecycle_msgs'', ''srv'', ''GetState_Event''),
      Handle (Message ''lifecycle_msgs'' ''srv'' ''GetState_Event''),
      Handle (Service ''lifecycle_msgs'' ''srv'' ''GetState'')]"

definition lifecycle_msgs__srv__GetState__introspection :: "exported list" where [support_defs]:
  "lifecycle_msgs__srv__GetState__introspection =
     [Message ''lifecycle_msgs'' ''srv'' ''GetState_Request'',
      Message ''lifecycle_msgs'' ''srv'' ''GetState_Response'',
      Message ''lifecycle_msgs'' ''srv'' ''GetState_Event'', Service ''lifecycle_msgs'' ''srv'' ''GetState'']"

subsection \<open>Package rcl interfaces\<close>

definition rcl_interfaces__msg__FloatingPointRange__type_support :: "exported list" where [support_defs]:
  "rcl_interfaces__msg__FloatingPointRange__type_support =
     [Message ''rcl_interfaces'' ''msg'' ''FloatingPointRange'']"

definition rcl_interfaces__msg__FloatingPointRange__microxrcedds :: "xrce_export list" where [support_defs]:
  "rcl_interfaces__msg__FloatingPointRange__microxrcedds =
     [Serialized_size (''rcl_interfaces'', ''msg'', ''FloatingPointRange''),
      Max_serialized_size (''rcl_interfaces'', ''msg'', ''FloatingPointRange''),
      Handle (Message ''rcl_interfaces'' ''msg'' ''FloatingPointRange'')]"

definition rcl_interfaces__msg__FloatingPointRange__introspection :: "exported list" where [support_defs]:
  "rcl_interfaces__msg__FloatingPointRange__introspection =
     [Message ''rcl_interfaces'' ''msg'' ''FloatingPointRange'']"

definition rcl_interfaces__msg__IntegerRange__type_support :: "exported list" where [support_defs]:
  "rcl_interfaces__msg__IntegerRange__type_support =
     [Message ''rcl_interfaces'' ''msg'' ''IntegerRange'']"

definition rcl_interfaces__msg__IntegerRange__microxrcedds :: "xrce_export list" where [support_defs]:
  "rcl_interfaces__msg__IntegerRange__microxrcedds =
     [Serialized_size (''rcl_interfaces'', ''msg'', ''IntegerRange''),
      Max_serialized_size (''rcl_interfaces'', ''msg'', ''IntegerRange''),
      Handle (Message ''rcl_interfaces'' ''msg'' ''IntegerRange'')]"

definition rcl_interfaces__msg__IntegerRange__introspection :: "exported list" where [support_defs]:
  "rcl_interfaces__msg__IntegerRange__introspection =
     [Message ''rcl_interfaces'' ''msg'' ''IntegerRange'']"

definition rcl_interfaces__msg__ListParametersResult__type_support :: "exported list" where [support_defs]:
  "rcl_interfaces__msg__ListParametersResult__type_support =
     [Message ''rcl_interfaces'' ''msg'' ''ListParametersResult'']"

definition rcl_interfaces__msg__ListParametersResult__microxrcedds :: "xrce_export list" where [support_defs]:
  "rcl_interfaces__msg__ListParametersResult__microxrcedds =
     [Serialized_size (''rcl_interfaces'', ''msg'', ''ListParametersResult''),
      Max_serialized_size (''rcl_interfaces'', ''msg'', ''ListParametersResult''),
      Handle (Message ''rcl_interfaces'' ''msg'' ''ListParametersResult'')]"

definition rcl_interfaces__msg__ListParametersResult__introspection :: "exported list" where [support_defs]:
  "rcl_interfaces__msg__ListParametersResult__introspection =
     [Message ''rcl_interfaces'' ''msg'' ''ListParametersResult'']"

definition rcl_interfaces__msg__Log__type_support :: "exported list" where [support_defs]:
  "rcl_interfaces__msg__Log__type_support =
     [Message ''rcl_interfaces'' ''msg'' ''Log'']"

definition rcl_interfaces__msg__Log__microxrcedds :: "xrce_export list" where [support_defs]:
  "rcl_interfaces__msg__Log__microxrcedds =
     [Serialized_size (''rcl_interfaces'', ''msg'', ''Log''),
      Max_serialized_size (''rcl_interfaces'', ''msg'', ''Log''),
      Handle (Message ''rcl_interfaces'' ''msg'' ''Log'')]"

definition rcl_interfaces__msg__Log__introspection :: "exported list" where [support_defs]:
  "rcl_interfaces__msg__Log__introspection =
     [Message ''rcl_interfaces'' ''msg'' ''Log'']"

definition rcl_interfaces__msg__LoggerLevel__type_support :: "exported list" where [support_defs]:
  "rcl_interfaces__msg__LoggerLevel__type_support =
     [Message ''rcl_interfaces'' ''msg'' ''LoggerLevel'']"

definition rcl_interfaces__msg__LoggerLevel__microxrcedds :: "xrce_export list" where [support_defs]:
  "rcl_interfaces__msg__LoggerLevel__microxrcedds =
     [Serialized_size (''rcl_interfaces'', ''msg'', ''LoggerLevel''),
      Max_serialized_size (''rcl_interfaces'', ''msg'', ''LoggerLevel''),
      Handle (Message ''rcl_interfaces'' ''msg'' ''LoggerLevel'')]"

definition rcl_interfaces__msg__LoggerLevel__introspection :: "exported list" where [support_defs]:
  "rcl_interfaces__msg__LoggerLevel__introspection =
     [Message ''rcl_interfaces'' ''msg'' ''LoggerLevel'']"

definition rcl_interfaces__msg__Parameter__type_support :: "exported list" where [support_defs]:
  "rcl_interfaces__msg__Parameter__type_support =
     [Message ''rcl_interfaces'' ''msg'' ''Parameter'']"

definition rcl_interfaces__msg__Parameter__microxrcedds :: "xrce_export list" where [support_defs]:
  "rcl_interfaces__msg__Parameter__microxrcedds =
     [Serialized_size (''rcl_interfaces'', ''msg'', ''Parameter''),
      Max_serialized_size (''rcl_interfaces'', ''msg'', ''Parameter''),
      Handle (Message ''rcl_interfaces'' ''msg'' ''Parameter'')]"

definition rcl_interfaces__msg__Parameter__introspection :: "exported list" where [support_defs]:
  "rcl_interfaces__msg__Parameter__introspection =
     [Message ''rcl_interfaces'' ''msg'' ''Parameter'']"

definition rcl_interfaces__msg__ParameterDescriptor__type_support :: "exported list" where [support_defs]:
  "rcl_interfaces__msg__ParameterDescriptor__type_support =
     [Message ''rcl_interfaces'' ''msg'' ''ParameterDescriptor'']"

definition rcl_interfaces__msg__ParameterDescriptor__microxrcedds :: "xrce_export list" where [support_defs]:
  "rcl_interfaces__msg__ParameterDescriptor__microxrcedds =
     [Serialized_size (''rcl_interfaces'', ''msg'', ''ParameterDescriptor''),
      Max_serialized_size (''rcl_interfaces'', ''msg'', ''ParameterDescriptor''),
      Handle (Message ''rcl_interfaces'' ''msg'' ''ParameterDescriptor'')]"

definition rcl_interfaces__msg__ParameterDescriptor__introspection :: "exported list" where [support_defs]:
  "rcl_interfaces__msg__ParameterDescriptor__introspection =
     [Message ''rcl_interfaces'' ''msg'' ''ParameterDescriptor'']"

definition rcl_interfaces__msg__ParameterEvent__type_support :: "exported list" where [support_defs]:
  "rcl_interfaces__msg__ParameterEvent__type_support =
     [Message ''rcl_interfaces'' ''msg'' ''ParameterEvent'']"

definition rcl_interfaces__msg__ParameterEvent__microxrcedds :: "xrce_export list" where [support_defs]:
  "rcl_interfaces__msg__ParameterEvent__microxrcedds =
     [Serialized_size (''rcl_interfaces'', ''msg'', ''ParameterEvent''),
      Max_serialized_size (''rcl_interfaces'', ''msg'', ''ParameterEvent''),
      Handle (Message ''rcl_interfaces'' ''msg'' ''ParameterEvent'')]"

definition rcl_interfaces__msg__ParameterEvent__introspection :: "exported list" where [support_defs]:
  "rcl_interfaces__msg__ParameterEvent__introspection =
     [Message ''rcl_interfaces'' ''msg'' ''ParameterEvent'']"

definition rcl_interfaces__msg__ParameterEventDescriptors__type_support :: "exported list" where [support_defs]:
  "rcl_interfaces__msg__ParameterEventDescriptors__type_support =
     [Message ''rcl_interfaces'' ''msg'' ''ParameterEventDescriptors'']"

definition rcl_interfaces__msg__ParameterEventDescriptors__microxrcedds :: "xrce_export list" where [support_defs]:
  "rcl_interfaces__msg__ParameterEventDescriptors__microxrcedds =
     [Serialized_size (''rcl_interfaces'', ''msg'', ''ParameterEventDescriptors''),
      Max_serialized_size (''rcl_interfaces'', ''msg'', ''ParameterEventDescriptors''),
      Handle (Message ''rcl_interfaces'' ''msg'' ''ParameterEventDescriptors'')]"

definition rcl_interfaces__msg__ParameterEventDescriptors__introspection :: "exported list" where [support_defs]:
  "rcl_interfaces__msg__ParameterEventDescriptors__introspection =
     [Message ''rcl_interfaces'' ''msg'' ''ParameterEventDescriptors'']"

definition rcl_interfaces__msg__ParameterType__type_support :: "exported list" where [support_defs]:
  "rcl_interfaces__msg__ParameterType__type_support =
     [Message ''rcl_interfaces'' ''msg'' ''ParameterType'']"

definition rcl_interfaces__msg__ParameterType__microxrcedds :: "xrce_export list" where [support_defs]:
  "rcl_interfaces__msg__ParameterType__microxrcedds =
     [Serialized_size (''rcl_interfaces'', ''msg'', ''ParameterType''),
      Max_serialized_size (''rcl_interfaces'', ''msg'', ''ParameterType''),
      Handle (Message ''rcl_interfaces'' ''msg'' ''ParameterType'')]"

definition rcl_interfaces__msg__ParameterType__introspection :: "exported list" where [support_defs]:
  "rcl_interfaces__msg__ParameterType__introspection =
     [Message ''rcl_interfaces'' ''msg'' ''ParameterType'']"

definition rcl_interfaces__msg__ParameterValue__type_support :: "exported list" where [support_defs]:
  "rcl_interfaces__msg__ParameterValue__type_support =
     [Message ''rcl_interfaces'' ''msg'' ''ParameterValue'']"

definition rcl_interfaces__msg__ParameterValue__microxrcedds :: "xrce_export list" where [support_defs]:
  "rcl_interfaces__msg__ParameterValue__microxrcedds =
     [Serialized_size (''rcl_interfaces'', ''msg'', ''ParameterValue''),
      Max_serialized_size (''rcl_interfaces'', ''msg'', ''ParameterValue''),
      Handle (Message ''rcl_interfaces'' ''msg'' ''ParameterValue'')]"

definition rcl_interfaces__msg__ParameterValue__introspection :: "exported list" where [support_defs]:
  "rcl_interfaces__msg__ParameterValue__introspection =
     [Message ''rcl_interfaces'' ''msg'' ''ParameterValue'']"

definition rcl_interfaces__msg__SetLoggerLevelsResult__type_support :: "exported list" where [support_defs]:
  "rcl_interfaces__msg__SetLoggerLevelsResult__type_support =
     [Message ''rcl_interfaces'' ''msg'' ''SetLoggerLevelsResult'']"

definition rcl_interfaces__msg__SetLoggerLevelsResult__microxrcedds :: "xrce_export list" where [support_defs]:
  "rcl_interfaces__msg__SetLoggerLevelsResult__microxrcedds =
     [Serialized_size (''rcl_interfaces'', ''msg'', ''SetLoggerLevelsResult''),
      Max_serialized_size (''rcl_interfaces'', ''msg'', ''SetLoggerLevelsResult''),
      Handle (Message ''rcl_interfaces'' ''msg'' ''SetLoggerLevelsResult'')]"

definition rcl_interfaces__msg__SetLoggerLevelsResult__introspection :: "exported list" where [support_defs]:
  "rcl_interfaces__msg__SetLoggerLevelsResult__introspection =
     [Message ''rcl_interfaces'' ''msg'' ''SetLoggerLevelsResult'']"

definition rcl_interfaces__msg__SetParametersResult__type_support :: "exported list" where [support_defs]:
  "rcl_interfaces__msg__SetParametersResult__type_support =
     [Message ''rcl_interfaces'' ''msg'' ''SetParametersResult'']"

definition rcl_interfaces__msg__SetParametersResult__microxrcedds :: "xrce_export list" where [support_defs]:
  "rcl_interfaces__msg__SetParametersResult__microxrcedds =
     [Serialized_size (''rcl_interfaces'', ''msg'', ''SetParametersResult''),
      Max_serialized_size (''rcl_interfaces'', ''msg'', ''SetParametersResult''),
      Handle (Message ''rcl_interfaces'' ''msg'' ''SetParametersResult'')]"

definition rcl_interfaces__msg__SetParametersResult__introspection :: "exported list" where [support_defs]:
  "rcl_interfaces__msg__SetParametersResult__introspection =
     [Message ''rcl_interfaces'' ''msg'' ''SetParametersResult'']"

definition rcl_interfaces__srv__DescribeParameters__type_support :: "exported list" where [support_defs]:
  "rcl_interfaces__srv__DescribeParameters__type_support =
     [Message ''rcl_interfaces'' ''srv'' ''DescribeParameters_Request'',
      Message ''rcl_interfaces'' ''srv'' ''DescribeParameters_Response'',
      Message ''rcl_interfaces'' ''srv'' ''DescribeParameters_Event'',
      Service ''rcl_interfaces'' ''srv'' ''DescribeParameters'',
      Create_event ''rcl_interfaces'' ''srv'' ''DescribeParameters'',
      Destroy_event ''rcl_interfaces'' ''srv'' ''DescribeParameters'']"

definition rcl_interfaces__srv__DescribeParameters__microxrcedds :: "xrce_export list" where [support_defs]:
  "rcl_interfaces__srv__DescribeParameters__microxrcedds =
     [Serialized_size (''rcl_interfaces'', ''srv'', ''DescribeParameters_Request''),
      Max_serialized_size (''rcl_interfaces'', ''srv'', ''DescribeParameters_Request''),
      Handle (Message ''rcl_interfaces'' ''srv'' ''DescribeParameters_Request''),
      Serialized_size (''rcl_interfaces'', ''srv'', ''DescribeParameters_Response''),
      Max_serialized_size (''rcl_interfaces'', ''srv'', ''DescribeParameters_Response''),
      Handle (Message ''rcl_interfaces'' ''srv'' ''DescribeParameters_Response''),
      Serialized_size (''rcl_interfaces'', ''srv'', ''DescribeParameters_Event''),
      Max_serialized_size (''rcl_interfaces'', ''srv'', ''DescribeParameters_Event''),
      Handle (Message ''rcl_interfaces'' ''srv'' ''DescribeParameters_Event''),
      Handle (Service ''rcl_interfaces'' ''srv'' ''DescribeParameters'')]"

definition rcl_interfaces__srv__DescribeParameters__introspection :: "exported list" where [support_defs]:
  "rcl_interfaces__srv__DescribeParameters__introspection =
     [Message ''rcl_interfaces'' ''srv'' ''DescribeParameters_Request'',
      Message ''rcl_interfaces'' ''srv'' ''DescribeParameters_Response'',
      Message ''rcl_interfaces'' ''srv'' ''DescribeParameters_Event'',
      Service ''rcl_interfaces'' ''srv'' ''DescribeParameters'']"

definition rcl_interfaces__srv__GetLoggerLevels__type_support :: "exported list" where [support_defs]:
  "rcl_interfaces__srv__GetLoggerLevels__type_support =
     [Message ''rcl_interfaces'' ''srv'' ''GetLoggerLevels_Request'',
      Message ''rcl_interfaces'' ''srv'' ''GetLoggerLevels_Response'',
      Message ''rcl_interfaces'' ''srv'' ''GetLoggerLevels_Event'',
      Service ''rcl_interfaces'' ''srv'' ''GetLoggerLevels'',
      Create_event ''rcl_interfaces'' ''srv'' ''GetLoggerLevels'',
      Destroy_event ''rcl_interfaces'' ''srv'' ''GetLoggerLevels'']"

definition rcl_interfaces__srv__GetLoggerLevels__microxrcedds :: "xrce_export list" where [support_defs]:
  "rcl_interfaces__srv__GetLoggerLevels__microxrcedds =
     [Serialized_size (''rcl_interfaces'', ''srv'', ''GetLoggerLevels_Request''),
      Max_serialized_size (''rcl_interfaces'', ''srv'', ''GetLoggerLevels_Request''),
      Handle (Message ''rcl_interfaces'' ''srv'' ''GetLoggerLevels_Request''),
      Serialized_size (''rcl_interfaces'', ''srv'', ''GetLoggerLevels_Response''),
      Max_serialized_size (''rcl_interfaces'', ''srv'', ''GetLoggerLevels_Response''),
      Handle (Message ''rcl_interfaces'' ''srv'' ''GetLoggerLevels_Response''),
      Serialized_size (''rcl_interfaces'', ''srv'', ''GetLoggerLevels_Event''),
      Max_serialized_size (''rcl_interfaces'', ''srv'', ''GetLoggerLevels_Event''),
      Handle (Message ''rcl_interfaces'' ''srv'' ''GetLoggerLevels_Event''),
      Handle (Service ''rcl_interfaces'' ''srv'' ''GetLoggerLevels'')]"

definition rcl_interfaces__srv__GetLoggerLevels__introspection :: "exported list" where [support_defs]:
  "rcl_interfaces__srv__GetLoggerLevels__introspection =
     [Message ''rcl_interfaces'' ''srv'' ''GetLoggerLevels_Request'',
      Message ''rcl_interfaces'' ''srv'' ''GetLoggerLevels_Response'',
      Message ''rcl_interfaces'' ''srv'' ''GetLoggerLevels_Event'',
      Service ''rcl_interfaces'' ''srv'' ''GetLoggerLevels'']"

definition rcl_interfaces__srv__GetParameterTypes__type_support :: "exported list" where [support_defs]:
  "rcl_interfaces__srv__GetParameterTypes__type_support =
     [Message ''rcl_interfaces'' ''srv'' ''GetParameterTypes_Request'',
      Message ''rcl_interfaces'' ''srv'' ''GetParameterTypes_Response'',
      Message ''rcl_interfaces'' ''srv'' ''GetParameterTypes_Event'',
      Service ''rcl_interfaces'' ''srv'' ''GetParameterTypes'',
      Create_event ''rcl_interfaces'' ''srv'' ''GetParameterTypes'',
      Destroy_event ''rcl_interfaces'' ''srv'' ''GetParameterTypes'']"

definition rcl_interfaces__srv__GetParameterTypes__microxrcedds :: "xrce_export list" where [support_defs]:
  "rcl_interfaces__srv__GetParameterTypes__microxrcedds =
     [Serialized_size (''rcl_interfaces'', ''srv'', ''GetParameterTypes_Request''),
      Max_serialized_size (''rcl_interfaces'', ''srv'', ''GetParameterTypes_Request''),
      Handle (Message ''rcl_interfaces'' ''srv'' ''GetParameterTypes_Request''),
      Serialized_size (''rcl_interfaces'', ''srv'', ''GetParameterTypes_Response''),
      Max_serialized_size (''rcl_interfaces'', ''srv'', ''GetParameterTypes_Response''),
      Handle (Message ''rcl_interfaces'' ''srv'' ''GetParameterTypes_Response''),
      Serialized_size (''rcl_interfaces'', ''srv'', ''GetParameterTypes_Event''),
      Max_serialized_size (''rcl_interfaces'', ''srv'', ''GetParameterTypes_Event''),
      Handle (Message ''rcl_interfaces'' ''srv'' ''GetParameterTypes_Event''),
      Handle (Service ''rcl_interfaces'' ''srv'' ''GetParameterTypes'')]"

definition rcl_interfaces__srv__GetParameterTypes__introspection :: "exported list" where [support_defs]:
  "rcl_interfaces__srv__GetParameterTypes__introspection =
     [Message ''rcl_interfaces'' ''srv'' ''GetParameterTypes_Request'',
      Message ''rcl_interfaces'' ''srv'' ''GetParameterTypes_Response'',
      Message ''rcl_interfaces'' ''srv'' ''GetParameterTypes_Event'',
      Service ''rcl_interfaces'' ''srv'' ''GetParameterTypes'']"

definition rcl_interfaces__srv__GetParameters__type_support :: "exported list" where [support_defs]:
  "rcl_interfaces__srv__GetParameters__type_support =
     [Message ''rcl_interfaces'' ''srv'' ''GetParameters_Request'',
      Message ''rcl_interfaces'' ''srv'' ''GetParameters_Response'',
      Message ''rcl_interfaces'' ''srv'' ''GetParameters_Event'',
      Service ''rcl_interfaces'' ''srv'' ''GetParameters'',
      Create_event ''rcl_interfaces'' ''srv'' ''GetParameters'',
      Destroy_event ''rcl_interfaces'' ''srv'' ''GetParameters'']"

definition rcl_interfaces__srv__GetParameters__microxrcedds :: "xrce_export list" where [support_defs]:
  "rcl_interfaces__srv__GetParameters__microxrcedds =
     [Serialized_size (''rcl_interfaces'', ''srv'', ''GetParameters_Request''),
      Max_serialized_size (''rcl_interfaces'', ''srv'', ''GetParameters_Request''),
      Handle (Message ''rcl_interfaces'' ''srv'' ''GetParameters_Request''),
      Serialized_size (''rcl_interfaces'', ''srv'', ''GetParameters_Response''),
      Max_serialized_size (''rcl_interfaces'', ''srv'', ''GetParameters_Response''),
      Handle (Message ''rcl_interfaces'' ''srv'' ''GetParameters_Response''),
      Serialized_size (''rcl_interfaces'', ''srv'', ''GetParameters_Event''),
      Max_serialized_size (''rcl_interfaces'', ''srv'', ''GetParameters_Event''),
      Handle (Message ''rcl_interfaces'' ''srv'' ''GetParameters_Event''),
      Handle (Service ''rcl_interfaces'' ''srv'' ''GetParameters'')]"

definition rcl_interfaces__srv__GetParameters__introspection :: "exported list" where [support_defs]:
  "rcl_interfaces__srv__GetParameters__introspection =
     [Message ''rcl_interfaces'' ''srv'' ''GetParameters_Request'',
      Message ''rcl_interfaces'' ''srv'' ''GetParameters_Response'',
      Message ''rcl_interfaces'' ''srv'' ''GetParameters_Event'',
      Service ''rcl_interfaces'' ''srv'' ''GetParameters'']"

definition rcl_interfaces__srv__ListParameters__type_support :: "exported list" where [support_defs]:
  "rcl_interfaces__srv__ListParameters__type_support =
     [Message ''rcl_interfaces'' ''srv'' ''ListParameters_Request'',
      Message ''rcl_interfaces'' ''srv'' ''ListParameters_Response'',
      Message ''rcl_interfaces'' ''srv'' ''ListParameters_Event'',
      Service ''rcl_interfaces'' ''srv'' ''ListParameters'',
      Create_event ''rcl_interfaces'' ''srv'' ''ListParameters'',
      Destroy_event ''rcl_interfaces'' ''srv'' ''ListParameters'']"

definition rcl_interfaces__srv__ListParameters__microxrcedds :: "xrce_export list" where [support_defs]:
  "rcl_interfaces__srv__ListParameters__microxrcedds =
     [Serialized_size (''rcl_interfaces'', ''srv'', ''ListParameters_Request''),
      Max_serialized_size (''rcl_interfaces'', ''srv'', ''ListParameters_Request''),
      Handle (Message ''rcl_interfaces'' ''srv'' ''ListParameters_Request''),
      Serialized_size (''rcl_interfaces'', ''srv'', ''ListParameters_Response''),
      Max_serialized_size (''rcl_interfaces'', ''srv'', ''ListParameters_Response''),
      Handle (Message ''rcl_interfaces'' ''srv'' ''ListParameters_Response''),
      Serialized_size (''rcl_interfaces'', ''srv'', ''ListParameters_Event''),
      Max_serialized_size (''rcl_interfaces'', ''srv'', ''ListParameters_Event''),
      Handle (Message ''rcl_interfaces'' ''srv'' ''ListParameters_Event''),
      Handle (Service ''rcl_interfaces'' ''srv'' ''ListParameters'')]"

definition rcl_interfaces__srv__ListParameters__introspection :: "exported list" where [support_defs]:
  "rcl_interfaces__srv__ListParameters__introspection =
     [Message ''rcl_interfaces'' ''srv'' ''ListParameters_Request'',
      Message ''rcl_interfaces'' ''srv'' ''ListParameters_Response'',
      Message ''rcl_interfaces'' ''srv'' ''ListParameters_Event'',
      Service ''rcl_interfaces'' ''srv'' ''ListParameters'']"

definition rcl_interfaces__srv__SetLoggerLevels__type_support :: "exported list" where [support_defs]:
  "rcl_interfaces__srv__SetLoggerLevels__type_support =
     [Message ''rcl_interfaces'' ''srv'' ''SetLoggerLevels_Request'',
      Message ''rcl_interfaces'' ''srv'' ''SetLoggerLevels_Response'',
      Message ''rcl_interfaces'' ''srv'' ''SetLoggerLevels_Event'',
      Service ''rcl_interfaces'' ''srv'' ''SetLoggerLevels'',
      Create_event ''rcl_interfaces'' ''srv'' ''SetLoggerLevels'',
      Destroy_event ''rcl_interfaces'' ''srv'' ''SetLoggerLevels'']"

definition rcl_interfaces__srv__SetLoggerLevels__microxrcedds :: "xrce_export list" where [support_defs]:
  "rcl_interfaces__srv__SetLoggerLevels__microxrcedds =
     [Serialized_size (''rcl_interfaces'', ''srv'', ''SetLoggerLevels_Request''),
      Max_serialized_size (''rcl_interfaces'', ''srv'', ''SetLoggerLevels_Request''),
      Handle (Message ''rcl_interfaces'' ''srv'' ''SetLoggerLevels_Request''),
      Serialized_size (''rcl_interfaces'', ''srv'', ''SetLoggerLevels_Response''),
      Max_serialized_size (''rcl_interfaces'', ''srv'', ''SetLoggerLevels_Response''),
      Handle (Message ''rcl_interfaces'' ''srv'' ''SetLoggerLevels_Response''),
      Serialized_size (''rcl_interfaces'', ''srv'', ''SetLoggerLevels_Event''),
      Max_serialized_size (''rcl_interfaces'', ''srv'', ''SetLoggerLevels_Event''),
      Handle (Message ''rcl_interfaces'' ''srv'' ''SetLoggerLevels_Event''),
      Handle (Service ''rcl_interfaces'' ''srv'' ''SetLoggerLevels'')]"

definition rcl_interfaces__srv__SetLoggerLevels__introspection :: "exported list" where [support_defs]:
  "rcl_interfaces__srv__SetLoggerLevels__introspection =
     [Message ''rcl_interfaces'' ''srv'' ''SetLoggerLevels_Request'',
      Message ''rcl_interfaces'' ''srv'' ''SetLoggerLevels_Response'',
      Message ''rcl_interfaces'' ''srv'' ''SetLoggerLevels_Event'',
      Service ''rcl_interfaces'' ''srv'' ''SetLoggerLevels'']"

definition rcl_interfaces__srv__SetParameters__type_support :: "exported list" where [support_defs]:
  "rcl_interfaces__srv__SetParameters__type_support =
     [Message ''rcl_interfaces'' ''srv'' ''SetParameters_Request'',
      Message ''rcl_interfaces'' ''srv'' ''SetParameters_Response'',
      Message ''rcl_interfaces'' ''srv'' ''SetParameters_Event'',
      Service ''rcl_interfaces'' ''srv'' ''SetParameters'',
      Create_event ''rcl_interfaces'' ''srv'' ''SetParameters'',
      Destroy_event ''rcl_interfaces'' ''srv'' ''SetParameters'']"

definition rcl_interfaces__srv__SetParameters__microxrcedds :: "xrce_export list" where [support_defs]:
  "rcl_interfaces__srv__SetParameters__microxrcedds =
     [Serialized_size (''rcl_interfaces'', ''srv'', ''SetParameters_Request''),
      Max_serialized_size (''rcl_interfaces'', ''srv'', ''SetParameters_Request''),
      Handle (Message ''rcl_interfaces'' ''srv'' ''SetParameters_Request''),
      Serialized_size (''rcl_interfaces'', ''srv'', ''SetParameters_Response''),
      Max_serialized_size (''rcl_interfaces'', ''srv'', ''SetParameters_Response''),
      Handle (Message ''rcl_interfaces'' ''srv'' ''SetParameters_Response''),
      Serialized_size (''rcl_interfaces'', ''srv'', ''SetParameters_Event''),
      Max_serialized_size (''rcl_interfaces'', ''srv'', ''SetParameters_Event''),
      Handle (Message ''rcl_interfaces'' ''srv'' ''SetParameters_Event''),
      Handle (Service ''rcl_interfaces'' ''srv'' ''SetParameters'')]"

definition rcl_interfaces__srv__SetParameters__introspection :: "exported list" where [support_defs]:
  "rcl_interfaces__srv__SetParameters__introspection =
     [Message ''rcl_interfaces'' ''srv'' ''SetParameters_Request'',
      Message ''rcl_interfaces'' ''srv'' ''SetParameters_Response'',
      Message ''rcl_interfaces'' ''srv'' ''SetParameters_Event'',
      Service ''rcl_interfaces'' ''srv'' ''SetParameters'']"

definition rcl_interfaces__srv__SetParametersAtomically__type_support :: "exported list" where [support_defs]:
  "rcl_interfaces__srv__SetParametersAtomically__type_support =
     [Message ''rcl_interfaces'' ''srv'' ''SetParametersAtomically_Request'',
      Message ''rcl_interfaces'' ''srv'' ''SetParametersAtomically_Response'',
      Message ''rcl_interfaces'' ''srv'' ''SetParametersAtomically_Event'',
      Service ''rcl_interfaces'' ''srv'' ''SetParametersAtomically'',
      Create_event ''rcl_interfaces'' ''srv'' ''SetParametersAtomically'',
      Destroy_event ''rcl_interfaces'' ''srv'' ''SetParametersAtomically'']"

definition rcl_interfaces__srv__SetParametersAtomically__microxrcedds :: "xrce_export list" where [support_defs]:
  "rcl_interfaces__srv__SetParametersAtomically__microxrcedds =
     [Serialized_size (''rcl_interfaces'', ''srv'', ''SetParametersAtomically_Request''),
      Max_serialized_size (''rcl_interfaces'', ''srv'', ''SetParametersAtomically_Request''),
      Handle (Message ''rcl_interfaces'' ''srv'' ''SetParametersAtomically_Request''),
      Serialized_size (''rcl_interfaces'', ''srv'', ''SetParametersAtomically_Response''),
      Max_serialized_size (''rcl_interfaces'', ''srv'', ''SetParametersAtomically_Response''),
      Handle (Message ''rcl_interfaces'' ''srv'' ''SetParametersAtomically_Response''),
      Serialized_size (''rcl_interfaces'', ''srv'', ''SetParametersAtomically_Event''),
      Max_serialized_size (''rcl_interfaces'', ''srv'', ''SetParametersAtomically_Event''),
      Handle (Message ''rcl_interfaces'' ''srv'' ''SetParametersAtomically_Event''),
      Handle (Service ''rcl_interfaces'' ''srv'' ''SetParametersAtomically'')]"

definition rcl_interfaces__srv__SetParametersAtomically__introspection :: "exported list" where [support_defs]:
  "rcl_interfaces__srv__SetParametersAtomically__introspection =
     [Message ''rcl_interfaces'' ''srv'' ''SetParametersAtomically_Request'',
      Message ''rcl_interfaces'' ''srv'' ''SetParametersAtomically_Response'',
      Message ''rcl_interfaces'' ''srv'' ''SetParametersAtomically_Event'',
      Service ''rcl_interfaces'' ''srv'' ''SetParametersAtomically'']"

subsection \<open>Package composition interfaces\<close>

definition composition_interfaces__srv__ListNodes__type_support :: "exported list" where [support_defs]:
  "composition_interfaces__srv__ListNodes__type_support =
     [Message ''composition_interfaces'' ''srv'' ''ListNodes_Request'',
      Message ''composition_interfaces'' ''srv'' ''ListNodes_Response'',
      Message ''composition_interfaces'' ''srv'' ''ListNodes_Event'',
      Service ''composition_interfaces'' ''srv'' ''ListNodes'',
      Create_event ''composition_interfaces'' ''srv'' ''ListNodes'',
      Destroy_event ''composition_interfaces'' ''srv'' ''ListNodes'']"

definition composition_interfaces__srv__ListNodes__microxrcedds :: "xrce_export list" where [support_defs]:
  "composition_interfaces__srv__ListNodes__microxrcedds =
     [Serialized_size (''composition_interfaces'', ''srv'', ''ListNodes_Request''),
      Max_serialized_size (''composition_interfaces'', ''srv'', ''ListNodes_Request''),
      Handle (Message ''composition_interfaces'' ''srv'' ''ListNodes_Request''),
      Serialized_size (''composition_interfaces'', ''srv'', ''ListNodes_Response''),
      Max_serialized_size (''composition_interfaces'', ''srv'', ''ListNodes_Response''),
      Handle (Message ''composition_interfaces'' ''srv'' ''ListNodes_Response''),
      Serialized_size (''composition_interfaces'', ''srv'', ''ListNodes_Event''),
      Max_serialized_size (''composition_interfaces'', ''srv'', ''ListNodes_Event''),
      Handle (Message ''composition_interfaces'' ''srv'' ''ListNodes_Event''),
      Handle (Service ''composition_interfaces'' ''srv'' ''ListNodes'')]"

definition composition_interfaces__srv__ListNodes__introspection :: "exported list" where [support_defs]:
  "composition_interfaces__srv__ListNodes__introspection =
     [Message ''composition_interfaces'' ''srv'' ''ListNodes_Request'',
      Message ''composition_interfaces'' ''srv'' ''ListNodes_Response'',
      Message ''composition_interfaces'' ''srv'' ''ListNodes_Event'',
      Service ''composition_interfaces'' ''srv'' ''ListNodes'']"

definition composition_interfaces__srv__LoadNode__type_support :: "exported list" where [support_defs]:
  "composition_interfaces__srv__LoadNode__type_support =
     [Message ''composition_interfaces'' ''srv'' ''LoadNode_Request'',
      Message ''composition_interfaces'' ''srv'' ''LoadNode_Response'',
      Message ''composition_interfaces'' ''srv'' ''LoadNode_Event'',
      Service ''composition_interfaces'' ''srv'' ''LoadNode'',
      Create_event ''composition_interfaces'' ''srv'' ''LoadNode'',
      Destroy_event ''composition_interfaces'' ''srv'' ''LoadNode'']"

definition composition_interfaces__srv__LoadNode__microxrcedds :: "xrce_export list" where [support_defs]:
  "composition_interfaces__srv__LoadNode__microxrcedds =
     [Serialized_size (''composition_interfaces'', ''srv'', ''LoadNode_Request''),
      Max_serialized_size (''composition_interfaces'', ''srv'', ''LoadNode_Request''),
      Handle (Message ''composition_interfaces'' ''srv'' ''LoadNode_Request''),
      Serialized_size (''composition_interfaces'', ''srv'', ''LoadNode_Response''),
      Max_serialized_size (''composition_interfaces'', ''srv'', ''LoadNode_Response''),
      Handle (Message ''composition_interfaces'' ''srv'' ''LoadNode_Response''),
      Serialized_size (''composition_interfaces'', ''srv'', ''LoadNode_Event''),
      Max_serialized_size (''composition_interfaces'', ''srv'', ''LoadNode_Event''),
      Handle (Message ''composition_interfaces'' ''srv'' ''LoadNode_Event''),
      Handle (Service ''composition_interfaces'' ''srv'' ''LoadNode'')]"

definition composition_interfaces__srv__LoadNode__introspection :: "exported list" where [support_defs]:
  "composition_interfaces__srv__LoadNode__introspection =
     [Message ''composition_interfaces'' ''srv'' ''LoadNode_Request'',
      Message ''composition_interfaces'' ''srv'' ''LoadNode_Response'',
      Message ''composition_interfaces'' ''srv'' ''LoadNode_Event'',
      Service ''composition_interfaces'' ''srv'' ''LoadNode'']"

definition composition_interfaces__srv__UnloadNode__type_support :: "exported list" where [support_defs]:
  "composition_interfaces__srv__UnloadNode__type_support =
     [Message ''composition_interfaces'' ''srv'' ''UnloadNode_Request'',
      Message ''composition_interfaces'' ''srv'' ''UnloadNode_Response'',
      Message ''composition_interfaces'' ''srv'' ''UnloadNode_Event'',
      Service ''composition_interfaces'' ''srv'' ''UnloadNode'',
      Create_event ''composition_interfaces'' ''srv'' ''UnloadNode'',
      Destroy_event ''composition_interfaces'' ''srv'' ''UnloadNode'']"

definition composition_interfaces__srv__UnloadNode__microxrcedds :: "xrce_export list" where [support_defs]:
  "composition_interfaces__srv__UnloadNode__microxrcedds =
     [Serialized_size (''composition_interfaces'', ''srv'', ''UnloadNode_Request''),
      Max_serialized_size (''composition_interfaces'', ''srv'', ''UnloadNode_Request''),
      Handle (Message ''composition_interfaces'' ''srv'' ''UnloadNode_Request''),
      Serialized_size (''composition_interfaces'', ''srv'', ''UnloadNode_Response''),
      Max_serialized_size (''composition_interfaces'', ''srv'', ''UnloadNode_Response''),
      Handle (Message ''composition_interfaces'' ''srv'' ''UnloadNode_Response''),
      Serialized_size (''composition_interfaces'', ''srv'', ''UnloadNode_Event''),
      Max_serialized_size (''composition_interfaces'', ''srv'', ''UnloadNode_Event''),
      Handle (Message ''composition_interfaces'' ''srv'' ''UnloadNode_Event''),
      Handle (Service ''composition_interfaces'' ''srv'' ''UnloadNode'')]"

definition composition_interfaces__srv__UnloadNode__introspection :: "exported list" where [support_defs]:
  "composition_interfaces__srv__UnloadNode__introspection =
     [Message ''composition_interfaces'' ''srv'' ''UnloadNode_Request'',
      Message ''composition_interfaces'' ''srv'' ''UnloadNode_Response'',
      Message ''composition_interfaces'' ''srv'' ''UnloadNode_Event'',
      Service ''composition_interfaces'' ''srv'' ''UnloadNode'']"

subsection \<open>Package type description interfaces\<close>

definition type_description_interfaces__msg__Field__type_support :: "exported list" where [support_defs]:
  "type_description_interfaces__msg__Field__type_support =
     [Message ''type_description_interfaces'' ''msg'' ''Field'']"

definition type_description_interfaces__msg__Field__microxrcedds :: "xrce_export list" where [support_defs]:
  "type_description_interfaces__msg__Field__microxrcedds =
     [Serialized_size (''type_description_interfaces'', ''msg'', ''Field''),
      Max_serialized_size (''type_description_interfaces'', ''msg'', ''Field''),
      Handle (Message ''type_description_interfaces'' ''msg'' ''Field'')]"

definition type_description_interfaces__msg__Field__introspection :: "exported list" where [support_defs]:
  "type_description_interfaces__msg__Field__introspection =
     [Message ''type_description_interfaces'' ''msg'' ''Field'']"

definition type_description_interfaces__msg__FieldType__type_support :: "exported list" where [support_defs]:
  "type_description_interfaces__msg__FieldType__type_support =
     [Message ''type_description_interfaces'' ''msg'' ''FieldType'']"

definition type_description_interfaces__msg__FieldType__microxrcedds :: "xrce_export list" where [support_defs]:
  "type_description_interfaces__msg__FieldType__microxrcedds =
     [Serialized_size (''type_description_interfaces'', ''msg'', ''FieldType''),
      Max_serialized_size (''type_description_interfaces'', ''msg'', ''FieldType''),
      Handle (Message ''type_description_interfaces'' ''msg'' ''FieldType'')]"

definition type_description_interfaces__msg__FieldType__introspection :: "exported list" where [support_defs]:
  "type_description_interfaces__msg__FieldType__introspection =
     [Message ''type_description_interfaces'' ''msg'' ''FieldType'']"

definition type_description_interfaces__msg__IndividualTypeDescription__type_support :: "exported list" where [support_defs]:
  "type_description_interfaces__msg__IndividualTypeDescription__type_support =
     [Message ''type_description_interfaces'' ''msg'' ''IndividualTypeDescription'']"

definition type_description_interfaces__msg__IndividualTypeDescription__microxrcedds :: "xrce_export list" where [support_defs]:
  "type_description_interfaces__msg__IndividualTypeDescription__microxrcedds =
     [Serialized_size (''type_description_interfaces'', ''msg'', ''IndividualTypeDescription''),
      Max_serialized_size (''type_description_interfaces'', ''msg'', ''IndividualTypeDescription''),
      Handle (Message ''type_description_interfaces'' ''msg'' ''IndividualTypeDescription'')]"

definition type_description_interfaces__msg__IndividualTypeDescription__introspection :: "exported list" where [support_defs]:
  "type_description_interfaces__msg__IndividualTypeDescription__introspection =
     [Message ''type_description_interfaces'' ''msg'' ''IndividualTypeDescription'']"

definition type_description_interfaces__msg__KeyValue__type_support :: "exported list" where [support_defs]:
  "type_description_interfaces__msg__KeyValue__type_support =
     [Message ''type_description_interfaces'' ''msg'' ''KeyValue'']"

definition type_description_interfaces__msg__KeyValue__microxrcedds :: "xrce_export list" where [support_defs]:
  "type_description_interfaces__msg__KeyValue__microxrcedds =
     [Serialized_size (''type_description_interfaces'', ''msg'', ''KeyValue''),
      Max_serialized_size (''type_description_interfaces'', ''msg'', ''KeyValue''),
      Handle (Message ''type_description_interfaces'' ''msg'' ''KeyValue'')]"

definition type_description_interfaces__msg__KeyValue__introspection :: "exported list" where [support_defs]:
  "type_description_interfaces__msg__KeyValue__introspection =
     [Message ''type_description_interfaces'' ''msg'' ''KeyValue'']"

definition type_description_interfaces__msg__TypeDescription__type_support :: "exported list" where [support_defs]:
  "type_description_interfaces__msg__TypeDescription__type_support =
     [Message ''type_description_interfaces'' ''msg'' ''TypeDescription'']"

definition type_description_interfaces__msg__TypeDescription__microxrcedds :: "xrce_export list" where [support_defs]:
  "type_description_interfaces__msg__TypeDescription__microxrcedds =
     [Serialized_size (''type_description_interfaces'', ''msg'', ''TypeDescription''),
      Max_serialized_size (''type_description_interfaces'', ''msg'', ''TypeDescription''),
      Handle (Message ''type_description_interfaces'' ''msg'' ''TypeDescription'')]"

definition type_description_interfaces__msg__TypeDescription__introspection :: "exported list" where [support_defs]:
  "type_description_interfaces__msg__TypeDescription__introspection =
     [Message ''type_description_interfaces'' ''msg'' ''TypeDescription'']"

definition type_description_interfaces__msg__TypeSource__type_support :: "exported list" where [support_defs]:
  "type_description_interfaces__msg__TypeSource__type_support =
     [Message ''type_description_interfaces'' ''msg'' ''TypeSource'']"

definition type_description_interfaces__msg__TypeSource__microxrcedds :: "xrce_export list" where [support_defs]:
  "type_description_interfaces__msg__TypeSource__microxrcedds =
     [Serialized_size (''type_description_interfaces'', ''msg'', ''TypeSource''),
      Max_serialized_size (''type_description_interfaces'', ''msg'', ''TypeSource''),
      Handle (Message ''type_description_interfaces'' ''msg'' ''TypeSource'')]"

definition type_description_interfaces__msg__TypeSource__introspection :: "exported list" where [support_defs]:
  "type_description_interfaces__msg__TypeSource__introspection =
     [Message ''type_description_interfaces'' ''msg'' ''TypeSource'']"

definition type_description_interfaces__srv__GetTypeDescription__type_support :: "exported list" where [support_defs]:
  "type_description_interfaces__srv__GetTypeDescription__type_support =
     [Message ''type_description_interfaces'' ''srv'' ''GetTypeDescription_Request'',
      Message ''type_description_interfaces'' ''srv'' ''GetTypeDescription_Response'',
      Message ''type_description_interfaces'' ''srv'' ''GetTypeDescription_Event'',
      Service ''type_description_interfaces'' ''srv'' ''GetTypeDescription'',
      Create_event ''type_description_interfaces'' ''srv'' ''GetTypeDescription'',
      Destroy_event ''type_description_interfaces'' ''srv'' ''GetTypeDescription'']"

definition type_description_interfaces__srv__GetTypeDescription__microxrcedds :: "xrce_export list" where [support_defs]:
  "type_description_interfaces__srv__GetTypeDescription__microxrcedds =
     [Serialized_size (''type_description_interfaces'', ''srv'', ''GetTypeDescription_Request''),
      Max_serialized_size (''type_description_interfaces'', ''srv'', ''GetTypeDescription_Request''),
      Handle (Message ''type_description_interfaces'' ''srv'' ''GetTypeDescription_Request''),
      Serialized_size (''type_description_interfaces'', ''srv'', ''GetTypeDescription_Response''),
      Max_serialized_size (''type_description_interfaces'', ''srv'', ''GetTypeDescription_Response''),
      Handle (Message ''type_description_interfaces'' ''srv'' ''GetTypeDescription_Response''),
      Serialized_size (''type_description_interfaces'', ''srv'', ''GetTypeDescription_Event''),
      Max_serialized_size (''type_description_interfaces'', ''srv'', ''GetTypeDescription_Event''),
      Handle (Message ''type_description_interfaces'' ''srv'' ''GetTypeDescription_Event''),
      Handle (Service ''type_description_interfaces'' ''srv'' ''GetTypeDescription'')]"

definition type_description_interfaces__srv__GetTypeDescription__introspection :: "exported list" where [support_defs]:
  "type_description_interfaces__srv__GetTypeDescription__introspection =
     [Message ''type_description_interfaces'' ''srv'' ''GetTypeDescription_Request'',
      Message ''type_description_interfaces'' ''srv'' ''GetTypeDescription_Response'',
      Message ''type_description_interfaces'' ''srv'' ''GetTypeDescription_Event'',
      Service ''type_description_interfaces'' ''srv'' ''GetTypeDescription'']"

subsection \<open>Package diagnostic msgs\<close>

definition diagnostic_msgs__msg__DiagnosticArray__type_support :: "exported list" where [support_defs]:
  "diagnostic_msgs__msg__DiagnosticArray__type_support =
     [Message ''diagnostic_msgs'' ''msg'' ''DiagnosticArray'']"

definition diagnostic_msgs__msg__DiagnosticArray__microxrcedds :: "xrce_export list" where [support_defs]:
  "diagnostic_msgs__msg__DiagnosticArray__microxrcedds =
     [Serialized_size (''diagnostic_msgs'', ''msg'', ''DiagnosticArray''),
      Max_serialized_size (''diagnostic_msgs'', ''msg'', ''DiagnosticArray''),
      Handle (Message ''diagnostic_msgs'' ''msg'' ''DiagnosticArray'')]"

definition diagnostic_msgs__msg__DiagnosticArray__introspection :: "exported list" where [support_defs]:
  "diagnostic_msgs__msg__DiagnosticArray__introspection =
     [Message ''diagnostic_msgs'' ''msg'' ''DiagnosticArray'']"

definition diagnostic_msgs__msg__DiagnosticStatus__type_support :: "exported list" where [support_defs]:
  "diagnostic_msgs__msg__DiagnosticStatus__type_support =
     [Message ''diagnostic_msgs'' ''msg'' ''DiagnosticStatus'']"

definition diagnostic_msgs__msg__DiagnosticStatus__microxrcedds :: "xrce_export list" where [support_defs]:
  "diagnostic_msgs__msg__DiagnosticStatus__microxrcedds =
     [Serialized_size (''diagnostic_msgs'', ''msg'', ''DiagnosticStatus''),
      Max_serialized_size (''diagnostic_msgs'', ''msg'', ''DiagnosticStatus''),
      Handle (Message ''diagnostic_msgs'' ''msg'' ''DiagnosticStatus'')]"

definition diagnostic_msgs__msg__DiagnosticStatus__introspection :: "exported list" where [support_defs]:
  "diagnostic_msgs__msg__DiagnosticStatus__introspection =
     [Message ''diagnostic_msgs'' ''msg'' ''DiagnosticStatus'']"

definition diagnostic_msgs__msg__KeyValue__type_support :: "exported list" where [support_defs]:
  "diagnostic_msgs__msg__KeyValue__type_support =
     [Message ''diagnostic_msgs'' ''msg'' ''KeyValue'']"

definition diagnostic_msgs__msg__KeyValue__microxrcedds :: "xrce_export list" where [support_defs]:
  "diagnostic_msgs__msg__KeyValue__microxrcedds =
     [Serialized_size (''diagnostic_msgs'', ''msg'', ''KeyValue''),
      Max_serialized_size (''diagnostic_msgs'', ''msg'', ''KeyValue''),
      Handle (Message ''diagnostic_msgs'' ''msg'' ''KeyValue'')]"

definition diagnostic_msgs__msg__KeyValue__introspection :: "exported list" where [support_defs]:
  "diagnostic_msgs__msg__KeyValue__introspection =
     [Message ''diagnostic_msgs'' ''msg'' ''KeyValue'']"

definition diagnostic_msgs__srv__AddDiagnostics__type_support :: "exported list" where [support_defs]:
  "diagnostic_msgs__srv__AddDiagnostics__type_support =
     [Message ''diagnostic_msgs'' ''srv'' ''AddDiagnostics_Request'',
      Message ''diagnostic_msgs'' ''srv'' ''AddDiagnostics_Response'',
      Message ''diagnostic_msgs'' ''srv'' ''AddDiagnostics_Event'',
      Service ''diagnostic_msgs'' ''srv'' ''AddDiagnostics'',
      Create_event ''diagnostic_msgs'' ''srv'' ''AddDiagnostics'',
      Destroy_event ''diagnostic_msgs'' ''srv'' ''AddDiagnostics'']"

definition diagnostic_msgs__srv__AddDiagnostics__microxrcedds :: "xrce_export list" where [support_defs]:
  "diagnostic_msgs__srv__AddDiagnostics__microxrcedds =
     [Serialized_size (''diagnostic_msgs'', ''srv'', ''AddDiagnostics_Request''),
      Max_serialized_size (''diagnostic_msgs'', ''srv'', ''AddDiagnostics_Request''),
      Handle (Message ''diagnostic_msgs'' ''srv'' ''AddDiagnostics_Request''),
      Serialized_size (''diagnostic_msgs'', ''srv'', ''AddDiagnostics_Response''),
      Max_serialized_size (''diagnostic_msgs'', ''srv'', ''AddDiagnostics_Response''),
      Handle (Message ''diagnostic_msgs'' ''srv'' ''AddDiagnostics_Response''),
      Serialized_size (''diagnostic_msgs'', ''srv'', ''AddDiagnostics_Event''),
      Max_serialized_size (''diagnostic_msgs'', ''srv'', ''AddDiagnostics_Event''),
      Handle (Message ''diagnostic_msgs'' ''srv'' ''AddDiagnostics_Event''),
      Handle (Service ''diagnostic_msgs'' ''srv'' ''AddDiagnostics'')]"

definition diagnostic_msgs__srv__AddDiagnostics__introspection :: "exported list" where [support_defs]:
  "diagnostic_msgs__srv__AddDiagnostics__introspection =
     [Message ''diagnostic_msgs'' ''srv'' ''AddDiagnostics_Request'',
      Message ''diagnostic_msgs'' ''srv'' ''AddDiagnostics_Response'',
      Message ''diagnostic_msgs'' ''srv'' ''AddDiagnostics_Event'',
      Service ''diagnostic_msgs'' ''srv'' ''AddDiagnostics'']"

definition diagnostic_msgs__srv__SelfTest__type_support :: "exported list" where [support_defs]:
  "diagnostic_msgs__srv__SelfTest__type_support =
     [Message ''diagnostic_msgs'' ''srv'' ''SelfTest_Request'',
      Message ''diagnostic_msgs'' ''srv'' ''SelfTest_Response'',
      Message ''diagnostic_msgs'' ''srv'' ''SelfTest_Event'', Service ''diagnostic_msgs'' ''srv'' ''SelfTest'',
      Create_event ''diagnostic_msgs'' ''srv'' ''SelfTest'',
      Destroy_event ''diagnostic_msgs'' ''srv'' ''SelfTest'']"

definition diagnostic_msgs__srv__SelfTest__microxrcedds :: "xrce_export list" where [support_defs]:
  "diagnostic_msgs__srv__SelfTest__microxrcedds =
     [Serialized_size (''diagnostic_msgs'', ''srv'', ''SelfTest_Request''),
      Max_serialized_size (''diagnostic_msgs'', ''srv'', ''SelfTest_Request''),
      Handle (Message ''diagnostic_msgs'' ''srv'' ''SelfTest_Request''),
      Serialized_size (''diagnostic_msgs'', ''srv'', ''SelfTest_Response''),
      Max_serialized_size (''diagnostic_msgs'', ''srv'', ''SelfTest_Response''),
      Handle (Message ''diagnostic_msgs'' ''srv'' ''SelfTest_Response''),
      Serialized_size (''diagnostic_msgs'', ''srv'', ''SelfTest_Event''),
      Max_serialized_size (''diagnostic_msgs'', ''srv'', ''SelfTest_Event''),
      Handle (Message ''diagnostic_msgs'' ''srv'' ''SelfTest_Event''),
      Handle (Service ''diagnostic_msgs'' ''srv'' ''SelfTest'')]"

definition diagnostic_msgs__srv__SelfTest__introspection :: "exported list" where [support_defs]:
  "diagnostic_msgs__srv__SelfTest__introspection =
     [Message ''diagnostic_msgs'' ''srv'' ''SelfTest_Request'',
      Message ''diagnostic_msgs'' ''srv'' ''SelfTest_Response'',
      Message ''diagnostic_msgs'' ''srv'' ''SelfTest_Event'', Service ''diagnostic_msgs'' ''srv'' ''SelfTest'']"

subsection \<open>Package example interfaces\<close>

definition example_interfaces__action__Fibonacci__type_support :: "exported list" where [support_defs]:
  "example_interfaces__action__Fibonacci__type_support =
     [Action ''example_interfaces'' ''Fibonacci'', Message ''example_interfaces'' ''action'' ''Fibonacci_Goal'',
      Message ''example_interfaces'' ''action'' ''Fibonacci_Result'',
      Message ''example_interfaces'' ''action'' ''Fibonacci_Feedback'',
      Message ''example_interfaces'' ''action'' ''Fibonacci_SendGoal_Request'',
      Message ''example_interfaces'' ''action'' ''Fibonacci_SendGoal_Response'',
      Message ''example_interfaces'' ''action'' ''Fibonacci_SendGoal_Event'',
      Service ''example_interfaces'' ''action'' ''Fibonacci_SendGoal'',
      Create_event ''example_interfaces'' ''action'' ''Fibonacci_SendGoal'',
      Destroy_event ''example_interfaces'' ''action'' ''Fibonacci_SendGoal'',
      Message ''example_interfaces'' ''action'' ''Fibonacci_GetResult_Request'',
      Message ''example_interfaces'' ''action'' ''Fibonacci_GetResult_Response'',
      Message ''example_interfaces'' ''action'' ''Fibonacci_GetResult_Event'',
      Service ''example_interfaces'' ''action'' ''Fibonacci_GetResult'',
      Create_event ''example_interfaces'' ''action'' ''Fibonacci_GetResult'',
      Destroy_event ''example_interfaces'' ''action'' ''Fibonacci_GetResult'',
      Message ''example_interfaces'' ''action'' ''Fibonacci_FeedbackMessage'']"

definition example_interfaces__action__Fibonacci__microxrcedds :: "xrce_export list" where [support_defs]:
  "example_interfaces__action__Fibonacci__microxrcedds =
     [Serialized_size (''example_interfaces'', ''action'', ''Fibonacci_Goal''),
      Max_serialized_size (''example_interfaces'', ''action'', ''Fibonacci_Goal''),
      Handle (Message ''example_interfaces'' ''action'' ''Fibonacci_Goal''),
      Serialized_size (''example_interfaces'', ''action'', ''Fibonacci_Result''),
      Max_serialized_size (''example_interfaces'', ''action'', ''Fibonacci_Result''),
      Handle (Message ''example_interfaces'' ''action'' ''Fibonacci_Result''),
      Serialized_size (''example_interfaces'', ''action'', ''Fibonacci_Feedback''),
      Max_serialized_size (''example_interfaces'', ''action'', ''Fibonacci_Feedback''),
      Handle (Message ''example_interfaces'' ''action'' ''Fibonacci_Feedback''),
      Serialized_size (''example_interfaces'', ''action'', ''Fibonacci_SendGoal_Request''),
      Max_serialized_size (''example_interfaces'', ''action'', ''Fibonacci_SendGoal_Request''),
      Handle (Message ''example_interfaces'' ''action'' ''Fibonacci_SendGoal_Request''),
      Serialized_size (''example_interfaces'', ''action'', ''Fibonacci_SendGoal_Response''),
      Max_serialized_size (''example_interfaces'', ''action'', ''Fibonacci_SendGoal_Response''),
      Handle (Message ''example_interfaces'' ''action'' ''Fibonacci_SendGoal_Response''),
      Serialized_size (''example_interfaces'', ''action'', ''Fibonacci_SendGoal_Event''),
      Max_serialized_size (''example_interfaces'', ''action'', ''Fibonacci_SendGoal_Event''),
      Handle (Message ''example_interfaces'' ''action'' ''Fibonacci_SendGoal_Event''),
      Handle (Service ''example_interfaces'' ''action'' ''Fibonacci_SendGoal''),
      Serialized_size (''example_interfaces'', ''action'', ''Fibonacci_GetResult_Request''),
      Max_serialized_size (''example_interfaces'', ''action'', ''Fibonacci_GetResult_Request''),
      Handle (Message ''example_interfaces'' ''action'' ''Fibonacci_GetResult_Request''),
      Serialized_size (''example_interfaces'', ''action'', ''Fibonacci_GetResult_Response''),
      Max_serialized_size (''example_interfaces'', ''action'', ''Fibonacci_GetResult_Response''),
      Handle (Message ''example_interfaces'' ''action'' ''Fibonacci_GetResult_Response''),
      Serialized_size (''example_interfaces'', ''action'', ''Fibonacci_GetResult_Event''),
      Max_serialized_size (''example_interfaces'', ''action'', ''Fibonacci_GetResult_Event''),
      Handle (Message ''example_interfaces'' ''action'' ''Fibonacci_GetResult_Event''),
      Handle (Service ''example_interfaces'' ''action'' ''Fibonacci_GetResult''),
      Serialized_size (''example_interfaces'', ''action'', ''Fibonacci_FeedbackMessage''),
      Max_serialized_size (''example_interfaces'', ''action'', ''Fibonacci_FeedbackMessage''),
      Handle (Message ''example_interfaces'' ''action'' ''Fibonacci_FeedbackMessage'')]"

definition example_interfaces__action__Fibonacci__introspection :: "exported list" where [support_defs]:
  "example_interfaces__action__Fibonacci__introspection =
     [Message ''example_interfaces'' ''action'' ''Fibonacci_Goal'',
      Message ''example_interfaces'' ''action'' ''Fibonacci_Result'',
      Message ''example_interfaces'' ''action'' ''Fibonacci_Feedback'',
      Message ''example_interfaces'' ''action'' ''Fibonacci_SendGoal_Request'',
      Message ''example_interfaces'' ''action'' ''Fibonacci_SendGoal_Response'',
      Message ''example_interfaces'' ''action'' ''Fibonacci_SendGoal_Event'',
      Service ''example_interfaces'' ''action'' ''Fibonacci_SendGoal'',
      Message ''example_interfaces'' ''action'' ''Fibonacci_GetResult_Request'',
      Message ''example_interfaces'' ''action'' ''Fibonacci_GetResult_Response'',
      Message ''example_interfaces'' ''action'' ''Fibonacci_GetResult_Event'',
      Service ''example_interfaces'' ''action'' ''Fibonacci_GetResult'',
      Message ''example_interfaces'' ''action'' ''Fibonacci_FeedbackMessage'']"

definition example_interfaces__msg__Bool__type_support :: "exported list" where [support_defs]:
  "example_interfaces__msg__Bool__type_support =
     [Message ''example_interfaces'' ''msg'' ''Bool'']"

definition example_interfaces__msg__Bool__microxrcedds :: "xrce_export list" where [support_defs]:
  "example_interfaces__msg__Bool__microxrcedds =
     [Serialized_size (''example_interfaces'', ''msg'', ''Bool''),
      Max_serialized_size (''example_interfaces'', ''msg'', ''Bool''),
      Handle (Message ''example_interfaces'' ''msg'' ''Bool'')]"

definition example_interfaces__msg__Bool__introspection :: "exported list" where [support_defs]:
  "example_interfaces__msg__Bool__introspection =
     [Message ''example_interfaces'' ''msg'' ''Bool'']"

definition example_interfaces__msg__Byte__type_support :: "exported list" where [support_defs]:
  "example_interfaces__msg__Byte__type_support =
     [Message ''example_interfaces'' ''msg'' ''Byte'']"

definition example_interfaces__msg__Byte__microxrcedds :: "xrce_export list" where [support_defs]:
  "example_interfaces__msg__Byte__microxrcedds =
     [Serialized_size (''example_interfaces'', ''msg'', ''Byte''),
      Max_serialized_size (''example_interfaces'', ''msg'', ''Byte''),
      Handle (Message ''example_interfaces'' ''msg'' ''Byte'')]"

definition example_interfaces__msg__Byte__introspection :: "exported list" where [support_defs]:
  "example_interfaces__msg__Byte__introspection =
     [Message ''example_interfaces'' ''msg'' ''Byte'']"

definition example_interfaces__msg__ByteMultiArray__type_support :: "exported list" where [support_defs]:
  "example_interfaces__msg__ByteMultiArray__type_support =
     [Message ''example_interfaces'' ''msg'' ''ByteMultiArray'']"

definition example_interfaces__msg__ByteMultiArray__microxrcedds :: "xrce_export list" where [support_defs]:
  "example_interfaces__msg__ByteMultiArray__microxrcedds =
     [Serialized_size (''example_interfaces'', ''msg'', ''ByteMultiArray''),
      Max_serialized_size (''example_interfaces'', ''msg'', ''ByteMultiArray''),
      Handle (Message ''example_interfaces'' ''msg'' ''ByteMultiArray'')]"

definition example_interfaces__msg__ByteMultiArray__introspection :: "exported list" where [support_defs]:
  "example_interfaces__msg__ByteMultiArray__introspection =
     [Message ''example_interfaces'' ''msg'' ''ByteMultiArray'']"

definition example_interfaces__msg__Char__type_support :: "exported list" where [support_defs]:
  "example_interfaces__msg__Char__type_support =
     [Message ''example_interfaces'' ''msg'' ''Char'']"

definition example_interfaces__msg__Char__microxrcedds :: "xrce_export list" where [support_defs]:
  "example_interfaces__msg__Char__microxrcedds =
     [Serialized_size (''example_interfaces'', ''msg'', ''Char''),
      Max_serialized_size (''example_interfaces'', ''msg'', ''Char''),
      Handle (Message ''example_interfaces'' ''msg'' ''Char'')]"

definition example_interfaces__msg__Char__introspection :: "exported list" where [support_defs]:
  "example_interfaces__msg__Char__introspection =
     [Message ''example_interfaces'' ''msg'' ''Char'']"

definition example_interfaces__msg__Empty__type_support :: "exported list" where [support_defs]:
  "example_interfaces__msg__Empty__type_support =
     [Message ''example_interfaces'' ''msg'' ''Empty'']"

definition example_interfaces__msg__Empty__microxrcedds :: "xrce_export list" where [support_defs]:
  "example_interfaces__msg__Empty__microxrcedds =
     [Serialized_size (''example_interfaces'', ''msg'', ''Empty''),
      Max_serialized_size (''example_interfaces'', ''msg'', ''Empty''),
      Handle (Message ''example_interfaces'' ''msg'' ''Empty'')]"

definition example_interfaces__msg__Empty__introspection :: "exported list" where [support_defs]:
  "example_interfaces__msg__Empty__introspection =
     [Message ''example_interfaces'' ''msg'' ''Empty'']"

definition example_interfaces__msg__Float32__type_support :: "exported list" where [support_defs]:
  "example_interfaces__msg__Float32__type_support =
     [Message ''example_interfaces'' ''msg'' ''Float32'']"

definition example_interfaces__msg__Float32__microxrcedds :: "xrce_export list" where [support_defs]:
  "example_interfaces__msg__Float32__microxrcedds =
     [Serialized_size (''example_interfaces'', ''msg'', ''Float32''),
      Max_serialized_size (''example_interfaces'', ''msg'', ''Float32''),
      Handle (Message ''example_interfaces'' ''msg'' ''Float32'')]"

definition example_interfaces__msg__Float32__introspection :: "exported list" where [support_defs]:
  "example_interfaces__msg__Float32__introspection =
     [Message ''example_interfaces'' ''msg'' ''Float32'']"

definition example_interfaces__msg__Float32MultiArray__type_support :: "exported list" where [support_defs]:
  "example_interfaces__msg__Float32MultiArray__type_support =
     [Message ''example_interfaces'' ''msg'' ''Float32MultiArray'']"

definition example_interfaces__msg__Float32MultiArray__microxrcedds :: "xrce_export list" where [support_defs]:
  "example_interfaces__msg__Float32MultiArray__microxrcedds =
     [Serialized_size (''example_interfaces'', ''msg'', ''Float32MultiArray''),
      Max_serialized_size (''example_interfaces'', ''msg'', ''Float32MultiArray''),
      Handle (Message ''example_interfaces'' ''msg'' ''Float32MultiArray'')]"

definition example_interfaces__msg__Float32MultiArray__introspection :: "exported list" where [support_defs]:
  "example_interfaces__msg__Float32MultiArray__introspection =
     [Message ''example_interfaces'' ''msg'' ''Float32MultiArray'']"

definition example_interfaces__msg__Float64__type_support :: "exported list" where [support_defs]:
  "example_interfaces__msg__Float64__type_support =
     [Message ''example_interfaces'' ''msg'' ''Float64'']"

definition example_interfaces__msg__Float64__microxrcedds :: "xrce_export list" where [support_defs]:
  "example_interfaces__msg__Float64__microxrcedds =
     [Serialized_size (''example_interfaces'', ''msg'', ''Float64''),
      Max_serialized_size (''example_interfaces'', ''msg'', ''Float64''),
      Handle (Message ''example_interfaces'' ''msg'' ''Float64'')]"

definition example_interfaces__msg__Float64__introspection :: "exported list" where [support_defs]:
  "example_interfaces__msg__Float64__introspection =
     [Message ''example_interfaces'' ''msg'' ''Float64'']"

definition example_interfaces__msg__Float64MultiArray__type_support :: "exported list" where [support_defs]:
  "example_interfaces__msg__Float64MultiArray__type_support =
     [Message ''example_interfaces'' ''msg'' ''Float64MultiArray'']"

definition example_interfaces__msg__Float64MultiArray__microxrcedds :: "xrce_export list" where [support_defs]:
  "example_interfaces__msg__Float64MultiArray__microxrcedds =
     [Serialized_size (''example_interfaces'', ''msg'', ''Float64MultiArray''),
      Max_serialized_size (''example_interfaces'', ''msg'', ''Float64MultiArray''),
      Handle (Message ''example_interfaces'' ''msg'' ''Float64MultiArray'')]"

definition example_interfaces__msg__Float64MultiArray__introspection :: "exported list" where [support_defs]:
  "example_interfaces__msg__Float64MultiArray__introspection =
     [Message ''example_interfaces'' ''msg'' ''Float64MultiArray'']"

definition example_interfaces__msg__Int16__type_support :: "exported list" where [support_defs]:
  "example_interfaces__msg__Int16__type_support =
     [Message ''example_interfaces'' ''msg'' ''Int16'']"

definition example_interfaces__msg__Int16__microxrcedds :: "xrce_export list" where [support_defs]:
  "example_interfaces__msg__Int16__microxrcedds =
     [Serialized_size (''example_interfaces'', ''msg'', ''Int16''),
      Max_serialized_size (''example_interfaces'', ''msg'', ''Int16''),
      Handle (Message ''example_interfaces'' ''msg'' ''Int16'')]"

definition example_interfaces__msg__Int16__introspection :: "exported list" where [support_defs]:
  "example_interfaces__msg__Int16__introspection =
     [Message ''example_interfaces'' ''msg'' ''Int16'']"

definition example_interfaces__msg__Int16MultiArray__type_support :: "exported list" where [support_defs]:
  "example_interfaces__msg__Int16MultiArray__type_support =
     [Message ''example_interfaces'' ''msg'' ''Int16MultiArray'']"

definition example_interfaces__msg__Int16MultiArray__microxrcedds :: "xrce_export list" where [support_defs]:
  "example_interfaces__msg__Int16MultiArray__microxrcedds =
     [Serialized_size (''example_interfaces'', ''msg'', ''Int16MultiArray''),
      Max_serialized_size (''example_interfaces'', ''msg'', ''Int16MultiArray''),
      Handle (Message ''example_interfaces'' ''msg'' ''Int16MultiArray'')]"

definition example_interfaces__msg__Int16MultiArray__introspection :: "exported list" where [support_defs]:
  "example_interfaces__msg__Int16MultiArray__introspection =
     [Message ''example_interfaces'' ''msg'' ''Int16MultiArray'']"

definition example_interfaces__msg__Int32__type_support :: "exported list" where [support_defs]:
  "example_interfaces__msg__Int32__type_support =
     [Message ''example_interfaces'' ''msg'' ''Int32'']"

definition example_interfaces__msg__Int32__microxrcedds :: "xrce_export list" where [support_defs]:
  "example_interfaces__msg__Int32__microxrcedds =
     [Serialized_size (''example_interfaces'', ''msg'', ''Int32''),
      Max_serialized_size (''example_interfaces'', ''msg'', ''Int32''),
      Handle (Message ''example_interfaces'' ''msg'' ''Int32'')]"

definition example_interfaces__msg__Int32__introspection :: "exported list" where [support_defs]:
  "example_interfaces__msg__Int32__introspection =
     [Message ''example_interfaces'' ''msg'' ''Int32'']"

definition example_interfaces__msg__Int32MultiArray__type_support :: "exported list" where [support_defs]:
  "example_interfaces__msg__Int32MultiArray__type_support =
     [Message ''example_interfaces'' ''msg'' ''Int32MultiArray'']"

definition example_interfaces__msg__Int32MultiArray__microxrcedds :: "xrce_export list" where [support_defs]:
  "example_interfaces__msg__Int32MultiArray__microxrcedds =
     [Serialized_size (''example_interfaces'', ''msg'', ''Int32MultiArray''),
      Max_serialized_size (''example_interfaces'', ''msg'', ''Int32MultiArray''),
      Handle (Message ''example_interfaces'' ''msg'' ''Int32MultiArray'')]"

definition example_interfaces__msg__Int32MultiArray__introspection :: "exported list" where [support_defs]:
  "example_interfaces__msg__Int32MultiArray__introspection =
     [Message ''example_interfaces'' ''msg'' ''Int32MultiArray'']"

definition example_interfaces__msg__Int64__type_support :: "exported list" where [support_defs]:
  "example_interfaces__msg__Int64__type_support =
     [Message ''example_interfaces'' ''msg'' ''Int64'']"

definition example_interfaces__msg__Int64__microxrcedds :: "xrce_export list" where [support_defs]:
  "example_interfaces__msg__Int64__microxrcedds =
     [Serialized_size (''example_interfaces'', ''msg'', ''Int64''),
      Max_serialized_size (''example_interfaces'', ''msg'', ''Int64''),
      Handle (Message ''example_interfaces'' ''msg'' ''Int64'')]"

definition example_interfaces__msg__Int64__introspection :: "exported list" where [support_defs]:
  "example_interfaces__msg__Int64__introspection =
     [Message ''example_interfaces'' ''msg'' ''Int64'']"

definition example_interfaces__msg__Int64MultiArray__type_support :: "exported list" where [support_defs]:
  "example_interfaces__msg__Int64MultiArray__type_support =
     [Message ''example_interfaces'' ''msg'' ''Int64MultiArray'']"

definition example_interfaces__msg__Int64MultiArray__microxrcedds :: "xrce_export list" where [support_defs]:
  "example_interfaces__msg__Int64MultiArray__microxrcedds =
     [Serialized_size (''example_interfaces'', ''msg'', ''Int64MultiArray''),
      Max_serialized_size (''example_interfaces'', ''msg'', ''Int64MultiArray''),
      Handle (Message ''example_interfaces'' ''msg'' ''Int64MultiArray'')]"

definition example_interfaces__msg__Int64MultiArray__introspection :: "exported list" where [support_defs]:
  "example_interfaces__msg__Int64MultiArray__introspection =
     [Message ''example_interfaces'' ''msg'' ''Int64MultiArray'']"

definition example_interfaces__msg__Int8__type_support :: "exported list" where [support_defs]:
  "example_interfaces__msg__Int8__type_support =
     [Message ''example_interfaces'' ''msg'' ''Int8'']"

definition example_interfaces__msg__Int8__microxrcedds :: "xrce_export list" where [support_defs]:
  "example_interfaces__msg__Int8__microxrcedds =
     [Serialized_size (''example_interfaces'', ''msg'', ''Int8''),
      Max_serialized_size (''example_interfaces'', ''msg'', ''Int8''),
      Handle (Message ''example_interfaces'' ''msg'' ''Int8'')]"

definition example_interfaces__msg__Int8__introspection :: "exported list" where [support_defs]:
  "example_interfaces__msg__Int8__introspection =
     [Message ''example_interfaces'' ''msg'' ''Int8'']"

definition example_interfaces__msg__Int8MultiArray__type_support :: "exported list" where [support_defs]:
  "example_interfaces__msg__Int8MultiArray__type_support =
     [Message ''example_interfaces'' ''msg'' ''Int8MultiArray'']"

definition example_interfaces__msg__Int8MultiArray__microxrcedds :: "xrce_export list" where [support_defs]:
  "example_interfaces__msg__Int8MultiArray__microxrcedds =
     [Serialized_size (''example_interfaces'', ''msg'', ''Int8MultiArray''),
      Max_serialized_size (''example_interfaces'', ''msg'', ''Int8MultiArray''),
      Handle (Message ''example_interfaces'' ''msg'' ''Int8MultiArray'')]"

definition example_interfaces__msg__Int8MultiArray__introspection :: "exported list" where [support_defs]:
  "example_interfaces__msg__Int8MultiArray__introspection =
     [Message ''example_interfaces'' ''msg'' ''Int8MultiArray'']"

definition example_interfaces__msg__MultiArrayDimension__type_support :: "exported list" where [support_defs]:
  "example_interfaces__msg__MultiArrayDimension__type_support =
     [Message ''example_interfaces'' ''msg'' ''MultiArrayDimension'']"

definition example_interfaces__msg__MultiArrayDimension__microxrcedds :: "xrce_export list" where [support_defs]:
  "example_interfaces__msg__MultiArrayDimension__microxrcedds =
     [Serialized_size (''example_interfaces'', ''msg'', ''MultiArrayDimension''),
      Max_serialized_size (''example_interfaces'', ''msg'', ''MultiArrayDimension''),
      Handle (Message ''example_interfaces'' ''msg'' ''MultiArrayDimension'')]"

definition example_interfaces__msg__MultiArrayDimension__introspection :: "exported list" where [support_defs]:
  "example_interfaces__msg__MultiArrayDimension__introspection =
     [Message ''example_interfaces'' ''msg'' ''MultiArrayDimension'']"

definition example_interfaces__msg__MultiArrayLayout__type_support :: "exported list" where [support_defs]:
  "example_interfaces__msg__MultiArrayLayout__type_support =
     [Message ''example_interfaces'' ''msg'' ''MultiArrayLayout'']"

definition example_interfaces__msg__MultiArrayLayout__microxrcedds :: "xrce_export list" where [support_defs]:
  "example_interfaces__msg__MultiArrayLayout__microxrcedds =
     [Serialized_size (''example_interfaces'', ''msg'', ''MultiArrayLayout''),
      Max_serialized_size (''example_interfaces'', ''msg'', ''MultiArrayLayout''),
      Handle (Message ''example_interfaces'' ''msg'' ''MultiArrayLayout'')]"

definition example_interfaces__msg__MultiArrayLayout__introspection :: "exported list" where [support_defs]:
  "example_interfaces__msg__MultiArrayLayout__introspection =
     [Message ''example_interfaces'' ''msg'' ''MultiArrayLayout'']"

definition example_interfaces__msg__String__type_support :: "exported list" where [support_defs]:
  "example_interfaces__msg__String__type_support =
     [Message ''example_interfaces'' ''msg'' ''String'']"

definition example_interfaces__msg__String__microxrcedds :: "xrce_export list" where [support_defs]:
  "example_interfaces__msg__String__microxrcedds =
     [Serialized_size (''example_interfaces'', ''msg'', ''String''),
      Max_serialized_size (''example_interfaces'', ''msg'', ''String''),
      Handle (Message ''example_interfaces'' ''msg'' ''String'')]"

definition example_interfaces__msg__String__introspection :: "exported list" where [support_defs]:
  "example_interfaces__msg__String__introspection =
     [Message ''example_interfaces'' ''msg'' ''String'']"

definition example_interfaces__msg__UInt16__type_support :: "exported list" where [support_defs]:
  "example_interfaces__msg__UInt16__type_support =
     [Message ''example_interfaces'' ''msg'' ''UInt16'']"

definition example_interfaces__msg__UInt16__microxrcedds :: "xrce_export list" where [support_defs]:
  "example_interfaces__msg__UInt16__microxrcedds =
     [Serialized_size (''example_interfaces'', ''msg'', ''UInt16''),
      Max_serialized_size (''example_interfaces'', ''msg'', ''UInt16''),
      Handle (Message ''example_interfaces'' ''msg'' ''UInt16'')]"

definition example_interfaces__msg__UInt16__introspection :: "exported list" where [support_defs]:
  "example_interfaces__msg__UInt16__introspection =
     [Message ''example_interfaces'' ''msg'' ''UInt16'']"

definition example_interfaces__msg__UInt16MultiArray__type_support :: "exported list" where [support_defs]:
  "example_interfaces__msg__UInt16MultiArray__type_support =
     [Message ''example_interfaces'' ''msg'' ''UInt16MultiArray'']"

definition example_interfaces__msg__UInt16MultiArray__microxrcedds :: "xrce_export list" where [support_defs]:
  "example_interfaces__msg__UInt16MultiArray__microxrcedds =
     [Serialized_size (''example_interfaces'', ''msg'', ''UInt16MultiArray''),
      Max_serialized_size (''example_interfaces'', ''msg'', ''UInt16MultiArray''),
      Handle (Message ''example_interfaces'' ''msg'' ''UInt16MultiArray'')]"

definition example_interfaces__msg__UInt16MultiArray__introspection :: "exported list" where [support_defs]:
  "example_interfaces__msg__UInt16MultiArray__introspection =
     [Message ''example_interfaces'' ''msg'' ''UInt16MultiArray'']"

definition example_interfaces__msg__UInt32__type_support :: "exported list" where [support_defs]:
  "example_interfaces__msg__UInt32__type_support =
     [Message ''example_interfaces'' ''msg'' ''UInt32'']"

definition example_interfaces__msg__UInt32__microxrcedds :: "xrce_export list" where [support_defs]:
  "example_interfaces__msg__UInt32__microxrcedds =
     [Serialized_size (''example_interfaces'', ''msg'', ''UInt32''),
      Max_serialized_size (''example_interfaces'', ''msg'', ''UInt32''),
      Handle (Message ''example_interfaces'' ''msg'' ''UInt32'')]"

definition example_interfaces__msg__UInt32__introspection :: "exported list" where [support_defs]:
  "example_interfaces__msg__UInt32__introspection =
     [Message ''example_interfaces'' ''msg'' ''UInt32'']"

definition example_interfaces__msg__UInt32MultiArray__type_support :: "exported list" where [support_defs]:
  "example_interfaces__msg__UInt32MultiArray__type_support =
     [Message ''example_interfaces'' ''msg'' ''UInt32MultiArray'']"

definition example_interfaces__msg__UInt32MultiArray__microxrcedds :: "xrce_export list" where [support_defs]:
  "example_interfaces__msg__UInt32MultiArray__microxrcedds =
     [Serialized_size (''example_interfaces'', ''msg'', ''UInt32MultiArray''),
      Max_serialized_size (''example_interfaces'', ''msg'', ''UInt32MultiArray''),
      Handle (Message ''example_interfaces'' ''msg'' ''UInt32MultiArray'')]"

definition example_interfaces__msg__UInt32MultiArray__introspection :: "exported list" where [support_defs]:
  "example_interfaces__msg__UInt32MultiArray__introspection =
     [Message ''example_interfaces'' ''msg'' ''UInt32MultiArray'']"

definition example_interfaces__msg__UInt64__type_support :: "exported list" where [support_defs]:
  "example_interfaces__msg__UInt64__type_support =
     [Message ''example_interfaces'' ''msg'' ''UInt64'']"

definition example_interfaces__msg__UInt64__microxrcedds :: "xrce_export list" where [support_defs]:
  "example_interfaces__msg__UInt64__microxrcedds =
     [Serialized_size (''example_interfaces'', ''msg'', ''UInt64''),
      Max_serialized_size (''example_interfaces'', ''msg'', ''UInt64''),
      Handle (Message ''example_interfaces'' ''msg'' ''UInt64'')]"

definition example_interfaces__msg__UInt64__introspection :: "exported list" where [support_defs]:
  "example_interfaces__msg__UInt64__introspection =
     [Message ''example_interfaces'' ''msg'' ''UInt64'']"

definition example_interfaces__msg__UInt64MultiArray__type_support :: "exported list" where [support_defs]:
  "example_interfaces__msg__UInt64MultiArray__type_support =
     [Message ''example_interfaces'' ''msg'' ''UInt64MultiArray'']"

definition example_interfaces__msg__UInt64MultiArray__microxrcedds :: "xrce_export list" where [support_defs]:
  "example_interfaces__msg__UInt64MultiArray__microxrcedds =
     [Serialized_size (''example_interfaces'', ''msg'', ''UInt64MultiArray''),
      Max_serialized_size (''example_interfaces'', ''msg'', ''UInt64MultiArray''),
      Handle (Message ''example_interfaces'' ''msg'' ''UInt64MultiArray'')]"

definition example_interfaces__msg__UInt64MultiArray__introspection :: "exported list" where [support_defs]:
  "example_interfaces__msg__UInt64MultiArray__introspection =
     [Message ''example_interfaces'' ''msg'' ''UInt64MultiArray'']"

definition example_interfaces__msg__UInt8__type_support :: "exported list" where [support_defs]:
  "example_interfaces__msg__UInt8__type_support =
     [Message ''example_interfaces'' ''msg'' ''UInt8'']"

definition example_interfaces__msg__UInt8__microxrcedds :: "xrce_export list" where [support_defs]:
  "example_interfaces__msg__UInt8__microxrcedds =
     [Serialized_size (''example_interfaces'', ''msg'', ''UInt8''),
      Max_serialized_size (''example_interfaces'', ''msg'', ''UInt8''),
      Handle (Message ''example_interfaces'' ''msg'' ''UInt8'')]"

definition example_interfaces__msg__UInt8__introspection :: "exported list" where [support_defs]:
  "example_interfaces__msg__UInt8__introspection =
     [Message ''example_interfaces'' ''msg'' ''UInt8'']"

definition example_interfaces__msg__UInt8MultiArray__type_support :: "exported list" where [support_defs]:
  "example_interfaces__msg__UInt8MultiArray__type_support =
     [Message ''example_interfaces'' ''msg'' ''UInt8MultiArray'']"

definition example_interfaces__msg__UInt8MultiArray__microxrcedds :: "xrce_export list" where [support_defs]:
  "example_interfaces__msg__UInt8MultiArray__microxrcedds =
     [Serialized_size (''example_interfaces'', ''msg'', ''UInt8MultiArray''),
      Max_serialized_size (''example_interfaces'', ''msg'', ''UInt8MultiArray''),
      Handle (Message ''example_interfaces'' ''msg'' ''UInt8MultiArray'')]"

definition example_interfaces__msg__UInt8MultiArray__introspection :: "exported list" where [support_defs]:
  "example_interfaces__msg__UInt8MultiArray__introspection =
     [Message ''example_interfaces'' ''msg'' ''UInt8MultiArray'']"

definition example_interfaces__msg__WString__type_support :: "exported list" where [support_defs]:
  "example_interfaces__msg__WString__type_support =
     [Message ''example_interfaces'' ''msg'' ''WString'']"

definition example_interfaces__msg__WString__microxrcedds :: "xrce_export list" where [support_defs]:
  "example_interfaces__msg__WString__microxrcedds =
     [Serialized_size (''example_interfaces'', ''msg'', ''WString''),
      Max_serialized_size (''example_interfaces'', ''msg'', ''WString''),
      Handle (Message ''example_interfaces'' ''msg'' ''WString'')]"

definition example_interfaces__msg__WString__introspection :: "exported list" where [support_defs]:
  "example_interfaces__msg__WString__introspection =
     [Message ''example_interfaces'' ''msg'' ''WString'']"

definition example_interfaces__srv__AddTwoInts__type_support :: "exported list" where [support_defs]:
  "example_interfaces__srv__AddTwoInts__type_support =
     [Message ''example_interfaces'' ''srv'' ''AddTwoInts_Request'',
      Message ''example_interfaces'' ''srv'' ''AddTwoInts_Response'',
      Message ''example_interfaces'' ''srv'' ''AddTwoInts_Event'',
      Service ''example_interfaces'' ''srv'' ''AddTwoInts'',
      Create_event ''example_interfaces'' ''srv'' ''AddTwoInts'',
      Destroy_event ''example_interfaces'' ''srv'' ''AddTwoInts'']"

definition example_interfaces__srv__AddTwoInts__microxrcedds :: "xrce_export list" where [support_defs]:
  "example_interfaces__srv__AddTwoInts__microxrcedds =
     [Serialized_size (''example_interfaces'', ''srv'', ''AddTwoInts_Request''),
      Max_serialized_size (''example_interfaces'', ''srv'', ''AddTwoInts_Request''),
      Handle (Message ''example_interfaces'' ''srv'' ''AddTwoInts_Request''),
      Serialized_size (''example_interfaces'', ''srv'', ''AddTwoInts_Response''),
      Max_serialized_size (''example_interfaces'', ''srv'', ''AddTwoInts_Response''),
      Handle (Message ''example_interfaces'' ''srv'' ''AddTwoInts_Response''),
      Serialized_size (''example_interfaces'', ''srv'', ''AddTwoInts_Event''),
      Max_serialized_size (''example_interfaces'', ''srv'', ''AddTwoInts_Event''),
      Handle (Message ''example_interfaces'' ''srv'' ''AddTwoInts_Event''),
      Handle (Service ''example_interfaces'' ''srv'' ''AddTwoInts'')]"

definition example_interfaces__srv__AddTwoInts__introspection :: "exported list" where [support_defs]:
  "example_interfaces__srv__AddTwoInts__introspection =
     [Message ''example_interfaces'' ''srv'' ''AddTwoInts_Request'',
      Message ''example_interfaces'' ''srv'' ''AddTwoInts_Response'',
      Message ''example_interfaces'' ''srv'' ''AddTwoInts_Event'',
      Service ''example_interfaces'' ''srv'' ''AddTwoInts'']"

definition example_interfaces__srv__SetBool__type_support :: "exported list" where [support_defs]:
  "example_interfaces__srv__SetBool__type_support =
     [Message ''example_interfaces'' ''srv'' ''SetBool_Request'',
      Message ''example_interfaces'' ''srv'' ''SetBool_Response'',
      Message ''example_interfaces'' ''srv'' ''SetBool_Event'', Service ''example_interfaces'' ''srv'' ''SetBool'',
      Create_event ''example_interfaces'' ''srv'' ''SetBool'',
      Destroy_event ''example_interfaces'' ''srv'' ''SetBool'']"

definition example_interfaces__srv__SetBool__microxrcedds :: "xrce_export list" where [support_defs]:
  "example_interfaces__srv__SetBool__microxrcedds =
     [Serialized_size (''example_interfaces'', ''srv'', ''SetBool_Request''),
      Max_serialized_size (''example_interfaces'', ''srv'', ''SetBool_Request''),
      Handle (Message ''example_interfaces'' ''srv'' ''SetBool_Request''),
      Serialized_size (''example_interfaces'', ''srv'', ''SetBool_Response''),
      Max_serialized_size (''example_interfaces'', ''srv'', ''SetBool_Response''),
      Handle (Message ''example_interfaces'' ''srv'' ''SetBool_Response''),
      Serialized_size (''example_interfaces'', ''srv'', ''SetBool_Event''),
      Max_serialized_size (''example_interfaces'', ''srv'', ''SetBool_Event''),
      Handle (Message ''example_interfaces'' ''srv'' ''SetBool_Event''),
      Handle (Service ''example_interfaces'' ''srv'' ''SetBool'')]"

definition example_interfaces__srv__SetBool__introspection :: "exported list" where [support_defs]:
  "example_interfaces__srv__SetBool__introspection =
     [Message ''example_interfaces'' ''srv'' ''SetBool_Request'',
      Message ''example_interfaces'' ''srv'' ''SetBool_Response'',
      Message ''example_interfaces'' ''srv'' ''SetBool_Event'', Service ''example_interfaces'' ''srv'' ''SetBool'']"

definition example_interfaces__srv__Trigger__type_support :: "exported list" where [support_defs]:
  "example_interfaces__srv__Trigger__type_support =
     [Message ''example_interfaces'' ''srv'' ''Trigger_Request'',
      Message ''example_interfaces'' ''srv'' ''Trigger_Response'',
      Message ''example_interfaces'' ''srv'' ''Trigger_Event'', Service ''example_interfaces'' ''srv'' ''Trigger'',
      Create_event ''example_interfaces'' ''srv'' ''Trigger'',
      Destroy_event ''example_interfaces'' ''srv'' ''Trigger'']"

definition example_interfaces__srv__Trigger__microxrcedds :: "xrce_export list" where [support_defs]:
  "example_interfaces__srv__Trigger__microxrcedds =
     [Serialized_size (''example_interfaces'', ''srv'', ''Trigger_Request''),
      Max_serialized_size (''example_interfaces'', ''srv'', ''Trigger_Request''),
      Handle (Message ''example_interfaces'' ''srv'' ''Trigger_Request''),
      Serialized_size (''example_interfaces'', ''srv'', ''Trigger_Response''),
      Max_serialized_size (''example_interfaces'', ''srv'', ''Trigger_Response''),
      Handle (Message ''example_interfaces'' ''srv'' ''Trigger_Response''),
      Serialized_size (''example_interfaces'', ''srv'', ''Trigger_Event''),
      Max_serialized_size (''example_interfaces'', ''srv'', ''Trigger_Event''),
      Handle (Message ''example_interfaces'' ''srv'' ''Trigger_Event''),
      Handle (Service ''example_interfaces'' ''srv'' ''Trigger'')]"

definition example_interfaces__srv__Trigger__introspection :: "exported list" where [support_defs]:
  "example_interfaces__srv__Trigger__introspection =
     [Message ''example_interfaces'' ''srv'' ''Trigger_Request'',
      Message ''example_interfaces'' ''srv'' ''Trigger_Response'',
      Message ''example_interfaces'' ''srv'' ''Trigger_Event'', Service ''example_interfaces'' ''srv'' ''Trigger'']"

end
