(* ===== verification/Support_Robot.thy ===== *)
theory Support_Robot
  imports Header_Symbols
begin

text \<open>
  The type support declared for each interface of the packages for robots: the common one, that of the XRCE
  middleware and the introspection, from the headers \<^verbatim>\<open>*__type_support.h\<close>,
  \<^verbatim>\<open>*__rosidl_typesupport_microxrcedds_c.h\<close> and \<^verbatim>\<open>*__rosidl_typesupport_introspection_c.h\<close>.
\<close>

subsection \<open>Package geometry msgs\<close>

definition geometry_msgs__msg__Accel__type_support :: "exported list" where [support_defs]:
  "geometry_msgs__msg__Accel__type_support =
     [Message ''geometry_msgs'' ''msg'' ''Accel'']"

definition geometry_msgs__msg__Accel__microxrcedds :: "xrce_export list" where [support_defs]:
  "geometry_msgs__msg__Accel__microxrcedds =
     [Serialized_size (''geometry_msgs'', ''msg'', ''Accel''),
      Max_serialized_size (''geometry_msgs'', ''msg'', ''Accel''),
      Handle (Message ''geometry_msgs'' ''msg'' ''Accel'')]"

definition geometry_msgs__msg__Accel__introspection :: "exported list" where [support_defs]:
  "geometry_msgs__msg__Accel__introspection =
     [Message ''geometry_msgs'' ''msg'' ''Accel'']"

definition geometry_msgs__msg__AccelStamped__type_support :: "exported list" where [support_defs]:
  "geometry_msgs__msg__AccelStamped__type_support =
     [Message ''geometry_msgs'' ''msg'' ''AccelStamped'']"

definition geometry_msgs__msg__AccelStamped__microxrcedds :: "xrce_export list" where [support_defs]:
  "geometry_msgs__msg__AccelStamped__microxrcedds =
     [Serialized_size (''geometry_msgs'', ''msg'', ''AccelStamped''),
      Max_serialized_size (''geometry_msgs'', ''msg'', ''AccelStamped''),
      Handle (Message ''geometry_msgs'' ''msg'' ''AccelStamped'')]"

definition geometry_msgs__msg__AccelStamped__introspection :: "exported list" where [support_defs]:
  "geometry_msgs__msg__AccelStamped__introspection =
     [Message ''geometry_msgs'' ''msg'' ''AccelStamped'']"

definition geometry_msgs__msg__AccelWithCovariance__type_support :: "exported list" where [support_defs]:
  "geometry_msgs__msg__AccelWithCovariance__type_support =
     [Message ''geometry_msgs'' ''msg'' ''AccelWithCovariance'']"

definition geometry_msgs__msg__AccelWithCovariance__microxrcedds :: "xrce_export list" where [support_defs]:
  "geometry_msgs__msg__AccelWithCovariance__microxrcedds =
     [Serialized_size (''geometry_msgs'', ''msg'', ''AccelWithCovariance''),
      Max_serialized_size (''geometry_msgs'', ''msg'', ''AccelWithCovariance''),
      Handle (Message ''geometry_msgs'' ''msg'' ''AccelWithCovariance'')]"

definition geometry_msgs__msg__AccelWithCovariance__introspection :: "exported list" where [support_defs]:
  "geometry_msgs__msg__AccelWithCovariance__introspection =
     [Message ''geometry_msgs'' ''msg'' ''AccelWithCovariance'']"

definition geometry_msgs__msg__AccelWithCovarianceStamped__type_support :: "exported list" where [support_defs]:
  "geometry_msgs__msg__AccelWithCovarianceStamped__type_support =
     [Message ''geometry_msgs'' ''msg'' ''AccelWithCovarianceStamped'']"

definition geometry_msgs__msg__AccelWithCovarianceStamped__microxrcedds :: "xrce_export list" where [support_defs]:
  "geometry_msgs__msg__AccelWithCovarianceStamped__microxrcedds =
     [Serialized_size (''geometry_msgs'', ''msg'', ''AccelWithCovarianceStamped''),
      Max_serialized_size (''geometry_msgs'', ''msg'', ''AccelWithCovarianceStamped''),
      Handle (Message ''geometry_msgs'' ''msg'' ''AccelWithCovarianceStamped'')]"

definition geometry_msgs__msg__AccelWithCovarianceStamped__introspection :: "exported list" where [support_defs]:
  "geometry_msgs__msg__AccelWithCovarianceStamped__introspection =
     [Message ''geometry_msgs'' ''msg'' ''AccelWithCovarianceStamped'']"

definition geometry_msgs__msg__Inertia__type_support :: "exported list" where [support_defs]:
  "geometry_msgs__msg__Inertia__type_support =
     [Message ''geometry_msgs'' ''msg'' ''Inertia'']"

definition geometry_msgs__msg__Inertia__microxrcedds :: "xrce_export list" where [support_defs]:
  "geometry_msgs__msg__Inertia__microxrcedds =
     [Serialized_size (''geometry_msgs'', ''msg'', ''Inertia''),
      Max_serialized_size (''geometry_msgs'', ''msg'', ''Inertia''),
      Handle (Message ''geometry_msgs'' ''msg'' ''Inertia'')]"

definition geometry_msgs__msg__Inertia__introspection :: "exported list" where [support_defs]:
  "geometry_msgs__msg__Inertia__introspection =
     [Message ''geometry_msgs'' ''msg'' ''Inertia'']"

definition geometry_msgs__msg__InertiaStamped__type_support :: "exported list" where [support_defs]:
  "geometry_msgs__msg__InertiaStamped__type_support =
     [Message ''geometry_msgs'' ''msg'' ''InertiaStamped'']"

definition geometry_msgs__msg__InertiaStamped__microxrcedds :: "xrce_export list" where [support_defs]:
  "geometry_msgs__msg__InertiaStamped__microxrcedds =
     [Serialized_size (''geometry_msgs'', ''msg'', ''InertiaStamped''),
      Max_serialized_size (''geometry_msgs'', ''msg'', ''InertiaStamped''),
      Handle (Message ''geometry_msgs'' ''msg'' ''InertiaStamped'')]"

definition geometry_msgs__msg__InertiaStamped__introspection :: "exported list" where [support_defs]:
  "geometry_msgs__msg__InertiaStamped__introspection =
     [Message ''geometry_msgs'' ''msg'' ''InertiaStamped'']"

definition geometry_msgs__msg__Point32__type_support :: "exported list" where [support_defs]:
  "geometry_msgs__msg__Point32__type_support =
     [Message ''geometry_msgs'' ''msg'' ''Point32'']"

definition geometry_msgs__msg__Point32__microxrcedds :: "xrce_export list" where [support_defs]:
  "geometry_msgs__msg__Point32__microxrcedds =
     [Serialized_size (''geometry_msgs'', ''msg'', ''Point32''),
      Max_serialized_size (''geometry_msgs'', ''msg'', ''Point32''),
      Handle (Message ''geometry_msgs'' ''msg'' ''Point32'')]"

definition geometry_msgs__msg__Point32__introspection :: "exported list" where [support_defs]:
  "geometry_msgs__msg__Point32__introspection =
     [Message ''geometry_msgs'' ''msg'' ''Point32'']"

definition geometry_msgs__msg__Point__type_support :: "exported list" where [support_defs]:
  "geometry_msgs__msg__Point__type_support =
     [Message ''geometry_msgs'' ''msg'' ''Point'']"

definition geometry_msgs__msg__Point__microxrcedds :: "xrce_export list" where [support_defs]:
  "geometry_msgs__msg__Point__microxrcedds =
     [Serialized_size (''geometry_msgs'', ''msg'', ''Point''),
      Max_serialized_size (''geometry_msgs'', ''msg'', ''Point''),
      Handle (Message ''geometry_msgs'' ''msg'' ''Point'')]"

definition geometry_msgs__msg__Point__introspection :: "exported list" where [support_defs]:
  "geometry_msgs__msg__Point__introspection =
     [Message ''geometry_msgs'' ''msg'' ''Point'']"

definition geometry_msgs__msg__PointStamped__type_support :: "exported list" where [support_defs]:
  "geometry_msgs__msg__PointStamped__type_support =
     [Message ''geometry_msgs'' ''msg'' ''PointStamped'']"

definition geometry_msgs__msg__PointStamped__microxrcedds :: "xrce_export list" where [support_defs]:
  "geometry_msgs__msg__PointStamped__microxrcedds =
     [Serialized_size (''geometry_msgs'', ''msg'', ''PointStamped''),
      Max_serialized_size (''geometry_msgs'', ''msg'', ''PointStamped''),
      Handle (Message ''geometry_msgs'' ''msg'' ''PointStamped'')]"

definition geometry_msgs__msg__PointStamped__introspection :: "exported list" where [support_defs]:
  "geometry_msgs__msg__PointStamped__introspection =
     [Message ''geometry_msgs'' ''msg'' ''PointStamped'']"

definition geometry_msgs__msg__Polygon__type_support :: "exported list" where [support_defs]:
  "geometry_msgs__msg__Polygon__type_support =
     [Message ''geometry_msgs'' ''msg'' ''Polygon'']"

definition geometry_msgs__msg__Polygon__microxrcedds :: "xrce_export list" where [support_defs]:
  "geometry_msgs__msg__Polygon__microxrcedds =
     [Serialized_size (''geometry_msgs'', ''msg'', ''Polygon''),
      Max_serialized_size (''geometry_msgs'', ''msg'', ''Polygon''),
      Handle (Message ''geometry_msgs'' ''msg'' ''Polygon'')]"

definition geometry_msgs__msg__Polygon__introspection :: "exported list" where [support_defs]:
  "geometry_msgs__msg__Polygon__introspection =
     [Message ''geometry_msgs'' ''msg'' ''Polygon'']"

definition geometry_msgs__msg__PolygonInstance__type_support :: "exported list" where [support_defs]:
  "geometry_msgs__msg__PolygonInstance__type_support =
     [Message ''geometry_msgs'' ''msg'' ''PolygonInstance'']"

definition geometry_msgs__msg__PolygonInstance__microxrcedds :: "xrce_export list" where [support_defs]:
  "geometry_msgs__msg__PolygonInstance__microxrcedds =
     [Serialized_size (''geometry_msgs'', ''msg'', ''PolygonInstance''),
      Max_serialized_size (''geometry_msgs'', ''msg'', ''PolygonInstance''),
      Handle (Message ''geometry_msgs'' ''msg'' ''PolygonInstance'')]"

definition geometry_msgs__msg__PolygonInstance__introspection :: "exported list" where [support_defs]:
  "geometry_msgs__msg__PolygonInstance__introspection =
     [Message ''geometry_msgs'' ''msg'' ''PolygonInstance'']"

definition geometry_msgs__msg__PolygonInstanceStamped__type_support :: "exported list" where [support_defs]:
  "geometry_msgs__msg__PolygonInstanceStamped__type_support =
     [Message ''geometry_msgs'' ''msg'' ''PolygonInstanceStamped'']"

definition geometry_msgs__msg__PolygonInstanceStamped__microxrcedds :: "xrce_export list" where [support_defs]:
  "geometry_msgs__msg__PolygonInstanceStamped__microxrcedds =
     [Serialized_size (''geometry_msgs'', ''msg'', ''PolygonInstanceStamped''),
      Max_serialized_size (''geometry_msgs'', ''msg'', ''PolygonInstanceStamped''),
      Handle (Message ''geometry_msgs'' ''msg'' ''PolygonInstanceStamped'')]"

definition geometry_msgs__msg__PolygonInstanceStamped__introspection :: "exported list" where [support_defs]:
  "geometry_msgs__msg__PolygonInstanceStamped__introspection =
     [Message ''geometry_msgs'' ''msg'' ''PolygonInstanceStamped'']"

definition geometry_msgs__msg__PolygonStamped__type_support :: "exported list" where [support_defs]:
  "geometry_msgs__msg__PolygonStamped__type_support =
     [Message ''geometry_msgs'' ''msg'' ''PolygonStamped'']"

definition geometry_msgs__msg__PolygonStamped__microxrcedds :: "xrce_export list" where [support_defs]:
  "geometry_msgs__msg__PolygonStamped__microxrcedds =
     [Serialized_size (''geometry_msgs'', ''msg'', ''PolygonStamped''),
      Max_serialized_size (''geometry_msgs'', ''msg'', ''PolygonStamped''),
      Handle (Message ''geometry_msgs'' ''msg'' ''PolygonStamped'')]"

definition geometry_msgs__msg__PolygonStamped__introspection :: "exported list" where [support_defs]:
  "geometry_msgs__msg__PolygonStamped__introspection =
     [Message ''geometry_msgs'' ''msg'' ''PolygonStamped'']"

definition geometry_msgs__msg__Pose2D__type_support :: "exported list" where [support_defs]:
  "geometry_msgs__msg__Pose2D__type_support =
     [Message ''geometry_msgs'' ''msg'' ''Pose2D'']"

definition geometry_msgs__msg__Pose2D__microxrcedds :: "xrce_export list" where [support_defs]:
  "geometry_msgs__msg__Pose2D__microxrcedds =
     [Serialized_size (''geometry_msgs'', ''msg'', ''Pose2D''),
      Max_serialized_size (''geometry_msgs'', ''msg'', ''Pose2D''),
      Handle (Message ''geometry_msgs'' ''msg'' ''Pose2D'')]"

definition geometry_msgs__msg__Pose2D__introspection :: "exported list" where [support_defs]:
  "geometry_msgs__msg__Pose2D__introspection =
     [Message ''geometry_msgs'' ''msg'' ''Pose2D'']"

definition geometry_msgs__msg__Pose__type_support :: "exported list" where [support_defs]:
  "geometry_msgs__msg__Pose__type_support =
     [Message ''geometry_msgs'' ''msg'' ''Pose'']"

definition geometry_msgs__msg__Pose__microxrcedds :: "xrce_export list" where [support_defs]:
  "geometry_msgs__msg__Pose__microxrcedds =
     [Serialized_size (''geometry_msgs'', ''msg'', ''Pose''),
      Max_serialized_size (''geometry_msgs'', ''msg'', ''Pose''),
      Handle (Message ''geometry_msgs'' ''msg'' ''Pose'')]"

definition geometry_msgs__msg__Pose__introspection :: "exported list" where [support_defs]:
  "geometry_msgs__msg__Pose__introspection =
     [Message ''geometry_msgs'' ''msg'' ''Pose'']"

definition geometry_msgs__msg__PoseArray__type_support :: "exported list" where [support_defs]:
  "geometry_msgs__msg__PoseArray__type_support =
     [Message ''geometry_msgs'' ''msg'' ''PoseArray'']"

definition geometry_msgs__msg__PoseArray__microxrcedds :: "xrce_export list" where [support_defs]:
  "geometry_msgs__msg__PoseArray__microxrcedds =
     [Serialized_size (''geometry_msgs'', ''msg'', ''PoseArray''),
      Max_serialized_size (''geometry_msgs'', ''msg'', ''PoseArray''),
      Handle (Message ''geometry_msgs'' ''msg'' ''PoseArray'')]"

definition geometry_msgs__msg__PoseArray__introspection :: "exported list" where [support_defs]:
  "geometry_msgs__msg__PoseArray__introspection =
     [Message ''geometry_msgs'' ''msg'' ''PoseArray'']"

definition geometry_msgs__msg__PoseStamped__type_support :: "exported list" where [support_defs]:
  "geometry_msgs__msg__PoseStamped__type_support =
     [Message ''geometry_msgs'' ''msg'' ''PoseStamped'']"

definition geometry_msgs__msg__PoseStamped__microxrcedds :: "xrce_export list" where [support_defs]:
  "geometry_msgs__msg__PoseStamped__microxrcedds =
     [Serialized_size (''geometry_msgs'', ''msg'', ''PoseStamped''),
      Max_serialized_size (''geometry_msgs'', ''msg'', ''PoseStamped''),
      Handle (Message ''geometry_msgs'' ''msg'' ''PoseStamped'')]"

definition geometry_msgs__msg__PoseStamped__introspection :: "exported list" where [support_defs]:
  "geometry_msgs__msg__PoseStamped__introspection =
     [Message ''geometry_msgs'' ''msg'' ''PoseStamped'']"

definition geometry_msgs__msg__PoseWithCovariance__type_support :: "exported list" where [support_defs]:
  "geometry_msgs__msg__PoseWithCovariance__type_support =
     [Message ''geometry_msgs'' ''msg'' ''PoseWithCovariance'']"

definition geometry_msgs__msg__PoseWithCovariance__microxrcedds :: "xrce_export list" where [support_defs]:
  "geometry_msgs__msg__PoseWithCovariance__microxrcedds =
     [Serialized_size (''geometry_msgs'', ''msg'', ''PoseWithCovariance''),
      Max_serialized_size (''geometry_msgs'', ''msg'', ''PoseWithCovariance''),
      Handle (Message ''geometry_msgs'' ''msg'' ''PoseWithCovariance'')]"

definition geometry_msgs__msg__PoseWithCovariance__introspection :: "exported list" where [support_defs]:
  "geometry_msgs__msg__PoseWithCovariance__introspection =
     [Message ''geometry_msgs'' ''msg'' ''PoseWithCovariance'']"

definition geometry_msgs__msg__PoseWithCovarianceStamped__type_support :: "exported list" where [support_defs]:
  "geometry_msgs__msg__PoseWithCovarianceStamped__type_support =
     [Message ''geometry_msgs'' ''msg'' ''PoseWithCovarianceStamped'']"

definition geometry_msgs__msg__PoseWithCovarianceStamped__microxrcedds :: "xrce_export list" where [support_defs]:
  "geometry_msgs__msg__PoseWithCovarianceStamped__microxrcedds =
     [Serialized_size (''geometry_msgs'', ''msg'', ''PoseWithCovarianceStamped''),
      Max_serialized_size (''geometry_msgs'', ''msg'', ''PoseWithCovarianceStamped''),
      Handle (Message ''geometry_msgs'' ''msg'' ''PoseWithCovarianceStamped'')]"

definition geometry_msgs__msg__PoseWithCovarianceStamped__introspection :: "exported list" where [support_defs]:
  "geometry_msgs__msg__PoseWithCovarianceStamped__introspection =
     [Message ''geometry_msgs'' ''msg'' ''PoseWithCovarianceStamped'']"

definition geometry_msgs__msg__Quaternion__type_support :: "exported list" where [support_defs]:
  "geometry_msgs__msg__Quaternion__type_support =
     [Message ''geometry_msgs'' ''msg'' ''Quaternion'']"

definition geometry_msgs__msg__Quaternion__microxrcedds :: "xrce_export list" where [support_defs]:
  "geometry_msgs__msg__Quaternion__microxrcedds =
     [Serialized_size (''geometry_msgs'', ''msg'', ''Quaternion''),
      Max_serialized_size (''geometry_msgs'', ''msg'', ''Quaternion''),
      Handle (Message ''geometry_msgs'' ''msg'' ''Quaternion'')]"

definition geometry_msgs__msg__Quaternion__introspection :: "exported list" where [support_defs]:
  "geometry_msgs__msg__Quaternion__introspection =
     [Message ''geometry_msgs'' ''msg'' ''Quaternion'']"

definition geometry_msgs__msg__QuaternionStamped__type_support :: "exported list" where [support_defs]:
  "geometry_msgs__msg__QuaternionStamped__type_support =
     [Message ''geometry_msgs'' ''msg'' ''QuaternionStamped'']"

definition geometry_msgs__msg__QuaternionStamped__microxrcedds :: "xrce_export list" where [support_defs]:
  "geometry_msgs__msg__QuaternionStamped__microxrcedds =
     [Serialized_size (''geometry_msgs'', ''msg'', ''QuaternionStamped''),
      Max_serialized_size (''geometry_msgs'', ''msg'', ''QuaternionStamped''),
      Handle (Message ''geometry_msgs'' ''msg'' ''QuaternionStamped'')]"

definition geometry_msgs__msg__QuaternionStamped__introspection :: "exported list" where [support_defs]:
  "geometry_msgs__msg__QuaternionStamped__introspection =
     [Message ''geometry_msgs'' ''msg'' ''QuaternionStamped'']"

definition geometry_msgs__msg__Transform__type_support :: "exported list" where [support_defs]:
  "geometry_msgs__msg__Transform__type_support =
     [Message ''geometry_msgs'' ''msg'' ''Transform'']"

definition geometry_msgs__msg__Transform__microxrcedds :: "xrce_export list" where [support_defs]:
  "geometry_msgs__msg__Transform__microxrcedds =
     [Serialized_size (''geometry_msgs'', ''msg'', ''Transform''),
      Max_serialized_size (''geometry_msgs'', ''msg'', ''Transform''),
      Handle (Message ''geometry_msgs'' ''msg'' ''Transform'')]"

definition geometry_msgs__msg__Transform__introspection :: "exported list" where [support_defs]:
  "geometry_msgs__msg__Transform__introspection =
     [Message ''geometry_msgs'' ''msg'' ''Transform'']"

definition geometry_msgs__msg__TransformStamped__type_support :: "exported list" where [support_defs]:
  "geometry_msgs__msg__TransformStamped__type_support =
     [Message ''geometry_msgs'' ''msg'' ''TransformStamped'']"

definition geometry_msgs__msg__TransformStamped__microxrcedds :: "xrce_export list" where [support_defs]:
  "geometry_msgs__msg__TransformStamped__microxrcedds =
     [Serialized_size (''geometry_msgs'', ''msg'', ''TransformStamped''),
      Max_serialized_size (''geometry_msgs'', ''msg'', ''TransformStamped''),
      Handle (Message ''geometry_msgs'' ''msg'' ''TransformStamped'')]"

definition geometry_msgs__msg__TransformStamped__introspection :: "exported list" where [support_defs]:
  "geometry_msgs__msg__TransformStamped__introspection =
     [Message ''geometry_msgs'' ''msg'' ''TransformStamped'']"

definition geometry_msgs__msg__Twist__type_support :: "exported list" where [support_defs]:
  "geometry_msgs__msg__Twist__type_support =
     [Message ''geometry_msgs'' ''msg'' ''Twist'']"

definition geometry_msgs__msg__Twist__microxrcedds :: "xrce_export list" where [support_defs]:
  "geometry_msgs__msg__Twist__microxrcedds =
     [Serialized_size (''geometry_msgs'', ''msg'', ''Twist''),
      Max_serialized_size (''geometry_msgs'', ''msg'', ''Twist''),
      Handle (Message ''geometry_msgs'' ''msg'' ''Twist'')]"

definition geometry_msgs__msg__Twist__introspection :: "exported list" where [support_defs]:
  "geometry_msgs__msg__Twist__introspection =
     [Message ''geometry_msgs'' ''msg'' ''Twist'']"

definition geometry_msgs__msg__TwistStamped__type_support :: "exported list" where [support_defs]:
  "geometry_msgs__msg__TwistStamped__type_support =
     [Message ''geometry_msgs'' ''msg'' ''TwistStamped'']"

definition geometry_msgs__msg__TwistStamped__microxrcedds :: "xrce_export list" where [support_defs]:
  "geometry_msgs__msg__TwistStamped__microxrcedds =
     [Serialized_size (''geometry_msgs'', ''msg'', ''TwistStamped''),
      Max_serialized_size (''geometry_msgs'', ''msg'', ''TwistStamped''),
      Handle (Message ''geometry_msgs'' ''msg'' ''TwistStamped'')]"

definition geometry_msgs__msg__TwistStamped__introspection :: "exported list" where [support_defs]:
  "geometry_msgs__msg__TwistStamped__introspection =
     [Message ''geometry_msgs'' ''msg'' ''TwistStamped'']"

definition geometry_msgs__msg__TwistWithCovariance__type_support :: "exported list" where [support_defs]:
  "geometry_msgs__msg__TwistWithCovariance__type_support =
     [Message ''geometry_msgs'' ''msg'' ''TwistWithCovariance'']"

definition geometry_msgs__msg__TwistWithCovariance__microxrcedds :: "xrce_export list" where [support_defs]:
  "geometry_msgs__msg__TwistWithCovariance__microxrcedds =
     [Serialized_size (''geometry_msgs'', ''msg'', ''TwistWithCovariance''),
      Max_serialized_size (''geometry_msgs'', ''msg'', ''TwistWithCovariance''),
      Handle (Message ''geometry_msgs'' ''msg'' ''TwistWithCovariance'')]"

definition geometry_msgs__msg__TwistWithCovariance__introspection :: "exported list" where [support_defs]:
  "geometry_msgs__msg__TwistWithCovariance__introspection =
     [Message ''geometry_msgs'' ''msg'' ''TwistWithCovariance'']"

definition geometry_msgs__msg__TwistWithCovarianceStamped__type_support :: "exported list" where [support_defs]:
  "geometry_msgs__msg__TwistWithCovarianceStamped__type_support =
     [Message ''geometry_msgs'' ''msg'' ''TwistWithCovarianceStamped'']"

definition geometry_msgs__msg__TwistWithCovarianceStamped__microxrcedds :: "xrce_export list" where [support_defs]:
  "geometry_msgs__msg__TwistWithCovarianceStamped__microxrcedds =
     [Serialized_size (''geometry_msgs'', ''msg'', ''TwistWithCovarianceStamped''),
      Max_serialized_size (''geometry_msgs'', ''msg'', ''TwistWithCovarianceStamped''),
      Handle (Message ''geometry_msgs'' ''msg'' ''TwistWithCovarianceStamped'')]"

definition geometry_msgs__msg__TwistWithCovarianceStamped__introspection :: "exported list" where [support_defs]:
  "geometry_msgs__msg__TwistWithCovarianceStamped__introspection =
     [Message ''geometry_msgs'' ''msg'' ''TwistWithCovarianceStamped'']"

definition geometry_msgs__msg__Vector3__type_support :: "exported list" where [support_defs]:
  "geometry_msgs__msg__Vector3__type_support =
     [Message ''geometry_msgs'' ''msg'' ''Vector3'']"

definition geometry_msgs__msg__Vector3__microxrcedds :: "xrce_export list" where [support_defs]:
  "geometry_msgs__msg__Vector3__microxrcedds =
     [Serialized_size (''geometry_msgs'', ''msg'', ''Vector3''),
      Max_serialized_size (''geometry_msgs'', ''msg'', ''Vector3''),
      Handle (Message ''geometry_msgs'' ''msg'' ''Vector3'')]"

definition geometry_msgs__msg__Vector3__introspection :: "exported list" where [support_defs]:
  "geometry_msgs__msg__Vector3__introspection =
     [Message ''geometry_msgs'' ''msg'' ''Vector3'']"

definition geometry_msgs__msg__Vector3Stamped__type_support :: "exported list" where [support_defs]:
  "geometry_msgs__msg__Vector3Stamped__type_support =
     [Message ''geometry_msgs'' ''msg'' ''Vector3Stamped'']"

definition geometry_msgs__msg__Vector3Stamped__microxrcedds :: "xrce_export list" where [support_defs]:
  "geometry_msgs__msg__Vector3Stamped__microxrcedds =
     [Serialized_size (''geometry_msgs'', ''msg'', ''Vector3Stamped''),
      Max_serialized_size (''geometry_msgs'', ''msg'', ''Vector3Stamped''),
      Handle (Message ''geometry_msgs'' ''msg'' ''Vector3Stamped'')]"

definition geometry_msgs__msg__Vector3Stamped__introspection :: "exported list" where [support_defs]:
  "geometry_msgs__msg__Vector3Stamped__introspection =
     [Message ''geometry_msgs'' ''msg'' ''Vector3Stamped'']"

definition geometry_msgs__msg__VelocityStamped__type_support :: "exported list" where [support_defs]:
  "geometry_msgs__msg__VelocityStamped__type_support =
     [Message ''geometry_msgs'' ''msg'' ''VelocityStamped'']"

definition geometry_msgs__msg__VelocityStamped__microxrcedds :: "xrce_export list" where [support_defs]:
  "geometry_msgs__msg__VelocityStamped__microxrcedds =
     [Serialized_size (''geometry_msgs'', ''msg'', ''VelocityStamped''),
      Max_serialized_size (''geometry_msgs'', ''msg'', ''VelocityStamped''),
      Handle (Message ''geometry_msgs'' ''msg'' ''VelocityStamped'')]"

definition geometry_msgs__msg__VelocityStamped__introspection :: "exported list" where [support_defs]:
  "geometry_msgs__msg__VelocityStamped__introspection =
     [Message ''geometry_msgs'' ''msg'' ''VelocityStamped'']"

definition geometry_msgs__msg__Wrench__type_support :: "exported list" where [support_defs]:
  "geometry_msgs__msg__Wrench__type_support =
     [Message ''geometry_msgs'' ''msg'' ''Wrench'']"

definition geometry_msgs__msg__Wrench__microxrcedds :: "xrce_export list" where [support_defs]:
  "geometry_msgs__msg__Wrench__microxrcedds =
     [Serialized_size (''geometry_msgs'', ''msg'', ''Wrench''),
      Max_serialized_size (''geometry_msgs'', ''msg'', ''Wrench''),
      Handle (Message ''geometry_msgs'' ''msg'' ''Wrench'')]"

definition geometry_msgs__msg__Wrench__introspection :: "exported list" where [support_defs]:
  "geometry_msgs__msg__Wrench__introspection =
     [Message ''geometry_msgs'' ''msg'' ''Wrench'']"

definition geometry_msgs__msg__WrenchStamped__type_support :: "exported list" where [support_defs]:
  "geometry_msgs__msg__WrenchStamped__type_support =
     [Message ''geometry_msgs'' ''msg'' ''WrenchStamped'']"

definition geometry_msgs__msg__WrenchStamped__microxrcedds :: "xrce_export list" where [support_defs]:
  "geometry_msgs__msg__WrenchStamped__microxrcedds =
     [Serialized_size (''geometry_msgs'', ''msg'', ''WrenchStamped''),
      Max_serialized_size (''geometry_msgs'', ''msg'', ''WrenchStamped''),
      Handle (Message ''geometry_msgs'' ''msg'' ''WrenchStamped'')]"

definition geometry_msgs__msg__WrenchStamped__introspection :: "exported list" where [support_defs]:
  "geometry_msgs__msg__WrenchStamped__introspection =
     [Message ''geometry_msgs'' ''msg'' ''WrenchStamped'']"

subsection \<open>Package shape msgs\<close>

definition shape_msgs__msg__Mesh__type_support :: "exported list" where [support_defs]:
  "shape_msgs__msg__Mesh__type_support =
     [Message ''shape_msgs'' ''msg'' ''Mesh'']"

definition shape_msgs__msg__Mesh__microxrcedds :: "xrce_export list" where [support_defs]:
  "shape_msgs__msg__Mesh__microxrcedds =
     [Serialized_size (''shape_msgs'', ''msg'', ''Mesh''), Max_serialized_size (''shape_msgs'', ''msg'', ''Mesh''),
      Handle (Message ''shape_msgs'' ''msg'' ''Mesh'')]"

definition shape_msgs__msg__Mesh__introspection :: "exported list" where [support_defs]:
  "shape_msgs__msg__Mesh__introspection =
     [Message ''shape_msgs'' ''msg'' ''Mesh'']"

definition shape_msgs__msg__MeshTriangle__type_support :: "exported list" where [support_defs]:
  "shape_msgs__msg__MeshTriangle__type_support =
     [Message ''shape_msgs'' ''msg'' ''MeshTriangle'']"

definition shape_msgs__msg__MeshTriangle__microxrcedds :: "xrce_export list" where [support_defs]:
  "shape_msgs__msg__MeshTriangle__microxrcedds =
     [Serialized_size (''shape_msgs'', ''msg'', ''MeshTriangle''),
      Max_serialized_size (''shape_msgs'', ''msg'', ''MeshTriangle''),
      Handle (Message ''shape_msgs'' ''msg'' ''MeshTriangle'')]"

definition shape_msgs__msg__MeshTriangle__introspection :: "exported list" where [support_defs]:
  "shape_msgs__msg__MeshTriangle__introspection =
     [Message ''shape_msgs'' ''msg'' ''MeshTriangle'']"

definition shape_msgs__msg__Plane__type_support :: "exported list" where [support_defs]:
  "shape_msgs__msg__Plane__type_support =
     [Message ''shape_msgs'' ''msg'' ''Plane'']"

definition shape_msgs__msg__Plane__microxrcedds :: "xrce_export list" where [support_defs]:
  "shape_msgs__msg__Plane__microxrcedds =
     [Serialized_size (''shape_msgs'', ''msg'', ''Plane''),
      Max_serialized_size (''shape_msgs'', ''msg'', ''Plane''), Handle (Message ''shape_msgs'' ''msg'' ''Plane'')]"

definition shape_msgs__msg__Plane__introspection :: "exported list" where [support_defs]:
  "shape_msgs__msg__Plane__introspection =
     [Message ''shape_msgs'' ''msg'' ''Plane'']"

definition shape_msgs__msg__SolidPrimitive__type_support :: "exported list" where [support_defs]:
  "shape_msgs__msg__SolidPrimitive__type_support =
     [Message ''shape_msgs'' ''msg'' ''SolidPrimitive'']"

definition shape_msgs__msg__SolidPrimitive__microxrcedds :: "xrce_export list" where [support_defs]:
  "shape_msgs__msg__SolidPrimitive__microxrcedds =
     [Serialized_size (''shape_msgs'', ''msg'', ''SolidPrimitive''),
      Max_serialized_size (''shape_msgs'', ''msg'', ''SolidPrimitive''),
      Handle (Message ''shape_msgs'' ''msg'' ''SolidPrimitive'')]"

definition shape_msgs__msg__SolidPrimitive__introspection :: "exported list" where [support_defs]:
  "shape_msgs__msg__SolidPrimitive__introspection =
     [Message ''shape_msgs'' ''msg'' ''SolidPrimitive'']"

subsection \<open>Package sensor msgs\<close>

definition sensor_msgs__msg__BatteryState__type_support :: "exported list" where [support_defs]:
  "sensor_msgs__msg__BatteryState__type_support =
     [Message ''sensor_msgs'' ''msg'' ''BatteryState'']"

definition sensor_msgs__msg__BatteryState__microxrcedds :: "xrce_export list" where [support_defs]:
  "sensor_msgs__msg__BatteryState__microxrcedds =
     [Serialized_size (''sensor_msgs'', ''msg'', ''BatteryState''),
      Max_serialized_size (''sensor_msgs'', ''msg'', ''BatteryState''),
      Handle (Message ''sensor_msgs'' ''msg'' ''BatteryState'')]"

definition sensor_msgs__msg__BatteryState__introspection :: "exported list" where [support_defs]:
  "sensor_msgs__msg__BatteryState__introspection =
     [Message ''sensor_msgs'' ''msg'' ''BatteryState'']"

definition sensor_msgs__msg__CameraInfo__type_support :: "exported list" where [support_defs]:
  "sensor_msgs__msg__CameraInfo__type_support =
     [Message ''sensor_msgs'' ''msg'' ''CameraInfo'']"

definition sensor_msgs__msg__CameraInfo__microxrcedds :: "xrce_export list" where [support_defs]:
  "sensor_msgs__msg__CameraInfo__microxrcedds =
     [Serialized_size (''sensor_msgs'', ''msg'', ''CameraInfo''),
      Max_serialized_size (''sensor_msgs'', ''msg'', ''CameraInfo''),
      Handle (Message ''sensor_msgs'' ''msg'' ''CameraInfo'')]"

definition sensor_msgs__msg__CameraInfo__introspection :: "exported list" where [support_defs]:
  "sensor_msgs__msg__CameraInfo__introspection =
     [Message ''sensor_msgs'' ''msg'' ''CameraInfo'']"

definition sensor_msgs__msg__ChannelFloat32__type_support :: "exported list" where [support_defs]:
  "sensor_msgs__msg__ChannelFloat32__type_support =
     [Message ''sensor_msgs'' ''msg'' ''ChannelFloat32'']"

definition sensor_msgs__msg__ChannelFloat32__microxrcedds :: "xrce_export list" where [support_defs]:
  "sensor_msgs__msg__ChannelFloat32__microxrcedds =
     [Serialized_size (''sensor_msgs'', ''msg'', ''ChannelFloat32''),
      Max_serialized_size (''sensor_msgs'', ''msg'', ''ChannelFloat32''),
      Handle (Message ''sensor_msgs'' ''msg'' ''ChannelFloat32'')]"

definition sensor_msgs__msg__ChannelFloat32__introspection :: "exported list" where [support_defs]:
  "sensor_msgs__msg__ChannelFloat32__introspection =
     [Message ''sensor_msgs'' ''msg'' ''ChannelFloat32'']"

definition sensor_msgs__msg__CompressedImage__type_support :: "exported list" where [support_defs]:
  "sensor_msgs__msg__CompressedImage__type_support =
     [Message ''sensor_msgs'' ''msg'' ''CompressedImage'']"

definition sensor_msgs__msg__CompressedImage__microxrcedds :: "xrce_export list" where [support_defs]:
  "sensor_msgs__msg__CompressedImage__microxrcedds =
     [Serialized_size (''sensor_msgs'', ''msg'', ''CompressedImage''),
      Max_serialized_size (''sensor_msgs'', ''msg'', ''CompressedImage''),
      Handle (Message ''sensor_msgs'' ''msg'' ''CompressedImage'')]"

definition sensor_msgs__msg__CompressedImage__introspection :: "exported list" where [support_defs]:
  "sensor_msgs__msg__CompressedImage__introspection =
     [Message ''sensor_msgs'' ''msg'' ''CompressedImage'']"

definition sensor_msgs__msg__FluidPressure__type_support :: "exported list" where [support_defs]:
  "sensor_msgs__msg__FluidPressure__type_support =
     [Message ''sensor_msgs'' ''msg'' ''FluidPressure'']"

definition sensor_msgs__msg__FluidPressure__microxrcedds :: "xrce_export list" where [support_defs]:
  "sensor_msgs__msg__FluidPressure__microxrcedds =
     [Serialized_size (''sensor_msgs'', ''msg'', ''FluidPressure''),
      Max_serialized_size (''sensor_msgs'', ''msg'', ''FluidPressure''),
      Handle (Message ''sensor_msgs'' ''msg'' ''FluidPressure'')]"

definition sensor_msgs__msg__FluidPressure__introspection :: "exported list" where [support_defs]:
  "sensor_msgs__msg__FluidPressure__introspection =
     [Message ''sensor_msgs'' ''msg'' ''FluidPressure'']"

definition sensor_msgs__msg__Illuminance__type_support :: "exported list" where [support_defs]:
  "sensor_msgs__msg__Illuminance__type_support =
     [Message ''sensor_msgs'' ''msg'' ''Illuminance'']"

definition sensor_msgs__msg__Illuminance__microxrcedds :: "xrce_export list" where [support_defs]:
  "sensor_msgs__msg__Illuminance__microxrcedds =
     [Serialized_size (''sensor_msgs'', ''msg'', ''Illuminance''),
      Max_serialized_size (''sensor_msgs'', ''msg'', ''Illuminance''),
      Handle (Message ''sensor_msgs'' ''msg'' ''Illuminance'')]"

definition sensor_msgs__msg__Illuminance__introspection :: "exported list" where [support_defs]:
  "sensor_msgs__msg__Illuminance__introspection =
     [Message ''sensor_msgs'' ''msg'' ''Illuminance'']"

definition sensor_msgs__msg__Image__type_support :: "exported list" where [support_defs]:
  "sensor_msgs__msg__Image__type_support =
     [Message ''sensor_msgs'' ''msg'' ''Image'']"

definition sensor_msgs__msg__Image__microxrcedds :: "xrce_export list" where [support_defs]:
  "sensor_msgs__msg__Image__microxrcedds =
     [Serialized_size (''sensor_msgs'', ''msg'', ''Image''),
      Max_serialized_size (''sensor_msgs'', ''msg'', ''Image''),
      Handle (Message ''sensor_msgs'' ''msg'' ''Image'')]"

definition sensor_msgs__msg__Image__introspection :: "exported list" where [support_defs]:
  "sensor_msgs__msg__Image__introspection =
     [Message ''sensor_msgs'' ''msg'' ''Image'']"

definition sensor_msgs__msg__Imu__type_support :: "exported list" where [support_defs]:
  "sensor_msgs__msg__Imu__type_support =
     [Message ''sensor_msgs'' ''msg'' ''Imu'']"

definition sensor_msgs__msg__Imu__microxrcedds :: "xrce_export list" where [support_defs]:
  "sensor_msgs__msg__Imu__microxrcedds =
     [Serialized_size (''sensor_msgs'', ''msg'', ''Imu''), Max_serialized_size (''sensor_msgs'', ''msg'', ''Imu''),
      Handle (Message ''sensor_msgs'' ''msg'' ''Imu'')]"

definition sensor_msgs__msg__Imu__introspection :: "exported list" where [support_defs]:
  "sensor_msgs__msg__Imu__introspection =
     [Message ''sensor_msgs'' ''msg'' ''Imu'']"

definition sensor_msgs__msg__JointState__type_support :: "exported list" where [support_defs]:
  "sensor_msgs__msg__JointState__type_support =
     [Message ''sensor_msgs'' ''msg'' ''JointState'']"

definition sensor_msgs__msg__JointState__microxrcedds :: "xrce_export list" where [support_defs]:
  "sensor_msgs__msg__JointState__microxrcedds =
     [Serialized_size (''sensor_msgs'', ''msg'', ''JointState''),
      Max_serialized_size (''sensor_msgs'', ''msg'', ''JointState''),
      Handle (Message ''sensor_msgs'' ''msg'' ''JointState'')]"

definition sensor_msgs__msg__JointState__introspection :: "exported list" where [support_defs]:
  "sensor_msgs__msg__JointState__introspection =
     [Message ''sensor_msgs'' ''msg'' ''JointState'']"

definition sensor_msgs__msg__Joy__type_support :: "exported list" where [support_defs]:
  "sensor_msgs__msg__Joy__type_support =
     [Message ''sensor_msgs'' ''msg'' ''Joy'']"

definition sensor_msgs__msg__Joy__microxrcedds :: "xrce_export list" where [support_defs]:
  "sensor_msgs__msg__Joy__microxrcedds =
     [Serialized_size (''sensor_msgs'', ''msg'', ''Joy''), Max_serialized_size (''sensor_msgs'', ''msg'', ''Joy''),
      Handle (Message ''sensor_msgs'' ''msg'' ''Joy'')]"

definition sensor_msgs__msg__Joy__introspection :: "exported list" where [support_defs]:
  "sensor_msgs__msg__Joy__introspection =
     [Message ''sensor_msgs'' ''msg'' ''Joy'']"

definition sensor_msgs__msg__JoyFeedback__type_support :: "exported list" where [support_defs]:
  "sensor_msgs__msg__JoyFeedback__type_support =
     [Message ''sensor_msgs'' ''msg'' ''JoyFeedback'']"

definition sensor_msgs__msg__JoyFeedback__microxrcedds :: "xrce_export list" where [support_defs]:
  "sensor_msgs__msg__JoyFeedback__microxrcedds =
     [Serialized_size (''sensor_msgs'', ''msg'', ''JoyFeedback''),
      Max_serialized_size (''sensor_msgs'', ''msg'', ''JoyFeedback''),
      Handle (Message ''sensor_msgs'' ''msg'' ''JoyFeedback'')]"

definition sensor_msgs__msg__JoyFeedback__introspection :: "exported list" where [support_defs]:
  "sensor_msgs__msg__JoyFeedback__introspection =
     [Message ''sensor_msgs'' ''msg'' ''JoyFeedback'']"

definition sensor_msgs__msg__JoyFeedbackArray__type_support :: "exported list" where [support_defs]:
  "sensor_msgs__msg__JoyFeedbackArray__type_support =
     [Message ''sensor_msgs'' ''msg'' ''JoyFeedbackArray'']"

definition sensor_msgs__msg__JoyFeedbackArray__microxrcedds :: "xrce_export list" where [support_defs]:
  "sensor_msgs__msg__JoyFeedbackArray__microxrcedds =
     [Serialized_size (''sensor_msgs'', ''msg'', ''JoyFeedbackArray''),
      Max_serialized_size (''sensor_msgs'', ''msg'', ''JoyFeedbackArray''),
      Handle (Message ''sensor_msgs'' ''msg'' ''JoyFeedbackArray'')]"

definition sensor_msgs__msg__JoyFeedbackArray__introspection :: "exported list" where [support_defs]:
  "sensor_msgs__msg__JoyFeedbackArray__introspection =
     [Message ''sensor_msgs'' ''msg'' ''JoyFeedbackArray'']"

definition sensor_msgs__msg__LaserEcho__type_support :: "exported list" where [support_defs]:
  "sensor_msgs__msg__LaserEcho__type_support =
     [Message ''sensor_msgs'' ''msg'' ''LaserEcho'']"

definition sensor_msgs__msg__LaserEcho__microxrcedds :: "xrce_export list" where [support_defs]:
  "sensor_msgs__msg__LaserEcho__microxrcedds =
     [Serialized_size (''sensor_msgs'', ''msg'', ''LaserEcho''),
      Max_serialized_size (''sensor_msgs'', ''msg'', ''LaserEcho''),
      Handle (Message ''sensor_msgs'' ''msg'' ''LaserEcho'')]"

definition sensor_msgs__msg__LaserEcho__introspection :: "exported list" where [support_defs]:
  "sensor_msgs__msg__LaserEcho__introspection =
     [Message ''sensor_msgs'' ''msg'' ''LaserEcho'']"

definition sensor_msgs__msg__LaserScan__type_support :: "exported list" where [support_defs]:
  "sensor_msgs__msg__LaserScan__type_support =
     [Message ''sensor_msgs'' ''msg'' ''LaserScan'']"

definition sensor_msgs__msg__LaserScan__microxrcedds :: "xrce_export list" where [support_defs]:
  "sensor_msgs__msg__LaserScan__microxrcedds =
     [Serialized_size (''sensor_msgs'', ''msg'', ''LaserScan''),
      Max_serialized_size (''sensor_msgs'', ''msg'', ''LaserScan''),
      Handle (Message ''sensor_msgs'' ''msg'' ''LaserScan'')]"

definition sensor_msgs__msg__LaserScan__introspection :: "exported list" where [support_defs]:
  "sensor_msgs__msg__LaserScan__introspection =
     [Message ''sensor_msgs'' ''msg'' ''LaserScan'']"

definition sensor_msgs__msg__MagneticField__type_support :: "exported list" where [support_defs]:
  "sensor_msgs__msg__MagneticField__type_support =
     [Message ''sensor_msgs'' ''msg'' ''MagneticField'']"

definition sensor_msgs__msg__MagneticField__microxrcedds :: "xrce_export list" where [support_defs]:
  "sensor_msgs__msg__MagneticField__microxrcedds =
     [Serialized_size (''sensor_msgs'', ''msg'', ''MagneticField''),
      Max_serialized_size (''sensor_msgs'', ''msg'', ''MagneticField''),
      Handle (Message ''sensor_msgs'' ''msg'' ''MagneticField'')]"

definition sensor_msgs__msg__MagneticField__introspection :: "exported list" where [support_defs]:
  "sensor_msgs__msg__MagneticField__introspection =
     [Message ''sensor_msgs'' ''msg'' ''MagneticField'']"

definition sensor_msgs__msg__MultiDOFJointState__type_support :: "exported list" where [support_defs]:
  "sensor_msgs__msg__MultiDOFJointState__type_support =
     [Message ''sensor_msgs'' ''msg'' ''MultiDOFJointState'']"

definition sensor_msgs__msg__MultiDOFJointState__microxrcedds :: "xrce_export list" where [support_defs]:
  "sensor_msgs__msg__MultiDOFJointState__microxrcedds =
     [Serialized_size (''sensor_msgs'', ''msg'', ''MultiDOFJointState''),
      Max_serialized_size (''sensor_msgs'', ''msg'', ''MultiDOFJointState''),
      Handle (Message ''sensor_msgs'' ''msg'' ''MultiDOFJointState'')]"

definition sensor_msgs__msg__MultiDOFJointState__introspection :: "exported list" where [support_defs]:
  "sensor_msgs__msg__MultiDOFJointState__introspection =
     [Message ''sensor_msgs'' ''msg'' ''MultiDOFJointState'']"

definition sensor_msgs__msg__MultiEchoLaserScan__type_support :: "exported list" where [support_defs]:
  "sensor_msgs__msg__MultiEchoLaserScan__type_support =
     [Message ''sensor_msgs'' ''msg'' ''MultiEchoLaserScan'']"

definition sensor_msgs__msg__MultiEchoLaserScan__microxrcedds :: "xrce_export list" where [support_defs]:
  "sensor_msgs__msg__MultiEchoLaserScan__microxrcedds =
     [Serialized_size (''sensor_msgs'', ''msg'', ''MultiEchoLaserScan''),
      Max_serialized_size (''sensor_msgs'', ''msg'', ''MultiEchoLaserScan''),
      Handle (Message ''sensor_msgs'' ''msg'' ''MultiEchoLaserScan'')]"

definition sensor_msgs__msg__MultiEchoLaserScan__introspection :: "exported list" where [support_defs]:
  "sensor_msgs__msg__MultiEchoLaserScan__introspection =
     [Message ''sensor_msgs'' ''msg'' ''MultiEchoLaserScan'']"

definition sensor_msgs__msg__NavSatFix__type_support :: "exported list" where [support_defs]:
  "sensor_msgs__msg__NavSatFix__type_support =
     [Message ''sensor_msgs'' ''msg'' ''NavSatFix'']"

definition sensor_msgs__msg__NavSatFix__microxrcedds :: "xrce_export list" where [support_defs]:
  "sensor_msgs__msg__NavSatFix__microxrcedds =
     [Serialized_size (''sensor_msgs'', ''msg'', ''NavSatFix''),
      Max_serialized_size (''sensor_msgs'', ''msg'', ''NavSatFix''),
      Handle (Message ''sensor_msgs'' ''msg'' ''NavSatFix'')]"

definition sensor_msgs__msg__NavSatFix__introspection :: "exported list" where [support_defs]:
  "sensor_msgs__msg__NavSatFix__introspection =
     [Message ''sensor_msgs'' ''msg'' ''NavSatFix'']"

definition sensor_msgs__msg__NavSatStatus__type_support :: "exported list" where [support_defs]:
  "sensor_msgs__msg__NavSatStatus__type_support =
     [Message ''sensor_msgs'' ''msg'' ''NavSatStatus'']"

definition sensor_msgs__msg__NavSatStatus__microxrcedds :: "xrce_export list" where [support_defs]:
  "sensor_msgs__msg__NavSatStatus__microxrcedds =
     [Serialized_size (''sensor_msgs'', ''msg'', ''NavSatStatus''),
      Max_serialized_size (''sensor_msgs'', ''msg'', ''NavSatStatus''),
      Handle (Message ''sensor_msgs'' ''msg'' ''NavSatStatus'')]"

definition sensor_msgs__msg__NavSatStatus__introspection :: "exported list" where [support_defs]:
  "sensor_msgs__msg__NavSatStatus__introspection =
     [Message ''sensor_msgs'' ''msg'' ''NavSatStatus'']"

definition sensor_msgs__msg__PointCloud2__type_support :: "exported list" where [support_defs]:
  "sensor_msgs__msg__PointCloud2__type_support =
     [Message ''sensor_msgs'' ''msg'' ''PointCloud2'']"

definition sensor_msgs__msg__PointCloud2__microxrcedds :: "xrce_export list" where [support_defs]:
  "sensor_msgs__msg__PointCloud2__microxrcedds =
     [Serialized_size (''sensor_msgs'', ''msg'', ''PointCloud2''),
      Max_serialized_size (''sensor_msgs'', ''msg'', ''PointCloud2''),
      Handle (Message ''sensor_msgs'' ''msg'' ''PointCloud2'')]"

definition sensor_msgs__msg__PointCloud2__introspection :: "exported list" where [support_defs]:
  "sensor_msgs__msg__PointCloud2__introspection =
     [Message ''sensor_msgs'' ''msg'' ''PointCloud2'']"

definition sensor_msgs__msg__PointCloud__type_support :: "exported list" where [support_defs]:
  "sensor_msgs__msg__PointCloud__type_support =
     [Message ''sensor_msgs'' ''msg'' ''PointCloud'']"

definition sensor_msgs__msg__PointCloud__microxrcedds :: "xrce_export list" where [support_defs]:
  "sensor_msgs__msg__PointCloud__microxrcedds =
     [Serialized_size (''sensor_msgs'', ''msg'', ''PointCloud''),
      Max_serialized_size (''sensor_msgs'', ''msg'', ''PointCloud''),
      Handle (Message ''sensor_msgs'' ''msg'' ''PointCloud'')]"

definition sensor_msgs__msg__PointCloud__introspection :: "exported list" where [support_defs]:
  "sensor_msgs__msg__PointCloud__introspection =
     [Message ''sensor_msgs'' ''msg'' ''PointCloud'']"

definition sensor_msgs__msg__PointField__type_support :: "exported list" where [support_defs]:
  "sensor_msgs__msg__PointField__type_support =
     [Message ''sensor_msgs'' ''msg'' ''PointField'']"

definition sensor_msgs__msg__PointField__microxrcedds :: "xrce_export list" where [support_defs]:
  "sensor_msgs__msg__PointField__microxrcedds =
     [Serialized_size (''sensor_msgs'', ''msg'', ''PointField''),
      Max_serialized_size (''sensor_msgs'', ''msg'', ''PointField''),
      Handle (Message ''sensor_msgs'' ''msg'' ''PointField'')]"

definition sensor_msgs__msg__PointField__introspection :: "exported list" where [support_defs]:
  "sensor_msgs__msg__PointField__introspection =
     [Message ''sensor_msgs'' ''msg'' ''PointField'']"

definition sensor_msgs__msg__Range__type_support :: "exported list" where [support_defs]:
  "sensor_msgs__msg__Range__type_support =
     [Message ''sensor_msgs'' ''msg'' ''Range'']"

definition sensor_msgs__msg__Range__microxrcedds :: "xrce_export list" where [support_defs]:
  "sensor_msgs__msg__Range__microxrcedds =
     [Serialized_size (''sensor_msgs'', ''msg'', ''Range''),
      Max_serialized_size (''sensor_msgs'', ''msg'', ''Range''),
      Handle (Message ''sensor_msgs'' ''msg'' ''Range'')]"

definition sensor_msgs__msg__Range__introspection :: "exported list" where [support_defs]:
  "sensor_msgs__msg__Range__introspection =
     [Message ''sensor_msgs'' ''msg'' ''Range'']"

definition sensor_msgs__msg__RegionOfInterest__type_support :: "exported list" where [support_defs]:
  "sensor_msgs__msg__RegionOfInterest__type_support =
     [Message ''sensor_msgs'' ''msg'' ''RegionOfInterest'']"

definition sensor_msgs__msg__RegionOfInterest__microxrcedds :: "xrce_export list" where [support_defs]:
  "sensor_msgs__msg__RegionOfInterest__microxrcedds =
     [Serialized_size (''sensor_msgs'', ''msg'', ''RegionOfInterest''),
      Max_serialized_size (''sensor_msgs'', ''msg'', ''RegionOfInterest''),
      Handle (Message ''sensor_msgs'' ''msg'' ''RegionOfInterest'')]"

definition sensor_msgs__msg__RegionOfInterest__introspection :: "exported list" where [support_defs]:
  "sensor_msgs__msg__RegionOfInterest__introspection =
     [Message ''sensor_msgs'' ''msg'' ''RegionOfInterest'']"

definition sensor_msgs__msg__RelativeHumidity__type_support :: "exported list" where [support_defs]:
  "sensor_msgs__msg__RelativeHumidity__type_support =
     [Message ''sensor_msgs'' ''msg'' ''RelativeHumidity'']"

definition sensor_msgs__msg__RelativeHumidity__microxrcedds :: "xrce_export list" where [support_defs]:
  "sensor_msgs__msg__RelativeHumidity__microxrcedds =
     [Serialized_size (''sensor_msgs'', ''msg'', ''RelativeHumidity''),
      Max_serialized_size (''sensor_msgs'', ''msg'', ''RelativeHumidity''),
      Handle (Message ''sensor_msgs'' ''msg'' ''RelativeHumidity'')]"

definition sensor_msgs__msg__RelativeHumidity__introspection :: "exported list" where [support_defs]:
  "sensor_msgs__msg__RelativeHumidity__introspection =
     [Message ''sensor_msgs'' ''msg'' ''RelativeHumidity'']"

definition sensor_msgs__msg__Temperature__type_support :: "exported list" where [support_defs]:
  "sensor_msgs__msg__Temperature__type_support =
     [Message ''sensor_msgs'' ''msg'' ''Temperature'']"

definition sensor_msgs__msg__Temperature__microxrcedds :: "xrce_export list" where [support_defs]:
  "sensor_msgs__msg__Temperature__microxrcedds =
     [Serialized_size (''sensor_msgs'', ''msg'', ''Temperature''),
      Max_serialized_size (''sensor_msgs'', ''msg'', ''Temperature''),
      Handle (Message ''sensor_msgs'' ''msg'' ''Temperature'')]"

definition sensor_msgs__msg__Temperature__introspection :: "exported list" where [support_defs]:
  "sensor_msgs__msg__Temperature__introspection =
     [Message ''sensor_msgs'' ''msg'' ''Temperature'']"

definition sensor_msgs__msg__TimeReference__type_support :: "exported list" where [support_defs]:
  "sensor_msgs__msg__TimeReference__type_support =
     [Message ''sensor_msgs'' ''msg'' ''TimeReference'']"

definition sensor_msgs__msg__TimeReference__microxrcedds :: "xrce_export list" where [support_defs]:
  "sensor_msgs__msg__TimeReference__microxrcedds =
     [Serialized_size (''sensor_msgs'', ''msg'', ''TimeReference''),
      Max_serialized_size (''sensor_msgs'', ''msg'', ''TimeReference''),
      Handle (Message ''sensor_msgs'' ''msg'' ''TimeReference'')]"

definition sensor_msgs__msg__TimeReference__introspection :: "exported list" where [support_defs]:
  "sensor_msgs__msg__TimeReference__introspection =
     [Message ''sensor_msgs'' ''msg'' ''TimeReference'']"

definition sensor_msgs__srv__SetCameraInfo__type_support :: "exported list" where [support_defs]:
  "sensor_msgs__srv__SetCameraInfo__type_support =
     [Message ''sensor_msgs'' ''srv'' ''SetCameraInfo_Request'',
      Message ''sensor_msgs'' ''srv'' ''SetCameraInfo_Response'',
      Message ''sensor_msgs'' ''srv'' ''SetCameraInfo_Event'', Service ''sensor_msgs'' ''srv'' ''SetCameraInfo'',
      Create_event ''sensor_msgs'' ''srv'' ''SetCameraInfo'',
      Destroy_event ''sensor_msgs'' ''srv'' ''SetCameraInfo'']"

definition sensor_msgs__srv__SetCameraInfo__microxrcedds :: "xrce_export list" where [support_defs]:
  "sensor_msgs__srv__SetCameraInfo__microxrcedds =
     [Serialized_size (''sensor_msgs'', ''srv'', ''SetCameraInfo_Request''),
      Max_serialized_size (''sensor_msgs'', ''srv'', ''SetCameraInfo_Request''),
      Handle (Message ''sensor_msgs'' ''srv'' ''SetCameraInfo_Request''),
      Serialized_size (''sensor_msgs'', ''srv'', ''SetCameraInfo_Response''),
      Max_serialized_size (''sensor_msgs'', ''srv'', ''SetCameraInfo_Response''),
      Handle (Message ''sensor_msgs'' ''srv'' ''SetCameraInfo_Response''),
      Serialized_size (''sensor_msgs'', ''srv'', ''SetCameraInfo_Event''),
      Max_serialized_size (''sensor_msgs'', ''srv'', ''SetCameraInfo_Event''),
      Handle (Message ''sensor_msgs'' ''srv'' ''SetCameraInfo_Event''),
      Handle (Service ''sensor_msgs'' ''srv'' ''SetCameraInfo'')]"

definition sensor_msgs__srv__SetCameraInfo__introspection :: "exported list" where [support_defs]:
  "sensor_msgs__srv__SetCameraInfo__introspection =
     [Message ''sensor_msgs'' ''srv'' ''SetCameraInfo_Request'',
      Message ''sensor_msgs'' ''srv'' ''SetCameraInfo_Response'',
      Message ''sensor_msgs'' ''srv'' ''SetCameraInfo_Event'', Service ''sensor_msgs'' ''srv'' ''SetCameraInfo'']"

subsection \<open>Package nav msgs\<close>

definition nav_msgs__msg__Goals__type_support :: "exported list" where [support_defs]:
  "nav_msgs__msg__Goals__type_support =
     [Message ''nav_msgs'' ''msg'' ''Goals'']"

definition nav_msgs__msg__Goals__microxrcedds :: "xrce_export list" where [support_defs]:
  "nav_msgs__msg__Goals__microxrcedds =
     [Serialized_size (''nav_msgs'', ''msg'', ''Goals''), Max_serialized_size (''nav_msgs'', ''msg'', ''Goals''),
      Handle (Message ''nav_msgs'' ''msg'' ''Goals'')]"

definition nav_msgs__msg__Goals__introspection :: "exported list" where [support_defs]:
  "nav_msgs__msg__Goals__introspection =
     [Message ''nav_msgs'' ''msg'' ''Goals'']"

definition nav_msgs__msg__GridCells__type_support :: "exported list" where [support_defs]:
  "nav_msgs__msg__GridCells__type_support =
     [Message ''nav_msgs'' ''msg'' ''GridCells'']"

definition nav_msgs__msg__GridCells__microxrcedds :: "xrce_export list" where [support_defs]:
  "nav_msgs__msg__GridCells__microxrcedds =
     [Serialized_size (''nav_msgs'', ''msg'', ''GridCells''),
      Max_serialized_size (''nav_msgs'', ''msg'', ''GridCells''),
      Handle (Message ''nav_msgs'' ''msg'' ''GridCells'')]"

definition nav_msgs__msg__GridCells__introspection :: "exported list" where [support_defs]:
  "nav_msgs__msg__GridCells__introspection =
     [Message ''nav_msgs'' ''msg'' ''GridCells'']"

definition nav_msgs__msg__MapMetaData__type_support :: "exported list" where [support_defs]:
  "nav_msgs__msg__MapMetaData__type_support =
     [Message ''nav_msgs'' ''msg'' ''MapMetaData'']"

definition nav_msgs__msg__MapMetaData__microxrcedds :: "xrce_export list" where [support_defs]:
  "nav_msgs__msg__MapMetaData__microxrcedds =
     [Serialized_size (''nav_msgs'', ''msg'', ''MapMetaData''),
      Max_serialized_size (''nav_msgs'', ''msg'', ''MapMetaData''),
      Handle (Message ''nav_msgs'' ''msg'' ''MapMetaData'')]"

definition nav_msgs__msg__MapMetaData__introspection :: "exported list" where [support_defs]:
  "nav_msgs__msg__MapMetaData__introspection =
     [Message ''nav_msgs'' ''msg'' ''MapMetaData'']"

definition nav_msgs__msg__OccupancyGrid__type_support :: "exported list" where [support_defs]:
  "nav_msgs__msg__OccupancyGrid__type_support =
     [Message ''nav_msgs'' ''msg'' ''OccupancyGrid'']"

definition nav_msgs__msg__OccupancyGrid__microxrcedds :: "xrce_export list" where [support_defs]:
  "nav_msgs__msg__OccupancyGrid__microxrcedds =
     [Serialized_size (''nav_msgs'', ''msg'', ''OccupancyGrid''),
      Max_serialized_size (''nav_msgs'', ''msg'', ''OccupancyGrid''),
      Handle (Message ''nav_msgs'' ''msg'' ''OccupancyGrid'')]"

definition nav_msgs__msg__OccupancyGrid__introspection :: "exported list" where [support_defs]:
  "nav_msgs__msg__OccupancyGrid__introspection =
     [Message ''nav_msgs'' ''msg'' ''OccupancyGrid'']"

definition nav_msgs__msg__Odometry__type_support :: "exported list" where [support_defs]:
  "nav_msgs__msg__Odometry__type_support =
     [Message ''nav_msgs'' ''msg'' ''Odometry'']"

definition nav_msgs__msg__Odometry__microxrcedds :: "xrce_export list" where [support_defs]:
  "nav_msgs__msg__Odometry__microxrcedds =
     [Serialized_size (''nav_msgs'', ''msg'', ''Odometry''),
      Max_serialized_size (''nav_msgs'', ''msg'', ''Odometry''),
      Handle (Message ''nav_msgs'' ''msg'' ''Odometry'')]"

definition nav_msgs__msg__Odometry__introspection :: "exported list" where [support_defs]:
  "nav_msgs__msg__Odometry__introspection =
     [Message ''nav_msgs'' ''msg'' ''Odometry'']"

definition nav_msgs__msg__Path__type_support :: "exported list" where [support_defs]:
  "nav_msgs__msg__Path__type_support =
     [Message ''nav_msgs'' ''msg'' ''Path'']"

definition nav_msgs__msg__Path__microxrcedds :: "xrce_export list" where [support_defs]:
  "nav_msgs__msg__Path__microxrcedds =
     [Serialized_size (''nav_msgs'', ''msg'', ''Path''), Max_serialized_size (''nav_msgs'', ''msg'', ''Path''),
      Handle (Message ''nav_msgs'' ''msg'' ''Path'')]"

definition nav_msgs__msg__Path__introspection :: "exported list" where [support_defs]:
  "nav_msgs__msg__Path__introspection =
     [Message ''nav_msgs'' ''msg'' ''Path'']"

definition nav_msgs__srv__GetMap__type_support :: "exported list" where [support_defs]:
  "nav_msgs__srv__GetMap__type_support =
     [Message ''nav_msgs'' ''srv'' ''GetMap_Request'', Message ''nav_msgs'' ''srv'' ''GetMap_Response'',
      Message ''nav_msgs'' ''srv'' ''GetMap_Event'', Service ''nav_msgs'' ''srv'' ''GetMap'',
      Create_event ''nav_msgs'' ''srv'' ''GetMap'', Destroy_event ''nav_msgs'' ''srv'' ''GetMap'']"

definition nav_msgs__srv__GetMap__microxrcedds :: "xrce_export list" where [support_defs]:
  "nav_msgs__srv__GetMap__microxrcedds =
     [Serialized_size (''nav_msgs'', ''srv'', ''GetMap_Request''),
      Max_serialized_size (''nav_msgs'', ''srv'', ''GetMap_Request''),
      Handle (Message ''nav_msgs'' ''srv'' ''GetMap_Request''),
      Serialized_size (''nav_msgs'', ''srv'', ''GetMap_Response''),
      Max_serialized_size (''nav_msgs'', ''srv'', ''GetMap_Response''),
      Handle (Message ''nav_msgs'' ''srv'' ''GetMap_Response''),
      Serialized_size (''nav_msgs'', ''srv'', ''GetMap_Event''),
      Max_serialized_size (''nav_msgs'', ''srv'', ''GetMap_Event''),
      Handle (Message ''nav_msgs'' ''srv'' ''GetMap_Event''), Handle (Service ''nav_msgs'' ''srv'' ''GetMap'')]"

definition nav_msgs__srv__GetMap__introspection :: "exported list" where [support_defs]:
  "nav_msgs__srv__GetMap__introspection =
     [Message ''nav_msgs'' ''srv'' ''GetMap_Request'', Message ''nav_msgs'' ''srv'' ''GetMap_Response'',
      Message ''nav_msgs'' ''srv'' ''GetMap_Event'', Service ''nav_msgs'' ''srv'' ''GetMap'']"

definition nav_msgs__srv__GetPlan__type_support :: "exported list" where [support_defs]:
  "nav_msgs__srv__GetPlan__type_support =
     [Message ''nav_msgs'' ''srv'' ''GetPlan_Request'', Message ''nav_msgs'' ''srv'' ''GetPlan_Response'',
      Message ''nav_msgs'' ''srv'' ''GetPlan_Event'', Service ''nav_msgs'' ''srv'' ''GetPlan'',
      Create_event ''nav_msgs'' ''srv'' ''GetPlan'', Destroy_event ''nav_msgs'' ''srv'' ''GetPlan'']"

definition nav_msgs__srv__GetPlan__microxrcedds :: "xrce_export list" where [support_defs]:
  "nav_msgs__srv__GetPlan__microxrcedds =
     [Serialized_size (''nav_msgs'', ''srv'', ''GetPlan_Request''),
      Max_serialized_size (''nav_msgs'', ''srv'', ''GetPlan_Request''),
      Handle (Message ''nav_msgs'' ''srv'' ''GetPlan_Request''),
      Serialized_size (''nav_msgs'', ''srv'', ''GetPlan_Response''),
      Max_serialized_size (''nav_msgs'', ''srv'', ''GetPlan_Response''),
      Handle (Message ''nav_msgs'' ''srv'' ''GetPlan_Response''),
      Serialized_size (''nav_msgs'', ''srv'', ''GetPlan_Event''),
      Max_serialized_size (''nav_msgs'', ''srv'', ''GetPlan_Event''),
      Handle (Message ''nav_msgs'' ''srv'' ''GetPlan_Event''), Handle (Service ''nav_msgs'' ''srv'' ''GetPlan'')]"

definition nav_msgs__srv__GetPlan__introspection :: "exported list" where [support_defs]:
  "nav_msgs__srv__GetPlan__introspection =
     [Message ''nav_msgs'' ''srv'' ''GetPlan_Request'', Message ''nav_msgs'' ''srv'' ''GetPlan_Response'',
      Message ''nav_msgs'' ''srv'' ''GetPlan_Event'', Service ''nav_msgs'' ''srv'' ''GetPlan'']"

definition nav_msgs__srv__LoadMap__type_support :: "exported list" where [support_defs]:
  "nav_msgs__srv__LoadMap__type_support =
     [Message ''nav_msgs'' ''srv'' ''LoadMap_Request'', Message ''nav_msgs'' ''srv'' ''LoadMap_Response'',
      Message ''nav_msgs'' ''srv'' ''LoadMap_Event'', Service ''nav_msgs'' ''srv'' ''LoadMap'',
      Create_event ''nav_msgs'' ''srv'' ''LoadMap'', Destroy_event ''nav_msgs'' ''srv'' ''LoadMap'']"

definition nav_msgs__srv__LoadMap__microxrcedds :: "xrce_export list" where [support_defs]:
  "nav_msgs__srv__LoadMap__microxrcedds =
     [Serialized_size (''nav_msgs'', ''srv'', ''LoadMap_Request''),
      Max_serialized_size (''nav_msgs'', ''srv'', ''LoadMap_Request''),
      Handle (Message ''nav_msgs'' ''srv'' ''LoadMap_Request''),
      Serialized_size (''nav_msgs'', ''srv'', ''LoadMap_Response''),
      Max_serialized_size (''nav_msgs'', ''srv'', ''LoadMap_Response''),
      Handle (Message ''nav_msgs'' ''srv'' ''LoadMap_Response''),
      Serialized_size (''nav_msgs'', ''srv'', ''LoadMap_Event''),
      Max_serialized_size (''nav_msgs'', ''srv'', ''LoadMap_Event''),
      Handle (Message ''nav_msgs'' ''srv'' ''LoadMap_Event''), Handle (Service ''nav_msgs'' ''srv'' ''LoadMap'')]"

definition nav_msgs__srv__LoadMap__introspection :: "exported list" where [support_defs]:
  "nav_msgs__srv__LoadMap__introspection =
     [Message ''nav_msgs'' ''srv'' ''LoadMap_Request'', Message ''nav_msgs'' ''srv'' ''LoadMap_Response'',
      Message ''nav_msgs'' ''srv'' ''LoadMap_Event'', Service ''nav_msgs'' ''srv'' ''LoadMap'']"

definition nav_msgs__srv__SetMap__type_support :: "exported list" where [support_defs]:
  "nav_msgs__srv__SetMap__type_support =
     [Message ''nav_msgs'' ''srv'' ''SetMap_Request'', Message ''nav_msgs'' ''srv'' ''SetMap_Response'',
      Message ''nav_msgs'' ''srv'' ''SetMap_Event'', Service ''nav_msgs'' ''srv'' ''SetMap'',
      Create_event ''nav_msgs'' ''srv'' ''SetMap'', Destroy_event ''nav_msgs'' ''srv'' ''SetMap'']"

definition nav_msgs__srv__SetMap__microxrcedds :: "xrce_export list" where [support_defs]:
  "nav_msgs__srv__SetMap__microxrcedds =
     [Serialized_size (''nav_msgs'', ''srv'', ''SetMap_Request''),
      Max_serialized_size (''nav_msgs'', ''srv'', ''SetMap_Request''),
      Handle (Message ''nav_msgs'' ''srv'' ''SetMap_Request''),
      Serialized_size (''nav_msgs'', ''srv'', ''SetMap_Response''),
      Max_serialized_size (''nav_msgs'', ''srv'', ''SetMap_Response''),
      Handle (Message ''nav_msgs'' ''srv'' ''SetMap_Response''),
      Serialized_size (''nav_msgs'', ''srv'', ''SetMap_Event''),
      Max_serialized_size (''nav_msgs'', ''srv'', ''SetMap_Event''),
      Handle (Message ''nav_msgs'' ''srv'' ''SetMap_Event''), Handle (Service ''nav_msgs'' ''srv'' ''SetMap'')]"

definition nav_msgs__srv__SetMap__introspection :: "exported list" where [support_defs]:
  "nav_msgs__srv__SetMap__introspection =
     [Message ''nav_msgs'' ''srv'' ''SetMap_Request'', Message ''nav_msgs'' ''srv'' ''SetMap_Response'',
      Message ''nav_msgs'' ''srv'' ''SetMap_Event'', Service ''nav_msgs'' ''srv'' ''SetMap'']"

subsection \<open>Package stereo msgs\<close>

definition stereo_msgs__msg__DisparityImage__type_support :: "exported list" where [support_defs]:
  "stereo_msgs__msg__DisparityImage__type_support =
     [Message ''stereo_msgs'' ''msg'' ''DisparityImage'']"

definition stereo_msgs__msg__DisparityImage__microxrcedds :: "xrce_export list" where [support_defs]:
  "stereo_msgs__msg__DisparityImage__microxrcedds =
     [Serialized_size (''stereo_msgs'', ''msg'', ''DisparityImage''),
      Max_serialized_size (''stereo_msgs'', ''msg'', ''DisparityImage''),
      Handle (Message ''stereo_msgs'' ''msg'' ''DisparityImage'')]"

definition stereo_msgs__msg__DisparityImage__introspection :: "exported list" where [support_defs]:
  "stereo_msgs__msg__DisparityImage__introspection =
     [Message ''stereo_msgs'' ''msg'' ''DisparityImage'']"

subsection \<open>Package trajectory msgs\<close>

definition trajectory_msgs__msg__JointTrajectory__type_support :: "exported list" where [support_defs]:
  "trajectory_msgs__msg__JointTrajectory__type_support =
     [Message ''trajectory_msgs'' ''msg'' ''JointTrajectory'']"

definition trajectory_msgs__msg__JointTrajectory__microxrcedds :: "xrce_export list" where [support_defs]:
  "trajectory_msgs__msg__JointTrajectory__microxrcedds =
     [Serialized_size (''trajectory_msgs'', ''msg'', ''JointTrajectory''),
      Max_serialized_size (''trajectory_msgs'', ''msg'', ''JointTrajectory''),
      Handle (Message ''trajectory_msgs'' ''msg'' ''JointTrajectory'')]"

definition trajectory_msgs__msg__JointTrajectory__introspection :: "exported list" where [support_defs]:
  "trajectory_msgs__msg__JointTrajectory__introspection =
     [Message ''trajectory_msgs'' ''msg'' ''JointTrajectory'']"

definition trajectory_msgs__msg__JointTrajectoryPoint__type_support :: "exported list" where [support_defs]:
  "trajectory_msgs__msg__JointTrajectoryPoint__type_support =
     [Message ''trajectory_msgs'' ''msg'' ''JointTrajectoryPoint'']"

definition trajectory_msgs__msg__JointTrajectoryPoint__microxrcedds :: "xrce_export list" where [support_defs]:
  "trajectory_msgs__msg__JointTrajectoryPoint__microxrcedds =
     [Serialized_size (''trajectory_msgs'', ''msg'', ''JointTrajectoryPoint''),
      Max_serialized_size (''trajectory_msgs'', ''msg'', ''JointTrajectoryPoint''),
      Handle (Message ''trajectory_msgs'' ''msg'' ''JointTrajectoryPoint'')]"

definition trajectory_msgs__msg__JointTrajectoryPoint__introspection :: "exported list" where [support_defs]:
  "trajectory_msgs__msg__JointTrajectoryPoint__introspection =
     [Message ''trajectory_msgs'' ''msg'' ''JointTrajectoryPoint'']"

definition trajectory_msgs__msg__MultiDOFJointTrajectory__type_support :: "exported list" where [support_defs]:
  "trajectory_msgs__msg__MultiDOFJointTrajectory__type_support =
     [Message ''trajectory_msgs'' ''msg'' ''MultiDOFJointTrajectory'']"

definition trajectory_msgs__msg__MultiDOFJointTrajectory__microxrcedds :: "xrce_export list" where [support_defs]:
  "trajectory_msgs__msg__MultiDOFJointTrajectory__microxrcedds =
     [Serialized_size (''trajectory_msgs'', ''msg'', ''MultiDOFJointTrajectory''),
      Max_serialized_size (''trajectory_msgs'', ''msg'', ''MultiDOFJointTrajectory''),
      Handle (Message ''trajectory_msgs'' ''msg'' ''MultiDOFJointTrajectory'')]"

definition trajectory_msgs__msg__MultiDOFJointTrajectory__introspection :: "exported list" where [support_defs]:
  "trajectory_msgs__msg__MultiDOFJointTrajectory__introspection =
     [Message ''trajectory_msgs'' ''msg'' ''MultiDOFJointTrajectory'']"

definition trajectory_msgs__msg__MultiDOFJointTrajectoryPoint__type_support :: "exported list" where [support_defs]:
  "trajectory_msgs__msg__MultiDOFJointTrajectoryPoint__type_support =
     [Message ''trajectory_msgs'' ''msg'' ''MultiDOFJointTrajectoryPoint'']"

definition trajectory_msgs__msg__MultiDOFJointTrajectoryPoint__microxrcedds :: "xrce_export list" where [support_defs]:
  "trajectory_msgs__msg__MultiDOFJointTrajectoryPoint__microxrcedds =
     [Serialized_size (''trajectory_msgs'', ''msg'', ''MultiDOFJointTrajectoryPoint''),
      Max_serialized_size (''trajectory_msgs'', ''msg'', ''MultiDOFJointTrajectoryPoint''),
      Handle (Message ''trajectory_msgs'' ''msg'' ''MultiDOFJointTrajectoryPoint'')]"

definition trajectory_msgs__msg__MultiDOFJointTrajectoryPoint__introspection :: "exported list" where [support_defs]:
  "trajectory_msgs__msg__MultiDOFJointTrajectoryPoint__introspection =
     [Message ''trajectory_msgs'' ''msg'' ''MultiDOFJointTrajectoryPoint'']"

subsection \<open>Package actionlib msgs\<close>

definition actionlib_msgs__msg__GoalID__type_support :: "exported list" where [support_defs]:
  "actionlib_msgs__msg__GoalID__type_support =
     [Message ''actionlib_msgs'' ''msg'' ''GoalID'']"

definition actionlib_msgs__msg__GoalID__microxrcedds :: "xrce_export list" where [support_defs]:
  "actionlib_msgs__msg__GoalID__microxrcedds =
     [Serialized_size (''actionlib_msgs'', ''msg'', ''GoalID''),
      Max_serialized_size (''actionlib_msgs'', ''msg'', ''GoalID''),
      Handle (Message ''actionlib_msgs'' ''msg'' ''GoalID'')]"

definition actionlib_msgs__msg__GoalID__introspection :: "exported list" where [support_defs]:
  "actionlib_msgs__msg__GoalID__introspection =
     [Message ''actionlib_msgs'' ''msg'' ''GoalID'']"

definition actionlib_msgs__msg__GoalStatus__type_support :: "exported list" where [support_defs]:
  "actionlib_msgs__msg__GoalStatus__type_support =
     [Message ''actionlib_msgs'' ''msg'' ''GoalStatus'']"

definition actionlib_msgs__msg__GoalStatus__microxrcedds :: "xrce_export list" where [support_defs]:
  "actionlib_msgs__msg__GoalStatus__microxrcedds =
     [Serialized_size (''actionlib_msgs'', ''msg'', ''GoalStatus''),
      Max_serialized_size (''actionlib_msgs'', ''msg'', ''GoalStatus''),
      Handle (Message ''actionlib_msgs'' ''msg'' ''GoalStatus'')]"

definition actionlib_msgs__msg__GoalStatus__introspection :: "exported list" where [support_defs]:
  "actionlib_msgs__msg__GoalStatus__introspection =
     [Message ''actionlib_msgs'' ''msg'' ''GoalStatus'']"

definition actionlib_msgs__msg__GoalStatusArray__type_support :: "exported list" where [support_defs]:
  "actionlib_msgs__msg__GoalStatusArray__type_support =
     [Message ''actionlib_msgs'' ''msg'' ''GoalStatusArray'']"

definition actionlib_msgs__msg__GoalStatusArray__microxrcedds :: "xrce_export list" where [support_defs]:
  "actionlib_msgs__msg__GoalStatusArray__microxrcedds =
     [Serialized_size (''actionlib_msgs'', ''msg'', ''GoalStatusArray''),
      Max_serialized_size (''actionlib_msgs'', ''msg'', ''GoalStatusArray''),
      Handle (Message ''actionlib_msgs'' ''msg'' ''GoalStatusArray'')]"

definition actionlib_msgs__msg__GoalStatusArray__introspection :: "exported list" where [support_defs]:
  "actionlib_msgs__msg__GoalStatusArray__introspection =
     [Message ''actionlib_msgs'' ''msg'' ''GoalStatusArray'']"

subsection \<open>Package tf2 msgs\<close>

definition tf2_msgs__action__LookupTransform__type_support :: "exported list" where [support_defs]:
  "tf2_msgs__action__LookupTransform__type_support =
     [Action ''tf2_msgs'' ''LookupTransform'', Message ''tf2_msgs'' ''action'' ''LookupTransform_Goal'',
      Message ''tf2_msgs'' ''action'' ''LookupTransform_Result'',
      Message ''tf2_msgs'' ''action'' ''LookupTransform_Feedback'',
      Message ''tf2_msgs'' ''action'' ''LookupTransform_SendGoal_Request'',
      Message ''tf2_msgs'' ''action'' ''LookupTransform_SendGoal_Response'',
      Message ''tf2_msgs'' ''action'' ''LookupTransform_SendGoal_Event'',
      Service ''tf2_msgs'' ''action'' ''LookupTransform_SendGoal'',
      Create_event ''tf2_msgs'' ''action'' ''LookupTransform_SendGoal'',
      Destroy_event ''tf2_msgs'' ''action'' ''LookupTransform_SendGoal'',
      Message ''tf2_msgs'' ''action'' ''LookupTransform_GetResult_Request'',
      Message ''tf2_msgs'' ''action'' ''LookupTransform_GetResult_Response'',
      Message ''tf2_msgs'' ''action'' ''LookupTransform_GetResult_Event'',
      Service ''tf2_msgs'' ''action'' ''LookupTransform_GetResult'',
      Create_event ''tf2_msgs'' ''action'' ''LookupTransform_GetResult'',
      Destroy_event ''tf2_msgs'' ''action'' ''LookupTransform_GetResult'',
      Message ''tf2_msgs'' ''action'' ''LookupTransform_FeedbackMessage'']"

definition tf2_msgs__action__LookupTransform__microxrcedds :: "xrce_export list" where [support_defs]:
  "tf2_msgs__action__LookupTransform__microxrcedds =
     [Serialized_size (''tf2_msgs'', ''action'', ''LookupTransform_Goal''),
      Max_serialized_size (''tf2_msgs'', ''action'', ''LookupTransform_Goal''),
      Handle (Message ''tf2_msgs'' ''action'' ''LookupTransform_Goal''),
      Serialized_size (''tf2_msgs'', ''action'', ''LookupTransform_Result''),
      Max_serialized_size (''tf2_msgs'', ''action'', ''LookupTransform_Result''),
      Handle (Message ''tf2_msgs'' ''action'' ''LookupTransform_Result''),
      Serialized_size (''tf2_msgs'', ''action'', ''LookupTransform_Feedback''),
      Max_serialized_size (''tf2_msgs'', ''action'', ''LookupTransform_Feedback''),
      Handle (Message ''tf2_msgs'' ''action'' ''LookupTransform_Feedback''),
      Serialized_size (''tf2_msgs'', ''action'', ''LookupTransform_SendGoal_Request''),
      Max_serialized_size (''tf2_msgs'', ''action'', ''LookupTransform_SendGoal_Request''),
      Handle (Message ''tf2_msgs'' ''action'' ''LookupTransform_SendGoal_Request''),
      Serialized_size (''tf2_msgs'', ''action'', ''LookupTransform_SendGoal_Response''),
      Max_serialized_size (''tf2_msgs'', ''action'', ''LookupTransform_SendGoal_Response''),
      Handle (Message ''tf2_msgs'' ''action'' ''LookupTransform_SendGoal_Response''),
      Serialized_size (''tf2_msgs'', ''action'', ''LookupTransform_SendGoal_Event''),
      Max_serialized_size (''tf2_msgs'', ''action'', ''LookupTransform_SendGoal_Event''),
      Handle (Message ''tf2_msgs'' ''action'' ''LookupTransform_SendGoal_Event''),
      Handle (Service ''tf2_msgs'' ''action'' ''LookupTransform_SendGoal''),
      Serialized_size (''tf2_msgs'', ''action'', ''LookupTransform_GetResult_Request''),
      Max_serialized_size (''tf2_msgs'', ''action'', ''LookupTransform_GetResult_Request''),
      Handle (Message ''tf2_msgs'' ''action'' ''LookupTransform_GetResult_Request''),
      Serialized_size (''tf2_msgs'', ''action'', ''LookupTransform_GetResult_Response''),
      Max_serialized_size (''tf2_msgs'', ''action'', ''LookupTransform_GetResult_Response''),
      Handle (Message ''tf2_msgs'' ''action'' ''LookupTransform_GetResult_Response''),
      Serialized_size (''tf2_msgs'', ''action'', ''LookupTransform_GetResult_Event''),
      Max_serialized_size (''tf2_msgs'', ''action'', ''LookupTransform_GetResult_Event''),
      Handle (Message ''tf2_msgs'' ''action'' ''LookupTransform_GetResult_Event''),
      Handle (Service ''tf2_msgs'' ''action'' ''LookupTransform_GetResult''),
      Serialized_size (''tf2_msgs'', ''action'', ''LookupTransform_FeedbackMessage''),
      Max_serialized_size (''tf2_msgs'', ''action'', ''LookupTransform_FeedbackMessage''),
      Handle (Message ''tf2_msgs'' ''action'' ''LookupTransform_FeedbackMessage'')]"

definition tf2_msgs__action__LookupTransform__introspection :: "exported list" where [support_defs]:
  "tf2_msgs__action__LookupTransform__introspection =
     [Message ''tf2_msgs'' ''action'' ''LookupTransform_Goal'',
      Message ''tf2_msgs'' ''action'' ''LookupTransform_Result'',
      Message ''tf2_msgs'' ''action'' ''LookupTransform_Feedback'',
      Message ''tf2_msgs'' ''action'' ''LookupTransform_SendGoal_Request'',
      Message ''tf2_msgs'' ''action'' ''LookupTransform_SendGoal_Response'',
      Message ''tf2_msgs'' ''action'' ''LookupTransform_SendGoal_Event'',
      Service ''tf2_msgs'' ''action'' ''LookupTransform_SendGoal'',
      Message ''tf2_msgs'' ''action'' ''LookupTransform_GetResult_Request'',
      Message ''tf2_msgs'' ''action'' ''LookupTransform_GetResult_Response'',
      Message ''tf2_msgs'' ''action'' ''LookupTransform_GetResult_Event'',
      Service ''tf2_msgs'' ''action'' ''LookupTransform_GetResult'',
      Message ''tf2_msgs'' ''action'' ''LookupTransform_FeedbackMessage'']"

definition tf2_msgs__msg__TF2Error__type_support :: "exported list" where [support_defs]:
  "tf2_msgs__msg__TF2Error__type_support =
     [Message ''tf2_msgs'' ''msg'' ''TF2Error'']"

definition tf2_msgs__msg__TF2Error__microxrcedds :: "xrce_export list" where [support_defs]:
  "tf2_msgs__msg__TF2Error__microxrcedds =
     [Serialized_size (''tf2_msgs'', ''msg'', ''TF2Error''),
      Max_serialized_size (''tf2_msgs'', ''msg'', ''TF2Error''),
      Handle (Message ''tf2_msgs'' ''msg'' ''TF2Error'')]"

definition tf2_msgs__msg__TF2Error__introspection :: "exported list" where [support_defs]:
  "tf2_msgs__msg__TF2Error__introspection =
     [Message ''tf2_msgs'' ''msg'' ''TF2Error'']"

definition tf2_msgs__msg__TFMessage__type_support :: "exported list" where [support_defs]:
  "tf2_msgs__msg__TFMessage__type_support =
     [Message ''tf2_msgs'' ''msg'' ''TFMessage'']"

definition tf2_msgs__msg__TFMessage__microxrcedds :: "xrce_export list" where [support_defs]:
  "tf2_msgs__msg__TFMessage__microxrcedds =
     [Serialized_size (''tf2_msgs'', ''msg'', ''TFMessage''),
      Max_serialized_size (''tf2_msgs'', ''msg'', ''TFMessage''),
      Handle (Message ''tf2_msgs'' ''msg'' ''TFMessage'')]"

definition tf2_msgs__msg__TFMessage__introspection :: "exported list" where [support_defs]:
  "tf2_msgs__msg__TFMessage__introspection =
     [Message ''tf2_msgs'' ''msg'' ''TFMessage'']"

definition tf2_msgs__srv__FrameGraph__type_support :: "exported list" where [support_defs]:
  "tf2_msgs__srv__FrameGraph__type_support =
     [Message ''tf2_msgs'' ''srv'' ''FrameGraph_Request'', Message ''tf2_msgs'' ''srv'' ''FrameGraph_Response'',
      Message ''tf2_msgs'' ''srv'' ''FrameGraph_Event'', Service ''tf2_msgs'' ''srv'' ''FrameGraph'',
      Create_event ''tf2_msgs'' ''srv'' ''FrameGraph'', Destroy_event ''tf2_msgs'' ''srv'' ''FrameGraph'']"

definition tf2_msgs__srv__FrameGraph__microxrcedds :: "xrce_export list" where [support_defs]:
  "tf2_msgs__srv__FrameGraph__microxrcedds =
     [Serialized_size (''tf2_msgs'', ''srv'', ''FrameGraph_Request''),
      Max_serialized_size (''tf2_msgs'', ''srv'', ''FrameGraph_Request''),
      Handle (Message ''tf2_msgs'' ''srv'' ''FrameGraph_Request''),
      Serialized_size (''tf2_msgs'', ''srv'', ''FrameGraph_Response''),
      Max_serialized_size (''tf2_msgs'', ''srv'', ''FrameGraph_Response''),
      Handle (Message ''tf2_msgs'' ''srv'' ''FrameGraph_Response''),
      Serialized_size (''tf2_msgs'', ''srv'', ''FrameGraph_Event''),
      Max_serialized_size (''tf2_msgs'', ''srv'', ''FrameGraph_Event''),
      Handle (Message ''tf2_msgs'' ''srv'' ''FrameGraph_Event''),
      Handle (Service ''tf2_msgs'' ''srv'' ''FrameGraph'')]"

definition tf2_msgs__srv__FrameGraph__introspection :: "exported list" where [support_defs]:
  "tf2_msgs__srv__FrameGraph__introspection =
     [Message ''tf2_msgs'' ''srv'' ''FrameGraph_Request'', Message ''tf2_msgs'' ''srv'' ''FrameGraph_Response'',
      Message ''tf2_msgs'' ''srv'' ''FrameGraph_Event'', Service ''tf2_msgs'' ''srv'' ''FrameGraph'']"

subsection \<open>Package visualization msgs\<close>

definition visualization_msgs__msg__ImageMarker__type_support :: "exported list" where [support_defs]:
  "visualization_msgs__msg__ImageMarker__type_support =
     [Message ''visualization_msgs'' ''msg'' ''ImageMarker'']"

definition visualization_msgs__msg__ImageMarker__microxrcedds :: "xrce_export list" where [support_defs]:
  "visualization_msgs__msg__ImageMarker__microxrcedds =
     [Serialized_size (''visualization_msgs'', ''msg'', ''ImageMarker''),
      Max_serialized_size (''visualization_msgs'', ''msg'', ''ImageMarker''),
      Handle (Message ''visualization_msgs'' ''msg'' ''ImageMarker'')]"

definition visualization_msgs__msg__ImageMarker__introspection :: "exported list" where [support_defs]:
  "visualization_msgs__msg__ImageMarker__introspection =
     [Message ''visualization_msgs'' ''msg'' ''ImageMarker'']"

definition visualization_msgs__msg__InteractiveMarker__type_support :: "exported list" where [support_defs]:
  "visualization_msgs__msg__InteractiveMarker__type_support =
     [Message ''visualization_msgs'' ''msg'' ''InteractiveMarker'']"

definition visualization_msgs__msg__InteractiveMarker__microxrcedds :: "xrce_export list" where [support_defs]:
  "visualization_msgs__msg__InteractiveMarker__microxrcedds =
     [Serialized_size (''visualization_msgs'', ''msg'', ''InteractiveMarker''),
      Max_serialized_size (''visualization_msgs'', ''msg'', ''InteractiveMarker''),
      Handle (Message ''visualization_msgs'' ''msg'' ''InteractiveMarker'')]"

definition visualization_msgs__msg__InteractiveMarker__introspection :: "exported list" where [support_defs]:
  "visualization_msgs__msg__InteractiveMarker__introspection =
     [Message ''visualization_msgs'' ''msg'' ''InteractiveMarker'']"

definition visualization_msgs__msg__InteractiveMarkerControl__type_support :: "exported list" where [support_defs]:
  "visualization_msgs__msg__InteractiveMarkerControl__type_support =
     [Message ''visualization_msgs'' ''msg'' ''InteractiveMarkerControl'']"

definition visualization_msgs__msg__InteractiveMarkerControl__microxrcedds :: "xrce_export list" where [support_defs]:
  "visualization_msgs__msg__InteractiveMarkerControl__microxrcedds =
     [Serialized_size (''visualization_msgs'', ''msg'', ''InteractiveMarkerControl''),
      Max_serialized_size (''visualization_msgs'', ''msg'', ''InteractiveMarkerControl''),
      Handle (Message ''visualization_msgs'' ''msg'' ''InteractiveMarkerControl'')]"

definition visualization_msgs__msg__InteractiveMarkerControl__introspection :: "exported list" where [support_defs]:
  "visualization_msgs__msg__InteractiveMarkerControl__introspection =
     [Message ''visualization_msgs'' ''msg'' ''InteractiveMarkerControl'']"

definition visualization_msgs__msg__InteractiveMarkerFeedback__type_support :: "exported list" where [support_defs]:
  "visualization_msgs__msg__InteractiveMarkerFeedback__type_support =
     [Message ''visualization_msgs'' ''msg'' ''InteractiveMarkerFeedback'']"

definition visualization_msgs__msg__InteractiveMarkerFeedback__microxrcedds :: "xrce_export list" where [support_defs]:
  "visualization_msgs__msg__InteractiveMarkerFeedback__microxrcedds =
     [Serialized_size (''visualization_msgs'', ''msg'', ''InteractiveMarkerFeedback''),
      Max_serialized_size (''visualization_msgs'', ''msg'', ''InteractiveMarkerFeedback''),
      Handle (Message ''visualization_msgs'' ''msg'' ''InteractiveMarkerFeedback'')]"

definition visualization_msgs__msg__InteractiveMarkerFeedback__introspection :: "exported list" where [support_defs]:
  "visualization_msgs__msg__InteractiveMarkerFeedback__introspection =
     [Message ''visualization_msgs'' ''msg'' ''InteractiveMarkerFeedback'']"

definition visualization_msgs__msg__InteractiveMarkerInit__type_support :: "exported list" where [support_defs]:
  "visualization_msgs__msg__InteractiveMarkerInit__type_support =
     [Message ''visualization_msgs'' ''msg'' ''InteractiveMarkerInit'']"

definition visualization_msgs__msg__InteractiveMarkerInit__microxrcedds :: "xrce_export list" where [support_defs]:
  "visualization_msgs__msg__InteractiveMarkerInit__microxrcedds =
     [Serialized_size (''visualization_msgs'', ''msg'', ''InteractiveMarkerInit''),
      Max_serialized_size (''visualization_msgs'', ''msg'', ''InteractiveMarkerInit''),
      Handle (Message ''visualization_msgs'' ''msg'' ''InteractiveMarkerInit'')]"

definition visualization_msgs__msg__InteractiveMarkerInit__introspection :: "exported list" where [support_defs]:
  "visualization_msgs__msg__InteractiveMarkerInit__introspection =
     [Message ''visualization_msgs'' ''msg'' ''InteractiveMarkerInit'']"

definition visualization_msgs__msg__InteractiveMarkerPose__type_support :: "exported list" where [support_defs]:
  "visualization_msgs__msg__InteractiveMarkerPose__type_support =
     [Message ''visualization_msgs'' ''msg'' ''InteractiveMarkerPose'']"

definition visualization_msgs__msg__InteractiveMarkerPose__microxrcedds :: "xrce_export list" where [support_defs]:
  "visualization_msgs__msg__InteractiveMarkerPose__microxrcedds =
     [Serialized_size (''visualization_msgs'', ''msg'', ''InteractiveMarkerPose''),
      Max_serialized_size (''visualization_msgs'', ''msg'', ''InteractiveMarkerPose''),
      Handle (Message ''visualization_msgs'' ''msg'' ''InteractiveMarkerPose'')]"

definition visualization_msgs__msg__InteractiveMarkerPose__introspection :: "exported list" where [support_defs]:
  "visualization_msgs__msg__InteractiveMarkerPose__introspection =
     [Message ''visualization_msgs'' ''msg'' ''InteractiveMarkerPose'']"

definition visualization_msgs__msg__InteractiveMarkerUpdate__type_support :: "exported list" where [support_defs]:
  "visualization_msgs__msg__InteractiveMarkerUpdate__type_support =
     [Message ''visualization_msgs'' ''msg'' ''InteractiveMarkerUpdate'']"

definition visualization_msgs__msg__InteractiveMarkerUpdate__microxrcedds :: "xrce_export list" where [support_defs]:
  "visualization_msgs__msg__InteractiveMarkerUpdate__microxrcedds =
     [Serialized_size (''visualization_msgs'', ''msg'', ''InteractiveMarkerUpdate''),
      Max_serialized_size (''visualization_msgs'', ''msg'', ''InteractiveMarkerUpdate''),
      Handle (Message ''visualization_msgs'' ''msg'' ''InteractiveMarkerUpdate'')]"

definition visualization_msgs__msg__InteractiveMarkerUpdate__introspection :: "exported list" where [support_defs]:
  "visualization_msgs__msg__InteractiveMarkerUpdate__introspection =
     [Message ''visualization_msgs'' ''msg'' ''InteractiveMarkerUpdate'']"

definition visualization_msgs__msg__Marker__type_support :: "exported list" where [support_defs]:
  "visualization_msgs__msg__Marker__type_support =
     [Message ''visualization_msgs'' ''msg'' ''Marker'']"

definition visualization_msgs__msg__Marker__microxrcedds :: "xrce_export list" where [support_defs]:
  "visualization_msgs__msg__Marker__microxrcedds =
     [Serialized_size (''visualization_msgs'', ''msg'', ''Marker''),
      Max_serialized_size (''visualization_msgs'', ''msg'', ''Marker''),
      Handle (Message ''visualization_msgs'' ''msg'' ''Marker'')]"

definition visualization_msgs__msg__Marker__introspection :: "exported list" where [support_defs]:
  "visualization_msgs__msg__Marker__introspection =
     [Message ''visualization_msgs'' ''msg'' ''Marker'']"

definition visualization_msgs__msg__MarkerArray__type_support :: "exported list" where [support_defs]:
  "visualization_msgs__msg__MarkerArray__type_support =
     [Message ''visualization_msgs'' ''msg'' ''MarkerArray'']"

definition visualization_msgs__msg__MarkerArray__microxrcedds :: "xrce_export list" where [support_defs]:
  "visualization_msgs__msg__MarkerArray__microxrcedds =
     [Serialized_size (''visualization_msgs'', ''msg'', ''MarkerArray''),
      Max_serialized_size (''visualization_msgs'', ''msg'', ''MarkerArray''),
      Handle (Message ''visualization_msgs'' ''msg'' ''MarkerArray'')]"

definition visualization_msgs__msg__MarkerArray__introspection :: "exported list" where [support_defs]:
  "visualization_msgs__msg__MarkerArray__introspection =
     [Message ''visualization_msgs'' ''msg'' ''MarkerArray'']"

definition visualization_msgs__msg__MenuEntry__type_support :: "exported list" where [support_defs]:
  "visualization_msgs__msg__MenuEntry__type_support =
     [Message ''visualization_msgs'' ''msg'' ''MenuEntry'']"

definition visualization_msgs__msg__MenuEntry__microxrcedds :: "xrce_export list" where [support_defs]:
  "visualization_msgs__msg__MenuEntry__microxrcedds =
     [Serialized_size (''visualization_msgs'', ''msg'', ''MenuEntry''),
      Max_serialized_size (''visualization_msgs'', ''msg'', ''MenuEntry''),
      Handle (Message ''visualization_msgs'' ''msg'' ''MenuEntry'')]"

definition visualization_msgs__msg__MenuEntry__introspection :: "exported list" where [support_defs]:
  "visualization_msgs__msg__MenuEntry__introspection =
     [Message ''visualization_msgs'' ''msg'' ''MenuEntry'']"

definition visualization_msgs__msg__MeshFile__type_support :: "exported list" where [support_defs]:
  "visualization_msgs__msg__MeshFile__type_support =
     [Message ''visualization_msgs'' ''msg'' ''MeshFile'']"

definition visualization_msgs__msg__MeshFile__microxrcedds :: "xrce_export list" where [support_defs]:
  "visualization_msgs__msg__MeshFile__microxrcedds =
     [Serialized_size (''visualization_msgs'', ''msg'', ''MeshFile''),
      Max_serialized_size (''visualization_msgs'', ''msg'', ''MeshFile''),
      Handle (Message ''visualization_msgs'' ''msg'' ''MeshFile'')]"

definition visualization_msgs__msg__MeshFile__introspection :: "exported list" where [support_defs]:
  "visualization_msgs__msg__MeshFile__introspection =
     [Message ''visualization_msgs'' ''msg'' ''MeshFile'']"

definition visualization_msgs__msg__UVCoordinate__type_support :: "exported list" where [support_defs]:
  "visualization_msgs__msg__UVCoordinate__type_support =
     [Message ''visualization_msgs'' ''msg'' ''UVCoordinate'']"

definition visualization_msgs__msg__UVCoordinate__microxrcedds :: "xrce_export list" where [support_defs]:
  "visualization_msgs__msg__UVCoordinate__microxrcedds =
     [Serialized_size (''visualization_msgs'', ''msg'', ''UVCoordinate''),
      Max_serialized_size (''visualization_msgs'', ''msg'', ''UVCoordinate''),
      Handle (Message ''visualization_msgs'' ''msg'' ''UVCoordinate'')]"

definition visualization_msgs__msg__UVCoordinate__introspection :: "exported list" where [support_defs]:
  "visualization_msgs__msg__UVCoordinate__introspection =
     [Message ''visualization_msgs'' ''msg'' ''UVCoordinate'']"

definition visualization_msgs__srv__GetInteractiveMarkers__type_support :: "exported list" where [support_defs]:
  "visualization_msgs__srv__GetInteractiveMarkers__type_support =
     [Message ''visualization_msgs'' ''srv'' ''GetInteractiveMarkers_Request'',
      Message ''visualization_msgs'' ''srv'' ''GetInteractiveMarkers_Response'',
      Message ''visualization_msgs'' ''srv'' ''GetInteractiveMarkers_Event'',
      Service ''visualization_msgs'' ''srv'' ''GetInteractiveMarkers'',
      Create_event ''visualization_msgs'' ''srv'' ''GetInteractiveMarkers'',
      Destroy_event ''visualization_msgs'' ''srv'' ''GetInteractiveMarkers'']"

definition visualization_msgs__srv__GetInteractiveMarkers__microxrcedds :: "xrce_export list" where [support_defs]:
  "visualization_msgs__srv__GetInteractiveMarkers__microxrcedds =
     [Serialized_size (''visualization_msgs'', ''srv'', ''GetInteractiveMarkers_Request''),
      Max_serialized_size (''visualization_msgs'', ''srv'', ''GetInteractiveMarkers_Request''),
      Handle (Message ''visualization_msgs'' ''srv'' ''GetInteractiveMarkers_Request''),
      Serialized_size (''visualization_msgs'', ''srv'', ''GetInteractiveMarkers_Response''),
      Max_serialized_size (''visualization_msgs'', ''srv'', ''GetInteractiveMarkers_Response''),
      Handle (Message ''visualization_msgs'' ''srv'' ''GetInteractiveMarkers_Response''),
      Serialized_size (''visualization_msgs'', ''srv'', ''GetInteractiveMarkers_Event''),
      Max_serialized_size (''visualization_msgs'', ''srv'', ''GetInteractiveMarkers_Event''),
      Handle (Message ''visualization_msgs'' ''srv'' ''GetInteractiveMarkers_Event''),
      Handle (Service ''visualization_msgs'' ''srv'' ''GetInteractiveMarkers'')]"

definition visualization_msgs__srv__GetInteractiveMarkers__introspection :: "exported list" where [support_defs]:
  "visualization_msgs__srv__GetInteractiveMarkers__introspection =
     [Message ''visualization_msgs'' ''srv'' ''GetInteractiveMarkers_Request'',
      Message ''visualization_msgs'' ''srv'' ''GetInteractiveMarkers_Response'',
      Message ''visualization_msgs'' ''srv'' ''GetInteractiveMarkers_Event'',
      Service ''visualization_msgs'' ''srv'' ''GetInteractiveMarkers'']"

subsection \<open>Package control msgs\<close>

definition control_msgs__action__FollowJointTrajectory__type_support :: "exported list" where [support_defs]:
  "control_msgs__action__FollowJointTrajectory__type_support =
     [Action ''control_msgs'' ''FollowJointTrajectory'',
      Message ''control_msgs'' ''action'' ''FollowJointTrajectory_Goal'',
      Message ''control_msgs'' ''action'' ''FollowJointTrajectory_Result'',
      Message ''control_msgs'' ''action'' ''FollowJointTrajectory_Feedback'',
      Message ''control_msgs'' ''action'' ''FollowJointTrajectory_SendGoal_Request'',
      Message ''control_msgs'' ''action'' ''FollowJointTrajectory_SendGoal_Response'',
      Message ''control_msgs'' ''action'' ''FollowJointTrajectory_SendGoal_Event'',
      Service ''control_msgs'' ''action'' ''FollowJointTrajectory_SendGoal'',
      Create_event ''control_msgs'' ''action'' ''FollowJointTrajectory_SendGoal'',
      Destroy_event ''control_msgs'' ''action'' ''FollowJointTrajectory_SendGoal'',
      Message ''control_msgs'' ''action'' ''FollowJointTrajectory_GetResult_Request'',
      Message ''control_msgs'' ''action'' ''FollowJointTrajectory_GetResult_Response'',
      Message ''control_msgs'' ''action'' ''FollowJointTrajectory_GetResult_Event'',
      Service ''control_msgs'' ''action'' ''FollowJointTrajectory_GetResult'',
      Create_event ''control_msgs'' ''action'' ''FollowJointTrajectory_GetResult'',
      Destroy_event ''control_msgs'' ''action'' ''FollowJointTrajectory_GetResult'',
      Message ''control_msgs'' ''action'' ''FollowJointTrajectory_FeedbackMessage'']"

definition control_msgs__action__FollowJointTrajectory__microxrcedds :: "xrce_export list" where [support_defs]:
  "control_msgs__action__FollowJointTrajectory__microxrcedds =
     [Serialized_size (''control_msgs'', ''action'', ''FollowJointTrajectory_Goal''),
      Max_serialized_size (''control_msgs'', ''action'', ''FollowJointTrajectory_Goal''),
      Handle (Message ''control_msgs'' ''action'' ''FollowJointTrajectory_Goal''),
      Serialized_size (''control_msgs'', ''action'', ''FollowJointTrajectory_Result''),
      Max_serialized_size (''control_msgs'', ''action'', ''FollowJointTrajectory_Result''),
      Handle (Message ''control_msgs'' ''action'' ''FollowJointTrajectory_Result''),
      Serialized_size (''control_msgs'', ''action'', ''FollowJointTrajectory_Feedback''),
      Max_serialized_size (''control_msgs'', ''action'', ''FollowJointTrajectory_Feedback''),
      Handle (Message ''control_msgs'' ''action'' ''FollowJointTrajectory_Feedback''),
      Serialized_size (''control_msgs'', ''action'', ''FollowJointTrajectory_SendGoal_Request''),
      Max_serialized_size (''control_msgs'', ''action'', ''FollowJointTrajectory_SendGoal_Request''),
      Handle (Message ''control_msgs'' ''action'' ''FollowJointTrajectory_SendGoal_Request''),
      Serialized_size (''control_msgs'', ''action'', ''FollowJointTrajectory_SendGoal_Response''),
      Max_serialized_size (''control_msgs'', ''action'', ''FollowJointTrajectory_SendGoal_Response''),
      Handle (Message ''control_msgs'' ''action'' ''FollowJointTrajectory_SendGoal_Response''),
      Serialized_size (''control_msgs'', ''action'', ''FollowJointTrajectory_SendGoal_Event''),
      Max_serialized_size (''control_msgs'', ''action'', ''FollowJointTrajectory_SendGoal_Event''),
      Handle (Message ''control_msgs'' ''action'' ''FollowJointTrajectory_SendGoal_Event''),
      Handle (Service ''control_msgs'' ''action'' ''FollowJointTrajectory_SendGoal''),
      Serialized_size (''control_msgs'', ''action'', ''FollowJointTrajectory_GetResult_Request''),
      Max_serialized_size (''control_msgs'', ''action'', ''FollowJointTrajectory_GetResult_Request''),
      Handle (Message ''control_msgs'' ''action'' ''FollowJointTrajectory_GetResult_Request''),
      Serialized_size (''control_msgs'', ''action'', ''FollowJointTrajectory_GetResult_Response''),
      Max_serialized_size (''control_msgs'', ''action'', ''FollowJointTrajectory_GetResult_Response''),
      Handle (Message ''control_msgs'' ''action'' ''FollowJointTrajectory_GetResult_Response''),
      Serialized_size (''control_msgs'', ''action'', ''FollowJointTrajectory_GetResult_Event''),
      Max_serialized_size (''control_msgs'', ''action'', ''FollowJointTrajectory_GetResult_Event''),
      Handle (Message ''control_msgs'' ''action'' ''FollowJointTrajectory_GetResult_Event''),
      Handle (Service ''control_msgs'' ''action'' ''FollowJointTrajectory_GetResult''),
      Serialized_size (''control_msgs'', ''action'', ''FollowJointTrajectory_FeedbackMessage''),
      Max_serialized_size (''control_msgs'', ''action'', ''FollowJointTrajectory_FeedbackMessage''),
      Handle (Message ''control_msgs'' ''action'' ''FollowJointTrajectory_FeedbackMessage'')]"

definition control_msgs__action__FollowJointTrajectory__introspection :: "exported list" where [support_defs]:
  "control_msgs__action__FollowJointTrajectory__introspection =
     [Message ''control_msgs'' ''action'' ''FollowJointTrajectory_Goal'',
      Message ''control_msgs'' ''action'' ''FollowJointTrajectory_Result'',
      Message ''control_msgs'' ''action'' ''FollowJointTrajectory_Feedback'',
      Message ''control_msgs'' ''action'' ''FollowJointTrajectory_SendGoal_Request'',
      Message ''control_msgs'' ''action'' ''FollowJointTrajectory_SendGoal_Response'',
      Message ''control_msgs'' ''action'' ''FollowJointTrajectory_SendGoal_Event'',
      Service ''control_msgs'' ''action'' ''FollowJointTrajectory_SendGoal'',
      Message ''control_msgs'' ''action'' ''FollowJointTrajectory_GetResult_Request'',
      Message ''control_msgs'' ''action'' ''FollowJointTrajectory_GetResult_Response'',
      Message ''control_msgs'' ''action'' ''FollowJointTrajectory_GetResult_Event'',
      Service ''control_msgs'' ''action'' ''FollowJointTrajectory_GetResult'',
      Message ''control_msgs'' ''action'' ''FollowJointTrajectory_FeedbackMessage'']"

definition control_msgs__action__GripperCommand__type_support :: "exported list" where [support_defs]:
  "control_msgs__action__GripperCommand__type_support =
     [Action ''control_msgs'' ''GripperCommand'', Message ''control_msgs'' ''action'' ''GripperCommand_Goal'',
      Message ''control_msgs'' ''action'' ''GripperCommand_Result'',
      Message ''control_msgs'' ''action'' ''GripperCommand_Feedback'',
      Message ''control_msgs'' ''action'' ''GripperCommand_SendGoal_Request'',
      Message ''control_msgs'' ''action'' ''GripperCommand_SendGoal_Response'',
      Message ''control_msgs'' ''action'' ''GripperCommand_SendGoal_Event'',
      Service ''control_msgs'' ''action'' ''GripperCommand_SendGoal'',
      Create_event ''control_msgs'' ''action'' ''GripperCommand_SendGoal'',
      Destroy_event ''control_msgs'' ''action'' ''GripperCommand_SendGoal'',
      Message ''control_msgs'' ''action'' ''GripperCommand_GetResult_Request'',
      Message ''control_msgs'' ''action'' ''GripperCommand_GetResult_Response'',
      Message ''control_msgs'' ''action'' ''GripperCommand_GetResult_Event'',
      Service ''control_msgs'' ''action'' ''GripperCommand_GetResult'',
      Create_event ''control_msgs'' ''action'' ''GripperCommand_GetResult'',
      Destroy_event ''control_msgs'' ''action'' ''GripperCommand_GetResult'',
      Message ''control_msgs'' ''action'' ''GripperCommand_FeedbackMessage'']"

definition control_msgs__action__GripperCommand__microxrcedds :: "xrce_export list" where [support_defs]:
  "control_msgs__action__GripperCommand__microxrcedds =
     [Serialized_size (''control_msgs'', ''action'', ''GripperCommand_Goal''),
      Max_serialized_size (''control_msgs'', ''action'', ''GripperCommand_Goal''),
      Handle (Message ''control_msgs'' ''action'' ''GripperCommand_Goal''),
      Serialized_size (''control_msgs'', ''action'', ''GripperCommand_Result''),
      Max_serialized_size (''control_msgs'', ''action'', ''GripperCommand_Result''),
      Handle (Message ''control_msgs'' ''action'' ''GripperCommand_Result''),
      Serialized_size (''control_msgs'', ''action'', ''GripperCommand_Feedback''),
      Max_serialized_size (''control_msgs'', ''action'', ''GripperCommand_Feedback''),
      Handle (Message ''control_msgs'' ''action'' ''GripperCommand_Feedback''),
      Serialized_size (''control_msgs'', ''action'', ''GripperCommand_SendGoal_Request''),
      Max_serialized_size (''control_msgs'', ''action'', ''GripperCommand_SendGoal_Request''),
      Handle (Message ''control_msgs'' ''action'' ''GripperCommand_SendGoal_Request''),
      Serialized_size (''control_msgs'', ''action'', ''GripperCommand_SendGoal_Response''),
      Max_serialized_size (''control_msgs'', ''action'', ''GripperCommand_SendGoal_Response''),
      Handle (Message ''control_msgs'' ''action'' ''GripperCommand_SendGoal_Response''),
      Serialized_size (''control_msgs'', ''action'', ''GripperCommand_SendGoal_Event''),
      Max_serialized_size (''control_msgs'', ''action'', ''GripperCommand_SendGoal_Event''),
      Handle (Message ''control_msgs'' ''action'' ''GripperCommand_SendGoal_Event''),
      Handle (Service ''control_msgs'' ''action'' ''GripperCommand_SendGoal''),
      Serialized_size (''control_msgs'', ''action'', ''GripperCommand_GetResult_Request''),
      Max_serialized_size (''control_msgs'', ''action'', ''GripperCommand_GetResult_Request''),
      Handle (Message ''control_msgs'' ''action'' ''GripperCommand_GetResult_Request''),
      Serialized_size (''control_msgs'', ''action'', ''GripperCommand_GetResult_Response''),
      Max_serialized_size (''control_msgs'', ''action'', ''GripperCommand_GetResult_Response''),
      Handle (Message ''control_msgs'' ''action'' ''GripperCommand_GetResult_Response''),
      Serialized_size (''control_msgs'', ''action'', ''GripperCommand_GetResult_Event''),
      Max_serialized_size (''control_msgs'', ''action'', ''GripperCommand_GetResult_Event''),
      Handle (Message ''control_msgs'' ''action'' ''GripperCommand_GetResult_Event''),
      Handle (Service ''control_msgs'' ''action'' ''GripperCommand_GetResult''),
      Serialized_size (''control_msgs'', ''action'', ''GripperCommand_FeedbackMessage''),
      Max_serialized_size (''control_msgs'', ''action'', ''GripperCommand_FeedbackMessage''),
      Handle (Message ''control_msgs'' ''action'' ''GripperCommand_FeedbackMessage'')]"

definition control_msgs__action__GripperCommand__introspection :: "exported list" where [support_defs]:
  "control_msgs__action__GripperCommand__introspection =
     [Message ''control_msgs'' ''action'' ''GripperCommand_Goal'',
      Message ''control_msgs'' ''action'' ''GripperCommand_Result'',
      Message ''control_msgs'' ''action'' ''GripperCommand_Feedback'',
      Message ''control_msgs'' ''action'' ''GripperCommand_SendGoal_Request'',
      Message ''control_msgs'' ''action'' ''GripperCommand_SendGoal_Response'',
      Message ''control_msgs'' ''action'' ''GripperCommand_SendGoal_Event'',
      Service ''control_msgs'' ''action'' ''GripperCommand_SendGoal'',
      Message ''control_msgs'' ''action'' ''GripperCommand_GetResult_Request'',
      Message ''control_msgs'' ''action'' ''GripperCommand_GetResult_Response'',
      Message ''control_msgs'' ''action'' ''GripperCommand_GetResult_Event'',
      Service ''control_msgs'' ''action'' ''GripperCommand_GetResult'',
      Message ''control_msgs'' ''action'' ''GripperCommand_FeedbackMessage'']"

definition control_msgs__action__JointTrajectory__type_support :: "exported list" where [support_defs]:
  "control_msgs__action__JointTrajectory__type_support =
     [Action ''control_msgs'' ''JointTrajectory'', Message ''control_msgs'' ''action'' ''JointTrajectory_Goal'',
      Message ''control_msgs'' ''action'' ''JointTrajectory_Result'',
      Message ''control_msgs'' ''action'' ''JointTrajectory_Feedback'',
      Message ''control_msgs'' ''action'' ''JointTrajectory_SendGoal_Request'',
      Message ''control_msgs'' ''action'' ''JointTrajectory_SendGoal_Response'',
      Message ''control_msgs'' ''action'' ''JointTrajectory_SendGoal_Event'',
      Service ''control_msgs'' ''action'' ''JointTrajectory_SendGoal'',
      Create_event ''control_msgs'' ''action'' ''JointTrajectory_SendGoal'',
      Destroy_event ''control_msgs'' ''action'' ''JointTrajectory_SendGoal'',
      Message ''control_msgs'' ''action'' ''JointTrajectory_GetResult_Request'',
      Message ''control_msgs'' ''action'' ''JointTrajectory_GetResult_Response'',
      Message ''control_msgs'' ''action'' ''JointTrajectory_GetResult_Event'',
      Service ''control_msgs'' ''action'' ''JointTrajectory_GetResult'',
      Create_event ''control_msgs'' ''action'' ''JointTrajectory_GetResult'',
      Destroy_event ''control_msgs'' ''action'' ''JointTrajectory_GetResult'',
      Message ''control_msgs'' ''action'' ''JointTrajectory_FeedbackMessage'']"

definition control_msgs__action__JointTrajectory__microxrcedds :: "xrce_export list" where [support_defs]:
  "control_msgs__action__JointTrajectory__microxrcedds =
     [Serialized_size (''control_msgs'', ''action'', ''JointTrajectory_Goal''),
      Max_serialized_size (''control_msgs'', ''action'', ''JointTrajectory_Goal''),
      Handle (Message ''control_msgs'' ''action'' ''JointTrajectory_Goal''),
      Serialized_size (''control_msgs'', ''action'', ''JointTrajectory_Result''),
      Max_serialized_size (''control_msgs'', ''action'', ''JointTrajectory_Result''),
      Handle (Message ''control_msgs'' ''action'' ''JointTrajectory_Result''),
      Serialized_size (''control_msgs'', ''action'', ''JointTrajectory_Feedback''),
      Max_serialized_size (''control_msgs'', ''action'', ''JointTrajectory_Feedback''),
      Handle (Message ''control_msgs'' ''action'' ''JointTrajectory_Feedback''),
      Serialized_size (''control_msgs'', ''action'', ''JointTrajectory_SendGoal_Request''),
      Max_serialized_size (''control_msgs'', ''action'', ''JointTrajectory_SendGoal_Request''),
      Handle (Message ''control_msgs'' ''action'' ''JointTrajectory_SendGoal_Request''),
      Serialized_size (''control_msgs'', ''action'', ''JointTrajectory_SendGoal_Response''),
      Max_serialized_size (''control_msgs'', ''action'', ''JointTrajectory_SendGoal_Response''),
      Handle (Message ''control_msgs'' ''action'' ''JointTrajectory_SendGoal_Response''),
      Serialized_size (''control_msgs'', ''action'', ''JointTrajectory_SendGoal_Event''),
      Max_serialized_size (''control_msgs'', ''action'', ''JointTrajectory_SendGoal_Event''),
      Handle (Message ''control_msgs'' ''action'' ''JointTrajectory_SendGoal_Event''),
      Handle (Service ''control_msgs'' ''action'' ''JointTrajectory_SendGoal''),
      Serialized_size (''control_msgs'', ''action'', ''JointTrajectory_GetResult_Request''),
      Max_serialized_size (''control_msgs'', ''action'', ''JointTrajectory_GetResult_Request''),
      Handle (Message ''control_msgs'' ''action'' ''JointTrajectory_GetResult_Request''),
      Serialized_size (''control_msgs'', ''action'', ''JointTrajectory_GetResult_Response''),
      Max_serialized_size (''control_msgs'', ''action'', ''JointTrajectory_GetResult_Response''),
      Handle (Message ''control_msgs'' ''action'' ''JointTrajectory_GetResult_Response''),
      Serialized_size (''control_msgs'', ''action'', ''JointTrajectory_GetResult_Event''),
      Max_serialized_size (''control_msgs'', ''action'', ''JointTrajectory_GetResult_Event''),
      Handle (Message ''control_msgs'' ''action'' ''JointTrajectory_GetResult_Event''),
      Handle (Service ''control_msgs'' ''action'' ''JointTrajectory_GetResult''),
      Serialized_size (''control_msgs'', ''action'', ''JointTrajectory_FeedbackMessage''),
      Max_serialized_size (''control_msgs'', ''action'', ''JointTrajectory_FeedbackMessage''),
      Handle (Message ''control_msgs'' ''action'' ''JointTrajectory_FeedbackMessage'')]"

definition control_msgs__action__JointTrajectory__introspection :: "exported list" where [support_defs]:
  "control_msgs__action__JointTrajectory__introspection =
     [Message ''control_msgs'' ''action'' ''JointTrajectory_Goal'',
      Message ''control_msgs'' ''action'' ''JointTrajectory_Result'',
      Message ''control_msgs'' ''action'' ''JointTrajectory_Feedback'',
      Message ''control_msgs'' ''action'' ''JointTrajectory_SendGoal_Request'',
      Message ''control_msgs'' ''action'' ''JointTrajectory_SendGoal_Response'',
      Message ''control_msgs'' ''action'' ''JointTrajectory_SendGoal_Event'',
      Service ''control_msgs'' ''action'' ''JointTrajectory_SendGoal'',
      Message ''control_msgs'' ''action'' ''JointTrajectory_GetResult_Request'',
      Message ''control_msgs'' ''action'' ''JointTrajectory_GetResult_Response'',
      Message ''control_msgs'' ''action'' ''JointTrajectory_GetResult_Event'',
      Service ''control_msgs'' ''action'' ''JointTrajectory_GetResult'',
      Message ''control_msgs'' ''action'' ''JointTrajectory_FeedbackMessage'']"

definition control_msgs__action__PointHead__type_support :: "exported list" where [support_defs]:
  "control_msgs__action__PointHead__type_support =
     [Action ''control_msgs'' ''PointHead'', Message ''control_msgs'' ''action'' ''PointHead_Goal'',
      Message ''control_msgs'' ''action'' ''PointHead_Result'',
      Message ''control_msgs'' ''action'' ''PointHead_Feedback'',
      Message ''control_msgs'' ''action'' ''PointHead_SendGoal_Request'',
      Message ''control_msgs'' ''action'' ''PointHead_SendGoal_Response'',
      Message ''control_msgs'' ''action'' ''PointHead_SendGoal_Event'',
      Service ''control_msgs'' ''action'' ''PointHead_SendGoal'',
      Create_event ''control_msgs'' ''action'' ''PointHead_SendGoal'',
      Destroy_event ''control_msgs'' ''action'' ''PointHead_SendGoal'',
      Message ''control_msgs'' ''action'' ''PointHead_GetResult_Request'',
      Message ''control_msgs'' ''action'' ''PointHead_GetResult_Response'',
      Message ''control_msgs'' ''action'' ''PointHead_GetResult_Event'',
      Service ''control_msgs'' ''action'' ''PointHead_GetResult'',
      Create_event ''control_msgs'' ''action'' ''PointHead_GetResult'',
      Destroy_event ''control_msgs'' ''action'' ''PointHead_GetResult'',
      Message ''control_msgs'' ''action'' ''PointHead_FeedbackMessage'']"

definition control_msgs__action__PointHead__microxrcedds :: "xrce_export list" where [support_defs]:
  "control_msgs__action__PointHead__microxrcedds =
     [Serialized_size (''control_msgs'', ''action'', ''PointHead_Goal''),
      Max_serialized_size (''control_msgs'', ''action'', ''PointHead_Goal''),
      Handle (Message ''control_msgs'' ''action'' ''PointHead_Goal''),
      Serialized_size (''control_msgs'', ''action'', ''PointHead_Result''),
      Max_serialized_size (''control_msgs'', ''action'', ''PointHead_Result''),
      Handle (Message ''control_msgs'' ''action'' ''PointHead_Result''),
      Serialized_size (''control_msgs'', ''action'', ''PointHead_Feedback''),
      Max_serialized_size (''control_msgs'', ''action'', ''PointHead_Feedback''),
      Handle (Message ''control_msgs'' ''action'' ''PointHead_Feedback''),
      Serialized_size (''control_msgs'', ''action'', ''PointHead_SendGoal_Request''),
      Max_serialized_size (''control_msgs'', ''action'', ''PointHead_SendGoal_Request''),
      Handle (Message ''control_msgs'' ''action'' ''PointHead_SendGoal_Request''),
      Serialized_size (''control_msgs'', ''action'', ''PointHead_SendGoal_Response''),
      Max_serialized_size (''control_msgs'', ''action'', ''PointHead_SendGoal_Response''),
      Handle (Message ''control_msgs'' ''action'' ''PointHead_SendGoal_Response''),
      Serialized_size (''control_msgs'', ''action'', ''PointHead_SendGoal_Event''),
      Max_serialized_size (''control_msgs'', ''action'', ''PointHead_SendGoal_Event''),
      Handle (Message ''control_msgs'' ''action'' ''PointHead_SendGoal_Event''),
      Handle (Service ''control_msgs'' ''action'' ''PointHead_SendGoal''),
      Serialized_size (''control_msgs'', ''action'', ''PointHead_GetResult_Request''),
      Max_serialized_size (''control_msgs'', ''action'', ''PointHead_GetResult_Request''),
      Handle (Message ''control_msgs'' ''action'' ''PointHead_GetResult_Request''),
      Serialized_size (''control_msgs'', ''action'', ''PointHead_GetResult_Response''),
      Max_serialized_size (''control_msgs'', ''action'', ''PointHead_GetResult_Response''),
      Handle (Message ''control_msgs'' ''action'' ''PointHead_GetResult_Response''),
      Serialized_size (''control_msgs'', ''action'', ''PointHead_GetResult_Event''),
      Max_serialized_size (''control_msgs'', ''action'', ''PointHead_GetResult_Event''),
      Handle (Message ''control_msgs'' ''action'' ''PointHead_GetResult_Event''),
      Handle (Service ''control_msgs'' ''action'' ''PointHead_GetResult''),
      Serialized_size (''control_msgs'', ''action'', ''PointHead_FeedbackMessage''),
      Max_serialized_size (''control_msgs'', ''action'', ''PointHead_FeedbackMessage''),
      Handle (Message ''control_msgs'' ''action'' ''PointHead_FeedbackMessage'')]"

definition control_msgs__action__PointHead__introspection :: "exported list" where [support_defs]:
  "control_msgs__action__PointHead__introspection =
     [Message ''control_msgs'' ''action'' ''PointHead_Goal'',
      Message ''control_msgs'' ''action'' ''PointHead_Result'',
      Message ''control_msgs'' ''action'' ''PointHead_Feedback'',
      Message ''control_msgs'' ''action'' ''PointHead_SendGoal_Request'',
      Message ''control_msgs'' ''action'' ''PointHead_SendGoal_Response'',
      Message ''control_msgs'' ''action'' ''PointHead_SendGoal_Event'',
      Service ''control_msgs'' ''action'' ''PointHead_SendGoal'',
      Message ''control_msgs'' ''action'' ''PointHead_GetResult_Request'',
      Message ''control_msgs'' ''action'' ''PointHead_GetResult_Response'',
      Message ''control_msgs'' ''action'' ''PointHead_GetResult_Event'',
      Service ''control_msgs'' ''action'' ''PointHead_GetResult'',
      Message ''control_msgs'' ''action'' ''PointHead_FeedbackMessage'']"

definition control_msgs__action__SingleJointPosition__type_support :: "exported list" where [support_defs]:
  "control_msgs__action__SingleJointPosition__type_support =
     [Action ''control_msgs'' ''SingleJointPosition'',
      Message ''control_msgs'' ''action'' ''SingleJointPosition_Goal'',
      Message ''control_msgs'' ''action'' ''SingleJointPosition_Result'',
      Message ''control_msgs'' ''action'' ''SingleJointPosition_Feedback'',
      Message ''control_msgs'' ''action'' ''SingleJointPosition_SendGoal_Request'',
      Message ''control_msgs'' ''action'' ''SingleJointPosition_SendGoal_Response'',
      Message ''control_msgs'' ''action'' ''SingleJointPosition_SendGoal_Event'',
      Service ''control_msgs'' ''action'' ''SingleJointPosition_SendGoal'',
      Create_event ''control_msgs'' ''action'' ''SingleJointPosition_SendGoal'',
      Destroy_event ''control_msgs'' ''action'' ''SingleJointPosition_SendGoal'',
      Message ''control_msgs'' ''action'' ''SingleJointPosition_GetResult_Request'',
      Message ''control_msgs'' ''action'' ''SingleJointPosition_GetResult_Response'',
      Message ''control_msgs'' ''action'' ''SingleJointPosition_GetResult_Event'',
      Service ''control_msgs'' ''action'' ''SingleJointPosition_GetResult'',
      Create_event ''control_msgs'' ''action'' ''SingleJointPosition_GetResult'',
      Destroy_event ''control_msgs'' ''action'' ''SingleJointPosition_GetResult'',
      Message ''control_msgs'' ''action'' ''SingleJointPosition_FeedbackMessage'']"

definition control_msgs__action__SingleJointPosition__microxrcedds :: "xrce_export list" where [support_defs]:
  "control_msgs__action__SingleJointPosition__microxrcedds =
     [Serialized_size (''control_msgs'', ''action'', ''SingleJointPosition_Goal''),
      Max_serialized_size (''control_msgs'', ''action'', ''SingleJointPosition_Goal''),
      Handle (Message ''control_msgs'' ''action'' ''SingleJointPosition_Goal''),
      Serialized_size (''control_msgs'', ''action'', ''SingleJointPosition_Result''),
      Max_serialized_size (''control_msgs'', ''action'', ''SingleJointPosition_Result''),
      Handle (Message ''control_msgs'' ''action'' ''SingleJointPosition_Result''),
      Serialized_size (''control_msgs'', ''action'', ''SingleJointPosition_Feedback''),
      Max_serialized_size (''control_msgs'', ''action'', ''SingleJointPosition_Feedback''),
      Handle (Message ''control_msgs'' ''action'' ''SingleJointPosition_Feedback''),
      Serialized_size (''control_msgs'', ''action'', ''SingleJointPosition_SendGoal_Request''),
      Max_serialized_size (''control_msgs'', ''action'', ''SingleJointPosition_SendGoal_Request''),
      Handle (Message ''control_msgs'' ''action'' ''SingleJointPosition_SendGoal_Request''),
      Serialized_size (''control_msgs'', ''action'', ''SingleJointPosition_SendGoal_Response''),
      Max_serialized_size (''control_msgs'', ''action'', ''SingleJointPosition_SendGoal_Response''),
      Handle (Message ''control_msgs'' ''action'' ''SingleJointPosition_SendGoal_Response''),
      Serialized_size (''control_msgs'', ''action'', ''SingleJointPosition_SendGoal_Event''),
      Max_serialized_size (''control_msgs'', ''action'', ''SingleJointPosition_SendGoal_Event''),
      Handle (Message ''control_msgs'' ''action'' ''SingleJointPosition_SendGoal_Event''),
      Handle (Service ''control_msgs'' ''action'' ''SingleJointPosition_SendGoal''),
      Serialized_size (''control_msgs'', ''action'', ''SingleJointPosition_GetResult_Request''),
      Max_serialized_size (''control_msgs'', ''action'', ''SingleJointPosition_GetResult_Request''),
      Handle (Message ''control_msgs'' ''action'' ''SingleJointPosition_GetResult_Request''),
      Serialized_size (''control_msgs'', ''action'', ''SingleJointPosition_GetResult_Response''),
      Max_serialized_size (''control_msgs'', ''action'', ''SingleJointPosition_GetResult_Response''),
      Handle (Message ''control_msgs'' ''action'' ''SingleJointPosition_GetResult_Response''),
      Serialized_size (''control_msgs'', ''action'', ''SingleJointPosition_GetResult_Event''),
      Max_serialized_size (''control_msgs'', ''action'', ''SingleJointPosition_GetResult_Event''),
      Handle (Message ''control_msgs'' ''action'' ''SingleJointPosition_GetResult_Event''),
      Handle (Service ''control_msgs'' ''action'' ''SingleJointPosition_GetResult''),
      Serialized_size (''control_msgs'', ''action'', ''SingleJointPosition_FeedbackMessage''),
      Max_serialized_size (''control_msgs'', ''action'', ''SingleJointPosition_FeedbackMessage''),
      Handle (Message ''control_msgs'' ''action'' ''SingleJointPosition_FeedbackMessage'')]"

definition control_msgs__action__SingleJointPosition__introspection :: "exported list" where [support_defs]:
  "control_msgs__action__SingleJointPosition__introspection =
     [Message ''control_msgs'' ''action'' ''SingleJointPosition_Goal'',
      Message ''control_msgs'' ''action'' ''SingleJointPosition_Result'',
      Message ''control_msgs'' ''action'' ''SingleJointPosition_Feedback'',
      Message ''control_msgs'' ''action'' ''SingleJointPosition_SendGoal_Request'',
      Message ''control_msgs'' ''action'' ''SingleJointPosition_SendGoal_Response'',
      Message ''control_msgs'' ''action'' ''SingleJointPosition_SendGoal_Event'',
      Service ''control_msgs'' ''action'' ''SingleJointPosition_SendGoal'',
      Message ''control_msgs'' ''action'' ''SingleJointPosition_GetResult_Request'',
      Message ''control_msgs'' ''action'' ''SingleJointPosition_GetResult_Response'',
      Message ''control_msgs'' ''action'' ''SingleJointPosition_GetResult_Event'',
      Service ''control_msgs'' ''action'' ''SingleJointPosition_GetResult'',
      Message ''control_msgs'' ''action'' ''SingleJointPosition_FeedbackMessage'']"

definition control_msgs__msg__DynamicJointState__type_support :: "exported list" where [support_defs]:
  "control_msgs__msg__DynamicJointState__type_support =
     [Message ''control_msgs'' ''msg'' ''DynamicJointState'']"

definition control_msgs__msg__DynamicJointState__microxrcedds :: "xrce_export list" where [support_defs]:
  "control_msgs__msg__DynamicJointState__microxrcedds =
     [Serialized_size (''control_msgs'', ''msg'', ''DynamicJointState''),
      Max_serialized_size (''control_msgs'', ''msg'', ''DynamicJointState''),
      Handle (Message ''control_msgs'' ''msg'' ''DynamicJointState'')]"

definition control_msgs__msg__DynamicJointState__introspection :: "exported list" where [support_defs]:
  "control_msgs__msg__DynamicJointState__introspection =
     [Message ''control_msgs'' ''msg'' ''DynamicJointState'']"

definition control_msgs__msg__GripperCommand__type_support :: "exported list" where [support_defs]:
  "control_msgs__msg__GripperCommand__type_support =
     [Message ''control_msgs'' ''msg'' ''GripperCommand'']"

definition control_msgs__msg__GripperCommand__microxrcedds :: "xrce_export list" where [support_defs]:
  "control_msgs__msg__GripperCommand__microxrcedds =
     [Serialized_size (''control_msgs'', ''msg'', ''GripperCommand''),
      Max_serialized_size (''control_msgs'', ''msg'', ''GripperCommand''),
      Handle (Message ''control_msgs'' ''msg'' ''GripperCommand'')]"

definition control_msgs__msg__GripperCommand__introspection :: "exported list" where [support_defs]:
  "control_msgs__msg__GripperCommand__introspection =
     [Message ''control_msgs'' ''msg'' ''GripperCommand'']"

definition control_msgs__msg__InterfaceValue__type_support :: "exported list" where [support_defs]:
  "control_msgs__msg__InterfaceValue__type_support =
     [Message ''control_msgs'' ''msg'' ''InterfaceValue'']"

definition control_msgs__msg__InterfaceValue__microxrcedds :: "xrce_export list" where [support_defs]:
  "control_msgs__msg__InterfaceValue__microxrcedds =
     [Serialized_size (''control_msgs'', ''msg'', ''InterfaceValue''),
      Max_serialized_size (''control_msgs'', ''msg'', ''InterfaceValue''),
      Handle (Message ''control_msgs'' ''msg'' ''InterfaceValue'')]"

definition control_msgs__msg__InterfaceValue__introspection :: "exported list" where [support_defs]:
  "control_msgs__msg__InterfaceValue__introspection =
     [Message ''control_msgs'' ''msg'' ''InterfaceValue'']"

definition control_msgs__msg__JointComponentTolerance__type_support :: "exported list" where [support_defs]:
  "control_msgs__msg__JointComponentTolerance__type_support =
     [Message ''control_msgs'' ''msg'' ''JointComponentTolerance'']"

definition control_msgs__msg__JointComponentTolerance__microxrcedds :: "xrce_export list" where [support_defs]:
  "control_msgs__msg__JointComponentTolerance__microxrcedds =
     [Serialized_size (''control_msgs'', ''msg'', ''JointComponentTolerance''),
      Max_serialized_size (''control_msgs'', ''msg'', ''JointComponentTolerance''),
      Handle (Message ''control_msgs'' ''msg'' ''JointComponentTolerance'')]"

definition control_msgs__msg__JointComponentTolerance__introspection :: "exported list" where [support_defs]:
  "control_msgs__msg__JointComponentTolerance__introspection =
     [Message ''control_msgs'' ''msg'' ''JointComponentTolerance'']"

definition control_msgs__msg__JointControllerState__type_support :: "exported list" where [support_defs]:
  "control_msgs__msg__JointControllerState__type_support =
     [Message ''control_msgs'' ''msg'' ''JointControllerState'']"

definition control_msgs__msg__JointControllerState__microxrcedds :: "xrce_export list" where [support_defs]:
  "control_msgs__msg__JointControllerState__microxrcedds =
     [Serialized_size (''control_msgs'', ''msg'', ''JointControllerState''),
      Max_serialized_size (''control_msgs'', ''msg'', ''JointControllerState''),
      Handle (Message ''control_msgs'' ''msg'' ''JointControllerState'')]"

definition control_msgs__msg__JointControllerState__introspection :: "exported list" where [support_defs]:
  "control_msgs__msg__JointControllerState__introspection =
     [Message ''control_msgs'' ''msg'' ''JointControllerState'']"

definition control_msgs__msg__JointJog__type_support :: "exported list" where [support_defs]:
  "control_msgs__msg__JointJog__type_support =
     [Message ''control_msgs'' ''msg'' ''JointJog'']"

definition control_msgs__msg__JointJog__microxrcedds :: "xrce_export list" where [support_defs]:
  "control_msgs__msg__JointJog__microxrcedds =
     [Serialized_size (''control_msgs'', ''msg'', ''JointJog''),
      Max_serialized_size (''control_msgs'', ''msg'', ''JointJog''),
      Handle (Message ''control_msgs'' ''msg'' ''JointJog'')]"

definition control_msgs__msg__JointJog__introspection :: "exported list" where [support_defs]:
  "control_msgs__msg__JointJog__introspection =
     [Message ''control_msgs'' ''msg'' ''JointJog'']"

definition control_msgs__msg__JointTolerance__type_support :: "exported list" where [support_defs]:
  "control_msgs__msg__JointTolerance__type_support =
     [Message ''control_msgs'' ''msg'' ''JointTolerance'']"

definition control_msgs__msg__JointTolerance__microxrcedds :: "xrce_export list" where [support_defs]:
  "control_msgs__msg__JointTolerance__microxrcedds =
     [Serialized_size (''control_msgs'', ''msg'', ''JointTolerance''),
      Max_serialized_size (''control_msgs'', ''msg'', ''JointTolerance''),
      Handle (Message ''control_msgs'' ''msg'' ''JointTolerance'')]"

definition control_msgs__msg__JointTolerance__introspection :: "exported list" where [support_defs]:
  "control_msgs__msg__JointTolerance__introspection =
     [Message ''control_msgs'' ''msg'' ''JointTolerance'']"

definition control_msgs__msg__JointTrajectoryControllerState__type_support :: "exported list" where [support_defs]:
  "control_msgs__msg__JointTrajectoryControllerState__type_support =
     [Message ''control_msgs'' ''msg'' ''JointTrajectoryControllerState'']"

definition control_msgs__msg__JointTrajectoryControllerState__microxrcedds :: "xrce_export list" where [support_defs]:
  "control_msgs__msg__JointTrajectoryControllerState__microxrcedds =
     [Serialized_size (''control_msgs'', ''msg'', ''JointTrajectoryControllerState''),
      Max_serialized_size (''control_msgs'', ''msg'', ''JointTrajectoryControllerState''),
      Handle (Message ''control_msgs'' ''msg'' ''JointTrajectoryControllerState'')]"

definition control_msgs__msg__JointTrajectoryControllerState__introspection :: "exported list" where [support_defs]:
  "control_msgs__msg__JointTrajectoryControllerState__introspection =
     [Message ''control_msgs'' ''msg'' ''JointTrajectoryControllerState'']"

definition control_msgs__msg__PidState__type_support :: "exported list" where [support_defs]:
  "control_msgs__msg__PidState__type_support =
     [Message ''control_msgs'' ''msg'' ''PidState'']"

definition control_msgs__msg__PidState__microxrcedds :: "xrce_export list" where [support_defs]:
  "control_msgs__msg__PidState__microxrcedds =
     [Serialized_size (''control_msgs'', ''msg'', ''PidState''),
      Max_serialized_size (''control_msgs'', ''msg'', ''PidState''),
      Handle (Message ''control_msgs'' ''msg'' ''PidState'')]"

definition control_msgs__msg__PidState__introspection :: "exported list" where [support_defs]:
  "control_msgs__msg__PidState__introspection =
     [Message ''control_msgs'' ''msg'' ''PidState'']"

definition control_msgs__srv__QueryCalibrationState__type_support :: "exported list" where [support_defs]:
  "control_msgs__srv__QueryCalibrationState__type_support =
     [Message ''control_msgs'' ''srv'' ''QueryCalibrationState_Request'',
      Message ''control_msgs'' ''srv'' ''QueryCalibrationState_Response'',
      Message ''control_msgs'' ''srv'' ''QueryCalibrationState_Event'',
      Service ''control_msgs'' ''srv'' ''QueryCalibrationState'',
      Create_event ''control_msgs'' ''srv'' ''QueryCalibrationState'',
      Destroy_event ''control_msgs'' ''srv'' ''QueryCalibrationState'']"

definition control_msgs__srv__QueryCalibrationState__microxrcedds :: "xrce_export list" where [support_defs]:
  "control_msgs__srv__QueryCalibrationState__microxrcedds =
     [Serialized_size (''control_msgs'', ''srv'', ''QueryCalibrationState_Request''),
      Max_serialized_size (''control_msgs'', ''srv'', ''QueryCalibrationState_Request''),
      Handle (Message ''control_msgs'' ''srv'' ''QueryCalibrationState_Request''),
      Serialized_size (''control_msgs'', ''srv'', ''QueryCalibrationState_Response''),
      Max_serialized_size (''control_msgs'', ''srv'', ''QueryCalibrationState_Response''),
      Handle (Message ''control_msgs'' ''srv'' ''QueryCalibrationState_Response''),
      Serialized_size (''control_msgs'', ''srv'', ''QueryCalibrationState_Event''),
      Max_serialized_size (''control_msgs'', ''srv'', ''QueryCalibrationState_Event''),
      Handle (Message ''control_msgs'' ''srv'' ''QueryCalibrationState_Event''),
      Handle (Service ''control_msgs'' ''srv'' ''QueryCalibrationState'')]"

definition control_msgs__srv__QueryCalibrationState__introspection :: "exported list" where [support_defs]:
  "control_msgs__srv__QueryCalibrationState__introspection =
     [Message ''control_msgs'' ''srv'' ''QueryCalibrationState_Request'',
      Message ''control_msgs'' ''srv'' ''QueryCalibrationState_Response'',
      Message ''control_msgs'' ''srv'' ''QueryCalibrationState_Event'',
      Service ''control_msgs'' ''srv'' ''QueryCalibrationState'']"

definition control_msgs__srv__QueryTrajectoryState__type_support :: "exported list" where [support_defs]:
  "control_msgs__srv__QueryTrajectoryState__type_support =
     [Message ''control_msgs'' ''srv'' ''QueryTrajectoryState_Request'',
      Message ''control_msgs'' ''srv'' ''QueryTrajectoryState_Response'',
      Message ''control_msgs'' ''srv'' ''QueryTrajectoryState_Event'',
      Service ''control_msgs'' ''srv'' ''QueryTrajectoryState'',
      Create_event ''control_msgs'' ''srv'' ''QueryTrajectoryState'',
      Destroy_event ''control_msgs'' ''srv'' ''QueryTrajectoryState'']"

definition control_msgs__srv__QueryTrajectoryState__microxrcedds :: "xrce_export list" where [support_defs]:
  "control_msgs__srv__QueryTrajectoryState__microxrcedds =
     [Serialized_size (''control_msgs'', ''srv'', ''QueryTrajectoryState_Request''),
      Max_serialized_size (''control_msgs'', ''srv'', ''QueryTrajectoryState_Request''),
      Handle (Message ''control_msgs'' ''srv'' ''QueryTrajectoryState_Request''),
      Serialized_size (''control_msgs'', ''srv'', ''QueryTrajectoryState_Response''),
      Max_serialized_size (''control_msgs'', ''srv'', ''QueryTrajectoryState_Response''),
      Handle (Message ''control_msgs'' ''srv'' ''QueryTrajectoryState_Response''),
      Serialized_size (''control_msgs'', ''srv'', ''QueryTrajectoryState_Event''),
      Max_serialized_size (''control_msgs'', ''srv'', ''QueryTrajectoryState_Event''),
      Handle (Message ''control_msgs'' ''srv'' ''QueryTrajectoryState_Event''),
      Handle (Service ''control_msgs'' ''srv'' ''QueryTrajectoryState'')]"

definition control_msgs__srv__QueryTrajectoryState__introspection :: "exported list" where [support_defs]:
  "control_msgs__srv__QueryTrajectoryState__introspection =
     [Message ''control_msgs'' ''srv'' ''QueryTrajectoryState_Request'',
      Message ''control_msgs'' ''srv'' ''QueryTrajectoryState_Response'',
      Message ''control_msgs'' ''srv'' ''QueryTrajectoryState_Event'',
      Service ''control_msgs'' ''srv'' ''QueryTrajectoryState'']"

end
