(* ===== verification/Support_Test.thy ===== *)
theory Support_Test
  imports Header_Symbols
begin

text \<open>
  The type support declared for each interface of the packages for tests: the common one, that of the XRCE
  middleware and the introspection, from the headers \<^verbatim>\<open>*__type_support.h\<close>,
  \<^verbatim>\<open>*__rosidl_typesupport_microxrcedds_c.h\<close> and \<^verbatim>\<open>*__rosidl_typesupport_introspection_c.h\<close>.
\<close>

subsection \<open>Package test msgs\<close>

definition test_msgs__action__Fibonacci__type_support :: "exported list" where [support_defs]:
  "test_msgs__action__Fibonacci__type_support =
     [Action ''test_msgs'' ''Fibonacci'', Message ''test_msgs'' ''action'' ''Fibonacci_Goal'',
      Message ''test_msgs'' ''action'' ''Fibonacci_Result'',
      Message ''test_msgs'' ''action'' ''Fibonacci_Feedback'',
      Message ''test_msgs'' ''action'' ''Fibonacci_SendGoal_Request'',
      Message ''test_msgs'' ''action'' ''Fibonacci_SendGoal_Response'',
      Message ''test_msgs'' ''action'' ''Fibonacci_SendGoal_Event'',
      Service ''test_msgs'' ''action'' ''Fibonacci_SendGoal'',
      Create_event ''test_msgs'' ''action'' ''Fibonacci_SendGoal'',
      Destroy_event ''test_msgs'' ''action'' ''Fibonacci_SendGoal'',
      Message ''test_msgs'' ''action'' ''Fibonacci_GetResult_Request'',
      Message ''test_msgs'' ''action'' ''Fibonacci_GetResult_Response'',
      Message ''test_msgs'' ''action'' ''Fibonacci_GetResult_Event'',
      Service ''test_msgs'' ''action'' ''Fibonacci_GetResult'',
      Create_event ''test_msgs'' ''action'' ''Fibonacci_GetResult'',
      Destroy_event ''test_msgs'' ''action'' ''Fibonacci_GetResult'',
      Message ''test_msgs'' ''action'' ''Fibonacci_FeedbackMessage'']"

definition test_msgs__action__Fibonacci__microxrcedds :: "xrce_export list" where [support_defs]:
  "test_msgs__action__Fibonacci__microxrcedds =
     [Serialized_size (''test_msgs'', ''action'', ''Fibonacci_Goal''),
      Max_serialized_size (''test_msgs'', ''action'', ''Fibonacci_Goal''),
      Handle (Message ''test_msgs'' ''action'' ''Fibonacci_Goal''),
      Serialized_size (''test_msgs'', ''action'', ''Fibonacci_Result''),
      Max_serialized_size (''test_msgs'', ''action'', ''Fibonacci_Result''),
      Handle (Message ''test_msgs'' ''action'' ''Fibonacci_Result''),
      Serialized_size (''test_msgs'', ''action'', ''Fibonacci_Feedback''),
      Max_serialized_size (''test_msgs'', ''action'', ''Fibonacci_Feedback''),
      Handle (Message ''test_msgs'' ''action'' ''Fibonacci_Feedback''),
      Serialized_size (''test_msgs'', ''action'', ''Fibonacci_SendGoal_Request''),
      Max_serialized_size (''test_msgs'', ''action'', ''Fibonacci_SendGoal_Request''),
      Handle (Message ''test_msgs'' ''action'' ''Fibonacci_SendGoal_Request''),
      Serialized_size (''test_msgs'', ''action'', ''Fibonacci_SendGoal_Response''),
      Max_serialized_size (''test_msgs'', ''action'', ''Fibonacci_SendGoal_Response''),
      Handle (Message ''test_msgs'' ''action'' ''Fibonacci_SendGoal_Response''),
      Serialized_size (''test_msgs'', ''action'', ''Fibonacci_SendGoal_Event''),
      Max_serialized_size (''test_msgs'', ''action'', ''Fibonacci_SendGoal_Event''),
      Handle (Message ''test_msgs'' ''action'' ''Fibonacci_SendGoal_Event''),
      Handle (Service ''test_msgs'' ''action'' ''Fibonacci_SendGoal''),
      Serialized_size (''test_msgs'', ''action'', ''Fibonacci_GetResult_Request''),
      Max_serialized_size (''test_msgs'', ''action'', ''Fibonacci_GetResult_Request''),
      Handle (Message ''test_msgs'' ''action'' ''Fibonacci_GetResult_Request''),
      Serialized_size (''test_msgs'', ''action'', ''Fibonacci_GetResult_Response''),
      Max_serialized_size (''test_msgs'', ''action'', ''Fibonacci_GetResult_Response''),
      Handle (Message ''test_msgs'' ''action'' ''Fibonacci_GetResult_Response''),
      Serialized_size (''test_msgs'', ''action'', ''Fibonacci_GetResult_Event''),
      Max_serialized_size (''test_msgs'', ''action'', ''Fibonacci_GetResult_Event''),
      Handle (Message ''test_msgs'' ''action'' ''Fibonacci_GetResult_Event''),
      Handle (Service ''test_msgs'' ''action'' ''Fibonacci_GetResult''),
      Serialized_size (''test_msgs'', ''action'', ''Fibonacci_FeedbackMessage''),
      Max_serialized_size (''test_msgs'', ''action'', ''Fibonacci_FeedbackMessage''),
      Handle (Message ''test_msgs'' ''action'' ''Fibonacci_FeedbackMessage'')]"

definition test_msgs__action__Fibonacci__introspection :: "exported list" where [support_defs]:
  "test_msgs__action__Fibonacci__introspection =
     [Message ''test_msgs'' ''action'' ''Fibonacci_Goal'', Message ''test_msgs'' ''action'' ''Fibonacci_Result'',
      Message ''test_msgs'' ''action'' ''Fibonacci_Feedback'',
      Message ''test_msgs'' ''action'' ''Fibonacci_SendGoal_Request'',
      Message ''test_msgs'' ''action'' ''Fibonacci_SendGoal_Response'',
      Message ''test_msgs'' ''action'' ''Fibonacci_SendGoal_Event'',
      Service ''test_msgs'' ''action'' ''Fibonacci_SendGoal'',
      Message ''test_msgs'' ''action'' ''Fibonacci_GetResult_Request'',
      Message ''test_msgs'' ''action'' ''Fibonacci_GetResult_Response'',
      Message ''test_msgs'' ''action'' ''Fibonacci_GetResult_Event'',
      Service ''test_msgs'' ''action'' ''Fibonacci_GetResult'',
      Message ''test_msgs'' ''action'' ''Fibonacci_FeedbackMessage'']"

definition test_msgs__action__NestedMessage__type_support :: "exported list" where [support_defs]:
  "test_msgs__action__NestedMessage__type_support =
     [Action ''test_msgs'' ''NestedMessage'', Message ''test_msgs'' ''action'' ''NestedMessage_Goal'',
      Message ''test_msgs'' ''action'' ''NestedMessage_Result'',
      Message ''test_msgs'' ''action'' ''NestedMessage_Feedback'',
      Message ''test_msgs'' ''action'' ''NestedMessage_SendGoal_Request'',
      Message ''test_msgs'' ''action'' ''NestedMessage_SendGoal_Response'',
      Message ''test_msgs'' ''action'' ''NestedMessage_SendGoal_Event'',
      Service ''test_msgs'' ''action'' ''NestedMessage_SendGoal'',
      Create_event ''test_msgs'' ''action'' ''NestedMessage_SendGoal'',
      Destroy_event ''test_msgs'' ''action'' ''NestedMessage_SendGoal'',
      Message ''test_msgs'' ''action'' ''NestedMessage_GetResult_Request'',
      Message ''test_msgs'' ''action'' ''NestedMessage_GetResult_Response'',
      Message ''test_msgs'' ''action'' ''NestedMessage_GetResult_Event'',
      Service ''test_msgs'' ''action'' ''NestedMessage_GetResult'',
      Create_event ''test_msgs'' ''action'' ''NestedMessage_GetResult'',
      Destroy_event ''test_msgs'' ''action'' ''NestedMessage_GetResult'',
      Message ''test_msgs'' ''action'' ''NestedMessage_FeedbackMessage'']"

definition test_msgs__action__NestedMessage__microxrcedds :: "xrce_export list" where [support_defs]:
  "test_msgs__action__NestedMessage__microxrcedds =
     [Serialized_size (''test_msgs'', ''action'', ''NestedMessage_Goal''),
      Max_serialized_size (''test_msgs'', ''action'', ''NestedMessage_Goal''),
      Handle (Message ''test_msgs'' ''action'' ''NestedMessage_Goal''),
      Serialized_size (''test_msgs'', ''action'', ''NestedMessage_Result''),
      Max_serialized_size (''test_msgs'', ''action'', ''NestedMessage_Result''),
      Handle (Message ''test_msgs'' ''action'' ''NestedMessage_Result''),
      Serialized_size (''test_msgs'', ''action'', ''NestedMessage_Feedback''),
      Max_serialized_size (''test_msgs'', ''action'', ''NestedMessage_Feedback''),
      Handle (Message ''test_msgs'' ''action'' ''NestedMessage_Feedback''),
      Serialized_size (''test_msgs'', ''action'', ''NestedMessage_SendGoal_Request''),
      Max_serialized_size (''test_msgs'', ''action'', ''NestedMessage_SendGoal_Request''),
      Handle (Message ''test_msgs'' ''action'' ''NestedMessage_SendGoal_Request''),
      Serialized_size (''test_msgs'', ''action'', ''NestedMessage_SendGoal_Response''),
      Max_serialized_size (''test_msgs'', ''action'', ''NestedMessage_SendGoal_Response''),
      Handle (Message ''test_msgs'' ''action'' ''NestedMessage_SendGoal_Response''),
      Serialized_size (''test_msgs'', ''action'', ''NestedMessage_SendGoal_Event''),
      Max_serialized_size (''test_msgs'', ''action'', ''NestedMessage_SendGoal_Event''),
      Handle (Message ''test_msgs'' ''action'' ''NestedMessage_SendGoal_Event''),
      Handle (Service ''test_msgs'' ''action'' ''NestedMessage_SendGoal''),
      Serialized_size (''test_msgs'', ''action'', ''NestedMessage_GetResult_Request''),
      Max_serialized_size (''test_msgs'', ''action'', ''NestedMessage_GetResult_Request''),
      Handle (Message ''test_msgs'' ''action'' ''NestedMessage_GetResult_Request''),
      Serialized_size (''test_msgs'', ''action'', ''NestedMessage_GetResult_Response''),
      Max_serialized_size (''test_msgs'', ''action'', ''NestedMessage_GetResult_Response''),
      Handle (Message ''test_msgs'' ''action'' ''NestedMessage_GetResult_Response''),
      Serialized_size (''test_msgs'', ''action'', ''NestedMessage_GetResult_Event''),
      Max_serialized_size (''test_msgs'', ''action'', ''NestedMessage_GetResult_Event''),
      Handle (Message ''test_msgs'' ''action'' ''NestedMessage_GetResult_Event''),
      Handle (Service ''test_msgs'' ''action'' ''NestedMessage_GetResult''),
      Serialized_size (''test_msgs'', ''action'', ''NestedMessage_FeedbackMessage''),
      Max_serialized_size (''test_msgs'', ''action'', ''NestedMessage_FeedbackMessage''),
      Handle (Message ''test_msgs'' ''action'' ''NestedMessage_FeedbackMessage'')]"

definition test_msgs__action__NestedMessage__introspection :: "exported list" where [support_defs]:
  "test_msgs__action__NestedMessage__introspection =
     [Message ''test_msgs'' ''action'' ''NestedMessage_Goal'',
      Message ''test_msgs'' ''action'' ''NestedMessage_Result'',
      Message ''test_msgs'' ''action'' ''NestedMessage_Feedback'',
      Message ''test_msgs'' ''action'' ''NestedMessage_SendGoal_Request'',
      Message ''test_msgs'' ''action'' ''NestedMessage_SendGoal_Response'',
      Message ''test_msgs'' ''action'' ''NestedMessage_SendGoal_Event'',
      Service ''test_msgs'' ''action'' ''NestedMessage_SendGoal'',
      Message ''test_msgs'' ''action'' ''NestedMessage_GetResult_Request'',
      Message ''test_msgs'' ''action'' ''NestedMessage_GetResult_Response'',
      Message ''test_msgs'' ''action'' ''NestedMessage_GetResult_Event'',
      Service ''test_msgs'' ''action'' ''NestedMessage_GetResult'',
      Message ''test_msgs'' ''action'' ''NestedMessage_FeedbackMessage'']"

definition test_msgs__msg__Arrays__type_support :: "exported list" where [support_defs]:
  "test_msgs__msg__Arrays__type_support =
     [Message ''test_msgs'' ''msg'' ''Arrays'']"

definition test_msgs__msg__Arrays__microxrcedds :: "xrce_export list" where [support_defs]:
  "test_msgs__msg__Arrays__microxrcedds =
     [Serialized_size (''test_msgs'', ''msg'', ''Arrays''),
      Max_serialized_size (''test_msgs'', ''msg'', ''Arrays''), Handle (Message ''test_msgs'' ''msg'' ''Arrays'')]"

definition test_msgs__msg__Arrays__introspection :: "exported list" where [support_defs]:
  "test_msgs__msg__Arrays__introspection =
     [Message ''test_msgs'' ''msg'' ''Arrays'']"

definition test_msgs__msg__BasicTypes__type_support :: "exported list" where [support_defs]:
  "test_msgs__msg__BasicTypes__type_support =
     [Message ''test_msgs'' ''msg'' ''BasicTypes'']"

definition test_msgs__msg__BasicTypes__microxrcedds :: "xrce_export list" where [support_defs]:
  "test_msgs__msg__BasicTypes__microxrcedds =
     [Serialized_size (''test_msgs'', ''msg'', ''BasicTypes''),
      Max_serialized_size (''test_msgs'', ''msg'', ''BasicTypes''),
      Handle (Message ''test_msgs'' ''msg'' ''BasicTypes'')]"

definition test_msgs__msg__BasicTypes__introspection :: "exported list" where [support_defs]:
  "test_msgs__msg__BasicTypes__introspection =
     [Message ''test_msgs'' ''msg'' ''BasicTypes'']"

definition test_msgs__msg__BoundedPlainSequences__type_support :: "exported list" where [support_defs]:
  "test_msgs__msg__BoundedPlainSequences__type_support =
     [Message ''test_msgs'' ''msg'' ''BoundedPlainSequences'']"

definition test_msgs__msg__BoundedPlainSequences__microxrcedds :: "xrce_export list" where [support_defs]:
  "test_msgs__msg__BoundedPlainSequences__microxrcedds =
     [Serialized_size (''test_msgs'', ''msg'', ''BoundedPlainSequences''),
      Max_serialized_size (''test_msgs'', ''msg'', ''BoundedPlainSequences''),
      Handle (Message ''test_msgs'' ''msg'' ''BoundedPlainSequences'')]"

definition test_msgs__msg__BoundedPlainSequences__introspection :: "exported list" where [support_defs]:
  "test_msgs__msg__BoundedPlainSequences__introspection =
     [Message ''test_msgs'' ''msg'' ''BoundedPlainSequences'']"

definition test_msgs__msg__BoundedSequences__type_support :: "exported list" where [support_defs]:
  "test_msgs__msg__BoundedSequences__type_support =
     [Message ''test_msgs'' ''msg'' ''BoundedSequences'']"

definition test_msgs__msg__BoundedSequences__microxrcedds :: "xrce_export list" where [support_defs]:
  "test_msgs__msg__BoundedSequences__microxrcedds =
     [Serialized_size (''test_msgs'', ''msg'', ''BoundedSequences''),
      Max_serialized_size (''test_msgs'', ''msg'', ''BoundedSequences''),
      Handle (Message ''test_msgs'' ''msg'' ''BoundedSequences'')]"

definition test_msgs__msg__BoundedSequences__introspection :: "exported list" where [support_defs]:
  "test_msgs__msg__BoundedSequences__introspection =
     [Message ''test_msgs'' ''msg'' ''BoundedSequences'']"

definition test_msgs__msg__Builtins__type_support :: "exported list" where [support_defs]:
  "test_msgs__msg__Builtins__type_support =
     [Message ''test_msgs'' ''msg'' ''Builtins'']"

definition test_msgs__msg__Builtins__microxrcedds :: "xrce_export list" where [support_defs]:
  "test_msgs__msg__Builtins__microxrcedds =
     [Serialized_size (''test_msgs'', ''msg'', ''Builtins''),
      Max_serialized_size (''test_msgs'', ''msg'', ''Builtins''),
      Handle (Message ''test_msgs'' ''msg'' ''Builtins'')]"

definition test_msgs__msg__Builtins__introspection :: "exported list" where [support_defs]:
  "test_msgs__msg__Builtins__introspection =
     [Message ''test_msgs'' ''msg'' ''Builtins'']"

definition test_msgs__msg__ComplexNestedKey__type_support :: "exported list" where [support_defs]:
  "test_msgs__msg__ComplexNestedKey__type_support =
     [Message ''test_msgs'' ''msg'' ''ComplexNestedKey'']"

definition test_msgs__msg__ComplexNestedKey__microxrcedds :: "xrce_export list" where [support_defs]:
  "test_msgs__msg__ComplexNestedKey__microxrcedds =
     [Serialized_size (''test_msgs'', ''msg'', ''ComplexNestedKey''),
      Max_serialized_size (''test_msgs'', ''msg'', ''ComplexNestedKey''),
      Handle (Message ''test_msgs'' ''msg'' ''ComplexNestedKey'')]"

definition test_msgs__msg__ComplexNestedKey__introspection :: "exported list" where [support_defs]:
  "test_msgs__msg__ComplexNestedKey__introspection =
     [Message ''test_msgs'' ''msg'' ''ComplexNestedKey'']"

definition test_msgs__msg__Constants__type_support :: "exported list" where [support_defs]:
  "test_msgs__msg__Constants__type_support =
     [Message ''test_msgs'' ''msg'' ''Constants'']"

definition test_msgs__msg__Constants__microxrcedds :: "xrce_export list" where [support_defs]:
  "test_msgs__msg__Constants__microxrcedds =
     [Serialized_size (''test_msgs'', ''msg'', ''Constants''),
      Max_serialized_size (''test_msgs'', ''msg'', ''Constants''),
      Handle (Message ''test_msgs'' ''msg'' ''Constants'')]"

definition test_msgs__msg__Constants__introspection :: "exported list" where [support_defs]:
  "test_msgs__msg__Constants__introspection =
     [Message ''test_msgs'' ''msg'' ''Constants'']"

definition test_msgs__msg__Defaults__type_support :: "exported list" where [support_defs]:
  "test_msgs__msg__Defaults__type_support =
     [Message ''test_msgs'' ''msg'' ''Defaults'']"

definition test_msgs__msg__Defaults__microxrcedds :: "xrce_export list" where [support_defs]:
  "test_msgs__msg__Defaults__microxrcedds =
     [Serialized_size (''test_msgs'', ''msg'', ''Defaults''),
      Max_serialized_size (''test_msgs'', ''msg'', ''Defaults''),
      Handle (Message ''test_msgs'' ''msg'' ''Defaults'')]"

definition test_msgs__msg__Defaults__introspection :: "exported list" where [support_defs]:
  "test_msgs__msg__Defaults__introspection =
     [Message ''test_msgs'' ''msg'' ''Defaults'']"

definition test_msgs__msg__Empty__type_support :: "exported list" where [support_defs]:
  "test_msgs__msg__Empty__type_support =
     [Message ''test_msgs'' ''msg'' ''Empty'']"

definition test_msgs__msg__Empty__microxrcedds :: "xrce_export list" where [support_defs]:
  "test_msgs__msg__Empty__microxrcedds =
     [Serialized_size (''test_msgs'', ''msg'', ''Empty''), Max_serialized_size (''test_msgs'', ''msg'', ''Empty''),
      Handle (Message ''test_msgs'' ''msg'' ''Empty'')]"

definition test_msgs__msg__Empty__introspection :: "exported list" where [support_defs]:
  "test_msgs__msg__Empty__introspection =
     [Message ''test_msgs'' ''msg'' ''Empty'']"

definition test_msgs__msg__KeyedLong__type_support :: "exported list" where [support_defs]:
  "test_msgs__msg__KeyedLong__type_support =
     [Message ''test_msgs'' ''msg'' ''KeyedLong'']"

definition test_msgs__msg__KeyedLong__microxrcedds :: "xrce_export list" where [support_defs]:
  "test_msgs__msg__KeyedLong__microxrcedds =
     [Serialized_size (''test_msgs'', ''msg'', ''KeyedLong''),
      Max_serialized_size (''test_msgs'', ''msg'', ''KeyedLong''),
      Handle (Message ''test_msgs'' ''msg'' ''KeyedLong'')]"

definition test_msgs__msg__KeyedLong__introspection :: "exported list" where [support_defs]:
  "test_msgs__msg__KeyedLong__introspection =
     [Message ''test_msgs'' ''msg'' ''KeyedLong'']"

definition test_msgs__msg__KeyedString__type_support :: "exported list" where [support_defs]:
  "test_msgs__msg__KeyedString__type_support =
     [Message ''test_msgs'' ''msg'' ''KeyedString'']"

definition test_msgs__msg__KeyedString__microxrcedds :: "xrce_export list" where [support_defs]:
  "test_msgs__msg__KeyedString__microxrcedds =
     [Serialized_size (''test_msgs'', ''msg'', ''KeyedString''),
      Max_serialized_size (''test_msgs'', ''msg'', ''KeyedString''),
      Handle (Message ''test_msgs'' ''msg'' ''KeyedString'')]"

definition test_msgs__msg__KeyedString__introspection :: "exported list" where [support_defs]:
  "test_msgs__msg__KeyedString__introspection =
     [Message ''test_msgs'' ''msg'' ''KeyedString'']"

definition test_msgs__msg__MultiNested__type_support :: "exported list" where [support_defs]:
  "test_msgs__msg__MultiNested__type_support =
     [Message ''test_msgs'' ''msg'' ''MultiNested'']"

definition test_msgs__msg__MultiNested__microxrcedds :: "xrce_export list" where [support_defs]:
  "test_msgs__msg__MultiNested__microxrcedds =
     [Serialized_size (''test_msgs'', ''msg'', ''MultiNested''),
      Max_serialized_size (''test_msgs'', ''msg'', ''MultiNested''),
      Handle (Message ''test_msgs'' ''msg'' ''MultiNested'')]"

definition test_msgs__msg__MultiNested__introspection :: "exported list" where [support_defs]:
  "test_msgs__msg__MultiNested__introspection =
     [Message ''test_msgs'' ''msg'' ''MultiNested'']"

definition test_msgs__msg__Nested__type_support :: "exported list" where [support_defs]:
  "test_msgs__msg__Nested__type_support =
     [Message ''test_msgs'' ''msg'' ''Nested'']"

definition test_msgs__msg__Nested__microxrcedds :: "xrce_export list" where [support_defs]:
  "test_msgs__msg__Nested__microxrcedds =
     [Serialized_size (''test_msgs'', ''msg'', ''Nested''),
      Max_serialized_size (''test_msgs'', ''msg'', ''Nested''), Handle (Message ''test_msgs'' ''msg'' ''Nested'')]"

definition test_msgs__msg__Nested__introspection :: "exported list" where [support_defs]:
  "test_msgs__msg__Nested__introspection =
     [Message ''test_msgs'' ''msg'' ''Nested'']"

definition test_msgs__msg__NonKeyedWithNestedKey__type_support :: "exported list" where [support_defs]:
  "test_msgs__msg__NonKeyedWithNestedKey__type_support =
     [Message ''test_msgs'' ''msg'' ''NonKeyedWithNestedKey'']"

definition test_msgs__msg__NonKeyedWithNestedKey__microxrcedds :: "xrce_export list" where [support_defs]:
  "test_msgs__msg__NonKeyedWithNestedKey__microxrcedds =
     [Serialized_size (''test_msgs'', ''msg'', ''NonKeyedWithNestedKey''),
      Max_serialized_size (''test_msgs'', ''msg'', ''NonKeyedWithNestedKey''),
      Handle (Message ''test_msgs'' ''msg'' ''NonKeyedWithNestedKey'')]"

definition test_msgs__msg__NonKeyedWithNestedKey__introspection :: "exported list" where [support_defs]:
  "test_msgs__msg__NonKeyedWithNestedKey__introspection =
     [Message ''test_msgs'' ''msg'' ''NonKeyedWithNestedKey'']"

definition test_msgs__msg__Strings__type_support :: "exported list" where [support_defs]:
  "test_msgs__msg__Strings__type_support =
     [Message ''test_msgs'' ''msg'' ''Strings'']"

definition test_msgs__msg__Strings__microxrcedds :: "xrce_export list" where [support_defs]:
  "test_msgs__msg__Strings__microxrcedds =
     [Serialized_size (''test_msgs'', ''msg'', ''Strings''),
      Max_serialized_size (''test_msgs'', ''msg'', ''Strings''),
      Handle (Message ''test_msgs'' ''msg'' ''Strings'')]"

definition test_msgs__msg__Strings__introspection :: "exported list" where [support_defs]:
  "test_msgs__msg__Strings__introspection =
     [Message ''test_msgs'' ''msg'' ''Strings'']"

definition test_msgs__msg__UnboundedSequences__type_support :: "exported list" where [support_defs]:
  "test_msgs__msg__UnboundedSequences__type_support =
     [Message ''test_msgs'' ''msg'' ''UnboundedSequences'']"

definition test_msgs__msg__UnboundedSequences__microxrcedds :: "xrce_export list" where [support_defs]:
  "test_msgs__msg__UnboundedSequences__microxrcedds =
     [Serialized_size (''test_msgs'', ''msg'', ''UnboundedSequences''),
      Max_serialized_size (''test_msgs'', ''msg'', ''UnboundedSequences''),
      Handle (Message ''test_msgs'' ''msg'' ''UnboundedSequences'')]"

definition test_msgs__msg__UnboundedSequences__introspection :: "exported list" where [support_defs]:
  "test_msgs__msg__UnboundedSequences__introspection =
     [Message ''test_msgs'' ''msg'' ''UnboundedSequences'']"

definition test_msgs__msg__WStrings__type_support :: "exported list" where [support_defs]:
  "test_msgs__msg__WStrings__type_support =
     [Message ''test_msgs'' ''msg'' ''WStrings'']"

definition test_msgs__msg__WStrings__microxrcedds :: "xrce_export list" where [support_defs]:
  "test_msgs__msg__WStrings__microxrcedds =
     [Serialized_size (''test_msgs'', ''msg'', ''WStrings''),
      Max_serialized_size (''test_msgs'', ''msg'', ''WStrings''),
      Handle (Message ''test_msgs'' ''msg'' ''WStrings'')]"

definition test_msgs__msg__WStrings__introspection :: "exported list" where [support_defs]:
  "test_msgs__msg__WStrings__introspection =
     [Message ''test_msgs'' ''msg'' ''WStrings'']"

definition test_msgs__srv__Arrays__type_support :: "exported list" where [support_defs]:
  "test_msgs__srv__Arrays__type_support =
     [Message ''test_msgs'' ''srv'' ''Arrays_Request'', Message ''test_msgs'' ''srv'' ''Arrays_Response'',
      Message ''test_msgs'' ''srv'' ''Arrays_Event'', Service ''test_msgs'' ''srv'' ''Arrays'',
      Create_event ''test_msgs'' ''srv'' ''Arrays'', Destroy_event ''test_msgs'' ''srv'' ''Arrays'']"

definition test_msgs__srv__Arrays__microxrcedds :: "xrce_export list" where [support_defs]:
  "test_msgs__srv__Arrays__microxrcedds =
     [Serialized_size (''test_msgs'', ''srv'', ''Arrays_Request''),
      Max_serialized_size (''test_msgs'', ''srv'', ''Arrays_Request''),
      Handle (Message ''test_msgs'' ''srv'' ''Arrays_Request''),
      Serialized_size (''test_msgs'', ''srv'', ''Arrays_Response''),
      Max_serialized_size (''test_msgs'', ''srv'', ''Arrays_Response''),
      Handle (Message ''test_msgs'' ''srv'' ''Arrays_Response''),
      Serialized_size (''test_msgs'', ''srv'', ''Arrays_Event''),
      Max_serialized_size (''test_msgs'', ''srv'', ''Arrays_Event''),
      Handle (Message ''test_msgs'' ''srv'' ''Arrays_Event''), Handle (Service ''test_msgs'' ''srv'' ''Arrays'')]"

definition test_msgs__srv__Arrays__introspection :: "exported list" where [support_defs]:
  "test_msgs__srv__Arrays__introspection =
     [Message ''test_msgs'' ''srv'' ''Arrays_Request'', Message ''test_msgs'' ''srv'' ''Arrays_Response'',
      Message ''test_msgs'' ''srv'' ''Arrays_Event'', Service ''test_msgs'' ''srv'' ''Arrays'']"

definition test_msgs__srv__BasicTypes__type_support :: "exported list" where [support_defs]:
  "test_msgs__srv__BasicTypes__type_support =
     [Message ''test_msgs'' ''srv'' ''BasicTypes_Request'', Message ''test_msgs'' ''srv'' ''BasicTypes_Response'',
      Message ''test_msgs'' ''srv'' ''BasicTypes_Event'', Service ''test_msgs'' ''srv'' ''BasicTypes'',
      Create_event ''test_msgs'' ''srv'' ''BasicTypes'', Destroy_event ''test_msgs'' ''srv'' ''BasicTypes'']"

definition test_msgs__srv__BasicTypes__microxrcedds :: "xrce_export list" where [support_defs]:
  "test_msgs__srv__BasicTypes__microxrcedds =
     [Serialized_size (''test_msgs'', ''srv'', ''BasicTypes_Request''),
      Max_serialized_size (''test_msgs'', ''srv'', ''BasicTypes_Request''),
      Handle (Message ''test_msgs'' ''srv'' ''BasicTypes_Request''),
      Serialized_size (''test_msgs'', ''srv'', ''BasicTypes_Response''),
      Max_serialized_size (''test_msgs'', ''srv'', ''BasicTypes_Response''),
      Handle (Message ''test_msgs'' ''srv'' ''BasicTypes_Response''),
      Serialized_size (''test_msgs'', ''srv'', ''BasicTypes_Event''),
      Max_serialized_size (''test_msgs'', ''srv'', ''BasicTypes_Event''),
      Handle (Message ''test_msgs'' ''srv'' ''BasicTypes_Event''),
      Handle (Service ''test_msgs'' ''srv'' ''BasicTypes'')]"

definition test_msgs__srv__BasicTypes__introspection :: "exported list" where [support_defs]:
  "test_msgs__srv__BasicTypes__introspection =
     [Message ''test_msgs'' ''srv'' ''BasicTypes_Request'', Message ''test_msgs'' ''srv'' ''BasicTypes_Response'',
      Message ''test_msgs'' ''srv'' ''BasicTypes_Event'', Service ''test_msgs'' ''srv'' ''BasicTypes'']"

definition test_msgs__srv__Empty__type_support :: "exported list" where [support_defs]:
  "test_msgs__srv__Empty__type_support =
     [Message ''test_msgs'' ''srv'' ''Empty_Request'', Message ''test_msgs'' ''srv'' ''Empty_Response'',
      Message ''test_msgs'' ''srv'' ''Empty_Event'', Service ''test_msgs'' ''srv'' ''Empty'',
      Create_event ''test_msgs'' ''srv'' ''Empty'', Destroy_event ''test_msgs'' ''srv'' ''Empty'']"

definition test_msgs__srv__Empty__microxrcedds :: "xrce_export list" where [support_defs]:
  "test_msgs__srv__Empty__microxrcedds =
     [Serialized_size (''test_msgs'', ''srv'', ''Empty_Request''),
      Max_serialized_size (''test_msgs'', ''srv'', ''Empty_Request''),
      Handle (Message ''test_msgs'' ''srv'' ''Empty_Request''),
      Serialized_size (''test_msgs'', ''srv'', ''Empty_Response''),
      Max_serialized_size (''test_msgs'', ''srv'', ''Empty_Response''),
      Handle (Message ''test_msgs'' ''srv'' ''Empty_Response''),
      Serialized_size (''test_msgs'', ''srv'', ''Empty_Event''),
      Max_serialized_size (''test_msgs'', ''srv'', ''Empty_Event''),
      Handle (Message ''test_msgs'' ''srv'' ''Empty_Event''), Handle (Service ''test_msgs'' ''srv'' ''Empty'')]"

definition test_msgs__srv__Empty__introspection :: "exported list" where [support_defs]:
  "test_msgs__srv__Empty__introspection =
     [Message ''test_msgs'' ''srv'' ''Empty_Request'', Message ''test_msgs'' ''srv'' ''Empty_Response'',
      Message ''test_msgs'' ''srv'' ''Empty_Event'', Service ''test_msgs'' ''srv'' ''Empty'']"

end
