(* ===== verification/Generated_Headers.thy ===== *)
theory Generated_Headers
  imports Interfaces_Test Header_Names Functions_Basic Functions_Robot Functions_Test Support_Basic Support_Robot Support_Test
begin

text \<open>
  The inventory of the generated headers: for each interface of a package its structs, its functions and the three
  lists of type support, from the five headers \<^verbatim>\<open>*__struct.h\<close>, \<^verbatim>\<open>*__functions.h\<close>, \<^verbatim>\<open>*__type_support.h\<close>,
  \<^verbatim>\<open>*__rosidl_typesupport_microxrcedds_c.h\<close> and \<^verbatim>\<open>*__rosidl_typesupport_introspection_c.h\<close> of its name.
\<close>

datatype generated =
  Generated (header: interface_id) (structs: "mtype list") (tables: "function_table list")
    (common: "exported list") (xrce: "xrce_export list") (introspection: "exported list")

named_theorems package_defs "the headers of the packages"

definition builtin_interfaces__headers :: "generated list" where [package_defs]:
  "builtin_interfaces__headers =
    [Generated (''builtin_interfaces'', ''msg'', ''Duration'')
       [builtin_interfaces__msg__Duration__struct]
       [builtin_interfaces__msg__Duration__functions]
       builtin_interfaces__msg__Duration__type_support
       builtin_interfaces__msg__Duration__microxrcedds
       builtin_interfaces__msg__Duration__introspection,
     Generated (''builtin_interfaces'', ''msg'', ''Time'')
       [builtin_interfaces__msg__Time__struct]
       [builtin_interfaces__msg__Time__functions]
       builtin_interfaces__msg__Time__type_support
       builtin_interfaces__msg__Time__microxrcedds
       builtin_interfaces__msg__Time__introspection]"

definition unique_identifier_msgs__headers :: "generated list" where [package_defs]:
  "unique_identifier_msgs__headers =
    [Generated (''unique_identifier_msgs'', ''msg'', ''UUID'')
       [unique_identifier_msgs__msg__UUID__struct]
       [unique_identifier_msgs__msg__UUID__functions]
       unique_identifier_msgs__msg__UUID__type_support
       unique_identifier_msgs__msg__UUID__microxrcedds
       unique_identifier_msgs__msg__UUID__introspection]"

definition service_msgs__headers :: "generated list" where [package_defs]:
  "service_msgs__headers =
    [Generated (''service_msgs'', ''msg'', ''ServiceEventInfo'')
       [service_msgs__msg__ServiceEventInfo__struct]
       [service_msgs__msg__ServiceEventInfo__functions]
       service_msgs__msg__ServiceEventInfo__type_support
       service_msgs__msg__ServiceEventInfo__microxrcedds
       service_msgs__msg__ServiceEventInfo__introspection]"

definition std_msgs__headers :: "generated list" where [package_defs]:
  "std_msgs__headers =
    [Generated (''std_msgs'', ''msg'', ''Bool'')
       [std_msgs__msg__Bool__struct]
       [std_msgs__msg__Bool__functions]
       std_msgs__msg__Bool__type_support
       std_msgs__msg__Bool__microxrcedds
       std_msgs__msg__Bool__introspection,
     Generated (''std_msgs'', ''msg'', ''Byte'')
       [std_msgs__msg__Byte__struct]
       [std_msgs__msg__Byte__functions]
       std_msgs__msg__Byte__type_support
       std_msgs__msg__Byte__microxrcedds
       std_msgs__msg__Byte__introspection,
     Generated (''std_msgs'', ''msg'', ''ByteMultiArray'')
       [std_msgs__msg__ByteMultiArray__struct]
       [std_msgs__msg__ByteMultiArray__functions]
       std_msgs__msg__ByteMultiArray__type_support
       std_msgs__msg__ByteMultiArray__microxrcedds
       std_msgs__msg__ByteMultiArray__introspection,
     Generated (''std_msgs'', ''msg'', ''Char'')
       [std_msgs__msg__Char__struct]
       [std_msgs__msg__Char__functions]
       std_msgs__msg__Char__type_support
       std_msgs__msg__Char__microxrcedds
       std_msgs__msg__Char__introspection,
     Generated (''std_msgs'', ''msg'', ''ColorRGBA'')
       [std_msgs__msg__ColorRGBA__struct]
       [std_msgs__msg__ColorRGBA__functions]
       std_msgs__msg__ColorRGBA__type_support
       std_msgs__msg__ColorRGBA__microxrcedds
       std_msgs__msg__ColorRGBA__introspection,
     Generated (''std_msgs'', ''msg'', ''Empty'')
       [std_msgs__msg__Empty__struct]
       [std_msgs__msg__Empty__functions]
       std_msgs__msg__Empty__type_support
       std_msgs__msg__Empty__microxrcedds
       std_msgs__msg__Empty__introspection,
     Generated (''std_msgs'', ''msg'', ''Float32'')
       [std_msgs__msg__Float32__struct]
       [std_msgs__msg__Float32__functions]
       std_msgs__msg__Float32__type_support
       std_msgs__msg__Float32__microxrcedds
       std_msgs__msg__Float32__introspection,
     Generated (''std_msgs'', ''msg'', ''Float32MultiArray'')
       [std_msgs__msg__Float32MultiArray__struct]
       [std_msgs__msg__Float32MultiArray__functions]
       std_msgs__msg__Float32MultiArray__type_support
       std_msgs__msg__Float32MultiArray__microxrcedds
       std_msgs__msg__Float32MultiArray__introspection,
     Generated (''std_msgs'', ''msg'', ''Float64'')
       [std_msgs__msg__Float64__struct]
       [std_msgs__msg__Float64__functions]
       std_msgs__msg__Float64__type_support
       std_msgs__msg__Float64__microxrcedds
       std_msgs__msg__Float64__introspection,
     Generated (''std_msgs'', ''msg'', ''Float64MultiArray'')
       [std_msgs__msg__Float64MultiArray__struct]
       [std_msgs__msg__Float64MultiArray__functions]
       std_msgs__msg__Float64MultiArray__type_support
       std_msgs__msg__Float64MultiArray__microxrcedds
       std_msgs__msg__Float64MultiArray__introspection,
     Generated (''std_msgs'', ''msg'', ''Header'')
       [std_msgs__msg__Header__struct]
       [std_msgs__msg__Header__functions]
       std_msgs__msg__Header__type_support
       std_msgs__msg__Header__microxrcedds
       std_msgs__msg__Header__introspection,
     Generated (''std_msgs'', ''msg'', ''Int16'')
       [std_msgs__msg__Int16__struct]
       [std_msgs__msg__Int16__functions]
       std_msgs__msg__Int16__type_support
       std_msgs__msg__Int16__microxrcedds
       std_msgs__msg__Int16__introspection,
     Generated (''std_msgs'', ''msg'', ''Int16MultiArray'')
       [std_msgs__msg__Int16MultiArray__struct]
       [std_msgs__msg__Int16MultiArray__functions]
       std_msgs__msg__Int16MultiArray__type_support
       std_msgs__msg__Int16MultiArray__microxrcedds
       std_msgs__msg__Int16MultiArray__introspection,
     Generated (''std_msgs'', ''msg'', ''Int32'')
       [std_msgs__msg__Int32__struct]
       [std_msgs__msg__Int32__functions]
       std_msgs__msg__Int32__type_support
       std_msgs__msg__Int32__microxrcedds
       std_msgs__msg__Int32__introspection,
     Generated (''std_msgs'', ''msg'', ''Int32MultiArray'')
       [std_msgs__msg__Int32MultiArray__struct]
       [std_msgs__msg__Int32MultiArray__functions]
       std_msgs__msg__Int32MultiArray__type_support
       std_msgs__msg__Int32MultiArray__microxrcedds
       std_msgs__msg__Int32MultiArray__introspection,
     Generated (''std_msgs'', ''msg'', ''Int64'')
       [std_msgs__msg__Int64__struct]
       [std_msgs__msg__Int64__functions]
       std_msgs__msg__Int64__type_support
       std_msgs__msg__Int64__microxrcedds
       std_msgs__msg__Int64__introspection,
     Generated (''std_msgs'', ''msg'', ''Int64MultiArray'')
       [std_msgs__msg__Int64MultiArray__struct]
       [std_msgs__msg__Int64MultiArray__functions]
       std_msgs__msg__Int64MultiArray__type_support
       std_msgs__msg__Int64MultiArray__microxrcedds
       std_msgs__msg__Int64MultiArray__introspection,
     Generated (''std_msgs'', ''msg'', ''Int8'')
       [std_msgs__msg__Int8__struct]
       [std_msgs__msg__Int8__functions]
       std_msgs__msg__Int8__type_support
       std_msgs__msg__Int8__microxrcedds
       std_msgs__msg__Int8__introspection,
     Generated (''std_msgs'', ''msg'', ''Int8MultiArray'')
       [std_msgs__msg__Int8MultiArray__struct]
       [std_msgs__msg__Int8MultiArray__functions]
       std_msgs__msg__Int8MultiArray__type_support
       std_msgs__msg__Int8MultiArray__microxrcedds
       std_msgs__msg__Int8MultiArray__introspection,
     Generated (''std_msgs'', ''msg'', ''MultiArrayDimension'')
       [std_msgs__msg__MultiArrayDimension__struct]
       [std_msgs__msg__MultiArrayDimension__functions]
       std_msgs__msg__MultiArrayDimension__type_support
       std_msgs__msg__MultiArrayDimension__microxrcedds
       std_msgs__msg__MultiArrayDimension__introspection,
     Generated (''std_msgs'', ''msg'', ''MultiArrayLayout'')
       [std_msgs__msg__MultiArrayLayout__struct]
       [std_msgs__msg__MultiArrayLayout__functions]
       std_msgs__msg__MultiArrayLayout__type_support
       std_msgs__msg__MultiArrayLayout__microxrcedds
       std_msgs__msg__MultiArrayLayout__introspection,
     Generated (''std_msgs'', ''msg'', ''String'')
       [std_msgs__msg__String__struct]
       [std_msgs__msg__String__functions]
       std_msgs__msg__String__type_support
       std_msgs__msg__String__microxrcedds
       std_msgs__msg__String__introspection,
     Generated (''std_msgs'', ''msg'', ''UInt16'')
       [std_msgs__msg__UInt16__struct]
       [std_msgs__msg__UInt16__functions]
       std_msgs__msg__UInt16__type_support
       std_msgs__msg__UInt16__microxrcedds
       std_msgs__msg__UInt16__introspection,
     Generated (''std_msgs'', ''msg'', ''UInt16MultiArray'')
       [std_msgs__msg__UInt16MultiArray__struct]
       [std_msgs__msg__UInt16MultiArray__functions]
       std_msgs__msg__UInt16MultiArray__type_support
       std_msgs__msg__UInt16MultiArray__microxrcedds
       std_msgs__msg__UInt16MultiArray__introspection,
     Generated (''std_msgs'', ''msg'', ''UInt32'')
       [std_msgs__msg__UInt32__struct]
       [std_msgs__msg__UInt32__functions]
       std_msgs__msg__UInt32__type_support
       std_msgs__msg__UInt32__microxrcedds
       std_msgs__msg__UInt32__introspection,
     Generated (''std_msgs'', ''msg'', ''UInt32MultiArray'')
       [std_msgs__msg__UInt32MultiArray__struct]
       [std_msgs__msg__UInt32MultiArray__functions]
       std_msgs__msg__UInt32MultiArray__type_support
       std_msgs__msg__UInt32MultiArray__microxrcedds
       std_msgs__msg__UInt32MultiArray__introspection,
     Generated (''std_msgs'', ''msg'', ''UInt64'')
       [std_msgs__msg__UInt64__struct]
       [std_msgs__msg__UInt64__functions]
       std_msgs__msg__UInt64__type_support
       std_msgs__msg__UInt64__microxrcedds
       std_msgs__msg__UInt64__introspection,
     Generated (''std_msgs'', ''msg'', ''UInt64MultiArray'')
       [std_msgs__msg__UInt64MultiArray__struct]
       [std_msgs__msg__UInt64MultiArray__functions]
       std_msgs__msg__UInt64MultiArray__type_support
       std_msgs__msg__UInt64MultiArray__microxrcedds
       std_msgs__msg__UInt64MultiArray__introspection,
     Generated (''std_msgs'', ''msg'', ''UInt8'')
       [std_msgs__msg__UInt8__struct]
       [std_msgs__msg__UInt8__functions]
       std_msgs__msg__UInt8__type_support
       std_msgs__msg__UInt8__microxrcedds
       std_msgs__msg__UInt8__introspection,
     Generated (''std_msgs'', ''msg'', ''UInt8MultiArray'')
       [std_msgs__msg__UInt8MultiArray__struct]
       [std_msgs__msg__UInt8MultiArray__functions]
       std_msgs__msg__UInt8MultiArray__type_support
       std_msgs__msg__UInt8MultiArray__microxrcedds
       std_msgs__msg__UInt8MultiArray__introspection]"

definition std_srvs__headers :: "generated list" where [package_defs]:
  "std_srvs__headers =
    [Generated (''std_srvs'', ''srv'', ''Empty'')
       [std_srvs__srv__Empty_Request__struct, std_srvs__srv__Empty_Response__struct,
        std_srvs__srv__Empty_Event__struct]
       [std_srvs__srv__Empty__functions, std_srvs__srv__Empty_Request__functions,
        std_srvs__srv__Empty_Response__functions, std_srvs__srv__Empty_Event__functions]
       std_srvs__srv__Empty__type_support
       std_srvs__srv__Empty__microxrcedds
       std_srvs__srv__Empty__introspection,
     Generated (''std_srvs'', ''srv'', ''SetBool'')
       [std_srvs__srv__SetBool_Request__struct, std_srvs__srv__SetBool_Response__struct,
        std_srvs__srv__SetBool_Event__struct]
       [std_srvs__srv__SetBool__functions, std_srvs__srv__SetBool_Request__functions,
        std_srvs__srv__SetBool_Response__functions, std_srvs__srv__SetBool_Event__functions]
       std_srvs__srv__SetBool__type_support
       std_srvs__srv__SetBool__microxrcedds
       std_srvs__srv__SetBool__introspection,
     Generated (''std_srvs'', ''srv'', ''Trigger'')
       [std_srvs__srv__Trigger_Request__struct, std_srvs__srv__Trigger_Response__struct,
        std_srvs__srv__Trigger_Event__struct]
       [std_srvs__srv__Trigger__functions, std_srvs__srv__Trigger_Request__functions,
        std_srvs__srv__Trigger_Response__functions, std_srvs__srv__Trigger_Event__functions]
       std_srvs__srv__Trigger__type_support
       std_srvs__srv__Trigger__microxrcedds
       std_srvs__srv__Trigger__introspection]"

definition rosgraph_msgs__headers :: "generated list" where [package_defs]:
  "rosgraph_msgs__headers =
    [Generated (''rosgraph_msgs'', ''msg'', ''Clock'')
       [rosgraph_msgs__msg__Clock__struct]
       [rosgraph_msgs__msg__Clock__functions]
       rosgraph_msgs__msg__Clock__type_support
       rosgraph_msgs__msg__Clock__microxrcedds
       rosgraph_msgs__msg__Clock__introspection]"

definition statistics_msgs__headers :: "generated list" where [package_defs]:
  "statistics_msgs__headers =
    [Generated (''statistics_msgs'', ''msg'', ''MetricsMessage'')
       [statistics_msgs__msg__MetricsMessage__struct]
       [statistics_msgs__msg__MetricsMessage__functions]
       statistics_msgs__msg__MetricsMessage__type_support
       statistics_msgs__msg__MetricsMessage__microxrcedds
       statistics_msgs__msg__MetricsMessage__introspection,
     Generated (''statistics_msgs'', ''msg'', ''StatisticDataPoint'')
       [statistics_msgs__msg__StatisticDataPoint__struct]
       [statistics_msgs__msg__StatisticDataPoint__functions]
       statistics_msgs__msg__StatisticDataPoint__type_support
       statistics_msgs__msg__StatisticDataPoint__microxrcedds
       statistics_msgs__msg__StatisticDataPoint__introspection,
     Generated (''statistics_msgs'', ''msg'', ''StatisticDataType'')
       [statistics_msgs__msg__StatisticDataType__struct]
       [statistics_msgs__msg__StatisticDataType__functions]
       statistics_msgs__msg__StatisticDataType__type_support
       statistics_msgs__msg__StatisticDataType__microxrcedds
       statistics_msgs__msg__StatisticDataType__introspection]"

definition micro_ros_msgs__headers :: "generated list" where [package_defs]:
  "micro_ros_msgs__headers =
    [Generated (''micro_ros_msgs'', ''msg'', ''Entity'')
       [micro_ros_msgs__msg__Entity__struct]
       [micro_ros_msgs__msg__Entity__functions]
       micro_ros_msgs__msg__Entity__type_support
       micro_ros_msgs__msg__Entity__microxrcedds
       micro_ros_msgs__msg__Entity__introspection,
     Generated (''micro_ros_msgs'', ''msg'', ''Graph'')
       [micro_ros_msgs__msg__Graph__struct]
       [micro_ros_msgs__msg__Graph__functions]
       micro_ros_msgs__msg__Graph__type_support
       micro_ros_msgs__msg__Graph__microxrcedds
       micro_ros_msgs__msg__Graph__introspection,
     Generated (''micro_ros_msgs'', ''msg'', ''Node'')
       [micro_ros_msgs__msg__Node__struct]
       [micro_ros_msgs__msg__Node__functions]
       micro_ros_msgs__msg__Node__type_support
       micro_ros_msgs__msg__Node__microxrcedds
       micro_ros_msgs__msg__Node__introspection]"

definition action_msgs__headers :: "generated list" where [package_defs]:
  "action_msgs__headers =
    [Generated (''action_msgs'', ''msg'', ''GoalInfo'')
       [action_msgs__msg__GoalInfo__struct]
       [action_msgs__msg__GoalInfo__functions]
       action_msgs__msg__GoalInfo__type_support
       action_msgs__msg__GoalInfo__microxrcedds
       action_msgs__msg__GoalInfo__introspection,
     Generated (''action_msgs'', ''msg'', ''GoalStatus'')
       [action_msgs__msg__GoalStatus__struct]
       [action_msgs__msg__GoalStatus__functions]
       action_msgs__msg__GoalStatus__type_support
       action_msgs__msg__GoalStatus__microxrcedds
       action_msgs__msg__GoalStatus__introspection,
     Generated (''action_msgs'', ''msg'', ''GoalStatusArray'')
       [action_msgs__msg__GoalStatusArray__struct]
       [action_msgs__msg__GoalStatusArray__functions]
       action_msgs__msg__GoalStatusArray__type_support
       action_msgs__msg__GoalStatusArray__microxrcedds
       action_msgs__msg__GoalStatusArray__introspection,
     Generated (''action_msgs'', ''srv'', ''CancelGoal'')
       [action_msgs__srv__CancelGoal_Request__struct, action_msgs__srv__CancelGoal_Response__struct,
        action_msgs__srv__CancelGoal_Event__struct]
       [action_msgs__srv__CancelGoal__functions, action_msgs__srv__CancelGoal_Request__functions,
        action_msgs__srv__CancelGoal_Response__functions, action_msgs__srv__CancelGoal_Event__functions]
       action_msgs__srv__CancelGoal__type_support
       action_msgs__srv__CancelGoal__microxrcedds
       action_msgs__srv__CancelGoal__introspection]"

definition lifecycle_msgs__headers :: "generated list" where [package_defs]:
  "lifecycle_msgs__headers =
    [Generated (''lifecycle_msgs'', ''msg'', ''State'')
       [lifecycle_msgs__msg__State__struct]
       [lifecycle_msgs__msg__State__functions]
       lifecycle_msgs__msg__State__type_support
       lifecycle_msgs__msg__State__microxrcedds
       lifecycle_msgs__msg__State__introspection,
     Generated (''lifecycle_msgs'', ''msg'', ''Transition'')
       [lifecycle_msgs__msg__Transition__struct]
       [lifecycle_msgs__msg__Transition__functions]
       lifecycle_msgs__msg__Transition__type_support
       lifecycle_msgs__msg__Transition__microxrcedds
       lifecycle_msgs__msg__Transition__introspection,
     Generated (''lifecycle_msgs'', ''msg'', ''TransitionDescription'')
       [lifecycle_msgs__msg__TransitionDescription__struct]
       [lifecycle_msgs__msg__TransitionDescription__functions]
       lifecycle_msgs__msg__TransitionDescription__type_support
       lifecycle_msgs__msg__TransitionDescription__microxrcedds
       lifecycle_msgs__msg__TransitionDescription__introspection,
     Generated (''lifecycle_msgs'', ''msg'', ''TransitionEvent'')
       [lifecycle_msgs__msg__TransitionEvent__struct]
       [lifecycle_msgs__msg__TransitionEvent__functions]
       lifecycle_msgs__msg__TransitionEvent__type_support
       lifecycle_msgs__msg__TransitionEvent__microxrcedds
       lifecycle_msgs__msg__TransitionEvent__introspection,
     Generated (''lifecycle_msgs'', ''srv'', ''ChangeState'')
       [lifecycle_msgs__srv__ChangeState_Request__struct, lifecycle_msgs__srv__ChangeState_Response__struct,
        lifecycle_msgs__srv__ChangeState_Event__struct]
       [lifecycle_msgs__srv__ChangeState__functions, lifecycle_msgs__srv__ChangeState_Request__functions,
        lifecycle_msgs__srv__ChangeState_Response__functions, lifecycle_msgs__srv__ChangeState_Event__functions]
       lifecycle_msgs__srv__ChangeState__type_support
       lifecycle_msgs__srv__ChangeState__microxrcedds
       lifecycle_msgs__srv__ChangeState__introspection,
     Generated (''lifecycle_msgs'', ''srv'', ''GetAvailableStates'')
       [lifecycle_msgs__srv__GetAvailableStates_Request__struct,
        lifecycle_msgs__srv__GetAvailableStates_Response__struct,
        lifecycle_msgs__srv__GetAvailableStates_Event__struct]
       [lifecycle_msgs__srv__GetAvailableStates__functions,
        lifecycle_msgs__srv__GetAvailableStates_Request__functions,
        lifecycle_msgs__srv__GetAvailableStates_Response__functions,
        lifecycle_msgs__srv__GetAvailableStates_Event__functions]
       lifecycle_msgs__srv__GetAvailableStates__type_support
       lifecycle_msgs__srv__GetAvailableStates__microxrcedds
       lifecycle_msgs__srv__GetAvailableStates__introspection,
     Generated (''lifecycle_msgs'', ''srv'', ''GetAvailableTransitions'')
       [lifecycle_msgs__srv__GetAvailableTransitions_Request__struct,
        lifecycle_msgs__srv__GetAvailableTransitions_Response__struct,
        lifecycle_msgs__srv__GetAvailableTransitions_Event__struct]
       [lifecycle_msgs__srv__GetAvailableTransitions__functions,
        lifecycle_msgs__srv__GetAvailableTransitions_Request__functions,
        lifecycle_msgs__srv__GetAvailableTransitions_Response__functions,
        lifecycle_msgs__srv__GetAvailableTransitions_Event__functions]
       lifecycle_msgs__srv__GetAvailableTransitions__type_support
       lifecycle_msgs__srv__GetAvailableTransitions__microxrcedds
       lifecycle_msgs__srv__GetAvailableTransitions__introspection,
     Generated (''lifecycle_msgs'', ''srv'', ''GetState'')
       [lifecycle_msgs__srv__GetState_Request__struct, lifecycle_msgs__srv__GetState_Response__struct,
        lifecycle_msgs__srv__GetState_Event__struct]
       [lifecycle_msgs__srv__GetState__functions, lifecycle_msgs__srv__GetState_Request__functions,
        lifecycle_msgs__srv__GetState_Response__functions, lifecycle_msgs__srv__GetState_Event__functions]
       lifecycle_msgs__srv__GetState__type_support
       lifecycle_msgs__srv__GetState__microxrcedds
       lifecycle_msgs__srv__GetState__introspection]"

definition rcl_interfaces__headers :: "generated list" where [package_defs]:
  "rcl_interfaces__headers =
    [Generated (''rcl_interfaces'', ''msg'', ''FloatingPointRange'')
       [rcl_interfaces__msg__FloatingPointRange__struct]
       [rcl_interfaces__msg__FloatingPointRange__functions]
       rcl_interfaces__msg__FloatingPointRange__type_support
       rcl_interfaces__msg__FloatingPointRange__microxrcedds
       rcl_interfaces__msg__FloatingPointRange__introspection,
     Generated (''rcl_interfaces'', ''msg'', ''IntegerRange'')
       [rcl_interfaces__msg__IntegerRange__struct]
       [rcl_interfaces__msg__IntegerRange__functions]
       rcl_interfaces__msg__IntegerRange__type_support
       rcl_interfaces__msg__IntegerRange__microxrcedds
       rcl_interfaces__msg__IntegerRange__introspection,
     Generated (''rcl_interfaces'', ''msg'', ''ListParametersResult'')
       [rcl_interfaces__msg__ListParametersResult__struct]
       [rcl_interfaces__msg__ListParametersResult__functions]
       rcl_interfaces__msg__ListParametersResult__type_support
       rcl_interfaces__msg__ListParametersResult__microxrcedds
       rcl_interfaces__msg__ListParametersResult__introspection,
     Generated (''rcl_interfaces'', ''msg'', ''Log'')
       [rcl_interfaces__msg__Log__struct]
       [rcl_interfaces__msg__Log__functions]
       rcl_interfaces__msg__Log__type_support
       rcl_interfaces__msg__Log__microxrcedds
       rcl_interfaces__msg__Log__introspection,
     Generated (''rcl_interfaces'', ''msg'', ''LoggerLevel'')
       [rcl_interfaces__msg__LoggerLevel__struct]
       [rcl_interfaces__msg__LoggerLevel__functions]
       rcl_interfaces__msg__LoggerLevel__type_support
       rcl_interfaces__msg__LoggerLevel__microxrcedds
       rcl_interfaces__msg__LoggerLevel__introspection,
     Generated (''rcl_interfaces'', ''msg'', ''Parameter'')
       [rcl_interfaces__msg__Parameter__struct]
       [rcl_interfaces__msg__Parameter__functions]
       rcl_interfaces__msg__Parameter__type_support
       rcl_interfaces__msg__Parameter__microxrcedds
       rcl_interfaces__msg__Parameter__introspection,
     Generated (''rcl_interfaces'', ''msg'', ''ParameterDescriptor'')
       [rcl_interfaces__msg__ParameterDescriptor__struct]
       [rcl_interfaces__msg__ParameterDescriptor__functions]
       rcl_interfaces__msg__ParameterDescriptor__type_support
       rcl_interfaces__msg__ParameterDescriptor__microxrcedds
       rcl_interfaces__msg__ParameterDescriptor__introspection,
     Generated (''rcl_interfaces'', ''msg'', ''ParameterEvent'')
       [rcl_interfaces__msg__ParameterEvent__struct]
       [rcl_interfaces__msg__ParameterEvent__functions]
       rcl_interfaces__msg__ParameterEvent__type_support
       rcl_interfaces__msg__ParameterEvent__microxrcedds
       rcl_interfaces__msg__ParameterEvent__introspection,
     Generated (''rcl_interfaces'', ''msg'', ''ParameterEventDescriptors'')
       [rcl_interfaces__msg__ParameterEventDescriptors__struct]
       [rcl_interfaces__msg__ParameterEventDescriptors__functions]
       rcl_interfaces__msg__ParameterEventDescriptors__type_support
       rcl_interfaces__msg__ParameterEventDescriptors__microxrcedds
       rcl_interfaces__msg__ParameterEventDescriptors__introspection,
     Generated (''rcl_interfaces'', ''msg'', ''ParameterType'')
       [rcl_interfaces__msg__ParameterType__struct]
       [rcl_interfaces__msg__ParameterType__functions]
       rcl_interfaces__msg__ParameterType__type_support
       rcl_interfaces__msg__ParameterType__microxrcedds
       rcl_interfaces__msg__ParameterType__introspection,
     Generated (''rcl_interfaces'', ''msg'', ''ParameterValue'')
       [rcl_interfaces__msg__ParameterValue__struct]
       [rcl_interfaces__msg__ParameterValue__functions]
       rcl_interfaces__msg__ParameterValue__type_support
       rcl_interfaces__msg__ParameterValue__microxrcedds
       rcl_interfaces__msg__ParameterValue__introspection,
     Generated (''rcl_interfaces'', ''msg'', ''SetLoggerLevelsResult'')
       [rcl_interfaces__msg__SetLoggerLevelsResult__struct]
       [rcl_interfaces__msg__SetLoggerLevelsResult__functions]
       rcl_interfaces__msg__SetLoggerLevelsResult__type_support
       rcl_interfaces__msg__SetLoggerLevelsResult__microxrcedds
       rcl_interfaces__msg__SetLoggerLevelsResult__introspection,
     Generated (''rcl_interfaces'', ''msg'', ''SetParametersResult'')
       [rcl_interfaces__msg__SetParametersResult__struct]
       [rcl_interfaces__msg__SetParametersResult__functions]
       rcl_interfaces__msg__SetParametersResult__type_support
       rcl_interfaces__msg__SetParametersResult__microxrcedds
       rcl_interfaces__msg__SetParametersResult__introspection,
     Generated (''rcl_interfaces'', ''srv'', ''DescribeParameters'')
       [rcl_interfaces__srv__DescribeParameters_Request__struct,
        rcl_interfaces__srv__DescribeParameters_Response__struct,
        rcl_interfaces__srv__DescribeParameters_Event__struct]
       [rcl_interfaces__srv__DescribeParameters__functions,
        rcl_interfaces__srv__DescribeParameters_Request__functions,
        rcl_interfaces__srv__DescribeParameters_Response__functions,
        rcl_interfaces__srv__DescribeParameters_Event__functions]
       rcl_interfaces__srv__DescribeParameters__type_support
       rcl_interfaces__srv__DescribeParameters__microxrcedds
       rcl_interfaces__srv__DescribeParameters__introspection,
     Generated (''rcl_interfaces'', ''srv'', ''GetLoggerLevels'')
       [rcl_interfaces__srv__GetLoggerLevels_Request__struct, rcl_interfaces__srv__GetLoggerLevels_Response__struct,
        rcl_interfaces__srv__GetLoggerLevels_Event__struct]
       [rcl_interfaces__srv__GetLoggerLevels__functions, rcl_interfaces__srv__GetLoggerLevels_Request__functions,
        rcl_interfaces__srv__GetLoggerLevels_Response__functions,
        rcl_interfaces__srv__GetLoggerLevels_Event__functions]
       rcl_interfaces__srv__GetLoggerLevels__type_support
       rcl_interfaces__srv__GetLoggerLevels__microxrcedds
       rcl_interfaces__srv__GetLoggerLevels__introspection,
     Generated (''rcl_interfaces'', ''srv'', ''GetParameterTypes'')
       [rcl_interfaces__srv__GetParameterTypes_Request__struct,
        rcl_interfaces__srv__GetParameterTypes_Response__struct,
        rcl_interfaces__srv__GetParameterTypes_Event__struct]
       [rcl_interfaces__srv__GetParameterTypes__functions, rcl_interfaces__srv__GetParameterTypes_Request__functions,
        rcl_interfaces__srv__GetParameterTypes_Response__functions,
        rcl_interfaces__srv__GetParameterTypes_Event__functions]
       rcl_interfaces__srv__GetParameterTypes__type_support
       rcl_interfaces__srv__GetParameterTypes__microxrcedds
       rcl_interfaces__srv__GetParameterTypes__introspection,
     Generated (''rcl_interfaces'', ''srv'', ''GetParameters'')
       [rcl_interfaces__srv__GetParameters_Request__struct, rcl_interfaces__srv__GetParameters_Response__struct,
        rcl_interfaces__srv__GetParameters_Event__struct]
       [rcl_interfaces__srv__GetParameters__functions, rcl_interfaces__srv__GetParameters_Request__functions,
        rcl_interfaces__srv__GetParameters_Response__functions, rcl_interfaces__srv__GetParameters_Event__functions]
       rcl_interfaces__srv__GetParameters__type_support
       rcl_interfaces__srv__GetParameters__microxrcedds
       rcl_interfaces__srv__GetParameters__introspection,
     Generated (''rcl_interfaces'', ''srv'', ''ListParameters'')
       [rcl_interfaces__srv__ListParameters_Request__struct, rcl_interfaces__srv__ListParameters_Response__struct,
        rcl_interfaces__srv__ListParameters_Event__struct]
       [rcl_interfaces__srv__ListParameters__functions, rcl_interfaces__srv__ListParameters_Request__functions,
        rcl_interfaces__srv__ListParameters_Response__functions,
        rcl_interfaces__srv__ListParameters_Event__functions]
       rcl_interfaces__srv__ListParameters__type_support
       rcl_interfaces__srv__ListParameters__microxrcedds
       rcl_interfaces__srv__ListParameters__introspection,
     Generated (''rcl_interfaces'', ''srv'', ''SetLoggerLevels'')
       [rcl_interfaces__srv__SetLoggerLevels_Request__struct, rcl_interfaces__srv__SetLoggerLevels_Response__struct,
        rcl_interfaces__srv__SetLoggerLevels_Event__struct]
       [rcl_interfaces__srv__SetLoggerLevels__functions, rcl_interfaces__srv__SetLoggerLevels_Request__functions,
        rcl_interfaces__srv__SetLoggerLevels_Response__functions,
        rcl_interfaces__srv__SetLoggerLevels_Event__functions]
       rcl_interfaces__srv__SetLoggerLevels__type_support
       rcl_interfaces__srv__SetLoggerLevels__microxrcedds
       rcl_interfaces__srv__SetLoggerLevels__introspection,
     Generated (''rcl_interfaces'', ''srv'', ''SetParameters'')
       [rcl_interfaces__srv__SetParameters_Request__struct, rcl_interfaces__srv__SetParameters_Response__struct,
        rcl_interfaces__srv__SetParameters_Event__struct]
       [rcl_interfaces__srv__SetParameters__functions, rcl_interfaces__srv__SetParameters_Request__functions,
        rcl_interfaces__srv__SetParameters_Response__functions, rcl_interfaces__srv__SetParameters_Event__functions]
       rcl_interfaces__srv__SetParameters__type_support
       rcl_interfaces__srv__SetParameters__microxrcedds
       rcl_interfaces__srv__SetParameters__introspection,
     Generated (''rcl_interfaces'', ''srv'', ''SetParametersAtomically'')
       [rcl_interfaces__srv__SetParametersAtomically_Request__struct,
        rcl_interfaces__srv__SetParametersAtomically_Response__struct,
        rcl_interfaces__srv__SetParametersAtomically_Event__struct]
       [rcl_interfaces__srv__SetParametersAtomically__functions,
        rcl_interfaces__srv__SetParametersAtomically_Request__functions,
        rcl_interfaces__srv__SetParametersAtomically_Response__functions,
        rcl_interfaces__srv__SetParametersAtomically_Event__functions]
       rcl_interfaces__srv__SetParametersAtomically__type_support
       rcl_interfaces__srv__SetParametersAtomically__microxrcedds
       rcl_interfaces__srv__SetParametersAtomically__introspection]"

definition composition_interfaces__headers :: "generated list" where [package_defs]:
  "composition_interfaces__headers =
    [Generated (''composition_interfaces'', ''srv'', ''ListNodes'')
       [composition_interfaces__srv__ListNodes_Request__struct,
        composition_interfaces__srv__ListNodes_Response__struct,
        composition_interfaces__srv__ListNodes_Event__struct]
       [composition_interfaces__srv__ListNodes__functions, composition_interfaces__srv__ListNodes_Request__functions,
        composition_interfaces__srv__ListNodes_Response__functions,
        composition_interfaces__srv__ListNodes_Event__functions]
       composition_interfaces__srv__ListNodes__type_support
       composition_interfaces__srv__ListNodes__microxrcedds
       composition_interfaces__srv__ListNodes__introspection,
     Generated (''composition_interfaces'', ''srv'', ''LoadNode'')
       [composition_interfaces__srv__LoadNode_Request__struct,
        composition_interfaces__srv__LoadNode_Response__struct, composition_interfaces__srv__LoadNode_Event__struct]
       [composition_interfaces__srv__LoadNode__functions, composition_interfaces__srv__LoadNode_Request__functions,
        composition_interfaces__srv__LoadNode_Response__functions,
        composition_interfaces__srv__LoadNode_Event__functions]
       composition_interfaces__srv__LoadNode__type_support
       composition_interfaces__srv__LoadNode__microxrcedds
       composition_interfaces__srv__LoadNode__introspection,
     Generated (''composition_interfaces'', ''srv'', ''UnloadNode'')
       [composition_interfaces__srv__UnloadNode_Request__struct,
        composition_interfaces__srv__UnloadNode_Response__struct,
        composition_interfaces__srv__UnloadNode_Event__struct]
       [composition_interfaces__srv__UnloadNode__functions,
        composition_interfaces__srv__UnloadNode_Request__functions,
        composition_interfaces__srv__UnloadNode_Response__functions,
        composition_interfaces__srv__UnloadNode_Event__functions]
       composition_interfaces__srv__UnloadNode__type_support
       composition_interfaces__srv__UnloadNode__microxrcedds
       composition_interfaces__srv__UnloadNode__introspection]"

definition type_description_interfaces__headers :: "generated list" where [package_defs]:
  "type_description_interfaces__headers =
    [Generated (''type_description_interfaces'', ''msg'', ''Field'')
       [type_description_interfaces__msg__Field__struct]
       [type_description_interfaces__msg__Field__functions]
       type_description_interfaces__msg__Field__type_support
       type_description_interfaces__msg__Field__microxrcedds
       type_description_interfaces__msg__Field__introspection,
     Generated (''type_description_interfaces'', ''msg'', ''FieldType'')
       [type_description_interfaces__msg__FieldType__struct]
       [type_description_interfaces__msg__FieldType__functions]
       type_description_interfaces__msg__FieldType__type_support
       type_description_interfaces__msg__FieldType__microxrcedds
       type_description_interfaces__msg__FieldType__introspection,
     Generated (''type_description_interfaces'', ''msg'', ''IndividualTypeDescription'')
       [type_description_interfaces__msg__IndividualTypeDescription__struct]
       [type_description_interfaces__msg__IndividualTypeDescription__functions]
       type_description_interfaces__msg__IndividualTypeDescription__type_support
       type_description_interfaces__msg__IndividualTypeDescription__microxrcedds
       type_description_interfaces__msg__IndividualTypeDescription__introspection,
     Generated (''type_description_interfaces'', ''msg'', ''KeyValue'')
       [type_description_interfaces__msg__KeyValue__struct]
       [type_description_interfaces__msg__KeyValue__functions]
       type_description_interfaces__msg__KeyValue__type_support
       type_description_interfaces__msg__KeyValue__microxrcedds
       type_description_interfaces__msg__KeyValue__introspection,
     Generated (''type_description_interfaces'', ''msg'', ''TypeDescription'')
       [type_description_interfaces__msg__TypeDescription__struct]
       [type_description_interfaces__msg__TypeDescription__functions]
       type_description_interfaces__msg__TypeDescription__type_support
       type_description_interfaces__msg__TypeDescription__microxrcedds
       type_description_interfaces__msg__TypeDescription__introspection,
     Generated (''type_description_interfaces'', ''msg'', ''TypeSource'')
       [type_description_interfaces__msg__TypeSource__struct]
       [type_description_interfaces__msg__TypeSource__functions]
       type_description_interfaces__msg__TypeSource__type_support
       type_description_interfaces__msg__TypeSource__microxrcedds
       type_description_interfaces__msg__TypeSource__introspection,
     Generated (''type_description_interfaces'', ''srv'', ''GetTypeDescription'')
       [type_description_interfaces__srv__GetTypeDescription_Request__struct,
        type_description_interfaces__srv__GetTypeDescription_Response__struct,
        type_description_interfaces__srv__GetTypeDescription_Event__struct]
       [type_description_interfaces__srv__GetTypeDescription__functions,
        type_description_interfaces__srv__GetTypeDescription_Request__functions,
        type_description_interfaces__srv__GetTypeDescription_Response__functions,
        type_description_interfaces__srv__GetTypeDescription_Event__functions]
       type_description_interfaces__srv__GetTypeDescription__type_support
       type_description_interfaces__srv__GetTypeDescription__microxrcedds
       type_description_interfaces__srv__GetTypeDescription__introspection]"

definition diagnostic_msgs__headers :: "generated list" where [package_defs]:
  "diagnostic_msgs__headers =
    [Generated (''diagnostic_msgs'', ''msg'', ''DiagnosticArray'')
       [diagnostic_msgs__msg__DiagnosticArray__struct]
       [diagnostic_msgs__msg__DiagnosticArray__functions]
       diagnostic_msgs__msg__DiagnosticArray__type_support
       diagnostic_msgs__msg__DiagnosticArray__microxrcedds
       diagnostic_msgs__msg__DiagnosticArray__introspection,
     Generated (''diagnostic_msgs'', ''msg'', ''DiagnosticStatus'')
       [diagnostic_msgs__msg__DiagnosticStatus__struct]
       [diagnostic_msgs__msg__DiagnosticStatus__functions]
       diagnostic_msgs__msg__DiagnosticStatus__type_support
       diagnostic_msgs__msg__DiagnosticStatus__microxrcedds
       diagnostic_msgs__msg__DiagnosticStatus__introspection,
     Generated (''diagnostic_msgs'', ''msg'', ''KeyValue'')
       [diagnostic_msgs__msg__KeyValue__struct]
       [diagnostic_msgs__msg__KeyValue__functions]
       diagnostic_msgs__msg__KeyValue__type_support
       diagnostic_msgs__msg__KeyValue__microxrcedds
       diagnostic_msgs__msg__KeyValue__introspection,
     Generated (''diagnostic_msgs'', ''srv'', ''AddDiagnostics'')
       [diagnostic_msgs__srv__AddDiagnostics_Request__struct, diagnostic_msgs__srv__AddDiagnostics_Response__struct,
        diagnostic_msgs__srv__AddDiagnostics_Event__struct]
       [diagnostic_msgs__srv__AddDiagnostics__functions, diagnostic_msgs__srv__AddDiagnostics_Request__functions,
        diagnostic_msgs__srv__AddDiagnostics_Response__functions,
        diagnostic_msgs__srv__AddDiagnostics_Event__functions]
       diagnostic_msgs__srv__AddDiagnostics__type_support
       diagnostic_msgs__srv__AddDiagnostics__microxrcedds
       diagnostic_msgs__srv__AddDiagnostics__introspection,
     Generated (''diagnostic_msgs'', ''srv'', ''SelfTest'')
       [diagnostic_msgs__srv__SelfTest_Request__struct, diagnostic_msgs__srv__SelfTest_Response__struct,
        diagnostic_msgs__srv__SelfTest_Event__struct]
       [diagnostic_msgs__srv__SelfTest__functions, diagnostic_msgs__srv__SelfTest_Request__functions,
        diagnostic_msgs__srv__SelfTest_Response__functions, diagnostic_msgs__srv__SelfTest_Event__functions]
       diagnostic_msgs__srv__SelfTest__type_support
       diagnostic_msgs__srv__SelfTest__microxrcedds
       diagnostic_msgs__srv__SelfTest__introspection]"

definition example_interfaces__headers :: "generated list" where [package_defs]:
  "example_interfaces__headers =
    [Generated (''example_interfaces'', ''action'', ''Fibonacci'')
       [example_interfaces__action__Fibonacci_Goal__struct, example_interfaces__action__Fibonacci_Result__struct,
        example_interfaces__action__Fibonacci_Feedback__struct,
        example_interfaces__action__Fibonacci_SendGoal_Request__struct,
        example_interfaces__action__Fibonacci_SendGoal_Response__struct,
        example_interfaces__action__Fibonacci_SendGoal_Event__struct,
        example_interfaces__action__Fibonacci_GetResult_Request__struct,
        example_interfaces__action__Fibonacci_GetResult_Response__struct,
        example_interfaces__action__Fibonacci_GetResult_Event__struct,
        example_interfaces__action__Fibonacci_FeedbackMessage__struct]
       [example_interfaces__action__Fibonacci__functions, example_interfaces__action__Fibonacci_Goal__functions,
        example_interfaces__action__Fibonacci_Result__functions,
        example_interfaces__action__Fibonacci_Feedback__functions,
        example_interfaces__action__Fibonacci_SendGoal__functions,
        example_interfaces__action__Fibonacci_SendGoal_Request__functions,
        example_interfaces__action__Fibonacci_SendGoal_Response__functions,
        example_interfaces__action__Fibonacci_SendGoal_Event__functions,
        example_interfaces__action__Fibonacci_GetResult__functions,
        example_interfaces__action__Fibonacci_GetResult_Request__functions,
        example_interfaces__action__Fibonacci_GetResult_Response__functions,
        example_interfaces__action__Fibonacci_GetResult_Event__functions,
        example_interfaces__action__Fibonacci_FeedbackMessage__functions]
       example_interfaces__action__Fibonacci__type_support
       example_interfaces__action__Fibonacci__microxrcedds
       example_interfaces__action__Fibonacci__introspection,
     Generated (''example_interfaces'', ''msg'', ''Bool'')
       [example_interfaces__msg__Bool__struct]
       [example_interfaces__msg__Bool__functions]
       example_interfaces__msg__Bool__type_support
       example_interfaces__msg__Bool__microxrcedds
       example_interfaces__msg__Bool__introspection,
     Generated (''example_interfaces'', ''msg'', ''Byte'')
       [example_interfaces__msg__Byte__struct]
       [example_interfaces__msg__Byte__functions]
       example_interfaces__msg__Byte__type_support
       example_interfaces__msg__Byte__microxrcedds
       example_interfaces__msg__Byte__introspection,
     Generated (''example_interfaces'', ''msg'', ''ByteMultiArray'')
       [example_interfaces__msg__ByteMultiArray__struct]
       [example_interfaces__msg__ByteMultiArray__functions]
       example_interfaces__msg__ByteMultiArray__type_support
       example_interfaces__msg__ByteMultiArray__microxrcedds
       example_interfaces__msg__ByteMultiArray__introspection,
     Generated (''example_interfaces'', ''msg'', ''Char'')
       [example_interfaces__msg__Char__struct]
       [example_interfaces__msg__Char__functions]
       example_interfaces__msg__Char__type_support
       example_interfaces__msg__Char__microxrcedds
       example_interfaces__msg__Char__introspection,
     Generated (''example_interfaces'', ''msg'', ''Empty'')
       [example_interfaces__msg__Empty__struct]
       [example_interfaces__msg__Empty__functions]
       example_interfaces__msg__Empty__type_support
       example_interfaces__msg__Empty__microxrcedds
       example_interfaces__msg__Empty__introspection,
     Generated (''example_interfaces'', ''msg'', ''Float32'')
       [example_interfaces__msg__Float32__struct]
       [example_interfaces__msg__Float32__functions]
       example_interfaces__msg__Float32__type_support
       example_interfaces__msg__Float32__microxrcedds
       example_interfaces__msg__Float32__introspection,
     Generated (''example_interfaces'', ''msg'', ''Float32MultiArray'')
       [example_interfaces__msg__Float32MultiArray__struct]
       [example_interfaces__msg__Float32MultiArray__functions]
       example_interfaces__msg__Float32MultiArray__type_support
       example_interfaces__msg__Float32MultiArray__microxrcedds
       example_interfaces__msg__Float32MultiArray__introspection,
     Generated (''example_interfaces'', ''msg'', ''Float64'')
       [example_interfaces__msg__Float64__struct]
       [example_interfaces__msg__Float64__functions]
       example_interfaces__msg__Float64__type_support
       example_interfaces__msg__Float64__microxrcedds
       example_interfaces__msg__Float64__introspection,
     Generated (''example_interfaces'', ''msg'', ''Float64MultiArray'')
       [example_interfaces__msg__Float64MultiArray__struct]
       [example_interfaces__msg__Float64MultiArray__functions]
       example_interfaces__msg__Float64MultiArray__type_support
       example_interfaces__msg__Float64MultiArray__microxrcedds
       example_interfaces__msg__Float64MultiArray__introspection,
     Generated (''example_interfaces'', ''msg'', ''Int16'')
       [example_interfaces__msg__Int16__struct]
       [example_interfaces__msg__Int16__functions]
       example_interfaces__msg__Int16__type_support
       example_interfaces__msg__Int16__microxrcedds
       example_interfaces__msg__Int16__introspection,
     Generated (''example_interfaces'', ''msg'', ''Int16MultiArray'')
       [example_interfaces__msg__Int16MultiArray__struct]
       [example_interfaces__msg__Int16MultiArray__functions]
       example_interfaces__msg__Int16MultiArray__type_support
       example_interfaces__msg__Int16MultiArray__microxrcedds
       example_interfaces__msg__Int16MultiArray__introspection,
     Generated (''example_interfaces'', ''msg'', ''Int32'')
       [example_interfaces__msg__Int32__struct]
       [example_interfaces__msg__Int32__functions]
       example_interfaces__msg__Int32__type_support
       example_interfaces__msg__Int32__microxrcedds
       example_interfaces__msg__Int32__introspection,
     Generated (''example_interfaces'', ''msg'', ''Int32MultiArray'')
       [example_interfaces__msg__Int32MultiArray__struct]
       [example_interfaces__msg__Int32MultiArray__functions]
       example_interfaces__msg__Int32MultiArray__type_support
       example_interfaces__msg__Int32MultiArray__microxrcedds
       example_interfaces__msg__Int32MultiArray__introspection,
     Generated (''example_interfaces'', ''msg'', ''Int64'')
       [example_interfaces__msg__Int64__struct]
       [example_interfaces__msg__Int64__functions]
       example_interfaces__msg__Int64__type_support
       example_interfaces__msg__Int64__microxrcedds
       example_interfaces__msg__Int64__introspection,
     Generated (''example_interfaces'', ''msg'', ''Int64MultiArray'')
       [example_interfaces__msg__Int64MultiArray__struct]
       [example_interfaces__msg__Int64MultiArray__functions]
       example_interfaces__msg__Int64MultiArray__type_support
       example_interfaces__msg__Int64MultiArray__microxrcedds
       example_interfaces__msg__Int64MultiArray__introspection,
     Generated (''example_interfaces'', ''msg'', ''Int8'')
       [example_interfaces__msg__Int8__struct]
       [example_interfaces__msg__Int8__functions]
       example_interfaces__msg__Int8__type_support
       example_interfaces__msg__Int8__microxrcedds
       example_interfaces__msg__Int8__introspection,
     Generated (''example_interfaces'', ''msg'', ''Int8MultiArray'')
       [example_interfaces__msg__Int8MultiArray__struct]
       [example_interfaces__msg__Int8MultiArray__functions]
       example_interfaces__msg__Int8MultiArray__type_support
       example_interfaces__msg__Int8MultiArray__microxrcedds
       example_interfaces__msg__Int8MultiArray__introspection,
     Generated (''example_interfaces'', ''msg'', ''MultiArrayDimension'')
       [example_interfaces__msg__MultiArrayDimension__struct]
       [example_interfaces__msg__MultiArrayDimension__functions]
       example_interfaces__msg__MultiArrayDimension__type_support
       example_interfaces__msg__MultiArrayDimension__microxrcedds
       example_interfaces__msg__MultiArrayDimension__introspection,
     Generated (''example_interfaces'', ''msg'', ''MultiArrayLayout'')
       [example_interfaces__msg__MultiArrayLayout__struct]
       [example_interfaces__msg__MultiArrayLayout__functions]
       example_interfaces__msg__MultiArrayLayout__type_support
       example_interfaces__msg__MultiArrayLayout__microxrcedds
       example_interfaces__msg__MultiArrayLayout__introspection,
     Generated (''example_interfaces'', ''msg'', ''String'')
       [example_interfaces__msg__String__struct]
       [example_interfaces__msg__String__functions]
       example_interfaces__msg__String__type_support
       example_interfaces__msg__String__microxrcedds
       example_interfaces__msg__String__introspection,
     Generated (''example_interfaces'', ''msg'', ''UInt16'')
       [example_interfaces__msg__UInt16__struct]
       [example_interfaces__msg__UInt16__functions]
       example_interfaces__msg__UInt16__type_support
       example_interfaces__msg__UInt16__microxrcedds
       example_interfaces__msg__UInt16__introspection,
     Generated (''example_interfaces'', ''msg'', ''UInt16MultiArray'')
       [example_interfaces__msg__UInt16MultiArray__struct]
       [example_interfaces__msg__UInt16MultiArray__functions]
       example_interfaces__msg__UInt16MultiArray__type_support
       example_interfaces__msg__UInt16MultiArray__microxrcedds
       example_interfaces__msg__UInt16MultiArray__introspection,
     Generated (''example_interfaces'', ''msg'', ''UInt32'')
       [example_interfaces__msg__UInt32__struct]
       [example_interfaces__msg__UInt32__functions]
       example_interfaces__msg__UInt32__type_support
       example_interfaces__msg__UInt32__microxrcedds
       example_interfaces__msg__UInt32__introspection,
     Generated (''example_interfaces'', ''msg'', ''UInt32MultiArray'')
       [example_interfaces__msg__UInt32MultiArray__struct]
       [example_interfaces__msg__UInt32MultiArray__functions]
       example_interfaces__msg__UInt32MultiArray__type_support
       example_interfaces__msg__UInt32MultiArray__microxrcedds
       example_interfaces__msg__UInt32MultiArray__introspection,
     Generated (''example_interfaces'', ''msg'', ''UInt64'')
       [example_interfaces__msg__UInt64__struct]
       [example_interfaces__msg__UInt64__functions]
       example_interfaces__msg__UInt64__type_support
       example_interfaces__msg__UInt64__microxrcedds
       example_interfaces__msg__UInt64__introspection,
     Generated (''example_interfaces'', ''msg'', ''UInt64MultiArray'')
       [example_interfaces__msg__UInt64MultiArray__struct]
       [example_interfaces__msg__UInt64MultiArray__functions]
       example_interfaces__msg__UInt64MultiArray__type_support
       example_interfaces__msg__UInt64MultiArray__microxrcedds
       example_interfaces__msg__UInt64MultiArray__introspection,
     Generated (''example_interfaces'', ''msg'', ''UInt8'')
       [example_interfaces__msg__UInt8__struct]
       [example_interfaces__msg__UInt8__functions]
       example_interfaces__msg__UInt8__type_support
       example_interfaces__msg__UInt8__microxrcedds
       example_interfaces__msg__UInt8__introspection,
     Generated (''example_interfaces'', ''msg'', ''UInt8MultiArray'')
       [example_interfaces__msg__UInt8MultiArray__struct]
       [example_interfaces__msg__UInt8MultiArray__functions]
       example_interfaces__msg__UInt8MultiArray__type_support
       example_interfaces__msg__UInt8MultiArray__microxrcedds
       example_interfaces__msg__UInt8MultiArray__introspection,
     Generated (''example_interfaces'', ''msg'', ''WString'')
       [example_interfaces__msg__WString__struct]
       [example_interfaces__msg__WString__functions]
       example_interfaces__msg__WString__type_support
       example_interfaces__msg__WString__microxrcedds
       example_interfaces__msg__WString__introspection,
     Generated (''example_interfaces'', ''srv'', ''AddTwoInts'')
       [example_interfaces__srv__AddTwoInts_Request__struct, example_interfaces__srv__AddTwoInts_Response__struct,
        example_interfaces__srv__AddTwoInts_Event__struct]
       [example_interfaces__srv__AddTwoInts__functions, example_interfaces__srv__AddTwoInts_Request__functions,
        example_interfaces__srv__AddTwoInts_Response__functions,
        example_interfaces__srv__AddTwoInts_Event__functions]
       example_interfaces__srv__AddTwoInts__type_support
       example_interfaces__srv__AddTwoInts__microxrcedds
       example_interfaces__srv__AddTwoInts__introspection,
     Generated (''example_interfaces'', ''srv'', ''SetBool'')
       [example_interfaces__srv__SetBool_Request__struct, example_interfaces__srv__SetBool_Response__struct,
        example_interfaces__srv__SetBool_Event__struct]
       [example_interfaces__srv__SetBool__functions, example_interfaces__srv__SetBool_Request__functions,
        example_interfaces__srv__SetBool_Response__functions, example_interfaces__srv__SetBool_Event__functions]
       example_interfaces__srv__SetBool__type_support
       example_interfaces__srv__SetBool__microxrcedds
       example_interfaces__srv__SetBool__introspection,
     Generated (''example_interfaces'', ''srv'', ''Trigger'')
       [example_interfaces__srv__Trigger_Request__struct, example_interfaces__srv__Trigger_Response__struct,
        example_interfaces__srv__Trigger_Event__struct]
       [example_interfaces__srv__Trigger__functions, example_interfaces__srv__Trigger_Request__functions,
        example_interfaces__srv__Trigger_Response__functions, example_interfaces__srv__Trigger_Event__functions]
       example_interfaces__srv__Trigger__type_support
       example_interfaces__srv__Trigger__microxrcedds
       example_interfaces__srv__Trigger__introspection]"

definition geometry_msgs__headers :: "generated list" where [package_defs]:
  "geometry_msgs__headers =
    [Generated (''geometry_msgs'', ''msg'', ''Accel'')
       [geometry_msgs__msg__Accel__struct]
       [geometry_msgs__msg__Accel__functions]
       geometry_msgs__msg__Accel__type_support
       geometry_msgs__msg__Accel__microxrcedds
       geometry_msgs__msg__Accel__introspection,
     Generated (''geometry_msgs'', ''msg'', ''AccelStamped'')
       [geometry_msgs__msg__AccelStamped__struct]
       [geometry_msgs__msg__AccelStamped__functions]
       geometry_msgs__msg__AccelStamped__type_support
       geometry_msgs__msg__AccelStamped__microxrcedds
       geometry_msgs__msg__AccelStamped__introspection,
     Generated (''geometry_msgs'', ''msg'', ''AccelWithCovariance'')
       [geometry_msgs__msg__AccelWithCovariance__struct]
       [geometry_msgs__msg__AccelWithCovariance__functions]
       geometry_msgs__msg__AccelWithCovariance__type_support
       geometry_msgs__msg__AccelWithCovariance__microxrcedds
       geometry_msgs__msg__AccelWithCovariance__introspection,
     Generated (''geometry_msgs'', ''msg'', ''AccelWithCovarianceStamped'')
       [geometry_msgs__msg__AccelWithCovarianceStamped__struct]
       [geometry_msgs__msg__AccelWithCovarianceStamped__functions]
       geometry_msgs__msg__AccelWithCovarianceStamped__type_support
       geometry_msgs__msg__AccelWithCovarianceStamped__microxrcedds
       geometry_msgs__msg__AccelWithCovarianceStamped__introspection,
     Generated (''geometry_msgs'', ''msg'', ''Inertia'')
       [geometry_msgs__msg__Inertia__struct]
       [geometry_msgs__msg__Inertia__functions]
       geometry_msgs__msg__Inertia__type_support
       geometry_msgs__msg__Inertia__microxrcedds
       geometry_msgs__msg__Inertia__introspection,
     Generated (''geometry_msgs'', ''msg'', ''InertiaStamped'')
       [geometry_msgs__msg__InertiaStamped__struct]
       [geometry_msgs__msg__InertiaStamped__functions]
       geometry_msgs__msg__InertiaStamped__type_support
       geometry_msgs__msg__InertiaStamped__microxrcedds
       geometry_msgs__msg__InertiaStamped__introspection,
     Generated (''geometry_msgs'', ''msg'', ''Point32'')
       [geometry_msgs__msg__Point32__struct]
       [geometry_msgs__msg__Point32__functions]
       geometry_msgs__msg__Point32__type_support
       geometry_msgs__msg__Point32__microxrcedds
       geometry_msgs__msg__Point32__introspection,
     Generated (''geometry_msgs'', ''msg'', ''Point'')
       [geometry_msgs__msg__Point__struct]
       [geometry_msgs__msg__Point__functions]
       geometry_msgs__msg__Point__type_support
       geometry_msgs__msg__Point__microxrcedds
       geometry_msgs__msg__Point__introspection,
     Generated (''geometry_msgs'', ''msg'', ''PointStamped'')
       [geometry_msgs__msg__PointStamped__struct]
       [geometry_msgs__msg__PointStamped__functions]
       geometry_msgs__msg__PointStamped__type_support
       geometry_msgs__msg__PointStamped__microxrcedds
       geometry_msgs__msg__PointStamped__introspection,
     Generated (''geometry_msgs'', ''msg'', ''Polygon'')
       [geometry_msgs__msg__Polygon__struct]
       [geometry_msgs__msg__Polygon__functions]
       geometry_msgs__msg__Polygon__type_support
       geometry_msgs__msg__Polygon__microxrcedds
       geometry_msgs__msg__Polygon__introspection,
     Generated (''geometry_msgs'', ''msg'', ''PolygonInstance'')
       [geometry_msgs__msg__PolygonInstance__struct]
       [geometry_msgs__msg__PolygonInstance__functions]
       geometry_msgs__msg__PolygonInstance__type_support
       geometry_msgs__msg__PolygonInstance__microxrcedds
       geometry_msgs__msg__PolygonInstance__introspection,
     Generated (''geometry_msgs'', ''msg'', ''PolygonInstanceStamped'')
       [geometry_msgs__msg__PolygonInstanceStamped__struct]
       [geometry_msgs__msg__PolygonInstanceStamped__functions]
       geometry_msgs__msg__PolygonInstanceStamped__type_support
       geometry_msgs__msg__PolygonInstanceStamped__microxrcedds
       geometry_msgs__msg__PolygonInstanceStamped__introspection,
     Generated (''geometry_msgs'', ''msg'', ''PolygonStamped'')
       [geometry_msgs__msg__PolygonStamped__struct]
       [geometry_msgs__msg__PolygonStamped__functions]
       geometry_msgs__msg__PolygonStamped__type_support
       geometry_msgs__msg__PolygonStamped__microxrcedds
       geometry_msgs__msg__PolygonStamped__introspection,
     Generated (''geometry_msgs'', ''msg'', ''Pose2D'')
       [geometry_msgs__msg__Pose2D__struct]
       [geometry_msgs__msg__Pose2D__functions]
       geometry_msgs__msg__Pose2D__type_support
       geometry_msgs__msg__Pose2D__microxrcedds
       geometry_msgs__msg__Pose2D__introspection,
     Generated (''geometry_msgs'', ''msg'', ''Pose'')
       [geometry_msgs__msg__Pose__struct]
       [geometry_msgs__msg__Pose__functions]
       geometry_msgs__msg__Pose__type_support
       geometry_msgs__msg__Pose__microxrcedds
       geometry_msgs__msg__Pose__introspection,
     Generated (''geometry_msgs'', ''msg'', ''PoseArray'')
       [geometry_msgs__msg__PoseArray__struct]
       [geometry_msgs__msg__PoseArray__functions]
       geometry_msgs__msg__PoseArray__type_support
       geometry_msgs__msg__PoseArray__microxrcedds
       geometry_msgs__msg__PoseArray__introspection,
     Generated (''geometry_msgs'', ''msg'', ''PoseStamped'')
       [geometry_msgs__msg__PoseStamped__struct]
       [geometry_msgs__msg__PoseStamped__functions]
       geometry_msgs__msg__PoseStamped__type_support
       geometry_msgs__msg__PoseStamped__microxrcedds
       geometry_msgs__msg__PoseStamped__introspection,
     Generated (''geometry_msgs'', ''msg'', ''PoseWithCovariance'')
       [geometry_msgs__msg__PoseWithCovariance__struct]
       [geometry_msgs__msg__PoseWithCovariance__functions]
       geometry_msgs__msg__PoseWithCovariance__type_support
       geometry_msgs__msg__PoseWithCovariance__microxrcedds
       geometry_msgs__msg__PoseWithCovariance__introspection,
     Generated (''geometry_msgs'', ''msg'', ''PoseWithCovarianceStamped'')
       [geometry_msgs__msg__PoseWithCovarianceStamped__struct]
       [geometry_msgs__msg__PoseWithCovarianceStamped__functions]
       geometry_msgs__msg__PoseWithCovarianceStamped__type_support
       geometry_msgs__msg__PoseWithCovarianceStamped__microxrcedds
       geometry_msgs__msg__PoseWithCovarianceStamped__introspection,
     Generated (''geometry_msgs'', ''msg'', ''Quaternion'')
       [geometry_msgs__msg__Quaternion__struct]
       [geometry_msgs__msg__Quaternion__functions]
       geometry_msgs__msg__Quaternion__type_support
       geometry_msgs__msg__Quaternion__microxrcedds
       geometry_msgs__msg__Quaternion__introspection,
     Generated (''geometry_msgs'', ''msg'', ''QuaternionStamped'')
       [geometry_msgs__msg__QuaternionStamped__struct]
       [geometry_msgs__msg__QuaternionStamped__functions]
       geometry_msgs__msg__QuaternionStamped__type_support
       geometry_msgs__msg__QuaternionStamped__microxrcedds
       geometry_msgs__msg__QuaternionStamped__introspection,
     Generated (''geometry_msgs'', ''msg'', ''Transform'')
       [geometry_msgs__msg__Transform__struct]
       [geometry_msgs__msg__Transform__functions]
       geometry_msgs__msg__Transform__type_support
       geometry_msgs__msg__Transform__microxrcedds
       geometry_msgs__msg__Transform__introspection,
     Generated (''geometry_msgs'', ''msg'', ''TransformStamped'')
       [geometry_msgs__msg__TransformStamped__struct]
       [geometry_msgs__msg__TransformStamped__functions]
       geometry_msgs__msg__TransformStamped__type_support
       geometry_msgs__msg__TransformStamped__microxrcedds
       geometry_msgs__msg__TransformStamped__introspection,
     Generated (''geometry_msgs'', ''msg'', ''Twist'')
       [geometry_msgs__msg__Twist__struct]
       [geometry_msgs__msg__Twist__functions]
       geometry_msgs__msg__Twist__type_support
       geometry_msgs__msg__Twist__microxrcedds
       geometry_msgs__msg__Twist__introspection,
     Generated (''geometry_msgs'', ''msg'', ''TwistStamped'')
       [geometry_msgs__msg__TwistStamped__struct]
       [geometry_msgs__msg__TwistStamped__functions]
       geometry_msgs__msg__TwistStamped__type_support
       geometry_msgs__msg__TwistStamped__microxrcedds
       geometry_msgs__msg__TwistStamped__introspection,
     Generated (''geometry_msgs'', ''msg'', ''TwistWithCovariance'')
       [geometry_msgs__msg__TwistWithCovariance__struct]
       [geometry_msgs__msg__TwistWithCovariance__functions]
       geometry_msgs__msg__TwistWithCovariance__type_support
       geometry_msgs__msg__TwistWithCovariance__microxrcedds
       geometry_msgs__msg__TwistWithCovariance__introspection,
     Generated (''geometry_msgs'', ''msg'', ''TwistWithCovarianceStamped'')
       [geometry_msgs__msg__TwistWithCovarianceStamped__struct]
       [geometry_msgs__msg__TwistWithCovarianceStamped__functions]
       geometry_msgs__msg__TwistWithCovarianceStamped__type_support
       geometry_msgs__msg__TwistWithCovarianceStamped__microxrcedds
       geometry_msgs__msg__TwistWithCovarianceStamped__introspection,
     Generated (''geometry_msgs'', ''msg'', ''Vector3'')
       [geometry_msgs__msg__Vector3__struct]
       [geometry_msgs__msg__Vector3__functions]
       geometry_msgs__msg__Vector3__type_support
       geometry_msgs__msg__Vector3__microxrcedds
       geometry_msgs__msg__Vector3__introspection,
     Generated (''geometry_msgs'', ''msg'', ''Vector3Stamped'')
       [geometry_msgs__msg__Vector3Stamped__struct]
       [geometry_msgs__msg__Vector3Stamped__functions]
       geometry_msgs__msg__Vector3Stamped__type_support
       geometry_msgs__msg__Vector3Stamped__microxrcedds
       geometry_msgs__msg__Vector3Stamped__introspection,
     Generated (''geometry_msgs'', ''msg'', ''VelocityStamped'')
       [geometry_msgs__msg__VelocityStamped__struct]
       [geometry_msgs__msg__VelocityStamped__functions]
       geometry_msgs__msg__VelocityStamped__type_support
       geometry_msgs__msg__VelocityStamped__microxrcedds
       geometry_msgs__msg__VelocityStamped__introspection,
     Generated (''geometry_msgs'', ''msg'', ''Wrench'')
       [geometry_msgs__msg__Wrench__struct]
       [geometry_msgs__msg__Wrench__functions]
       geometry_msgs__msg__Wrench__type_support
       geometry_msgs__msg__Wrench__microxrcedds
       geometry_msgs__msg__Wrench__introspection,
     Generated (''geometry_msgs'', ''msg'', ''WrenchStamped'')
       [geometry_msgs__msg__WrenchStamped__struct]
       [geometry_msgs__msg__WrenchStamped__functions]
       geometry_msgs__msg__WrenchStamped__type_support
       geometry_msgs__msg__WrenchStamped__microxrcedds
       geometry_msgs__msg__WrenchStamped__introspection]"

definition shape_msgs__headers :: "generated list" where [package_defs]:
  "shape_msgs__headers =
    [Generated (''shape_msgs'', ''msg'', ''Mesh'')
       [shape_msgs__msg__Mesh__struct]
       [shape_msgs__msg__Mesh__functions]
       shape_msgs__msg__Mesh__type_support
       shape_msgs__msg__Mesh__microxrcedds
       shape_msgs__msg__Mesh__introspection,
     Generated (''shape_msgs'', ''msg'', ''MeshTriangle'')
       [shape_msgs__msg__MeshTriangle__struct]
       [shape_msgs__msg__MeshTriangle__functions]
       shape_msgs__msg__MeshTriangle__type_support
       shape_msgs__msg__MeshTriangle__microxrcedds
       shape_msgs__msg__MeshTriangle__introspection,
     Generated (''shape_msgs'', ''msg'', ''Plane'')
       [shape_msgs__msg__Plane__struct]
       [shape_msgs__msg__Plane__functions]
       shape_msgs__msg__Plane__type_support
       shape_msgs__msg__Plane__microxrcedds
       shape_msgs__msg__Plane__introspection,
     Generated (''shape_msgs'', ''msg'', ''SolidPrimitive'')
       [shape_msgs__msg__SolidPrimitive__struct]
       [shape_msgs__msg__SolidPrimitive__functions]
       shape_msgs__msg__SolidPrimitive__type_support
       shape_msgs__msg__SolidPrimitive__microxrcedds
       shape_msgs__msg__SolidPrimitive__introspection]"

definition sensor_msgs__headers :: "generated list" where [package_defs]:
  "sensor_msgs__headers =
    [Generated (''sensor_msgs'', ''msg'', ''BatteryState'')
       [sensor_msgs__msg__BatteryState__struct]
       [sensor_msgs__msg__BatteryState__functions]
       sensor_msgs__msg__BatteryState__type_support
       sensor_msgs__msg__BatteryState__microxrcedds
       sensor_msgs__msg__BatteryState__introspection,
     Generated (''sensor_msgs'', ''msg'', ''CameraInfo'')
       [sensor_msgs__msg__CameraInfo__struct]
       [sensor_msgs__msg__CameraInfo__functions]
       sensor_msgs__msg__CameraInfo__type_support
       sensor_msgs__msg__CameraInfo__microxrcedds
       sensor_msgs__msg__CameraInfo__introspection,
     Generated (''sensor_msgs'', ''msg'', ''ChannelFloat32'')
       [sensor_msgs__msg__ChannelFloat32__struct]
       [sensor_msgs__msg__ChannelFloat32__functions]
       sensor_msgs__msg__ChannelFloat32__type_support
       sensor_msgs__msg__ChannelFloat32__microxrcedds
       sensor_msgs__msg__ChannelFloat32__introspection,
     Generated (''sensor_msgs'', ''msg'', ''CompressedImage'')
       [sensor_msgs__msg__CompressedImage__struct]
       [sensor_msgs__msg__CompressedImage__functions]
       sensor_msgs__msg__CompressedImage__type_support
       sensor_msgs__msg__CompressedImage__microxrcedds
       sensor_msgs__msg__CompressedImage__introspection,
     Generated (''sensor_msgs'', ''msg'', ''FluidPressure'')
       [sensor_msgs__msg__FluidPressure__struct]
       [sensor_msgs__msg__FluidPressure__functions]
       sensor_msgs__msg__FluidPressure__type_support
       sensor_msgs__msg__FluidPressure__microxrcedds
       sensor_msgs__msg__FluidPressure__introspection,
     Generated (''sensor_msgs'', ''msg'', ''Illuminance'')
       [sensor_msgs__msg__Illuminance__struct]
       [sensor_msgs__msg__Illuminance__functions]
       sensor_msgs__msg__Illuminance__type_support
       sensor_msgs__msg__Illuminance__microxrcedds
       sensor_msgs__msg__Illuminance__introspection,
     Generated (''sensor_msgs'', ''msg'', ''Image'')
       [sensor_msgs__msg__Image__struct]
       [sensor_msgs__msg__Image__functions]
       sensor_msgs__msg__Image__type_support
       sensor_msgs__msg__Image__microxrcedds
       sensor_msgs__msg__Image__introspection,
     Generated (''sensor_msgs'', ''msg'', ''Imu'')
       [sensor_msgs__msg__Imu__struct]
       [sensor_msgs__msg__Imu__functions]
       sensor_msgs__msg__Imu__type_support
       sensor_msgs__msg__Imu__microxrcedds
       sensor_msgs__msg__Imu__introspection,
     Generated (''sensor_msgs'', ''msg'', ''JointState'')
       [sensor_msgs__msg__JointState__struct]
       [sensor_msgs__msg__JointState__functions]
       sensor_msgs__msg__JointState__type_support
       sensor_msgs__msg__JointState__microxrcedds
       sensor_msgs__msg__JointState__introspection,
     Generated (''sensor_msgs'', ''msg'', ''Joy'')
       [sensor_msgs__msg__Joy__struct]
       [sensor_msgs__msg__Joy__functions]
       sensor_msgs__msg__Joy__type_support
       sensor_msgs__msg__Joy__microxrcedds
       sensor_msgs__msg__Joy__introspection,
     Generated (''sensor_msgs'', ''msg'', ''JoyFeedback'')
       [sensor_msgs__msg__JoyFeedback__struct]
       [sensor_msgs__msg__JoyFeedback__functions]
       sensor_msgs__msg__JoyFeedback__type_support
       sensor_msgs__msg__JoyFeedback__microxrcedds
       sensor_msgs__msg__JoyFeedback__introspection,
     Generated (''sensor_msgs'', ''msg'', ''JoyFeedbackArray'')
       [sensor_msgs__msg__JoyFeedbackArray__struct]
       [sensor_msgs__msg__JoyFeedbackArray__functions]
       sensor_msgs__msg__JoyFeedbackArray__type_support
       sensor_msgs__msg__JoyFeedbackArray__microxrcedds
       sensor_msgs__msg__JoyFeedbackArray__introspection,
     Generated (''sensor_msgs'', ''msg'', ''LaserEcho'')
       [sensor_msgs__msg__LaserEcho__struct]
       [sensor_msgs__msg__LaserEcho__functions]
       sensor_msgs__msg__LaserEcho__type_support
       sensor_msgs__msg__LaserEcho__microxrcedds
       sensor_msgs__msg__LaserEcho__introspection,
     Generated (''sensor_msgs'', ''msg'', ''LaserScan'')
       [sensor_msgs__msg__LaserScan__struct]
       [sensor_msgs__msg__LaserScan__functions]
       sensor_msgs__msg__LaserScan__type_support
       sensor_msgs__msg__LaserScan__microxrcedds
       sensor_msgs__msg__LaserScan__introspection,
     Generated (''sensor_msgs'', ''msg'', ''MagneticField'')
       [sensor_msgs__msg__MagneticField__struct]
       [sensor_msgs__msg__MagneticField__functions]
       sensor_msgs__msg__MagneticField__type_support
       sensor_msgs__msg__MagneticField__microxrcedds
       sensor_msgs__msg__MagneticField__introspection,
     Generated (''sensor_msgs'', ''msg'', ''MultiDOFJointState'')
       [sensor_msgs__msg__MultiDOFJointState__struct]
       [sensor_msgs__msg__MultiDOFJointState__functions]
       sensor_msgs__msg__MultiDOFJointState__type_support
       sensor_msgs__msg__MultiDOFJointState__microxrcedds
       sensor_msgs__msg__MultiDOFJointState__introspection,
     Generated (''sensor_msgs'', ''msg'', ''MultiEchoLaserScan'')
       [sensor_msgs__msg__MultiEchoLaserScan__struct]
       [sensor_msgs__msg__MultiEchoLaserScan__functions]
       sensor_msgs__msg__MultiEchoLaserScan__type_support
       sensor_msgs__msg__MultiEchoLaserScan__microxrcedds
       sensor_msgs__msg__MultiEchoLaserScan__introspection,
     Generated (''sensor_msgs'', ''msg'', ''NavSatFix'')
       [sensor_msgs__msg__NavSatFix__struct]
       [sensor_msgs__msg__NavSatFix__functions]
       sensor_msgs__msg__NavSatFix__type_support
       sensor_msgs__msg__NavSatFix__microxrcedds
       sensor_msgs__msg__NavSatFix__introspection,
     Generated (''sensor_msgs'', ''msg'', ''NavSatStatus'')
       [sensor_msgs__msg__NavSatStatus__struct]
       [sensor_msgs__msg__NavSatStatus__functions]
       sensor_msgs__msg__NavSatStatus__type_support
       sensor_msgs__msg__NavSatStatus__microxrcedds
       sensor_msgs__msg__NavSatStatus__introspection,
     Generated (''sensor_msgs'', ''msg'', ''PointCloud2'')
       [sensor_msgs__msg__PointCloud2__struct]
       [sensor_msgs__msg__PointCloud2__functions]
       sensor_msgs__msg__PointCloud2__type_support
       sensor_msgs__msg__PointCloud2__microxrcedds
       sensor_msgs__msg__PointCloud2__introspection,
     Generated (''sensor_msgs'', ''msg'', ''PointCloud'')
       [sensor_msgs__msg__PointCloud__struct]
       [sensor_msgs__msg__PointCloud__functions]
       sensor_msgs__msg__PointCloud__type_support
       sensor_msgs__msg__PointCloud__microxrcedds
       sensor_msgs__msg__PointCloud__introspection,
     Generated (''sensor_msgs'', ''msg'', ''PointField'')
       [sensor_msgs__msg__PointField__struct]
       [sensor_msgs__msg__PointField__functions]
       sensor_msgs__msg__PointField__type_support
       sensor_msgs__msg__PointField__microxrcedds
       sensor_msgs__msg__PointField__introspection,
     Generated (''sensor_msgs'', ''msg'', ''Range'')
       [sensor_msgs__msg__Range__struct]
       [sensor_msgs__msg__Range__functions]
       sensor_msgs__msg__Range__type_support
       sensor_msgs__msg__Range__microxrcedds
       sensor_msgs__msg__Range__introspection,
     Generated (''sensor_msgs'', ''msg'', ''RegionOfInterest'')
       [sensor_msgs__msg__RegionOfInterest__struct]
       [sensor_msgs__msg__RegionOfInterest__functions]
       sensor_msgs__msg__RegionOfInterest__type_support
       sensor_msgs__msg__RegionOfInterest__microxrcedds
       sensor_msgs__msg__RegionOfInterest__introspection,
     Generated (''sensor_msgs'', ''msg'', ''RelativeHumidity'')
       [sensor_msgs__msg__RelativeHumidity__struct]
       [sensor_msgs__msg__RelativeHumidity__functions]
       sensor_msgs__msg__RelativeHumidity__type_support
       sensor_msgs__msg__RelativeHumidity__microxrcedds
       sensor_msgs__msg__RelativeHumidity__introspection,
     Generated (''sensor_msgs'', ''msg'', ''Temperature'')
       [sensor_msgs__msg__Temperature__struct]
       [sensor_msgs__msg__Temperature__functions]
       sensor_msgs__msg__Temperature__type_support
       sensor_msgs__msg__Temperature__microxrcedds
       sensor_msgs__msg__Temperature__introspection,
     Generated (''sensor_msgs'', ''msg'', ''TimeReference'')
       [sensor_msgs__msg__TimeReference__struct]
       [sensor_msgs__msg__TimeReference__functions]
       sensor_msgs__msg__TimeReference__type_support
       sensor_msgs__msg__TimeReference__microxrcedds
       sensor_msgs__msg__TimeReference__introspection,
     Generated (''sensor_msgs'', ''srv'', ''SetCameraInfo'')
       [sensor_msgs__srv__SetCameraInfo_Request__struct, sensor_msgs__srv__SetCameraInfo_Response__struct,
        sensor_msgs__srv__SetCameraInfo_Event__struct]
       [sensor_msgs__srv__SetCameraInfo__functions, sensor_msgs__srv__SetCameraInfo_Request__functions,
        sensor_msgs__srv__SetCameraInfo_Response__functions, sensor_msgs__srv__SetCameraInfo_Event__functions]
       sensor_msgs__srv__SetCameraInfo__type_support
       sensor_msgs__srv__SetCameraInfo__microxrcedds
       sensor_msgs__srv__SetCameraInfo__introspection]"

definition nav_msgs__headers :: "generated list" where [package_defs]:
  "nav_msgs__headers =
    [Generated (''nav_msgs'', ''msg'', ''Goals'')
       [nav_msgs__msg__Goals__struct]
       [nav_msgs__msg__Goals__functions]
       nav_msgs__msg__Goals__type_support
       nav_msgs__msg__Goals__microxrcedds
       nav_msgs__msg__Goals__introspection,
     Generated (''nav_msgs'', ''msg'', ''GridCells'')
       [nav_msgs__msg__GridCells__struct]
       [nav_msgs__msg__GridCells__functions]
       nav_msgs__msg__GridCells__type_support
       nav_msgs__msg__GridCells__microxrcedds
       nav_msgs__msg__GridCells__introspection,
     Generated (''nav_msgs'', ''msg'', ''MapMetaData'')
       [nav_msgs__msg__MapMetaData__struct]
       [nav_msgs__msg__MapMetaData__functions]
       nav_msgs__msg__MapMetaData__type_support
       nav_msgs__msg__MapMetaData__microxrcedds
       nav_msgs__msg__MapMetaData__introspection,
     Generated (''nav_msgs'', ''msg'', ''OccupancyGrid'')
       [nav_msgs__msg__OccupancyGrid__struct]
       [nav_msgs__msg__OccupancyGrid__functions]
       nav_msgs__msg__OccupancyGrid__type_support
       nav_msgs__msg__OccupancyGrid__microxrcedds
       nav_msgs__msg__OccupancyGrid__introspection,
     Generated (''nav_msgs'', ''msg'', ''Odometry'')
       [nav_msgs__msg__Odometry__struct]
       [nav_msgs__msg__Odometry__functions]
       nav_msgs__msg__Odometry__type_support
       nav_msgs__msg__Odometry__microxrcedds
       nav_msgs__msg__Odometry__introspection,
     Generated (''nav_msgs'', ''msg'', ''Path'')
       [nav_msgs__msg__Path__struct]
       [nav_msgs__msg__Path__functions]
       nav_msgs__msg__Path__type_support
       nav_msgs__msg__Path__microxrcedds
       nav_msgs__msg__Path__introspection,
     Generated (''nav_msgs'', ''srv'', ''GetMap'')
       [nav_msgs__srv__GetMap_Request__struct, nav_msgs__srv__GetMap_Response__struct,
        nav_msgs__srv__GetMap_Event__struct]
       [nav_msgs__srv__GetMap__functions, nav_msgs__srv__GetMap_Request__functions,
        nav_msgs__srv__GetMap_Response__functions, nav_msgs__srv__GetMap_Event__functions]
       nav_msgs__srv__GetMap__type_support
       nav_msgs__srv__GetMap__microxrcedds
       nav_msgs__srv__GetMap__introspection,
     Generated (''nav_msgs'', ''srv'', ''GetPlan'')
       [nav_msgs__srv__GetPlan_Request__struct, nav_msgs__srv__GetPlan_Response__struct,
        nav_msgs__srv__GetPlan_Event__struct]
       [nav_msgs__srv__GetPlan__functions, nav_msgs__srv__GetPlan_Request__functions,
        nav_msgs__srv__GetPlan_Response__functions, nav_msgs__srv__GetPlan_Event__functions]
       nav_msgs__srv__GetPlan__type_support
       nav_msgs__srv__GetPlan__microxrcedds
       nav_msgs__srv__GetPlan__introspection,
     Generated (''nav_msgs'', ''srv'', ''LoadMap'')
       [nav_msgs__srv__LoadMap_Request__struct, nav_msgs__srv__LoadMap_Response__struct,
        nav_msgs__srv__LoadMap_Event__struct]
       [nav_msgs__srv__LoadMap__functions, nav_msgs__srv__LoadMap_Request__functions,
        nav_msgs__srv__LoadMap_Response__functions, nav_msgs__srv__LoadMap_Event__functions]
       nav_msgs__srv__LoadMap__type_support
       nav_msgs__srv__LoadMap__microxrcedds
       nav_msgs__srv__LoadMap__introspection,
     Generated (''nav_msgs'', ''srv'', ''SetMap'')
       [nav_msgs__srv__SetMap_Request__struct, nav_msgs__srv__SetMap_Response__struct,
        nav_msgs__srv__SetMap_Event__struct]
       [nav_msgs__srv__SetMap__functions, nav_msgs__srv__SetMap_Request__functions,
        nav_msgs__srv__SetMap_Response__functions, nav_msgs__srv__SetMap_Event__functions]
       nav_msgs__srv__SetMap__type_support
       nav_msgs__srv__SetMap__microxrcedds
       nav_msgs__srv__SetMap__introspection]"

definition stereo_msgs__headers :: "generated list" where [package_defs]:
  "stereo_msgs__headers =
    [Generated (''stereo_msgs'', ''msg'', ''DisparityImage'')
       [stereo_msgs__msg__DisparityImage__struct]
       [stereo_msgs__msg__DisparityImage__functions]
       stereo_msgs__msg__DisparityImage__type_support
       stereo_msgs__msg__DisparityImage__microxrcedds
       stereo_msgs__msg__DisparityImage__introspection]"

definition trajectory_msgs__headers :: "generated list" where [package_defs]:
  "trajectory_msgs__headers =
    [Generated (''trajectory_msgs'', ''msg'', ''JointTrajectory'')
       [trajectory_msgs__msg__JointTrajectory__struct]
       [trajectory_msgs__msg__JointTrajectory__functions]
       trajectory_msgs__msg__JointTrajectory__type_support
       trajectory_msgs__msg__JointTrajectory__microxrcedds
       trajectory_msgs__msg__JointTrajectory__introspection,
     Generated (''trajectory_msgs'', ''msg'', ''JointTrajectoryPoint'')
       [trajectory_msgs__msg__JointTrajectoryPoint__struct]
       [trajectory_msgs__msg__JointTrajectoryPoint__functions]
       trajectory_msgs__msg__JointTrajectoryPoint__type_support
       trajectory_msgs__msg__JointTrajectoryPoint__microxrcedds
       trajectory_msgs__msg__JointTrajectoryPoint__introspection,
     Generated (''trajectory_msgs'', ''msg'', ''MultiDOFJointTrajectory'')
       [trajectory_msgs__msg__MultiDOFJointTrajectory__struct]
       [trajectory_msgs__msg__MultiDOFJointTrajectory__functions]
       trajectory_msgs__msg__MultiDOFJointTrajectory__type_support
       trajectory_msgs__msg__MultiDOFJointTrajectory__microxrcedds
       trajectory_msgs__msg__MultiDOFJointTrajectory__introspection,
     Generated (''trajectory_msgs'', ''msg'', ''MultiDOFJointTrajectoryPoint'')
       [trajectory_msgs__msg__MultiDOFJointTrajectoryPoint__struct]
       [trajectory_msgs__msg__MultiDOFJointTrajectoryPoint__functions]
       trajectory_msgs__msg__MultiDOFJointTrajectoryPoint__type_support
       trajectory_msgs__msg__MultiDOFJointTrajectoryPoint__microxrcedds
       trajectory_msgs__msg__MultiDOFJointTrajectoryPoint__introspection]"

definition actionlib_msgs__headers :: "generated list" where [package_defs]:
  "actionlib_msgs__headers =
    [Generated (''actionlib_msgs'', ''msg'', ''GoalID'')
       [actionlib_msgs__msg__GoalID__struct]
       [actionlib_msgs__msg__GoalID__functions]
       actionlib_msgs__msg__GoalID__type_support
       actionlib_msgs__msg__GoalID__microxrcedds
       actionlib_msgs__msg__GoalID__introspection,
     Generated (''actionlib_msgs'', ''msg'', ''GoalStatus'')
       [actionlib_msgs__msg__GoalStatus__struct]
       [actionlib_msgs__msg__GoalStatus__functions]
       actionlib_msgs__msg__GoalStatus__type_support
       actionlib_msgs__msg__GoalStatus__microxrcedds
       actionlib_msgs__msg__GoalStatus__introspection,
     Generated (''actionlib_msgs'', ''msg'', ''GoalStatusArray'')
       [actionlib_msgs__msg__GoalStatusArray__struct]
       [actionlib_msgs__msg__GoalStatusArray__functions]
       actionlib_msgs__msg__GoalStatusArray__type_support
       actionlib_msgs__msg__GoalStatusArray__microxrcedds
       actionlib_msgs__msg__GoalStatusArray__introspection]"

definition tf2_msgs__headers :: "generated list" where [package_defs]:
  "tf2_msgs__headers =
    [Generated (''tf2_msgs'', ''action'', ''LookupTransform'')
       [tf2_msgs__action__LookupTransform_Goal__struct, tf2_msgs__action__LookupTransform_Result__struct,
        tf2_msgs__action__LookupTransform_Feedback__struct,
        tf2_msgs__action__LookupTransform_SendGoal_Request__struct,
        tf2_msgs__action__LookupTransform_SendGoal_Response__struct,
        tf2_msgs__action__LookupTransform_SendGoal_Event__struct,
        tf2_msgs__action__LookupTransform_GetResult_Request__struct,
        tf2_msgs__action__LookupTransform_GetResult_Response__struct,
        tf2_msgs__action__LookupTransform_GetResult_Event__struct,
        tf2_msgs__action__LookupTransform_FeedbackMessage__struct]
       [tf2_msgs__action__LookupTransform__functions, tf2_msgs__action__LookupTransform_Goal__functions,
        tf2_msgs__action__LookupTransform_Result__functions, tf2_msgs__action__LookupTransform_Feedback__functions,
        tf2_msgs__action__LookupTransform_SendGoal__functions,
        tf2_msgs__action__LookupTransform_SendGoal_Request__functions,
        tf2_msgs__action__LookupTransform_SendGoal_Response__functions,
        tf2_msgs__action__LookupTransform_SendGoal_Event__functions,
        tf2_msgs__action__LookupTransform_GetResult__functions,
        tf2_msgs__action__LookupTransform_GetResult_Request__functions,
        tf2_msgs__action__LookupTransform_GetResult_Response__functions,
        tf2_msgs__action__LookupTransform_GetResult_Event__functions,
        tf2_msgs__action__LookupTransform_FeedbackMessage__functions]
       tf2_msgs__action__LookupTransform__type_support
       tf2_msgs__action__LookupTransform__microxrcedds
       tf2_msgs__action__LookupTransform__introspection,
     Generated (''tf2_msgs'', ''msg'', ''TF2Error'')
       [tf2_msgs__msg__TF2Error__struct]
       [tf2_msgs__msg__TF2Error__functions]
       tf2_msgs__msg__TF2Error__type_support
       tf2_msgs__msg__TF2Error__microxrcedds
       tf2_msgs__msg__TF2Error__introspection,
     Generated (''tf2_msgs'', ''msg'', ''TFMessage'')
       [tf2_msgs__msg__TFMessage__struct]
       [tf2_msgs__msg__TFMessage__functions]
       tf2_msgs__msg__TFMessage__type_support
       tf2_msgs__msg__TFMessage__microxrcedds
       tf2_msgs__msg__TFMessage__introspection,
     Generated (''tf2_msgs'', ''srv'', ''FrameGraph'')
       [tf2_msgs__srv__FrameGraph_Request__struct, tf2_msgs__srv__FrameGraph_Response__struct,
        tf2_msgs__srv__FrameGraph_Event__struct]
       [tf2_msgs__srv__FrameGraph__functions, tf2_msgs__srv__FrameGraph_Request__functions,
        tf2_msgs__srv__FrameGraph_Response__functions, tf2_msgs__srv__FrameGraph_Event__functions]
       tf2_msgs__srv__FrameGraph__type_support
       tf2_msgs__srv__FrameGraph__microxrcedds
       tf2_msgs__srv__FrameGraph__introspection]"

definition visualization_msgs__headers :: "generated list" where [package_defs]:
  "visualization_msgs__headers =
    [Generated (''visualization_msgs'', ''msg'', ''ImageMarker'')
       [visualization_msgs__msg__ImageMarker__struct]
       [visualization_msgs__msg__ImageMarker__functions]
       visualization_msgs__msg__ImageMarker__type_support
       visualization_msgs__msg__ImageMarker__microxrcedds
       visualization_msgs__msg__ImageMarker__introspection,
     Generated (''visualization_msgs'', ''msg'', ''InteractiveMarker'')
       [visualization_msgs__msg__InteractiveMarker__struct]
       [visualization_msgs__msg__InteractiveMarker__functions]
       visualization_msgs__msg__InteractiveMarker__type_support
       visualization_msgs__msg__InteractiveMarker__microxrcedds
       visualization_msgs__msg__InteractiveMarker__introspection,
     Generated (''visualization_msgs'', ''msg'', ''InteractiveMarkerControl'')
       [visualization_msgs__msg__InteractiveMarkerControl__struct]
       [visualization_msgs__msg__InteractiveMarkerControl__functions]
       visualization_msgs__msg__InteractiveMarkerControl__type_support
       visualization_msgs__msg__InteractiveMarkerControl__microxrcedds
       visualization_msgs__msg__InteractiveMarkerControl__introspection,
     Generated (''visualization_msgs'', ''msg'', ''InteractiveMarkerFeedback'')
       [visualization_msgs__msg__InteractiveMarkerFeedback__struct]
       [visualization_msgs__msg__InteractiveMarkerFeedback__functions]
       visualization_msgs__msg__InteractiveMarkerFeedback__type_support
       visualization_msgs__msg__InteractiveMarkerFeedback__microxrcedds
       visualization_msgs__msg__InteractiveMarkerFeedback__introspection,
     Generated (''visualization_msgs'', ''msg'', ''InteractiveMarkerInit'')
       [visualization_msgs__msg__InteractiveMarkerInit__struct]
       [visualization_msgs__msg__InteractiveMarkerInit__functions]
       visualization_msgs__msg__InteractiveMarkerInit__type_support
       visualization_msgs__msg__InteractiveMarkerInit__microxrcedds
       visualization_msgs__msg__InteractiveMarkerInit__introspection,
     Generated (''visualization_msgs'', ''msg'', ''InteractiveMarkerPose'')
       [visualization_msgs__msg__InteractiveMarkerPose__struct]
       [visualization_msgs__msg__InteractiveMarkerPose__functions]
       visualization_msgs__msg__InteractiveMarkerPose__type_support
       visualization_msgs__msg__InteractiveMarkerPose__microxrcedds
       visualization_msgs__msg__InteractiveMarkerPose__introspection,
     Generated (''visualization_msgs'', ''msg'', ''InteractiveMarkerUpdate'')
       [visualization_msgs__msg__InteractiveMarkerUpdate__struct]
       [visualization_msgs__msg__InteractiveMarkerUpdate__functions]
       visualization_msgs__msg__InteractiveMarkerUpdate__type_support
       visualization_msgs__msg__InteractiveMarkerUpdate__microxrcedds
       visualization_msgs__msg__InteractiveMarkerUpdate__introspection,
     Generated (''visualization_msgs'', ''msg'', ''Marker'')
       [visualization_msgs__msg__Marker__struct]
       [visualization_msgs__msg__Marker__functions]
       visualization_msgs__msg__Marker__type_support
       visualization_msgs__msg__Marker__microxrcedds
       visualization_msgs__msg__Marker__introspection,
     Generated (''visualization_msgs'', ''msg'', ''MarkerArray'')
       [visualization_msgs__msg__MarkerArray__struct]
       [visualization_msgs__msg__MarkerArray__functions]
       visualization_msgs__msg__MarkerArray__type_support
       visualization_msgs__msg__MarkerArray__microxrcedds
       visualization_msgs__msg__MarkerArray__introspection,
     Generated (''visualization_msgs'', ''msg'', ''MenuEntry'')
       [visualization_msgs__msg__MenuEntry__struct]
       [visualization_msgs__msg__MenuEntry__functions]
       visualization_msgs__msg__MenuEntry__type_support
       visualization_msgs__msg__MenuEntry__microxrcedds
       visualization_msgs__msg__MenuEntry__introspection,
     Generated (''visualization_msgs'', ''msg'', ''MeshFile'')
       [visualization_msgs__msg__MeshFile__struct]
       [visualization_msgs__msg__MeshFile__functions]
       visualization_msgs__msg__MeshFile__type_support
       visualization_msgs__msg__MeshFile__microxrcedds
       visualization_msgs__msg__MeshFile__introspection,
     Generated (''visualization_msgs'', ''msg'', ''UVCoordinate'')
       [visualization_msgs__msg__UVCoordinate__struct]
       [visualization_msgs__msg__UVCoordinate__functions]
       visualization_msgs__msg__UVCoordinate__type_support
       visualization_msgs__msg__UVCoordinate__microxrcedds
       visualization_msgs__msg__UVCoordinate__introspection,
     Generated (''visualization_msgs'', ''srv'', ''GetInteractiveMarkers'')
       [visualization_msgs__srv__GetInteractiveMarkers_Request__struct,
        visualization_msgs__srv__GetInteractiveMarkers_Response__struct,
        visualization_msgs__srv__GetInteractiveMarkers_Event__struct]
       [visualization_msgs__srv__GetInteractiveMarkers__functions,
        visualization_msgs__srv__GetInteractiveMarkers_Request__functions,
        visualization_msgs__srv__GetInteractiveMarkers_Response__functions,
        visualization_msgs__srv__GetInteractiveMarkers_Event__functions]
       visualization_msgs__srv__GetInteractiveMarkers__type_support
       visualization_msgs__srv__GetInteractiveMarkers__microxrcedds
       visualization_msgs__srv__GetInteractiveMarkers__introspection]"

definition control_msgs__headers :: "generated list" where [package_defs]:
  "control_msgs__headers =
    [Generated (''control_msgs'', ''action'', ''FollowJointTrajectory'')
       [control_msgs__action__FollowJointTrajectory_Goal__struct,
        control_msgs__action__FollowJointTrajectory_Result__struct,
        control_msgs__action__FollowJointTrajectory_Feedback__struct,
        control_msgs__action__FollowJointTrajectory_SendGoal_Request__struct,
        control_msgs__action__FollowJointTrajectory_SendGoal_Response__struct,
        control_msgs__action__FollowJointTrajectory_SendGoal_Event__struct,
        control_msgs__action__FollowJointTrajectory_GetResult_Request__struct,
        control_msgs__action__FollowJointTrajectory_GetResult_Response__struct,
        control_msgs__action__FollowJointTrajectory_GetResult_Event__struct,
        control_msgs__action__FollowJointTrajectory_FeedbackMessage__struct]
       [control_msgs__action__FollowJointTrajectory__functions,
        control_msgs__action__FollowJointTrajectory_Goal__functions,
        control_msgs__action__FollowJointTrajectory_Result__functions,
        control_msgs__action__FollowJointTrajectory_Feedback__functions,
        control_msgs__action__FollowJointTrajectory_SendGoal__functions,
        control_msgs__action__FollowJointTrajectory_SendGoal_Request__functions,
        control_msgs__action__FollowJointTrajectory_SendGoal_Response__functions,
        control_msgs__action__FollowJointTrajectory_SendGoal_Event__functions,
        control_msgs__action__FollowJointTrajectory_GetResult__functions,
        control_msgs__action__FollowJointTrajectory_GetResult_Request__functions,
        control_msgs__action__FollowJointTrajectory_GetResult_Response__functions,
        control_msgs__action__FollowJointTrajectory_GetResult_Event__functions,
        control_msgs__action__FollowJointTrajectory_FeedbackMessage__functions]
       control_msgs__action__FollowJointTrajectory__type_support
       control_msgs__action__FollowJointTrajectory__microxrcedds
       control_msgs__action__FollowJointTrajectory__introspection,
     Generated (''control_msgs'', ''action'', ''GripperCommand'')
       [control_msgs__action__GripperCommand_Goal__struct, control_msgs__action__GripperCommand_Result__struct,
        control_msgs__action__GripperCommand_Feedback__struct,
        control_msgs__action__GripperCommand_SendGoal_Request__struct,
        control_msgs__action__GripperCommand_SendGoal_Response__struct,
        control_msgs__action__GripperCommand_SendGoal_Event__struct,
        control_msgs__action__GripperCommand_GetResult_Request__struct,
        control_msgs__action__GripperCommand_GetResult_Response__struct,
        control_msgs__action__GripperCommand_GetResult_Event__struct,
        control_msgs__action__GripperCommand_FeedbackMessage__struct]
       [control_msgs__action__GripperCommand__functions, control_msgs__action__GripperCommand_Goal__functions,
        control_msgs__action__GripperCommand_Result__functions,
        control_msgs__action__GripperCommand_Feedback__functions,
        control_msgs__action__GripperCommand_SendGoal__functions,
        control_msgs__action__GripperCommand_SendGoal_Request__functions,
        control_msgs__action__GripperCommand_SendGoal_Response__functions,
        control_msgs__action__GripperCommand_SendGoal_Event__functions,
        control_msgs__action__GripperCommand_GetResult__functions,
        control_msgs__action__GripperCommand_GetResult_Request__functions,
        control_msgs__action__GripperCommand_GetResult_Response__functions,
        control_msgs__action__GripperCommand_GetResult_Event__functions,
        control_msgs__action__GripperCommand_FeedbackMessage__functions]
       control_msgs__action__GripperCommand__type_support
       control_msgs__action__GripperCommand__microxrcedds
       control_msgs__action__GripperCommand__introspection,
     Generated (''control_msgs'', ''action'', ''JointTrajectory'')
       [control_msgs__action__JointTrajectory_Goal__struct, control_msgs__action__JointTrajectory_Result__struct,
        control_msgs__action__JointTrajectory_Feedback__struct,
        control_msgs__action__JointTrajectory_SendGoal_Request__struct,
        control_msgs__action__JointTrajectory_SendGoal_Response__struct,
        control_msgs__action__JointTrajectory_SendGoal_Event__struct,
        control_msgs__action__JointTrajectory_GetResult_Request__struct,
        control_msgs__action__JointTrajectory_GetResult_Response__struct,
        control_msgs__action__JointTrajectory_GetResult_Event__struct,
        control_msgs__action__JointTrajectory_FeedbackMessage__struct]
       [control_msgs__action__JointTrajectory__functions, control_msgs__action__JointTrajectory_Goal__functions,
        control_msgs__action__JointTrajectory_Result__functions,
        control_msgs__action__JointTrajectory_Feedback__functions,
        control_msgs__action__JointTrajectory_SendGoal__functions,
        control_msgs__action__JointTrajectory_SendGoal_Request__functions,
        control_msgs__action__JointTrajectory_SendGoal_Response__functions,
        control_msgs__action__JointTrajectory_SendGoal_Event__functions,
        control_msgs__action__JointTrajectory_GetResult__functions,
        control_msgs__action__JointTrajectory_GetResult_Request__functions,
        control_msgs__action__JointTrajectory_GetResult_Response__functions,
        control_msgs__action__JointTrajectory_GetResult_Event__functions,
        control_msgs__action__JointTrajectory_FeedbackMessage__functions]
       control_msgs__action__JointTrajectory__type_support
       control_msgs__action__JointTrajectory__microxrcedds
       control_msgs__action__JointTrajectory__introspection,
     Generated (''control_msgs'', ''action'', ''PointHead'')
       [control_msgs__action__PointHead_Goal__struct, control_msgs__action__PointHead_Result__struct,
        control_msgs__action__PointHead_Feedback__struct, control_msgs__action__PointHead_SendGoal_Request__struct,
        control_msgs__action__PointHead_SendGoal_Response__struct,
        control_msgs__action__PointHead_SendGoal_Event__struct,
        control_msgs__action__PointHead_GetResult_Request__struct,
        control_msgs__action__PointHead_GetResult_Response__struct,
        control_msgs__action__PointHead_GetResult_Event__struct,
        control_msgs__action__PointHead_FeedbackMessage__struct]
       [control_msgs__action__PointHead__functions, control_msgs__action__PointHead_Goal__functions,
        control_msgs__action__PointHead_Result__functions, control_msgs__action__PointHead_Feedback__functions,
        control_msgs__action__PointHead_SendGoal__functions,
        control_msgs__action__PointHead_SendGoal_Request__functions,
        control_msgs__action__PointHead_SendGoal_Response__functions,
        control_msgs__action__PointHead_SendGoal_Event__functions,
        control_msgs__action__PointHead_GetResult__functions,
        control_msgs__action__PointHead_GetResult_Request__functions,
        control_msgs__action__PointHead_GetResult_Response__functions,
        control_msgs__action__PointHead_GetResult_Event__functions,
        control_msgs__action__PointHead_FeedbackMessage__functions]
       control_msgs__action__PointHead__type_support
       control_msgs__action__PointHead__microxrcedds
       control_msgs__action__PointHead__introspection,
     Generated (''control_msgs'', ''action'', ''SingleJointPosition'')
       [control_msgs__action__SingleJointPosition_Goal__struct,
        control_msgs__action__SingleJointPosition_Result__struct,
        control_msgs__action__SingleJointPosition_Feedback__struct,
        control_msgs__action__SingleJointPosition_SendGoal_Request__struct,
        control_msgs__action__SingleJointPosition_SendGoal_Response__struct,
        control_msgs__action__SingleJointPosition_SendGoal_Event__struct,
        control_msgs__action__SingleJointPosition_GetResult_Request__struct,
        control_msgs__action__SingleJointPosition_GetResult_Response__struct,
        control_msgs__action__SingleJointPosition_GetResult_Event__struct,
        control_msgs__action__SingleJointPosition_FeedbackMessage__struct]
       [control_msgs__action__SingleJointPosition__functions,
        control_msgs__action__SingleJointPosition_Goal__functions,
        control_msgs__action__SingleJointPosition_Result__functions,
        control_msgs__action__SingleJointPosition_Feedback__functions,
        control_msgs__action__SingleJointPosition_SendGoal__functions,
        control_msgs__action__SingleJointPosition_SendGoal_Request__functions,
        control_msgs__action__SingleJointPosition_SendGoal_Response__functions,
        control_msgs__action__SingleJointPosition_SendGoal_Event__functions,
        control_msgs__action__SingleJointPosition_GetResult__functions,
        control_msgs__action__SingleJointPosition_GetResult_Request__functions,
        control_msgs__action__SingleJointPosition_GetResult_Response__functions,
        control_msgs__action__SingleJointPosition_GetResult_Event__functions,
        control_msgs__action__SingleJointPosition_FeedbackMessage__functions]
       control_msgs__action__SingleJointPosition__type_support
       control_msgs__action__SingleJointPosition__microxrcedds
       control_msgs__action__SingleJointPosition__introspection,
     Generated (''control_msgs'', ''msg'', ''DynamicJointState'')
       [control_msgs__msg__DynamicJointState__struct]
       [control_msgs__msg__DynamicJointState__functions]
       control_msgs__msg__DynamicJointState__type_support
       control_msgs__msg__DynamicJointState__microxrcedds
       control_msgs__msg__DynamicJointState__introspection,
     Generated (''control_msgs'', ''msg'', ''GripperCommand'')
       [control_msgs__msg__GripperCommand__struct]
       [control_msgs__msg__GripperCommand__functions]
       control_msgs__msg__GripperCommand__type_support
       control_msgs__msg__GripperCommand__microxrcedds
       control_msgs__msg__GripperCommand__introspection,
     Generated (''control_msgs'', ''msg'', ''InterfaceValue'')
       [control_msgs__msg__InterfaceValue__struct]
       [control_msgs__msg__InterfaceValue__functions]
       control_msgs__msg__InterfaceValue__type_support
       control_msgs__msg__InterfaceValue__microxrcedds
       control_msgs__msg__InterfaceValue__introspection,
     Generated (''control_msgs'', ''msg'', ''JointComponentTolerance'')
       [control_msgs__msg__JointComponentTolerance__struct]
       [control_msgs__msg__JointComponentTolerance__functions]
       control_msgs__msg__JointComponentTolerance__type_support
       control_msgs__msg__JointComponentTolerance__microxrcedds
       control_msgs__msg__JointComponentTolerance__introspection,
     Generated (''control_msgs'', ''msg'', ''JointControllerState'')
       [control_msgs__msg__JointControllerState__struct]
       [control_msgs__msg__JointControllerState__functions]
       control_msgs__msg__JointControllerState__type_support
       control_msgs__msg__JointControllerState__microxrcedds
       control_msgs__msg__JointControllerState__introspection,
     Generated (''control_msgs'', ''msg'', ''JointJog'')
       [control_msgs__msg__JointJog__struct]
       [control_msgs__msg__JointJog__functions]
       control_msgs__msg__JointJog__type_support
       control_msgs__msg__JointJog__microxrcedds
       control_msgs__msg__JointJog__introspection,
     Generated (''control_msgs'', ''msg'', ''JointTolerance'')
       [control_msgs__msg__JointTolerance__struct]
       [control_msgs__msg__JointTolerance__functions]
       control_msgs__msg__JointTolerance__type_support
       control_msgs__msg__JointTolerance__microxrcedds
       control_msgs__msg__JointTolerance__introspection,
     Generated (''control_msgs'', ''msg'', ''JointTrajectoryControllerState'')
       [control_msgs__msg__JointTrajectoryControllerState__struct]
       [control_msgs__msg__JointTrajectoryControllerState__functions]
       control_msgs__msg__JointTrajectoryControllerState__type_support
       control_msgs__msg__JointTrajectoryControllerState__microxrcedds
       control_msgs__msg__JointTrajectoryControllerState__introspection,
     Generated (''control_msgs'', ''msg'', ''PidState'')
       [control_msgs__msg__PidState__struct]
       [control_msgs__msg__PidState__functions]
       control_msgs__msg__PidState__type_support
       control_msgs__msg__PidState__microxrcedds
       control_msgs__msg__PidState__introspection,
     Generated (''control_msgs'', ''srv'', ''QueryCalibrationState'')
       [control_msgs__srv__QueryCalibrationState_Request__struct,
        control_msgs__srv__QueryCalibrationState_Response__struct,
        control_msgs__srv__QueryCalibrationState_Event__struct]
       [control_msgs__srv__QueryCalibrationState__functions,
        control_msgs__srv__QueryCalibrationState_Request__functions,
        control_msgs__srv__QueryCalibrationState_Response__functions,
        control_msgs__srv__QueryCalibrationState_Event__functions]
       control_msgs__srv__QueryCalibrationState__type_support
       control_msgs__srv__QueryCalibrationState__microxrcedds
       control_msgs__srv__QueryCalibrationState__introspection,
     Generated (''control_msgs'', ''srv'', ''QueryTrajectoryState'')
       [control_msgs__srv__QueryTrajectoryState_Request__struct,
        control_msgs__srv__QueryTrajectoryState_Response__struct,
        control_msgs__srv__QueryTrajectoryState_Event__struct]
       [control_msgs__srv__QueryTrajectoryState__functions,
        control_msgs__srv__QueryTrajectoryState_Request__functions,
        control_msgs__srv__QueryTrajectoryState_Response__functions,
        control_msgs__srv__QueryTrajectoryState_Event__functions]
       control_msgs__srv__QueryTrajectoryState__type_support
       control_msgs__srv__QueryTrajectoryState__microxrcedds
       control_msgs__srv__QueryTrajectoryState__introspection]"

definition test_msgs__headers :: "generated list" where [package_defs]:
  "test_msgs__headers =
    [Generated (''test_msgs'', ''action'', ''Fibonacci'')
       [test_msgs__action__Fibonacci_Goal__struct, test_msgs__action__Fibonacci_Result__struct,
        test_msgs__action__Fibonacci_Feedback__struct, test_msgs__action__Fibonacci_SendGoal_Request__struct,
        test_msgs__action__Fibonacci_SendGoal_Response__struct, test_msgs__action__Fibonacci_SendGoal_Event__struct,
        test_msgs__action__Fibonacci_GetResult_Request__struct,
        test_msgs__action__Fibonacci_GetResult_Response__struct,
        test_msgs__action__Fibonacci_GetResult_Event__struct, test_msgs__action__Fibonacci_FeedbackMessage__struct]
       [test_msgs__action__Fibonacci__functions, test_msgs__action__Fibonacci_Goal__functions,
        test_msgs__action__Fibonacci_Result__functions, test_msgs__action__Fibonacci_Feedback__functions,
        test_msgs__action__Fibonacci_SendGoal__functions, test_msgs__action__Fibonacci_SendGoal_Request__functions,
        test_msgs__action__Fibonacci_SendGoal_Response__functions,
        test_msgs__action__Fibonacci_SendGoal_Event__functions, test_msgs__action__Fibonacci_GetResult__functions,
        test_msgs__action__Fibonacci_GetResult_Request__functions,
        test_msgs__action__Fibonacci_GetResult_Response__functions,
        test_msgs__action__Fibonacci_GetResult_Event__functions,
        test_msgs__action__Fibonacci_FeedbackMessage__functions]
       test_msgs__action__Fibonacci__type_support
       test_msgs__action__Fibonacci__microxrcedds
       test_msgs__action__Fibonacci__introspection,
     Generated (''test_msgs'', ''action'', ''NestedMessage'')
       [test_msgs__action__NestedMessage_Goal__struct, test_msgs__action__NestedMessage_Result__struct,
        test_msgs__action__NestedMessage_Feedback__struct, test_msgs__action__NestedMessage_SendGoal_Request__struct,
        test_msgs__action__NestedMessage_SendGoal_Response__struct,
        test_msgs__action__NestedMessage_SendGoal_Event__struct,
        test_msgs__action__NestedMessage_GetResult_Request__struct,
        test_msgs__action__NestedMessage_GetResult_Response__struct,
        test_msgs__action__NestedMessage_GetResult_Event__struct,
        test_msgs__action__NestedMessage_FeedbackMessage__struct]
       [test_msgs__action__NestedMessage__functions, test_msgs__action__NestedMessage_Goal__functions,
        test_msgs__action__NestedMessage_Result__functions, test_msgs__action__NestedMessage_Feedback__functions,
        test_msgs__action__NestedMessage_SendGoal__functions,
        test_msgs__action__NestedMessage_SendGoal_Request__functions,
        test_msgs__action__NestedMessage_SendGoal_Response__functions,
        test_msgs__action__NestedMessage_SendGoal_Event__functions,
        test_msgs__action__NestedMessage_GetResult__functions,
        test_msgs__action__NestedMessage_GetResult_Request__functions,
        test_msgs__action__NestedMessage_GetResult_Response__functions,
        test_msgs__action__NestedMessage_GetResult_Event__functions,
        test_msgs__action__NestedMessage_FeedbackMessage__functions]
       test_msgs__action__NestedMessage__type_support
       test_msgs__action__NestedMessage__microxrcedds
       test_msgs__action__NestedMessage__introspection,
     Generated (''test_msgs'', ''msg'', ''Arrays'')
       [test_msgs__msg__Arrays__struct]
       [test_msgs__msg__Arrays__functions]
       test_msgs__msg__Arrays__type_support
       test_msgs__msg__Arrays__microxrcedds
       test_msgs__msg__Arrays__introspection,
     Generated (''test_msgs'', ''msg'', ''BasicTypes'')
       [test_msgs__msg__BasicTypes__struct]
       [test_msgs__msg__BasicTypes__functions]
       test_msgs__msg__BasicTypes__type_support
       test_msgs__msg__BasicTypes__microxrcedds
       test_msgs__msg__BasicTypes__introspection,
     Generated (''test_msgs'', ''msg'', ''BoundedPlainSequences'')
       [test_msgs__msg__BoundedPlainSequences__struct]
       [test_msgs__msg__BoundedPlainSequences__functions]
       test_msgs__msg__BoundedPlainSequences__type_support
       test_msgs__msg__BoundedPlainSequences__microxrcedds
       test_msgs__msg__BoundedPlainSequences__introspection,
     Generated (''test_msgs'', ''msg'', ''BoundedSequences'')
       [test_msgs__msg__BoundedSequences__struct]
       [test_msgs__msg__BoundedSequences__functions]
       test_msgs__msg__BoundedSequences__type_support
       test_msgs__msg__BoundedSequences__microxrcedds
       test_msgs__msg__BoundedSequences__introspection,
     Generated (''test_msgs'', ''msg'', ''Builtins'')
       [test_msgs__msg__Builtins__struct]
       [test_msgs__msg__Builtins__functions]
       test_msgs__msg__Builtins__type_support
       test_msgs__msg__Builtins__microxrcedds
       test_msgs__msg__Builtins__introspection,
     Generated (''test_msgs'', ''msg'', ''ComplexNestedKey'')
       [test_msgs__msg__ComplexNestedKey__struct]
       [test_msgs__msg__ComplexNestedKey__functions]
       test_msgs__msg__ComplexNestedKey__type_support
       test_msgs__msg__ComplexNestedKey__microxrcedds
       test_msgs__msg__ComplexNestedKey__introspection,
     Generated (''test_msgs'', ''msg'', ''Constants'')
       [test_msgs__msg__Constants__struct]
       [test_msgs__msg__Constants__functions]
       test_msgs__msg__Constants__type_support
       test_msgs__msg__Constants__microxrcedds
       test_msgs__msg__Constants__introspection,
     Generated (''test_msgs'', ''msg'', ''Defaults'')
       [test_msgs__msg__Defaults__struct]
       [test_msgs__msg__Defaults__functions]
       test_msgs__msg__Defaults__type_support
       test_msgs__msg__Defaults__microxrcedds
       test_msgs__msg__Defaults__introspection,
     Generated (''test_msgs'', ''msg'', ''Empty'')
       [test_msgs__msg__Empty__struct]
       [test_msgs__msg__Empty__functions]
       test_msgs__msg__Empty__type_support
       test_msgs__msg__Empty__microxrcedds
       test_msgs__msg__Empty__introspection,
     Generated (''test_msgs'', ''msg'', ''KeyedLong'')
       [test_msgs__msg__KeyedLong__struct]
       [test_msgs__msg__KeyedLong__functions]
       test_msgs__msg__KeyedLong__type_support
       test_msgs__msg__KeyedLong__microxrcedds
       test_msgs__msg__KeyedLong__introspection,
     Generated (''test_msgs'', ''msg'', ''KeyedString'')
       [test_msgs__msg__KeyedString__struct]
       [test_msgs__msg__KeyedString__functions]
       test_msgs__msg__KeyedString__type_support
       test_msgs__msg__KeyedString__microxrcedds
       test_msgs__msg__KeyedString__introspection,
     Generated (''test_msgs'', ''msg'', ''MultiNested'')
       [test_msgs__msg__MultiNested__struct]
       [test_msgs__msg__MultiNested__functions]
       test_msgs__msg__MultiNested__type_support
       test_msgs__msg__MultiNested__microxrcedds
       test_msgs__msg__MultiNested__introspection,
     Generated (''test_msgs'', ''msg'', ''Nested'')
       [test_msgs__msg__Nested__struct]
       [test_msgs__msg__Nested__functions]
       test_msgs__msg__Nested__type_support
       test_msgs__msg__Nested__microxrcedds
       test_msgs__msg__Nested__introspection,
     Generated (''test_msgs'', ''msg'', ''NonKeyedWithNestedKey'')
       [test_msgs__msg__NonKeyedWithNestedKey__struct]
       [test_msgs__msg__NonKeyedWithNestedKey__functions]
       test_msgs__msg__NonKeyedWithNestedKey__type_support
       test_msgs__msg__NonKeyedWithNestedKey__microxrcedds
       test_msgs__msg__NonKeyedWithNestedKey__introspection,
     Generated (''test_msgs'', ''msg'', ''Strings'')
       [test_msgs__msg__Strings__struct]
       [test_msgs__msg__Strings__functions]
       test_msgs__msg__Strings__type_support
       test_msgs__msg__Strings__microxrcedds
       test_msgs__msg__Strings__introspection,
     Generated (''test_msgs'', ''msg'', ''UnboundedSequences'')
       [test_msgs__msg__UnboundedSequences__struct]
       [test_msgs__msg__UnboundedSequences__functions]
       test_msgs__msg__UnboundedSequences__type_support
       test_msgs__msg__UnboundedSequences__microxrcedds
       test_msgs__msg__UnboundedSequences__introspection,
     Generated (''test_msgs'', ''msg'', ''WStrings'')
       [test_msgs__msg__WStrings__struct]
       [test_msgs__msg__WStrings__functions]
       test_msgs__msg__WStrings__type_support
       test_msgs__msg__WStrings__microxrcedds
       test_msgs__msg__WStrings__introspection,
     Generated (''test_msgs'', ''srv'', ''Arrays'')
       [test_msgs__srv__Arrays_Request__struct, test_msgs__srv__Arrays_Response__struct,
        test_msgs__srv__Arrays_Event__struct]
       [test_msgs__srv__Arrays__functions, test_msgs__srv__Arrays_Request__functions,
        test_msgs__srv__Arrays_Response__functions, test_msgs__srv__Arrays_Event__functions]
       test_msgs__srv__Arrays__type_support
       test_msgs__srv__Arrays__microxrcedds
       test_msgs__srv__Arrays__introspection,
     Generated (''test_msgs'', ''srv'', ''BasicTypes'')
       [test_msgs__srv__BasicTypes_Request__struct, test_msgs__srv__BasicTypes_Response__struct,
        test_msgs__srv__BasicTypes_Event__struct]
       [test_msgs__srv__BasicTypes__functions, test_msgs__srv__BasicTypes_Request__functions,
        test_msgs__srv__BasicTypes_Response__functions, test_msgs__srv__BasicTypes_Event__functions]
       test_msgs__srv__BasicTypes__type_support
       test_msgs__srv__BasicTypes__microxrcedds
       test_msgs__srv__BasicTypes__introspection,
     Generated (''test_msgs'', ''srv'', ''Empty'')
       [test_msgs__srv__Empty_Request__struct, test_msgs__srv__Empty_Response__struct,
        test_msgs__srv__Empty_Event__struct]
       [test_msgs__srv__Empty__functions, test_msgs__srv__Empty_Request__functions,
        test_msgs__srv__Empty_Response__functions, test_msgs__srv__Empty_Event__functions]
       test_msgs__srv__Empty__type_support
       test_msgs__srv__Empty__microxrcedds
       test_msgs__srv__Empty__introspection]"

text \<open>The headers of all packages, and the functions for the type descriptions of \<^verbatim>\<open>rosidl_runtime_c\<close>.\<close>

definition packages :: "(string \<times> generated list) list" where
  "packages =
    [(''builtin_interfaces'', builtin_interfaces__headers),
     (''unique_identifier_msgs'', unique_identifier_msgs__headers), (''service_msgs'', service_msgs__headers),
     (''std_msgs'', std_msgs__headers), (''std_srvs'', std_srvs__headers),
     (''rosgraph_msgs'', rosgraph_msgs__headers), (''statistics_msgs'', statistics_msgs__headers),
     (''micro_ros_msgs'', micro_ros_msgs__headers), (''action_msgs'', action_msgs__headers),
     (''lifecycle_msgs'', lifecycle_msgs__headers), (''rcl_interfaces'', rcl_interfaces__headers),
     (''composition_interfaces'', composition_interfaces__headers),
     (''type_description_interfaces'', type_description_interfaces__headers),
     (''diagnostic_msgs'', diagnostic_msgs__headers), (''example_interfaces'', example_interfaces__headers),
     (''geometry_msgs'', geometry_msgs__headers), (''shape_msgs'', shape_msgs__headers),
     (''sensor_msgs'', sensor_msgs__headers), (''nav_msgs'', nav_msgs__headers),
     (''stereo_msgs'', stereo_msgs__headers), (''trajectory_msgs'', trajectory_msgs__headers),
     (''actionlib_msgs'', actionlib_msgs__headers), (''tf2_msgs'', tf2_msgs__headers),
     (''visualization_msgs'', visualization_msgs__headers), (''control_msgs'', control_msgs__headers),
     (''test_msgs'', test_msgs__headers)]"

definition runtime_tables :: "function_table list" where
  "runtime_tables =
    [rosidl_runtime_c__type_description__Field__functions,
     rosidl_runtime_c__type_description__FieldType__functions,
     rosidl_runtime_c__type_description__IndividualTypeDescription__functions,
     rosidl_runtime_c__type_description__KeyValue__functions,
     rosidl_runtime_c__type_description__TypeDescription__functions,
     rosidl_runtime_c__type_description__TypeSource__functions]"

text \<open>The name of each struct.\<close>

lemma builtin_interfaces__names [simp]:
  "interface_name builtin_interfaces__msg__Duration__struct = ''builtin_interfaces__msg__Duration''"
  "interface_name builtin_interfaces__msg__Time__struct = ''builtin_interfaces__msg__Time''"
  by (simp_all only: builtin_interfaces__msg__Duration__struct_def
    builtin_interfaces__msg__Time__struct_def mtype.sel)

lemma unique_identifier_msgs__names [simp]:
  "interface_name unique_identifier_msgs__msg__UUID__struct = ''unique_identifier_msgs__msg__UUID''"
  by (simp_all only: unique_identifier_msgs__msg__UUID__struct_def mtype.sel)

lemma service_msgs__names [simp]:
  "interface_name service_msgs__msg__ServiceEventInfo__struct = ''service_msgs__msg__ServiceEventInfo''"
  by (simp_all only: service_msgs__msg__ServiceEventInfo__struct_def mtype.sel)

lemma std_msgs__names [simp]:
  "interface_name std_msgs__msg__Bool__struct = ''std_msgs__msg__Bool''"
  "interface_name std_msgs__msg__Byte__struct = ''std_msgs__msg__Byte''"
  "interface_name std_msgs__msg__ByteMultiArray__struct = ''std_msgs__msg__ByteMultiArray''"
  "interface_name std_msgs__msg__Char__struct = ''std_msgs__msg__Char''"
  "interface_name std_msgs__msg__ColorRGBA__struct = ''std_msgs__msg__ColorRGBA''"
  "interface_name std_msgs__msg__Empty__struct = ''std_msgs__msg__Empty''"
  "interface_name std_msgs__msg__Float32__struct = ''std_msgs__msg__Float32''"
  "interface_name std_msgs__msg__Float32MultiArray__struct = ''std_msgs__msg__Float32MultiArray''"
  "interface_name std_msgs__msg__Float64__struct = ''std_msgs__msg__Float64''"
  "interface_name std_msgs__msg__Float64MultiArray__struct = ''std_msgs__msg__Float64MultiArray''"
  "interface_name std_msgs__msg__Header__struct = ''std_msgs__msg__Header''"
  "interface_name std_msgs__msg__Int16__struct = ''std_msgs__msg__Int16''"
  "interface_name std_msgs__msg__Int16MultiArray__struct = ''std_msgs__msg__Int16MultiArray''"
  "interface_name std_msgs__msg__Int32__struct = ''std_msgs__msg__Int32''"
  "interface_name std_msgs__msg__Int32MultiArray__struct = ''std_msgs__msg__Int32MultiArray''"
  "interface_name std_msgs__msg__Int64__struct = ''std_msgs__msg__Int64''"
  "interface_name std_msgs__msg__Int64MultiArray__struct = ''std_msgs__msg__Int64MultiArray''"
  "interface_name std_msgs__msg__Int8__struct = ''std_msgs__msg__Int8''"
  "interface_name std_msgs__msg__Int8MultiArray__struct = ''std_msgs__msg__Int8MultiArray''"
  "interface_name std_msgs__msg__MultiArrayDimension__struct = ''std_msgs__msg__MultiArrayDimension''"
  "interface_name std_msgs__msg__MultiArrayLayout__struct = ''std_msgs__msg__MultiArrayLayout''"
  "interface_name std_msgs__msg__String__struct = ''std_msgs__msg__String''"
  "interface_name std_msgs__msg__UInt16__struct = ''std_msgs__msg__UInt16''"
  "interface_name std_msgs__msg__UInt16MultiArray__struct = ''std_msgs__msg__UInt16MultiArray''"
  "interface_name std_msgs__msg__UInt32__struct = ''std_msgs__msg__UInt32''"
  "interface_name std_msgs__msg__UInt32MultiArray__struct = ''std_msgs__msg__UInt32MultiArray''"
  "interface_name std_msgs__msg__UInt64__struct = ''std_msgs__msg__UInt64''"
  "interface_name std_msgs__msg__UInt64MultiArray__struct = ''std_msgs__msg__UInt64MultiArray''"
  "interface_name std_msgs__msg__UInt8__struct = ''std_msgs__msg__UInt8''"
  "interface_name std_msgs__msg__UInt8MultiArray__struct = ''std_msgs__msg__UInt8MultiArray''"
  by (simp_all only: std_msgs__msg__Bool__struct_def
    std_msgs__msg__Byte__struct_def
    std_msgs__msg__ByteMultiArray__struct_def
    std_msgs__msg__Char__struct_def
    std_msgs__msg__ColorRGBA__struct_def
    std_msgs__msg__Empty__struct_def
    std_msgs__msg__Float32__struct_def
    std_msgs__msg__Float32MultiArray__struct_def
    std_msgs__msg__Float64__struct_def
    std_msgs__msg__Float64MultiArray__struct_def
    std_msgs__msg__Header__struct_def
    std_msgs__msg__Int16__struct_def
    std_msgs__msg__Int16MultiArray__struct_def
    std_msgs__msg__Int32__struct_def
    std_msgs__msg__Int32MultiArray__struct_def
    std_msgs__msg__Int64__struct_def
    std_msgs__msg__Int64MultiArray__struct_def
    std_msgs__msg__Int8__struct_def
    std_msgs__msg__Int8MultiArray__struct_def
    std_msgs__msg__MultiArrayDimension__struct_def
    std_msgs__msg__MultiArrayLayout__struct_def
    std_msgs__msg__String__struct_def
    std_msgs__msg__UInt16__struct_def
    std_msgs__msg__UInt16MultiArray__struct_def
    std_msgs__msg__UInt32__struct_def
    std_msgs__msg__UInt32MultiArray__struct_def
    std_msgs__msg__UInt64__struct_def
    std_msgs__msg__UInt64MultiArray__struct_def
    std_msgs__msg__UInt8__struct_def
    std_msgs__msg__UInt8MultiArray__struct_def mtype.sel)

lemma std_srvs__names [simp]:
  "interface_name std_srvs__srv__Empty_Request__struct = ''std_srvs__srv__Empty_Request''"
  "interface_name std_srvs__srv__Empty_Response__struct = ''std_srvs__srv__Empty_Response''"
  "interface_name std_srvs__srv__Empty_Event__struct = ''std_srvs__srv__Empty_Event''"
  "interface_name std_srvs__srv__SetBool_Request__struct = ''std_srvs__srv__SetBool_Request''"
  "interface_name std_srvs__srv__SetBool_Response__struct = ''std_srvs__srv__SetBool_Response''"
  "interface_name std_srvs__srv__SetBool_Event__struct = ''std_srvs__srv__SetBool_Event''"
  "interface_name std_srvs__srv__Trigger_Request__struct = ''std_srvs__srv__Trigger_Request''"
  "interface_name std_srvs__srv__Trigger_Response__struct = ''std_srvs__srv__Trigger_Response''"
  "interface_name std_srvs__srv__Trigger_Event__struct = ''std_srvs__srv__Trigger_Event''"
  by (simp_all only: std_srvs__srv__Empty_Request__struct_def
    std_srvs__srv__Empty_Response__struct_def
    std_srvs__srv__Empty_Event__struct_def
    std_srvs__srv__SetBool_Request__struct_def
    std_srvs__srv__SetBool_Response__struct_def
    std_srvs__srv__SetBool_Event__struct_def
    std_srvs__srv__Trigger_Request__struct_def
    std_srvs__srv__Trigger_Response__struct_def
    std_srvs__srv__Trigger_Event__struct_def mtype.sel)

lemma rosgraph_msgs__names [simp]:
  "interface_name rosgraph_msgs__msg__Clock__struct = ''rosgraph_msgs__msg__Clock''"
  by (simp_all only: rosgraph_msgs__msg__Clock__struct_def mtype.sel)

lemma statistics_msgs__names [simp]:
  "interface_name statistics_msgs__msg__MetricsMessage__struct = ''statistics_msgs__msg__MetricsMessage''"
  "interface_name statistics_msgs__msg__StatisticDataPoint__struct = ''statistics_msgs__msg__StatisticDataPoint''"
  "interface_name statistics_msgs__msg__StatisticDataType__struct = ''statistics_msgs__msg__StatisticDataType''"
  by (simp_all only: statistics_msgs__msg__MetricsMessage__struct_def
    statistics_msgs__msg__StatisticDataPoint__struct_def
    statistics_msgs__msg__StatisticDataType__struct_def mtype.sel)

lemma micro_ros_msgs__names [simp]:
  "interface_name micro_ros_msgs__msg__Entity__struct = ''micro_ros_msgs__msg__Entity''"
  "interface_name micro_ros_msgs__msg__Graph__struct = ''micro_ros_msgs__msg__Graph''"
  "interface_name micro_ros_msgs__msg__Node__struct = ''micro_ros_msgs__msg__Node''"
  by (simp_all only: micro_ros_msgs__msg__Entity__struct_def
    micro_ros_msgs__msg__Graph__struct_def
    micro_ros_msgs__msg__Node__struct_def mtype.sel)

lemma action_msgs__names [simp]:
  "interface_name action_msgs__msg__GoalInfo__struct = ''action_msgs__msg__GoalInfo''"
  "interface_name action_msgs__msg__GoalStatus__struct = ''action_msgs__msg__GoalStatus''"
  "interface_name action_msgs__msg__GoalStatusArray__struct = ''action_msgs__msg__GoalStatusArray''"
  "interface_name action_msgs__srv__CancelGoal_Request__struct = ''action_msgs__srv__CancelGoal_Request''"
  "interface_name action_msgs__srv__CancelGoal_Response__struct = ''action_msgs__srv__CancelGoal_Response''"
  "interface_name action_msgs__srv__CancelGoal_Event__struct = ''action_msgs__srv__CancelGoal_Event''"
  by (simp_all only: action_msgs__msg__GoalInfo__struct_def
    action_msgs__msg__GoalStatus__struct_def
    action_msgs__msg__GoalStatusArray__struct_def
    action_msgs__srv__CancelGoal_Request__struct_def
    action_msgs__srv__CancelGoal_Response__struct_def
    action_msgs__srv__CancelGoal_Event__struct_def mtype.sel)

lemma lifecycle_msgs__names [simp]:
  "interface_name lifecycle_msgs__msg__State__struct = ''lifecycle_msgs__msg__State''"
  "interface_name lifecycle_msgs__msg__Transition__struct = ''lifecycle_msgs__msg__Transition''"
  "interface_name lifecycle_msgs__msg__TransitionDescription__struct = ''lifecycle_msgs__msg__TransitionDescription''"
  "interface_name lifecycle_msgs__msg__TransitionEvent__struct = ''lifecycle_msgs__msg__TransitionEvent''"
  "interface_name lifecycle_msgs__srv__ChangeState_Request__struct = ''lifecycle_msgs__srv__ChangeState_Request''"
  "interface_name lifecycle_msgs__srv__ChangeState_Response__struct = ''lifecycle_msgs__srv__ChangeState_Response''"
  "interface_name lifecycle_msgs__srv__ChangeState_Event__struct = ''lifecycle_msgs__srv__ChangeState_Event''"
  "interface_name lifecycle_msgs__srv__GetAvailableStates_Request__struct = ''lifecycle_msgs__srv__GetAvailableStates_Request''"
  "interface_name lifecycle_msgs__srv__GetAvailableStates_Response__struct = ''lifecycle_msgs__srv__GetAvailableStates_Response''"
  "interface_name lifecycle_msgs__srv__GetAvailableStates_Event__struct = ''lifecycle_msgs__srv__GetAvailableStates_Event''"
  "interface_name lifecycle_msgs__srv__GetAvailableTransitions_Request__struct = ''lifecycle_msgs__srv__GetAvailableTransitions_Request''"
  "interface_name lifecycle_msgs__srv__GetAvailableTransitions_Response__struct = ''lifecycle_msgs__srv__GetAvailableTransitions_Response''"
  "interface_name lifecycle_msgs__srv__GetAvailableTransitions_Event__struct = ''lifecycle_msgs__srv__GetAvailableTransitions_Event''"
  "interface_name lifecycle_msgs__srv__GetState_Request__struct = ''lifecycle_msgs__srv__GetState_Request''"
  "interface_name lifecycle_msgs__srv__GetState_Response__struct = ''lifecycle_msgs__srv__GetState_Response''"
  "interface_name lifecycle_msgs__srv__GetState_Event__struct = ''lifecycle_msgs__srv__GetState_Event''"
  by (simp_all only: lifecycle_msgs__msg__State__struct_def
    lifecycle_msgs__msg__Transition__struct_def
    lifecycle_msgs__msg__TransitionDescription__struct_def
    lifecycle_msgs__msg__TransitionEvent__struct_def
    lifecycle_msgs__srv__ChangeState_Request__struct_def
    lifecycle_msgs__srv__ChangeState_Response__struct_def
    lifecycle_msgs__srv__ChangeState_Event__struct_def
    lifecycle_msgs__srv__GetAvailableStates_Request__struct_def
    lifecycle_msgs__srv__GetAvailableStates_Response__struct_def
    lifecycle_msgs__srv__GetAvailableStates_Event__struct_def
    lifecycle_msgs__srv__GetAvailableTransitions_Request__struct_def
    lifecycle_msgs__srv__GetAvailableTransitions_Response__struct_def
    lifecycle_msgs__srv__GetAvailableTransitions_Event__struct_def
    lifecycle_msgs__srv__GetState_Request__struct_def
    lifecycle_msgs__srv__GetState_Response__struct_def
    lifecycle_msgs__srv__GetState_Event__struct_def mtype.sel)

lemma rcl_interfaces__names [simp]:
  "interface_name rcl_interfaces__msg__FloatingPointRange__struct = ''rcl_interfaces__msg__FloatingPointRange''"
  "interface_name rcl_interfaces__msg__IntegerRange__struct = ''rcl_interfaces__msg__IntegerRange''"
  "interface_name rcl_interfaces__msg__ListParametersResult__struct = ''rcl_interfaces__msg__ListParametersResult''"
  "interface_name rcl_interfaces__msg__Log__struct = ''rcl_interfaces__msg__Log''"
  "interface_name rcl_interfaces__msg__LoggerLevel__struct = ''rcl_interfaces__msg__LoggerLevel''"
  "interface_name rcl_interfaces__msg__Parameter__struct = ''rcl_interfaces__msg__Parameter''"
  "interface_name rcl_interfaces__msg__ParameterDescriptor__struct = ''rcl_interfaces__msg__ParameterDescriptor''"
  "interface_name rcl_interfaces__msg__ParameterEvent__struct = ''rcl_interfaces__msg__ParameterEvent''"
  "interface_name rcl_interfaces__msg__ParameterEventDescriptors__struct = ''rcl_interfaces__msg__ParameterEventDescriptors''"
  "interface_name rcl_interfaces__msg__ParameterType__struct = ''rcl_interfaces__msg__ParameterType''"
  "interface_name rcl_interfaces__msg__ParameterValue__struct = ''rcl_interfaces__msg__ParameterValue''"
  "interface_name rcl_interfaces__msg__SetLoggerLevelsResult__struct = ''rcl_interfaces__msg__SetLoggerLevelsResult''"
  "interface_name rcl_interfaces__msg__SetParametersResult__struct = ''rcl_interfaces__msg__SetParametersResult''"
  "interface_name rcl_interfaces__srv__DescribeParameters_Request__struct = ''rcl_interfaces__srv__DescribeParameters_Request''"
  "interface_name rcl_interfaces__srv__DescribeParameters_Response__struct = ''rcl_interfaces__srv__DescribeParameters_Response''"
  "interface_name rcl_interfaces__srv__DescribeParameters_Event__struct = ''rcl_interfaces__srv__DescribeParameters_Event''"
  "interface_name rcl_interfaces__srv__GetLoggerLevels_Request__struct = ''rcl_interfaces__srv__GetLoggerLevels_Request''"
  "interface_name rcl_interfaces__srv__GetLoggerLevels_Response__struct = ''rcl_interfaces__srv__GetLoggerLevels_Response''"
  "interface_name rcl_interfaces__srv__GetLoggerLevels_Event__struct = ''rcl_interfaces__srv__GetLoggerLevels_Event''"
  "interface_name rcl_interfaces__srv__GetParameterTypes_Request__struct = ''rcl_interfaces__srv__GetParameterTypes_Request''"
  "interface_name rcl_interfaces__srv__GetParameterTypes_Response__struct = ''rcl_interfaces__srv__GetParameterTypes_Response''"
  "interface_name rcl_interfaces__srv__GetParameterTypes_Event__struct = ''rcl_interfaces__srv__GetParameterTypes_Event''"
  "interface_name rcl_interfaces__srv__GetParameters_Request__struct = ''rcl_interfaces__srv__GetParameters_Request''"
  "interface_name rcl_interfaces__srv__GetParameters_Response__struct = ''rcl_interfaces__srv__GetParameters_Response''"
  "interface_name rcl_interfaces__srv__GetParameters_Event__struct = ''rcl_interfaces__srv__GetParameters_Event''"
  "interface_name rcl_interfaces__srv__ListParameters_Request__struct = ''rcl_interfaces__srv__ListParameters_Request''"
  "interface_name rcl_interfaces__srv__ListParameters_Response__struct = ''rcl_interfaces__srv__ListParameters_Response''"
  "interface_name rcl_interfaces__srv__ListParameters_Event__struct = ''rcl_interfaces__srv__ListParameters_Event''"
  "interface_name rcl_interfaces__srv__SetLoggerLevels_Request__struct = ''rcl_interfaces__srv__SetLoggerLevels_Request''"
  "interface_name rcl_interfaces__srv__SetLoggerLevels_Response__struct = ''rcl_interfaces__srv__SetLoggerLevels_Response''"
  "interface_name rcl_interfaces__srv__SetLoggerLevels_Event__struct = ''rcl_interfaces__srv__SetLoggerLevels_Event''"
  "interface_name rcl_interfaces__srv__SetParameters_Request__struct = ''rcl_interfaces__srv__SetParameters_Request''"
  "interface_name rcl_interfaces__srv__SetParameters_Response__struct = ''rcl_interfaces__srv__SetParameters_Response''"
  "interface_name rcl_interfaces__srv__SetParameters_Event__struct = ''rcl_interfaces__srv__SetParameters_Event''"
  "interface_name rcl_interfaces__srv__SetParametersAtomically_Request__struct = ''rcl_interfaces__srv__SetParametersAtomically_Request''"
  "interface_name rcl_interfaces__srv__SetParametersAtomically_Response__struct = ''rcl_interfaces__srv__SetParametersAtomically_Response''"
  "interface_name rcl_interfaces__srv__SetParametersAtomically_Event__struct = ''rcl_interfaces__srv__SetParametersAtomically_Event''"
  by (simp_all only: rcl_interfaces__msg__FloatingPointRange__struct_def
    rcl_interfaces__msg__IntegerRange__struct_def
    rcl_interfaces__msg__ListParametersResult__struct_def
    rcl_interfaces__msg__Log__struct_def
    rcl_interfaces__msg__LoggerLevel__struct_def
    rcl_interfaces__msg__Parameter__struct_def
    rcl_interfaces__msg__ParameterDescriptor__struct_def
    rcl_interfaces__msg__ParameterEvent__struct_def
    rcl_interfaces__msg__ParameterEventDescriptors__struct_def
    rcl_interfaces__msg__ParameterType__struct_def
    rcl_interfaces__msg__ParameterValue__struct_def
    rcl_interfaces__msg__SetLoggerLevelsResult__struct_def
    rcl_interfaces__msg__SetParametersResult__struct_def
    rcl_interfaces__srv__DescribeParameters_Request__struct_def
    rcl_interfaces__srv__DescribeParameters_Response__struct_def
    rcl_interfaces__srv__DescribeParameters_Event__struct_def
    rcl_interfaces__srv__GetLoggerLevels_Request__struct_def
    rcl_interfaces__srv__GetLoggerLevels_Response__struct_def
    rcl_interfaces__srv__GetLoggerLevels_Event__struct_def
    rcl_interfaces__srv__GetParameterTypes_Request__struct_def
    rcl_interfaces__srv__GetParameterTypes_Response__struct_def
    rcl_interfaces__srv__GetParameterTypes_Event__struct_def
    rcl_interfaces__srv__GetParameters_Request__struct_def
    rcl_interfaces__srv__GetParameters_Response__struct_def
    rcl_interfaces__srv__GetParameters_Event__struct_def
    rcl_interfaces__srv__ListParameters_Request__struct_def
    rcl_interfaces__srv__ListParameters_Response__struct_def
    rcl_interfaces__srv__ListParameters_Event__struct_def
    rcl_interfaces__srv__SetLoggerLevels_Request__struct_def
    rcl_interfaces__srv__SetLoggerLevels_Response__struct_def
    rcl_interfaces__srv__SetLoggerLevels_Event__struct_def
    rcl_interfaces__srv__SetParameters_Request__struct_def
    rcl_interfaces__srv__SetParameters_Response__struct_def
    rcl_interfaces__srv__SetParameters_Event__struct_def
    rcl_interfaces__srv__SetParametersAtomically_Request__struct_def
    rcl_interfaces__srv__SetParametersAtomically_Response__struct_def
    rcl_interfaces__srv__SetParametersAtomically_Event__struct_def mtype.sel)

lemma composition_interfaces__names [simp]:
  "interface_name composition_interfaces__srv__ListNodes_Request__struct = ''composition_interfaces__srv__ListNodes_Request''"
  "interface_name composition_interfaces__srv__ListNodes_Response__struct = ''composition_interfaces__srv__ListNodes_Response''"
  "interface_name composition_interfaces__srv__ListNodes_Event__struct = ''composition_interfaces__srv__ListNodes_Event''"
  "interface_name composition_interfaces__srv__LoadNode_Request__struct = ''composition_interfaces__srv__LoadNode_Request''"
  "interface_name composition_interfaces__srv__LoadNode_Response__struct = ''composition_interfaces__srv__LoadNode_Response''"
  "interface_name composition_interfaces__srv__LoadNode_Event__struct = ''composition_interfaces__srv__LoadNode_Event''"
  "interface_name composition_interfaces__srv__UnloadNode_Request__struct = ''composition_interfaces__srv__UnloadNode_Request''"
  "interface_name composition_interfaces__srv__UnloadNode_Response__struct = ''composition_interfaces__srv__UnloadNode_Response''"
  "interface_name composition_interfaces__srv__UnloadNode_Event__struct = ''composition_interfaces__srv__UnloadNode_Event''"
  by (simp_all only: composition_interfaces__srv__ListNodes_Request__struct_def
    composition_interfaces__srv__ListNodes_Response__struct_def
    composition_interfaces__srv__ListNodes_Event__struct_def
    composition_interfaces__srv__LoadNode_Request__struct_def
    composition_interfaces__srv__LoadNode_Response__struct_def
    composition_interfaces__srv__LoadNode_Event__struct_def
    composition_interfaces__srv__UnloadNode_Request__struct_def
    composition_interfaces__srv__UnloadNode_Response__struct_def
    composition_interfaces__srv__UnloadNode_Event__struct_def mtype.sel)

lemma type_description_interfaces__names [simp]:
  "interface_name type_description_interfaces__msg__Field__struct = ''type_description_interfaces__msg__Field''"
  "interface_name type_description_interfaces__msg__FieldType__struct = ''type_description_interfaces__msg__FieldType''"
  "interface_name type_description_interfaces__msg__IndividualTypeDescription__struct = ''type_description_interfaces__msg__IndividualTypeDescription''"
  "interface_name type_description_interfaces__msg__KeyValue__struct = ''type_description_interfaces__msg__KeyValue''"
  "interface_name type_description_interfaces__msg__TypeDescription__struct = ''type_description_interfaces__msg__TypeDescription''"
  "interface_name type_description_interfaces__msg__TypeSource__struct = ''type_description_interfaces__msg__TypeSource''"
  "interface_name type_description_interfaces__srv__GetTypeDescription_Request__struct = ''type_description_interfaces__srv__GetTypeDescription_Request''"
  "interface_name type_description_interfaces__srv__GetTypeDescription_Response__struct = ''type_description_interfaces__srv__GetTypeDescription_Response''"
  "interface_name type_description_interfaces__srv__GetTypeDescription_Event__struct = ''type_description_interfaces__srv__GetTypeDescription_Event''"
  by (simp_all only: type_description_interfaces__msg__Field__struct_def
    type_description_interfaces__msg__FieldType__struct_def
    type_description_interfaces__msg__IndividualTypeDescription__struct_def
    type_description_interfaces__msg__KeyValue__struct_def
    type_description_interfaces__msg__TypeDescription__struct_def
    type_description_interfaces__msg__TypeSource__struct_def
    type_description_interfaces__srv__GetTypeDescription_Request__struct_def
    type_description_interfaces__srv__GetTypeDescription_Response__struct_def
    type_description_interfaces__srv__GetTypeDescription_Event__struct_def mtype.sel)

lemma diagnostic_msgs__names [simp]:
  "interface_name diagnostic_msgs__msg__DiagnosticArray__struct = ''diagnostic_msgs__msg__DiagnosticArray''"
  "interface_name diagnostic_msgs__msg__DiagnosticStatus__struct = ''diagnostic_msgs__msg__DiagnosticStatus''"
  "interface_name diagnostic_msgs__msg__KeyValue__struct = ''diagnostic_msgs__msg__KeyValue''"
  "interface_name diagnostic_msgs__srv__AddDiagnostics_Request__struct = ''diagnostic_msgs__srv__AddDiagnostics_Request''"
  "interface_name diagnostic_msgs__srv__AddDiagnostics_Response__struct = ''diagnostic_msgs__srv__AddDiagnostics_Response''"
  "interface_name diagnostic_msgs__srv__AddDiagnostics_Event__struct = ''diagnostic_msgs__srv__AddDiagnostics_Event''"
  "interface_name diagnostic_msgs__srv__SelfTest_Request__struct = ''diagnostic_msgs__srv__SelfTest_Request''"
  "interface_name diagnostic_msgs__srv__SelfTest_Response__struct = ''diagnostic_msgs__srv__SelfTest_Response''"
  "interface_name diagnostic_msgs__srv__SelfTest_Event__struct = ''diagnostic_msgs__srv__SelfTest_Event''"
  by (simp_all only: diagnostic_msgs__msg__DiagnosticArray__struct_def
    diagnostic_msgs__msg__DiagnosticStatus__struct_def
    diagnostic_msgs__msg__KeyValue__struct_def
    diagnostic_msgs__srv__AddDiagnostics_Request__struct_def
    diagnostic_msgs__srv__AddDiagnostics_Response__struct_def
    diagnostic_msgs__srv__AddDiagnostics_Event__struct_def
    diagnostic_msgs__srv__SelfTest_Request__struct_def
    diagnostic_msgs__srv__SelfTest_Response__struct_def
    diagnostic_msgs__srv__SelfTest_Event__struct_def mtype.sel)

lemma example_interfaces__names [simp]:
  "interface_name example_interfaces__action__Fibonacci_Goal__struct = ''example_interfaces__action__Fibonacci_Goal''"
  "interface_name example_interfaces__action__Fibonacci_Result__struct = ''example_interfaces__action__Fibonacci_Result''"
  "interface_name example_interfaces__action__Fibonacci_Feedback__struct = ''example_interfaces__action__Fibonacci_Feedback''"
  "interface_name example_interfaces__action__Fibonacci_SendGoal_Request__struct = ''example_interfaces__action__Fibonacci_SendGoal_Request''"
  "interface_name example_interfaces__action__Fibonacci_SendGoal_Response__struct = ''example_interfaces__action__Fibonacci_SendGoal_Response''"
  "interface_name example_interfaces__action__Fibonacci_SendGoal_Event__struct = ''example_interfaces__action__Fibonacci_SendGoal_Event''"
  "interface_name example_interfaces__action__Fibonacci_GetResult_Request__struct = ''example_interfaces__action__Fibonacci_GetResult_Request''"
  "interface_name example_interfaces__action__Fibonacci_GetResult_Response__struct = ''example_interfaces__action__Fibonacci_GetResult_Response''"
  "interface_name example_interfaces__action__Fibonacci_GetResult_Event__struct = ''example_interfaces__action__Fibonacci_GetResult_Event''"
  "interface_name example_interfaces__action__Fibonacci_FeedbackMessage__struct = ''example_interfaces__action__Fibonacci_FeedbackMessage''"
  "interface_name example_interfaces__msg__Bool__struct = ''example_interfaces__msg__Bool''"
  "interface_name example_interfaces__msg__Byte__struct = ''example_interfaces__msg__Byte''"
  "interface_name example_interfaces__msg__ByteMultiArray__struct = ''example_interfaces__msg__ByteMultiArray''"
  "interface_name example_interfaces__msg__Char__struct = ''example_interfaces__msg__Char''"
  "interface_name example_interfaces__msg__Empty__struct = ''example_interfaces__msg__Empty''"
  "interface_name example_interfaces__msg__Float32__struct = ''example_interfaces__msg__Float32''"
  "interface_name example_interfaces__msg__Float32MultiArray__struct = ''example_interfaces__msg__Float32MultiArray''"
  "interface_name example_interfaces__msg__Float64__struct = ''example_interfaces__msg__Float64''"
  "interface_name example_interfaces__msg__Float64MultiArray__struct = ''example_interfaces__msg__Float64MultiArray''"
  "interface_name example_interfaces__msg__Int16__struct = ''example_interfaces__msg__Int16''"
  "interface_name example_interfaces__msg__Int16MultiArray__struct = ''example_interfaces__msg__Int16MultiArray''"
  "interface_name example_interfaces__msg__Int32__struct = ''example_interfaces__msg__Int32''"
  "interface_name example_interfaces__msg__Int32MultiArray__struct = ''example_interfaces__msg__Int32MultiArray''"
  "interface_name example_interfaces__msg__Int64__struct = ''example_interfaces__msg__Int64''"
  "interface_name example_interfaces__msg__Int64MultiArray__struct = ''example_interfaces__msg__Int64MultiArray''"
  "interface_name example_interfaces__msg__Int8__struct = ''example_interfaces__msg__Int8''"
  "interface_name example_interfaces__msg__Int8MultiArray__struct = ''example_interfaces__msg__Int8MultiArray''"
  "interface_name example_interfaces__msg__MultiArrayDimension__struct = ''example_interfaces__msg__MultiArrayDimension''"
  "interface_name example_interfaces__msg__MultiArrayLayout__struct = ''example_interfaces__msg__MultiArrayLayout''"
  "interface_name example_interfaces__msg__String__struct = ''example_interfaces__msg__String''"
  "interface_name example_interfaces__msg__UInt16__struct = ''example_interfaces__msg__UInt16''"
  "interface_name example_interfaces__msg__UInt16MultiArray__struct = ''example_interfaces__msg__UInt16MultiArray''"
  "interface_name example_interfaces__msg__UInt32__struct = ''example_interfaces__msg__UInt32''"
  "interface_name example_interfaces__msg__UInt32MultiArray__struct = ''example_interfaces__msg__UInt32MultiArray''"
  "interface_name example_interfaces__msg__UInt64__struct = ''example_interfaces__msg__UInt64''"
  "interface_name example_interfaces__msg__UInt64MultiArray__struct = ''example_interfaces__msg__UInt64MultiArray''"
  "interface_name example_interfaces__msg__UInt8__struct = ''example_interfaces__msg__UInt8''"
  "interface_name example_interfaces__msg__UInt8MultiArray__struct = ''example_interfaces__msg__UInt8MultiArray''"
  "interface_name example_interfaces__msg__WString__struct = ''example_interfaces__msg__WString''"
  "interface_name example_interfaces__srv__AddTwoInts_Request__struct = ''example_interfaces__srv__AddTwoInts_Request''"
  by (simp_all only: example_interfaces__action__Fibonacci_Goal__struct_def
    example_interfaces__action__Fibonacci_Result__struct_def
    example_interfaces__action__Fibonacci_Feedback__struct_def
    example_interfaces__action__Fibonacci_SendGoal_Request__struct_def
    example_interfaces__action__Fibonacci_SendGoal_Response__struct_def
    example_interfaces__action__Fibonacci_SendGoal_Event__struct_def
    example_interfaces__action__Fibonacci_GetResult_Request__struct_def
    example_interfaces__action__Fibonacci_GetResult_Response__struct_def
    example_interfaces__action__Fibonacci_GetResult_Event__struct_def
    example_interfaces__action__Fibonacci_FeedbackMessage__struct_def
    example_interfaces__msg__Bool__struct_def
    example_interfaces__msg__Byte__struct_def
    example_interfaces__msg__ByteMultiArray__struct_def
    example_interfaces__msg__Char__struct_def
    example_interfaces__msg__Empty__struct_def
    example_interfaces__msg__Float32__struct_def
    example_interfaces__msg__Float32MultiArray__struct_def
    example_interfaces__msg__Float64__struct_def
    example_interfaces__msg__Float64MultiArray__struct_def
    example_interfaces__msg__Int16__struct_def
    example_interfaces__msg__Int16MultiArray__struct_def
    example_interfaces__msg__Int32__struct_def
    example_interfaces__msg__Int32MultiArray__struct_def
    example_interfaces__msg__Int64__struct_def
    example_interfaces__msg__Int64MultiArray__struct_def
    example_interfaces__msg__Int8__struct_def
    example_interfaces__msg__Int8MultiArray__struct_def
    example_interfaces__msg__MultiArrayDimension__struct_def
    example_interfaces__msg__MultiArrayLayout__struct_def
    example_interfaces__msg__String__struct_def
    example_interfaces__msg__UInt16__struct_def
    example_interfaces__msg__UInt16MultiArray__struct_def
    example_interfaces__msg__UInt32__struct_def
    example_interfaces__msg__UInt32MultiArray__struct_def
    example_interfaces__msg__UInt64__struct_def
    example_interfaces__msg__UInt64MultiArray__struct_def
    example_interfaces__msg__UInt8__struct_def
    example_interfaces__msg__UInt8MultiArray__struct_def
    example_interfaces__msg__WString__struct_def
    example_interfaces__srv__AddTwoInts_Request__struct_def mtype.sel)

lemma example_interfaces__names1 [simp]:
  "interface_name example_interfaces__srv__AddTwoInts_Response__struct = ''example_interfaces__srv__AddTwoInts_Response''"
  "interface_name example_interfaces__srv__AddTwoInts_Event__struct = ''example_interfaces__srv__AddTwoInts_Event''"
  "interface_name example_interfaces__srv__SetBool_Request__struct = ''example_interfaces__srv__SetBool_Request''"
  "interface_name example_interfaces__srv__SetBool_Response__struct = ''example_interfaces__srv__SetBool_Response''"
  "interface_name example_interfaces__srv__SetBool_Event__struct = ''example_interfaces__srv__SetBool_Event''"
  "interface_name example_interfaces__srv__Trigger_Request__struct = ''example_interfaces__srv__Trigger_Request''"
  "interface_name example_interfaces__srv__Trigger_Response__struct = ''example_interfaces__srv__Trigger_Response''"
  "interface_name example_interfaces__srv__Trigger_Event__struct = ''example_interfaces__srv__Trigger_Event''"
  by (simp_all only: example_interfaces__srv__AddTwoInts_Response__struct_def
    example_interfaces__srv__AddTwoInts_Event__struct_def
    example_interfaces__srv__SetBool_Request__struct_def
    example_interfaces__srv__SetBool_Response__struct_def
    example_interfaces__srv__SetBool_Event__struct_def
    example_interfaces__srv__Trigger_Request__struct_def
    example_interfaces__srv__Trigger_Response__struct_def
    example_interfaces__srv__Trigger_Event__struct_def mtype.sel)

lemma geometry_msgs__names [simp]:
  "interface_name geometry_msgs__msg__Accel__struct = ''geometry_msgs__msg__Accel''"
  "interface_name geometry_msgs__msg__AccelStamped__struct = ''geometry_msgs__msg__AccelStamped''"
  "interface_name geometry_msgs__msg__AccelWithCovariance__struct = ''geometry_msgs__msg__AccelWithCovariance''"
  "interface_name geometry_msgs__msg__AccelWithCovarianceStamped__struct = ''geometry_msgs__msg__AccelWithCovarianceStamped''"
  "interface_name geometry_msgs__msg__Inertia__struct = ''geometry_msgs__msg__Inertia''"
  "interface_name geometry_msgs__msg__InertiaStamped__struct = ''geometry_msgs__msg__InertiaStamped''"
  "interface_name geometry_msgs__msg__Point32__struct = ''geometry_msgs__msg__Point32''"
  "interface_name geometry_msgs__msg__Point__struct = ''geometry_msgs__msg__Point''"
  "interface_name geometry_msgs__msg__PointStamped__struct = ''geometry_msgs__msg__PointStamped''"
  "interface_name geometry_msgs__msg__Polygon__struct = ''geometry_msgs__msg__Polygon''"
  "interface_name geometry_msgs__msg__PolygonInstance__struct = ''geometry_msgs__msg__PolygonInstance''"
  "interface_name geometry_msgs__msg__PolygonInstanceStamped__struct = ''geometry_msgs__msg__PolygonInstanceStamped''"
  "interface_name geometry_msgs__msg__PolygonStamped__struct = ''geometry_msgs__msg__PolygonStamped''"
  "interface_name geometry_msgs__msg__Pose2D__struct = ''geometry_msgs__msg__Pose2D''"
  "interface_name geometry_msgs__msg__Pose__struct = ''geometry_msgs__msg__Pose''"
  "interface_name geometry_msgs__msg__PoseArray__struct = ''geometry_msgs__msg__PoseArray''"
  "interface_name geometry_msgs__msg__PoseStamped__struct = ''geometry_msgs__msg__PoseStamped''"
  "interface_name geometry_msgs__msg__PoseWithCovariance__struct = ''geometry_msgs__msg__PoseWithCovariance''"
  "interface_name geometry_msgs__msg__PoseWithCovarianceStamped__struct = ''geometry_msgs__msg__PoseWithCovarianceStamped''"
  "interface_name geometry_msgs__msg__Quaternion__struct = ''geometry_msgs__msg__Quaternion''"
  "interface_name geometry_msgs__msg__QuaternionStamped__struct = ''geometry_msgs__msg__QuaternionStamped''"
  "interface_name geometry_msgs__msg__Transform__struct = ''geometry_msgs__msg__Transform''"
  "interface_name geometry_msgs__msg__TransformStamped__struct = ''geometry_msgs__msg__TransformStamped''"
  "interface_name geometry_msgs__msg__Twist__struct = ''geometry_msgs__msg__Twist''"
  "interface_name geometry_msgs__msg__TwistStamped__struct = ''geometry_msgs__msg__TwistStamped''"
  "interface_name geometry_msgs__msg__TwistWithCovariance__struct = ''geometry_msgs__msg__TwistWithCovariance''"
  "interface_name geometry_msgs__msg__TwistWithCovarianceStamped__struct = ''geometry_msgs__msg__TwistWithCovarianceStamped''"
  "interface_name geometry_msgs__msg__Vector3__struct = ''geometry_msgs__msg__Vector3''"
  "interface_name geometry_msgs__msg__Vector3Stamped__struct = ''geometry_msgs__msg__Vector3Stamped''"
  "interface_name geometry_msgs__msg__VelocityStamped__struct = ''geometry_msgs__msg__VelocityStamped''"
  "interface_name geometry_msgs__msg__Wrench__struct = ''geometry_msgs__msg__Wrench''"
  "interface_name geometry_msgs__msg__WrenchStamped__struct = ''geometry_msgs__msg__WrenchStamped''"
  by (simp_all only: geometry_msgs__msg__Accel__struct_def
    geometry_msgs__msg__AccelStamped__struct_def
    geometry_msgs__msg__AccelWithCovariance__struct_def
    geometry_msgs__msg__AccelWithCovarianceStamped__struct_def
    geometry_msgs__msg__Inertia__struct_def
    geometry_msgs__msg__InertiaStamped__struct_def
    geometry_msgs__msg__Point32__struct_def
    geometry_msgs__msg__Point__struct_def
    geometry_msgs__msg__PointStamped__struct_def
    geometry_msgs__msg__Polygon__struct_def
    geometry_msgs__msg__PolygonInstance__struct_def
    geometry_msgs__msg__PolygonInstanceStamped__struct_def
    geometry_msgs__msg__PolygonStamped__struct_def
    geometry_msgs__msg__Pose2D__struct_def
    geometry_msgs__msg__Pose__struct_def
    geometry_msgs__msg__PoseArray__struct_def
    geometry_msgs__msg__PoseStamped__struct_def
    geometry_msgs__msg__PoseWithCovariance__struct_def
    geometry_msgs__msg__PoseWithCovarianceStamped__struct_def
    geometry_msgs__msg__Quaternion__struct_def
    geometry_msgs__msg__QuaternionStamped__struct_def
    geometry_msgs__msg__Transform__struct_def
    geometry_msgs__msg__TransformStamped__struct_def
    geometry_msgs__msg__Twist__struct_def
    geometry_msgs__msg__TwistStamped__struct_def
    geometry_msgs__msg__TwistWithCovariance__struct_def
    geometry_msgs__msg__TwistWithCovarianceStamped__struct_def
    geometry_msgs__msg__Vector3__struct_def
    geometry_msgs__msg__Vector3Stamped__struct_def
    geometry_msgs__msg__VelocityStamped__struct_def
    geometry_msgs__msg__Wrench__struct_def
    geometry_msgs__msg__WrenchStamped__struct_def mtype.sel)

lemma shape_msgs__names [simp]:
  "interface_name shape_msgs__msg__Mesh__struct = ''shape_msgs__msg__Mesh''"
  "interface_name shape_msgs__msg__MeshTriangle__struct = ''shape_msgs__msg__MeshTriangle''"
  "interface_name shape_msgs__msg__Plane__struct = ''shape_msgs__msg__Plane''"
  "interface_name shape_msgs__msg__SolidPrimitive__struct = ''shape_msgs__msg__SolidPrimitive''"
  by (simp_all only: shape_msgs__msg__Mesh__struct_def
    shape_msgs__msg__MeshTriangle__struct_def
    shape_msgs__msg__Plane__struct_def
    shape_msgs__msg__SolidPrimitive__struct_def mtype.sel)

lemma sensor_msgs__names [simp]:
  "interface_name sensor_msgs__msg__BatteryState__struct = ''sensor_msgs__msg__BatteryState''"
  "interface_name sensor_msgs__msg__CameraInfo__struct = ''sensor_msgs__msg__CameraInfo''"
  "interface_name sensor_msgs__msg__ChannelFloat32__struct = ''sensor_msgs__msg__ChannelFloat32''"
  "interface_name sensor_msgs__msg__CompressedImage__struct = ''sensor_msgs__msg__CompressedImage''"
  "interface_name sensor_msgs__msg__FluidPressure__struct = ''sensor_msgs__msg__FluidPressure''"
  "interface_name sensor_msgs__msg__Illuminance__struct = ''sensor_msgs__msg__Illuminance''"
  "interface_name sensor_msgs__msg__Image__struct = ''sensor_msgs__msg__Image''"
  "interface_name sensor_msgs__msg__Imu__struct = ''sensor_msgs__msg__Imu''"
  "interface_name sensor_msgs__msg__JointState__struct = ''sensor_msgs__msg__JointState''"
  "interface_name sensor_msgs__msg__Joy__struct = ''sensor_msgs__msg__Joy''"
  "interface_name sensor_msgs__msg__JoyFeedback__struct = ''sensor_msgs__msg__JoyFeedback''"
  "interface_name sensor_msgs__msg__JoyFeedbackArray__struct = ''sensor_msgs__msg__JoyFeedbackArray''"
  "interface_name sensor_msgs__msg__LaserEcho__struct = ''sensor_msgs__msg__LaserEcho''"
  "interface_name sensor_msgs__msg__LaserScan__struct = ''sensor_msgs__msg__LaserScan''"
  "interface_name sensor_msgs__msg__MagneticField__struct = ''sensor_msgs__msg__MagneticField''"
  "interface_name sensor_msgs__msg__MultiDOFJointState__struct = ''sensor_msgs__msg__MultiDOFJointState''"
  "interface_name sensor_msgs__msg__MultiEchoLaserScan__struct = ''sensor_msgs__msg__MultiEchoLaserScan''"
  "interface_name sensor_msgs__msg__NavSatFix__struct = ''sensor_msgs__msg__NavSatFix''"
  "interface_name sensor_msgs__msg__NavSatStatus__struct = ''sensor_msgs__msg__NavSatStatus''"
  "interface_name sensor_msgs__msg__PointCloud2__struct = ''sensor_msgs__msg__PointCloud2''"
  "interface_name sensor_msgs__msg__PointCloud__struct = ''sensor_msgs__msg__PointCloud''"
  "interface_name sensor_msgs__msg__PointField__struct = ''sensor_msgs__msg__PointField''"
  "interface_name sensor_msgs__msg__Range__struct = ''sensor_msgs__msg__Range''"
  "interface_name sensor_msgs__msg__RegionOfInterest__struct = ''sensor_msgs__msg__RegionOfInterest''"
  "interface_name sensor_msgs__msg__RelativeHumidity__struct = ''sensor_msgs__msg__RelativeHumidity''"
  "interface_name sensor_msgs__msg__Temperature__struct = ''sensor_msgs__msg__Temperature''"
  "interface_name sensor_msgs__msg__TimeReference__struct = ''sensor_msgs__msg__TimeReference''"
  "interface_name sensor_msgs__srv__SetCameraInfo_Request__struct = ''sensor_msgs__srv__SetCameraInfo_Request''"
  "interface_name sensor_msgs__srv__SetCameraInfo_Response__struct = ''sensor_msgs__srv__SetCameraInfo_Response''"
  "interface_name sensor_msgs__srv__SetCameraInfo_Event__struct = ''sensor_msgs__srv__SetCameraInfo_Event''"
  by (simp_all only: sensor_msgs__msg__BatteryState__struct_def
    sensor_msgs__msg__CameraInfo__struct_def
    sensor_msgs__msg__ChannelFloat32__struct_def
    sensor_msgs__msg__CompressedImage__struct_def
    sensor_msgs__msg__FluidPressure__struct_def
    sensor_msgs__msg__Illuminance__struct_def
    sensor_msgs__msg__Image__struct_def
    sensor_msgs__msg__Imu__struct_def
    sensor_msgs__msg__JointState__struct_def
    sensor_msgs__msg__Joy__struct_def
    sensor_msgs__msg__JoyFeedback__struct_def
    sensor_msgs__msg__JoyFeedbackArray__struct_def
    sensor_msgs__msg__LaserEcho__struct_def
    sensor_msgs__msg__LaserScan__struct_def
    sensor_msgs__msg__MagneticField__struct_def
    sensor_msgs__msg__MultiDOFJointState__struct_def
    sensor_msgs__msg__MultiEchoLaserScan__struct_def
    sensor_msgs__msg__NavSatFix__struct_def
    sensor_msgs__msg__NavSatStatus__struct_def
    sensor_msgs__msg__PointCloud2__struct_def
    sensor_msgs__msg__PointCloud__struct_def
    sensor_msgs__msg__PointField__struct_def
    sensor_msgs__msg__Range__struct_def
    sensor_msgs__msg__RegionOfInterest__struct_def
    sensor_msgs__msg__RelativeHumidity__struct_def
    sensor_msgs__msg__Temperature__struct_def
    sensor_msgs__msg__TimeReference__struct_def
    sensor_msgs__srv__SetCameraInfo_Request__struct_def
    sensor_msgs__srv__SetCameraInfo_Response__struct_def
    sensor_msgs__srv__SetCameraInfo_Event__struct_def mtype.sel)

lemma nav_msgs__names [simp]:
  "interface_name nav_msgs__msg__Goals__struct = ''nav_msgs__msg__Goals''"
  "interface_name nav_msgs__msg__GridCells__struct = ''nav_msgs__msg__GridCells''"
  "interface_name nav_msgs__msg__MapMetaData__struct = ''nav_msgs__msg__MapMetaData''"
  "interface_name nav_msgs__msg__OccupancyGrid__struct = ''nav_msgs__msg__OccupancyGrid''"
  "interface_name nav_msgs__msg__Odometry__struct = ''nav_msgs__msg__Odometry''"
  "interface_name nav_msgs__msg__Path__struct = ''nav_msgs__msg__Path''"
  "interface_name nav_msgs__srv__GetMap_Request__struct = ''nav_msgs__srv__GetMap_Request''"
  "interface_name nav_msgs__srv__GetMap_Response__struct = ''nav_msgs__srv__GetMap_Response''"
  "interface_name nav_msgs__srv__GetMap_Event__struct = ''nav_msgs__srv__GetMap_Event''"
  "interface_name nav_msgs__srv__GetPlan_Request__struct = ''nav_msgs__srv__GetPlan_Request''"
  "interface_name nav_msgs__srv__GetPlan_Response__struct = ''nav_msgs__srv__GetPlan_Response''"
  "interface_name nav_msgs__srv__GetPlan_Event__struct = ''nav_msgs__srv__GetPlan_Event''"
  "interface_name nav_msgs__srv__LoadMap_Request__struct = ''nav_msgs__srv__LoadMap_Request''"
  "interface_name nav_msgs__srv__LoadMap_Response__struct = ''nav_msgs__srv__LoadMap_Response''"
  "interface_name nav_msgs__srv__LoadMap_Event__struct = ''nav_msgs__srv__LoadMap_Event''"
  "interface_name nav_msgs__srv__SetMap_Request__struct = ''nav_msgs__srv__SetMap_Request''"
  "interface_name nav_msgs__srv__SetMap_Response__struct = ''nav_msgs__srv__SetMap_Response''"
  "interface_name nav_msgs__srv__SetMap_Event__struct = ''nav_msgs__srv__SetMap_Event''"
  by (simp_all only: nav_msgs__msg__Goals__struct_def
    nav_msgs__msg__GridCells__struct_def
    nav_msgs__msg__MapMetaData__struct_def
    nav_msgs__msg__OccupancyGrid__struct_def
    nav_msgs__msg__Odometry__struct_def
    nav_msgs__msg__Path__struct_def
    nav_msgs__srv__GetMap_Request__struct_def
    nav_msgs__srv__GetMap_Response__struct_def
    nav_msgs__srv__GetMap_Event__struct_def
    nav_msgs__srv__GetPlan_Request__struct_def
    nav_msgs__srv__GetPlan_Response__struct_def
    nav_msgs__srv__GetPlan_Event__struct_def
    nav_msgs__srv__LoadMap_Request__struct_def
    nav_msgs__srv__LoadMap_Response__struct_def
    nav_msgs__srv__LoadMap_Event__struct_def
    nav_msgs__srv__SetMap_Request__struct_def
    nav_msgs__srv__SetMap_Response__struct_def
    nav_msgs__srv__SetMap_Event__struct_def mtype.sel)

lemma stereo_msgs__names [simp]:
  "interface_name stereo_msgs__msg__DisparityImage__struct = ''stereo_msgs__msg__DisparityImage''"
  by (simp_all only: stereo_msgs__msg__DisparityImage__struct_def mtype.sel)

lemma trajectory_msgs__names [simp]:
  "interface_name trajectory_msgs__msg__JointTrajectory__struct = ''trajectory_msgs__msg__JointTrajectory''"
  "interface_name trajectory_msgs__msg__JointTrajectoryPoint__struct = ''trajectory_msgs__msg__JointTrajectoryPoint''"
  "interface_name trajectory_msgs__msg__MultiDOFJointTrajectory__struct = ''trajectory_msgs__msg__MultiDOFJointTrajectory''"
  "interface_name trajectory_msgs__msg__MultiDOFJointTrajectoryPoint__struct = ''trajectory_msgs__msg__MultiDOFJointTrajectoryPoint''"
  by (simp_all only: trajectory_msgs__msg__JointTrajectory__struct_def
    trajectory_msgs__msg__JointTrajectoryPoint__struct_def
    trajectory_msgs__msg__MultiDOFJointTrajectory__struct_def
    trajectory_msgs__msg__MultiDOFJointTrajectoryPoint__struct_def mtype.sel)

lemma actionlib_msgs__names [simp]:
  "interface_name actionlib_msgs__msg__GoalID__struct = ''actionlib_msgs__msg__GoalID''"
  "interface_name actionlib_msgs__msg__GoalStatus__struct = ''actionlib_msgs__msg__GoalStatus''"
  "interface_name actionlib_msgs__msg__GoalStatusArray__struct = ''actionlib_msgs__msg__GoalStatusArray''"
  by (simp_all only: actionlib_msgs__msg__GoalID__struct_def
    actionlib_msgs__msg__GoalStatus__struct_def
    actionlib_msgs__msg__GoalStatusArray__struct_def mtype.sel)

lemma tf2_msgs__names [simp]:
  "interface_name tf2_msgs__action__LookupTransform_Goal__struct = ''tf2_msgs__action__LookupTransform_Goal''"
  "interface_name tf2_msgs__action__LookupTransform_Result__struct = ''tf2_msgs__action__LookupTransform_Result''"
  "interface_name tf2_msgs__action__LookupTransform_Feedback__struct = ''tf2_msgs__action__LookupTransform_Feedback''"
  "interface_name tf2_msgs__action__LookupTransform_SendGoal_Request__struct = ''tf2_msgs__action__LookupTransform_SendGoal_Request''"
  "interface_name tf2_msgs__action__LookupTransform_SendGoal_Response__struct = ''tf2_msgs__action__LookupTransform_SendGoal_Response''"
  "interface_name tf2_msgs__action__LookupTransform_SendGoal_Event__struct = ''tf2_msgs__action__LookupTransform_SendGoal_Event''"
  "interface_name tf2_msgs__action__LookupTransform_GetResult_Request__struct = ''tf2_msgs__action__LookupTransform_GetResult_Request''"
  "interface_name tf2_msgs__action__LookupTransform_GetResult_Response__struct = ''tf2_msgs__action__LookupTransform_GetResult_Response''"
  "interface_name tf2_msgs__action__LookupTransform_GetResult_Event__struct = ''tf2_msgs__action__LookupTransform_GetResult_Event''"
  "interface_name tf2_msgs__action__LookupTransform_FeedbackMessage__struct = ''tf2_msgs__action__LookupTransform_FeedbackMessage''"
  "interface_name tf2_msgs__msg__TF2Error__struct = ''tf2_msgs__msg__TF2Error''"
  "interface_name tf2_msgs__msg__TFMessage__struct = ''tf2_msgs__msg__TFMessage''"
  "interface_name tf2_msgs__srv__FrameGraph_Request__struct = ''tf2_msgs__srv__FrameGraph_Request''"
  "interface_name tf2_msgs__srv__FrameGraph_Response__struct = ''tf2_msgs__srv__FrameGraph_Response''"
  "interface_name tf2_msgs__srv__FrameGraph_Event__struct = ''tf2_msgs__srv__FrameGraph_Event''"
  by (simp_all only: tf2_msgs__action__LookupTransform_Goal__struct_def
    tf2_msgs__action__LookupTransform_Result__struct_def
    tf2_msgs__action__LookupTransform_Feedback__struct_def
    tf2_msgs__action__LookupTransform_SendGoal_Request__struct_def
    tf2_msgs__action__LookupTransform_SendGoal_Response__struct_def
    tf2_msgs__action__LookupTransform_SendGoal_Event__struct_def
    tf2_msgs__action__LookupTransform_GetResult_Request__struct_def
    tf2_msgs__action__LookupTransform_GetResult_Response__struct_def
    tf2_msgs__action__LookupTransform_GetResult_Event__struct_def
    tf2_msgs__action__LookupTransform_FeedbackMessage__struct_def
    tf2_msgs__msg__TF2Error__struct_def
    tf2_msgs__msg__TFMessage__struct_def
    tf2_msgs__srv__FrameGraph_Request__struct_def
    tf2_msgs__srv__FrameGraph_Response__struct_def
    tf2_msgs__srv__FrameGraph_Event__struct_def mtype.sel)

lemma visualization_msgs__names [simp]:
  "interface_name visualization_msgs__msg__ImageMarker__struct = ''visualization_msgs__msg__ImageMarker''"
  "interface_name visualization_msgs__msg__InteractiveMarker__struct = ''visualization_msgs__msg__InteractiveMarker''"
  "interface_name visualization_msgs__msg__InteractiveMarkerControl__struct = ''visualization_msgs__msg__InteractiveMarkerControl''"
  "interface_name visualization_msgs__msg__InteractiveMarkerFeedback__struct = ''visualization_msgs__msg__InteractiveMarkerFeedback''"
  "interface_name visualization_msgs__msg__InteractiveMarkerInit__struct = ''visualization_msgs__msg__InteractiveMarkerInit''"
  "interface_name visualization_msgs__msg__InteractiveMarkerPose__struct = ''visualization_msgs__msg__InteractiveMarkerPose''"
  "interface_name visualization_msgs__msg__InteractiveMarkerUpdate__struct = ''visualization_msgs__msg__InteractiveMarkerUpdate''"
  "interface_name visualization_msgs__msg__Marker__struct = ''visualization_msgs__msg__Marker''"
  "interface_name visualization_msgs__msg__MarkerArray__struct = ''visualization_msgs__msg__MarkerArray''"
  "interface_name visualization_msgs__msg__MenuEntry__struct = ''visualization_msgs__msg__MenuEntry''"
  "interface_name visualization_msgs__msg__MeshFile__struct = ''visualization_msgs__msg__MeshFile''"
  "interface_name visualization_msgs__msg__UVCoordinate__struct = ''visualization_msgs__msg__UVCoordinate''"
  "interface_name visualization_msgs__srv__GetInteractiveMarkers_Request__struct = ''visualization_msgs__srv__GetInteractiveMarkers_Request''"
  "interface_name visualization_msgs__srv__GetInteractiveMarkers_Response__struct = ''visualization_msgs__srv__GetInteractiveMarkers_Response''"
  "interface_name visualization_msgs__srv__GetInteractiveMarkers_Event__struct = ''visualization_msgs__srv__GetInteractiveMarkers_Event''"
  by (simp_all only: visualization_msgs__msg__ImageMarker__struct_def
    visualization_msgs__msg__InteractiveMarker__struct_def
    visualization_msgs__msg__InteractiveMarkerControl__struct_def
    visualization_msgs__msg__InteractiveMarkerFeedback__struct_def
    visualization_msgs__msg__InteractiveMarkerInit__struct_def
    visualization_msgs__msg__InteractiveMarkerPose__struct_def
    visualization_msgs__msg__InteractiveMarkerUpdate__struct_def
    visualization_msgs__msg__Marker__struct_def
    visualization_msgs__msg__MarkerArray__struct_def
    visualization_msgs__msg__MenuEntry__struct_def
    visualization_msgs__msg__MeshFile__struct_def
    visualization_msgs__msg__UVCoordinate__struct_def
    visualization_msgs__srv__GetInteractiveMarkers_Request__struct_def
    visualization_msgs__srv__GetInteractiveMarkers_Response__struct_def
    visualization_msgs__srv__GetInteractiveMarkers_Event__struct_def mtype.sel)

lemma control_msgs__names [simp]:
  "interface_name control_msgs__action__FollowJointTrajectory_Goal__struct = ''control_msgs__action__FollowJointTrajectory_Goal''"
  "interface_name control_msgs__action__FollowJointTrajectory_Result__struct = ''control_msgs__action__FollowJointTrajectory_Result''"
  "interface_name control_msgs__action__FollowJointTrajectory_Feedback__struct = ''control_msgs__action__FollowJointTrajectory_Feedback''"
  "interface_name control_msgs__action__FollowJointTrajectory_SendGoal_Request__struct = ''control_msgs__action__FollowJointTrajectory_SendGoal_Request''"
  "interface_name control_msgs__action__FollowJointTrajectory_SendGoal_Response__struct = ''control_msgs__action__FollowJointTrajectory_SendGoal_Response''"
  "interface_name control_msgs__action__FollowJointTrajectory_SendGoal_Event__struct = ''control_msgs__action__FollowJointTrajectory_SendGoal_Event''"
  "interface_name control_msgs__action__FollowJointTrajectory_GetResult_Request__struct = ''control_msgs__action__FollowJointTrajectory_GetResult_Request''"
  "interface_name control_msgs__action__FollowJointTrajectory_GetResult_Response__struct = ''control_msgs__action__FollowJointTrajectory_GetResult_Response''"
  "interface_name control_msgs__action__FollowJointTrajectory_GetResult_Event__struct = ''control_msgs__action__FollowJointTrajectory_GetResult_Event''"
  "interface_name control_msgs__action__FollowJointTrajectory_FeedbackMessage__struct = ''control_msgs__action__FollowJointTrajectory_FeedbackMessage''"
  "interface_name control_msgs__action__GripperCommand_Goal__struct = ''control_msgs__action__GripperCommand_Goal''"
  "interface_name control_msgs__action__GripperCommand_Result__struct = ''control_msgs__action__GripperCommand_Result''"
  "interface_name control_msgs__action__GripperCommand_Feedback__struct = ''control_msgs__action__GripperCommand_Feedback''"
  "interface_name control_msgs__action__GripperCommand_SendGoal_Request__struct = ''control_msgs__action__GripperCommand_SendGoal_Request''"
  "interface_name control_msgs__action__GripperCommand_SendGoal_Response__struct = ''control_msgs__action__GripperCommand_SendGoal_Response''"
  "interface_name control_msgs__action__GripperCommand_SendGoal_Event__struct = ''control_msgs__action__GripperCommand_SendGoal_Event''"
  "interface_name control_msgs__action__GripperCommand_GetResult_Request__struct = ''control_msgs__action__GripperCommand_GetResult_Request''"
  "interface_name control_msgs__action__GripperCommand_GetResult_Response__struct = ''control_msgs__action__GripperCommand_GetResult_Response''"
  "interface_name control_msgs__action__GripperCommand_GetResult_Event__struct = ''control_msgs__action__GripperCommand_GetResult_Event''"
  "interface_name control_msgs__action__GripperCommand_FeedbackMessage__struct = ''control_msgs__action__GripperCommand_FeedbackMessage''"
  "interface_name control_msgs__action__JointTrajectory_Goal__struct = ''control_msgs__action__JointTrajectory_Goal''"
  "interface_name control_msgs__action__JointTrajectory_Result__struct = ''control_msgs__action__JointTrajectory_Result''"
  "interface_name control_msgs__action__JointTrajectory_Feedback__struct = ''control_msgs__action__JointTrajectory_Feedback''"
  "interface_name control_msgs__action__JointTrajectory_SendGoal_Request__struct = ''control_msgs__action__JointTrajectory_SendGoal_Request''"
  "interface_name control_msgs__action__JointTrajectory_SendGoal_Response__struct = ''control_msgs__action__JointTrajectory_SendGoal_Response''"
  "interface_name control_msgs__action__JointTrajectory_SendGoal_Event__struct = ''control_msgs__action__JointTrajectory_SendGoal_Event''"
  "interface_name control_msgs__action__JointTrajectory_GetResult_Request__struct = ''control_msgs__action__JointTrajectory_GetResult_Request''"
  "interface_name control_msgs__action__JointTrajectory_GetResult_Response__struct = ''control_msgs__action__JointTrajectory_GetResult_Response''"
  "interface_name control_msgs__action__JointTrajectory_GetResult_Event__struct = ''control_msgs__action__JointTrajectory_GetResult_Event''"
  "interface_name control_msgs__action__JointTrajectory_FeedbackMessage__struct = ''control_msgs__action__JointTrajectory_FeedbackMessage''"
  "interface_name control_msgs__action__PointHead_Goal__struct = ''control_msgs__action__PointHead_Goal''"
  "interface_name control_msgs__action__PointHead_Result__struct = ''control_msgs__action__PointHead_Result''"
  "interface_name control_msgs__action__PointHead_Feedback__struct = ''control_msgs__action__PointHead_Feedback''"
  "interface_name control_msgs__action__PointHead_SendGoal_Request__struct = ''control_msgs__action__PointHead_SendGoal_Request''"
  "interface_name control_msgs__action__PointHead_SendGoal_Response__struct = ''control_msgs__action__PointHead_SendGoal_Response''"
  "interface_name control_msgs__action__PointHead_SendGoal_Event__struct = ''control_msgs__action__PointHead_SendGoal_Event''"
  "interface_name control_msgs__action__PointHead_GetResult_Request__struct = ''control_msgs__action__PointHead_GetResult_Request''"
  "interface_name control_msgs__action__PointHead_GetResult_Response__struct = ''control_msgs__action__PointHead_GetResult_Response''"
  "interface_name control_msgs__action__PointHead_GetResult_Event__struct = ''control_msgs__action__PointHead_GetResult_Event''"
  "interface_name control_msgs__action__PointHead_FeedbackMessage__struct = ''control_msgs__action__PointHead_FeedbackMessage''"
  by (simp_all only: control_msgs__action__FollowJointTrajectory_Goal__struct_def
    control_msgs__action__FollowJointTrajectory_Result__struct_def
    control_msgs__action__FollowJointTrajectory_Feedback__struct_def
    control_msgs__action__FollowJointTrajectory_SendGoal_Request__struct_def
    control_msgs__action__FollowJointTrajectory_SendGoal_Response__struct_def
    control_msgs__action__FollowJointTrajectory_SendGoal_Event__struct_def
    control_msgs__action__FollowJointTrajectory_GetResult_Request__struct_def
    control_msgs__action__FollowJointTrajectory_GetResult_Response__struct_def
    control_msgs__action__FollowJointTrajectory_GetResult_Event__struct_def
    control_msgs__action__FollowJointTrajectory_FeedbackMessage__struct_def
    control_msgs__action__GripperCommand_Goal__struct_def
    control_msgs__action__GripperCommand_Result__struct_def
    control_msgs__action__GripperCommand_Feedback__struct_def
    control_msgs__action__GripperCommand_SendGoal_Request__struct_def
    control_msgs__action__GripperCommand_SendGoal_Response__struct_def
    control_msgs__action__GripperCommand_SendGoal_Event__struct_def
    control_msgs__action__GripperCommand_GetResult_Request__struct_def
    control_msgs__action__GripperCommand_GetResult_Response__struct_def
    control_msgs__action__GripperCommand_GetResult_Event__struct_def
    control_msgs__action__GripperCommand_FeedbackMessage__struct_def
    control_msgs__action__JointTrajectory_Goal__struct_def
    control_msgs__action__JointTrajectory_Result__struct_def
    control_msgs__action__JointTrajectory_Feedback__struct_def
    control_msgs__action__JointTrajectory_SendGoal_Request__struct_def
    control_msgs__action__JointTrajectory_SendGoal_Response__struct_def
    control_msgs__action__JointTrajectory_SendGoal_Event__struct_def
    control_msgs__action__JointTrajectory_GetResult_Request__struct_def
    control_msgs__action__JointTrajectory_GetResult_Response__struct_def
    control_msgs__action__JointTrajectory_GetResult_Event__struct_def
    control_msgs__action__JointTrajectory_FeedbackMessage__struct_def
    control_msgs__action__PointHead_Goal__struct_def
    control_msgs__action__PointHead_Result__struct_def
    control_msgs__action__PointHead_Feedback__struct_def
    control_msgs__action__PointHead_SendGoal_Request__struct_def
    control_msgs__action__PointHead_SendGoal_Response__struct_def
    control_msgs__action__PointHead_SendGoal_Event__struct_def
    control_msgs__action__PointHead_GetResult_Request__struct_def
    control_msgs__action__PointHead_GetResult_Response__struct_def
    control_msgs__action__PointHead_GetResult_Event__struct_def
    control_msgs__action__PointHead_FeedbackMessage__struct_def mtype.sel)

lemma control_msgs__names1 [simp]:
  "interface_name control_msgs__action__SingleJointPosition_Goal__struct = ''control_msgs__action__SingleJointPosition_Goal''"
  "interface_name control_msgs__action__SingleJointPosition_Result__struct = ''control_msgs__action__SingleJointPosition_Result''"
  "interface_name control_msgs__action__SingleJointPosition_Feedback__struct = ''control_msgs__action__SingleJointPosition_Feedback''"
  "interface_name control_msgs__action__SingleJointPosition_SendGoal_Request__struct = ''control_msgs__action__SingleJointPosition_SendGoal_Request''"
  "interface_name control_msgs__action__SingleJointPosition_SendGoal_Response__struct = ''control_msgs__action__SingleJointPosition_SendGoal_Response''"
  "interface_name control_msgs__action__SingleJointPosition_SendGoal_Event__struct = ''control_msgs__action__SingleJointPosition_SendGoal_Event''"
  "interface_name control_msgs__action__SingleJointPosition_GetResult_Request__struct = ''control_msgs__action__SingleJointPosition_GetResult_Request''"
  "interface_name control_msgs__action__SingleJointPosition_GetResult_Response__struct = ''control_msgs__action__SingleJointPosition_GetResult_Response''"
  "interface_name control_msgs__action__SingleJointPosition_GetResult_Event__struct = ''control_msgs__action__SingleJointPosition_GetResult_Event''"
  "interface_name control_msgs__action__SingleJointPosition_FeedbackMessage__struct = ''control_msgs__action__SingleJointPosition_FeedbackMessage''"
  "interface_name control_msgs__msg__DynamicJointState__struct = ''control_msgs__msg__DynamicJointState''"
  "interface_name control_msgs__msg__GripperCommand__struct = ''control_msgs__msg__GripperCommand''"
  "interface_name control_msgs__msg__InterfaceValue__struct = ''control_msgs__msg__InterfaceValue''"
  "interface_name control_msgs__msg__JointComponentTolerance__struct = ''control_msgs__msg__JointComponentTolerance''"
  "interface_name control_msgs__msg__JointControllerState__struct = ''control_msgs__msg__JointControllerState''"
  "interface_name control_msgs__msg__JointJog__struct = ''control_msgs__msg__JointJog''"
  "interface_name control_msgs__msg__JointTolerance__struct = ''control_msgs__msg__JointTolerance''"
  "interface_name control_msgs__msg__JointTrajectoryControllerState__struct = ''control_msgs__msg__JointTrajectoryControllerState''"
  "interface_name control_msgs__msg__PidState__struct = ''control_msgs__msg__PidState''"
  "interface_name control_msgs__srv__QueryCalibrationState_Request__struct = ''control_msgs__srv__QueryCalibrationState_Request''"
  "interface_name control_msgs__srv__QueryCalibrationState_Response__struct = ''control_msgs__srv__QueryCalibrationState_Response''"
  "interface_name control_msgs__srv__QueryCalibrationState_Event__struct = ''control_msgs__srv__QueryCalibrationState_Event''"
  "interface_name control_msgs__srv__QueryTrajectoryState_Request__struct = ''control_msgs__srv__QueryTrajectoryState_Request''"
  "interface_name control_msgs__srv__QueryTrajectoryState_Response__struct = ''control_msgs__srv__QueryTrajectoryState_Response''"
  "interface_name control_msgs__srv__QueryTrajectoryState_Event__struct = ''control_msgs__srv__QueryTrajectoryState_Event''"
  by (simp_all only: control_msgs__action__SingleJointPosition_Goal__struct_def
    control_msgs__action__SingleJointPosition_Result__struct_def
    control_msgs__action__SingleJointPosition_Feedback__struct_def
    control_msgs__action__SingleJointPosition_SendGoal_Request__struct_def
    control_msgs__action__SingleJointPosition_SendGoal_Response__struct_def
    control_msgs__action__SingleJointPosition_SendGoal_Event__struct_def
    control_msgs__action__SingleJointPosition_GetResult_Request__struct_def
    control_msgs__action__SingleJointPosition_GetResult_Response__struct_def
    control_msgs__action__SingleJointPosition_GetResult_Event__struct_def
    control_msgs__action__SingleJointPosition_FeedbackMessage__struct_def
    control_msgs__msg__DynamicJointState__struct_def
    control_msgs__msg__GripperCommand__struct_def
    control_msgs__msg__InterfaceValue__struct_def
    control_msgs__msg__JointComponentTolerance__struct_def
    control_msgs__msg__JointControllerState__struct_def
    control_msgs__msg__JointJog__struct_def
    control_msgs__msg__JointTolerance__struct_def
    control_msgs__msg__JointTrajectoryControllerState__struct_def
    control_msgs__msg__PidState__struct_def
    control_msgs__srv__QueryCalibrationState_Request__struct_def
    control_msgs__srv__QueryCalibrationState_Response__struct_def
    control_msgs__srv__QueryCalibrationState_Event__struct_def
    control_msgs__srv__QueryTrajectoryState_Request__struct_def
    control_msgs__srv__QueryTrajectoryState_Response__struct_def
    control_msgs__srv__QueryTrajectoryState_Event__struct_def mtype.sel)

lemma test_msgs__names [simp]:
  "interface_name test_msgs__action__Fibonacci_Goal__struct = ''test_msgs__action__Fibonacci_Goal''"
  "interface_name test_msgs__action__Fibonacci_Result__struct = ''test_msgs__action__Fibonacci_Result''"
  "interface_name test_msgs__action__Fibonacci_Feedback__struct = ''test_msgs__action__Fibonacci_Feedback''"
  "interface_name test_msgs__action__Fibonacci_SendGoal_Request__struct = ''test_msgs__action__Fibonacci_SendGoal_Request''"
  "interface_name test_msgs__action__Fibonacci_SendGoal_Response__struct = ''test_msgs__action__Fibonacci_SendGoal_Response''"
  "interface_name test_msgs__action__Fibonacci_SendGoal_Event__struct = ''test_msgs__action__Fibonacci_SendGoal_Event''"
  "interface_name test_msgs__action__Fibonacci_GetResult_Request__struct = ''test_msgs__action__Fibonacci_GetResult_Request''"
  "interface_name test_msgs__action__Fibonacci_GetResult_Response__struct = ''test_msgs__action__Fibonacci_GetResult_Response''"
  "interface_name test_msgs__action__Fibonacci_GetResult_Event__struct = ''test_msgs__action__Fibonacci_GetResult_Event''"
  "interface_name test_msgs__action__Fibonacci_FeedbackMessage__struct = ''test_msgs__action__Fibonacci_FeedbackMessage''"
  "interface_name test_msgs__action__NestedMessage_Goal__struct = ''test_msgs__action__NestedMessage_Goal''"
  "interface_name test_msgs__action__NestedMessage_Result__struct = ''test_msgs__action__NestedMessage_Result''"
  "interface_name test_msgs__action__NestedMessage_Feedback__struct = ''test_msgs__action__NestedMessage_Feedback''"
  "interface_name test_msgs__action__NestedMessage_SendGoal_Request__struct = ''test_msgs__action__NestedMessage_SendGoal_Request''"
  "interface_name test_msgs__action__NestedMessage_SendGoal_Response__struct = ''test_msgs__action__NestedMessage_SendGoal_Response''"
  "interface_name test_msgs__action__NestedMessage_SendGoal_Event__struct = ''test_msgs__action__NestedMessage_SendGoal_Event''"
  "interface_name test_msgs__action__NestedMessage_GetResult_Request__struct = ''test_msgs__action__NestedMessage_GetResult_Request''"
  "interface_name test_msgs__action__NestedMessage_GetResult_Response__struct = ''test_msgs__action__NestedMessage_GetResult_Response''"
  "interface_name test_msgs__action__NestedMessage_GetResult_Event__struct = ''test_msgs__action__NestedMessage_GetResult_Event''"
  "interface_name test_msgs__action__NestedMessage_FeedbackMessage__struct = ''test_msgs__action__NestedMessage_FeedbackMessage''"
  "interface_name test_msgs__msg__Arrays__struct = ''test_msgs__msg__Arrays''"
  "interface_name test_msgs__msg__BasicTypes__struct = ''test_msgs__msg__BasicTypes''"
  "interface_name test_msgs__msg__BoundedPlainSequences__struct = ''test_msgs__msg__BoundedPlainSequences''"
  "interface_name test_msgs__msg__BoundedSequences__struct = ''test_msgs__msg__BoundedSequences''"
  "interface_name test_msgs__msg__Builtins__struct = ''test_msgs__msg__Builtins''"
  "interface_name test_msgs__msg__ComplexNestedKey__struct = ''test_msgs__msg__ComplexNestedKey''"
  "interface_name test_msgs__msg__Constants__struct = ''test_msgs__msg__Constants''"
  "interface_name test_msgs__msg__Defaults__struct = ''test_msgs__msg__Defaults''"
  "interface_name test_msgs__msg__Empty__struct = ''test_msgs__msg__Empty''"
  "interface_name test_msgs__msg__KeyedLong__struct = ''test_msgs__msg__KeyedLong''"
  "interface_name test_msgs__msg__KeyedString__struct = ''test_msgs__msg__KeyedString''"
  "interface_name test_msgs__msg__MultiNested__struct = ''test_msgs__msg__MultiNested''"
  "interface_name test_msgs__msg__Nested__struct = ''test_msgs__msg__Nested''"
  "interface_name test_msgs__msg__NonKeyedWithNestedKey__struct = ''test_msgs__msg__NonKeyedWithNestedKey''"
  "interface_name test_msgs__msg__Strings__struct = ''test_msgs__msg__Strings''"
  "interface_name test_msgs__msg__UnboundedSequences__struct = ''test_msgs__msg__UnboundedSequences''"
  "interface_name test_msgs__msg__WStrings__struct = ''test_msgs__msg__WStrings''"
  "interface_name test_msgs__srv__Arrays_Request__struct = ''test_msgs__srv__Arrays_Request''"
  "interface_name test_msgs__srv__Arrays_Response__struct = ''test_msgs__srv__Arrays_Response''"
  "interface_name test_msgs__srv__Arrays_Event__struct = ''test_msgs__srv__Arrays_Event''"
  by (simp_all only: test_msgs__action__Fibonacci_Goal__struct_def
    test_msgs__action__Fibonacci_Result__struct_def
    test_msgs__action__Fibonacci_Feedback__struct_def
    test_msgs__action__Fibonacci_SendGoal_Request__struct_def
    test_msgs__action__Fibonacci_SendGoal_Response__struct_def
    test_msgs__action__Fibonacci_SendGoal_Event__struct_def
    test_msgs__action__Fibonacci_GetResult_Request__struct_def
    test_msgs__action__Fibonacci_GetResult_Response__struct_def
    test_msgs__action__Fibonacci_GetResult_Event__struct_def
    test_msgs__action__Fibonacci_FeedbackMessage__struct_def
    test_msgs__action__NestedMessage_Goal__struct_def
    test_msgs__action__NestedMessage_Result__struct_def
    test_msgs__action__NestedMessage_Feedback__struct_def
    test_msgs__action__NestedMessage_SendGoal_Request__struct_def
    test_msgs__action__NestedMessage_SendGoal_Response__struct_def
    test_msgs__action__NestedMessage_SendGoal_Event__struct_def
    test_msgs__action__NestedMessage_GetResult_Request__struct_def
    test_msgs__action__NestedMessage_GetResult_Response__struct_def
    test_msgs__action__NestedMessage_GetResult_Event__struct_def
    test_msgs__action__NestedMessage_FeedbackMessage__struct_def
    test_msgs__msg__Arrays__struct_def
    test_msgs__msg__BasicTypes__struct_def
    test_msgs__msg__BoundedPlainSequences__struct_def
    test_msgs__msg__BoundedSequences__struct_def
    test_msgs__msg__Builtins__struct_def
    test_msgs__msg__ComplexNestedKey__struct_def
    test_msgs__msg__Constants__struct_def
    test_msgs__msg__Defaults__struct_def
    test_msgs__msg__Empty__struct_def
    test_msgs__msg__KeyedLong__struct_def
    test_msgs__msg__KeyedString__struct_def
    test_msgs__msg__MultiNested__struct_def
    test_msgs__msg__Nested__struct_def
    test_msgs__msg__NonKeyedWithNestedKey__struct_def
    test_msgs__msg__Strings__struct_def
    test_msgs__msg__UnboundedSequences__struct_def
    test_msgs__msg__WStrings__struct_def
    test_msgs__srv__Arrays_Request__struct_def
    test_msgs__srv__Arrays_Response__struct_def
    test_msgs__srv__Arrays_Event__struct_def mtype.sel)

lemma test_msgs__names1 [simp]:
  "interface_name test_msgs__srv__BasicTypes_Request__struct = ''test_msgs__srv__BasicTypes_Request''"
  "interface_name test_msgs__srv__BasicTypes_Response__struct = ''test_msgs__srv__BasicTypes_Response''"
  "interface_name test_msgs__srv__BasicTypes_Event__struct = ''test_msgs__srv__BasicTypes_Event''"
  "interface_name test_msgs__srv__Empty_Request__struct = ''test_msgs__srv__Empty_Request''"
  "interface_name test_msgs__srv__Empty_Response__struct = ''test_msgs__srv__Empty_Response''"
  "interface_name test_msgs__srv__Empty_Event__struct = ''test_msgs__srv__Empty_Event''"
  by (simp_all only: test_msgs__srv__BasicTypes_Request__struct_def
    test_msgs__srv__BasicTypes_Response__struct_def
    test_msgs__srv__BasicTypes_Event__struct_def
    test_msgs__srv__Empty_Request__struct_def
    test_msgs__srv__Empty_Response__struct_def
    test_msgs__srv__Empty_Event__struct_def mtype.sel)

end
