(* ===== verification/Header_Contracts.thy ===== *)
theory Header_Contracts
  imports Generated_Headers
begin

text \<open>
  What a program relies on when it includes and links the generated code: the five headers of an interface belong
  together, no two declarations of the repository share a symbol, and the macros that get a type support find the one
  that was generated for the interface, although a program has three type supports for each.
\<close>

subsection \<open>Declarations of the repository\<close>

definition declared_functions :: "function_table list" where
  "declared_functions = concat (map (\<lambda>(p, hs). concat (map tables hs)) packages) @ runtime_tables"

definition declared_common :: "exported list" where
  "declared_common = concat (map (\<lambda>(p, hs). concat (map common hs)) packages)"

definition declared_xrce :: "xrce_export list" where
  "declared_xrce = concat (map (\<lambda>(p, hs). concat (map xrce hs)) packages)"

definition declared_introspection :: "exported list" where
  "declared_introspection = concat (map (\<lambda>(p, hs). concat (map introspection hs)) packages)"

definition declared_prototypes :: "prototype list" where
  "declared_prototypes =
     concat (map function_prototypes declared_functions) @
     map (exported_prototype ''rosidl_typesupport_c'' (Some [])) declared_common @
     map xrce_prototype declared_xrce @
     map (exported_prototype ''rosidl_typesupport_introspection_c'' None) declared_introspection"

subsection \<open>Headers that belong together\<close>

fun message_name :: "exported \<Rightarrow> string list" where
  "message_name (exported.Message p k n) = [c_name (p, k, n)]"
| "message_name _ = []"

definition conforms :: "string \<Rightarrow> generated \<Rightarrow> bool" where
  "conforms p g \<longleftrightarrow>
     fst (header g) = p \<and>
     common g = exports_of (header g) \<and>
     introspection g = concat (map introspection_of (common g)) \<and>
     xrce g = concat (map xrce_of (common g)) \<and>
     tables g = functions_of (header g) \<and>
     map interface_name (structs g) = concat (map message_name (common g))"

lemma packages_conform: "list_all (\<lambda>(p, hs). list_all (conforms p) hs) packages"
  by (simp add: packages_def package_defs conforms_def function_defs support_defs generator_defs)

lemma header_conforms: "(p, hs) \<in> set packages \<Longrightarrow> g \<in> set hs \<Longrightarrow> conforms p g"
  using packages_conform by (fastforce simp: list_all_iff)

definition headers_of :: "(string \<times> generated list) list \<Rightarrow> interface_id list" where
  "headers_of ps = concat (map (map header \<circ> snd) ps)"

text \<open>So everything follows from the names of the headers.\<close>

lemma collected:
  assumes "\<And>g. g \<in> set (concat (map snd ps)) \<Longrightarrow> f g = h (header g)"
  shows "concat (map (\<lambda>(p, hs). concat (map f hs)) ps) = concat (map h (headers_of ps))"
proof -
  have "concat (map f hs) = concat (map h (map header hs))" if "\<And>g. g \<in> set hs \<Longrightarrow> f g = h (header g)" for hs
    using that by (induction hs) simp_all
  with assms show ?thesis by (induction ps) (auto simp: headers_of_def)
qed

lemma conforming:
  assumes "g \<in> set (concat (map snd packages))"
  shows "common g = exports_of (header g)" "tables g = functions_of (header g)"
    "xrce g = concat (map xrce_of (common g))" "introspection g = concat (map introspection_of (common g))"
proof -
  from assms obtain p hs where "(p, hs) \<in> set packages" "g \<in> set hs" by auto
  then have "conforms p g" by (rule header_conforms)
  then show "common g = exports_of (header g)" "tables g = functions_of (header g)"
    "xrce g = concat (map xrce_of (common g))" "introspection g = concat (map introspection_of (common g))"
    by (simp_all add: conforms_def)
qed

lemma concat_derived: "concat (map (\<lambda>i. concat (map f (h i))) is) = concat (map f (concat (map h is)))"
  by (induction "is") simp_all

lemma declared_common: "declared_common = concat (map exports_of (headers_of packages))"
  unfolding declared_common_def by (rule collected) (rule conforming)

lemma declared_functions: "declared_functions = concat (map functions_of (headers_of packages)) @ runtime_tables"
  unfolding declared_functions_def by (subst collected [where f = tables and h = functions_of]) (simp_all only: conforming)

lemma declared_xrce: "declared_xrce = concat (map xrce_of declared_common)"
  unfolding declared_xrce_def declared_common concat_derived [symmetric]
  by (rule collected) (simp only: conforming)

lemma declared_introspection: "declared_introspection = concat (map introspection_of declared_common)"
  unfolding declared_introspection_def declared_common concat_derived [symmetric]
  by (rule collected) (simp only: conforming)

subsection \<open>Names of the repository\<close>

lemma packages_named:
  "list_all (\<lambda>(p, hs). good_package p \<and> distinct (map header hs)) packages" "distinct (map fst packages)"
  by (simp_all add: packages_def package_defs good_package_def)

lemma headers_named: "list_all (\<lambda>(p, hs). list_all (\<lambda>g. simple_id (header g)) hs) packages"
  by (simp add: packages_def package_defs simple_name_def)

lemma runtime_named:
  "good_package ''rosidl_runtime_c''" "''rosidl_runtime_c'' \<notin> fst ` set packages" "distinct (map owner runtime_tables)"
  "list_all (\<lambda>t. fst (owner t) = ''rosidl_runtime_c'' \<and> well_named_id (owner t) \<and> distinct (map suffix_of (operations t)))
     runtime_tables"
  by (simp_all add: packages_def runtime_tables_def function_defs good_package_def)

lemma headers_distinct: "distinct (headers_of packages)"
  unfolding headers_of_def
proof (rule distinct_pieces)
  show "distinct packages" using packages_named(2) by (simp add: distinct_map)
  show "distinct ((map header \<circ> snd) x)" if "x \<in> set packages" for x
    using that packages_named(1) by (auto simp: list_all_iff)
  have package: "fst i = fst x" if "x \<in> set packages" "i \<in> set ((map header \<circ> snd) x)" for x i
    using that header_conforms [of "fst x" "snd x"] by (auto simp: conforms_def)
  show "x = x'" if "x \<in> set packages" "x' \<in> set packages" "i \<in> set ((map header \<circ> snd) x)" "i \<in> set ((map header \<circ> snd) x')" for x x' i
    using that package [of x i] package [of x' i] packages_named(2) by (auto simp: distinct_map dest: inj_onD)
qed

lemma header_named:
  assumes "i \<in> set (headers_of packages)"
  shows "simple_id i" "good_package (fst i)" "fst i \<in> fst ` set packages"
proof -
  from assms obtain p hs g where g: "(p, hs) \<in> set packages" "g \<in> set hs" "i = header g"
    by (auto simp: headers_of_def)
  then have "fst i = p" using header_conforms [of p hs g] by (simp add: conforms_def)
  with g headers_named packages_named(1) show "simple_id i" "good_package (fst i)" "fst i \<in> fst ` set packages"
    by (force simp: list_all_iff)+
qed

lemma fst_root: "fst (root i) = fst i"
  by (cases i) simp

lemma exports_named:
  "distinct declared_common" "e \<in> set declared_common \<Longrightarrow> good_export e"
proof -
  show "distinct declared_common"
    unfolding declared_common
  proof (rule distinct_pieces [OF headers_distinct])
    show "i = j" if "i \<in> set (headers_of packages)" "j \<in> set (headers_of packages)" "e \<in> set (exports_of i)" "e \<in> set (exports_of j)" for i j e
      using that exports_of_root [OF header_named(1)] by blast
  qed (rule exports_of_distinct)
  show "good_export e" if "e \<in> set declared_common"
  proof -
    from that obtain i where i: "i \<in> set (headers_of packages)" "e \<in> set (exports_of i)"
      by (auto simp: declared_common)
    then have "root (export_id e) = i \<and> well_named_id (export_id e)"
      using exports_of_root [OF header_named(1)] by blast
    then show ?thesis using header_named(2) [OF i(1)] fst_root [of "export_id e"] by (simp add: good_export_def)
  qed
qed

lemma functions_named:
  "distinct (map owner declared_functions)"
  "t \<in> set declared_functions \<Longrightarrow>
     good_package (fst (owner t)) \<and> well_named_id (owner t) \<and> distinct (map suffix_of (operations t))"
proof -
  have generated: "root (owner t) = i \<and> well_named_id (owner t) \<and> distinct (map suffix_of (operations t))"
    if "i \<in> set (headers_of packages)" "t \<in> set (functions_of i)" for i t
    using functions_of_root [OF header_named(1) [OF that(1)] that(2)] .
  have "distinct (concat (map (\<lambda>i. map owner (functions_of i)) (headers_of packages)))"
  proof (rule distinct_pieces [OF headers_distinct])
    show "i = j" if "i \<in> set (headers_of packages)" "j \<in> set (headers_of packages)" "x \<in> set (map owner (functions_of i))"
        "x \<in> set (map owner (functions_of j))" for i j x
    proof -
      from that(3) obtain t where "t \<in> set (functions_of i)" "owner t = x" by auto
      moreover from that(4) obtain u where "u \<in> set (functions_of j)" "owner u = x" by auto
      ultimately show "i = j" using generated [OF that(1)] generated [OF that(2)] by metis
    qed
  qed (rule functions_of_distinct)
  moreover have package: "fst (owner t) \<noteq> ''rosidl_runtime_c''" if "i \<in> set (headers_of packages)" "t \<in> set (functions_of i)" for i t
    using generated [OF that] header_named(3) [OF that(1)] fst_root [of "owner t"] runtime_named(2) by metis
  ultimately show "distinct (map owner declared_functions)"
    using runtime_named(3,4) by (fastforce simp: declared_functions map_concat comp_def list_all_iff)
  show "good_package (fst (owner t)) \<and> well_named_id (owner t) \<and> distinct (map suffix_of (operations t))"
    if t: "t \<in> set declared_functions"
  proof (cases "t \<in> set runtime_tables")
    case True then show ?thesis using runtime_named(1,4) by (auto simp: list_all_iff)
  next
    case False
    with t obtain i where i: "i \<in> set (headers_of packages)" "t \<in> set (functions_of i)"
      by (auto simp: declared_functions)
    then show ?thesis using generated [OF i] header_named(2) [OF i(1)] fst_root [of "owner t"] by simp
  qed
qed

lemma xrce_named: "distinct declared_xrce" "x \<in> set declared_xrce \<Longrightarrow> good_export (xrce_source x)"
proof -
  show "distinct declared_xrce"
    unfolding declared_xrce by (rule derived_distinct) (rule exports_named)
  show "good_export (xrce_source x)" if "x \<in> set declared_xrce"
    using that exports_named(2) by (auto simp: declared_xrce dest: xrce_of_source)
qed

lemma introspection_named: "distinct declared_introspection" "e \<in> set declared_introspection \<Longrightarrow> good_export e"
proof -
  show "distinct declared_introspection"
    unfolding declared_introspection by (rule derived_distinct) (rule exports_named)
  show "good_export e" if "e \<in> set declared_introspection"
    using that exports_named(2) by (auto simp: declared_introspection dest: introspection_of_source)
qed

subsection \<open>Symbols of the repository\<close>

lemma function_symbols_distinct: "distinct (map symbol (concat (map function_prototypes declared_functions)))"
proof -
  have tables: "distinct declared_functions" "inj_on owner (set declared_functions)"
    using functions_named(1) by (simp_all add: distinct_map)
  have "distinct (concat (map (\<lambda>t. map (symbol_of (owner t)) (operations t)) declared_functions))"
  proof (rule distinct_pieces [OF tables(1)])
    show "distinct (map (symbol_of (owner t)) (operations t))" if "t \<in> set declared_functions" for t
      using functions_named(2) [OF that] by (auto simp: distinct_map inj_on_def symbol_of_inject)
    show "t = u" if "t \<in> set declared_functions" "u \<in> set declared_functions"
        "s \<in> set (map (symbol_of (owner t)) (operations t))" "s \<in> set (map (symbol_of (owner u)) (operations u))" for t u s
      using that functions_named(2) [OF that(1)] functions_named(2) [OF that(2)]
      by (auto simp: symbol_of_inject intro: inj_onD [OF tables(2)])
  qed
  then show ?thesis by (simp add: map_concat function_prototypes_def prototype_of_def comp_def)
qed

lemma exported_symbols_distinct:
  assumes "well_named ts" "distinct es" "\<And>e. e \<in> set es \<Longrightarrow> good_export e"
  shows "distinct (map symbol (map (exported_prototype ts ps) es))"
  using assms by (auto simp: distinct_map comp_def intro!: inj_onI dest: exported_symbol_inject [THEN iffD1, rotated 4] good_export_well_named)

lemma xrce_symbols_distinct: "distinct (map symbol (map xrce_prototype declared_xrce))"
  using xrce_named by (auto simp: distinct_map comp_def intro!: inj_onI dest: xrce_symbol_inject)

lemma function_lead:
  assumes "d \<in> set (concat (map function_prototypes declared_functions))"
  obtains p where "lead (symbol d) = Some p" "good_package p"
proof -
  from assms obtain t f where "t \<in> set declared_functions" "d = prototype_of (owner t) f"
    by (auto simp: function_prototypes_def)
  with functions_named(2) [of t] that show thesis by (auto simp: prototype_of_def lead_symbol_of)
qed

lemma xrce_lead:
  assumes "d \<in> set (map xrce_prototype declared_xrce)"
  obtains q where "lead (symbol d) = Some q"
    "q = ''rosidl_typesupport_microxrcedds_c'' \<or> (\<exists>p. q = ''get_serialized_size_'' @ p \<or> q = ''max_serialized_size_'' @ p)"
proof -
  from assms obtain x where x: "x \<in> set declared_xrce" "d = xrce_prototype x" by auto
  then have "lead (symbol d) = Some (xrce_lead x)" using lead_xrce_symbol [OF xrce_named(2)] by simp
  then show thesis by (rule that) (cases x rule: xrce_lead.cases; auto)
qed

lemma exported_lead:
  "well_named ts \<Longrightarrow> d \<in> set (map (exported_prototype ts ps) es) \<Longrightarrow> lead (symbol d) = Some ts"
  by (auto simp: lead_exported_symbol)

lemma apart:
  assumes "\<And>d e. d \<in> set ds \<Longrightarrow> e \<in> set es \<Longrightarrow> lead (symbol d) \<noteq> lead (symbol e)"
    and "distinct (map symbol ds)" "distinct (map symbol es)"
  shows "distinct (map symbol (ds @ es))"
  using assms by fastforce

subsection \<open>Linking\<close>

text \<open>A program linked with everything the headers declare; \<open>f\<close> is what each function returns.\<close>

definition linked_program :: "(prototype \<Rightarrow> 'h) \<Rightarrow> string \<rightharpoonup> 'h" where
  "linked_program f = map_of (map (\<lambda>d. (symbol d, f d)) declared_prototypes)"

text \<open>The macro a program gets a type support with.\<close>

fun get_type_support :: "(string \<rightharpoonup> 'h) \<Rightarrow> exported \<Rightarrow> 'h option" where
  "get_type_support program (exported.Message p k n) = ROSIDL_GET_MSG_TYPE_SUPPORT program p k n"
| "get_type_support program (Service p k n) = ROSIDL_GET_SRV_TYPE_SUPPORT program p k n"
| "get_type_support program (Action p n) = ROSIDL_GET_ACTION_TYPE_SUPPORT program p n"
| "get_type_support program _ = None"

fun has_macro :: "exported \<Rightarrow> bool" where
  "has_macro (Create_event p k n) \<longleftrightarrow> False"
| "has_macro (Destroy_event p k n) \<longleftrightarrow> False"
| "has_macro _ \<longleftrightarrow> True"

lemma get_type_support_symbol:
  "has_macro e \<Longrightarrow> get_type_support program e = program (exported_symbol ''rosidl_typesupport_c'' e)"
  by (cases e) (simp_all add: ROSIDL_GET_MSG_TYPE_SUPPORT_def ROSIDL_GET_SRV_TYPE_SUPPORT_def ROSIDL_GET_ACTION_TYPE_SUPPORT_def)

lemma linked_declared:
  assumes "distinct (map symbol declared_prototypes)" "d \<in> set declared_prototypes"
  shows "linked_program f (symbol d) = Some (f d)"
  unfolding linked_program_def using assms by (intro map_of_is_SomeI) (auto simp: comp_def)

text \<open>The type support a sketch asks for under the name its calls have in the model.\<close>

definition type_support_of :: "(string \<rightharpoonup> 'h) \<Rightarrow> string \<Rightarrow> 'h option" where
  "type_support_of program type =
     (if type = ''std_msgs_msg_Int32'' then ROSIDL_GET_MSG_TYPE_SUPPORT program ''std_msgs'' ''msg'' ''Int32''
      else if type = ''std_msgs_msg_Float32'' then ROSIDL_GET_MSG_TYPE_SUPPORT program ''std_msgs'' ''msg'' ''Float32''
      else if type = ''std_msgs_msg_String'' then ROSIDL_GET_MSG_TYPE_SUPPORT program ''std_msgs'' ''msg'' ''String''
      else if type = ''geometry_msgs_msg_Twist'' then ROSIDL_GET_MSG_TYPE_SUPPORT program ''geometry_msgs'' ''msg'' ''Twist''
      else if type = ''example_interfaces_srv_AddTwoInts''
      then ROSIDL_GET_SRV_TYPE_SUPPORT program ''example_interfaces'' ''srv'' ''AddTwoInts''
      else if type = ''tf2_msgs_msg_TFMessage'' then ROSIDL_GET_MSG_TYPE_SUPPORT program ''tf2_msgs'' ''msg'' ''TFMessage''
      else if type = ''control_msgs_msg_JointJog'' then ROSIDL_GET_MSG_TYPE_SUPPORT program ''control_msgs'' ''msg'' ''JointJog''
      else None)"

lemma sketch_headers:
  "(''std_msgs'', ''msg'', ''Int32'') \<in> set (map header std_msgs__headers)"
  "(''std_msgs'', ''msg'', ''Float32'') \<in> set (map header std_msgs__headers)"
  "(''std_msgs'', ''msg'', ''String'') \<in> set (map header std_msgs__headers)"
  "(''geometry_msgs'', ''msg'', ''Twist'') \<in> set (map header geometry_msgs__headers)"
  "(''example_interfaces'', ''srv'', ''AddTwoInts'') \<in> set (map header example_interfaces__headers)"
  "(''tf2_msgs'', ''msg'', ''TFMessage'') \<in> set (map header tf2_msgs__headers)"
  "(''control_msgs'', ''msg'', ''JointJog'') \<in> set (map header control_msgs__headers)"
  by (simp_all add: package_defs)

lemma header_exports:
  assumes "i \<in> set (map header hs)" "(p, hs) \<in> set packages" "e \<in> set (exports_of i)"
  shows "e \<in> set declared_common"
  using assms by (force simp: declared_common headers_of_def)

lemma sketch_packages:
  "(''std_msgs'', std_msgs__headers) \<in> set packages" "(''geometry_msgs'', geometry_msgs__headers) \<in> set packages"
  "(''example_interfaces'', example_interfaces__headers) \<in> set packages" "(''tf2_msgs'', tf2_msgs__headers) \<in> set packages"
  "(''control_msgs'', control_msgs__headers) \<in> set packages"
  by (simp_all add: packages_def)

lemma sketch_interfaces_declared:
  "exported.Message ''std_msgs'' ''msg'' ''Int32'' \<in> set declared_common"
  "exported.Message ''std_msgs'' ''msg'' ''Float32'' \<in> set declared_common"
  "exported.Message ''std_msgs'' ''msg'' ''String'' \<in> set declared_common"
  "exported.Message ''geometry_msgs'' ''msg'' ''Twist'' \<in> set declared_common"
  "Service ''example_interfaces'' ''srv'' ''AddTwoInts'' \<in> set declared_common"
  "exported.Message ''tf2_msgs'' ''msg'' ''TFMessage'' \<in> set declared_common"
  "exported.Message ''control_msgs'' ''msg'' ''JointJog'' \<in> set declared_common"
  by (rule header_exports [OF sketch_headers(1) sketch_packages(1)] header_exports [OF sketch_headers(2) sketch_packages(1)]
      header_exports [OF sketch_headers(3) sketch_packages(1)] header_exports [OF sketch_headers(4) sketch_packages(2)]
      header_exports [OF sketch_headers(5) sketch_packages(3)] header_exports [OF sketch_headers(6) sketch_packages(4)]
      header_exports [OF sketch_headers(7) sketch_packages(5)]; simp add: service_exports_def)+

text \<open>The four kinds of symbols differ in what comes first.\<close>

lemma symbols_distinct: "distinct (map symbol declared_prototypes)"
proof -
  define fs where "fs = concat (map function_prototypes declared_functions)"
  define c where "c = map (exported_prototype ''rosidl_typesupport_c'' (Some [])) declared_common"
  define x where "x = map xrce_prototype declared_xrce"
  define i where "i = map (exported_prototype ''rosidl_typesupport_introspection_c'' None) declared_introspection"
  have f: "\<exists>p. lead (symbol d) = Some p \<and> good_package p" if "d \<in> set fs" for d
    using that unfolding fs_def by (rule function_lead) blast
  have cl: "lead (symbol d) = Some ''rosidl_typesupport_c''" if "d \<in> set c" for d
    using that unfolding c_def by (rule exported_lead [OF functions_well_named(7)])
  have il: "lead (symbol d) = Some ''rosidl_typesupport_introspection_c''" if "d \<in> set i" for d
    using that unfolding i_def by (rule exported_lead [OF middleware_well_named(2)])
  have xl: "\<exists>q. lead (symbol d) = Some q \<and> (q = ''rosidl_typesupport_microxrcedds_c'' \<or>
      (\<exists>p. q = ''get_serialized_size_'' @ p \<or> q = ''max_serialized_size_'' @ p))" if "d \<in> set x" for d
    using that unfolding x_def by (rule xrce_lead) blast
  have df: "distinct (map symbol fs)" unfolding fs_def by (rule function_symbols_distinct)
  have dc: "distinct (map symbol c)"
    unfolding c_def by (rule exported_symbols_distinct [OF functions_well_named(7) exports_named])
  have dx: "distinct (map symbol x)" unfolding x_def by (rule xrce_symbols_distinct)
  have di: "distinct (map symbol i)"
    unfolding i_def by (rule exported_symbols_distinct [OF middleware_well_named(2) introspection_named])
  have xi: "distinct (map symbol (x @ i))" by (rule apart [OF _ dx di]) (auto dest!: xl il)
  have cxi: "distinct (map symbol (c @ x @ i))" by (rule apart [OF _ dc xi]) (auto dest!: xl il cl)
  have other: "lead (symbol e) \<noteq> Some p" if "e \<in> set (c @ x @ i)" "good_package p" for e p
    using that(1) xl [of e] il [of e] cl [of e] good_leads(4-6) [OF that(2)] by auto
  have "distinct (map symbol (fs @ c @ x @ i))"
  proof (rule apart [OF _ df cxi])
    fix d e assume "d \<in> set fs" "e \<in> set (c @ x @ i)"
    with f [of d] other [of e] show "lead (symbol d) \<noteq> lead (symbol e)" by metis
  qed
  then show ?thesis
    by (simp only: declared_prototypes_def fs_def c_def x_def i_def)
qed

subsection \<open>Properties\<close>

text \<open>C18. The five headers of every interface belong together: whatever package, kind and name an interface has, its
  headers declare exactly what the generator has for that name. The common type support, the functions, the type
  support of the XRCE middleware and the introspection are of the same messages, services and actions, each with all
  its functions, and the structs are those of the same messages.\<close>

theorem generated_headers_agree:
  "list_all (\<lambda>(package, headers). list_all (\<lambda>g.
     fst (header g) = package \<and>
     common g = exports_of (header g) \<and>
     introspection g = concat (map introspection_of (common g)) \<and>
     xrce g = concat (map xrce_of (common g)) \<and>
     tables g = functions_of (header g) \<and>
     map interface_name (structs g) = concat (map message_name (common g))) headers) packages \<and>
   map operations runtime_tables = replicate 6 (message_operations None)"
proof
  show "map operations runtime_tables = replicate 6 (message_operations None)"
    by (simp add: runtime_tables_def function_defs message_operations_def numeral_eq_Suc)
qed (rule packages_conform [unfolded conforms_def])

text \<open>C20. All generated code can be linked into one program: no two functions declared in the headers, of any
  interfaces, for any of the three type supports, have the same symbol.\<close>

theorem generated_symbols_distinct:
  "distinct (map symbol declared_prototypes)"
  by (rule symbols_distinct)

text \<open>C19. In a program linked with everything the headers declare, the macros find the common type support of every
  message, service and action a header declares, and never that of the middleware or the introspection, whatever the
  functions return. Every interface the sketches ask for is among them.\<close>

theorem declared_type_supports_found:
  "map (get_type_support (linked_program f)) (filter has_macro declared_common) =
     map (\<lambda>e. Some (f (exported_prototype ''rosidl_typesupport_c'' (Some []) e))) (filter has_macro declared_common) \<and>
   list_all (\<lambda>type. type_support_of (linked_program f) type \<noteq> None)
     [''std_msgs_msg_Int32'', ''std_msgs_msg_Float32'', ''std_msgs_msg_String'', ''geometry_msgs_msg_Twist'',
      ''example_interfaces_srv_AddTwoInts'', ''tf2_msgs_msg_TFMessage'', ''control_msgs_msg_JointJog'']"
proof -
  have found: "get_type_support (linked_program f) e = Some (f (exported_prototype ''rosidl_typesupport_c'' (Some []) e))"
    if "e \<in> set declared_common" "has_macro e" for e
    using linked_declared [OF symbols_distinct, of "exported_prototype ''rosidl_typesupport_c'' (Some []) e" f] that
    by (simp add: get_type_support_symbol declared_prototypes_def)
  then show ?thesis
    using sketch_interfaces_declared [THEN found] by (simp add: type_support_of_def)
qed

end
