(* ===== verification/Xrce_Payloads.thy ===== *)
theory Xrce_Payloads
  imports Header_Symbols Middleware_Config
begin

text \<open>
  The structs of \<^verbatim>\<open>uxr/client/core/type/xrce_types.h\<close>: what the client and the agent exchange. A struct or union has
  members that are numbers, strings, other structs, and arrays; the header declares an encoder and a decoder for each.
  They are in the precompiled library and rely on the conventions shown here.
\<close>

subsection \<open>Structs and unions\<close>

datatype wire = Struct (wire_name: string) (wire_members: "(string \<times> wire_type) list")
  | Union (wire_name: string) (wire_members: "(string \<times> wire_type) list")
and wire_type =
  W_bool | W_u8 | W_u16 | W_u32 | W_u64 | W_i16 | W_i32 | W_text | W_bytes | W_item wire | W_array nat wire_type

named_theorems wire_defs "the structs and unions of the protocol"

text \<open>The capacities.\<close>

definition UXR_STRING_SIZE_MAX :: nat where
  "UXR_STRING_SIZE_MAX = 512"

definition UXR_SAMPLE_DATA_SIZE_MAX :: nat where
  "UXR_SAMPLE_DATA_SIZE_MAX = 512"

definition UXR_STRING_SEQUENCE_MAX :: nat where
  "UXR_STRING_SEQUENCE_MAX = 8"

definition UXR_BINARY_SEQUENCE_MAX :: nat where
  "UXR_BINARY_SEQUENCE_MAX = 512"

definition UXR_BINARY_SEQUENCE_SMALL_MAX :: nat where
  "UXR_BINARY_SEQUENCE_SMALL_MAX = 8"

definition UXR_SAMPLE_SEQUENCE_MAX :: nat where
  "UXR_SAMPLE_SEQUENCE_MAX = 8"

definition UXR_SAMPLE_DATA_SEQUENCE_MAX :: nat where
  "UXR_SAMPLE_DATA_SEQUENCE_MAX = 8"

definition UXR_SAMPLE_DELTA_SEQUENCE_MAX :: nat where
  "UXR_SAMPLE_DELTA_SEQUENCE_MAX = 8"

definition UXR_PACKED_SAMPLES_SEQUENCE_MAX :: nat where
  "UXR_PACKED_SAMPLES_SEQUENCE_MAX = 8"

definition UXR_TRANSPORT_LOCATOR_SEQUENCE_MAX :: nat where
  "UXR_TRANSPORT_LOCATOR_SEQUENCE_MAX = 4"

text \<open>The properties of a client: one for each of two features, and room for one if there is none.\<close>

definition UXR_PROPERTY_SEQUENCE_MAX :: "bool \<Rightarrow> bool \<Rightarrow> nat" where
  "UXR_PROPERTY_SEQUENCE_MAX shared_memory hard_liveliness =
     (let PROFILE_SHARED_MEMORY_SEQ_COUNT = if shared_memory then 1 else 0;
          HARD_LIVELINESS_CHECK_SEQ_COUNT = if hard_liveliness then 1 else 0
      in if PROFILE_SHARED_MEMORY_SEQ_COUNT + HARD_LIVELINESS_CHECK_SEQ_COUNT = 0 then 1
         else PROFILE_SHARED_MEMORY_SEQ_COUNT + HARD_LIVELINESS_CHECK_SEQ_COUNT)"

lemmas capacity_defs =
  UXR_STRING_SIZE_MAX_def UXR_SAMPLE_DATA_SIZE_MAX_def UXR_STRING_SEQUENCE_MAX_def
    UXR_BINARY_SEQUENCE_MAX_def UXR_BINARY_SEQUENCE_SMALL_MAX_def UXR_SAMPLE_SEQUENCE_MAX_def
    UXR_SAMPLE_DATA_SEQUENCE_MAX_def UXR_SAMPLE_DELTA_SEQUENCE_MAX_def UXR_PACKED_SAMPLES_SEQUENCE_MAX_def
    UXR_TRANSPORT_LOCATOR_SEQUENCE_MAX_def
  UXR_PROPERTY_SEQUENCE_MAX_def

text \<open>The structs in the order of the header.\<close>

definition Time_t__wire :: wire where [wire_defs]:
  "Time_t__wire = Struct ''Time_t''
     [(''seconds'', W_i32), (''nanoseconds'', W_u32)]"

definition BinarySequence_t__wire :: wire where [wire_defs]:
  "BinarySequence_t__wire = Struct ''BinarySequence_t''
     [(''size'', W_u32), (''data'', W_array UXR_BINARY_SEQUENCE_MAX W_u8)]"

definition BinarySequenceSmall_t__wire :: wire where [wire_defs]:
  "BinarySequenceSmall_t__wire = Struct ''BinarySequenceSmall_t''
     [(''size'', W_u32), (''data'', W_array UXR_BINARY_SEQUENCE_SMALL_MAX W_u8)]"

definition StringSequence_t__wire :: wire where [wire_defs]:
  "StringSequence_t__wire = Struct ''StringSequence_t''
     [(''size'', W_u32), (''data'', W_array UXR_STRING_SEQUENCE_MAX W_text)]"

definition ClientKey__wire :: wire where [wire_defs]:
  "ClientKey__wire = Struct ''ClientKey''
     [(''data'', W_array 4 W_u8)]"

definition ObjectId__wire :: wire where [wire_defs]:
  "ObjectId__wire = Struct ''ObjectId''
     [(''data'', W_array 2 W_u8)]"

definition ObjectPrefix__wire :: wire where [wire_defs]:
  "ObjectPrefix__wire = Struct ''ObjectPrefix''
     [(''data'', W_array 2 W_u8)]"

definition XrceCookie__wire :: wire where [wire_defs]:
  "XrceCookie__wire = Struct ''XrceCookie''
     [(''data'', W_array 4 W_u8)]"

definition XrceVersion__wire :: wire where [wire_defs]:
  "XrceVersion__wire = Struct ''XrceVersion''
     [(''data'', W_array 2 W_u8)]"

definition XrceVendorId__wire :: wire where [wire_defs]:
  "XrceVendorId__wire = Struct ''XrceVendorId''
     [(''data'', W_array 2 W_u8)]"

definition TransportLocatorSmall__wire :: wire where [wire_defs]:
  "TransportLocatorSmall__wire = Struct ''TransportLocatorSmall''
     [(''address'', W_array 2 W_u8), (''locator_port'', W_u8)]"

definition TransportLocatorMedium__wire :: wire where [wire_defs]:
  "TransportLocatorMedium__wire = Struct ''TransportLocatorMedium''
     [(''address'', W_array 4 W_u8), (''locator_port'', W_u16)]"

definition TransportLocatorLarge__wire :: wire where [wire_defs]:
  "TransportLocatorLarge__wire = Struct ''TransportLocatorLarge''
     [(''address'', W_array 16 W_u8), (''locator_port'', W_u32)]"

definition TransportLocatorString__wire :: wire where [wire_defs]:
  "TransportLocatorString__wire = Struct ''TransportLocatorString''
     [(''value'', W_text)]"

definition TransportLocatorU__wire :: wire where [wire_defs]:
  "TransportLocatorU__wire = Union ''TransportLocatorU''
     [(''small_locator'', W_item TransportLocatorSmall__wire),
      (''medium_locator'', W_item TransportLocatorMedium__wire),
      (''large_locator'', W_item TransportLocatorLarge__wire),
      (''string_locator'', W_item TransportLocatorString__wire)]"

definition TransportLocator__wire :: wire where [wire_defs]:
  "TransportLocator__wire = Struct ''TransportLocator''
     [(''format'', W_u8), (''_'', W_item TransportLocatorU__wire)]"

definition TransportLocatorSeq__wire :: wire where [wire_defs]:
  "TransportLocatorSeq__wire = Struct ''TransportLocatorSeq''
     [(''size'', W_u32), (''data'', W_array UXR_TRANSPORT_LOCATOR_SEQUENCE_MAX (W_item TransportLocator__wire))]"

definition Property__wire :: wire where [wire_defs]:
  "Property__wire = Struct ''Property''
     [(''name'', W_text), (''value'', W_text)]"

definition PropertySeq__wire :: wire where [wire_defs]:
  "PropertySeq__wire = Struct ''PropertySeq''
     [(''size'', W_u32), (''data'', W_array (UXR_PROPERTY_SEQUENCE_MAX False False) (W_item Property__wire))]"

definition CLIENT_Representation__wire :: wire where [wire_defs]:
  "CLIENT_Representation__wire = Struct ''CLIENT_Representation''
     [(''xrce_cookie'', W_item XrceCookie__wire), (''xrce_version'', W_item XrceVersion__wire),
      (''xrce_vendor_id'', W_item XrceVendorId__wire), (''client_key'', W_item ClientKey__wire),
      (''session_id'', W_u8), (''optional_properties'', W_bool), (''properties'', W_item PropertySeq__wire),
      (''mtu'', W_u16)]"

definition AGENT_Representation__wire :: wire where [wire_defs]:
  "AGENT_Representation__wire = Struct ''AGENT_Representation''
     [(''xrce_cookie'', W_item XrceCookie__wire), (''xrce_version'', W_item XrceVersion__wire),
      (''xrce_vendor_id'', W_item XrceVendorId__wire), (''optional_properties'', W_bool),
      (''properties'', W_item PropertySeq__wire)]"

definition OBJK_Representation3FormatsU__wire :: wire where [wire_defs]:
  "OBJK_Representation3FormatsU__wire = Union ''OBJK_Representation3FormatsU''
     [(''object_reference'', W_text), (''xml_string_represenatation'', W_text),
      (''binary_representation'', W_item BinarySequence_t__wire)]"

definition OBJK_Representation3Formats__wire :: wire where [wire_defs]:
  "OBJK_Representation3Formats__wire = Struct ''OBJK_Representation3Formats''
     [(''format'', W_u8), (''_'', W_item OBJK_Representation3FormatsU__wire)]"

definition OBJK_RepresentationRefAndXMLFormatsU__wire :: wire where [wire_defs]:
  "OBJK_RepresentationRefAndXMLFormatsU__wire = Union ''OBJK_RepresentationRefAndXMLFormatsU''
     [(''object_name'', W_text), (''xml_string_represenatation'', W_text)]"

definition OBJK_RepresentationRefAndXMLFormats__wire :: wire where [wire_defs]:
  "OBJK_RepresentationRefAndXMLFormats__wire = Struct ''OBJK_RepresentationRefAndXMLFormats''
     [(''format'', W_u8), (''_'', W_item OBJK_RepresentationRefAndXMLFormatsU__wire)]"

definition OBJK_RepresentationBinAndXMLFormatsU__wire :: wire where [wire_defs]:
  "OBJK_RepresentationBinAndXMLFormatsU__wire = Union ''OBJK_RepresentationBinAndXMLFormatsU''
     [(''binary_representation'', W_item BinarySequence_t__wire), (''string_represenatation'', W_text)]"

definition OBJK_RepresentationBinAndXMLFormats__wire :: wire where [wire_defs]:
  "OBJK_RepresentationBinAndXMLFormats__wire = Struct ''OBJK_RepresentationBinAndXMLFormats''
     [(''format'', W_u8), (''_'', W_item OBJK_RepresentationBinAndXMLFormatsU__wire)]"

definition OBJK_RepresentationRefAndXML_Base__wire :: wire where [wire_defs]:
  "OBJK_RepresentationRefAndXML_Base__wire = Struct ''OBJK_RepresentationRefAndXML_Base''
     [(''representation'', W_item OBJK_RepresentationRefAndXMLFormats__wire)]"

definition OBJK_RepresentationBinAndXML_Base__wire :: wire where [wire_defs]:
  "OBJK_RepresentationBinAndXML_Base__wire = Struct ''OBJK_RepresentationBinAndXML_Base''
     [(''representation'', W_item OBJK_RepresentationBinAndXMLFormats__wire)]"

definition OBJK_Representation3_Base__wire :: wire where [wire_defs]:
  "OBJK_Representation3_Base__wire = Struct ''OBJK_Representation3_Base''
     [(''representation'', W_item OBJK_Representation3Formats__wire)]"

definition OBJK_QOSPROFILE_Representation__wire :: wire where [wire_defs]:
  "OBJK_QOSPROFILE_Representation__wire = Struct ''OBJK_QOSPROFILE_Representation''
     [(''base'', W_item OBJK_RepresentationRefAndXML_Base__wire)]"

definition OBJK_TYPE_Representation__wire :: wire where [wire_defs]:
  "OBJK_TYPE_Representation__wire = Struct ''OBJK_TYPE_Representation''
     [(''base'', W_item OBJK_RepresentationRefAndXML_Base__wire)]"

definition OBJK_DOMAIN_Representation__wire :: wire where [wire_defs]:
  "OBJK_DOMAIN_Representation__wire = Struct ''OBJK_DOMAIN_Representation''
     [(''base'', W_item OBJK_RepresentationRefAndXML_Base__wire)]"

definition OBJK_APPLICATION_Representation__wire :: wire where [wire_defs]:
  "OBJK_APPLICATION_Representation__wire = Struct ''OBJK_APPLICATION_Representation''
     [(''base'', W_item OBJK_RepresentationRefAndXML_Base__wire)]"

definition OBJK_PUBLISHER_Representation__wire :: wire where [wire_defs]:
  "OBJK_PUBLISHER_Representation__wire = Struct ''OBJK_PUBLISHER_Representation''
     [(''base'', W_item OBJK_RepresentationBinAndXML_Base__wire), (''participant_id'', W_item ObjectId__wire)]"

definition OBJK_SUBSCRIBER_Representation__wire :: wire where [wire_defs]:
  "OBJK_SUBSCRIBER_Representation__wire = Struct ''OBJK_SUBSCRIBER_Representation''
     [(''base'', W_item OBJK_RepresentationBinAndXML_Base__wire), (''participant_id'', W_item ObjectId__wire)]"

definition DATAWRITER_Representation__wire :: wire where [wire_defs]:
  "DATAWRITER_Representation__wire = Struct ''DATAWRITER_Representation''
     [(''base'', W_item OBJK_Representation3_Base__wire), (''publisher_id'', W_item ObjectId__wire)]"

definition DATAREADER_Representation__wire :: wire where [wire_defs]:
  "DATAREADER_Representation__wire = Struct ''DATAREADER_Representation''
     [(''base'', W_item OBJK_Representation3_Base__wire), (''subscriber_id'', W_item ObjectId__wire)]"

definition OBJK_PARTICIPANT_Representation__wire :: wire where [wire_defs]:
  "OBJK_PARTICIPANT_Representation__wire = Struct ''OBJK_PARTICIPANT_Representation''
     [(''base'', W_item OBJK_Representation3_Base__wire), (''domain_id'', W_i16)]"

definition OBJK_TOPIC_Representation__wire :: wire where [wire_defs]:
  "OBJK_TOPIC_Representation__wire = Struct ''OBJK_TOPIC_Representation''
     [(''base'', W_item OBJK_Representation3_Base__wire), (''participant_id'', W_item ObjectId__wire)]"

definition OBJK_REQUESTER_Representation__wire :: wire where [wire_defs]:
  "OBJK_REQUESTER_Representation__wire = Struct ''OBJK_REQUESTER_Representation''
     [(''base'', W_item OBJK_Representation3_Base__wire), (''participant_id'', W_item ObjectId__wire)]"

definition OBJK_REPLIER_Representation__wire :: wire where [wire_defs]:
  "OBJK_REPLIER_Representation__wire = Struct ''OBJK_REPLIER_Representation''
     [(''base'', W_item OBJK_Representation3_Base__wire), (''participant_id'', W_item ObjectId__wire)]"

definition OBJK_DomainParticipant_Binary__wire :: wire where [wire_defs]:
  "OBJK_DomainParticipant_Binary__wire = Struct ''OBJK_DomainParticipant_Binary''
     [(''optional_domain_reference'', W_bool), (''domain_reference'', W_text),
      (''optional_qos_profile_reference'', W_bool), (''qos_profile_reference'', W_text)]"

definition OBJK_Topic_Binary__wire :: wire where [wire_defs]:
  "OBJK_Topic_Binary__wire = Struct ''OBJK_Topic_Binary''
     [(''topic_name'', W_text), (''optional_type_reference'', W_bool), (''type_reference'', W_text),
      (''optional_type_name'', W_bool), (''type_name'', W_text)]"

definition OBJK_Publisher_Binary_Qos__wire :: wire where [wire_defs]:
  "OBJK_Publisher_Binary_Qos__wire = Struct ''OBJK_Publisher_Binary_Qos''
     [(''optional_partitions'', W_bool), (''partitions'', W_item StringSequence_t__wire),
      (''optional_group_data'', W_bool), (''group_data'', W_item BinarySequence_t__wire)]"

definition OBJK_Publisher_Binary__wire :: wire where [wire_defs]:
  "OBJK_Publisher_Binary__wire = Struct ''OBJK_Publisher_Binary''
     [(''optional_publisher_name'', W_bool), (''publisher_name'', W_text), (''optional_qos'', W_bool),
      (''qos'', W_item OBJK_Publisher_Binary_Qos__wire)]"

definition OBJK_Subscriber_Binary_Qos__wire :: wire where [wire_defs]:
  "OBJK_Subscriber_Binary_Qos__wire = Struct ''OBJK_Subscriber_Binary_Qos''
     [(''optional_partitions'', W_bool), (''partitions'', W_item StringSequence_t__wire),
      (''optional_group_data'', W_bool), (''group_data'', W_item BinarySequence_t__wire)]"

definition OBJK_Subscriber_Binary__wire :: wire where [wire_defs]:
  "OBJK_Subscriber_Binary__wire = Struct ''OBJK_Subscriber_Binary''
     [(''optional_subscriber_name'', W_bool), (''subscriber_name'', W_text), (''optional_qos'', W_bool),
      (''qos'', W_item OBJK_Subscriber_Binary_Qos__wire)]"

definition OBJK_Endpoint_QosBinary__wire :: wire where [wire_defs]:
  "OBJK_Endpoint_QosBinary__wire = Struct ''OBJK_Endpoint_QosBinary''
     [(''qos_flags'', W_u16), (''optional_history_depth'', W_bool), (''history_depth'', W_u16),
      (''optional_deadline_msec'', W_bool), (''deadline_msec'', W_u32), (''optional_lifespan_msec'', W_bool),
      (''lifespan_msec'', W_u32), (''optional_user_data'', W_bool),
      (''user_data'', W_item BinarySequenceSmall_t__wire)]"

definition OBJK_DataWriter_Binary_Qos__wire :: wire where [wire_defs]:
  "OBJK_DataWriter_Binary_Qos__wire = Struct ''OBJK_DataWriter_Binary_Qos''
     [(''base'', W_item OBJK_Endpoint_QosBinary__wire), (''optional_ownership_strength'', W_bool),
      (''ownership_strength'', W_u64)]"

definition OBJK_DataReader_Binary_Qos__wire :: wire where [wire_defs]:
  "OBJK_DataReader_Binary_Qos__wire = Struct ''OBJK_DataReader_Binary_Qos''
     [(''base'', W_item OBJK_Endpoint_QosBinary__wire), (''optional_timebasedfilter_msec'', W_bool),
      (''timebasedfilter_msec'', W_u64), (''optional_contentbased_filter'', W_bool),
      (''contentbased_filter'', W_text)]"

definition OBJK_DataReader_Binary__wire :: wire where [wire_defs]:
  "OBJK_DataReader_Binary__wire = Struct ''OBJK_DataReader_Binary''
     [(''topic_id'', W_item ObjectId__wire), (''optional_qos'', W_bool),
      (''qos'', W_item OBJK_DataReader_Binary_Qos__wire)]"

definition OBJK_DataWriter_Binary__wire :: wire where [wire_defs]:
  "OBJK_DataWriter_Binary__wire = Struct ''OBJK_DataWriter_Binary''
     [(''topic_id'', W_item ObjectId__wire), (''optional_qos'', W_bool),
      (''qos'', W_item OBJK_DataWriter_Binary_Qos__wire)]"

definition OBJK_Requester_Binary__wire :: wire where [wire_defs]:
  "OBJK_Requester_Binary__wire = Struct ''OBJK_Requester_Binary''
     [(''service_name'', W_text), (''request_type'', W_text), (''reply_type'', W_text),
      (''optional_request_topic_name'', W_bool), (''request_topic_name'', W_text),
      (''optional_reply_topic_name'', W_bool), (''reply_topic_name'', W_text)]"

definition OBJK_Replier_Binary__wire :: wire where [wire_defs]:
  "OBJK_Replier_Binary__wire = Struct ''OBJK_Replier_Binary''
     [(''service_name'', W_text), (''request_type'', W_text), (''reply_type'', W_text),
      (''optional_request_topic_name'', W_bool), (''request_topic_name'', W_text),
      (''optional_reply_topic_name'', W_bool), (''reply_topic_name'', W_text)]"

definition ObjectVariantU__wire :: wire where [wire_defs]:
  "ObjectVariantU__wire = Union ''ObjectVariantU''
     [(''agent'', W_item AGENT_Representation__wire), (''client'', W_item CLIENT_Representation__wire),
      (''application'', W_item OBJK_APPLICATION_Representation__wire),
      (''participant'', W_item OBJK_PARTICIPANT_Representation__wire),
      (''qos_profile'', W_item OBJK_QOSPROFILE_Representation__wire),
      (''type'', W_item OBJK_TYPE_Representation__wire), (''topic'', W_item OBJK_TOPIC_Representation__wire),
      (''publisher'', W_item OBJK_PUBLISHER_Representation__wire),
      (''subscriber'', W_item OBJK_SUBSCRIBER_Representation__wire),
      (''requester'', W_item OBJK_REQUESTER_Representation__wire),
      (''replier'', W_item OBJK_REPLIER_Representation__wire),
      (''data_writer'', W_item DATAWRITER_Representation__wire),
      (''data_reader'', W_item DATAREADER_Representation__wire)]"

definition ObjectVariant__wire :: wire where [wire_defs]:
  "ObjectVariant__wire = Struct ''ObjectVariant''
     [(''kind'', W_u8), (''_'', W_item ObjectVariantU__wire)]"

definition CreationMode__wire :: wire where [wire_defs]:
  "CreationMode__wire = Struct ''CreationMode''
     [(''reuse'', W_bool), (''replace'', W_bool)]"

definition RequestId__wire :: wire where [wire_defs]:
  "RequestId__wire = Struct ''RequestId''
     [(''data'', W_array 2 W_u8)]"

definition ResultStatus__wire :: wire where [wire_defs]:
  "ResultStatus__wire = Struct ''ResultStatus''
     [(''status'', W_u8), (''implementation_status'', W_u8)]"

definition BaseObjectRequest__wire :: wire where [wire_defs]:
  "BaseObjectRequest__wire = Struct ''BaseObjectRequest''
     [(''request_id'', W_item RequestId__wire), (''object_id'', W_item ObjectId__wire)]"

definition AGENT_ActivityInfo__wire :: wire where [wire_defs]:
  "AGENT_ActivityInfo__wire = Struct ''AGENT_ActivityInfo''
     [(''availability'', W_i16), (''address_seq'', W_item TransportLocatorSeq__wire)]"

definition DATAREADER_ActivityInfo__wire :: wire where [wire_defs]:
  "DATAREADER_ActivityInfo__wire = Struct ''DATAREADER_ActivityInfo''
     [(''highest_acked_num'', W_i16)]"

definition DATAWRITER_ActivityInfo__wire :: wire where [wire_defs]:
  "DATAWRITER_ActivityInfo__wire = Struct ''DATAWRITER_ActivityInfo''
     [(''stream_seq_num'', W_i16), (''sample_seq_num'', W_u64)]"

definition ActivityInfoVariantU__wire :: wire where [wire_defs]:
  "ActivityInfoVariantU__wire = Union ''ActivityInfoVariantU''
     [(''agent'', W_item AGENT_ActivityInfo__wire), (''data_writer'', W_item DATAWRITER_ActivityInfo__wire),
      (''data_reader'', W_item DATAREADER_ActivityInfo__wire)]"

definition ActivityInfoVariant__wire :: wire where [wire_defs]:
  "ActivityInfoVariant__wire = Struct ''ActivityInfoVariant''
     [(''kind'', W_u8), (''_'', W_item ActivityInfoVariantU__wire)]"

definition ObjectInfo__wire :: wire where [wire_defs]:
  "ObjectInfo__wire = Struct ''ObjectInfo''
     [(''optional_config'', W_bool), (''config'', W_item ObjectVariant__wire), (''optional_activity'', W_bool),
      (''activity'', W_item ActivityInfoVariant__wire)]"

definition BaseObjectReply__wire :: wire where [wire_defs]:
  "BaseObjectReply__wire = Struct ''BaseObjectReply''
     [(''related_request'', W_item BaseObjectRequest__wire), (''result'', W_item ResultStatus__wire)]"

definition DataDeliveryControl__wire :: wire where [wire_defs]:
  "DataDeliveryControl__wire = Struct ''DataDeliveryControl''
     [(''max_samples'', W_u16), (''max_elapsed_time'', W_u16), (''max_bytes_per_seconds'', W_u16),
      (''min_pace_period'', W_u16)]"

definition ReadSpecification__wire :: wire where [wire_defs]:
  "ReadSpecification__wire = Struct ''ReadSpecification''
     [(''preferred_stream_id'', W_u8), (''data_format'', W_u8), (''optional_content_filter_expression'', W_bool),
      (''content_filter_expression'', W_text), (''optional_delivery_control'', W_bool),
      (''delivery_control'', W_item DataDeliveryControl__wire)]"

definition SeqNumberAndTimestamp__wire :: wire where [wire_defs]:
  "SeqNumberAndTimestamp__wire = Struct ''SeqNumberAndTimestamp''
     [(''sequence_number'', W_u32), (''session_time_offset'', W_u32)]"

definition SampleInfoDetailU__wire :: wire where [wire_defs]:
  "SampleInfoDetailU__wire = Union ''SampleInfoDetailU''
     [(''sequence_number'', W_u32), (''session_time_offset'', W_u32),
      (''seqnum_n_timestamp'', W_item SeqNumberAndTimestamp__wire)]"

definition SampleInfoDetail__wire :: wire where [wire_defs]:
  "SampleInfoDetail__wire = Struct ''SampleInfoDetail''
     [(''format'', W_u32), (''_'', W_item SampleInfoDetailU__wire)]"

definition SampleInfo__wire :: wire where [wire_defs]:
  "SampleInfo__wire = Struct ''SampleInfo''
     [(''state'', W_u8), (''detail'', W_item SampleInfoDetail__wire)]"

definition SampleInfoDelta__wire :: wire where [wire_defs]:
  "SampleInfoDelta__wire = Struct ''SampleInfoDelta''
     [(''state'', W_u8), (''seq_number_delta'', W_u8), (''timestamp_delta'', W_u16)]"

definition SampleData__wire :: wire where [wire_defs]:
  "SampleData__wire = Struct ''SampleData''
     [(''size'', W_u32), (''data'', W_array UXR_SAMPLE_DATA_SIZE_MAX W_u8)]"

definition SampleDataSeq__wire :: wire where [wire_defs]:
  "SampleDataSeq__wire = Struct ''SampleDataSeq''
     [(''size'', W_u32), (''data'', W_array UXR_SAMPLE_DATA_SEQUENCE_MAX (W_item SampleData__wire))]"

definition Sample__wire :: wire where [wire_defs]:
  "Sample__wire = Struct ''Sample''
     [(''info'', W_item SampleInfo__wire), (''data'', W_item SampleData__wire)]"

definition SampleSeq__wire :: wire where [wire_defs]:
  "SampleSeq__wire = Struct ''SampleSeq''
     [(''size'', W_u32), (''data'', W_array UXR_SAMPLE_SEQUENCE_MAX (W_item Sample__wire))]"

definition SampleDelta__wire :: wire where [wire_defs]:
  "SampleDelta__wire = Struct ''SampleDelta''
     [(''info_delta'', W_item SampleInfoDelta__wire), (''data'', W_item SampleData__wire)]"

definition SampleDeltaSequence__wire :: wire where [wire_defs]:
  "SampleDeltaSequence__wire = Struct ''SampleDeltaSequence''
     [(''size'', W_u32), (''data'', W_array UXR_SAMPLE_DELTA_SEQUENCE_MAX (W_item SampleDelta__wire))]"

definition PackedSamples__wire :: wire where [wire_defs]:
  "PackedSamples__wire = Struct ''PackedSamples''
     [(''info_base'', W_item SampleInfo__wire), (''sample_delta_seq'', W_item SampleDeltaSequence__wire)]"

definition SamplePackedSeq__wire :: wire where [wire_defs]:
  "SamplePackedSeq__wire = Struct ''SamplePackedSeq''
     [(''size'', W_u32), (''data'', W_array UXR_PACKED_SAMPLES_SEQUENCE_MAX (W_item PackedSamples__wire))]"

definition DataRepresentationU__wire :: wire where [wire_defs]:
  "DataRepresentationU__wire = Union ''DataRepresentationU''
     [(''data'', W_item SampleData__wire), (''sample'', W_item Sample__wire),
      (''data_seq'', W_item SampleDataSeq__wire), (''sample_seq'', W_item SampleSeq__wire),
      (''packed_samples'', W_item PackedSamples__wire)]"

definition DataRepresentation__wire :: wire where [wire_defs]:
  "DataRepresentation__wire = Struct ''DataRepresentation''
     [(''format'', W_u8), (''_'', W_item DataRepresentationU__wire)]"

definition CREATE_CLIENT_Payload__wire :: wire where [wire_defs]:
  "CREATE_CLIENT_Payload__wire = Struct ''CREATE_CLIENT_Payload''
     [(''client_representation'', W_item CLIENT_Representation__wire)]"

definition CREATE_Payload__wire :: wire where [wire_defs]:
  "CREATE_Payload__wire = Struct ''CREATE_Payload''
     [(''base'', W_item BaseObjectRequest__wire), (''object_representation'', W_item ObjectVariant__wire)]"

definition GET_INFO_Payload__wire :: wire where [wire_defs]:
  "GET_INFO_Payload__wire = Struct ''GET_INFO_Payload''
     [(''base'', W_item BaseObjectRequest__wire), (''info_mask'', W_u32)]"

definition DELETE_Payload__wire :: wire where [wire_defs]:
  "DELETE_Payload__wire = Struct ''DELETE_Payload''
     [(''base'', W_item BaseObjectRequest__wire)]"

definition STATUS_AGENT_Payload__wire :: wire where [wire_defs]:
  "STATUS_AGENT_Payload__wire = Struct ''STATUS_AGENT_Payload''
     [(''result'', W_item ResultStatus__wire), (''agent_info'', W_item AGENT_Representation__wire)]"

definition STATUS_Payload__wire :: wire where [wire_defs]:
  "STATUS_Payload__wire = Struct ''STATUS_Payload''
     [(''base'', W_item BaseObjectReply__wire)]"

definition INFO_Payload__wire :: wire where [wire_defs]:
  "INFO_Payload__wire = Struct ''INFO_Payload''
     [(''base'', W_item BaseObjectReply__wire), (''object_info'', W_item ObjectInfo__wire)]"

definition READ_DATA_Payload__wire :: wire where [wire_defs]:
  "READ_DATA_Payload__wire = Struct ''READ_DATA_Payload''
     [(''base'', W_item BaseObjectRequest__wire), (''read_specification'', W_item ReadSpecification__wire)]"

definition WRITE_DATA_Payload_Data__wire :: wire where [wire_defs]:
  "WRITE_DATA_Payload_Data__wire = Struct ''WRITE_DATA_Payload_Data''
     [(''base'', W_item BaseObjectRequest__wire)]"

definition WRITE_DATA_Payload_Sample__wire :: wire where [wire_defs]:
  "WRITE_DATA_Payload_Sample__wire = Struct ''WRITE_DATA_Payload_Sample''
     [(''base'', W_item BaseObjectRequest__wire), (''sample'', W_item Sample__wire)]"

definition WRITE_DATA_Payload_DataSeq__wire :: wire where [wire_defs]:
  "WRITE_DATA_Payload_DataSeq__wire = Struct ''WRITE_DATA_Payload_DataSeq''
     [(''base'', W_item BaseObjectRequest__wire), (''data_seq'', W_item SampleDataSeq__wire)]"

definition WRITE_DATA_Payload_SampleSeq__wire :: wire where [wire_defs]:
  "WRITE_DATA_Payload_SampleSeq__wire = Struct ''WRITE_DATA_Payload_SampleSeq''
     [(''base'', W_item BaseObjectRequest__wire), (''sample_seq'', W_item SampleSeq__wire)]"

definition WRITE_DATA_Payload_PackedSamples__wire :: wire where [wire_defs]:
  "WRITE_DATA_Payload_PackedSamples__wire = Struct ''WRITE_DATA_Payload_PackedSamples''
     [(''base'', W_item BaseObjectRequest__wire), (''packed_samples'', W_item PackedSamples__wire)]"

definition DATA_Payload_Data__wire :: wire where [wire_defs]:
  "DATA_Payload_Data__wire = Struct ''DATA_Payload_Data''
     [(''base'', W_item BaseObjectRequest__wire)]"

definition DATA_Payload_Sample__wire :: wire where [wire_defs]:
  "DATA_Payload_Sample__wire = Struct ''DATA_Payload_Sample''
     [(''base'', W_item BaseObjectRequest__wire), (''sample'', W_item Sample__wire)]"

definition DATA_Payload_DataSeq__wire :: wire where [wire_defs]:
  "DATA_Payload_DataSeq__wire = Struct ''DATA_Payload_DataSeq''
     [(''base'', W_item BaseObjectRequest__wire), (''data_seq'', W_item SampleDataSeq__wire)]"

definition DATA_Payload_SampleSeq__wire :: wire where [wire_defs]:
  "DATA_Payload_SampleSeq__wire = Struct ''DATA_Payload_SampleSeq''
     [(''base'', W_item BaseObjectRequest__wire), (''sample_seq'', W_item SampleSeq__wire)]"

definition DATA_Payload_PackedSamples__wire :: wire where [wire_defs]:
  "DATA_Payload_PackedSamples__wire = Struct ''DATA_Payload_PackedSamples''
     [(''base'', W_item BaseObjectRequest__wire), (''packed_samples'', W_item PackedSamples__wire)]"

definition ACKNACK_Payload__wire :: wire where [wire_defs]:
  "ACKNACK_Payload__wire = Struct ''ACKNACK_Payload''
     [(''first_unacked_seq_num'', W_u16), (''nack_bitmap'', W_array 2 W_u8), (''stream_id'', W_u8)]"

definition HEARTBEAT_Payload__wire :: wire where [wire_defs]:
  "HEARTBEAT_Payload__wire = Struct ''HEARTBEAT_Payload''
     [(''first_unacked_seq_nr'', W_u16), (''last_unacked_seq_nr'', W_u16), (''stream_id'', W_u8)]"

definition TIMESTAMP_Payload__wire :: wire where [wire_defs]:
  "TIMESTAMP_Payload__wire = Struct ''TIMESTAMP_Payload''
     [(''transmit_timestamp'', W_item Time_t__wire)]"

definition TIMESTAMP_REPLY_Payload__wire :: wire where [wire_defs]:
  "TIMESTAMP_REPLY_Payload__wire = Struct ''TIMESTAMP_REPLY_Payload''
     [(''transmit_timestamp'', W_item Time_t__wire), (''receive_timestamp'', W_item Time_t__wire),
      (''originate_timestamp'', W_item Time_t__wire)]"

definition GuidPrefix_t__wire :: wire where [wire_defs]:
  "GuidPrefix_t__wire = Struct ''GuidPrefix_t''
     [(''data'', W_array 12 W_u8)]"

definition EntityId_t__wire :: wire where [wire_defs]:
  "EntityId_t__wire = Struct ''EntityId_t''
     [(''entityKey'', W_array 3 W_u8), (''entityKind'', W_u8)]"

definition GUID_t__wire :: wire where [wire_defs]:
  "GUID_t__wire = Struct ''GUID_t''
     [(''guidPrefix'', W_item GuidPrefix_t__wire), (''entityId'', W_item EntityId_t__wire)]"

definition SequenceNumber_t__wire :: wire where [wire_defs]:
  "SequenceNumber_t__wire = Struct ''SequenceNumber_t''
     [(''high'', W_i32), (''low'', W_u32)]"

definition SampleIdentity__wire :: wire where [wire_defs]:
  "SampleIdentity__wire = Struct ''SampleIdentity''
     [(''writer_guid'', W_item GUID_t__wire), (''sequence_number'', W_item SequenceNumber_t__wire)]"

definition PERFORMANCE_Payload__wire :: wire where [wire_defs]:
  "PERFORMANCE_Payload__wire = Struct ''PERFORMANCE_Payload''
     [(''epoch_time_lsb'', W_u32), (''epoch_time_msb'', W_u32), (''buf'', W_bytes), (''len'', W_u16)]"

definition declared_wires :: "wire list" where
  "declared_wires =
    [Time_t__wire, BinarySequence_t__wire, BinarySequenceSmall_t__wire, StringSequence_t__wire, ClientKey__wire,
     ObjectId__wire, ObjectPrefix__wire, XrceCookie__wire, XrceVersion__wire, XrceVendorId__wire,
     TransportLocatorSmall__wire, TransportLocatorMedium__wire, TransportLocatorLarge__wire,
     TransportLocatorString__wire, TransportLocatorU__wire, TransportLocator__wire, TransportLocatorSeq__wire,
     Property__wire, PropertySeq__wire, CLIENT_Representation__wire, AGENT_Representation__wire,
     OBJK_Representation3FormatsU__wire, OBJK_Representation3Formats__wire,
     OBJK_RepresentationRefAndXMLFormatsU__wire, OBJK_RepresentationRefAndXMLFormats__wire,
     OBJK_RepresentationBinAndXMLFormatsU__wire, OBJK_RepresentationBinAndXMLFormats__wire,
     OBJK_RepresentationRefAndXML_Base__wire, OBJK_RepresentationBinAndXML_Base__wire,
     OBJK_Representation3_Base__wire, OBJK_QOSPROFILE_Representation__wire, OBJK_TYPE_Representation__wire,
     OBJK_DOMAIN_Representation__wire, OBJK_APPLICATION_Representation__wire,
     OBJK_PUBLISHER_Representation__wire, OBJK_SUBSCRIBER_Representation__wire, DATAWRITER_Representation__wire,
     DATAREADER_Representation__wire, OBJK_PARTICIPANT_Representation__wire, OBJK_TOPIC_Representation__wire,
     OBJK_REQUESTER_Representation__wire, OBJK_REPLIER_Representation__wire,
     OBJK_DomainParticipant_Binary__wire, OBJK_Topic_Binary__wire, OBJK_Publisher_Binary_Qos__wire,
     OBJK_Publisher_Binary__wire, OBJK_Subscriber_Binary_Qos__wire, OBJK_Subscriber_Binary__wire,
     OBJK_Endpoint_QosBinary__wire, OBJK_DataWriter_Binary_Qos__wire, OBJK_DataReader_Binary_Qos__wire,
     OBJK_DataReader_Binary__wire, OBJK_DataWriter_Binary__wire, OBJK_Requester_Binary__wire,
     OBJK_Replier_Binary__wire, ObjectVariantU__wire, ObjectVariant__wire, CreationMode__wire, RequestId__wire,
     ResultStatus__wire, BaseObjectRequest__wire, AGENT_ActivityInfo__wire, DATAREADER_ActivityInfo__wire,
     DATAWRITER_ActivityInfo__wire, ActivityInfoVariantU__wire, ActivityInfoVariant__wire, ObjectInfo__wire,
     BaseObjectReply__wire, DataDeliveryControl__wire, ReadSpecification__wire, SeqNumberAndTimestamp__wire,
     SampleInfoDetailU__wire, SampleInfoDetail__wire, SampleInfo__wire, SampleInfoDelta__wire, SampleData__wire,
     SampleDataSeq__wire, Sample__wire, SampleSeq__wire, SampleDelta__wire, SampleDeltaSequence__wire,
     PackedSamples__wire, SamplePackedSeq__wire, DataRepresentationU__wire, DataRepresentation__wire,
     CREATE_CLIENT_Payload__wire, CREATE_Payload__wire, GET_INFO_Payload__wire, DELETE_Payload__wire,
     STATUS_AGENT_Payload__wire, STATUS_Payload__wire, INFO_Payload__wire, READ_DATA_Payload__wire,
     WRITE_DATA_Payload_Data__wire, WRITE_DATA_Payload_Sample__wire, WRITE_DATA_Payload_DataSeq__wire,
     WRITE_DATA_Payload_SampleSeq__wire, WRITE_DATA_Payload_PackedSamples__wire, DATA_Payload_Data__wire,
     DATA_Payload_Sample__wire, DATA_Payload_DataSeq__wire, DATA_Payload_SampleSeq__wire,
     DATA_Payload_PackedSamples__wire, ACKNACK_Payload__wire, HEARTBEAT_Payload__wire, TIMESTAMP_Payload__wire,
     TIMESTAMP_REPLY_Payload__wire, GuidPrefix_t__wire, EntityId_t__wire, GUID_t__wire, SequenceNumber_t__wire,
     SampleIdentity__wire, PERFORMANCE_Payload__wire]"

subsection \<open>Encoders and decoders\<close>

definition uxr_serialize :: "string \<Rightarrow> prototype" where
  "uxr_serialize t = Prototype Bool (''uxr_serialize_'' @ t) (Some [Ptr (Named ''ucdrBuffer''), Ptr (Const (Named t))])"

definition uxr_deserialize :: "string \<Rightarrow> prototype" where
  "uxr_deserialize t = Prototype Bool (''uxr_deserialize_'' @ t) (Some [Ptr (Named ''ucdrBuffer''), Ptr (Named t)])"

text \<open>The declarations of the header in its order, an encoder and a decoder for each type.\<close>

definition codecs :: "string list \<Rightarrow> prototype list" where
  "codecs ts = concat (map (\<lambda>t. [uxr_serialize t, uxr_deserialize t]) ts)"

definition codecs_1 :: "prototype list" where
  "codecs_1 = codecs
    [''Time_t'', ''BinarySequence_t'', ''StringSequence_t'', ''ClientKey'', ''ObjectId'', ''ObjectPrefix'',
     ''XrceCookie'', ''XrceVersion'', ''XrceVendorId'', ''TransportLocatorSmall'', ''TransportLocatorMedium'',
     ''TransportLocatorLarge'', ''TransportLocatorString'', ''TransportLocator'', ''TransportLocatorSeq'',
     ''Property'', ''PropertySeq'', ''CLIENT_Representation'', ''AGENT_Representation'',
     ''OBJK_Representation3Formats'', ''OBJK_RepresentationRefAndXMLFormats'']"

definition codecs_2 :: "prototype list" where
  "codecs_2 = codecs
    [''OBJK_RepresentationBinAndXMLFormats'', ''OBJK_RepresentationRefAndXML_Base'',
     ''OBJK_RepresentationBinAndXML_Base'', ''OBJK_Representation3_Base'', ''OBJK_QOSPROFILE_Representation'',
     ''OBJK_TYPE_Representation'', ''OBJK_DOMAIN_Representation'', ''OBJK_APPLICATION_Representation'',
     ''OBJK_PUBLISHER_Representation'', ''OBJK_SUBSCRIBER_Representation'', ''DATAWRITER_Representation'',
     ''DATAREADER_Representation'', ''OBJK_PARTICIPANT_Representation'', ''OBJK_TOPIC_Representation'',
     ''OBJK_REQUESTER_Representation'', ''OBJK_REPLIER_Representation'', ''OBJK_DomainParticipant_Binary'',
     ''OBJK_Topic_Binary'', ''OBJK_Publisher_Binary_Qos'', ''OBJK_Publisher_Binary'',
     ''OBJK_Subscriber_Binary_Qos'']"

definition codecs_3 :: "prototype list" where
  "codecs_3 = codecs
    [''OBJK_Subscriber_Binary'', ''OBJK_Endpoint_QosBinary'', ''OBJK_DataWriter_Binary_Qos'',
     ''OBJK_DataReader_Binary_Qos'', ''OBJK_DataReader_Binary'', ''OBJK_DataWriter_Binary'',
     ''OBJK_Requester_Binary'', ''OBJK_Replier_Binary'', ''ObjectVariant'', ''CreationMode'', ''RequestId'',
     ''ResultStatus'', ''BaseObjectRequest'', ''AGENT_ActivityInfo'', ''DATAREADER_ActivityInfo'',
     ''DATAWRITER_ActivityInfo'', ''ActivityInfoVariant'', ''ObjectInfo'', ''BaseObjectReply'',
     ''DataDeliveryControl'', ''ReadSpecification'']"

definition codecs_4 :: "prototype list" where
  "codecs_4 = codecs
    [''SeqNumberAndTimestamp'', ''SampleInfoDetail'', ''SampleInfo'', ''SampleInfoDelta'', ''SampleData'',
     ''SampleDataSeq'', ''Sample'', ''SampleSeq'', ''SampleDelta'', ''SampleDeltaSequence'', ''PackedSamples'',
     ''SamplePackedSeq'', ''DataRepresentation'', ''CREATE_CLIENT_Payload'', ''CREATE_Payload'',
     ''GET_INFO_Payload'', ''DELETE_Payload'', ''STATUS_AGENT_Payload'', ''STATUS_Payload'', ''INFO_Payload'',
     ''READ_DATA_Payload'']"

definition codecs_5 :: "prototype list" where
  "codecs_5 = codecs
    [''WRITE_DATA_Payload_Data'', ''WRITE_DATA_Payload_Sample'', ''WRITE_DATA_Payload_DataSeq'',
     ''WRITE_DATA_Payload_SampleSeq'', ''WRITE_DATA_Payload_PackedSamples'', ''DATA_Payload_Data'',
     ''DATA_Payload_Sample'', ''DATA_Payload_DataSeq'', ''DATA_Payload_SampleSeq'',
     ''DATA_Payload_PackedSamples'', ''ACKNACK_Payload'', ''HEARTBEAT_Payload'', ''TIMESTAMP_Payload'',
     ''TIMESTAMP_REPLY_Payload'', ''GuidPrefix_t'', ''EntityId_t'', ''GUID_t'', ''SequenceNumber_t'',
     ''SampleIdentity'', ''PERFORMANCE_Payload'']"

definition declared_codecs :: "prototype list" where
  "declared_codecs = codecs_1 @ codecs_2 @ codecs_3 @ codecs_4 @ codecs_5"

lemmas codecs_defs = declared_codecs_def codecs_def codecs_1_def codecs_2_def codecs_3_def codecs_4_def codecs_5_def uxr_serialize_def uxr_deserialize_def

subsection \<open>Conventions\<close>

text \<open>An optional member follows a flag that says whether it is there. The items of a sequence follow the number of them.
  A union follows the number that says which of its members is set.\<close>

definition counted :: "(string \<times> wire_type) list \<Rightarrow> bool" where
  "counted earlier \<longleftrightarrow> earlier \<noteq> [] \<and> last earlier = (''size'', W_u32)"

fun is_union :: "wire_type \<Rightarrow> bool" where
  "is_union (W_item (Union n ms)) \<longleftrightarrow> True"
| "is_union _ \<longleftrightarrow> False"

definition selected :: "(string \<times> wire_type) list \<Rightarrow> bool" where
  "selected earlier \<longleftrightarrow> earlier \<in> {[(''format'', W_u8)], [(''format'', W_u32)], [(''kind'', W_u8)]}"

fun is_array :: "wire_type \<Rightarrow> bool" where
  "is_array (W_array n t) \<longleftrightarrow> True"
| "is_array _ \<longleftrightarrow> False"

fun follows :: "(string \<times> wire_type) list \<Rightarrow> (string \<times> wire_type) list \<Rightarrow> bool" where
  "follows earlier [] \<longleftrightarrow> True"
| "follows earlier ((n, t) # ms) \<longleftrightarrow>
     (take 9 n = ''optional_'' \<longrightarrow> t = W_bool \<and> ms \<noteq> [] \<and> fst (hd ms) = drop 9 n) \<and>
     (n = ''data'' \<and> is_array t \<longrightarrow> counted earlier \<or> earlier = [] \<and> ms = []) \<and>
     (is_union t \<longrightarrow> n = ''_'' \<and> ms = [] \<and> selected earlier) \<and>
     follows (earlier @ [(n, t)]) ms"

fun is_struct :: "wire \<Rightarrow> bool" where
  "is_struct (Struct n ms) \<longleftrightarrow> True"
| "is_struct (Union n ms) \<longleftrightarrow> False"

definition conventional :: "wire \<Rightarrow> bool" where
  "conventional w \<longleftrightarrow> (if is_struct w then follows [] (wire_members w) else list_all (\<lambda>m. \<not> is_union (snd m)) (wire_members w))"

subsection \<open>Sizes\<close>

text \<open>The most bytes a struct can take in an encoding that aligns every number to its size and writes the whole of every
  array; none for texts, which are not bounded.\<close>

definition add_bytes :: "nat option \<Rightarrow> nat option \<Rightarrow> nat option" where
  "add_bytes a b = Option.bind a (\<lambda>m. map_option (\<lambda>n. m + n) b)"

definition max_bytes :: "nat option \<Rightarrow> nat option \<Rightarrow> nat option" where
  "max_bytes a b = Option.bind a (\<lambda>m. map_option (max m) b)"

fun bytes_of :: "wire \<Rightarrow> nat option" and bytes_of_type :: "wire_type \<Rightarrow> nat option" where
  "bytes_of (Struct n ms) = fold add_bytes (map (\<lambda>m. bytes_of_type (snd m)) ms) (Some 0)"
| "bytes_of (Union n ms) = fold max_bytes (map (\<lambda>m. bytes_of_type (snd m)) ms) (Some 0)"
| "bytes_of_type (W_item w) = bytes_of w"
| "bytes_of_type (W_array n t) = map_option (\<lambda>b. n * b) (bytes_of_type t)"
| "bytes_of_type W_bool = Some 1"
| "bytes_of_type W_u8 = Some 1"
| "bytes_of_type W_u16 = Some 3"
| "bytes_of_type W_u32 = Some 7"
| "bytes_of_type W_u64 = Some 15"
| "bytes_of_type W_i16 = Some 3"
| "bytes_of_type W_i32 = Some 7"
| "bytes_of_type W_text = None"
| "bytes_of_type W_bytes = None"

definition fits :: "nat \<Rightarrow> wire \<Rightarrow> bool" where
  "fits room w \<longleftrightarrow> (case bytes_of w of None \<Rightarrow> False | Some b \<Rightarrow> b \<le> room)"

subsection \<open>Names\<close>

lemma wire_names_1 [simp]:
  "wire_name Time_t__wire = ''Time_t''"
  "wire_name BinarySequence_t__wire = ''BinarySequence_t''"
  "wire_name BinarySequenceSmall_t__wire = ''BinarySequenceSmall_t''"
  "wire_name StringSequence_t__wire = ''StringSequence_t''"
  "wire_name ClientKey__wire = ''ClientKey''"
  "wire_name ObjectId__wire = ''ObjectId''"
  "wire_name ObjectPrefix__wire = ''ObjectPrefix''"
  "wire_name XrceCookie__wire = ''XrceCookie''"
  "wire_name XrceVersion__wire = ''XrceVersion''"
  "wire_name XrceVendorId__wire = ''XrceVendorId''"
  "wire_name TransportLocatorSmall__wire = ''TransportLocatorSmall''"
  "wire_name TransportLocatorMedium__wire = ''TransportLocatorMedium''"
  "wire_name TransportLocatorLarge__wire = ''TransportLocatorLarge''"
  "wire_name TransportLocatorString__wire = ''TransportLocatorString''"
  "wire_name TransportLocatorU__wire = ''TransportLocatorU''"
  "is_struct Time_t__wire"
  "is_struct BinarySequence_t__wire"
  "is_struct BinarySequenceSmall_t__wire"
  "is_struct StringSequence_t__wire"
  "is_struct ClientKey__wire"
  "is_struct ObjectId__wire"
  "is_struct ObjectPrefix__wire"
  "is_struct XrceCookie__wire"
  "is_struct XrceVersion__wire"
  "is_struct XrceVendorId__wire"
  "is_struct TransportLocatorSmall__wire"
  "is_struct TransportLocatorMedium__wire"
  "is_struct TransportLocatorLarge__wire"
  "is_struct TransportLocatorString__wire"
  "\<not> is_struct TransportLocatorU__wire"
  by (simp_all only: Time_t__wire_def BinarySequence_t__wire_def BinarySequenceSmall_t__wire_def StringSequence_t__wire_def
    ClientKey__wire_def ObjectId__wire_def ObjectPrefix__wire_def XrceCookie__wire_def
    XrceVersion__wire_def XrceVendorId__wire_def TransportLocatorSmall__wire_def
    TransportLocatorMedium__wire_def TransportLocatorLarge__wire_def TransportLocatorString__wire_def
    TransportLocatorU__wire_def
    wire.sel is_struct.simps not_False_eq_True)

lemma wire_names_2 [simp]:
  "wire_name TransportLocator__wire = ''TransportLocator''"
  "wire_name TransportLocatorSeq__wire = ''TransportLocatorSeq''"
  "wire_name Property__wire = ''Property''"
  "wire_name PropertySeq__wire = ''PropertySeq''"
  "wire_name CLIENT_Representation__wire = ''CLIENT_Representation''"
  "wire_name AGENT_Representation__wire = ''AGENT_Representation''"
  "wire_name OBJK_Representation3FormatsU__wire = ''OBJK_Representation3FormatsU''"
  "wire_name OBJK_Representation3Formats__wire = ''OBJK_Representation3Formats''"
  "wire_name OBJK_RepresentationRefAndXMLFormatsU__wire = ''OBJK_RepresentationRefAndXMLFormatsU''"
  "wire_name OBJK_RepresentationRefAndXMLFormats__wire = ''OBJK_RepresentationRefAndXMLFormats''"
  "wire_name OBJK_RepresentationBinAndXMLFormatsU__wire = ''OBJK_RepresentationBinAndXMLFormatsU''"
  "wire_name OBJK_RepresentationBinAndXMLFormats__wire = ''OBJK_RepresentationBinAndXMLFormats''"
  "wire_name OBJK_RepresentationRefAndXML_Base__wire = ''OBJK_RepresentationRefAndXML_Base''"
  "wire_name OBJK_RepresentationBinAndXML_Base__wire = ''OBJK_RepresentationBinAndXML_Base''"
  "wire_name OBJK_Representation3_Base__wire = ''OBJK_Representation3_Base''"
  "is_struct TransportLocator__wire"
  "is_struct TransportLocatorSeq__wire"
  "is_struct Property__wire"
  "is_struct PropertySeq__wire"
  "is_struct CLIENT_Representation__wire"
  "is_struct AGENT_Representation__wire"
  "\<not> is_struct OBJK_Representation3FormatsU__wire"
  "is_struct OBJK_Representation3Formats__wire"
  "\<not> is_struct OBJK_RepresentationRefAndXMLFormatsU__wire"
  "is_struct OBJK_RepresentationRefAndXMLFormats__wire"
  "\<not> is_struct OBJK_RepresentationBinAndXMLFormatsU__wire"
  "is_struct OBJK_RepresentationBinAndXMLFormats__wire"
  "is_struct OBJK_RepresentationRefAndXML_Base__wire"
  "is_struct OBJK_RepresentationBinAndXML_Base__wire"
  "is_struct OBJK_Representation3_Base__wire"
  by (simp_all only: TransportLocator__wire_def TransportLocatorSeq__wire_def Property__wire_def PropertySeq__wire_def
    CLIENT_Representation__wire_def AGENT_Representation__wire_def OBJK_Representation3FormatsU__wire_def
    OBJK_Representation3Formats__wire_def OBJK_RepresentationRefAndXMLFormatsU__wire_def
    OBJK_RepresentationRefAndXMLFormats__wire_def OBJK_RepresentationBinAndXMLFormatsU__wire_def
    OBJK_RepresentationBinAndXMLFormats__wire_def OBJK_RepresentationRefAndXML_Base__wire_def
    OBJK_RepresentationBinAndXML_Base__wire_def OBJK_Representation3_Base__wire_def
    wire.sel is_struct.simps not_False_eq_True)

lemma wire_names_3 [simp]:
  "wire_name OBJK_QOSPROFILE_Representation__wire = ''OBJK_QOSPROFILE_Representation''"
  "wire_name OBJK_TYPE_Representation__wire = ''OBJK_TYPE_Representation''"
  "wire_name OBJK_DOMAIN_Representation__wire = ''OBJK_DOMAIN_Representation''"
  "wire_name OBJK_APPLICATION_Representation__wire = ''OBJK_APPLICATION_Representation''"
  "wire_name OBJK_PUBLISHER_Representation__wire = ''OBJK_PUBLISHER_Representation''"
  "wire_name OBJK_SUBSCRIBER_Representation__wire = ''OBJK_SUBSCRIBER_Representation''"
  "wire_name DATAWRITER_Representation__wire = ''DATAWRITER_Representation''"
  "wire_name DATAREADER_Representation__wire = ''DATAREADER_Representation''"
  "wire_name OBJK_PARTICIPANT_Representation__wire = ''OBJK_PARTICIPANT_Representation''"
  "wire_name OBJK_TOPIC_Representation__wire = ''OBJK_TOPIC_Representation''"
  "wire_name OBJK_REQUESTER_Representation__wire = ''OBJK_REQUESTER_Representation''"
  "wire_name OBJK_REPLIER_Representation__wire = ''OBJK_REPLIER_Representation''"
  "wire_name OBJK_DomainParticipant_Binary__wire = ''OBJK_DomainParticipant_Binary''"
  "wire_name OBJK_Topic_Binary__wire = ''OBJK_Topic_Binary''"
  "wire_name OBJK_Publisher_Binary_Qos__wire = ''OBJK_Publisher_Binary_Qos''"
  "is_struct OBJK_QOSPROFILE_Representation__wire"
  "is_struct OBJK_TYPE_Representation__wire"
  "is_struct OBJK_DOMAIN_Representation__wire"
  "is_struct OBJK_APPLICATION_Representation__wire"
  "is_struct OBJK_PUBLISHER_Representation__wire"
  "is_struct OBJK_SUBSCRIBER_Representation__wire"
  "is_struct DATAWRITER_Representation__wire"
  "is_struct DATAREADER_Representation__wire"
  "is_struct OBJK_PARTICIPANT_Representation__wire"
  "is_struct OBJK_TOPIC_Representation__wire"
  "is_struct OBJK_REQUESTER_Representation__wire"
  "is_struct OBJK_REPLIER_Representation__wire"
  "is_struct OBJK_DomainParticipant_Binary__wire"
  "is_struct OBJK_Topic_Binary__wire"
  "is_struct OBJK_Publisher_Binary_Qos__wire"
  by (simp_all only: OBJK_QOSPROFILE_Representation__wire_def OBJK_TYPE_Representation__wire_def
    OBJK_DOMAIN_Representation__wire_def OBJK_APPLICATION_Representation__wire_def
    OBJK_PUBLISHER_Representation__wire_def OBJK_SUBSCRIBER_Representation__wire_def
    DATAWRITER_Representation__wire_def DATAREADER_Representation__wire_def
    OBJK_PARTICIPANT_Representation__wire_def OBJK_TOPIC_Representation__wire_def
    OBJK_REQUESTER_Representation__wire_def OBJK_REPLIER_Representation__wire_def
    OBJK_DomainParticipant_Binary__wire_def OBJK_Topic_Binary__wire_def OBJK_Publisher_Binary_Qos__wire_def
    wire.sel is_struct.simps not_False_eq_True)

lemma wire_names_4 [simp]:
  "wire_name OBJK_Publisher_Binary__wire = ''OBJK_Publisher_Binary''"
  "wire_name OBJK_Subscriber_Binary_Qos__wire = ''OBJK_Subscriber_Binary_Qos''"
  "wire_name OBJK_Subscriber_Binary__wire = ''OBJK_Subscriber_Binary''"
  "wire_name OBJK_Endpoint_QosBinary__wire = ''OBJK_Endpoint_QosBinary''"
  "wire_name OBJK_DataWriter_Binary_Qos__wire = ''OBJK_DataWriter_Binary_Qos''"
  "wire_name OBJK_DataReader_Binary_Qos__wire = ''OBJK_DataReader_Binary_Qos''"
  "wire_name OBJK_DataReader_Binary__wire = ''OBJK_DataReader_Binary''"
  "wire_name OBJK_DataWriter_Binary__wire = ''OBJK_DataWriter_Binary''"
  "wire_name OBJK_Requester_Binary__wire = ''OBJK_Requester_Binary''"
  "wire_name OBJK_Replier_Binary__wire = ''OBJK_Replier_Binary''"
  "wire_name ObjectVariantU__wire = ''ObjectVariantU''"
  "wire_name ObjectVariant__wire = ''ObjectVariant''"
  "wire_name CreationMode__wire = ''CreationMode''"
  "wire_name RequestId__wire = ''RequestId''"
  "wire_name ResultStatus__wire = ''ResultStatus''"
  "is_struct OBJK_Publisher_Binary__wire"
  "is_struct OBJK_Subscriber_Binary_Qos__wire"
  "is_struct OBJK_Subscriber_Binary__wire"
  "is_struct OBJK_Endpoint_QosBinary__wire"
  "is_struct OBJK_DataWriter_Binary_Qos__wire"
  "is_struct OBJK_DataReader_Binary_Qos__wire"
  "is_struct OBJK_DataReader_Binary__wire"
  "is_struct OBJK_DataWriter_Binary__wire"
  "is_struct OBJK_Requester_Binary__wire"
  "is_struct OBJK_Replier_Binary__wire"
  "\<not> is_struct ObjectVariantU__wire"
  "is_struct ObjectVariant__wire"
  "is_struct CreationMode__wire"
  "is_struct RequestId__wire"
  "is_struct ResultStatus__wire"
  by (simp_all only: OBJK_Publisher_Binary__wire_def OBJK_Subscriber_Binary_Qos__wire_def OBJK_Subscriber_Binary__wire_def
    OBJK_Endpoint_QosBinary__wire_def OBJK_DataWriter_Binary_Qos__wire_def
    OBJK_DataReader_Binary_Qos__wire_def OBJK_DataReader_Binary__wire_def OBJK_DataWriter_Binary__wire_def
    OBJK_Requester_Binary__wire_def OBJK_Replier_Binary__wire_def ObjectVariantU__wire_def
    ObjectVariant__wire_def CreationMode__wire_def RequestId__wire_def ResultStatus__wire_def
    wire.sel is_struct.simps not_False_eq_True)

lemma wire_names_5 [simp]:
  "wire_name BaseObjectRequest__wire = ''BaseObjectRequest''"
  "wire_name AGENT_ActivityInfo__wire = ''AGENT_ActivityInfo''"
  "wire_name DATAREADER_ActivityInfo__wire = ''DATAREADER_ActivityInfo''"
  "wire_name DATAWRITER_ActivityInfo__wire = ''DATAWRITER_ActivityInfo''"
  "wire_name ActivityInfoVariantU__wire = ''ActivityInfoVariantU''"
  "wire_name ActivityInfoVariant__wire = ''ActivityInfoVariant''"
  "wire_name ObjectInfo__wire = ''ObjectInfo''"
  "wire_name BaseObjectReply__wire = ''BaseObjectReply''"
  "wire_name DataDeliveryControl__wire = ''DataDeliveryControl''"
  "wire_name ReadSpecification__wire = ''ReadSpecification''"
  "wire_name SeqNumberAndTimestamp__wire = ''SeqNumberAndTimestamp''"
  "wire_name SampleInfoDetailU__wire = ''SampleInfoDetailU''"
  "wire_name SampleInfoDetail__wire = ''SampleInfoDetail''"
  "wire_name SampleInfo__wire = ''SampleInfo''"
  "wire_name SampleInfoDelta__wire = ''SampleInfoDelta''"
  "is_struct BaseObjectRequest__wire"
  "is_struct AGENT_ActivityInfo__wire"
  "is_struct DATAREADER_ActivityInfo__wire"
  "is_struct DATAWRITER_ActivityInfo__wire"
  "\<not> is_struct ActivityInfoVariantU__wire"
  "is_struct ActivityInfoVariant__wire"
  "is_struct ObjectInfo__wire"
  "is_struct BaseObjectReply__wire"
  "is_struct DataDeliveryControl__wire"
  "is_struct ReadSpecification__wire"
  "is_struct SeqNumberAndTimestamp__wire"
  "\<not> is_struct SampleInfoDetailU__wire"
  "is_struct SampleInfoDetail__wire"
  "is_struct SampleInfo__wire"
  "is_struct SampleInfoDelta__wire"
  by (simp_all only: BaseObjectRequest__wire_def AGENT_ActivityInfo__wire_def DATAREADER_ActivityInfo__wire_def
    DATAWRITER_ActivityInfo__wire_def ActivityInfoVariantU__wire_def ActivityInfoVariant__wire_def
    ObjectInfo__wire_def BaseObjectReply__wire_def DataDeliveryControl__wire_def
    ReadSpecification__wire_def SeqNumberAndTimestamp__wire_def SampleInfoDetailU__wire_def
    SampleInfoDetail__wire_def SampleInfo__wire_def SampleInfoDelta__wire_def
    wire.sel is_struct.simps not_False_eq_True)

lemma wire_names_6 [simp]:
  "wire_name SampleData__wire = ''SampleData''"
  "wire_name SampleDataSeq__wire = ''SampleDataSeq''"
  "wire_name Sample__wire = ''Sample''"
  "wire_name SampleSeq__wire = ''SampleSeq''"
  "wire_name SampleDelta__wire = ''SampleDelta''"
  "wire_name SampleDeltaSequence__wire = ''SampleDeltaSequence''"
  "wire_name PackedSamples__wire = ''PackedSamples''"
  "wire_name SamplePackedSeq__wire = ''SamplePackedSeq''"
  "wire_name DataRepresentationU__wire = ''DataRepresentationU''"
  "wire_name DataRepresentation__wire = ''DataRepresentation''"
  "wire_name CREATE_CLIENT_Payload__wire = ''CREATE_CLIENT_Payload''"
  "wire_name CREATE_Payload__wire = ''CREATE_Payload''"
  "wire_name GET_INFO_Payload__wire = ''GET_INFO_Payload''"
  "wire_name DELETE_Payload__wire = ''DELETE_Payload''"
  "wire_name STATUS_AGENT_Payload__wire = ''STATUS_AGENT_Payload''"
  "is_struct SampleData__wire"
  "is_struct SampleDataSeq__wire"
  "is_struct Sample__wire"
  "is_struct SampleSeq__wire"
  "is_struct SampleDelta__wire"
  "is_struct SampleDeltaSequence__wire"
  "is_struct PackedSamples__wire"
  "is_struct SamplePackedSeq__wire"
  "\<not> is_struct DataRepresentationU__wire"
  "is_struct DataRepresentation__wire"
  "is_struct CREATE_CLIENT_Payload__wire"
  "is_struct CREATE_Payload__wire"
  "is_struct GET_INFO_Payload__wire"
  "is_struct DELETE_Payload__wire"
  "is_struct STATUS_AGENT_Payload__wire"
  by (simp_all only: SampleData__wire_def SampleDataSeq__wire_def Sample__wire_def SampleSeq__wire_def
    SampleDelta__wire_def SampleDeltaSequence__wire_def PackedSamples__wire_def SamplePackedSeq__wire_def
    DataRepresentationU__wire_def DataRepresentation__wire_def CREATE_CLIENT_Payload__wire_def
    CREATE_Payload__wire_def GET_INFO_Payload__wire_def DELETE_Payload__wire_def
    STATUS_AGENT_Payload__wire_def
    wire.sel is_struct.simps not_False_eq_True)

lemma wire_names_7 [simp]:
  "wire_name STATUS_Payload__wire = ''STATUS_Payload''"
  "wire_name INFO_Payload__wire = ''INFO_Payload''"
  "wire_name READ_DATA_Payload__wire = ''READ_DATA_Payload''"
  "wire_name WRITE_DATA_Payload_Data__wire = ''WRITE_DATA_Payload_Data''"
  "wire_name WRITE_DATA_Payload_Sample__wire = ''WRITE_DATA_Payload_Sample''"
  "wire_name WRITE_DATA_Payload_DataSeq__wire = ''WRITE_DATA_Payload_DataSeq''"
  "wire_name WRITE_DATA_Payload_SampleSeq__wire = ''WRITE_DATA_Payload_SampleSeq''"
  "wire_name WRITE_DATA_Payload_PackedSamples__wire = ''WRITE_DATA_Payload_PackedSamples''"
  "wire_name DATA_Payload_Data__wire = ''DATA_Payload_Data''"
  "wire_name DATA_Payload_Sample__wire = ''DATA_Payload_Sample''"
  "wire_name DATA_Payload_DataSeq__wire = ''DATA_Payload_DataSeq''"
  "wire_name DATA_Payload_SampleSeq__wire = ''DATA_Payload_SampleSeq''"
  "wire_name DATA_Payload_PackedSamples__wire = ''DATA_Payload_PackedSamples''"
  "wire_name ACKNACK_Payload__wire = ''ACKNACK_Payload''"
  "wire_name HEARTBEAT_Payload__wire = ''HEARTBEAT_Payload''"
  "is_struct STATUS_Payload__wire"
  "is_struct INFO_Payload__wire"
  "is_struct READ_DATA_Payload__wire"
  "is_struct WRITE_DATA_Payload_Data__wire"
  "is_struct WRITE_DATA_Payload_Sample__wire"
  "is_struct WRITE_DATA_Payload_DataSeq__wire"
  "is_struct WRITE_DATA_Payload_SampleSeq__wire"
  "is_struct WRITE_DATA_Payload_PackedSamples__wire"
  "is_struct DATA_Payload_Data__wire"
  "is_struct DATA_Payload_Sample__wire"
  "is_struct DATA_Payload_DataSeq__wire"
  "is_struct DATA_Payload_SampleSeq__wire"
  "is_struct DATA_Payload_PackedSamples__wire"
  "is_struct ACKNACK_Payload__wire"
  "is_struct HEARTBEAT_Payload__wire"
  by (simp_all only: STATUS_Payload__wire_def INFO_Payload__wire_def READ_DATA_Payload__wire_def
    WRITE_DATA_Payload_Data__wire_def WRITE_DATA_Payload_Sample__wire_def
    WRITE_DATA_Payload_DataSeq__wire_def WRITE_DATA_Payload_SampleSeq__wire_def
    WRITE_DATA_Payload_PackedSamples__wire_def DATA_Payload_Data__wire_def DATA_Payload_Sample__wire_def
    DATA_Payload_DataSeq__wire_def DATA_Payload_SampleSeq__wire_def DATA_Payload_PackedSamples__wire_def
    ACKNACK_Payload__wire_def HEARTBEAT_Payload__wire_def
    wire.sel is_struct.simps not_False_eq_True)

lemma wire_names_8 [simp]:
  "wire_name TIMESTAMP_Payload__wire = ''TIMESTAMP_Payload''"
  "wire_name TIMESTAMP_REPLY_Payload__wire = ''TIMESTAMP_REPLY_Payload''"
  "wire_name GuidPrefix_t__wire = ''GuidPrefix_t''"
  "wire_name EntityId_t__wire = ''EntityId_t''"
  "wire_name GUID_t__wire = ''GUID_t''"
  "wire_name SequenceNumber_t__wire = ''SequenceNumber_t''"
  "wire_name SampleIdentity__wire = ''SampleIdentity''"
  "wire_name PERFORMANCE_Payload__wire = ''PERFORMANCE_Payload''"
  "is_struct TIMESTAMP_Payload__wire"
  "is_struct TIMESTAMP_REPLY_Payload__wire"
  "is_struct GuidPrefix_t__wire"
  "is_struct EntityId_t__wire"
  "is_struct GUID_t__wire"
  "is_struct SequenceNumber_t__wire"
  "is_struct SampleIdentity__wire"
  "is_struct PERFORMANCE_Payload__wire"
  by (simp_all only: TIMESTAMP_Payload__wire_def TIMESTAMP_REPLY_Payload__wire_def GuidPrefix_t__wire_def
    EntityId_t__wire_def GUID_t__wire_def SequenceNumber_t__wire_def SampleIdentity__wire_def
    PERFORMANCE_Payload__wire_def
    wire.sel is_struct.simps not_False_eq_True)

lemma wires_conventional: "list_all conventional declared_wires"
  by (simp add: declared_wires_def wire_defs conventional_def counted_def selected_def)

subsection \<open>Properties\<close>


end
