(* ===== verification/Rmw_Names.thy ===== *)
theory Rmw_Names
  imports Middleware_Config
begin

text \<open>
  The rules for names that the headers of rmw and rcl document (\<^verbatim>\<open>rmw/validate_node_name.h\<close>,
  \<^verbatim>\<open>rmw/validate_namespace.h\<close>, \<^verbatim>\<open>rmw/validate_full_topic_name.h\<close>, \<^verbatim>\<open>rcl/validate_topic_name.h\<close>), with the results of
  the checks as tables, and how a topic is put together from the namespace of its node and its name
  (\<^verbatim>\<open>rcl/node.h\<close>, \<^verbatim>\<open>rcl/expand_topic_name.h\<close>; names with substitutions are left out). The functions that check and
  expand are in the precompiled library; the rules are their specification, which a caller has to keep, because the
  library refuses to create an entity whose name breaks one. The results and the lengths are the constants of the
  headers, and the names are those the set-ups of the sketches pass.
\<close>

subsection \<open>Results of the checks\<close>

definition rmw_node_name_results :: "(string \<times> int) list" where
  "rmw_node_name_results =
    [(''VALID'', 0), (''INVALID_IS_EMPTY_STRING'', 1), (''INVALID_CONTAINS_UNALLOWED_CHARACTERS'', 2),
     (''INVALID_STARTS_WITH_NUMBER'', 3), (''INVALID_TOO_LONG'', 4)]"

definition rmw_topic_results :: "(string \<times> int) list" where
  "rmw_topic_results =
    [(''VALID'', 0), (''INVALID_IS_EMPTY_STRING'', 1), (''INVALID_NOT_ABSOLUTE'', 2),
     (''INVALID_ENDS_WITH_FORWARD_SLASH'', 3), (''INVALID_CONTAINS_UNALLOWED_CHARACTERS'', 4),
     (''INVALID_CONTAINS_REPEATED_FORWARD_SLASH'', 5), (''INVALID_NAME_TOKEN_STARTS_WITH_NUMBER'', 6),
     (''INVALID_TOO_LONG'', 7)]"

definition rmw_namespace_results :: "(string \<times> int) list" where
  "rmw_namespace_results =
    [(''VALID'', 0), (''INVALID_IS_EMPTY_STRING'', 1), (''INVALID_NOT_ABSOLUTE'', 2),
     (''INVALID_ENDS_WITH_FORWARD_SLASH'', 3), (''INVALID_CONTAINS_UNALLOWED_CHARACTERS'', 4),
     (''INVALID_CONTAINS_REPEATED_FORWARD_SLASH'', 5), (''INVALID_NAME_TOKEN_STARTS_WITH_NUMBER'', 6),
     (''INVALID_TOO_LONG'', 7)]"

text \<open>The results for the name of an enclave are defined as those for a namespace, each by the name given here.\<close>

definition rcl_enclave_results :: "(string \<times> string) list" where
  "rcl_enclave_results =
    [(''VALID'', ''VALID''), (''INVALID_IS_EMPTY_STRING'', ''INVALID_IS_EMPTY_STRING''),
     (''INVALID_NOT_ABSOLUTE'', ''INVALID_NOT_ABSOLUTE''),
     (''INVALID_ENDS_WITH_FORWARD_SLASH'', ''INVALID_ENDS_WITH_FORWARD_SLASH''),
     (''INVALID_CONTAINS_UNALLOWED_CHARACTERS'', ''INVALID_CONTAINS_UNALLOWED_CHARACTERS''),
     (''INVALID_CONTAINS_REPEATED_FORWARD_SLASH'', ''INVALID_CONTAINS_REPEATED_FORWARD_SLASH''),
     (''INVALID_NAME_TOKEN_STARTS_WITH_NUMBER'', ''INVALID_NAME_TOKEN_STARTS_WITH_NUMBER''),
     (''INVALID_TOO_LONG'', ''INVALID_TOO_LONG'')]"

definition RMW_NODE_NAME_MAX_NAME_LENGTH :: nat where "RMW_NODE_NAME_MAX_NAME_LENGTH = 255"

definition RMW_TOPIC_MAX_NAME_LENGTH :: nat where "RMW_TOPIC_MAX_NAME_LENGTH = 255 - 8"

definition RMW_NAMESPACE_MAX_LENGTH :: nat where "RMW_NAMESPACE_MAX_LENGTH = RMW_TOPIC_MAX_NAME_LENGTH - 2"

subsection \<open>Rules\<close>

definition name_character :: "char \<Rightarrow> bool" where
  "name_character c \<longleftrightarrow> (let k = of_char c :: nat in
     48 \<le> k \<and> k \<le> 57 \<or> 65 \<le> k \<and> k \<le> 90 \<or> 97 \<le> k \<and> k \<le> 122 \<or> c = CHR ''_'')"

definition digit_character :: "char \<Rightarrow> bool" where
  "digit_character c \<longleftrightarrow> (let k = of_char c :: nat in 48 \<le> k \<and> k \<le> 57)"

definition node_name_valid :: "string \<Rightarrow> bool" where
  "node_name_valid s \<longleftrightarrow> s \<noteq> [] \<and> list_all name_character s \<and> \<not> digit_character (hd s) \<and>
     length s \<le> RMW_NODE_NAME_MAX_NAME_LENGTH"

text \<open>After a slash there is neither another nor a number.\<close>

fun tokens_good :: "string \<Rightarrow> bool" where
  "tokens_good (a # b # s) \<longleftrightarrow> \<not> (a = CHR ''/'' \<and> (b = CHR ''/'' \<or> digit_character b)) \<and> tokens_good (b # s)"
| "tokens_good _ \<longleftrightarrow> True"

definition path_characters :: "string \<Rightarrow> bool" where
  "path_characters s \<longleftrightarrow> list_all (\<lambda>c. name_character c \<or> c = CHR ''/'') s"

definition topic_rules :: "string \<Rightarrow> bool" where
  "topic_rules s \<longleftrightarrow> s \<noteq> [] \<and> hd s = CHR ''/'' \<and> last s \<noteq> CHR ''/'' \<and> path_characters s \<and> tokens_good s"

definition topic_valid :: "string \<Rightarrow> bool" where
  "topic_valid s \<longleftrightarrow> topic_rules s \<and> length s \<le> RMW_TOPIC_MAX_NAME_LENGTH"

definition namespace_valid :: "string \<Rightarrow> bool" where
  "namespace_valid s \<longleftrightarrow> (s = ''/'' \<or> topic_rules s) \<and> length s \<le> RMW_NAMESPACE_MAX_LENGTH"

text \<open>A name given without a slash in front, before it is expanded.\<close>

definition relative_name_valid :: "string \<Rightarrow> bool" where
  "relative_name_valid s \<longleftrightarrow> s \<noteq> [] \<and> hd s \<noteq> CHR ''/'' \<and> \<not> digit_character (hd s) \<and> last s \<noteq> CHR ''/'' \<and>
     path_characters s \<and> tokens_good s"

subsection \<open>Expansion\<close>

definition node_namespace :: "string \<Rightarrow> string" where
  "node_namespace ns = (if ns = [] then ''/'' else if hd ns = CHR ''/'' then ns else CHR ''/'' # ns)"

definition expand_topic_name :: "string \<Rightarrow> string \<Rightarrow> string" where
  "expand_topic_name ns name =
     (if name \<noteq> [] \<and> hd name = CHR ''/'' then name
      else if ns = ''/'' then CHR ''/'' # name else ns @ CHR ''/'' # name)"

lemma tokens_good_joined:
  assumes "tokens_good ns" "ns = [] \<or> last ns \<noteq> CHR ''/''" "relative_name_valid name"
  shows "tokens_good (ns @ CHR ''/'' # name)"
proof -
  from assms(3) obtain c s where name: "name = c # s" by (cases name) (auto simp: relative_name_valid_def)
  from assms(3) have tail: "tokens_good (CHR ''/'' # name)" by (simp add: name relative_name_valid_def)
  from assms(1,2) show ?thesis
    by (induction ns rule: tokens_good.induct)
      (use tail in \<open>auto simp: name digit_character_def split: if_splits\<close>)
qed

lemma expanded_rules:
  assumes "namespace_valid ns" "relative_name_valid name"
  shows "topic_rules (expand_topic_name ns name)"
proof (cases "ns = ''/''")
  case True
  then show ?thesis
    using assms(2) tokens_good_joined [of "[]" name]
    by (auto simp: expand_topic_name_def topic_rules_def relative_name_valid_def path_characters_def)
next
  case False
  with assms(1) have ns: "topic_rules ns" by (simp add: namespace_valid_def)
  then have "tokens_good (ns @ CHR ''/'' # name)"
    by (intro tokens_good_joined assms(2)) (simp_all add: topic_rules_def)
  with ns False show ?thesis
    using assms(2) by (auto simp: expand_topic_name_def topic_rules_def relative_name_valid_def path_characters_def)
qed

lemma expanded_length:
  assumes "relative_name_valid name"
  shows "length (expand_topic_name ns name) = (if ns = ''/'' then 0 else length ns) + 1 + length name"
  using assms by (auto simp: expand_topic_name_def relative_name_valid_def)

text \<open>The names of a plan: those of the node and of the entities created on it.\<close>

fun names_valid :: "string \<Rightarrow> 'm call list \<Rightarrow> bool" where
  "names_valid ns [] \<longleftrightarrow> True"
| "names_valid ns (Node_init_default name space # cs) \<longleftrightarrow>
     node_name_valid name \<and> namespace_valid (node_namespace space) \<and> names_valid (node_namespace space) cs"
| "names_valid ns (Publisher_init_default type topic # cs) \<longleftrightarrow> topic_valid (expand_topic_name ns topic) \<and> names_valid ns cs"
| "names_valid ns (Publisher_init_best_effort type topic # cs) \<longleftrightarrow> topic_valid (expand_topic_name ns topic) \<and> names_valid ns cs"
| "names_valid ns (Subscription_init_default type topic # cs) \<longleftrightarrow> topic_valid (expand_topic_name ns topic) \<and> names_valid ns cs"
| "names_valid ns (Service_init_default type topic # cs) \<longleftrightarrow> topic_valid (expand_topic_name ns topic) \<and> names_valid ns cs"
| "names_valid ns (_ # cs) \<longleftrightarrow> names_valid ns cs"

lemmas name_rule_defs =
  node_name_valid_def namespace_valid_def topic_valid_def topic_rules_def path_characters_def name_character_def
  digit_character_def node_namespace_def expand_topic_name_def RMW_NODE_NAME_MAX_NAME_LENGTH_def
  RMW_TOPIC_MAX_NAME_LENGTH_def RMW_NAMESPACE_MAX_LENGTH_def

text \<open>Calls that take nothing from the pools have no names, so a set-up has valid names when its plan has, however far
  it gets, and the turns after it add none.\<close>

lemma names_valid_take: "names_valid ns cs \<Longrightarrow> names_valid ns (take k cs)"
proof (induction cs arbitrary: ns k)
  case (Cons c cs)
  then show ?case by (cases k; cases c) simp_all
qed simp

lemma names_valid_claimless: "claimless cs \<Longrightarrow> names_valid ns (cs @ ds) = names_valid ns ds"
proof (induction cs)
  case (Cons c cs)
  then show ?case by (cases c) simp_all
qed simp

lemma names_valid_extra: "claimless ds \<Longrightarrow> names_valid ns (cs @ ds) = names_valid ns cs"
proof (induction cs arbitrary: ns)
  case Nil
  then show ?case using names_valid_claimless [of ds ns "[]"] by simp
next
  case (Cons c cs)
  then show ?case by (cases c) simp_all
qed

lemma checked_names:
  assumes "frugal on_error" "frugal rest" "names_valid [] cs" "claimless (map fst (calls s))"
  shows "names_valid [] (calls_made (checked on_error lib cs rest s))"
  by (rule checked_calls_made [OF assms(1,2), of lib cs s])
    (simp add: names_valid_claimless names_valid_extra names_valid_take [OF assms(3)] assms(4))

context checked_setup begin

lemma setup_names:
  assumes "frugal (forever idle n)" "\<And>s. calls (finish s) = calls s" "names_valid [] plan"
    and "claimless (map fst (calls (prepare s)))"
  shows "names_valid [] (calls_made (start_up n s))"
  unfolding start_up by (rule checked_names [OF assms(1) frugal_same assms(3,4)]) (simp add: assms(2))

end

context pool_user begin

lemma life_names:
  assumes "set ts \<subseteq> turns" "names_valid [] (calls_made (start_up s))"
  shows "names_valid [] (calls_made (life ts (start_up s)))"
  using life_calls [OF assms(1), of "start_up s"] assms(2) by (auto simp: calls_made_def names_valid_extra)

end

lemma sound_names:
  "names_valid [] (calls_made (sound_setup ard mic lib n (s\<lparr>calls := []\<rparr>)))"
  unfolding sound_setup_plan
  by (rule checked_names [OF error_loop_frugal sound_rest_frugal]) (simp_all add: name_rule_defs)

subsection \<open>Properties\<close>

text \<open>The tables agree: topics, namespaces and enclaves have the same results with the same numbers, and no two results
  of a check are the same.\<close>

theorem name_results_agree:
  "rmw_topic_results = rmw_namespace_results \<and>
   list_all (\<lambda>(enclave, ns). enclave = ns \<and> map_of rmw_namespace_results ns \<noteq> None) rcl_enclave_results \<and>
   map fst rcl_enclave_results = map fst rmw_namespace_results \<and>
   distinct (map snd rmw_namespace_results) \<and> distinct (map snd rmw_node_name_results)"
  by (simp add: rmw_topic_results_def rmw_namespace_results_def rcl_enclave_results_def rmw_node_name_results_def)

text \<open>A topic can be named relative to any namespace: put after a valid namespace, a name that keeps the rules makes a
  topic that keeps them all, but for its length, and a name of one character always fits, because the room reserved
  for it in the length of a namespace is enough.\<close>

theorem expanded_topic_valid:
  assumes "namespace_valid ns" "relative_name_valid name"
  shows "topic_rules (expand_topic_name ns name) \<and>
    (topic_valid (expand_topic_name ns name) \<longleftrightarrow>
      (if ns = ''/'' then 0 else length ns) + 1 + length name \<le> RMW_TOPIC_MAX_NAME_LENGTH) \<and>
    (length name = 1 \<longrightarrow> topic_valid (expand_topic_name ns name))"
  using assms expanded_rules [OF assms] expanded_length [OF assms(2)]
  by (auto simp: topic_valid_def namespace_valid_def RMW_TOPIC_MAX_NAME_LENGTH_def RMW_NAMESPACE_MAX_LENGTH_def)

theorem expanded_topic_valid_witness:
  "topic_valid (expand_topic_name ''/robot/arm'' ''joint_1/state'') \<and> topic_valid (expand_topic_name ''/'' ''x'')"
  using expanded_topic_valid [of "''/robot/arm''" "''joint_1/state''"] expanded_topic_valid [of "''/''" "''x''"]
  by (simp add: relative_name_valid_def name_rule_defs)


end
