(* ===== verification/Qos_Policies.thy ===== *)
theory Qos_Policies
  imports Xrce_Types
begin

text \<open>
  Quality of service as the headers of rmw declare it (\<^verbatim>\<open>rmw/types.h\<close>, \<^verbatim>\<open>rmw/time.h\<close>, \<^verbatim>\<open>rmw/qos_policy_kind.h\<close>,
  \<^verbatim>\<open>rmw/qos_profiles.h\<close>, \<^verbatim>\<open>rcl/logging_rosout.h\<close>, \<^verbatim>\<open>rcl_action/default_qos.h\<close>): the policies, the kinds of policies, the
  durations and the profiles. What \<^verbatim>\<open>rmw/qos_string_conversions.h\<close> documents for the functions of the precompiled
  library that print and read policies is a specification here: the text of a policy is the name of its constant
  without the prefix, in lower case. It rests on the names of the constants, and is shown to tell them apart.
\<close>

subsection \<open>Policies\<close>

datatype rmw_qos_reliability_policy =
  RMW_QOS_POLICY_RELIABILITY_SYSTEM_DEFAULT | RMW_QOS_POLICY_RELIABILITY_RELIABLE
| RMW_QOS_POLICY_RELIABILITY_BEST_EFFORT | RMW_QOS_POLICY_RELIABILITY_UNKNOWN
| RMW_QOS_POLICY_RELIABILITY_BEST_AVAILABLE

datatype rmw_qos_history_policy =
  RMW_QOS_POLICY_HISTORY_SYSTEM_DEFAULT | RMW_QOS_POLICY_HISTORY_KEEP_LAST
| RMW_QOS_POLICY_HISTORY_KEEP_ALL | RMW_QOS_POLICY_HISTORY_UNKNOWN

datatype rmw_qos_durability_policy =
  RMW_QOS_POLICY_DURABILITY_SYSTEM_DEFAULT | RMW_QOS_POLICY_DURABILITY_TRANSIENT_LOCAL
| RMW_QOS_POLICY_DURABILITY_VOLATILE | RMW_QOS_POLICY_DURABILITY_UNKNOWN
| RMW_QOS_POLICY_DURABILITY_BEST_AVAILABLE

datatype rmw_qos_liveliness_policy =
  RMW_QOS_POLICY_LIVELINESS_SYSTEM_DEFAULT | RMW_QOS_POLICY_LIVELINESS_AUTOMATIC
| RMW_QOS_POLICY_LIVELINESS_MANUAL_BY_NODE | RMW_QOS_POLICY_LIVELINESS_MANUAL_BY_TOPIC
| RMW_QOS_POLICY_LIVELINESS_UNKNOWN | RMW_QOS_POLICY_LIVELINESS_BEST_AVAILABLE

datatype rmw_qos_policy_kind =
  RMW_QOS_POLICY_INVALID | RMW_QOS_POLICY_DURABILITY | RMW_QOS_POLICY_DEADLINE | RMW_QOS_POLICY_LIVELINESS
| RMW_QOS_POLICY_RELIABILITY | RMW_QOS_POLICY_HISTORY | RMW_QOS_POLICY_LIFESPAN | RMW_QOS_POLICY_DEPTH
| RMW_QOS_POLICY_LIVELINESS_LEASE_DURATION | RMW_QOS_POLICY_AVOID_ROS_NAMESPACE_CONVENTIONS

text \<open>The constants of each enumeration in their order with their names.\<close>

definition reliability_names :: "(rmw_qos_reliability_policy \<times> string) list" where
  "reliability_names =
    [(RMW_QOS_POLICY_RELIABILITY_SYSTEM_DEFAULT, ''RMW_QOS_POLICY_RELIABILITY_SYSTEM_DEFAULT''),
     (RMW_QOS_POLICY_RELIABILITY_RELIABLE, ''RMW_QOS_POLICY_RELIABILITY_RELIABLE''),
     (RMW_QOS_POLICY_RELIABILITY_BEST_EFFORT, ''RMW_QOS_POLICY_RELIABILITY_BEST_EFFORT''),
     (RMW_QOS_POLICY_RELIABILITY_UNKNOWN, ''RMW_QOS_POLICY_RELIABILITY_UNKNOWN''),
     (RMW_QOS_POLICY_RELIABILITY_BEST_AVAILABLE, ''RMW_QOS_POLICY_RELIABILITY_BEST_AVAILABLE'')]"

definition history_names :: "(rmw_qos_history_policy \<times> string) list" where
  "history_names =
    [(RMW_QOS_POLICY_HISTORY_SYSTEM_DEFAULT, ''RMW_QOS_POLICY_HISTORY_SYSTEM_DEFAULT''),
     (RMW_QOS_POLICY_HISTORY_KEEP_LAST, ''RMW_QOS_POLICY_HISTORY_KEEP_LAST''),
     (RMW_QOS_POLICY_HISTORY_KEEP_ALL, ''RMW_QOS_POLICY_HISTORY_KEEP_ALL''),
     (RMW_QOS_POLICY_HISTORY_UNKNOWN, ''RMW_QOS_POLICY_HISTORY_UNKNOWN'')]"

definition durability_names :: "(rmw_qos_durability_policy \<times> string) list" where
  "durability_names =
    [(RMW_QOS_POLICY_DURABILITY_SYSTEM_DEFAULT, ''RMW_QOS_POLICY_DURABILITY_SYSTEM_DEFAULT''),
     (RMW_QOS_POLICY_DURABILITY_TRANSIENT_LOCAL, ''RMW_QOS_POLICY_DURABILITY_TRANSIENT_LOCAL''),
     (RMW_QOS_POLICY_DURABILITY_VOLATILE, ''RMW_QOS_POLICY_DURABILITY_VOLATILE''),
     (RMW_QOS_POLICY_DURABILITY_UNKNOWN, ''RMW_QOS_POLICY_DURABILITY_UNKNOWN''),
     (RMW_QOS_POLICY_DURABILITY_BEST_AVAILABLE, ''RMW_QOS_POLICY_DURABILITY_BEST_AVAILABLE'')]"

definition liveliness_names :: "(rmw_qos_liveliness_policy \<times> string) list" where
  "liveliness_names =
    [(RMW_QOS_POLICY_LIVELINESS_SYSTEM_DEFAULT, ''RMW_QOS_POLICY_LIVELINESS_SYSTEM_DEFAULT''),
     (RMW_QOS_POLICY_LIVELINESS_AUTOMATIC, ''RMW_QOS_POLICY_LIVELINESS_AUTOMATIC''),
     (RMW_QOS_POLICY_LIVELINESS_MANUAL_BY_NODE, ''RMW_QOS_POLICY_LIVELINESS_MANUAL_BY_NODE''),
     (RMW_QOS_POLICY_LIVELINESS_MANUAL_BY_TOPIC, ''RMW_QOS_POLICY_LIVELINESS_MANUAL_BY_TOPIC''),
     (RMW_QOS_POLICY_LIVELINESS_UNKNOWN, ''RMW_QOS_POLICY_LIVELINESS_UNKNOWN''),
     (RMW_QOS_POLICY_LIVELINESS_BEST_AVAILABLE, ''RMW_QOS_POLICY_LIVELINESS_BEST_AVAILABLE'')]"

definition policy_kind_names :: "(rmw_qos_policy_kind \<times> string) list" where
  "policy_kind_names =
    [(RMW_QOS_POLICY_INVALID, ''RMW_QOS_POLICY_INVALID''), (RMW_QOS_POLICY_DURABILITY, ''RMW_QOS_POLICY_DURABILITY''),
     (RMW_QOS_POLICY_DEADLINE, ''RMW_QOS_POLICY_DEADLINE''), (RMW_QOS_POLICY_LIVELINESS, ''RMW_QOS_POLICY_LIVELINESS''),
     (RMW_QOS_POLICY_RELIABILITY, ''RMW_QOS_POLICY_RELIABILITY''), (RMW_QOS_POLICY_HISTORY, ''RMW_QOS_POLICY_HISTORY''),
     (RMW_QOS_POLICY_LIFESPAN, ''RMW_QOS_POLICY_LIFESPAN''), (RMW_QOS_POLICY_DEPTH, ''RMW_QOS_POLICY_DEPTH''),
     (RMW_QOS_POLICY_LIVELINESS_LEASE_DURATION, ''RMW_QOS_POLICY_LIVELINESS_LEASE_DURATION''),
     (RMW_QOS_POLICY_AVOID_ROS_NAMESPACE_CONVENTIONS, ''RMW_QOS_POLICY_AVOID_ROS_NAMESPACE_CONVENTIONS'')]"

fun policy_kind_value :: "rmw_qos_policy_kind \<Rightarrow> u32" where
  "policy_kind_value RMW_QOS_POLICY_INVALID = push_bit 0 1"
| "policy_kind_value RMW_QOS_POLICY_DURABILITY = push_bit 1 1"
| "policy_kind_value RMW_QOS_POLICY_DEADLINE = push_bit 2 1"
| "policy_kind_value RMW_QOS_POLICY_LIVELINESS = push_bit 3 1"
| "policy_kind_value RMW_QOS_POLICY_RELIABILITY = push_bit 4 1"
| "policy_kind_value RMW_QOS_POLICY_HISTORY = push_bit 5 1"
| "policy_kind_value RMW_QOS_POLICY_LIFESPAN = push_bit 6 1"
| "policy_kind_value RMW_QOS_POLICY_DEPTH = push_bit 7 1"
| "policy_kind_value RMW_QOS_POLICY_LIVELINESS_LEASE_DURATION = push_bit 8 1"
| "policy_kind_value RMW_QOS_POLICY_AVOID_ROS_NAMESPACE_CONVENTIONS = push_bit 9 1"

fun policy_kind_pos :: "rmw_qos_policy_kind \<Rightarrow> nat" where
  "policy_kind_pos RMW_QOS_POLICY_INVALID = 0" | "policy_kind_pos RMW_QOS_POLICY_DURABILITY = 1"
| "policy_kind_pos RMW_QOS_POLICY_DEADLINE = 2" | "policy_kind_pos RMW_QOS_POLICY_LIVELINESS = 3"
| "policy_kind_pos RMW_QOS_POLICY_RELIABILITY = 4" | "policy_kind_pos RMW_QOS_POLICY_HISTORY = 5"
| "policy_kind_pos RMW_QOS_POLICY_LIFESPAN = 6" | "policy_kind_pos RMW_QOS_POLICY_DEPTH = 7"
| "policy_kind_pos RMW_QOS_POLICY_LIVELINESS_LEASE_DURATION = 8"
| "policy_kind_pos RMW_QOS_POLICY_AVOID_ROS_NAMESPACE_CONVENTIONS = 9"

interpretation policy_kind: flag_masks policy_kind_value policy_kind_pos
proof
  fix f g
  show "policy_kind_value f = push_bit (policy_kind_pos f) 1" "policy_kind_pos f < LENGTH(32)" by (cases f; simp)+
  show "policy_kind_pos f = policy_kind_pos g \<Longrightarrow> f = g" by (cases f; cases g) simp_all
qed

subsection \<open>Texts of policies\<close>

definition lower :: "char \<Rightarrow> char" where
  "lower c = (if 65 \<le> (of_char c :: nat) \<and> (of_char c :: nat) \<le> 90 then char_of (of_char c + 32 :: nat) else c)"

text \<open>The documented text of a policy, by the table of its names and the prefix; the policy that is unknown has none. The
  policy a text stands for; an unknown text stands for the unknown policy.\<close>

definition policy_text :: "('v \<times> string) list \<Rightarrow> string \<Rightarrow> 'v \<Rightarrow> 'v \<Rightarrow> string option" where
  "policy_text names prefix unknown v =
     (if v = unknown then None else map_option (\<lambda>n. map lower (drop (length prefix) n)) (map_of names v))"

definition policy_of_text :: "('v \<times> string) list \<Rightarrow> string \<Rightarrow> 'v \<Rightarrow> string \<Rightarrow> 'v" where
  "policy_of_text names prefix unknown s =
     (case find (\<lambda>v. policy_text names prefix unknown v = Some s) (map fst names) of None \<Rightarrow> unknown | Some v \<Rightarrow> v)"

locale policy_names =
  fixes names :: "('v \<times> string) list" and prefix_of :: string and unknown :: 'v
  assumes complete: "v \<in> set (map fst names)"
    and readable: "distinct (map (\<lambda>n. map lower (drop (length prefix_of) (snd n))) names)"
    and once: "distinct (map fst names)"
begin

lemma text_of:
  assumes "v \<noteq> unknown"
  obtains n where "(v, n) \<in> set names" "policy_text names prefix_of unknown v = Some (map lower (drop (length prefix_of) n))"
proof -
  from complete [of v] obtain n where n: "(v, n) \<in> set names" by auto
  then have "map_of names v = Some n" using once by simp
  with assms n that show thesis by (simp add: policy_text_def)
qed

lemma text_inject:
  assumes "policy_text names prefix_of unknown v = Some s" "policy_text names prefix_of unknown w = Some s"
  shows "v = w"
proof -
  from assms have known: "v \<noteq> unknown" "w \<noteq> unknown" by (auto simp: policy_text_def split: if_splits)
  obtain m where m: "(v, m) \<in> set names" "map lower (drop (length prefix_of) m) = s"
    using text_of [OF known(1)] assms(1) by auto
  obtain n where n: "(w, n) \<in> set names" "map lower (drop (length prefix_of) n) = s"
    using text_of [OF known(2)] assms(2) by auto
  have "(v, m) = (w, n)"
    using readable m n by (auto simp: distinct_map dest: inj_onD [where x = "(v, m)" and y = "(w, n)"])
  then show ?thesis by simp
qed

lemma from_to:
  assumes "policy_text names prefix_of unknown v = Some s"
  shows "policy_of_text names prefix_of unknown s = v"
proof (cases "find (\<lambda>v. policy_text names prefix_of unknown v = Some s) (map fst names)")
  case None
  with complete [of v] assms show ?thesis by (auto simp: find_None_iff)
next
  case (Some w)
  then have "policy_text names prefix_of unknown w = Some s" by (auto simp: find_Some_iff)
  with assms Some show ?thesis by (simp add: policy_of_text_def text_inject)
qed

lemma round_trip:
  assumes "v \<noteq> unknown"
  shows "policy_of_text names prefix_of unknown (the (policy_text names prefix_of unknown v)) = v"
  using text_of [OF assms] from_to by (metis option.sel)

lemma reads_back:
  assumes "policy_of_text names prefix_of unknown s \<noteq> unknown"
  shows "policy_text names prefix_of unknown (policy_of_text names prefix_of unknown s) = Some s"
proof (cases "find (\<lambda>v. policy_text names prefix_of unknown v = Some s) (map fst names)")
  case (Some w)
  then have "policy_text names prefix_of unknown w = Some s" by (auto simp: find_Some_iff)
  with Some show ?thesis by (simp add: policy_of_text_def)
qed (use assms in \<open>simp add: policy_of_text_def\<close>)

end

interpretation reliability: policy_names reliability_names "''RMW_QOS_POLICY_RELIABILITY_''" RMW_QOS_POLICY_RELIABILITY_UNKNOWN
proof
  show "v \<in> set (map fst reliability_names)" for v by (cases v) (simp_all add: reliability_names_def)
qed (simp_all add: reliability_names_def lower_def)

interpretation history: policy_names history_names "''RMW_QOS_POLICY_HISTORY_''" RMW_QOS_POLICY_HISTORY_UNKNOWN
proof
  show "v \<in> set (map fst history_names)" for v by (cases v) (simp_all add: history_names_def)
qed (simp_all add: history_names_def lower_def)

interpretation durability: policy_names durability_names "''RMW_QOS_POLICY_DURABILITY_''" RMW_QOS_POLICY_DURABILITY_UNKNOWN
proof
  show "v \<in> set (map fst durability_names)" for v by (cases v) (simp_all add: durability_names_def)
qed (simp_all add: durability_names_def lower_def)

interpretation liveliness: policy_names liveliness_names "''RMW_QOS_POLICY_LIVELINESS_''" RMW_QOS_POLICY_LIVELINESS_UNKNOWN
proof
  show "v \<in> set (map fst liveliness_names)" for v by (cases v) (simp_all add: liveliness_names_def)
qed (simp_all add: liveliness_names_def lower_def)

interpretation kinds: policy_names policy_kind_names "''RMW_QOS_POLICY_''" RMW_QOS_POLICY_INVALID
proof
  show "v \<in> set (map fst policy_kind_names)" for v by (cases v) (simp_all add: policy_kind_names_def)
qed (simp_all add: policy_kind_names_def lower_def)

lemma best_effort_text:
  "policy_text reliability_names ''RMW_QOS_POLICY_RELIABILITY_'' RMW_QOS_POLICY_RELIABILITY_UNKNOWN
     RMW_QOS_POLICY_RELIABILITY_BEST_EFFORT = Some ''best_effort''"
  by code_simp

subsection \<open>Durations and profiles\<close>

record rmw_time =
  sec :: u64
  nsec :: u64

definition RMW_DURATION_INFINITE :: rmw_time where
  "RMW_DURATION_INFINITE = \<lparr>sec = 9223372036, nsec = 854775807\<rparr>"

definition RMW_DURATION_UNSPECIFIED :: rmw_time where
  "RMW_DURATION_UNSPECIFIED = \<lparr>sec = 0, nsec = 0\<rparr>"

definition RMW_QOS_DEADLINE_DEFAULT :: rmw_time where
  "RMW_QOS_DEADLINE_DEFAULT = RMW_DURATION_UNSPECIFIED"

definition RMW_QOS_DEADLINE_BEST_AVAILABLE :: rmw_time where
  "RMW_QOS_DEADLINE_BEST_AVAILABLE = \<lparr>sec = 9223372036, nsec = 854775806\<rparr>"

definition RMW_QOS_LIFESPAN_DEFAULT :: rmw_time where
  "RMW_QOS_LIFESPAN_DEFAULT = RMW_DURATION_UNSPECIFIED"

definition RMW_QOS_LIVELINESS_LEASE_DURATION_DEFAULT :: rmw_time where
  "RMW_QOS_LIVELINESS_LEASE_DURATION_DEFAULT = RMW_DURATION_UNSPECIFIED"

definition RMW_QOS_LIVELINESS_LEASE_DURATION_BEST_AVAILABLE :: rmw_time where
  "RMW_QOS_LIVELINESS_LEASE_DURATION_BEST_AVAILABLE = \<lparr>sec = 9223372036, nsec = 854775806\<rparr>"

text \<open>The nanoseconds of a duration, and one whose nanoseconds are less than a second.\<close>

definition total_nsec :: "rmw_time \<Rightarrow> nat" where
  "total_nsec t = unat (sec t) * 1000000000 + unat (nsec t)"

definition normalised :: "rmw_time \<Rightarrow> bool" where
  "normalised t \<longleftrightarrow> nsec t < 1000000000"

definition RMW_QOS_POLICY_DEPTH_SYSTEM_DEFAULT :: nat where "RMW_QOS_POLICY_DEPTH_SYSTEM_DEFAULT = 0"

record rmw_qos_profile =
  history :: rmw_qos_history_policy
  depth :: nat
  reliability :: rmw_qos_reliability_policy
  durability :: rmw_qos_durability_policy
  deadline :: rmw_time
  lifespan :: rmw_time
  liveliness :: rmw_qos_liveliness_policy
  liveliness_lease_duration :: rmw_time
  avoid_ros_namespace_conventions :: bool

definition rmw_qos_profile_sensor_data :: rmw_qos_profile where
  "rmw_qos_profile_sensor_data =
    \<lparr>history = RMW_QOS_POLICY_HISTORY_KEEP_LAST, depth = 5,
     reliability = RMW_QOS_POLICY_RELIABILITY_BEST_EFFORT,
     durability = RMW_QOS_POLICY_DURABILITY_VOLATILE,
     deadline = RMW_QOS_DEADLINE_DEFAULT, lifespan = RMW_QOS_LIFESPAN_DEFAULT,
     liveliness = RMW_QOS_POLICY_LIVELINESS_SYSTEM_DEFAULT,
     liveliness_lease_duration = RMW_QOS_LIVELINESS_LEASE_DURATION_DEFAULT,
     avoid_ros_namespace_conventions = False\<rparr>"

definition rmw_qos_profile_parameters :: rmw_qos_profile where
  "rmw_qos_profile_parameters =
    \<lparr>history = RMW_QOS_POLICY_HISTORY_KEEP_LAST, depth = 1000,
     reliability = RMW_QOS_POLICY_RELIABILITY_RELIABLE,
     durability = RMW_QOS_POLICY_DURABILITY_VOLATILE,
     deadline = RMW_QOS_DEADLINE_DEFAULT, lifespan = RMW_QOS_LIFESPAN_DEFAULT,
     liveliness = RMW_QOS_POLICY_LIVELINESS_SYSTEM_DEFAULT,
     liveliness_lease_duration = RMW_QOS_LIVELINESS_LEASE_DURATION_DEFAULT,
     avoid_ros_namespace_conventions = False\<rparr>"

definition rmw_qos_profile_default :: rmw_qos_profile where
  "rmw_qos_profile_default =
    \<lparr>history = RMW_QOS_POLICY_HISTORY_KEEP_LAST, depth = 10,
     reliability = RMW_QOS_POLICY_RELIABILITY_RELIABLE,
     durability = RMW_QOS_POLICY_DURABILITY_VOLATILE,
     deadline = RMW_QOS_DEADLINE_DEFAULT, lifespan = RMW_QOS_LIFESPAN_DEFAULT,
     liveliness = RMW_QOS_POLICY_LIVELINESS_SYSTEM_DEFAULT,
     liveliness_lease_duration = RMW_QOS_LIVELINESS_LEASE_DURATION_DEFAULT,
     avoid_ros_namespace_conventions = False\<rparr>"

definition rmw_qos_profile_services_default :: rmw_qos_profile where
  "rmw_qos_profile_services_default =
    \<lparr>history = RMW_QOS_POLICY_HISTORY_KEEP_LAST, depth = 10,
     reliability = RMW_QOS_POLICY_RELIABILITY_RELIABLE,
     durability = RMW_QOS_POLICY_DURABILITY_VOLATILE,
     deadline = RMW_QOS_DEADLINE_DEFAULT, lifespan = RMW_QOS_LIFESPAN_DEFAULT,
     liveliness = RMW_QOS_POLICY_LIVELINESS_SYSTEM_DEFAULT,
     liveliness_lease_duration = RMW_QOS_LIVELINESS_LEASE_DURATION_DEFAULT,
     avoid_ros_namespace_conventions = False\<rparr>"

definition rmw_qos_profile_parameter_events :: rmw_qos_profile where
  "rmw_qos_profile_parameter_events =
    \<lparr>history = RMW_QOS_POLICY_HISTORY_KEEP_LAST, depth = 1000,
     reliability = RMW_QOS_POLICY_RELIABILITY_RELIABLE,
     durability = RMW_QOS_POLICY_DURABILITY_VOLATILE,
     deadline = RMW_QOS_DEADLINE_DEFAULT, lifespan = RMW_QOS_LIFESPAN_DEFAULT,
     liveliness = RMW_QOS_POLICY_LIVELINESS_SYSTEM_DEFAULT,
     liveliness_lease_duration = RMW_QOS_LIVELINESS_LEASE_DURATION_DEFAULT,
     avoid_ros_namespace_conventions = False\<rparr>"

definition rmw_qos_profile_rosout_default :: rmw_qos_profile where
  "rmw_qos_profile_rosout_default =
    \<lparr>history = RMW_QOS_POLICY_HISTORY_KEEP_LAST, depth = 1000,
     reliability = RMW_QOS_POLICY_RELIABILITY_RELIABLE,
     durability = RMW_QOS_POLICY_DURABILITY_TRANSIENT_LOCAL,
     deadline = RMW_QOS_DEADLINE_DEFAULT, lifespan = \<lparr>sec = 10, nsec = 0\<rparr>,
     liveliness = RMW_QOS_POLICY_LIVELINESS_SYSTEM_DEFAULT,
     liveliness_lease_duration = RMW_QOS_LIVELINESS_LEASE_DURATION_DEFAULT,
     avoid_ros_namespace_conventions = False\<rparr>"

definition rmw_qos_profile_system_default :: rmw_qos_profile where
  "rmw_qos_profile_system_default =
    \<lparr>history = RMW_QOS_POLICY_HISTORY_SYSTEM_DEFAULT, depth = RMW_QOS_POLICY_DEPTH_SYSTEM_DEFAULT,
     reliability = RMW_QOS_POLICY_RELIABILITY_SYSTEM_DEFAULT,
     durability = RMW_QOS_POLICY_DURABILITY_SYSTEM_DEFAULT,
     deadline = RMW_QOS_DEADLINE_DEFAULT, lifespan = RMW_QOS_LIFESPAN_DEFAULT,
     liveliness = RMW_QOS_POLICY_LIVELINESS_SYSTEM_DEFAULT,
     liveliness_lease_duration = RMW_QOS_LIVELINESS_LEASE_DURATION_DEFAULT,
     avoid_ros_namespace_conventions = False\<rparr>"

definition rmw_qos_profile_best_available :: rmw_qos_profile where
  "rmw_qos_profile_best_available =
    \<lparr>history = RMW_QOS_POLICY_HISTORY_KEEP_LAST, depth = 10,
     reliability = RMW_QOS_POLICY_RELIABILITY_BEST_AVAILABLE,
     durability = RMW_QOS_POLICY_DURABILITY_BEST_AVAILABLE,
     deadline = RMW_QOS_DEADLINE_BEST_AVAILABLE, lifespan = RMW_QOS_LIFESPAN_DEFAULT,
     liveliness = RMW_QOS_POLICY_LIVELINESS_BEST_AVAILABLE,
     liveliness_lease_duration = RMW_QOS_LIVELINESS_LEASE_DURATION_BEST_AVAILABLE,
     avoid_ros_namespace_conventions = False\<rparr>"

definition rmw_qos_profile_unknown :: rmw_qos_profile where
  "rmw_qos_profile_unknown =
    \<lparr>history = RMW_QOS_POLICY_HISTORY_UNKNOWN, depth = RMW_QOS_POLICY_DEPTH_SYSTEM_DEFAULT,
     reliability = RMW_QOS_POLICY_RELIABILITY_UNKNOWN,
     durability = RMW_QOS_POLICY_DURABILITY_UNKNOWN,
     deadline = RMW_QOS_DEADLINE_DEFAULT, lifespan = RMW_QOS_LIFESPAN_DEFAULT,
     liveliness = RMW_QOS_POLICY_LIVELINESS_UNKNOWN,
     liveliness_lease_duration = RMW_QOS_LIVELINESS_LEASE_DURATION_DEFAULT,
     avoid_ros_namespace_conventions = False\<rparr>"

definition rcl_qos_profile_rosout_default :: rmw_qos_profile where
  "rcl_qos_profile_rosout_default =
    \<lparr>history = RMW_QOS_POLICY_HISTORY_KEEP_LAST, depth = 1000,
     reliability = RMW_QOS_POLICY_RELIABILITY_RELIABLE,
     durability = RMW_QOS_POLICY_DURABILITY_TRANSIENT_LOCAL,
     deadline = RMW_QOS_DEADLINE_DEFAULT, lifespan = \<lparr>sec = 10, nsec = 0\<rparr>,
     liveliness = RMW_QOS_POLICY_LIVELINESS_SYSTEM_DEFAULT,
     liveliness_lease_duration = RMW_QOS_LIVELINESS_LEASE_DURATION_DEFAULT,
     avoid_ros_namespace_conventions = False\<rparr>"

definition rcl_action_qos_profile_status_default :: rmw_qos_profile where
  "rcl_action_qos_profile_status_default =
    \<lparr>history = RMW_QOS_POLICY_HISTORY_KEEP_LAST, depth = 1,
     reliability = RMW_QOS_POLICY_RELIABILITY_RELIABLE,
     durability = RMW_QOS_POLICY_DURABILITY_TRANSIENT_LOCAL,
     deadline = RMW_QOS_DEADLINE_DEFAULT, lifespan = RMW_QOS_LIFESPAN_DEFAULT,
     liveliness = RMW_QOS_POLICY_LIVELINESS_SYSTEM_DEFAULT,
     liveliness_lease_duration = RMW_QOS_LIVELINESS_LEASE_DURATION_DEFAULT,
     avoid_ros_namespace_conventions = False\<rparr>"

lemmas profile_defs =
  rmw_qos_profile_sensor_data_def
  rmw_qos_profile_parameters_def
  rmw_qos_profile_default_def
  rmw_qos_profile_services_default_def
  rmw_qos_profile_parameter_events_def
  rmw_qos_profile_rosout_default_def
  rmw_qos_profile_system_default_def
  rmw_qos_profile_best_available_def
  rmw_qos_profile_unknown_def
  rcl_qos_profile_rosout_default_def
  rcl_action_qos_profile_status_default_def

lemmas duration_defs =
  RMW_DURATION_INFINITE_def RMW_DURATION_UNSPECIFIED_def RMW_QOS_DEADLINE_DEFAULT_def RMW_QOS_DEADLINE_BEST_AVAILABLE_def
  RMW_QOS_LIFESPAN_DEFAULT_def RMW_QOS_LIVELINESS_LEASE_DURATION_DEFAULT_def
  RMW_QOS_LIVELINESS_LEASE_DURATION_BEST_AVAILABLE_def

definition declared_profiles :: "rmw_qos_profile list" where
  "declared_profiles =
    [rmw_qos_profile_sensor_data, rmw_qos_profile_parameters,
     rmw_qos_profile_default, rmw_qos_profile_services_default,
     rmw_qos_profile_parameter_events, rmw_qos_profile_rosout_default,
     rmw_qos_profile_system_default, rmw_qos_profile_best_available,
     rmw_qos_profile_unknown, rcl_qos_profile_rosout_default,
     rcl_action_qos_profile_status_default]"

text \<open>A profile that leaves a policy open, to the system or to the other side.\<close>

definition settled :: "rmw_qos_profile \<Rightarrow> bool" where
  "settled p \<longleftrightarrow>
     reliability p \<in> {RMW_QOS_POLICY_RELIABILITY_RELIABLE, RMW_QOS_POLICY_RELIABILITY_BEST_EFFORT} \<and>
     durability p \<in> {RMW_QOS_POLICY_DURABILITY_TRANSIENT_LOCAL, RMW_QOS_POLICY_DURABILITY_VOLATILE} \<and>
     history p = RMW_QOS_POLICY_HISTORY_KEEP_LAST \<and> 0 < depth p"

subsection \<open>Properties\<close>

text \<open>The durations mean what the comments say: infinite is the most nanoseconds 64 signed bits hold, and the durations
  that leave the choice to the other side are one nanosecond less, so they are told apart from it. The profiles are
  consistent: those of services, parameters and their events are reliable and keep nothing for late subscribers, those
  of the log and of the status of actions do, both copies of the log profile are the same, and all but the three
  that leave the choice open settle reliability, durability and history, with room for a message.\<close>

theorem qos_profiles_consistent:
  "total_nsec RMW_DURATION_INFINITE = 2 ^ 63 - 1 \<and>
   total_nsec RMW_QOS_DEADLINE_BEST_AVAILABLE = total_nsec RMW_DURATION_INFINITE - 1 \<and>
   RMW_QOS_LIVELINESS_LEASE_DURATION_BEST_AVAILABLE = RMW_QOS_DEADLINE_BEST_AVAILABLE \<and>
   list_all (\<lambda>p. normalised (deadline p) \<and> normalised (lifespan p) \<and> normalised (liveliness_lease_duration p)) declared_profiles \<and>
   rcl_qos_profile_rosout_default = rmw_qos_profile_rosout_default \<and>
   rmw_qos_profile_services_default = rmw_qos_profile_default \<and>
   rmw_qos_profile_parameter_events = rmw_qos_profile_parameters \<and>
   filter (\<lambda>p. durability p = RMW_QOS_POLICY_DURABILITY_TRANSIENT_LOCAL) declared_profiles =
     [rmw_qos_profile_rosout_default, rcl_qos_profile_rosout_default, rcl_action_qos_profile_status_default] \<and>
   filter (\<lambda>p. \<not> settled p) declared_profiles =
     [rmw_qos_profile_system_default, rmw_qos_profile_best_available, rmw_qos_profile_unknown]"
  by (simp add: declared_profiles_def profile_defs duration_defs total_nsec_def normalised_def settled_def
      RMW_QOS_POLICY_DEPTH_SYSTEM_DEFAULT_def)

text \<open>Policies survive being printed and read: for every kind of policy and every policy of reliability, history,
  durability and liveliness, the text the headers document names that one only, so reading it gives the policy back;
  and a text that is read as a known policy is the text of that policy. Kinds combine to a word from which each can be
  read.\<close>

theorem qos_policies_round_trip:
  assumes "r \<noteq> RMW_QOS_POLICY_RELIABILITY_UNKNOWN" "h \<noteq> RMW_QOS_POLICY_HISTORY_UNKNOWN"
    and "d \<noteq> RMW_QOS_POLICY_DURABILITY_UNKNOWN" "l \<noteq> RMW_QOS_POLICY_LIVELINESS_UNKNOWN" "k \<noteq> RMW_QOS_POLICY_INVALID"
  shows "policy_of_text reliability_names ''RMW_QOS_POLICY_RELIABILITY_'' RMW_QOS_POLICY_RELIABILITY_UNKNOWN
      (the (policy_text reliability_names ''RMW_QOS_POLICY_RELIABILITY_'' RMW_QOS_POLICY_RELIABILITY_UNKNOWN r)) = r \<and>
    policy_of_text history_names ''RMW_QOS_POLICY_HISTORY_'' RMW_QOS_POLICY_HISTORY_UNKNOWN
      (the (policy_text history_names ''RMW_QOS_POLICY_HISTORY_'' RMW_QOS_POLICY_HISTORY_UNKNOWN h)) = h \<and>
    policy_of_text durability_names ''RMW_QOS_POLICY_DURABILITY_'' RMW_QOS_POLICY_DURABILITY_UNKNOWN
      (the (policy_text durability_names ''RMW_QOS_POLICY_DURABILITY_'' RMW_QOS_POLICY_DURABILITY_UNKNOWN d)) = d \<and>
    policy_of_text liveliness_names ''RMW_QOS_POLICY_LIVELINESS_'' RMW_QOS_POLICY_LIVELINESS_UNKNOWN
      (the (policy_text liveliness_names ''RMW_QOS_POLICY_LIVELINESS_'' RMW_QOS_POLICY_LIVELINESS_UNKNOWN l)) = l \<and>
    policy_of_text policy_kind_names ''RMW_QOS_POLICY_'' RMW_QOS_POLICY_INVALID
      (the (policy_text policy_kind_names ''RMW_QOS_POLICY_'' RMW_QOS_POLICY_INVALID k)) = k \<and>
    (policy_of_text policy_kind_names ''RMW_QOS_POLICY_'' RMW_QOS_POLICY_INVALID s \<noteq> RMW_QOS_POLICY_INVALID \<longrightarrow>
      policy_text policy_kind_names ''RMW_QOS_POLICY_'' RMW_QOS_POLICY_INVALID
        (policy_of_text policy_kind_names ''RMW_QOS_POLICY_'' RMW_QOS_POLICY_INVALID s) = Some s) \<and>
    (has_flag policy_kind_value (combine policy_kind_value ks) k \<longleftrightarrow> k \<in> set ks)"
  using reliability.round_trip [OF assms(1)] history.round_trip [OF assms(2)] durability.round_trip [OF assms(3)]
    liveliness.round_trip [OF assms(4)] kinds.round_trip [OF assms(5)] kinds.reads_back [of s]
    policy_kind.has_flag_combine [of ks k]
  by simp

theorem qos_policies_round_trip_witness:
  "policy_of_text reliability_names ''RMW_QOS_POLICY_RELIABILITY_'' RMW_QOS_POLICY_RELIABILITY_UNKNOWN ''best_effort'' =
     RMW_QOS_POLICY_RELIABILITY_BEST_EFFORT"
  using qos_policies_round_trip [of RMW_QOS_POLICY_RELIABILITY_BEST_EFFORT RMW_QOS_POLICY_HISTORY_KEEP_LAST
      RMW_QOS_POLICY_DURABILITY_VOLATILE RMW_QOS_POLICY_LIVELINESS_AUTOMATIC RMW_QOS_POLICY_DEADLINE "[]" "[]", THEN conjunct1]
  by (simp add: best_effort_text)

end
