(* ===== verification/Tracetools.thy ===== *)
theory Tracetools
  imports Header_Symbols
begin

text \<open>
  The macros of \<^verbatim>\<open>tracetools/tracetools.h\<close>. A tracepoint takes the name of an event and its arguments; which of two
  macros it becomes is decided by counting the arguments of the preprocessor. An argument is its text; the expansion is
  a call, text to the compiler, or nothing when the program does not compile. The build of the repository disables
  tracing (\<^verbatim>\<open>tracetools/config.h\<close>). The functions that write a trace are in the library, so are those of
  \<^verbatim>\<open>tracetools/utils.hpp\<close> that look up and demangle a symbol.
\<close>

subsection \<open>Selection by the number of arguments\<close>

text \<open>\<^verbatim>\<open>_GET_MACRO\<close> has ten parameters and yields the eleventh argument; there must be one more for the dots.\<close>

definition GET_MACRO :: "string list \<Rightarrow> string option" where
  "GET_MACRO xs = (if length xs \<ge> 12 then Some (xs ! 10) else None)"

definition GET_MACRO_TRACEPOINT :: "string list \<Rightarrow> string option" where
  "GET_MACRO_TRACEPOINT va_args =
     GET_MACRO (va_args @ replicate 9 ''_TRACEPOINT_ARGS'' @ [''_TRACEPOINT_NOARGS'', ''shoud_not_be_called_without_any_arguments''])"

definition GET_MACRO_DO_TRACEPOINT :: "string list \<Rightarrow> string option" where
  "GET_MACRO_DO_TRACEPOINT va_args =
     GET_MACRO (va_args @ replicate 9 ''_DO_TRACEPOINT_ARGS'' @ [''_DO_TRACEPOINT_NOARGS'', ''shoud_not_be_called_without_any_arguments''])"

definition GET_MACRO_DECLARE_TRACEPOINT :: "string list \<Rightarrow> string option" where
  "GET_MACRO_DECLARE_TRACEPOINT va_args =
     GET_MACRO (va_args @ replicate 9 ''_DECLARE_TRACEPOINT_ARGS'' @
       [''_DECLARE_TRACEPOINT_NOARGS'', ''shoud_not_be_called_without_any_arguments''])"

subsection \<open>Expansion\<close>

definition FUNC_TRACEPOINT :: "string \<Rightarrow> string" where
  "FUNC_TRACEPOINT event_name = ''ros_trace_'' @ event_name"

definition FUNC_TRACEPOINT_ENABLED :: "string \<Rightarrow> string" where
  "FUNC_TRACEPOINT_ENABLED event_name = ''ros_trace_enabled_'' @ event_name"

definition FUNC_DO_TRACEPOINT :: "string \<Rightarrow> string" where
  "FUNC_DO_TRACEPOINT event_name = ''ros_trace_do_'' @ event_name"

datatype code = Call_function string "string list" | Constant string | Unknown_macro string "string list"

definition TRACEPOINT_NOARGS :: "string \<Rightarrow> code" where
  "TRACEPOINT_NOARGS event_name = Call_function (FUNC_TRACEPOINT event_name) []"

definition TRACEPOINT_ARGS :: "string \<Rightarrow> string list \<Rightarrow> code" where
  "TRACEPOINT_ARGS event_name va_args = Call_function (FUNC_TRACEPOINT event_name) va_args"

definition DO_TRACEPOINT_NOARGS :: "string \<Rightarrow> code" where
  "DO_TRACEPOINT_NOARGS event_name = Call_function (FUNC_DO_TRACEPOINT event_name) []"

definition DO_TRACEPOINT_ARGS :: "string \<Rightarrow> string list \<Rightarrow> code" where
  "DO_TRACEPOINT_ARGS event_name va_args = Call_function (FUNC_DO_TRACEPOINT event_name) va_args"

definition DECLARE_TRACEPOINT_NOARGS :: "string \<Rightarrow> prototype list" where
  "DECLARE_TRACEPOINT_NOARGS event_name =
     [Prototype Void (FUNC_TRACEPOINT event_name) (Some []), Prototype Bool (FUNC_TRACEPOINT_ENABLED event_name) (Some []),
      Prototype Void (FUNC_DO_TRACEPOINT event_name) (Some [])]"

definition DECLARE_TRACEPOINT_ARGS :: "string \<Rightarrow> decl_type list \<Rightarrow> prototype list" where
  "DECLARE_TRACEPOINT_ARGS event_name ps =
     [Prototype Void (FUNC_TRACEPOINT event_name) (Some ps), Prototype Bool (FUNC_TRACEPOINT_ENABLED event_name) (Some []),
      Prototype Void (FUNC_DO_TRACEPOINT event_name) (Some ps)]"

text \<open>A selected macro applied to the arguments; any other name is none the header defines. The first argument is the
  event.\<close>

definition apply_macro :: "string \<Rightarrow> string list \<Rightarrow> code" where
  "apply_macro name args =
     (if name = ''_TRACEPOINT_NOARGS'' \<and> length args = 1 then TRACEPOINT_NOARGS (hd args)
      else if name = ''_TRACEPOINT_ARGS'' \<and> args \<noteq> [] then TRACEPOINT_ARGS (hd args) (tl args)
      else if name = ''_DO_TRACEPOINT_NOARGS'' \<and> length args = 1 then DO_TRACEPOINT_NOARGS (hd args)
      else if name = ''_DO_TRACEPOINT_ARGS'' \<and> args \<noteq> [] then DO_TRACEPOINT_ARGS (hd args) (tl args)
      else Unknown_macro name args)"

text \<open>The three macros a program uses, by whether tracing is disabled.\<close>

definition TRACETOOLS_TRACEPOINT :: "bool \<Rightarrow> string list \<Rightarrow> code option" where
  "TRACETOOLS_TRACEPOINT disabled va_args =
     (if disabled then Some (Constant ''((void) (0))'')
      else map_option (\<lambda>name. apply_macro name va_args) (GET_MACRO_TRACEPOINT va_args))"

definition TRACETOOLS_TRACEPOINT_ENABLED :: "bool \<Rightarrow> string \<Rightarrow> code" where
  "TRACETOOLS_TRACEPOINT_ENABLED disabled event_name =
     (if disabled then Constant ''false'' else Call_function (FUNC_TRACEPOINT_ENABLED event_name) [])"

definition TRACETOOLS_DO_TRACEPOINT :: "bool \<Rightarrow> string list \<Rightarrow> code option" where
  "TRACETOOLS_DO_TRACEPOINT disabled va_args =
     (if disabled then Some (Constant ''((void) (0))'')
      else map_option (\<lambda>name. apply_macro name va_args) (GET_MACRO_DO_TRACEPOINT va_args))"

text \<open>The declaration of a tracepoint with an event and a list of parameters.\<close>

definition DECLARE_TRACEPOINT :: "bool \<Rightarrow> string \<Rightarrow> decl_type list \<Rightarrow> prototype list option" where
  "DECLARE_TRACEPOINT disabled event_name ps =
     (if disabled then Some []
      else Option.bind (GET_MACRO_DECLARE_TRACEPOINT (replicate (Suc (length ps)) event_name)) (\<lambda>name.
        if name = ''_DECLARE_TRACEPOINT_NOARGS'' \<and> ps = [] then Some (DECLARE_TRACEPOINT_NOARGS event_name)
        else if name = ''_DECLARE_TRACEPOINT_ARGS'' then Some (DECLARE_TRACEPOINT_ARGS event_name ps)
        else None))"

text \<open>The build of the repository.\<close>

definition TRACETOOLS_DISABLED :: bool where "TRACETOOLS_DISABLED = True"

subsection \<open>The tracepoints\<close>

definition tracepoints_1 :: "(string \<times> decl_type list) list" where
  "tracepoints_1 =
    [(''rcl_init'', [Ptr (Const Void)]),
     (''rcl_node_init'', [Ptr (Const Void), Ptr (Const Void), Ptr (Const (Named ''char'')), Ptr (Const (Named ''char''))]),
     (''rmw_publisher_init'', [Ptr (Const Void), Ptr (Const (Named ''uint8_t''))]),
     (''rcl_publisher_init'', [Ptr (Const Void), Ptr (Const Void), Ptr (Const Void), Ptr (Const (Named ''char'')), Const Size]),
     (''rclcpp_publish'', [Ptr (Const Void), Ptr (Const Void)]),
     (''rclcpp_intra_publish'', [Ptr (Const Void), Ptr (Const Void)]),
     (''rcl_publish'', [Ptr (Const Void), Ptr (Const Void)]),
     (''rmw_publish'', [Ptr (Const Void), Ptr (Const Void), Named ''int64_t'']),
     (''rmw_subscription_init'', [Ptr (Const Void), Ptr (Const (Named ''uint8_t''))]),
     (''rcl_subscription_init'', [Ptr (Const Void), Ptr (Const Void), Ptr (Const Void), Ptr (Const (Named ''char'')), Const Size])]"

definition tracepoints_2 :: "(string \<times> decl_type list) list" where
  "tracepoints_2 =
    [(''rclcpp_subscription_init'', [Ptr (Const Void), Ptr (Const Void)]),
     (''rclcpp_subscription_callback_added'', [Ptr (Const Void), Ptr (Const Void)]),
     (''rmw_take'', [Ptr (Const Void), Ptr (Const Void), Named ''int64_t'', Const Bool]),
     (''rcl_take'', [Ptr (Const Void)]),
     (''rclcpp_take'', [Ptr (Const Void)]),
     (''rcl_service_init'', [Ptr (Const Void), Ptr (Const Void), Ptr (Const Void), Ptr (Const (Named ''char''))]),
     (''rclcpp_service_callback_added'', [Ptr (Const Void), Ptr (Const Void)]),
     (''rmw_take_request'', [Ptr (Const Void), Ptr (Const Void), Ptr (Const (Named ''uint8_t'')), Named ''int64_t'', Const Bool]),
     (''rmw_send_response'', [Ptr (Const Void), Ptr (Const Void), Ptr (Const (Named ''uint8_t'')), Named ''int64_t'', Named ''int64_t'']),
     (''rmw_client_init'', [Ptr (Const Void), Ptr (Const (Named ''uint8_t''))])]"

definition tracepoints_3 :: "(string \<times> decl_type list) list" where
  "tracepoints_3 =
    [(''rcl_client_init'', [Ptr (Const Void), Ptr (Const Void), Ptr (Const Void), Ptr (Const (Named ''char''))]),
     (''rmw_send_request'', [Ptr (Const Void), Ptr (Const Void), Named ''int64_t'']),
     (''rmw_take_response'', [Ptr (Const Void), Ptr (Const Void), Named ''int64_t'', Named ''int64_t'', Const Bool]),
     (''rcl_timer_init'', [Ptr (Const Void), Named ''int64_t'']),
     (''rclcpp_timer_callback_added'', [Ptr (Const Void), Ptr (Const Void)]),
     (''rclcpp_timer_link_node'', [Ptr (Const Void), Ptr (Const Void)]),
     (''rclcpp_callback_register'', [Ptr (Const Void), Ptr (Const (Named ''char''))]),
     (''callback_start'', [Ptr (Const Void), Const Bool]),
     (''callback_end'', [Ptr (Const Void)]),
     (''rcl_lifecycle_state_machine_init'', [Ptr (Const Void), Ptr (Const Void)])]"

definition tracepoints_4 :: "(string \<times> decl_type list) list" where
  "tracepoints_4 =
    [(''rcl_lifecycle_transition'', [Ptr (Const Void), Ptr (Const (Named ''char'')), Ptr (Const (Named ''char''))]),
     (''rclcpp_executor_get_next_ready'', []),
     (''rclcpp_executor_wait_for_work'', [Const (Named ''int64_t'')]),
     (''rclcpp_executor_execute'', [Ptr (Const Void)]),
     (''rclcpp_ipb_to_subscription'', [Ptr (Const Void), Ptr (Const Void)]),
     (''rclcpp_buffer_to_ipb'', [Ptr (Const Void), Ptr (Const Void)]),
     (''rclcpp_construct_ring_buffer'', [Ptr (Const Void), Const (Named ''uint64_t'')]),
     (''rclcpp_ring_buffer_enqueue'', [Ptr (Const Void), Const (Named ''uint64_t''), Const (Named ''uint64_t''), Const Bool]),
     (''rclcpp_ring_buffer_dequeue'', [Ptr (Const Void), Const (Named ''uint64_t''), Const (Named ''uint64_t'')]),
     (''rclcpp_ring_buffer_clear'', [Ptr (Const Void)])]"

definition declared_tracepoints :: "(string \<times> decl_type list) list" where
  "declared_tracepoints = tracepoints_1 @ tracepoints_2 @ tracepoints_3 @ tracepoints_4"

lemmas tracepoint_defs = declared_tracepoints_def tracepoints_1_def tracepoints_2_def tracepoints_3_def tracepoints_4_def

subsection \<open>Symbols of callbacks\<close>

text \<open>The symbol of a function object is that of its target if it is a plain function, and else made from its type; for
  any other object from its type.\<close>

definition get_symbol_function ::
  "('ptr \<Rightarrow> string option) \<Rightarrow> (string \<Rightarrow> string option) \<Rightarrow> 'ptr option \<Rightarrow> string \<Rightarrow> string option" where
  "get_symbol_function get_symbol_funcptr demangle_symbol target target_type_name =
     (case target of Some funcptr \<Rightarrow> get_symbol_funcptr funcptr | None \<Rightarrow> demangle_symbol target_type_name)"

definition get_symbol_object :: "(string \<Rightarrow> string option) \<Rightarrow> string \<Rightarrow> string option" where
  "get_symbol_object demangle_symbol type_name = demangle_symbol type_name"

subsection \<open>Helper lemmas\<close>

lemma get_macro_selects:
  assumes "args \<noteq> []" "length args \<le> 10"
  shows "GET_MACRO (args @ replicate 9 a @ [b, c]) = Some (if length args = 1 then b else a)"
proof (cases "length args = 1")
  case True
  then show ?thesis by (simp add: GET_MACRO_def nth_append)
next
  case False
  moreover have "length args \<noteq> 0" using assms(1) by simp
  ultimately have "2 \<le> length args" "10 - length args < 9" by linarith+
  then show ?thesis using assms(2) by (simp add: GET_MACRO_def nth_append)
qed

lemma get_macro_takes_argument:
  assumes "10 < length args"
  shows "GET_MACRO (args @ replicate 9 a @ [b, c]) = Some (args ! 10)"
  using assms by (simp add: GET_MACRO_def nth_append)

lemma tracepoint_call:
  assumes "length args \<le> 9"
  shows "TRACETOOLS_TRACEPOINT False (event # args) = Some (Call_function (FUNC_TRACEPOINT event) args)"
    and "TRACETOOLS_DO_TRACEPOINT False (event # args) = Some (Call_function (FUNC_DO_TRACEPOINT event) args)"
proof -
  have selected: "GET_MACRO ((event # args) @ replicate 9 a @ [b, c]) = Some (if args = [] then b else a)" for a b c
    using get_macro_selects [of "event # args" a b c] assms by (simp del: append_Cons replicate.simps)
  show "TRACETOOLS_TRACEPOINT False (event # args) = Some (Call_function (FUNC_TRACEPOINT event) args)"
    unfolding TRACETOOLS_TRACEPOINT_def GET_MACRO_TRACEPOINT_def selected
    by (simp add: apply_macro_def TRACEPOINT_NOARGS_def TRACEPOINT_ARGS_def)
  show "TRACETOOLS_DO_TRACEPOINT False (event # args) = Some (Call_function (FUNC_DO_TRACEPOINT event) args)"
    unfolding TRACETOOLS_DO_TRACEPOINT_def GET_MACRO_DO_TRACEPOINT_def selected
    by (simp add: apply_macro_def DO_TRACEPOINT_NOARGS_def DO_TRACEPOINT_ARGS_def)
qed

lemma tracepoint_declared:
  assumes "length ps \<le> 9"
  shows "DECLARE_TRACEPOINT False event ps = Some (DECLARE_TRACEPOINT_ARGS event ps)"
  using assms get_macro_selects [of "replicate (Suc (length ps)) event"]
  by (simp add: DECLARE_TRACEPOINT_def GET_MACRO_DECLARE_TRACEPOINT_def DECLARE_TRACEPOINT_NOARGS_def DECLARE_TRACEPOINT_ARGS_def
      del: replicate_Suc)

subsection \<open>Properties\<close>

text \<open>C36. A tracepoint calls the function declared for it with its arguments. With tracing enabled, for every
  tracepoint of the header the declaration declares three functions, and the macros, given the event and as many
  arguments as it has parameters, call the two of them that trace, with just these arguments. With an argument more than
  the nine the header allows, the macro selected is an argument. In this build every tracepoint is a constant and
  nothing is declared.\<close>

theorem tracepoints_call_declared:
  "list_all (\<lambda>(event, ps).
     DECLARE_TRACEPOINT False event ps =
       Some [Prototype Void (''ros_trace_'' @ event) (Some ps), Prototype Bool (''ros_trace_enabled_'' @ event) (Some []),
             Prototype Void (''ros_trace_do_'' @ event) (Some ps)] \<and>
     (\<forall>args. length args = length ps \<longrightarrow>
       TRACETOOLS_TRACEPOINT False (event # args) = Some (Call_function (''ros_trace_'' @ event) args) \<and>
       TRACETOOLS_DO_TRACEPOINT False (event # args) = Some (Call_function (''ros_trace_do_'' @ event) args)))
     declared_tracepoints \<and>
   (length va_args = 11 \<longrightarrow> GET_MACRO_TRACEPOINT va_args = Some (last va_args)) \<and>
   TRACETOOLS_TRACEPOINT TRACETOOLS_DISABLED va_args = Some (Constant ''((void) (0))'') \<and>
   DECLARE_TRACEPOINT TRACETOOLS_DISABLED event0 ps0 = Some []"
proof (intro conjI)
  have "list_all (\<lambda>(event, ps). length ps \<le> 9) declared_tracepoints" by (simp add: tracepoint_defs)
  then show "list_all (\<lambda>(event, ps).
     DECLARE_TRACEPOINT False event ps =
       Some [Prototype Void (''ros_trace_'' @ event) (Some ps), Prototype Bool (''ros_trace_enabled_'' @ event) (Some []),
             Prototype Void (''ros_trace_do_'' @ event) (Some ps)] \<and>
     (\<forall>args. length args = length ps \<longrightarrow>
       TRACETOOLS_TRACEPOINT False (event # args) = Some (Call_function (''ros_trace_'' @ event) args) \<and>
       TRACETOOLS_DO_TRACEPOINT False (event # args) = Some (Call_function (''ros_trace_do_'' @ event) args)))
     declared_tracepoints"
    by (rule list.pred_mono_strong)
      (auto simp: tracepoint_declared tracepoint_call DECLARE_TRACEPOINT_ARGS_def FUNC_TRACEPOINT_def FUNC_DO_TRACEPOINT_def
        FUNC_TRACEPOINT_ENABLED_def)
  show "length va_args = 11 \<longrightarrow> GET_MACRO_TRACEPOINT va_args = Some (last va_args)"
    using last_conv_nth [of va_args] unfolding GET_MACRO_TRACEPOINT_def
    by (cases "va_args = []") (simp_all add: get_macro_takes_argument)
qed (simp_all add: TRACETOOLS_TRACEPOINT_def DECLARE_TRACEPOINT_def TRACETOOLS_DISABLED_def)

theorem tracepoints_call_declared_witness:
  "TRACETOOLS_TRACEPOINT False [''rmw_take'', ''h'', ''m'', ''t'', ''k''] =
     Some (Call_function ''ros_trace_rmw_take'' [''h'', ''m'', ''t'', ''k''])"
proof -
  have "(''rmw_take'', [Ptr (Const Void), Ptr (Const Void), Named ''int64_t'', Const Bool]) \<in> set declared_tracepoints"
    by (simp add: tracepoint_defs)
  then show ?thesis
    using tracepoints_call_declared [of "[]" "[]" "[]", THEN conjunct1]
    by (fastforce simp: list_all_iff)
qed

end
