(* ===== verification/Spec2Isabelle.thy ===== *)
theory Spec2Isabelle
  imports Rcl_Basics Arduino_Clock Arduino_Transport Reconnection Sketch_Runtime Simple_Sketches
    Time_Sync Sound_Meter Imu_Sketch Sensor_Table Message_Structs Message_Sketches
    Middleware_Config Rcutils_Atomics Rcutils_Logging Board_Logging Rcutils_Errors Check_Macros
    Rcutils_Containers Return_Codes Xrce_Types Uxr_Locks Typesupport_Symbols Field_Types Key_Value
    Interface_Types Interfaces_Basic Interfaces_Robot Interfaces_Test Interface_Constants Interface_Contracts
    Test_Messages Message_Fixtures Service_Fixtures Fixture_Contracts
    Header_Symbols Header_Names Functions_Basic Functions_Robot Functions_Test Support_Basic Support_Robot Support_Test
    Generated_Headers Header_Contracts Xrce_Payloads Rmw_Names Qos_Policies Tracetools
begin

text \<open>
  A verification library for micro_ros_arduino, the Arduino package of the micro-ROS client.

  The repository. The client library itself (rcl, rclc, rmw_microxrcedds and the XRCE-DDS
  client) comes as precompiled archives; what the repository has as source is the code around
  it: the transports and the clock with which the library reaches the board
  (\<^verbatim>\<open>src/default_transport.cpp\<close>, \<^verbatim>\<open>src/wifi_transport.cpp\<close>,
  \<^verbatim>\<open>src/native_ethernet_transport.cpp\<close>, \<^verbatim>\<open>src/micro_ros_arduino.h\<close>), the sketches under
  \<^verbatim>\<open>examples/\<close>, and the headers of the library, of which those below hold code: macros,
  inline functions and tables that are compiled into every program. A sketch installs a
  transport, then calls the client library, which calls the four callbacks of the transport and
  \<open>clock_gettime\<close>; the library and the sketches log, report errors and synchronise through the
  macros of rcutils.

  Theories, in the order of the layers. Each models its component with the names of the source,
  has a subsection with the helper lemmas and ends with the properties.

  \<open>Prelude\<close>: names of the C integer types, facts on words, bytes and quotients.

  \<open>Rcl_Basics\<close>: the success codes and the time conversions of \<^verbatim>\<open>rcutils/time.h\<close> and \<^verbatim>\<open>rcl/time.h\<close>.
  The interface \<open>time_unit\<close> (a unit that is a whole number of nanoseconds) is interpreted by seconds,
  milliseconds and microseconds. Shown: the conversions round-trip within 64 bits and truncate towards zero.

  \<open>Arduino_Clock\<close>: \<open>clock_gettime\<close> of \<^verbatim>\<open>default_transport.cpp\<close>. Its two static variables are
  the record \<open>clock_static\<close>; a run is the list of the values of \<open>micros()\<close>. The interface
  \<open>clock_source\<close> (a reading that tracks the true time) is interpreted by \<open>board_clock\<close>. Shown:
  the reading is the true time less one microsecond per wrap, never goes back, is normalised,
  and is wrong by a whole period after a wrap nobody read.

  \<open>Arduino_Transport\<close>: the callbacks of the three transports and the functions that install
  them. Devices are records of their operations on an arbitrary world. The waiting loops are
  \<open>partial_function\<close>s whose \<open>None\<close> is a loop that never ends; the interface \<open>deadline_loop\<close>
  (what one iteration does as long as the clock has not wrapped) is interpreted by the loops
  \<open>wifi\<close> and \<open>ethernet\<close>. Shown: the reads return in time, what they return on an error, that
  a timeout of 0 never looks for a packet, that writes do not notice an unsent packet, and when
  the installation returns.

  \<open>Reconnection\<close>: the sketch \<^verbatim>\<open>micro-ros_reconnection_example\<close>. The globals and the statics of
  the timed macro are the record \<open>sketch\<close>, with a log of the calls to the client library as a
  ghost; runs are the inductive predicate \<open>reachable\<close>. The specification is the relation
  \<open>agent_step\<close> on states and live entities. The interface \<open>static_var\<close> of a timed macro is
  interpreted by its two expansions, \<open>waiting\<close> and \<open>connected\<close>. Shown: the sketch refines the
  specification, its calls are disciplined, its pings are spaced, it reconnects in four
  iterations, and creation stops at the first failure.

  \<open>Sketch_Runtime\<close>: what the sketches share, the checking macros, the loop a failed check ends in and
  the spin of the executor, on a board (\<open>arduino\<close>) and a client library (\<open>library\<close>) that are records of
  operations. A loop that never ends is \<open>forever\<close>, cut after a number of iterations that every theorem
  about it quantifies over. The interface \<open>checked_setup\<close> says that a set-up prepares the board, makes the
  calls of a plan one after another and finishes; it is interpreted by the set-ups of the eleven sketches
  below. Shown in it: a set-up returns exactly when all calls succeed, and what it has done when one fails.

  \<open>Simple_Sketches\<close>: the four publishers, the two subscribers and the service
  (\<^verbatim>\<open>micro-ros_publisher\<close>, \<^verbatim>\<open>_publisher_wifi\<close>, \<^verbatim>\<open>_publisher_wifi_at\<close>, \<^verbatim>\<open>_publisher_ethernet\<close>,
  \<^verbatim>\<open>_subscriber\<close>, \<^verbatim>\<open>_subscriber_twist\<close>, \<^verbatim>\<open>_addtwoints_service\<close>). Shown: the order of the calls and the stop
  at the first failure, that the publications count up, that the LED shows the last message, that the
  service adds, and the byte order of the hardware address.

  \<open>Time_Sync\<close>: the sketch \<^verbatim>\<open>micro-ros_time_sync\<close> with the conversions of \<open>sprintf\<close> it uses. Shown: the date
  fits its buffer, and when the printed milliseconds are those of the time.

  \<open>Sound_Meter\<close>: the sketch \<^verbatim>\<open>micro-ros_decibels\<close>, whose loop and interrupt share two variables; a run is a
  schedule of loop steps and interrupts. Shown: what is published when no interrupt falls between reading
  and clearing them, and what is lost when one does.

  \<open>Imu_Sketch\<close>: the sketch \<^verbatim>\<open>micro-ros_IMU_ML\<close>, likewise interleaved with its interrupt. Shown: every
  interrupt is served within seven steps, and what an iteration publishes. \<open>Sensor_Table\<close>: the table of 2224
  register writes with which it programs the sensor. Shown: the table is a sequence of writes to increasing
  addresses of the embedded memory, each line of which reaches its bank on any sensor that has banks.

  \<open>Message_Structs\<close>: sequences, strings and the message structs of the next theory, as the generated
  headers declare them. \<open>Message_Sketches\<close>: the sketches \<^verbatim>\<open>micro-ros_tf_publisher\<close> and
  \<^verbatim>\<open>micro-ros_types_handling\<close>; what writes through a null pointer or past an array has no result. Shown: the
  quaternion is a product of rotations and has norm 1, what is published, when the messages can be filled
  and that they come out well formed, and that a failed allocation is not noticed.

  \<open>Middleware_Config\<close>: the sizes of \<^verbatim>\<open>rmw_microxrcedds_c/config.h\<close> and \<^verbatim>\<open>uxr/client/config.h\<close>. The interface
  \<open>pool_user\<close> (a set-up that stays within the pools and turns that claim nothing) is interpreted by the eleven
  sketches of the theories above. Shown: none of them ever asks the middleware for more than it has room for.

  \<open>Rmw_Names\<close>: the lengths and the results of the checks of names, with the rules that the headers document for them
  as a specification. Shown: the names all eleven sketches give are valid, also where the library puts them together with a
  namespace. \<open>Qos_Policies\<close>: the policies, durations and profiles of quality of service. The interface \<open>policy_names\<close>
  (complete names that are told apart in lower case) is interpreted by the four policies and their kinds, and
  \<open>flag_masks\<close> of \<open>Xrce_Types\<close> by the kinds. Shown: the documented texts are unambiguous, and the profiles are
  consistent.

  \<open>Rcutils_Atomics\<close>: the portable atomics of \<^verbatim>\<open>rcutils/stdatomic_helper\<close> over three compilers
  and Windows. The interface \<open>atomic_cell\<close> is interpreted by the 64-bit and the boolean
  operations. Shown: the back ends agree, tickets are unique, an exchange has one winner, the
  Windows macros are the C11 operations except where they are not.

  \<open>Rcutils_Logging\<close>: the conditions of \<^verbatim>\<open>rcutils/logging_macros.h\<close> and its 70 macros, one
  definition each; \<open>expand\<close> names them by severity, condition and logger. The interface
  \<open>counted_condition\<close> is interpreted by the plain, once and skip-first conditions, and
  \<open>throttled_condition\<close> extends it for those that stand inside a throttle. Shown: the macros
  are instances of one template, what each kind logs over a run of any length, and that a
  disabled logger evaluates nothing.

  \<open>Board_Logging\<close>: the throttled macros of \<open>Rcutils_Logging\<close> on the clock of \<open>Arduino_Clock\<close>, in a world where time
  goes by between and during the calls. Shown: messages are never closer than the duration, and a message is
  only suppressed if one was logged less than the duration, and a microsecond per wrap of the counter, before.

  \<open>Tracetools\<close>: the trace point macros of \<^verbatim>\<open>tracetools/tracetools.h\<close>, which count their arguments, and the 40 trace points
  it declares. Shown: with tracing enabled a trace point calls the function declared for it; in this build it is nothing.

  \<open>Rcutils_Errors\<close>: the macros of \<^verbatim>\<open>rcutils/error_handling.h\<close> and
  \<^verbatim>\<open>rcutils/testing/fault_injection.h\<close> as a function of the flags of the build. Shown: what
  they do in this build and in a full one, and when a fault injection test returns.

  \<open>Check_Macros\<close>: the checks the middleware and the client library add: of type identifiers
  (\<^verbatim>\<open>rmw/check_type_identifiers_match.h\<close>, \<^verbatim>\<open>rmw_microxrcedds_c/rmw_c_macros.h\<close>), of return codes, around
  constructors and destructors, the reports of \<^verbatim>\<open>rclc/types.h\<close> and the version tests. Shown: no check leaks
  its message, how the two checks of one name differ, which error of a chain is returned.

  \<open>Rcutils_Containers\<close>: the code in the headers of the containers, the sort of a string array, the checks of the
  hash map and of the array list, the comparison of goal identifiers and the name of a C++ type. The interface
  \<open>container_check\<close> (what a function that starts with the check relies on) is interpreted by both checks.
  Shown: the sort orders, given a sort routine that does what its header says; bodies run on initialised
  containers only; a demangled name never leaks, and is made where it should not be.

  \<open>Return_Codes\<close>: the return codes of rcutils, rmw, rcl and rclc as tables. Shown: which codes a caller of rcl
  understands when they reach it unconverted, and the one rclc uses twice.

  \<open>Xrce_Types\<close>: the constants and flags of the wire protocol. The interface \<open>flag_masks\<close> (a bit of its own for
  each flag) is interpreted by the four kinds of flags. Shown: combined flags are read back, the two headers that
  declare the object kinds agree.

  \<open>Xrce_Payloads\<close>: the 113 structs and unions of \<^verbatim>\<open>uxr/client/core/type/xrce_types.h\<close>, their capacities and the
  declarations of their encoders and decoders. Shown: optional members, sequences and unions follow the flag, number or
  selector that a decoder needs to read them, every struct has an encoder and a decoder but one, and the payloads that
  control a session fit into a packet.

  \<open>Uxr_Locks\<close>: the lock macros of \<^verbatim>\<open>uxr/client/profile/multithread/multithread.h\<close> as sequences of operations
  on mutexes, and any number of threads that run them as the inductive relation \<open>lock_step\<close>. Shown: they never
  deadlock and always end, and one thread at a time holds all input streams.

  \<open>Typesupport_Symbols\<close>: the macros of \<^verbatim>\<open>rosidl_typesupport_interface/macros.h\<close> that build the symbols of the
  generated type support, and those of \<^verbatim>\<open>rosidl_runtime_c\<close> with which the sketches call them. Shown: a symbol can
  be read back, so a program gets the type support of the interface it asks for.

  \<open>Field_Types\<close>: the constants of message field types in two headers and the aliases of a
  third, against the structure their comments document. Shown: they agree and round-trip; two
  offsets are exchanged.

  \<open>Key_Value\<close>: the parser of \<^verbatim>\<open>rmw/impl/cpp/key_value.hpp\<close>. Shown: it inverts printing, yields
  only good entries on any input, and does not escape a doubled semicolon as its code means to.

  \<open>Interface_Types\<close>: interfaces as the generated headers declare them, a name and typed members, with functions over
  them. \<open>Interfaces_Basic\<close>, \<open>Interfaces_Robot\<close>, \<open>Interfaces_Test\<close>: the 423 interfaces of the 26 packages and of the type
  descriptions of \<^verbatim>\<open>rosidl_runtime_c\<close>, one definition each, from the headers \<^verbatim>\<open>*__struct.h\<close>.
  \<open>Interface_Constants\<close>: the constants that interfaces and the library share. \<open>Interface_Contracts\<close> shows what the
  library and the sketches rely on: all actions and services follow one protocol, nesting is at most eight deep,
  the two declarations of type descriptions agree, and the sketches that provide no memory for their messages
  need none.

  \<open>Header_Symbols\<close>: what the other generated headers declare, functions and type support, with the symbols and the C
  types of the declarations. \<open>Functions_Basic\<close>, \<open>Functions_Robot\<close>, \<open>Functions_Test\<close>: the functions of 487 messages,
  services and actions, from the headers \<^verbatim>\<open>*__functions.h\<close>. \<open>Support_Basic\<close>, \<open>Support_Robot\<close>, \<open>Support_Test\<close>: the three
  kinds of type support of 262 interfaces. \<open>Generated_Headers\<close> is the inventory of the five headers of each interface,
  \<open>Header_Names\<close> has the lemmas on names. \<open>Header_Contracts\<close> shows what a program that includes and links all of it
  relies on: the five headers of an interface are those of one generator, no two of the declarations share a
  symbol, and the macros of \<open>Typesupport_Symbols\<close> find the type support of every interface.

  \<open>Test_Messages\<close>: the messages of \<^verbatim>\<open>test_msgs\<close> with the bounds of their sequences. \<open>Message_Fixtures\<close>,
  \<open>Service_Fixtures\<close>: the functions of \<^verbatim>\<open>message_fixtures.hpp\<close> and \<^verbatim>\<open>service_fixtures.hpp\<close> that build what the tests
  send; an exception of a bounded sequence is \<open>None\<close>. \<open>Fixture_Contracts\<close> shows what a test relies on: the fixtures
  are well typed and never throw, can be told apart, reach the limits of the types, and the reply of the array
  service is its request with two items exchanged.

  Bounds. Integers have the width of the 32-bit boards and wrap as in C; where the source would
  overflow a signed value, the hypotheses say how small the values are (times below \<open>2 ^ 62\<close>
  nanoseconds or \<open>2 ^ 63\<close> milliseconds). No definition uses fuel: loops over data are recursive
  on it, and the loops that may not end are \<open>partial_function\<close>s, about which termination is
  proved. Code outside the repository appears only as a parameter, and what a theorem needs of
  it (a clock that is read at its width, a call that takes no time back) is a named hypothesis
  that a witness instantiates.

  Numbers. The \<open>float\<close> and \<open>double\<close> values of the sketches that compute with them are real numbers (the
  sums of squares of the sound meter, which are exact, natural numbers); rounding is not modelled.

  Not modelled. The bodies of all functions of the precompiled library, which the repository does not have: of the client
  library, the middleware and rcutils there are prototypes and structs only, of the generated functions, type support
  and encoders the declarations, which are modelled as such. Of the constants in the
  interfaces those no library header shares are left out. Memory orders of the atomics, the
  texts printed to a console and the location arguments of a log call are left out, and so are callbacks
  that nothing registers. Of the middleware configuration the timeouts, and the pools no sketch uses, are left out.
\<close>

end
